(* ===== verification/Prelude.thy ===== *)
theory Prelude
  imports
    "HOL-Library.Word"
    "HOL-Library.Multiset"
    "HOL-Library.Product_Lexorder"
    "HOL-Library.List_Lexorder"
    "HOL-Library.Char_ord"
begin

unbundle bit_operations_syntax

text \<open>
  Shared vocabulary of the development: the machine integers of the Rust code, its
  \<open>Result\<close> type and the \<open>?\<close> operator, checked and saturating arithmetic with the one
  characterisation of each operation over \<open>nat\<close> that every later proof uses, stable
  sorting, and the byte and text formatting the code relies on.
\<close>

section \<open>Names of the model's types\<close>

type_synonym u8 = "8 word"
type_synonym u32 = "32 word"
type_synonym u64 = "64 word"
type_synonym u128 = "128 word"
type_synonym u256 = "256 word"
type_synonym u512 = "512 word"
type_synonym i32 = "32 word" \<comment> \<open>read with \<open>sint\<close>\<close>
type_synonym i64 = "64 word" \<comment> \<open>read with \<open>sint\<close>\<close>
type_synonym i128 = "128 word" \<comment> \<open>read with \<open>sint\<close>\<close>
type_synonym address = "160 word"
type_synonym b256 = "256 word"
type_synonym uuid = "128 word"
type_synonym usize = nat
type_synonym datetime = int \<comment> \<open>nanoseconds since the epoch\<close>

named_theorems arith_iff \<open>what a checked or saturating operation returns, over nat\<close>

section \<open>Results and the question-mark operator\<close>

definition rbind :: "'e + 'a \<Rightarrow> ('a \<Rightarrow> 'e + 'b) \<Rightarrow> 'e + 'b" where
  "rbind r f = (case r of Inl e \<Rightarrow> Inl e | Inr x \<Rightarrow> f x)"

definition ok_or :: "'a option \<Rightarrow> 'e \<Rightarrow> 'e + 'a" where
  "ok_or v e = (case v of None \<Rightarrow> Inl e | Some x \<Rightarrow> Inr x)"

definition map_err :: "('e \<Rightarrow> 'f) \<Rightarrow> 'e + 'a \<Rightarrow> 'f + 'a" where
  "map_err f r = (case r of Inl e \<Rightarrow> Inl (f e) | Inr x \<Rightarrow> Inr x)"

definition ensure :: "bool \<Rightarrow> 'e \<Rightarrow> 'e + unit" where
  "ensure c e = (if c then Inr () else Inl e)"

definition is_ok :: "'e + 'a \<Rightarrow> bool" where
  "is_ok r = (case r of Inl _ \<Rightarrow> False | Inr _ \<Rightarrow> True)"

lemma rbind_simps [simp]:
  "rbind (Inl e) f = Inl e"
  "rbind (Inr x) f = f x"
  by (simp_all add: rbind_def)

lemma rbind_Inr_iff [simp]: "rbind r f = Inr y \<longleftrightarrow> (\<exists>x. r = Inr x \<and> f x = Inr y)"
  by (cases r) simp_all

lemma rbind_Inl_iff: "rbind r f = Inl e \<longleftrightarrow> r = Inl e \<or> (\<exists>x. r = Inr x \<and> f x = Inl e)"
  by (cases r) simp_all

text \<open>For evaluation: the continuation is not touched before its argument is known.\<close>

lemma rbind_weak_cong: "r = r' \<Longrightarrow> rbind r f = rbind r' f"
  by simp

lemma ok_or_simps [simp]:
  "ok_or None e = Inl e"
  "ok_or (Some x) e = Inr x"
  by (simp_all add: ok_or_def)

lemma ok_or_iff [simp]:
  "ok_or v e = Inr x \<longleftrightarrow> v = Some x"
  "ok_or v e = Inl e' \<longleftrightarrow> v = None \<and> e' = e"
  by (auto simp: ok_or_def split: option.splits)

lemma map_err_simps [simp]:
  "map_err f (Inl e) = Inl (f e)"
  "map_err f (Inr x) = Inr x"
  by (simp_all add: map_err_def)

lemma map_err_Inr_iff [simp]: "map_err f r = Inr x \<longleftrightarrow> r = Inr x"
  by (cases r) simp_all

lemma ensure_iff [simp]:
  "ensure c e = Inr u \<longleftrightarrow> c"
  "ensure c e = Inl e' \<longleftrightarrow> \<not> c \<and> e' = e"
  by (auto simp: ensure_def)

lemma ensure_simps [simp]:
  "ensure True e = Inr ()"
  "ensure False e = Inl e"
  by (simp_all add: ensure_def)

lemma is_ok_simps [simp]:
  "is_ok (Inl e) \<longleftrightarrow> False"
  "is_ok (Inr x) \<longleftrightarrow> True"
  by (simp_all add: is_ok_def)

lemma is_ok_iff: "is_ok r \<longleftrightarrow> (\<exists>x. r = Inr x)"
  by (cases r) simp_all

text \<open>Collecting an iterator of results stops at the first error.\<close>

fun collect_results :: "('a \<Rightarrow> 'e + 'b) \<Rightarrow> 'a list \<Rightarrow> 'e + 'b list" where
  "collect_results f [] = Inr []"
| "collect_results f (x # xs) =
     rbind (f x) (\<lambda>y. rbind (collect_results f xs) (\<lambda>ys. Inr (y # ys)))"

lemma collect_results_Inr:
  "collect_results f xs = Inr ys \<longleftrightarrow> list_all2 (\<lambda>x y. f x = Inr y) xs ys"
proof (induction xs arbitrary: ys)
  case Nil
  then show ?case by auto
next
  case (Cons x xs)
  then show ?case by (cases ys) auto
qed

lemma collect_results_map:
  "collect_results f xs = Inr ys \<Longrightarrow> collect_results (\<lambda>x. rbind (f x) (\<lambda>y. Inr (g y))) xs = Inr (map g ys)"
  by (auto simp: collect_results_Inr list_all2_conv_all_nth)

lemma collect_results_total: "(\<And>x. x \<in> set xs \<Longrightarrow> \<exists>y. f x = Inr y) \<Longrightarrow> \<exists>ys. collect_results f xs = Inr ys"
  by (induction xs) fastforce+

lemma collect_results_reads: "collect_results f xs = Inr ys \<Longrightarrow> x \<in> set xs \<Longrightarrow> \<exists>y. f x = Inr y"
  by (auto simp: collect_results_Inr list_all2_conv_all_nth in_set_conv_nth)

lemma collect_results_mem:
  "collect_results f xs = Inr ys \<Longrightarrow> y \<in> set ys \<longleftrightarrow> (\<exists>x \<in> set xs. f x = Inr y)"
  by (induction xs arbitrary: ys) auto

section \<open>Checked and saturating arithmetic\<close>

definition checked_add :: "'a::len word \<Rightarrow> 'a word \<Rightarrow> 'a word option" where
  "checked_add a b = (if unat a + unat b < 2 ^ LENGTH('a) then Some (a + b) else None)"

definition checked_sub :: "'a::len word \<Rightarrow> 'a word \<Rightarrow> 'a word option" where
  "checked_sub a b = (if b \<le> a then Some (a - b) else None)"

definition checked_mul :: "'a::len word \<Rightarrow> 'a word \<Rightarrow> 'a word option" where
  "checked_mul a b = (if unat a * unat b < 2 ^ LENGTH('a) then Some (a * b) else None)"

definition checked_div :: "'a::len word \<Rightarrow> 'a word \<Rightarrow> 'a word option" where
  "checked_div a b = (if b = 0 then None else Some (a div b))"

definition checked_shl :: "'a::len word \<Rightarrow> nat \<Rightarrow> 'a word option" where
  "checked_shl a k = (if unat a * 2 ^ k < 2 ^ LENGTH('a) then Some (push_bit k a) else None)"

definition saturating_add :: "'a::len word \<Rightarrow> 'a word \<Rightarrow> 'a word" where
  "saturating_add a b = (if unat a + unat b < 2 ^ LENGTH('a) then a + b else -1)"

definition saturating_sub :: "'a::len word \<Rightarrow> 'a word \<Rightarrow> 'a word" where
  "saturating_sub a b = (if b \<le> a then a - b else 0)"

definition saturating_mul :: "'a::len word \<Rightarrow> 'a word \<Rightarrow> 'a word" where
  "saturating_mul a b = (if unat a * unat b < 2 ^ LENGTH('a) then a * b else -1)"

lemma unat_lt [simp]: "unat (a :: 'a::len word) < 2 ^ LENGTH('a)"
  by simp

lemma word_eq_iff_unat: "(a :: 'a::len word) = b \<longleftrightarrow> unat a = unat b"
  by (rule word_unat_eq_iff)

lemma unat_max_word: "unat (- 1 :: 'a::len word) = 2 ^ LENGTH('a) - 1"
  by (simp add: unsigned_minus_1_eq_mask mask_eq_exp_minus_1)

lemma unat_of_nat_small: "n < 2 ^ LENGTH('a) \<Longrightarrow> unat (word_of_nat n :: 'a::len word) = n"
  by (simp add: unat_of_nat)

lemma unat_ucast_up:
  "LENGTH('a) \<le> LENGTH('b) \<Longrightarrow> unat (ucast (w :: 'a::len word) :: 'b::len word) = unat w"
  by (simp add: unsigned_ucast_eq take_bit_nat_eq_self_iff order_less_le_trans [OF unsigned_less])

lemma word_of_nat_sum: "word_of_nat (unat a + unat b) = a + (b :: 'a::len word)"
  by simp

lemma unat_word_add: "unat a + unat b < 2 ^ LENGTH('a) \<Longrightarrow> unat (a + b :: 'a::len word) = unat a + unat b"
  by (simp add: unat_word_ariths)

lemma unat_word_mult: "unat a * unat b < 2 ^ LENGTH('a) \<Longrightarrow> unat (a * b :: 'a::len word) = unat a * unat b"
  by (simp add: unat_word_ariths)

lemma checked_add_iff [arith_iff]:
  "checked_add a b = Some (c :: 'a::len word) \<longleftrightarrow> unat c = unat a + unat b"
proof
  assume "unat c = unat a + unat b"
  moreover from this have "unat a + unat b < 2 ^ LENGTH('a)"
    using unat_lt [of c] by simp
  ultimately show "checked_add a b = Some c"
    by (simp add: checked_add_def word_eq_iff_unat [of "a + b" c] unat_word_add)
qed (auto simp: checked_add_def unat_word_add split: if_splits)

lemma checked_add_None [arith_iff]:
  "checked_add a (b :: 'a::len word) = None \<longleftrightarrow> 2 ^ LENGTH('a) \<le> unat a + unat b"
  by (auto simp: checked_add_def)

lemma checked_sub_iff [arith_iff]:
  "checked_sub a b = Some (c :: 'a::len word) \<longleftrightarrow> unat a = unat b + unat c"
proof
  assume *: "unat a = unat b + unat c"
  then have "b \<le> a" by (simp add: word_le_nat_alt)
  moreover have "a - b = c"
    using * \<open>b \<le> a\<close> by (simp add: word_eq_iff_unat [of "a - b" c] unat_sub)
  ultimately show "checked_sub a b = Some c" by (simp add: checked_sub_def)
qed (auto simp: checked_sub_def word_le_nat_alt unat_sub split: if_splits)

lemma checked_sub_None [arith_iff]:
  "checked_sub a (b :: 'a::len word) = None \<longleftrightarrow> unat a < unat b"
  by (auto simp: checked_sub_def word_le_nat_alt)

lemma checked_mul_iff [arith_iff]:
  "checked_mul a b = Some (c :: 'a::len word) \<longleftrightarrow> unat c = unat a * unat b"
proof
  assume "unat c = unat a * unat b"
  moreover from this have "unat a * unat b < 2 ^ LENGTH('a)"
    using unat_lt [of c] by simp
  ultimately show "checked_mul a b = Some c"
    by (simp add: checked_mul_def word_eq_iff_unat [of "a * b" c] unat_word_mult)
qed (auto simp: checked_mul_def unat_word_mult split: if_splits)

lemma checked_mul_None [arith_iff]:
  "checked_mul a (b :: 'a::len word) = None \<longleftrightarrow> 2 ^ LENGTH('a) \<le> unat a * unat b"
  by (auto simp: checked_mul_def)

lemma checked_div_iff [arith_iff]:
  "checked_div a b = Some (c :: 'a::len word) \<longleftrightarrow> 0 < unat b \<and> unat c = unat a div unat b"
proof (cases "b = 0")
  case False
  then have "0 < unat b" by (simp add: unat_gt_0)
  then show ?thesis
    using False by (auto simp: checked_div_def word_eq_iff_unat [of "a div b" c] unat_div)
qed (simp add: checked_div_def)

lemma checked_div_None [arith_iff]:
  "checked_div a (b :: 'a::len word) = None \<longleftrightarrow> unat b = 0"
  by (simp add: checked_div_def unat_eq_zero)

lemma checked_shl_iff [arith_iff]:
  "checked_shl a k = Some (c :: 'a::len word) \<longleftrightarrow> unat c = unat a * 2 ^ k"
proof -
  have eq: "unat (push_bit k a) = unat a * 2 ^ k" if "unat a * 2 ^ k < 2 ^ LENGTH('a)"
    using that unfolding unsigned_push_bit_eq by (simp add: push_bit_eq_mult take_bit_eq_mod)
  show ?thesis
  proof
    assume *: "unat c = unat a * 2 ^ k"
    moreover from this have lt: "unat a * 2 ^ k < 2 ^ LENGTH('a)"
      using unat_lt [of c] by simp
    ultimately show "checked_shl a k = Some c"
      using eq by (simp add: checked_shl_def word_eq_iff_unat [of "push_bit k a" c])
  qed (auto simp: checked_shl_def eq split: if_splits)
qed

lemma checked_shl_None [arith_iff]:
  "checked_shl (a :: 'a::len word) k = None \<longleftrightarrow> 2 ^ LENGTH('a) \<le> unat a * 2 ^ k"
  by (auto simp: checked_shl_def)

lemma unat_saturating_add [arith_iff]:
  "unat (saturating_add a b :: 'a::len word) = min (unat a + unat b) (2 ^ LENGTH('a) - 1)"
  by (auto simp: saturating_add_def unat_word_add unat_max_word min_def)

lemma unat_saturating_sub [arith_iff]:
  "unat (saturating_sub a b :: 'a::len word) = unat a - unat b"
  by (auto simp: saturating_sub_def word_le_nat_alt unat_sub)

lemma unat_saturating_mul [arith_iff]:
  "unat (saturating_mul a b :: 'a::len word) = min (unat a * unat b) (2 ^ LENGTH('a) - 1)"
  by (cases "unat a * unat b < 2 ^ LENGTH('a)")
     (simp_all add: saturating_mul_def unat_word_mult unat_max_word min_absorb2)

section \<open>Division rounding up\<close>

definition div_ceil :: "nat \<Rightarrow> nat \<Rightarrow> nat" where
  "div_ceil a b = (if a mod b = 0 then a div b else a div b + 1)"

lemma div_ceil_le_iff:
  assumes "0 < b"
  shows "div_ceil a b \<le> c \<longleftrightarrow> a \<le> c * b"
proof -
  have split: "a = a div b * b + a mod b" by simp
  have r: "a mod b < b" using assms by simp
  show ?thesis
  proof (cases "a mod b = 0")
    case True
    with split have "a = a div b * b" by simp
    with True assms show ?thesis
      by (metis div_ceil_def mult_le_cancel2)
  next
    case False
    have "a div b + 1 \<le> c \<longleftrightarrow> a \<le> c * b"
    proof
      assume "a div b + 1 \<le> c"
      then have "(a div b + 1) * b \<le> c * b" by (rule mult_le_mono1)
      then have "a div b * b + b \<le> c * b" by simp
      with split r show "a \<le> c * b" by linarith
    next
      assume le: "a \<le> c * b"
      show "a div b + 1 \<le> c"
      proof (rule ccontr)
        assume "\<not> a div b + 1 \<le> c"
        then have "c * b \<le> a div b * b" by simp
        with le False split show False by linarith
      qed
    qed
    with False show ?thesis by (simp add: div_ceil_def)
  qed
qed

lemma div_ceil_mult_ge: "0 < b \<Longrightarrow> a \<le> div_ceil a b * b"
  using div_ceil_le_iff [of b a "div_ceil a b"] by simp

lemma div_le_div_ceil: "a div b \<le> div_ceil a b"
  by (simp add: div_ceil_def)

lemma div_ceil_le_Suc: "div_ceil a b \<le> a div b + 1"
  by (simp add: div_ceil_def)

lemma div_ceil_0 [simp]: "div_ceil 0 b = 0"
  by (simp add: div_ceil_def)

lemma div_ceil_pos_iff: "0 < b \<Longrightarrow> 0 < div_ceil a b \<longleftrightarrow> 0 < a"
  using div_ceil_le_iff [of b a 0] by auto

lemma div_ceil_mono: "0 < b \<Longrightarrow> a \<le> a' \<Longrightarrow> div_ceil a b \<le> div_ceil a' b"
  by (meson div_ceil_le_iff div_ceil_mult_ge le_trans)

section \<open>First results\<close>

fun first_some :: "'a option list \<Rightarrow> 'a option" where
  "first_some [] = None"
| "first_some (x # xs) = (case x of None \<Rightarrow> first_some xs | Some y \<Rightarrow> Some y)"

section \<open>Stable sorting\<close>

text \<open>
  Rust's \<open>sort_by\<close> and \<open>sort_by_key\<close> are stable, as \<open>sort_key\<close> is. A descending sort
  by an unsigned key sorts by the negated value.
\<close>

definition desc_key :: "'a::len word \<Rightarrow> int" where
  "desc_key w = - uint w"

lemma desc_key_le_iff [simp]: "desc_key a \<le> desc_key b \<longleftrightarrow> b \<le> a"
  by (simp add: desc_key_def word_le_def)

lemma desc_key_less_iff [simp]: "desc_key a < desc_key b \<longleftrightarrow> b < a"
  by (simp add: desc_key_def word_less_def)

lemma desc_key_eq_iff [simp]: "desc_key a = desc_key b \<longleftrightarrow> a = b"
  by (simp add: desc_key_def word_uint_eq_iff)

definition sort_desc :: "('a \<Rightarrow> 'b::len word) \<Rightarrow> 'a list \<Rightarrow> 'a list" where
  "sort_desc f xs = sort_key (\<lambda>x. desc_key (f x)) xs"

lemma mset_sort_desc [simp]: "mset (sort_desc f xs) = mset xs"
  by (simp add: sort_desc_def)

lemma set_sort_desc [simp]: "set (sort_desc f xs) = set xs"
  by (simp add: sort_desc_def)

lemma length_sort_desc [simp]: "length (sort_desc f xs) = length xs"
  by (simp add: sort_desc_def)

lemma sorted_sort_desc: "sorted_wrt (\<lambda>a b. f b \<le> f a) (sort_desc f xs)"
proof -
  have "sorted (map (\<lambda>x. desc_key (f x)) (sort_desc f xs))"
    unfolding sort_desc_def by (rule sorted_sort_key)
  then show ?thesis by (simp add: sorted_map)
qed

lemma distinct_remdups_adj_sorted: "sorted xs \<Longrightarrow> distinct (remdups_adj xs)"
  by (induction xs rule: remdups_adj.induct) auto

section \<open>Text and bytes\<close>

definition hex_digit :: "nat \<Rightarrow> char" where
  "hex_digit n = ''0123456789abcdef'' ! (n mod 16)"

fun hex_fixed :: "nat \<Rightarrow> nat \<Rightarrow> string" where
  "hex_fixed 0 n = []"
| "hex_fixed (Suc k) n = hex_fixed k (n div 16) @ [hex_digit n]"

definition address_hex :: "address \<Rightarrow> string" where
  "address_hex a = ''0x'' @ hex_fixed 40 (unat a)"

fun nat_dec :: "nat \<Rightarrow> string" where
  "nat_dec n = (if n < 10 then [''0123456789'' ! n] else nat_dec (n div 10) @ [''0123456789'' ! (n mod 10)])"

declare nat_dec.simps [simp del]

definition int_dec :: "int \<Rightarrow> string" where
  "int_dec i = (if i < 0 then CHR ''-'' # nat_dec (nat (- i)) else nat_dec (nat i))"

fun starts_with :: "string \<Rightarrow> string \<Rightarrow> bool" where
  "starts_with s [] = True"
| "starts_with [] (c # cs) = False"
| "starts_with (d # ds) (c # cs) = (d = c \<and> starts_with ds cs)"

fun str_contains :: "string \<Rightarrow> string \<Rightarrow> bool" where
  "str_contains [] p = starts_with [] p"
| "str_contains (c # cs) p = (starts_with (c # cs) p \<or> str_contains cs p)"

fun join_with :: "string \<Rightarrow> string list \<Rightarrow> string" where
  "join_with sep [] = []"
| "join_with sep [s] = s"
| "join_with sep (s # ss) = s @ sep @ join_with sep ss"

text \<open>\<open>be_bytes k n\<close> are the low \<open>k\<close> bytes of \<open>n\<close>, the most significant first.\<close>

fun be_bytes :: "nat \<Rightarrow> nat \<Rightarrow> u8 list" where
  "be_bytes 0 n = []"
| "be_bytes (Suc k) n = be_bytes k (n div 256) @ [word_of_nat (n mod 256)]"

fun be_value :: "u8 list \<Rightarrow> nat" where
  "be_value [] = 0"
| "be_value (b # bs) = unat b * 256 ^ length bs + be_value bs"

lemma length_be_bytes [simp]: "length (be_bytes k n) = k"
  by (induction k arbitrary: n) simp_all

lemma be_value_append: "be_value (xs @ ys) = be_value xs * 256 ^ length ys + be_value ys"
  by (induction xs) (simp_all add: algebra_simps power_add)

lemma be_value_be_bytes: "be_value (be_bytes k n) = n mod 256 ^ k"
proof (induction k arbitrary: n)
  case 0
  then show ?case by simp
next
  case (Suc k)
  have "n mod (256 * 256 ^ k) = 256 * (n div 256 mod 256 ^ k) + n mod 256"
    by (simp add: mod_mult2_eq)
  then show ?case
    using Suc.IH [of "n div 256"]
    by (simp add: be_value_append unat_of_nat algebra_simps)
qed

lemma be_value_be_bytes_small: "n < 256 ^ k \<Longrightarrow> be_value (be_bytes k n) = n"
  by (simp add: be_value_be_bytes)

lemma be_bytes_0: "be_bytes k 0 = replicate k 0"
  by (induction k) (simp_all add: replicate_append_same)

lemma length_hex_fixed [simp]: "length (hex_fixed k n) = k"
  by (induction k arbitrary: n) simp_all

lemma length_address_hex [simp]: "length (address_hex a) = 42"
  by (simp add: address_hex_def)

lemma hex_digit_inj:
  assumes "hex_digit a = hex_digit b"
  shows "a mod 16 = b mod 16"
proof -
  have d: "distinct ''0123456789abcdef''" by simp
  have len: "length ''0123456789abcdef'' = 16" by simp
  have "(''0123456789abcdef'' ! (a mod 16) = ''0123456789abcdef'' ! (b mod 16)) = (a mod 16 = b mod 16)"
    by (rule nth_eq_iff_index_eq [OF d], unfold len) (rule mod_less_divisor, simp)+
  then show ?thesis using assms by (simp only: hex_digit_def)
qed

lemma hex_fixed_inj: "hex_fixed k a = hex_fixed k b \<Longrightarrow> a mod 16 ^ k = b mod 16 ^ k"
proof (induction k arbitrary: a b)
  case (Suc k)
  have "a div 16 mod 16 ^ k = b div 16 mod 16 ^ k" "a mod 16 = b mod 16"
    using Suc.IH [of "a div 16" "b div 16"] hex_digit_inj [of a b] Suc.prems by simp_all
  then show ?case by (simp add: mod_mult2_eq)
qed simp

lemma address_hex_inj [simp]: "address_hex a = address_hex b \<longleftrightarrow> a = b"
proof
  assume "address_hex a = address_hex b"
  then have "unat a mod 16 ^ 40 = unat b mod 16 ^ 40"
    using hex_fixed_inj [of 40 "unat a" "unat b"] by (simp add: address_hex_def)
  moreover have "unat a < 16 ^ 40" "unat b < 16 ^ 40" using unat_lt [of a] unat_lt [of b] by simp_all
  ultimately show "a = b" by (simp add: word_eq_iff_unat [of a b])
qed simp

section \<open>Hash maps\<close>

text \<open>A hash map is an association list; nothing depends on its order.\<close>

fun hash_insert :: "'k \<Rightarrow> 'v \<Rightarrow> ('k \<times> 'v) list \<Rightarrow> ('k \<times> 'v) list" where
  "hash_insert k v [] = [(k, v)]"
| "hash_insert k v ((k', v') # m) = (if k' = k then (k, v) # m else (k', v') # hash_insert k v m)"

lemma map_of_hash_insert [simp]: "map_of (hash_insert k v m) = (map_of m)(k \<mapsto> v)"
  by (induction k v m rule: hash_insert.induct) (auto simp: fun_eq_iff)


end
