(* ===== verification/Types.thy ===== *)
theory Types
  imports Prelude
begin

text \<open>
  The shared data of the workspace (\<open>crates/common/src\<close>): every struct is a record and
  every enum a datatype with the source's constructors. Field names carry a prefix for
  their struct (\<open>ps_\<close> pool state, \<open>ts_\<close> tick state, \<open>st_\<close> swap step, \<open>ap_\<close> path, \<open>qd_\<close>
  and \<open>qs_\<close> quote diagnostics, \<open>cd_\<close> candidate, \<open>qr_\<close> quote result, \<open>sr_\<close> simulation,
  \<open>tx_\<close> transaction, \<open>ln_\<close> lane, \<open>cfg_\<close> settings), because HOL record fields are global.
\<close>

section \<open>Errors\<close>

datatype arb_bot_error =
    Config string
  | Quote string
  | RiskGate string
  | Simulation string
  | Storage string

fun arb_bot_error_to_string :: "arb_bot_error \<Rightarrow> string" where
  "arb_bot_error_to_string (Config m) = ''config error: '' @ m"
| "arb_bot_error_to_string (Quote m) = ''quote error: '' @ m"
| "arb_bot_error_to_string (RiskGate m) = ''risk gate rejected: '' @ m"
| "arb_bot_error_to_string (Simulation m) = ''simulation error: '' @ m"
| "arb_bot_error_to_string (Storage m) = ''storage error: '' @ m"

section \<open>Pools and ticks\<close>

datatype dex_kind = DexAerodrome | DexUniswapV3 | DexPancakeSwap | DexUniswapV4 | DexBalancer

datatype pool_variant =
    AerodromeVolatile
  | AerodromeSlipstream
  | UniswapV3
  | PancakeV3
  | UniswapV4
  | BalancerV3

fun dex_debug :: "dex_kind \<Rightarrow> string" where
  "dex_debug DexAerodrome = ''Aerodrome''"
| "dex_debug DexUniswapV3 = ''UniswapV3''"
| "dex_debug DexPancakeSwap = ''PancakeSwap''"
| "dex_debug DexUniswapV4 = ''UniswapV4''"
| "dex_debug DexBalancer = ''Balancer''"

fun variant_debug :: "pool_variant \<Rightarrow> string" where
  "variant_debug AerodromeVolatile = ''AerodromeVolatile''"
| "variant_debug AerodromeSlipstream = ''AerodromeSlipstream''"
| "variant_debug UniswapV3 = ''UniswapV3''"
| "variant_debug PancakeV3 = ''PancakeV3''"
| "variant_debug UniswapV4 = ''UniswapV4''"
| "variant_debug BalancerV3 = ''BalancerV3''"

fun option_debug :: "('a \<Rightarrow> string) \<Rightarrow> 'a option \<Rightarrow> string" where
  "option_debug f None = ''None''"
| "option_debug f (Some x) = ''Some('' @ f x @ '')''"

record pool_id =
  pid_chain_id :: u64
  pid_address :: address

record pool_state =
  ps_pool_id :: pool_id
  ps_dex :: dex_kind
  ps_variant :: pool_variant
  ps_factory_address :: "address option"
  ps_token0 :: address
  ps_token1 :: address
  ps_token0_decimals :: "u8 option"
  ps_token1_decimals :: "u8 option"
  ps_fee_bps :: u32
  ps_fee_pips :: "u32 option"
  ps_pool_key_fee_pips :: "u32 option"
  ps_hooks_address :: "address option"
  ps_stable :: "bool option"
  ps_reserve0 :: "u256 option"
  ps_reserve1 :: "u256 option"
  ps_balancer_model :: "string option"
  ps_balancer_weight0 :: "u256 option"
  ps_balancer_weight1 :: "u256 option"
  ps_balancer_scaling_factor0 :: "u256 option"
  ps_balancer_scaling_factor1 :: "u256 option"
  ps_balancer_token_rate0 :: "u256 option"
  ps_balancer_token_rate1 :: "u256 option"
  ps_balancer_swap_fee_percentage :: "u256 option"
  ps_sqrt_price_x96 :: "u256 option"
  ps_liquidity :: "u256 option"
  ps_tick :: "i32 option"
  ps_tick_spacing :: "i32 option"
  ps_block_number :: u64
  ps_valid_through_block :: u64
  ps_updated_at :: datetime

abbreviation ps_address :: "pool_state \<Rightarrow> address" where
  "ps_address p \<equiv> pid_address (ps_pool_id p)"

record tick_state =
  ts_pool_id :: pool_id
  ts_tick :: i32
  ts_liquidity_net :: i128
  ts_liquidity_gross :: u256
  ts_block_number :: u64
  ts_updated_at :: datetime

record token_pair_search_config =
  tp_chain_id :: u64
  tp_token0 :: address
  tp_token1 :: address
  tp_symbol :: string
  tp_token0_search_amounts :: "u256 list"
  tp_token1_search_amounts :: "u256 list"
  tp_token0_multihop_search_amounts :: "u256 list"
  tp_token1_multihop_search_amounts :: "u256 list"
  tp_token0_min_profit :: u256
  tp_token1_min_profit :: u256
  tp_token0_multihop_min_profit :: u256
  tp_token1_multihop_min_profit :: u256

record pool_registry_entry =
  re_pool_address :: address
  re_dex :: dex_kind
  re_variant :: pool_variant
  re_factory_address :: "address option"
  re_token0 :: address
  re_token1 :: address
  re_fee_bps :: u32
  re_tick_spacing :: "i32 option"
  re_stable :: "bool option"
  re_enabled :: bool

record factory_registry_record =
  fr_factory_address :: string
  fr_dex :: string
  fr_variant :: string
  fr_trusted :: bool
  fr_enabled :: bool

record discovered_pool =
  dp_state :: pool_state
  dp_factory_address :: "address option"
  dp_tick_spacing :: "i32 option"
  dp_stable :: "bool option"
  dp_source :: string

text \<open>\<open>Duration::num_milliseconds\<close> truncates towards zero.\<close>

definition num_milliseconds :: "int \<Rightarrow> int" where
  "num_milliseconds d = sgn d * (\<bar>d\<bar> div 1000000)"

definition effective_valid_through_block :: "pool_state \<Rightarrow> u64" where
  "effective_valid_through_block p = max (ps_valid_through_block p) (ps_block_number p)"

definition is_stale :: "pool_state \<Rightarrow> datetime \<Rightarrow> int \<Rightarrow> bool" where
  "is_stale p now max_age_ms \<longleftrightarrow> num_milliseconds (now - ps_updated_at p) > max_age_ms"

section \<open>Paths, quotes and candidates\<close>

record swap_step =
  st_dex :: dex_kind
  st_variant :: "pool_variant option"
  st_factory_address :: "address option"
  st_pool :: address
  st_token_in :: address
  st_token_out :: address
  st_fee_bps :: "u32 option"
  st_pool_key_fee_pips :: "u32 option"
  st_hooks_address :: "address option"
  st_stable :: "bool option"
  st_tick_spacing :: "i32 option"
  st_adapter_data :: "string option"

record quote_step_diagnostics =
  qs_step_no :: u32
  qs_mode :: string
  qs_pool :: address
  qs_variant :: pool_variant
  qs_source_block :: u64
  qs_valid_through_block :: u64
  qs_state_updated_at :: datetime
  qs_token_in :: address
  qs_token_out :: address
  qs_amount_in :: u256
  qs_amount_out_raw :: u256
  qs_amount_out :: u256
  qs_fee_bps :: u32
  qs_fee_pips :: "u32 option"
  qs_stable :: "bool option"
  qs_tick_spacing :: "i32 option"
  qs_sqrt_price_x96 :: "u256 option"
  qs_liquidity :: "u256 option"
  qs_tick :: "i32 option"
  qs_reserve0 :: "u256 option"
  qs_reserve1 :: "u256 option"
  qs_tick_count :: u32
  qs_ticks_used :: u32
  qs_crossed_ticks :: u32
  qs_tick_range_exhausted :: bool

record quote_diagnostics =
  qd_modes :: "string list"
  qd_ticks_used :: u32
  qd_crossed_ticks :: u32
  qd_tick_range_exhausted :: bool
  qd_v3_pools_without_ticks :: u32
  qd_steps :: "quote_step_diagnostics list"

record arb_path =
  ap_name :: string
  ap_steps :: "swap_step list"
  ap_diagnostics :: "quote_diagnostics option"

datatype opportunity_status =
    OppCreated | OppRejected | OppSimulated | OppSubmitted | OppConfirmed | OppReverted | OppExpired

record candidate =
  cd_id :: uuid
  cd_created_at :: datetime
  cd_expires_at :: datetime
  cd_block_number :: u64
  cd_strategy :: string
  cd_token_in :: address
  cd_amount_in :: u256
  cd_expected_amount_out :: u256
  cd_expected_profit :: u256
  cd_min_profit :: u256
  cd_price_impact_bps :: u64
  cd_path :: arb_path
  cd_status :: opportunity_status

definition is_expired :: "candidate \<Rightarrow> datetime \<Rightarrow> bool" where
  "is_expired c now \<longleftrightarrow> now > cd_expires_at c"

record quote_result =
  qr_amount_in :: u256
  qr_amount_out :: u256
  qr_gas_estimate :: "u256 option"

section \<open>JSON values\<close>

text \<open>\<open>serde_json::Value\<close> with the accessors the code uses; an object is an association list.\<close>

datatype json =
    JNull
  | JBool bool
  | JNumber int
  | JString string
  | JArray "json list"
  | JObject "(string \<times> json) list"

fun json_get :: "json \<Rightarrow> string \<Rightarrow> json option" where
  "json_get (JObject kvs) k = map_of kvs k"
| "json_get _ k = None"

fun json_index :: "json \<Rightarrow> nat \<Rightarrow> json option" where
  "json_index (JArray xs) i = (if i < length xs then Some (xs ! i) else None)"
| "json_index _ i = None"

fun json_as_str :: "json \<Rightarrow> string option" where
  "json_as_str (JString s) = Some s"
| "json_as_str _ = None"

fun json_as_array :: "json \<Rightarrow> json list option" where
  "json_as_array (JArray xs) = Some xs"
| "json_as_array _ = None"

section \<open>Events\<close>

record dex_event =
  ev_block_number :: u64
  ev_tx_hash :: string
  ev_log_index :: u64
  ev_pool_address :: address
  ev_dex :: dex_kind
  ev_event_type :: string
  ev_raw_data_json :: json

section \<open>Simulations, transactions and lanes\<close>

record simulation_result =
  sr_id :: uuid
  sr_opportunity_id :: uuid
  sr_success :: bool
  sr_path_name :: "string option"
  sr_token_in :: "address option"
  sr_amount_in :: "u256 option"
  sr_expected_profit :: "u256 option"
  sr_min_profit :: "u256 option"
  sr_simulated_profit :: u256
  sr_gas_estimate :: "u256 option"
  sr_block_number :: "u64 option"
  sr_base_fee_per_gas :: "u256 option"
  sr_max_fee_per_gas :: "u256 option"
  sr_max_priority_fee_per_gas :: "u256 option"
  sr_gas_cost_cap :: "u256 option"
  sr_gas_cost_expected :: "u256 option"
  sr_net_simulated_profit :: "u256 option"
  sr_revert_reason :: "string option"
  sr_calldata :: "u8 list"

datatype tx_status = TxPending | TxConfirmed | TxReverted | TxDropped

record tx_result =
  tx_opportunity_id :: uuid
  tx_simulation_id :: "uuid option"
  tx_eoa :: address
  tx_tx_hash :: "b256 option"
  tx_nonce :: u64
  tx_status :: tx_status
  tx_realized_profit :: "u256 option"
  tx_gas_used :: "u256 option"
  tx_effective_gas_price :: "u256 option"
  tx_revert_reason :: "string option"
  tx_receipt_json :: "json option"

datatype eoa_lane_status = LaneIdle | LanePending | LaneBlocked | LaneCooldown

record eoa_lane_state =
  ln_address :: address
  ln_local_nonce :: u64
  ln_confirmed_nonce :: u64
  ln_pending_tx :: "b256 option"
  ln_pending_executor_contract :: "address option"
  ln_pending_opportunity_id :: "uuid option"
  ln_pending_simulation_id :: "uuid option"
  ln_pending_nonce :: "u64 option"
  ln_pending_submitted_block :: "u64 option"
  ln_pending_replacement_count :: u32
  ln_pending_gas_limit :: "u256 option"
  ln_pending_max_fee_per_gas :: "u256 option"
  ln_pending_max_priority_fee_per_gas :: "u256 option"
  ln_eth_balance :: u256
  ln_status :: eoa_lane_status

section \<open>Facts about the shared data\<close>

lemma num_milliseconds_nonneg: "0 \<le> d \<Longrightarrow> num_milliseconds d = d div 1000000"
  by (cases "d = 0") (simp_all add: num_milliseconds_def)

lemma num_milliseconds_nonpos: "d \<le> 0 \<Longrightarrow> num_milliseconds d \<le> 0"
  by (simp add: num_milliseconds_def mult_le_0_iff pos_imp_zdiv_nonneg_iff sgn_if)

lemma zdiv_le_numeral_iff: "(k :: int) \<le> d div 1000000 \<longleftrightarrow> k * 1000000 \<le> d"
proof
  assume "k \<le> d div 1000000"
  then have "k * 1000000 \<le> d div 1000000 * 1000000" by (rule mult_right_mono) simp
  also have "\<dots> \<le> d"
    using pos_mod_sign [of 1000000 d] by (simp add: minus_mod_eq_div_mult [symmetric])
  finally show "k * 1000000 \<le> d" .
next
  assume "k * 1000000 \<le> d"
  then have "(k * 1000000) div 1000000 \<le> d div 1000000" by (rule zdiv_mono1) simp
  then show "k \<le> d div 1000000" by simp
qed

lemma is_stale_iff:
  assumes "0 \<le> max_age_ms"
  shows "is_stale p now max_age_ms \<longleftrightarrow> now - ps_updated_at p \<ge> (max_age_ms + 1) * 1000000"
proof (cases "now - ps_updated_at p \<ge> 0")
  case True
  define d where "d = now - ps_updated_at p"
  have "max_age_ms + 1 \<le> d div 1000000 \<longleftrightarrow> (max_age_ms + 1) * 1000000 \<le> d"
    by (rule zdiv_le_numeral_iff)
  then have "d div 1000000 > max_age_ms \<longleftrightarrow> d \<ge> (max_age_ms + 1) * 1000000"
    by linarith
  then show ?thesis
    using True by (simp add: is_stale_def num_milliseconds_nonneg d_def)
next
  case False
  then have "num_milliseconds (now - ps_updated_at p) \<le> 0"
    by (intro num_milliseconds_nonpos) simp
  moreover have "(max_age_ms + 1) * 1000000 > 0" using assms by simp
  ultimately show ?thesis using False assms unfolding is_stale_def by linarith
qed

lemma effective_valid_through_block_ge:
  "ps_block_number p \<le> effective_valid_through_block p"
  "ps_valid_through_block p \<le> effective_valid_through_block p"
  by (simp_all add: effective_valid_through_block_def)

text \<open>Pool variants that are quoted with initialised ticks.\<close>

definition is_v3_style_variant :: "pool_variant \<Rightarrow> bool" where
  "is_v3_style_variant v \<longleftrightarrow> v = AerodromeSlipstream \<or> v = UniswapV3 \<or> v = PancakeV3 \<or> v = UniswapV4"

lemma is_v3_style_variant_simps [simp]:
  "\<not> is_v3_style_variant AerodromeVolatile"
  "is_v3_style_variant AerodromeSlipstream"
  "is_v3_style_variant UniswapV3"
  "is_v3_style_variant PancakeV3"
  "is_v3_style_variant UniswapV4"
  "\<not> is_v3_style_variant BalancerV3"
  by (simp_all add: is_v3_style_variant_def)

section \<open>Example data\<close>

text \<open>A pool with nothing known beyond its tokens; the concrete instances of the properties
  update the fields they need.\<close>

definition example_pool :: pool_state where
  "example_pool = \<lparr>
     ps_pool_id = \<lparr>pid_chain_id = 8453, pid_address = 100\<rparr>, ps_dex = DexUniswapV3, ps_variant = UniswapV3,
     ps_factory_address = None, ps_token0 = 1, ps_token1 = 2, ps_token0_decimals = None,
     ps_token1_decimals = None, ps_fee_bps = 30, ps_fee_pips = Some 3000, ps_pool_key_fee_pips = None,
     ps_hooks_address = None, ps_stable = None, ps_reserve0 = None, ps_reserve1 = None,
     ps_balancer_model = None, ps_balancer_weight0 = None, ps_balancer_weight1 = None,
     ps_balancer_scaling_factor0 = None, ps_balancer_scaling_factor1 = None,
     ps_balancer_token_rate0 = None, ps_balancer_token_rate1 = None,
     ps_balancer_swap_fee_percentage = None, ps_sqrt_price_x96 = None, ps_liquidity = None,
     ps_tick = None, ps_tick_spacing = None, ps_block_number = 10, ps_valid_through_block = 0,
     ps_updated_at = 0\<rparr>"

definition example_tick :: "i32 \<Rightarrow> i128 \<Rightarrow> tick_state" where
  "example_tick tick net = \<lparr>ts_pool_id = \<lparr>pid_chain_id = 8453, pid_address = 100\<rparr>, ts_tick = tick,
     ts_liquidity_net = net, ts_liquidity_gross = 0, ts_block_number = 10, ts_updated_at = 0\<rparr>"

definition example_step :: "address \<Rightarrow> address \<Rightarrow> address \<Rightarrow> swap_step" where
  "example_step pool token_in token_out = \<lparr>st_dex = DexUniswapV3, st_variant = Some UniswapV3,
     st_factory_address = None, st_pool = pool, st_token_in = token_in, st_token_out = token_out,
     st_fee_bps = Some 30, st_pool_key_fee_pips = None, st_hooks_address = None, st_stable = None,
     st_tick_spacing = None, st_adapter_data = None\<rparr>"

definition example_candidate :: candidate where
  "example_candidate = \<lparr>cd_id = 1, cd_created_at = 0, cd_expires_at = 500000000, cd_block_number = 10,
     cd_strategy = ''two_hop'', cd_token_in = 1, cd_amount_in = 1000, cd_expected_amount_out = 1050,
     cd_expected_profit = 50, cd_min_profit = 20, cd_price_impact_bps = 5,
     cd_path = \<lparr>ap_name = ''a'', ap_steps = [example_step 100 1 2, example_step 101 2 1],
       ap_diagnostics = None\<rparr>, cd_status = OppCreated\<rparr>"

end
