(* ===== verification/Dex_Quoter.thy ===== *)
theory Dex_Quoter
  imports Types
begin

text \<open>
  The \<open>DexQuoter\<close> trait of \<open>crates/dex/src/quoter.rs\<close> as an interface: what every quoter
  promises its callers. A reserve quoter also never pays out more than the output reserve.
  The quoters' own theories interpret these locales on their definitions.
\<close>

locale dex_quoter =
  fixes quote_exact_in :: "pool_state \<Rightarrow> address \<Rightarrow> u256 \<Rightarrow> arb_bot_error + quote_result"
  assumes echoes_input: "quote_exact_in p t a = Inr q \<Longrightarrow> qr_amount_in q = a"
    and no_gas_estimate: "quote_exact_in p t a = Inr q \<Longrightarrow> qr_gas_estimate q = None"
    and token_in_pool: "quote_exact_in p t a = Inr q \<Longrightarrow> t = ps_token0 p \<or> t = ps_token1 p"
begin

lemma foreign_token_rejected:
  assumes "t \<noteq> ps_token0 p" "t \<noteq> ps_token1 p"
  shows "\<not> is_ok (quote_exact_in p t a)"
  using assms token_in_pool [of p t a] by (auto simp: is_ok_iff)

lemma quote_determined_by_output:
  assumes "quote_exact_in p t a = Inr q"
  shows "q = \<lparr>qr_amount_in = a, qr_amount_out = qr_amount_out q, qr_gas_estimate = None\<rparr>"
  using echoes_input [OF assms] no_gas_estimate [OF assms] by simp

end

definition output_reserve :: "pool_state \<Rightarrow> address \<Rightarrow> u256 option" where
  "output_reserve p t = (if t = ps_token0 p then ps_reserve1 p else ps_reserve0 p)"

locale reserve_quoter = dex_quoter +
  assumes within_reserve:
    "quote_exact_in p t a = Inr q \<Longrightarrow> \<exists>r. output_reserve p t = Some r \<and> qr_amount_out q \<le> r"
begin

lemma output_reserve_known: "quote_exact_in p t a = Inr q \<Longrightarrow> output_reserve p t \<noteq> None"
  using within_reserve by fastforce

end

end
