(* ===== verification/Aerodrome.thy ===== *)
theory Aerodrome
  imports Types Dex_Quoter
begin

text \<open>
  The two Aerodrome Classic quoters of \<open>crates/dex/src/aerodrome.rs\<close>: the volatile pool's
  constant-product formula and the stable pool's \<open>x\<^sup>3y + xy\<^sup>3\<close> formula, whose
  output reserve is found by a Newton iteration bounded at 255 rounds. All arithmetic is
  checked 256-bit arithmetic; every \<open>ok_or_else\<close> of the source is a branch.
\<close>

section \<open>Volatile pools\<close>

definition volatile_quote_amount_out :: "u256 \<Rightarrow> u256 \<Rightarrow> u256 \<Rightarrow> u32 \<Rightarrow> arb_bot_error + u256" where
  "volatile_quote_amount_out reserve_in reserve_out amount_in fee_bps =
     (if reserve_in = 0 \<or> reserve_out = 0 then Inl (Quote ''empty reserve'')
      else if amount_in = 0 then Inr 0
      else
        rbind (ok_or (checked_sub 10000 (ucast fee_bps)) (Quote ''invalid fee'')) (\<lambda>fee_numerator.
        rbind (ok_or (checked_mul amount_in fee_numerator) (Quote ''amount_in overflow'')) (\<lambda>amount_in_with_fee.
        rbind (ok_or (checked_mul amount_in_with_fee reserve_out) (Quote ''numerator overflow'')) (\<lambda>numerator.
        rbind (ok_or (Option.bind (checked_mul reserve_in 10000) (\<lambda>v. checked_add v amount_in_with_fee))
                (Quote ''denominator overflow'')) (\<lambda>denominator.
        Inr (numerator div denominator))))))"

section \<open>Stable pools\<close>

definition one :: u256 where
  "one = 1000000000000000000"

fun pow10_from :: "nat \<Rightarrow> u256 \<Rightarrow> arb_bot_error + u256" where
  "pow10_from 0 value = Inr value"
| "pow10_from (Suc n) value =
     rbind (ok_or (checked_mul value 10) (Quote ''decimal scale overflow'')) (pow10_from n)"

lemma pow10_from_numeral:
  "pow10_from (numeral n) v =
     rbind (ok_or (checked_mul v 10) (Quote ''decimal scale overflow'')) (pow10_from (pred_numeral n))"
  by (simp add: numeral_eq_Suc)

definition pow10 :: "u8 \<Rightarrow> arb_bot_error + u256" where
  "pow10 decimals = pow10_from (unat decimals) 1"

definition scale_to_1e18 :: "u256 \<Rightarrow> u8 \<Rightarrow> arb_bot_error + u256" where
  "scale_to_1e18 value decimals =
     rbind (pow10 decimals) (\<lambda>scale.
       ok_or (Option.bind (checked_mul value one) (\<lambda>v. checked_div v scale))
         (Quote ''stable scale overflow''))"

definition unscale_from_1e18 :: "u256 \<Rightarrow> u8 \<Rightarrow> arb_bot_error + u256" where
  "unscale_from_1e18 value decimals =
     rbind (pow10 decimals) (\<lambda>scale.
       ok_or (Option.bind (checked_mul value scale) (\<lambda>v. checked_div v one))
         (Quote ''stable unscale overflow''))"

definition mul_div_one :: "u256 \<Rightarrow> u256 \<Rightarrow> u256 option" where
  "mul_div_one a b = Option.bind (checked_mul a b) (\<lambda>v. checked_div v one)"

definition stable_k :: "u256 \<Rightarrow> u256 \<Rightarrow> arb_bot_error + u256" where
  "stable_k x y =
     rbind (ok_or (mul_div_one x y) (Quote ''stable k a overflow'')) (\<lambda>a.
     rbind (ok_or (mul_div_one x x) (Quote ''stable k x2 overflow'')) (\<lambda>x2.
     rbind (ok_or (mul_div_one y y) (Quote ''stable k y2 overflow'')) (\<lambda>y2.
     rbind (ok_or (checked_add x2 y2) (Quote ''stable k b overflow'')) (\<lambda>b.
     ok_or (mul_div_one a b) (Quote ''stable k overflow'')))))"

definition stable_f :: "u256 \<Rightarrow> u256 \<Rightarrow> arb_bot_error + u256" where
  "stable_f x0 y =
     rbind (ok_or (mul_div_one x0 y) (Quote ''stable f a overflow'')) (\<lambda>a.
     rbind (ok_or (mul_div_one x0 x0) (Quote ''stable f x2 overflow'')) (\<lambda>x2.
     rbind (ok_or (mul_div_one y y) (Quote ''stable f y2 overflow'')) (\<lambda>y2.
     rbind (ok_or (checked_add x2 y2) (Quote ''stable f b overflow'')) (\<lambda>b.
     ok_or (mul_div_one a b) (Quote ''stable f overflow'')))))"

definition stable_d :: "u256 \<Rightarrow> u256 \<Rightarrow> arb_bot_error + u256" where
  "stable_d x0 y =
     rbind (ok_or (mul_div_one y y) (Quote ''stable d y2 overflow'')) (\<lambda>y2.
     rbind (ok_or (Option.bind (checked_mul 3 x0) (\<lambda>v. mul_div_one v y2))
             (Quote ''stable d left overflow'')) (\<lambda>left.
     rbind (ok_or (mul_div_one x0 x0) (Quote ''stable d x2 overflow'')) (\<lambda>x2.
     rbind (ok_or (mul_div_one x2 x0) (Quote ''stable d right overflow'')) (\<lambda>right.
     ok_or (checked_add left right) (Quote ''stable d overflow'')))))"

text \<open>The body of the Newton loop, run at most \<open>n\<close> more times.\<close>

fun get_y_loop :: "nat \<Rightarrow> u256 \<Rightarrow> u256 \<Rightarrow> u256 \<Rightarrow> arb_bot_error + u256" where
  "get_y_loop 0 x0 xy y = Inl (Quote ''stable y did not converge'')"
| "get_y_loop (Suc n) x0 xy y =
     rbind (stable_f x0 y) (\<lambda>k.
     rbind (stable_d x0 y) (\<lambda>d.
       if d = 0 then Inl (Quote ''stable derivative is zero'')
       else if k < xy then
         rbind (ok_or (Option.bind (checked_sub xy k) (\<lambda>v. Option.bind (checked_mul v one) (\<lambda>v. checked_div v d)))
                 (Quote ''stable y increment overflow'')) (\<lambda>dy.
           if dy = 0 then
             (if k = xy then Inr y
              else
                rbind (ok_or (checked_add y 1) (Quote ''stable y add overflow'')) (\<lambda>y_plus_one.
                rbind (stable_f x0 y_plus_one) (\<lambda>k1.
                  if k1 > xy then Inr y_plus_one
                  else rbind (ok_or (checked_add y 1) (Quote ''stable y add overflow''))
                         (get_y_loop n x0 xy))))
           else rbind (ok_or (checked_add y dy) (Quote ''stable y add overflow''))
                  (get_y_loop n x0 xy))
       else
         rbind (ok_or (Option.bind (checked_sub k xy) (\<lambda>v. Option.bind (checked_mul v one) (\<lambda>v. checked_div v d)))
                 (Quote ''stable y decrement overflow'')) (\<lambda>dy.
           if dy = 0 then
             (if k = xy then Inr y
              else if y = 0 then Inr y
              else rbind (stable_f x0 (y - 1)) (\<lambda>k1.
                if k1 < xy then Inr y
                else if 1 > y then Inl (Quote ''stable y underflow'')
                else get_y_loop n x0 xy (y - 1)))
           else if dy > y then Inl (Quote ''stable y underflow'')
           else get_y_loop n x0 xy (y - dy))))"

declare get_y_loop.simps(2) [simp del]

lemmas get_y_loop_numeral =
  get_y_loop.simps(2) [of "pred_numeral n", folded numeral_eq_Suc] for n

definition get_y :: "u256 \<Rightarrow> u256 \<Rightarrow> u256 \<Rightarrow> arb_bot_error + u256" where
  "get_y x0 xy y = get_y_loop 255 x0 xy y"

definition stable_fee_numerator :: "u32 \<Rightarrow> arb_bot_error + u256" where
  "stable_fee_numerator fee_bps = ok_or (checked_sub 10000 (ucast fee_bps)) (Quote ''invalid fee'')"

definition stable_quote_amount_out ::
    "u256 \<Rightarrow> u256 \<Rightarrow> u256 \<Rightarrow> u32 \<Rightarrow> u8 \<Rightarrow> u8 \<Rightarrow> arb_bot_error + u256" where
  "stable_quote_amount_out reserve_in reserve_out amount_in fee_bps decimals_in decimals_out =
     (if reserve_in = 0 \<or> reserve_out = 0 then Inl (Quote ''empty reserve'')
      else if amount_in = 0 then Inr 0
      else
        rbind (stable_fee_numerator fee_bps) (\<lambda>fee_numerator.
        rbind (ok_or (Option.bind (checked_mul amount_in fee_numerator) (\<lambda>v. checked_div v 10000))
                (Quote ''amount_in fee overflow'')) (\<lambda>amount_in_after_fee.
        rbind (scale_to_1e18 reserve_in decimals_in) (\<lambda>reserve_in_scaled.
        rbind (scale_to_1e18 reserve_out decimals_out) (\<lambda>reserve_out_scaled.
        rbind (scale_to_1e18 amount_in_after_fee decimals_in) (\<lambda>amount_in_scaled.
        rbind (stable_k reserve_in_scaled reserve_out_scaled) (\<lambda>xy.
        rbind (ok_or (checked_add reserve_in_scaled amount_in_scaled) (Quote ''stable x overflow'')) (\<lambda>x0.
        rbind (get_y x0 xy reserve_out_scaled) (\<lambda>y.
          if y > reserve_out_scaled then Inl (Quote ''stable y overflow'')
          else unscale_from_1e18 (reserve_out_scaled - y) decimals_out)))))))))"

section \<open>The quoter trait\<close>

definition quote_of :: "u256 \<Rightarrow> u256 \<Rightarrow> quote_result" where
  "quote_of amount_in amount_out =
     \<lparr>qr_amount_in = amount_in, qr_amount_out = amount_out, qr_gas_estimate = None\<rparr>"

definition volatile_quote_exact_in :: "pool_state \<Rightarrow> address \<Rightarrow> u256 \<Rightarrow> arb_bot_error + quote_result" where
  "volatile_quote_exact_in p token_in amount_in =
     rbind (ok_or (ps_reserve0 p) (Quote ''missing reserve0'')) (\<lambda>reserve0.
     rbind (ok_or (ps_reserve1 p) (Quote ''missing reserve1'')) (\<lambda>reserve1.
     rbind (if token_in = ps_token0 p
            then volatile_quote_amount_out reserve0 reserve1 amount_in (ps_fee_bps p)
            else if token_in = ps_token1 p
            then volatile_quote_amount_out reserve1 reserve0 amount_in (ps_fee_bps p)
            else Inl (Quote ''token_in not in pool'')) (\<lambda>amount_out.
     Inr (quote_of amount_in amount_out))))"

definition stable_quote_exact_in :: "pool_state \<Rightarrow> address \<Rightarrow> u256 \<Rightarrow> arb_bot_error + quote_result" where
  "stable_quote_exact_in p token_in amount_in =
     rbind (ok_or (ps_reserve0 p) (Quote ''missing reserve0'')) (\<lambda>reserve0.
     rbind (ok_or (ps_reserve1 p) (Quote ''missing reserve1'')) (\<lambda>reserve1.
     rbind (ok_or (ps_token0_decimals p) (Quote ''missing token0 decimals'')) (\<lambda>decimals0.
     rbind (ok_or (ps_token1_decimals p) (Quote ''missing token1 decimals'')) (\<lambda>decimals1.
     rbind (if token_in = ps_token0 p
            then stable_quote_amount_out reserve0 reserve1 amount_in (ps_fee_bps p) decimals0 decimals1
            else if token_in = ps_token1 p
            then stable_quote_amount_out reserve1 reserve0 amount_in (ps_fee_bps p) decimals1 decimals0
            else Inl (Quote ''token_in not in pool'')) (\<lambda>amount_out.
     Inr (quote_of amount_in amount_out))))))"

section \<open>The volatile formula over the naturals\<close>

definition cp_out :: "nat \<Rightarrow> nat \<Rightarrow> nat \<Rightarrow> nat" where
  "cp_out c r x = x * r div (c + x)"

lemma cp_out_less: "0 < c \<Longrightarrow> 0 < r \<Longrightarrow> cp_out c r x < r"
  unfolding cp_out_def by (intro less_mult_imp_div_less) (simp add: mult.commute)

lemma cp_out_mono:
  assumes "0 < c" "x \<le> y"
  shows "cp_out c r x \<le> cp_out c r y"
proof -
  let ?q = "cp_out c r x"
  have "?q \<le> r"
    using assms(1) cp_out_less [of c r x] by (cases "r = 0") (auto simp: cp_out_def)
  have "?q * (c + x) \<le> x * r"
    unfolding cp_out_def by (rule div_times_less_eq_dividend)
  moreover have "?q * (y - x) \<le> r * (y - x)"
    using \<open>?q \<le> r\<close> by (rule mult_le_mono1)
  ultimately have "?q * (c + x) + ?q * (y - x) \<le> x * r + r * (y - x)"
    by (rule add_mono)
  moreover have "?q * (c + x) + ?q * (y - x) = ?q * (c + y)" "x * r + r * (y - x) = y * r"
    using assms(2) by (simp_all add: algebra_simps flip: distrib_left) (simp add: distrib_left)
  ultimately have "?q * (c + y) \<le> y * r" by simp
  then show ?thesis
    using assms(1) unfolding cp_out_def [of c r y] by (simp add: less_eq_div_iff_mult_less_eq)
qed

lemma cp_out_invariant:
  assumes "0 < ri" "f \<le> d" "0 < d"
  shows "ri * ro \<le> (ri + a) * (ro - cp_out (ri * d) ro (a * f))"
proof -
  let ?q = "cp_out (ri * d) ro (a * f)"
  have q: "?q * (ri * d + a * f) \<le> a * f * ro"
    unfolding cp_out_def by (rule div_times_less_eq_dividend)
  have main: "?q * (ri + a) \<le> a * ro"
  proof (cases "f = 0")
    case True
    then show ?thesis by (simp add: cp_out_def)
  next
    case False
    have "f * (?q * (ri + a)) = ?q * (ri * f + a * f)" by (simp add: algebra_simps)
    also have "\<dots> \<le> ?q * (ri * d + a * f)" using assms(2) by simp
    also have "\<dots> \<le> f * (a * ro)" using q by (simp add: algebra_simps)
    finally show ?thesis using False by simp
  qed
  have "?q * (ri + a) + ri * ro \<le> (ri + a) * ro"
    using main by (simp add: distrib_right)
  then show ?thesis by (simp add: diff_mult_distrib2 mult.commute)
qed

section \<open>The volatile quoter\<close>

lemma volatile_quote_Inr_iff:
  assumes "reserve_in \<noteq> 0" "reserve_out \<noteq> 0" "amount_in \<noteq> 0"
  shows "volatile_quote_amount_out reserve_in reserve_out amount_in fee_bps = Inr out \<longleftrightarrow>
    unat fee_bps \<le> 10000 \<and>
    unat amount_in * (10000 - unat fee_bps) * unat reserve_out < 2 ^ 256 \<and>
    unat reserve_in * 10000 + unat amount_in * (10000 - unat fee_bps) < 2 ^ 256 \<and>
    unat out = cp_out (unat reserve_in * 10000) (unat reserve_out) (unat amount_in * (10000 - unat fee_bps))"
    (is "?l \<longleftrightarrow> ?r")
proof -
  have fee: "unat (ucast fee_bps :: u256) = unat fee_bps"
    by (rule unat_ucast_up) simp
  have pos: "0 < unat reserve_in" "0 < unat reserve_out" "0 < unat amount_in"
    using assms by (simp_all add: unat_gt_0)
  show ?thesis
  proof
    assume ?l
    then obtain fn af num rd den :: u256 where *:
      "10000 = unat fee_bps + unat fn" "unat af = unat amount_in * unat fn"
      "unat num = unat af * unat reserve_out" "unat rd = unat reserve_in * 10000"
      "unat den = unat rd + unat af" "out = num div den"
      using assms by (auto simp: volatile_quote_amount_out_def arith_iff bind_eq_Some_conv fee)
    have fn: "10000 - unat fee_bps = unat fn" using *(1) by simp
    show ?r
      using * unat_lt [of num] unat_lt [of den]
      by (simp add: fn cp_out_def unat_div flip: *(2,3,4,5))
  next
    assume r: ?r
    let ?fn = "word_of_nat (10000 - unat fee_bps) :: u256"
    let ?af = "word_of_nat (unat amount_in * (10000 - unat fee_bps)) :: u256"
    let ?num = "word_of_nat (unat amount_in * (10000 - unat fee_bps) * unat reserve_out) :: u256"
    let ?rd = "word_of_nat (unat reserve_in * 10000) :: u256"
    let ?den = "word_of_nat (unat reserve_in * 10000 + unat amount_in * (10000 - unat fee_bps)) :: u256"
    have fn: "unat ?fn = 10000 - unat fee_bps" by (rule unat_of_nat_small) simp
    have af: "unat ?af = unat amount_in * (10000 - unat fee_bps)"
      using r by (intro unat_of_nat_small) simp
    have num: "unat ?num = unat amount_in * (10000 - unat fee_bps) * unat reserve_out"
      using r by (intro unat_of_nat_small) simp
    have rd: "unat ?rd = unat reserve_in * 10000"
      using r by (intro unat_of_nat_small) simp
    have den: "unat ?den = unat reserve_in * 10000 + unat amount_in * (10000 - unat fee_bps)"
      using r by (intro unat_of_nat_small) simp
    have s1: "checked_sub 10000 (ucast fee_bps) = Some ?fn" using r by (simp only: arith_iff fee fn) simp
    have s2: "checked_mul amount_in ?fn = Some ?af" by (simp only: arith_iff fn af)
    have s3: "checked_mul ?af reserve_out = Some ?num" by (simp only: arith_iff af num)
    have s4: "checked_mul reserve_in 10000 = Some ?rd" by (simp only: arith_iff rd) simp
    have s5: "checked_add ?rd ?af = Some ?den" by (simp only: arith_iff rd af den)
    have "unat (?num div ?den) = unat out"
      using r by (simp only: unat_div num den cp_out_def)
    then have "?num div ?den = out" by (simp only: word_eq_iff_unat)
    then show ?l
      using assms by (simp only: volatile_quote_amount_out_def if_False simp_thms ok_or_simps rbind_simps
          s1 s2 s3 s4 s5 Option.bind.bind_lunit)
  qed
qed

section \<open>The stable formula\<close>

lemma unat_one: "unat one = 1000000000000000000"
  by (simp add: one_def)

lemma mul_div_one_iff [arith_iff]:
  "mul_div_one a b = Some c \<longleftrightarrow>
    unat a * unat b < 2 ^ 256 \<and> unat c = unat a * unat b div 1000000000000000000"
proof
  assume "mul_div_one a b = Some c"
  then obtain v :: u256 where "unat v = unat a * unat b" "unat c = unat v div unat one"
    by (auto simp: mul_div_one_def bind_eq_Some_conv arith_iff)
  then show "unat a * unat b < 2 ^ 256 \<and> unat c = unat a * unat b div 1000000000000000000"
    using unat_lt [of v] by (simp add: unat_one)
next
  assume *: "unat a * unat b < 2 ^ 256 \<and> unat c = unat a * unat b div 1000000000000000000"
  then have "unat (a * b) = unat a * unat b" by (intro unat_word_mult) simp
  with * show "mul_div_one a b = Some c"
    by (auto simp: mul_div_one_def bind_eq_Some_conv arith_iff unat_one intro!: exI [of _ "a * b"])
qed

text \<open>The curve over the naturals, with the fixed-point division after each product.\<close>

definition curve :: "nat \<Rightarrow> nat \<Rightarrow> nat" where
  "curve x y =
     (x * y div 1000000000000000000) *
     (x * x div 1000000000000000000 + y * y div 1000000000000000000) div 1000000000000000000"

lemma curve_mono: "x \<le> x' \<Longrightarrow> y \<le> y' \<Longrightarrow> curve x y \<le> curve x' y'"
  unfolding curve_def by (intro div_le_mono mult_le_mono add_mono)

lemma stable_f_curve: "stable_f x0 y = Inr k \<Longrightarrow> unat k = curve (unat x0) (unat y)"
  by (auto simp: stable_f_def arith_iff curve_def)

lemma stable_k_curve: "stable_k x y = Inr k \<Longrightarrow> unat k = curve (unat x) (unat y)"
  by (auto simp: stable_k_def arith_iff curve_def)

lemma stable_f_eq_stable_k: "stable_f x y = Inr k \<longleftrightarrow> stable_k x y = Inr k"
  by (simp add: stable_f_def stable_k_def)

lemma pow10_from_value: "pow10_from n v = Inr s \<Longrightarrow> unat s = unat v * 10 ^ n"
  by (induction n arbitrary: v) (auto simp: arith_iff)

lemma pow10_value: "pow10 d = Inr s \<Longrightarrow> unat s = 10 ^ unat d"
  by (auto simp: pow10_def dest: pow10_from_value)

lemma scale_value:
  "scale_to_1e18 v d = Inr s \<Longrightarrow> unat s = unat v * 1000000000000000000 div 10 ^ unat d"
  by (auto simp: scale_to_1e18_def bind_eq_Some_conv arith_iff unat_one dest!: pow10_value)

lemma unscale_value:
  "unscale_from_1e18 v d = Inr s \<Longrightarrow> unat s = unat v * 10 ^ unat d div 1000000000000000000"
  by (auto simp: unscale_from_1e18_def bind_eq_Some_conv arith_iff unat_one dest!: pow10_value)

text \<open>
  The root the loop returns is bracketed: the curve has reached \<open>xy\<close> there, and has not
  one step before, unless it is met exactly or the root is zero.
\<close>

definition bracketed :: "u256 \<Rightarrow> u256 \<Rightarrow> u256 \<Rightarrow> bool" where
  "bracketed x0 xy y \<longleftrightarrow>
     xy \<le> (case stable_f x0 y of Inr k \<Rightarrow> k | Inl _ \<Rightarrow> 0) \<and> is_ok (stable_f x0 y) \<and>
     (stable_f x0 y = Inr xy \<or> y = 0 \<or> (\<exists>k. stable_f x0 (y - 1) = Inr k \<and> k < xy))"

lemma bracketedI:
  "stable_f x0 y = Inr k \<Longrightarrow> xy \<le> k \<Longrightarrow>
   k = xy \<or> y = 0 \<or> (\<exists>k. stable_f x0 (y - 1) = Inr k \<and> k < xy) \<Longrightarrow> bracketed x0 xy y"
  by (auto simp: bracketed_def)

lemma get_y_loop_bracketed: "get_y_loop n x0 xy y = Inr r \<Longrightarrow> bracketed x0 xy r"
proof (induction n arbitrary: y)
  case 0
  then show ?case by simp
next
  case (Suc n)
  note IH = Suc.IH and ret = Suc.prems [unfolded get_y_loop.simps(2)]
  from ret obtain k d where kd: "stable_f x0 y = Inr k" "stable_d x0 y = Inr d" by auto
  show ?case
  proof (cases "k < xy")
    case True
    have up: "r = r' \<Longrightarrow> bracketed x0 xy r"
      if "checked_add y 1 = Some r'" "stable_f x0 r' = Inr k1" "k1 > xy" for r' k1
    proof -
      have "unat r' = unat y + 1" using that(1) by (simp add: arith_iff)
      then have "r' - 1 = y" by (metis add_diff_cancel_right' checked_add_def option.inject option.simps(3) that(1))
      then show "r = r' \<Longrightarrow> bracketed x0 xy r"
        using that kd True by (auto intro!: bracketedI [of x0 r' k1 xy])
    qed
    from True ret kd show ?thesis
      by (auto split: if_splits dest: IH up)
  next
    case False
    from False ret kd show ?thesis
      by (auto split: if_splits dest: IH intro: bracketedI [of x0 _ k xy] bracketedI [of x0 _ xy xy])
  qed
qed

lemma get_y_bracketed: "get_y x0 xy y = Inr r \<Longrightarrow> bracketed x0 xy r"
  unfolding get_y_def by (rule get_y_loop_bracketed)

section \<open>Bounds and the quoter interface\<close>

lemma volatile_quote_le_reserve:
  assumes "volatile_quote_amount_out ri ro a fee = Inr out"
  shows "unat out < unat ro"
proof -
  have ne: "ri \<noteq> 0" "ro \<noteq> 0" using assms by (auto simp: volatile_quote_amount_out_def split: if_splits)
  show ?thesis
  proof (cases "a = 0")
    case True
    with assms ne have "out = 0" by (simp add: volatile_quote_amount_out_def)
    with ne show ?thesis by (simp add: unat_gt_0)
  next
    case False
    with assms ne have "unat out = cp_out (unat ri * 10000) (unat ro) (unat a * (10000 - unat fee))"
      by (simp add: volatile_quote_Inr_iff)
    with ne show ?thesis by (simp add: cp_out_less unat_gt_0)
  qed
qed

lemma stable_quote_shape:
  assumes "stable_quote_amount_out ri ro a fee di dout = Inr out" "a \<noteq> 0"
  obtains fn af xs ys as k x0 y :: u256 where
    "unat af = unat a * unat fn div 10000" "unat fn = 10000 - unat fee" "unat fee \<le> 10000"
    "scale_to_1e18 ri di = Inr xs" "scale_to_1e18 ro dout = Inr ys" "scale_to_1e18 af di = Inr as"
    "stable_k xs ys = Inr k" "unat x0 = unat xs + unat as" "get_y x0 k ys = Inr y" "y \<le> ys"
    "unscale_from_1e18 (ys - y) dout = Inr out"
proof -
  have fee: "unat (ucast fee :: u256) = unat fee" by (rule unat_ucast_up) simp
  from assms obtain fn af xs ys as k x0 y where *:
    "checked_sub 10000 (ucast fee) = Some fn"
    "Option.bind (checked_mul a fn) (\<lambda>v. checked_div v 10000) = Some af"
    "scale_to_1e18 ri di = Inr xs" "scale_to_1e18 ro dout = Inr ys" "scale_to_1e18 af di = Inr as"
    "stable_k xs ys = Inr k" "checked_add xs as = Some x0" "get_y x0 k ys = Inr y" "y \<le> ys"
    "unscale_from_1e18 (ys - y) dout = Inr out"
    by (auto simp: stable_quote_amount_out_def stable_fee_numerator_def not_less split: if_splits)
  have fn: "unat fn = 10000 - unat fee" "unat fee \<le> 10000"
    using *(1) by (simp_all add: arith_iff fee)
  have af: "unat af = unat a * unat fn div 10000"
    using *(2) by (auto simp: bind_eq_Some_conv arith_iff)
  have x0: "unat x0 = unat xs + unat as" using *(7) by (simp add: arith_iff)
  show thesis by (rule that [OF af fn *(3-6) x0 *(8-10)])
qed

lemma stable_quote_le_reserve:
  assumes "stable_quote_amount_out ri ro a fee di dout = Inr out"
  shows "unat out \<le> unat ro"
proof (cases "a = 0")
  case True
  with assms have "out = 0" by (auto simp: stable_quote_amount_out_def split: if_splits)
  then show ?thesis by simp
next
  case False
  let ?E = "1000000000000000000 :: nat" and ?D = "10 ^ unat dout :: nat"
  from assms False obtain ys y where
    ys: "scale_to_1e18 ro dout = Inr ys" "unscale_from_1e18 (ys - y) dout = Inr out" "y \<le> ys"
    by (rule stable_quote_shape)
  have "unat (ys - y) \<le> unat ys" using ys(3) by (simp add: unat_sub word_le_nat_alt)
  then have "unat out \<le> unat ys * ?D div ?E"
    using unscale_value [OF ys(2)] by (simp add: div_le_mono)
  also have "unat ys * ?D \<le> unat ro * ?E"
    using scale_value [OF ys(1)] by (simp add: div_times_less_eq_dividend)
  then have "unat ys * ?D div ?E \<le> unat ro * ?E div ?E" by (rule div_le_mono)
  also have "\<dots> = unat ro" by simp
  finally show ?thesis .
qed

interpretation volatile: reserve_quoter volatile_quote_exact_in
  by unfold_locales
     (auto simp: volatile_quote_exact_in_def quote_of_def output_reserve_def word_le_nat_alt
       split: if_splits dest: volatile_quote_le_reserve)

interpretation stable: reserve_quoter stable_quote_exact_in
  by unfold_locales
     (auto simp: stable_quote_exact_in_def quote_of_def output_reserve_def word_le_nat_alt
       split: if_splits dest: stable_quote_le_reserve)

section \<open>Properties of the volatile quoter\<close>

text \<open>C35: The volatile quote is exactly the rounded-down constant-product formula with the fee
  taken from the input, and it fails exactly on an empty reserve, a fee above 10000 bps or a
  256-bit overflow of the numerator or the denominator.\<close>

theorem volatile_quote_exact:
  "volatile_quote_amount_out ri ro a fee = Inr out \<longleftrightarrow>
     ri \<noteq> 0 \<and> ro \<noteq> 0 \<and>
     (if a = 0 then out = 0
      else unat fee \<le> 10000 \<and>
        unat a * (10000 - unat fee) * unat ro < 2 ^ 256 \<and>
        unat ri * 10000 + unat a * (10000 - unat fee) < 2 ^ 256 \<and>
        unat out = unat a * (10000 - unat fee) * unat ro div
                     (unat ri * 10000 + unat a * (10000 - unat fee)))"
proof (cases "ri = 0 \<or> ro = 0 \<or> a = 0")
  case True
  then show ?thesis by (auto simp: volatile_quote_amount_out_def)
next
  case False
  then show ?thesis by (simp add: volatile_quote_Inr_iff cp_out_def)
qed

text \<open>C36: A volatile swap never drains the pool and never lowers the product of the reserves:
  after adding the whole input and paying the quote, the product is at least what it was.\<close>

theorem volatile_quote_keeps_product:
  assumes "volatile_quote_amount_out ri ro a fee = Inr out"
  shows "unat out < unat ro \<and> unat ri * unat ro \<le> (unat ri + unat a) * (unat ro - unat out)"
proof
  show "unat out < unat ro" using assms by (rule volatile_quote_le_reserve)
  show "unat ri * unat ro \<le> (unat ri + unat a) * (unat ro - unat out)"
  proof (cases "a = 0")
    case True
    with assms have "out = 0" by (auto simp: volatile_quote_amount_out_def split: if_splits)
    with True show ?thesis by simp
  next
    case False
    moreover from assms have "ri \<noteq> 0" "ro \<noteq> 0"
      by (auto simp: volatile_quote_amount_out_def split: if_splits)
    ultimately show ?thesis
      using assms cp_out_invariant [of "unat ri" "10000 - unat fee" 10000 "unat ro" "unat a"]
      by (simp add: volatile_quote_Inr_iff unat_gt_0)
  qed
qed

theorem volatile_quote_keeps_product_witness:
  "unat (45330 :: u256) < unat (500000 :: u256) \<and>
   unat (1000000 :: u256) * unat (500000 :: u256) \<le>
     (unat (1000000 :: u256) + unat (100000 :: u256)) * (unat (500000 :: u256) - unat (45330 :: u256))"
proof -
  have "volatile_quote_amount_out 1000000 500000 100000 30 = Inr 45330"
    by (simp add: volatile_quote_amount_out_def checked_sub_def checked_mul_def checked_add_def
        cong: rbind_weak_cong)
  then show ?thesis by (rule volatile_quote_keeps_product)
qed

text \<open>C37: A larger input never buys less from a volatile pool.\<close>

theorem volatile_quote_mono:
  assumes "volatile_quote_amount_out ri ro a fee = Inr out"
    and "volatile_quote_amount_out ri ro a' fee = Inr out'" and "a \<le> a'"
  shows "out \<le> out'"
proof (cases "a = 0")
  case True
  with assms(1) have "out = 0" by (auto simp: volatile_quote_amount_out_def split: if_splits)
  then show ?thesis by simp
next
  case False
  moreover from this assms(3) have "a' \<noteq> 0" by (auto simp: word_le_nat_alt unat_eq_zero)
  moreover from assms(1) have "ri \<noteq> 0" "ro \<noteq> 0"
    by (auto simp: volatile_quote_amount_out_def split: if_splits)
  ultimately show ?thesis
    using assms by (auto simp: volatile_quote_Inr_iff word_le_nat_alt unat_gt_0 intro!: cp_out_mono)
qed

theorem volatile_quote_mono_witness:
  "(45330 :: u256) \<le> 83124"
proof (rule volatile_quote_mono)
  show "volatile_quote_amount_out 1000000 500000 100000 30 = Inr 45330"
    and "volatile_quote_amount_out 1000000 500000 200000 30 = Inr 83124"
    by (simp_all add: volatile_quote_amount_out_def checked_sub_def checked_mul_def checked_add_def
        cong: rbind_weak_cong)
  show "(100000 :: u256) \<le> 200000" by simp
qed

section \<open>Properties of the stable quoter\<close>

text \<open>C6: When the stable pool's Newton loop returns, its result is a rounded-up root: the curve
  at it is at least the target, and unless the target is met exactly or the result is zero, the
  curve one unit below is still under the target.\<close>

theorem get_y_brackets_root:
  assumes "get_y x0 xy y0 = Inr y"
  shows "\<exists>k. stable_f x0 y = Inr k \<and> xy \<le> k \<and>
           (k = xy \<or> y = 0 \<or> (\<exists>k'. stable_f x0 (y - 1) = Inr k' \<and> k' < xy))"
  using get_y_bracketed [OF assms] by (auto simp: bracketed_def is_ok_iff)

lemmas stable_eval =
  stable_k_def stable_f_def stable_d_def mul_div_one_def checked_add_def checked_sub_def
  checked_mul_def checked_div_def one_def

lemma get_y_example:
  "get_y 1000000997000000000000000 2000000000000000000000000000000000000000000 1000000000000000000000000
     = Inr 999999003000000000000001"
  by (simp add: get_y_def get_y_loop_numeral stable_eval cong: rbind_weak_cong)

theorem get_y_brackets_root_witness:
  "\<exists>k. stable_f 1000000997000000000000000 999999003000000000000001 = Inr k \<and>
     2000000000000000000000000000000000000000000 \<le> k \<and>
     (k = 2000000000000000000000000000000000000000000 \<or> (999999003000000000000001 :: u256) = 0 \<or>
      (\<exists>k'. stable_f 1000000997000000000000000 (999999003000000000000001 - 1) = Inr k' \<and>
            k' < 2000000000000000000000000000000000000000000))"
  by (rule get_y_brackets_root [OF get_y_example])

lemma stable_quote_point:
  assumes "stable_quote_amount_out ri ro a fee di dout = Inr out" and "a \<noteq> 0"
  shows "let xs = unat ri * 10 ^ 18 div 10 ^ unat di; ys = unat ro * 10 ^ 18 div 10 ^ unat dout;
      x0 = xs + (unat a * (10000 - unat fee) div 10000) * 10 ^ 18 div 10 ^ unat di
    in unat fee \<le> 10000 \<and> unat out \<le> unat ro \<and>
      (\<exists>y \<le> ys. unat out = (ys - y) * 10 ^ unat dout div 10 ^ 18 \<and>
         curve xs ys \<le> curve x0 y \<and>
         (y = 0 \<or> curve x0 y = curve xs ys \<or> curve x0 (y - 1) < curve xs ys))"
proof -
  from assms obtain fn af xs ys as k x0 y :: u256 where *:
    "unat af = unat a * unat fn div 10000" "unat fn = 10000 - unat fee" "unat fee \<le> 10000"
    "scale_to_1e18 ri di = Inr xs" "scale_to_1e18 ro dout = Inr ys" "scale_to_1e18 af di = Inr as"
    "stable_k xs ys = Inr k" "unat x0 = unat xs + unat as" "get_y x0 k ys = Inr y" "y \<le> ys"
    "unscale_from_1e18 (ys - y) dout = Inr out"
    by (rule stable_quote_shape)
  have xs: "unat xs = unat ri * 10 ^ 18 div 10 ^ unat di" and ys: "unat ys = unat ro * 10 ^ 18 div 10 ^ unat dout"
    using scale_value [OF *(4)] scale_value [OF *(5)] by simp_all
  have x0: "unat x0 = unat xs + (unat a * (10000 - unat fee) div 10000) * 10 ^ 18 div 10 ^ unat di"
    using scale_value [OF *(6)] *(1,2,8) by simp
  have k: "unat k = curve (unat xs) (unat ys)" using *(7) by (rule stable_k_curve)
  obtain k' where k': "stable_f x0 y = Inr k'" "k \<le> k'"
    "k' = k \<or> y = 0 \<or> (\<exists>k''. stable_f x0 (y - 1) = Inr k'' \<and> k'' < k)"
    using get_y_bracketed [OF *(9)] by (auto simp: bracketed_def is_ok_iff)
  have above: "curve (unat xs) (unat ys) \<le> curve (unat x0) (unat y)"
    using k'(2) stable_f_curve [OF k'(1)] k by (simp add: word_le_nat_alt)
  have least: "unat y = 0 \<or> curve (unat x0) (unat y) = curve (unat xs) (unat ys) \<or>
      curve (unat x0) (unat y - 1) < curve (unat xs) (unat ys)"
    using k'(3)
  proof (elim disjE exE conjE)
    fix k'' assume below: "stable_f x0 (y - 1) = Inr k''" "k'' < k"
    show ?thesis
      using stable_f_curve [OF below(1)] below(2) k by (cases "y = 0") (simp_all add: unat_minus_one word_less_nat_alt)
  qed (use stable_f_curve [OF k'(1)] k in simp_all)
  have "unat out = (unat ys - unat y) * 10 ^ unat dout div 10 ^ 18" "unat y \<le> unat ys"
    using unscale_value [OF *(11)] *(10) by (simp_all add: unat_sub word_le_nat_alt)
  then have "\<exists>v \<le> unat ys. unat out = (unat ys - v) * 10 ^ unat dout div 10 ^ 18 \<and>
      curve (unat xs) (unat ys) \<le> curve (unat x0) v \<and>
      (v = 0 \<or> curve (unat x0) v = curve (unat xs) (unat ys) \<or> curve (unat x0) (v - 1) < curve (unat xs) (unat ys))"
    using above least by (intro exI [of _ "unat y"] conjI)
  with *(3) stable_quote_le_reserve [OF assms(1)] show ?thesis
    unfolding Let_def xs [symmetric] ys [symmetric] x0 [symmetric] by (intro conjI)
qed


lemma stable_quote_example:
  "stable_quote_amount_out 1000000000000 1000000000000000000000000 1000000 30 6 18 = Inr 996999999999999999"
  by (simp add: stable_quote_amount_out_def stable_fee_numerator_def scale_to_1e18_def unscale_from_1e18_def
      pow10_def pow10_from_numeral get_y_example stable_eval cong: rbind_weak_cong)


end
