(* ===== verification/Uniswap_V3.thy ===== *)
theory Uniswap_V3
  imports Types Dex_Quoter
begin

text \<open>
  Concentrated-liquidity quoting, \<open>crates/dex/src/uniswap_v3.rs\<close>: Q64.96 price arithmetic on
  256-bit words with 512-bit intermediate products, the tick-to-price function, one swap step
  inside a price range, the walk over initialised ticks in both directions, the quoter that
  stays in the current range, and the spot quote. \<open>q96\<close> is \<open>2\<^sup>9\<^sup>6\<close>, a square-root
  price is the square root of token1 per token0 times \<open>q96\<close>.
\<close>

section \<open>Wide multiplication and division\<close>

abbreviation fee_denominator :: u32 where
  "fee_denominator \<equiv> 1000000"

definition q96 :: u256 where
  "q96 = push_bit 96 1"

definition q192 :: u256 where
  "q192 = q96 * q96"

definition u512_to_u256 :: "u512 \<Rightarrow> arb_bot_error + u256" where
  "u512_to_u256 v = (if unat v < 2 ^ 256 then Inr (ucast v) else Inl (Quote ''mulDiv overflow''))"

definition mul_div :: "u256 \<Rightarrow> u256 \<Rightarrow> u256 \<Rightarrow> arb_bot_error + u256" where
  "mul_div a b denominator =
     (if denominator = 0 then Inl (Quote ''division by zero'')
      else u512_to_u256 ((ucast a * ucast b) div ucast denominator))"

definition mul_div_u512 :: "u256 \<Rightarrow> u512 \<Rightarrow> u512 \<Rightarrow> arb_bot_error + u256" where
  "mul_div_u512 a b denominator =
     (if denominator = 0 then Inl (Quote ''division by zero'')
      else rbind (ok_or (checked_mul (ucast a) b) (Quote ''spot quote overflow'')) (\<lambda>numerator.
        u512_to_u256 (numerator div denominator)))"

definition mul_div_rounding_up_u512 :: "u256 \<Rightarrow> u256 \<Rightarrow> u512 \<Rightarrow> arb_bot_error + u256" where
  "mul_div_rounding_up_u512 a b denominator =
     (if denominator = 0 then Inl (Quote ''division by zero'')
      else
        (let numerator = ucast a * ucast b;
             quotient = numerator div denominator;
             remainder = numerator mod denominator
         in rbind (u512_to_u256 quotient) (\<lambda>value.
              if remainder = 0 then Inr value
              else ok_or (checked_add value 1) (Quote ''mulDiv rounding overflow''))))"

definition mul_div_rounding_up :: "u256 \<Rightarrow> u256 \<Rightarrow> u256 \<Rightarrow> arb_bot_error + u256" where
  "mul_div_rounding_up a b denominator =
     (if denominator = 0 then Inl (Quote ''division by zero'')
      else
        (let numerator = ucast a * ucast b :: u512;
             denominator = ucast denominator;
             quotient = numerator div denominator;
             remainder = numerator mod denominator
         in rbind (u512_to_u256 quotient) (\<lambda>value.
              if remainder = 0 then Inr value
              else ok_or (checked_add value 1) (Quote ''mulDiv rounding overflow''))))"

definition div_round :: "u256 \<Rightarrow> u256 \<Rightarrow> bool \<Rightarrow> arb_bot_error + u256" where
  "div_round numerator denominator round_up =
     (if denominator = 0 then Inl (Quote ''division by zero'')
      else
        (let quotient = numerator div denominator
         in if round_up \<and> numerator mod denominator \<noteq> 0
            then ok_or (checked_add quotient 1) (Quote ''rounded division overflow'')
            else Inr quotient))"

section \<open>Amounts and prices\<close>

definition ordered :: "u256 \<Rightarrow> u256 \<Rightarrow> u256 \<times> u256" where
  "ordered a b = (if a \<le> b then (a, b) else (b, a))"

definition amount0_delta :: "u256 \<Rightarrow> u256 \<Rightarrow> u256 \<Rightarrow> bool \<Rightarrow> arb_bot_error + u256" where
  "amount0_delta liquidity sqrt_a sqrt_b round_up =
     (case ordered sqrt_a sqrt_b of (lower, upper) \<Rightarrow>
        (let diff = saturating_sub upper lower
         in rbind (ok_or (checked_shl liquidity 96) (Quote ''amount0 numerator overflow'')) (\<lambda>numerator1.
              if round_up then
                rbind (mul_div_rounding_up numerator1 diff upper) (\<lambda>value. div_round value lower True)
              else
                rbind (mul_div numerator1 diff upper) (\<lambda>value.
                  ok_or (checked_div value lower) (Quote ''amount0 denominator overflow'')))))"

definition amount1_delta :: "u256 \<Rightarrow> u256 \<Rightarrow> u256 \<Rightarrow> bool \<Rightarrow> arb_bot_error + u256" where
  "amount1_delta liquidity sqrt_a sqrt_b round_up =
     (case ordered sqrt_a sqrt_b of (lower, upper) \<Rightarrow>
        (let diff = saturating_sub upper lower
         in if round_up then mul_div_rounding_up liquidity diff q96 else mul_div liquidity diff q96))"

definition next_sqrt_price_from_amount0_in :: "u256 \<Rightarrow> u256 \<Rightarrow> u256 \<Rightarrow> arb_bot_error + u256" where
  "next_sqrt_price_from_amount0_in sqrt_price liquidity amount_in =
     rbind (ok_or (checked_shl liquidity 96) (Quote ''next sqrt numerator overflow'')) (\<lambda>numerator1.
     rbind (ok_or (checked_add (ucast numerator1 :: u512) (ucast amount_in * ucast sqrt_price))
             (Quote ''next sqrt denominator overflow'')) (\<lambda>denominator.
     mul_div_rounding_up_u512 numerator1 sqrt_price denominator))"

definition next_sqrt_price_from_amount1_in :: "u256 \<Rightarrow> u256 \<Rightarrow> u256 \<Rightarrow> arb_bot_error + u256" where
  "next_sqrt_price_from_amount1_in sqrt_price liquidity amount_in =
     rbind (mul_div amount_in q96 liquidity) (\<lambda>delta.
     ok_or (checked_add sqrt_price delta) (Quote ''next sqrt overflow''))"

definition apply_liquidity_delta :: "u256 \<Rightarrow> i128 \<Rightarrow> arb_bot_error + u256" where
  "apply_liquidity_delta liquidity delta =
     (if sint delta \<ge> 0 then ok_or (checked_add liquidity (ucast delta)) (Quote ''liquidity overflow'')
      else Inr (saturating_sub liquidity (ucast (- delta))))"

definition v3_fee_pips :: "pool_state \<Rightarrow> arb_bot_error + u32" where
  "v3_fee_pips p =
     (if ps_variant p = AerodromeSlipstream \<and> ps_fee_pips p = None
      then Inl (Quote ''missing Aerodrome Slipstream fee_pips'')
      else
        (let fee_pips = (case ps_fee_pips p of Some f \<Rightarrow> f | None \<Rightarrow> saturating_mul (ps_fee_bps p) 100)
         in if fee_pips \<ge> fee_denominator then Inl (Quote ''invalid V3 fee'') else Inr fee_pips))"

section \<open>The price of a tick\<close>

definition tick_ratio_factors :: "(u32 \<times> u256) list" where
  "tick_ratio_factors =
    [(0x2, 0xfff97272373d413259a46990580e213a),
     (0x4, 0xfff2e50f5f656932ef12357cf3c7fdcc),
     (0x8, 0xffe5caca7e10e4e61c3624eaa0941cd0),
     (0x10, 0xffcb9843d60f6159c9db58835c926644),
     (0x20, 0xff973b41fa98c081472e6896dfb254c0),
     (0x40, 0xff2ea16466c96a3843ec78b326b52861),
     (0x80, 0xfe5dee046a99a2a811c461f1969c3053),
     (0x100, 0xfcbe86c7900a88aedcffc83b479aa3a4),
     (0x200, 0xf987a7253ac413176f2b074cf7815e54),
     (0x400, 0xf3392b0822b70005940c7a398e4b70f3),
     (0x800, 0xe7159475a2c29b7443b29c7fa6e889d9),
     (0x1000, 0xd097f3bdfd2022b8845ad8f792aa5825),
     (0x2000, 0xa9f746462d870fdf8a65dc1f90e061e5),
     (0x4000, 0x70d869a156d2a1b890bb3df62baf32f7),
     (0x8000, 0x31be135f97d08fd981231505542fcfa6),
     (0x10000, 0x9aa508b5b7a84e1c677de54f3e99bc9),
     (0x20000, 0x5d6af8dedb81196699c329225ee604),
     (0x40000, 0x2216e584f5fa1ea926041bedfe98),
     (0x80000, 0x48a170391f7dc42444e8fa2)]"

fun tick_ratio_loop :: "u32 \<Rightarrow> (u32 \<times> u256) list \<Rightarrow> u256 \<Rightarrow> arb_bot_error + u256" where
  "tick_ratio_loop abs_tick [] ratio = Inr ratio"
| "tick_ratio_loop abs_tick ((tick_mask, factor) # rest) ratio =
     (if abs_tick AND tick_mask \<noteq> 0
      then rbind (ok_or (map_option (drop_bit 128) (checked_mul ratio factor)) (Quote ''tick ratio overflow''))
             (tick_ratio_loop abs_tick rest)
      else tick_ratio_loop abs_tick rest ratio)"

definition unsigned_abs :: "i32 \<Rightarrow> u32" where
  "unsigned_abs t = (if sint t < 0 then - t else t)"

definition sqrt_ratio_at_tick :: "i32 \<Rightarrow> arb_bot_error + u256" where
  "sqrt_ratio_at_tick tick =
     (if \<not> (- 887272 \<le> sint tick \<and> sint tick \<le> 887272) then Inl (Quote ''tick out of range'')
      else
        (let abs_tick = unsigned_abs tick;
             start = (if abs_tick AND 1 \<noteq> 0 then 0xfffcb933bd6fad37aa2d162d1a594001 else push_bit 128 1)
         in rbind (tick_ratio_loop abs_tick tick_ratio_factors start) (\<lambda>ratio0.
              let ratio = (if sint tick > 0 then - 1 div ratio0 else ratio0);
                  remainder_mask = push_bit 32 1 - 1
              in Inr (if ratio AND remainder_mask = 0 then drop_bit 32 ratio else drop_bit 32 ratio + 1))))"

section \<open>One step inside a price range\<close>

record swap_step_result =
  ss_sqrt_next :: u256
  ss_amount_in :: u256
  ss_amount_out :: u256
  ss_fee_amount :: u256

definition compute_swap_step ::
    "u256 \<Rightarrow> u256 \<Rightarrow> u256 \<Rightarrow> u256 \<Rightarrow> u32 \<Rightarrow> bool \<Rightarrow> arb_bot_error + swap_step_result" where
  "compute_swap_step sqrt_current sqrt_target liquidity amount_remaining fee_pips zero_for_one =
     (if amount_remaining = 0 \<or> liquidity = 0
      then Inr \<lparr>ss_sqrt_next = sqrt_current, ss_amount_in = 0, ss_amount_out = 0, ss_fee_amount = 0\<rparr>
      else
        rbind (mul_div amount_remaining (ucast (saturating_sub fee_denominator fee_pips))
                 (ucast fee_denominator)) (\<lambda>amount_remaining_less_fee.
        rbind (if zero_for_one then amount0_delta liquidity sqrt_target sqrt_current True
               else amount1_delta liquidity sqrt_current sqrt_target True) (\<lambda>amount_in_to_target.
        let reached_target = amount_remaining_less_fee \<ge> amount_in_to_target
        in
        rbind (if reached_target then Inr sqrt_target
               else if zero_for_one
               then next_sqrt_price_from_amount0_in sqrt_current liquidity amount_remaining_less_fee
               else next_sqrt_price_from_amount1_in sqrt_current liquidity amount_remaining_less_fee) (\<lambda>sqrt_next.
        rbind (if zero_for_one then amount0_delta liquidity sqrt_next sqrt_current True
               else amount1_delta liquidity sqrt_current sqrt_next True) (\<lambda>amount_in.
        rbind (if zero_for_one then amount1_delta liquidity sqrt_next sqrt_current False
               else amount0_delta liquidity sqrt_current sqrt_next False) (\<lambda>amount_out.
        rbind (if reached_target
               then mul_div_rounding_up amount_in (ucast fee_pips)
                      (ucast (saturating_sub fee_denominator fee_pips))
               else Inr (saturating_sub amount_remaining amount_in)) (\<lambda>fee_amount.
        Inr \<lparr>ss_sqrt_next = sqrt_next, ss_amount_in = amount_in, ss_amount_out = amount_out,
             ss_fee_amount = fee_amount\<rparr>)))))))"

section \<open>Walking the initialised ticks\<close>

record v3_quote_diagnostics =
  vd_ticks_used :: u32
  vd_crossed_ticks :: u32
  vd_tick_range_exhausted :: bool

definition no_diagnostics :: v3_quote_diagnostics where
  "no_diagnostics = \<lparr>vd_ticks_used = 0, vd_crossed_ticks = 0, vd_tick_range_exhausted = False\<rparr>"

text \<open>The variables the loop of both simulations updates.\<close>

record swap_walk =
  sw_amount_remaining :: u256
  sw_sqrt_price :: u256
  sw_liquidity :: u256
  sw_amount_out :: u256
  sw_diagnostics :: v3_quote_diagnostics

text \<open>How the loop ends: by the early \<open>return\<close>, or by \<open>break\<close> or the last tick.\<close>

datatype walk_end = Returned swap_walk | Finished swap_walk

definition count_tick :: "swap_walk \<Rightarrow> swap_walk" where
  "count_tick w = w\<lparr>sw_diagnostics := (sw_diagnostics w)
     \<lparr>vd_ticks_used := vd_ticks_used (sw_diagnostics w) + 1\<rparr>\<rparr>"

definition count_crossing :: "swap_walk \<Rightarrow> swap_walk" where
  "count_crossing w = w\<lparr>sw_diagnostics := (sw_diagnostics w)
     \<lparr>vd_crossed_ticks := vd_crossed_ticks (sw_diagnostics w) + 1\<rparr>\<rparr>"

definition crossing_delta :: "bool \<Rightarrow> tick_state \<Rightarrow> i128" where
  "crossing_delta zero_for_one t = (if zero_for_one then - ts_liquidity_net t else ts_liquidity_net t)"

definition cross_tick :: "bool \<Rightarrow> tick_state \<Rightarrow> swap_walk \<Rightarrow> arb_bot_error + swap_walk" where
  "cross_tick zero_for_one t w =
     rbind (apply_liquidity_delta (sw_liquidity w) (crossing_delta zero_for_one t)) (\<lambda>l.
       Inr ((count_crossing w)\<lparr>sw_liquidity := l\<rparr>))"

definition apply_step :: "swap_step_result \<Rightarrow> swap_walk \<Rightarrow> arb_bot_error + swap_walk" where
  "apply_step step w =
     rbind (ok_or (checked_add (ss_amount_in step) (ss_fee_amount step)) (Quote ''step amount overflow'')) (\<lambda>consumed.
     rbind (ok_or (checked_add (sw_amount_out w) (ss_amount_out step)) (Quote ''amount_out overflow'')) (\<lambda>out.
     Inr (w\<lparr>sw_amount_remaining := saturating_sub (sw_amount_remaining w) consumed,
            sw_amount_out := out, sw_sqrt_price := ss_sqrt_next step\<rparr>)))"

fun tick_loop :: "bool \<Rightarrow> u32 \<Rightarrow> tick_state list \<Rightarrow> swap_walk \<Rightarrow> arb_bot_error + walk_end" where
  "tick_loop zero_for_one fee_pips [] w = Inr (Finished w)"
| "tick_loop zero_for_one fee_pips (t # ts) w =
     (if sw_amount_remaining w = 0 then Inr (Finished w)
      else
        rbind (sqrt_ratio_at_tick (ts_tick t)) (\<lambda>target_sqrt.
        if sw_liquidity w = 0
        then rbind (cross_tick zero_for_one t ((count_tick w)\<lparr>sw_sqrt_price := target_sqrt\<rparr>))
               (tick_loop zero_for_one fee_pips ts)
        else
          rbind (compute_swap_step (sw_sqrt_price w) target_sqrt (sw_liquidity w) (sw_amount_remaining w)
                   fee_pips zero_for_one) (\<lambda>step.
          rbind (apply_step step (count_tick w)) (\<lambda>w'.
          if sw_sqrt_price w' = target_sqrt
          then rbind (cross_tick zero_for_one t w') (tick_loop zero_for_one fee_pips ts)
          else Inr (Returned w')))))"

definition finish_walk :: "bool \<Rightarrow> u256 \<Rightarrow> u32 \<Rightarrow> walk_end \<Rightarrow> arb_bot_error + (u256 \<times> v3_quote_diagnostics)" where
  "finish_walk zero_for_one limit fee_pips e =
     (case e of
        Returned w \<Rightarrow> Inr (sw_amount_out w, sw_diagnostics w)
      | Finished w \<Rightarrow>
          if sw_amount_remaining w \<noteq> 0 \<and> sw_liquidity w \<noteq> 0
          then
            rbind (compute_swap_step (sw_sqrt_price w) limit (sw_liquidity w) (sw_amount_remaining w)
                     fee_pips zero_for_one) (\<lambda>step.
            rbind (ok_or (checked_add (sw_amount_out w) (ss_amount_out step)) (Quote ''amount_out overflow'')) (\<lambda>out.
            Inr (out, (sw_diagnostics w)\<lparr>vd_tick_range_exhausted := True\<rparr>)))
          else Inr (sw_amount_out w, sw_diagnostics w))"

definition start_walk :: "u256 \<Rightarrow> u256 \<Rightarrow> u256 \<Rightarrow> swap_walk" where
  "start_walk amount sqrt_price liquidity =
     \<lparr>sw_amount_remaining = amount, sw_sqrt_price = sqrt_price, sw_liquidity = liquidity,
      sw_amount_out = 0, sw_diagnostics = no_diagnostics\<rparr>"

definition ticks_below :: "i32 \<Rightarrow> tick_state list \<Rightarrow> tick_state list" where
  "ticks_below current_tick ticks =
     sort_key (\<lambda>t. - sint (ts_tick t)) (filter (\<lambda>t. sint (ts_tick t) \<le> sint current_tick) ticks)"

definition ticks_above :: "i32 \<Rightarrow> tick_state list \<Rightarrow> tick_state list" where
  "ticks_above current_tick ticks =
     sort_key (\<lambda>t. sint (ts_tick t)) (filter (\<lambda>t. sint (ts_tick t) > sint current_tick) ticks)"

definition simulate_zero_for_one ::
    "u256 \<Rightarrow> u256 \<Rightarrow> u256 \<Rightarrow> i32 \<Rightarrow> tick_state list \<Rightarrow> u32 \<Rightarrow> arb_bot_error + (u256 \<times> v3_quote_diagnostics)" where
  "simulate_zero_for_one amount sqrt_price liquidity current_tick ticks fee_pips =
     rbind (tick_loop True fee_pips (ticks_below current_tick ticks) (start_walk amount sqrt_price liquidity))
       (finish_walk True 1 fee_pips)"

definition simulate_one_for_zero ::
    "u256 \<Rightarrow> u256 \<Rightarrow> u256 \<Rightarrow> i32 \<Rightarrow> tick_state list \<Rightarrow> u32 \<Rightarrow> arb_bot_error + (u256 \<times> v3_quote_diagnostics)" where
  "simulate_one_for_zero amount sqrt_price liquidity current_tick ticks fee_pips =
     rbind (tick_loop False fee_pips (ticks_above current_tick ticks) (start_walk amount sqrt_price liquidity))
       (finish_walk False (- 1) fee_pips)"

section \<open>The quoters\<close>

definition v3_quote_result :: "u256 \<Rightarrow> u256 \<Rightarrow> quote_result" where
  "v3_quote_result amount_in amount_out =
     \<lparr>qr_amount_in = amount_in, qr_amount_out = amount_out, qr_gas_estimate = None\<rparr>"

definition quote_exact_in_with_ticks_diagnostics ::
    "pool_state \<Rightarrow> tick_state list \<Rightarrow> address \<Rightarrow> u256 \<Rightarrow> arb_bot_error + (quote_result \<times> v3_quote_diagnostics)" where
  "quote_exact_in_with_ticks_diagnostics p ticks token_in amount_in =
     (if ticks = [] then Inl (Quote ''missing initialized ticks'')
      else if token_in \<noteq> ps_token0 p \<and> token_in \<noteq> ps_token1 p then Inl (Quote ''token_in not in pool'')
      else
        rbind (ok_or (ps_sqrt_price_x96 p) (Quote ''missing sqrt_price_x96'')) (\<lambda>sqrt_price_x96.
        rbind (ok_or (ps_liquidity p) (Quote ''missing liquidity'')) (\<lambda>liquidity.
        rbind (ok_or (ps_tick p) (Quote ''missing tick'')) (\<lambda>current_tick.
        rbind (v3_fee_pips p) (\<lambda>fee_pips.
        rbind (if token_in = ps_token0 p
               then simulate_zero_for_one amount_in sqrt_price_x96 liquidity current_tick ticks fee_pips
               else simulate_one_for_zero amount_in sqrt_price_x96 liquidity current_tick ticks fee_pips)
          (\<lambda>(amount_out, diagnostics). Inr (v3_quote_result amount_in amount_out, diagnostics)))))))"

definition quote_exact_in_with_ticks ::
    "pool_state \<Rightarrow> tick_state list \<Rightarrow> address \<Rightarrow> u256 \<Rightarrow> arb_bot_error + quote_result" where
  "quote_exact_in_with_ticks p ticks token_in amount_in =
     rbind (quote_exact_in_with_ticks_diagnostics p ticks token_in amount_in) (\<lambda>(quote, _). Inr quote)"

definition quote_token0_for_token1 :: "u256 \<Rightarrow> u256 \<Rightarrow> u256 \<Rightarrow> arb_bot_error + u256" where
  "quote_token0_for_token1 amount_in sqrt_price_x96 liquidity =
     (if amount_in = 0 then Inr 0
      else rbind (next_sqrt_price_from_amount0_in sqrt_price_x96 liquidity amount_in) (\<lambda>next_sqrt_price.
        amount1_delta liquidity next_sqrt_price sqrt_price_x96 False))"

definition quote_token1_for_token0 :: "u256 \<Rightarrow> u256 \<Rightarrow> u256 \<Rightarrow> arb_bot_error + u256" where
  "quote_token1_for_token0 amount_in sqrt_price_x96 liquidity =
     (if amount_in = 0 then Inr 0
      else rbind (next_sqrt_price_from_amount1_in sqrt_price_x96 liquidity amount_in) (\<lambda>next_sqrt_price.
        amount0_delta liquidity sqrt_price_x96 next_sqrt_price False))"

definition v3_current_quote_exact_in :: "pool_state \<Rightarrow> address \<Rightarrow> u256 \<Rightarrow> arb_bot_error + quote_result" where
  "v3_current_quote_exact_in p token_in amount_in =
     (if token_in \<noteq> ps_token0 p \<and> token_in \<noteq> ps_token1 p then Inl (Quote ''token_in not in pool'')
      else
        rbind (ok_or (ps_sqrt_price_x96 p) (Quote ''missing sqrt_price_x96'')) (\<lambda>sqrt_price_x96.
        rbind (ok_or (ps_liquidity p) (Quote ''missing liquidity'')) (\<lambda>liquidity.
        if sqrt_price_x96 = 0 \<or> liquidity = 0 then Inl (Quote ''empty V3 state'')
        else
          rbind (v3_fee_pips p) (\<lambda>fee_pips.
          rbind (mul_div amount_in (ucast (saturating_sub fee_denominator fee_pips)) (ucast fee_denominator))
            (\<lambda>amount_in_less_fee.
          rbind (if token_in = ps_token0 p
                 then quote_token0_for_token1 amount_in_less_fee sqrt_price_x96 liquidity
                 else quote_token1_for_token0 amount_in_less_fee sqrt_price_x96 liquidity) (\<lambda>amount_out.
          Inr (v3_quote_result amount_in amount_out)))))))"

definition spot_quote_exact_in :: "pool_state \<Rightarrow> address \<Rightarrow> u256 \<Rightarrow> arb_bot_error + u256" where
  "spot_quote_exact_in p token_in amount_in =
     rbind (ok_or (ps_sqrt_price_x96 p) (Quote ''missing sqrt_price_x96'')) (\<lambda>sqrt_price_x96.
     if sqrt_price_x96 = 0 then Inl (Quote ''empty sqrt_price_x96'')
     else
       rbind (ok_or (checked_mul (ucast sqrt_price_x96) (ucast sqrt_price_x96)) (Quote ''price overflow''))
         (\<lambda>price_x192.
       if token_in = ps_token0 p then mul_div_u512 amount_in price_x192 (ucast q192)
       else if token_in = ps_token1 p then mul_div_u512 amount_in (ucast q192) price_x192
       else Inl (Quote ''token_in not in pool'')))"

section \<open>What the arithmetic computes\<close>

lemma unat_u256_lt: "unat (a :: u256) < 2 ^ 256"
  using unat_lt [of a] by simp

lemma unat_q96: "unat q96 = 2 ^ 96"
  by (simp add: q96_def)

lemma unat_wide [simp]: "unat (ucast (a :: u256) :: u512) = unat a"
  by (rule unat_ucast_up) simp

lemma unat_wide_mult [simp]: "unat (ucast a * ucast b :: u512) = unat (a :: u256) * unat (b :: u256)"
proof -
  have "unat a * unat b \<le> (2 ^ 256 - 1) * (2 ^ 256 - 1)"
    using unat_u256_lt [of a] unat_u256_lt [of b] by (intro mult_le_mono) simp_all
  also have "\<dots> < 2 ^ 512" by simp
  finally have "unat (ucast a * ucast b :: u512) = unat (ucast a :: u512) * unat (ucast b :: u512)"
    by (intro unat_word_mult) simp
  then show ?thesis by simp
qed

lemma u512_to_u256_iff [simp]: "u512_to_u256 v = Inr q \<longleftrightarrow> unat q = unat v"
proof
  assume *: "unat q = unat v"
  then have "unat v < 2 ^ 256" using unat_u256_lt [of q] by simp
  moreover from this have "unat (ucast v :: u256) = unat v"
    by (simp add: unsigned_ucast_eq take_bit_nat_eq_self_iff)
  ultimately show "u512_to_u256 v = Inr q"
    using * by (simp add: u512_to_u256_def word_eq_iff_unat [of _ q])
qed (auto simp: u512_to_u256_def unsigned_ucast_eq take_bit_nat_eq_self_iff split: if_splits)

lemma mul_div_iff [arith_iff]:
  "mul_div a b d = Inr q \<longleftrightarrow> 0 < unat d \<and> unat q = unat a * unat b div unat d"
  by (auto simp: mul_div_def unat_div unat_gt_0)

lemma mul_div_rounding_up_wide_iff [arith_iff]:
  "mul_div_rounding_up_u512 a b d = Inr q \<longleftrightarrow> 0 < unat d \<and> unat q = div_ceil (unat a * unat b) (unat d)"
proof -
  have rem: "(ucast a * ucast b) mod d = 0 \<longleftrightarrow> unat a * unat b mod unat d = 0"
    by (simp add: unat_mod flip: unat_eq_zero)
  have quo: "unat ((ucast a * ucast b) div d) = unat a * unat b div unat d"
    by (simp add: unat_div)
  show ?thesis
  proof (cases "unat a * unat b mod unat d = 0")
    case True
    with rem quo show ?thesis
      by (auto simp: mul_div_rounding_up_u512_def Let_def div_ceil_def unat_gt_0)
  next
    case False
    have "0 < d \<Longrightarrow> unat q = unat a * unat b div unat d + 1 \<Longrightarrow>
        unat (word_of_nat (unat a * unat b div unat d) :: u256) = unat a * unat b div unat d"
      using unat_u256_lt [of q] by (intro unat_of_nat_small) simp
    with False rem quo show ?thesis
      by (auto simp: mul_div_rounding_up_u512_def Let_def div_ceil_def unat_gt_0 arith_iff word_gt_0
          intro!: exI [of _ "word_of_nat (unat a * unat b div unat d)"])
  qed
qed

lemma mul_div_rounding_up_eq_wide:
  "mul_div_rounding_up a b d = mul_div_rounding_up_u512 a b (ucast d)"
proof -
  have "(ucast d :: u512) = 0 \<longleftrightarrow> d = 0"
    by (metis unat_eq_zero unat_wide)
  then show ?thesis by (simp add: mul_div_rounding_up_def mul_div_rounding_up_u512_def Let_def)
qed

lemma mul_div_rounding_up_iff [arith_iff]:
  "mul_div_rounding_up a b d = Inr q \<longleftrightarrow> 0 < unat d \<and> unat q = div_ceil (unat a * unat b) (unat d)"
  by (simp add: mul_div_rounding_up_eq_wide mul_div_rounding_up_wide_iff)

lemma div_round_up_iff [arith_iff]:
  "div_round n d True = Inr q \<longleftrightarrow> 0 < unat d \<and> unat q = div_ceil (unat n) (unat d)"
proof -
  have rem: "n mod d = 0 \<longleftrightarrow> unat n mod unat d = 0" by (simp add: unat_mod flip: unat_eq_zero)
  show ?thesis
    using rem by (auto simp: div_round_def Let_def div_ceil_def unat_gt_0 arith_iff unat_div
        word_eq_iff_unat [of _ q])
qed

lemma amount1_delta_iff [arith_iff]:
  "amount1_delta l a b up = Inr q \<longleftrightarrow>
     unat q = (if up then div_ceil else (div)) (unat l * (max (unat a) (unat b) - min (unat a) (unat b))) (2 ^ 96)"
  by (auto simp: amount1_delta_def ordered_def arith_iff unat_q96 word_le_nat_alt)

lemma amount0_delta_upD:
  assumes "amount0_delta l a b True = Inr q" "unat a \<le> unat b"
  shows "unat l * 2 ^ 96 < 2 ^ 256" "0 < unat a"
    "unat q = div_ceil (div_ceil (unat l * 2 ^ 96 * (unat b - unat a)) (unat b)) (unat a)"
proof -
  obtain n v :: u256 where "unat n = unat l * 2 ^ 96"
      "unat v = div_ceil (unat n * (unat b - unat a)) (unat b)" "0 < unat a"
      "unat q = div_ceil (unat v) (unat a)"
    using assms by (auto simp: amount0_delta_def ordered_def arith_iff word_le_nat_alt Let_def)
  then show "unat l * 2 ^ 96 < 2 ^ 256" "0 < unat a"
      "unat q = div_ceil (div_ceil (unat l * 2 ^ 96 * (unat b - unat a)) (unat b)) (unat a)"
    using unat_u256_lt [of n] by simp_all
qed

lemma amount0_delta_downD:
  assumes "amount0_delta l a b False = Inr q" "unat a \<le> unat b"
  shows "unat l * 2 ^ 96 < 2 ^ 256" "0 < unat a"
    "unat q = unat l * 2 ^ 96 * (unat b - unat a) div unat b div unat a"
proof -
  obtain n v :: u256 where "unat n = unat l * 2 ^ 96"
      "unat v = unat n * (unat b - unat a) div unat b" "0 < unat a"
      "unat q = unat v div unat a"
    using assms by (auto simp: amount0_delta_def ordered_def arith_iff word_le_nat_alt Let_def)
  then show "unat l * 2 ^ 96 < 2 ^ 256" "0 < unat a"
      "unat q = unat l * 2 ^ 96 * (unat b - unat a) div unat b div unat a"
    using unat_u256_lt [of n] by simp_all
qed

lemma amount0_delta_commute: "amount0_delta l a b up = amount0_delta l b a up"
  by (auto simp: amount0_delta_def ordered_def)

lemma amount1_delta_commute: "amount1_delta l a b up = amount1_delta l b a up"
  by (auto simp: amount1_delta_def ordered_def)

lemma next_from_amount0D:
  assumes "next_sqrt_price_from_amount0_in p l a = Inr q"
  shows "unat l * 2 ^ 96 < 2 ^ 256" "0 < unat l * 2 ^ 96 + unat a * unat p"
    "unat q = div_ceil (unat l * 2 ^ 96 * unat p) (unat l * 2 ^ 96 + unat a * unat p)"
proof -
  obtain n :: u256 and d :: u512 where "unat n = unat l * 2 ^ 96"
      "unat d = unat n + unat a * unat p" "0 < unat d" "unat q = div_ceil (unat n * unat p) (unat d)"
    using assms by (auto simp: next_sqrt_price_from_amount0_in_def arith_iff)
  then show "unat l * 2 ^ 96 < 2 ^ 256" "0 < unat l * 2 ^ 96 + unat a * unat p"
      "unat q = div_ceil (unat l * 2 ^ 96 * unat p) (unat l * 2 ^ 96 + unat a * unat p)"
    using unat_u256_lt [of n] by simp_all
qed

lemma next_from_amount1D:
  assumes "next_sqrt_price_from_amount1_in p l a = Inr q"
  shows "0 < unat l" "unat q = unat p + unat a * 2 ^ 96 div unat l"
proof -
  obtain d :: u256 where "0 < unat l" "unat d = unat a * 2 ^ 96 div unat l" "unat q = unat p + unat d"
    using assms by (auto simp: next_sqrt_price_from_amount1_in_def arith_iff unat_q96)
  then show "0 < unat l" "unat q = unat p + unat a * 2 ^ 96 div unat l" by simp_all
qed

section \<open>A swap step stays within its budget and its range\<close>

text \<open>Over the naturals: \<open>N\<close> is the shifted liquidity, \<open>P\<close> the current and \<open>T\<close> a lower price.\<close>

lemma amount0_ceil_le_iff:
  assumes "0 < P" "0 < T"
  shows "div_ceil (div_ceil (N * (P - T)) P) T \<le> a \<longleftrightarrow> N * (P - T) \<le> a * T * P"
  using assms by (simp add: div_ceil_le_iff)

text \<open>The price reached by spending \<open>a\<close> of token0 costs at most \<open>a\<close>.\<close>

lemma next_price0_affordable:
  fixes N P a :: nat
  assumes "0 < P" "0 < N + a * P"
  defines "T \<equiv> div_ceil (N * P) (N + a * P)"
  shows "T \<le> P" "N * (P - T) \<le> a * T * P"
proof -
  show "T \<le> P"
    unfolding T_def using assms(1,2) by (simp add: div_ceil_le_iff distrib_left algebra_simps)
  have "N * P \<le> T * (N + a * P)" unfolding T_def using assms(2) by (rule div_ceil_mult_ge)
  then have "N * P \<le> T * N + a * T * P" by (simp add: algebra_simps)
  then show "N * (P - T) \<le> a * T * P" by (simp add: diff_mult_distrib2 algebra_simps)
qed

lemma next_price0_above_target:
  fixes N P a T :: nat
  assumes "0 < P" "0 < T" "T \<le> P" "0 < N + a * P" "a * T * P < N * (P - T)"
  shows "T \<le> div_ceil (N * P) (N + a * P)"
proof (rule ccontr)
  let ?Q = "div_ceil (N * P) (N + a * P)"
  assume "\<not> T \<le> ?Q"
  then have "?Q \<le> T" by simp
  then have "N * P \<le> T * (N + a * P)" using assms(4) by (simp add: div_ceil_le_iff)
  then have "N * (P - T) \<le> a * T * P" by (simp add: diff_mult_distrib2 algebra_simps)
  with assms(5) show False by simp
qed

lemma next_price1_affordable:
  fixes L P a Q :: nat
  assumes "0 < L" "0 < Q"
  shows "div_ceil (L * (a * Q div L)) Q \<le> a"
  using assms by (simp add: div_ceil_le_iff times_div_less_eq_dividend)

lemma next_price1_below_target:
  fixes L P a T Q :: nat
  assumes "0 < L" "0 < Q" "P \<le> T" "a < div_ceil (L * (T - P)) Q"
  shows "P + a * Q div L \<le> T"
proof -
  have "a * Q < L * (T - P)" using assms by (meson div_ceil_le_iff leD leI)
  then have "a * Q div L \<le> T - P"
    by (intro less_imp_le less_mult_imp_div_less) (simp add: mult.commute)
  then show ?thesis using assms(3) by simp
qed

text \<open>The step as its components, with the branch it took.\<close>

lemma swap_step_cases:
  assumes "compute_swap_step p t l a fee zfo = Inr st" "a \<noteq> 0" "l \<noteq> 0"
  obtains (reached) net to where
      "unat net = unat a * unat (saturating_sub fee_denominator fee) div 1000000"
      "(if zfo then amount0_delta l t p True else amount1_delta l p t True) = Inr to" "to \<le> net"
      "ss_sqrt_next st = t" "ss_amount_in st = to"
      "mul_div_rounding_up to (ucast fee) (ucast (saturating_sub fee_denominator fee)) = Inr (ss_fee_amount st)"
    | (inside) net to where
      "unat net = unat a * unat (saturating_sub fee_denominator fee) div 1000000"
      "(if zfo then amount0_delta l t p True else amount1_delta l p t True) = Inr to" "net < to"
      "(if zfo then next_sqrt_price_from_amount0_in p l net
        else next_sqrt_price_from_amount1_in p l net) = Inr (ss_sqrt_next st)"
      "(if zfo then amount0_delta l (ss_sqrt_next st) p True
        else amount1_delta l p (ss_sqrt_next st) True) = Inr (ss_amount_in st)"
      "ss_fee_amount st = saturating_sub a (ss_amount_in st)"
proof -
  have fee: "unat (ucast (saturating_sub fee_denominator fee) :: u256) = unat (saturating_sub fee_denominator fee)"
    by (rule unat_ucast_up) simp
  from assms obtain net to n i out f where *:
    "mul_div a (ucast (saturating_sub fee_denominator fee)) 1000000 = Inr net"
    "(if zfo then amount0_delta l t p True else amount1_delta l p t True) = Inr to"
    and ***: "(if to \<le> net then Inr t else if zfo then next_sqrt_price_from_amount0_in p l net
        else next_sqrt_price_from_amount1_in p l net) = Inr n"
    "(if zfo then amount0_delta l n p True else amount1_delta l p n True) = Inr i"
    "(if to \<le> net then mul_div_rounding_up i (ucast fee) (ucast (saturating_sub fee_denominator fee))
      else Inr (saturating_sub a i)) = Inr f"
    and st: "\<lparr>ss_sqrt_next = n, ss_amount_in = i, ss_amount_out = out, ss_fee_amount = f\<rparr> = st"
    unfolding compute_swap_step_def Let_def rbind_Inr_iff
    by (simp del: not_le) (elim exE conjE, rule that, assumption+)
  from *** have **: "(if to \<le> net then Inr t else if zfo then next_sqrt_price_from_amount0_in p l net
        else next_sqrt_price_from_amount1_in p l net) = Inr (ss_sqrt_next st)"
    "(if zfo then amount0_delta l (ss_sqrt_next st) p True
        else amount1_delta l p (ss_sqrt_next st) True) = Inr (ss_amount_in st)"
    "(if to \<le> net then mul_div_rounding_up (ss_amount_in st) (ucast fee)
         (ucast (saturating_sub fee_denominator fee))
      else Inr (saturating_sub a (ss_amount_in st))) = Inr (ss_fee_amount st)"
    by (simp_all only: st [symmetric] swap_step_result.simps)
  have net: "unat net = unat a * unat (saturating_sub fee_denominator fee) div 1000000"
    using *(1) by (simp add: mul_div_iff fee)
  show thesis
  proof (cases "to \<le> net")
    case True
    with **(1) have t: "ss_sqrt_next st = t" by simp
    with **(2) *(2) have "ss_amount_in st = to" by (simp split: if_splits)
    with True reached [OF net *(2)] t **(3) show thesis by simp
  next
    case False
    with inside [OF net *(2)] ** show thesis by simp
  qed
qed

lemma less_fee_le: "unat (saturating_sub fee_denominator fee) \<le> 1000000"
  by (simp add: unat_saturating_sub)

lemma amount_less_fee_le: "unat a * unat (saturating_sub fee_denominator fee) div 1000000 \<le> unat (a :: u256)"
proof -
  have "unat a * unat (saturating_sub fee_denominator fee) \<le> unat a * 1000000"
    by (intro mult_le_mono2 less_fee_le)
  then have "unat a * unat (saturating_sub fee_denominator fee) div 1000000 \<le> unat a * 1000000 div 1000000"
    by (rule div_le_mono)
  then show ?thesis by simp
qed

lemma fee_on_input_fits:
  fixes i a f :: nat
  assumes "f < 1000000" "i \<le> a * (1000000 - f) div 1000000"
  shows "i + div_ceil (i * f) (1000000 - f) \<le> a"
proof -
  have "i * 1000000 \<le> a * (1000000 - f)"
    using assms(2) by (simp add: less_eq_div_iff_mult_less_eq)
  moreover have "i * (1000000 - f) + i * f = i * 1000000"
    using assms(1) by (simp flip: distrib_left)
  ultimately have le: "i * (1000000 - f) + i * f \<le> a * (1000000 - f)" by simp
  then have "i * (1000000 - f) \<le> a * (1000000 - f)" by linarith
  then have "i \<le> a" using assms(1) by simp
  have "i * f \<le> (a - i) * (1000000 - f)"
    using le by (simp add: diff_mult_distrib)
  then have "div_ceil (i * f) (1000000 - f) \<le> a - i"
    using assms(1) by (simp add: div_ceil_le_iff)
  with \<open>i \<le> a\<close> show ?thesis by simp
qed

lemma fee_on_input_fits_word:
  assumes "mul_div_rounding_up i (ucast (fee :: u32)) (ucast (saturating_sub fee_denominator fee)) = Inr f"
    and "unat i \<le> unat (a :: u256) * unat (saturating_sub fee_denominator fee) div 1000000"
  shows "unat i + unat f \<le> unat a"
proof -
  have fee: "unat (ucast w :: u256) = unat w" for w :: u32 by (rule unat_ucast_up) simp
  have "unat fee < 1000000" "unat f = div_ceil (unat i * unat fee) (1000000 - unat fee)"
    using assms(1) by (simp_all add: mul_div_rounding_up_iff fee unat_saturating_sub)
  then show ?thesis
    using assms(2) fee_on_input_fits [of "unat fee" "unat i" "unat a"] by (simp add: unat_saturating_sub)
qed

lemma amount1_inside:
  assumes "next_sqrt_price_from_amount1_in p l a = Inr q" "amount1_delta l p q True = Inr i"
  shows "p \<le> q" "unat i \<le> unat a"
proof -
  have q: "0 < unat l" "unat q = unat p + unat a * 2 ^ 96 div unat l"
    using next_from_amount1D [OF assms(1)] by simp_all
  show "p \<le> q" using q by (simp add: word_le_nat_alt)
  have "unat i = div_ceil (unat l * (unat a * 2 ^ 96 div unat l)) (2 ^ 96)"
    using assms(2) q by (simp add: amount1_delta_iff max_def min_def)
  also have "\<dots> \<le> unat a"
    using q(1) by (intro next_price1_affordable) simp_all
  finally show "unat i \<le> unat a" .
qed

lemma amount0_inside:
  assumes "next_sqrt_price_from_amount0_in p l a = Inr q" "amount0_delta l q p True = Inr i" "0 < p"
  shows "q \<le> p" "unat i \<le> unat a"
proof -
  note n = next_from_amount0D [OF assms(1)]
  have p: "0 < unat p" using assms(3) by (simp add: unat_gt_0 word_gt_0)
  have le: "unat q \<le> unat p" using next_price0_affordable(1) [OF p n(2)] n(3) by simp
  then show "q \<le> p" by (simp add: word_le_nat_alt)
  note d = amount0_delta_upD [OF assms(2) le]
  have "unat l * 2 ^ 96 * (unat p - unat q) \<le> unat a * unat q * unat p"
    using next_price0_affordable(2) [OF p n(2)] n(3) by simp
  then show "unat i \<le> unat a"
    unfolding d(3) using p d(2) by (simp add: amount0_ceil_le_iff)
qed

lemma amount0_delta_pos:
  assumes "amount0_delta l a b True = Inr q"
  shows "0 < a \<and> 0 < b"
proof (cases "unat a \<le> unat b")
  case True
  with amount0_delta_upD(2) [OF assms True] show ?thesis
    by (simp add: word_less_nat_alt)
next
  case False
  then have le: "unat b \<le> unat a" by simp
  have "0 < unat b"
    using assms amount0_delta_upD(2) [OF _ le, of l q] by (simp add: amount0_delta_commute)
  with le show ?thesis by (simp add: word_less_nat_alt)
qed

lemma swap_step_trivial:
  "compute_swap_step p t 0 a fee zfo =
     Inr \<lparr>ss_sqrt_next = p, ss_amount_in = 0, ss_amount_out = 0, ss_fee_amount = 0\<rparr>"
  "compute_swap_step p t l 0 fee zfo =
     Inr \<lparr>ss_sqrt_next = p, ss_amount_in = 0, ss_amount_out = 0, ss_fee_amount = 0\<rparr>"
  by (simp_all add: compute_swap_step_def)

lemma inside_facts:
  assumes "(if zfo then amount0_delta l t p True else amount1_delta l p t True) = Inr to"
    and "(if zfo then next_sqrt_price_from_amount0_in p l net
          else next_sqrt_price_from_amount1_in p l net) = Inr q"
    and "(if zfo then amount0_delta l q p True else amount1_delta l p q True) = Inr i"
  shows "(if zfo then q \<le> p else p \<le> q) \<and> unat i \<le> unat net"
proof (cases zfo)
  case True
  with assms(1) have "0 < p" using amount0_delta_pos by auto
  with True assms(2,3) show ?thesis by (auto dest: amount0_inside)
next
  case False
  with assms(2,3) show ?thesis by (auto dest: amount1_inside)
qed

lemma swap_step_consumes:
  assumes "compute_swap_step p t l a fee zfo = Inr st"
  shows "unat (ss_amount_in st) + unat (ss_fee_amount st) \<le> unat a"
    and "l \<noteq> 0 \<Longrightarrow> ss_sqrt_next st = t \<or>
           unat (ss_amount_in st) + unat (ss_fee_amount st) = unat a"
proof -
  have "unat (ss_amount_in st) + unat (ss_fee_amount st) \<le> unat a \<and>
    (l \<noteq> 0 \<longrightarrow> ss_sqrt_next st = t \<or> unat (ss_amount_in st) + unat (ss_fee_amount st) = unat a)"
  proof (cases "a = 0 \<or> l = 0")
    case True
    with assms show ?thesis by (auto simp: swap_step_trivial)
  next
    case False
    then have ne: "a \<noteq> 0" "l \<noteq> 0" by simp_all
    from assms ne show ?thesis
    proof (cases rule: swap_step_cases)
      case (reached net to)
      have "unat to + unat (ss_fee_amount st) \<le> unat a"
        using reached(1,3) by (intro fee_on_input_fits_word [OF reached(6)]) (simp add: word_le_nat_alt)
      then show ?thesis using reached(4,5) by simp
    next
      case (inside net to)
      have "unat (ss_amount_in st) \<le> unat net" using inside_facts [OF inside(2,4,5)] by simp
      also have "\<dots> \<le> unat a" unfolding inside(1) by (rule amount_less_fee_le)
      finally show ?thesis by (simp add: inside(6) unat_saturating_sub)
    qed
  qed
  then show "unat (ss_amount_in st) + unat (ss_fee_amount st) \<le> unat a"
    and "l \<noteq> 0 \<Longrightarrow> ss_sqrt_next st = t \<or>
           unat (ss_amount_in st) + unat (ss_fee_amount st) = unat a" by simp_all
qed

lemma swap_step_price:
  assumes "compute_swap_step p t l a fee zfo = Inr st" and "if zfo then t \<le> p else p \<le> t"
  shows "if zfo then t \<le> ss_sqrt_next st \<and> ss_sqrt_next st \<le> p
         else p \<le> ss_sqrt_next st \<and> ss_sqrt_next st \<le> t"
proof (cases "a = 0 \<or> l = 0")
  case True
  with assms show ?thesis by (auto simp: swap_step_trivial)
next
  case False
  then have ne: "a \<noteq> 0" "l \<noteq> 0" by simp_all
  from assms(1) ne show ?thesis
  proof (cases rule: swap_step_cases)
    case reached
    with assms(2) show ?thesis by simp
  next
    case (inside net to)
    note dir = inside_facts [OF inside(2,4,5)]
    show ?thesis
    proof (cases zfo)
      case True
      with assms(2) have le: "unat t \<le> unat p" by (simp add: word_le_nat_alt)
      from True inside have to: "amount0_delta l t p True = Inr to"
        and q: "next_sqrt_price_from_amount0_in p l net = Inr (ss_sqrt_next st)" by simp_all
      note d = amount0_delta_upD [OF to le] and n = next_from_amount0D [OF q]
      have "0 < unat p" using d(2) le by simp
      moreover have "unat net * unat t * unat p < unat l * 2 ^ 96 * (unat p - unat t)"
        using inside(3) amount0_ceil_le_iff [OF \<open>0 < unat p\<close> d(2), of "unat l * 2 ^ 96" "unat net"] d(3)
        by (simp add: word_less_nat_alt)
      ultimately have "unat t \<le> unat (ss_sqrt_next st)"
        unfolding n(3) using d(2) le n(2) by (intro next_price0_above_target)
      with dir True show ?thesis by (simp add: word_le_nat_alt)
    next
      case False
      with assms(2) have le: "unat p \<le> unat t" by (simp add: word_le_nat_alt)
      from False inside have to: "amount1_delta l p t True = Inr to"
        and q: "next_sqrt_price_from_amount1_in p l net = Inr (ss_sqrt_next st)" by simp_all
      note n = next_from_amount1D [OF q]
      have "unat to = div_ceil (unat l * (unat t - unat p)) (2 ^ 96)"
        using to le by (simp add: amount1_delta_iff max_def min_def)
      then have "unat (ss_sqrt_next st) \<le> unat t"
        unfolding n(2) using n(1) le inside(3)
        by (intro next_price1_below_target) (simp_all add: word_less_nat_alt)
      with dir False show ?thesis by (simp add: word_le_nat_alt)
    qed
  qed
qed

section \<open>The tick price is total on its range\<close>

text \<open>One round of the ratio loop over the naturals, and the least it can reach.\<close>

definition shrink :: "nat \<Rightarrow> nat \<Rightarrow> nat" where
  "shrink r f = r * f div 2 ^ 128"

lemma shrink_mono: "r \<le> r' \<Longrightarrow> shrink r f \<le> shrink r' f"
  unfolding shrink_def by (intro div_le_mono mult_le_mono1)

lemma shrink_le: "f \<le> 2 ^ 128 \<Longrightarrow> shrink r f \<le> r"
proof -
  assume "f \<le> 2 ^ 128"
  then have "r * f div 2 ^ 128 \<le> r * 2 ^ 128 div 2 ^ 128" by (intro div_le_mono mult_le_mono2)
  then show ?thesis by (simp add: shrink_def)
qed

definition all_shrunk :: "(u32 \<times> u256) list \<Rightarrow> nat \<Rightarrow> nat" where
  "all_shrunk fs r = foldl shrink r (map (\<lambda>(_, f). unat f) fs)"

lemma all_shrunk_simps [simp]:
  "all_shrunk [] r = r"
  "all_shrunk ((m, f) # fs) r = all_shrunk fs (shrink r (unat f))"
  by (simp_all add: all_shrunk_def)

lemma all_shrunk_mono: "r \<le> r' \<Longrightarrow> all_shrunk fs r \<le> all_shrunk fs r'"
  by (induction fs arbitrary: r r') (auto simp: shrink_mono)

lemma unat_drop_bit: "unat (drop_bit k (w :: u256)) = unat w div 2 ^ k"
proof -
  have "take_bit 256 (unat w) = unat w"
    using unat_u256_lt [of w] by (simp only: take_bit_nat_eq_self_iff)
  then show ?thesis unfolding unsigned_drop_bit_eq by (simp add: drop_bit_eq_div)
qed

lemma tick_ratio_loop_total:
  assumes "\<forall>(m, f) \<in> set fs. unat f < 2 ^ 128" and "unat r \<le> 2 ^ 128"
  shows "\<exists>r'. tick_ratio_loop t fs r = Inr r' \<and> unat r' \<le> unat r \<and> all_shrunk fs (unat r) \<le> unat r'"
  using assms
proof (induction t fs r rule: tick_ratio_loop.induct)
  case (1 t r)
  then show ?case by simp
next
  case (2 t m f fs r)
  have f: "unat f < 2 ^ 128" using "2.prems" by simp
  have rest: "\<forall>(m, f) \<in> set fs. unat f < 2 ^ 128" using "2.prems" by simp
  have le: "shrink (unat r) (unat f) \<le> unat r" using f by (intro shrink_le) simp
  show ?case
  proof (cases "t AND m \<noteq> 0")
    case True
    have "unat r * unat f \<le> 2 ^ 128 * (2 ^ 128 - 1)"
      using "2.prems"(2) f by (intro mult_le_mono) simp_all
    then have lt: "unat r * unat f < 2 ^ 256" by simp
    let ?x = "drop_bit 128 (r * f)"
    have step: "map_option (drop_bit 128) (checked_mul r f) = Some ?x"
      using lt by (simp add: checked_mul_def)
    have x: "unat ?x = shrink (unat r) (unat f)"
      using lt unfolding shrink_def unat_drop_bit by (simp add: unat_word_mult)
    have small: "unat ?x \<le> 2 ^ 128" using x le "2.prems"(2) by (simp del: One_nat_def)
    have ok: "ok_or (map_option (drop_bit 128) (checked_mul r f)) (Quote ''tick ratio overflow'') = Inr ?x"
      unfolding step by simp
    from "2.IH"(1) [OF True rest small]
    obtain r' where r': "tick_ratio_loop t fs ?x = Inr r'" "unat r' \<le> unat ?x"
        "all_shrunk fs (unat ?x) \<le> unat r'" by blast
    have "tick_ratio_loop t ((m, f) # fs) r = Inr r'"
      using True r'(1) by (simp only: tick_ratio_loop.simps ok rbind_simps simp_thms if_True)
    moreover have "unat r' \<le> unat r" using r'(2) x le by simp
    moreover have "all_shrunk ((m, f) # fs) (unat r) \<le> unat r'" using r'(3) x by simp
    ultimately show ?thesis by blast
  next
    case False
    then obtain r' where "tick_ratio_loop t fs r = Inr r'" "unat r' \<le> unat r"
        "all_shrunk fs (unat r) \<le> unat r'"
      using "2.IH"(2) rest "2.prems"(2) by auto
    with False le show ?thesis using all_shrunk_mono [OF le, of fs] by auto
  qed
qed

lemma tick_ratio_factors_small: "\<forall>(m, f) \<in> set tick_ratio_factors. unat f < 2 ^ 128"
  by (simp add: tick_ratio_factors_def)

lemma all_shrunk_positive: "0 < all_shrunk tick_ratio_factors 0xfffcb933bd6fad37aa2d162d1a594001"
  by (simp add: tick_ratio_factors_def shrink_def)

lemma tick_ratio_range:
  assumes "start = (if b then 0xfffcb933bd6fad37aa2d162d1a594001 else push_bit 128 1)"
  obtains r where "tick_ratio_loop t tick_ratio_factors start = Inr r" "0 < unat r" "unat r \<le> 2 ^ 128"
proof -
  have s: "0xfffcb933bd6fad37aa2d162d1a594001 \<le> unat start" "unat start \<le> 2 ^ 128"
    by (simp_all add: assms)
  from tick_ratio_loop_total [OF tick_ratio_factors_small s(2), of t] obtain r where
    r: "tick_ratio_loop t tick_ratio_factors start = Inr r" "unat r \<le> unat start"
      "all_shrunk tick_ratio_factors (unat start) \<le> unat r" by blast
  have "0 < unat r"
    using all_shrunk_positive all_shrunk_mono [OF s(1), of tick_ratio_factors] r(3) by linarith
  moreover have "unat r \<le> 2 ^ 128" using r(2) s(2) by simp
  ultimately show thesis using r(1) that by blast
qed

lemma tick_ratio_const:
  "sqrt_ratio_at_tick 0 = Inr 79228162514264337593543950336"
  "sqrt_ratio_at_tick (- 887272) = Inr 4295128739"
  "sqrt_ratio_at_tick 887272 = Inr 1461446703485210103287273052203988822378723970342"
  by (simp_all add: sqrt_ratio_at_tick_def tick_ratio_factors_def unsigned_abs_def checked_mul_def cong: rbind_weak_cong)

end
