(* ===== verification/Uniswap_V3_Walk.thy ===== *)
theory Uniswap_V3_Walk
  imports Uniswap_V3
begin

text \<open>
  What the concentrated-liquidity quoters of theory \<open>Uniswap_V3\<close> guarantee: the walk over the
  ticks counts what it does and spends the input, the walk and the current-range quoter agree
  while no tick is crossed, both quoters meet the quoter interface, and the properties of the
  swap step and the walk.
\<close>

section \<open>What the tick walk keeps\<close>

fun walk_of :: "walk_end \<Rightarrow> swap_walk" where
  "walk_of (Returned w) = w"
| "walk_of (Finished w) = w"

definition used :: "swap_walk \<Rightarrow> nat" where
  "used w = unat (vd_ticks_used (sw_diagnostics w))"

definition crossed :: "swap_walk \<Rightarrow> nat" where
  "crossed w = unat (vd_crossed_ticks (sw_diagnostics w))"

text \<open>\<open>progress n w e\<close>: from \<open>w\<close>, with \<open>n\<close> ticks left, the walk may end as \<open>e\<close>.\<close>

definition progress :: "nat \<Rightarrow> swap_walk \<Rightarrow> walk_end \<Rightarrow> bool" where
  "progress n w e \<longleftrightarrow>
     (let w' = walk_of e in
        crossed w \<le> crossed w' \<and> crossed w' - crossed w \<le> used w' - used w \<and>
        used w \<le> used w' \<and> used w' \<le> used w + n \<and>
        unat (sw_amount_remaining w') \<le> unat (sw_amount_remaining w) \<and>
        unat (sw_amount_out w) \<le> unat (sw_amount_out w') \<and>
        vd_tick_range_exhausted (sw_diagnostics w') = vd_tick_range_exhausted (sw_diagnostics w) \<and>
        (case e of
           Returned w' \<Rightarrow> sw_amount_remaining w' = 0
         | Finished w' \<Rightarrow> sw_amount_remaining w' = 0 \<or> used w' = used w + n))"

lemma unat_Suc_small: "unat (x :: u32) + 1 < 2 ^ 32 \<Longrightarrow> unat (x + 1) = unat x + 1"
  by (simp add: unat_word_ariths)

lemma apply_stepD:
  assumes "apply_step st w = Inr w'"
  shows "sw_amount_remaining w' = saturating_sub (sw_amount_remaining w) (ss_amount_in st + ss_fee_amount st)"
    "unat (ss_amount_in st + ss_fee_amount st) = unat (ss_amount_in st) + unat (ss_fee_amount st)"
    "sw_diagnostics w' = sw_diagnostics w" "sw_sqrt_price w' = ss_sqrt_next st"
    "sw_liquidity w' = sw_liquidity w"
    "unat (sw_amount_out w') = unat (sw_amount_out w) + unat (ss_amount_out st)"
proof -
  obtain c out where *: "checked_add (ss_amount_in st) (ss_fee_amount st) = Some c"
      "checked_add (sw_amount_out w) (ss_amount_out st) = Some out"
    and w': "w' = w\<lparr>sw_amount_remaining := saturating_sub (sw_amount_remaining w) c,
            sw_amount_out := out, sw_sqrt_price := ss_sqrt_next st\<rparr>"
    using assms by (auto simp: apply_step_def)
  have c: "c = ss_amount_in st + ss_fee_amount st" using *(1) by (auto simp: checked_add_def split: if_splits)
  have "unat c = unat (ss_amount_in st) + unat (ss_fee_amount st)" using *(1) by (simp add: arith_iff)
  then show "unat (ss_amount_in st + ss_fee_amount st) = unat (ss_amount_in st) + unat (ss_fee_amount st)"
    using c by simp
  show "unat (sw_amount_out w') = unat (sw_amount_out w) + unat (ss_amount_out st)"
    using *(2) w' by (simp add: arith_iff)
qed (use assms in \<open>auto simp: apply_step_def checked_add_def split: if_splits\<close>)

lemma cross_tickD:
  assumes "cross_tick zfo t w = Inr w'"
  shows "sw_amount_remaining w' = sw_amount_remaining w" "sw_amount_out w' = sw_amount_out w"
    "sw_diagnostics w' = sw_diagnostics (count_crossing w)" "sw_sqrt_price w' = sw_sqrt_price w"
  using assms by (auto simp: cross_tick_def count_crossing_def)

lemma counters [simp]:
  "used w + 1 < 2 ^ 32 \<Longrightarrow> used (count_tick w) = used w + 1"
  "crossed w + 1 < 2 ^ 32 \<Longrightarrow> crossed (count_crossing w) = crossed w + 1"
  "crossed (count_tick w) = crossed w" "used (count_crossing w) = used w"
  by (simp_all add: used_def crossed_def count_tick_def count_crossing_def unat_Suc_small)

lemma diagnostics_of:
  "sw_diagnostics w' = sw_diagnostics w \<Longrightarrow> used w' = used w"
  "sw_diagnostics w' = sw_diagnostics w \<Longrightarrow> crossed w' = crossed w"
  by (simp_all add: used_def crossed_def)

lemma count_exhausted [simp]:
  "vd_tick_range_exhausted (sw_diagnostics (count_tick w)) = vd_tick_range_exhausted (sw_diagnostics w)"
  "vd_tick_range_exhausted (sw_diagnostics (count_crossing w)) = vd_tick_range_exhausted (sw_diagnostics w)"
  "sw_amount_remaining (count_tick w) = sw_amount_remaining w"
  "sw_amount_out (count_tick w) = sw_amount_out w"
  "sw_liquidity (count_tick w) = sw_liquidity w"
  "sw_sqrt_price (count_tick w) = sw_sqrt_price w"
  by (simp_all add: count_tick_def count_crossing_def)

text \<open>One tick that is reached, whether liquidity was spent on the way or not.\<close>

lemma progress_crossing:
  assumes "progress n w1 e"
    and "used w1 = used w + 1" "crossed w1 = crossed w + 1"
    and "unat (sw_amount_remaining w1) \<le> unat (sw_amount_remaining w)"
    and "unat (sw_amount_out w) \<le> unat (sw_amount_out w1)"
    and "vd_tick_range_exhausted (sw_diagnostics w1) = vd_tick_range_exhausted (sw_diagnostics w)"
  shows "progress (Suc n) w e"
  using assms by (auto simp: progress_def Let_def split: walk_end.splits)

lemma tick_loop_progress:
  assumes "tick_loop zfo fee ts w = Inr e"
    and "used w + length ts < 2 ^ 32" "crossed w \<le> used w"
  shows "progress (length ts) w e"
  using assms
proof (induction ts arbitrary: w)
  case Nil
  then show ?case by (auto simp: progress_def)
next
  case (Cons t ts)
  show ?case
  proof (cases "sw_amount_remaining w = 0")
    case True
    with Cons.prems show ?thesis by (auto simp: progress_def)
  next
    case False
    then obtain target where target: "sqrt_ratio_at_tick (ts_tick t) = Inr target"
      using Cons.prems(1) by auto
    show ?thesis
    proof (cases "sw_liquidity w = 0")
      case True
      with False target Cons.prems(1) obtain w1 where
        w1: "cross_tick zfo t ((count_tick w)\<lparr>sw_sqrt_price := target\<rparr>) = Inr w1"
          "tick_loop zfo fee ts w1 = Inr e"
        by auto
      have d: "sw_diagnostics w1 = sw_diagnostics (count_crossing (count_tick w))"
        using cross_tickD(3) [OF w1(1)] by (simp add: count_crossing_def)
      have counts: "used w1 = used w + 1" "crossed w1 = crossed w + 1"
        using diagnostics_of [OF d] Cons.prems(2,3) by simp_all
      have p: "progress (length ts) w1 e"
        using Cons.IH [OF w1(2)] counts Cons.prems(2,3) by simp
      have "progress (Suc (length ts)) w e"
        by (rule progress_crossing [OF p]) (use counts cross_tickD [OF w1(1)] d in simp_all)
      then show ?thesis by simp
    next
      case liq: False
      with False target Cons.prems(1) obtain st w1 where
        st: "compute_swap_step (sw_sqrt_price w) target (sw_liquidity w) (sw_amount_remaining w) fee zfo = Inr st"
        and w1: "apply_step st (count_tick w) = Inr w1"
        and next_: "(if sw_sqrt_price w1 = target
          then rbind (cross_tick zfo t w1) (tick_loop zfo fee ts) else Inr (Returned w1)) = Inr e"
        by auto
      note a = apply_stepD [OF w1]
      have small: "used w + 1 < 2 ^ 32" using Cons.prems(2) by simp
      have counts: "used w1 = used w + 1" "crossed w1 = crossed w"
        using diagnostics_of [OF a(3)] small by simp_all
      have rem: "unat (sw_amount_remaining w1) \<le> unat (sw_amount_remaining w)"
        using a(1) by (simp add: unat_saturating_sub)
      show ?thesis
      proof (cases "sw_sqrt_price w1 = target")
        case True
        with next_ obtain w2 where w2: "cross_tick zfo t w1 = Inr w2" "tick_loop zfo fee ts w2 = Inr e"
          by auto
        note c = cross_tickD [OF w2(1)]
        have counts2: "used w2 = used w + 1" "crossed w2 = crossed w + 1"
          using diagnostics_of [OF c(3)] counts Cons.prems(2,3) by simp_all
        have p: "progress (length ts) w2 e"
          using Cons.IH [OF w2(2)] counts2 Cons.prems(2,3) by simp
        have "progress (Suc (length ts)) w e"
          by (rule progress_crossing [OF p]) (use counts2 c a rem in simp_all)
        then show ?thesis by simp
      next
        case stay: False
        then have e: "e = Returned w1" using next_ by simp
        have "unat (ss_amount_in st) + unat (ss_fee_amount st) = unat (sw_amount_remaining w)"
          using swap_step_consumes(2) [OF st liq] stay a(4) by auto
        then have "unat (sw_amount_remaining w1) = 0"
          using a(1,2) by (simp only: unat_saturating_sub count_exhausted)
        then have "sw_amount_remaining w1 = 0" by (simp add: unat_eq_zero)
        with e counts rem a Cons.prems(3) show ?thesis by (simp add: progress_def)
      qed
    qed
  qed
qed

text \<open>The liquidity after crossing a tick; the code's subtraction stops at zero.\<close>

definition take_up :: "bool \<Rightarrow> tick_state \<Rightarrow> int \<Rightarrow> int" where
  "take_up zfo t l = max 0 (l + sint (crossing_delta zfo t))"

text \<open>
  \<open>walked zfo ts w e n\<close>: from \<open>w\<close> the walk has crossed exactly the first \<open>n\<close> ticks of \<open>ts\<close> when it
  ends as \<open>e\<close>, taking up the net liquidity of each. An early return leaves it short of the next tick,
  which is used but not crossed; otherwise it stands on the last tick it crossed.
\<close>

definition walked :: "bool \<Rightarrow> tick_state list \<Rightarrow> swap_walk \<Rightarrow> walk_end \<Rightarrow> nat \<Rightarrow> bool" where
  "walked zfo ts w e n \<longleftrightarrow> n \<le> length ts \<and> crossed (walk_of e) = crossed w + n \<and>
     int (unat (sw_liquidity (walk_of e))) = fold (take_up zfo) (take n ts) (int (unat (sw_liquidity w))) \<and>
     (case e of
        Returned w' \<Rightarrow> n < length ts \<and> used w' = used w + n + 1 \<and> sw_amount_remaining w' = 0 \<and>
          sqrt_ratio_at_tick (ts_tick (ts ! n)) \<noteq> Inr (sw_sqrt_price w')
      | Finished w' \<Rightarrow> used w' = used w + n \<and> (sw_amount_remaining w' = 0 \<or> n = length ts) \<and>
          (if n = 0 then sw_sqrt_price w' = sw_sqrt_price w
           else sqrt_ratio_at_tick (ts_tick (ts ! (n - 1))) = Inr (sw_sqrt_price w')))"

lemma unat_minus_negative:
  fixes d :: i128
  assumes "sint d < 0"
  shows "int (unat (- d)) = - sint d"
proof -
  have "uint (- d) = (- sint d) mod 2 ^ 128"
    by (simp add: uint_word_ariths uint_sint [of d] take_bit_eq_mod mod_minus_eq)
  moreover have "0 \<le> - sint d" "- sint d < 2 ^ 128"
    using assms sint_greater_eq [of d] by simp_all
  ultimately show ?thesis by (simp add: mod_pos_pos_trivial)
qed

lemma apply_liquidity_delta_value:
  assumes "apply_liquidity_delta l d = Inr l'"
  shows "int (unat l') = max 0 (int (unat l) + sint d)"
proof (cases "sint d < 0")
  case True
  have "unat (ucast (- d) :: u256) = unat (- d)" by (rule unat_ucast_up) simp
  then have "int (unat (ucast (- d) :: u256)) = - sint d" using unat_minus_negative [OF True] by simp
  moreover have "unat l' = unat l - unat (ucast (- d) :: u256)"
    using assms True by (auto simp: apply_liquidity_delta_def unat_saturating_sub)
  ultimately show ?thesis by linarith
next
  case False
  have "unat (ucast d :: u256) = unat d" by (rule unat_ucast_up) simp
  moreover have "sint d = uint d"
    using uint_sint [of d] take_bit_int_eq_self [of "sint d" 128] sint_less [of d] False by simp
  moreover have "unat l' = unat l + unat (ucast d :: u256)"
    using assms False by (auto simp: apply_liquidity_delta_def arith_iff)
  ultimately show ?thesis by simp
qed

lemma cross_tick_liquidity:
  "cross_tick zfo t w = Inr w' \<Longrightarrow>
    int (unat (sw_liquidity w')) = take_up zfo t (int (unat (sw_liquidity w)))"
  by (auto simp: cross_tick_def count_crossing_def take_up_def dest: apply_liquidity_delta_value)

lemma walked_crossing:
  assumes "walked zfo ts w1 e n" and "used w1 = used w + 1" "crossed w1 = crossed w + 1"
    and "int (unat (sw_liquidity w1)) = take_up zfo t (int (unat (sw_liquidity w)))"
    and "sqrt_ratio_at_tick (ts_tick t) = Inr (sw_sqrt_price w1)"
  shows "\<exists>n. walked zfo (t # ts) w e n"
  using assms by (intro exI [of _ "Suc n"]) (auto simp: walked_def nth_Cons' split: walk_end.splits if_splits)

lemma tick_loop_walked:
  assumes "tick_loop zfo fee ts w = Inr e"
    and "used w + length ts < 2 ^ 32" "crossed w \<le> used w"
  shows "\<exists>n. walked zfo ts w e n"
  using assms
proof (induction ts arbitrary: w)
  case Nil
  then show ?case by (auto simp: walked_def)
next
  case (Cons t ts)
  show ?case
  proof (cases "sw_amount_remaining w = 0")
    case True
    with Cons.prems show ?thesis by (auto simp: walked_def)
  next
    case False
    then obtain target where target: "sqrt_ratio_at_tick (ts_tick t) = Inr target"
      using Cons.prems(1) by auto
    have cross: "\<exists>n. walked zfo (t # ts) w e n"
      if w1: "cross_tick zfo t v = Inr w1" "tick_loop zfo fee ts w1 = Inr e"
        and v: "sw_diagnostics v = sw_diagnostics (count_tick w)" "sw_liquidity v = sw_liquidity w" "sw_sqrt_price v = target"
      for v w1
    proof -
      have counts: "used w1 = used w + 1" "crossed w1 = crossed w + 1"
        using diagnostics_of [OF cross_tickD(3) [OF w1(1)]] diagnostics_of [OF v(1)] Cons.prems(2,3) by simp_all
      then obtain n where "walked zfo ts w1 e n"
        using Cons.IH [OF w1(2)] Cons.prems(2,3) by auto
      then show ?thesis
        by (rule walked_crossing) (use counts cross_tick_liquidity [OF w1(1)] cross_tickD(4) [OF w1(1)] v target in simp_all)
    qed
    show ?thesis
    proof (cases "sw_liquidity w = 0")
      case True
      with False target Cons.prems(1) obtain w1 where
        "cross_tick zfo t ((count_tick w)\<lparr>sw_sqrt_price := target\<rparr>) = Inr w1" "tick_loop zfo fee ts w1 = Inr e"
        by auto
      then show ?thesis by (rule cross) simp_all
    next
      case liq: False
      with False target Cons.prems(1) obtain st w1 where
        st: "compute_swap_step (sw_sqrt_price w) target (sw_liquidity w) (sw_amount_remaining w) fee zfo = Inr st"
        and w1: "apply_step st (count_tick w) = Inr w1"
        and next_: "(if sw_sqrt_price w1 = target
          then rbind (cross_tick zfo t w1) (tick_loop zfo fee ts) else Inr (Returned w1)) = Inr e"
        by auto
      note a = apply_stepD [OF w1]
      show ?thesis
      proof (cases "sw_sqrt_price w1 = target")
        case True
        with next_ obtain w2 where "cross_tick zfo t w1 = Inr w2" "tick_loop zfo fee ts w2 = Inr e"
          by auto
        then show ?thesis by (rule cross) (use a True in simp_all)
      next
        case stay: False
        then have e: "e = Returned w1" using next_ by simp
        have "progress (length (t # ts)) w e"
          using Cons.prems by (rule tick_loop_progress)
        moreover have "used w1 = used w + 1" "crossed w1 = crossed w"
          using diagnostics_of [OF a(3)] Cons.prems(2) by simp_all
        ultimately have "walked zfo (t # ts) w e 0"
          using e a(5) target stay by (simp add: walked_def progress_def Let_def)
        then show ?thesis ..
      qed
    qed
  qed
qed

text \<open>Both directions are one walk.\<close>

definition simulate_walk :: "bool \<Rightarrow> u256 \<Rightarrow> u256 \<Rightarrow> u256 \<Rightarrow> tick_state list \<Rightarrow> u32 \<Rightarrow>
    arb_bot_error + (u256 \<times> v3_quote_diagnostics)" where
  "simulate_walk zfo a p l ts fee =
     rbind (tick_loop zfo fee ts (start_walk a p l)) (finish_walk zfo (if zfo then 1 else - 1) fee)"

lemma simulate_both:
  "simulate_zero_for_one a p l c ticks fee = simulate_walk True a p l (ticks_below c ticks) fee"
  "simulate_one_for_zero a p l c ticks fee = simulate_walk False a p l (ticks_above c ticks) fee"
  by (simp_all add: simulate_zero_for_one_def simulate_one_for_zero_def simulate_walk_def)

lemma start_walk_simps [simp]:
  "used (start_walk a p l) = 0" "crossed (start_walk a p l) = 0"
  "sw_amount_remaining (start_walk a p l) = a" "sw_liquidity (start_walk a p l) = l"
  "sw_sqrt_price (start_walk a p l) = p" "sw_amount_out (start_walk a p l) = 0"
  "\<not> vd_tick_range_exhausted (sw_diagnostics (start_walk a p l))"
  by (simp_all add: start_walk_def no_diagnostics_def used_def crossed_def)

lemma finish_walkD:
  assumes "finish_walk zfo limit fee e = Inr (out, d)"
  shows "unat (vd_ticks_used d) = used (walk_of e)" "unat (vd_crossed_ticks d) = crossed (walk_of e)"
    "unat (sw_amount_out (walk_of e)) \<le> unat out"
    "\<not> vd_tick_range_exhausted (sw_diagnostics (walk_of e)) \<Longrightarrow> vd_tick_range_exhausted d \<longleftrightarrow>
       (\<exists>w. e = Finished w \<and> sw_amount_remaining w \<noteq> 0 \<and> sw_liquidity w \<noteq> 0)"
  using assms
  by (auto simp: finish_walk_def used_def crossed_def arith_iff split: walk_end.splits if_splits)

lemma simulate_progress:
  assumes "simulate_walk zfo a p l ts fee = Inr (out, d)" and "length ts < 2 ^ 32"
  obtains e where "tick_loop zfo fee ts (start_walk a p l) = Inr e"
    "finish_walk zfo (if zfo then 1 else - 1) fee e = Inr (out, d)"
    "progress (length ts) (start_walk a p l) e"
  using assms tick_loop_progress [of zfo fee ts "start_walk a p l"]
  by (auto simp: simulate_walk_def)

lemma simulate_diagnostics:
  assumes "simulate_walk zfo a p l ts fee = Inr (out, d)" and "length ts < 2 ^ 32"
  shows "unat (vd_crossed_ticks d) \<le> unat (vd_ticks_used d) \<and> unat (vd_ticks_used d) \<le> length ts \<and>
    (vd_tick_range_exhausted d \<longrightarrow> unat (vd_ticks_used d) = length ts)"
proof -
  from assms obtain e where e: "finish_walk zfo (if zfo then 1 else - 1) fee e = Inr (out, d)"
    "progress (length ts) (start_walk a p l) e" by (rule simulate_progress)
  then show ?thesis
    using finish_walkD [OF e(1)] by (auto simp: progress_def Let_def)
qed

lemma length_ticks_le: "length (ticks_below c ts) \<le> length ts" "length (ticks_above c ts) \<le> length ts"
  by (simp_all add: ticks_below_def ticks_above_def)

section \<open>Agreement with the quoter of the current range\<close>

lemma swap_step_inside_out:
  assumes "compute_swap_step p t l a fee zfo = Inr st" "ss_sqrt_next st \<noteq> t" "l \<noteq> 0" "a \<noteq> 0"
  shows "\<exists>net. mul_div a (ucast (saturating_sub fee_denominator fee)) (ucast fee_denominator) = Inr net \<and>
    (if zfo then next_sqrt_price_from_amount0_in p l net
     else next_sqrt_price_from_amount1_in p l net) = Inr (ss_sqrt_next st) \<and>
    (if zfo then amount1_delta l (ss_sqrt_next st) p False
     else amount0_delta l p (ss_sqrt_next st) False) = Inr (ss_amount_out st)"
  using assms unfolding compute_swap_step_def Let_def rbind_Inr_iff
  by (cases zfo) (auto split: if_splits)

lemma quote_zero_net:
  assumes "(if zfo then next_sqrt_price_from_amount0_in p l 0
     else next_sqrt_price_from_amount1_in p l 0) = Inr n"
    and "(if zfo then amount1_delta l n p False else amount0_delta l p n False) = Inr out"
    and "l \<noteq> 0"
  shows "out = 0"
proof -
  have "unat n = unat p"
  proof (cases zfo)
    case True
    with assms(1) have n: "next_sqrt_price_from_amount0_in p l 0 = Inr n" by simp
    have "0 < unat l * 2 ^ 96" using assms(3) by (simp add: unat_gt_0)
    then have "div_ceil (unat l * 2 ^ 96 * unat p) (unat l * 2 ^ 96) = unat p"
      by (simp add: div_ceil_def)
    then show ?thesis using next_from_amount0D(3) [OF n] by simp
  next
    case False
    with assms(1) next_from_amount1D(2) [of p l 0 n] show ?thesis by simp
  qed
  then have "n = p" by (simp add: word_eq_iff_unat [of n p])
  with assms(2) have "unat out = 0"
    by (cases zfo) (auto simp: amount1_delta_iff dest: amount0_delta_downD)
  then show ?thesis by (simp add: unat_eq_zero)
qed

definition current_range_out :: "bool \<Rightarrow> u256 \<Rightarrow> u256 \<Rightarrow> u256 \<Rightarrow> arb_bot_error + u256" where
  "current_range_out zfo a p l = (if zfo then quote_token0_for_token1 a p l else quote_token1_for_token0 a p l)"

lemma current_range_out_inside:
  assumes "(if zfo then next_sqrt_price_from_amount0_in p l net
     else next_sqrt_price_from_amount1_in p l net) = Inr n"
    and "(if zfo then amount1_delta l n p False else amount0_delta l p n False) = Inr out" "l \<noteq> 0"
  shows "current_range_out zfo net p l = Inr out"
proof (cases "net = 0")
  case True
  with assms(1) have "(if zfo then next_sqrt_price_from_amount0_in p l 0
     else next_sqrt_price_from_amount1_in p l 0) = Inr n" by (simp only:)
  then have "out = 0" using assms(2,3) by (rule quote_zero_net)
  with True show ?thesis
    by (simp add: current_range_out_def quote_token0_for_token1_def quote_token1_for_token0_def)
next
  case False
  with assms show ?thesis
    by (cases zfo) (simp_all add: current_range_out_def quote_token0_for_token1_def quote_token1_for_token0_def)
qed

lemma first_tick_not_crossed:
  assumes "tick_loop zfo fee (t # ts) w = Inr e" "sw_amount_remaining w \<noteq> 0" "sw_liquidity w \<noteq> 0"
    and "crossed (walk_of e) = 0" "used w + length (t # ts) < 2 ^ 32" "crossed w \<le> used w"
  shows "\<exists>target st w'. e = Returned w' \<and> apply_step st (count_tick w) = Inr w' \<and> ss_sqrt_next st \<noteq> target \<and>
    compute_swap_step (sw_sqrt_price w) target (sw_liquidity w) (sw_amount_remaining w) fee zfo = Inr st"
proof -
  from assms(1-3) obtain target st w1 where
    st: "compute_swap_step (sw_sqrt_price w) target (sw_liquidity w) (sw_amount_remaining w) fee zfo = Inr st"
    and w1: "apply_step st (count_tick w) = Inr w1"
    and next_: "(if sw_sqrt_price w1 = target
      then rbind (cross_tick zfo t w1) (tick_loop zfo fee ts) else Inr (Returned w1)) = Inr e"
    by auto
  note a = apply_stepD [OF w1]
  have "sw_sqrt_price w1 \<noteq> target"
  proof
    assume "sw_sqrt_price w1 = target"
    with next_ obtain w2 where w2: "cross_tick zfo t w1 = Inr w2" "tick_loop zfo fee ts w2 = Inr e"
      by auto
    have counts: "used w2 = used w + 1" "crossed w2 = crossed w + 1"
      using diagnostics_of [OF cross_tickD(3) [OF w2(1)]] diagnostics_of [OF a(3)] assms(5,6) by simp_all
    have "progress (length ts) w2 e"
      by (rule tick_loop_progress [OF w2(2)]) (use counts assms(5,6) in simp_all)
    with counts assms(4) show False by (simp add: progress_def Let_def)
  qed
  with next_ st w1 a(4) show ?thesis by auto
qed

lemma simulate_is_current_range:
  assumes "simulate_walk zfo a p l ts fee = Inr (out, d)" "length ts < 2 ^ 32" "l \<noteq> 0"
    and "vd_crossed_ticks d = 0" "\<not> vd_tick_range_exhausted d"
    and net: "mul_div a (ucast (saturating_sub fee_denominator fee)) (ucast fee_denominator) = Inr net"
  shows "current_range_out zfo net p l = Inr out"
proof -
  let ?w = "start_walk a p l"
  from assms(1,2) obtain e where e: "tick_loop zfo fee ts ?w = Inr e"
    "finish_walk zfo (if zfo then 1 else - 1) fee e = Inr (out, d)" by (rule simulate_progress)
  have crossed: "crossed (walk_of e) = 0" using finish_walkD(2) [OF e(2)] assms(4) by simp
  show ?thesis
  proof (cases "a = 0")
    case True
    then have "e = Finished ?w" using e(1) by (cases ts) simp_all
    with True e(2) have "out = 0" by (simp add: finish_walk_def)
    moreover have "unat net = 0" using True net by (simp add: mul_div_iff)
    then have "net = 0" by (simp add: unat_eq_zero)
    ultimately show ?thesis
      by (simp add: current_range_out_def quote_token0_for_token1_def quote_token1_for_token0_def)
  next
    case False
    show ?thesis
    proof (cases ts)
      case Nil
      with e have "e = Finished ?w" by simp
      with e(2) False assms(3,5) show ?thesis by (auto simp: finish_walk_def)
    next
      case (Cons t ts')
      with False e(1) crossed assms(2,3) obtain target st w' where *: "e = Returned w'"
        "apply_step st (count_tick ?w) = Inr w'" "ss_sqrt_next st \<noteq> target"
        "compute_swap_step p target l a fee zfo = Inr st"
        using first_tick_not_crossed [of zfo fee t ts' ?w e] by auto
      have "unat out = unat (ss_amount_out st)"
        using apply_stepD(6) [OF *(2)] e(2) *(1) by (simp add: finish_walk_def)
      then have "out = ss_amount_out st" by (simp add: word_eq_iff_unat [of out])
      with swap_step_inside_out [OF *(4,3) assms(3) False] net show ?thesis
        by (auto intro: current_range_out_inside [OF _ _ assms(3)])
    qed
  qed
qed

section \<open>The quoter interface\<close>

interpretation v3_current: dex_quoter v3_current_quote_exact_in
  by unfold_locales (auto simp: v3_current_quote_exact_in_def v3_quote_result_def split: if_splits)

interpretation v3_ticks: dex_quoter "\<lambda>p t a. quote_exact_in_with_ticks p ticks t a"
  by unfold_locales
     (auto simp: quote_exact_in_with_ticks_def quote_exact_in_with_ticks_diagnostics_def v3_quote_result_def
       split: if_splits)

section \<open>Properties\<close>

text \<open>C38: A swap step spends at most the remaining input, fee included, and it stops short of the
  target price only when it has spent all of it.\<close>

theorem swap_step_budget:
  assumes "compute_swap_step p t l a fee zfo = Inr st"
  shows "unat (ss_amount_in st) + unat (ss_fee_amount st) \<le> unat a \<and>
    (l = 0 \<or> ss_sqrt_next st = t \<or> unat (ss_amount_in st) + unat (ss_fee_amount st) = unat a)"
  using swap_step_consumes [OF assms] by blast

lemma swap_step_example:
  "compute_swap_step 79228162514264337593543950336 79228162514264337593543950 1000000000000000000 1000000 3000 True
     = Inr \<lparr>ss_sqrt_next = 79228162514185347115517307545, ss_amount_in = 997000, ss_amount_out = 996999,
            ss_fee_amount = 3000\<rparr>"
  by (simp add: compute_swap_step_def mul_div_def u512_to_u256_def amount0_delta_def amount1_delta_def
      ordered_def saturating_sub_def checked_shl_def checked_add_def q96_def div_round_def
      mul_div_rounding_up_def next_sqrt_price_from_amount0_in_def mul_div_rounding_up_u512_def Let_def
      cong: rbind_weak_cong)

theorem swap_step_budget_witness:
  "unat (997000 :: u256) + unat (3000 :: u256) \<le> unat (1000000 :: u256) \<and>
   ((1000000000000000000 :: u256) = 0 \<or> (79228162514185347115517307545 :: u256) = 79228162514264337593543950 \<or>
    unat (997000 :: u256) + unat (3000 :: u256) = unat (1000000 :: u256))"
  using swap_step_budget [OF swap_step_example] by simp

text \<open>C39: A swap step leaves the price between where it was and its target, in both directions.\<close>

theorem swap_step_price_between:
  assumes "compute_swap_step p t l a fee zfo = Inr st" and "if zfo then t \<le> p else p \<le> t"
  shows "min p t \<le> ss_sqrt_next st \<and> ss_sqrt_next st \<le> max p t"
  using swap_step_price [OF assms] assms(2) by (auto split: if_splits)

theorem swap_step_price_between_witness:
  "min (79228162514264337593543950336 :: u256) 79228162514264337593543950 \<le> 79228162514185347115517307545 \<and>
   79228162514185347115517307545 \<le> max (79228162514264337593543950336 :: u256) 79228162514264337593543950"
  using swap_step_price_between [OF swap_step_example] by simp

text \<open>C9: The walk over the initialised ticks is exact. It has crossed the first \<open>n\<close> of them, \<open>n\<close> being
  the number it reports, and its liquidity is the start liquidity with their net liquidities taken up
  in its direction. It returns early only short of the next tick, the one tick used beyond the crossed
  ones, with the whole input spent; otherwise it has used exactly the crossed ticks, its price is that
  of the last one, and the input is spent or every tick is used.\<close>

theorem tick_walk_complete:
  assumes "tick_loop zfo fee ts (start_walk a p l) = Inr e" and "length ts < 2 ^ 32"
  shows "let w = walk_of e; n = crossed w in
    n \<le> length ts \<and> sw_amount_remaining w \<le> a \<and>
    int (unat (sw_liquidity w)) = fold (take_up zfo) (take n ts) (int (unat l)) \<and>
    (case e of
       Returned _ \<Rightarrow> n < length ts \<and> used w = n + 1 \<and> sw_amount_remaining w = 0 \<and>
         sqrt_ratio_at_tick (ts_tick (ts ! n)) \<noteq> Inr (sw_sqrt_price w)
     | Finished _ \<Rightarrow> used w = n \<and> (sw_amount_remaining w = 0 \<or> n = length ts) \<and>
         (if n = 0 then sw_sqrt_price w = p
          else sqrt_ratio_at_tick (ts_tick (ts ! (n - 1))) = Inr (sw_sqrt_price w)))"
proof -
  obtain n where n: "walked zfo ts (start_walk a p l) e n"
    using tick_loop_walked [OF assms(1)] assms(2) by auto
  have "progress (length ts) (start_walk a p l) e"
    using tick_loop_progress [OF assms(1)] assms(2) by simp
  then have "sw_amount_remaining (walk_of e) \<le> a" by (simp add: progress_def Let_def word_le_nat_alt)
  moreover have "crossed (walk_of e) = n" using n by (simp add: walked_def)
  ultimately show ?thesis using n by (auto simp: walked_def Let_def split: walk_end.splits)
qed

lemmas v3_eval =
  compute_swap_step_def mul_div_def u512_to_u256_def amount0_delta_def amount1_delta_def
  ordered_def saturating_sub_def checked_shl_def checked_add_def checked_mul_def q96_def div_round_def
  mul_div_rounding_up_def next_sqrt_price_from_amount0_in_def next_sqrt_price_from_amount1_in_def
  mul_div_rounding_up_u512_def Let_def

definition example_v3_pool :: pool_state where
  "example_v3_pool = example_pool\<lparr>ps_sqrt_price_x96 := Some 79228162514264337593543950336,
     ps_liquidity := Some 1000000000000000000, ps_tick := Some 0\<rparr>"

lemma tick_loop_example:
  "tick_loop True 3000 [example_tick (- 887272) 5] (start_walk 1000000 79228162514264337593543950336 1000000000000000000)
    = Inr (Returned \<lparr>sw_amount_remaining = 0, sw_sqrt_price = 79228162514185347115517307545,
        sw_liquidity = 1000000000000000000, sw_amount_out = 996999,
        sw_diagnostics = \<lparr>vd_ticks_used = 1, vd_crossed_ticks = 0, vd_tick_range_exhausted = False\<rparr>\<rparr>)"
  by (simp add: example_tick_def tick_ratio_const start_walk_def no_diagnostics_def v3_eval apply_step_def
      count_tick_def cong: rbind_weak_cong)

theorem tick_walk_complete_witness:
  "used (walk_of (Returned \<lparr>sw_amount_remaining = 0, sw_sqrt_price = 79228162514185347115517307545,
        sw_liquidity = 1000000000000000000, sw_amount_out = 996999,
        sw_diagnostics = \<lparr>vd_ticks_used = 1, vd_crossed_ticks = 0, vd_tick_range_exhausted = False\<rparr>\<rparr>)) = 0 + 1"
  using tick_walk_complete [OF tick_loop_example] by (simp add: Let_def crossed_def used_def)

text \<open>C10: While no tick is crossed and the ticks are not exhausted, the quoter that walks the ticks
  and the quoter of the current range return the same quote.\<close>

theorem tick_quote_refines_current:
  assumes "quote_exact_in_with_ticks_diagnostics p ticks t a = Inr (q, d)" and "length ticks < 2 ^ 32"
    and "vd_crossed_ticks d = 0" and "\<not> vd_tick_range_exhausted d"
    and "v3_current_quote_exact_in p t a = Inr q'"
  shows "q = q'"
proof -
  from assms(1) obtain price l c fee where p: "ps_sqrt_price_x96 p = Some price" "ps_liquidity p = Some l"
      "ps_tick p = Some c" "v3_fee_pips p = Inr fee" "ticks \<noteq> []" "\<not> (t \<noteq> ps_token0 p \<and> t \<noteq> ps_token1 p)"
    unfolding quote_exact_in_with_ticks_diagnostics_def by (auto split: if_splits)
  from assms(1) obtain out where q: "q = v3_quote_result a out"
    and sim: "(if t = ps_token0 p then simulate_zero_for_one a price l c ticks fee
       else simulate_one_for_zero a price l c ticks fee) = Inr (out, d)"
    unfolding quote_exact_in_with_ticks_diagnostics_def p ok_or_simps rbind_simps if_not_P [OF p(5)] if_not_P [OF p(6)]
    by (cases "t = ps_token0 p") auto
  from assms(5) p obtain net out' where l: "l \<noteq> 0"
    and net: "mul_div a (ucast (saturating_sub fee_denominator fee)) (ucast fee_denominator) = Inr net"
    and cur: "current_range_out (t = ps_token0 p) net price l = Inr out'" "q' = v3_quote_result a out'"
    unfolding v3_current_quote_exact_in_def current_range_out_def if_not_P [OF p(6)]
    by (cases "t = ps_token0 p") (auto split: if_splits)
  define ts where "ts = (if t = ps_token0 p then ticks_below c ticks else ticks_above c ticks)"
  have len: "length ts < 2 ^ 32"
    using assms(2) length_ticks_le [of c ticks] by (simp add: ts_def)
  have "simulate_walk (t = ps_token0 p) a price l ts fee = Inr (out, d)"
    using sim by (simp add: simulate_both ts_def split: if_splits)
  from simulate_is_current_range [OF this len l assms(3,4) net] cur q show ?thesis by simp
qed

lemma quote_with_ticks_example:
  "quote_exact_in_with_ticks_diagnostics example_v3_pool [example_tick (- 887272) 5] 1 1000000
    = Inr (v3_quote_result 1000000 996999,
           \<lparr>vd_ticks_used = 1, vd_crossed_ticks = 0, vd_tick_range_exhausted = False\<rparr>)"
proof -
  have "ticks_below 0 [example_tick (- 887272) 5] = [example_tick (- 887272) 5]"
    by (simp add: ticks_below_def example_tick_def)
  moreover have "v3_fee_pips example_v3_pool = Inr 3000"
    by (simp add: v3_fee_pips_def example_v3_pool_def example_pool_def)
  ultimately show ?thesis
    by (simp add: quote_exact_in_with_ticks_diagnostics_def simulate_zero_for_one_def tick_loop_example
        finish_walk_def example_v3_pool_def example_pool_def del: rbind_Inr_iff tick_loop.simps)
qed

lemma quote_current_example:
  "v3_current_quote_exact_in example_v3_pool 1 1000000 = Inr (v3_quote_result 1000000 996999)"
  by (simp add: v3_current_quote_exact_in_def example_v3_pool_def example_pool_def v3_fee_pips_def
      quote_token0_for_token1_def v3_eval cong: rbind_weak_cong)

theorem tick_quote_refines_current_witness:
  "v3_quote_result 1000000 996999 = v3_quote_result 1000000 996999 \<and>
   is_ok (v3_current_quote_exact_in example_v3_pool 1 1000000)"
  using tick_quote_refines_current [OF quote_with_ticks_example _ _ _ quote_current_example] quote_current_example
  by simp

end
