(* ===== verification/Effects.thy ===== *)
theory Effects
  imports Types
begin

text \<open>
  Fallible computations of the services. \<open>'a anyhow\<close> is \<open>anyhow::Result\<close>, its error the chain of
  messages with the outermost context first, \<open>err_display\<close> what \<open>err.to_string()\<close> prints and
  \<open>err_alternate\<close> what \<open>{err:#}\<close> prints; \<open>('s, 'a) act\<close> is an async call that reads and writes the outside state
  \<open>'s\<close> (the chain behind the provider, the stores) and may fail, keeping on failure whatever it
  has already written. Third-party functions the code calls are fields of \<open>libs\<close>.
\<close>

type_synonym 'a anyhow = "string list + 'a"
type_synonym ('s, 'a) act = "'s \<Rightarrow> 'a anyhow \<times> 's"

definition with_context :: "string \<Rightarrow> 'a anyhow \<Rightarrow> 'a anyhow" where
  "with_context c r = map_err (\<lambda>e. c # e) r"

definition bail :: "string \<Rightarrow> 'a anyhow" where
  "bail message = Inl [message]"

text \<open>\<open>Option::context\<close>.\<close>

definition ok_or_message :: "'a option \<Rightarrow> string \<Rightarrow> 'a anyhow" where
  "ok_or_message v message = ok_or v [message]"

definition err_display :: "string list \<Rightarrow> string" where
  "err_display e = (case e of [] \<Rightarrow> [] | message # _ \<Rightarrow> message)"

definition err_alternate :: "string list \<Rightarrow> string" where
  "err_alternate e = join_with '': '' e"

lemma bail_iff [simp]: "bail m \<noteq> Inr x"
  by (simp add: bail_def)

lemma rbind_bail: "rbind (bail m) f = bail m"
  by (simp add: bail_def)

lemma ok_or_message_iff [simp]: "ok_or_message v m = Inr x \<longleftrightarrow> v = Some x"
  by (simp add: ok_or_message_def)

lemma ok_or_message_simps [simp]:
  "ok_or_message (Some x) m = Inr x"
  "ok_or_message None m = bail m"
  by (simp_all add: ok_or_message_def bail_def)

lemma with_context_simps [simp]:
  "with_context c (Inr x) = Inr x"
  "with_context c (Inl e) = Inl (c # e)"
  "with_context c r = Inr x \<longleftrightarrow> r = Inr x"
  by (simp_all add: with_context_def)

definition pass :: "'a \<Rightarrow> ('s, 'a) act" where
  "pass x s = (Inr x, s)"

definition fail :: "string \<Rightarrow> ('s, 'a) act" where
  "fail message s = (bail message, s)"

definition lift :: "'a anyhow \<Rightarrow> ('s, 'a) act" where
  "lift r s = (r, s)"

definition bind :: "('s, 'a) act \<Rightarrow> ('a \<Rightarrow> ('s, 'b) act) \<Rightarrow> ('s, 'b) act" where
  "bind m f s = (case m s of (Inl e, s') \<Rightarrow> (Inl e, s') | (Inr x, s') \<Rightarrow> f x s')"

text \<open>\<open>match m.await { Ok(x) => f x, Err(e) => g e }\<close>.\<close>

definition handle :: "('s, 'a) act \<Rightarrow> ('a \<Rightarrow> ('s, 'b) act) \<Rightarrow> (string list \<Rightarrow> ('s, 'b) act) \<Rightarrow> ('s, 'b) act" where
  "handle m f g s = (case m s of (Inl e, s') \<Rightarrow> g e s' | (Inr x, s') \<Rightarrow> f x s')"

definition act_context :: "string \<Rightarrow> ('s, 'a) act \<Rightarrow> ('s, 'a) act" where
  "act_context c m s = (case m s of (r, s') \<Rightarrow> (with_context c r, s'))"

named_theorems act_simps \<open>running the primitive actions\<close>

lemma act_run [act_simps]:
  "pass x s = (Inr x, s)" "fail e s = (bail e, s)" "lift r s = (r, s)"
  by (simp_all add: pass_def fail_def lift_def)

lemma bind_ok: "m s = (Inr x, s1) \<Longrightarrow> bind m f s = f x s1"
  by (simp add: bind_def)

lemma bind_err: "m s = (Inl e, s1) \<Longrightarrow> bind m f s = (Inl e, s1)"
  by (simp add: bind_def)

text \<open>For evaluation: continuations are not simplified before they are entered.\<close>

lemma bind_weak_cong: "m = m' \<Longrightarrow> bind m f = bind m' f"
  by simp

lemma handle_weak_cong: "m = m' \<Longrightarrow> handle m f g = handle m' f g"
  by simp

lemma handle_ok: "m s = (Inr x, s1) \<Longrightarrow> handle m f g s = f x s1"
  by (simp add: handle_def)

lemma handle_err: "m s = (Inl e, s1) \<Longrightarrow> handle m f g s = g e s1"
  by (simp add: handle_def)

lemma bind_Inr_iff:
  "bind m f s = (Inr y, s') \<longleftrightarrow> (\<exists>x s1. m s = (Inr x, s1) \<and> f x s1 = (Inr y, s'))"
  by (auto simp: bind_def split: prod.splits sum.splits)

lemma handle_Inr_iff:
  "handle m f g s = (Inr y, s') \<longleftrightarrow>
     (\<exists>x s1. m s = (Inr x, s1) \<and> f x s1 = (Inr y, s')) \<or> (\<exists>e s1. m s = (Inl e, s1) \<and> g e s1 = (Inr y, s'))"
  by (auto simp: handle_def split: prod.splits sum.splits)

lemma act_context_Inr_iff: "act_context c m s = (Inr y, s') \<longleftrightarrow> m s = (Inr y, s')"
  by (auto simp: act_context_def split: prod.splits)

lemma pass_Inr_iff: "pass x s = (Inr y, s') \<longleftrightarrow> y = x \<and> s' = s"
  by (auto simp: pass_def)

lemma fail_Inr_iff: "fail e s = (Inr y, s') \<longleftrightarrow> False"
  by (simp add: fail_def)

lemma lift_Inr_iff: "lift r s = (Inr y, s') \<longleftrightarrow> r = Inr y \<and> s' = s"
  by (auto simp: lift_def)

lemmas act_Inr = bind_Inr_iff handle_Inr_iff act_context_Inr_iff pass_Inr_iff fail_Inr_iff lift_Inr_iff

section \<open>Third-party functions\<close>

record libs =
  lib_keccak256 :: "u8 list \<Rightarrow> b256"
  lib_hex_encode :: "u8 list \<Rightarrow> string"
  lib_hex_decode :: "string \<Rightarrow> u8 list anyhow"
  lib_from_str_radix :: "string \<Rightarrow> nat \<Rightarrow> u256 anyhow"
  lib_parse_address :: "string \<Rightarrow> address option"

definition text_bytes :: "string \<Rightarrow> u8 list" where
  "text_bytes s = map (\<lambda>c. word_of_nat (of_char c)) s"

text \<open>\<open>trim_start_matches("0x")\<close> strips every leading \<open>0x\<close>.\<close>

fun trim_start_0x :: "string \<Rightarrow> string" where
  "trim_start_0x (c # d # s) = (if c = CHR ''0'' \<and> d = CHR ''x'' then trim_start_0x s else c # d # s)"
| "trim_start_0x s = s"

text \<open>\<open>strip_prefix("0x").unwrap_or(_)\<close> strips one.\<close>

definition strip_prefix_0x :: "string \<Rightarrow> string" where
  "strip_prefix_0x s = (if starts_with s ''0x'' then drop 2 s else s)"

definition code :: "char \<Rightarrow> nat" where
  "code c = of_char c"

definition to_ascii_lowercase :: "string \<Rightarrow> string" where
  "to_ascii_lowercase s = map (\<lambda>c. if 65 \<le> code c \<and> code c \<le> 90 then char_of (code c + 32) else c) s"

text \<open>\<open>str::trim\<close> on the white space of ASCII.\<close>

definition is_ascii_space :: "char \<Rightarrow> bool" where
  "is_ascii_space c \<longleftrightarrow> of_char c \<in> {9, 10, 11, 12, 13, 32 :: nat}"

definition trim :: "string \<Rightarrow> string" where
  "trim s = rev (dropWhile is_ascii_space (rev (dropWhile is_ascii_space s)))"

text \<open>\<open>split\<close> at a character.\<close>

fun split_on :: "char \<Rightarrow> string \<Rightarrow> string list" where
  "split_on sep [] = [[]]"
| "split_on sep (c # cs) =
     (if c = sep then [] # split_on sep cs
      else case split_on sep cs of [] \<Rightarrow> [[c]] | part # parts \<Rightarrow> (c # part) # parts)"

section \<open>The outside world\<close>

record eip1559_fee_suggestion =
  fe_base_fee_per_gas :: u256
  fe_max_fee_per_gas :: u256
  fe_max_priority_fee_per_gas :: u256

record tx_receipt =
  rc_tx_hash :: b256
  rc_success :: bool
  rc_gas_used :: "u256 option"
  rc_effective_gas_price :: "u256 option"
  rc_block_number :: "u64 option"
  rc_raw :: json

text \<open>The transaction \<open>sign_and_send_value\<close> builds, before it is signed.\<close>

record tx_request =
  rq_to :: address
  rq_nonce :: u64
  rq_chain_id :: u64
  rq_gas :: u256
  rq_max_fee_per_gas :: u256
  rq_max_priority_fee_per_gas :: u256
  rq_value :: u256
  rq_data :: "u8 list"

text \<open>The RPC calls of \<open>ChainProvider\<close> the services make; \<open>cp_sign\<close> is the wallet library's
  signature of a request for an account, as the raw transaction text.\<close>

record 's chain_provider =
  cp_eth_call_from :: "address option \<Rightarrow> address \<Rightarrow> string \<Rightarrow> string \<Rightarrow> ('s, string) act"
  cp_estimate_gas :: "address \<Rightarrow> address \<Rightarrow> string \<Rightarrow> ('s, u256) act"
  cp_suggested_eip1559_fee_details :: "('s, eip1559_fee_suggestion) act"
  cp_get_block_number :: "('s, u64) act"
  cp_get_transaction_count :: "address \<Rightarrow> bool \<Rightarrow> ('s, u64) act"
  cp_get_balance :: "address \<Rightarrow> ('s, u256) act"
  cp_get_transaction_receipt :: "b256 \<Rightarrow> ('s, tx_receipt option) act"
  cp_sign :: "address \<Rightarrow> tx_request \<Rightarrow> string anyhow"
  cp_send_raw_transaction :: "string \<Rightarrow> ('s, b256) act"

text \<open>The store traits of \<open>crates/storage/src/lib.rs\<close> the execution manager is generic over.\<close>

record 's execution_stores =
  so_get_lane_state :: "address \<Rightarrow> ('s, eoa_lane_state option) act"
  so_set_lane_state :: "eoa_lane_state \<Rightarrow> ('s, unit) act"
  so_record_transaction :: "tx_result \<Rightarrow> ('s, unit) act"
  so_simulation_calldata :: "uuid \<Rightarrow> ('s, u8 list option) act"
  so_prune_candidates_before_block :: "u64 \<Rightarrow> ('s, nat) act"
  so_pop_candidates :: "nat \<Rightarrow> ('s, candidate list) act"
  so_try_acquire_submission_lock :: "string \<Rightarrow> u64 \<Rightarrow> ('s, bool) act"
  so_get_current_block :: "('s, u64 option) act"
  so_record_opportunities :: "candidate list \<Rightarrow> ('s, unit) act"
  so_enqueue_simulations :: "simulation_result list \<Rightarrow> 's \<Rightarrow> 's"

text \<open>The clock and the source of fresh identifiers.\<close>

record 's ambient =
  am_now :: "'s \<Rightarrow> datetime \<times> 's"
  am_new_uuid :: "'s \<Rightarrow> uuid \<times> 's"

definition infallible :: "('s \<Rightarrow> 'a \<times> 's) \<Rightarrow> ('s, 'a) act" where
  "infallible f s = (case f s of (x, s') \<Rightarrow> (Inr x, s'))"

definition example_libs :: libs where
  "example_libs = \<lparr>lib_keccak256 = (\<lambda>_. 0), lib_hex_encode = (\<lambda>_. []), lib_hex_decode = (\<lambda>_. Inr []),
     lib_from_str_radix = (\<lambda>_ _. Inr 40), lib_parse_address = (\<lambda>_. None)\<rparr>"

definition example_provider :: "'s chain_provider" where
  "example_provider = \<lparr>
     cp_eth_call_from = (\<lambda>_ _ _ _. pass (replicate 64 CHR ''0'')),
     cp_estimate_gas = (\<lambda>_ _ _. pass 100000),
     cp_suggested_eip1559_fee_details =
       pass \<lparr>fe_base_fee_per_gas = 10, fe_max_fee_per_gas = 25, fe_max_priority_fee_per_gas = 2\<rparr>,
     cp_get_block_number = pass 12,
     cp_get_transaction_count = (\<lambda>_ pending. pass (if pending then 8 else 8)),
     cp_get_balance = (\<lambda>_. pass 1000),
     cp_get_transaction_receipt = (\<lambda>_. pass None),
     cp_sign = (\<lambda>_ _. Inr []),
     cp_send_raw_transaction = (\<lambda>_. pass 77)\<rparr>"

lemma example_provider_simps [simp]:
  "cp_eth_call_from example_provider sender b d l = pass (replicate 64 CHR ''0'')"
  "cp_estimate_gas example_provider a b d = pass 100000"
  "cp_suggested_eip1559_fee_details example_provider =
     pass \<lparr>fe_base_fee_per_gas = 10, fe_max_fee_per_gas = 25, fe_max_priority_fee_per_gas = 2\<rparr>"
  "cp_get_block_number example_provider = pass 12"
  "cp_get_transaction_count example_provider a pending = pass 8"
  "cp_get_balance example_provider a = pass 1000"
  "cp_get_transaction_receipt example_provider h = pass None"
  "cp_sign example_provider a rq = Inr []"
  "cp_send_raw_transaction example_provider raw = pass 77"
  by (simp_all add: example_provider_def)

definition example_stores :: "'s execution_stores" where
  "example_stores = \<lparr>so_get_lane_state = (\<lambda>_. pass None), so_set_lane_state = (\<lambda>_. pass ()),
     so_record_transaction = (\<lambda>_. pass ()), so_simulation_calldata = (\<lambda>_. pass None),
     so_prune_candidates_before_block = (\<lambda>_. pass 0), so_pop_candidates = (\<lambda>_. pass []),
     so_try_acquire_submission_lock = (\<lambda>_ _. pass True), so_get_current_block = pass (Some 12),
     so_record_opportunities = (\<lambda>_. pass ()), so_enqueue_simulations = (\<lambda>_ s. s)\<rparr>"

definition example_ambient :: "'s ambient" where
  "example_ambient = \<lparr>am_now = (\<lambda>s. (0, s)), am_new_uuid = (\<lambda>s. (9, s))\<rparr>"

end
