(* ===== verification/Act_Triples.thy ===== *)
theory Act_Triples
  imports Effects
begin

text \<open>
  Reasoning about the actions of \<open>Effects\<close>: a Hoare-style judgement with one postcondition for
  \<open>Ok\<close> and one for \<open>Err\<close>, its rules, and the projections of the state an action leaves alone.
\<close>

section \<open>Triples\<close>

definition triple :: "('s \<Rightarrow> bool) \<Rightarrow> ('s, 'a) act \<Rightarrow> ('a \<Rightarrow> 's \<Rightarrow> bool) \<Rightarrow> ('s \<Rightarrow> bool) \<Rightarrow> bool" where
  "triple P m Q E \<longleftrightarrow> (\<forall>s. P s \<longrightarrow> (case m s of (Inl _, s') \<Rightarrow> E s' | (Inr x, s') \<Rightarrow> Q x s'))"

lemma tripleD:
  assumes "triple P m Q E" "P s" "m s = (r, s')"
  shows "case r of Inl _ \<Rightarrow> E s' | Inr x \<Rightarrow> Q x s'"
  using assms unfolding triple_def by (cases r) force+

lemma triple_ok: "triple P m Q E \<Longrightarrow> P s \<Longrightarrow> m s = (Inr x, s') \<Longrightarrow> Q x s'"
  by (drule (2) tripleD) simp

lemma triple_err: "triple P m Q E \<Longrightarrow> P s \<Longrightarrow> m s = (Inl e, s') \<Longrightarrow> E s'"
  by (drule (2) tripleD) simp

lemma triple_state: "triple P m (\<lambda>_. E) E \<Longrightarrow> P s \<Longrightarrow> E (snd (m s))"
  unfolding triple_def by (cases "m s", cases "fst (m s)") force+

named_theorems triples \<open>structural rules of the triples\<close>

lemma triple_pass: "(\<And>s. P s \<Longrightarrow> Q x s) \<Longrightarrow> triple P (pass x) Q E"
  by (simp add: triple_def pass_def)

lemma triple_fail: "(\<And>s. P s \<Longrightarrow> E s) \<Longrightarrow> triple P (fail m) Q E"
  by (simp add: triple_def fail_def bail_def)

lemma triple_bind [triples]:
  assumes m: "triple P m R E" and f: "\<And>x. triple (R x) (f x) Q E"
  shows "triple P (bind m f) Q E"
  unfolding triple_def
proof (intro allI impI)
  fix s assume "P s"
  obtain r s1 where r: "m s = (r, s1)" by fastforce
  show "case bind m f s of (Inl _, s') \<Rightarrow> E s' | (Inr x, s') \<Rightarrow> Q x s'"
    using tripleD [OF m \<open>P s\<close> r] f r by (cases r) (auto simp: bind_def triple_def)
qed

lemma triple_handle [triples]:
  assumes m: "triple P m R F" and f: "\<And>x. triple (R x) (f x) Q E" and g: "\<And>e. triple F (g e) Q E"
  shows "triple P (handle m f g) Q E"
  unfolding triple_def
proof (intro allI impI)
  fix s assume "P s"
  obtain r s1 where r: "m s = (r, s1)" by fastforce
  show "case handle m f g s of (Inl _, s') \<Rightarrow> E s' | (Inr x, s') \<Rightarrow> Q x s'"
    using tripleD [OF m \<open>P s\<close> r] f g r by (cases r) (auto simp: handle_def triple_def)
qed

lemma triple_weaken:
  assumes "triple P' m Q' E'" "\<And>s. P s \<Longrightarrow> P' s" "\<And>x s. Q' x s \<Longrightarrow> Q x s" "\<And>s. E' s \<Longrightarrow> E s"
  shows "triple P m Q E"
  using assms unfolding triple_def by (fastforce split: prod.splits sum.splits)

lemma triple_pre: "triple P' m Q E \<Longrightarrow> (\<And>s. P s \<Longrightarrow> P' s) \<Longrightarrow> triple P m Q E"
  by (simp add: triple_def)

lemma triple_if: "(b \<Longrightarrow> triple P m Q E) \<Longrightarrow> (\<not> b \<Longrightarrow> triple P m' Q E) \<Longrightarrow> triple P (if b then m else m') Q E"
  by simp

lemma triple_fact: "(\<And>s. P s \<Longrightarrow> A) \<Longrightarrow> (A \<Longrightarrow> triple P m Q E) \<Longrightarrow> triple P m Q E"
  by (auto simp: triple_def)

lemma triple_const: "(A \<Longrightarrow> triple P m Q E) \<Longrightarrow> triple (\<lambda>s. A \<and> P s) m Q E"
  by (auto simp: triple_def)

lemma triple_prod: "(\<And>x y. p = (x, y) \<Longrightarrow> triple P (f x y) Q E) \<Longrightarrow> triple P (case p of (x, y) \<Rightarrow> f x y) Q E"
  by (simp split: prod.split)

lemma triple_option:
  "(o' = None \<Longrightarrow> triple P m Q E) \<Longrightarrow> (\<And>x. o' = Some x \<Longrightarrow> triple P (f x) Q E) \<Longrightarrow>
    triple P (case o' of None \<Rightarrow> m | Some x \<Rightarrow> f x) Q E"
  by (simp split: option.split)

section \<open>What an action yields\<close>

text \<open>Every value the action can return, from any state, has the property.\<close>

definition yields :: "('a \<Rightarrow> bool) \<Rightarrow> ('s, 'a) act \<Rightarrow> bool" where
  "yields Q m \<longleftrightarrow> (\<forall>s x s'. m s = (Inr x, s') \<longrightarrow> Q x)"

named_theorems yields_intros \<open>structural rules of yields\<close>

lemma yieldsD: "yields Q m \<Longrightarrow> m s = (Inr x, s') \<Longrightarrow> Q x"
  by (auto simp: yields_def)

lemma yields_pass [yields_intros]: "Q x \<Longrightarrow> yields Q (pass x)"
  and yields_fail [yields_intros]: "yields Q (fail e)"
  and yields_err [yields_intros]: "yields Q (lift (Inl err))"
  by (simp_all add: yields_def act_Inr)

lemma yields_bind [yields_intros]: "(\<And>x. yields Q (f x)) \<Longrightarrow> yields Q (bind m f)"
  by (auto simp: yields_def act_Inr)

lemma yields_bind_known: "yields P m \<Longrightarrow> (\<And>x. P x \<Longrightarrow> yields Q (f x)) \<Longrightarrow> yields Q (bind m f)"
  unfolding yields_def bind_Inr_iff by blast

lemma yields_handle: "yields P m \<Longrightarrow> (\<And>x. P x \<Longrightarrow> yields Q (f x)) \<Longrightarrow> (\<And>e. yields Q (g e)) \<Longrightarrow> yields Q (handle m f g)"
  unfolding yields_def handle_Inr_iff by blast

lemma yields_if [yields_intros]: "(b \<Longrightarrow> yields Q m) \<Longrightarrow> (\<not> b \<Longrightarrow> yields Q m') \<Longrightarrow> yields Q (if b then m else m')"
  by simp

lemma yields_prod [yields_intros]: "(\<And>x y. yields Q (f x y)) \<Longrightarrow> yields Q (case p of (x, y) \<Rightarrow> f x y)"
  by (cases p) simp

lemma yields_let [yields_intros]: "(\<And>x. x = t \<Longrightarrow> yields Q (f x)) \<Longrightarrow> yields Q (let x = t in f x)"
  by simp

lemma yields_any: "yields (\<lambda>_. True) m"
  by (simp add: yields_def)

lemma yields_mono: "yields P m \<Longrightarrow> (\<And>x. P x \<Longrightarrow> Q x) \<Longrightarrow> yields Q m"
  by (auto simp: yields_def)

section \<open>What an action leaves alone\<close>

definition keeps :: "('s \<Rightarrow> 'v) \<Rightarrow> ('s, 'a) act \<Rightarrow> bool" where
  "keeps v m \<longleftrightarrow> (\<forall>s. v (snd (m s)) = v s)"

named_theorems keeps_intros \<open>actions that leave a projection alone\<close>

lemma keeps_run: "keeps v m \<Longrightarrow> m s = (r, s') \<Longrightarrow> v s' = v s"
  by (metis keeps_def snd_conv)

lemma keeps_snd: "keeps v m \<Longrightarrow> v (snd (m s)) = v s"
  by (simp add: keeps_def)

lemma keeps_pass [keeps_intros]: "keeps v (pass x)"
  and keeps_fail [keeps_intros]: "keeps v (fail e)"
  and keeps_lift [keeps_intros]: "keeps v (lift r)"
  by (simp_all add: keeps_def pass_def fail_def lift_def)

lemma keeps_bind [keeps_intros]:
  assumes "keeps v m" "\<And>x. keeps v (f x)"
  shows "keeps v (bind m f)"
proof -
  have "v (snd (bind m f s)) = v s" for s
    using keeps_snd [OF assms(1), of s] keeps_snd [OF assms(2)]
    by (cases "m s") (auto simp: bind_def split: sum.splits)
  then show ?thesis by (simp add: keeps_def)
qed

lemma keeps_handle [keeps_intros]:
  assumes "keeps v m" "\<And>x. keeps v (f x)" "\<And>e. keeps v (g e)"
  shows "keeps v (handle m f g)"
proof -
  have "v (snd (handle m f g s)) = v s" for s
    using keeps_snd [OF assms(1), of s] keeps_snd [OF assms(2)] keeps_snd [OF assms(3)]
    by (cases "m s") (auto simp: handle_def split: sum.splits)
  then show ?thesis by (simp add: keeps_def)
qed

lemma keeps_context [keeps_intros]: "keeps v m \<Longrightarrow> keeps v (act_context c m)"
  by (auto simp: keeps_def act_context_def split: prod.splits) (metis snd_conv)

lemma keeps_if [keeps_intros]: "(b \<Longrightarrow> keeps v m) \<Longrightarrow> (\<not> b \<Longrightarrow> keeps v m') \<Longrightarrow> keeps v (if b then m else m')"
  by simp

lemma keeps_option [keeps_intros]:
  "keeps v m \<Longrightarrow> (\<And>x. keeps v (f x)) \<Longrightarrow> keeps v (case opt of None \<Rightarrow> m | Some x \<Rightarrow> f x)"
  by (cases opt) simp_all

lemma keeps_prod [keeps_intros]: "(\<And>x y. keeps v (f x y)) \<Longrightarrow> keeps v (case p of (x, y) \<Rightarrow> f x y)"
  by (cases p) simp

lemma keeps_let [keeps_intros]: "(\<And>x. keeps v (f x)) \<Longrightarrow> keeps v (let x = t in f x)"
  by simp

lemma keeps_infallible [keeps_intros]: "(\<And>s. v (snd (f s)) = v s) \<Longrightarrow> keeps v (infallible f)"
  by (simp add: keeps_def infallible_def split: prod.splits) (metis snd_conv)

text \<open>An action that leaves the projection alone has every triple that speaks of it only.\<close>

lemma triple_keeps: "keeps v m \<Longrightarrow> triple (\<lambda>s. P (v s)) m (\<lambda>_ s. P (v s)) (\<lambda>s. P (v s))"
  unfolding triple_def by (auto split: prod.splits sum.splits dest: keeps_run)

lemma triple_after_keeps:
  assumes m: "keeps v m" and f: "\<And>x s s'. m s = (Inr x, s') \<Longrightarrow> triple (\<lambda>s. P (v s)) (f x) Q E"
    and e: "\<And>s. P (v s) \<Longrightarrow> E s"
  shows "triple (\<lambda>s. P (v s)) (bind m f) Q E"
  unfolding triple_def
proof (intro allI impI)
  fix s assume "P (v s)"
  obtain r s1 where r: "m s = (r, s1)" by fastforce
  have "P (v s1)" using keeps_run [OF m r] \<open>P (v s)\<close> by simp
  show "case bind m f s of (Inl _, s') \<Rightarrow> E s' | (Inr x, s') \<Rightarrow> Q x s'"
  proof (cases r)
    case (Inl err)
    with r e [OF \<open>P (v s1)\<close>] show ?thesis by (simp add: bind_def)
  next
    case (Inr x)
    note t = f [OF r [unfolded Inr]]
    show ?thesis
      using t \<open>P (v s1)\<close> r Inr unfolding triple_def bind_def by simp
  qed
qed

lemma triple_handle_keeps:
  assumes m: "keeps v m" and f: "\<And>x s s'. m s = (Inr x, s') \<Longrightarrow> triple (\<lambda>s. P (v s)) (f x) Q E"
    and g: "\<And>e. triple (\<lambda>s. P (v s)) (g e) Q E"
  shows "triple (\<lambda>s. P (v s)) (handle m f g) Q E"
  unfolding triple_def
proof (intro allI impI)
  fix s assume "P (v s)"
  obtain r s1 where r: "m s = (r, s1)" by fastforce
  have "P (v s1)" using keeps_run [OF m r] \<open>P (v s)\<close> by simp
  show "case handle m f g s of (Inl _, s') \<Rightarrow> E s' | (Inr x, s') \<Rightarrow> Q x s'"
  proof (cases r)
    case (Inl err)
    with r g [of err] \<open>P (v s1)\<close> show ?thesis unfolding triple_def handle_def by simp
  next
    case (Inr x)
    note t = f [OF r [unfolded Inr]]
    show ?thesis
      using t \<open>P (v s1)\<close> r Inr unfolding triple_def handle_def by simp
  qed
qed

end
