(* ===== verification/Executor_Abi.thy ===== *)
theory Executor_Abi
  imports Effects
begin

text \<open>
  The ABI encoder of \<open>crates/execution-manager/src/simulator.rs\<close>: words, addresses, dynamic bytes,
  one swap-step tuple, the array of tuples with its offset table. The decoder below follows the
  Solidity ABI layout the executor contract reads, and is the specification of the encoder.
\<close>

section \<open>The encoder\<close>

definition encode_address :: "address \<Rightarrow> u8 list" where
  "encode_address a = replicate 12 0 @ be_bytes 20 (unat a)"

definition encode_u256 :: "u256 \<Rightarrow> u8 list" where
  "encode_u256 v = be_bytes 32 (unat v)"

definition encode_bool :: "bool \<Rightarrow> u8 list" where
  "encode_bool v = encode_u256 (if v then 1 else 0)"

definition encode_bytes :: "u8 list \<Rightarrow> u8 list" where
  "encode_bytes value =
     (let padding = (32 - length value mod 32) mod 32
      in encode_u256 (word_of_nat (length value)) @ value @ replicate padding 0)"

record encoded_swap_step =
  es_dex :: u8
  es_router :: address
  es_pool :: address
  es_token_in :: address
  es_token_out :: address
  es_fee :: u32
  es_stable :: bool
  es_factory :: address
  es_data :: "u8 list"

definition encode_swap_step_tuple :: "encoded_swap_step \<Rightarrow> u8 list" where
  "encode_swap_step_tuple step =
     encode_u256 (ucast (es_dex step)) @ encode_address (es_router step) @ encode_address (es_pool step) @
     encode_address (es_token_in step) @ encode_address (es_token_out step) @
     encode_u256 (ucast (es_fee step)) @ encode_bool (es_stable step) @ encode_address (es_factory step) @
     encode_u256 (9 * 32) @ encode_bytes (es_data step)"

definition usize_max :: nat where
  "usize_max = 2 ^ 64 - 1"

definition usize_checked :: "nat \<Rightarrow> nat anyhow" where
  "usize_checked n = (if n \<le> usize_max then Inr n else bail ''swap step offset overflow'')"

text \<open>The loop that writes the offset table.\<close>

fun encode_offsets :: "nat \<Rightarrow> u8 list list \<Rightarrow> u8 list anyhow" where
  "encode_offsets offset [] = Inr []"
| "encode_offsets offset (step # steps) =
     rbind (usize_checked (offset + length step)) (\<lambda>offset'.
     rbind (encode_offsets offset' steps) (\<lambda>rest.
     Inr (encode_u256 (word_of_nat offset) @ rest)))"

definition encode_swap_steps :: "('a \<Rightarrow> encoded_swap_step anyhow) \<Rightarrow> 'a list \<Rightarrow> u8 list anyhow" where
  "encode_swap_steps encode_step steps =
     rbind (collect_results (\<lambda>step. rbind (encode_step step) (\<lambda>s. Inr (encode_swap_step_tuple s))) steps)
       (\<lambda>encoded_steps.
     rbind (usize_checked (32 * length encoded_steps)) (\<lambda>offset.
     rbind (encode_offsets offset encoded_steps) (\<lambda>table.
     Inr (encode_u256 (word_of_nat (length encoded_steps)) @ table @ concat encoded_steps))))"

section \<open>The decoder of the specification\<close>

definition word_at :: "u8 list \<Rightarrow> nat \<Rightarrow> nat" where
  "word_at bs k = be_value (take 32 (drop k bs))"

definition address_at :: "u8 list \<Rightarrow> nat \<Rightarrow> address" where
  "address_at bs k = word_of_nat (word_at bs k)"

definition bytes_at :: "u8 list \<Rightarrow> nat \<Rightarrow> u8 list" where
  "bytes_at bs k = take (word_at bs k) (drop (k + 32) bs)"

definition decode_tuple :: "u8 list \<Rightarrow> encoded_swap_step" where
  "decode_tuple bs =
     \<lparr>es_dex = word_of_nat (word_at bs 0), es_router = address_at bs 32, es_pool = address_at bs 64,
      es_token_in = address_at bs 96, es_token_out = address_at bs 128,
      es_fee = word_of_nat (word_at bs 160), es_stable = (word_at bs 192 \<noteq> 0),
      es_factory = address_at bs 224, es_data = bytes_at bs (word_at bs 256)\<rparr>"

definition decode_steps :: "u8 list \<Rightarrow> encoded_swap_step list" where
  "decode_steps bs =
     map (\<lambda>i. decode_tuple (drop (32 + word_at bs (32 + 32 * i)) bs)) [0 ..< word_at bs 0]"

section \<open>Round trips of the parts\<close>

lemma length_encode [simp]:
  "length (encode_address a) = 32" "length (encode_u256 v) = 32" "length (encode_bool b) = 32"
  by (simp_all add: encode_address_def encode_u256_def encode_bool_def)

lemma word_at_0 [simp]: "length w = 32 \<Longrightarrow> word_at (w @ bs) 0 = be_value w"
  by (simp add: word_at_def)

lemma drop_word [simp]: "length w = 32 \<Longrightarrow> 32 \<le> k \<Longrightarrow> drop k (w @ bs) = drop (k - 32) bs"
  by simp

lemma word_at_next [simp]: "length w = 32 \<Longrightarrow> 32 \<le> k \<Longrightarrow> word_at (w @ bs) k = word_at bs (k - 32)"
  by (simp add: word_at_def)

lemma be_value_append_zeros: "be_value (replicate n 0 @ bs) = be_value bs"
  by (induction n) simp_all

lemma be_value_encode [simp]:
  "be_value (encode_address a) = unat a" "be_value (encode_u256 v) = unat v"
proof -
  have "be_value (be_bytes 20 (unat a)) = unat a"
    using unat_lt [of a] by (intro be_value_be_bytes_small) simp
  then show "be_value (encode_address a) = unat a" by (simp add: encode_address_def be_value_append_zeros)
  show "be_value (encode_u256 v) = unat v"
    using unat_lt [of v] unfolding encode_u256_def by (intro be_value_be_bytes_small) simp
qed

lemma be_value_encode_bool [simp]: "be_value (encode_bool b) = (if b then 1 else 0)"
  by (simp add: encode_bool_def)

lemma bytes_at_encode_bytes:
  assumes "length value < 2 ^ 256"
  shows "bytes_at (encode_bytes value @ rest) 0 = value"
proof -
  have "unat (word_of_nat (length value) :: u256) = length value"
    using assms by (intro unat_of_nat_small) simp
  then show ?thesis by (simp add: bytes_at_def encode_bytes_def Let_def)
qed

lemma decode_tuple_encode:
  assumes "length (es_data step) < 2 ^ 256"
  shows "decode_tuple (encode_swap_step_tuple step @ rest) = step"
proof -
  have up: "unat (ucast w :: u256) = unat w" for w :: u8 by (rule unat_ucast_up) simp
  have up': "unat (ucast w :: u256) = unat w" for w :: u32 by (rule unat_ucast_up) simp
  have b: "bytes_at (w @ bs) k = bytes_at bs (k - 32)" if "length w = 32" "32 \<le> k" for w bs k
    using that by (simp add: bytes_at_def)
  have "bytes_at (encode_bytes (es_data step) @ rest) 0 = es_data step"
    using assms by (rule bytes_at_encode_bytes)
  then show ?thesis
    by (simp add: decode_tuple_def encode_swap_step_tuple_def address_at_def up up' b)
qed

section \<open>Round trip of the array of steps\<close>

lemma usize_checked_iff [simp]: "usize_checked n = Inr m \<longleftrightarrow> m = n \<and> n \<le> usize_max"
  by (auto simp: usize_checked_def)

lemma unat_usize: "n \<le> usize_max \<Longrightarrow> unat (word_of_nat n :: u256) = n"
  by (intro unat_of_nat_small) (simp add: usize_max_def)

lemma encode_offsets_entries:
  assumes "encode_offsets offset steps = Inr table" "offset \<le> usize_max"
  shows "length table = 32 * length steps"
    and "offset + sum_list (map length steps) \<le> usize_max"
    and "i < length steps \<Longrightarrow>
      word_at (table @ rest) (32 * i) = offset + sum_list (map length (take i steps))"
proof -
  have "length table = 32 * length steps \<and> offset + sum_list (map length steps) \<le> usize_max \<and>
    (\<forall>i < length steps. word_at (table @ rest) (32 * i) = offset + sum_list (map length (take i steps)))"
    using assms
  proof (induction offset steps arbitrary: table rule: encode_offsets.induct)
    case (1 offset)
    then show ?case by simp
  next
    case (2 offset step steps)
    then obtain t where t: "encode_offsets (offset + length step) steps = Inr t"
        "table = encode_u256 (word_of_nat offset) @ t" "offset + length step \<le> usize_max"
      by auto
    note IH = "2.IH" [OF t(1) t(3)]
    have off: "unat (word_of_nat offset :: u256) = offset" using "2.prems"(2) by (rule unat_usize)
    have "word_at (table @ rest) (32 * i) = offset + sum_list (map length (take i (step # steps)))"
      if "i < length (step # steps)" for i
    proof (cases i)
      case 0
      with t(2) off show ?thesis by simp
    next
      case (Suc j)
      with IH that t(2,3) show ?thesis by (simp add: algebra_simps)
    qed
    with IH t show ?case by simp
  qed
  then show "length table = 32 * length steps" "offset + sum_list (map length steps) \<le> usize_max"
    "i < length steps \<Longrightarrow> word_at (table @ rest) (32 * i) = offset + sum_list (map length (take i steps))"
    by blast+
qed

lemma drop_concat: "drop (sum_list (map length (take i xss))) (concat xss @ rest) = concat (drop i xss) @ rest"
proof -
  have "concat xss = concat (take i xss) @ concat (drop i xss)"
    by (metis append_take_drop_id concat_append)
  moreover have "length (concat (take i xss)) = sum_list (map length (take i xss))"
    by (rule length_concat)
  ultimately show ?thesis by (metis append_assoc append_eq_conv_conj)
qed

lemma length_le_sum: "x \<in> set xs \<Longrightarrow> length x \<le> sum_list (map length xs)"
  by (induction xs) auto

lemma encode_swap_steps_roundtrip:
  assumes "encode_swap_steps f steps = Inr bs" "collect_results f steps = Inr es"
  shows "decode_steps (bs @ rest) = es"
proof -
  let ?encs = "map encode_swap_step_tuple es"
  from assms(2) have "collect_results (\<lambda>s. rbind (f s) (\<lambda>e. Inr (encode_swap_step_tuple e))) steps = Inr ?encs"
    by (rule collect_results_map)
  with assms(1) obtain table where t: "encode_offsets (32 * length es) ?encs = Inr table"
      "32 * length es \<le> usize_max"
      "bs = encode_u256 (word_of_nat (length es)) @ table @ concat ?encs"
    by (auto simp: encode_swap_steps_def)
  note o = encode_offsets_entries [OF t(1,2)]
  have n: "unat (word_of_nat (length es) :: u256) = length es" using t(2) by (intro unat_usize) simp
  have count: "word_at (bs @ rest) 0 = length es" using t(3) n by simp
  have "decode_tuple (drop (32 + word_at (bs @ rest) (32 + 32 * i)) (bs @ rest)) = es ! i"
    if i: "i < length es" for i
  proof -
    have w: "word_at (bs @ rest) (32 + 32 * i) = 32 * length es + sum_list (map length (take i ?encs))"
      using o(3) [of i "concat ?encs @ rest"] i t(3) by simp
    have "drop (32 + word_at (bs @ rest) (32 + 32 * i)) (bs @ rest) =
        drop (sum_list (map length (take i ?encs))) (concat ?encs @ rest)"
      unfolding w using o(1) t(3) by simp
    also have "\<dots> = concat (drop i ?encs) @ rest" by (rule drop_concat)
    also have "\<dots> = encode_swap_step_tuple (es ! i) @ concat (drop (Suc i) ?encs) @ rest"
      using i by (simp flip: Cons_nth_drop_Suc)
    finally have d: "drop (32 + word_at (bs @ rest) (32 + 32 * i)) (bs @ rest) =
      encode_swap_step_tuple (es ! i) @ concat (drop (Suc i) ?encs) @ rest" .
    have "length (encode_swap_step_tuple (es ! i)) \<le> sum_list (map length ?encs)"
      using i by (intro length_le_sum) simp
    then have "length (es_data (es ! i)) < 2 ^ 256"
      using o(2) by (simp add: encode_swap_step_tuple_def encode_bytes_def Let_def usize_max_def)
    then show ?thesis unfolding d by (rule decode_tuple_encode)
  qed
  then show ?thesis unfolding decode_steps_def count by (intro nth_equalityI) simp_all
qed

end
