(* ===== verification/Settings.thy ===== *)
theory Settings
  imports Effects
begin

text \<open>
  The settings of \<open>crates/common/src/config.rs\<close> that the modelled components read, and the
  contract addresses of \<open>crates/common/src/constants.rs\<close>. Settings of connections, refresh
  timers and other services are not read by any modelled function and are left out.
\<close>

record settings =
  cfg_chain_id :: u64
  cfg_weth_address :: address
  cfg_aerodrome_router :: "address option"
  cfg_aerodrome_pool_factory :: "address option"
  cfg_aerodrome_slipstream_router :: "address option"
  cfg_aerodrome_slipstream_factory :: "address option"
  cfg_uniswap_v3_factory :: "address option"
  cfg_uniswap_v3_router :: "address option"
  cfg_uniswap_v4_pool_manager :: "address option"
  cfg_uniswap_v4_adapter :: "address option"
  cfg_balancer_v3_vault :: "address option"
  cfg_balancer_v3_router :: "address option"
  cfg_balancer_v3_adapter :: "address option"
  cfg_pancake_v3_factory :: "address option"
  cfg_pancake_v3_router :: "address option"
  cfg_executor_contract :: "address option"
  cfg_executor_contract_2hop :: "address option"
  cfg_executor_contract_multihop :: "address option"
  cfg_search_amount_usdc :: "string option"
  cfg_candidate_ttl_ms :: int
  cfg_max_pool_state_age_ms :: int
  cfg_max_price_impact_bps :: u64
  cfg_searcher_multihop_enabled :: bool
  cfg_v3_quote_safety_bps :: u64
  cfg_quote_max_state_block_lag :: u64
  cfg_searcher_balancer_v3_runtime_quote_enabled :: bool
  cfg_searcher_config_refresh_secs :: u64
  cfg_execution_min_priority_fee_wei :: "string option"
  cfg_execution_priority_fee_multiplier_bps :: u64
  cfg_execution_max_fee_multiplier_bps :: u64
  cfg_execution_pending_replacement_blocks :: u64
  cfg_execution_replacement_fee_bump_bps :: u64
  cfg_execution_max_replacements :: u32
  cfg_execution_max_candidate_lag_blocks :: u64
  cfg_execution_submit_enabled :: bool
  cfg_execution_auto_approve_enabled :: bool
  cfg_execution_failure_rate_min_txs :: u64
  cfg_execution_min_success_rate_bps :: u64

definition aerodrome_classic_factory :: address where
  "aerodrome_classic_factory = 0x420DD381b31aEf6683db6B902084cB0FFECe40Da"

definition uniswap_v2_factory :: address where
  "uniswap_v2_factory = 0x8909dc15e40173ff4699343b6eb8132c65e18ec6"

definition aerodrome_slipstream_factories :: "address list" where
  "aerodrome_slipstream_factories =
     [0x5e7BB104d84c7CB9B682AaC2F3d509f5F406809A, 0xaDe65c38CD4849aDBA595a4323a8C7DdfE89716a]"

definition aerodrome_slipstream_router :: address where
  "aerodrome_slipstream_router = 0xBE6D8f0d05cC4be24d5167a3eF062215bE6D18a5"

definition uniswap_v3_factory :: address where
  "uniswap_v3_factory = 0x33128a8fC17869897dcE68Ed026d694621f6FDfD"

definition pancake_v3_factory :: address where
  "pancake_v3_factory = 0x0BFbCF9fa4f9C56B0F40a671Ad40E0805A091865"

definition pancake_v3_router :: address where
  "pancake_v3_router = 0x1b81D678ffb9C0263b24A97847620C99d213eB14"

definition example_settings :: settings where
  "example_settings = \<lparr>
     cfg_chain_id = 8453, cfg_weth_address = 0x4200000000000000000000000000000000000006,
     cfg_aerodrome_router = Some 11, cfg_aerodrome_pool_factory = None,
     cfg_aerodrome_slipstream_router = None, cfg_aerodrome_slipstream_factory = None,
     cfg_uniswap_v3_factory = None, cfg_uniswap_v3_router = Some 12,
     cfg_uniswap_v4_pool_manager = None, cfg_uniswap_v4_adapter = None,
     cfg_balancer_v3_vault = None, cfg_balancer_v3_router = None, cfg_balancer_v3_adapter = None,
     cfg_pancake_v3_factory = None, cfg_pancake_v3_router = None,
     cfg_executor_contract = Some 13, cfg_executor_contract_2hop = Some 14,
     cfg_executor_contract_multihop = Some 15,
     cfg_search_amount_usdc = None, cfg_candidate_ttl_ms = 500, cfg_max_pool_state_age_ms = 604800000, cfg_max_price_impact_bps = 100,
     cfg_searcher_multihop_enabled = True, cfg_v3_quote_safety_bps = 10, cfg_quote_max_state_block_lag = 0,
     cfg_searcher_balancer_v3_runtime_quote_enabled = False, cfg_searcher_config_refresh_secs = 60,
     cfg_execution_min_priority_fee_wei = None,
     cfg_execution_priority_fee_multiplier_bps = 10000, cfg_execution_max_fee_multiplier_bps = 20000,
     cfg_execution_pending_replacement_blocks = 1, cfg_execution_replacement_fee_bump_bps = 15000,
     cfg_execution_max_replacements = 4, cfg_execution_max_candidate_lag_blocks = 1,
     cfg_execution_submit_enabled = False, cfg_execution_auto_approve_enabled = False,
     cfg_execution_failure_rate_min_txs = 10, cfg_execution_min_success_rate_bps = 2000\<rparr>"

lemma example_settings_simps [simp]:
  "cfg_chain_id example_settings = 8453"
  "cfg_weth_address example_settings = 0x4200000000000000000000000000000000000006"
  "cfg_aerodrome_router example_settings = Some 11"
  "cfg_aerodrome_pool_factory example_settings = None"
  "cfg_aerodrome_slipstream_router example_settings = None"
  "cfg_aerodrome_slipstream_factory example_settings = None"
  "cfg_uniswap_v3_factory example_settings = None"
  "cfg_uniswap_v3_router example_settings = Some 12"
  "cfg_uniswap_v4_pool_manager example_settings = None"
  "cfg_uniswap_v4_adapter example_settings = None"
  "cfg_balancer_v3_vault example_settings = None"
  "cfg_balancer_v3_router example_settings = None"
  "cfg_balancer_v3_adapter example_settings = None"
  "cfg_pancake_v3_factory example_settings = None"
  "cfg_pancake_v3_router example_settings = None"
  "cfg_executor_contract example_settings = Some 13"
  "cfg_executor_contract_2hop example_settings = Some 14"
  "cfg_executor_contract_multihop example_settings = Some 15"
  "cfg_search_amount_usdc example_settings = None"
  "cfg_candidate_ttl_ms example_settings = 500"
  "cfg_max_pool_state_age_ms example_settings = 604800000"
  "cfg_max_price_impact_bps example_settings = 100"
  "cfg_searcher_multihop_enabled example_settings = True"
  "cfg_v3_quote_safety_bps example_settings = 10"
  "cfg_quote_max_state_block_lag example_settings = 0"
  "cfg_searcher_balancer_v3_runtime_quote_enabled example_settings = False"
  "cfg_searcher_config_refresh_secs example_settings = 60"
  "cfg_execution_min_priority_fee_wei example_settings = None"
  "cfg_execution_priority_fee_multiplier_bps example_settings = 10000"
  "cfg_execution_max_fee_multiplier_bps example_settings = 20000"
  "cfg_execution_pending_replacement_blocks example_settings = 1"
  "cfg_execution_replacement_fee_bump_bps example_settings = 15000"
  "cfg_execution_max_replacements example_settings = 4"
  "cfg_execution_max_candidate_lag_blocks example_settings = 1"
  "cfg_execution_submit_enabled example_settings = False"
  "cfg_execution_auto_approve_enabled example_settings = False"
  "cfg_execution_failure_rate_min_txs example_settings = 10"
  "cfg_execution_min_success_rate_bps example_settings = 2000"
  by (simp_all add: example_settings_def)

end
