(* ===== verification/Simulator.thy ===== *)
theory Simulator
  imports Executor_Abi Settings
begin

text \<open>
  Which contract executes a candidate and with what calldata: the trusted factories, the routing
  of each swap step, the executor selection, the token approvals and the calldata of
  \<open>crates/execution-manager/src/simulator.rs\<close>. The clock, the provider and the third-party
  functions are arguments.
\<close>

section \<open>Trusted factories\<close>

record trusted_factory_set =
  tf_aerodrome_volatile :: "address set"
  tf_aerodrome_slipstream :: "address set"
  tf_uniswap_v3 :: "address set"
  tf_pancake_v3 :: "address set"

definition empty_factories :: trusted_factory_set where
  "empty_factories = \<lparr>tf_aerodrome_volatile = {}, tf_aerodrome_slipstream = {}, tf_uniswap_v3 = {},
     tf_pancake_v3 = {}\<rparr>"

fun tf_insert :: "pool_variant \<Rightarrow> address \<Rightarrow> trusted_factory_set \<Rightarrow> trusted_factory_set" where
  "tf_insert AerodromeVolatile a s = s\<lparr>tf_aerodrome_volatile := insert a (tf_aerodrome_volatile s)\<rparr>"
| "tf_insert AerodromeSlipstream a s = s\<lparr>tf_aerodrome_slipstream := insert a (tf_aerodrome_slipstream s)\<rparr>"
| "tf_insert UniswapV3 a s = s\<lparr>tf_uniswap_v3 := insert a (tf_uniswap_v3 s)\<rparr>"
| "tf_insert PancakeV3 a s = s\<lparr>tf_pancake_v3 := insert a (tf_pancake_v3 s)\<rparr>"
| "tf_insert UniswapV4 a s = s"
| "tf_insert BalancerV3 a s = s"

fun tf_contains :: "trusted_factory_set \<Rightarrow> pool_variant \<Rightarrow> address \<Rightarrow> bool" where
  "tf_contains s AerodromeVolatile a \<longleftrightarrow> a \<in> tf_aerodrome_volatile s"
| "tf_contains s AerodromeSlipstream a \<longleftrightarrow> a \<in> tf_aerodrome_slipstream s"
| "tf_contains s UniswapV3 a \<longleftrightarrow> a \<in> tf_uniswap_v3 s"
| "tf_contains s PancakeV3 a \<longleftrightarrow> a \<in> tf_pancake_v3 s"
| "tf_contains s UniswapV4 a \<longleftrightarrow> False"
| "tf_contains s BalancerV3 a \<longleftrightarrow> False"

definition tf_insert_optional :: "pool_variant \<Rightarrow> address option \<Rightarrow> trusted_factory_set \<Rightarrow> trusted_factory_set" where
  "tf_insert_optional v a s = (case a of None \<Rightarrow> s | Some a \<Rightarrow> tf_insert v a s)"

definition parse_pool_variant :: "string \<Rightarrow> pool_variant option" where
  "parse_pool_variant s =
     (if s \<in> {''AerodromeVolatile'', ''aero-classic'', ''aerodrome-volatile''} then Some AerodromeVolatile
      else if s \<in> {''AerodromeSlipstream'', ''aero-slipstream'', ''aerodrome-slipstream''} then Some AerodromeSlipstream
      else if s \<in> {''UniswapV3'', ''uni-v3'', ''uniswap-v3''} then Some UniswapV3
      else if s \<in> {''PancakeV3'', ''pancake-v3''} then Some PancakeV3
      else None)"

definition registry_row :: "libs \<Rightarrow> factory_registry_record \<Rightarrow> (pool_variant \<times> address) option" where
  "registry_row lib row =
     (if \<not> fr_trusted row \<or> \<not> fr_enabled row then None
      else case lib_parse_address lib (fr_factory_address row) of
        None \<Rightarrow> None
      | Some a \<Rightarrow> map_option (\<lambda>v. (v, a)) (parse_pool_variant (fr_variant row)))"

fun insert_registry :: "libs \<Rightarrow> factory_registry_record list \<Rightarrow> trusted_factory_set \<Rightarrow> trusted_factory_set" where
  "insert_registry lib [] s = s"
| "insert_registry lib (row # rows) s =
     insert_registry lib rows (case registry_row lib row of None \<Rightarrow> s | Some (v, a) \<Rightarrow> tf_insert v a s)"

definition from_settings_and_registry :: "libs \<Rightarrow> settings \<Rightarrow> factory_registry_record list \<Rightarrow> trusted_factory_set" where
  "from_settings_and_registry lib cfg registry =
     (let s = tf_insert_optional AerodromeVolatile (cfg_aerodrome_pool_factory cfg) empty_factories;
          s = tf_insert_optional AerodromeSlipstream (cfg_aerodrome_slipstream_factory cfg) s;
          s = tf_insert_optional UniswapV3 (cfg_uniswap_v3_factory cfg) s;
          s = tf_insert_optional PancakeV3 (cfg_pancake_v3_factory cfg) s;
          s = tf_insert AerodromeVolatile aerodrome_classic_factory s;
          s = tf_insert AerodromeVolatile uniswap_v2_factory s;
          s = fold (tf_insert AerodromeSlipstream) aerodrome_slipstream_factories s;
          s = tf_insert UniswapV3 uniswap_v3_factory s;
          s = tf_insert PancakeV3 pancake_v3_factory s
      in insert_registry lib registry s)"

section \<open>Routing a step\<close>

datatype executor_step_kind =
  KindAerodromeClassic | KindAerodromeSlipstream | KindUniswapV3Router | KindPancakeV3Router | DirectV2 | Adapter

fun abi_value :: "executor_step_kind \<Rightarrow> u8" where
  "abi_value KindAerodromeClassic = 0"
| "abi_value KindAerodromeSlipstream = 1"
| "abi_value KindUniswapV3Router = 2"
| "abi_value KindPancakeV3Router = 3"
| "abi_value DirectV2 = 4"
| "abi_value Adapter = 6"

definition is_direct :: "executor_step_kind \<Rightarrow> bool" where
  "is_direct k \<longleftrightarrow> k = DirectV2"

definition needs_router_approval :: "executor_step_kind \<Rightarrow> bool" where
  "needs_router_approval k \<longleftrightarrow> \<not> (k = Adapter \<or> k = DirectV2)"

definition requires_hub :: "executor_step_kind \<Rightarrow> bool" where
  "requires_hub k \<longleftrightarrow> k = Adapter \<or> k = DirectV2"

definition is_uniswap_v2_factory :: "address option \<Rightarrow> bool" where
  "is_uniswap_v2_factory factory \<longleftrightarrow> factory = Some uniswap_v2_factory"

definition reject_untrusted_factory ::
    "address option \<Rightarrow> trusted_factory_set \<Rightarrow> pool_variant \<Rightarrow> string \<Rightarrow> unit anyhow" where
  "reject_untrusted_factory step_factory tf variant label =
     (case step_factory of
        None \<Rightarrow> Inr ()
      | Some factory \<Rightarrow>
          if tf_contains tf variant factory then Inr ()
          else bail (label @ '' factory '' @ address_hex factory @ '' is not trusted by factory_registry/settings''))"

definition reject_untrusted_exact_factory ::
    "address option \<Rightarrow> address option \<Rightarrow> string \<Rightarrow> unit anyhow" where
  "reject_untrusted_exact_factory step_factory configured label =
     (case step_factory of
        None \<Rightarrow> Inr ()
      | Some factory \<Rightarrow>
          if configured = Some factory then Inr ()
          else case configured of
            Some c \<Rightarrow> bail (label @ '' factory '' @ address_hex factory @
                 '' is not trusted; configured factory is '' @ address_hex c)
          | None \<Rightarrow> bail (label @ '' factory is not configured; refusing untrusted factory '' @ address_hex factory))"

text \<open>The variant patterns the matches of the source share: the dex's own variant or none.\<close>

definition own_variant :: "swap_step \<Rightarrow> dex_kind \<Rightarrow> pool_variant \<Rightarrow> bool" where
  "own_variant step dex variant \<longleftrightarrow>
     st_dex step = dex \<and> (st_variant step = Some variant \<or> st_variant step = None)"

definition is_slipstream_step :: "swap_step \<Rightarrow> bool" where
  "is_slipstream_step step \<longleftrightarrow> st_dex step = DexAerodrome \<and> st_variant step = Some AerodromeSlipstream"

definition step_execution_kind :: "settings \<Rightarrow> trusted_factory_set \<Rightarrow> swap_step \<Rightarrow> executor_step_kind anyhow" where
  "step_execution_kind cfg tf step =
     (if own_variant step DexAerodrome AerodromeVolatile then
        (if is_uniswap_v2_factory (st_factory_address step) then Inr DirectV2
         else rbind (reject_untrusted_factory (st_factory_address step) tf AerodromeVolatile ''Aerodrome Classic'')
           (\<lambda>_. Inr KindAerodromeClassic))
      else if is_slipstream_step step then
        rbind (reject_untrusted_factory (st_factory_address step) tf AerodromeSlipstream ''Aerodrome Slipstream'')
          (\<lambda>_. Inr KindAerodromeSlipstream)
      else if own_variant step DexUniswapV3 UniswapV3 then
        rbind (reject_untrusted_factory (st_factory_address step) tf UniswapV3 ''Uniswap V3'')
          (\<lambda>_. Inr KindUniswapV3Router)
      else if own_variant step DexPancakeSwap PancakeV3 then
        rbind (reject_untrusted_factory (st_factory_address step) tf PancakeV3 ''Pancake V3'')
          (\<lambda>_. Inr KindPancakeV3Router)
      else if own_variant step DexUniswapV4 UniswapV4 then
        rbind (reject_untrusted_exact_factory (st_factory_address step) (cfg_uniswap_v4_pool_manager cfg)
                 ''Uniswap V4 PoolManager'') (\<lambda>_. Inr Adapter)
      else if own_variant step DexBalancer BalancerV3 then
        rbind (reject_untrusted_exact_factory (st_factory_address step) (cfg_balancer_v3_vault cfg)
                 ''Balancer V3 Vault'') (\<lambda>_. Inr Adapter)
      else bail ''dex and pool variant mismatch'')"

definition router_fee_for_step :: "swap_step \<Rightarrow> u32 anyhow" where
  "router_fee_for_step step =
     (let fee_bps = (case st_fee_bps step of None \<Rightarrow> 0 | Some f \<Rightarrow> f) in
      if own_variant step DexUniswapV3 UniswapV3 \<or> own_variant step DexPancakeSwap PancakeV3
      then ok_or_message (checked_mul fee_bps 100) ''V3 fee bps overflow''
      else if is_slipstream_step step then
        (case st_tick_spacing step of
           None \<Rightarrow> bail ''tick_spacing is required for Aerodrome Slipstream''
         | Some tick_spacing \<Rightarrow>
             if sint tick_spacing \<le> 0
             then bail (''invalid Aerodrome Slipstream tick_spacing '' @ int_dec (sint tick_spacing))
             else Inr tick_spacing)
      else if own_variant step DexUniswapV4 UniswapV4
      then ok_or_message (checked_mul fee_bps 100) ''Uniswap V4 fee bps overflow''
      else Inr fee_bps)"

definition classic_stable_flag :: "swap_step \<Rightarrow> bool" where
  "classic_stable_flag step \<longleftrightarrow> own_variant step DexAerodrome AerodromeVolatile \<and> st_stable step = Some True"

definition factory_for_step :: "settings \<Rightarrow> trusted_factory_set \<Rightarrow> swap_step \<Rightarrow> address anyhow" where
  "factory_for_step cfg tf step =
     (if own_variant step DexAerodrome AerodromeVolatile then
        (if is_uniswap_v2_factory (st_factory_address step)
         then ok_or_message (st_factory_address step) ''DirectV2 execution requires the pair factory''
         else rbind (reject_untrusted_factory (st_factory_address step) tf AerodromeVolatile ''Aerodrome Classic'')
           (\<lambda>_. case st_factory_address step of
              Some f \<Rightarrow> Inr f
            | None \<Rightarrow> Inr (case cfg_aerodrome_pool_factory cfg of Some f \<Rightarrow> f | None \<Rightarrow> aerodrome_classic_factory)))
      else if is_slipstream_step step then
        rbind (reject_untrusted_factory (st_factory_address step) tf AerodromeSlipstream ''Aerodrome Slipstream'')
          (\<lambda>_. case st_factory_address step of
             Some f \<Rightarrow> Inr f
           | None \<Rightarrow> Inr (case cfg_aerodrome_slipstream_factory cfg of
                Some f \<Rightarrow> f | None \<Rightarrow> aerodrome_slipstream_factories ! 0))
      else if own_variant step DexUniswapV3 UniswapV3 then
        rbind (reject_untrusted_factory (st_factory_address step) tf UniswapV3 ''Uniswap V3'')
          (\<lambda>_. case st_factory_address step of
             Some f \<Rightarrow> Inr f
           | None \<Rightarrow> Inr (case cfg_uniswap_v3_factory cfg of Some f \<Rightarrow> f | None \<Rightarrow> uniswap_v3_factory))
      else if own_variant step DexPancakeSwap PancakeV3 then
        rbind (reject_untrusted_factory (st_factory_address step) tf PancakeV3 ''Pancake V3'')
          (\<lambda>_. case st_factory_address step of
             Some f \<Rightarrow> Inr f
           | None \<Rightarrow> Inr (case cfg_pancake_v3_factory cfg of Some f \<Rightarrow> f | None \<Rightarrow> pancake_v3_factory))
      else if own_variant step DexUniswapV4 UniswapV4 then
        rbind (reject_untrusted_exact_factory (st_factory_address step) (cfg_uniswap_v4_pool_manager cfg)
                 ''Uniswap V4 PoolManager'')
          (\<lambda>_. ok_or_message (cfg_uniswap_v4_pool_manager cfg)
                 ''UNISWAP_V4_POOL_MANAGER is required for Uniswap V4 adapter execution'')
      else if own_variant step DexBalancer BalancerV3 then
        rbind (reject_untrusted_exact_factory (st_factory_address step) (cfg_balancer_v3_vault cfg)
                 ''Balancer V3 Vault'')
          (\<lambda>_. ok_or_message (cfg_balancer_v3_vault cfg)
                 ''BALANCER_V3_VAULT is required for Balancer V3 adapter execution'')
      else Inr 0)"

definition router_for_step :: "settings \<Rightarrow> swap_step \<Rightarrow> address option" where
  "router_for_step cfg step =
     (case st_dex step of
        DexAerodrome \<Rightarrow>
          if st_variant step = Some AerodromeSlipstream
          then Some (case cfg_aerodrome_slipstream_router cfg of Some r \<Rightarrow> r | None \<Rightarrow> aerodrome_slipstream_router)
          else cfg_aerodrome_router cfg
      | DexUniswapV3 \<Rightarrow> cfg_uniswap_v3_router cfg
      | DexPancakeSwap \<Rightarrow>
          Some (case cfg_pancake_v3_router cfg of Some r \<Rightarrow> r | None \<Rightarrow> pancake_v3_router)
      | DexUniswapV4 \<Rightarrow> cfg_uniswap_v4_adapter cfg
      | DexBalancer \<Rightarrow> cfg_balancer_v3_adapter cfg)"

definition adapter_data_for_step :: "libs \<Rightarrow> swap_step \<Rightarrow> u8 list anyhow" where
  "adapter_data_for_step lib step =
     (case st_adapter_data step of
        None \<Rightarrow> Inr []
      | Some data \<Rightarrow>
          with_context (''invalid adapter_data hex for pool '' @ address_hex (st_pool step))
            (lib_hex_decode lib (strip_prefix_0x data)))"

section \<open>Selecting the executor\<close>

definition candidate_requires_direct_execution :: "settings \<Rightarrow> trusted_factory_set \<Rightarrow> candidate \<Rightarrow> bool" where
  "candidate_requires_direct_execution cfg tf c \<longleftrightarrow>
     (\<exists>step \<in> set (ap_steps (cd_path c)).
        case step_execution_kind cfg tf step of Inl _ \<Rightarrow> False | Inr kind \<Rightarrow> requires_hub kind)"

definition option_or :: "'a option \<Rightarrow> 'a option \<Rightarrow> 'a option" where
  "option_or a b = (case a of None \<Rightarrow> b | Some x \<Rightarrow> Some x)"

definition executor_for_candidate :: "settings \<Rightarrow> trusted_factory_set \<Rightarrow> candidate \<Rightarrow> address anyhow" where
  "executor_for_candidate cfg tf c =
     (let requires_hub = candidate_requires_direct_execution cfg tf c;
          two = length (ap_steps (cd_path c)) = 2;
          selected =
            (if requires_hub then option_or (cfg_executor_contract_multihop cfg) (cfg_executor_contract cfg)
             else if two then option_or (cfg_executor_contract_2hop cfg) (cfg_executor_contract cfg)
             else option_or (cfg_executor_contract_multihop cfg) (cfg_executor_contract cfg))
      in ok_or_message (case selected of None \<Rightarrow> None | Some a \<Rightarrow> if a \<noteq> 0 then Some a else None)
           (if requires_hub
            then ''EXECUTOR_CONTRACT_MULTIHOP or EXECUTOR_CONTRACT is required for direct pool execution''
            else if two then ''EXECUTOR_CONTRACT_2HOP or EXECUTOR_CONTRACT is not configured''
            else ''EXECUTOR_CONTRACT_MULTIHOP or EXECUTOR_CONTRACT is not configured''))"

section \<open>Calldata\<close>

definition router_or_missing :: "settings \<Rightarrow> swap_step \<Rightarrow> address anyhow" where
  "router_or_missing cfg step =
     ok_or_message (router_for_step cfg step)
       (''router missing for '' @ dex_debug (st_dex step) @ '' '' @ option_debug variant_debug (st_variant step))"

definition encode_step :: "libs \<Rightarrow> settings \<Rightarrow> trusted_factory_set \<Rightarrow> swap_step \<Rightarrow> encoded_swap_step anyhow" where
  "encode_step lib cfg tf step =
     rbind (step_execution_kind cfg tf step) (\<lambda>kind.
     rbind (if is_direct kind then Inr 0 else router_or_missing cfg step) (\<lambda>router.
     rbind (router_fee_for_step step) (\<lambda>fee.
     rbind (factory_for_step cfg tf step) (\<lambda>factory.
     rbind (adapter_data_for_step lib step) (\<lambda>data.
     Inr \<lparr>es_dex = abi_value kind, es_router = router, es_pool = st_pool step,
          es_token_in = st_token_in step, es_token_out = st_token_out step, es_fee = fee,
          es_stable = classic_stable_flag step, es_factory = factory, es_data = data\<rparr>)))))"

definition encode_steps :: "libs \<Rightarrow> settings \<Rightarrow> trusted_factory_set \<Rightarrow> candidate \<Rightarrow> u8 list anyhow" where
  "encode_steps lib cfg tf c = encode_swap_steps (encode_step lib cfg tf) (ap_steps (cd_path c))"

definition execute_signature :: string where
  "execute_signature = ''executeWithOwnFunds(address,uint256,'' @
     ''(uint8,address,address,address,address,uint24,bool,address,bytes)[],uint256,uint256)''"

definition execute_selector :: "libs \<Rightarrow> u8 list" where
  "execute_selector lib = take 4 (be_bytes 32 (unat (lib_keccak256 lib (text_bytes execute_signature))))"

definition build_execute_calldata ::
    "libs \<Rightarrow> settings \<Rightarrow> trusted_factory_set \<Rightarrow> candidate \<Rightarrow> u256 \<Rightarrow> u256 \<Rightarrow> u8 list anyhow" where
  "build_execute_calldata lib cfg tf c min_profit deadline =
     rbind (encode_steps lib cfg tf c) (\<lambda>steps.
     Inr (execute_selector lib @ encode_address (cd_token_in c) @ encode_u256 (cd_amount_in c) @
          encode_u256 160 @ encode_u256 min_profit @ encode_u256 deadline @ steps))"

definition executor_deadline_secs :: int where
  "executor_deadline_secs = 30"

text \<open>\<open>Utc::now().timestamp() + 30\<close> cast to \<open>u64\<close>; \<open>now\<close> counts nanoseconds.\<close>

definition deadline_at :: "datetime \<Rightarrow> u256" where
  "deadline_at now = ucast (word_of_int (now div 1000000000 + executor_deadline_secs) :: u64)"

definition build_simulation_calldata ::
    "libs \<Rightarrow> settings \<Rightarrow> trusted_factory_set \<Rightarrow> datetime \<Rightarrow> candidate \<Rightarrow> u256 \<Rightarrow> u8 list anyhow" where
  "build_simulation_calldata lib cfg tf now c min_profit =
     build_execute_calldata lib cfg tf c min_profit (deadline_at now)"

definition build_live_execution_calldata ::
    "libs \<Rightarrow> settings \<Rightarrow> trusted_factory_set \<Rightarrow> datetime \<Rightarrow> candidate \<Rightarrow> u8 list anyhow" where
  "build_live_execution_calldata lib cfg tf now c =
     build_simulation_calldata lib cfg tf now c (cd_min_profit c)"

record approval_requirement =
  ar_token :: address
  ar_spender :: address

definition step_approval :: "settings \<Rightarrow> trusted_factory_set \<Rightarrow> swap_step \<Rightarrow> approval_requirement option anyhow" where
  "step_approval cfg tf step =
     rbind (step_execution_kind cfg tf step) (\<lambda>kind.
     if \<not> needs_router_approval kind then Inr None
     else rbind (router_or_missing cfg step) (\<lambda>spender.
       Inr (Some \<lparr>ar_token = st_token_in step, ar_spender = spender\<rparr>)))"

definition somes :: "'a option list \<Rightarrow> 'a list" where
  "somes xs = concat (map (\<lambda>a. case a of None \<Rightarrow> [] | Some x \<Rightarrow> [x]) xs)"

definition required_token_approvals ::
    "settings \<Rightarrow> trusted_factory_set \<Rightarrow> candidate \<Rightarrow> approval_requirement list anyhow" where
  "required_token_approvals cfg tf c =
     rbind (collect_results (step_approval cfg tf) (ap_steps (cd_path c))) (\<lambda>approvals.
     Inr (remdups_adj (sort_key (\<lambda>a. (ar_token a, ar_spender a)) (somes approvals))))"

section \<open>Revert reasons\<close>

definition executor_errors :: "(string \<times> string) list" where
  "executor_errors =
    [(''0x5fc483c5'', ''Executor revert: OnlyOwner''),
     (''0x27e1f1e5'', ''Executor revert: OnlyOperator''),
     (''0xeced32bc'', ''Executor revert: PausedError''),
     (''0x1ab7da6b'', ''Executor revert: DeadlineExpired''),
     (''0x20db8267'', ''Executor revert: InvalidPath''),
     (''0x1ae9030e'', ''Executor revert: InvalidStepCount''),
     (''0xf4d678b8'', ''Executor revert: InsufficientBalance''),
     (''0x13be252b'', ''Executor revert: InsufficientAllowance''),
     (''0xa5d3ca34'', ''Executor revert: UnsupportedDex''),
     (''0x270815a0'', ''Executor revert: InvalidTickSpacing''),
     (''0x58d620b3'', ''Executor revert: InvalidFee''),
     (''0xeab28cb4'', ''Executor revert: PoolMismatch''),
     (''0xd433008b'', ''Executor revert: MinProfitNotMet''),
     (''0x90b8ec18'', ''Executor revert: TransferFailed''),
     (''0x8164f842'', ''Executor revert: ApprovalFailed''),
     (''0xf5c6c81a'', ''Executor revert: UnauthorizedCallback''),
     (''0xf7a632f5'', ''Executor revert: InvalidCallback''),
     (''0x27f83cbc'', ''Executor revert: BalanceDidNotIncrease''),
     (''0xd71b9a00'', ''Executor revert: AdapterNotWhitelisted''),
     (''0x2eb8055a'', ''Executor revert: MissingFactory'')]"

definition executor_error_name :: "string \<Rightarrow> string option" where
  "executor_error_name selector = map_of executor_errors selector"

definition is_hexdigit :: "char \<Rightarrow> bool" where
  "is_hexdigit c \<longleftrightarrow> 48 \<le> code c \<and> code c \<le> 57 \<or> 97 \<le> code c \<and> code c \<le> 102 \<or> 65 \<le> code c \<and> code c \<le> 70"

fun split_at :: "(char \<Rightarrow> bool) \<Rightarrow> string \<Rightarrow> string list" where
  "split_at p [] = [[]]"
| "split_at p (c # cs) =
     (if p c then [] # split_at p cs
      else case split_at p cs of [] \<Rightarrow> [[c]] | part # parts \<Rightarrow> (c # part) # parts)"

definition trim_matches :: "(char \<Rightarrow> bool) \<Rightarrow> string \<Rightarrow> string" where
  "trim_matches p s = rev (dropWhile p (rev (dropWhile p s)))"

text \<open>Error texts are ASCII, so characters and bytes coincide. The separators are white space and
  the quotation marks, comma, colon, equals sign, braces and brackets of the source.\<close>

definition selector_separator :: "char \<Rightarrow> bool" where
  "selector_separator c \<longleftrightarrow> is_ascii_space c \<or> code c \<in> {34, 39, 44, 58, 61, 123, 125, 91, 93}"

definition part_selector :: "string \<Rightarrow> string list" where
  "part_selector part =
     (let clean = trim_matches (\<lambda>c. \<not> is_hexdigit c \<and> c \<noteq> CHR ''x'') part in
      if length clean \<ge> 10 \<and> starts_with clean ''0x'' \<and> list_all is_hexdigit (take 8 (drop 2 clean))
      then [to_ascii_lowercase (take 10 clean)] else [])"

definition hex_selectors :: "string \<Rightarrow> string list" where
  "hex_selectors raw = concat (map part_selector (split_at selector_separator raw))"

fun first_error :: "string list \<Rightarrow> string option" where
  "first_error [] = None"
| "first_error (s # ss) = (case executor_error_name s of None \<Rightarrow> first_error ss | Some e \<Rightarrow> Some e)"

definition decode_executor_error :: "string \<Rightarrow> string option" where
  "decode_executor_error raw = first_error (hex_selectors raw)"

definition tail_chars :: "string \<Rightarrow> nat \<Rightarrow> string" where
  "tail_chars value max_chars =
     (if length value \<le> max_chars then value
      else ''...'' @ drop (length value - max_chars) value)"

fun from_first :: "string \<Rightarrow> string \<Rightarrow> string option" where
  "from_first p [] = (if p = [] then Some [] else None)"
| "from_first p (c # cs) = (if starts_with (c # cs) p then Some (c # cs) else from_first p cs)"

definition text_lines :: "string \<Rightarrow> string list" where
  "text_lines s = split_at (\<lambda>c. code c = 10) s"

definition compact_revert_reason :: "string \<Rightarrow> string" where
  "compact_revert_reason raw =
     (if str_contains raw ''candidate expired'' then ''candidate expired''
      else if str_contains raw ''execution reverted data=-''
        \<or> str_contains raw ''execution reverted data=null''
        \<or> str_contains raw (''execution reverted data='' @ [char_of (34 :: nat)] @ ''0x'' @ [char_of (34 :: nat)])
      then ''router/no-revert-data''
      else case from_first ''rpc eth_call failed'' raw of
        Some rest \<Rightarrow> tail_chars rest 240
      | None \<Rightarrow>
          (let ls = filter (\<lambda>l. l \<noteq> []) (map trim (text_lines raw)) in
           if ls = [] then tail_chars raw 240
           else
             (let joined = join_with '' | '' (take 3 ls)
              in if length joined > 240 then tail_chars joined 240 else joined)))"

definition format_revert_reason :: "string \<Rightarrow> string" where
  "format_revert_reason raw =
     (case decode_executor_error raw of Some e \<Rightarrow> e | None \<Rightarrow> compact_revert_reason raw)"

section \<open>Simulation\<close>

record simulation_fee_suggestion =
  sf_base_fee_per_gas :: u256
  sf_expected_fee_per_gas :: u256
  sf_max_fee_per_gas :: u256
  sf_max_priority_fee_per_gas :: u256

record simulation_context =
  sx_observed_block :: "u64 option"
  sx_fees :: "simulation_fee_suggestion option"

definition apply_bps :: "u256 \<Rightarrow> u64 \<Rightarrow> u256" where
  "apply_bps value bps =
     (case checked_div (saturating_mul value (ucast bps)) 10000 of None \<Rightarrow> value | Some v \<Rightarrow> v)"

definition sim_parse_optional_u256 :: "libs \<Rightarrow> string option \<Rightarrow> u256 option anyhow" where
  "sim_parse_optional_u256 lib raw =
     (case raw of
        None \<Rightarrow> Inr None
      | Some value \<Rightarrow> with_context ''invalid U256 decimal config value''
          (rbind (lib_from_str_radix lib (trim_start_0x value) 10) (\<lambda>v. Inr (Some v))))"

text \<open>The fee rule that \<open>simulation_fee_suggestion\<close> and \<open>aggressive_fee_suggestion\<close> share:
  the priority fee and the fee cap.\<close>

definition priority_fee :: "settings \<Rightarrow> eip1559_fee_suggestion \<Rightarrow> u256 option \<Rightarrow> u256" where
  "priority_fee cfg suggested min_priority =
     max (apply_bps (fe_max_priority_fee_per_gas suggested) (cfg_execution_priority_fee_multiplier_bps cfg))
         (case min_priority of None \<Rightarrow> 0 | Some m \<Rightarrow> m)"

definition fee_cap :: "settings \<Rightarrow> eip1559_fee_suggestion \<Rightarrow> u256 \<Rightarrow> u256" where
  "fee_cap cfg suggested priority =
     max (saturating_add (apply_bps (fe_base_fee_per_gas suggested) (cfg_execution_max_fee_multiplier_bps cfg)) priority)
         (fe_max_fee_per_gas suggested)"

definition suggest_simulation_fees ::
    "libs \<Rightarrow> 's chain_provider \<Rightarrow> settings \<Rightarrow> ('s, simulation_fee_suggestion) act" where
  "suggest_simulation_fees lib provider cfg =
     bind (cp_suggested_eip1559_fee_details provider) (\<lambda>suggested.
     bind (lift (sim_parse_optional_u256 lib (cfg_execution_min_priority_fee_wei cfg))) (\<lambda>min_priority.
     let priority = priority_fee cfg suggested min_priority in
     pass \<lparr>sf_base_fee_per_gas = fe_base_fee_per_gas suggested,
           sf_expected_fee_per_gas = saturating_add (fe_base_fee_per_gas suggested) priority,
           sf_max_fee_per_gas = fee_cap cfg suggested priority,
           sf_max_priority_fee_per_gas = priority\<rparr>))"

definition load_context :: "libs \<Rightarrow> 's chain_provider \<Rightarrow> settings \<Rightarrow> u64 \<Rightarrow> ('s, simulation_context) act" where
  "load_context lib provider cfg observed_block =
     handle (suggest_simulation_fees lib provider cfg)
       (\<lambda>fees. pass \<lparr>sx_observed_block = Some observed_block, sx_fees = Some fees\<rparr>)
       (\<lambda>_. pass \<lparr>sx_observed_block = Some observed_block, sx_fees = None\<rparr>)"

definition decode_uint256_result :: "libs \<Rightarrow> string \<Rightarrow> u256 option" where
  "decode_uint256_result lib raw =
     (let clean = trim_start_0x raw in
      if length clean < 64 then None
      else case lib_from_str_radix lib (take 64 clean) 16 of Inl _ \<Rightarrow> None | Inr v \<Rightarrow> Some v)"

definition simulation_of :: "candidate \<Rightarrow> uuid \<Rightarrow> simulation_result" where
  "simulation_of c sim_id = \<lparr>sr_id = sim_id, sr_opportunity_id = cd_id c, sr_success = False,
     sr_path_name = Some (ap_name (cd_path c)), sr_token_in = Some (cd_token_in c),
     sr_amount_in = Some (cd_amount_in c), sr_expected_profit = Some (cd_expected_profit c),
     sr_min_profit = Some (cd_min_profit c), sr_simulated_profit = 0, sr_gas_estimate = None,
     sr_block_number = None, sr_base_fee_per_gas = None, sr_max_fee_per_gas = None,
     sr_max_priority_fee_per_gas = None, sr_gas_cost_cap = None, sr_gas_cost_expected = None,
     sr_net_simulated_profit = None, sr_revert_reason = None, sr_calldata = []\<rparr>"

text \<open>\<open>now\<close> is the clock at the expiry check, \<open>now'\<close> when the calldata is built.\<close>

definition simulate_inner ::
    "libs \<Rightarrow> 's chain_provider \<Rightarrow> settings \<Rightarrow> trusted_factory_set \<Rightarrow> address \<Rightarrow> datetime \<Rightarrow> datetime \<Rightarrow> uuid \<Rightarrow>
     candidate \<Rightarrow> simulation_context \<Rightarrow> ('s, simulation_result) act" where
  "simulate_inner lib provider cfg tf operator now now' sim_id c context =
     (if is_expired c now then fail ''candidate expired''
      else if cd_expected_profit c < cd_min_profit c then fail ''profit below simulated threshold''
      else
        bind (lift (executor_for_candidate cfg tf c)) (\<lambda>executor.
        bind (lift (build_simulation_calldata lib cfg tf now' c (cd_min_profit c))) (\<lambda>calldata.
        let data = ''0x'' @ lib_hex_encode lib calldata in
        bind (cp_eth_call_from provider (Some operator) executor data ''Executor executeWithOwnFunds'') (\<lambda>raw_result.
        let simulated_profit =
          (case decode_uint256_result lib raw_result of None \<Rightarrow> cd_expected_profit c | Some v \<Rightarrow> v) in
        bind (act_context ''failed to estimate executor tx gas after successful eth_call''
                (cp_estimate_gas provider operator executor data)) (\<lambda>gas_estimate.
        bind (case sx_fees context of Some fees \<Rightarrow> pass fees | None \<Rightarrow> suggest_simulation_fees lib provider cfg) (\<lambda>fees.
        let gas_cost_expected = saturating_mul gas_estimate (sf_expected_fee_per_gas fees);
            meets = simulated_profit \<ge> cd_min_profit c
        in pass ((simulation_of c sim_id)
            \<lparr>sr_success := meets, sr_simulated_profit := simulated_profit,
             sr_gas_estimate := Some gas_estimate, sr_block_number := sx_observed_block context,
             sr_base_fee_per_gas := Some (sf_base_fee_per_gas fees),
             sr_max_fee_per_gas := Some (sf_max_fee_per_gas fees),
             sr_max_priority_fee_per_gas := Some (sf_max_priority_fee_per_gas fees),
             sr_gas_cost_cap := Some (saturating_mul gas_estimate (sf_max_fee_per_gas fees)),
             sr_gas_cost_expected := Some gas_cost_expected,
             sr_net_simulated_profit :=
               (if cd_token_in c = cfg_weth_address cfg
                then Some (saturating_sub simulated_profit gas_cost_expected) else None),
             sr_revert_reason := (if \<not> meets then Some ''simulated profit below threshold'' else None),
             sr_calldata := calldata\<rparr>)))))))"

text \<open>An error of the inner simulation becomes an unsuccessful result; it never fails itself.
  \<open>now''\<close> is the clock when the failure's calldata is rebuilt.\<close>

definition simulate ::
    "libs \<Rightarrow> 's chain_provider \<Rightarrow> settings \<Rightarrow> trusted_factory_set \<Rightarrow> address \<Rightarrow> datetime \<Rightarrow> datetime \<Rightarrow> datetime \<Rightarrow>
     uuid \<Rightarrow> candidate \<Rightarrow> simulation_context \<Rightarrow> 's \<Rightarrow> simulation_result \<times> 's" where
  "simulate lib provider cfg tf operator now now' now'' sim_id c context s =
     (case simulate_inner lib provider cfg tf operator now now' sim_id c context s of
        (Inr result, s') \<Rightarrow> (result, s')
      | (Inl raw_error, s') \<Rightarrow>
          ((simulation_of c sim_id)
             \<lparr>sr_block_number := sx_observed_block context,
              sr_revert_reason := Some (format_revert_reason (err_alternate raw_error)),
              sr_calldata := (case build_simulation_calldata lib cfg tf now'' c (cd_min_profit c) of
                 Inl _ \<Rightarrow> [] | Inr data \<Rightarrow> data)\<rparr>, s'))"

section \<open>Decoding the calldata\<close>

text \<open>The specification of the calldata: what the executor contract reads from it.\<close>

record execute_call =
  ec_token_in :: address
  ec_amount_in :: u256
  ec_steps :: "encoded_swap_step list"
  ec_min_profit :: u256
  ec_deadline :: u256

definition decode_execute_call :: "u8 list \<Rightarrow> execute_call" where
  "decode_execute_call data =
     (let args = drop 4 data in
      \<lparr>ec_token_in = address_at args 0, ec_amount_in = word_of_nat (word_at args 32),
       ec_steps = decode_steps (drop (word_at args 64) args),
       ec_min_profit = word_of_nat (word_at args 96), ec_deadline = word_of_nat (word_at args 128)\<rparr>)"

lemma length_execute_selector [simp]: "length (execute_selector lib) = 4"
  by (simp add: execute_selector_def)

lemma collect_results_of_encode:
  assumes "encode_swap_steps f steps = Inr bs"
  obtains es where "collect_results f steps = Inr es"
proof -
  from assms have "\<exists>ys. collect_results (\<lambda>s. rbind (f s) (\<lambda>e. Inr (encode_swap_step_tuple e))) steps = Inr ys"
    by (auto simp: encode_swap_steps_def)
  then have "\<exists>es. collect_results f steps = Inr es"
  proof (induction steps)
    case (Cons s steps)
    then show ?case by auto
  qed simp
  then show thesis using that by blast
qed

lemma calldata_read_back:
  assumes "build_execute_calldata lib cfg tf c min_profit deadline = Inr data"
  shows "\<exists>es. collect_results (encode_step lib cfg tf) (ap_steps (cd_path c)) = Inr es \<and>
    decode_execute_call data = \<lparr>ec_token_in = cd_token_in c, ec_amount_in = cd_amount_in c,
      ec_steps = es, ec_min_profit = min_profit, ec_deadline = deadline\<rparr>"
proof -
  from assms obtain steps where s: "encode_swap_steps (encode_step lib cfg tf) (ap_steps (cd_path c)) = Inr steps"
    and data: "data = execute_selector lib @ encode_address (cd_token_in c) @ encode_u256 (cd_amount_in c) @
          encode_u256 160 @ encode_u256 min_profit @ encode_u256 deadline @ steps"
    by (auto simp: build_execute_calldata_def encode_steps_def)
  from s obtain es where es: "collect_results (encode_step lib cfg tf) (ap_steps (cd_path c)) = Inr es"
    by (rule collect_results_of_encode)
  have "decode_steps steps = es" using encode_swap_steps_roundtrip [OF s es, of "[]"] by simp
  then show ?thesis
    using es by (simp add: data decode_execute_call_def Let_def address_at_def)
qed

text \<open>C15: The calldata round trip: the executor reads back exactly the token, the amount, the
  encoded steps in path order, the minimum profit and the deadline.\<close>

theorem execute_calldata_roundtrip:
  assumes "build_execute_calldata lib cfg tf c min_profit deadline = Inr data"
  shows "\<exists>es. collect_results (encode_step lib cfg tf) (ap_steps (cd_path c)) = Inr es \<and>
    decode_execute_call data = \<lparr>ec_token_in = cd_token_in c, ec_amount_in = cd_amount_in c,
      ec_steps = es, ec_min_profit = min_profit, ec_deadline = deadline\<rparr>"
  using assms by (rule calldata_read_back)

lemma collect_example_steps:
  "collect_results (encode_step example_libs example_settings tf) (ap_steps (cd_path example_candidate)) =
    Inr [\<lparr>es_dex = 2, es_router = 12, es_pool = 100, es_token_in = 1, es_token_out = 2, es_fee = 3000,
          es_stable = False, es_factory = uniswap_v3_factory, es_data = []\<rparr>,
         \<lparr>es_dex = 2, es_router = 12, es_pool = 101, es_token_in = 2, es_token_out = 1, es_fee = 3000,
          es_stable = False, es_factory = uniswap_v3_factory, es_data = []\<rparr>]"
  by (simp add: example_candidate_def example_step_def example_settings_simps encode_step_def
      step_execution_kind_def own_variant_def is_slipstream_step_def reject_untrusted_factory_def is_direct_def
      router_or_missing_def router_for_step_def router_fee_for_step_def factory_for_step_def
      adapter_data_for_step_def classic_stable_flag_def checked_mul_def Let_def)

lemma build_example_calldata:
  "\<exists>data. build_execute_calldata example_libs example_settings tf example_candidate 20 deadline = Inr data"
  using collect_results_map [OF collect_example_steps [of tf], of encode_swap_step_tuple]
  by (simp add: build_execute_calldata_def encode_steps_def encode_swap_steps_def usize_max_def
      encode_swap_step_tuple_def encode_bytes_def)

theorem execute_calldata_roundtrip_witness:
  "\<exists>data. ec_amount_in (decode_execute_call data) = 1000 \<and> length (ec_steps (decode_execute_call data)) = 2"
proof -
  from build_example_calldata obtain data where
    data: "build_execute_calldata example_libs example_settings empty_factories example_candidate 20 30 = Inr data" ..
  from execute_calldata_roundtrip [OF data] show ?thesis
    unfolding collect_example_steps by (intro exI [of _ data]) (auto simp: example_candidate_def)
qed

section \<open>Routing properties\<close>

text \<open>
  What the routing is meant to guarantee, stated without the sets and the matches of the code: the
  variant a step is executed as, and the factories that may be named for a variant. They are the ones
  of the settings, the built-in ones, and the ones the registry lists as trusted and enabled; a
  Uniswap V4 or Balancer step names the configured pool manager or vault.
\<close>

fun executed_variant :: "dex_kind \<Rightarrow> pool_variant option \<Rightarrow> pool_variant option" where
  "executed_variant DexAerodrome None = Some AerodromeVolatile"
| "executed_variant DexUniswapV3 None = Some UniswapV3"
| "executed_variant DexPancakeSwap None = Some PancakeV3"
| "executed_variant DexUniswapV4 None = Some UniswapV4"
| "executed_variant DexBalancer None = Some BalancerV3"
| "executed_variant dex (Some variant) =
     (if (dex, variant) \<in> {(DexAerodrome, AerodromeVolatile), (DexAerodrome, AerodromeSlipstream),
         (DexUniswapV3, UniswapV3), (DexPancakeSwap, PancakeV3), (DexUniswapV4, UniswapV4), (DexBalancer, BalancerV3)}
      then Some variant else None)"

definition registry_lists :: "libs \<Rightarrow> factory_registry_record list \<Rightarrow> pool_variant \<Rightarrow> address \<Rightarrow> bool" where
  "registry_lists lib registry v a \<longleftrightarrow> (\<exists>row \<in> set registry. fr_trusted row \<and> fr_enabled row \<and>
     lib_parse_address lib (fr_factory_address row) = Some a \<and> parse_pool_variant (fr_variant row) = Some v)"

fun trusted_factory :: "libs \<Rightarrow> settings \<Rightarrow> factory_registry_record list \<Rightarrow> pool_variant \<Rightarrow> address \<Rightarrow> bool" where
  "trusted_factory lib cfg registry AerodromeVolatile a \<longleftrightarrow>
     cfg_aerodrome_pool_factory cfg = Some a \<or> a \<in> {aerodrome_classic_factory, uniswap_v2_factory} \<or>
     registry_lists lib registry AerodromeVolatile a"
| "trusted_factory lib cfg registry AerodromeSlipstream a \<longleftrightarrow>
     cfg_aerodrome_slipstream_factory cfg = Some a \<or> a \<in> set aerodrome_slipstream_factories \<or>
     registry_lists lib registry AerodromeSlipstream a"
| "trusted_factory lib cfg registry UniswapV3 a \<longleftrightarrow>
     cfg_uniswap_v3_factory cfg = Some a \<or> a = uniswap_v3_factory \<or> registry_lists lib registry UniswapV3 a"
| "trusted_factory lib cfg registry PancakeV3 a \<longleftrightarrow>
     cfg_pancake_v3_factory cfg = Some a \<or> a = pancake_v3_factory \<or> registry_lists lib registry PancakeV3 a"
| "trusted_factory lib cfg registry UniswapV4 a \<longleftrightarrow> cfg_uniswap_v4_pool_manager cfg = Some a"
| "trusted_factory lib cfg registry BalancerV3 a \<longleftrightarrow> cfg_balancer_v3_vault cfg = Some a"

text \<open>\<open>trusted_step\<close>: the encoded step names a factory trusted for the step's own variant, and the
  step's own factory when it carries one.\<close>

definition trusted_step ::
    "libs \<Rightarrow> settings \<Rightarrow> factory_registry_record list \<Rightarrow> swap_step \<Rightarrow> encoded_swap_step \<Rightarrow> bool" where
  "trusted_step lib cfg registry step e \<longleftrightarrow>
     (\<exists>v. executed_variant (st_dex step) (st_variant step) = Some v \<and>
        trusted_factory lib cfg registry v (es_factory e)) \<and>
     (\<forall>f. st_factory_address step = Some f \<longrightarrow> es_factory e = f)"

definition listed_variant :: "pool_variant \<Rightarrow> bool" where
  "listed_variant v \<longleftrightarrow> v \<noteq> UniswapV4 \<and> v \<noteq> BalancerV3"

lemma tf_contains_insert:
  "tf_contains (tf_insert w b s) v a \<longleftrightarrow> tf_contains s v a \<or> (v = w \<and> a = b \<and> listed_variant v)"
  by (cases v; cases w) (auto simp: listed_variant_def)

lemma tf_contains_fold:
  "tf_contains (fold (tf_insert w) bs s) v a \<longleftrightarrow> tf_contains s v a \<or> (v = w \<and> a \<in> set bs \<and> listed_variant v)"
  by (induction bs arbitrary: s) (auto simp: tf_contains_insert)

lemma tf_contains_optional:
  "tf_contains (tf_insert_optional w b s) v a \<longleftrightarrow> tf_contains s v a \<or> (v = w \<and> b = Some a \<and> listed_variant v)"
  by (auto simp: tf_insert_optional_def tf_contains_insert split: option.splits)

lemma registry_row_Some:
  "registry_row lib row = Some (v, a) \<longleftrightarrow> fr_trusted row \<and> fr_enabled row \<and>
     lib_parse_address lib (fr_factory_address row) = Some a \<and> parse_pool_variant (fr_variant row) = Some v"
  by (auto simp: registry_row_def split: option.splits)

lemma parsed_variant_listed: "parse_pool_variant s = Some v \<Longrightarrow> listed_variant v"
  by (auto simp: parse_pool_variant_def listed_variant_def split: if_splits)

lemma registry_lists_row:
  "registry_lists lib rows v a \<longleftrightarrow> (\<exists>row \<in> set rows. registry_row lib row = Some (v, a))"
  by (simp add: registry_lists_def registry_row_Some)

lemma tf_contains_registry:
  "tf_contains (insert_registry lib rows s) v a \<longleftrightarrow> tf_contains s v a \<or> registry_lists lib rows v a"
proof (induction rows arbitrary: s)
  case (Cons row rows)
  have "listed_variant v" if "registry_row lib row = Some (v, a)"
    using that by (auto simp: registry_row_Some dest: parsed_variant_listed)
  then have "tf_contains (case registry_row lib row of None \<Rightarrow> s | Some (v, a) \<Rightarrow> tf_insert v a s) v a \<longleftrightarrow>
      tf_contains s v a \<or> registry_row lib row = Some (v, a)"
    by (auto simp: tf_contains_insert simp del: tf_insert.simps split: option.splits)
  then show ?case by (auto simp: Cons.IH registry_lists_row)
qed (simp add: registry_lists_row)

text \<open>The factory set the code builds is the trusted factories of the four variants it keeps.\<close>

lemma tf_contains_trusted:
  "tf_contains (from_settings_and_registry lib cfg registry) v a \<longleftrightarrow>
     listed_variant v \<and> trusted_factory lib cfg registry v a"
proof -
  have "\<not> registry_lists lib registry v a" if "\<not> listed_variant v"
    using that by (auto simp: registry_lists_def dest: parsed_variant_listed)
  moreover have "\<not> tf_contains empty_factories v a" by (cases v) (simp_all add: empty_factories_def)
  ultimately show ?thesis
    unfolding from_settings_and_registry_def Let_def tf_contains_registry tf_contains_insert tf_contains_fold
      tf_contains_optional
    by (cases v) (auto simp: listed_variant_def)
qed

lemma reject_untrusted_factory_iff [simp]:
  "reject_untrusted_factory f tf v label = Inr u \<longleftrightarrow> (\<forall>a. f = Some a \<longrightarrow> tf_contains tf v a)"
  by (auto simp: reject_untrusted_factory_def split: option.splits)

lemma reject_untrusted_exact_factory_iff [simp]:
  "reject_untrusted_exact_factory f configured label = Inr u \<longleftrightarrow> (\<forall>a. f = Some a \<longrightarrow> configured = Some a)"
  by (auto simp: reject_untrusted_exact_factory_def split: option.splits)

lemma encode_step_trusted:
  assumes "encode_step lib cfg (from_settings_and_registry lib cfg registry) step = Inr e"
  shows "trusted_step lib cfg registry step e"
proof -
  let ?tf = "from_settings_and_registry lib cfg registry"
  from assms obtain kind where k: "step_execution_kind cfg ?tf step = Inr kind"
    and f: "factory_for_step cfg ?tf step = Inr (es_factory e)"
    by (auto simp: encode_step_def)
  have default: "aerodrome_slipstream_factories ! 0 \<in> set aerodrome_slipstream_factories"
    by (simp add: aerodrome_slipstream_factories_def)
  show ?thesis
    using k f default
    unfolding factory_for_step_def step_execution_kind_def own_variant_def is_slipstream_step_def trusted_step_def
      tf_contains_trusted reject_untrusted_factory_iff
    by (cases "st_dex step"; cases "st_variant step")
       (auto simp: is_uniswap_v2_factory_def tf_contains_trusted listed_variant_def simp del: tf_contains.simps
         split: if_splits option.splits)
qed

text \<open>C14: With the factory set built from the settings and the registry, every step that is encoded,
  for a router, for a direct pair swap or for an adapter, names a factory trusted for the variant the
  step is executed as, and its own factory when it carries one.\<close>

theorem encoded_factory_trusted:
  assumes "encode_step lib cfg (from_settings_and_registry lib cfg registry) step = Inr e"
  shows "(\<exists>v. executed_variant (st_dex step) (st_variant step) = Some v \<and>
       trusted_factory lib cfg registry v (es_factory e)) \<and>
    (\<forall>f. st_factory_address step = Some f \<longrightarrow> es_factory e = f)"
  using encode_step_trusted [OF assms] by (simp add: trusted_step_def)

lemma step_approval_iff:
  "step_approval cfg tf step = Inr (Some a) \<longleftrightarrow>
     (\<exists>r kind. a = \<lparr>ar_token = st_token_in step, ar_spender = r\<rparr> \<and> step_execution_kind cfg tf step = Inr kind \<and>
        needs_router_approval kind \<and> router_for_step cfg step = Some r)"
  by (cases "step_execution_kind cfg tf step") (auto simp: step_approval_def router_or_missing_def)

text \<open>C21: The approvals are exactly the router approvals of the path's router steps: each one is the
  input token and router of some router step, every router step has one, none is repeated, and they
  come in the order of token and router.\<close>

theorem approvals_exact:
  assumes "required_token_approvals cfg tf c = Inr approvals"
  shows "distinct approvals \<and> sorted (map (\<lambda>a. (ar_token a, ar_spender a)) approvals) \<and>
    set approvals = {\<lparr>ar_token = st_token_in step, ar_spender = r\<rparr> | step r kind.
      step \<in> set (ap_steps (cd_path c)) \<and> step_execution_kind cfg tf step = Inr kind \<and>
      needs_router_approval kind \<and> router_for_step cfg step = Some r}"
proof -
  from assms obtain xs where xs: "collect_results (step_approval cfg tf) (ap_steps (cd_path c)) = Inr xs"
    "approvals = remdups_adj (sort_key (\<lambda>a. (ar_token a, ar_spender a)) (somes xs))"
    by (auto simp: required_token_approvals_def)
  have inj: "inj (\<lambda>a :: approval_requirement. (ar_token a, ar_spender a))"
    by (intro injI) (simp add: approval_requirement.equality)
  have "sorted (map (\<lambda>a. (ar_token a, ar_spender a)) (sort_key (\<lambda>a. (ar_token a, ar_spender a)) (somes xs)))"
    by (rule sorted_sort_key)
  then have "distinct (remdups_adj (map (\<lambda>a. (ar_token a, ar_spender a)) (sort_key (\<lambda>a. (ar_token a, ar_spender a)) (somes xs))))"
    by (rule distinct_remdups_adj_sorted)
  then have "distinct (map (\<lambda>a. (ar_token a, ar_spender a)) approvals)"
    unfolding xs(2) by (simp add: remdups_adj_map_injective [OF inj])
  then have d: "distinct approvals" by (simp add: distinct_map)
  have "sorted (remdups_adj (map (\<lambda>a. (ar_token a, ar_spender a)) (sort_key (\<lambda>a. (ar_token a, ar_spender a)) (somes xs))))"
    by (rule sorted_remdups_adj) (rule sorted_sort_key)
  then have ordered: "sorted (map (\<lambda>a. (ar_token a, ar_spender a)) approvals)"
    unfolding xs(2) by (simp add: remdups_adj_map_injective [OF inj])
  have mem: "a \<in> set approvals \<longleftrightarrow>
    (\<exists>step \<in> set (ap_steps (cd_path c)). step_approval cfg tf step = Inr (Some a))" for a
    unfolding xs(2) collect_results_mem [OF xs(1), symmetric] by (auto simp: somes_def split: option.splits)
  show ?thesis
    using d ordered mem unfolding step_approval_iff by blast
qed

lemma encode_example_step:
  "encode_step example_libs example_settings tf (example_step 100 1 2) =
    Inr \<lparr>es_dex = 2, es_router = 12, es_pool = 100, es_token_in = 1, es_token_out = 2, es_fee = 3000,
      es_stable = False, es_factory = uniswap_v3_factory, es_data = []\<rparr>"
  by (simp add: example_step_def example_settings_simps encode_step_def
      step_execution_kind_def own_variant_def is_slipstream_step_def reject_untrusted_factory_def is_direct_def
      router_or_missing_def router_for_step_def router_fee_for_step_def factory_for_step_def
      adapter_data_for_step_def classic_stable_flag_def checked_mul_def Let_def)

theorem encoded_factory_trusted_witness:
  "\<exists>v. executed_variant DexUniswapV3 (Some UniswapV3) = Some v \<and>
     trusted_factory example_libs example_settings [] v uniswap_v3_factory"
  using encoded_factory_trusted [OF encode_example_step [where tf =
    "from_settings_and_registry example_libs example_settings []"]] by (simp add: example_step_def)

lemma example_kinds:
  "step_execution_kind example_settings tf (example_step p a b) = Inr KindUniswapV3Router"
  by (simp add: example_step_def step_execution_kind_def own_variant_def is_slipstream_step_def)

theorem approvals_exact_witness:
  "\<exists>approvals. required_token_approvals example_settings empty_factories example_candidate = Inr approvals \<and>
     distinct approvals"
proof -
  have "\<exists>approvals. required_token_approvals example_settings empty_factories example_candidate = Inr approvals"
    by (simp add: required_token_approvals_def example_candidate_def step_approval_def example_kinds
        needs_router_approval_def router_or_missing_def)
       (simp add: router_for_step_def example_step_def example_settings_simps)
  then obtain approvals where a: "required_token_approvals example_settings empty_factories example_candidate = Inr approvals" ..
  from approvals_exact [OF this] a show ?thesis by blast
qed

text \<open>The steps of a candidate against the encoded steps: in path order, all trusted.\<close>

lemma collect_trusted_steps:
  "collect_results (encode_step lib cfg (from_settings_and_registry lib cfg registry)) steps = Inr es \<Longrightarrow>
    list_all2 (trusted_step lib cfg registry) steps es"
  by (induction steps arbitrary: es) (auto dest: encode_step_trusted)

lemma simulate_reports:
  assumes "simulate lib provider cfg tf operator now now' now'' sim_id c context s = (r, s')"
  shows "sr_opportunity_id r = cd_id c" "\<not> sr_success r \<Longrightarrow> sr_revert_reason r \<noteq> None"
  using assms
  by (auto simp: simulate_def simulation_of_def simulate_inner_def act_Inr Let_def
      split: prod.splits sum.splits if_splits)

lemma simulate_successD:
  assumes "simulate lib provider cfg tf operator now now' now'' sim_id c context s = (r, s')" "sr_success r"
  obtains executor raw s1 where "\<not> is_expired c now" "cd_min_profit c \<le> cd_expected_profit c"
    "cd_min_profit c \<le> sr_simulated_profit r" "sr_revert_reason r = None"
    "executor_for_candidate cfg tf c = Inr executor"
    "build_simulation_calldata lib cfg tf now' c (cd_min_profit c) = Inr (sr_calldata r)"
    "cp_eth_call_from provider (Some operator) executor (''0x'' @ lib_hex_encode lib (sr_calldata r))
       ''Executor executeWithOwnFunds'' s = (Inr raw, s1)"
    "sr_simulated_profit r = (case decode_uint256_result lib raw of None \<Rightarrow> cd_expected_profit c | Some v \<Rightarrow> v)"
proof (cases "simulate_inner lib provider cfg tf operator now now' sim_id c context s")
  case (Pair res s2)
  show thesis
  proof (cases res)
    case (Inl e)
    with Pair assms show thesis by (auto simp: simulate_def simulation_of_def)
  next
    case (Inr r')
    with Pair assms have "simulate_inner lib provider cfg tf operator now now' sim_id c context s = (Inr r, s')"
      by (simp add: simulate_def)
    with assms(2) show thesis
      by (auto simp: simulate_inner_def act_Inr Let_def simulation_of_def split: if_splits intro!: that)
  qed
qed


lemma example_trusted_executor:
  "executor_for_candidate example_settings tf example_candidate = Inr 14"
proof -
  have "\<not> candidate_requires_direct_execution example_settings tf example_candidate"
    by (simp add: candidate_requires_direct_execution_def example_candidate_def example_kinds requires_hub_def)
  then show ?thesis
    by (simp add: executor_for_candidate_def example_candidate_def option_or_def example_settings_simps Let_def)
qed

lemma simulate_example:
  "\<exists>r. simulate example_libs example_provider example_settings
      (from_settings_and_registry example_libs example_settings []) 5 0 0 0 9 example_candidate
      \<lparr>sx_observed_block = None, sx_fees = Some \<lparr>sf_base_fee_per_gas = 10, sf_expected_fee_per_gas = 12,
         sf_max_fee_per_gas = 25, sf_max_priority_fee_per_gas = 2\<rparr>\<rparr> s = (r, s) \<and> sr_success r"
proof -
  obtain data where "build_execute_calldata example_libs example_settings
      (from_settings_and_registry example_libs example_settings []) example_candidate 20 (deadline_at 0) = Inr data"
    using build_example_calldata by blast
  moreover have "\<not> is_expired example_candidate 0" "cd_min_profit example_candidate = 20"
    "cd_expected_profit example_candidate = 50"
    by (simp_all add: is_expired_def example_candidate_def)
  moreover have "20 \<le> (case decode_uint256_result example_libs raw of None \<Rightarrow> cd_expected_profit example_candidate | Some v \<Rightarrow> v)" for raw
    by (simp add: decode_uint256_result_def example_libs_def example_candidate_def Let_def)
  ultimately show ?thesis
    by (simp add: simulate_def simulate_inner_def build_simulation_calldata_def example_trusted_executor
        bind_def lift_def pass_def act_context_def Let_def)
qed


end
