(* ===== verification/Tx_Manager.thy ===== *)
theory Tx_Manager
  imports Simulator
begin

text \<open>
  Building, sending and replacing transactions and recording their outcome:
  \<open>crates/execution-manager/src/tx_manager.rs\<close>. A wallet is its address; signing is the
  provider's \<open>cp_sign\<close>. The clock is an argument.
\<close>

section \<open>Fees\<close>

definition bump_gas_limit :: "u256 \<Rightarrow> u256" where
  "bump_gas_limit value =
     saturating_add
       (case checked_div (saturating_mul value 12000) 10000 of None \<Rightarrow> value | Some v \<Rightarrow> v) 25000"

definition tx_parse_optional_u256 :: "libs \<Rightarrow> string option \<Rightarrow> u256 option anyhow" where
  "tx_parse_optional_u256 lib raw =
     (case raw of
        None \<Rightarrow> Inr None
      | Some text \<Rightarrow>
          if trim text = [] then Inr None
          else rbind (lib_from_str_radix lib (trim text) 10) (\<lambda>v. Inr (Some v)))"

definition aggressive_fee_suggestion ::
    "libs \<Rightarrow> 's chain_provider \<Rightarrow> settings \<Rightarrow> ('s, eip1559_fee_suggestion) act" where
  "aggressive_fee_suggestion lib provider cfg =
     bind (cp_suggested_eip1559_fee_details provider) (\<lambda>suggested.
     bind (lift (tx_parse_optional_u256 lib (cfg_execution_min_priority_fee_wei cfg))) (\<lambda>min_priority.
     let priority = priority_fee cfg suggested min_priority in
     pass \<lparr>fe_base_fee_per_gas = fe_base_fee_per_gas suggested,
           fe_max_fee_per_gas = fee_cap cfg suggested priority,
           fe_max_priority_fee_per_gas = priority\<rparr>))"

definition bump_fee :: "u256 \<Rightarrow> u64 \<Rightarrow> u256" where
  "bump_fee value bump_bps = saturating_add (apply_bps value bump_bps) 1"

section \<open>Sending\<close>

record submission =
  sb_tx_hash :: b256
  sb_nonce :: u64
  sb_simulation_id :: "uuid option"
  sb_executor_contract :: address
  sb_submitted_block :: u64
  sb_gas_limit :: u256
  sb_max_fee_per_gas :: u256
  sb_max_priority_fee_per_gas :: u256

definition sign_and_send_value ::
    "'s chain_provider \<Rightarrow> address \<Rightarrow> settings \<Rightarrow> address \<Rightarrow> u8 list \<Rightarrow> u256 \<Rightarrow> u64 \<Rightarrow> u256 \<Rightarrow> u256 \<Rightarrow> u256 \<Rightarrow>
     ('s, b256) act" where
  "sign_and_send_value provider wallet cfg to calldata value nonce gas_limit max_fee max_priority =
     bind (lift (cp_sign provider wallet
       \<lparr>rq_to = to, rq_nonce = nonce, rq_chain_id = cfg_chain_id cfg, rq_gas = gas_limit,
        rq_max_fee_per_gas = max_fee, rq_max_priority_fee_per_gas = max_priority, rq_value = value,
        rq_data = calldata\<rparr>)) (\<lambda>raw_hex.
     cp_send_raw_transaction provider raw_hex)"

definition sign_and_send ::
    "'s chain_provider \<Rightarrow> address \<Rightarrow> settings \<Rightarrow> address \<Rightarrow> u8 list \<Rightarrow> u64 \<Rightarrow> u256 \<Rightarrow> u256 \<Rightarrow> u256 \<Rightarrow>
     ('s, b256) act" where
  "sign_and_send provider wallet cfg executor calldata nonce gas_limit max_fee max_priority =
     sign_and_send_value provider wallet cfg executor calldata 0 nonce gas_limit max_fee max_priority"

definition submit_candidate ::
    "libs \<Rightarrow> 's chain_provider \<Rightarrow> address \<Rightarrow> settings \<Rightarrow> trusted_factory_set \<Rightarrow> datetime \<Rightarrow>
     candidate \<Rightarrow> simulation_result \<Rightarrow> u64 \<Rightarrow> ('s, submission) act" where
  "submit_candidate lib provider wallet cfg tf now c sim nonce =
     bind (lift (executor_for_candidate cfg tf c)) (\<lambda>executor.
     if sr_calldata sim = [] then fail ''simulation calldata is empty''
     else
       let gas_limit = (case sr_gas_estimate sim of Some g \<Rightarrow> bump_gas_limit g | None \<Rightarrow> 900000) in
       bind (case (sr_max_fee_per_gas sim, sr_max_priority_fee_per_gas sim) of
               (Some m, Some p) \<Rightarrow> pass (m, p)
             | _ \<Rightarrow> bind (aggressive_fee_suggestion lib provider cfg) (\<lambda>fees.
                 pass (fe_max_fee_per_gas fees, fe_max_priority_fee_per_gas fees)))
         (\<lambda>(max_fee, max_priority).
       if is_expired c now then fail ''candidate expired before tx broadcast''
       else
         let submitted_block = (case sr_block_number sim of Some b \<Rightarrow> b | None \<Rightarrow> cd_block_number c) in
         bind (sign_and_send provider wallet cfg executor (sr_calldata sim) nonce gas_limit max_fee max_priority)
           (\<lambda>tx_hash.
         pass \<lparr>sb_tx_hash = tx_hash, sb_nonce = nonce, sb_simulation_id = Some (sr_id sim),
               sb_executor_contract = executor, sb_submitted_block = submitted_block,
               sb_gas_limit = gas_limit, sb_max_fee_per_gas = max_fee,
               sb_max_priority_fee_per_gas = max_priority\<rparr>)))"

definition submit_native_transfer ::
    "libs \<Rightarrow> 's chain_provider \<Rightarrow> address \<Rightarrow> settings \<Rightarrow> address \<Rightarrow> u256 \<Rightarrow> u64 \<Rightarrow> ('s, submission) act" where
  "submit_native_transfer lib provider wallet cfg to value nonce =
     (if value = 0 then fail ''native transfer value is zero''
      else
        bind (aggressive_fee_suggestion lib provider cfg) (\<lambda>fees.
        bind (cp_get_block_number provider) (\<lambda>submitted_block.
        bind (sign_and_send_value provider wallet cfg to [] value nonce 21000
                (fe_max_fee_per_gas fees) (fe_max_priority_fee_per_gas fees)) (\<lambda>tx_hash.
        pass \<lparr>sb_tx_hash = tx_hash, sb_nonce = nonce, sb_simulation_id = None,
              sb_executor_contract = 0, sb_submitted_block = submitted_block, sb_gas_limit = 21000,
              sb_max_fee_per_gas = fe_max_fee_per_gas fees,
              sb_max_priority_fee_per_gas = fe_max_priority_fee_per_gas fees\<rparr>))))"

definition hex_data :: "libs \<Rightarrow> u8 list \<Rightarrow> string" where
  "hex_data lib data = ''0x'' @ lib_hex_encode lib data"

definition submit_contract_call ::
    "libs \<Rightarrow> 's chain_provider \<Rightarrow> address \<Rightarrow> settings \<Rightarrow> address \<Rightarrow> u8 list \<Rightarrow> u64 \<Rightarrow> ('s, submission) act" where
  "submit_contract_call lib provider wallet cfg contract calldata nonce =
     bind (act_context ''failed to estimate admin tx gas''
             (cp_estimate_gas provider wallet contract (hex_data lib calldata))) (\<lambda>estimated_gas.
     let gas_limit = bump_gas_limit estimated_gas in
     bind (aggressive_fee_suggestion lib provider cfg) (\<lambda>fees.
     bind (cp_get_block_number provider) (\<lambda>submitted_block.
     bind (sign_and_send provider wallet cfg contract calldata nonce gas_limit
             (fe_max_fee_per_gas fees) (fe_max_priority_fee_per_gas fees)) (\<lambda>tx_hash.
     pass \<lparr>sb_tx_hash = tx_hash, sb_nonce = nonce, sb_simulation_id = None,
           sb_executor_contract = contract, sb_submitted_block = submitted_block,
           sb_gas_limit = gas_limit, sb_max_fee_per_gas = fe_max_fee_per_gas fees,
           sb_max_priority_fee_per_gas = fe_max_priority_fee_per_gas fees\<rparr>))))"

definition replace_pending_transaction ::
    "libs \<Rightarrow> 's chain_provider \<Rightarrow> address \<Rightarrow> settings \<Rightarrow> address \<Rightarrow> u8 list \<Rightarrow> u64 \<Rightarrow> u256 \<Rightarrow> u256 \<Rightarrow> u256 \<Rightarrow>
     ('s, submission) act" where
  "replace_pending_transaction lib provider wallet cfg executor calldata nonce gas_limit
       previous_max_fee previous_max_priority =
     (if executor = 0 then fail ''pending executor contract is not configured''
      else if calldata = [] then fail ''replacement calldata is empty''
      else
        bind (aggressive_fee_suggestion lib provider cfg) (\<lambda>suggested.
        let bump = cfg_execution_replacement_fee_bump_bps cfg;
            max_fee = max (fe_max_fee_per_gas suggested) (bump_fee previous_max_fee bump);
            max_priority = max (fe_max_priority_fee_per_gas suggested) (bump_fee previous_max_priority bump)
        in
        bind (cp_get_block_number provider) (\<lambda>submitted_block.
        bind (sign_and_send provider wallet cfg executor calldata nonce gas_limit max_fee max_priority) (\<lambda>tx_hash.
        pass \<lparr>sb_tx_hash = tx_hash, sb_nonce = nonce, sb_simulation_id = None,
              sb_executor_contract = executor, sb_submitted_block = submitted_block,
              sb_gas_limit = gas_limit, sb_max_fee_per_gas = max_fee,
              sb_max_priority_fee_per_gas = max_priority\<rparr>))))"

section \<open>Contract reads and approvals\<close>

definition approve_token_selector :: "u8 list" where
  "approve_token_selector = [0xda, 0x3e, 0x33, 0x97]"

definition erc20_allowance_selector :: "u8 list" where
  "erc20_allowance_selector = [0xdd, 0x62, 0xed, 0x3e]"

definition executor_operators_selector :: "u8 list" where
  "executor_operators_selector = [0x13, 0xe7, 0xc9, 0xd8]"

definition encode_approve_token_call :: "address \<Rightarrow> address \<Rightarrow> u256 \<Rightarrow> u8 list" where
  "encode_approve_token_call token spender amount =
     approve_token_selector @ encode_address token @ encode_address spender @ encode_u256 amount"

definition encode_two_address_call :: "u8 list \<Rightarrow> address \<Rightarrow> address \<Rightarrow> u8 list" where
  "encode_two_address_call selector a b = selector @ encode_address a @ encode_address b"

definition encode_address_call :: "u8 list \<Rightarrow> address \<Rightarrow> u8 list" where
  "encode_address_call selector a = selector @ encode_address a"

definition decode_u256_result :: "libs \<Rightarrow> string \<Rightarrow> u256 anyhow" where
  "decode_u256_result lib raw =
     (let clean = trim_start_0x raw in
      if length clean < 64 then bail ''eth_call returned short u256 result''
      else lib_from_str_radix lib (drop (length clean - 64) clean) 16)"

definition operator_enabled :: "libs \<Rightarrow> 's chain_provider \<Rightarrow> address \<Rightarrow> address \<Rightarrow> ('s, bool) act" where
  "operator_enabled lib provider executor operator =
     bind (cp_eth_call_from provider None executor
             (hex_data lib (encode_address_call executor_operators_selector operator)) ''Executor operators'') (\<lambda>raw.
     bind (lift (decode_u256_result lib raw)) (\<lambda>v. pass (v \<noteq> 0)))"

definition submit_executor_approval ::
    "libs \<Rightarrow> 's chain_provider \<Rightarrow> address \<Rightarrow> settings \<Rightarrow> address \<Rightarrow> approval_requirement \<Rightarrow> u64 \<Rightarrow> ('s, submission) act" where
  "submit_executor_approval lib provider wallet cfg executor approval nonce =
     submit_contract_call lib provider wallet cfg executor
       (encode_approve_token_call (ar_token approval) (ar_spender approval) (- 1)) nonce"

type_synonym approval_cache = "(address \<times> address \<times> address) set"

text \<open>The loop of \<open>missing_approvals_cached\<close>; the cache keeps what was found before an error.\<close>

fun missing_approvals_loop ::
    "libs \<Rightarrow> 's chain_provider \<Rightarrow> address \<Rightarrow> approval_requirement list \<Rightarrow>
     approval_requirement list \<Rightarrow> approval_cache \<Rightarrow> 's \<Rightarrow> (approval_requirement list anyhow \<times> approval_cache) \<times> 's" where
  "missing_approvals_loop lib provider executor [] missing cache s = ((Inr missing, cache), s)"
| "missing_approvals_loop lib provider executor (r # rs) missing cache s =
     (if ar_token r = 0 \<or> ar_spender r = 0 \<or> (executor, ar_token r, ar_spender r) \<in> cache
      then missing_approvals_loop lib provider executor rs missing cache s
      else
        case bind (cp_eth_call_from provider None (ar_token r)
               (hex_data lib (encode_two_address_call erc20_allowance_selector executor (ar_spender r)))
               ''ERC20 allowance for lazy approval'') (\<lambda>raw. lift (decode_u256_result lib raw)) s of
          (Inl e, s') \<Rightarrow> ((Inl e, cache), s')
        | (Inr allowance, s') \<Rightarrow>
            if allowance < 1000000000000000000
            then missing_approvals_loop lib provider executor rs (missing @ [r]) cache s'
            else missing_approvals_loop lib provider executor rs missing
                   (insert (executor, ar_token r, ar_spender r) cache) s')"

definition missing_approvals_cached ::
    "libs \<Rightarrow> 's chain_provider \<Rightarrow> settings \<Rightarrow> trusted_factory_set \<Rightarrow> candidate \<Rightarrow> approval_requirement list \<Rightarrow>
     approval_cache \<Rightarrow> 's \<Rightarrow> (approval_requirement list anyhow \<times> approval_cache) \<times> 's" where
  "missing_approvals_cached lib provider cfg tf c requirements cache s =
     (case executor_for_candidate cfg tf c of
        Inl e \<Rightarrow> ((Inl e, cache), s)
      | Inr executor \<Rightarrow> missing_approvals_loop lib provider executor requirements [] cache s)"

section \<open>Transaction records\<close>

definition tx_result_base :: "uuid \<Rightarrow> uuid option \<Rightarrow> address \<Rightarrow> b256 option \<Rightarrow> u64 \<Rightarrow> tx_status \<Rightarrow> tx_result" where
  "tx_result_base opportunity_id simulation_id eoa hash nonce status =
     \<lparr>tx_opportunity_id = opportunity_id, tx_simulation_id = simulation_id, tx_eoa = eoa,
      tx_tx_hash = hash, tx_nonce = nonce, tx_status = status, tx_realized_profit = None,
      tx_gas_used = None, tx_effective_gas_price = None, tx_revert_reason = None, tx_receipt_json = None\<rparr>"

definition pending_tx_result :: "candidate \<Rightarrow> address \<Rightarrow> submission \<Rightarrow> tx_result" where
  "pending_tx_result c eoa sub =
     tx_result_base (cd_id c) (sb_simulation_id sub) eoa (Some (sb_tx_hash sub)) (sb_nonce sub) TxPending"

definition pending_replacement_tx_result :: "uuid \<Rightarrow> uuid option \<Rightarrow> address \<Rightarrow> submission \<Rightarrow> tx_result" where
  "pending_replacement_tx_result opportunity_id simulation_id eoa sub =
     tx_result_base opportunity_id simulation_id eoa (Some (sb_tx_hash sub)) (sb_nonce sub) TxPending"

definition b256_hex :: "b256 \<Rightarrow> string" where
  "b256_hex h = ''0x'' @ hex_fixed 64 (unat h)"

definition dropped_replaced_tx_result ::
    "uuid \<Rightarrow> uuid option \<Rightarrow> address \<Rightarrow> b256 \<Rightarrow> u64 \<Rightarrow> b256 \<Rightarrow> tx_result" where
  "dropped_replaced_tx_result opportunity_id simulation_id eoa old_tx_hash nonce new_tx_hash =
     (tx_result_base opportunity_id simulation_id eoa (Some old_tx_hash) nonce TxDropped)
       \<lparr>tx_revert_reason := Some (''replaced by '' @ b256_hex new_tx_hash)\<rparr>"

definition dropped_consumed_nonce_tx_result ::
    "uuid \<Rightarrow> uuid option \<Rightarrow> address \<Rightarrow> b256 \<Rightarrow> u64 \<Rightarrow> u64 \<Rightarrow> tx_result" where
  "dropped_consumed_nonce_tx_result opportunity_id simulation_id eoa hash nonce confirmed_nonce =
     (tx_result_base opportunity_id simulation_id eoa (Some hash) nonce TxDropped)
       \<lparr>tx_revert_reason := Some (''pending nonce '' @ nat_dec (unat nonce) @
          '' already consumed by chain confirmed nonce '' @ nat_dec (unat confirmed_nonce))\<rparr>"

definition executed_event_topic :: string where
  "executed_event_topic = ''0xe953ae62f4f69be1c6d943cb68d93d288f23ffae7332b84196d46e9e778b23b2''"

text \<open>The loop over the logs: a question mark on a missing field leaves the whole function.\<close>

definition log_topic0 :: "json \<Rightarrow> string option" where
  "log_topic0 log =
     Option.bind (json_get log ''topics'') (\<lambda>topics.
     Option.bind (json_as_array topics) (\<lambda>ts.
     case ts of [] \<Rightarrow> None | t # _ \<Rightarrow> json_as_str t))"

fun executed_profit_loop :: "libs \<Rightarrow> json list \<Rightarrow> u256 option" where
  "executed_profit_loop lib [] = None"
| "executed_profit_loop lib (log # logs) =
     (case log_topic0 log of
        None \<Rightarrow> None
      | Some topic \<Rightarrow>
          if to_ascii_lowercase topic \<noteq> executed_event_topic then executed_profit_loop lib logs
          else case Option.bind (json_get log ''data'') json_as_str of
            None \<Rightarrow> None
          | Some raw \<Rightarrow>
              let data = trim_start_0x raw in
              if length data < 128 then executed_profit_loop lib logs
              else case lib_from_str_radix lib (take 64 (drop 64 data)) 16 of
                Inr profit \<Rightarrow> Some profit
              | Inl _ \<Rightarrow> executed_profit_loop lib logs)"

definition extract_executed_profit :: "libs \<Rightarrow> json \<Rightarrow> u256 option" where
  "extract_executed_profit lib receipt =
     Option.bind (json_get receipt ''logs'') (\<lambda>logs.
     Option.bind (json_as_array logs) (executed_profit_loop lib))"

definition receipt_tx_result :: "libs \<Rightarrow> uuid \<Rightarrow> uuid option \<Rightarrow> address \<Rightarrow> u64 \<Rightarrow> tx_receipt \<Rightarrow> tx_result" where
  "receipt_tx_result lib opportunity_id simulation_id eoa nonce receipt =
     \<lparr>tx_opportunity_id = opportunity_id, tx_simulation_id = simulation_id, tx_eoa = eoa,
      tx_tx_hash = Some (rc_tx_hash receipt), tx_nonce = nonce,
      tx_status = (if rc_success receipt then TxConfirmed else TxReverted),
      tx_realized_profit = (if rc_success receipt then extract_executed_profit lib (rc_raw receipt) else None),
      tx_gas_used = rc_gas_used receipt, tx_effective_gas_price = rc_effective_gas_price receipt,
      tx_revert_reason = (if rc_success receipt then None else Some ''transaction reverted''),
      tx_receipt_json = Some (rc_raw receipt)\<rparr>"

section \<open>Properties\<close>

lemma unat_bps [simp]: "unat (ucast (b :: u64) :: u256) = unat b"
  by (rule unat_ucast_up) simp

lemma unat_apply_bps: "unat (apply_bps v b) = min (unat v * unat b) (2 ^ 256 - 1) div 10000"
proof -
  have "apply_bps v b = saturating_mul v (ucast b) div 10000"
    by (simp add: apply_bps_def checked_div_def)
  then show ?thesis by (simp only: unat_div unat_saturating_mul unat_bps) simp
qed

lemma unat_bump_fee: "unat (bump_fee v b) = min (unat v * unat b) (2 ^ 256 - 1) div 10000 + 1"
proof -
  have "min (unat v * unat b) (2 ^ 256 - 1) div 10000 \<le> (2 ^ 256 - 1) div (10000 :: nat)"
    by (intro div_le_mono) simp
  then have "min (unat v * unat b) (2 ^ 256 - 1) div 10000 + 1 < 2 ^ 256" by simp
  then show ?thesis by (simp add: bump_fee_def unat_saturating_add unat_apply_bps)
qed

lemma bump_fee_outbids:
  assumes "10000 \<le> unat b" "unat v * unat b < 2 ^ 256"
  shows "v < bump_fee v b"
proof -
  have "unat v * 10000 div 10000 \<le> unat v * unat b div 10000"
    using assms(1) by (intro div_le_mono mult_le_mono2)
  then show ?thesis using assms(2) by (simp add: word_less_nat_alt unat_bump_fee min_def)
qed

text \<open>C18: A replacement is signed for the nonce, the gas limit, the contract and the calldata it was
  given with the very fees it reports, and what was signed is what was broadcast. Both fees exceed the
  old ones scaled by the configured bump (up to 256 bits) and so outbid them strictly whenever the
  bump is at least 10000 bps and the products fit.\<close>

theorem replacement_outbids:
  assumes "replace_pending_transaction lib provider wallet cfg executor calldata nonce gas_limit
      old_fee old_priority s = (Inr sub, s')"
  shows "let b = unat (cfg_execution_replacement_fee_bump_bps cfg) in
    sb_nonce sub = nonce \<and> sb_gas_limit sub = gas_limit \<and> sb_executor_contract sub = executor \<and>
    (\<exists>raw s1. cp_sign provider wallet \<lparr>rq_to = executor, rq_nonce = nonce, rq_chain_id = cfg_chain_id cfg,
         rq_gas = gas_limit, rq_max_fee_per_gas = sb_max_fee_per_gas sub,
         rq_max_priority_fee_per_gas = sb_max_priority_fee_per_gas sub, rq_value = 0, rq_data = calldata\<rparr> = Inr raw \<and>
       cp_send_raw_transaction provider raw s1 = (Inr (sb_tx_hash sub), s')) \<and>
    min (unat old_fee * b) (2 ^ 256 - 1) div 10000 < unat (sb_max_fee_per_gas sub) \<and>
    min (unat old_priority * b) (2 ^ 256 - 1) div 10000 < unat (sb_max_priority_fee_per_gas sub) \<and>
    (10000 \<le> b \<longrightarrow>
       (unat old_fee * b < 2 ^ 256 \<longrightarrow> old_fee < sb_max_fee_per_gas sub) \<and>
       (unat old_priority * b < 2 ^ 256 \<longrightarrow> old_priority < sb_max_priority_fee_per_gas sub))"
proof -
  let ?b = "cfg_execution_replacement_fee_bump_bps cfg"
  from assms obtain f p raw s1 where sub: "sb_nonce sub = nonce" "sb_gas_limit sub = gas_limit"
      "sb_executor_contract sub = executor" "sb_max_fee_per_gas sub = max f (bump_fee old_fee ?b)"
      "sb_max_priority_fee_per_gas sub = max p (bump_fee old_priority ?b)"
    and sent: "cp_sign provider wallet \<lparr>rq_to = executor, rq_nonce = nonce, rq_chain_id = cfg_chain_id cfg,
         rq_gas = gas_limit, rq_max_fee_per_gas = max f (bump_fee old_fee ?b),
         rq_max_priority_fee_per_gas = max p (bump_fee old_priority ?b), rq_value = 0, rq_data = calldata\<rparr> = Inr raw"
      "cp_send_raw_transaction provider raw s1 = (Inr (sb_tx_hash sub), s')"
    by (auto simp: replace_pending_transaction_def sign_and_send_def sign_and_send_value_def act_Inr Let_def
        split: if_splits)
  have above: "unat (bump_fee v ?b) \<le> unat (max g (bump_fee v ?b))" for v g
    by (simp flip: word_le_nat_alt)
  have scaled: "min (unat v * unat ?b) (2 ^ 256 - 1) div 10000 < unat (max g (bump_fee v ?b))" for v g
    using above [of v g] unat_bump_fee [of v ?b] by linarith
  have outbid: "v < max g (bump_fee v ?b)" if "10000 \<le> unat ?b" "unat v * unat ?b < 2 ^ 256" for v g
    using bump_fee_outbids [OF that] by (simp add: less_max_iff_disj)
  show ?thesis
    unfolding Let_def using sub(1-3) sent scaled outbid unfolding sub(4,5) by blast
qed

lemma example_fees:
  "aggressive_fee_suggestion example_libs example_provider example_settings s =
    (Inr \<lparr>fe_base_fee_per_gas = 10, fe_max_fee_per_gas = 25, fe_max_priority_fee_per_gas = 2\<rparr>, s)"
  unfolding aggressive_fee_suggestion_def
  by (simp add: bind_ok act_simps tx_parse_optional_u256_def priority_fee_def fee_cap_def
      apply_bps_def checked_div_def saturating_mul_def saturating_add_def cong: bind_weak_cong)

lemma example_bumps: "bump_fee 100 15000 = 151" "bump_fee 2 15000 = 4"
  by (simp_all add: bump_fee_def apply_bps_def checked_div_def saturating_mul_def saturating_add_def)

lemma replacement_example:
  "replace_pending_transaction example_libs example_provider 5 example_settings 14 [1] 7 21000 100 2 ()
    = (Inr \<lparr>sb_tx_hash = 77, sb_nonce = 7, sb_simulation_id = None, sb_executor_contract = 14,
         sb_submitted_block = 12, sb_gas_limit = 21000, sb_max_fee_per_gas = 151,
         sb_max_priority_fee_per_gas = 4\<rparr>, ())"
  unfolding replace_pending_transaction_def sign_and_send_def sign_and_send_value_def
  by (simp add: example_fees example_bumps bind_ok act_simps cong: bind_weak_cong)

theorem replacement_outbids_witness:
  "(100 :: u256) < 151 \<and> (2 :: u256) < 4"
  using replacement_outbids [OF replacement_example] by (simp add: example_settings_def)

text \<open>C19: An expired candidate, or one simulated without calldata, is never signed or broadcast: the
  call fails and behaves the same whatever signing and sending would do.\<close>

theorem submit_nothing_when_expired:
  assumes "is_expired c now \<or> sr_calldata sim = []"
  shows "submit_candidate lib provider wallet cfg tf now c sim nonce s =
      submit_candidate lib (provider\<lparr>cp_sign := sign, cp_send_raw_transaction := send\<rparr>) wallet cfg tf now c sim nonce s
    \<and> \<not> is_ok (fst (submit_candidate lib provider wallet cfg tf now c sim nonce s))"
  using assms
  by (auto simp: submit_candidate_def bind_def act_simps aggressive_fee_suggestion_def Let_def
      bail_def split: sum.splits prod.splits option.splits)

theorem submit_nothing_when_expired_witness:
  "\<not> is_ok (fst (submit_candidate example_libs example_provider 5 example_settings empty_factories 600000000
      example_candidate (simulation_of example_candidate 9) 7 ()))"
  using submit_nothing_when_expired [of example_candidate 600000000 "simulation_of example_candidate 9"
      example_libs example_provider 5 example_settings empty_factories 7 "()"]
  by (simp add: is_expired_def example_candidate_def)

text \<open>The allowance check of one requirement, and the requirements worth checking.\<close>

definition allowance_call ::
    "libs \<Rightarrow> 's chain_provider \<Rightarrow> address \<Rightarrow> address \<Rightarrow> address \<Rightarrow> ('s, u256) act" where
  "allowance_call lib provider executor token spender =
     bind (cp_eth_call_from provider None token
       (hex_data lib (encode_two_address_call erc20_allowance_selector executor spender))
       ''ERC20 allowance for lazy approval'') (\<lambda>raw. lift (decode_u256_result lib raw))"

definition real_requirement :: "approval_requirement \<Rightarrow> bool" where
  "real_requirement r \<longleftrightarrow> ar_token r \<noteq> 0 \<and> ar_spender r \<noteq> 0"

definition approval_key :: "address \<Rightarrow> approval_requirement \<Rightarrow> address \<times> address \<times> address" where
  "approval_key executor r = (executor, ar_token r, ar_spender r)"

lemma missing_approvals_loop_Cons:
  "missing_approvals_loop lib provider executor (r # rs) missing cache s =
     (if \<not> real_requirement r \<or> approval_key executor r \<in> cache
      then missing_approvals_loop lib provider executor rs missing cache s
      else case allowance_call lib provider executor (ar_token r) (ar_spender r) s of
          (Inl e, s') \<Rightarrow> ((Inl e, cache), s')
        | (Inr allowance, s') \<Rightarrow>
            if allowance < 1000000000000000000
            then missing_approvals_loop lib provider executor rs (missing @ [r]) cache s'
            else missing_approvals_loop lib provider executor rs missing (insert (approval_key executor r) cache) s')"
  unfolding missing_approvals_loop.simps real_requirement_def approval_key_def allowance_call_def
  by (simp only: de_Morgan_conj not_not disj_assoc)

text \<open>\<open>approved\<close>: the keys of the requirements whose allowance suffices.\<close>

definition approved :: "(address \<Rightarrow> address \<Rightarrow> u256) \<Rightarrow> address \<Rightarrow> approval_requirement list \<Rightarrow> approval_cache" where
  "approved allow executor rs = approval_key executor `
     {r \<in> set rs. real_requirement r \<and> 1000000000000000000 \<le> allow (ar_token r) (ar_spender r)}"

lemma missing_approvals_loop_exact:
  assumes "\<And>t sp s v s'. allowance_call lib provider executor t sp s = (Inr v, s') \<Longrightarrow> v = allow t sp"
    and "missing_approvals_loop lib provider executor rs missing cache s = ((res, cache'), s')"
  shows "case res of
      Inr out \<Rightarrow> out = missing @ filter (\<lambda>r. real_requirement r \<and> approval_key executor r \<notin> cache \<and>
          allow (ar_token r) (ar_spender r) < 1000000000000000000) rs \<and>
        cache' = cache \<union> approved allow executor rs
    | Inl e \<Rightarrow> cache \<subseteq> cache' \<and> cache' \<subseteq> cache \<union> approved allow executor rs"
  using assms(2)
proof (induction rs arbitrary: missing cache s)
  case Nil
  then show ?case by (auto simp: approved_def)
next
  case (Cons r rs)
  let ?allow = "allow (ar_token r) (ar_spender r)" and ?key = "approval_key executor r"
  have keep: "approved allow executor (r # rs) =
      (if real_requirement r \<and> 1000000000000000000 \<le> ?allow then {?key} else {}) \<union> approved allow executor rs"
    by (auto simp: approved_def)
  show ?case
  proof (cases "\<not> real_requirement r \<or> ?key \<in> cache")
    case True
    with Cons.prems have "missing_approvals_loop lib provider executor rs missing cache s = ((res, cache'), s')"
      by (simp only: missing_approvals_loop_Cons if_True)
    from Cons.IH [OF this] True show ?thesis unfolding keep by (auto split: sum.splits)
  next
    case False
    show ?thesis
    proof (cases "allowance_call lib provider executor (ar_token r) (ar_spender r) s")
      case (Pair answer s1)
      show ?thesis
      proof (cases answer)
        case (Inl e)
        with Cons.prems False Pair show ?thesis
          by (auto simp: missing_approvals_loop_Cons simp del: missing_approvals_loop.simps)
      next
        case (Inr v)
        with Pair have v: "v = ?allow" by (simp add: assms(1))
        show ?thesis
        proof (cases "?allow < 1000000000000000000")
          case True
          with Cons.prems False Pair Inr v
          have "missing_approvals_loop lib provider executor rs (missing @ [r]) cache s1 = ((res, cache'), s')"
            by (simp add: missing_approvals_loop_Cons del: missing_approvals_loop.simps)
          from Cons.IH [OF this] False True show ?thesis unfolding keep by (auto split: sum.splits)
        next
          case enough: False
          with Cons.prems False Pair Inr v
          have loop: "missing_approvals_loop lib provider executor rs missing (insert ?key cache) s1 = ((res, cache'), s')"
            by (simp add: missing_approvals_loop_Cons del: missing_approvals_loop.simps)
          have "filter (\<lambda>q. real_requirement q \<and> approval_key executor q \<notin> insert ?key cache \<and>
                allow (ar_token q) (ar_spender q) < 1000000000000000000) rs =
              filter (\<lambda>q. real_requirement q \<and> approval_key executor q \<notin> cache \<and>
                allow (ar_token q) (ar_spender q) < 1000000000000000000) rs"
            using enough by (intro filter_cong) (auto simp: approval_key_def)
          with Cons.IH [OF loop] False enough show ?thesis unfolding keep by (auto split: sum.splits)
        qed
      qed
    qed
  qed
qed

text \<open>C20: The allowance check is exact, for allowances that stay the same during the check. When every
  call answers, the requirements reported are exactly those with a real token and spender, not yet
  known as approved, whose allowance is below 10^18, in their order; and the ones recorded as approved
  are exactly those whose allowance suffices. When a call fails nothing recorded is lost, and still
  nothing with an insufficient allowance is recorded.\<close>

theorem missing_approvals_complete:
  assumes "\<And>t sp s v s'. allowance_call lib provider executor t sp s = (Inr v, s') \<Longrightarrow> v = allow t sp"
    and "executor_for_candidate cfg tf c = Inr executor"
    and "missing_approvals_cached lib provider cfg tf c rs cache s = ((res, cache'), s')"
  shows "case res of
      Inr out \<Rightarrow> out = filter (\<lambda>r. ar_token r \<noteq> 0 \<and> ar_spender r \<noteq> 0 \<and>
          (executor, ar_token r, ar_spender r) \<notin> cache \<and>
          allow (ar_token r) (ar_spender r) < 1000000000000000000) rs \<and>
        cache' = cache \<union> approved allow executor rs
    | Inl e \<Rightarrow> cache \<subseteq> cache' \<and> cache' \<subseteq> cache \<union> approved allow executor rs"
proof -
  have "missing_approvals_loop lib provider executor rs [] cache s = ((res, cache'), s')"
    using assms(2,3) by (simp add: missing_approvals_cached_def)
  with assms(1) have "case res of
      Inr out \<Rightarrow> out = [] @ filter (\<lambda>r. real_requirement r \<and> approval_key executor r \<notin> cache \<and>
          allow (ar_token r) (ar_spender r) < 1000000000000000000) rs \<and>
        cache' = cache \<union> approved allow executor rs
    | Inl e \<Rightarrow> cache \<subseteq> cache' \<and> cache' \<subseteq> cache \<union> approved allow executor rs"
    by (rule missing_approvals_loop_exact)
  then show ?thesis
    unfolding real_requirement_def approval_key_def append_Nil conj_assoc .
qed

lemma example_missing:
  "missing_approvals_cached example_libs example_provider example_settings empty_factories example_candidate
     [\<lparr>ar_token = 1, ar_spender = 12\<rparr>] {} () = ((Inr [\<lparr>ar_token = 1, ar_spender = 12\<rparr>], {}), ())"
proof -
  have "trim_start_0x (replicate 64 CHR ''0'') = replicate 64 CHR ''0''"
    by (simp add: numeral_eq_Suc)
  then show ?thesis
    by (simp add: missing_approvals_cached_def executor_for_candidate_def candidate_requires_direct_execution_def
      example_candidate_def example_kinds requires_hub_def option_or_def bind_ok act_simps decode_u256_result_def
      example_libs_def)
qed

lemma example_allowance: "allowance_call example_libs example_provider executor t sp s = (Inr 40, s)"
proof -
  have "trim_start_0x (replicate 64 CHR ''0'') = replicate 64 CHR ''0''"
    by (simp add: numeral_eq_Suc)
  then show ?thesis
    by (simp add: allowance_call_def bind_ok act_simps decode_u256_result_def example_libs_def)
qed

theorem missing_approvals_complete_witness:
  "[\<lparr>ar_token = 1, ar_spender = 12\<rparr>] = filter (\<lambda>r. ar_token r \<noteq> 0 \<and> ar_spender r \<noteq> 0 \<and>
      (14, ar_token r, ar_spender r) \<notin> {} \<and> (40 :: u256) < 1000000000000000000) [\<lparr>ar_token = 1, ar_spender = 12\<rparr>] \<and>
   approved (\<lambda>_ _. 40) 14 [\<lparr>ar_token = 1, ar_spender = 12\<rparr>] = {}"
  using missing_approvals_complete [where allow = "\<lambda>_ _. 40", OF _ example_trusted_executor example_missing]
  by (simp add: example_allowance)

text \<open>The specification of the realized profit: the first executed-event log that decodes, among the
  logs before the first one that cannot be read.\<close>

definition is_executed_log :: "json \<Rightarrow> bool" where
  "is_executed_log log \<longleftrightarrow> map_option to_ascii_lowercase (log_topic0 log) = Some executed_event_topic"

definition log_data :: "json \<Rightarrow> string option" where
  "log_data log = Option.bind (json_get log ''data'') json_as_str"

definition readable_log :: "json \<Rightarrow> bool" where
  "readable_log log \<longleftrightarrow> log_topic0 log \<noteq> None \<and> (is_executed_log log \<longrightarrow> log_data log \<noteq> None)"

definition log_profit :: "libs \<Rightarrow> json \<Rightarrow> u256 option" where
  "log_profit lib log =
     (case log_data log of
        Some raw \<Rightarrow>
          if is_executed_log log \<and> 128 \<le> length (trim_start_0x raw)
          then (case lib_from_str_radix lib (take 64 (drop 64 (trim_start_0x raw))) 16 of
            Inr profit \<Rightarrow> Some profit | Inl _ \<Rightarrow> None)
          else None
      | None \<Rightarrow> None)"

text \<open>C40: The realized profit of any receipt is the profit of the first executed-event log that decodes
  (none when the receipt has no list of logs), looking only at the logs before the first unreadable one: an anonymous log (no topics) ahead of the
  event hides the profit.\<close>

theorem executed_profit_first_readable:
  "extract_executed_profit lib receipt =
     (case Option.bind (json_get receipt ''logs'') json_as_array of
        None \<Rightarrow> None
      | Some logs \<Rightarrow> first_some (map (log_profit lib) (takeWhile readable_log logs)))"
proof -
  have "executed_profit_loop lib logs = first_some (map (log_profit lib) (takeWhile readable_log logs))" for logs
  proof (induction logs)
    case (Cons log logs)
    then show ?case
      by (cases "log_topic0 log"; cases "log_data log")
        (auto simp: readable_log_def is_executed_log_def log_profit_def log_data_def Let_def split: sum.splits)
  qed simp
  then show ?thesis by (simp add: extract_executed_profit_def split: option.splits Option.bind_splits)
qed

end
