(* ===== verification/Eoa_Lane.thy ===== *)
theory Eoa_Lane
  imports Types
begin

text \<open>
  The lane of one worker account, \<open>crates/execution-manager/src/eoa_lane.rs\<close>: its transitions as
  functions on the stored state, and the invariant that relates its status to its pending fields.
\<close>

definition lane_new :: "address \<Rightarrow> eoa_lane_state" where
  "lane_new a = \<lparr>ln_address = a, ln_local_nonce = 0, ln_confirmed_nonce = 0, ln_pending_tx = None,
     ln_pending_executor_contract = None, ln_pending_opportunity_id = None, ln_pending_simulation_id = None,
     ln_pending_nonce = None, ln_pending_submitted_block = None, ln_pending_replacement_count = 0,
     ln_pending_gas_limit = None, ln_pending_max_fee_per_gas = None,
     ln_pending_max_priority_fee_per_gas = None, ln_eth_balance = 0, ln_status = LaneIdle\<rparr>"

definition mark_submitted ::
    "uuid \<Rightarrow> uuid option \<Rightarrow> b256 \<Rightarrow> address \<Rightarrow> u64 \<Rightarrow> u64 \<Rightarrow> u256 \<Rightarrow> u256 \<Rightarrow> u256 \<Rightarrow> eoa_lane_state \<Rightarrow> eoa_lane_state" where
  "mark_submitted opportunity_id simulation_id tx_hash executor nonce submitted_block gas_limit
       max_fee max_priority lane =
     lane\<lparr>ln_pending_tx := Some tx_hash, ln_pending_executor_contract := Some executor,
          ln_pending_opportunity_id := Some opportunity_id, ln_pending_simulation_id := simulation_id,
          ln_pending_nonce := Some nonce, ln_pending_submitted_block := Some submitted_block,
          ln_pending_replacement_count := 0, ln_pending_gas_limit := Some gas_limit,
          ln_pending_max_fee_per_gas := Some max_fee,
          ln_pending_max_priority_fee_per_gas := Some max_priority,
          ln_local_nonce := saturating_add nonce 1, ln_status := LanePending\<rparr>"

definition mark_replaced :: "b256 \<Rightarrow> u64 \<Rightarrow> u256 \<Rightarrow> u256 \<Rightarrow> u256 \<Rightarrow> eoa_lane_state \<Rightarrow> eoa_lane_state" where
  "mark_replaced tx_hash submitted_block gas_limit max_fee max_priority lane =
     lane\<lparr>ln_pending_tx := Some tx_hash, ln_pending_submitted_block := Some submitted_block,
          ln_pending_replacement_count := saturating_add (ln_pending_replacement_count lane) 1,
          ln_pending_gas_limit := Some gas_limit, ln_pending_max_fee_per_gas := Some max_fee,
          ln_pending_max_priority_fee_per_gas := Some max_priority, ln_status := LanePending\<rparr>"

definition mark_confirmed :: "u64 \<Rightarrow> eoa_lane_state \<Rightarrow> eoa_lane_state" where
  "mark_confirmed confirmed_nonce lane =
     lane\<lparr>ln_confirmed_nonce := confirmed_nonce, ln_pending_tx := None,
          ln_pending_executor_contract := None, ln_pending_opportunity_id := None,
          ln_pending_simulation_id := None, ln_pending_nonce := None,
          ln_pending_submitted_block := None, ln_pending_replacement_count := 0,
          ln_pending_gas_limit := None, ln_pending_max_fee_per_gas := None,
          ln_pending_max_priority_fee_per_gas := None, ln_status := LaneIdle\<rparr>"

definition clear_consumed_pending :: "u64 \<Rightarrow> u64 \<Rightarrow> u256 \<Rightarrow> eoa_lane_state \<Rightarrow> eoa_lane_state" where
  "clear_consumed_pending confirmed_nonce local_nonce eth_balance lane =
     (mark_confirmed confirmed_nonce lane)\<lparr>ln_local_nonce := local_nonce, ln_eth_balance := eth_balance\<rparr>"

definition mark_blocked :: "eoa_lane_state \<Rightarrow> eoa_lane_state" where
  "mark_blocked lane = lane\<lparr>ln_status := LaneBlocked\<rparr>"

definition mark_cooldown :: "eoa_lane_state \<Rightarrow> eoa_lane_state" where
  "mark_cooldown lane = lane\<lparr>ln_status := LaneCooldown\<rparr>"

section \<open>The lane invariant\<close>

text \<open>A pending lane knows everything a replacement and a receipt need; any other lane has no
  pending transaction, and no lane is blocked.\<close>

definition pending_fields_known :: "eoa_lane_state \<Rightarrow> bool" where
  "pending_fields_known lane \<longleftrightarrow>
     ln_pending_tx lane \<noteq> None \<and> ln_pending_executor_contract lane \<noteq> None \<and>
     ln_pending_opportunity_id lane \<noteq> None \<and> ln_pending_simulation_id lane \<noteq> None \<and>
     ln_pending_nonce lane \<noteq> None \<and> ln_pending_submitted_block lane \<noteq> None \<and>
     ln_pending_gas_limit lane \<noteq> None \<and> ln_pending_max_fee_per_gas lane \<noteq> None \<and>
     ln_pending_max_priority_fee_per_gas lane \<noteq> None"

definition pending_fields_empty :: "eoa_lane_state \<Rightarrow> bool" where
  "pending_fields_empty lane \<longleftrightarrow>
     ln_pending_tx lane = None \<and> ln_pending_executor_contract lane = None \<and>
     ln_pending_opportunity_id lane = None \<and> ln_pending_simulation_id lane = None \<and>
     ln_pending_nonce lane = None \<and> ln_pending_submitted_block lane = None \<and>
     ln_pending_replacement_count lane = 0 \<and>
     ln_pending_gas_limit lane = None \<and> ln_pending_max_fee_per_gas lane = None \<and>
     ln_pending_max_priority_fee_per_gas lane = None"

definition lane_ok :: "eoa_lane_state \<Rightarrow> bool" where
  "lane_ok lane \<longleftrightarrow>
     (case ln_status lane of
        LanePending \<Rightarrow> pending_fields_known lane
      | LaneIdle \<Rightarrow> pending_fields_empty lane
      | LaneCooldown \<Rightarrow> pending_fields_empty lane
      | LaneBlocked \<Rightarrow> False)"

named_theorems lane_ops \<open>the lane transitions unfolded\<close>

lemmas lane_defs [lane_ops] =
  lane_new_def mark_submitted_def mark_replaced_def mark_confirmed_def clear_consumed_pending_def
  mark_blocked_def mark_cooldown_def

lemma lane_ok_new [simp]: "lane_ok (lane_new a)"
  by (simp add: lane_ok_def lane_ops pending_fields_empty_def)

lemma lane_ok_submitted [simp]: "lane_ok (mark_submitted opp (Some sim) h ex n b g f p lane)"
  by (simp add: lane_ok_def lane_ops pending_fields_known_def)

lemma lane_ok_replaced:
  "lane_ok lane \<Longrightarrow> ln_status lane = LanePending \<Longrightarrow> lane_ok (mark_replaced h b g f p lane)"
  by (simp add: lane_ok_def lane_ops pending_fields_known_def)

lemma lane_ok_confirmed [simp]: "lane_ok (mark_confirmed n lane)"
  by (simp add: lane_ok_def lane_ops pending_fields_empty_def)

lemma lane_ok_cleared [simp]: "lane_ok (clear_consumed_pending c l b lane)"
  by (simp add: lane_ok_def lane_ops pending_fields_empty_def)

lemma lane_ok_cooldown:
  "lane_ok lane \<Longrightarrow> ln_status lane \<noteq> LanePending \<Longrightarrow> lane_ok (mark_cooldown lane)"
  by (cases "ln_status lane") (auto simp: lane_ok_def lane_ops pending_fields_empty_def)

lemma lane_ok_balances:
  "lane_ok (lane\<lparr>ln_local_nonce := n\<rparr>) = lane_ok lane"
  "lane_ok (lane\<lparr>ln_eth_balance := v\<rparr>) = lane_ok lane"
  "lane_ok (lane\<lparr>ln_confirmed_nonce := c\<rparr>) = lane_ok lane"
  by (simp_all add: lane_ok_def pending_fields_empty_def pending_fields_known_def
      split: eoa_lane_status.splits)

lemma lane_ok_pending: "lane_ok lane \<Longrightarrow> ln_status lane = LanePending \<Longrightarrow> pending_fields_known lane"
  by (simp add: lane_ok_def)

lemma lane_ok_not_pending:
  "lane_ok lane \<Longrightarrow> ln_status lane \<noteq> LanePending \<Longrightarrow> pending_fields_empty lane"
  by (cases "ln_status lane") (auto simp: lane_ok_def)

lemma lane_address [simp]:
  "ln_address (lane_new a) = a"
  "ln_address (mark_submitted opp sim h ex n b g f p lane) = ln_address lane"
  "ln_address (mark_replaced h b g f p lane) = ln_address lane"
  "ln_address (mark_confirmed n lane) = ln_address lane"
  "ln_address (clear_consumed_pending n m v lane) = ln_address lane"
  "ln_address (mark_blocked lane) = ln_address lane"
  "ln_address (mark_cooldown lane) = ln_address lane"
  by (simp_all add: lane_ops)

lemma lane_status [simp]:
  "ln_status (lane_new a) = LaneIdle"
  "ln_status (mark_submitted opp sim h ex n b g f p lane) = LanePending"
  "ln_status (mark_replaced h b g f p lane) = LanePending"
  "ln_status (mark_confirmed n lane) = LaneIdle"
  "ln_status (clear_consumed_pending n m v lane) = LaneIdle"
  "ln_status (mark_blocked lane) = LaneBlocked"
  "ln_status (mark_cooldown lane) = LaneCooldown"
  by (simp_all add: lane_ops)

end
