(* ===== verification/Coalesce.thy ===== *)
theory Coalesce
  imports Types
begin

text \<open>
  Keeping the best element per key, as the searcher and the execution manager do with a hash map
  before they rank candidates. The map is a list of one element per key in the order of first
  occurrence; the code's iteration order over the map is a permutation given by the caller.
  The interface \<open>best_by_rank\<close> states when the code replaces the element it holds.
\<close>

fun upsert_best :: "('a \<Rightarrow> 'k) \<Rightarrow> ('a \<Rightarrow> 'a \<Rightarrow> bool) \<Rightarrow> 'a \<Rightarrow> 'a list \<Rightarrow> 'a list" where
  "upsert_best key replaces x [] = [x]"
| "upsert_best key replaces x (y # ys) =
     (if key y = key x then (if replaces x y then x else y) # ys
      else y # upsert_best key replaces x ys)"

definition keep_best :: "('a \<Rightarrow> 'k) \<Rightarrow> ('a \<Rightarrow> 'a \<Rightarrow> bool) \<Rightarrow> 'a list \<Rightarrow> 'a list" where
  "keep_best key replaces xs = fold (upsert_best key replaces) xs []"

lemma keep_best_Nil [simp]: "keep_best key replaces [] = []"
  by (simp add: keep_best_def)

lemma keep_best_snoc [simp]:
  "keep_best key replaces (xs @ [x]) = upsert_best key replaces x (keep_best key replaces xs)"
  by (simp add: keep_best_def)

lemma upsert_best_keys:
  "map key (upsert_best key replaces x ys) =
     (if key x \<in> key ` set ys then map key ys else map key ys @ [key x])"
  by (induction ys) auto

lemma upsert_best_set: "set (upsert_best key replaces x ys) \<subseteq> insert x (set ys)"
  by (induction ys) auto

lemma keep_best_distinct: "distinct (map key (keep_best key replaces xs))"
proof (induction xs rule: rev_induct)
  case (snoc x xs)
  then show ?case by (auto simp: upsert_best_keys simp del: map_append)
qed simp

lemma keep_best_subset: "set (keep_best key replaces xs) \<subseteq> set xs"
proof (induction xs rule: rev_induct)
  case (snoc x xs)
  with upsert_best_set [of key replaces x "keep_best key replaces xs"] show ?case by auto
qed simp

lemma keep_best_keys: "key ` set (keep_best key replaces xs) = key ` set xs"
proof (induction xs rule: rev_induct)
  case (snoc x xs)
  have "key ` set (upsert_best key replaces x (keep_best key replaces xs)) =
      set (map key (upsert_best key replaces x (keep_best key replaces xs)))" by simp
  also have "\<dots> = insert (key x) (key ` set (keep_best key replaces xs))"
    unfolding upsert_best_keys by auto
  finally show ?case using snoc by simp
qed simp

lemma keep_best_length: "length (keep_best key replaces xs) \<le> length xs"
proof (induction xs rule: rev_induct)
  case (snoc x xs)
  have "length (upsert_best key replaces x ys) \<le> Suc (length ys)" for ys
    by (induction ys) auto
  then have "length (upsert_best key replaces x (keep_best key replaces xs)) \<le> Suc (length (keep_best key replaces xs))" .
  with snoc show ?case by simp
qed simp

locale best_by_rank =
  fixes key :: "'a \<Rightarrow> 'k" and rank :: "'a \<Rightarrow> 'r::linorder" and replaces :: "'a \<Rightarrow> 'a \<Rightarrow> bool"
  assumes replaces_iff: "replaces x y \<longleftrightarrow> rank y < rank x"
begin

lemma upsert_keeps_bound:
  assumes "y \<in> set ys"
  shows "\<exists>z \<in> set (upsert_best key replaces x ys). key z = key y \<and> rank y \<le> rank z"
  using assms by (induction ys) (auto simp: replaces_iff)

lemma upsert_bounds_new:
  "\<exists>z \<in> set (upsert_best key replaces x ys). key z = key x \<and> rank x \<le> rank z"
  by (induction ys) (auto simp: replaces_iff)

lemma keep_best_bound:
  assumes "x \<in> set xs"
  shows "\<exists>z \<in> set (keep_best key replaces xs). key z = key x \<and> rank x \<le> rank z"
  using assms
proof (induction xs rule: rev_induct)
  case (snoc y xs)
  show ?case
  proof (cases "x = y")
    case True
    then show ?thesis using upsert_bounds_new by simp
  next
    case False
    with snoc obtain z where "z \<in> set (keep_best key replaces xs)" "key z = key x" "rank x \<le> rank z"
      by auto
    then show ?thesis using upsert_keeps_bound [of z "keep_best key replaces xs" y] by fastforce
  qed
qed simp

text \<open>What is kept is the best of its key.\<close>

lemma keep_best_is_best:
  assumes "z \<in> set (keep_best key replaces xs)" "x \<in> set xs" "key x = key z"
  shows "rank x \<le> rank z"
proof -
  obtain z' where z': "z' \<in> set (keep_best key replaces xs)" "key z' = key x" "rank x \<le> rank z'"
    using keep_best_bound [OF assms(2)] by blast
  have "inj_on key (set (keep_best key replaces xs))"
    using keep_best_distinct [of key replaces xs] by (simp add: distinct_map)
  then have "z' = z" using assms(1,3) z'(1,2) by (simp add: inj_on_def)
  with z' show ?thesis by simp
qed

end

end
