(* ===== verification/Execution.thy ===== *)
theory Execution
  imports Tx_Manager Eoa_Lane Coalesce
begin

text \<open>
  The execution manager of \<open>crates/execution-manager/src/main.rs\<close>: the candidate queue, the
  duplicate keys, the circuit breaker, the reconciliation of pending lanes, and the submission of
  a simulated candidate. Stores, provider and clock are the records of theory \<open>Effects\<close>; the lane
  and the breaker, which the code holds as mutable borrows, are arguments returned updated.
\<close>

section \<open>Candidates: keys, duplicates and the queue\<close>

record candidate_dedup_key =
  dk_block_number :: u64
  dk_path_name :: string
  dk_token_in :: address
  dk_amount_in :: u256

definition dedup_key :: "candidate \<Rightarrow> candidate_dedup_key" where
  "dedup_key c = \<lparr>dk_block_number = cd_block_number c, dk_path_name = ap_name (cd_path c),
     dk_token_in = cd_token_in c, dk_amount_in = cd_amount_in c\<rparr>"

type_synonym submitted_candidate_keys = "candidate_dedup_key set"

definition contains_candidate :: "submitted_candidate_keys \<Rightarrow> candidate \<Rightarrow> bool" where
  "contains_candidate keys c \<longleftrightarrow> dedup_key c \<in> keys"

definition insert_candidate :: "candidate \<Rightarrow> submitted_candidate_keys \<Rightarrow> submitted_candidate_keys" where
  "insert_candidate c keys = insert (dedup_key c) keys"

definition prune_before :: "u64 \<Rightarrow> submitted_candidate_keys \<Rightarrow> submitted_candidate_keys" where
  "prune_before min_block_number keys = {k \<in> keys. min_block_number \<le> dk_block_number k}"

definition more_profitable :: "candidate \<Rightarrow> candidate \<Rightarrow> bool" where
  "more_profitable c existing \<longleftrightarrow> cd_expected_profit c > cd_expected_profit existing"

text \<open>\<open>order\<close> is the iteration order of the hash map.\<close>

definition coalesce_candidates_by_execution_key ::
    "(candidate list \<Rightarrow> candidate list) \<Rightarrow> candidate list \<Rightarrow> candidate list \<times> nat" where
  "coalesce_candidates_by_execution_key order cs =
     (let best = keep_best dedup_key more_profitable cs
      in (sort_desc cd_expected_profit (order best), length cs - length best))"

definition is_fresh :: "datetime \<Rightarrow> u64 \<Rightarrow> u64 \<Rightarrow> candidate \<Rightarrow> bool" where
  "is_fresh now current_block max_lag_blocks c \<longleftrightarrow>
     \<not> is_expired c now \<and> saturating_sub current_block (cd_block_number c) \<le> max_lag_blocks"

abbreviation max_expired_drain :: nat where "max_expired_drain \<equiv> 2048"
abbreviation max_drain :: nat where "max_drain \<equiv> 128"
abbreviation pop_chunk :: nat where "pop_chunk \<equiv> 128"

function pop_loop ::
    "'s execution_stores \<Rightarrow> datetime \<Rightarrow> u64 \<Rightarrow> u64 \<Rightarrow> nat \<Rightarrow> candidate list \<Rightarrow> ('s, candidate list) act" where
  "pop_loop stores now current_block max_lag popped cs s =
     (if length cs < max_drain \<and> popped < max_expired_drain
      then
        (let pop_limit = min (min pop_chunk (max_expired_drain - popped)) (max_drain - length cs) in
         case so_pop_candidates stores pop_limit s of
           (Inl e, s') \<Rightarrow> (Inl e, s')
         | (Inr batch, s') \<Rightarrow>
             if batch = [] then (Inr cs, s')
             else pop_loop stores now current_block max_lag (popped + length batch)
                    (cs @ filter (is_fresh now current_block max_lag) batch) s')
      else (Inr cs, s))"
  by pat_completeness auto

termination
  by (relation "measure (\<lambda>(stores, now, current_block, max_lag, popped, cs, s). max_expired_drain - popped)")
     (auto simp: neq_Nil_conv)

declare pop_loop.simps [simp del]

definition pop_fresh_candidates ::
    "'s execution_stores \<Rightarrow> 's ambient \<Rightarrow> u64 \<Rightarrow> u64 \<Rightarrow> ('s, candidate list) act" where
  "pop_fresh_candidates stores amb current_block max_lag =
     bind (infallible (am_now amb)) (\<lambda>now.
     bind (so_prune_candidates_before_block stores (saturating_sub current_block max_lag)) (\<lambda>_.
     bind (pop_loop stores now current_block max_lag 0 []) (\<lambda>cs.
     pass (sort_desc cd_expected_profit cs))))"

section \<open>The circuit breaker\<close>

record circuit_breaker =
  br_min_txs :: u64
  br_arb_receipts :: u64
  br_arb_successes :: u64
  br_halted :: bool

definition breaker_new :: "u64 \<Rightarrow> circuit_breaker" where
  "breaker_new min_txs = \<lparr>br_min_txs = min_txs, br_arb_receipts = 0, br_arb_successes = 0, br_halted = False\<rparr>"

definition success_rate_bps :: "circuit_breaker \<Rightarrow> u64" where
  "success_rate_bps b =
     (case checked_div (saturating_mul (br_arb_successes b) 10000) (br_arb_receipts b) of
        None \<Rightarrow> 0 | Some r \<Rightarrow> r)"

definition observe_arb_receipt :: "settings \<Rightarrow> bool \<Rightarrow> circuit_breaker \<Rightarrow> circuit_breaker" where
  "observe_arb_receipt cfg success b =
     (let b = b\<lparr>br_arb_receipts := saturating_add (br_arb_receipts b) 1\<rparr>;
          b = (if success then b\<lparr>br_arb_successes := saturating_add (br_arb_successes b) 1\<rparr> else b)
      in if br_arb_receipts b < br_min_txs b then b
         else if success_rate_bps b < cfg_execution_min_success_rate_bps cfg
         then b\<lparr>br_halted := True\<rparr> else b)"

section \<open>Reconciling lanes\<close>

definition sync_idle_lane :: "'s chain_provider \<Rightarrow> eoa_lane_state \<Rightarrow> ('s, eoa_lane_state) act" where
  "sync_idle_lane provider lane =
     bind (cp_get_transaction_count provider (ln_address lane) False) (\<lambda>confirmed_nonce.
     bind (cp_get_transaction_count provider (ln_address lane) True) (\<lambda>pending_nonce.
     bind (cp_get_balance provider (ln_address lane)) (\<lambda>balance.
     pass (lane\<lparr>ln_confirmed_nonce := confirmed_nonce, ln_local_nonce := pending_nonce,
                ln_eth_balance := balance, ln_status := LaneIdle\<rparr>))))"

text \<open>The lane to keep, or None when the nonce is not consumed yet.\<close>

definition clear_lane_if_pending_nonce_consumed ::
    "'s execution_stores \<Rightarrow> 's chain_provider \<Rightarrow> eoa_lane_state \<Rightarrow> b256 \<Rightarrow> uuid \<Rightarrow> uuid option \<Rightarrow> u64 \<Rightarrow>
     ('s, eoa_lane_state option) act" where
  "clear_lane_if_pending_nonce_consumed stores provider lane tx_hash opportunity_id simulation_id nonce =
     bind (cp_get_transaction_count provider (ln_address lane) False) (\<lambda>confirmed_nonce.
     if confirmed_nonce \<le> nonce then pass None
     else
       bind (cp_get_transaction_count provider (ln_address lane) True) (\<lambda>pending_nonce.
       bind (cp_get_balance provider (ln_address lane)) (\<lambda>eth_balance.
       bind (so_record_transaction stores (dropped_consumed_nonce_tx_result opportunity_id simulation_id
               (ln_address lane) tx_hash nonce confirmed_nonce)) (\<lambda>_.
       let lane' = clear_consumed_pending confirmed_nonce pending_nonce eth_balance lane in
       bind (so_set_lane_state stores lane') (\<lambda>_. pass (Some lane'))))))"

text \<open>The fields a replacement needs, in the order the code unpacks them.\<close>

definition replacement_fields ::
    "eoa_lane_state \<Rightarrow> (uuid \<times> uuid \<times> u64 \<times> u256 \<times> u256 \<times> u256 \<times> b256) option" where
  "replacement_fields lane =
     Option.bind (ln_pending_opportunity_id lane) (\<lambda>opportunity_id.
     Option.bind (ln_pending_simulation_id lane) (\<lambda>simulation_id.
     Option.bind (ln_pending_nonce lane) (\<lambda>nonce.
     Option.bind (ln_pending_gas_limit lane) (\<lambda>gas_limit.
     Option.bind (ln_pending_max_fee_per_gas lane) (\<lambda>max_fee.
     Option.bind (ln_pending_max_priority_fee_per_gas lane) (\<lambda>max_priority.
     Option.bind (ln_pending_tx lane) (\<lambda>old_tx_hash.
     Some (opportunity_id, simulation_id, nonce, gas_limit, max_fee, max_priority, old_tx_hash))))))))"

definition replacement_executor :: "settings \<Rightarrow> eoa_lane_state \<Rightarrow> address" where
  "replacement_executor cfg lane =
     (case option_or (ln_pending_executor_contract lane) (cfg_executor_contract cfg) of None \<Rightarrow> 0 | Some a \<Rightarrow> a)"

definition maybe_replace_pending_tx ::
    "libs \<Rightarrow> 's execution_stores \<Rightarrow> 's chain_provider \<Rightarrow> address \<Rightarrow> settings \<Rightarrow> eoa_lane_state \<Rightarrow>
     ('s, eoa_lane_state) act" where
  "maybe_replace_pending_tx lib stores provider wallet cfg lane =
     (if ln_pending_replacement_count lane \<ge> cfg_execution_max_replacements cfg then pass lane
      else case ln_pending_submitted_block lane of
        None \<Rightarrow> pass lane
      | Some submitted_block \<Rightarrow>
          bind (cp_get_block_number provider) (\<lambda>current_block.
          if saturating_sub current_block submitted_block < cfg_execution_pending_replacement_blocks cfg
          then pass lane
          else case replacement_fields lane of
            None \<Rightarrow> pass lane
          | Some (opportunity_id, simulation_id, nonce, gas_limit, max_fee, max_priority, old_tx_hash) \<Rightarrow>
              bind (so_simulation_calldata stores simulation_id) (\<lambda>calldata.
              case calldata of
                None \<Rightarrow> pass lane
              | Some data \<Rightarrow>
                  handle (replace_pending_transaction lib provider wallet cfg (replacement_executor cfg lane)
                            data nonce gas_limit max_fee max_priority)
                    (\<lambda>sub.
                      bind (so_record_transaction stores (dropped_replaced_tx_result opportunity_id
                              (Some simulation_id) (ln_address lane) old_tx_hash nonce (sb_tx_hash sub))) (\<lambda>_.
                      bind (so_record_transaction stores (pending_replacement_tx_result opportunity_id
                              (Some simulation_id) (ln_address lane) sub)) (\<lambda>_.
                      let lane' = mark_replaced (sb_tx_hash sub) (sb_submitted_block sub) (sb_gas_limit sub)
                                    (sb_max_fee_per_gas sub) (sb_max_priority_fee_per_gas sub) lane
                      in bind (so_set_lane_state stores lane') (\<lambda>_. pass lane'))))
                    (\<lambda>_. pass lane))))"

text \<open>The lane after the call and whether an arbitrage receipt was seen, and its success.\<close>

definition block_lane :: "'s execution_stores \<Rightarrow> eoa_lane_state \<Rightarrow> ('s, eoa_lane_state \<times> bool option) act" where
  "block_lane stores lane =
     bind (so_set_lane_state stores (mark_blocked lane)) (\<lambda>_. pass (mark_blocked lane, None))"

definition handle_pending_lane ::
    "libs \<Rightarrow> 's execution_stores \<Rightarrow> 's chain_provider \<Rightarrow> address \<Rightarrow> settings \<Rightarrow> eoa_lane_state \<Rightarrow>
     ('s, eoa_lane_state \<times> bool option) act" where
  "handle_pending_lane lib stores provider wallet cfg lane =
     (case (ln_pending_tx lane, ln_pending_opportunity_id lane, ln_pending_nonce lane) of
        (Some tx_hash, Some opportunity_id, Some nonce) \<Rightarrow>
          (let simulation_id = ln_pending_simulation_id lane in
           bind (cp_get_transaction_receipt provider tx_hash) (\<lambda>receipt.
           case receipt of
             None \<Rightarrow>
               bind (clear_lane_if_pending_nonce_consumed stores provider lane tx_hash opportunity_id
                       simulation_id nonce) (\<lambda>cleared.
               case cleared of
                 Some lane' \<Rightarrow> pass (lane', None)
               | None \<Rightarrow>
                   bind (maybe_replace_pending_tx lib stores provider wallet cfg lane) (\<lambda>lane'.
                   pass (lane', None)))
           | Some receipt \<Rightarrow>
               bind (so_record_transaction stores (receipt_tx_result lib opportunity_id simulation_id
                       (ln_address lane) nonce receipt)) (\<lambda>_.
               bind (cp_get_transaction_count provider (ln_address lane) False) (\<lambda>confirmed_nonce.
               bind (cp_get_transaction_count provider (ln_address lane) True) (\<lambda>local_nonce.
               bind (cp_get_balance provider (ln_address lane)) (\<lambda>balance.
               let lane' = (mark_confirmed confirmed_nonce lane)
                     \<lparr>ln_local_nonce := local_nonce, ln_eth_balance := balance\<rparr>
               in bind (so_set_lane_state stores lane') (\<lambda>_.
               pass (lane', map_option (\<lambda>_. rc_success receipt) simulation_id))))))))
      | _ \<Rightarrow> block_lane stores lane)"

record execution_runtime =
  rt_fund_wallet :: "address option"
  rt_worker_wallets :: "address list"
  rt_simulation_operator :: "address option"
  rt_worker_min_balance :: u256
  rt_worker_target_balance :: u256
  rt_executor_contracts :: "address list"
  rt_trusted_factories :: trusted_factory_set

definition configured_executor_contracts :: "settings \<Rightarrow> address list" where
  "configured_executor_contracts cfg =
     fold (\<lambda>executor executors. if executor \<noteq> 0 \<and> executor \<notin> set executors then executors @ [executor] else executors)
       (somes [cfg_executor_contract_2hop cfg, cfg_executor_contract_multihop cfg, cfg_executor_contract cfg]) []"

definition admin_has_pending_nonce :: "'s chain_provider \<Rightarrow> address \<Rightarrow> ('s, bool) act" where
  "admin_has_pending_nonce provider a =
     bind (cp_get_transaction_count provider a False) (\<lambda>confirmed.
     bind (cp_get_transaction_count provider a True) (\<lambda>pending. pass (pending > confirmed)))"

fun wait_for_funding :: "'s chain_provider \<Rightarrow> b256 \<Rightarrow> nat \<Rightarrow> ('s, unit) act" where
  "wait_for_funding provider tx_hash 0 =
     fail (''timed out waiting for worker funding tx '' @ b256_hex tx_hash @ '' receipt'')"
| "wait_for_funding provider tx_hash (Suc attempts) =
     bind (cp_get_transaction_receipt provider tx_hash) (\<lambda>receipt.
     case receipt of
       Some r \<Rightarrow> if rc_success r then pass () else fail (''worker funding tx '' @ b256_hex tx_hash @ '' reverted'')
     | None \<Rightarrow> wait_for_funding provider tx_hash attempts)"

definition wait_for_worker_funding_receipt :: "'s chain_provider \<Rightarrow> b256 \<Rightarrow> ('s, unit) act" where
  "wait_for_worker_funding_receipt provider tx_hash = wait_for_funding provider tx_hash 80"

definition low_balance_text :: "eoa_lane_state \<Rightarrow> execution_runtime \<Rightarrow> string" where
  "low_balance_text lane rt =
     ''worker '' @ address_hex (ln_address lane) @ '' has low balance '' @ nat_dec (unat (ln_eth_balance lane)) @
     '' < '' @ nat_dec (unat (rt_worker_min_balance rt))"

definition fund_worker_lane_if_needed ::
    "libs \<Rightarrow> 's chain_provider \<Rightarrow> settings \<Rightarrow> execution_runtime \<Rightarrow> eoa_lane_state \<Rightarrow> ('s, eoa_lane_state) act" where
  "fund_worker_lane_if_needed lib provider cfg rt lane =
     (if ln_status lane \<noteq> LaneIdle \<or> ln_eth_balance lane \<ge> rt_worker_min_balance rt then pass lane
      else case rt_fund_wallet rt of
        None \<Rightarrow> fail (low_balance_text lane rt @ '', but fund wallet is not configured'')
      | Some fund \<Rightarrow>
          if fund = ln_address lane then fail (low_balance_text lane rt @ '', and is also the fund wallet'')
          else
            let funding = saturating_sub (rt_worker_target_balance rt) (ln_eth_balance lane) in
            if funding = 0 then pass lane
            else
              bind (cp_get_balance provider fund) (\<lambda>fund_balance.
              if fund_balance \<le> funding
              then fail (''fund wallet '' @ address_hex fund @ '' balance '' @ nat_dec (unat fund_balance) @
                     '' is not enough to fund worker '' @ address_hex (ln_address lane) @ '' value '' @
                     nat_dec (unat funding))
              else
                bind (cp_get_transaction_count provider fund True) (\<lambda>nonce.
                bind (submit_native_transfer lib provider fund cfg (ln_address lane) funding nonce) (\<lambda>sub.
                bind (wait_for_worker_funding_receipt provider (sb_tx_hash sub)) (\<lambda>_.
                sync_idle_lane provider lane)))))"

definition lane_or_new :: "address \<Rightarrow> eoa_lane_state option \<Rightarrow> eoa_lane_state" where
  "lane_or_new a state = (case state of None \<Rightarrow> lane_new a | Some lane \<Rightarrow> lane)"

text \<open>One worker of \<open>reconcile_worker_lanes\<close>; the receipt it saw is observed even when a later call
  of the same worker fails.\<close>

definition finish_idle_worker ::
    "libs \<Rightarrow> 's execution_stores \<Rightarrow> 's chain_provider \<Rightarrow> settings \<Rightarrow> execution_runtime \<Rightarrow> eoa_lane_state \<Rightarrow> ('s, unit) act" where
  "finish_idle_worker lib stores provider cfg rt lane =
     bind (sync_idle_lane provider lane) (\<lambda>lane.
     bind (fund_worker_lane_if_needed lib provider cfg rt lane) (\<lambda>lane.
     so_set_lane_state stores lane))"

definition observe_outcome :: "settings \<Rightarrow> bool option \<Rightarrow> circuit_breaker \<Rightarrow> circuit_breaker" where
  "observe_outcome cfg outcome br = (case outcome of None \<Rightarrow> br | Some success \<Rightarrow> observe_arb_receipt cfg success br)"

definition reconcile_worker ::
    "libs \<Rightarrow> 's execution_stores \<Rightarrow> 's chain_provider \<Rightarrow> settings \<Rightarrow> execution_runtime \<Rightarrow> address \<Rightarrow>
     circuit_breaker \<Rightarrow> 's \<Rightarrow> (unit anyhow \<times> circuit_breaker) \<times> 's" where
  "reconcile_worker lib stores provider cfg rt worker br s =
     (case so_get_lane_state stores worker s of
        (Inl e, s1) \<Rightarrow> ((Inl e, br), s1)
      | (Inr state, s1) \<Rightarrow>
          let lane = lane_or_new worker state in
          if ln_status lane = LanePending then
            (case handle_pending_lane lib stores provider worker cfg lane s1 of
               (Inl e, s2) \<Rightarrow> ((Inl e, br), s2)
             | (Inr (lane', outcome), s2) \<Rightarrow>
                 let br' = observe_outcome cfg outcome br in
                 if ln_status lane' = LanePending then ((Inr (), br'), s2)
                 else (case finish_idle_worker lib stores provider cfg rt lane' s2 of (r, s3) \<Rightarrow> ((r, br'), s3)))
          else (case finish_idle_worker lib stores provider cfg rt lane s1 of (r, s3) \<Rightarrow> ((r, br), s3)))"

fun for_each_worker ::
    "(address \<Rightarrow> circuit_breaker \<Rightarrow> 's \<Rightarrow> (unit anyhow \<times> circuit_breaker) \<times> 's) \<Rightarrow> address list \<Rightarrow>
     circuit_breaker \<Rightarrow> 's \<Rightarrow> (unit anyhow \<times> circuit_breaker) \<times> 's" where
  "for_each_worker f [] br s = ((Inr (), br), s)"
| "for_each_worker f (w # ws) br s =
     (case f w br s of
        ((Inl e, br'), s') \<Rightarrow> ((Inl e, br'), s')
      | ((Inr _, br'), s') \<Rightarrow> for_each_worker f ws br' s')"

definition reconcile_worker_lanes ::
    "libs \<Rightarrow> 's execution_stores \<Rightarrow> 's chain_provider \<Rightarrow> settings \<Rightarrow> execution_runtime \<Rightarrow> circuit_breaker \<Rightarrow>
     's \<Rightarrow> (unit anyhow \<times> circuit_breaker) \<times> 's" where
  "reconcile_worker_lanes lib stores provider cfg rt br s =
     for_each_worker (reconcile_worker lib stores provider cfg rt) (rt_worker_wallets rt) br s"

definition reconcile_pending_worker ::
    "libs \<Rightarrow> 's execution_stores \<Rightarrow> 's chain_provider \<Rightarrow> settings \<Rightarrow> address \<Rightarrow>
     circuit_breaker \<Rightarrow> 's \<Rightarrow> (unit anyhow \<times> circuit_breaker) \<times> 's" where
  "reconcile_pending_worker lib stores provider cfg worker br s =
     (case so_get_lane_state stores worker s of
        (Inl e, s1) \<Rightarrow> ((Inl e, br), s1)
      | (Inr None, s1) \<Rightarrow> ((Inr (), br), s1)
      | (Inr (Some lane), s1) \<Rightarrow>
          if ln_status lane \<noteq> LanePending then ((Inr (), br), s1)
          else (case handle_pending_lane lib stores provider worker cfg lane s1 of
              (Inl e, s2) \<Rightarrow> ((Inl e, br), s2)
            | (Inr (_, outcome), s2) \<Rightarrow> ((Inr (), observe_outcome cfg outcome br), s2)))"

definition reconcile_pending_worker_lanes ::
    "libs \<Rightarrow> 's execution_stores \<Rightarrow> 's chain_provider \<Rightarrow> settings \<Rightarrow> execution_runtime \<Rightarrow> circuit_breaker \<Rightarrow>
     's \<Rightarrow> (unit anyhow \<times> circuit_breaker) \<times> 's" where
  "reconcile_pending_worker_lanes lib stores provider cfg rt br s =
     for_each_worker (reconcile_pending_worker lib stores provider cfg) (rt_worker_wallets rt) br s"

fun select_ready :: "'s execution_stores \<Rightarrow> u256 \<Rightarrow> address list \<Rightarrow> ('s, address option) act" where
  "select_ready stores min_balance [] = pass None"
| "select_ready stores min_balance (w # ws) =
     bind (so_get_lane_state stores w) (\<lambda>state.
     case state of
       None \<Rightarrow> select_ready stores min_balance ws
     | Some lane \<Rightarrow>
         if ln_status lane = LaneIdle \<and> ln_eth_balance lane \<ge> min_balance then pass (Some w)
         else select_ready stores min_balance ws)"

definition select_cached_ready_worker ::
    "'s execution_stores \<Rightarrow> execution_runtime \<Rightarrow> ('s, address option) act" where
  "select_cached_ready_worker stores rt = select_ready stores (rt_worker_min_balance rt) (rt_worker_wallets rt)"

section \<open>Submitting\<close>

datatype candidate_action = Skipped string | Simulated | Submitted

definition submitted_candidate_lock_key :: "libs \<Rightarrow> candidate \<Rightarrow> string" where
  "submitted_candidate_lock_key lib c =
     (let key = dedup_key c;
          payload = nat_dec (unat (dk_block_number key)) @ '':'' @ dk_path_name key @ '':'' @
            address_hex (dk_token_in key) @ '':'' @ nat_dec (unat (dk_amount_in key))
      in lib_hex_encode lib (be_bytes 32 (unat (lib_keccak256 lib (text_bytes payload)))))"

definition submit_simulated_candidate ::
    "libs \<Rightarrow> 's execution_stores \<Rightarrow> 's ambient \<Rightarrow> 's chain_provider \<Rightarrow> settings \<Rightarrow> trusted_factory_set \<Rightarrow>
     address option \<Rightarrow> circuit_breaker \<Rightarrow> candidate \<Rightarrow> simulation_result \<Rightarrow> ('s, candidate_action) act" where
  "submit_simulated_candidate lib stores amb provider cfg tf wallet br c sim =
     bind (infallible (am_now amb)) (\<lambda>now.
     if is_expired c now then pass Simulated
     else if \<not> cfg_execution_submit_enabled cfg then pass Simulated
     else if br_halted br then pass (Skipped ''circuit_breaker'')
     else case wallet of
       None \<Rightarrow> fail ''EOA_PRIVATE_KEY_1 is required when EXECUTION_SUBMIT_ENABLED=true''
     | Some w \<Rightarrow>
         bind (so_get_lane_state stores w) (\<lambda>state.
         let lane = lane_or_new w state;
             nonce = ln_local_nonce lane
         in
         bind (so_try_acquire_submission_lock stores (submitted_candidate_lock_key lib c) 300) (\<lambda>acquired.
         if \<not> acquired then pass (Skipped ''submission_lock'')
         else
           bind (infallible (am_now amb)) (\<lambda>now'.
           handle (submit_candidate lib provider w cfg tf now' c sim nonce)
             (\<lambda>sub.
               bind (so_set_lane_state stores
                 (mark_submitted (cd_id c) (sb_simulation_id sub) (sb_tx_hash sub) (sb_executor_contract sub)
                    (sb_nonce sub) (sb_submitted_block sub) (sb_gas_limit sub) (sb_max_fee_per_gas sub)
                    (sb_max_priority_fee_per_gas sub) lane)) (\<lambda>_.
               bind (so_record_transaction stores (pending_tx_result c w sub)) (\<lambda>_.
               pass Submitted)))
             (\<lambda>err.
               bind (so_set_lane_state stores (mark_cooldown lane)) (\<lambda>_.
               bind (so_record_transaction stores
                 ((tx_result_base (cd_id c) (Some (sr_id sim)) w None nonce TxDropped)
                    \<lparr>tx_revert_reason := Some (err_display err)\<rparr>)) (\<lambda>_.
               pass Simulated)))))))"

definition simulation_profit_rank :: "simulation_result \<Rightarrow> u256" where
  "simulation_profit_rank sim =
     (case sr_net_simulated_profit sim of Some p \<Rightarrow> p | None \<Rightarrow> sr_simulated_profit sim)"

text \<open>The submission loop of \<open>run_live_submission_batch\<close> over the ranked successful simulations.\<close>

fun submit_ranked ::
    "(candidate \<Rightarrow> simulation_result \<Rightarrow> ('s, candidate_action) act) \<Rightarrow> submitted_candidate_keys \<Rightarrow>
     (candidate \<times> simulation_result) list \<Rightarrow> 's \<Rightarrow> (bool anyhow \<times> submitted_candidate_keys) \<times> 's" where
  "submit_ranked submit keys [] s = ((Inr False, keys), s)"
| "submit_ranked submit keys ((c, sim) # outcomes) s =
     (case submit c sim s of
        (Inl e, s') \<Rightarrow> ((Inl e, keys), s')
      | (Inr Submitted, s') \<Rightarrow> ((Inr True, insert_candidate c keys), s')
      | (Inr _, s') \<Rightarrow> submit_ranked submit keys outcomes s')"

definition rank_outcomes :: "(candidate \<times> simulation_result) list \<Rightarrow> (candidate \<times> simulation_result) list" where
  "rank_outcomes outcomes =
     sort_desc (\<lambda>(_, sim). simulation_profit_rank sim) (filter (\<lambda>(_, sim). sr_success sim) outcomes)"

section \<open>Duplicates and the queue\<close>

interpretation dedup: best_by_rank dedup_key cd_expected_profit more_profitable
  by unfold_locales (simp add: more_profitable_def)

text \<open>C24: Coalescing by execution key, whatever the hash map's order: the result has one candidate
  per key of the input, each is an input candidate with the highest expected profit of its key, and
  they are ranked by descending profit; the count is the number dropped.\<close>

theorem coalesce_by_execution_key_best:
  assumes "\<And>xs. mset (order xs) = mset xs"
    and "coalesce_candidates_by_execution_key order cs = (out, n)"
  shows "dedup_key ` set out = dedup_key ` set cs \<and> distinct (map dedup_key out) \<and> set out \<subseteq> set cs \<and>
    (\<forall>c \<in> set cs. \<forall>b \<in> set out. dedup_key c = dedup_key b \<longrightarrow> cd_expected_profit c \<le> cd_expected_profit b) \<and>
    sorted_wrt (\<lambda>a b. cd_expected_profit b \<le> cd_expected_profit a) out \<and> length out + n = length cs"
proof -
  let ?best = "keep_best dedup_key more_profitable cs"
  from assms(2) have out: "out = sort_desc cd_expected_profit (order ?best)" and n: "n = length cs - length ?best"
    by (auto simp: coalesce_candidates_by_execution_key_def Let_def)
  have m: "mset out = mset ?best" using assms(1) by (simp add: out)
  then have set: "set out = set ?best" and len: "length out = length ?best"
    by (metis set_mset_mset, metis size_mset)
  have "mset (map dedup_key out) = mset (map dedup_key ?best)" using m by simp
  then have "distinct (map dedup_key out)"
    using keep_best_distinct by (metis mset_eq_imp_distinct_iff)
  moreover have "sorted_wrt (\<lambda>a b. cd_expected_profit b \<le> cd_expected_profit a) out"
    unfolding out by (rule sorted_sort_desc)
  ultimately show ?thesis
    using keep_best_keys [of dedup_key more_profitable cs] keep_best_subset [of dedup_key more_profitable cs]
      keep_best_length [of dedup_key more_profitable cs] dedup.keep_best_is_best set len n
    by auto
qed

theorem coalesce_by_execution_key_best_witness:
  "map cd_expected_profit (fst (coalesce_candidates_by_execution_key rev
     [example_candidate, example_candidate\<lparr>cd_expected_profit := 90\<rparr>])) = [90]"
proof -
  let ?cs = "[example_candidate, example_candidate\<lparr>cd_expected_profit := 90\<rparr>]"
  obtain out n where o: "coalesce_candidates_by_execution_key rev ?cs = (out, n)" by fastforce
  have k: "dedup_key (example_candidate\<lparr>cd_expected_profit := 90\<rparr>) = dedup_key example_candidate"
    by (simp add: dedup_key_def)
  have p: "cd_expected_profit example_candidate = 50" by (simp add: example_candidate_def)
  from coalesce_by_execution_key_best [OF _ o] have out:
    "dedup_key ` set out = {dedup_key example_candidate}" "distinct (map dedup_key out)" "set out \<subseteq> set ?cs"
    "\<forall>b \<in> set out. dedup_key (example_candidate\<lparr>cd_expected_profit := 90\<rparr>) = dedup_key b \<longrightarrow> 90 \<le> cd_expected_profit b"
    using k by auto
  from out(1) obtain b bs where bs: "out = b # bs" by (cases out) auto
  have "bs = []" using out(1,2) bs by (cases bs) auto
  moreover have "cd_expected_profit b = 90" using out(1,3,4) bs k p by auto
  ultimately show ?thesis using o bs by simp
qed

lemma pop_loop_fresh:
  assumes "pop_loop stores now block lag popped cs s = (Inr out, s')"
    and "\<forall>c \<in> set cs. is_fresh now block lag c"
  shows "\<forall>c \<in> set out. is_fresh now block lag c"
  using assms
proof (induction stores now block lag popped cs s rule: pop_loop.induct)
  case (1 stores now block lag popped cs s)
  let ?limit = "min (min pop_chunk (max_expired_drain - popped)) (max_drain - length cs)"
  note step = "1.prems"(1) [unfolded pop_loop.simps [of stores now block lag popped cs s] Let_def]
  show ?case
  proof (cases "length cs < max_drain \<and> popped < max_expired_drain")
    case False
    with step "1.prems"(2) show ?thesis by (simp only: if_False) simp
  next
    case True
    note go = step [unfolded if_P [OF True]]
    show ?thesis
    proof (cases "so_pop_candidates stores ?limit s")
      case (Pair r s1)
      show ?thesis
      proof (cases r)
        case (Inl e)
        with go Pair show ?thesis by simp
      next
        case (Inr batch)
        show ?thesis
        proof (cases "batch = []")
          case True
          with go Pair Inr "1.prems"(2) show ?thesis by simp
        next
          case ne: False
          with go Pair Inr have "pop_loop stores now block lag (popped + length batch)
              (cs @ filter (is_fresh now block lag) batch) s1 = (Inr out, s')" by simp
          moreover have "\<forall>c \<in> set (cs @ filter (is_fresh now block lag) batch). is_fresh now block lag c"
            using "1.prems"(2) by auto
          ultimately show ?thesis
            using "1.IH" [OF True refl Pair [symmetric] Inr ne] by blast
        qed
      qed
    qed
  qed
qed

text \<open>Draining the queue returns only candidates that are neither expired nor more than the allowed
  number of blocks behind, ranked by descending expected profit.\<close>

theorem pop_fresh_candidates_fresh:
  assumes "pop_fresh_candidates stores amb block lag s = (Inr cs, s')"
  shows "(\<forall>c \<in> set cs. \<not> is_expired c (fst (am_now amb s)) \<and>
      unat block - unat (cd_block_number c) \<le> unat lag) \<and>
    sorted_wrt (\<lambda>a b. cd_expected_profit b \<le> cd_expected_profit a) cs"
proof -
  from assms obtain popped s1 s2 where
    p: "pop_loop stores (fst (am_now amb s)) block lag 0 [] s1 = (Inr popped, s2)"
      "cs = sort_desc cd_expected_profit popped"
    by (auto simp: pop_fresh_candidates_def act_Inr infallible_def split: prod.splits)
  from pop_loop_fresh [OF p(1)] have "\<forall>c \<in> set popped. is_fresh (fst (am_now amb s)) block lag c"
    by simp
  then show ?thesis
    using sorted_sort_desc [of cd_expected_profit popped]
    by (auto simp: p(2) is_fresh_def word_le_nat_alt unat_saturating_sub)
qed

lemma pop_fresh_example:
  "pop_fresh_candidates (example_stores\<lparr>so_pop_candidates := (\<lambda>_ n. (Inr (if n = 0 then [example_candidate] else []), Suc n))\<rparr>)
     example_ambient 11 1 (0 :: nat) = (Inr [example_candidate], 2)"
  by (simp add: pop_fresh_candidates_def bind_ok act_simps infallible_def example_stores_def
      example_ambient_def pop_loop.simps is_fresh_def is_expired_def example_candidate_def
      saturating_sub_def sort_desc_def)

theorem pop_fresh_candidates_fresh_witness:
  "\<not> is_expired example_candidate 0 \<and> unat (11 :: u64) - unat (10 :: u64) \<le> unat (1 :: u64)"
  using pop_fresh_candidates_fresh [OF pop_fresh_example]
  by (simp add: example_ambient_def example_candidate_def)

section \<open>The circuit breaker trips exactly when it should\<close>

definition observe_all :: "settings \<Rightarrow> bool list \<Rightarrow> circuit_breaker \<Rightarrow> circuit_breaker" where
  "observe_all cfg outcomes br = fold (observe_arb_receipt cfg) outcomes br"

definition successes :: "bool list \<Rightarrow> nat" where
  "successes outcomes = length (filter id outcomes)"

lemma successes_le: "successes os \<le> length os"
  by (simp add: successes_def)

lemma observe_counts:
  assumes "length os * 10000 < 2 ^ 64"
  shows "unat (br_arb_receipts (observe_all cfg os (breaker_new m))) = length os \<and>
    unat (br_arb_successes (observe_all cfg os (breaker_new m))) = successes os \<and>
    br_min_txs (observe_all cfg os (breaker_new m)) = m"
  using assms
proof (induction os rule: rev_induct)
  case Nil
  then show ?case by (simp add: observe_all_def breaker_new_def successes_def)
next
  case (snoc b os)
  have "length os < 18446744073709551615" using snoc.prems by simp
  moreover from this have "length (filter id os) < 18446744073709551615"
    by (rule le_less_trans [OF length_filter_le])
  ultimately show ?case
    using snoc
    by (auto simp: observe_all_def observe_arb_receipt_def Let_def successes_def unat_saturating_add min_def)
qed

definition too_many_failures :: "settings \<Rightarrow> u64 \<Rightarrow> bool list \<Rightarrow> bool" where
  "too_many_failures cfg m os \<longleftrightarrow> os \<noteq> [] \<and> unat m \<le> length os \<and>
     successes os * 10000 div length os < unat (cfg_execution_min_success_rate_bps cfg)"

lemma observe_all_snoc:
  "observe_all cfg (os @ [b]) br = observe_arb_receipt cfg b (observe_all cfg os br)"
  by (simp add: observe_all_def)

lemma observe_halts:
  assumes "length (os @ [b]) * 10000 < 2 ^ 64"
  shows "br_halted (observe_all cfg (os @ [b]) (breaker_new m)) \<longleftrightarrow>
    br_halted (observe_all cfg os (breaker_new m)) \<or> too_many_failures cfg m (os @ [b])"
proof -
  let ?br = "observe_all cfg (os @ [b]) (breaker_new m)"
  note c = observe_counts [OF assms, of cfg m]
  have le: "successes (os @ [b]) \<le> length (os @ [b])" by (rule successes_le)
  have "unat (success_rate_bps ?br) = successes (os @ [b]) * 10000 div length (os @ [b])"
  proof -
    have "br_arb_receipts ?br \<noteq> 0" using c by (auto simp: unat_eq_zero [symmetric] simp del: unat_eq_zero)
    then have "unat (success_rate_bps ?br) =
        unat (saturating_mul (br_arb_successes ?br) 10000) div unat (br_arb_receipts ?br)"
      by (simp add: success_rate_bps_def checked_div_def unat_div)
    moreover have "successes (os @ [b]) * 10000 \<le> 2 ^ 64 - 1" using le assms by linarith
    ultimately show ?thesis using c by (simp add: unat_saturating_mul min_def)
  qed
  moreover have "br_halted ?br \<longleftrightarrow> br_halted (observe_all cfg os (breaker_new m)) \<or>
      \<not> br_arb_receipts ?br < br_min_txs ?br \<and> success_rate_bps ?br < cfg_execution_min_success_rate_bps cfg"
    unfolding observe_all_snoc
    by (auto simp: observe_arb_receipt_def Let_def success_rate_bps_def)
  ultimately show ?thesis
    using c by (auto simp: too_many_failures_def word_less_nat_alt)
qed

text \<open>C23: The circuit breaker is halted exactly when, after some observed receipt, at least the minimum
  number of receipts had been seen and the success rate in basis points was below the minimum; once
  halted it stays halted.\<close>

theorem breaker_halts_iff:
  assumes "length os * 10000 < 2 ^ 64"
  shows "br_halted (observe_all cfg os (breaker_new m)) \<longleftrightarrow>
    (\<exists>k \<le> length os. too_many_failures cfg m (take k os))"
  using assms
proof (induction os rule: rev_induct)
  case Nil
  then show ?case by (simp add: observe_all_def breaker_new_def too_many_failures_def)
next
  case (snoc b os)
  have "br_halted (observe_all cfg (os @ [b]) (breaker_new m)) \<longleftrightarrow>
      (\<exists>k \<le> length os. too_many_failures cfg m (take k os)) \<or> too_many_failures cfg m (os @ [b])"
    using snoc observe_halts [OF snoc.prems] by simp
  also have "\<dots> \<longleftrightarrow> (\<exists>k \<le> length (os @ [b]). too_many_failures cfg m (take k (os @ [b])))"
    by (auto simp: le_Suc_eq intro: exI [of _ "Suc (length os)"])
  finally show ?case .
qed

theorem breaker_halts_iff_witness:
  "br_halted (observe_all example_settings [False, False] (breaker_new 2)) \<longleftrightarrow>
     (\<exists>k \<le> length [False, False]. too_many_failures example_settings 2 (take k [False, False]))"
  by (rule breaker_halts_iff) simp

end
