(* ===== verification/Execution_Cycle.thy ===== *)
theory Execution_Cycle
  imports Execution
begin

text \<open>
  One cycle of the execution manager (\<open>run_execution_cycle\<close>): startup readiness, the approval
  preflight, the dry-run and live batches, and the order in which a cycle checks the breaker,
  reconciles lanes, pops candidates and submits. Simulations run concurrently in the code; the
  order in which they complete is the argument \<open>complete\<close>, which may also drop tasks that panic.
\<close>

section \<open>Startup readiness\<close>

fun missing_operator ::
    "libs \<Rightarrow> 's chain_provider \<Rightarrow> address list \<Rightarrow> address \<Rightarrow> ('s, address option) act" where
  "missing_operator lib provider [] worker = pass None"
| "missing_operator lib provider (e # es) worker =
     bind (operator_enabled lib provider e worker) (\<lambda>enabled.
     if \<not> enabled then pass (Some e) else missing_operator lib provider es worker)"

fun status_debug :: "eoa_lane_status \<Rightarrow> string" where
  "status_debug LaneIdle = ''Idle''"
| "status_debug LanePending = ''Pending''"
| "status_debug LaneBlocked = ''Blocked''"
| "status_debug LaneCooldown = ''Cooldown''"

fun ready_loop ::
    "libs \<Rightarrow> 's execution_stores \<Rightarrow> 's chain_provider \<Rightarrow> execution_runtime \<Rightarrow> address list \<Rightarrow>
     nat \<Rightarrow> string list \<Rightarrow> ('s, nat \<times> string list) act" where
  "ready_loop lib stores provider rt [] ready not_ready = pass (ready, not_ready)"
| "ready_loop lib stores provider rt (w # ws) ready not_ready =
     bind (so_get_lane_state stores w) (\<lambda>state.
     case state of
       None \<Rightarrow> ready_loop lib stores provider rt ws ready (not_ready @ [address_hex w @ '': missing lane state''])
     | Some lane \<Rightarrow>
         if ln_status lane \<noteq> LaneIdle
         then ready_loop lib stores provider rt ws ready
                (not_ready @ [address_hex w @ '': status='' @ status_debug (ln_status lane)])
         else if ln_eth_balance lane < rt_worker_min_balance rt
         then ready_loop lib stores provider rt ws ready
                (not_ready @ [address_hex w @ '': low eth balance '' @ nat_dec (unat (ln_eth_balance lane)) @
                   '' < '' @ nat_dec (unat (rt_worker_min_balance rt))])
         else
           bind (missing_operator lib provider (rt_executor_contracts rt) w) (\<lambda>missing.
           case missing of
             Some e \<Rightarrow> ready_loop lib stores provider rt ws ready
               (not_ready @ [address_hex w @ '': not operator for executor '' @ address_hex e])
           | None \<Rightarrow> ready_loop lib stores provider rt ws (ready + 1) not_ready))"

definition assert_submit_runtime_ready ::
    "libs \<Rightarrow> 's execution_stores \<Rightarrow> 's chain_provider \<Rightarrow> settings \<Rightarrow> execution_runtime \<Rightarrow> ('s, unit) act" where
  "assert_submit_runtime_ready lib stores provider cfg rt s =
     (if rt_fund_wallet rt = None
      then fail ''EOA_PRIVATE_KEY_1 is required when EXECUTION_SUBMIT_ENABLED=true'' s
      else if rt_worker_wallets rt = [] then fail ''execution worker EOA pool is empty'' s
      else if rt_executor_contracts rt = []
      then fail ''no executor contract configured for live submission'' s
      else
        case reconcile_worker_lanes lib stores provider cfg rt
               (breaker_new (cfg_execution_failure_rate_min_txs cfg)) s of
          ((Inl e, _), s') \<Rightarrow> (Inl e, s')
        | ((Inr _, br), s') \<Rightarrow>
            if br_halted br
            then fail ''execution circuit breaker halted during startup lane reconciliation'' s'
            else bind (ready_loop lib stores provider rt (rt_worker_wallets rt) 0 []) (\<lambda>(ready, not_ready).
              if ready = 0
              then fail (''no ready execution worker EOA at startup: '' @ join_with ''; '' not_ready)
              else pass ()) s')"

section \<open>The approval preflight\<close>

definition failed_simulation :: "candidate \<Rightarrow> uuid \<Rightarrow> u64 \<Rightarrow> string \<Rightarrow> u8 list \<Rightarrow> simulation_result" where
  "failed_simulation c sim_id current_block reason calldata =
     (simulation_of c sim_id)\<lparr>sr_block_number := Some current_block, sr_revert_reason := Some reason,
        sr_calldata := calldata\<rparr>"

definition enqueue_failure ::
    "'s execution_stores \<Rightarrow> 's ambient \<Rightarrow> candidate \<Rightarrow> u64 \<Rightarrow> string \<Rightarrow> u8 list \<Rightarrow> ('s, unit) act" where
  "enqueue_failure stores amb c current_block reason calldata s =
     (case am_new_uuid amb s of
        (sim_id, s') \<Rightarrow>
          (Inr (), so_enqueue_simulations stores [failed_simulation c sim_id current_block reason calldata] s'))"

definition skip_unencodable ::
    "'s execution_stores \<Rightarrow> 's ambient \<Rightarrow> candidate \<Rightarrow> u64 \<Rightarrow> string \<Rightarrow> u8 list \<Rightarrow> ('s, candidate_action option) act" where
  "skip_unencodable stores amb c current_block reason calldata =
     bind (enqueue_failure stores amb c current_block reason calldata)
       (\<lambda>_. pass (Some (Skipped ''preflight_unencodable'')))"

text \<open>The part of the preflight after the missing approvals are known and not empty.\<close>

definition submit_missing_approval ::
    "libs \<Rightarrow> 's execution_stores \<Rightarrow> 's ambient \<Rightarrow> 's chain_provider \<Rightarrow> settings \<Rightarrow> trusted_factory_set \<Rightarrow>
     address option \<Rightarrow> candidate \<Rightarrow> u64 \<Rightarrow> u8 list \<Rightarrow> approval_requirement \<Rightarrow> ('s, candidate_action option) act" where
  "submit_missing_approval lib stores amb provider cfg tf fund_wallet c current_block calldata approval =
     (case fund_wallet of
        None \<Rightarrow> fail ''EOA_PRIVATE_KEY_1 is required for executor approval admin txs''
      | Some fund \<Rightarrow>
          bind (admin_has_pending_nonce provider fund) (\<lambda>pending.
          if pending then pass (Some (Skipped ''admin_pending_approval''))
          else case executor_for_candidate cfg tf c of
            Inl err \<Rightarrow> skip_unencodable stores amb c current_block
              (''executor selection preflight rejected: '' @ err_alternate err) calldata
          | Inr executor \<Rightarrow>
              bind (cp_get_transaction_count provider fund True) (\<lambda>nonce.
              bind (enqueue_failure stores amb c current_block
                      ''lazy approval preflight; simulation skipped'' calldata) (\<lambda>_.
              handle (submit_executor_approval lib provider fund cfg executor approval nonce)
                (\<lambda>_. pass (Some Simulated))
                (\<lambda>err.
                  bind (so_record_transaction stores
                    ((tx_result_base (cd_id c) None fund None nonce TxDropped)
                       \<lparr>tx_revert_reason := Some (err_display err)\<rparr>)) (\<lambda>_.
                  pass (Some Simulated)))))))"

definition live_approval_preflight ::
    "libs \<Rightarrow> 's execution_stores \<Rightarrow> 's ambient \<Rightarrow> 's chain_provider \<Rightarrow> settings \<Rightarrow> trusted_factory_set \<Rightarrow>
     address option \<Rightarrow> candidate \<Rightarrow> u64 \<Rightarrow> approval_cache \<Rightarrow>
     's \<Rightarrow> (candidate_action option anyhow \<times> approval_cache) \<times> 's" where
  "live_approval_preflight lib stores amb provider cfg tf fund_wallet c current_block cache s =
     (if \<not> cfg_execution_submit_enabled cfg \<and> \<not> cfg_execution_auto_approve_enabled cfg
      then ((Inr None, cache), s)
      else
        case am_now amb s of
          (now, s1) \<Rightarrow>
            (case build_live_execution_calldata lib cfg tf now c of
               Inl err \<Rightarrow>
                 (case skip_unencodable stores amb c current_block
                     (''executor preflight rejected: '' @ err_alternate err) [] s1 of
                    (r, s2) \<Rightarrow> ((r, cache), s2))
             | Inr calldata \<Rightarrow>
                 (case required_token_approvals cfg tf c of
                    Inl err \<Rightarrow>
                      (case skip_unencodable stores amb c current_block
                          (''executor approval preflight rejected: '' @ err_alternate err) calldata s1 of
                         (r, s2) \<Rightarrow> ((r, cache), s2))
                  | Inr approvals \<Rightarrow>
                      (case missing_approvals_cached lib provider cfg tf c approvals cache s1 of
                         ((r, cache'), s2) \<Rightarrow>
                           (case (case r of Inl _ \<Rightarrow> approvals | Inr missing \<Rightarrow> missing) of
                              [] \<Rightarrow> ((Inr None, cache'), s2)
                            | approval # _ \<Rightarrow>
                                (case submit_missing_approval lib stores amb provider cfg tf fund_wallet c
                                    current_block calldata approval s2 of
                                   (r', s3) \<Rightarrow> ((r', cache'), s3)))))))"

section \<open>Batches\<close>

text \<open>One simulation task, reading the clock and a fresh identifier around its calls.\<close>

definition run_simulation ::
    "libs \<Rightarrow> 's ambient \<Rightarrow> 's chain_provider \<Rightarrow> settings \<Rightarrow> trusted_factory_set \<Rightarrow> address \<Rightarrow>
     simulation_context \<Rightarrow> candidate \<Rightarrow> 's \<Rightarrow> simulation_result \<times> 's" where
  "run_simulation lib amb provider cfg tf operator context c s =
     (case am_now amb s of (now, s1) \<Rightarrow>
      case am_now amb s1 of (now', s2) \<Rightarrow>
      case am_now amb s2 of (now'', s3) \<Rightarrow>
      case am_new_uuid amb s3 of (sim_id, s4) \<Rightarrow>
        simulate lib provider cfg tf operator now now' now'' sim_id c context s4)"

fun simulate_all ::
    "(candidate \<Rightarrow> 's \<Rightarrow> simulation_result \<times> 's) \<Rightarrow> candidate list \<Rightarrow> 's \<Rightarrow> (candidate \<times> simulation_result) list \<times> 's" where
  "simulate_all sim [] s = ([], s)"
| "simulate_all sim (c # cs) s =
     (case sim c s of (r, s') \<Rightarrow> case simulate_all sim cs s' of (rs, s'') \<Rightarrow> ((c, r) # rs, s''))"

abbreviation max_simulations_per_cycle :: nat where "max_simulations_per_cycle \<equiv> 128"

definition run_dry_run_simulation_batch ::
    "libs \<Rightarrow> 's execution_stores \<Rightarrow> 's ambient \<Rightarrow> 's chain_provider \<Rightarrow> settings \<Rightarrow> trusted_factory_set \<Rightarrow>
     address \<Rightarrow> (candidate list \<Rightarrow> candidate list) \<Rightarrow> candidate list \<Rightarrow> simulation_context \<Rightarrow> ('s, unit) act" where
  "run_dry_run_simulation_batch lib stores amb provider cfg tf operator complete cs context s =
     (case simulate_all (run_simulation lib amb provider cfg tf operator context)
             (complete (take max_simulations_per_cycle cs)) s of
        (outcomes, s') \<Rightarrow> (Inr (), so_enqueue_simulations stores (map snd outcomes) s'))"

datatype preflight_end = Ready "candidate list" | ApprovalSubmitted

text \<open>The preflight loop; the candidates that may be simulated are collected in order.\<close>

fun preflight_loop ::
    "(candidate \<Rightarrow> approval_cache \<Rightarrow> 's \<Rightarrow> (candidate_action option anyhow \<times> approval_cache) \<times> 's) \<Rightarrow>
     u64 \<Rightarrow> u64 \<Rightarrow> candidate list \<Rightarrow> candidate list \<Rightarrow> approval_cache \<Rightarrow>
     's \<Rightarrow> (preflight_end anyhow \<times> approval_cache) \<times> 's" where
  "preflight_loop preflight current_block max_lag [] ready cache s = ((Inr (Ready ready), cache), s)"
| "preflight_loop preflight current_block max_lag (c # cs) ready cache s =
     (if length ready \<ge> max_simulations_per_cycle then ((Inr (Ready ready), cache), s)
      else if saturating_sub current_block (cd_block_number c) > max_lag
      then preflight_loop preflight current_block max_lag cs ready cache s
      else
        case preflight c cache s of
          ((Inl e, cache'), s') \<Rightarrow> ((Inl e, cache'), s')
        | ((Inr None, cache'), s') \<Rightarrow> preflight_loop preflight current_block max_lag cs (ready @ [c]) cache' s'
        | ((Inr (Some Submitted), cache'), s') \<Rightarrow> ((Inr ApprovalSubmitted, cache'), s')
        | ((Inr (Some _), cache'), s') \<Rightarrow> preflight_loop preflight current_block max_lag cs ready cache' s')"

text \<open>The caches of \<open>ExecutionMaintenance\<close> that a batch updates.\<close>

record execution_maintenance =
  em_approved_allowances :: approval_cache
  em_simulation_context :: "(u64 \<times> simulation_context) option"
  em_submitted_candidate_keys :: submitted_candidate_keys

definition run_live_submission_batch ::
    "libs \<Rightarrow> 's execution_stores \<Rightarrow> 's ambient \<Rightarrow> 's chain_provider \<Rightarrow> settings \<Rightarrow> trusted_factory_set \<Rightarrow>
     address \<Rightarrow> address option \<Rightarrow> address option \<Rightarrow> (candidate list \<Rightarrow> candidate list) \<Rightarrow> candidate list \<Rightarrow>
     simulation_context \<Rightarrow> u64 \<Rightarrow> u64 \<Rightarrow> circuit_breaker \<Rightarrow> execution_maintenance \<Rightarrow>
     's \<Rightarrow> (bool anyhow \<times> execution_maintenance) \<times> 's" where
  "run_live_submission_batch lib stores amb provider cfg tf operator wallet fund_wallet complete cs
       context current_block max_lag br em s =
     (case so_record_opportunities stores cs s of
        (Inl e, s1) \<Rightarrow> ((Inl e, em), s1)
      | (Inr _, s1) \<Rightarrow>
          (case preflight_loop
              (\<lambda>c. live_approval_preflight lib stores amb provider cfg tf fund_wallet c current_block)
              current_block max_lag cs [] (em_approved_allowances em) s1 of
             ((Inl e, cache), s2) \<Rightarrow> ((Inl e, em\<lparr>em_approved_allowances := cache\<rparr>), s2)
           | ((Inr ApprovalSubmitted, cache), s2) \<Rightarrow> ((Inr False, em\<lparr>em_approved_allowances := cache\<rparr>), s2)
           | ((Inr (Ready ready), cache), s2) \<Rightarrow>
               (case simulate_all (run_simulation lib amb provider cfg tf operator context)
                       (complete (take max_simulations_per_cycle ready)) s2 of
                  (outcomes, s3) \<Rightarrow>
                    (case submit_ranked (submit_simulated_candidate lib stores amb provider cfg tf wallet br)
                            (em_submitted_candidate_keys em) (rank_outcomes outcomes)
                            (so_enqueue_simulations stores (map snd outcomes) s3) of
                       ((r, keys), s4) \<Rightarrow>
                         ((r, em\<lparr>em_approved_allowances := cache, em_submitted_candidate_keys := keys\<rparr>), s4)))))"

section \<open>The cycle\<close>

definition cached_context ::
    "libs \<Rightarrow> 's chain_provider \<Rightarrow> settings \<Rightarrow> u64 \<Rightarrow> execution_maintenance \<Rightarrow>
     's \<Rightarrow> (simulation_context anyhow \<times> execution_maintenance) \<times> 's" where
  "cached_context lib provider cfg current_block em s =
     (case em_simulation_context em of
        Some (block, context) \<Rightarrow>
          if block = current_block then ((Inr context, em), s)
          else (case load_context lib provider cfg current_block s of
            (Inr ctx, s') \<Rightarrow> ((Inr ctx, em\<lparr>em_simulation_context := Some (current_block, ctx)\<rparr>), s')
          | (Inl e, s') \<Rightarrow> ((Inl e, em), s'))
      | None \<Rightarrow> (case load_context lib provider cfg current_block s of
            (Inr ctx, s') \<Rightarrow> ((Inr ctx, em\<lparr>em_simulation_context := Some (current_block, ctx)\<rparr>), s')
          | (Inl e, s') \<Rightarrow> ((Inl e, em), s')))"

text \<open>Choosing the worker: the breaker is checked before and after every reconciliation, and no
  candidate has been popped yet when this fails.\<close>

definition select_worker ::
    "libs \<Rightarrow> 's execution_stores \<Rightarrow> 's chain_provider \<Rightarrow> settings \<Rightarrow> execution_runtime \<Rightarrow> circuit_breaker \<Rightarrow>
     's \<Rightarrow> (address anyhow \<times> circuit_breaker) \<times> 's" where
  "select_worker lib stores provider cfg rt br s =
     (if br_halted br
      then ((bail ''execution circuit breaker halted; no candidates were popped'', br), s)
      else
        case reconcile_pending_worker_lanes lib stores provider cfg rt br s of
          ((Inl e, br1), s1) \<Rightarrow> ((Inl e, br1), s1)
        | ((Inr _, br1), s1) \<Rightarrow>
            if br_halted br1
            then ((bail (''execution circuit breaker halted after pending lane reconciliation; '' @
                    ''no candidates were popped''), br1), s1)
            else
              (case select_cached_ready_worker stores rt s1 of
                 (Inl e, s2) \<Rightarrow> ((Inl e, br1), s2)
               | (Inr (Some w), s2) \<Rightarrow> ((Inr w, br1), s2)
               | (Inr None, s2) \<Rightarrow>
                   (case reconcile_worker_lanes lib stores provider cfg rt br1 s2 of
                      ((Inl e, br2), s3) \<Rightarrow> ((Inl e, br2), s3)
                    | ((Inr _, br2), s3) \<Rightarrow>
                        if br_halted br2
                        then ((bail (''execution circuit breaker halted after lane reconciliation; '' @
                                ''no candidates were popped''), br2), s3)
                        else
                          (case select_cached_ready_worker stores rt s3 of
                             (Inl e, s4) \<Rightarrow> ((Inl e, br2), s4)
                           | (Inr None, s4) \<Rightarrow>
                               ((bail (''no ready execution worker EOA after lane reconciliation; '' @
                                  ''no candidates were popped''), br2), s4)
                           | (Inr (Some w), s4) \<Rightarrow> ((Inr w, br2), s4)))))"

text \<open>The candidates of a cycle after duplicates are dropped, and the pruned key cache.\<close>

definition drop_submitted ::
    "settings \<Rightarrow> u64 \<Rightarrow> u64 \<Rightarrow> execution_maintenance \<Rightarrow> candidate list \<Rightarrow> candidate list \<times> execution_maintenance" where
  "drop_submitted cfg current_block max_lag em cs =
     (if cfg_execution_submit_enabled cfg then
        (let keys = prune_before (saturating_sub current_block max_lag) (em_submitted_candidate_keys em)
         in (filter (\<lambda>c. \<not> contains_candidate keys c) cs, em\<lparr>em_submitted_candidate_keys := keys\<rparr>))
      else (cs, em))"

text \<open>What follows the choice of the worker. \<open>order\<close> and \<open>complete\<close> are the orders of the hash map
  and of the finished simulations; the result says whether a candidate was submitted.\<close>

definition process_candidates ::
    "libs \<Rightarrow> 's execution_stores \<Rightarrow> 's ambient \<Rightarrow> 's chain_provider \<Rightarrow> settings \<Rightarrow> execution_runtime \<Rightarrow>
     (candidate list \<Rightarrow> candidate list) \<Rightarrow> (candidate list \<Rightarrow> candidate list) \<Rightarrow> u64 \<Rightarrow> u64 \<Rightarrow> address option \<Rightarrow>
     circuit_breaker \<Rightarrow> execution_maintenance \<Rightarrow> 's \<Rightarrow> (bool anyhow \<times> execution_maintenance) \<times> 's" where
  "process_candidates lib stores amb provider cfg rt order complete current_block max_lag selected br em s =
     (case pop_fresh_candidates stores amb current_block max_lag s of
        (Inl e, s1) \<Rightarrow> ((Inl e, em), s1)
      | (Inr popped, s1) \<Rightarrow>
          (case drop_submitted cfg current_block max_lag em
                  (fst (coalesce_candidates_by_execution_key order popped)) of
             (cs, em1) \<Rightarrow>
               if cs = [] then ((Inr False, em1), s1)
               else
                 case option_or selected (rt_simulation_operator rt) of
                   None \<Rightarrow> ((bail ''EOA_ADDRESS_1 or EOA_PRIVATE_KEY_1 is required for simulation'', em1), s1)
                 | Some operator \<Rightarrow>
                     (case cached_context lib provider cfg current_block em1 s1 of
                        ((Inl e, em2), s2) \<Rightarrow> ((Inl e, em2), s2)
                      | ((Inr context, em2), s2) \<Rightarrow>
                          if \<not> cfg_execution_submit_enabled cfg then
                            (case run_dry_run_simulation_batch lib stores amb provider cfg
                                    (rt_trusted_factories rt) operator complete cs context s2 of
                               (Inl e, s3) \<Rightarrow> ((Inl e, em2), s3)
                             | (Inr _, s3) \<Rightarrow> ((Inr False, em2), s3))
                          else run_live_submission_batch lib stores amb provider cfg (rt_trusted_factories rt)
                                 operator selected (rt_fund_wallet rt) complete cs context current_block
                                 max_lag br em2 s2)))"

definition run_execution_cycle ::
    "libs \<Rightarrow> 's execution_stores \<Rightarrow> 's ambient \<Rightarrow> 's chain_provider \<Rightarrow> settings \<Rightarrow> execution_runtime \<Rightarrow>
     (candidate list \<Rightarrow> candidate list) \<Rightarrow> (candidate list \<Rightarrow> candidate list) \<Rightarrow>
     circuit_breaker \<Rightarrow> execution_maintenance \<Rightarrow> 's \<Rightarrow> (bool anyhow \<times> circuit_breaker \<times> execution_maintenance) \<times> 's" where
  "run_execution_cycle lib stores amb provider cfg rt order complete br em s =
     (let max_lag = max (cfg_execution_max_candidate_lag_blocks cfg) 1 in
      case so_get_current_block stores s of
        (Inl e, s1) \<Rightarrow> ((Inl e, br, em), s1)
      | (Inr None, s1) \<Rightarrow> ((Inr False, br, em), s1)
      | (Inr (Some current_block), s1) \<Rightarrow>
          if cfg_execution_submit_enabled cfg then
            (case select_worker lib stores provider cfg rt br s1 of
               ((Inl e, br'), s2) \<Rightarrow> ((Inl e, br', em), s2)
             | ((Inr w, br'), s2) \<Rightarrow>
                 (case process_candidates lib stores amb provider cfg rt order complete current_block max_lag
                         (Some w) br' em s2 of
                    ((r, em'), s3) \<Rightarrow> ((r, br', em'), s3)))
          else
            (case process_candidates lib stores amb provider cfg rt order complete current_block max_lag
                    None br em s1 of
               ((r, em'), s2) \<Rightarrow> ((r, br, em'), s2)))"

end
