(* ===== verification/Act_Logic.thy ===== *)
theory Act_Logic
  imports Act_Triples Execution_Cycle
begin

text \<open>
  What the operations built from RPC calls leave alone when the calls themselves leave it alone.
\<close>

section \<open>Calls that leave the stores alone\<close>

text \<open>The RPC node does not write the bot's stores.\<close>

locale rpc_frame =
  fixes v :: "'s \<Rightarrow> 'v" and provider :: "'s chain_provider"
  assumes keeps_eth_call: "keeps v (cp_eth_call_from provider sender b d l)"
    and keeps_estimate_gas: "keeps v (cp_estimate_gas provider a b d)"
    and keeps_fee_details: "keeps v (cp_suggested_eip1559_fee_details provider)"
    and keeps_block_number: "keeps v (cp_get_block_number provider)"
    and keeps_transaction_count: "keeps v (cp_get_transaction_count provider a pending)"
    and keeps_balance: "keeps v (cp_get_balance provider a)"
    and keeps_receipt: "keeps v (cp_get_transaction_receipt provider h)"
    and keeps_send_raw: "keeps v (cp_send_raw_transaction provider raw)"
begin

lemmas keeps_rpc [keeps_intros] =
  keeps_eth_call keeps_estimate_gas keeps_fee_details keeps_block_number keeps_transaction_count
  keeps_balance keeps_receipt keeps_send_raw

lemma keeps_fees [keeps_intros]:
  "keeps v (aggressive_fee_suggestion lib provider cfg)"
  "keeps v (suggest_simulation_fees lib provider cfg)"
  unfolding aggressive_fee_suggestion_def suggest_simulation_fees_def Let_def
  by (intro keeps_intros)+

lemma keeps_sending [keeps_intros]:
  "keeps v (sign_and_send_value provider w cfg t d val n g f p)"
  "keeps v (sign_and_send provider w cfg e d n g f p)"
  unfolding sign_and_send_def sign_and_send_value_def by (intro keeps_intros)+

lemma keeps_submit_candidate [keeps_intros]: "keeps v (submit_candidate lib provider w cfg tf now c sim n)"
  unfolding submit_candidate_def Let_def by (intro keeps_intros)

lemma keeps_submits [keeps_intros]:
  "keeps v (submit_native_transfer lib provider w cfg t val n)"
  "keeps v (submit_contract_call lib provider w cfg e d n)"
  "keeps v (replace_pending_transaction lib provider w cfg e d n g f p)"
  unfolding submit_native_transfer_def submit_contract_call_def replace_pending_transaction_def Let_def
  by (intro keeps_intros)+

lemma keeps_approval [keeps_intros]: "keeps v (submit_executor_approval lib provider w cfg e a n)"
  unfolding submit_executor_approval_def by (intro keeps_intros)

lemma keeps_reads [keeps_intros]:
  "keeps v (operator_enabled lib provider e w)"
  "keeps v (admin_has_pending_nonce provider a)"
  "keeps v (load_context lib provider cfg block)"
  "keeps v (sync_idle_lane provider lane)"
  unfolding operator_enabled_def admin_has_pending_nonce_def load_context_def sync_idle_lane_def
  by (intro keeps_intros)+

lemma keeps_wait [keeps_intros]: "keeps v (wait_for_worker_funding_receipt provider h)"
proof -
  have "keeps v (wait_for_funding provider h n)" for n
    by (induction n) (auto intro!: keeps_intros)
  then show ?thesis by (simp add: wait_for_worker_funding_receipt_def)
qed

lemma keeps_fund [keeps_intros]: "keeps v (fund_worker_lane_if_needed lib provider cfg rt lane)"
  unfolding fund_worker_lane_if_needed_def Let_def by (intro keeps_intros)

lemma keeps_simulate_inner [keeps_intros]:
  "keeps v (simulate_inner lib provider cfg tf op t1 t2 sid c ctx)"
  unfolding simulate_inner_def Let_def by (intro keeps_intros)

lemma keeps_simulate: "v (snd (simulate lib provider cfg tf op t1 t2 t3 sid c ctx s)) = v s"
  using keeps_run [OF keeps_simulate_inner]
  by (auto simp: simulate_def split: prod.splits sum.splits)

lemma keeps_missing_approvals:
  "v (snd (missing_approvals_cached lib provider cfg tf c rs cache s)) = v s"
proof -
  have "v (snd (missing_approvals_loop lib provider e rs missing cache s)) = v s" for e missing
  proof (induction rs arbitrary: missing cache s)
    case (Cons r rs)
    have "keeps v (bind (cp_eth_call_from provider None (ar_token r)
               (hex_data lib (encode_two_address_call erc20_allowance_selector e (ar_spender r)))
               ''ERC20 allowance for lazy approval'') (\<lambda>raw. lift (decode_u256_result lib raw)))"
      by (intro keeps_intros)
    note k = keeps_run [OF this]
    show ?case
      using Cons.IH by (auto split: prod.splits sum.splits dest: k)
  qed simp
  then show ?thesis by (simp add: missing_approvals_cached_def split: sum.splits)
qed

end

end
