(* ===== verification/Lane_Protocol.thy ===== *)
theory Lane_Protocol
  imports Act_Logic
begin

text \<open>
  The abstract life of a worker's lane as a step relation, and the proof that a whole execution
  cycle moves every stored lane only along its steps, whatever the RPC node answers and wherever
  the cycle fails. The interface is what the cycle needs of its stores and of the node.
\<close>

section \<open>The life of a lane\<close>

inductive lane_step :: "settings \<Rightarrow> address \<Rightarrow> eoa_lane_state option \<Rightarrow> eoa_lane_state option \<Rightarrow> bool"
  for cfg :: settings and a :: address where
  created: "lane_step cfg a None (Some (lane_new a))"
| synced: "ln_status l \<noteq> LanePending \<Longrightarrow>
    lane_step cfg a (Some l) (Some (l\<lparr>ln_confirmed_nonce := c, ln_local_nonce := n, ln_eth_balance := v,
      ln_status := LaneIdle\<rparr>))"
| submitted: "ln_status l \<noteq> LanePending \<Longrightarrow>
    lane_step cfg a (Some l)
      (Some (mark_submitted opp (Some sim) h ex (ln_local_nonce l) b g f p l))"
| failed: "ln_status l \<noteq> LanePending \<Longrightarrow> lane_step cfg a (Some l) (Some (mark_cooldown l))"
| replaced: "ln_status l = LanePending \<Longrightarrow>
    ln_pending_replacement_count l < cfg_execution_max_replacements cfg \<Longrightarrow>
    ln_pending_gas_limit l = Some g \<Longrightarrow> ln_pending_max_fee_per_gas l = Some f \<Longrightarrow>
    ln_pending_max_priority_fee_per_gas l = Some p \<Longrightarrow>
    bump_fee f (cfg_execution_replacement_fee_bump_bps cfg) \<le> f' \<Longrightarrow>
    bump_fee p (cfg_execution_replacement_fee_bump_bps cfg) \<le> p' \<Longrightarrow>
    lane_step cfg a (Some l) (Some (mark_replaced h b g f' p' l))"
| settled: "ln_status l = LanePending \<Longrightarrow>
    lane_step cfg a (Some l) (Some (clear_consumed_pending c n v l))"
| blocked: "ln_status l = LanePending \<Longrightarrow>
    ln_pending_tx l = None \<or> ln_pending_opportunity_id l = None \<or> ln_pending_nonce l = None \<Longrightarrow>
    lane_step cfg a (Some l) (Some (mark_blocked l))"

inductive_cases lane_step_NoneE: "lane_step cfg a None l'"
inductive_cases lane_step_SomeE: "lane_step cfg a (Some l) l'"
inductive_simps lane_step_to_None: "lane_step cfg a l None"

abbreviation lane_steps :: "settings \<Rightarrow> address \<Rightarrow> eoa_lane_state option \<Rightarrow> eoa_lane_state option \<Rightarrow> bool" where
  "lane_steps cfg a \<equiv> (lane_step cfg a)\<^sup>*\<^sup>*"

text \<open>What is true of every lane the bot writes.\<close>

definition lane_good :: "settings \<Rightarrow> address \<Rightarrow> eoa_lane_state \<Rightarrow> bool" where
  "lane_good cfg a l \<longleftrightarrow> ln_address l = a \<and> lane_ok l \<and>
     (ln_status l = LanePending \<longrightarrow>
        (\<exists>n. ln_pending_nonce l = Some n \<and> ln_local_nonce l = saturating_add n 1) \<and>
        ln_pending_replacement_count l \<le> cfg_execution_max_replacements cfg)"

lemma lane_good_step:
  assumes "lane_step cfg a (Some l) (Some l')" "lane_good cfg a l"
  shows "lane_good cfg a l'"
  using assms(1)
proof (cases rule: lane_step.cases)
  case synced
  then show ?thesis
    using assms(2) by (cases "ln_status l") (auto simp: lane_good_def lane_ok_def pending_fields_empty_def)
next
  case failed
  then show ?thesis using assms(2) by (auto simp: lane_good_def lane_ok_cooldown)
next
  case replaced
  have "unat (ln_pending_replacement_count l) < 2 ^ 64 - 1"
    using replaced unsigned_less [where ?'a = nat, of "cfg_execution_max_replacements cfg"]
    by (simp add: word_less_nat_alt)
  then have "saturating_add (ln_pending_replacement_count l) 1 \<le> cfg_execution_max_replacements cfg"
    using replaced by (simp add: word_le_nat_alt word_less_nat_alt unat_saturating_add)
  then show ?thesis
    using assms(2) replaced by (auto simp: lane_good_def lane_ok_replaced) (auto simp: lane_ops)
next
  case blocked
  then show ?thesis
    using assms(2) by (auto simp: lane_good_def lane_ok_def pending_fields_known_def)
next
  case submitted
  then show ?thesis using assms(2) by (auto simp: lane_good_def) (auto simp: lane_ops)
next
  case settled
  then show ?thesis using assms(2) by (auto simp: lane_good_def)
qed

lemma lane_good_new: "lane_good cfg a (lane_new a)"
  by (simp add: lane_good_def)

lemma lane_steps_good:
  assumes "lane_steps cfg a x (Some l)" "\<And>l0. x = Some l0 \<Longrightarrow> lane_good cfg a l0"
  shows "lane_good cfg a l"
proof -
  have "\<forall>l. y = Some l \<longrightarrow> lane_good cfg a l" if "lane_steps cfg a x y" for y
    using that
  proof (induction rule: rtranclp_induct)
    case base
    then show ?case using assms(2) by simp
  next
    case (step y z)
    then show ?case
      by (cases y) (auto elim!: lane_step_NoneE simp: lane_good_new intro: lane_good_step)
  qed
  then show ?thesis using assms(1) by blast
qed

lemma lane_step_address:
  assumes "lane_step cfg a x (Some l)" "\<And>l0. x = Some l0 \<Longrightarrow> ln_address l0 = a"
  shows "ln_address l = a"
  using assms by (cases rule: lane_step.cases) auto

section \<open>The lanes of a store along the steps\<close>

definition lanes_follow ::
    "settings \<Rightarrow> (address \<Rightarrow> eoa_lane_state option) \<Rightarrow> (address \<Rightarrow> eoa_lane_state option) \<Rightarrow> bool" where
  "lanes_follow cfg L0 L \<longleftrightarrow>
     (\<forall>a l. L a = Some l \<longrightarrow> ln_address l = a) \<and> (\<forall>a. lane_steps cfg a (L0 a) (L a))"

definition lane_at :: "settings \<Rightarrow> (address \<Rightarrow> eoa_lane_state option) \<Rightarrow> eoa_lane_state \<Rightarrow> bool" where
  "lane_at cfg L l \<longleftrightarrow> lane_steps cfg (ln_address l) (L (ln_address l)) (Some l)"

definition not_pending :: "(address \<Rightarrow> eoa_lane_state option) \<Rightarrow> address \<Rightarrow> bool" where
  "not_pending L a \<longleftrightarrow> (\<forall>l. L a = Some l \<longrightarrow> ln_status l \<noteq> LanePending)"

lemma lanes_follow_refl: "(\<And>a l. L a = Some l \<Longrightarrow> ln_address l = a) \<Longrightarrow> lanes_follow cfg L L"
  by (simp add: lanes_follow_def)

lemma lanes_follow_set:
  "lanes_follow cfg L0 L \<Longrightarrow> lane_at cfg L l \<Longrightarrow> lanes_follow cfg L0 (L(ln_address l \<mapsto> l))"
  by (auto simp: lanes_follow_def lane_at_def intro: rtranclp_trans)

lemma lane_at_set: "lane_at cfg (L(ln_address l \<mapsto> l)) l"
  by (simp add: lane_at_def)

lemma lane_at_stored: "L (ln_address l) = Some l \<Longrightarrow> lane_at cfg L l"
  by (simp add: lane_at_def)

lemma lane_at_step:
  assumes "lane_at cfg L l" "lane_step cfg (ln_address l) (Some l) (Some l')"
  shows "lane_at cfg L l'"
proof -
  have "ln_address l' = ln_address l" using assms(2) by (rule lane_step_address) simp
  then show ?thesis using assms by (simp add: lane_at_def)
qed

lemma lane_at_or_new:
  assumes "lanes_follow cfg L0 L"
  shows "lane_at cfg L (lane_or_new a (L a))" "ln_address (lane_or_new a (L a)) = a"
proof -
  have "ln_address l = a" if "L a = Some l" for l using assms that by (simp add: lanes_follow_def)
  then show "lane_at cfg L (lane_or_new a (L a))" "ln_address (lane_or_new a (L a)) = a"
    by (auto simp: lane_or_new_def lane_at_def intro: created split: option.splits)
qed

lemma not_pending_or_new: "not_pending L a \<Longrightarrow> ln_status (lane_or_new a (L a)) \<noteq> LanePending"
  by (auto simp: not_pending_def lane_or_new_def split: option.splits)

end
