(* ===== verification/Stores.thy ===== *)
theory Stores
  imports Effects
begin

text \<open>
  The in-memory implementation of the store traits, \<open>InMemoryStores\<close> of
  \<open>crates/storage/src/lib.rs\<close>. A \<open>BTreeMap\<close> is an association list kept in key order, a queue a
  list whose head is the front. The traits' methods cannot fail here, so each one is a function
  on the state; the last section turns them into the store records the execution manager takes.
\<close>

section \<open>Ordered maps\<close>

fun btree_insert :: "'k::linorder \<Rightarrow> 'v \<Rightarrow> ('k \<times> 'v) list \<Rightarrow> ('k \<times> 'v) list" where
  "btree_insert k v [] = [(k, v)]"
| "btree_insert k v ((k', v') # m) =
     (if k = k' then (k, v) # m
      else if k < k' then (k, v) # (k', v') # m
      else (k', v') # btree_insert k v m)"

definition btree_ok :: "('k::linorder \<times> 'v) list \<Rightarrow> bool" where
  "btree_ok m \<longleftrightarrow> sorted_wrt (<) (map fst m)"

lemma btree_get_insert [simp]: "map_of (btree_insert k v m) = (map_of m)(k \<mapsto> v)"
  by (induction m) (auto simp: fun_eq_iff)

lemma btree_keys_insert: "fst ` set (btree_insert k v m) = insert k (fst ` set m)"
proof (induction m)
  case (Cons kv m)
  then show ?case by (cases kv) (simp add: insert_commute)
qed simp

lemma btree_ok_insert: "btree_ok m \<Longrightarrow> btree_ok (btree_insert k v m)"
proof (induction m)
  case (Cons kv m)
  then show ?case
    using btree_keys_insert [of k v m]
    by (cases kv) (auto simp: btree_ok_def)
qed (simp add: btree_ok_def)

lemma btree_ok_filter: "btree_ok m \<Longrightarrow> btree_ok (filter P m)"
  unfolding btree_ok_def by (induction m) auto

lemma btree_ok_distinct: "btree_ok m \<Longrightarrow> distinct (map fst m)"
  by (simp add: btree_ok_def strict_sorted_iff)

text \<open>A keyed store: what a lookup returns after an insertion.\<close>

locale keyed_store =
  fixes lookup :: "'m \<Rightarrow> 'k \<Rightarrow> 'v option" and put :: "'v \<Rightarrow> 'm \<Rightarrow> 'm" and key :: "'v \<Rightarrow> 'k"
  assumes lookup_put: "lookup (put v m) k = (if k = key v then Some v else lookup m k)"
begin

text \<open>After a sequence of insertions a lookup returns the last value put under the key.\<close>

lemma lookup_put_all:
  "lookup (fold put vs m) k =
     (case filter (\<lambda>v. key v = k) vs of [] \<Rightarrow> lookup m k | xs \<Rightarrow> Some (last xs))"
proof (induction vs arbitrary: m rule: rev_induct)
  case (snoc v vs)
  then show ?case
    by (cases "filter (\<lambda>v. key v = k) vs") (auto simp: lookup_put)
qed simp

lemma lookup_put_other: "key v \<noteq> k \<Longrightarrow> lookup (put v m) k = lookup m k"
  by (simp add: lookup_put)

end

section \<open>The stores\<close>

type_synonym tick_key = "address \<times> int"

record in_memory_stores =
  ms_pool_states :: "(address \<times> pool_state) list"
  ms_candidates :: "candidate list"
  ms_failures :: "(string \<times> datetime) list"
  ms_opportunities :: "candidate list"
  ms_simulations :: "simulation_result list"
  ms_transactions :: "tx_result list"
  ms_lanes :: "(address \<times> eoa_lane_state) list"
  ms_events :: "dex_event list"
  ms_pool_snapshots :: "pool_state list"
  ms_ticks :: "(tick_key \<times> tick_state) list"
  ms_changed_pools :: "address list"
  ms_tick_changed_pools :: "address list"
  ms_current_block :: "u64 option"

definition stores_new :: in_memory_stores where
  "stores_new = \<lparr>ms_pool_states = [], ms_candidates = [], ms_failures = [], ms_opportunities = [],
     ms_simulations = [], ms_transactions = [], ms_lanes = [], ms_events = [], ms_pool_snapshots = [],
     ms_ticks = [], ms_changed_pools = [], ms_tick_changed_pools = [], ms_current_block = None\<rparr>"

definition set_pool_state :: "pool_state \<Rightarrow> in_memory_stores \<Rightarrow> in_memory_stores" where
  "set_pool_state p st = st\<lparr>ms_pool_states := btree_insert (ps_address p) p (ms_pool_states st)\<rparr>"

definition set_pool_states :: "pool_state list \<Rightarrow> in_memory_stores \<Rightarrow> in_memory_stores" where
  "set_pool_states ps st = fold set_pool_state ps st"

definition get_pool_state :: "in_memory_stores \<Rightarrow> address \<Rightarrow> pool_state option" where
  "get_pool_state st a = map_of (ms_pool_states st) a"

definition get_pool_states :: "in_memory_stores \<Rightarrow> address list \<Rightarrow> (address \<times> pool_state option) list" where
  "get_pool_states st as = map (\<lambda>a. (a, get_pool_state st a)) as"

definition all_pool_states :: "in_memory_stores \<Rightarrow> pool_state list" where
  "all_pool_states st = map snd (ms_pool_states st)"

definition mark_changed_pools :: "address list \<Rightarrow> in_memory_stores \<Rightarrow> in_memory_stores" where
  "mark_changed_pools pools st = st\<lparr>ms_changed_pools := ms_changed_pools st @ pools\<rparr>"

definition drain_changed_pools :: "in_memory_stores \<Rightarrow> address list \<times> in_memory_stores" where
  "drain_changed_pools st = (ms_changed_pools st, st\<lparr>ms_changed_pools := []\<rparr>)"

definition mark_tick_changed_pools :: "address list \<Rightarrow> in_memory_stores \<Rightarrow> in_memory_stores" where
  "mark_tick_changed_pools pools st = st\<lparr>ms_tick_changed_pools := ms_tick_changed_pools st @ pools\<rparr>"

definition drain_tick_changed_pools :: "in_memory_stores \<Rightarrow> address list \<times> in_memory_stores" where
  "drain_tick_changed_pools st = (ms_tick_changed_pools st, st\<lparr>ms_tick_changed_pools := []\<rparr>)"

definition mark_tick_repair_pools :: "address list \<Rightarrow> in_memory_stores \<Rightarrow> in_memory_stores" where
  "mark_tick_repair_pools pools st = st\<lparr>ms_tick_changed_pools := ms_tick_changed_pools st @ pools\<rparr>"

definition drain_tick_repair_pools :: "nat \<Rightarrow> in_memory_stores \<Rightarrow> address list \<times> in_memory_stores" where
  "drain_tick_repair_pools limit st =
     (take limit (ms_tick_changed_pools st),
      st\<lparr>ms_tick_changed_pools := drop limit (ms_tick_changed_pools st)\<rparr>)"

definition set_current_block :: "u64 \<Rightarrow> in_memory_stores \<Rightarrow> in_memory_stores" where
  "set_current_block b st =
     st\<lparr>ms_current_block := Some (case ms_current_block st of None \<Rightarrow> b | Some c \<Rightarrow> max c b)\<rparr>"

definition get_current_block :: "in_memory_stores \<Rightarrow> u64 option" where
  "get_current_block st = ms_current_block st"

definition publish_pool_states :: "u64 \<Rightarrow> pool_state list \<Rightarrow> address list \<Rightarrow> in_memory_stores \<Rightarrow> in_memory_stores" where
  "publish_pool_states block states changed st =
     mark_changed_pools changed (set_pool_states states (set_current_block block st))"

definition tick_key_of :: "tick_state \<Rightarrow> tick_key" where
  "tick_key_of t = (pid_address (ts_pool_id t), sint (ts_tick t))"

definition set_tick_state :: "tick_state \<Rightarrow> in_memory_stores \<Rightarrow> in_memory_stores" where
  "set_tick_state t st = st\<lparr>ms_ticks := btree_insert (tick_key_of t) t (ms_ticks st)\<rparr>"

definition set_tick_states :: "tick_state list \<Rightarrow> in_memory_stores \<Rightarrow> in_memory_stores" where
  "set_tick_states ts st = fold set_tick_state ts st"

definition replace_pool_ticks :: "address \<Rightarrow> tick_state list \<Rightarrow> in_memory_stores \<Rightarrow> in_memory_stores" where
  "replace_pool_ticks pool ts st =
     set_tick_states ts (st\<lparr>ms_ticks := filter (\<lambda>((a, _), _). a \<noteq> pool) (ms_ticks st)\<rparr>)"

definition get_pool_ticks :: "in_memory_stores \<Rightarrow> address \<Rightarrow> tick_state list" where
  "get_pool_ticks st pool = filter (\<lambda>t. pid_address (ts_pool_id t) = pool) (map snd (ms_ticks st))"

definition get_pool_ticks_many :: "in_memory_stores \<Rightarrow> address set \<Rightarrow> address \<Rightarrow> tick_state list option" where
  "get_pool_ticks_many st pools pool =
     (let ts = get_pool_ticks st pool
      in if pool \<in> pools \<and> ts \<noteq> [] then Some (sort_key (\<lambda>t. sint (ts_tick t)) ts) else None)"

definition push_candidate :: "candidate \<Rightarrow> in_memory_stores \<Rightarrow> in_memory_stores" where
  "push_candidate c st = st\<lparr>ms_candidates := ms_candidates st @ [c]\<rparr>"

definition push_candidates :: "candidate list \<Rightarrow> in_memory_stores \<Rightarrow> in_memory_stores" where
  "push_candidates cs st = st\<lparr>ms_candidates := ms_candidates st @ cs\<rparr>"

definition prune_candidates_before_block :: "u64 \<Rightarrow> in_memory_stores \<Rightarrow> nat \<times> in_memory_stores" where
  "prune_candidates_before_block block st =
     (if block = 0 then (0, st)
      else
        (let kept = filter (\<lambda>c. block \<le> cd_block_number c) (ms_candidates st)
         in (length (ms_candidates st) - length kept, st\<lparr>ms_candidates := kept\<rparr>)))"

definition pop_candidate :: "in_memory_stores \<Rightarrow> candidate option \<times> in_memory_stores" where
  "pop_candidate st =
     (case ms_candidates st of [] \<Rightarrow> (None, st) | c # cs \<Rightarrow> (Some c, st\<lparr>ms_candidates := cs\<rparr>))"

definition pop_candidates :: "nat \<Rightarrow> in_memory_stores \<Rightarrow> candidate list \<times> in_memory_stores" where
  "pop_candidates limit st =
     (take limit (ms_candidates st), st\<lparr>ms_candidates := drop limit (ms_candidates st)\<rparr>)"

definition mark_failure_key :: "datetime \<Rightarrow> string \<Rightarrow> in_memory_stores \<Rightarrow> in_memory_stores" where
  "mark_failure_key now key st = st\<lparr>ms_failures := btree_insert key now (ms_failures st)\<rparr>"

definition has_failure_key :: "in_memory_stores \<Rightarrow> string \<Rightarrow> bool" where
  "has_failure_key st key \<longleftrightarrow> map_of (ms_failures st) key \<noteq> None"

definition record_dex_events :: "dex_event list \<Rightarrow> in_memory_stores \<Rightarrow> in_memory_stores" where
  "record_dex_events es st = st\<lparr>ms_events := ms_events st @ es\<rparr>"

definition record_pool_states :: "pool_state list \<Rightarrow> in_memory_stores \<Rightarrow> in_memory_stores" where
  "record_pool_states ps st = st\<lparr>ms_pool_snapshots := ms_pool_snapshots st @ ps\<rparr>"

definition record_opportunities :: "candidate list \<Rightarrow> in_memory_stores \<Rightarrow> in_memory_stores" where
  "record_opportunities cs st = st\<lparr>ms_opportunities := ms_opportunities st @ cs\<rparr>"

definition record_simulations :: "simulation_result list \<Rightarrow> in_memory_stores \<Rightarrow> in_memory_stores" where
  "record_simulations rs st = st\<lparr>ms_simulations := ms_simulations st @ rs\<rparr>"

definition record_transaction :: "tx_result \<Rightarrow> in_memory_stores \<Rightarrow> in_memory_stores" where
  "record_transaction tx st = st\<lparr>ms_transactions := ms_transactions st @ [tx]\<rparr>"

definition set_lane_state :: "eoa_lane_state \<Rightarrow> in_memory_stores \<Rightarrow> in_memory_stores" where
  "set_lane_state lane st = st\<lparr>ms_lanes := btree_insert (ln_address lane) lane (ms_lanes st)\<rparr>"

definition get_lane_state :: "in_memory_stores \<Rightarrow> address \<Rightarrow> eoa_lane_state option" where
  "get_lane_state st a = map_of (ms_lanes st) a"

record pending_transaction_record =
  pt_opportunity_id :: uuid
  pt_simulation_id :: "uuid option"
  pt_eoa :: address
  pt_tx_hash :: b256
  pt_nonce :: u64

definition pending_record :: "tx_result \<Rightarrow> pending_transaction_record list" where
  "pending_record tx =
     (case tx_tx_hash tx of
        None \<Rightarrow> []
      | Some h \<Rightarrow> [\<lparr>pt_opportunity_id = tx_opportunity_id tx, pt_simulation_id = tx_simulation_id tx,
          pt_eoa = tx_eoa tx, pt_tx_hash = h, pt_nonce = tx_nonce tx\<rparr>])"

definition pending_transactions_for_eoa ::
    "in_memory_stores \<Rightarrow> address \<Rightarrow> int \<Rightarrow> pending_transaction_record list" where
  "pending_transactions_for_eoa st eoa limit =
     take (nat limit) (concat (map pending_record
       (filter (\<lambda>tx. tx_eoa tx = eoa \<and> tx_status tx = TxPending) (ms_transactions st))))"

definition simulation_calldata :: "in_memory_stores \<Rightarrow> uuid \<Rightarrow> u8 list option" where
  "simulation_calldata st sim_id =
     map_option sr_calldata (find (\<lambda>sim. sr_id sim = sim_id) (ms_simulations st))"

section \<open>The stores meet the interface\<close>

interpretation pool_store: keyed_store get_pool_state set_pool_state ps_address
  by unfold_locales (simp add: get_pool_state_def set_pool_state_def)

interpretation lane_map: keyed_store get_lane_state set_lane_state ln_address
  by unfold_locales (simp add: get_lane_state_def set_lane_state_def)

definition get_tick :: "in_memory_stores \<Rightarrow> tick_key \<Rightarrow> tick_state option" where
  "get_tick st k = map_of (ms_ticks st) k"

interpretation tick_store: keyed_store get_tick set_tick_state tick_key_of
  by unfold_locales (simp add: get_tick_def set_tick_state_def)

section \<open>Properties\<close>

lemma map_of_without_pool:
  "map_of (filter (\<lambda>((a, _), _). a \<noteq> pool) m) (a, i) = (if a = pool then None else map_of m (a, i))"
  by (induction m) auto

text \<open>C33: Replacing a pool's ticks removes exactly that pool's old ticks: afterwards every tick of
  the pool is the last one given for its index, and other pools keep theirs.\<close>

theorem replace_pool_ticks_exact:
  assumes "\<forall>t \<in> set ts. pid_address (ts_pool_id t) = pool"
  shows "get_tick (replace_pool_ticks pool ts st) (a, i) =
    (if a = pool
     then (case filter (\<lambda>t. sint (ts_tick t) = i) ts of [] \<Rightarrow> None | xs \<Rightarrow> Some (last xs))
     else get_tick st (a, i))"
proof -
  let ?st = "st\<lparr>ms_ticks := filter (\<lambda>((a, _), _). a \<noteq> pool) (ms_ticks st)\<rparr>"
  have old: "get_tick ?st (a, i) = (if a = pool then None else get_tick st (a, i))"
    by (simp add: get_tick_def map_of_without_pool)
  have "filter (\<lambda>t. tick_key_of t = (a, i)) ts =
      (if a = pool then filter (\<lambda>t. sint (ts_tick t) = i) ts else [])"
    using assms by (auto simp: tick_key_of_def filter_empty_conv intro: filter_cong)
  then show ?thesis
    unfolding replace_pool_ticks_def set_tick_states_def tick_store.lookup_put_all old
    by (auto split: list.splits)
qed

theorem replace_pool_ticks_exact_witness:
  "get_tick (replace_pool_ticks 100 [example_tick 60 5, example_tick 120 7, example_tick 60 9] stores_new)
      (100, 60) = Some (example_tick 60 9)"
  by (subst replace_pool_ticks_exact) (simp_all add: example_tick_def)

lemma pool_after_publish:
  "get_pool_state (publish_pool_states b ps ch st) a =
     (case filter (\<lambda>p. ps_address p = a) ps of [] \<Rightarrow> get_pool_state st a | xs \<Rightarrow> Some (last xs))"
  unfolding publish_pool_states_def set_pool_states_def
  using pool_store.lookup_put_all [where k = a and vs = ps and m = "set_current_block b st"]
  by (simp add: mark_changed_pools_def get_pool_state_def set_current_block_def split: list.splits)

lemma set_pool_states_frame [simp]:
  "ms_current_block (set_pool_states ps st) = ms_current_block st"
  "ms_changed_pools (set_pool_states ps st) = ms_changed_pools st"
proof -
  have "ms_current_block (fold set_pool_state ps st) = ms_current_block st \<and>
      ms_changed_pools (fold set_pool_state ps st) = ms_changed_pools st"
    by (induction ps arbitrary: st) (simp_all add: set_pool_state_def)
  then show "ms_current_block (set_pool_states ps st) = ms_current_block st"
    "ms_changed_pools (set_pool_states ps st) = ms_changed_pools st"
    by (simp_all add: set_pool_states_def)
qed

definition publish_all :: "(u64 \<times> pool_state list \<times> address list) list \<Rightarrow> in_memory_stores \<Rightarrow> in_memory_stores" where
  "publish_all us st = fold (\<lambda>(b, ps, ch) s. publish_pool_states b ps ch s) us st"

text \<open>C34: However block updates arrive, even out of order, after publishing a sequence of them the
  current block is the highest one published, each pool reads as its last published state, and
  the changed-pool queue delivers every change once, in publication order.\<close>

theorem publish_sequence:
  shows "get_current_block (publish_all us st) =
      (case get_current_block st of
         None \<Rightarrow> (if us = [] then None else Some (Max (fst ` set us)))
       | Some c \<Rightarrow> Some (Max (insert c (fst ` set us))))
    \<and> get_pool_state (publish_all us st) a =
      (case filter (\<lambda>p. ps_address p = a) (concat (map (fst \<circ> snd) us)) of
         [] \<Rightarrow> get_pool_state st a | xs \<Rightarrow> Some (last xs))
    \<and> fst (drain_changed_pools (publish_all us st)) =
      fst (drain_changed_pools st) @ concat (map (snd \<circ> snd) us)
    \<and> fst (drain_changed_pools (snd (drain_changed_pools (publish_all us st)))) = []"
proof (intro conjI)
  show "get_current_block (publish_all us st) =
      (case get_current_block st of
         None \<Rightarrow> (if us = [] then None else Some (Max (fst ` set us)))
       | Some c \<Rightarrow> Some (Max (insert c (fst ` set us))))"
    unfolding publish_all_def
  proof (induction us rule: rev_induct)
    case (snoc u us)
    then show ?case
      by (cases u, cases "us = []")
        (auto simp: get_current_block_def publish_pool_states_def mark_changed_pools_def
          set_current_block_def max.commute insert_commute split: option.splits)
  qed (simp split: option.splits)
  show "get_pool_state (publish_all us st) a =
      (case filter (\<lambda>p. ps_address p = a) (concat (map (fst \<circ> snd) us)) of
         [] \<Rightarrow> get_pool_state st a | xs \<Rightarrow> Some (last xs))"
    unfolding publish_all_def
  proof (induction us rule: rev_induct)
    case (snoc u us)
    then show ?case
      by (cases u) (auto simp: pool_after_publish split: list.splits)
  qed simp
  show "fst (drain_changed_pools (publish_all us st)) =
      fst (drain_changed_pools st) @ concat (map (snd \<circ> snd) us)"
    unfolding publish_all_def
    by (induction us rule: rev_induct)
      (auto simp: drain_changed_pools_def publish_pool_states_def mark_changed_pools_def set_current_block_def)
qed (simp add: drain_changed_pools_def)

text \<open>The repair queue and the tick-change queue are one: repairs drained are lost to the readers
  of tick changes.\<close>

lemma repair_drain_loses_tick_changes:
  "fst (drain_tick_changed_pools (snd (drain_tick_repair_pools (length ps)
     (mark_tick_changed_pools ps stores_new)))) = []"
  by (simp add: drain_tick_changed_pools_def drain_tick_repair_pools_def mark_tick_changed_pools_def
      stores_new_def)

end
