(* ===== verification/In_Memory.thy ===== *)
theory In_Memory
  imports Stores
begin

text \<open>
  The environments of the services when they run on the in-memory stores of \<open>Stores\<close>: the store
  calls act on the stores, everything else on an outside world \<open>'c\<close> beside them.
\<close>

section \<open>Lifting\<close>

text \<open>The in-memory stores beside an outside world \<open>'c\<close> that the node and the clock may change.
  The simulation queue's background writer is taken to have run. The submission lock is the trait's
  default, which grants every request.\<close>

definition in_memory :: "(in_memory_stores \<Rightarrow> 'a \<times> in_memory_stores) \<Rightarrow> (in_memory_stores \<times> 'c, 'a) act" where
  "in_memory f = (\<lambda>(st, c). case f st of (x, st') \<Rightarrow> (Inr x, (st', c)))"

definition outside :: "('c, 'a) act \<Rightarrow> (in_memory_stores \<times> 'c, 'a) act" where
  "outside m = (\<lambda>(st, c). case m c of (r, c') \<Rightarrow> (r, (st, c')))"

definition memory_stores :: "(in_memory_stores \<times> 'c) execution_stores" where
  "memory_stores = \<lparr>
     so_get_lane_state = (\<lambda>a. in_memory (\<lambda>st. (get_lane_state st a, st))),
     so_set_lane_state = (\<lambda>l. in_memory (\<lambda>st. ((), set_lane_state l st))),
     so_record_transaction = (\<lambda>tx. in_memory (\<lambda>st. ((), record_transaction tx st))),
     so_simulation_calldata = (\<lambda>sid. in_memory (\<lambda>st. (simulation_calldata st sid, st))),
     so_prune_candidates_before_block = (\<lambda>b. in_memory (prune_candidates_before_block b)),
     so_pop_candidates = (\<lambda>k. in_memory (pop_candidates k)),
     so_try_acquire_submission_lock = (\<lambda>_ _. in_memory (\<lambda>st. (True, st))),
     so_get_current_block = in_memory (\<lambda>st. (get_current_block st, st)),
     so_record_opportunities = (\<lambda>cs. in_memory (\<lambda>st. ((), record_opportunities cs st))),
     so_enqueue_simulations = (\<lambda>sims (st, c). (record_simulations sims st, c))\<rparr>"

definition outside_provider :: "'c chain_provider \<Rightarrow> (in_memory_stores \<times> 'c) chain_provider" where
  "outside_provider p = \<lparr>
     cp_eth_call_from = (\<lambda>sender a d l. outside (cp_eth_call_from p sender a d l)),
     cp_estimate_gas = (\<lambda>a b d. outside (cp_estimate_gas p a b d)),
     cp_suggested_eip1559_fee_details = outside (cp_suggested_eip1559_fee_details p),
     cp_get_block_number = outside (cp_get_block_number p),
     cp_get_transaction_count = (\<lambda>a pending. outside (cp_get_transaction_count p a pending)),
     cp_get_balance = (\<lambda>a. outside (cp_get_balance p a)),
     cp_get_transaction_receipt = (\<lambda>h. outside (cp_get_transaction_receipt p h)),
     cp_sign = cp_sign p,
     cp_send_raw_transaction = (\<lambda>raw. outside (cp_send_raw_transaction p raw))\<rparr>"

definition outside_ambient :: "'c ambient \<Rightarrow> (in_memory_stores \<times> 'c) ambient" where
  "outside_ambient amb = \<lparr>
     am_now = (\<lambda>(st, c). case am_now amb c of (t, c') \<Rightarrow> (t, (st, c'))),
     am_new_uuid = (\<lambda>(st, c). case am_new_uuid amb c of (u, c') \<Rightarrow> (u, (st, c')))\<rparr>"

lemma memory_runs [simp]:
  "so_get_lane_state memory_stores a (st, c) = (Inr (get_lane_state st a), (st, c))"
  "so_set_lane_state memory_stores l (st, c) = (Inr (), (set_lane_state l st, c))"
  "so_record_transaction memory_stores tx (st, c) = (Inr (), (record_transaction tx st, c))"
  "so_simulation_calldata memory_stores sid (st, c) = (Inr (simulation_calldata st sid), (st, c))"
  by (simp_all add: memory_stores_def in_memory_def)

lemma outside_runs [simp]:
  "cp_get_transaction_receipt (outside_provider p) h (st, c) =
     (case cp_get_transaction_receipt p h c of (r, c') \<Rightarrow> (r, (st, c')))"
  "cp_get_transaction_count (outside_provider p) a pending (st, c) =
     (case cp_get_transaction_count p a pending c of (n, c') \<Rightarrow> (n, (st, c')))"
  "cp_get_balance (outside_provider p) a (st, c) = (case cp_get_balance p a c of (v, c') \<Rightarrow> (v, (st, c')))"
  by (simp_all add: outside_provider_def outside_def)

end
