(* ===== verification/Lane_World.thy ===== *)
theory Lane_World
  imports Lane_Protocol In_Memory
begin

text \<open>
  The execution cycle refines the lane protocol. The locale states what the cycle needs of its
  stores, of the node and of the clock: a lane store that returns what was set, and everything else
  leaving the lanes alone. It is interpreted on the in-memory stores beside an arbitrary outside
  world, and the properties of the lanes follow for that system.
\<close>

section \<open>The interface of the cycle\<close>

locale lane_world = rpc_frame lanes provider
  for lanes :: "'s \<Rightarrow> address \<Rightarrow> eoa_lane_state option" and provider :: "'s chain_provider" +
  fixes stores :: "'s execution_stores" and amb :: "'s ambient"
  assumes get_lane: "so_get_lane_state stores a s = (Inr x, s') \<Longrightarrow> x = lanes s a"
    and keeps_get_lane: "keeps lanes (so_get_lane_state stores a)"
    and set_lane: "so_set_lane_state stores l s = (Inr (), s') \<Longrightarrow> lanes s' = (lanes s)(ln_address l \<mapsto> l)"
    and set_lane_err: "so_set_lane_state stores l s = (Inl e, s') \<Longrightarrow>
      lanes s' = lanes s \<or> lanes s' = (lanes s)(ln_address l \<mapsto> l)"
    and keeps_record_transaction: "keeps lanes (so_record_transaction stores tx)"
    and keeps_calldata: "keeps lanes (so_simulation_calldata stores sid)"
    and keeps_prune: "keeps lanes (so_prune_candidates_before_block stores b)"
    and keeps_pop: "keeps lanes (so_pop_candidates stores k)"
    and keeps_lock: "keeps lanes (so_try_acquire_submission_lock stores key ttl)"
    and keeps_current_block: "keeps lanes (so_get_current_block stores)"
    and keeps_opportunities: "keeps lanes (so_record_opportunities stores cs)"
    and keeps_enqueue: "lanes (so_enqueue_simulations stores sims s) = lanes s"
    and keeps_now: "lanes (snd (am_now amb s)) = lanes s"
    and keeps_uuid: "lanes (snd (am_new_uuid amb s)) = lanes s"
begin

lemmas keeps_store [keeps_intros] =
  keeps_get_lane keeps_record_transaction keeps_calldata keeps_prune keeps_pop keeps_lock
  keeps_current_block keeps_opportunities keeps_now keeps_uuid

lemmas after_keeps = triple_after_keeps [where v = lanes]
  and handle_keeps = triple_handle_keeps [where v = lanes]

lemma triple_get:
  assumes "\<And>s. P (lanes s) \<Longrightarrow> E s"
  shows "triple (\<lambda>s. P (lanes s)) (so_get_lane_state stores a) (\<lambda>x s. x = lanes s a \<and> P (lanes s)) E"
proof -
  have "x = lanes s' a \<and> lanes s' = lanes s" if "so_get_lane_state stores a s = (Inr x, s')" for x s s'
    using get_lane [OF that] keeps_run [OF keeps_get_lane that] by simp
  moreover have "E s'" if "P (lanes s)" "so_get_lane_state stores a s = (r, s')" for r s s'
    using assms [of s'] keeps_run [OF keeps_get_lane that(2)] that(1) by simp
  ultimately show ?thesis
    unfolding triple_def by (fastforce split: prod.splits sum.splits)
qed

text \<open>Setting a lane along its steps; the triple is stated at a postcondition on the lanes.\<close>

lemma triple_set:
  assumes "\<And>s. P (lanes s) \<Longrightarrow> lanes_follow cfg L0 (lanes s) \<and> lane_at cfg (lanes s) l"
  shows "triple (\<lambda>s. P (lanes s)) (so_set_lane_state stores l)
     (\<lambda>_ s. lanes_follow cfg L0 (lanes s) \<and> lanes s (ln_address l) = Some l)
     (\<lambda>s. lanes_follow cfg L0 (lanes s))"
  unfolding triple_def
proof (intro allI impI)
  fix s assume "P (lanes s)"
  then have f: "lanes_follow cfg L0 (lanes s)" and u: "lanes_follow cfg L0 ((lanes s)(ln_address l \<mapsto> l))"
    using assms by (auto intro: lanes_follow_set)
  obtain r s1 where r: "so_set_lane_state stores l s = (r, s1)" by fastforce
  show "case so_set_lane_state stores l s of
      (Inl _, s') \<Rightarrow> lanes_follow cfg L0 (lanes s')
    | (Inr _, s') \<Rightarrow> lanes_follow cfg L0 (lanes s') \<and> lanes s' (ln_address l) = Some l"
    using r f u by (cases r) (auto dest: set_lane set_lane_err)
qed

lemma triple_clear:
  "triple (\<lambda>s. lanes_follow cfg L0 (lanes s) \<and> lanes s (ln_address l) = Some l \<and> ln_status l = LanePending)
     (clear_lane_if_pending_nonce_consumed stores provider l h opp sid n)
     (\<lambda>r s. lanes_follow cfg L0 (lanes s) \<and>
        (case r of None \<Rightarrow> lanes s (ln_address l) = Some l \<and> ln_status l = LanePending
         | Some l' \<Rightarrow> ln_address l' = ln_address l \<and> lanes s (ln_address l) = Some l'))
     (\<lambda>s. lanes_follow cfg L0 (lanes s))"
proof -
  have at: "lane_at cfg L (clear_consumed_pending c p b l)"
    if "L (ln_address l) = Some l" "ln_status l = LanePending" for L c p b
    using that by (blast intro: lane_at_step [OF lane_at_stored settled])
  show ?thesis
    unfolding clear_lane_if_pending_nonce_consumed_def Let_def
    apply (rule after_keeps, rule keeps_transaction_count)
     apply (rule triple_if, rule triple_pass, simp)
     apply (rule after_keeps, rule keeps_transaction_count)
      apply (rule after_keeps, rule keeps_balance)
       apply (rule after_keeps, rule keeps_record_transaction)
        apply (rule triple_bind, rule triple_set)
         apply (simp add: at)
        apply (rule triple_pass)
    by simp_all
qed

lemma replacement_result:
  assumes "replace_pending_transaction lib pr w cfg e d n g f p s = (Inr sub, s')"
  shows "sb_gas_limit sub = g \<and> bump_fee f (cfg_execution_replacement_fee_bump_bps cfg) \<le> sb_max_fee_per_gas sub \<and>
    bump_fee p (cfg_execution_replacement_fee_bump_bps cfg) \<le> sb_max_priority_fee_per_gas sub"
  using assms by (auto simp: replace_pending_transaction_def Let_def act_Inr split: if_splits)

lemma replacement_fields_Some:
  "replacement_fields l = Some (opp, sid, n, g, f, p, h) \<Longrightarrow>
     ln_pending_gas_limit l = Some g \<and> ln_pending_max_fee_per_gas l = Some f \<and>
     ln_pending_max_priority_fee_per_gas l = Some p"
  by (auto simp: replacement_fields_def bind_eq_Some_conv)

lemma triple_replace:
  "triple (\<lambda>s. lanes_follow cfg L0 (lanes s) \<and> lanes s (ln_address l) = Some l \<and> ln_status l = LanePending)
     (maybe_replace_pending_tx lib stores provider w cfg l)
     (\<lambda>l' s. lanes_follow cfg L0 (lanes s) \<and> ln_address l' = ln_address l \<and> lanes s (ln_address l) = Some l')
     (\<lambda>s. lanes_follow cfg L0 (lanes s))"
proof (cases "cfg_execution_max_replacements cfg \<le> ln_pending_replacement_count l \<or>
    ln_pending_submitted_block l = None \<or> replacement_fields l = None")
  case True
  then show ?thesis
    unfolding maybe_replace_pending_tx_def
    by (auto intro!: triple_pass after_keeps keeps_block_number triple_if split: option.splits)
next
  case False
  then obtain b opp sid n g f p h where b: "ln_pending_submitted_block l = Some b"
    and fields: "replacement_fields l = Some (opp, sid, n, g, f, p, h)"
    and count: "ln_pending_replacement_count l < cfg_execution_max_replacements cfg"
    by fastforce
  have at: "lane_at cfg L (mark_replaced h' b' g f' p' l)"
    if "L (ln_address l) = Some l" "ln_status l = LanePending"
      "bump_fee f (cfg_execution_replacement_fee_bump_bps cfg) \<le> f'"
      "bump_fee p (cfg_execution_replacement_fee_bump_bps cfg) \<le> p'" for L h' b' f' p'
    using lane_at_step [OF lane_at_stored replaced] that count replacement_fields_Some [OF fields] by blast
  show ?thesis
    unfolding maybe_replace_pending_tx_def
    using count
    apply (simp only: not_le [symmetric] if_False b fields option.case prod.case Let_def)
    apply (rule after_keeps, rule keeps_block_number)
     apply (rule triple_if, rule triple_pass, simp)
     apply (rule after_keeps, rule keeps_calldata)
      apply (rename_tac data s s')
      apply (case_tac data)
       apply (simp only: option.case, rule triple_pass, simp)
      apply (simp only: option.case)
      apply (rule handle_keeps, rule keeps_submits)
       apply (frule replacement_result)
       apply (rule after_keeps, rule keeps_record_transaction)
        apply (rule after_keeps, rule keeps_record_transaction)
         apply (rule triple_bind, rule triple_set)
          apply (simp add: at)
         apply (rule triple_pass)
         apply simp_all
    apply (rule triple_pass)
    apply simp
    done
qed

lemma triple_handle_pending:
  "triple (\<lambda>s. lanes_follow cfg L0 (lanes s) \<and> lanes s (ln_address l) = Some l \<and> ln_status l = LanePending)
     (handle_pending_lane lib stores provider w cfg l)
     (\<lambda>r s. lanes_follow cfg L0 (lanes s) \<and> ln_address (fst r) = ln_address l \<and>
        lanes s (ln_address l) = Some (fst r))
     (\<lambda>s. lanes_follow cfg L0 (lanes s))"
proof (cases "ln_pending_tx l = None \<or> ln_pending_opportunity_id l = None \<or> ln_pending_nonce l = None")
  case True
  then have at: "lane_at cfg L (mark_blocked l)"
    if "L (ln_address l) = Some l" "ln_status l = LanePending" for L
    using that by (blast intro: lane_at_step [OF lane_at_stored blocked])
  have "handle_pending_lane lib stores provider w cfg l = block_lane stores l"
    using True by (auto simp: handle_pending_lane_def split: option.splits)
  then show ?thesis
    unfolding block_lane_def
    apply simp
    apply (rule triple_bind, rule triple_set)
     apply (simp add: at)
    apply (rule triple_pass)
    apply simp
    done
next
  case False
  then obtain h opp n where fields: "ln_pending_tx l = Some h" "ln_pending_opportunity_id l = Some opp"
    "ln_pending_nonce l = Some n" by auto
  have at: "lane_at cfg L ((mark_confirmed c l)\<lparr>ln_local_nonce := m, ln_eth_balance := v\<rparr>)"
    if "L (ln_address l) = Some l" "ln_status l = LanePending" for L c m v
    using lane_at_step [OF lane_at_stored settled] that unfolding clear_consumed_pending_def by blast
  show ?thesis
    unfolding handle_pending_lane_def
    apply (simp only: fields option.case prod.case Let_def)
    apply (rule after_keeps, rule keeps_receipt)
     apply (rename_tac receipt s s')
     apply (case_tac receipt)
      apply (simp only: option.case)
      apply (rule triple_bind, rule triple_clear)
      apply (rename_tac cleared)
      apply (case_tac cleared)
       apply (simp only: option.case)
       apply (rule triple_bind, rule triple_replace)
       apply (rule triple_pass, simp)
      apply (simp only: option.case)
      apply (rule triple_pass, simp)
     apply (simp only: option.case)
     apply (rule after_keeps, rule keeps_record_transaction)
      apply (rule after_keeps, rule keeps_transaction_count)
       apply (rule after_keeps, rule keeps_transaction_count)
        apply (rule after_keeps, rule keeps_balance)
         apply (rule triple_bind, rule triple_set)
          apply (simp add: at)
         apply (rule triple_pass)
    by simp_all
qed

text \<open>An idle worker is synchronised, funded and stored.\<close>

lemma sync_result:
  assumes "sync_idle_lane pr l s = (Inr l', s')" "ln_status l \<noteq> LanePending"
  shows "lane_step cfg a (Some l) (Some l') \<and> ln_address l' = ln_address l \<and> ln_status l' = LaneIdle"
  using assms by (auto simp: sync_idle_lane_def act_Inr intro: synced)

lemma fund_result:
  assumes "fund_worker_lane_if_needed lib pr cfg rt l s = (Inr l', s')" "ln_status l \<noteq> LanePending"
  shows "l' = l \<or> lane_step cfg a (Some l) (Some l') \<and> ln_address l' = ln_address l"
proof -
  from assms(1) have "l' = l \<or> (\<exists>s1. sync_idle_lane pr l s1 = (Inr l', s'))"
    unfolding fund_worker_lane_if_needed_def Let_def
    by (auto simp: act_Inr split: if_splits option.splits)
  then show ?thesis using sync_result [OF _ assms(2)] by metis
qed

lemma triple_finish_idle:
  assumes "ln_status l \<noteq> LanePending"
  shows "triple (\<lambda>s. lanes_follow cfg L0 (lanes s) \<and> lane_at cfg (lanes s) l)
    (finish_idle_worker lib stores provider cfg rt l)
    (\<lambda>_ s. lanes_follow cfg L0 (lanes s)) (\<lambda>s. lanes_follow cfg L0 (lanes s))"
  unfolding finish_idle_worker_def
proof (rule after_keeps)
  fix l1 s s1 assume "sync_idle_lane provider l s = (Inr l1, s1)"
  from sync_result [OF this assms]
  have l1: "lane_step cfg (ln_address l) (Some l) (Some l1)" "ln_status l1 \<noteq> LanePending" by auto
  show "triple (\<lambda>s. lanes_follow cfg L0 (lanes s) \<and> lane_at cfg (lanes s) l)
      (bind (fund_worker_lane_if_needed lib provider cfg rt l1) (so_set_lane_state stores))
      (\<lambda>_ s. lanes_follow cfg L0 (lanes s)) (\<lambda>s. lanes_follow cfg L0 (lanes s))"
  proof (rule after_keeps)
    fix l2 s s2 assume "fund_worker_lane_if_needed lib provider cfg rt l1 s = (Inr l2, s2)"
    from fund_result [OF this l1(2), of "ln_address l1"]
    have at: "lane_at cfg L l2" if "lane_at cfg L l" for L
      using lane_at_step lane_at_step [OF that l1(1)] by blast
    show "triple (\<lambda>s. lanes_follow cfg L0 (lanes s) \<and> lane_at cfg (lanes s) l) (so_set_lane_state stores l2)
        (\<lambda>_ s. lanes_follow cfg L0 (lanes s)) (\<lambda>s. lanes_follow cfg L0 (lanes s))"
      by (rule triple_weaken [OF triple_set
            [where P = "\<lambda>L. lanes_follow cfg L0 L \<and> lane_at cfg L l" and cfg = cfg and ?L0.0 = L0]])
        (auto intro: at)
  qed (auto intro: keeps_fund)
qed (auto intro: keeps_reads)

section \<open>Reconciliation follows the steps\<close>

lemma finish_idle_follow:
  assumes "lanes_follow cfg L0 (lanes s)" "lane_at cfg (lanes s) l" "ln_status l \<noteq> LanePending"
  shows "lanes_follow cfg L0 (lanes (snd (finish_idle_worker lib stores provider cfg rt l s)))"
  using triple_state [OF triple_finish_idle [OF assms(3)]] assms(1,2) by blast

lemma handle_pending_follow:
  assumes "lanes_follow cfg L0 (lanes s)" "lanes s (ln_address l) = Some l" "ln_status l = LanePending"
    and "handle_pending_lane lib stores provider w cfg l s = (r, s')"
  shows "lanes_follow cfg L0 (lanes s') \<and>
    (case r of Inl _ \<Rightarrow> True | Inr (l', _) \<Rightarrow> ln_address l' = ln_address l \<and> lane_at cfg (lanes s') l')"
  using tripleD [OF triple_handle_pending [where cfg = cfg and ?L0.0 = L0] _ assms(4)] assms(1-3)
  by (cases r) (auto simp: lane_at_stored)

lemma stored_address: "lanes_follow cfg L0 L \<Longrightarrow> L a = Some l \<Longrightarrow> ln_address l = a"
  by (simp add: lanes_follow_def)

lemma reconcile_worker_follow:
  assumes F: "lanes_follow cfg L0 (lanes s)"
  shows "lanes_follow cfg L0 (lanes (snd (reconcile_worker lib stores provider cfg rt w br s)))"
proof (cases "so_get_lane_state stores w s")
  case (Pair r s1)
  have l1: "lanes s1 = lanes s" by (rule keeps_run [OF keeps_get_lane Pair])
  show ?thesis
  proof (cases r)
    case (Inl e)
    with Pair l1 F show ?thesis by (simp add: reconcile_worker_def)
  next
    case (Inr state)
    with Pair have state: "state = lanes s1 w" using get_lane l1 by simp
    let ?l = "lane_or_new w state"
    have F1: "lanes_follow cfg L0 (lanes s1)" using F l1 by simp
    note at = lane_at_or_new [OF F1, of w, folded state]
    show ?thesis
    proof (cases "ln_status ?l = LanePending")
      case False
      then show ?thesis
        using finish_idle_follow [OF F1 at(1) False]
        by (auto simp: reconcile_worker_def Pair Inr Let_def split: prod.splits) (metis snd_conv)
    next
      case True
      then have st: "lanes s1 (ln_address ?l) = Some ?l"
        using at(2) state by (cases "lanes s1 w") (simp_all add: lane_or_new_def)
      obtain r2 s2 where h: "handle_pending_lane lib stores provider w cfg ?l s1 = (r2, s2)" by fastforce
      note f2 = handle_pending_follow [OF F1 st True h]
      show ?thesis
      proof (cases r2)
        case (Inl e)
        with f2 h True Pair Inr show ?thesis by (simp add: reconcile_worker_def Let_def)
      next
        case out: (Inr p)
        obtain l' o' where p: "p = (l', o')" by fastforce
        show ?thesis
        proof (cases "ln_status l' = LanePending")
          case True': True
          with f2 h True Pair Inr out p show ?thesis by (simp add: reconcile_worker_def Let_def)
        next
          case idle: False
          obtain r3 s3 where fin: "finish_idle_worker lib stores provider cfg rt l' s2 = (r3, s3)" by fastforce
          have "lanes_follow cfg L0 (lanes s3)"
            using finish_idle_follow [OF _ _ idle, of cfg L0 s2 lib rt] f2 out p fin by simp
          with h True Pair Inr out p idle fin show ?thesis by (simp add: reconcile_worker_def Let_def)
        qed
      qed
    qed
  qed
qed

lemma reconcile_pending_worker_follow:
  assumes F: "lanes_follow cfg L0 (lanes s)"
  shows "lanes_follow cfg L0 (lanes (snd (reconcile_pending_worker lib stores provider cfg w br s)))"
proof (cases "so_get_lane_state stores w s")
  case (Pair r s1)
  have l1: "lanes s1 = lanes s" by (rule keeps_run [OF keeps_get_lane Pair])
  show ?thesis
  proof (cases "\<exists>l. r = Inr (Some l) \<and> ln_status l = LanePending")
    case False
    with Pair l1 F show ?thesis
      by (auto simp: reconcile_pending_worker_def split: sum.splits option.splits)
  next
    case True
    then obtain l where r: "r = Inr (Some l)" and p: "ln_status l = LanePending" by blast
    have "lanes s1 w = Some l" using get_lane [of w s] Pair r l1 by simp
    then have st: "lanes s1 (ln_address l) = Some l" using stored_address F l1 by metis
    obtain r2 s2 where h: "handle_pending_lane lib stores provider w cfg l s1 = (r2, s2)" by fastforce
    have "lanes_follow cfg L0 (lanes s2)"
      using handle_pending_follow [OF _ st p h, of L0] F l1 by simp
    then show ?thesis
      using Pair r p h by (auto simp: reconcile_pending_worker_def split: sum.splits)
  qed
qed

lemma for_each_worker_follow:
  assumes "\<And>w br s. lanes_follow cfg L0 (lanes s) \<Longrightarrow> lanes_follow cfg L0 (lanes (snd (f w br s)))"
    and "lanes_follow cfg L0 (lanes s)"
  shows "lanes_follow cfg L0 (lanes (snd (for_each_worker f ws br s)))"
  using assms(2)
proof (induction ws arbitrary: br s)
  case (Cons w ws)
  obtain r br' s' where f: "f w br s = ((r, br'), s')" by (metis prod.collapse)
  have "lanes_follow cfg L0 (lanes s')" using assms(1) [OF Cons.prems, of w br] f by simp
  then show ?case using Cons.IH f by (cases r) simp_all
qed simp

lemma reconcile_follow:
  assumes "lanes_follow cfg L0 (lanes s)"
  shows "lanes_follow cfg L0 (lanes (snd (reconcile_worker_lanes lib stores provider cfg rt br s)))"
    and "lanes_follow cfg L0 (lanes (snd (reconcile_pending_worker_lanes lib stores provider cfg rt br s)))"
  unfolding reconcile_worker_lanes_def reconcile_pending_worker_lanes_def
  by (rule for_each_worker_follow; use assms reconcile_worker_follow reconcile_pending_worker_follow in blast)+

section \<open>Selecting and submitting\<close>

lemma select_ready_idle:
  assumes "select_ready stores b ws s = (r, s')"
  shows "lanes s' = lanes s \<and> (\<forall>w. r = Inr (Some w) \<longrightarrow> not_pending (lanes s) w)"
  using assms
proof (induction ws arbitrary: s)
  case Nil
  then show ?case by (auto simp: pass_def)
next
  case (Cons w ws)
  obtain r1 s1 where g: "so_get_lane_state stores w s = (r1, s1)" by fastforce
  have l1: "lanes s1 = lanes s" by (rule keeps_run [OF keeps_get_lane g])
  show ?case
  proof (cases r1)
    case (Inl e)
    with Cons.prems g l1 show ?thesis by (auto simp: bind_def)
  next
    case (Inr state)
    with g have state: "lanes s w = state" using get_lane by blast
    show ?thesis
    proof (cases state)
      case None
      with Cons.IH [of s1] Cons.prems g Inr l1 show ?thesis by (simp add: bind_def)
    next
      case (Some l)
      with Cons.IH [of s1] Cons.prems g Inr l1 state show ?thesis
        by (auto simp: bind_def pass_def not_pending_def split: if_splits)
    qed
  qed
qed

lemma submission_result:
  assumes "submit_candidate lib pr w cfg tf now c sim n s = (Inr sub, s')"
  shows "sb_nonce sub = n \<and> sb_simulation_id sub = Some (sr_id sim)"
  using assms by (auto simp: submit_candidate_def Let_def act_Inr split: if_splits prod.splits option.splits)

lemma triple_submit:
  "triple (\<lambda>s. lanes_follow cfg L0 (lanes s) \<and> not_pending (lanes s) w)
    (submit_simulated_candidate lib stores amb provider cfg tf (Some w) br c sim)
    (\<lambda>r s. lanes_follow cfg L0 (lanes s) \<and> (r \<noteq> Submitted \<longrightarrow> not_pending (lanes s) w))
    (\<lambda>s. lanes_follow cfg L0 (lanes s))"
proof -
  let ?P = "\<lambda>state L. state = L w \<and> lanes_follow cfg L0 L \<and> not_pending L w"
  have at: "lane_at cfg L (mark_submitted (cd_id c) (sb_simulation_id sub) h ex (sb_nonce sub) b g f p
        (lane_or_new w state))"
    "lane_at cfg L (mark_cooldown (lane_or_new w state))" "ln_address (lane_or_new w state) = w"
    if "?P state L" "sb_simulation_id sub = Some sid" "sb_nonce sub = ln_local_nonce (lane_or_new w state)"
    for L state sub h ex b g f p sid
  proof -
    have o: "lane_at cfg L (lane_or_new w state)" "ln_address (lane_or_new w state) = w"
      "ln_status (lane_or_new w state) \<noteq> LanePending"
      using that(1) lane_at_or_new not_pending_or_new by blast+
    then show "lane_at cfg L (mark_submitted (cd_id c) (sb_simulation_id sub) h ex (sb_nonce sub) b g f p
          (lane_or_new w state))"
      "lane_at cfg L (mark_cooldown (lane_or_new w state))" "ln_address (lane_or_new w state) = w"
      using lane_at_step [OF o(1) submitted [OF o(3)]] lane_at_step [OF o(1) failed [OF o(3)]] that(2,3)
      by simp_all
  qed
  have at': "lane_at cfg L (mark_cooldown (lane_or_new w state)) \<and> ln_address (lane_or_new w state) = w"
    if "?P state L" for L state
    using at(2,3) [OF that, of "\<lparr>sb_tx_hash = 0, sb_nonce = ln_local_nonce (lane_or_new w state),
      sb_simulation_id = Some 0, sb_executor_contract = 0, sb_submitted_block = 0, sb_gas_limit = 0,
      sb_max_fee_per_gas = 0, sb_max_priority_fee_per_gas = 0\<rparr>"] by simp
  have cooled: "triple (\<lambda>s. ?P state (lanes s))
      (bind (so_set_lane_state stores (mark_cooldown (lane_or_new w state))) (\<lambda>_.
        bind (so_record_transaction stores tx) (\<lambda>_. pass Simulated)))
      (\<lambda>r s. lanes_follow cfg L0 (lanes s) \<and> (r \<noteq> Submitted \<longrightarrow> not_pending (lanes s) w))
      (\<lambda>s. lanes_follow cfg L0 (lanes s))" for state tx
    apply (rule triple_fact [where A = "ln_address (lane_or_new w state) = w"], rule at' [THEN conjunct2], assumption)
    apply (rule triple_bind, rule triple_set)
     apply (simp only: at' simp_thms)
    apply (rule after_keeps, rule keeps_record_transaction)
     apply (rule triple_pass)
    by (auto simp: not_pending_def)
  have sent: "triple (\<lambda>s. ?P state (lanes s))
      (bind (so_set_lane_state stores (mark_submitted (cd_id c) (sb_simulation_id sub) h ex (sb_nonce sub)
          b g f p (lane_or_new w state))) (\<lambda>_.
        bind (so_record_transaction stores tx) (\<lambda>_. pass Submitted)))
      (\<lambda>r s. lanes_follow cfg L0 (lanes s) \<and> (r \<noteq> Submitted \<longrightarrow> not_pending (lanes s) w))
      (\<lambda>s. lanes_follow cfg L0 (lanes s))"
    if "sb_simulation_id sub = Some sid" "sb_nonce sub = ln_local_nonce (lane_or_new w state)"
    for state sub h ex b g f p tx sid
    apply (rule triple_bind, rule triple_set)
     apply (rule conjI, blast, rule at(1) [OF _ that], assumption)
    apply (rule after_keeps, rule keeps_record_transaction)
     apply (rule triple_pass)
    by simp_all
  show ?thesis
    unfolding submit_simulated_candidate_def Let_def
    apply (rule after_keeps, rule keeps_infallible, rule keeps_now)
     apply (rule triple_if, rule triple_pass, simp)
     apply (rule triple_if, rule triple_pass, simp)
     apply (rule triple_if, rule triple_pass, simp)
     apply (simp only: option.case)
     apply (rule triple_bind, rule triple_get, simp)
     apply (rule after_keeps, rule keeps_lock)
      apply (rule triple_if, rule triple_pass, simp)
      apply (rule after_keeps, rule keeps_infallible, rule keeps_now)
       apply (rule handle_keeps, rule keeps_submit_candidate)
        apply (rule sent)
         apply (drule submission_result, simp)
        apply (drule submission_result, simp)
       apply (rule cooled)
    by simp_all
qed

lemma submit_ranked_follow:
  assumes "lanes_follow cfg L0 (lanes s)" "not_pending (lanes s) w"
    and "submit_ranked (submit_simulated_candidate lib stores amb provider cfg tf (Some w) br) keys os s = (r, s')"
  shows "lanes_follow cfg L0 (lanes s')"
  using assms
proof (induction os arbitrary: s)
  case (Cons o1 os)
  obtain c sim where o1: "o1 = (c, sim)" by fastforce
  obtain r1 s1 where sub: "submit_simulated_candidate lib stores amb provider cfg tf (Some w) br c sim s = (r1, s1)"
    by fastforce
  note t = tripleD [OF triple_submit conjI [OF Cons.prems(1,2)] sub]
  show ?case
  proof (cases "r1 = Inr Submitted \<or> (\<exists>e. r1 = Inl e)")
    case True
    with t Cons.prems(3) o1 sub show ?thesis by auto
  next
    case False
    then obtain a where a: "r1 = Inr a" "a \<noteq> Submitted" by (cases r1) auto
    then have "submit_ranked (submit_simulated_candidate lib stores amb provider cfg tf (Some w) br) keys os s1 = (r, s')"
      using Cons.prems(3) o1 sub by (cases a) simp_all
    then show ?thesis using Cons.IH [of s1] t a by simp
  qed
qed simp

lemma keeps_skip: "keeps lanes (skip_unencodable stores amb c b reason data)"
  and keeps_enqueue_failure: "keeps lanes (enqueue_failure stores amb c b reason data)"
proof -
  show e: "keeps lanes (enqueue_failure stores amb c b reason data)" for reason data
    by (auto simp: keeps_def enqueue_failure_def keeps_enqueue split: prod.splits) (metis keeps_uuid snd_conv)
  show "keeps lanes (skip_unencodable stores amb c b reason data)"
    unfolding skip_unencodable_def by (intro keeps_intros e)
qed

lemma keeps_missing_approval:
  "keeps lanes (submit_missing_approval lib stores amb provider cfg tf fund c b data approval)"
  unfolding submit_missing_approval_def
  by (cases "executor_for_candidate cfg tf c") (auto intro!: keeps_intros keeps_skip keeps_enqueue_failure)

lemma keeps_preflight:
  "lanes (snd (live_approval_preflight lib stores amb provider cfg tf fund c b cache s)) = lanes s"
proof -
  obtain now s1 where n: "am_now amb s = (now, s1)" by fastforce
  have l1: "lanes s1 = lanes s" using keeps_now [of s] n by simp
  have m: "lanes s2 = lanes s1" if "missing_approvals_cached lib provider cfg tf c rs cache s1 = (r, s2)" for rs r s2
    using keeps_missing_approvals [of lib cfg tf c rs cache s1] that by simp
  show ?thesis
    unfolding live_approval_preflight_def n prod.case
    by (auto simp: l1 split: sum.splits prod.splits list.splits
        dest!: keeps_run [OF keeps_skip] keeps_run [OF keeps_missing_approval] m)
qed

lemma keeps_preflight_loop:
  assumes "\<And>c cache s. lanes (snd (f c cache s)) = lanes s"
  shows "lanes (snd (preflight_loop f b lag cs ready cache s)) = lanes s"
proof (induction cs arbitrary: ready cache s)
  case (Cons c cs)
  obtain r cache' s1 where f: "f c cache s = ((r, cache'), s1)" by (metis prod.collapse)
  have l1: "lanes s1 = lanes s" using assms [of c cache s] f by simp
  show ?case
    using Cons.IH f l1 by (auto split: sum.splits option.splits candidate_action.splits)
qed simp

lemma keeps_simulate_all:
  assumes "\<And>c s. lanes (snd (sim c s)) = lanes s"
  shows "lanes (snd (simulate_all sim cs s)) = lanes s"
proof (induction cs arbitrary: s)
  case (Cons c cs)
  obtain r s1 where r: "sim c s = (r, s1)" by fastforce
  have "lanes s1 = lanes s" using assms [of c s] r by simp
  then show ?case using Cons.IH [of s1] r by (auto split: prod.splits)
qed simp

lemma keeps_run_simulation: "lanes (snd (run_simulation lib amb provider cfg tf op ctx c s)) = lanes s"
proof -
  have n: "lanes s' = lanes s" if "am_now amb s = (t, s')" for s t s'
    using keeps_now [of s] that by simp
  have u: "lanes s' = lanes s" if "am_new_uuid amb s = (t, s')" for s t s'
    using keeps_uuid [of s] that by simp
  show ?thesis
    unfolding run_simulation_def by (auto split: prod.splits simp: keeps_simulate dest!: n u)
qed

lemmas keeps_simulations = keeps_simulate_all [where sim = "run_simulation lib amb provider cfg tf op ctx" for lib cfg tf op ctx,
  OF keeps_run_simulation]

lemma live_batch_follow:
  assumes F: "lanes_follow cfg L0 (lanes s)" "not_pending (lanes s) w"
  shows "lanes_follow cfg L0 (lanes (snd (run_live_submission_batch lib stores amb provider cfg tf op (Some w) fund
    complete cs ctx b lag br em s)))"
proof -
  obtain r1 s1 where o1: "so_record_opportunities stores cs s = (r1, s1)" by fastforce
  have l1: "lanes s1 = lanes s" by (rule keeps_run [OF keeps_opportunities o1])
  let ?pre = "\<lambda>c. live_approval_preflight lib stores amb provider cfg tf fund c b"
  obtain r2 cache s2 where p: "preflight_loop ?pre b lag cs [] (em_approved_allowances em) s1 = ((r2, cache), s2)"
    by (metis prod.collapse)
  have l2: "lanes s2 = lanes s"
    using keeps_preflight_loop [of ?pre b lag cs "[]" "em_approved_allowances em" s1] keeps_preflight p l1
    by simp
  show ?thesis
  proof (cases "\<exists>u ready. r1 = Inr u \<and> r2 = Inr (Ready ready)")
    case False
    then show ?thesis
      using F l1 l2 o1 p
      by (auto simp: run_live_submission_batch_def split: sum.splits preflight_end.splits)
  next
    case True
    then obtain ready where r: "r1 = Inr ()" "r2 = Inr (Ready ready)" by auto
    obtain outs s3 where sim: "simulate_all (run_simulation lib amb provider cfg tf op ctx)
        (complete (take max_simulations_per_cycle ready)) s2 = (outs, s3)" by fastforce
    let ?s4 = "so_enqueue_simulations stores (map snd outs) s3"
    have l4: "lanes ?s4 = lanes s"
      using keeps_simulations [of lib cfg tf op ctx "complete (take max_simulations_per_cycle ready)" s2] sim l2
      by (simp add: keeps_enqueue)
    obtain r5 keys s5 where sub: "submit_ranked (submit_simulated_candidate lib stores amb provider cfg tf (Some w) br)
        (em_submitted_candidate_keys em) (rank_outcomes outs) ?s4 = ((r5, keys), s5)"
      by (metis prod.collapse)
    have "lanes_follow cfg L0 (lanes s5)"
      using submit_ranked_follow [OF _ _ sub, of L0] F l4 by simp
    then show ?thesis
      using o1 p r sim sub by (simp add: run_live_submission_batch_def)
  qed
qed

section \<open>The cycle\<close>

lemma keeps_pop_loop:
  "st = stores \<Longrightarrow> lanes (snd (pop_loop st now b lag k cs s)) = lanes s"
proof (induction st now b lag k cs s rule: pop_loop.induct)
  case (1 st now b lag k cs s)
  let ?limit = "min (min pop_chunk (max_expired_drain - k)) (max_drain - length cs)"
  note step = pop_loop.simps [of st now b lag k cs s, unfolded Let_def]
  obtain r s1 where p: "so_pop_candidates st ?limit s = (r, s1)" by fastforce
  have l1: "lanes s1 = lanes s" using keeps_run [OF keeps_pop] p "1.prems" by blast
  show ?case
  proof (cases "length cs < max_drain \<and> k < max_expired_drain")
    case False
    then show ?thesis using step by (simp only: if_False snd_conv)
  next
    case True
    show ?thesis
    proof (cases "\<exists>batch. r = Inr batch \<and> batch \<noteq> []")
      case False
      then show ?thesis using step l1 by (simp add: if_P [OF True] p split: sum.splits)
    next
      case batch: True
      then obtain batch where b: "r = Inr batch" "batch \<noteq> []" by blast
      note ih = "1.IH" [OF True refl p [symmetric] b "1.prems"]
      show ?thesis using step ih l1 by (simp add: if_P [OF True] p b)
    qed
  qed
qed

lemma keeps_pop_fresh: "keeps lanes (pop_fresh_candidates stores amb b lag)"
proof -
  have "keeps lanes (pop_loop stores now b lag k cs)" for now k cs
    by (simp add: keeps_def keeps_pop_loop)
  then show ?thesis
    unfolding pop_fresh_candidates_def by (intro keeps_intros)
qed

lemma keeps_cached_context: "lanes (snd (cached_context lib provider cfg b em s)) = lanes s"
  using keeps_run [OF keeps_reads(3)]
  by (auto simp: cached_context_def split: option.splits prod.splits sum.splits)

lemma select_worker_follow:
  assumes F: "lanes_follow cfg L0 (lanes s)"
    and r: "select_worker lib stores provider cfg rt br s = ((r, br'), s')"
  shows "lanes_follow cfg L0 (lanes s') \<and> (\<forall>w. r = Inr w \<longrightarrow> not_pending (lanes s') w)"
proof (cases "br_halted br")
  case True
  with F r show ?thesis by (auto simp: select_worker_def bail_def)
next
  case False
  obtain r1 br1 s1 where p: "reconcile_pending_worker_lanes lib stores provider cfg rt br s = ((r1, br1), s1)"
    by (metis prod.collapse)
  have F1: "lanes_follow cfg L0 (lanes s1)" using reconcile_follow(2) [OF F, of lib rt br] p by simp
  obtain r2 s2 where q: "select_cached_ready_worker stores rt s1 = (r2, s2)" by fastforce
  note i2 = select_ready_idle [OF q [unfolded select_cached_ready_worker_def]]
  obtain r3 br3 s3 where p3: "reconcile_worker_lanes lib stores provider cfg rt br1 s2 = ((r3, br3), s3)"
    by (metis prod.collapse)
  have F3: "lanes_follow cfg L0 (lanes s3)" using reconcile_follow(1) [of cfg L0 s2 lib rt br1] F1 i2 p3 by simp
  obtain r4 s4 where q4: "select_cached_ready_worker stores rt s3 = (r4, s4)" by fastforce
  note i4 = select_ready_idle [OF q4 [unfolded select_cached_ready_worker_def]]
  show ?thesis
    using r F1 F3 i2 i4 False
    by (auto simp: select_worker_def p q p3 q4 bail_def split: sum.splits option.splits if_splits)
qed

lemma process_follow:
  assumes F: "lanes_follow cfg L0 (lanes s)"
    and sel: "case sel of None \<Rightarrow> \<not> cfg_execution_submit_enabled cfg | Some w \<Rightarrow> not_pending (lanes s) w"
  shows "lanes_follow cfg L0 (lanes (snd (process_candidates lib stores amb provider cfg rt order complete b lag
    sel br em s)))"
proof -
  obtain r1 s1 where pop: "pop_fresh_candidates stores amb b lag s = (r1, s1)" by fastforce
  have l1: "lanes s1 = lanes s" by (rule keeps_run [OF keeps_pop_fresh pop])
  show ?thesis
  proof (cases r1)
    case (Inl e)
    with pop F l1 show ?thesis by (simp add: process_candidates_def)
  next
    case (Inr popped)
    obtain cs em1 where d: "drop_submitted cfg b lag em (fst (coalesce_candidates_by_execution_key order popped)) = (cs, em1)"
      by fastforce
    obtain r2 em2 s2 where ctx: "cached_context lib provider cfg b em1 s1 = ((r2, em2), s2)" by (metis prod.collapse)
    have l2: "lanes s2 = lanes s" using keeps_cached_context [of lib cfg b em1 s1] ctx l1 by simp
    have dry: "lanes s3 = lanes s"
      if "run_dry_run_simulation_batch lib stores amb provider cfg tf op complete cs c s2 = (r3, s3)"
      for tf op c r3 s3
      using keeps_simulations [of lib cfg tf op c "complete (take max_simulations_per_cycle cs)" s2] l2 that
      by (auto simp: run_dry_run_simulation_batch_def keeps_enqueue split: prod.splits)
    have live: "lanes_follow cfg L0 (lanes (snd (run_live_submission_batch lib stores amb provider cfg tf op sel fund
        complete cs c b lag br em2 s2)))" if "cfg_execution_submit_enabled cfg" for tf op fund c
      using live_batch_follow [of cfg L0 s2] sel F l2 that by (cases sel) simp_all
    show ?thesis
      using F l1 l2 pop Inr d ctx
      by (auto simp: process_candidates_def bail_def live split: option.splits sum.splits prod.splits dest!: dry)
  qed
qed

lemma process_run:
  assumes "process_candidates lib stores amb provider cfg rt order complete b lag sel br em s = (p, s')"
    and "lanes_follow cfg L0 (lanes s)"
    and "case sel of None \<Rightarrow> \<not> cfg_execution_submit_enabled cfg | Some w \<Rightarrow> not_pending (lanes s) w"
  shows "lanes_follow cfg L0 (lanes s')"
  using process_follow [OF assms(2,3), of lib rt order complete b lag br em] assms(1) by simp

lemma cycle_follow:
  assumes F: "lanes_follow cfg L0 (lanes s)"
  shows "lanes_follow cfg L0 (lanes (snd (run_execution_cycle lib stores amb provider cfg rt order complete br em s)))"
proof -
  obtain r1 s1 where cur: "so_get_current_block stores s = (r1, s1)" by fastforce
  have F1: "lanes_follow cfg L0 (lanes s1)" using keeps_run [OF keeps_current_block cur] F by simp
  obtain r2 br2 s2 where w: "select_worker lib stores provider cfg rt br s1 = ((r2, br2), s2)" by (metis prod.collapse)
  note F2 = select_worker_follow [OF F1 w]
  show ?thesis
  proof (cases "\<exists>block. r1 = Inr (Some block)")
    case False
    then show ?thesis
      using cur F1 by (auto simp: run_execution_cycle_def Let_def split: sum.splits option.splits)
  next
    case True
    then obtain block where b: "r1 = Inr (Some block)" by blast
    show ?thesis
    proof (cases "cfg_execution_submit_enabled cfg")
      case live: True
      show ?thesis
        using cur b live w F2 process_run [of lib cfg rt order complete block _ "Some _" br2 em s2 _ _ L0]
        by (cases r2) (auto simp: run_execution_cycle_def Let_def split: prod.splits)
    next
      case dry: False
      show ?thesis
        using cur b dry F1 process_run [of lib cfg rt order complete block _ None br em s1 _ _ L0]
        by (auto simp: run_execution_cycle_def Let_def split: prod.splits)
    qed
  qed
qed

lemma keeps_missing_operator: "keeps lanes (missing_operator lib provider es w)"
  by (induction es) (auto intro!: keeps_intros)

lemma keeps_ready_loop: "keeps lanes (ready_loop lib stores provider rt ws ready not_ready)"
proof (induction ws arbitrary: ready not_ready)
  case (Cons w ws)
  show ?case
    unfolding ready_loop.simps
    by (intro keeps_bind keeps_get_lane keeps_option keeps_if keeps_missing_operator Cons.IH)
qed (simp add: keeps_pass)

lemma startup_lanes:
  "lanes (snd (assert_submit_runtime_ready lib stores provider cfg rt s)) =
    (if rt_fund_wallet rt = None \<or> rt_worker_wallets rt = [] \<or> rt_executor_contracts rt = [] then lanes s
     else lanes (snd (reconcile_worker_lanes lib stores provider cfg rt
       (breaker_new (cfg_execution_failure_rate_min_txs cfg)) s)))"
proof -
  obtain r1 br s1 where r: "reconcile_worker_lanes lib stores provider cfg rt
      (breaker_new (cfg_execution_failure_rate_min_txs cfg)) s = ((r1, br), s1)" by (metis prod.collapse)
  let ?check = "bind (ready_loop lib stores provider rt (rt_worker_wallets rt) 0 []) (\<lambda>(ready, not_ready).
      if ready = 0 then fail (''no ready execution worker EOA at startup: '' @ join_with ''; '' not_ready) else pass ())"
  have "keeps lanes ?check" by (intro keeps_intros keeps_ready_loop)
  then have "lanes (snd (?check s1)) = lanes s1" by (rule keeps_snd)
  then show ?thesis
    using r by (auto simp: assert_submit_runtime_ready_def fail_def split: sum.splits)
qed

lemma startup_follow:
  "lanes_follow cfg L0 (lanes s) \<Longrightarrow>
    lanes_follow cfg L0 (lanes (snd (assert_submit_runtime_ready lib stores provider cfg rt s)))"
  unfolding startup_lanes using reconcile_follow(1) by simp

end

section \<open>The in-memory system\<close>

definition lanes_of :: "in_memory_stores \<times> 'c \<Rightarrow> address \<Rightarrow> eoa_lane_state option" where
  "lanes_of s = get_lane_state (fst s)"

lemma keeps_outside: "keeps lanes_of (outside m)"
  by (simp add: keeps_def outside_def lanes_of_def split: prod.splits)

lemma keeps_in_memory:
  "(\<And>st. ms_lanes (snd (f st)) = ms_lanes st) \<Longrightarrow> keeps lanes_of (in_memory f)"
  by (simp add: keeps_def in_memory_def lanes_of_def get_lane_state_def fun_eq_iff case_prod_unfold)

interpretation memory: lane_world lanes_of "outside_provider p" memory_stores "outside_ambient amb"
  for p :: "'c chain_provider" and amb :: "'c ambient"
proof unfold_locales
  fix a s x s'
  assume "so_get_lane_state memory_stores a s = (Inr x, s' :: in_memory_stores \<times> 'c)"
  then show "x = lanes_of s a"
    by (auto simp: memory_stores_def in_memory_def lanes_of_def split: prod.splits)
next
  fix l s s'
  assume "so_set_lane_state memory_stores l s = (Inr (), s' :: in_memory_stores \<times> 'c)"
  then show "lanes_of s' = (lanes_of s)(ln_address l \<mapsto> l)"
    by (auto simp: memory_stores_def in_memory_def lanes_of_def fun_eq_iff lane_map.lookup_put split: prod.splits)
next
  fix l s e s'
  assume "so_set_lane_state memory_stores l s = (Inl e, s' :: in_memory_stores \<times> 'c)"
  then show "lanes_of s' = lanes_of s \<or> lanes_of s' = (lanes_of s)(ln_address l \<mapsto> l)"
    by (auto simp: memory_stores_def in_memory_def split: prod.splits)
qed (auto simp: outside_provider_def memory_stores_def outside_ambient_def lanes_of_def get_lane_state_def
      record_transaction_def prune_candidates_before_block_def pop_candidates_def record_opportunities_def
      record_simulations_def Let_def split: prod.splits intro!: keeps_outside keeps_in_memory)

section \<open>Properties of the system\<close>

text \<open>What the execution manager and its environment do: startup, a cycle with any breaker and any
  caches, and any change of the other services to the rest of the stores or of the outside world.\<close>

inductive lane_reachable ::
    "libs \<Rightarrow> 'c ambient \<Rightarrow> 'c chain_provider \<Rightarrow> settings \<Rightarrow> execution_runtime \<Rightarrow> in_memory_stores \<times> 'c \<Rightarrow> bool"
  for lib :: libs and amb :: "'c ambient" and p :: "'c chain_provider" and cfg :: settings and rt :: execution_runtime
  where
  initial: "lane_reachable lib amb p cfg rt (stores_new, c)"
| startup: "lane_reachable lib amb p cfg rt s \<Longrightarrow>
    lane_reachable lib amb p cfg rt
      (snd (assert_submit_runtime_ready lib memory_stores (outside_provider p) cfg rt s))"
| cycle: "lane_reachable lib amb p cfg rt s \<Longrightarrow>
    lane_reachable lib amb p cfg rt
      (snd (run_execution_cycle lib memory_stores (outside_ambient amb) (outside_provider p) cfg rt order complete br em s))"
| others: "lane_reachable lib amb p cfg rt (st, c) \<Longrightarrow> ms_lanes st' = ms_lanes st \<Longrightarrow>
    lane_reachable lib amb p cfg rt (st', c')"

text \<open>C1: An execution cycle refines the lane protocol: whatever the node answers, wherever the cycle
  fails, and in whatever order candidates hash and simulations finish, every stored lane has moved
  only along steps of the protocol; in particular a worker gets a new transaction only when it has
  none pending, and with its lane's local nonce.\<close>

theorem cycle_refines_lane_protocol:
  assumes "\<And>a l. get_lane_state st a = Some l \<Longrightarrow> ln_address l = a"
    and "run_execution_cycle lib memory_stores (outside_ambient amb) (outside_provider p) cfg rt order complete
      br em (st, c) = (r, (st', c'))"
  shows "lane_steps cfg a (get_lane_state st a) (get_lane_state st' a)"
proof -
  have "lanes_follow cfg (lanes_of (st, c)) (lanes_of (st, c))"
    by (rule lanes_follow_refl) (use assms(1) in \<open>simp add: lanes_of_def\<close>)
  from memory.cycle_follow [OF this, of lib amb p rt order complete br em] assms(2)
  show ?thesis by (simp add: lanes_follow_def lanes_of_def)
qed

lemma reachable_lanes:
  assumes "lane_reachable lib amb p cfg rt s"
  shows "lanes_follow cfg (\<lambda>_. None) (lanes_of s)"
  using assms
proof (induction rule: lane_reachable.induct)
  case (initial c)
  then show ?case by (simp add: lanes_follow_def lanes_of_def get_lane_state_def stores_new_def)
next
  case (startup s)
  show ?case by (rule memory.startup_follow [OF startup.IH])
next
  case (cycle s order complete br em)
  show ?case by (rule memory.cycle_follow [OF cycle.IH])
next
  case (others st c st' c')
  then show ?case by (simp add: lanes_of_def get_lane_state_def)
qed

text \<open>C3: In every reachable state every stored lane is good: it sits under its own address, is never
  blocked, is pending exactly when its pending fields are known, and when pending its local nonce
  follows the pending nonce and it has been replaced at most the allowed number of times.\<close>

theorem reachable_lanes_good:
  assumes "lane_reachable lib amb p cfg rt (st, c)" and "get_lane_state st a = Some l"
  shows "lane_good cfg a l"
proof -
  have "lane_steps cfg a None (Some l)"
    using reachable_lanes [OF assms(1)] assms(2) unfolding lanes_follow_def lanes_of_def by (metis fst_conv)
  then show ?thesis by (rule lane_steps_good) simp
qed

lemma receipt_handled:
  assumes "lane_good cfg a l" "ln_status l = LanePending" "ln_pending_tx l = Some h"
    and "cp_get_transaction_receipt p h c = (Inr (Some receipt), c1)"
    and "cp_get_transaction_count p a False c1 = (Inr confirmed, c2)"
    and "cp_get_transaction_count p a True c2 = (Inr local_nonce, c3)"
    and "cp_get_balance p a c3 = (Inr balance, c4)"
  obtains l' st' opp sid n where
    "handle_pending_lane lib memory_stores (outside_provider p) w cfg l (st, c) =
      (Inr (l', Some (rc_success receipt)), (st', c4))"
    "ln_status l' = LaneIdle" "pending_fields_empty l'" "ln_confirmed_nonce l' = confirmed"
    "ln_local_nonce l' = local_nonce" "ln_eth_balance l' = balance" "get_lane_state st' a = Some l'"
    "ln_pending_opportunity_id l = Some opp" "ln_pending_simulation_id l = Some sid" "ln_pending_nonce l = Some n"
    "ms_transactions st' = ms_transactions st @ [receipt_tx_result lib opp (Some sid) a n receipt]"
proof -
  have "pending_fields_known l" and a: "ln_address l = a"
    using assms(1,2) lane_ok_pending by (auto simp: lane_good_def)
  then obtain opp sid n where f: "ln_pending_opportunity_id l = Some opp" "ln_pending_simulation_id l = Some sid"
    "ln_pending_nonce l = Some n" by (auto simp: pending_fields_known_def)
  let ?l = "(mark_confirmed confirmed l)\<lparr>ln_local_nonce := local_nonce, ln_eth_balance := balance\<rparr>"
  let ?st = "set_lane_state ?l (record_transaction (receipt_tx_result lib opp (Some sid) a n receipt) st)"
  have addr: "ln_address ?l = a" using a by simp
  have run: "handle_pending_lane lib memory_stores (outside_provider p) w cfg l (st, c) =
      (Inr (?l, Some (rc_success receipt)), (?st, c4))"
    using assms(3-7) f a
    by (simp add: handle_pending_lane_def Let_def bind_def pass_def)
  have stored: "get_lane_state ?st a = Some ?l" by (simp add: lane_map.lookup_put addr)
  have txs: "ms_transactions ?st = ms_transactions st @ [receipt_tx_result lib opp (Some sid) a n receipt]"
    by (simp add: set_lane_state_def record_transaction_def)
  have idle: "pending_fields_empty ?l" "ln_status ?l = LaneIdle"
    by (simp_all add: pending_fields_empty_def lane_ops)
  show thesis
    by (rule that [OF run idle(2,1) _ _ _ stored f txs]) (simp_all add: lane_ops)
qed

lemma get_lane_memory [simp]: "so_get_lane_state memory_stores a (st, c) = (Inr (get_lane_state st a), (st, c))"
  by (simp add: memory_stores_def in_memory_def)

text \<open>C22: Reconciling a worker whose stored lane is pending, when the node answers that its transaction
  has a receipt and answers the two nonce queries and the balance query that follow: the receipt's
  outcome goes into the breaker the cycle goes on with, the transaction's result is recorded, and the
  stored lane is idle, with no pending fields and the chain's nonces and balance. A reconciliation that
  also funds the worker passes the same breaker on, whatever the funding does.\<close>

theorem receipt_settles_lane:
  assumes "get_lane_state st a = Some l" "lane_good cfg a l" "ln_status l = LanePending" "ln_pending_tx l = Some h"
    and "cp_get_transaction_receipt p h c = (Inr (Some receipt), c1)"
    and "cp_get_transaction_count p a False c1 = (Inr confirmed, c2)"
    and "cp_get_transaction_count p a True c2 = (Inr local_nonce, c3)"
    and "cp_get_balance p a c3 = (Inr balance, c4)"
  shows "(\<exists>l' st' opp sid n.
      reconcile_pending_worker lib memory_stores (outside_provider p) cfg a br (st, c) =
        ((Inr (), observe_arb_receipt cfg (rc_success receipt) br), (st', c4)) \<and>
      get_lane_state st' a = Some l' \<and> ln_status l' = LaneIdle \<and> pending_fields_empty l' \<and>
      ln_confirmed_nonce l' = confirmed \<and> ln_local_nonce l' = local_nonce \<and> ln_eth_balance l' = balance \<and>
      ln_pending_opportunity_id l = Some opp \<and> ln_pending_simulation_id l = Some sid \<and> ln_pending_nonce l = Some n \<and>
      ms_transactions st' = ms_transactions st @ [receipt_tx_result lib opp (Some sid) a n receipt]) \<and>
    snd (fst (reconcile_worker lib memory_stores (outside_provider p) cfg rt a br (st, c))) =
      observe_arb_receipt cfg (rc_success receipt) br"
proof -
  from assms(2-8) obtain l' st' opp sid n where *:
    "handle_pending_lane lib memory_stores (outside_provider p) a cfg l (st, c) =
      (Inr (l', Some (rc_success receipt)), (st', c4))"
    "ln_status l' = LaneIdle" "pending_fields_empty l'" "ln_confirmed_nonce l' = confirmed"
    "ln_local_nonce l' = local_nonce" "ln_eth_balance l' = balance" "get_lane_state st' a = Some l'"
    "ln_pending_opportunity_id l = Some opp" "ln_pending_simulation_id l = Some sid" "ln_pending_nonce l = Some n"
    "ms_transactions st' = ms_transactions st @ [receipt_tx_result lib opp (Some sid) a n receipt]"
    by (rule receipt_handled)
  have "reconcile_pending_worker lib memory_stores (outside_provider p) cfg a br (st, c) =
      ((Inr (), observe_arb_receipt cfg (rc_success receipt) br), (st', c4))"
    by (simp add: reconcile_pending_worker_def assms(1,3) *(1) observe_outcome_def)
  moreover have "snd (fst (reconcile_worker lib memory_stores (outside_provider p) cfg rt a br (st, c))) =
      observe_arb_receipt cfg (rc_success receipt) br"
    by (simp add: reconcile_worker_def assms(1,3) lane_or_new_def *(1,2) observe_outcome_def Let_def split: prod.splits)
  ultimately show ?thesis using *(2-) by blast
qed

section \<open>Witnesses\<close>

definition example_runtime :: execution_runtime where
  "example_runtime = \<lparr>rt_fund_wallet = Some 1, rt_worker_wallets = [5], rt_simulation_operator = Some 1,
     rt_worker_min_balance = 10, rt_worker_target_balance = 20, rt_executor_contracts = [9],
     rt_trusted_factories = empty_factories\<rparr>"

definition example_lane :: eoa_lane_state where
  "example_lane = mark_submitted 3 (Some 4) 77 9 8 11 100000 30 2 (lane_new 5)"

definition example_receipt :: tx_receipt where
  "example_receipt = \<lparr>rc_tx_hash = 77, rc_success = True, rc_gas_used = Some 90000,
     rc_effective_gas_price = Some 12, rc_block_number = Some 12, rc_raw = JNull\<rparr>"

theorem cycle_refines_lane_protocol_witness:
  "\<exists>st' c'. lane_steps example_settings 5 (get_lane_state (set_lane_state example_lane stores_new) 5) (get_lane_state st' 5) \<and>
     snd (run_execution_cycle example_libs memory_stores (outside_ambient example_ambient)
       (outside_provider example_provider) example_settings example_runtime id id (breaker_new 3)
       \<lparr>em_approved_allowances = {}, em_simulation_context = None, em_submitted_candidate_keys = {}\<rparr>
       (set_lane_state example_lane (set_current_block 12 stores_new), (0 :: nat))) = (st', c')"
proof -
  let ?st = "set_lane_state example_lane (set_current_block 12 stores_new)"
  obtain r st' c' where run: "run_execution_cycle example_libs memory_stores (outside_ambient example_ambient)
       (outside_provider example_provider) example_settings example_runtime id id (breaker_new 3)
       \<lparr>em_approved_allowances = {}, em_simulation_context = None, em_submitted_candidate_keys = {}\<rparr>
       (?st, (0 :: nat)) = (r, (st', c'))" by (metis prod.collapse)
  have key: "ln_address l = a" if "get_lane_state ?st a = Some l" for a l
    using that by (auto simp: lane_map.lookup_put get_lane_state_def set_current_block_def stores_new_def
        set_lane_state_def split: if_splits)
  have "get_lane_state ?st 5 = get_lane_state (set_lane_state example_lane stores_new) 5"
    by (simp add: lane_map.lookup_put example_lane_def)
  then show ?thesis using cycle_refines_lane_protocol [OF key run, of 5] run by auto
qed

lemma example_counts [simp]:
  "cp_get_transaction_count (outside_provider example_provider) a b (st, c) = (Inr 8, (st, c))"
  "cp_get_balance (outside_provider example_provider) a (st, c) = (Inr 1000, (st, c))"
  by (simp_all add: outside_provider_def outside_def pass_def)

text \<open>Reconciling the worker of the example creates its lane.\<close>

lemma reconcile_example:
  "\<exists>st' lane. reconcile_worker_lanes example_libs memory_stores (outside_provider example_provider) example_settings
     example_runtime br (stores_new, c) = ((Inr (), br), (st', c)) \<and> get_lane_state st' 5 = Some lane"
proof -
  let ?lane = "(lane_new 5)\<lparr>ln_confirmed_nonce := 8, ln_local_nonce := 8, ln_eth_balance := 1000, ln_status := LaneIdle\<rparr>"
  have none: "get_lane_state stores_new 5 = None" by (simp add: get_lane_state_def stores_new_def)
  have addr: "ln_address (lane_new 5) = 5" by simp
  have sync: "sync_idle_lane (outside_provider example_provider) (lane_new 5) (stores_new, c) = (Inr ?lane, (stores_new, c))"
    by (simp add: sync_idle_lane_def bind_def pass_def)
  have fund: "fund_worker_lane_if_needed example_libs (outside_provider example_provider) example_settings example_runtime
      ?lane (stores_new, c) = (Inr ?lane, (stores_new, c))"
    by (simp add: fund_worker_lane_if_needed_def pass_def example_runtime_def)
  have "finish_idle_worker example_libs memory_stores (outside_provider example_provider) example_settings
      example_runtime (lane_new 5) (stores_new, c) = (Inr (), (set_lane_state ?lane stores_new, c))"
    unfolding finish_idle_worker_def by (simp add: bind_def sync fund)
  then have "reconcile_worker_lanes example_libs memory_stores (outside_provider example_provider) example_settings
      example_runtime br (stores_new, c) = ((Inr (), br), (set_lane_state ?lane stores_new, c))"
    by (simp add: reconcile_worker_lanes_def reconcile_worker_def example_runtime_def none lane_or_new_def Let_def)
  moreover have "get_lane_state (set_lane_state ?lane stores_new) 5 = Some ?lane"
    by (simp add: lane_map.lookup_put addr)
  ultimately show ?thesis by blast
qed

lemma startup_example:
  "get_lane_state (fst (snd (assert_submit_runtime_ready example_libs memory_stores (outside_provider example_provider)
     example_settings example_runtime (stores_new, c)))) 5 \<noteq> None"
proof -
  obtain st lane br where r: "snd (reconcile_worker_lanes example_libs memory_stores (outside_provider example_provider)
      example_settings example_runtime (breaker_new (cfg_execution_failure_rate_min_txs example_settings)) (stores_new, c)) =
        (st, c)"
    and l: "get_lane_state st 5 = Some lane"
    using reconcile_example [of "breaker_new (cfg_execution_failure_rate_min_txs example_settings)" c] by force
  then show ?thesis
    using memory.startup_lanes [of example_libs example_provider example_settings example_runtime "(stores_new, c)"]
    by (simp add: lanes_of_def example_runtime_def)
qed

theorem reachable_lanes_good_witness:
  "\<exists>st c l. lane_reachable example_libs (example_ambient :: nat ambient) example_provider example_settings example_runtime (st, c) \<and>
     get_lane_state st 5 = Some l \<and> lane_good example_settings 5 l"
proof -
  obtain st c l where s: "snd (assert_submit_runtime_ready example_libs memory_stores (outside_provider example_provider)
     example_settings example_runtime (stores_new, 0 :: nat)) = (st, c)" and l: "get_lane_state st 5 = Some l"
    using startup_example [of "0 :: nat"] by (metis fst_conv not_None_eq prod.collapse)
  have "lane_reachable example_libs (example_ambient :: nat ambient) example_provider example_settings example_runtime (st, c)"
    using lane_reachable.startup [OF lane_reachable.initial] s by metis
  with l reachable_lanes_good [OF this l] show ?thesis by blast
qed

theorem receipt_settles_lane_witness:
  "\<exists>l' st'. get_lane_state st' 5 = Some l' \<and> ln_status l' = LaneIdle \<and>
     reconcile_pending_worker example_libs memory_stores
       (outside_provider (example_provider\<lparr>cp_get_transaction_receipt := (\<lambda>_. pass (Some example_receipt))\<rparr>))
       example_settings 5 (breaker_new 3) (set_lane_state example_lane stores_new, (0 :: nat)) =
       ((Inr (), observe_arb_receipt example_settings True (breaker_new 3)), (st', 0))"
proof -
  have good: "lane_good example_settings 5 example_lane"
    by (simp add: lane_good_def example_lane_def) (simp add: lane_ops saturating_add_def)
  have pending: "ln_status example_lane = LanePending" "ln_pending_tx example_lane = Some 77"
    by (simp_all add: example_lane_def lane_ops)
  have stored: "get_lane_state (set_lane_state example_lane stores_new) 5 = Some example_lane"
    by (simp add: lane_map.lookup_put example_lane_def)
  from receipt_settles_lane [OF stored good pending,
      of "example_provider\<lparr>cp_get_transaction_receipt := (\<lambda>_. pass (Some example_receipt))\<rparr>"
        "0 :: nat" example_receipt 0 8 0 8 0 1000 0 example_libs "breaker_new 3" example_runtime]
  show ?thesis by (auto simp: act_simps example_receipt_def)
qed

end
