(* ===== verification/Search_Stats.thy ===== *)
theory Search_Stats
  imports Settings
begin

text \<open>
  The search statistics of \<open>crates/searcher/src/strategy.rs\<close>: the counters (\<open>u64\<close> additions wrap
  as in a release build), the bounded samples of rejected quotes, and the merge of two statistics.
  Fields carry the prefix \<open>ss_\<close>, with \<open>dm_\<close> for \<open>dynamic_multihop_\<close>.
\<close>

section \<open>Samples\<close>

datatype quote_skip_reason = MissingState | MissingTicks | TickRangeExhausted | QuoteError

fun skip_reason_debug :: "quote_skip_reason \<Rightarrow> string" where
  "skip_reason_debug MissingState = ''MissingState''"
| "skip_reason_debug MissingTicks = ''MissingTicks''"
| "skip_reason_debug TickRangeExhausted = ''TickRangeExhausted''"
| "skip_reason_debug QuoteError = ''QuoteError''"

record quote_skip =
  qk_reason :: quote_skip_reason
  qk_message :: string
  qk_repair_pools :: "address list"

definition skip_new :: "quote_skip_reason \<Rightarrow> string \<Rightarrow> quote_skip" where
  "skip_new reason message = \<lparr>qk_reason = reason, qk_message = message, qk_repair_pools = []\<rparr>"

definition with_repair_pool :: "quote_skip_reason \<Rightarrow> string \<Rightarrow> address \<Rightarrow> quote_skip" where
  "with_repair_pool reason message pool = \<lparr>qk_reason = reason, qk_message = message, qk_repair_pools = [pool]\<rparr>"

definition with_repair_pools :: "quote_skip_reason \<Rightarrow> string \<Rightarrow> address list \<Rightarrow> quote_skip" where
  "with_repair_pools reason message pools = \<lparr>qk_reason = reason, qk_message = message, qk_repair_pools = pools\<rparr>"

definition skip_quote_error :: "string \<Rightarrow> quote_skip" where
  "skip_quote_error message = skip_new QuoteError message"

datatype rough_quote_failure =
    MissingReserves | TokenMismatch | MissingDecimals | StableQuoteFailed | V2QuoteFailed
  | BalancerQuoteFailed | MissingV3State | V3SpotQuoteFailed | V3SpotOverflow | UnsupportedPool | ZeroOutput

fun rough_failure_debug :: "rough_quote_failure \<Rightarrow> string" where
  "rough_failure_debug MissingReserves = ''MissingReserves''"
| "rough_failure_debug TokenMismatch = ''TokenMismatch''"
| "rough_failure_debug MissingDecimals = ''MissingDecimals''"
| "rough_failure_debug StableQuoteFailed = ''StableQuoteFailed''"
| "rough_failure_debug V2QuoteFailed = ''V2QuoteFailed''"
| "rough_failure_debug BalancerQuoteFailed = ''BalancerQuoteFailed''"
| "rough_failure_debug MissingV3State = ''MissingV3State''"
| "rough_failure_debug V3SpotQuoteFailed = ''V3SpotQuoteFailed''"
| "rough_failure_debug V3SpotOverflow = ''V3SpotOverflow''"
| "rough_failure_debug UnsupportedPool = ''UnsupportedPool''"
| "rough_failure_debug ZeroOutput = ''ZeroOutput''"

record rejected_quote_sample =
  rj_path_name :: string
  rj_token_in :: address
  rj_amount_in :: u256
  rj_expected_profit :: u256
  rj_required_profit :: u256
  rj_step_count :: usize
  rj_modes :: string

record price_impact_rejected_sample =
  pj_path_name :: string
  pj_token_in :: address
  pj_amount_in :: u256
  pj_expected_profit :: u256
  pj_price_impact_bps :: u64
  pj_max_price_impact_bps :: u64
  pj_step_count :: usize
  pj_modes :: string

record quote_skip_sample =
  ks_reason :: quote_skip_reason
  ks_path_name :: string
  ks_amount_in :: u256
  ks_message :: string

record rough_quote_failure_sample =
  rf_reason :: rough_quote_failure
  rf_anchor :: address
  rf_amount_in :: u256
  rf_failed_amount_in :: u256
  rf_failed_pool :: address
  rf_token_in :: address
  rf_token_out :: address
  rf_variant :: pool_variant
  rf_path_preview :: string

section \<open>The statistics\<close>

record search_stats =
  ss_total_paths :: usize
  ss_paths :: usize
  ss_quote_attempts :: u64
  ss_quote_successes :: u64
  ss_quote_skipped :: u64
  ss_quote_skipped_missing_state :: u64
  ss_quote_skipped_missing_ticks :: u64
  ss_quote_skipped_tick_range_exhausted :: u64
  ss_quote_skipped_error :: u64
  ss_price_impact_rejected :: u64
  ss_price_impact_shadow_pass_100_bps :: u64
  ss_price_impact_shadow_pass_150_bps :: u64
  ss_price_impact_shadow_pass_300_bps :: u64
  ss_price_impact_shadow_pass_500_bps :: u64
  ss_best_profit_shadow_pass_100_bps :: u256
  ss_best_profit_shadow_pass_150_bps :: u256
  ss_best_profit_shadow_pass_300_bps :: u256
  ss_best_profit_shadow_pass_500_bps :: u256
  ss_quote_model_edge_rejected :: u64
  ss_min_profit_rejected :: u64
  ss_candidates_emitted :: u64
  ss_dm_paths :: u64
  ss_dm_anchors :: u64
  ss_dm_changed_edges :: u64
  ss_dm_prefix_empty :: u64
  ss_dm_suffix_empty :: u64
  ss_dm_invalid_cycle :: u64
  ss_dm_duplicate_cycle :: u64
  ss_dm_rough_quote_failed :: u64
  ss_dm_rough_missing_reserves :: u64
  ss_dm_rough_token_mismatch :: u64
  ss_dm_rough_missing_decimals :: u64
  ss_dm_rough_stable_quote_failed :: u64
  ss_dm_rough_v2_quote_failed :: u64
  ss_dm_rough_balancer_quote_failed :: u64
  ss_dm_rough_missing_v3_state :: u64
  ss_dm_rough_v3_spot_quote_failed :: u64
  ss_dm_rough_v3_spot_overflow :: u64
  ss_dm_rough_unsupported_pool :: u64
  ss_dm_rough_zero_output :: u64
  ss_dm_rough_quote_included :: u64
  ss_dm_rough_quote_dropped :: u64
  ss_dm_rough_profit_below_min :: u64
  ss_dm_candidate_cap_hit :: u64
  ss_dm_priority_edges :: u64
  ss_dm_priority_edges_dropped :: u64
  ss_best_profit_before_impact :: u256
  ss_best_profit_rejected_by_impact :: u256
  ss_best_profit_rejected_by_model_edge :: u256
  ss_best_profit :: u256
  ss_top_min_profit_rejected :: "rejected_quote_sample list"
  ss_top_price_impact_rejected :: "price_impact_rejected_sample list"
  ss_top_quote_skipped :: "quote_skip_sample list"
  ss_top_rough_quote_failures :: "rough_quote_failure_sample list"
  ss_tick_repair_pools :: "address set"

definition search_stats_default :: search_stats where
  "search_stats_default = \<lparr>
     ss_total_paths = 0,
     ss_paths = 0,
     ss_quote_attempts = 0,
     ss_quote_successes = 0,
     ss_quote_skipped = 0,
     ss_quote_skipped_missing_state = 0,
     ss_quote_skipped_missing_ticks = 0,
     ss_quote_skipped_tick_range_exhausted = 0,
     ss_quote_skipped_error = 0,
     ss_price_impact_rejected = 0,
     ss_price_impact_shadow_pass_100_bps = 0,
     ss_price_impact_shadow_pass_150_bps = 0,
     ss_price_impact_shadow_pass_300_bps = 0,
     ss_price_impact_shadow_pass_500_bps = 0,
     ss_best_profit_shadow_pass_100_bps = 0,
     ss_best_profit_shadow_pass_150_bps = 0,
     ss_best_profit_shadow_pass_300_bps = 0,
     ss_best_profit_shadow_pass_500_bps = 0,
     ss_quote_model_edge_rejected = 0,
     ss_min_profit_rejected = 0,
     ss_candidates_emitted = 0,
     ss_dm_paths = 0,
     ss_dm_anchors = 0,
     ss_dm_changed_edges = 0,
     ss_dm_prefix_empty = 0,
     ss_dm_suffix_empty = 0,
     ss_dm_invalid_cycle = 0,
     ss_dm_duplicate_cycle = 0,
     ss_dm_rough_quote_failed = 0,
     ss_dm_rough_missing_reserves = 0,
     ss_dm_rough_token_mismatch = 0,
     ss_dm_rough_missing_decimals = 0,
     ss_dm_rough_stable_quote_failed = 0,
     ss_dm_rough_v2_quote_failed = 0,
     ss_dm_rough_balancer_quote_failed = 0,
     ss_dm_rough_missing_v3_state = 0,
     ss_dm_rough_v3_spot_quote_failed = 0,
     ss_dm_rough_v3_spot_overflow = 0,
     ss_dm_rough_unsupported_pool = 0,
     ss_dm_rough_zero_output = 0,
     ss_dm_rough_quote_included = 0,
     ss_dm_rough_quote_dropped = 0,
     ss_dm_rough_profit_below_min = 0,
     ss_dm_candidate_cap_hit = 0,
     ss_dm_priority_edges = 0,
     ss_dm_priority_edges_dropped = 0,
     ss_best_profit_before_impact = 0,
     ss_best_profit_rejected_by_impact = 0,
     ss_best_profit_rejected_by_model_edge = 0,
     ss_best_profit = 0,
     ss_top_min_profit_rejected = [],
     ss_top_price_impact_rejected = [],
     ss_top_quote_skipped = [],
     ss_top_rough_quote_failures = [],
     ss_tick_repair_pools = {}\<rparr>"

definition record_quote_skip :: "quote_skip_reason \<Rightarrow> search_stats \<Rightarrow> search_stats" where
  "record_quote_skip reason s =
     (let s = s\<lparr>ss_quote_skipped := ss_quote_skipped s + 1\<rparr> in
      case reason of
        MissingState \<Rightarrow> s\<lparr>ss_quote_skipped_missing_state := ss_quote_skipped_missing_state s + 1\<rparr>
      | MissingTicks \<Rightarrow> s\<lparr>ss_quote_skipped_missing_ticks := ss_quote_skipped_missing_ticks s + 1\<rparr>
      | TickRangeExhausted \<Rightarrow>
          s\<lparr>ss_quote_skipped_tick_range_exhausted := ss_quote_skipped_tick_range_exhausted s + 1\<rparr>
      | QuoteError \<Rightarrow> s\<lparr>ss_quote_skipped_error := ss_quote_skipped_error s + 1\<rparr>)"

definition record_quote_skip_sample :: "quote_skip_sample \<Rightarrow> search_stats \<Rightarrow> search_stats" where
  "record_quote_skip_sample sample s =
     (if \<exists>existing \<in> set (ss_top_quote_skipped s).
           ks_path_name existing = ks_path_name sample \<and> ks_reason existing = ks_reason sample
      then s
      else s\<lparr>ss_top_quote_skipped := take 8 (sort_key ks_path_name (ss_top_quote_skipped s @ [sample]))\<rparr>)"

definition record_quote_skip_with_sample ::
    "quote_skip_reason \<Rightarrow> string \<Rightarrow> u256 \<Rightarrow> string \<Rightarrow> search_stats \<Rightarrow> search_stats" where
  "record_quote_skip_with_sample reason path_name amount_in message s =
     record_quote_skip_sample
       \<lparr>ks_reason = reason, ks_path_name = path_name, ks_amount_in = amount_in, ks_message = message\<rparr>
       (record_quote_skip reason s)"

definition record_quote_skip_with_sample_and_repair_pools ::
    "quote_skip_reason \<Rightarrow> string \<Rightarrow> u256 \<Rightarrow> string \<Rightarrow> address list \<Rightarrow> search_stats \<Rightarrow> search_stats" where
  "record_quote_skip_with_sample_and_repair_pools reason path_name amount_in message repair_pools s =
     (let s = record_quote_skip_with_sample reason path_name amount_in message s
      in s\<lparr>ss_tick_repair_pools := ss_tick_repair_pools s \<union> set repair_pools\<rparr>)"

definition record_min_profit_rejected_sample :: "rejected_quote_sample \<Rightarrow> search_stats \<Rightarrow> search_stats" where
  "record_min_profit_rejected_sample sample s =
     s\<lparr>ss_top_min_profit_rejected :=
         take 5 (sort_key (\<lambda>x. (desc_key (rj_expected_profit x), desc_key (rj_required_profit x)))
           (ss_top_min_profit_rejected s @ [sample]))\<rparr>"

definition first_token_in :: "arb_path \<Rightarrow> address" where
  "first_token_in path = (case ap_steps path of [] \<Rightarrow> 0 | step # _ \<Rightarrow> st_token_in step)"

definition record_min_profit_rejected ::
    "arb_path \<Rightarrow> u256 \<Rightarrow> u256 \<Rightarrow> u256 \<Rightarrow> quote_diagnostics \<Rightarrow> search_stats \<Rightarrow> search_stats" where
  "record_min_profit_rejected path amount_in expected_profit required_profit diagnostics s =
     record_min_profit_rejected_sample
       \<lparr>rj_path_name = ap_name path, rj_token_in = first_token_in path, rj_amount_in = amount_in,
        rj_expected_profit = expected_profit, rj_required_profit = required_profit,
        rj_step_count = length (ap_steps path), rj_modes = join_with ''+'' (qd_modes diagnostics)\<rparr>
       (s\<lparr>ss_min_profit_rejected := ss_min_profit_rejected s + 1\<rparr>)"

definition record_price_impact_rejected_sample ::
    "price_impact_rejected_sample \<Rightarrow> search_stats \<Rightarrow> search_stats" where
  "record_price_impact_rejected_sample sample s =
     s\<lparr>ss_top_price_impact_rejected :=
         take 5 (sort_key (\<lambda>x. (desc_key (pj_expected_profit x), desc_key (pj_price_impact_bps x)))
           (ss_top_price_impact_rejected s @ [sample]))\<rparr>"

text \<open>The shadow counters of the thresholds above the current maximum.\<close>

definition shadow_passes :: "u64 \<Rightarrow> u64 \<Rightarrow> u64 \<Rightarrow> bool" where
  "shadow_passes threshold price_impact_bps current_max \<longleftrightarrow>
     \<not> (threshold \<le> current_max \<or> price_impact_bps > threshold)"

definition record_price_impact_shadow :: "u64 \<Rightarrow> u256 \<Rightarrow> u64 \<Rightarrow> search_stats \<Rightarrow> search_stats" where
  "record_price_impact_shadow impact profit current_max s =
     (let s = (if shadow_passes 100 impact current_max
               then s\<lparr>ss_price_impact_shadow_pass_100_bps := ss_price_impact_shadow_pass_100_bps s + 1,
                      ss_best_profit_shadow_pass_100_bps := max (ss_best_profit_shadow_pass_100_bps s) profit\<rparr>
               else s);
          s = (if shadow_passes 150 impact current_max
               then s\<lparr>ss_price_impact_shadow_pass_150_bps := ss_price_impact_shadow_pass_150_bps s + 1,
                      ss_best_profit_shadow_pass_150_bps := max (ss_best_profit_shadow_pass_150_bps s) profit\<rparr>
               else s);
          s = (if shadow_passes 300 impact current_max
               then s\<lparr>ss_price_impact_shadow_pass_300_bps := ss_price_impact_shadow_pass_300_bps s + 1,
                      ss_best_profit_shadow_pass_300_bps := max (ss_best_profit_shadow_pass_300_bps s) profit\<rparr>
               else s)
      in if shadow_passes 500 impact current_max
         then s\<lparr>ss_price_impact_shadow_pass_500_bps := ss_price_impact_shadow_pass_500_bps s + 1,
                ss_best_profit_shadow_pass_500_bps := max (ss_best_profit_shadow_pass_500_bps s) profit\<rparr>
         else s)"

definition record_price_impact_rejected ::
    "arb_path \<Rightarrow> u256 \<Rightarrow> u256 \<Rightarrow> u64 \<Rightarrow> u64 \<Rightarrow> quote_diagnostics \<Rightarrow> search_stats \<Rightarrow> search_stats" where
  "record_price_impact_rejected path amount_in expected_profit impact max_impact diagnostics s =
     record_price_impact_rejected_sample
       \<lparr>pj_path_name = ap_name path, pj_token_in = first_token_in path, pj_amount_in = amount_in,
        pj_expected_profit = expected_profit, pj_price_impact_bps = impact,
        pj_max_price_impact_bps = max_impact, pj_step_count = length (ap_steps path),
        pj_modes = join_with ''+'' (qd_modes diagnostics)\<rparr>
       (record_price_impact_shadow impact expected_profit max_impact
         (s\<lparr>ss_price_impact_rejected := ss_price_impact_rejected s + 1,
            ss_best_profit_rejected_by_impact := max (ss_best_profit_rejected_by_impact s) expected_profit\<rparr>))"

fun record_rough_quote_failure :: "rough_quote_failure \<Rightarrow> search_stats \<Rightarrow> search_stats" where
  "record_rough_quote_failure MissingReserves s =
     s\<lparr>ss_dm_rough_missing_reserves := ss_dm_rough_missing_reserves s + 1\<rparr>"
| "record_rough_quote_failure TokenMismatch s =
     s\<lparr>ss_dm_rough_token_mismatch := ss_dm_rough_token_mismatch s + 1\<rparr>"
| "record_rough_quote_failure MissingDecimals s =
     s\<lparr>ss_dm_rough_missing_decimals := ss_dm_rough_missing_decimals s + 1\<rparr>"
| "record_rough_quote_failure StableQuoteFailed s =
     s\<lparr>ss_dm_rough_stable_quote_failed := ss_dm_rough_stable_quote_failed s + 1\<rparr>"
| "record_rough_quote_failure V2QuoteFailed s =
     s\<lparr>ss_dm_rough_v2_quote_failed := ss_dm_rough_v2_quote_failed s + 1\<rparr>"
| "record_rough_quote_failure BalancerQuoteFailed s =
     s\<lparr>ss_dm_rough_balancer_quote_failed := ss_dm_rough_balancer_quote_failed s + 1\<rparr>"
| "record_rough_quote_failure MissingV3State s =
     s\<lparr>ss_dm_rough_missing_v3_state := ss_dm_rough_missing_v3_state s + 1\<rparr>"
| "record_rough_quote_failure V3SpotQuoteFailed s =
     s\<lparr>ss_dm_rough_v3_spot_quote_failed := ss_dm_rough_v3_spot_quote_failed s + 1\<rparr>"
| "record_rough_quote_failure V3SpotOverflow s =
     s\<lparr>ss_dm_rough_v3_spot_overflow := ss_dm_rough_v3_spot_overflow s + 1\<rparr>"
| "record_rough_quote_failure UnsupportedPool s =
     s\<lparr>ss_dm_rough_unsupported_pool := ss_dm_rough_unsupported_pool s + 1\<rparr>"
| "record_rough_quote_failure ZeroOutput s =
     s\<lparr>ss_dm_rough_zero_output := ss_dm_rough_zero_output s + 1\<rparr>"

definition record_rough_quote_failure_sample :: "rough_quote_failure_sample \<Rightarrow> search_stats \<Rightarrow> search_stats" where
  "record_rough_quote_failure_sample sample s =
     (if \<exists>existing \<in> set (ss_top_rough_quote_failures s).
           rf_reason existing = rf_reason sample \<and> rf_failed_pool existing = rf_failed_pool sample \<and>
           rf_token_in existing = rf_token_in sample \<and> rf_token_out existing = rf_token_out sample
      then s
      else s\<lparr>ss_top_rough_quote_failures :=
        take 8 (sort_key (\<lambda>x. (rough_failure_debug (rf_reason x), rf_failed_pool x))
          (ss_top_rough_quote_failures s @ [sample]))\<rparr>)"

section \<open>Merging\<close>

definition merge_counters :: "search_stats \<Rightarrow> search_stats \<Rightarrow> search_stats" where
  "merge_counters s other = \<lparr>
     ss_total_paths = ss_total_paths s + ss_total_paths other,
     ss_paths = ss_paths s + ss_paths other,
     ss_quote_attempts = ss_quote_attempts s + ss_quote_attempts other,
     ss_quote_successes = ss_quote_successes s + ss_quote_successes other,
     ss_quote_skipped = ss_quote_skipped s + ss_quote_skipped other,
     ss_quote_skipped_missing_state = ss_quote_skipped_missing_state s + ss_quote_skipped_missing_state other,
     ss_quote_skipped_missing_ticks = ss_quote_skipped_missing_ticks s + ss_quote_skipped_missing_ticks other,
     ss_quote_skipped_tick_range_exhausted = ss_quote_skipped_tick_range_exhausted s + ss_quote_skipped_tick_range_exhausted other,
     ss_quote_skipped_error = ss_quote_skipped_error s + ss_quote_skipped_error other,
     ss_price_impact_rejected = ss_price_impact_rejected s + ss_price_impact_rejected other,
     ss_price_impact_shadow_pass_100_bps = ss_price_impact_shadow_pass_100_bps s + ss_price_impact_shadow_pass_100_bps other,
     ss_price_impact_shadow_pass_150_bps = ss_price_impact_shadow_pass_150_bps s + ss_price_impact_shadow_pass_150_bps other,
     ss_price_impact_shadow_pass_300_bps = ss_price_impact_shadow_pass_300_bps s + ss_price_impact_shadow_pass_300_bps other,
     ss_price_impact_shadow_pass_500_bps = ss_price_impact_shadow_pass_500_bps s + ss_price_impact_shadow_pass_500_bps other,
     ss_best_profit_shadow_pass_100_bps = max (ss_best_profit_shadow_pass_100_bps s) (ss_best_profit_shadow_pass_100_bps other),
     ss_best_profit_shadow_pass_150_bps = max (ss_best_profit_shadow_pass_150_bps s) (ss_best_profit_shadow_pass_150_bps other),
     ss_best_profit_shadow_pass_300_bps = max (ss_best_profit_shadow_pass_300_bps s) (ss_best_profit_shadow_pass_300_bps other),
     ss_best_profit_shadow_pass_500_bps = max (ss_best_profit_shadow_pass_500_bps s) (ss_best_profit_shadow_pass_500_bps other),
     ss_quote_model_edge_rejected = ss_quote_model_edge_rejected s + ss_quote_model_edge_rejected other,
     ss_min_profit_rejected = ss_min_profit_rejected s + ss_min_profit_rejected other,
     ss_candidates_emitted = ss_candidates_emitted s + ss_candidates_emitted other,
     ss_dm_paths = ss_dm_paths s + ss_dm_paths other,
     ss_dm_anchors = ss_dm_anchors s + ss_dm_anchors other,
     ss_dm_changed_edges = ss_dm_changed_edges s + ss_dm_changed_edges other,
     ss_dm_prefix_empty = ss_dm_prefix_empty s + ss_dm_prefix_empty other,
     ss_dm_suffix_empty = ss_dm_suffix_empty s + ss_dm_suffix_empty other,
     ss_dm_invalid_cycle = ss_dm_invalid_cycle s + ss_dm_invalid_cycle other,
     ss_dm_duplicate_cycle = ss_dm_duplicate_cycle s + ss_dm_duplicate_cycle other,
     ss_dm_rough_quote_failed = ss_dm_rough_quote_failed s + ss_dm_rough_quote_failed other,
     ss_dm_rough_missing_reserves = ss_dm_rough_missing_reserves s + ss_dm_rough_missing_reserves other,
     ss_dm_rough_token_mismatch = ss_dm_rough_token_mismatch s + ss_dm_rough_token_mismatch other,
     ss_dm_rough_missing_decimals = ss_dm_rough_missing_decimals s + ss_dm_rough_missing_decimals other,
     ss_dm_rough_stable_quote_failed = ss_dm_rough_stable_quote_failed s + ss_dm_rough_stable_quote_failed other,
     ss_dm_rough_v2_quote_failed = ss_dm_rough_v2_quote_failed s + ss_dm_rough_v2_quote_failed other,
     ss_dm_rough_balancer_quote_failed = ss_dm_rough_balancer_quote_failed s + ss_dm_rough_balancer_quote_failed other,
     ss_dm_rough_missing_v3_state = ss_dm_rough_missing_v3_state s + ss_dm_rough_missing_v3_state other,
     ss_dm_rough_v3_spot_quote_failed = ss_dm_rough_v3_spot_quote_failed s + ss_dm_rough_v3_spot_quote_failed other,
     ss_dm_rough_v3_spot_overflow = ss_dm_rough_v3_spot_overflow s + ss_dm_rough_v3_spot_overflow other,
     ss_dm_rough_unsupported_pool = ss_dm_rough_unsupported_pool s + ss_dm_rough_unsupported_pool other,
     ss_dm_rough_zero_output = ss_dm_rough_zero_output s + ss_dm_rough_zero_output other,
     ss_dm_rough_quote_included = ss_dm_rough_quote_included s + ss_dm_rough_quote_included other,
     ss_dm_rough_quote_dropped = ss_dm_rough_quote_dropped s + ss_dm_rough_quote_dropped other,
     ss_dm_rough_profit_below_min = ss_dm_rough_profit_below_min s + ss_dm_rough_profit_below_min other,
     ss_dm_candidate_cap_hit = ss_dm_candidate_cap_hit s + ss_dm_candidate_cap_hit other,
     ss_dm_priority_edges = ss_dm_priority_edges s + ss_dm_priority_edges other,
     ss_dm_priority_edges_dropped = ss_dm_priority_edges_dropped s + ss_dm_priority_edges_dropped other,
     ss_best_profit_before_impact = max (ss_best_profit_before_impact s) (ss_best_profit_before_impact other),
     ss_best_profit_rejected_by_impact = max (ss_best_profit_rejected_by_impact s) (ss_best_profit_rejected_by_impact other),
     ss_best_profit_rejected_by_model_edge = max (ss_best_profit_rejected_by_model_edge s) (ss_best_profit_rejected_by_model_edge other),
     ss_best_profit = max (ss_best_profit s) (ss_best_profit other),
     ss_top_min_profit_rejected = ss_top_min_profit_rejected s,
     ss_top_price_impact_rejected = ss_top_price_impact_rejected s,
     ss_top_quote_skipped = ss_top_quote_skipped s,
     ss_top_rough_quote_failures = ss_top_rough_quote_failures s,
     ss_tick_repair_pools = ss_tick_repair_pools s\<rparr>"

definition stats_merge :: "search_stats \<Rightarrow> search_stats \<Rightarrow> search_stats" where
  "stats_merge s other =
     (let s = merge_counters s other;
          s = fold record_min_profit_rejected_sample (ss_top_min_profit_rejected other) s;
          s = fold record_price_impact_rejected_sample (ss_top_price_impact_rejected other) s;
          s = fold record_quote_skip_sample (ss_top_quote_skipped other) s;
          s = fold record_rough_quote_failure_sample (ss_top_rough_quote_failures other) s
      in s\<lparr>ss_tick_repair_pools := ss_tick_repair_pools s \<union> ss_tick_repair_pools other\<rparr>)"

section \<open>Summaries\<close>

definition u256_dec :: "u256 \<Rightarrow> string" where
  "u256_dec v = nat_dec (unat v)"

definition min_profit_sample_text :: "rejected_quote_sample \<Rightarrow> string" where
  "min_profit_sample_text x =
     (let ratio_bps = (if rj_required_profit x = 0 then 0
                       else saturating_mul (rj_expected_profit x) 10000 div rj_required_profit x)
      in ''path='' @ rj_path_name x @ '' token_in='' @ address_hex (rj_token_in x) @ '' steps='' @
         nat_dec (rj_step_count x) @ '' amount='' @ u256_dec (rj_amount_in x) @ '' profit='' @
         u256_dec (rj_expected_profit x) @ '' min='' @ u256_dec (rj_required_profit x) @ '' ratio_bps='' @
         u256_dec ratio_bps @ '' modes='' @ rj_modes x)"

definition impact_sample_text :: "price_impact_rejected_sample \<Rightarrow> string" where
  "impact_sample_text x =
     ''path='' @ pj_path_name x @ '' token_in='' @ address_hex (pj_token_in x) @ '' steps='' @
     nat_dec (pj_step_count x) @ '' amount='' @ u256_dec (pj_amount_in x) @ '' profit='' @
     u256_dec (pj_expected_profit x) @ '' impact_bps='' @ nat_dec (unat (pj_price_impact_bps x)) @
     '' max_impact_bps='' @ nat_dec (unat (pj_max_price_impact_bps x)) @ '' modes='' @ pj_modes x"

definition skip_sample_text :: "quote_skip_sample \<Rightarrow> string" where
  "skip_sample_text x =
     ''reason='' @ skip_reason_debug (ks_reason x) @ '' path='' @ ks_path_name x @ '' amount='' @
     u256_dec (ks_amount_in x) @ '' error='' @ ks_message x"

definition rough_sample_text :: "rough_quote_failure_sample \<Rightarrow> string" where
  "rough_sample_text x =
     ''reason='' @ rough_failure_debug (rf_reason x) @ '' anchor='' @ address_hex (rf_anchor x) @
     '' amount='' @ u256_dec (rf_amount_in x) @ '' failed_amount='' @ u256_dec (rf_failed_amount_in x) @
     '' pool='' @ address_hex (rf_failed_pool x) @ '' token_in='' @ address_hex (rf_token_in x) @
     '' token_out='' @ address_hex (rf_token_out x) @ '' variant='' @ variant_debug (rf_variant x) @
     '' path='' @ rf_path_preview x"

definition top_min_profit_rejected_summary :: "search_stats \<Rightarrow> string" where
  "top_min_profit_rejected_summary s =
     (if ss_top_min_profit_rejected s = [] then ''-''
      else join_with '' | '' (map min_profit_sample_text (ss_top_min_profit_rejected s)))"

definition top_price_impact_rejected_summary :: "search_stats \<Rightarrow> string" where
  "top_price_impact_rejected_summary s =
     (if ss_top_price_impact_rejected s = [] then ''-''
      else join_with '' | '' (map impact_sample_text (ss_top_price_impact_rejected s)))"

definition top_quote_skipped_summary :: "search_stats \<Rightarrow> string" where
  "top_quote_skipped_summary s =
     (if ss_top_quote_skipped s = [] then ''-''
      else join_with '' | '' (map skip_sample_text (ss_top_quote_skipped s)))"

definition top_rough_quote_failure_summary :: "search_stats \<Rightarrow> string" where
  "top_rough_quote_failure_summary s =
     (if ss_top_rough_quote_failures s = [] then ''-''
      else join_with '' | '' (map rough_sample_text (ss_top_rough_quote_failures s)))"

end
