(* ===== verification/Search_Paths.thy ===== *)
theory Search_Paths
  imports Search_Stats Executor_Abi
begin

text \<open>
  The searcher's paths, \<open>crates/searcher/src/strategy.rs\<close>: which pools it supports, the two-pool
  cycles of the configured pairs, the anchors of longer cycles, and the index from pools to paths.
  A hash map is an association list in insertion order, and each function that iterates over one
  takes the iteration order as an argument.
\<close>

section \<open>Hash maps of lists\<close>

fun entry_push :: "'k \<Rightarrow> 'v \<Rightarrow> ('k \<times> 'v list) list \<Rightarrow> ('k \<times> 'v list) list" where
  "entry_push k v [] = [(k, [v])]"
| "entry_push k v ((k', vs) # m) = (if k' = k then (k', vs @ [v]) # m else (k', vs) # entry_push k v m)"

definition entry_all :: "('a \<Rightarrow> 'k) \<Rightarrow> ('a \<Rightarrow> 'v) \<Rightarrow> 'a list \<Rightarrow> ('k \<times> 'v list) list" where
  "entry_all key val xs = fold (\<lambda>x. entry_push (key x) (val x)) xs []"

lemma map_of_entry_push:
  "map_of (entry_push k v m) k' =
     (if k' = k then Some ((case map_of m k of None \<Rightarrow> [] | Some vs \<Rightarrow> vs) @ [v]) else map_of m k')"
  by (induction k v m rule: entry_push.induct) auto

lemma map_of_entry_all:
  "map_of (entry_all key val xs) k =
     (let vs = map val (filter (\<lambda>x. key x = k) xs) in if vs = [] then None else Some vs)"
proof (induction xs rule: rev_induct)
  case (snoc x xs)
  then show ?case by (auto simp: entry_all_def map_of_entry_push Let_def)
qed (simp add: entry_all_def)

lemma entry_push_keys:
  "map fst (entry_push k v m) = (if k \<in> fst ` set m then map fst m else map fst m @ [k])"
  by (induction k v m rule: entry_push.induct) auto

lemma entry_all_distinct: "distinct (map fst (entry_all key val xs))"
proof (induction xs rule: rev_induct)
  case (snoc x xs)
  then show ?case by (simp add: entry_all_def entry_push_keys)
qed (simp add: entry_all_def)

section \<open>Pools\<close>

definition is_supported_pool :: "pool_state \<Rightarrow> bool" where
  "is_supported_pool p \<longleftrightarrow>
     \<not> (ps_token0 p = 0 \<or> ps_token1 p = 0 \<or> ps_token0 p = ps_token1 p) \<and>
     (case ps_variant p of
        AerodromeVolatile \<Rightarrow>
          \<not> (ps_stable p = Some True \<and> (ps_token0_decimals p = None \<or> ps_token1_decimals p = None)) \<and>
          ps_reserve0 p \<noteq> None \<and> ps_reserve1 p \<noteq> None
      | UniswapV3 \<Rightarrow>
          (case (ps_sqrt_price_x96 p, ps_liquidity p, ps_tick p) of
             (Some q, Some l, Some _) \<Rightarrow> q \<noteq> 0 \<and> l \<noteq> 0 | _ \<Rightarrow> False)
      | PancakeV3 \<Rightarrow>
          (case (ps_sqrt_price_x96 p, ps_liquidity p, ps_tick p) of
             (Some q, Some l, Some _) \<Rightarrow> q \<noteq> 0 \<and> l \<noteq> 0 | _ \<Rightarrow> False)
      | AerodromeSlipstream \<Rightarrow>
          (case (ps_sqrt_price_x96 p, ps_liquidity p, ps_tick p, ps_tick_spacing p) of
             (Some q, Some l, Some _, Some spacing) \<Rightarrow> sint spacing > 0 \<and> q \<noteq> 0 \<and> l \<noteq> 0 | _ \<Rightarrow> False)
      | UniswapV4 \<Rightarrow>
          (case (ps_sqrt_price_x96 p, ps_liquidity p, ps_tick p, ps_tick_spacing p) of
             (Some q, Some l, Some _, Some spacing) \<Rightarrow> sint spacing > 0 \<and> q \<noteq> 0 \<and> l \<noteq> 0 | _ \<Rightarrow> False)
      | BalancerV3 \<Rightarrow> True)"

definition last_six :: "string \<Rightarrow> string" where
  "last_six s = drop (length s - 6) s"

definition pool_label :: "pool_state \<Rightarrow> string" where
  "pool_label p =
     (let suffix = last_six (address_hex (ps_address p)) in
      case (ps_dex p, ps_variant p) of
        (DexAerodrome, AerodromeVolatile) \<Rightarrow> ''aero-classic-'' @ suffix
      | (DexAerodrome, AerodromeSlipstream) \<Rightarrow> ''aero-slipstream-'' @ suffix
      | (DexUniswapV3, UniswapV3) \<Rightarrow> ''uni-v3-'' @ suffix
      | (DexPancakeSwap, PancakeV3) \<Rightarrow> ''pancake-v3-'' @ suffix
      | (DexUniswapV4, UniswapV4) \<Rightarrow> ''uni-v4-'' @ suffix
      | (DexBalancer, BalancerV3) \<Rightarrow> ''balancer-v3-'' @ suffix
      | _ \<Rightarrow> ''pool-'' @ suffix)"

definition short_token :: "address \<Rightarrow> string" where
  "short_token token = last_six (address_hex token)"

text \<open>A negative value is encoded in two's complement.\<close>

definition encode_i256 :: "i128 \<Rightarrow> u8 list" where
  "encode_i256 value =
     (if sint value \<ge> 0 then encode_u256 (ucast value)
      else encode_u256 (- 1 - word_of_int (\<bar>sint value\<bar>) + 1))"

definition encode_uniswap_v4_adapter_data :: "address \<Rightarrow> address \<Rightarrow> u32 \<Rightarrow> i32 \<Rightarrow> address \<Rightarrow> u8 list" where
  "encode_uniswap_v4_adapter_data currency0 currency1 fee tick_spacing hooks =
     encode_address currency0 @ encode_address currency1 @ encode_u256 (ucast fee) @
     encode_i256 (scast tick_spacing) @ encode_address hooks @ encode_u256 0 @ encode_u256 (7 * 32) @
     encode_bytes []"

definition adapter_data_from_pool :: "libs \<Rightarrow> pool_state \<Rightarrow> string option" where
  "adapter_data_from_pool lib p =
     (case ps_variant p of
        UniswapV4 \<Rightarrow>
          Option.bind (case ps_pool_key_fee_pips p of Some f \<Rightarrow> Some f | None \<Rightarrow> ps_fee_pips p) (\<lambda>pool_key_fee.
          Option.bind (ps_tick_spacing p) (\<lambda>tick_spacing.
          let hooks = (case ps_hooks_address p of None \<Rightarrow> 0 | Some h \<Rightarrow> h) in
          Some (''0x'' @ lib_hex_encode lib
            (encode_uniswap_v4_adapter_data (ps_token0 p) (ps_token1 p) pool_key_fee tick_spacing hooks))))
      | _ \<Rightarrow> None)"

definition swap_step_from_pool :: "libs \<Rightarrow> pool_state \<Rightarrow> address \<Rightarrow> address \<Rightarrow> swap_step" where
  "swap_step_from_pool lib p token_in token_out = \<lparr>st_dex = ps_dex p, st_variant = Some (ps_variant p),
     st_factory_address = ps_factory_address p, st_pool = ps_address p, st_token_in = token_in,
     st_token_out = token_out, st_fee_bps = Some (ps_fee_bps p), st_pool_key_fee_pips = ps_pool_key_fee_pips p,
     st_hooks_address = ps_hooks_address p, st_stable = ps_stable p, st_tick_spacing = ps_tick_spacing p,
     st_adapter_data = adapter_data_from_pool lib p\<rparr>"

section \<open>Amounts\<close>

definition max_amount_tier_numerators :: "u64 list" where
  "max_amount_tier_numerators = [100, 300, 1000, 3000, 10000, 30000, 100000, 300000, 1000000]"

definition tier_amount :: "u256 \<Rightarrow> u64 \<Rightarrow> u256" where
  "tier_amount max_amount numerator =
     (case checked_div (saturating_mul max_amount (ucast numerator)) 1000000 of None \<Rightarrow> 0 | Some v \<Rightarrow> v)"

definition tier_amounts :: "u256 \<Rightarrow> u256 list" where
  "tier_amounts max_amount =
     filter (\<lambda>a. a \<noteq> 0) (map (tier_amount max_amount) max_amount_tier_numerators) @ [max_amount]"

definition expand_max_amounts :: "u256 list \<Rightarrow> u256 list" where
  "expand_max_amounts max_amounts =
     remdups_adj (sort (concat (map tier_amounts (filter (\<lambda>a. a \<noteq> 0) max_amounts))))"

section \<open>Search paths\<close>

record search_path =
  sp_path :: arb_path
  sp_amount_sizes :: "u256 list"
  sp_min_profit :: u256
  sp_strategy :: string

definition all_pools_in :: "search_path \<Rightarrow> address set \<Rightarrow> bool" where
  "all_pools_in sp pools \<longleftrightarrow> (\<forall>step \<in> set (ap_steps (sp_path sp)). st_pool step \<in> pools)"

definition all_pools_not_in :: "search_path \<Rightarrow> address set \<Rightarrow> bool" where
  "all_pools_not_in sp pools \<longleftrightarrow> (\<forall>step \<in> set (ap_steps (sp_path sp)). st_pool step \<notin> pools)"

record anchor_search_config =
  an_token :: address
  an_amount_sizes :: "u256 list"
  an_min_profit :: u256

fun merge_anchor_config ::
    "address \<Rightarrow> u256 list \<Rightarrow> u256 \<Rightarrow> (address \<times> anchor_search_config) list \<Rightarrow> (address \<times> anchor_search_config) list" where
  "merge_anchor_config token amounts min_profit [] =
     [(token, \<lparr>an_token = token, an_amount_sizes = expand_max_amounts amounts, an_min_profit = min_profit\<rparr>)]"
| "merge_anchor_config token amounts min_profit ((k, existing) # m) =
     (if k = token
      then (k, existing\<lparr>
          an_amount_sizes := sort (fold (\<lambda>a sizes. if a \<in> set sizes then sizes else sizes @ [a])
            (expand_max_amounts amounts) (an_amount_sizes existing)),
          an_min_profit := min (an_min_profit existing) min_profit\<rparr>) # m
      else (k, existing) # merge_anchor_config token amounts min_profit m)"

definition merge_pair_anchors ::
    "token_pair_search_config \<Rightarrow> (address \<times> anchor_search_config) list \<Rightarrow> (address \<times> anchor_search_config) list" where
  "merge_pair_anchors config m =
     (let m = (if tp_token0_multihop_search_amounts config = [] then m
               else merge_anchor_config (tp_token0 config) (tp_token0_multihop_search_amounts config)
                      (tp_token0_multihop_min_profit config) m)
      in if tp_token1_multihop_search_amounts config = [] then m
         else merge_anchor_config (tp_token1 config) (tp_token1_multihop_search_amounts config)
                (tp_token1_multihop_min_profit config) m)"

definition anchor_search_configs ::
    "(anchor_search_config list \<Rightarrow> anchor_search_config list) \<Rightarrow> token_pair_search_config list \<Rightarrow> anchor_search_config list" where
  "anchor_search_configs order configs = order (map snd (fold merge_pair_anchors configs []))"

definition pair_config_index :: "token_pair_search_config list \<Rightarrow> ((address \<times> address) \<times> usize) list" where
  "pair_config_index configs =
     fold (\<lambda>(index, config). hash_insert (tp_token0 config, tp_token1 config) index) (enumerate 0 configs) []"

definition canonical_token_pair :: "address \<Rightarrow> address \<Rightarrow> address \<times> address" where
  "canonical_token_pair a b = (if a < b then (a, b) else (b, a))"

definition build_search_path ::
    "libs \<Rightarrow> token_pair_search_config \<Rightarrow> pool_state \<Rightarrow> pool_state \<Rightarrow> address \<Rightarrow> address \<Rightarrow> u256 list \<Rightarrow> u256 \<Rightarrow> search_path" where
  "build_search_path lib config first second token_in token_mid amount_sizes min_profit =
     \<lparr>sp_path = \<lparr>
        ap_name = join_with ''-'' [tp_symbol config, short_token token_in, short_token token_mid,
          pool_label first, pool_label second],
        ap_steps = [swap_step_from_pool lib first token_in token_mid,
          swap_step_from_pool lib second token_mid token_in],
        ap_diagnostics = None\<rparr>,
      sp_amount_sizes = amount_sizes, sp_min_profit = min_profit, sp_strategy = ''pair-two-pool-cycle''\<rparr>"

definition pair_direction_paths :: "libs \<Rightarrow> token_pair_search_config \<Rightarrow> pool_state \<Rightarrow> pool_state \<Rightarrow> search_path list" where
  "pair_direction_paths lib config first second =
     (if tp_token0_search_amounts config = [] then []
      else [build_search_path lib config first second (tp_token0 config) (tp_token1 config)
              (expand_max_amounts (tp_token0_search_amounts config)) (tp_token0_min_profit config)]) @
     (if tp_token1_search_amounts config = [] then []
      else [build_search_path lib config first second (tp_token1 config) (tp_token0 config)
              (expand_max_amounts (tp_token1_search_amounts config)) (tp_token1_min_profit config)])"

text \<open>The router query of Balancer pools: router, pool, token in, token out, amount, sender.\<close>

type_synonym 's balancer_query = "address \<Rightarrow> address \<Rightarrow> address \<Rightarrow> address \<Rightarrow> u256 \<Rightarrow> address \<Rightarrow> ('s, u256) act"

record 's search_engine =
  se_amount_sizes :: "u256 list"
  se_paths :: "arb_path list"
  se_pair_configs :: "token_pair_search_config list"
  se_pair_config_index :: "((address \<times> address) \<times> usize) list"
  se_anchor_configs :: "anchor_search_config list"
  se_min_expected_profit :: u256
  se_max_price_impact_bps :: u64
  se_whitelist_paths :: "string list"
  se_candidate_ttl_ms :: int
  se_v3_quote_safety_bps :: u64
  se_quote_max_state_block_lag :: u64
  se_multihop_enabled :: bool
  se_balancer_v3_runtime_quote_enabled :: bool
  se_balancer_v3_router :: "address option"
  se_balancer_query_sender :: address
  se_chain_provider :: "'s balancer_query option"

definition pools_by_pair :: "pool_state list \<Rightarrow> ((address \<times> address) \<times> pool_state list) list" where
  "pools_by_pair pool_states =
     entry_all (\<lambda>p. canonical_token_pair (ps_token0 p) (ps_token1 p)) (\<lambda>p. p) (filter is_supported_pool pool_states)"

definition pair_paths :: "libs \<Rightarrow> token_pair_search_config \<Rightarrow> pool_state list \<Rightarrow> search_path list" where
  "pair_paths lib config pools =
     concat (map (\<lambda>first. concat (map (\<lambda>second.
       if ps_address first = ps_address second then [] else pair_direction_paths lib config first second) pools)) pools)"

text \<open>\<open>order\<close> is the iteration order over the pair configuration index.\<close>

definition two_hop_paths_for_pool_states ::
    "libs \<Rightarrow> (usize list \<Rightarrow> usize list) \<Rightarrow> 's search_engine \<Rightarrow> pool_state list \<Rightarrow> search_path list" where
  "two_hop_paths_for_pool_states lib order eng pool_states =
     (if se_paths eng \<noteq> []
      then map (\<lambda>path. \<lparr>sp_path = path, sp_amount_sizes = se_amount_sizes eng,
              sp_min_profit = se_min_expected_profit eng, sp_strategy = ''static-path''\<rparr>) (se_paths eng)
      else concat (map (\<lambda>i.
          let config = se_pair_configs eng ! i in
          case map_of (pools_by_pair pool_states) (canonical_token_pair (tp_token0 config) (tp_token1 config)) of
            None \<Rightarrow> []
          | Some pools \<Rightarrow> pair_paths lib config pools) (order (map snd (se_pair_config_index eng)))))"

section \<open>The index from pools to paths\<close>

record path_index =
  pi_paths :: "search_path list"
  pi_pool_to_paths :: "(address \<times> usize list) list"

definition step_entries :: "search_path list \<Rightarrow> (address \<times> usize) list" where
  "step_entries paths =
     concat (map (\<lambda>(index, sp). map (\<lambda>step. (st_pool step, index)) (ap_steps (sp_path sp))) (enumerate 0 paths))"

definition path_index_new :: "search_path list \<Rightarrow> path_index" where
  "path_index_new paths = \<lparr>pi_paths = paths, pi_pool_to_paths = entry_all fst snd (step_entries paths)\<rparr>"

definition total_paths :: "path_index \<Rightarrow> usize" where
  "total_paths idx = length (pi_paths idx)"

text \<open>The changed pools come in the iteration order of their hash set.\<close>

definition path_indices_for_changed_pools :: "path_index \<Rightarrow> address list \<Rightarrow> usize list" where
  "path_indices_for_changed_pools idx changed =
     sort (fold (\<lambda>pool indices.
       case map_of (pi_pool_to_paths idx) pool of
         None \<Rightarrow> indices
       | Some pool_paths \<Rightarrow>
           fold (\<lambda>i indices. if i \<in> set indices then indices else indices @ [i]) pool_paths indices)
       changed [])"

definition build_path_index ::
    "libs \<Rightarrow> (usize list \<Rightarrow> usize list) \<Rightarrow> 's search_engine \<Rightarrow> pool_state list \<Rightarrow> path_index" where
  "build_path_index lib order eng pool_states =
     path_index_new (two_hop_paths_for_pool_states lib order eng pool_states)"

record selected_search_paths =
  sel_paths :: "search_path list"
  sel_path_pools :: "address set"
  sel_inactive_pool_filtered_paths :: usize

definition select_search_paths_for_path_index ::
    "path_index \<Rightarrow> address list \<Rightarrow> search_path list \<Rightarrow> address set \<Rightarrow> selected_search_paths" where
  "select_search_paths_for_path_index idx changed dynamic_paths active =
     (let candidates = map (\<lambda>i. pi_paths idx ! i) (path_indices_for_changed_pools idx changed) @ dynamic_paths;
          kept = filter (\<lambda>sp. all_pools_in sp active) candidates
      in \<lparr>sel_paths = kept,
          sel_path_pools = set (concat (map (\<lambda>sp. map st_pool (ap_steps (sp_path sp))) kept)),
          sel_inactive_pool_filtered_paths = length (filter (\<lambda>sp. \<not> all_pools_in sp active) candidates)\<rparr>)"

section \<open>Properties\<close>

lemma fold_push_set:
  "set (fold (\<lambda>i xs. if i \<in> set xs then xs else xs @ [i]) ys xs) = set xs \<union> set ys"
  by (induction ys arbitrary: xs) auto

lemma fold_push_distinct:
  "distinct xs \<Longrightarrow> distinct (fold (\<lambda>i xs. if i \<in> set xs then xs else xs @ [i]) ys xs)"
  by (induction ys arbitrary: xs) auto

definition touches :: "search_path \<Rightarrow> address set \<Rightarrow> bool" where
  "touches sp pools \<longleftrightarrow> (\<exists>step \<in> set (ap_steps (sp_path sp)). st_pool step \<in> pools)"

lemma step_entries_mem:
  "(pool, i) \<in> set (step_entries paths) \<longleftrightarrow>
     i < length paths \<and> (\<exists>step \<in> set (ap_steps (sp_path (paths ! i))). st_pool step = pool)"
  by (force simp: step_entries_def in_set_enumerate_eq set_zip)

lemma pool_to_paths_lookup:
  "(case map_of (pi_pool_to_paths (path_index_new paths)) pool of None \<Rightarrow> {} | Some is \<Rightarrow> set is) =
     {i. (pool, i) \<in> set (step_entries paths)}"
  by (force simp: path_index_new_def map_of_entry_all Let_def filter_empty_conv)

text \<open>C31: The path index finds exactly the paths that touch a changed pool, each once, in ascending order, in whatever
  order the changed pools are listed.\<close>

theorem path_index_exact:
  "path_indices_for_changed_pools (path_index_new paths) changed =
     filter (\<lambda>i. touches (paths ! i) (set changed)) [0..<length paths]"
proof -
  let ?m = "map_of (pi_pool_to_paths (path_index_new paths))"
  let ?push = "\<lambda>pool indices. case ?m pool of None \<Rightarrow> indices
      | Some pool_paths \<Rightarrow> fold (\<lambda>i indices. if i \<in> set indices then indices else indices @ [i]) pool_paths indices"
  have push: "set (?push pool xs) = set xs \<union> {i. (pool, i) \<in> set (step_entries paths)}"
    "distinct xs \<Longrightarrow> distinct (?push pool xs)" for pool xs
    using pool_to_paths_lookup [of paths pool]
    by (auto simp: fold_push_set fold_push_distinct split: option.splits)
  have "set (fold ?push changed xs) = set xs \<union> {i. \<exists>pool \<in> set changed. (pool, i) \<in> set (step_entries paths)} \<and>
      (distinct xs \<longrightarrow> distinct (fold ?push changed xs))" for xs
  proof (induction changed arbitrary: xs)
    case (Cons pool changed)
    show ?case using Cons.IH [of "?push pool xs"] push [of xs pool] push(2) [of xs pool] by auto
  qed simp
  from this [of "[]"]
  have s: "set (fold ?push changed []) = {i. \<exists>pool \<in> set changed. (pool, i) \<in> set (step_entries paths)}"
    and d: "distinct (fold ?push changed [])" by simp_all
  have "set (fold ?push changed []) = set (filter (\<lambda>i. touches (paths ! i) (set changed)) [0..<length paths])"
    unfolding s by (auto simp: step_entries_mem touches_def)
  then have "sort (fold ?push changed []) = filter (\<lambda>i. touches (paths ! i) (set changed)) [0..<length paths]"
    using d by (intro sorted_distinct_set_unique sorted_wrt_filter sorted_upt)
      (simp_all only: sorted_sort distinct_sort set_sort distinct_upt distinct_filter)
  then show ?thesis by (simp add: path_indices_for_changed_pools_def)
qed

end
