(* ===== verification/Search_Graph.thy ===== *)
theory Search_Graph
  imports Search_Paths "HOL-Library.Product_Lexorder"
begin

text \<open>
  The pool graph of \<open>crates/searcher/src/strategy.rs\<close> and the bounded enumeration of its paths:
  each supported pool is two directed edges, a token offers its deepest edges and those of the
  changed pools, and \<open>SegmentPathCache\<close> memoises, per start token, end token and length, the paths
  found and whether the end can be reached at all. The reference definitions \<open>walks\<close> and
  \<open>reaches\<close> have neither cache, nor pruning, nor cap; \<open>segment_get_exact\<close> relates the two.
\<close>

section \<open>Loops that may return\<close>

text \<open>A \<open>for\<close> loop over a list whose body may return from the function: the flag says it did.\<close>

fun for_loop :: "('a \<Rightarrow> 's \<Rightarrow> 's \<times> bool) \<Rightarrow> 'a list \<Rightarrow> 's \<Rightarrow> 's \<times> bool" where
  "for_loop body [] s = (s, False)"
| "for_loop body (x # xs) s =
     (let (s, returned) = body x s in if returned then (s, True) else for_loop body xs s)"

lemma for_loop_invariant:
  assumes "P s" and step: "\<And>x s. x \<in> set xs \<Longrightarrow> P s \<Longrightarrow> P (fst (body x s))"
  shows "P (fst (for_loop body xs s))"
  using assms
proof (induction xs arbitrary: s)
  case (Cons x xs)
  obtain s' r where b: "body x s = (s', r)" by fastforce
  have "P s'" using Cons.prems(2) [of x s] Cons.prems(1) b by simp
  then show ?case using Cons.IH [of s'] Cons.prems(2) b by (cases r) simp_all
qed simp

lemma for_loop_cong [fundef_cong]:
  "xs = ys \<Longrightarrow> s = t \<Longrightarrow> (\<And>x u. x \<in> set ys \<Longrightarrow> body x u = body' x u) \<Longrightarrow>
     for_loop body xs s = for_loop body' ys t"
  by (induction ys arbitrary: xs s t) (auto split: prod.split)

section \<open>The graph\<close>

record owned_pool_edge =
  oe_state_index :: usize
  oe_pool :: address
  oe_token_in :: address
  oe_token_out :: address

record graph_snapshot =
  gs_pool_states :: "pool_state list"
  gs_edges_by_token :: "(address \<times> owned_pool_edge list) list"
  gs_pool_to_edges :: "(address \<times> owned_pool_edge list) list"

text \<open>The sum of the reserves wraps.\<close>

fun pool_depth_score_of :: "pool_variant \<Rightarrow> pool_state \<Rightarrow> u256" where
  "pool_depth_score_of AerodromeVolatile p =
     (case ps_reserve0 p of None \<Rightarrow> 0 | Some r \<Rightarrow> r) + (case ps_reserve1 p of None \<Rightarrow> 0 | Some r \<Rightarrow> r)"
| "pool_depth_score_of BalancerV3 p = 1"
| "pool_depth_score_of _ p = (case ps_liquidity p of None \<Rightarrow> 0 | Some l \<Rightarrow> l)"

definition pool_depth_score :: "pool_state \<Rightarrow> u256" where
  "pool_depth_score p = pool_depth_score_of (ps_variant p) p"

definition edges_of_state :: "usize \<times> pool_state \<Rightarrow> owned_pool_edge list" where
  "edges_of_state = (\<lambda>(i, p).
     [\<lparr>oe_state_index = i, oe_pool = ps_address p, oe_token_in = ps_token0 p, oe_token_out = ps_token1 p\<rparr>,
      \<lparr>oe_state_index = i, oe_pool = ps_address p, oe_token_in = ps_token1 p, oe_token_out = ps_token0 p\<rparr>])"

definition graph_edges :: "pool_state list \<Rightarrow> owned_pool_edge list" where
  "graph_edges states = concat (map edges_of_state (enumerate 0 states))"

definition graph_snapshot_new :: "pool_state list \<Rightarrow> graph_snapshot" where
  "graph_snapshot_new pool_states =
     (let states = filter is_supported_pool pool_states; edges = graph_edges states
      in \<lparr>gs_pool_states = states,
          gs_edges_by_token = map (\<lambda>(token, es).
            (token, sort_desc (\<lambda>e. pool_depth_score (states ! oe_state_index e)) es))
            (entry_all oe_token_in (\<lambda>e. e) edges),
          gs_pool_to_edges = entry_all oe_pool (\<lambda>e. e) edges\<rparr>)"

definition edge_state :: "graph_snapshot \<Rightarrow> owned_pool_edge \<Rightarrow> pool_state" where
  "edge_state g e = gs_pool_states g ! oe_state_index e"

definition max_dynamic_edge_fanout_per_token :: usize where
  "max_dynamic_edge_fanout_per_token = 16"

definition max_dynamic_priority_edges_per_token :: usize where
  "max_dynamic_priority_edges_per_token = 32"

definition max_dynamic_segment_paths :: usize where
  "max_dynamic_segment_paths = 256"

definition candidate_edges_from_token :: "graph_snapshot \<Rightarrow> address \<Rightarrow> address set \<Rightarrow> owned_pool_edge list" where
  "candidate_edges_from_token g token priority_pools =
     (case map_of (gs_edges_by_token g) token of
        None \<Rightarrow> []
      | Some edges \<Rightarrow>
          sort_key (\<lambda>e. (oe_token_out e, oe_pool e))
            (take max_dynamic_edge_fanout_per_token edges @
             filter (\<lambda>e. oe_pool e \<in> priority_pools) (drop max_dynamic_edge_fanout_per_token edges)))"

definition pool_edges :: "graph_snapshot \<Rightarrow> address \<Rightarrow> owned_pool_edge list option" where
  "pool_edges g pool = map_of (gs_pool_to_edges g) pool"

record priority_selection =
  bp_pools :: "address set"
  bp_selected_edges :: usize
  bp_dropped_edges :: usize

text \<open>The result does not depend on the order in which the map of edges is read.\<close>

definition bounded_priority_pools :: "graph_snapshot \<Rightarrow> address set \<Rightarrow> priority_selection" where
  "bounded_priority_pools g priority_pools =
     fold (\<lambda>(_, edges) acc.
       let beyond = filter (\<lambda>e. oe_pool e \<in> priority_pools) (drop max_dynamic_edge_fanout_per_token edges);
           selected = take max_dynamic_priority_edges_per_token beyond
       in \<lparr>bp_pools = bp_pools acc \<union> set (map oe_pool selected),
           bp_selected_edges = bp_selected_edges acc + length selected,
           bp_dropped_edges = bp_dropped_edges acc + (length beyond - length selected)\<rparr>)
     (gs_edges_by_token g) \<lparr>bp_pools = {}, bp_selected_edges = 0, bp_dropped_edges = 0\<rparr>"

section \<open>The memoised enumeration\<close>

type_synonym segment_key = "address \<times> address \<times> usize"

record segment_path_cache =
  sc_paths :: "(segment_key \<times> owned_pool_edge list list) list"
  sc_reachable :: "(segment_key \<times> bool) list"

definition segment_path_cache_default :: segment_path_cache where
  "segment_path_cache_default = \<lparr>sc_paths = [], sc_reachable = []\<rparr>"

text \<open>\<open>any\<close> stops at the first edge that reaches the end, so later edges are not memoised.\<close>

fun any_cached :: "('a \<Rightarrow> 's \<Rightarrow> bool \<times> 's) \<Rightarrow> 'a list \<Rightarrow> 's \<Rightarrow> bool \<times> 's" where
  "any_cached f [] s = (False, s)"
| "any_cached f (x # xs) s = (let (found, s) = f x s in if found then (True, s) else any_cached f xs s)"

lemma any_cached_cong [fundef_cong]:
  "xs = ys \<Longrightarrow> s = t \<Longrightarrow> (\<And>x u. x \<in> set ys \<Longrightarrow> f x u = g x u) \<Longrightarrow> any_cached f xs s = any_cached g ys t"
  by (induction ys arbitrary: xs s t) (auto split: prod.split)

fun can_reach ::
    "graph_snapshot \<Rightarrow> address set \<Rightarrow> address \<Rightarrow> usize \<Rightarrow> address \<Rightarrow> segment_path_cache \<Rightarrow> bool \<times> segment_path_cache" where
  "can_reach g priority end_token edge_count start cache =
     (case map_of (sc_reachable cache) (start, end_token, edge_count) of
        Some reachable \<Rightarrow> (reachable, cache)
      | None \<Rightarrow>
          (let (reachable, cache) =
             (case edge_count of
                0 \<Rightarrow> (start = end_token, cache)
              | Suc m \<Rightarrow> any_cached (\<lambda>e c. can_reach g priority end_token m (oe_token_out e) c)
                  (candidate_edges_from_token g start priority) cache)
           in (reachable,
               cache\<lparr>sc_reachable := hash_insert (start, end_token, edge_count) reachable (sc_reachable cache)\<rparr>)))"

fun edge_paths_between_inner ::
    "graph_snapshot \<Rightarrow> address set \<Rightarrow> address \<Rightarrow> usize \<Rightarrow> address \<Rightarrow> owned_pool_edge list \<Rightarrow>
     segment_path_cache \<times> owned_pool_edge list list \<Rightarrow> segment_path_cache \<times> owned_pool_edge list list" where
  "edge_paths_between_inner g priority end_token remaining current_token current (cache, out) =
     (if length out \<ge> max_dynamic_segment_paths then (cache, out)
      else case remaining of
        0 \<Rightarrow> (cache, if current_token = end_token then out @ [current] else out)
      | Suc m \<Rightarrow>
          fst (for_loop (\<lambda>e (cache, out).
            if length out \<ge> max_dynamic_segment_paths then ((cache, out), True)
            else let (reachable, cache) = can_reach g priority end_token m (oe_token_out e) cache in
              if \<not> reachable then ((cache, out), False)
              else if \<exists>existing \<in> set current. oe_pool existing = oe_pool e then ((cache, out), False)
              else (edge_paths_between_inner g priority end_token m (oe_token_out e) (current @ [e]) (cache, out), False))
          (candidate_edges_from_token g current_token priority) (cache, out)))"

definition edge_paths_between ::
    "graph_snapshot \<Rightarrow> address \<Rightarrow> address \<Rightarrow> usize \<Rightarrow> address set \<Rightarrow> segment_path_cache \<Rightarrow>
     segment_path_cache \<times> owned_pool_edge list list" where
  "edge_paths_between g start end_token edge_count priority cache =
     (if edge_count = 0 then (cache, if start = end_token then [[]] else [])
      else let (reachable, cache) = can_reach g priority end_token edge_count start cache in
        if \<not> reachable then (cache, [])
        else edge_paths_between_inner g priority end_token edge_count start [] (cache, []))"

definition segment_get ::
    "graph_snapshot \<Rightarrow> address \<Rightarrow> address \<Rightarrow> usize \<Rightarrow> address set \<Rightarrow> segment_path_cache \<Rightarrow>
     segment_path_cache \<times> owned_pool_edge list list" where
  "segment_get g start end_token edge_count priority cache =
     (case map_of (sc_paths cache) (start, end_token, edge_count) of
        Some paths \<Rightarrow> (cache, paths)
      | None \<Rightarrow>
          let (cache, paths) = edge_paths_between g start end_token edge_count priority cache
          in (cache\<lparr>sc_paths := hash_insert (start, end_token, edge_count) paths (sc_paths cache)\<rparr>, paths))"

declare can_reach.simps [simp del] edge_paths_between_inner.simps [simp del]

section \<open>The reference enumeration\<close>

fun reaches :: "graph_snapshot \<Rightarrow> address set \<Rightarrow> address \<Rightarrow> usize \<Rightarrow> address \<Rightarrow> bool" where
  "reaches g priority end_token 0 token \<longleftrightarrow> token = end_token"
| "reaches g priority end_token (Suc n) token \<longleftrightarrow>
     (\<exists>e \<in> set (candidate_edges_from_token g token priority). reaches g priority end_token n (oe_token_out e))"

fun walks ::
    "graph_snapshot \<Rightarrow> address set \<Rightarrow> address \<Rightarrow> usize \<Rightarrow> address \<Rightarrow> address set \<Rightarrow> owned_pool_edge list list" where
  "walks g priority end_token 0 token used_pools = (if token = end_token then [[]] else [])"
| "walks g priority end_token (Suc n) token used_pools =
     concat (map (\<lambda>e. if oe_pool e \<in> used_pools then []
       else map ((#) e) (walks g priority end_token n (oe_token_out e) (insert (oe_pool e) used_pools)))
     (candidate_edges_from_token g token priority))"

lemma walks_reaches: "walks g priority end_token n token used_pools \<noteq> [] \<Longrightarrow> reaches g priority end_token n token"
  by (induction g priority end_token n token used_pools rule: walks.induct) (auto split: if_splits)

definition cache_ok :: "graph_snapshot \<Rightarrow> address set \<Rightarrow> segment_path_cache \<Rightarrow> bool" where
  "cache_ok g priority c \<longleftrightarrow>
     (\<forall>start end_token n r. map_of (sc_reachable c) (start, end_token, n) = Some r \<longrightarrow>
        r = reaches g priority end_token n start) \<and>
     (\<forall>start end_token n paths. map_of (sc_paths c) (start, end_token, n) = Some paths \<longrightarrow>
        paths = take max_dynamic_segment_paths (walks g priority end_token n start {}))"

lemma cache_ok_default [simp]: "cache_ok g priority segment_path_cache_default"
  by (simp add: cache_ok_def segment_path_cache_default_def)

lemma cache_ok_reachableD:
  "cache_ok g priority c \<Longrightarrow> map_of (sc_reachable c) (start, end_token, n) = Some r \<Longrightarrow>
     r = reaches g priority end_token n start"
  by (simp add: cache_ok_def)

lemma cache_ok_reachable [intro]:
  "cache_ok g priority c \<Longrightarrow> r = reaches g priority end_token n start \<Longrightarrow>
     cache_ok g priority (c\<lparr>sc_reachable := hash_insert (start, end_token, n) r (sc_reachable c)\<rparr>)"
  by (simp add: cache_ok_def)

lemma cache_ok_paths [intro]:
  "cache_ok g priority c \<Longrightarrow> paths = take max_dynamic_segment_paths (walks g priority end_token n start {}) \<Longrightarrow>
     cache_ok g priority (c\<lparr>sc_paths := hash_insert (start, end_token, n) paths (sc_paths c)\<rparr>)"
  by (simp add: cache_ok_def)

lemma any_cached_exact:
  assumes "P c" and "\<And>x c. x \<in> set xs \<Longrightarrow> P c \<Longrightarrow> fst (f x c) = Q x \<and> P (snd (f x c))"
  shows "fst (any_cached f xs c) \<longleftrightarrow> (\<exists>x \<in> set xs. Q x)" "P (snd (any_cached f xs c))"
proof -
  have "(fst (any_cached f xs c) \<longleftrightarrow> (\<exists>x \<in> set xs. Q x)) \<and> P (snd (any_cached f xs c))"
    using assms
  proof (induction xs arbitrary: c)
    case (Cons x xs)
    obtain r c' where f: "f x c = (r, c')" by fastforce
    have "r = Q x" "P c'" using Cons.prems(2) [of x c] Cons.prems(1) f by simp_all
    then show ?case using Cons.IH [of c'] Cons.prems(2) f by auto
  qed simp
  then show "fst (any_cached f xs c) \<longleftrightarrow> (\<exists>x \<in> set xs. Q x)" "P (snd (any_cached f xs c))" by simp_all
qed

lemma can_reach_exact:
  assumes "cache_ok g priority c"
  shows "fst (can_reach g priority end_token n start c) = reaches g priority end_token n start \<and>
    cache_ok g priority (snd (can_reach g priority end_token n start c))"
  using assms
proof (induction n arbitrary: start c)
  case 0
  then show ?case
    by (subst (1 2) can_reach.simps) (auto dest: cache_ok_reachableD split: option.split)
next
  case (Suc n)
  let ?any = "any_cached (\<lambda>e c. can_reach g priority end_token n (oe_token_out e) c)
      (candidate_edges_from_token g start priority) c"
  have any: "fst ?any = reaches g priority end_token (Suc n) start" "cache_ok g priority (snd ?any)"
    unfolding reaches.simps
    by (rule any_cached_exact [where P = "cache_ok g priority"
          and Q = "\<lambda>e. reaches g priority end_token n (oe_token_out e)"],
        rule Suc.prems, simp add: Suc.IH)+
  show ?case
  proof (cases "map_of (sc_reachable c) (start, end_token, Suc n)")
    case None
    then show ?thesis using any
      by (subst (1 2) can_reach.simps) (auto simp del: reaches.simps split: prod.split)
  next
    case (Some r)
    then show ?thesis using Suc.prems
      by (subst (1 2) can_reach.simps) (auto dest: cache_ok_reachableD simp del: reaches.simps)
  qed
qed

lemma take_append_take: "take k (take k xs @ ys) = take k (xs @ ys)"
  by (cases "k \<le> length xs") simp_all

lemma map_append_Nil [simp]: "map ((@) []) xs = xs"
  by (induction xs) simp_all

lemma inner_exact:
  assumes "cache_ok g priority c" "length out \<le> max_dynamic_segment_paths"
    "edge_paths_between_inner g priority end_token n token current (c, out) = (c', out')"
  shows "cache_ok g priority c' \<and> out' = take max_dynamic_segment_paths
    (out @ map ((@) current) (walks g priority end_token n token (oe_pool ` set current)))"
  using assms
proof (induction n arbitrary: token current c out c' out')
  case 0
  then show ?case by (auto simp: edge_paths_between_inner.simps split: if_splits)
next
  case (Suc n)
  let ?cap = max_dynamic_segment_paths
  let ?pools = "oe_pool ` set current"
  let ?next = "\<lambda>e. if oe_pool e \<in> ?pools then [] else map (\<lambda>w. current @ e # w)
      (walks g priority end_token n (oe_token_out e) (insert (oe_pool e) ?pools))"
  let ?body = "\<lambda>e (cache, out).
      if length out \<ge> ?cap then ((cache, out), True)
      else let (reachable, cache) = can_reach g priority end_token n (oe_token_out e) cache in
        if \<not> reachable then ((cache, out), False)
        else if \<exists>existing \<in> set current. oe_pool existing = oe_pool e then ((cache, out), False)
        else (edge_paths_between_inner g priority end_token n (oe_token_out e) (current @ [e]) (cache, out), False)"
  have loop: "cache_ok g priority c' \<and> out' = take ?cap (out @ concat (map ?next es))"
    if "cache_ok g priority c" "length out \<le> ?cap" "fst (for_loop ?body es (c, out)) = (c', out')"
    for es c out c' out'
    using that
  proof (induction es arbitrary: c out)
    case (Cons e es)
    show ?case
    proof (cases "length out \<ge> ?cap")
      case True
      then show ?thesis using Cons.prems by simp
    next
      case False
      obtain r c1 where cr: "can_reach g priority end_token n (oe_token_out e) c = (r, c1)" by fastforce
      have ex: "(\<exists>existing \<in> set current. oe_pool existing = oe_pool e) \<longleftrightarrow> oe_pool e \<in> ?pools"
        unfolding image_iff by (simp only: eq_commute [of "oe_pool e"])
      have c1: "r = reaches g priority end_token n (oe_token_out e)" "cache_ok g priority c1"
        using can_reach_exact [OF Cons.prems(1), of end_token n "oe_token_out e"] cr by simp_all
      show ?thesis
      proof (cases "r \<and> oe_pool e \<notin> ?pools")
        case True
        obtain c2 out2 where i: "edge_paths_between_inner g priority end_token n (oe_token_out e)
            (current @ [e]) (c1, out) = (c2, out2)" by fastforce
        have r2: "cache_ok g priority c2" "out2 = take ?cap (out @ ?next e)"
          using Suc.IH [OF c1(2) Cons.prems(2) i] True by simp_all
        have "length out2 \<le> ?cap" using r2(2) by simp
        moreover have "fst (for_loop ?body es (c2, out2)) = (c', out')"
          using Cons.prems(3) False cr i True ex by simp
        ultimately have "cache_ok g priority c' \<and> out' = take ?cap (out2 @ concat (map ?next es))"
          using Cons.IH [OF r2(1)] by blast
        then show ?thesis
          unfolding r2(2) take_append_take by (simp only: append_assoc list.map concat.simps)
      next
        case stop: False
        have "?next e = []" using stop c1(1) walks_reaches [of g priority end_token n "oe_token_out e"] by auto
        moreover have "fst (for_loop ?body es (c1, out)) = (c', out')"
          using Cons.prems(3) False cr stop ex by (cases r) simp_all
        ultimately show ?thesis
          using Cons.IH [OF c1(2) Cons.prems(2)] by (simp only: list.map concat.simps append_Nil)
      qed
    qed
  qed simp
  show ?case
  proof (cases "length out \<ge> ?cap")
    case True
    then show ?thesis using Suc.prems by (simp add: edge_paths_between_inner.simps)
  next
    case False
    have "fst (for_loop ?body (candidate_edges_from_token g token priority) (c, out)) = (c', out')"
      using Suc.prems(3) False by (simp add: edge_paths_between_inner.simps)
    from loop [OF Suc.prems(1,2) this] show ?thesis
      by (simp add: map_concat comp_def if_distrib [of "map _"] cong: if_cong)
  qed
qed

lemma between_exact:
  assumes "cache_ok g priority c" "edge_paths_between g start end_token n priority c = (c', paths)"
  shows "cache_ok g priority c' \<and> paths = take max_dynamic_segment_paths (walks g priority end_token n start {})"
proof (cases "n = 0")
  case True
  then show ?thesis using assms by (auto simp: edge_paths_between_def max_dynamic_segment_paths_def)
next
  case False
  obtain r c1 where cr: "can_reach g priority end_token n start c = (r, c1)" by fastforce
  have c1: "r = reaches g priority end_token n start" "cache_ok g priority c1"
    using can_reach_exact [OF assms(1), of end_token n start] cr by simp_all
  show ?thesis
  proof (cases r)
    case True
    then have "edge_paths_between_inner g priority end_token n start [] (c1, []) = (c', paths)"
      using assms(2) False cr by (simp add: edge_paths_between_def)
    from inner_exact [OF c1(2) _ this] show ?thesis by simp
  next
    case unreachable: False
    then show ?thesis using assms(2) False cr c1 walks_reaches [of g priority end_token n start "{}"]
      by (auto simp: edge_paths_between_def)
  qed
qed

text \<open>C7: The memoised, pruned and capped path enumeration of the searcher's graph returns exactly
  the first 256 paths of the plain depth-first enumeration, in its order, whatever the cache already
  holds for this graph and these priority pools, and leaves the cache truthful: no path is missed
  because an earlier request stopped early or found a token unreachable.\<close>

theorem segment_get_exact:
  assumes "cache_ok g priority c"
  shows "snd (segment_get g start end_token n priority c) =
      take max_dynamic_segment_paths (walks g priority end_token n start {}) \<and>
    cache_ok g priority (fst (segment_get g start end_token n priority c))"
proof (cases "map_of (sc_paths c) (start, end_token, n)")
  case None
  obtain c' paths where b: "edge_paths_between g start end_token n priority c = (c', paths)" by fastforce
  show ?thesis using between_exact [OF assms b] None b by (auto simp: segment_get_def)
next
  case (Some paths)
  then show ?thesis using assms by (simp add: segment_get_def cache_ok_def)
qed

definition example_edge :: "nat \<Rightarrow> address \<Rightarrow> address \<Rightarrow> address \<Rightarrow> owned_pool_edge" where
  "example_edge i pool a b = \<lparr>oe_state_index = i, oe_pool = pool, oe_token_in = a, oe_token_out = b\<rparr>"

definition example_graph :: graph_snapshot where
  "example_graph = graph_snapshot_new
     [example_pool\<lparr>ps_sqrt_price_x96 := Some 1, ps_liquidity := Some 5, ps_tick := Some 0\<rparr>,
      example_pool\<lparr>ps_pool_id := \<lparr>pid_chain_id = 8453, pid_address = 101\<rparr>,
        ps_sqrt_price_x96 := Some 1, ps_liquidity := Some 7, ps_tick := Some 0\<rparr>]"

theorem segment_get_exact_witness:
  "snd (segment_get example_graph 1 1 2 {} segment_path_cache_default) =
     [[example_edge 0 100 1 2, example_edge 1 101 2 1], [example_edge 1 101 1 2, example_edge 0 100 2 1]] \<and>
   cache_ok example_graph {} (fst (segment_get example_graph 1 1 2 {} segment_path_cache_default))"
proof -
  have "take max_dynamic_segment_paths (walks example_graph {} 1 2 1 {}) =
      [[example_edge 0 100 1 2, example_edge 1 101 2 1], [example_edge 1 101 1 2, example_edge 0 100 2 1]]"
    by code_simp
  with segment_get_exact [where g = example_graph and priority = "{}", OF cache_ok_default, of 1 1 2]  show ?thesis by simp
qed

end
