(* ===== verification/Floats.thy ===== *)
theory Floats
  imports Complex_Main "HOL-Library.Char_ord" Prelude
begin

text \<open>
  Rust's \<open>f64\<close>, as far as the modelled code computes with it: a finite value is the rational it
  stands for, and each arithmetic operation rounds the exact result to the nearest double, ties to
  even, with gradual underflow and overflow to infinity. The two zeros are one value here: the
  modelled code never divides by a negative zero and never reads a zero's sign. \<open>powf\<close> is a
  function of the platform's mathematics library, which IEEE 754 does not fix; it is an argument
  of the definitions that call it.
\<close>

datatype f64 = F_nan | F_inf bool \<comment> \<open>negative?\<close> | F_fin rat

section \<open>Rounding\<close>

fun bit_length :: "nat \<Rightarrow> nat" where
  "bit_length n = (if n = 0 then 0 else Suc (bit_length (n div 2)))"

declare bit_length.simps [simp del]

definition pow2 :: "int \<Rightarrow> rat" where
  "pow2 e = (if e \<ge> 0 then 2 ^ nat e else 1 / 2 ^ nat (- e))"

text \<open>The exponent \<open>k\<close> with \<open>2 ^ k \<le> x < 2 ^ (k + 1)\<close>, for a positive \<open>x\<close>.\<close>

definition rat_log2 :: "rat \<Rightarrow> int" where
  "rat_log2 x =
     (let (n, d) = quotient_of x; k = int (bit_length (nat n)) - int (bit_length (nat d))
      in if pow2 k \<le> x then k else k - 1)"

definition round_half_even :: "rat \<Rightarrow> int" where
  "round_half_even q =
     (let m = \<lfloor>q\<rfloor>; r = q - of_int m
      in if r < 1 / 2 \<or> r = 1 / 2 \<and> even m then m else m + 1)"

definition round_f64 :: "rat \<Rightarrow> f64" where
  "round_f64 x =
     (if x = 0 then F_fin 0
      else let e = max (- 1074) (rat_log2 \<bar>x\<bar> - 52);
               v = of_int (round_half_even (\<bar>x\<bar> / pow2 e)) * pow2 e
           in if v \<ge> 2 ^ 1024 then F_inf (x < 0) else F_fin (if x < 0 then - v else v))"

section \<open>Operations\<close>

fun is_finite :: "f64 \<Rightarrow> bool" where
  "is_finite (F_fin _) = True"
| "is_finite _ = False"

fun f_less :: "f64 \<Rightarrow> f64 \<Rightarrow> bool" where
  "f_less (F_fin x) (F_fin y) = (x < y)"
| "f_less (F_fin _) (F_inf neg) = (\<not> neg)"
| "f_less (F_inf neg) (F_fin _) = neg"
| "f_less (F_inf a) (F_inf b) = (a \<and> \<not> b)"
| "f_less _ _ = False"

fun f_le :: "f64 \<Rightarrow> f64 \<Rightarrow> bool" where
  "f_le F_nan _ = False"
| "f_le _ F_nan = False"
| "f_le x y = (\<not> f_less y x)"

fun f_add :: "f64 \<Rightarrow> f64 \<Rightarrow> f64" where
  "f_add (F_fin x) (F_fin y) = round_f64 (x + y)"
| "f_add (F_fin _) (F_inf b) = F_inf b"
| "f_add (F_inf a) (F_fin _) = F_inf a"
| "f_add (F_inf a) (F_inf b) = (if a = b then F_inf a else F_nan)"
| "f_add _ _ = F_nan"

fun f_neg :: "f64 \<Rightarrow> f64" where
  "f_neg (F_fin x) = F_fin (- x)"
| "f_neg (F_inf a) = F_inf (\<not> a)"
| "f_neg F_nan = F_nan"

definition f_sub :: "f64 \<Rightarrow> f64 \<Rightarrow> f64" where
  "f_sub x y = f_add x (f_neg y)"

fun f_mul :: "f64 \<Rightarrow> f64 \<Rightarrow> f64" where
  "f_mul (F_fin x) (F_fin y) = round_f64 (x * y)"
| "f_mul (F_fin x) (F_inf b) = (if x = 0 then F_nan else F_inf ((x < 0) \<noteq> b))"
| "f_mul (F_inf a) (F_fin y) = (if y = 0 then F_nan else F_inf (a \<noteq> (y < 0)))"
| "f_mul (F_inf a) (F_inf b) = F_inf (a \<noteq> b)"
| "f_mul _ _ = F_nan"

fun f_div :: "f64 \<Rightarrow> f64 \<Rightarrow> f64" where
  "f_div (F_fin x) (F_fin y) =
     (if y = 0 then (if x = 0 then F_nan else F_inf (x < 0)) else round_f64 (x / y))"
| "f_div (F_fin _) (F_inf _) = F_fin 0"
| "f_div (F_inf a) (F_fin y) = F_inf (a \<noteq> (y < 0))"
| "f_div _ _ = F_nan"

definition f_clamp :: "f64 \<Rightarrow> f64 \<Rightarrow> f64 \<Rightarrow> f64" where
  "f_clamp lo hi x = (if f_less x lo then lo else if f_less hi x then hi else x)"

fun f_floor :: "f64 \<Rightarrow> f64" where
  "f_floor (F_fin x) = F_fin (of_int \<lfloor>x\<rfloor>)"
| "f_floor x = x"

text \<open>A cast to an integer truncates towards zero and saturates; NaN becomes zero.\<close>

fun f64_as_u64 :: "f64 \<Rightarrow> u64" where
  "f64_as_u64 (F_fin x) = (if x < 0 then 0 else if x \<ge> 2 ^ 64 then - 1 else word_of_int \<lfloor>x\<rfloor>)"
| "f64_as_u64 (F_inf neg) = (if neg then 0 else - 1)"
| "f64_as_u64 F_nan = 0"

definition f64_of_nat :: "nat \<Rightarrow> f64" where
  "f64_of_nat n = round_f64 (of_nat n)"

section \<open>Parsing\<close>

text \<open>The grammar of \<open>f64::from_str\<close>: a sign, then \<open>inf\<close>, \<open>infinity\<close>, \<open>nan\<close> in any case, or a
  decimal number with an optional fraction and exponent.\<close>

definition is_digit :: "char \<Rightarrow> bool" where
  "is_digit c \<longleftrightarrow> CHR ''0'' \<le> c \<and> c \<le> CHR ''9''"

definition digit_value :: "char \<Rightarrow> nat" where
  "digit_value c = of_char c - 48"

definition digits_value :: "string \<Rightarrow> nat" where
  "digits_value s = fold (\<lambda>c n. 10 * n + digit_value c) s 0"

definition char_lower :: "char \<Rightarrow> char" where
  "char_lower c = (if CHR ''A'' \<le> c \<and> c \<le> CHR ''Z'' then char_of (of_char c + 32 :: nat) else c)"

definition split_sign :: "string \<Rightarrow> bool \<times> string" where
  "split_sign s = (case s of
      c # rest \<Rightarrow> if c = CHR ''-'' then (True, rest) else if c = CHR ''+'' then (False, rest) else (False, s)
    | [] \<Rightarrow> (False, s))"

definition parse_exponent :: "string \<Rightarrow> int option" where
  "parse_exponent s = (case s of
      [] \<Rightarrow> Some 0
    | c # rest \<Rightarrow>
        if char_lower c \<noteq> CHR ''e'' then None
        else let (neg, ds) = split_sign rest in
          if ds = [] \<or> \<not> list_all is_digit ds then None
          else Some (if neg then - int (digits_value ds) else int (digits_value ds)))"

definition pow10_rat :: "int \<Rightarrow> rat" where
  "pow10_rat e = (if e \<ge> 0 then 10 ^ nat e else 1 / 10 ^ nat (- e))"

definition parse_number :: "string \<Rightarrow> rat option" where
  "parse_number s =
     (let whole = takeWhile is_digit s; rest = dropWhile is_digit s;
          (frac, rest) = (case rest of
              c # rest' \<Rightarrow> if c = CHR ''.'' then (takeWhile is_digit rest', dropWhile is_digit rest') else ([], rest)
            | [] \<Rightarrow> ([], rest))
      in if whole = [] \<and> frac = [] then None
         else case parse_exponent rest of
            None \<Rightarrow> None
          | Some e \<Rightarrow> Some (of_nat (digits_value (whole @ frac)) * pow10_rat (e - int (length frac))))"

definition parse_f64 :: "string \<Rightarrow> f64 option" where
  "parse_f64 s =
     (let (neg, body) = split_sign s; word = map char_lower body in
      if word = ''inf'' \<or> word = ''infinity'' then Some (F_inf neg)
      else if word = ''nan'' then Some F_nan
      else case parse_number body of
          None \<Rightarrow> None
        | Some x \<Rightarrow> Some (round_f64 (if neg then - x else x)))"

section \<open>Exact integers\<close>

lemma bit_length_le: "n < 2 ^ k \<Longrightarrow> bit_length n \<le> k"
proof (induction n arbitrary: k rule: bit_length.induct)
  case (1 n)
  then show ?case
  proof (cases k)
    case (Suc m)
    with 1 show ?thesis by (subst bit_length.simps) auto
  qed (simp add: bit_length.simps)
qed

lemma bit_length_1: "bit_length 1 = 1"
  using bit_length.simps [of 1] bit_length.simps [of 0] by simp

lemma rat_log2_nat:
  assumes "n < 2 ^ 53"
  shows "rat_log2 (of_nat n) \<le> 52"
proof -
  have q: "quotient_of (of_nat n) = (int n, 1)"
    using quotient_of_int [of "int n", unfolded Rat.of_int_def] by (simp only: of_int_of_nat_eq)
  have b: "int (bit_length n) - int (bit_length 1) \<le> 52"
    using bit_length_le [OF assms] by (simp only: bit_length_1)
  show ?thesis
    unfolding rat_log2_def q Let_def prod.case nat_int nat_one_as_int [symmetric]
    using b by (simp only: nat_1 One_nat_def split: if_split) auto
qed

lemma round_f64_exact:
  assumes "n < 2 ^ 53"
  shows "round_f64 (of_nat n) = F_fin (of_nat n)"
proof (cases "n = 0")
  case False
  define e where "e = max (- 1074) (rat_log2 (of_nat n) - 52)"
  have e: "e \<le> 0" using rat_log2_nat [OF assms] by (simp add: e_def)
  define j where "j = nat (- e)"
  have p: "pow2 e = 1 / 2 ^ j" using e by (cases "e = 0") (auto simp: pow2_def j_def)
  have "round_half_even (of_nat n / pow2 e) = int (n * 2 ^ j)"
  proof -
    have "(of_nat n / pow2 e :: rat) = of_int (int (n * 2 ^ j))" by (simp add: p)
    then show ?thesis unfolding round_half_even_def Let_def by (simp only: floor_of_int) simp
  qed
  then have v: "of_int (round_half_even (of_nat n / pow2 e)) * pow2 e = (of_nat n :: rat)"
    by (simp add: p)
  have "(of_nat n :: rat) < 2 ^ 1024"
  proof -
    have "n < 2 ^ 1024" using assms by (rule less_trans) simp
    then show ?thesis by (metis of_nat_less_iff of_nat_numeral of_nat_power)
  qed
  then show ?thesis using False v by (simp add: round_f64_def e_def [symmetric] Let_def)
qed (simp add: round_f64_def)

lemma f64_of_nat_exact: "n < 2 ^ 53 \<Longrightarrow> f64_of_nat n = F_fin (of_nat n)"
  by (simp add: f64_of_nat_def round_f64_exact)

end
