(* ===== verification/Balancer.thy ===== *)
theory Balancer
  imports Types Floats
begin

text \<open>
  The local quote of two-token weighted Balancer pools, \<open>crates/dex/src/balancer_v3.rs\<close>, in
  double arithmetic. \<open>powf\<close> is the platform's power function.
\<close>

definition balancer_max_in_ratio :: f64 where
  "balancer_max_in_ratio = round_f64 (3 / 10)"

definition balancer_haircut_bps :: f64 where
  "balancer_haircut_bps = F_fin 5"

definition balancer_fixed_point_one :: f64 where
  "balancer_fixed_point_one = round_f64 1000000000000000000"

text \<open>Every \<open>U256\<close> is below the largest double, so the conversion's error branches are dead;
  the finiteness check stays as the code has it.\<close>

definition u256_to_f64 :: "u256 \<Rightarrow> string + f64" where
  "u256_to_f64 v =
     (let parsed = f64_of_nat (unat v)
      in if \<not> is_finite parsed then Inl ''U256 to f64 conversion produced non-finite value'' else Inr parsed)"

definition f64_to_u256_floor :: "f64 \<Rightarrow> string + u256" where
  "f64_to_u256_floor value =
     (if \<not> is_finite value \<or> f_le value (F_fin 0) then Inl ''Balancer V3 quote produced non-positive output''
      else case f_floor value of
          F_fin x \<Rightarrow> if x < 2 ^ 256 then Inr (word_of_int \<lfloor>x\<rfloor>) else Inl ''f64 to U256 conversion failed''
        | _ \<Rightarrow> Inl ''f64 to U256 conversion failed'')"

definition balancer_fee_fraction :: "pool_state \<Rightarrow> string + f64" where
  "balancer_fee_fraction state =
     rbind (case ps_balancer_swap_fee_percentage state of
        Some fee \<Rightarrow> u256_to_f64 fee
      | None \<Rightarrow> Inr (f_mul (f64_of_nat (unat (ps_fee_bps state))) (round_f64 100000000000000))) (\<lambda>fee.
     Inr (f_div fee balancer_fixed_point_one))"

definition quote_weighted_exact_in ::
    "(f64 \<Rightarrow> f64 \<Rightarrow> f64) \<Rightarrow> pool_state \<Rightarrow> address \<Rightarrow> address \<Rightarrow> u256 \<Rightarrow> string + u256" where
  "quote_weighted_exact_in powf state token_in token_out amount_in_raw =
     rbind (ensure (amount_in_raw \<noteq> 0) ''Balancer V3 amount_in is zero'') (\<lambda>_.
     let token0_in = (token_in = ps_token0 state \<and> token_out = ps_token1 state);
         token1_in = (token_in = ps_token1 state \<and> token_out = ps_token0 state) in
     rbind (ensure (token0_in \<or> token1_in) ''Balancer V3 token pair mismatch'') (\<lambda>_.
     rbind (ok_or (ps_reserve0 state) ''Balancer V3 missing token0 scaled balance'') (\<lambda>reserve0.
     rbind (ok_or (ps_reserve1 state) ''Balancer V3 missing token1 scaled balance'') (\<lambda>reserve1.
     rbind (ok_or (ps_balancer_weight0 state) ''Balancer V3 missing token0 weight'') (\<lambda>weight0.
     rbind (ok_or (ps_balancer_weight1 state) ''Balancer V3 missing token1 weight'') (\<lambda>weight1.
     rbind (ok_or (ps_balancer_scaling_factor0 state) ''Balancer V3 missing token0 scaling factor'') (\<lambda>scaling0.
     rbind (ok_or (ps_balancer_scaling_factor1 state) ''Balancer V3 missing token1 scaling factor'') (\<lambda>scaling1.
     rbind (ok_or (ps_balancer_token_rate0 state) ''Balancer V3 missing token0 rate'') (\<lambda>rate0.
     rbind (ok_or (ps_balancer_token_rate1 state) ''Balancer V3 missing token1 rate'') (\<lambda>rate1.
     let (balance_in, weight_in, balance_out, weight_out, scaling_in, scaling_out, rate_in, rate_out) =
           (if token0_in then (reserve0, weight0, reserve1, weight1, scaling0, scaling1, rate0, rate1)
            else (reserve1, weight1, reserve0, weight0, scaling1, scaling0, rate1, rate0)) in
     rbind (u256_to_f64 balance_in) (\<lambda>balance_in.
     rbind (u256_to_f64 balance_out) (\<lambda>balance_out.
     rbind (u256_to_f64 weight_in) (\<lambda>weight_in.
     rbind (u256_to_f64 weight_out) (\<lambda>weight_out.
     rbind (u256_to_f64 scaling_in) (\<lambda>scaling_in.
     rbind (u256_to_f64 scaling_out) (\<lambda>scaling_out.
     rbind (u256_to_f64 rate_in) (\<lambda>rate_in.
     rbind (u256_to_f64 rate_out) (\<lambda>rate_out.
     rbind (u256_to_f64 amount_in_raw) (\<lambda>amount_in.
     rbind (ensure (\<not> (f_le balance_in (F_fin 0) \<or> f_le balance_out (F_fin 0) \<or>
                       f_le weight_in (F_fin 0) \<or> f_le weight_out (F_fin 0)))
              ''Balancer V3 invalid zero balance or weight'') (\<lambda>_.
     let amount_in_scaled = f_div (f_mul (f_mul amount_in scaling_in) rate_in) balancer_fixed_point_one in
     rbind (ensure (\<not> (\<not> is_finite amount_in_scaled \<or> f_le amount_in_scaled (F_fin 0)))
              ''Balancer V3 invalid scaled input amount'') (\<lambda>_.
     rbind (ensure (\<not> f_less (f_mul balance_in balancer_max_in_ratio) amount_in_scaled)
              ''Balancer V3 input exceeds weighted max in ratio'') (\<lambda>_.
     rbind (balancer_fee_fraction state) (\<lambda>fee_fraction.
     let amount_after_fee = f_mul amount_in_scaled
           (f_sub (F_fin 1) (f_clamp (F_fin 0) (round_f64 (99 / 100)) fee_fraction));
         base = f_div balance_in (f_add balance_in amount_after_fee);
         exponent = f_div weight_in weight_out;
         amount_out_scaled = f_mul balance_out (f_sub (F_fin 1) (powf base exponent));
         amount_out_raw = f_div (f_div (f_mul amount_out_scaled balancer_fixed_point_one) rate_out) scaling_out;
         amount_out_raw = f_mul amount_out_raw
           (f_sub (F_fin 1) (f_div balancer_haircut_bps (F_fin 10000)))
     in f64_to_u256_floor amount_out_raw)))))))))))))))))))))))"

section \<open>What a quote requires\<close>

lemma quote_weighted_inputs:
  assumes "quote_weighted_exact_in powf p t_in t_out a = Inr out"
  shows "a \<noteq> 0" "{t_in, t_out} = {ps_token0 p, ps_token1 p}"
    "ps_reserve0 p \<noteq> None" "ps_reserve1 p \<noteq> None"
  using assms unfolding quote_weighted_exact_in_def Let_def
  by (auto simp del: not_le)

end
