(* ===== verification/Search_Dynamic.thy ===== *)
theory Search_Dynamic
  imports Search_Graph Aerodrome Uniswap_V3 Balancer
begin

text \<open>
  The cycles of three and four pools that the searcher builds when pools change,
  \<open>crates/searcher/src/strategy.rs\<close>: paths through a changed edge are put together from the
  memoised segments, checked, deduplicated by their fingerprint, scored with cheap upper-bound
  quotes, and the best five thousand are kept. \<open>powf\<close> is the platform's power function, used by
  weighted Balancer pools.
\<close>

section \<open>Rough quotes\<close>

fun pow10_saturating :: "nat \<Rightarrow> u256 \<Rightarrow> u256" where
  "pow10_saturating 0 v = v"
| "pow10_saturating (Suc n) v = pow10_saturating n (saturating_mul v 10)"

definition pow10_u256 :: "u8 \<Rightarrow> u256" where
  "pow10_u256 decimals = pow10_saturating (unat decimals) 1"

definition decimal_normalized_optimistic_quote ::
    "pool_state \<Rightarrow> address \<Rightarrow> address \<Rightarrow> u256 \<Rightarrow> rough_quote_failure + u256" where
  "decimal_normalized_optimistic_quote state token_in token_out amount_in =
     (if \<not> (token_in = ps_token0 state \<and> token_out = ps_token1 state \<or>
              token_in = ps_token1 state \<and> token_out = ps_token0 state)
      then Inl TokenMismatch
      else
        rbind (ok_or (ps_token0_decimals state) MissingDecimals) (\<lambda>decimals0.
        rbind (ok_or (ps_token1_decimals state) MissingDecimals) (\<lambda>decimals1.
        let (decimals_in, decimals_out) =
              (if token_in = ps_token0 state then (decimals0, decimals1) else (decimals1, decimals0));
            normalized = (case checked_div (saturating_mul amount_in (pow10_u256 decimals_out)) (pow10_u256 decimals_in) of
              None \<Rightarrow> - 1 | Some v \<Rightarrow> v)
        in Inr (max (saturating_mul normalized 1000) 1))))"

definition classify_v3_spot_quote_failure :: "arb_bot_error \<Rightarrow> rough_quote_failure" where
  "classify_v3_spot_quote_failure err =
     (let message = arb_bot_error_to_string err in
      if str_contains message ''token_in not in pool'' then TokenMismatch
      else if str_contains message ''missing sqrt_price_x96'' \<or> str_contains message ''empty sqrt_price_x96''
      then MissingV3State
      else if str_contains message ''overflow'' then V3SpotOverflow
      else V3SpotQuoteFailed)"

definition rough_aerodrome_quote :: "owned_pool_edge \<Rightarrow> pool_state \<Rightarrow> u256 \<Rightarrow> rough_quote_failure + u256" where
  "rough_aerodrome_quote edge state amount_in =
     rbind (ok_or (ps_reserve0 state) MissingReserves) (\<lambda>reserve0.
     rbind (ok_or (ps_reserve1 state) MissingReserves) (\<lambda>reserve1.
     rbind (if oe_token_in edge = ps_token0 state then Inr (reserve0, reserve1)
            else if oe_token_in edge = ps_token1 state then Inr (reserve1, reserve0)
            else Inl TokenMismatch) (\<lambda>(reserve_in, reserve_out).
     if ps_stable state = Some True then
       rbind (ok_or (ps_token0_decimals state) MissingDecimals) (\<lambda>decimals0.
       rbind (ok_or (ps_token1_decimals state) MissingDecimals) (\<lambda>decimals1.
       let (decimals_in, decimals_out) =
             (if oe_token_in edge = ps_token0 state then (decimals0, decimals1) else (decimals1, decimals0)) in
       map_err (\<lambda>_. StableQuoteFailed)
         (stable_quote_amount_out reserve_in reserve_out amount_in (ps_fee_bps state) decimals_in decimals_out)))
     else map_err (\<lambda>_. V2QuoteFailed)
         (volatile_quote_amount_out reserve_in reserve_out amount_in (ps_fee_bps state)))))"

definition rough_balancer_quote ::
    "(f64 \<Rightarrow> f64 \<Rightarrow> f64) \<Rightarrow> owned_pool_edge \<Rightarrow> pool_state \<Rightarrow> u256 \<Rightarrow> rough_quote_failure + u256" where
  "rough_balancer_quote powf edge state amount_in =
     (if ps_balancer_model state = Some ''weighted'' then
        map_err (\<lambda>_. BalancerQuoteFailed)
          (quote_weighted_exact_in powf state (oe_token_in edge) (oe_token_out edge) amount_in)
      else decimal_normalized_optimistic_quote state (oe_token_in edge) (oe_token_out edge) amount_in)"

definition rough_quote_edge_upper_bound ::
    "(f64 \<Rightarrow> f64 \<Rightarrow> f64) \<Rightarrow> owned_pool_edge \<Rightarrow> pool_state \<Rightarrow> u256 \<Rightarrow> rough_quote_failure + u256" where
  "rough_quote_edge_upper_bound powf edge state amount_in =
     (case ps_variant state of
        AerodromeVolatile \<Rightarrow> rough_aerodrome_quote edge state amount_in
      | BalancerV3 \<Rightarrow> rough_balancer_quote powf edge state amount_in
      | _ \<Rightarrow> map_err classify_v3_spot_quote_failure (spot_quote_exact_in state (oe_token_in edge) amount_in))"

fun should_include_rough_quote_failure :: "rough_quote_failure \<Rightarrow> pool_variant option \<Rightarrow> bool" where
  "should_include_rough_quote_failure V3SpotQuoteFailed variant \<longleftrightarrow> True"
| "should_include_rough_quote_failure V3SpotOverflow variant \<longleftrightarrow> True"
| "should_include_rough_quote_failure MissingDecimals variant \<longleftrightarrow> variant = Some BalancerV3"
| "should_include_rough_quote_failure _ variant \<longleftrightarrow> False"

definition rough_path_preview :: "address \<Rightarrow> owned_pool_edge list \<Rightarrow> string" where
  "rough_path_preview anchor edges =
     join_with ''->'' (address_hex anchor #
       map (\<lambda>e. address_hex (oe_token_out e) @ ''['' @ address_hex (oe_pool e) @ '']'') edges)"

section \<open>Scoring a cycle\<close>

definition build_dynamic_multihop_search_path ::
    "libs \<Rightarrow> graph_snapshot \<Rightarrow> anchor_search_config \<Rightarrow> owned_pool_edge list \<Rightarrow> search_path" where
  "build_dynamic_multihop_search_path lib g anchor edges =
     (let pools = join_with ''-'' (map (\<lambda>e. pool_label (edge_state g e)) edges);
          name = ''cycle'' @ nat_dec (length edges) @ ''-'' @ short_token (an_token anchor) @ ''-'' @ pools
      in \<lparr>sp_path = \<lparr>ap_name = name,
            ap_steps = map (\<lambda>e. swap_step_from_pool lib (edge_state g e) (oe_token_in e) (oe_token_out e)) edges,
            ap_diagnostics = None\<rparr>,
          sp_amount_sizes = an_amount_sizes anchor, sp_min_profit = an_min_profit anchor,
          sp_strategy = ''token-'' @ nat_dec (length edges) @ ''-pool-cycle''\<rparr>)"

record scored_dynamic_path =
  sd_path :: search_path
  sd_score_bps :: u256
  sd_estimated_profit :: u256

record rough_score =
  rs_best_score_bps :: u256
  rs_best_profit :: u256
  rs_quote_failure :: "rough_quote_failure option"
  rs_quote_failure_variant :: "pool_variant option"
  rs_quote_failure_sample :: "rough_quote_failure_sample option"
  rs_below_min :: bool

definition get_or_insert :: "'a \<Rightarrow> 'a option \<Rightarrow> 'a option" where
  "get_or_insert x v = (case v of None \<Rightarrow> Some x | Some y \<Rightarrow> Some y)"

text \<open>One amount along the edges: the final amount, or the failure with its edge and input.\<close>

fun rough_quote_edges ::
    "(f64 \<Rightarrow> f64 \<Rightarrow> f64) \<Rightarrow> graph_snapshot \<Rightarrow> owned_pool_edge list \<Rightarrow> u256 \<Rightarrow>
     (rough_quote_failure \<times> owned_pool_edge \<times> u256) + u256" where
  "rough_quote_edges powf g [] amount = Inr amount"
| "rough_quote_edges powf g (e # es) amount =
     (case rough_quote_edge_upper_bound powf e (edge_state g e) amount of
        Inl reason \<Rightarrow> Inl (reason, e, amount)
      | Inr next_amount \<Rightarrow>
          if next_amount = 0 then Inl (ZeroOutput, e, amount) else rough_quote_edges powf g es next_amount)"

definition note_rough_failure ::
    "graph_snapshot \<Rightarrow> anchor_search_config \<Rightarrow> owned_pool_edge list \<Rightarrow> u256 \<Rightarrow>
     rough_quote_failure \<times> owned_pool_edge \<times> u256 \<Rightarrow> rough_score \<Rightarrow> rough_score" where
  "note_rough_failure g anchor edges amount_in = (\<lambda>(reason, e, amount) r.
     r\<lparr>rs_quote_failure := get_or_insert reason (rs_quote_failure r),
       rs_quote_failure_variant := get_or_insert (ps_variant (edge_state g e)) (rs_quote_failure_variant r),
       rs_quote_failure_sample := get_or_insert
         \<lparr>rf_reason = reason, rf_anchor = an_token anchor, rf_amount_in = amount_in, rf_failed_amount_in = amount,
          rf_failed_pool = oe_pool e, rf_token_in = oe_token_in e, rf_token_out = oe_token_out e,
          rf_variant = ps_variant (edge_state g e), rf_path_preview = rough_path_preview (an_token anchor) edges\<rparr>
         (rs_quote_failure_sample r)\<rparr>)"

text \<open>The loop over the amounts; \<open>None\<close> is the early return of the score's overflow.\<close>

fun score_amounts ::
    "(f64 \<Rightarrow> f64 \<Rightarrow> f64) \<Rightarrow> graph_snapshot \<Rightarrow> anchor_search_config \<Rightarrow> owned_pool_edge list \<Rightarrow> u256 list \<Rightarrow>
     rough_score \<Rightarrow> rough_score option" where
  "score_amounts powf g anchor edges [] r = Some r"
| "score_amounts powf g anchor edges (amount_in # amounts) r =
     (if amount_in = 0 then score_amounts powf g anchor edges amounts r
      else case rough_quote_edges powf g edges amount_in of
        Inl failure \<Rightarrow> score_amounts powf g anchor edges amounts (note_rough_failure g anchor edges amount_in failure r)
      | Inr amount \<Rightarrow>
          let estimated_profit = saturating_sub amount amount_in in
          if estimated_profit < an_min_profit anchor
          then score_amounts powf g anchor edges amounts (r\<lparr>rs_below_min := True\<rparr>)
          else case Option.bind (checked_mul amount 10000) (\<lambda>v. checked_div v amount_in) of
            None \<Rightarrow> None
          | Some score_bps \<Rightarrow>
              score_amounts powf g anchor edges amounts
                (if score_bps > rs_best_score_bps r \<or>
                    score_bps = rs_best_score_bps r \<and> estimated_profit > rs_best_profit r
                 then r\<lparr>rs_best_score_bps := score_bps, rs_best_profit := estimated_profit\<rparr> else r))"

definition score_dynamic_multihop_path ::
    "libs \<Rightarrow> (f64 \<Rightarrow> f64 \<Rightarrow> f64) \<Rightarrow> graph_snapshot \<Rightarrow> anchor_search_config \<Rightarrow> owned_pool_edge list \<Rightarrow> search_stats \<Rightarrow>
     scored_dynamic_path option \<times> search_stats" where
  "score_dynamic_multihop_path lib powf g anchor edges stats =
     (case score_amounts powf g anchor edges (an_amount_sizes anchor)
        \<lparr>rs_best_score_bps = 0, rs_best_profit = 0, rs_quote_failure = None, rs_quote_failure_variant = None,
         rs_quote_failure_sample = None, rs_below_min = False\<rparr> of
        None \<Rightarrow> (None, stats)
      | Some r \<Rightarrow>
          if rs_best_score_bps r = 0 then
            (case rs_quote_failure r of
              Some reason \<Rightarrow>
                (let stats = stats\<lparr>ss_dm_rough_quote_failed := ss_dm_rough_quote_failed stats + 1\<rparr>;
                     stats = record_rough_quote_failure reason stats;
                     stats = (case rs_quote_failure_sample r of
                        None \<Rightarrow> stats | Some sample \<Rightarrow> record_rough_quote_failure_sample sample stats)
                 in if should_include_rough_quote_failure reason (rs_quote_failure_variant r)
                    then (Some \<lparr>sd_path = build_dynamic_multihop_search_path lib g anchor edges,
                            sd_score_bps = 1, sd_estimated_profit = 0\<rparr>,
                          stats\<lparr>ss_dm_rough_quote_included := ss_dm_rough_quote_included stats + 1\<rparr>)
                    else (None, stats\<lparr>ss_dm_rough_quote_dropped := ss_dm_rough_quote_dropped stats + 1\<rparr>))
            | None \<Rightarrow>
                (None, if rs_below_min r
                       then stats\<lparr>ss_dm_rough_profit_below_min := ss_dm_rough_profit_below_min stats + 1\<rparr>
                       else stats))
          else (Some \<lparr>sd_path = build_dynamic_multihop_search_path lib g anchor edges,
                  sd_score_bps = rs_best_score_bps r, sd_estimated_profit = rs_best_profit r\<rparr>, stats))"

section \<open>Cycles through a changed edge\<close>

definition is_valid_dynamic_cycle :: "address \<Rightarrow> owned_pool_edge list \<Rightarrow> bool" where
  "is_valid_dynamic_cycle anchor edges \<longleftrightarrow>
     \<not> (edges = [] \<or> oe_token_in (hd edges) \<noteq> anchor \<or> oe_token_out (last edges) \<noteq> anchor) \<and>
     distinct (map oe_pool edges) \<and>
     (let intermediate = map oe_token_out (butlast edges) in anchor \<notin> set intermediate \<and> distinct intermediate)"

definition cycle_fingerprint :: "address \<Rightarrow> owned_pool_edge list \<Rightarrow> string" where
  "cycle_fingerprint anchor edges =
     address_hex anchor @ concat (map (\<lambda>e. ''|'' @ address_hex (oe_pool e) @ '':'' @ address_hex (oe_token_in e) @
       ''->'' @ address_hex (oe_token_out e)) edges)"

definition max_dynamic_multihop_candidates_per_scan :: usize where
  "max_dynamic_multihop_candidates_per_scan = 20000"

definition max_dynamic_multihop_paths_per_scan :: usize where
  "max_dynamic_multihop_paths_per_scan = 5000"

text \<open>What the scan mutates.\<close>

record dynamic_scan =
  dy_paths :: "scored_dynamic_path list"
  dy_seen :: "string list"
  dy_cache :: segment_path_cache
  dy_stats :: search_stats

definition try_dynamic_cycle ::
    "libs \<Rightarrow> (f64 \<Rightarrow> f64 \<Rightarrow> f64) \<Rightarrow> graph_snapshot \<Rightarrow> anchor_search_config \<Rightarrow> owned_pool_edge list \<Rightarrow>
     dynamic_scan \<Rightarrow> dynamic_scan \<times> bool" where
  "try_dynamic_cycle lib powf g anchor cycle s =
     (let stats = dy_stats s in
      if \<not> is_valid_dynamic_cycle (an_token anchor) cycle
      then (s\<lparr>dy_stats := stats\<lparr>ss_dm_invalid_cycle := ss_dm_invalid_cycle stats + 1\<rparr>\<rparr>, False)
      else let fingerprint = cycle_fingerprint (an_token anchor) cycle in
        if fingerprint \<in> set (dy_seen s)
        then (s\<lparr>dy_stats := stats\<lparr>ss_dm_duplicate_cycle := ss_dm_duplicate_cycle stats + 1\<rparr>\<rparr>, False)
        else let s = s\<lparr>dy_seen := fingerprint # dy_seen s\<rparr>;
                 (scored, stats) = score_dynamic_multihop_path lib powf g anchor cycle stats;
                 s = s\<lparr>dy_stats := stats\<rparr>
          in case scored of
            None \<Rightarrow> (s, False)
          | Some scored_path \<Rightarrow>
              let s = s\<lparr>dy_paths := dy_paths s @ [scored_path]\<rparr>
              in (s, length (dy_paths s) \<ge> max_dynamic_multihop_candidates_per_scan))"

definition cycles_at_position ::
    "libs \<Rightarrow> (f64 \<Rightarrow> f64 \<Rightarrow> f64) \<Rightarrow> graph_snapshot \<Rightarrow> anchor_search_config \<Rightarrow> owned_pool_edge \<Rightarrow> usize \<Rightarrow>
     address set \<Rightarrow> usize \<Rightarrow> dynamic_scan \<Rightarrow> dynamic_scan \<times> bool" where
  "cycles_at_position lib powf g anchor changed_edge cycle_len priority changed_position s =
     (let (cache, prefixes) = segment_get g (an_token anchor) (oe_token_in changed_edge) changed_position
            priority (dy_cache s);
          s = s\<lparr>dy_cache := cache\<rparr> in
      if prefixes = []
      then (s\<lparr>dy_stats := (dy_stats s)\<lparr>ss_dm_prefix_empty := ss_dm_prefix_empty (dy_stats s) + 1\<rparr>\<rparr>, False)
      else
        let (cache, suffixes) = segment_get g (oe_token_out changed_edge) (an_token anchor)
              (cycle_len - changed_position - 1) priority (dy_cache s);
            s = s\<lparr>dy_cache := cache\<rparr> in
        if suffixes = []
        then (s\<lparr>dy_stats := (dy_stats s)\<lparr>ss_dm_suffix_empty := ss_dm_suffix_empty (dy_stats s) + 1\<rparr>\<rparr>, False)
        else for_loop (\<lambda>prefix. for_loop (\<lambda>suffix.
               try_dynamic_cycle lib powf g anchor (prefix @ [changed_edge] @ suffix)) suffixes) prefixes s)"

definition add_dynamic_cycles_for_changed_edge ::
    "libs \<Rightarrow> (f64 \<Rightarrow> f64 \<Rightarrow> f64) \<Rightarrow> graph_snapshot \<Rightarrow> anchor_search_config \<Rightarrow> owned_pool_edge \<Rightarrow> usize \<Rightarrow>
     address set \<Rightarrow> dynamic_scan \<Rightarrow> dynamic_scan" where
  "add_dynamic_cycles_for_changed_edge lib powf g anchor changed_edge cycle_len priority s =
     (let s = s\<lparr>dy_stats := (dy_stats s)\<lparr>ss_dm_changed_edges := ss_dm_changed_edges (dy_stats s) + 1\<rparr>\<rparr>
      in fst (for_loop (cycles_at_position lib powf g anchor changed_edge cycle_len priority) [0..<cycle_len] s))"

definition select_dynamic_paths :: "scored_dynamic_path list \<Rightarrow> search_path list" where
  "select_dynamic_paths paths =
     map sd_path (take max_dynamic_multihop_paths_per_scan
       (sort_key (\<lambda>p. (desc_key (sd_score_bps p), desc_key (sd_estimated_profit p), ap_name (sp_path (sd_path p)))) paths))"

definition scan_changed_edge ::
    "libs \<Rightarrow> (f64 \<Rightarrow> f64 \<Rightarrow> f64) \<Rightarrow> graph_snapshot \<Rightarrow> address set \<Rightarrow> anchor_search_config \<Rightarrow> owned_pool_edge \<Rightarrow>
     dynamic_scan \<Rightarrow> dynamic_scan \<times> bool" where
  "scan_changed_edge lib powf g priority anchor changed_edge s =
     (let s = add_dynamic_cycles_for_changed_edge lib powf g anchor changed_edge 3 priority s;
          s = add_dynamic_cycles_for_changed_edge lib powf g anchor changed_edge 4 priority s
      in (s, length (dy_paths s) \<ge> max_dynamic_multihop_candidates_per_scan))"

text \<open>\<open>changed\<close> lists the changed pools in the iteration order of their hash set.\<close>

definition dynamic_multihop_paths_for_changed_pools ::
    "libs \<Rightarrow> (f64 \<Rightarrow> f64 \<Rightarrow> f64) \<Rightarrow> 's search_engine \<Rightarrow> graph_snapshot \<Rightarrow> address list \<Rightarrow> search_path list \<times> search_stats" where
  "dynamic_multihop_paths_for_changed_pools lib powf eng g changed =
     (let stats = search_stats_default in
      if \<not> se_multihop_enabled eng \<or> changed = [] then ([], stats)
      else
        let stats = stats\<lparr>ss_dm_anchors := word_of_nat (length (se_anchor_configs eng))\<rparr> in
        if se_anchor_configs eng = [] then ([], stats)
        else
          let priority = bounded_priority_pools g (set changed);
              stats = stats\<lparr>ss_dm_priority_edges := word_of_nat (bp_selected_edges priority),
                            ss_dm_priority_edges_dropped := word_of_nat (bp_dropped_edges priority)\<rparr>;
              (s, capped) = for_loop (\<lambda>anchor. for_loop (\<lambda>changed_pool s.
                  case pool_edges g changed_pool of
                    None \<Rightarrow> (s, False)
                  | Some changed_edges \<Rightarrow>
                      for_loop (scan_changed_edge lib powf g (bp_pools priority) anchor) changed_edges s)
                changed) (se_anchor_configs eng)
                \<lparr>dy_paths = [], dy_seen = [], dy_cache = segment_path_cache_default, dy_stats = stats\<rparr>;
              stats = (if capped
                       then (dy_stats s)\<lparr>ss_dm_candidate_cap_hit := ss_dm_candidate_cap_hit (dy_stats s) + 1\<rparr>
                       else dy_stats s);
              selected = select_dynamic_paths (dy_paths s)
          in (selected, stats\<lparr>ss_dm_paths := word_of_nat (length selected)\<rparr>))"

section \<open>What a scan finds\<close>

fun edge_chain :: "address \<Rightarrow> owned_pool_edge list \<Rightarrow> address \<Rightarrow> bool" where
  "edge_chain a [] b \<longleftrightarrow> a = b"
| "edge_chain a (e # es) b \<longleftrightarrow> oe_token_in e = a \<and> edge_chain (oe_token_out e) es b"

lemma edge_chain_append [simp]:
  "edge_chain a (es @ es') b \<longleftrightarrow> (\<exists>c. edge_chain a es c \<and> edge_chain c es' b)"
  by (induction es arbitrary: a) auto

definition edge_wf :: "graph_snapshot \<Rightarrow> owned_pool_edge \<Rightarrow> bool" where
  "edge_wf g e \<longleftrightarrow>
     oe_state_index e < length (gs_pool_states g) \<and> is_supported_pool (edge_state g e) \<and>
     oe_pool e = ps_address (edge_state g e) \<and>
     {oe_token_in e, oe_token_out e} = {ps_token0 (edge_state g e), ps_token1 (edge_state g e)}"

definition graph_ok :: "graph_snapshot \<Rightarrow> bool" where
  "graph_ok g \<longleftrightarrow>
     (\<forall>token es. map_of (gs_edges_by_token g) token = Some es \<longrightarrow>
        (\<forall>e \<in> set es. oe_token_in e = token \<and> edge_wf g e)) \<and>
     (\<forall>pool es. map_of (gs_pool_to_edges g) pool = Some es \<longrightarrow>
        (\<forall>e \<in> set es. oe_pool e = pool \<and> edge_wf g e))"

lemma map_of_map_values: "map_of (map (\<lambda>(k, v). (k, f v)) m) k = map_option f (map_of m k)"
  by (induction m) auto

lemma map_of_entry_all_mem:
  "map_of (entry_all key val xs) k = Some vs \<Longrightarrow> v \<in> set vs \<Longrightarrow> \<exists>x \<in> set xs. key x = k \<and> v = val x"
  by (auto simp: map_of_entry_all Let_def split: if_splits)

lemma graph_edges_wf:
  assumes "e \<in> set (graph_edges states)" "list_all is_supported_pool states"
    "gs_pool_states g = states"
  shows "edge_wf g e"
  using assms
  by (auto simp: graph_edges_def edges_of_state_def edge_wf_def edge_state_def in_set_enumerate_eq list_all_length)

lemma graph_ok_new: "graph_ok (graph_snapshot_new pool_states)"
proof -
  let ?g = "graph_snapshot_new pool_states"
  let ?edges = "graph_edges (filter is_supported_pool pool_states)"
  have wf: "edge_wf ?g e" if "e \<in> set ?edges" for e
    using graph_edges_wf [OF that] by (simp add: graph_snapshot_new_def Let_def list_all_iff)
  have "oe_token_in e = token \<and> edge_wf ?g e"
    if "map_of (gs_edges_by_token ?g) token = Some es" "e \<in> set es" for token es e
    using that map_of_entry_all_mem [of oe_token_in "\<lambda>e. e" ?edges token _ e] wf
    by (auto simp: graph_snapshot_new_def Let_def map_of_map_values)
  moreover have "oe_pool e = pool \<and> edge_wf ?g e"
    if "map_of (gs_pool_to_edges ?g) pool = Some es" "e \<in> set es" for pool es e
    using that map_of_entry_all_mem [of oe_pool "\<lambda>e. e" ?edges pool es e] wf
    by (auto simp: graph_snapshot_new_def Let_def)
  ultimately show ?thesis by (simp add: graph_ok_def)
qed

lemma candidate_edges_ok:
  assumes "graph_ok g" "e \<in> set (candidate_edges_from_token g token priority)"
  shows "oe_token_in e = token" "edge_wf g e"
proof -
  obtain es where "map_of (gs_edges_by_token g) token = Some es" "e \<in> set es"
    using assms(2) by (cases "map_of (gs_edges_by_token g) token")
      (auto simp: candidate_edges_from_token_def dest: in_set_takeD in_set_dropD)
  then show "oe_token_in e = token" "edge_wf g e" using assms(1) by (auto simp: graph_ok_def)
qed

lemma walks_ok:
  assumes "graph_ok g" "w \<in> set (walks g priority end_token n token used_pools)"
  shows "length w = n" "edge_chain token w end_token" "\<forall>e \<in> set w. edge_wf g e"
proof -
  have "length w = n \<and> edge_chain token w end_token \<and> (\<forall>e \<in> set w. edge_wf g e)"
    using assms(2)
  proof (induction n arbitrary: w token used_pools)
    case (Suc n)
    then obtain e w' where "e \<in> set (candidate_edges_from_token g token priority)" "w = e # w'"
      "w' \<in> set (walks g priority end_token n (oe_token_out e) (insert (oe_pool e) used_pools))"
      by (auto split: if_splits)
    then show ?case using Suc.IH candidate_edges_ok [OF assms(1)] by auto
  qed (simp split: if_splits)
  then show "length w = n" "edge_chain token w end_token" "\<forall>e \<in> set w. edge_wf g e" by simp_all
qed

definition found_cycle ::
    "graph_snapshot \<Rightarrow> anchor_search_config \<Rightarrow> address set \<Rightarrow> usize \<Rightarrow> owned_pool_edge list \<Rightarrow> bool" where
  "found_cycle g anchor changed n cycle \<longleftrightarrow>
     length cycle = n \<and> edge_chain (an_token anchor) cycle (an_token anchor) \<and>
     (\<forall>e \<in> set cycle. edge_wf g e) \<and> (\<exists>e \<in> set cycle. oe_pool e \<in> changed)"

definition found_path ::
    "libs \<Rightarrow> graph_snapshot \<Rightarrow> anchor_search_config list \<Rightarrow> address set \<Rightarrow> search_path \<Rightarrow> bool" where
  "found_path lib g anchors changed sp \<longleftrightarrow>
     (\<exists>anchor \<in> set anchors. \<exists>n \<in> {3, 4}. \<exists>cycle. found_cycle g anchor changed n cycle \<and>
        is_valid_dynamic_cycle (an_token anchor) cycle \<and>
        sp = build_dynamic_multihop_search_path lib g anchor cycle)"

definition scan_ok ::
    "libs \<Rightarrow> graph_snapshot \<Rightarrow> address set \<Rightarrow> anchor_search_config list \<Rightarrow> address set \<Rightarrow> dynamic_scan \<Rightarrow> bool" where
  "scan_ok lib g priority anchors changed s \<longleftrightarrow>
     cache_ok g priority (dy_cache s) \<and> list_all (\<lambda>p. found_path lib g anchors changed (sd_path p)) (dy_paths s)"

lemma score_path:
  "score_dynamic_multihop_path lib powf g anchor edges stats = (Some p, stats') \<Longrightarrow>
     sd_path p = build_dynamic_multihop_search_path lib g anchor edges"
  by (auto simp: score_dynamic_multihop_path_def Let_def split: option.splits if_splits)

lemma scan_ok_simps [simp]:
  "scan_ok lib g priority anchors changed (s\<lparr>dy_stats := stats\<rparr>) = scan_ok lib g priority anchors changed s"
  "scan_ok lib g priority anchors changed (s\<lparr>dy_seen := seen\<rparr>) = scan_ok lib g priority anchors changed s"
  by (simp_all add: scan_ok_def)

lemma scan_ok_cache:
  "scan_ok lib g priority anchors changed s \<Longrightarrow> cache_ok g priority c \<Longrightarrow>
     scan_ok lib g priority anchors changed (s\<lparr>dy_cache := c\<rparr>)"
  by (simp add: scan_ok_def)

lemma scan_ok_push:
  "scan_ok lib g priority anchors changed s \<Longrightarrow> found_path lib g anchors changed (sd_path p) \<Longrightarrow>
     scan_ok lib g priority anchors changed (s\<lparr>dy_paths := dy_paths s @ [p]\<rparr>)"
  by (simp add: scan_ok_def)

lemma try_dynamic_cycle_ok:
  assumes "scan_ok lib g priority anchors changed s" "anchor \<in> set anchors" "n \<in> {3, 4}"
    "found_cycle g anchor changed n cycle"
  shows "scan_ok lib g priority anchors changed (fst (try_dynamic_cycle lib powf g anchor cycle s))"
proof (cases "is_valid_dynamic_cycle (an_token anchor) cycle \<and>
    cycle_fingerprint (an_token anchor) cycle \<notin> set (dy_seen s)")
  case True
  obtain scored stats where sc: "score_dynamic_multihop_path lib powf g anchor cycle (dy_stats s) = (scored, stats)"
    by fastforce
  have "found_path lib g anchors changed (build_dynamic_multihop_search_path lib g anchor cycle)"
    using assms(2-4) True unfolding found_path_def by blast
  then have "found_path lib g anchors changed (sd_path p)" if "scored = Some p" for p
    using score_path sc that by metis
  then show ?thesis
    using True assms(1) sc scan_ok_push
      [of lib g priority anchors changed
        "s\<lparr>dy_seen := cycle_fingerprint (an_token anchor) cycle # dy_seen s, dy_stats := stats\<rparr>"]
    by (cases scored) (simp_all add: try_dynamic_cycle_def Let_def)
next
  case False
  then show ?thesis using assms(1) by (auto simp: try_dynamic_cycle_def Let_def)
qed

lemma segment_get_ok:
  assumes "graph_ok g" "cache_ok g priority c" "segment_get g start end_token n priority c = (c', paths)"
  shows "cache_ok g priority c'"
    "\<And>w. w \<in> set paths \<Longrightarrow> length w = n \<and> edge_chain start w end_token \<and> (\<forall>e \<in> set w. edge_wf g e)"
proof -
  have exact: "paths = take max_dynamic_segment_paths (walks g priority end_token n start {})" "cache_ok g priority c'"
    using segment_get_exact [OF assms(2), of start end_token n] unfolding assms(3) by simp_all
  show "cache_ok g priority c'" by (rule exact(2))
  fix w
  assume "w \<in> set paths"
  then have "w \<in> set (walks g priority end_token n start {})" unfolding exact(1) by (rule in_set_takeD)
  from walks_ok [OF assms(1) this]
  show "length w = n \<and> edge_chain start w end_token \<and> (\<forall>e \<in> set w. edge_wf g e)" by simp
qed

lemma cycles_at_position_ok:
  assumes "graph_ok g" "scan_ok lib g priority anchors changed s" "anchor \<in> set anchors" "n \<in> {3, 4}"
    "edge_wf g changed_edge" "oe_pool changed_edge \<in> changed" "i < n"
  shows "scan_ok lib g priority anchors changed
    (fst (cycles_at_position lib powf g anchor changed_edge n priority i s))"
proof -
  obtain c prefixes where p: "segment_get g (an_token anchor) (oe_token_in changed_edge) i priority (dy_cache s) = (c, prefixes)"
    by fastforce
  obtain c' suffixes where q: "segment_get g (oe_token_out changed_edge) (an_token anchor) (n - i - 1) priority c = (c', suffixes)"
    by fastforce
  have c0: "cache_ok g priority (dy_cache s)" using assms(2) by (simp add: scan_ok_def)
  note prefix = segment_get_ok [OF assms(1) c0 p]
  note suffix = segment_get_ok [OF assms(1) prefix(1) q]
  have cycle: "found_cycle g anchor changed n (prefix @ [changed_edge] @ suffix)"
    if "prefix \<in> set prefixes" "suffix \<in> set suffixes" for prefix suffix
    using prefix(2) [OF that(1)] suffix(2) [OF that(2)] assms(5-7) by (auto simp: found_cycle_def)
  have "scan_ok lib g priority anchors changed (fst (for_loop (\<lambda>prefix. for_loop (\<lambda>suffix.
      try_dynamic_cycle lib powf g anchor (prefix @ [changed_edge] @ suffix)) suffixes) prefixes (s\<lparr>dy_cache := c'\<rparr>)))"
    by (intro for_loop_invariant [where P = "scan_ok lib g priority anchors changed"] try_dynamic_cycle_ok [OF _ assms(3,4) cycle] scan_ok_cache assms(2) suffix(1))
  then show ?thesis
    using scan_ok_cache [OF assms(2) prefix(1)] scan_ok_cache [OF assms(2) suffix(1)]
    by (simp add: cycles_at_position_def p q [simplified] Let_def del: append.simps)
qed

lemma add_dynamic_cycles_ok:
  assumes "graph_ok g" "scan_ok lib g priority anchors changed s" "anchor \<in> set anchors" "n \<in> {3, 4}"
    "edge_wf g changed_edge" "oe_pool changed_edge \<in> changed"
  shows "scan_ok lib g priority anchors changed
    (add_dynamic_cycles_for_changed_edge lib powf g anchor changed_edge n priority s)"
  unfolding add_dynamic_cycles_for_changed_edge_def Let_def
  by (rule for_loop_invariant)
    (simp_all add: assms(2) cycles_at_position_ok [OF assms(1) _ assms(3-6)])

lemma scan_changed_edge_ok:
  assumes "graph_ok g" "scan_ok lib g priority anchors changed s" "anchor \<in> set anchors"
    "edge_wf g changed_edge" "oe_pool changed_edge \<in> changed"
  shows "scan_ok lib g priority anchors changed (fst (scan_changed_edge lib powf g priority anchor changed_edge s))"
  unfolding scan_changed_edge_def Let_def fst_conv
  by (intro add_dynamic_cycles_ok assms) simp_all

lemma dynamic_paths_found:
  assumes "graph_ok g"
    "sp \<in> set (fst (dynamic_multihop_paths_for_changed_pools lib powf eng g changed))"
  shows "found_path lib g (se_anchor_configs eng) (set changed) sp"
proof -
  let ?priority = "bp_pools (bounded_priority_pools g (set changed))"
  let ?anchors = "se_anchor_configs eng"
  let ?loop = "\<lambda>s. for_loop (\<lambda>anchor. for_loop (\<lambda>changed_pool s.
      case pool_edges g changed_pool of
        None \<Rightarrow> (s, False)
      | Some changed_edges \<Rightarrow> for_loop (scan_changed_edge lib powf g ?priority anchor) changed_edges s)
    changed) ?anchors s"
  have loop: "scan_ok lib g ?priority ?anchors (set changed) (fst (?loop s))"
    if "scan_ok lib g ?priority ?anchors (set changed) s" for s
  proof (intro for_loop_invariant [where P = "scan_ok lib g ?priority ?anchors (set changed)"] that)
    fix anchor pool s
    assume a: "anchor \<in> set ?anchors" "pool \<in> set changed" "scan_ok lib g ?priority ?anchors (set changed) s"
    show "scan_ok lib g ?priority ?anchors (set changed) (fst (case pool_edges g pool of
        None \<Rightarrow> (s, False)
      | Some changed_edges \<Rightarrow> for_loop (scan_changed_edge lib powf g ?priority anchor) changed_edges s))"
    proof (cases "pool_edges g pool")
      case (Some es)
      then have e: "oe_pool e = pool \<and> edge_wf g e" if "e \<in> set es" for e
        using assms(1) that by (simp add: graph_ok_def pool_edges_def)
      show ?thesis unfolding Some option.case
        by (intro for_loop_invariant [where P = "scan_ok lib g ?priority ?anchors (set changed)"] scan_changed_edge_ok assms(1) a(1,3)) (use e a(2) in auto)
    qed (simp add: a(3))
  qed
  have sel: "sp \<in> sd_path ` set paths" if "sp \<in> set (select_dynamic_paths paths)" for paths
    using that by (auto simp: select_dynamic_paths_def dest: in_set_takeD)
  have chosen: "found_path lib g ?anchors (set changed) sp"
    if "sp \<in> set (select_dynamic_paths (dy_paths (fst (?loop s))))" "scan_ok lib g ?priority ?anchors (set changed) s" for s
    using sel [OF that(1)] loop [OF that(2)] by (auto simp: scan_ok_def list_all_iff)
  have found: "found_path lib g ?anchors (set changed) sp"
    if "?loop s = (s', capped)" "sp \<in> set (select_dynamic_paths (dy_paths s'))"
      "dy_paths s = []" "dy_cache s = segment_path_cache_default" for s s' capped
    by (rule chosen [of s]) (use that in \<open>simp_all add: scan_ok_def\<close>)
  show ?thesis using assms(2)
    by (auto simp: dynamic_multihop_paths_for_changed_pools_def Let_def intro: found split: if_splits prod.splits)
qed

text \<open>The contract of a cycle path, on the swap steps that are executed.\<close>

fun step_chain :: "address \<Rightarrow> swap_step list \<Rightarrow> address \<Rightarrow> bool" where
  "step_chain a [] b \<longleftrightarrow> a = b"
| "step_chain a (step # steps) b \<longleftrightarrow> st_token_in step = a \<and> step_chain (st_token_out step) steps b"

definition trades_a_supported_pool :: "pool_state list \<Rightarrow> swap_step \<Rightarrow> bool" where
  "trades_a_supported_pool states step \<longleftrightarrow>
     (\<exists>p \<in> set states. is_supported_pool p \<and> st_pool step = ps_address p \<and>
        st_dex step = ps_dex p \<and> st_variant step = Some (ps_variant p) \<and>
        {st_token_in step, st_token_out step} = {ps_token0 p, ps_token1 p})"

definition anchored_cycle ::
    "anchor_search_config \<Rightarrow> pool_state list \<Rightarrow> address list \<Rightarrow> search_path \<Rightarrow> bool" where
  "anchored_cycle anchor states changed sp \<longleftrightarrow>
     (let steps = ap_steps (sp_path sp) in
        length steps \<in> {3, 4} \<and>
        step_chain (an_token anchor) steps (an_token anchor) \<and>
        distinct (map st_pool steps) \<and> distinct (map st_token_out steps) \<and>
        (\<exists>step \<in> set steps. st_pool step \<in> set changed) \<and>
        list_all (trades_a_supported_pool states) steps \<and>
        sp_amount_sizes sp = an_amount_sizes anchor \<and> sp_min_profit sp = an_min_profit anchor)"

lemma step_chain_of_edges:
  "step_chain a (map (\<lambda>e. swap_step_from_pool lib (edge_state g e) (oe_token_in e) (oe_token_out e)) es) b =
     edge_chain a es b"
  by (induction es arbitrary: a) (simp_all add: swap_step_from_pool_def)

lemma valid_cycle_tokens:
  assumes "is_valid_dynamic_cycle anchor es"
  shows "distinct (map oe_token_out es)"
proof -
  have ne: "es \<noteq> []" and l: "oe_token_out (last es) = anchor"
    and d: "anchor \<notin> set (map oe_token_out (butlast es))" "distinct (map oe_token_out (butlast es))"
    using assms by (simp_all add: is_valid_dynamic_cycle_def Let_def)
  have "map oe_token_out es = map oe_token_out (butlast es) @ [oe_token_out (last es)]"
    using ne by (metis append_butlast_last_id list.map(1,2) map_append)
  then show ?thesis using d l by simp
qed

lemma found_path_anchored:
  assumes "found_path lib (graph_snapshot_new states) anchors (set changed) sp"
  shows "\<exists>anchor \<in> set anchors. anchored_cycle anchor states changed sp"
proof -
  let ?g = "graph_snapshot_new states"
  let ?step = "\<lambda>e. swap_step_from_pool lib (edge_state ?g e) (oe_token_in e) (oe_token_out e)"
  obtain anchor n cycle where a: "anchor \<in> set anchors" "n \<in> {3, 4}" "found_cycle ?g anchor (set changed) n cycle"
    "is_valid_dynamic_cycle (an_token anchor) cycle" "sp = build_dynamic_multihop_search_path lib ?g anchor cycle"
    using assms by (auto simp: found_path_def)
  have steps: "ap_steps (sp_path sp) = map ?step cycle" "sp_amount_sizes sp = an_amount_sizes anchor"
    "sp_min_profit sp = an_min_profit anchor"
    by (simp_all add: a(5) build_dynamic_multihop_search_path_def Let_def)
  have fields [simp]: "st_token_out (?step e) = oe_token_out e" "st_token_in (?step e) = oe_token_in e"
    "st_pool (?step e) = ps_address (edge_state ?g e)" for e
    by (simp_all add: swap_step_from_pool_def)
  have wf: "edge_wf ?g e" if "e \<in> set cycle" for e using a(3) that by (simp add: found_cycle_def)
  have pools: "map (\<lambda>e. ps_address (edge_state ?g e)) cycle = map oe_pool cycle"
    using wf by (auto simp: edge_wf_def)
  have "trades_a_supported_pool states (?step e)" if "e \<in> set cycle" for e
  proof -
    have "edge_state ?g e \<in> set states" using wf [OF that]
      by (auto simp: edge_wf_def edge_state_def graph_snapshot_new_def Let_def dest!: nth_mem)
    then show ?thesis using wf [OF that]
      by (auto simp: trades_a_supported_pool_def edge_wf_def swap_step_from_pool_def)
  qed
  moreover have "\<exists>e \<in> set cycle. ps_address (edge_state ?g e) \<in> set changed"
    using a(3) wf by (auto simp: found_cycle_def edge_wf_def)
  moreover have "distinct (map oe_pool cycle)" "length cycle \<in> {3, 4}"
    "edge_chain (an_token anchor) cycle (an_token anchor)"
    using a(2-4) by (auto simp: is_valid_dynamic_cycle_def found_cycle_def)
  ultimately have "anchored_cycle anchor states changed sp"
    using valid_cycle_tokens [OF a(4)]
    by (simp add: anchored_cycle_def Let_def steps step_chain_of_edges pools list_all_iff comp_def)
  then show ?thesis using a(1) by blast
qed

text \<open>C8: Every path the searcher builds when pools change is an executable cycle: three or four
  steps that start and end at a configured anchor token, each step pays out the token the next one
  takes in, no pool and no token is visited twice, every step trades the two tokens of a supported
  pool of the snapshot under that pool's venue and variant, at least one of the pools changed, and
  the amounts and the minimum profit are the anchor's.\<close>

theorem dynamic_paths_are_cycles:
  "list_all (\<lambda>sp. list_ex (\<lambda>anchor. anchored_cycle anchor states changed sp) (se_anchor_configs eng))
     (fst (dynamic_multihop_paths_for_changed_pools lib powf eng (graph_snapshot_new states) changed))"
  using dynamic_paths_found [OF graph_ok_new] found_path_anchored
  by (fastforce simp: list_all_iff list_ex_iff)

section \<open>Fingerprints\<close>

text \<open>C32: The fingerprint by which the scan drops repeated cycles identifies the cycle: two
  sequences of edges have the same fingerprint only when they start at the same anchor and take
  the same pools in the same directions, so no distinct cycle is ever dropped as a duplicate.\<close>

theorem cycle_fingerprint_inj:
  "cycle_fingerprint a es = cycle_fingerprint b es' \<longleftrightarrow>
     a = b \<and> map (\<lambda>e. (oe_pool e, oe_token_in e, oe_token_out e)) es =
             map (\<lambda>e. (oe_pool e, oe_token_in e, oe_token_out e)) es'"
proof -
  have "concat (map (\<lambda>e. ''|'' @ address_hex (oe_pool e) @ '':'' @ address_hex (oe_token_in e) @ ''->'' @
          address_hex (oe_token_out e)) es) =
        concat (map (\<lambda>e. ''|'' @ address_hex (oe_pool e) @ '':'' @ address_hex (oe_token_in e) @ ''->'' @
          address_hex (oe_token_out e)) es') \<longleftrightarrow>
        map (\<lambda>e. (oe_pool e, oe_token_in e, oe_token_out e)) es =
        map (\<lambda>e. (oe_pool e, oe_token_in e, oe_token_out e)) es'"
    by (induction es es' rule: list_induct2') simp_all
  then show ?thesis by (simp add: cycle_fingerprint_def)
qed

end
