(* ===== verification/Hex_Text.thy ===== *)
theory Hex_Text
  imports Effects
begin

text \<open>
  Hexadecimal text as the standard library of Rust writes and reads it: \<open>{:x}\<close> with and without a width,
  \<open>from_str_radix(_, 16)\<close> of an unsigned type, slices of ASCII text, and what writing a number and
  reading it back gives. \<open>hex_fixed\<close> of the prelude is the text of fixed width.
\<close>

section \<open>Writing\<close>

text \<open>\<open>{n:x}\<close>.\<close>

fun nat_hex :: "nat \<Rightarrow> string" where
  "nat_hex n = (if n < 16 then [hex_digit n] else nat_hex (n div 16) @ [hex_digit n])"

declare nat_hex.simps [simp del]

text \<open>\<open>{s:c>k}\<close> pads on the left, up to \<open>k\<close> characters.\<close>

definition pad_left :: "char \<Rightarrow> nat \<Rightarrow> string \<Rightarrow> string" where
  "pad_left c k s = replicate (k - length s) c @ s"

text \<open>\<open>{n:#x}\<close>.\<close>

definition prefixed_hex :: "nat \<Rightarrow> string" where
  "prefixed_hex n = ''0x'' @ nat_hex n"

section \<open>Reading\<close>

text \<open>\<open>&s[from..to]\<close> within bounds.\<close>

definition slice :: "string \<Rightarrow> nat \<Rightarrow> nat \<Rightarrow> string" where
  "slice s a b = take (b - a) (drop a s)"

definition hex_value :: "char \<Rightarrow> nat option" where
  "hex_value c =
     (let n = (of_char c :: nat) in
      if 48 \<le> n \<and> n \<le> 57 then Some (n - 48)
      else if 97 \<le> n \<and> n \<le> 102 then Some (n - 87)
      else if 65 \<le> n \<and> n \<le> 70 then Some (n - 55) else None)"

fun hex_digits_value :: "string \<Rightarrow> nat \<Rightarrow> nat option" where
  "hex_digits_value [] acc = Some acc"
| "hex_digits_value (c # s) acc =
     (case hex_value c of None \<Rightarrow> None | Some d \<Rightarrow> hex_digits_value s (16 * acc + d))"

text \<open>The digit loop of \<open>from_str_radix(_, 16)\<close> for an unsigned type: a character that is no digit is
  reported before an overflow at the same place.\<close>

fun hex_loop :: "string \<Rightarrow> 'a::len word \<Rightarrow> 'a word anyhow" where
  "hex_loop [] acc = Inr acc"
| "hex_loop (c # s) acc =
     (case hex_value c of
        None \<Rightarrow> bail ''invalid digit found in string''
      | Some d \<Rightarrow>
          if 16 * unat acc + d < 2 ^ LENGTH('a) then hex_loop s (16 * acc + word_of_nat d)
          else bail ''number too large to fit in target type'')"

text \<open>A leading plus is skipped; a lone sign is an error, and so is a minus before digits.\<close>

definition uint_from_hex :: "string \<Rightarrow> 'a::len word anyhow" where
  "uint_from_hex s =
     (if s = [] then bail ''cannot parse integer from empty string''
      else if s = ''+'' \<or> s = ''-'' then bail ''invalid digit found in string''
      else hex_loop (if hd s = CHR ''+'' then tl s else s) 0)"

section \<open>Digits\<close>

lemma hex_digit_cases: "hex_digit n \<in> set ''0123456789abcdef''"
proof -
  have "n mod 16 < length ''0123456789abcdef''" by simp
  then show ?thesis unfolding hex_digit_def by (rule nth_mem)
qed

lemma hex_value_nth: "k < 16 \<Longrightarrow> hex_value (''0123456789abcdef'' ! k) = Some k"
proof -
  have "\<forall>k \<in> set [0..<16]. hex_value (''0123456789abcdef'' ! k) = Some k" by code_simp
  then show "k < 16 \<Longrightarrow> ?thesis" by simp
qed

lemma hex_value_hex_digit [simp]: "hex_value (hex_digit n) = Some (n mod 16)"
  unfolding hex_digit_def by (rule hex_value_nth) simp

text \<open>Texts of digits: what every hexadecimal writer produces.\<close>

definition hex_text :: "string \<Rightarrow> bool" where
  "hex_text s \<longleftrightarrow> list_all (\<lambda>c. c \<in> set ''0123456789abcdef'') s"

lemma hex_text_simps [simp]:
  "hex_text []" "hex_text (c # s) \<longleftrightarrow> c \<in> set ''0123456789abcdef'' \<and> hex_text s"
  "hex_text (s @ t) \<longleftrightarrow> hex_text s \<and> hex_text t"
  by (auto simp: hex_text_def)

lemma hex_text_replicate [simp]: "c \<in> set ''0123456789abcdef'' \<Longrightarrow> hex_text (replicate n c)"
  by (induction n) simp_all

lemma hex_text_fixed [simp]: "hex_text (hex_fixed k n)"
  using hex_digit_cases by (induction k arbitrary: n) simp_all

lemma hex_text_nat_hex [simp]: "hex_text (nat_hex n)"
proof (induction n rule: nat_hex.induct)
  case (1 n)
  then show ?case using hex_digit_cases by (subst nat_hex.simps) simp
qed

lemma hex_fixed_Nil [simp]: "hex_fixed k n = [] \<longleftrightarrow> k = 0"
  by (cases k) simp_all

lemma nat_hex_not_Nil [simp]: "nat_hex n \<noteq> []"
  by (subst nat_hex.simps) simp

lemma hex_text_take: "hex_text s \<Longrightarrow> hex_text (take n s)"
  unfolding hex_text_def list_all_iff using in_set_takeD by fast

lemma hex_text_drop: "hex_text s \<Longrightarrow> hex_text (drop n s)"
  unfolding hex_text_def list_all_iff using in_set_dropD by fast

lemma trim_start_0x_hex_text [simp]:
  assumes "hex_text s"
  shows "trim_start_0x s = s" "trim_start_0x (CHR ''0'' # CHR ''x'' # s) = s"
proof -
  show "trim_start_0x s = s" using assms by (cases s rule: trim_start_0x.cases) auto
  then show "trim_start_0x (CHR ''0'' # CHR ''x'' # s) = s" by simp
qed

section \<open>Reading what was written\<close>

lemma hex_digits_value_append:
  "hex_digits_value (s @ t) acc = Option.bind (hex_digits_value s acc) (hex_digits_value t)"
  by (induction s acc rule: hex_digits_value.induct) (auto split: option.splits)

lemma hex_digits_value_fixed [simp]:
  "hex_digits_value (hex_fixed k n) acc = Some (acc * 16 ^ k + n mod 16 ^ k)"
proof (induction k arbitrary: n)
  case (Suc k)
  have "n mod (16 * 16 ^ k) = 16 * (n div 16 mod 16 ^ k) + n mod 16"
    by (simp add: mod_mult2_eq)
  then show ?case using Suc.IH [of "n div 16"] by (simp add: hex_digits_value_append algebra_simps)
qed simp

lemma hex_digits_value_nat_hex [simp]: "hex_digits_value (nat_hex n) 0 = Some n"
proof (induction n rule: nat_hex.induct)
  case (1 n)
  then show ?case by (subst nat_hex.simps) (auto simp: hex_digits_value_append)
qed

lemma hex_digits_value_zeros: "hex_digits_value (replicate k CHR ''0'' @ s) 0 = hex_digits_value s 0"
proof -
  have "hex_value CHR ''0'' = Some 0" by code_simp
  then show ?thesis by (induction k) simp_all
qed

lemma hex_digits_value_acc:
  "hex_digits_value s acc = Some n \<Longrightarrow> acc * 16 ^ length s \<le> n"
proof (induction s acc arbitrary: n rule: hex_digits_value.induct)
  case (2 c s acc)
  then obtain d where d: "hex_value c = Some d" "hex_digits_value s (16 * acc + d) = Some n"
    by (auto split: option.splits)
  have "16 * acc * 16 ^ length s \<le> (16 * acc + d) * 16 ^ length s" by simp
  also have "\<dots> \<le> n" using "2.IH" [OF d] .
  finally show ?case by simp
qed simp

lemma hex_loop_value:
  "hex_digits_value s (unat acc) = Some n \<Longrightarrow> n < 2 ^ LENGTH('a) \<Longrightarrow> hex_loop s (acc :: 'a::len word) = Inr (word_of_nat n)"
proof (induction s acc arbitrary: n rule: hex_loop.induct)
  case (2 c s acc)
  then obtain d where d: "hex_value c = Some d" "hex_digits_value s (16 * unat acc + d) = Some n"
    by (auto split: option.splits)
  have "(16 * unat acc + d) * 1 \<le> (16 * unat acc + d) * 16 ^ length s" by (rule mult_le_mono2) simp
  also have "\<dots> \<le> n" by (rule hex_digits_value_acc [OF d(2)])
  finally have small: "16 * unat acc + d < 2 ^ LENGTH('a)" using "2.prems" by simp
  have "(16 :: 'a word) * acc + word_of_nat d = word_of_nat (16 * unat acc + d)" by simp
  then have "unat (16 * acc + word_of_nat d :: 'a word) = 16 * unat acc + d"
    using small unat_of_nat_small by metis
  with d "2.IH" [OF d(1) small] "2.prems" small show ?case by simp
qed simp

lemma uint_from_hex_value:
  assumes "s \<noteq> []" "hex_text s" "hex_digits_value s 0 = Some n" "n < 2 ^ LENGTH('a::len)"
  shows "uint_from_hex s = Inr (word_of_nat n :: 'a word)"
proof -
  have "hex_loop s (0 :: 'a word) = Inr (word_of_nat n)" using assms by (intro hex_loop_value) simp_all
  moreover have "hd s \<noteq> CHR ''+'' \<and> s \<noteq> ''-'' \<and> s \<noteq> ''+''" using assms by (cases s) auto
  ultimately show ?thesis using assms(1) by (simp add: uint_from_hex_def)
qed

lemma uint_from_hex_fixed:
  "0 < k \<Longrightarrow> n < 16 ^ k \<Longrightarrow> n < 2 ^ LENGTH('a::len) \<Longrightarrow> uint_from_hex (hex_fixed k n) = Inr (word_of_nat n :: 'a word)"
  by (rule uint_from_hex_value) simp_all

lemma uint_from_hex_nat_hex:
  "n < 2 ^ LENGTH('a::len) \<Longrightarrow> uint_from_hex (nat_hex n) = Inr (word_of_nat n :: 'a word)"
  by (rule uint_from_hex_value) simp_all

section \<open>Text of fixed width\<close>

lemma length_nat_hex_le: "0 < k \<Longrightarrow> n < 16 ^ k \<Longrightarrow> length (nat_hex n) \<le> k"
proof (induction n arbitrary: k rule: nat_hex.induct)
  case (1 n)
  show ?case
  proof (cases "n < 16")
    case True
    with "1.prems" show ?thesis by (subst nat_hex.simps) simp
  next
    case False
    with "1.prems" obtain k' where k: "k = Suc k'" "0 < k'" by (cases k; cases "k - 1") auto
    with "1.prems" have "n div 16 < 16 ^ k'" by (simp add: less_mult_imp_div_less mult.commute)
    with 1 False k show ?thesis by (subst nat_hex.simps) simp
  qed
qed

lemma hex_fixed_0: "hex_fixed k 0 = replicate k CHR ''0''"
proof -
  have "hex_digit 0 = CHR ''0''" by code_simp
  then show ?thesis by (induction k) (simp_all add: replicate_append_same)
qed

lemma pad_left_nat_hex: "0 < k \<Longrightarrow> n < 16 ^ k \<Longrightarrow> pad_left CHR ''0'' k (nat_hex n) = hex_fixed k n"
proof (induction n arbitrary: k rule: nat_hex.induct)
  case (1 n)
  obtain k' where k: "k = Suc k'" using "1.prems" by (cases k) auto
  show ?case
  proof (cases "n < 16")
    case True
    then show ?thesis
      by (subst nat_hex.simps) (simp add: k pad_left_def hex_fixed_0)
  next
    case False
    with "1.prems" k have "0 < k'" by (cases k') auto
    moreover from "1.prems" k have "n div 16 < 16 ^ k'" by (simp add: less_mult_imp_div_less mult.commute)
    ultimately have "pad_left CHR ''0'' k' (nat_hex (n div 16)) = hex_fixed k' (n div 16)"
      using "1.IH" False by simp
    then show ?thesis using False by (subst nat_hex.simps) (simp add: k pad_left_def)
  qed
qed

lemma slice_simps [simp]:
  "length s = n \<Longrightarrow> slice (s @ t) 0 n = s"
  "length s \<le> a \<Longrightarrow> slice (s @ t) a b = slice t (a - length s) (b - length s)"
  by (simp_all add: slice_def)

section \<open>The libraries' parsers\<close>

text \<open>What the code relies on of \<open>U256::from_str_radix\<close> and of the address parser: the texts the
  formatters write are read back.\<close>

definition reads_hex :: "libs \<Rightarrow> bool" where
  "reads_hex lib \<longleftrightarrow> (\<forall>n < 2 ^ 256. lib_from_str_radix lib (hex_fixed 64 n) 16 = Inr (word_of_nat n))"

definition reads_addresses :: "libs \<Rightarrow> bool" where
  "reads_addresses lib \<longleftrightarrow> (\<forall>a. lib_parse_address lib (address_hex a) = Some a)"

definition hex_libs :: libs where
  "hex_libs = \<lparr>lib_keccak256 = (\<lambda>_. 0), lib_hex_encode = (\<lambda>_. []), lib_hex_decode = (\<lambda>_. Inr []),
     lib_from_str_radix = (\<lambda>s radix. if radix = 16 then uint_from_hex s else bail ''radix''),
     lib_parse_address = (\<lambda>s. if starts_with s ''0x'' \<and> length s = 42
        then map_option word_of_nat (hex_digits_value (drop 2 s) 0) else None)\<rparr>"

lemma hex_libs_read [simp]: "reads_hex hex_libs" "reads_addresses hex_libs"
proof -
  show "reads_hex hex_libs"
    unfolding reads_hex_def hex_libs_def by (auto intro!: uint_from_hex_fixed)
  have "unat a mod 16 ^ 40 = unat a" for a :: address
    using unat_lt [of a] by simp
  then show "reads_addresses hex_libs"
    by (simp add: reads_addresses_def hex_libs_def address_hex_def)
qed

end
