(* ===== verification/State_Updater.thy ===== *)
theory State_Updater
  imports Hex_Text
begin

text \<open>
  The local updates of pool states from chain events, \<open>crates/market-data/src/state_updater.rs\<close>. An
  update mutates the state it is given, so it is an action on a \<open>pool_state\<close>: when it fails, the state
  it leaves is the partly updated one. Log data is ASCII text, so byte and character positions agree.
\<close>

section \<open>Event fields\<close>

definition aerodrome_sync_topic :: string where
  "aerodrome_sync_topic = ''0xcf2aa50876cdfbb541206f89af0ee78d44a2abf8d328e37fa4917f982149848a''"
definition uniswap_v2_sync_topic :: string where
  "uniswap_v2_sync_topic = ''0x1c411e9a96e071241c2f21f7726b17ae89e3cab4c78be50e062b03a9fffbbad1''"
definition v3_swap_topic :: string where
  "v3_swap_topic = ''0xc42079f94a6350d7e6235f29174924f928cc2ac818eb64fed8004e115fbcca67''"
definition pancake_v3_swap_topic :: string where
  "pancake_v3_swap_topic = ''0x19b47279256b2a23a1665c810c8d55a1758940ee09377d4f8d26497a3577dc83''"
definition v3_mint_topic :: string where
  "v3_mint_topic = ''0x7a53080ba414158be7ec69b987b5fb7d07dee101fe85488f0853ae16239d0bde''"
definition v3_burn_topic :: string where
  "v3_burn_topic = ''0x0c396cd989a39f4459b5fa1aed6a9a8dcdbc45908acfd67e028cd568da98982c''"
definition balancer_v3_swap_topic :: string where
  "balancer_v3_swap_topic = ''0x0874b2d545cb271cdbda4e093020c452328b24af12382ed62c4d00f5c26709db''"

lemmas event_topics = aerodrome_sync_topic_def uniswap_v2_sync_topic_def v3_swap_topic_def pancake_v3_swap_topic_def
  v3_mint_topic_def v3_burn_topic_def balancer_v3_swap_topic_def

definition event_topic0 :: "dex_event \<Rightarrow> string option" where
  "event_topic0 event =
     Option.bind (Option.bind (json_get (ev_raw_data_json event) ''topics'') (\<lambda>topics. json_index topics 0)) json_as_str"

definition event_data :: "dex_event \<Rightarrow> string option" where
  "event_data event = Option.bind (json_get (ev_raw_data_json event) ''data'') json_as_str"

definition event_topics_array :: "dex_event \<Rightarrow> json list option" where
  "event_topics_array event = Option.bind (json_get (ev_raw_data_json event) ''topics'') json_as_array"

section \<open>Decoding\<close>

definition decode_sync_reserves :: "libs \<Rightarrow> string \<Rightarrow> (u256 \<times> u256) anyhow" where
  "decode_sync_reserves lib data =
     (let clean = trim_start_0x data in
      if length clean < 128 then bail ''Sync data too short''
      else rbind (lib_from_str_radix lib (slice clean 0 64) 16) (\<lambda>reserve0.
        rbind (lib_from_str_radix lib (slice clean 64 128) 16) (\<lambda>reserve1. Inr (reserve0, reserve1))))"

definition decode_i24_word :: "string \<Rightarrow> i32 anyhow" where
  "decode_i24_word word =
     (if length word \<noteq> 64 then bail ''int24 ABI word must be 32 bytes''
      else rbind (uint_from_hex (drop (length word - 6) word)) (\<lambda>low :: u32.
        if low AND 0x800000 \<noteq> 0 then Inr (low - 2 ^ 24) else Inr low))"

definition decode_v3_swap_state :: "libs \<Rightarrow> string \<Rightarrow> (u256 \<times> u256 \<times> i32) anyhow" where
  "decode_v3_swap_state lib data =
     (let clean = trim_start_0x data in
      if length clean < 320 then bail ''V3 Swap data too short''
      else rbind (lib_from_str_radix lib (slice clean 128 192) 16) (\<lambda>sqrt_price_x96.
        rbind (lib_from_str_radix lib (slice clean 192 256) 16) (\<lambda>liquidity.
        rbind (decode_i24_word (slice clean 256 320)) (\<lambda>tick. Inr (sqrt_price_x96, liquidity, tick)))))"

definition decode_v3_liquidity_amount :: "libs \<Rightarrow> string \<Rightarrow> bool \<Rightarrow> u256 anyhow" where
  "decode_v3_liquidity_amount lib data is_mint =
     (let clean = trim_start_0x data; amount_start = (if is_mint then 64 else 0); amount_end = amount_start + 64 in
      if length clean < amount_end then bail ''V3 Mint/Burn data too short''
      else lib_from_str_radix lib (slice clean amount_start amount_end) 16)"

definition decode_i24_topic :: "json \<Rightarrow> i32 anyhow" where
  "decode_i24_topic topic =
     rbind (ok_or_message (json_as_str topic) ''V3 indexed tick topic is not a string'') (\<lambda>value.
     decode_i24_word (trim_start_0x value))"

definition decode_balancer_swap :: "libs \<Rightarrow> string \<Rightarrow> (u256 \<times> u256 \<times> u256) anyhow" where
  "decode_balancer_swap lib data =
     (let clean = trim_start_0x data in
      if length clean < 192 then bail ''Balancer V3 Swap data too short''
      else rbind (lib_from_str_radix lib (slice clean 0 64) 16) (\<lambda>amount_in.
        rbind (lib_from_str_radix lib (slice clean 64 128) 16) (\<lambda>amount_out.
        rbind (lib_from_str_radix lib (slice clean 128 192) 16) (\<lambda>swap_fee. Inr (amount_in, amount_out, swap_fee)))))"

text \<open>The parser's own error below the context is not kept.\<close>

definition decode_address_topic :: "libs \<Rightarrow> json \<Rightarrow> address anyhow" where
  "decode_address_topic lib topic =
     rbind (ok_or_message (json_as_str topic) ''indexed address topic is not a string'') (\<lambda>raw.
     let clean = trim_start_0x raw in
     if length clean < 40 then bail ''indexed address topic too short''
     else ok_or_message (lib_parse_address lib (''0x'' @ drop (length clean - 40) clean)) ''invalid indexed address topic'')"

section \<open>Balancer balances\<close>

definition one_18 :: u256 where
  "one_18 = 1000000000000000000"

definition scale_balancer_raw_amount :: "pool_state \<Rightarrow> bool \<Rightarrow> u256 \<Rightarrow> u256 anyhow" where
  "scale_balancer_raw_amount p token0_side amount_raw =
     rbind (ok_or_message (if token0_side then ps_balancer_scaling_factor0 p else ps_balancer_scaling_factor1 p)
              ''Balancer V3 missing decimal scaling factor'') (\<lambda>scaling_factor.
     rbind (ok_or_message (if token0_side then ps_balancer_token_rate0 p else ps_balancer_token_rate1 p)
              ''Balancer V3 missing token rate'') (\<lambda>token_rate.
     ok_or_message
       (Option.bind (Option.bind (checked_mul amount_raw scaling_factor) (\<lambda>v. checked_mul v token_rate))
          (\<lambda>v. checked_div v one_18))
       ''Balancer V3 raw-to-scaled amount overflow''))"

text \<open>The side the tokens swap on: \<open>Some True\<close> sells \<open>token0\<close>.\<close>

definition balancer_swap_side :: "pool_state \<Rightarrow> address \<Rightarrow> address \<Rightarrow> bool option" where
  "balancer_swap_side p token_in token_out =
     (if token_in = ps_token0 p \<and> token_out = ps_token1 p then Some True
      else if token_in = ps_token1 p \<and> token_out = ps_token0 p then Some False else None)"

text \<open>The reserve of the token sold is written before the subtraction can fail.\<close>

definition apply_balancer_swap_balances ::
    "address \<Rightarrow> address \<Rightarrow> u256 \<Rightarrow> u256 \<Rightarrow> pool_state \<Rightarrow> unit anyhow \<times> pool_state" where
  "apply_balancer_swap_balances token_in token_out amount_in_raw amount_out_raw p =
     (case rbind (ok_or_message (balancer_swap_side p token_in token_out)
             ''Balancer V3 swap token pair does not match pool state'') (\<lambda>in_is_token0.
           rbind (scale_balancer_raw_amount p in_is_token0 amount_in_raw) (\<lambda>amount_in.
           rbind (scale_balancer_raw_amount p (\<not> in_is_token0) amount_out_raw) (\<lambda>amount_out.
           rbind (ok_or_message (ps_reserve0 p) ''Balancer V3 missing token0 balance'') (\<lambda>reserve0.
           rbind (ok_or_message (ps_reserve1 p) ''Balancer V3 missing token1 balance'') (\<lambda>reserve1.
           Inr (in_is_token0, amount_in, amount_out, reserve0, reserve1)))))) of
        Inl e \<Rightarrow> (Inl e, p)
      | Inr (in_is_token0, amount_in, amount_out, reserve0, reserve1) \<Rightarrow>
          if in_is_token0
          then (let p = p\<lparr>ps_reserve0 := Some (saturating_add reserve0 amount_in)\<rparr>
                in case checked_sub reserve1 amount_out of
                     None \<Rightarrow> (bail ''Balancer V3 token1 balance underflow'', p)
                   | Some r \<Rightarrow> (Inr (), p\<lparr>ps_reserve1 := Some r\<rparr>))
          else (let p = p\<lparr>ps_reserve1 := Some (saturating_add reserve1 amount_in)\<rparr>
                in case checked_sub reserve0 amount_out of
                     None \<Rightarrow> (bail ''Balancer V3 token0 balance underflow'', p)
                   | Some r \<Rightarrow> (Inr (), p\<lparr>ps_reserve0 := Some r\<rparr>)))"

section \<open>Applying an event\<close>

definition is_v3_style_state :: "pool_state \<Rightarrow> bool" where
  "is_v3_style_state p \<longleftrightarrow>
     (ps_dex p, ps_variant p) \<in> {(DexAerodrome, AerodromeSlipstream), (DexUniswapV3, UniswapV3), (DexPancakeSwap, PancakeV3)}"

text \<open>The Balancer branch up to the block number.\<close>

definition apply_balancer_swap :: "libs \<Rightarrow> dex_event \<Rightarrow> string \<Rightarrow> pool_state \<Rightarrow> unit anyhow \<times> pool_state" where
  "apply_balancer_swap lib event data p =
     (case rbind (ok_or_message (event_topics_array event) ''Balancer V3 swap missing topics'') (\<lambda>topics.
           if length topics < 4 then bail ''Balancer V3 Swap missing indexed token topics''
           else rbind (decode_address_topic lib (topics ! 2)) (\<lambda>token_in.
             rbind (decode_address_topic lib (topics ! 3)) (\<lambda>token_out.
             rbind (decode_balancer_swap lib data) (\<lambda>swap. Inr (token_in, token_out, swap))))) of
        Inl e \<Rightarrow> (Inl e, p)
      | Inr (token_in, token_out, amount_in, amount_out, swap_fee) \<Rightarrow>
          (case apply_balancer_swap_balances token_in token_out amount_in amount_out p of
             (Inl e, p) \<Rightarrow> (Inl e, p)
           | (Inr _, p) \<Rightarrow> (Inr (), p\<lparr>ps_balancer_swap_fee_percentage := Some swap_fee\<rparr>)))"

definition touch_state :: "datetime \<Rightarrow> dex_event \<Rightarrow> pool_state \<Rightarrow> pool_state" where
  "touch_state now event p = p\<lparr>ps_block_number := ev_block_number event,
     ps_valid_through_block := max (ps_valid_through_block p) (ev_block_number event), ps_updated_at := now\<rparr>"

definition apply_event_to_pool_state ::
    "libs \<Rightarrow> datetime \<Rightarrow> dex_event \<Rightarrow> pool_state \<Rightarrow> bool anyhow \<times> pool_state" where
  "apply_event_to_pool_state lib now event p =
     (if ps_address p \<noteq> ev_pool_address event then (Inr False, p)
      else case event_topic0 event of
        None \<Rightarrow> (Inr False, p)
      | Some topic0 \<Rightarrow>
          (case event_data event of
             None \<Rightarrow> (bail ''pool event missing data'', p)
           | Some data \<Rightarrow>
               if ps_dex p = DexAerodrome \<and> ps_variant p = AerodromeVolatile \<and>
                  (topic0 = aerodrome_sync_topic \<or> topic0 = uniswap_v2_sync_topic)
               then (case decode_sync_reserves lib data of
                       Inl e \<Rightarrow> (Inl e, p)
                     | Inr (reserve0, reserve1) \<Rightarrow>
                         (Inr True, touch_state now event (p\<lparr>ps_reserve0 := Some reserve0, ps_reserve1 := Some reserve1\<rparr>)))
               else if is_v3_style_state p \<and>
                  (topic0 = v3_swap_topic \<or> ps_variant p = PancakeV3 \<and> topic0 = pancake_v3_swap_topic)
               then (case decode_v3_swap_state lib data of
                       Inl e \<Rightarrow> (Inl e, p)
                     | Inr (sqrt_price_x96, liquidity, tick) \<Rightarrow>
                         (Inr True, touch_state now event (p\<lparr>ps_sqrt_price_x96 := Some sqrt_price_x96,
                            ps_liquidity := Some liquidity, ps_tick := Some tick\<rparr>)))
               else if ps_dex p = DexBalancer \<and> ps_variant p = BalancerV3 \<and> topic0 = balancer_v3_swap_topic
               then (case apply_balancer_swap lib event data p of
                       (Inl e, p) \<Rightarrow> (Inl e, p)
                     | (Inr _, p) \<Rightarrow> (Inr True, touch_state now event p))
               else (Inr False, p)))"

section \<open>Liquidity events\<close>

definition is_v3_liquidity_event :: "pool_state \<Rightarrow> dex_event \<Rightarrow> bool" where
  "is_v3_liquidity_event p event =
     (if ps_address p \<noteq> ev_pool_address event \<or> \<not> is_v3_style_state p then False
      else case event_topic0 event of
        None \<Rightarrow> False
      | Some topic0 \<Rightarrow> topic0 = v3_mint_topic \<or> topic0 = v3_burn_topic)"

record tick_delta =
  td_tick :: i32
  td_gross_delta :: i128
  td_net_delta :: i128

definition u256_to_i128 :: "u256 \<Rightarrow> i128 anyhow" where
  "u256_to_i128 v = (if unat v < 2 ^ 127 then Inr (ucast v) else bail ''liquidity amount does not fit i128'')"

definition liquidity_deltas :: "bool \<Rightarrow> i32 \<Rightarrow> i32 \<Rightarrow> i128 \<Rightarrow> tick_delta list" where
  "liquidity_deltas is_mint lower upper amount =
     (if is_mint
      then [\<lparr>td_tick = lower, td_gross_delta = amount, td_net_delta = amount\<rparr>,
            \<lparr>td_tick = upper, td_gross_delta = amount, td_net_delta = - amount\<rparr>]
      else [\<lparr>td_tick = lower, td_gross_delta = - amount, td_net_delta = - amount\<rparr>,
            \<lparr>td_tick = upper, td_gross_delta = - amount, td_net_delta = amount\<rparr>])"

definition v3_tick_deltas_from_event :: "libs \<Rightarrow> pool_state \<Rightarrow> dex_event \<Rightarrow> tick_delta list anyhow" where
  "v3_tick_deltas_from_event lib p event =
     (if ps_address p \<noteq> ev_pool_address event \<or> \<not> is_v3_style_state p then Inr []
      else case event_topic0 event of
        None \<Rightarrow> Inr []
      | Some topic0 \<Rightarrow>
          if topic0 \<noteq> v3_mint_topic \<and> topic0 \<noteq> v3_burn_topic then Inr []
          else
            rbind (ok_or_message (event_topics_array event) ''pool event missing topics'') (\<lambda>topics.
            if length topics < 4 then bail ''V3 Mint/Burn event missing indexed tick topics''
            else
              rbind (ok_or_message (event_data event) ''pool event missing data'') (\<lambda>data.
              rbind (decode_i24_topic (topics ! 2)) (\<lambda>tick_lower.
              rbind (decode_i24_topic (topics ! 3)) (\<lambda>tick_upper.
              rbind (decode_v3_liquidity_amount lib data (topic0 = v3_mint_topic)) (\<lambda>amount.
              rbind (u256_to_i128 amount) (\<lambda>amount.
              Inr (liquidity_deltas (topic0 = v3_mint_topic) tick_lower tick_upper amount))))))))"

section \<open>Properties\<close>

text \<open>What an update never touches.\<close>

definition same_pool :: "pool_state \<Rightarrow> pool_state \<Rightarrow> bool" where
  "same_pool p q \<longleftrightarrow>
     (ps_pool_id p, ps_dex p, ps_variant p, ps_factory_address p, ps_token0 p, ps_token1 p) =
     (ps_pool_id q, ps_dex q, ps_variant q, ps_factory_address q, ps_token0 q, ps_token1 q) \<and>
     (ps_token0_decimals p, ps_token1_decimals p, ps_fee_bps p, ps_fee_pips p, ps_stable p, ps_tick_spacing p) =
     (ps_token0_decimals q, ps_token1_decimals q, ps_fee_bps q, ps_fee_pips q, ps_stable q, ps_tick_spacing q)"

definition half_applied_swap :: "pool_state \<Rightarrow> string list \<Rightarrow> pool_state \<Rightarrow> bool" where
  "half_applied_swap p e q \<longleftrightarrow> ps_variant p = BalancerV3 \<and>
     ((\<exists>r amount. e = [''Balancer V3 token1 balance underflow''] \<and> ps_reserve0 p = Some r \<and>
         q = p\<lparr>ps_reserve0 := Some (saturating_add r amount)\<rparr>) \<or>
      (\<exists>r amount. e = [''Balancer V3 token0 balance underflow''] \<and> ps_reserve1 p = Some r \<and>
         q = p\<lparr>ps_reserve1 := Some (saturating_add r amount)\<rparr>))"

lemma balancer_balances_outcome:
  assumes "apply_balancer_swap_balances a b x y p = (r, q)"
  shows "case r of
      Inl e \<Rightarrow> q = p \<or>
        (\<exists>v amount. e = [''Balancer V3 token1 balance underflow''] \<and> ps_reserve0 p = Some v \<and>
           q = p\<lparr>ps_reserve0 := Some (saturating_add v amount)\<rparr>) \<or>
        (\<exists>v amount. e = [''Balancer V3 token0 balance underflow''] \<and> ps_reserve1 p = Some v \<and>
           q = p\<lparr>ps_reserve1 := Some (saturating_add v amount)\<rparr>)
    | Inr _ \<Rightarrow> same_pool p q \<and> ps_valid_through_block q = ps_valid_through_block p"
proof -
  let ?r = "rbind (ok_or_message (balancer_swap_side p a b) ''Balancer V3 swap token pair does not match pool state'')
      (\<lambda>in_is_token0. rbind (scale_balancer_raw_amount p in_is_token0 x) (\<lambda>amount_in.
       rbind (scale_balancer_raw_amount p (\<not> in_is_token0) y) (\<lambda>amount_out.
       rbind (ok_or_message (ps_reserve0 p) ''Balancer V3 missing token0 balance'') (\<lambda>reserve0.
       rbind (ok_or_message (ps_reserve1 p) ''Balancer V3 missing token1 balance'') (\<lambda>reserve1.
       Inr (in_is_token0, amount_in, amount_out, reserve0, reserve1))))))"
  show ?thesis
  proof (cases ?r)
    case (Inl e)
    then show ?thesis using assms unfolding apply_balancer_swap_balances_def by auto
  next
    case (Inr v)
    then obtain i ai ao r0 r1 where v: "v = (i, ai, ao, r0, r1)" "ps_reserve0 p = Some r0" "ps_reserve1 p = Some r1"
      by (auto simp del: not_le)
    show ?thesis using assms Inr v unfolding apply_balancer_swap_balances_def
      by (auto simp: bail_def same_pool_def Let_def split: if_splits option.splits)
  qed
qed

lemma balancer_swap_outcome:
  assumes "apply_balancer_swap lib event data p = (r, q)" "ps_variant p = BalancerV3"
  shows "case r of Inl e \<Rightarrow> q = p \<or> half_applied_swap p e q
    | Inr _ \<Rightarrow> same_pool p q \<and> ps_valid_through_block q = ps_valid_through_block p"
proof -
  obtain r1 where r1: "rbind (ok_or_message (event_topics_array event) ''Balancer V3 swap missing topics'') (\<lambda>topics.
           if length topics < 4 then bail ''Balancer V3 Swap missing indexed token topics''
           else rbind (decode_address_topic lib (topics ! 2)) (\<lambda>token_in.
             rbind (decode_address_topic lib (topics ! 3)) (\<lambda>token_out.
             rbind (decode_balancer_swap lib data) (\<lambda>swap. Inr (token_in, token_out, swap))))) = r1" by blast
  show ?thesis
  proof (cases r1)
    case (Inl e)
    then show ?thesis using assms(1) r1 by (auto simp: apply_balancer_swap_def)
  next
    case (Inr v)
    obtain token_in token_out amount_in amount_out fee where v: "v = (token_in, token_out, amount_in, amount_out, fee)"
      by (metis prod.collapse)
    obtain r2 p2 where b: "apply_balancer_swap_balances token_in token_out amount_in amount_out p = (r2, p2)" by fastforce
    from balancer_balances_outcome [OF b] show ?thesis
      using assms Inr v b r1
      by (auto simp: apply_balancer_swap_def half_applied_swap_def same_pool_def split: sum.splits)
  qed
qed

text \<open>C27: Every outcome of applying an event to a pool's state. When it fails the state is unchanged, with
  one exception: a Balancer swap that would overdraw the bought token has already credited the sold one.
  When it does not apply, the state is unchanged. When it applies, the pool's identity, tokens and fees
  are kept and its block, validity and time are those of the event.\<close>

theorem apply_event_outcomes:
  "case apply_event_to_pool_state lib now event p of
     (Inl e, q) \<Rightarrow> q = p \<or> half_applied_swap p e q
   | (Inr applied, q) \<Rightarrow>
       if applied
       then same_pool p q \<and> ps_address p = ev_pool_address event \<and> ps_block_number q = ev_block_number event \<and>
         ps_valid_through_block q = max (ps_valid_through_block p) (ev_block_number event) \<and> ps_updated_at q = now
       else q = p"
proof -
  consider "ps_address p \<noteq> ev_pool_address event \<or> event_topic0 event = None"
    | topic0 where "ps_address p = ev_pool_address event" "event_topic0 event = Some topic0" "event_data event = None"
    | topic0 data where "ps_address p = ev_pool_address event" "event_topic0 event = Some topic0" "event_data event = Some data"
    by (cases "event_topic0 event"; cases "event_data event") auto
  then show ?thesis
  proof cases
    case 3
    obtain r q where b: "apply_balancer_swap lib event data p = (r, q)" by fastforce
    have swap: "ps_variant p = BalancerV3 \<Longrightarrow> case r of Inl e \<Rightarrow> q = p \<or> half_applied_swap p e q
        | Inr _ \<Rightarrow> same_pool p q \<and> ps_valid_through_block q = ps_valid_through_block p"
      by (rule balancer_swap_outcome [OF b])
    show ?thesis using 3 swap
      by (auto simp: apply_event_to_pool_state_def touch_state_def same_pool_def b split: sum.split prod.split)
  qed (auto simp: apply_event_to_pool_state_def bail_def split: option.split)
qed

end
