(* ===== verification/Market_Events.thy ===== *)
theory Market_Events
  imports State_Updater Stores
begin

text \<open>
  The pure parts of the market data listener, \<open>crates/market-data/src/listener.rs\<close>: which logs are
  new, which state changes matter to quotes, how tick deltas change a pool's ticks, and how far a
  local state drifted from the chain.
\<close>

section \<open>Recently seen logs\<close>

record recent_log_cache =
  rl_limit :: usize
  rl_order :: "(string \<times> u64) list"
  rl_set :: "(string \<times> u64) set"

definition recent_log_cache_new :: "usize \<Rightarrow> recent_log_cache" where
  "recent_log_cache_new limit = \<lparr>rl_limit = limit, rl_order = [], rl_set = {}\<rparr>"

text \<open>The eviction loop, oldest first.\<close>

fun evict_oldest :: "usize \<Rightarrow> 'k list \<Rightarrow> 'k set \<Rightarrow> 'k list \<times> 'k set" where
  "evict_oldest limit [] seen = ([], seen)"
| "evict_oldest limit (oldest # order) seen =
     (if length (oldest # order) > limit then evict_oldest limit order (seen - {oldest}) else (oldest # order, seen))"

definition recent_log_insert :: "string \<Rightarrow> u64 \<Rightarrow> recent_log_cache \<Rightarrow> bool \<times> recent_log_cache" where
  "recent_log_insert tx_hash log_index cache =
     (let key = (tx_hash, log_index) in
      if key \<in> rl_set cache then (False, cache)
      else case evict_oldest (rl_limit cache) (rl_order cache @ [key]) (insert key (rl_set cache)) of
             (order, seen) \<Rightarrow> (True, cache\<lparr>rl_order := order, rl_set := seen\<rparr>))"

section \<open>Changes that matter\<close>

definition quote_relevant_pool_state_changed :: "pool_state \<Rightarrow> pool_state \<Rightarrow> bool" where
  "quote_relevant_pool_state_changed previous next' \<longleftrightarrow>
     ps_dex previous \<noteq> ps_dex next' \<or> ps_variant previous \<noteq> ps_variant next' \<or>
     ps_factory_address previous \<noteq> ps_factory_address next' \<or> ps_token0 previous \<noteq> ps_token0 next' \<or>
     ps_token1 previous \<noteq> ps_token1 next' \<or> ps_token0_decimals previous \<noteq> ps_token0_decimals next' \<or>
     ps_token1_decimals previous \<noteq> ps_token1_decimals next' \<or> ps_fee_bps previous \<noteq> ps_fee_bps next' \<or>
     ps_fee_pips previous \<noteq> ps_fee_pips next' \<or> ps_stable previous \<noteq> ps_stable next' \<or>
     ps_reserve0 previous \<noteq> ps_reserve0 next' \<or> ps_reserve1 previous \<noteq> ps_reserve1 next' \<or>
     ps_sqrt_price_x96 previous \<noteq> ps_sqrt_price_x96 next' \<or> ps_liquidity previous \<noteq> ps_liquidity next' \<or>
     ps_tick previous \<noteq> ps_tick next' \<or> ps_tick_spacing previous \<noteq> ps_tick_spacing next'"

text \<open>Ticks are compared by index, net and gross liquidity, in any order.\<close>

definition tick_state_fingerprint :: "tick_state \<Rightarrow> int \<times> int \<times> string" where
  "tick_state_fingerprint t = (sint (ts_tick t), sint (ts_liquidity_net t), nat_dec (unat (ts_liquidity_gross t)))"

definition tick_states_changed :: "tick_state list \<Rightarrow> tick_state list \<Rightarrow> bool" where
  "tick_states_changed previous next' \<longleftrightarrow>
     (if length previous \<noteq> length next' then True
      else sort (map tick_state_fingerprint previous) \<noteq> sort (map tick_state_fingerprint next'))"

section \<open>Tick deltas\<close>

definition apply_signed_u256_delta :: "u256 \<Rightarrow> i128 \<Rightarrow> u256 anyhow" where
  "apply_signed_u256_delta value delta =
     (if 0 \<le> sint delta
      then ok_or_message (checked_add value (ucast delta)) ''liquidity_gross overflow''
      else Inr (saturating_sub value (ucast (- delta))))"

text \<open>\<open>i128::checked_add\<close>.\<close>

definition i128_checked_add :: "i128 \<Rightarrow> i128 \<Rightarrow> i128 option" where
  "i128_checked_add a b =
     (if - (2 ^ 127) \<le> sint a + sint b \<and> sint a + sint b < 2 ^ 127 then Some (a + b) else None)"

fun position :: "('a \<Rightarrow> bool) \<Rightarrow> 'a list \<Rightarrow> nat option" where
  "position P [] = None"
| "position P (x # xs) = (if P x then Some 0 else map_option Suc (position P xs))"

text \<open>\<open>Vec::swap_remove\<close>: the last element takes the place of the removed one.\<close>

definition swap_remove :: "nat \<Rightarrow> 'a list \<Rightarrow> 'a list" where
  "swap_remove i xs = (if i = length xs - 1 then butlast xs else butlast (xs[i := last xs]))"

definition apply_tick_delta ::
    "datetime \<Rightarrow> pool_id \<Rightarrow> u64 \<Rightarrow> tick_delta \<Rightarrow> tick_state list \<Rightarrow> tick_state list anyhow" where
  "apply_tick_delta now pool block_number delta ticks =
     (let existing_index = position (\<lambda>t. ts_tick t = td_tick delta) ticks;
          tick_state = (case existing_index of
              Some i \<Rightarrow> ticks ! i
            | None \<Rightarrow> \<lparr>ts_pool_id = pool, ts_tick = td_tick delta, ts_liquidity_net = 0, ts_liquidity_gross = 0,
                       ts_block_number = block_number, ts_updated_at = now\<rparr>) in
      rbind (ok_or_message (i128_checked_add (ts_liquidity_net tick_state) (td_net_delta delta)) ''liquidity_net overflow'')
        (\<lambda>net.
      rbind (apply_signed_u256_delta (ts_liquidity_gross tick_state) (td_gross_delta delta)) (\<lambda>gross.
      let tick_state = tick_state\<lparr>ts_liquidity_net := net, ts_liquidity_gross := gross,
            ts_block_number := block_number, ts_updated_at := now\<rparr> in
      Inr (if gross = 0
           then (case existing_index of Some i \<Rightarrow> swap_remove i ticks | None \<Rightarrow> ticks)
           else (case existing_index of Some i \<Rightarrow> ticks[i := tick_state] | None \<Rightarrow> ticks @ [tick_state])))))"

fun apply_tick_deltas_to ::
    "datetime \<Rightarrow> pool_id \<Rightarrow> u64 \<Rightarrow> tick_delta list \<Rightarrow> tick_state list \<Rightarrow> tick_state list anyhow" where
  "apply_tick_deltas_to now pool block_number [] ticks = Inr ticks"
| "apply_tick_deltas_to now pool block_number (delta # deltas) ticks =
     rbind (apply_tick_delta now pool block_number delta ticks) (apply_tick_deltas_to now pool block_number deltas)"

section \<open>Drift\<close>

definition u32_abs_diff :: "u32 \<Rightarrow> u32 \<Rightarrow> nat" where
  "u32_abs_diff a b = (if unat a < unat b then unat b - unat a else unat a - unat b)"

definition value_drift_bps :: "u256 option \<Rightarrow> u256 option \<Rightarrow> u64" where
  "value_drift_bps local onchain =
     (case local of None \<Rightarrow> - 1 | Some local \<Rightarrow>
     (case onchain of None \<Rightarrow> - 1 | Some onchain \<Rightarrow>
        if local = onchain then 0
        else if onchain = 0 then - 1
        else let diff = (if onchain < local then local - onchain else onchain - local);
                 bps = saturating_mul diff 10000 div onchain
             in if unat bps < 2 ^ 64 then ucast bps else - 1))"

definition tick_drift :: "i32 option \<Rightarrow> i32 option \<Rightarrow> u64" where
  "tick_drift local onchain =
     (case (local, onchain) of
        (Some l, Some r) \<Rightarrow> if l = r then 0 else word_of_int (max \<bar>sint l - sint r\<bar> 1)
      | _ \<Rightarrow> - 1)"

definition v3_state_drift_bps :: "pool_state \<Rightarrow> pool_state \<Rightarrow> u64" where
  "v3_state_drift_bps local onchain =
     max (max (value_drift_bps (ps_sqrt_price_x96 local) (ps_sqrt_price_x96 onchain))
              (value_drift_bps (ps_liquidity local) (ps_liquidity onchain)))
       (tick_drift (ps_tick local) (ps_tick onchain))"

definition reserve_drift_bps :: "pool_state \<Rightarrow> pool_state \<Rightarrow> u64" where
  "reserve_drift_bps local onchain =
     max (value_drift_bps (ps_reserve0 local) (ps_reserve0 onchain))
         (value_drift_bps (ps_reserve1 local) (ps_reserve1 onchain))"

definition aerodrome_fee_drift_bps :: "pool_state \<Rightarrow> pool_state \<Rightarrow> u64" where
  "aerodrome_fee_drift_bps local onchain =
     (if ps_variant local = AerodromeSlipstream
      then (case (ps_fee_pips local, ps_fee_pips onchain) of
              (Some l, Some r) \<Rightarrow> if l = r then 0 else word_of_nat (max (div_ceil (u32_abs_diff l r) 100) 1)
            | _ \<Rightarrow> - 1)
      else word_of_nat (u32_abs_diff (ps_fee_bps local) (ps_fee_bps onchain)))"

definition state_drift_bps :: "pool_state \<Rightarrow> pool_state \<Rightarrow> u64" where
  "state_drift_bps local onchain =
     (case (ps_dex local, ps_variant local) of
        (DexAerodrome, AerodromeVolatile) \<Rightarrow> max (reserve_drift_bps local onchain) (aerodrome_fee_drift_bps local onchain)
      | (DexAerodrome, AerodromeSlipstream) \<Rightarrow> max (v3_state_drift_bps local onchain) (aerodrome_fee_drift_bps local onchain)
      | (DexUniswapV3, UniswapV3) \<Rightarrow> v3_state_drift_bps local onchain
      | (DexPancakeSwap, PancakeV3) \<Rightarrow> v3_state_drift_bps local onchain
      | _ \<Rightarrow> - 1)"

section \<open>Monitored states\<close>

definition pool_state_index_by_address :: "pool_state list \<Rightarrow> (address \<times> nat) list" where
  "pool_state_index_by_address states =
     fold (\<lambda>(i, state) m. hash_insert (ps_address state) i m) (enumerate 0 states) []"

definition advance_valid_through_block :: "pool_state list \<Rightarrow> u64 \<Rightarrow> pool_state list \<times> address set" where
  "advance_valid_through_block states block_number =
     (map (\<lambda>state. if effective_valid_through_block state < block_number
             then state\<lparr>ps_valid_through_block := block_number\<rparr> else state) states,
      ps_address ` set (filter (\<lambda>state. effective_valid_through_block state < block_number) states))"

definition protocol_for_tick_state :: "pool_state \<Rightarrow> string option" where
  "protocol_for_tick_state p =
     (case (ps_dex p, ps_variant p) of
        (DexAerodrome, AerodromeSlipstream) \<Rightarrow> Some ''aerodrome-slipstream''
      | (DexUniswapV3, UniswapV3) \<Rightarrow> Some ''uniswap-v3''
      | (DexPancakeSwap, PancakeV3) \<Rightarrow> Some ''pancake-v3''
      | (DexUniswapV4, UniswapV4) \<Rightarrow> Some ''uniswap-v4''
      | _ \<Rightarrow> None)"

section \<open>Properties\<close>

subsection \<open>Seen logs\<close>

lemma evict_oldest_drop:
  assumes "distinct order" "seen = set order"
  shows "evict_oldest limit order seen = (drop (length order - limit) order, set (drop (length order - limit) order))"
  using assms
proof (induction limit order seen rule: evict_oldest.induct)
  case (2 limit oldest order seen)
  then show ?case by (auto simp: Suc_diff_le not_less_eq)
qed simp

definition log_cache_ok :: "recent_log_cache \<Rightarrow> bool" where
  "log_cache_ok cache \<longleftrightarrow> rl_set cache = set (rl_order cache) \<and> distinct (rl_order cache) \<and>
     length (rl_order cache) \<le> rl_limit cache"

lemma log_cache_ok_new: "log_cache_ok (recent_log_cache_new limit)"
  by (simp add: log_cache_ok_def recent_log_cache_new_def)

lemma recent_log_insert_window:
  assumes "log_cache_ok cache"
  shows "recent_log_insert h i cache =
    (if (h, i) \<in> set (rl_order cache) then (False, cache)
     else let order = drop (Suc (length (rl_order cache)) - rl_limit cache) (rl_order cache @ [(h, i)])
          in (True, cache\<lparr>rl_order := order, rl_set := set order\<rparr>))"
  using assms evict_oldest_drop [of "rl_order cache @ [(h, i)]" "insert (h, i) (rl_set cache)" "rl_limit cache"]
  by (auto simp: recent_log_insert_def log_cache_ok_def Let_def)

lemma recent_log_insert_ok: "log_cache_ok cache \<Longrightarrow> log_cache_ok (snd (recent_log_insert h i cache))"
  by (subst recent_log_insert_window) (auto simp: log_cache_ok_def Let_def distinct_drop simp del: drop_append)

fun accept_logs :: "(string \<times> u64) list \<Rightarrow> recent_log_cache \<Rightarrow> bool list" where
  "accept_logs [] cache = []"
| "accept_logs ((h, i) # keys) cache =
     (case recent_log_insert h i cache of (fresh, cache) \<Rightarrow> fresh # accept_logs keys cache)"

lemma accept_logs_exact:
  assumes "log_cache_ok cache" "set seen = set (rl_order cache)" "card (set seen \<union> set keys) \<le> rl_limit cache"
  shows "accept_logs keys cache = map (\<lambda>i. keys ! i \<notin> set seen \<union> set (take i keys)) [0..<length keys]"
  using assms
proof (induction keys arbitrary: cache seen)
  case (Cons key keys)
  obtain h i where key: "key = (h, i)" by fastforce
  have upt: "map f [0..<Suc n] = f 0 # map (\<lambda>i. f (Suc i)) [0..<n]" for f :: "nat \<Rightarrow> bool" and n
    by (simp add: upt_conv_Cons map_Suc_upt [symmetric] del: upt_Suc)
  show ?case
  proof (cases "key \<in> set seen")
    case True
    have "recent_log_insert h i cache = (False, cache)"
      using recent_log_insert_window [OF Cons.prems(1), of h i] True Cons.prems(2) by (simp add: key)
    moreover have "set seen \<union> insert key A = set seen \<union> A" for A using True by auto
    ultimately show ?thesis
      using Cons.IH [OF Cons.prems(1,2)] Cons.prems(3) True by (auto simp: key upt simp del: upt_Suc)
  next
    case False
    let ?cache = "cache\<lparr>rl_order := rl_order cache @ [(h, i)], rl_set := set (rl_order cache @ [(h, i)])\<rparr>"
    have "card (insert key (set seen)) \<le> rl_limit cache"
      by (rule le_trans [OF card_mono Cons.prems(3)]) auto
    moreover have "card (insert key (set seen)) = Suc (length (rl_order cache))"
      using False Cons.prems(1,2) distinct_card [of "rl_order cache"] by (simp add: log_cache_ok_def)
    ultimately have r: "recent_log_insert h i cache = (True, ?cache)" and ok: "log_cache_ok ?cache"
      using recent_log_insert_window [OF Cons.prems(1), of h i] False Cons.prems(1,2)
      by (simp_all add: key log_cache_ok_def)
    have "accept_logs keys ?cache = map (\<lambda>i. keys ! i \<notin> set (key # seen) \<union> set (take i keys)) [0..<length keys]"
      by (rule Cons.IH [OF ok]) (use Cons.prems in \<open>simp_all add: key\<close>)
    then show ?thesis using r False by (auto simp: key upt simp del: upt_Suc)
  qed
qed simp

text \<open>The specification for any stream: a log is accepted when its key is not among the last \<open>limit\<close>
  keys accepted before.\<close>

definition recent :: "nat \<Rightarrow> 'a list \<Rightarrow> 'a list" where
  "recent limit history = drop (length history - limit) history"

definition accept_key :: "nat \<Rightarrow> 'a \<Rightarrow> 'a list \<Rightarrow> 'a list" where
  "accept_key limit key history = (if key \<in> set (recent limit history) then history else history @ [key])"

definition accepted_keys :: "nat \<Rightarrow> 'a list \<Rightarrow> 'a list" where
  "accepted_keys limit keys = fold (accept_key limit) keys []"

lemma recent_snoc:
  "recent limit (history @ [key]) = drop (Suc (length (recent limit history)) - limit) (recent limit history @ [key])"
proof (cases "length history < limit")
  case False
  then have "length (recent limit history) = limit" by (simp add: recent_def)
  then show ?thesis using False by (simp add: recent_def Suc_diff_le not_less)
qed (simp add: recent_def)

lemma accept_logs_windows:
  assumes "log_cache_ok cache" "rl_order cache = recent (rl_limit cache) history"
  shows "accept_logs keys cache =
    map (\<lambda>i. keys ! i \<notin> set (recent (rl_limit cache) (fold (accept_key (rl_limit cache)) (take i keys) history)))
      [0..<length keys]"
  using assms
proof (induction keys arbitrary: cache history)
  case (Cons key keys)
  let ?l = "rl_limit cache"
  obtain h i where key: "key = (h, i)" by fastforce
  obtain fresh cache' where r: "recent_log_insert h i cache = (fresh, cache')" by fastforce
  have upt: "map f [0..<Suc n] = f 0 # map (\<lambda>i. f (Suc i)) [0..<n]" for f :: "nat \<Rightarrow> bool" and n
    by (simp add: upt_conv_Cons map_Suc_upt [symmetric] del: upt_Suc)
  have fresh: "fresh \<longleftrightarrow> key \<notin> set (recent ?l history)" and limit: "rl_limit cache' = ?l"
    and order: "rl_order cache' = recent ?l (accept_key ?l key history)"
    using r recent_log_insert_window [OF Cons.prems(1), of h i] Cons.prems(2)
    by (auto simp: key Let_def accept_key_def recent_snoc simp del: drop_append split: if_splits)
  have "log_cache_ok cache'" using recent_log_insert_ok [OF Cons.prems(1), of h i] r by simp
  from Cons.IH [OF this, of "accept_key ?l key history"] show ?case
    using r fresh limit order by (simp add: key upt del: upt_Suc)
qed simp

text \<open>C29: A log is accepted exactly when its key is not among the last \<open>limit\<close> keys accepted before it,
  for any stream of logs: evicted keys are accepted again, and no others. In particular, while no more
  distinct keys arrive than the cache holds, each is accepted exactly the first time it arrives.\<close>

theorem logs_accepted_once:
  "accept_logs keys (recent_log_cache_new limit) =
     map (\<lambda>i. keys ! i \<notin> set (recent limit (accepted_keys limit (take i keys)))) [0..<length keys] \<and>
   (card (set keys) \<le> limit \<longrightarrow>
     accept_logs keys (recent_log_cache_new limit) = map (\<lambda>i. keys ! i \<notin> set (take i keys)) [0..<length keys])"
  using accept_logs_windows [of "recent_log_cache_new limit" "[]" keys]
    accept_logs_exact [of "recent_log_cache_new limit" "[]" keys] log_cache_ok_new [of limit]
  by (simp add: recent_log_cache_new_def recent_def accepted_keys_def)

theorem logs_accepted_once_witness:
  "accept_logs [(''a'', 1), (''b'', 1), (''a'', 1)] (recent_log_cache_new 2) = [True, True, False] \<and>
   accept_logs [(''a'', 1), (''b'', 1), (''a'', 1)] (recent_log_cache_new 1) = [True, True, True]"
  unfolding logs_accepted_once [THEN conjunct1]
  by (simp add: upt_rec accepted_keys_def accept_key_def recent_def)

subsection \<open>Tick deltas\<close>

lemma position_Some: "position P xs = Some i \<Longrightarrow> i < length xs \<and> P (xs ! i)"
  by (induction P xs arbitrary: i rule: position.induct) (auto split: if_splits)

lemma position_None: "position P xs = None \<longleftrightarrow> (\<forall>x \<in> set xs. \<not> P x)"
  by (induction P xs rule: position.induct) auto

lemma mset_swap_remove:
  assumes "i < length xs"
  shows "mset (swap_remove i xs) = mset xs - {#xs ! i#}"
proof (cases "i = length xs - 1")
  case True
  then show ?thesis using assms
    by (cases xs rule: rev_cases) (auto simp: swap_remove_def)
next
  case False
  obtain ys y where xs: "xs = ys @ [y]" using assms by (cases xs rule: rev_cases) auto
  then have "i < length ys" using assms False by simp
  then show ?thesis using False
    by (simp add: swap_remove_def xs nth_append mset_update list_update_append)
qed

type_synonym liquidity_view = "i32 \<rightharpoonup> i128 \<times> u256"

definition liquidity_view :: "tick_state list \<Rightarrow> liquidity_view" where
  "liquidity_view ticks = map_of (map (\<lambda>t. (ts_tick t, ts_liquidity_net t, ts_liquidity_gross t)) ticks)"

text \<open>The ticks of a pool: each index once, with some liquidity referencing it.\<close>

definition ticks_ok :: "tick_state list \<Rightarrow> bool" where
  "ticks_ok ticks \<longleftrightarrow> distinct (map ts_tick ticks) \<and> list_all (\<lambda>t. ts_liquidity_gross t \<noteq> 0) ticks"

lemma liquidity_view_iff:
  assumes "distinct (map ts_tick ticks)"
  shows "liquidity_view ticks i = Some v \<longleftrightarrow>
    (\<exists>t \<in> set ticks. ts_tick t = i \<and> v = (ts_liquidity_net t, ts_liquidity_gross t))"
  unfolding liquidity_view_def by (subst map_of_eq_Some_iff) (use assms in \<open>auto simp: comp_def\<close>)

lemma liquidity_view_None: "liquidity_view ticks i = None \<longleftrightarrow> (\<forall>t \<in> set ticks. ts_tick t \<noteq> i)"
  by (force simp: liquidity_view_def map_of_eq_None_iff)

text \<open>What a delta does to the liquidity of its tick, and of no other.\<close>

definition liquidity_at :: "liquidity_view \<Rightarrow> i32 \<Rightarrow> i128 \<times> u256" where
  "liquidity_at m i = (case m i of None \<Rightarrow> (0, 0) | Some v \<Rightarrow> v)"

definition apply_view_delta :: "tick_delta \<Rightarrow> liquidity_view \<Rightarrow> liquidity_view anyhow" where
  "apply_view_delta delta m =
     (case liquidity_at m (td_tick delta) of (net, gross) \<Rightarrow>
      rbind (ok_or_message (i128_checked_add net (td_net_delta delta)) ''liquidity_net overflow'') (\<lambda>net.
      rbind (apply_signed_u256_delta gross (td_gross_delta delta)) (\<lambda>gross.
      Inr (m(td_tick delta := (if gross = 0 then None else Some (net, gross)))))))"

lemma option_eqI: "(\<And>v. x = Some v \<longleftrightarrow> y = Some v) \<Longrightarrow> x = y"
  by (cases x; cases y) auto

lemma view_eqI:
  assumes "distinct (map ts_tick ticks)"
    "\<And>i v. m i = Some v \<longleftrightarrow> (\<exists>t \<in> set ticks. ts_tick t = i \<and> v = (ts_liquidity_net t, ts_liquidity_gross t))"
  shows "liquidity_view ticks = m"
proof
  fix i show "liquidity_view ticks i = m i"
  proof (rule option_eqI)
    fix v show "liquidity_view ticks i = Some v \<longleftrightarrow> m i = Some v"
      using liquidity_view_iff [OF assms(1), of i v] assms(2) [of i v] by blast
  qed
qed

lemma same_tick_iff:
  assumes "distinct (map ts_tick ticks)" "k < length ticks" "t \<in> set ticks"
  shows "ts_tick t = ts_tick (ticks ! k) \<longleftrightarrow> t = ticks ! k"
  using assms by (metis distinct_map inj_onD nth_mem)

lemma remove_tick_view:
  assumes "distinct (map ts_tick ticks)" "k < length ticks"
  shows "distinct (map ts_tick (swap_remove k ticks)) \<and>
    liquidity_view (swap_remove k ticks) = (liquidity_view ticks)(ts_tick (ticks ! k) := None)"
proof
  have mset: "mset (swap_remove k ticks) = mset ticks - {#ticks ! k#}" by (rule mset_swap_remove [OF assms(2)])
  then have "add_mset (ticks ! k) (mset (swap_remove k ticks)) = mset ticks"
    using assms(2) by (simp add: nth_mem)
  then have perm: "mset (map ts_tick (ticks ! k # swap_remove k ticks)) = mset (map ts_tick ticks)"
    and set: "set ticks = insert (ticks ! k) (set (swap_remove k ticks))"
    by (metis mset_map mset.simps(2)) (metis \<open>add_mset _ _ = _\<close> mset.simps(2) list.simps(15) mset_eq_setD)
  have dist: "distinct (map ts_tick (ticks ! k # swap_remove k ticks))"
    using mset_eq_imp_distinct_iff [OF perm] assms(1) by blast
  then show d: "distinct (map ts_tick (swap_remove k ticks))" by simp
  show "liquidity_view (swap_remove k ticks) = (liquidity_view ticks)(ts_tick (ticks ! k) := None)"
  proof (rule view_eqI [OF d])
    fix i v
    have rest: "t \<in> set (swap_remove k ticks) \<longleftrightarrow> t \<in> set ticks \<and> ts_tick t \<noteq> ts_tick (ticks ! k)" for t
      using dist set same_tick_iff [OF assms, of t] by auto
    show "((liquidity_view ticks)(ts_tick (ticks ! k) := None)) i = Some v \<longleftrightarrow>
        (\<exists>t \<in> set (swap_remove k ticks). ts_tick t = i \<and> v = (ts_liquidity_net t, ts_liquidity_gross t))"
      unfolding fun_upd_apply rest by (auto simp: liquidity_view_iff [OF assms(1)] rest)
  qed
qed

lemma set_tick_view:
  assumes "distinct (map ts_tick ticks)" "k < length ticks" "ts_tick t = ts_tick (ticks ! k)"
  shows "distinct (map ts_tick (ticks[k := t])) \<and>
    liquidity_view (ticks[k := t]) = (liquidity_view ticks)(ts_tick t \<mapsto> (ts_liquidity_net t, ts_liquidity_gross t))"
proof
  have keys: "map ts_tick (ticks[k := t]) = map ts_tick ticks"
    using assms(2,3) by (simp add: map_update list_update_same_conv)
  then show d: "distinct (map ts_tick (ticks[k := t]))" using assms(1) by simp
  show "liquidity_view (ticks[k := t]) = (liquidity_view ticks)(ts_tick t \<mapsto> (ts_liquidity_net t, ts_liquidity_gross t))"
  proof (rule view_eqI [OF d])
    fix i v
    have new: "t' \<in> set (ticks[k := t]) \<longleftrightarrow> t' = t \<or> t' \<in> set ticks \<and> ts_tick t' \<noteq> ts_tick t" for t'
      using same_tick_iff [OF assms(1,2), of t'] assms(1,2,3) set_update_distinct [of ticks k t]
      by (auto simp: distinct_map)
    show "((liquidity_view ticks)(ts_tick t \<mapsto> (ts_liquidity_net t, ts_liquidity_gross t))) i = Some v \<longleftrightarrow>
        (\<exists>t' \<in> set (ticks[k := t]). ts_tick t' = i \<and> v = (ts_liquidity_net t', ts_liquidity_gross t'))"
      unfolding fun_upd_apply by (auto simp: liquidity_view_iff [OF assms(1)] new)
  qed
qed

lemma push_tick_view:
  assumes "distinct (map ts_tick ticks)" "\<forall>t' \<in> set ticks. ts_tick t' \<noteq> ts_tick t"
  shows "distinct (map ts_tick (ticks @ [t])) \<and>
    liquidity_view (ticks @ [t]) = (liquidity_view ticks)(ts_tick t \<mapsto> (ts_liquidity_net t, ts_liquidity_gross t))"
proof
  show d: "distinct (map ts_tick (ticks @ [t]))" using assms by auto
  show "liquidity_view (ticks @ [t]) = (liquidity_view ticks)(ts_tick t \<mapsto> (ts_liquidity_net t, ts_liquidity_gross t))"
    by (rule view_eqI [OF d]) (use assms(2) in \<open>auto simp: liquidity_view_iff [OF assms(1)]\<close>)
qed

lemma apply_tick_delta_view:
  assumes "distinct (map ts_tick ticks)"
  shows "case apply_tick_delta now pool b delta ticks of
      Inl e \<Rightarrow> apply_view_delta delta (liquidity_view ticks) = Inl e
    | Inr ticks' \<Rightarrow> distinct (map ts_tick ticks') \<and> apply_view_delta delta (liquidity_view ticks) = Inr (liquidity_view ticks')"
proof (cases "position (\<lambda>t. ts_tick t = td_tick delta) ticks")
  case None
  then have new: "\<forall>t' \<in> set ticks. ts_tick t' \<noteq> td_tick delta" by (simp add: position_None)
  then have "liquidity_view ticks (td_tick delta) = None" by (simp add: liquidity_view_None)
  then show ?thesis using None assms new push_tick_view [OF assms]
    by (auto simp: apply_tick_delta_def apply_view_delta_def liquidity_at_def fun_upd_idem Let_def rbind_def split: sum.split)
next
  case (Some k)
  note k = position_Some [OF Some]
  have "liquidity_view ticks (td_tick delta) = Some (ts_liquidity_net (ticks ! k), ts_liquidity_gross (ticks ! k))"
    using k by (subst liquidity_view_iff [OF assms]) (auto intro!: bexI [of _ "ticks ! k"])
  then show ?thesis using Some k assms remove_tick_view [OF assms, of k] set_tick_view [OF assms, of k]
    by (auto simp: apply_tick_delta_def apply_view_delta_def liquidity_at_def Let_def rbind_def split: sum.split)
qed

fun apply_view_deltas :: "tick_delta list \<Rightarrow> liquidity_view \<Rightarrow> liquidity_view anyhow" where
  "apply_view_deltas [] m = Inr m"
| "apply_view_deltas (delta # deltas) m = rbind (apply_view_delta delta m) (apply_view_deltas deltas)"

text \<open>The list of ticks implements the map from indices to liquidity.\<close>

lemma apply_tick_deltas_view:
  assumes "distinct (map ts_tick ticks)"
  shows "case apply_tick_deltas_to now pool b deltas ticks of
      Inl e \<Rightarrow> apply_view_deltas deltas (liquidity_view ticks) = Inl e
    | Inr ticks' \<Rightarrow> distinct (map ts_tick ticks') \<and> apply_view_deltas deltas (liquidity_view ticks) = Inr (liquidity_view ticks')"
  using assms
proof (induction deltas arbitrary: ticks)
  case (Cons delta deltas)
  note one = apply_tick_delta_view [OF Cons.prems, of delta now pool b]
  show ?case
  proof (cases "apply_tick_delta now pool b delta ticks")
    case (Inr ticks')
    then show ?thesis using one Cons.IH [of ticks'] by (simp split: sum.splits)
  qed (use one in simp)
qed simp

definition view_ok :: "liquidity_view \<Rightarrow> bool" where
  "view_ok m \<longleftrightarrow> (\<forall>i net. m i \<noteq> Some (net, 0))"

lemma view_ok_iff: "distinct (map ts_tick ticks) \<Longrightarrow> ticks_ok ticks \<longleftrightarrow> view_ok (liquidity_view ticks)"
  by (auto simp: ticks_ok_def view_ok_def liquidity_view_iff list_all_iff)

lemma apply_view_delta_Inr:
  assumes "apply_view_delta delta m = Inr m'"
  obtains net gross where
    "i128_checked_add (fst (liquidity_at m (td_tick delta))) (td_net_delta delta) = Some net"
    "apply_signed_u256_delta (snd (liquidity_at m (td_tick delta))) (td_gross_delta delta) = Inr gross"
    "m' = m(td_tick delta := if gross = 0 then None else Some (net, gross))"
  using assms unfolding apply_view_delta_def case_prod_unfold rbind_Inr_iff ok_or_message_iff
  by - (elim exE conjE, rule that, assumption+, drule sym, simp)

lemma view_ok_delta:
  assumes "view_ok m" "apply_view_delta delta m = Inr m'"
  shows "view_ok m'"
proof -
  obtain net gross where "m' = m(td_tick delta := if gross = 0 then None else Some (net, gross))"
    by (rule apply_view_delta_Inr [OF assms(2)])
  then show ?thesis using assms(1) by (auto simp: view_ok_def split: if_splits)
qed

text \<open>The arithmetic of one undo.\<close>

lemma sint_i128_bounds: "- (2 ^ 127) \<le> sint (a :: i128)" "sint (a :: i128) < 2 ^ 127"
  using sint_greater_eq [of a] sint_less [of a] by simp_all

lemma sint_i128_add:
  fixes a b :: i128
  assumes "- (2 ^ 127) \<le> sint a + sint b" "sint a + sint b < 2 ^ 127"
  shows "sint (a + b) = sint a + sint b"
  using assms by (simp add: sint_word_ariths signed_take_bit_int_eq_self)

lemma sint_i128_minus: "0 < sint (a :: i128) \<Longrightarrow> sint (- a) = - sint a"
  using sint_i128_bounds [of a] by (simp add: sint_word_ariths signed_take_bit_int_eq_self)

lemma i128_checked_add_undo:
  assumes "i128_checked_add n d = Some n'" "sint (- d) = - sint d"
  shows "i128_checked_add n' (- d) = Some n"
  using assms sint_i128_add [of n d] sint_i128_bounds [of n] by (auto simp: i128_checked_add_def split: if_splits)

lemma i128_positive_value:
  assumes "0 < sint (a :: i128)"
  shows "unat (ucast a :: u256) = nat (sint a)" "(ucast a :: u256) \<noteq> 0"
proof -
  have "uint a = sint a"
    using assms sint_i128_bounds [of a] by (simp add: uint_sint take_bit_int_eq_self)
  then have "unat a = nat (sint a)" by (metis nat_uint_eq)
  then show v: "unat (ucast a :: u256) = nat (sint a)" by (subst unat_ucast_up) simp_all
  then show "(ucast a :: u256) \<noteq> 0" using assms by auto
qed

text \<open>Adding liquidity at a tick and taking it back restores the entry of the tick.\<close>

lemma view_delta_undo:
  assumes "view_ok m" "0 < sint a" "sint (- d) = - sint d"
    "apply_view_delta \<lparr>td_tick = i, td_gross_delta = a, td_net_delta = d\<rparr> m = Inr m1" "m2 i = m1 i"
  shows "apply_view_delta \<lparr>td_tick = i, td_gross_delta = - a, td_net_delta = - d\<rparr> m2 = Inr (m2(i := m i))"
proof -
  obtain n g where at: "liquidity_at m i = (n, g)" by fastforce
  obtain net gross where net: "i128_checked_add n d = Some net" and gross: "apply_signed_u256_delta g a = Inr gross"
    and m1: "m1 = m(i := if gross = 0 then None else Some (net, gross))"
    using apply_view_delta_Inr [OF assms(4)] at by auto
  note a = i128_positive_value [OF assms(2)]
  have sum: "checked_add g (ucast a) = Some gross"
    using gross assms(2) by (simp add: apply_signed_u256_delta_def)
  then have total: "unat gross = unat g + unat (ucast a :: u256)" by (simp add: checked_add_iff)
  moreover have "unat (ucast a :: u256) \<noteq> 0" using a(2) by (simp add: unat_eq_zero)
  ultimately have "gross \<noteq> 0" by auto
  then have at2: "liquidity_at m2 i = (net, gross)" by (simp add: liquidity_at_def assms(5) m1)
  have "saturating_sub gross (ucast a) = g"
    by (subst word_eq_iff_unat) (simp add: unat_saturating_sub total)
  then have restore: "apply_signed_u256_delta gross (- a) = Inr g"
    using sint_i128_minus [OF assms(2)] assms(2) by (simp add: apply_signed_u256_delta_def)
  have entry: "(if g = 0 then None else Some (n, g)) = m i"
    using at assms(1) by (auto simp: liquidity_at_def view_ok_def split: option.splits)
  show ?thesis
    using at2 restore i128_checked_add_undo [OF net assms(3)] entry by (simp add: apply_view_delta_def)
qed

text \<open>C28: Burning the liquidity a mint added restores the pool's ticks: the burn succeeds, and every tick
  has the net and gross liquidity it had before, ticks that only the mint had initialised being gone.\<close>

theorem mint_then_burn_restores:
  assumes "ticks_ok ticks" "lower \<noteq> upper" "0 < sint amount"
    and "apply_tick_deltas_to now pool b (liquidity_deltas True lower upper amount) ticks = Inr minted"
  shows "case apply_tick_deltas_to now' pool b' (liquidity_deltas False lower upper amount) minted of
      Inl e \<Rightarrow> False
    | Inr burned \<Rightarrow> ticks_ok burned \<and> liquidity_view burned = liquidity_view ticks"
proof -
  let ?m = "liquidity_view ticks"
  have d: "distinct (map ts_tick ticks)" using assms(1) by (simp add: ticks_ok_def)
  have ok: "view_ok ?m" using assms(1) view_ok_iff [OF d] by simp
  have minted: "distinct (map ts_tick minted)"
    "apply_view_deltas (liquidity_deltas True lower upper amount) ?m = Inr (liquidity_view minted)"
    using apply_tick_deltas_view [OF d, of "liquidity_deltas True lower upper amount" now pool b] assms(4) by simp_all
  then obtain m1 where
    m1: "apply_view_delta \<lparr>td_tick = lower, td_gross_delta = amount, td_net_delta = amount\<rparr> ?m = Inr m1"
    and m2: "apply_view_delta \<lparr>td_tick = upper, td_gross_delta = amount, td_net_delta = - amount\<rparr> m1 =
      Inr (liquidity_view minted)"
    by (auto simp: liquidity_deltas_def)
  have ok1: "view_ok m1" by (rule view_ok_delta [OF ok m1])
  have upper: "m1 upper = ?m upper" "?m = m1(lower := ?m lower)"
    using apply_view_delta_Inr [OF m1] assms(2) by (force simp: fun_upd_idem)+
  have lower: "liquidity_view minted lower = m1 lower" "m1 = (liquidity_view minted)(upper := m1 upper)"
    using apply_view_delta_Inr [OF m2] assms(2) by (force simp: fun_upd_idem)+
  have minus: "sint (- amount) = - sint amount" "sint (- (- amount)) = - sint (- amount)"
    using sint_i128_minus [OF assms(3)] by simp_all
  have undo1: "apply_view_delta \<lparr>td_tick = lower, td_gross_delta = - amount, td_net_delta = - amount\<rparr>
      (liquidity_view minted) = Inr ((liquidity_view minted)(lower := ?m lower))"
    by (rule view_delta_undo [where ?m2.0 = "liquidity_view minted", OF ok assms(3) minus(1) m1 lower(1)])
  have "((liquidity_view minted)(lower := ?m lower)) upper = liquidity_view minted upper" using assms(2) by simp
  from view_delta_undo [where ?m2.0 = "(liquidity_view minted)(lower := ?m lower)", OF ok1 assms(3) minus(2) m2 this]
  have undo2: "apply_view_delta \<lparr>td_tick = upper, td_gross_delta = - amount, td_net_delta = amount\<rparr>
      ((liquidity_view minted)(lower := ?m lower)) = Inr ((liquidity_view minted)(lower := ?m lower, upper := m1 upper))"
    by simp
  have "(liquidity_view minted)(lower := ?m lower, upper := m1 upper) = m1(lower := ?m lower)"
    using lower(2) assms(2) by (metis fun_upd_twist)
  then have "apply_view_deltas (liquidity_deltas False lower upper amount) (liquidity_view minted) = Inr ?m"
    using undo1 undo2 upper(2) by (simp add: liquidity_deltas_def)
  then show ?thesis
    using apply_tick_deltas_view [OF minted(1), of "liquidity_deltas False lower upper amount" now' pool b'] ok
    by (auto simp: view_ok_iff split: sum.splits)
qed

definition example_pool_tick :: "i32 \<Rightarrow> i128 \<Rightarrow> u256 \<Rightarrow> tick_state" where
  "example_pool_tick tick net gross = \<lparr>ts_pool_id = \<lparr>pid_chain_id = 8453, pid_address = 100\<rparr>, ts_tick = tick,
     ts_liquidity_net = net, ts_liquidity_gross = gross, ts_block_number = 10, ts_updated_at = 0\<rparr>"

lemma example_mint:
  "apply_tick_deltas_to 0 \<lparr>pid_chain_id = 8453, pid_address = 100\<rparr> 10 (liquidity_deltas True 60 120 3)
     [example_pool_tick 60 5 7] = Inr [example_pool_tick 60 8 10, example_pool_tick 120 (-3) 3]"
  by (simp add: liquidity_deltas_def apply_tick_delta_def apply_signed_u256_delta_def i128_checked_add_def
      checked_add_def example_pool_tick_def Let_def cong: rbind_weak_cong)

theorem mint_then_burn_restores_witness:
  "case apply_tick_deltas_to 0 \<lparr>pid_chain_id = 8453, pid_address = 100\<rparr> 11 (liquidity_deltas False 60 120 3)
       [example_pool_tick 60 8 10, example_pool_tick 120 (-3) 3] of
     Inl e \<Rightarrow> False
   | Inr burned \<Rightarrow> ticks_ok burned \<and> liquidity_view burned = liquidity_view [example_pool_tick 60 5 7]"
  by (rule mint_then_burn_restores [OF _ _ _ example_mint])
    (simp_all add: ticks_ok_def example_pool_tick_def)

end
