(* ===== verification/Market_Data.thy ===== *)
theory Market_Data
  imports Market_Events Act_Triples In_Memory
begin

text \<open>
  The market data service of \<open>crates/market-data/src/listener.rs\<close>: publishing pool states, following
  tick deltas, pending logs and sealed blocks, refreshing ticks, validating local states and reloading
  the registry. The stores, the node, the clock and the background recorders are the fields of
  \<open>market_env\<close>; a recorder takes a record or drops it, which the caller never sees.
\<close>

section \<open>The environment\<close>

record pool_tick_record =
  tr_chain_id :: u64
  tr_pool_address :: address
  tr_dex :: dex_kind
  tr_variant :: pool_variant
  tr_protocol :: "string option"
  tr_ticks :: "tick_state list"
  tr_status :: string
  tr_block_number :: u64
  tr_source :: string
  tr_word_radius :: "i32 option"

record pool_state_validation =
  va_pool_address :: address
  va_dex :: dex_kind
  va_variant :: pool_variant
  va_block_number :: u64
  va_block_hash :: string
  va_local_state :: pool_state
  va_onchain_state :: pool_state
  va_drift_bps :: u64
  va_passed :: bool
  va_message :: string
  va_created_at :: datetime

record 's market_env =
  mk_now :: "'s \<Rightarrow> datetime \<times> 's"
  mk_get_pool_states :: "address list \<Rightarrow> ('s, (address \<times> pool_state option) list) act"
  mk_publish_pool_states :: "u64 \<Rightarrow> pool_state list \<Rightarrow> address list \<Rightarrow> ('s, unit) act"
  mk_set_current_block :: "u64 \<Rightarrow> ('s, unit) act"
  mk_get_pool_ticks :: "address \<Rightarrow> ('s, tick_state list) act"
  mk_replace_pool_ticks :: "address \<Rightarrow> tick_state list \<Rightarrow> ('s, unit) act"
  mk_mark_tick_changed_pools :: "address list \<Rightarrow> ('s, unit) act"
  mk_get_block_hash :: "u64 \<Rightarrow> ('s, string) act"
  mk_fetch_pool_state :: "pool_registry_entry \<Rightarrow> ('s, pool_state) act"
  mk_fetch_pool_state_at :: "pool_registry_entry \<Rightarrow> string \<Rightarrow> u64 \<Rightarrow> ('s, pool_state) act"
  mk_fetch_initialized_ticks :: "pool_state \<Rightarrow> i32 \<Rightarrow> ('s, tick_state list) act"
  mk_enabled_registry_pools :: "('s, pool_registry_entry list) act"
  mk_bootstrap_configured_pools :: "('s, pool_state list) act"
  mk_fetch_classic_fee :: "address option \<Rightarrow> address \<Rightarrow> bool \<Rightarrow> string \<Rightarrow> ('s, u32) act"
  mk_fetch_slipstream_fee :: "address option \<Rightarrow> address \<Rightarrow> string \<Rightarrow> ('s, u32) act"
  mk_fetch_relevant_events :: "pool_state list \<Rightarrow> u64 \<Rightarrow> u64 \<Rightarrow> ('s, dex_event list) act"
  mk_discover_protocol_pools :: "u64 \<Rightarrow> u64 \<Rightarrow> ('s, unit) act"
  mk_record_ticks :: "pool_tick_record \<Rightarrow> 's \<Rightarrow> 's"
  mk_record_dex_events :: "dex_event list \<Rightarrow> 's \<Rightarrow> 's"
  mk_record_pool_states :: "pool_state list \<Rightarrow> string \<Rightarrow> 's \<Rightarrow> 's"
  mk_record_validation :: "pool_state_validation \<Rightarrow> ('s, unit) act"

definition background :: "('s \<Rightarrow> 's) \<Rightarrow> ('s, unit) act" where
  "background f = infallible (\<lambda>s. ((), f s))"

section \<open>Publishing\<close>

text \<open>The first state of each selected pool.\<close>

fun selected_states :: "address set \<Rightarrow> address set \<Rightarrow> pool_state list \<Rightarrow> pool_state list" where
  "selected_states selected seen [] = []"
| "selected_states selected seen (state # states) =
     (if ps_address state \<notin> selected then selected_states selected seen states
      else if ps_address state \<in> seen then selected_states selected seen states
      else state # selected_states selected (insert (ps_address state) seen) states)"

definition changed_addresses :: "(address \<times> pool_state option) list \<Rightarrow> pool_state list \<Rightarrow> address list" where
  "changed_addresses rows states =
     (let previous_by_pool = fold (\<lambda>(a, p). hash_insert a p) rows [] in
      map ps_address (filter (\<lambda>state.
        case Option.bind (map_of previous_by_pool (ps_address state)) (\<lambda>p. p) of
          None \<Rightarrow> True
        | Some previous \<Rightarrow> quote_relevant_pool_state_changed previous state) states))"

definition publish_selected_states_with_block ::
    "'s market_env \<Rightarrow> pool_state list \<Rightarrow> address set \<Rightarrow> string \<Rightarrow> u64 option \<Rightarrow> ('s, unit) act" where
  "publish_selected_states_with_block env states selected source current_block_override =
     (let publish_states = selected_states selected {} states in
      if publish_states = [] then pass ()
      else
        let latest_state_block = Max (set (map ps_block_number publish_states)) in
        bind (mk_get_pool_states env (map ps_address publish_states)) (\<lambda>rows.
        bind (mk_publish_pool_states env
                (case current_block_override of None \<Rightarrow> latest_state_block | Some b \<Rightarrow> b)
                publish_states (changed_addresses rows publish_states)) (\<lambda>_.
        background (mk_record_pool_states env publish_states source))))"

definition publish_selected_states :: "'s market_env \<Rightarrow> pool_state list \<Rightarrow> address set \<Rightarrow> string \<Rightarrow> ('s, unit) act" where
  "publish_selected_states env states selected source =
     publish_selected_states_with_block env states selected source None"

definition publish_monitored_states_at_block :: "'s market_env \<Rightarrow> pool_state list \<Rightarrow> string \<Rightarrow> u64 \<Rightarrow> ('s, unit) act" where
  "publish_monitored_states_at_block env states source current_block =
     publish_selected_states_with_block env states (ps_address ` set states) source (Some current_block)"

section \<open>Ticks\<close>

definition tick_delta_record ::
    "pool_id \<Rightarrow> dex_kind \<Rightarrow> pool_variant \<Rightarrow> string option \<Rightarrow> tick_state list \<Rightarrow> u64 \<Rightarrow> pool_tick_record" where
  "tick_delta_record pool dex variant protocol ticks block_number =
     \<lparr>tr_chain_id = pid_chain_id pool, tr_pool_address = pid_address pool, tr_dex = dex, tr_variant = variant,
      tr_protocol = protocol, tr_ticks = ticks, tr_status = (if ticks = [] then ''zero_ticks'' else ''ready''),
      tr_block_number = block_number, tr_source = ''market_data_tick_delta'', tr_word_radius = None\<rparr>"

text \<open>The clock is read for each delta; the model takes one reading.\<close>

definition apply_tick_deltas ::
    "'s market_env \<Rightarrow> pool_id \<Rightarrow> dex_kind \<Rightarrow> pool_variant \<Rightarrow> string option \<Rightarrow> tick_delta list \<Rightarrow> u64 \<Rightarrow> ('s, unit) act" where
  "apply_tick_deltas env pool dex variant protocol deltas block_number =
     bind (mk_get_pool_ticks env (pid_address pool)) (\<lambda>ticks.
     bind (infallible (mk_now env)) (\<lambda>now.
     bind (lift (apply_tick_deltas_to now pool block_number deltas ticks)) (\<lambda>ticks.
     if deltas = [] then pass ()
     else
       let ticks = sort_key (\<lambda>t. sint (ts_tick t)) ticks in
       bind (mk_replace_pool_ticks env (pid_address pool) ticks) (\<lambda>_.
       bind (mk_mark_tick_changed_pools env [pid_address pool]) (\<lambda>_.
       background (mk_record_ticks env (tick_delta_record pool dex variant protocol ticks block_number)))))))"

definition tick_refresh_record :: "pool_state \<Rightarrow> i32 \<Rightarrow> string \<Rightarrow> tick_state list \<Rightarrow> pool_tick_record" where
  "tick_refresh_record state word_radius status ticks =
     \<lparr>tr_chain_id = pid_chain_id (ps_pool_id state), tr_pool_address = ps_address state, tr_dex = ps_dex state,
      tr_variant = ps_variant state, tr_protocol = protocol_for_tick_state state, tr_ticks = ticks, tr_status = status,
      tr_block_number = ps_block_number state, tr_source = ''market_data_tick_refresh'', tr_word_radius = Some word_radius\<rparr>"

text \<open>One pool of the refresh. A failed fetch is recorded; a refresh that found fewer ticks than are known
  changes nothing.\<close>

definition refresh_pool_ticks :: "'s market_env \<Rightarrow> i32 \<Rightarrow> pool_state \<Rightarrow> ('s, unit) act" where
  "refresh_pool_ticks env word_radius state =
     handle (mk_fetch_initialized_ticks env state word_radius)
       (\<lambda>ticks.
          if ticks = []
          then
            bind (mk_get_pool_ticks env (ps_address state)) (\<lambda>existing.
            if existing \<noteq> [] then pass ()
            else background (mk_record_ticks env (tick_refresh_record state word_radius ''zero_ticks'' ticks)))
          else
            bind (mk_get_pool_ticks env (ps_address state)) (\<lambda>existing.
            let ticks_changed = tick_states_changed existing ticks;
                narrower = (existing \<noteq> [] \<and> length ticks < length existing);
                record_ready = background (mk_record_ticks env (tick_refresh_record state word_radius ''ready'' ticks)) in
            if ticks_changed \<and> \<not> narrower
            then
              bind (mk_replace_pool_ticks env (ps_address state) ticks) (\<lambda>_.
              bind (mk_mark_tick_changed_pools env [ps_address state]) (\<lambda>_. record_ready))
            else if ticks_changed then pass ()
            else record_ready))
       (\<lambda>_. background (mk_record_ticks env (tick_refresh_record state word_radius ''refresh_failed'' [])))"

fun publish_initialized_ticks :: "'s market_env \<Rightarrow> i32 \<Rightarrow> pool_state list \<Rightarrow> ('s, unit) act" where
  "publish_initialized_ticks env word_radius [] = pass ()"
| "publish_initialized_ticks env word_radius (state # states) =
     (if \<not> is_v3_style_state state then publish_initialized_ticks env word_radius states
      else bind (refresh_pool_ticks env word_radius state) (\<lambda>_. publish_initialized_ticks env word_radius states))"

section \<open>Pending logs\<close>

text \<open>The update of one monitored state by a pending log: liquidity events wait for the sealed block. The
  new list and cache stay with the caller also when the call fails.\<close>

definition apply_pending_event ::
    "libs \<Rightarrow> datetime \<Rightarrow> dex_event \<Rightarrow> pool_state \<Rightarrow> pool_state option anyhow \<times> pool_state" where
  "apply_pending_event lib now event state =
     (if is_v3_liquidity_event state event then (Inr None, state)
      else case apply_event_to_pool_state lib now event state of
             (Inl e, state) \<Rightarrow> (Inl e, state)
           | (Inr applied, state) \<Rightarrow>
               if applied
               then (let state = state\<lparr>ps_valid_through_block := max (ps_valid_through_block state) (ev_block_number event)\<rparr>
                     in (Inr (Some state), state))
               else (Inr None, state))"

definition process_flashblock_event ::
    "libs \<Rightarrow> 's market_env \<Rightarrow> (address \<times> nat) list \<Rightarrow> dex_event \<Rightarrow> pool_state list \<times> recent_log_cache \<Rightarrow>
     's \<Rightarrow> (unit anyhow \<times> pool_state list \<times> recent_log_cache) \<times> 's" where
  "process_flashblock_event lib env index event = (\<lambda>(states, cache) s.
     (case recent_log_insert (ev_tx_hash event) (ev_log_index event) cache of
        (False, cache) \<Rightarrow> ((Inr (), states, cache), s)
      | (True, cache) \<Rightarrow>
          (let (now, s) = mk_now env s;
               (updated, states) =
                 (case map_of index (ev_pool_address event) of
                    None \<Rightarrow> (Inr None, states)
                  | Some i \<Rightarrow>
                      if i < length states
                      then (case apply_pending_event lib now event (states ! i) of (r, state) \<Rightarrow> (r, states[i := state]))
                      else (Inr None, states));
               (r, s) =
                 (bind (lift updated) (\<lambda>updated.
                  bind (background (mk_record_dex_events env [event])) (\<lambda>_.
                  case updated of
                    Some state \<Rightarrow>
                      bind (mk_publish_pool_states env (ev_block_number event) [state] [ps_address state]) (\<lambda>_.
                      background (mk_record_pool_states env [state] ''flashblock''))
                  | None \<Rightarrow> mk_set_current_block env (ev_block_number event)))) s
           in ((r, states, cache), s))))"

section \<open>Sealed blocks\<close>

text \<open>Which fetched events are duplicates, and the ones to record.\<close>

fun dedupe_events :: "dex_event list \<Rightarrow> recent_log_cache \<Rightarrow> (dex_event \<times> bool) list \<times> dex_event list \<times> recent_log_cache" where
  "dedupe_events [] cache = ([], [], cache)"
| "dedupe_events (event # events) cache =
     (let (fresh, cache) = recent_log_insert (ev_tx_hash event) (ev_log_index event) cache;
          (deduped, records, cache) = dedupe_events events cache
      in ((event, \<not> fresh) # deduped, (if fresh then event # records else records), cache))"

definition registry_entry_from_state :: "pool_state \<Rightarrow> pool_registry_entry" where
  "registry_entry_from_state state = \<lparr>re_pool_address = ps_address state, re_dex = ps_dex state,
     re_variant = ps_variant state, re_factory_address = ps_factory_address state, re_token0 = ps_token0 state,
     re_token1 = ps_token1 state, re_fee_bps = ps_fee_bps state, re_tick_spacing = ps_tick_spacing state,
     re_stable = ps_stable state, re_enabled = True\<rparr>"

text \<open>The refreshed state, or \<open>None\<close> when the node could not be read; that is not an error.\<close>

definition refresh_v3_state_at_block :: "'s market_env \<Rightarrow> pool_state \<Rightarrow> u64 \<Rightarrow> ('s, pool_state option) act" where
  "refresh_v3_state_at_block env state block_number =
     handle (mk_get_block_hash env block_number)
       (\<lambda>block_hash. handle (mk_fetch_pool_state_at env (registry_entry_from_state state) block_hash block_number)
          (\<lambda>refreshed. pass (Some refreshed)) (\<lambda>_. pass None))
       (\<lambda>_. pass None)"

record sealed_work =
  sw_states :: "pool_state list"
  sw_changed :: "address set"
  sw_snapshots :: "((u64 \<times> address) \<times> pool_state) list"
  sw_classic_fees :: "(address \<times> u64) list"
  sw_slipstream_fees :: "(address \<times> u64) list"

definition sealed_work_new :: "pool_state list \<Rightarrow> sealed_work" where
  "sealed_work_new states = \<lparr>sw_states = states, sw_changed = {}, sw_snapshots = [], sw_classic_fees = [], sw_slipstream_fees = []\<rparr>"

definition work_changed :: "nat \<Rightarrow> pool_state \<Rightarrow> sealed_work \<Rightarrow> sealed_work" where
  "work_changed i state w = w\<lparr>sw_states := (sw_states w)[i := state],
     sw_changed := insert (ps_address state) (sw_changed w),
     sw_snapshots := btree_insert (ps_block_number state, ps_address state) state (sw_snapshots w)\<rparr>"

definition work_fee :: "pool_state \<Rightarrow> u64 \<Rightarrow> sealed_work \<Rightarrow> sealed_work" where
  "work_fee state block_number w =
     (if (ps_dex state, ps_variant state) = (DexAerodrome, AerodromeSlipstream)
      then w\<lparr>sw_slipstream_fees := hash_insert (ps_address state) block_number (sw_slipstream_fees w)\<rparr>
      else if (ps_dex state, ps_variant state) = (DexAerodrome, AerodromeVolatile)
      then w\<lparr>sw_classic_fees := hash_insert (ps_address state) block_number (sw_classic_fees w)\<rparr>
      else w)"

definition sealed_tick_deltas :: "libs \<Rightarrow> 's market_env \<Rightarrow> pool_state \<Rightarrow> dex_event \<Rightarrow> ('s, unit) act" where
  "sealed_tick_deltas lib env state event =
     bind (lift (v3_tick_deltas_from_event lib state event)) (\<lambda>deltas.
     if deltas = [] then pass ()
     else apply_tick_deltas env (ps_pool_id state) (ps_dex state) (ps_variant state) (protocol_for_tick_state state)
            deltas (ev_block_number event))"

text \<open>The event loop. A duplicate liquidity event ends it.\<close>

fun apply_sealed_events ::
    "libs \<Rightarrow> 's market_env \<Rightarrow> (address \<times> nat) list \<Rightarrow> (dex_event \<times> bool) list \<Rightarrow> sealed_work \<Rightarrow> ('s, sealed_work) act" where
  "apply_sealed_events lib env index [] w = pass w"
| "apply_sealed_events lib env index ((event, duplicate_log) # events) w =
     (case map_of index (ev_pool_address event) of
        None \<Rightarrow> apply_sealed_events lib env index events w
      | Some i \<Rightarrow>
          if i \<ge> length (sw_states w) then apply_sealed_events lib env index events w
          else
            let state = sw_states w ! i in
            bind (if duplicate_log then pass () else sealed_tick_deltas lib env state event) (\<lambda>_.
            if is_v3_liquidity_event state event
            then
              (if duplicate_log then pass w
               else bind (refresh_v3_state_at_block env state (ev_block_number event)) (\<lambda>refreshed.
                 apply_sealed_events lib env index events
                   (case refreshed of None \<Rightarrow> w | Some state \<Rightarrow> work_changed i state w)))
            else
              bind (infallible (mk_now env)) (\<lambda>now.
              case apply_event_to_pool_state lib now event state of
                (Inl e, _) \<Rightarrow> lift (Inl e)
              | (Inr applied, state) \<Rightarrow>
                  apply_sealed_events lib env index events
                    (if applied then work_fee state (ev_block_number event) (work_changed i state w) else w))))"

subsection \<open>Fees\<close>

datatype fee_refresh_kind = FeeClassic bool | FeeSlipstream
datatype fee_refresh_value = ClassicBps u32 | SlipstreamPips u32

record fee_refresh_job =
  fj_pool :: address
  fj_block_number :: u64
  fj_factory_address :: "address option"
  fj_kind :: fee_refresh_kind

text \<open>Jobs of different pools commute, so the order of the two hash maps does not matter.\<close>

definition fee_jobs :: "(address \<times> nat) list \<Rightarrow> sealed_work \<Rightarrow> fee_refresh_job list" where
  "fee_jobs index w =
     (let job = (\<lambda>kind (pool, block_number).
            case map_of index pool of
              None \<Rightarrow> []
            | Some i \<Rightarrow>
                if i < length (sw_states w)
                then [\<lparr>fj_pool = pool, fj_block_number = block_number,
                       fj_factory_address = ps_factory_address (sw_states w ! i), fj_kind = kind (sw_states w ! i)\<rparr>]
                else []) in
      concat (map (job (\<lambda>state. FeeClassic (case ps_stable state of None \<Rightarrow> False | Some b \<Rightarrow> b))) (sw_classic_fees w)) @
      concat (map (job (\<lambda>_. FeeSlipstream)) (sw_slipstream_fees w)))"

definition cached_block_hash ::
    "'s market_env \<Rightarrow> (u64 \<times> string) list \<Rightarrow> u64 \<Rightarrow> 's \<Rightarrow> (string anyhow \<times> (u64 \<times> string) list) \<times> 's" where
  "cached_block_hash env cache block_number s =
     (case map_of cache block_number of
        Some block_hash \<Rightarrow> ((Inr block_hash, cache), s)
      | None \<Rightarrow>
          (case mk_get_block_hash env block_number s of
             (Inl e, s) \<Rightarrow> ((Inl e, cache), s)
           | (Inr block_hash, s) \<Rightarrow> ((Inr block_hash, hash_insert block_number block_hash cache), s)))"

fun fee_rpc_jobs ::
    "'s market_env \<Rightarrow> (u64 \<times> string) list \<Rightarrow> fee_refresh_job list \<Rightarrow> 's \<Rightarrow>
     ((fee_refresh_job \<times> string) list \<times> (fee_refresh_job \<times> fee_refresh_value anyhow) list) \<times> 's" where
  "fee_rpc_jobs env cache [] s = (([], []), s)"
| "fee_rpc_jobs env cache (job # jobs) s =
     (let ((r, cache), s) = cached_block_hash env cache (fj_block_number job) s;
          ((rpc, failed), s) = fee_rpc_jobs env cache jobs s
      in case r of Inr block_hash \<Rightarrow> (((job, block_hash) # rpc, failed), s) | Inl e \<Rightarrow> ((rpc, (job, Inl e) # failed), s))"

definition fetch_fee :: "'s market_env \<Rightarrow> fee_refresh_job \<Rightarrow> string \<Rightarrow> ('s, fee_refresh_value) act" where
  "fetch_fee env job block_hash =
     (case fj_kind job of
        FeeClassic b \<Rightarrow> bind (mk_fetch_classic_fee env (fj_factory_address job) (fj_pool job) b block_hash)
          (\<lambda>fee. pass (ClassicBps fee))
      | FeeSlipstream \<Rightarrow> bind (mk_fetch_slipstream_fee env (fj_factory_address job) (fj_pool job) block_hash)
          (\<lambda>fee. pass (SlipstreamPips fee)))"

text \<open>The node is asked concurrently; here one request after the other.\<close>

fun fetch_fees ::
    "'s market_env \<Rightarrow> (fee_refresh_job \<times> string) list \<Rightarrow> 's \<Rightarrow> (fee_refresh_job \<times> fee_refresh_value anyhow) list \<times> 's" where
  "fetch_fees env [] s = ([], s)"
| "fetch_fees env ((job, block_hash) # jobs) s =
     (let (r, s) = fetch_fee env job block_hash s; (outcomes, s) = fetch_fees env jobs s in ((job, r) # outcomes, s))"

definition set_fee :: "fee_refresh_value \<Rightarrow> pool_state \<Rightarrow> pool_state" where
  "set_fee fee state =
     (case fee of
        ClassicBps fee_bps \<Rightarrow> state\<lparr>ps_fee_bps := fee_bps\<rparr>
      | SlipstreamPips fee_pips \<Rightarrow> state\<lparr>ps_fee_pips := Some fee_pips, ps_fee_bps := fee_pips div 100\<rparr>)"

text \<open>Which pools got a fee; a failed request leaves the fee as it was.\<close>

fun apply_fee_outcomes ::
    "(address \<times> nat) list \<Rightarrow> (fee_refresh_job \<times> fee_refresh_value anyhow) list \<Rightarrow> address set \<times> sealed_work \<Rightarrow>
     address set \<times> sealed_work" where
  "apply_fee_outcomes index [] acc = acc"
| "apply_fee_outcomes index ((job, r) # outcomes) (refreshed, w) =
     apply_fee_outcomes index outcomes
       (case (map_of index (fj_pool job), r) of
          (Some i, Inr fee) \<Rightarrow>
            if i < length (sw_states w)
            then (let state = set_fee fee (sw_states w ! i) in
              (insert (fj_pool job) refreshed,
               w\<lparr>sw_states := (sw_states w)[i := state],
                 sw_snapshots := btree_insert (ps_block_number state, ps_address state) state (sw_snapshots w)\<rparr>))
            else (refreshed, w)
        | _ \<Rightarrow> (refreshed, w))"

definition refresh_sealed_fees ::
    "'s market_env \<Rightarrow> (address \<times> nat) list \<Rightarrow> sealed_work \<Rightarrow> 's \<Rightarrow> (address set \<times> sealed_work) \<times> 's" where
  "refresh_sealed_fees env index w s =
     (let ((rpc, failed), s) = fee_rpc_jobs env [] (fee_jobs index w) s;
          (outcomes, s) = fetch_fees env rpc s
      in (apply_fee_outcomes index (failed @ outcomes) ({}, w), s))"

subsection \<open>The whole batch\<close>

definition max_pending_validations :: usize where
  "max_pending_validations = 20000"

definition enqueue_validation_snapshots ::
    "pool_state list \<Rightarrow> ((u64 \<times> address) \<times> pool_state) list \<Rightarrow> pool_state list" where
  "enqueue_validation_snapshots pending snapshots =
     (let pending = pending @ map snd snapshots in drop (length pending - max_pending_validations) pending)"

record market_runtime =
  mr_states :: "pool_state list"
  mr_recent_logs :: recent_log_cache
  mr_pending_validations :: "pool_state list"
  mr_last_seen_block :: u64

text \<open>One batch of sealed blocks, from the fetched range to the advanced block. The two publications run
  concurrently in the code; here the changed pools go first. Discovery of new pools is the environment's.\<close>

definition process_sealed_blocks :: "libs \<Rightarrow> 's market_env \<Rightarrow> u64 \<Rightarrow> market_runtime \<Rightarrow> ('s, market_runtime) act" where
  "process_sealed_blocks lib env latest_block rt =
     bind (mk_fetch_relevant_events env (mr_states rt) (mr_last_seen_block rt + 1) latest_block) (\<lambda>events.
     let index = pool_state_index_by_address (mr_states rt);
         (deduped, records, cache) = dedupe_events events (mr_recent_logs rt) in
     bind (apply_sealed_events lib env index deduped (sealed_work_new (mr_states rt))) (\<lambda>w.
     bind (infallible (refresh_sealed_fees env index w)) (\<lambda>(fee_refreshed, w).
     bind (mk_discover_protocol_pools env (mr_last_seen_block rt + 1) latest_block) (\<lambda>_.
     bind (background (mk_record_dex_events env records)) (\<lambda>_.
     bind (if sw_changed w \<noteq> {} then publish_selected_states env (sw_states w) (sw_changed w) ''local_event'' else pass ()) (\<lambda>_.
     bind (if fee_refreshed \<noteq> {} then publish_selected_states env (sw_states w) fee_refreshed ''fee_refresh'' else pass ()) (\<lambda>_.
     bind (mk_set_current_block env latest_block) (\<lambda>_.
     pass \<lparr>mr_states = sw_states w, mr_recent_logs = cache,
       mr_pending_validations = enqueue_validation_snapshots (mr_pending_validations rt) (sw_snapshots w),
       mr_last_seen_block = latest_block\<rparr>))))))))"

section \<open>Delayed validation\<close>

definition validation_record :: "datetime \<Rightarrow> pool_state \<Rightarrow> pool_state \<Rightarrow> string \<Rightarrow> pool_state_validation" where
  "validation_record now state onchain block_hash =
     (let drift_bps = state_drift_bps state onchain; passed = (drift_bps = 0) in
      \<lparr>va_pool_address = ps_address state, va_dex = ps_dex state, va_variant = ps_variant state,
       va_block_number = ps_block_number state, va_block_hash = block_hash, va_local_state = state,
       va_onchain_state = onchain, va_drift_bps = drift_bps, va_passed = passed,
       va_message = (if passed then ''delayed block validation passed''
         else ''delayed block validation drifted by '' @ nat_dec (unat drift_bps) @ '' bps''),
       va_created_at = now\<rparr>)"

definition validate_snapshot :: "'s market_env \<Rightarrow> pool_state \<Rightarrow> ('s, unit) act" where
  "validate_snapshot env state =
     handle (mk_get_block_hash env (ps_block_number state))
       (\<lambda>block_hash.
          bind (handle (mk_fetch_pool_state_at env (registry_entry_from_state state) block_hash (ps_block_number state))
                  (\<lambda>onchain. pass (Some onchain)) (\<lambda>_. pass None)) (\<lambda>onchain.
          case onchain of
            None \<Rightarrow> pass ()
          | Some onchain \<Rightarrow>
              bind (infallible (mk_now env)) (\<lambda>now.
              mk_record_validation env (validation_record now state onchain block_hash))))
       (\<lambda>_. pass ())"

text \<open>\<open>delay\<close> is \<open>VALIDATION_DELAY_BLOCKS\<close>; block numbers stay far from the top, so the sum does not wrap.\<close>

fun validate_due_snapshots ::
    "'s market_env \<Rightarrow> u64 \<Rightarrow> u64 \<Rightarrow> pool_state list \<Rightarrow> nat \<Rightarrow> ('s, pool_state list) act" where
  "validate_due_snapshots env delay latest_block [] max_items = pass []"
| "validate_due_snapshots env delay latest_block (state # pending) max_items =
     (if \<not> ps_block_number state + delay \<le> latest_block then pass (state # pending)
      else if max_items = 0 then pass (state # pending)
      else bind (validate_snapshot env state) (\<lambda>_. validate_due_snapshots env delay latest_block pending (max_items - 1)))"

section \<open>Duplicate logs\<close>

text \<open>The warning says that a duplicate skips the updates that are not idempotent. It only skips tick deltas
  and state refreshes: every other event of a duplicate log is applied again, also a Balancer swap, whose
  update adds to the reserves.\<close>

lemma bind_known: "bind (pass x) f = f x" "bind (lift (Inr x)) f = f x"
  by (simp_all add: fun_eq_iff bind_def pass_def lift_def)

lemma duplicate_swap_applied_again:
  assumes "map_of index (ev_pool_address event) = Some i" "\<not> is_v3_style_state (sw_states w ! i)"
  shows "apply_sealed_events lib env index ((event, True) # events) w =
    apply_sealed_events lib env index ((event, False) # events) w"
proof -
  have "sealed_tick_deltas lib env (sw_states w ! i) event = pass ()"
    using assms(2) by (simp add: sealed_tick_deltas_def v3_tick_deltas_from_event_def bind_known)
  then show ?thesis using assms
    by (simp add: is_v3_liquidity_event_def Let_def bind_known)
qed

text \<open>And a duplicate liquidity log ends the batch: the events after it are never applied.\<close>

lemma duplicate_liquidity_log_ends_batch:
  assumes "map_of index (ev_pool_address event) = Some i" "i < length (sw_states w)"
    "is_v3_liquidity_event (sw_states w ! i) event"
  shows "apply_sealed_events lib env index ((event, True) # events) w = pass w"
  using assms by (simp add: Let_def bind_known)

end
