(* ===== verification/Search_Quote.thy ===== *)
theory Search_Quote
  imports Search_Graph Aerodrome Uniswap_V3 Balancer
begin

text \<open>
  Quoting a search path and emitting candidates, \<open>crates/searcher/src/strategy.rs\<close>, with
  \<open>build_candidate\<close> of \<open>opportunity.rs\<close> and the risk gate of \<open>risk.rs\<close>. A quote may ask a router on
  the chain about a Balancer pool, so it reads and writes the outside state \<open>'s\<close>; it fails with a
  \<open>quote_skip\<close>. \<open>powf\<close> is the platform's power function.
\<close>

section \<open>Computations that may skip the quote\<close>

type_synonym ('s, 'a) quoting = "'s \<Rightarrow> (quote_skip + 'a) \<times> 's"

definition qbind :: "('s, 'a) quoting \<Rightarrow> ('a \<Rightarrow> ('s, 'b) quoting) \<Rightarrow> ('s, 'b) quoting" where
  "qbind m f s = (case m s of (Inl e, s') \<Rightarrow> (Inl e, s') | (Inr x, s') \<Rightarrow> f x s')"

definition qlift :: "quote_skip + 'a \<Rightarrow> ('s, 'a) quoting" where
  "qlift r s = (r, s)"

text \<open>\<open>map_err(|err| QuoteSkip::quote_error(err.to_string()))\<close>.\<close>

definition quote_error_of :: "arb_bot_error + 'a \<Rightarrow> quote_skip + 'a" where
  "quote_error_of r = map_err (\<lambda>err. skip_quote_error (arb_bot_error_to_string err)) r"

lemma qbind_Inr_iff:
  "qbind m f s = (Inr y, s') \<longleftrightarrow> (\<exists>x s1. m s = (Inr x, s1) \<and> f x s1 = (Inr y, s'))"
  by (auto simp: qbind_def split: prod.splits sum.splits)

lemma qlift_Inr_iff: "qlift r s = (Inr y, s') \<longleftrightarrow> r = Inr y \<and> s' = s"
  by (auto simp: qlift_def)

lemma qbind_weak_cong: "m = m' \<Longrightarrow> qbind m f = qbind m' f"
  by simp

lemma quote_error_of_Inr [simp]: "quote_error_of r = Inr x \<longleftrightarrow> r = Inr x"
  by (simp add: quote_error_of_def)

section \<open>The context of a quote\<close>

record quote_context =
  qc_pool_states :: "address \<rightharpoonup> pool_state"
  qc_tick_states :: "address \<rightharpoonup> tick_state list"

text \<open>A later state of the same pool replaces an earlier one.\<close>

definition quote_context_new :: "pool_state list \<Rightarrow> tick_state list \<Rightarrow> quote_context" where
  "quote_context_new pool_states tick_states =
     \<lparr>qc_pool_states = map_of (fold (\<lambda>p. hash_insert (ps_address p) p) pool_states []),
      qc_tick_states = map_of (entry_all (\<lambda>t. pid_address (ts_pool_id t)) (\<lambda>t. t) tick_states)\<rparr>"

section \<open>Haircut, price impact, edge floor\<close>

definition apply_quote_haircut :: "u256 \<Rightarrow> u64 \<Rightarrow> u256 anyhow" where
  "apply_quote_haircut amount haircut_bps =
     (if haircut_bps = 0 \<or> amount = 0 then Inr amount
      else
        rbind (ok_or_message (checked_sub 10000 (ucast (min haircut_bps 10000))) ''invalid V3 quote haircut'') (\<lambda>numerator.
        ok_or_message (Option.bind (checked_mul amount numerator) (\<lambda>v. checked_div v 10000)) ''V3 quote haircut overflow''))"

definition impact_from_spot :: "u256 \<Rightarrow> u256 \<Rightarrow> u64" where
  "impact_from_spot spot_out actual_out =
     (if spot_out = 0 then 0
      else
        let slippage = saturating_sub spot_out actual_out;
            bps = (case checked_div (saturating_mul slippage 10000) spot_out of None \<Rightarrow> 0 | Some v \<Rightarrow> v)
        in if unat bps < 2 ^ 64 then ucast bps else - 1)"

definition estimate_price_impact_bps :: "pool_state \<Rightarrow> address \<Rightarrow> quote_result \<Rightarrow> u64" where
  "estimate_price_impact_bps p token_in quote =
     (if ps_variant p = BalancerV3 then 0
      else case (ps_reserve0 p, ps_reserve1 p) of
        (Some reserve0, Some reserve1) \<Rightarrow>
          if token_in \<noteq> ps_token0 p \<and> token_in \<noteq> ps_token1 p then - 1
          else let (reserve_in, reserve_out) =
                     (if token_in = ps_token0 p then (reserve0, reserve1) else (reserve1, reserve0));
                   spot_out = (case checked_div (saturating_mul (qr_amount_in quote) (max reserve_out 1))
                                      (max reserve_in 1) of None \<Rightarrow> 0 | Some v \<Rightarrow> v)
               in impact_from_spot spot_out (qr_amount_out quote)
      | _ \<Rightarrow> (case spot_quote_exact_in p token_in (qr_amount_in quote) of
              Inl _ \<Rightarrow> 0
            | Inr spot_out \<Rightarrow> impact_from_spot spot_out (qr_amount_out quote)))"

definition quote_model_edge_floor :: "u256 \<Rightarrow> quote_diagnostics \<Rightarrow> u64 \<Rightarrow> u256" where
  "quote_model_edge_floor amount_in diagnostics v3_quote_safety_bps =
     (let v3_steps = word_of_nat (length (filter (\<lambda>d. is_v3_style_variant (qs_variant d)) (qd_steps diagnostics)))
      in if amount_in = 0 \<or> v3_steps = 0 \<or> v3_quote_safety_bps = 0 then 0
         else saturating_mul amount_in (ucast (saturating_mul v3_steps v3_quote_safety_bps)) div 10000)"

definition tick_repair_pools_from_diagnostics :: "quote_diagnostics \<Rightarrow> address list" where
  "tick_repair_pools_from_diagnostics diagnostics =
     rev (remdups (rev (map qs_pool (filter
       (\<lambda>d. qs_tick_range_exhausted d \<and> is_v3_style_variant (qs_variant d)) (qd_steps diagnostics)))))"

definition candidate_block_number_from_diagnostics :: "quote_diagnostics \<Rightarrow> u64" where
  "candidate_block_number_from_diagnostics diagnostics = fold max (map qs_source_block (qd_steps diagnostics)) 0"

definition path_with_diagnostics :: "arb_path \<Rightarrow> quote_diagnostics \<Rightarrow> arb_path" where
  "path_with_diagnostics path diagnostics = path\<lparr>ap_diagnostics := Some diagnostics\<rparr>"

section \<open>One step\<close>

text \<open>What the quote of one step sets besides the amount.\<close>

record step_quote =
  sq_quote :: quote_result
  sq_mode :: string
  sq_tick_count :: u32
  sq_v3 :: v3_quote_diagnostics

definition plain_step_quote :: "string \<Rightarrow> quote_result \<Rightarrow> step_quote" where
  "plain_step_quote mode quote = \<lparr>sq_quote = quote, sq_mode = mode, sq_tick_count = 0, sq_v3 = no_diagnostics\<rparr>"

definition quote_aerodrome_step :: "pool_state \<Rightarrow> address \<Rightarrow> u256 \<Rightarrow> quote_skip + step_quote" where
  "quote_aerodrome_step p token_in amount =
     (if ps_stable p = Some True
      then rbind (quote_error_of (stable_quote_exact_in p token_in amount)) (\<lambda>quote.
        Inr (plain_step_quote ''classic_stable'' quote))
      else rbind (quote_error_of (volatile_quote_exact_in p token_in amount)) (\<lambda>quote.
        Inr (plain_step_quote ''classic_volatile'' quote)))"

definition quote_v3_step :: "quote_context \<Rightarrow> pool_state \<Rightarrow> address \<Rightarrow> u256 \<Rightarrow> quote_skip + step_quote" where
  "quote_v3_step context p token_in amount =
     (let pool_ticks = (case qc_tick_states context (ps_address p) of None \<Rightarrow> [] | Some ts \<Rightarrow> ts) in
      if pool_ticks = []
      then Inl (with_repair_pool MissingTicks (''initialized tick data missing for '' @ address_hex (ps_address p)) (ps_address p))
      else rbind (quote_error_of (quote_exact_in_with_ticks_diagnostics p pool_ticks token_in amount)) (\<lambda>(quote, v3).
        Inr \<lparr>sq_quote = quote, sq_mode = ''v3_cross_tick'', sq_tick_count = word_of_nat (length pool_ticks), sq_v3 = v3\<rparr>))"

definition quote_balancer_step ::
    "(f64 \<Rightarrow> f64 \<Rightarrow> f64) \<Rightarrow> 's search_engine \<Rightarrow> pool_state \<Rightarrow> swap_step \<Rightarrow> u256 \<Rightarrow> ('s, step_quote) quoting" where
  "quote_balancer_step powf eng p step amount s =
     (let quoted = (\<lambda>mode amount_out. plain_step_quote mode
            \<lparr>qr_amount_in = amount, qr_amount_out = amount_out, qr_gas_estimate = None\<rparr>) in
      if ps_balancer_model p = Some ''weighted''
      then (rbind (map_err skip_quote_error
              (quote_weighted_exact_in powf p (st_token_in step) (st_token_out step) amount)) (\<lambda>amount_out.
            Inr (quoted ''balancer_v3_weighted_local'' amount_out)), s)
      else if \<not> se_balancer_v3_runtime_quote_enabled eng
      then (Inl (skip_quote_error ''Balancer V3 local model missing and runtime router quote disabled''), s)
      else case (se_balancer_v3_router eng, se_chain_provider eng) of
        (None, _) \<Rightarrow> (Inl (skip_quote_error ''BALANCER_V3_ROUTER is required for Balancer V3 quote''), s)
      | (Some router, None) \<Rightarrow> (Inl (skip_quote_error ''chain provider is required for Balancer V3 quote''), s)
      | (Some router, Some query) \<Rightarrow>
          (case query router (ps_address p) (st_token_in step) (st_token_out step) amount (se_balancer_query_sender eng) s of
            (Inl err, s) \<Rightarrow> (Inl (skip_quote_error (err_display err)), s)
          | (Inr amount_out, s) \<Rightarrow> (Inr (quoted ''balancer_v3_router_query'' amount_out), s)))"

definition quote_pool_step ::
    "(f64 \<Rightarrow> f64 \<Rightarrow> f64) \<Rightarrow> 's search_engine \<Rightarrow> quote_context \<Rightarrow> pool_state \<Rightarrow> swap_step \<Rightarrow> u256 \<Rightarrow> ('s, step_quote) quoting" where
  "quote_pool_step powf eng context p step amount =
     (case ps_variant p of
        AerodromeVolatile \<Rightarrow> qlift (quote_aerodrome_step p (st_token_in step) amount)
      | BalancerV3 \<Rightarrow> quote_balancer_step powf eng p step amount
      | _ \<Rightarrow> qlift (quote_v3_step context p (st_token_in step) amount))"

definition haircut_quote :: "u64 \<Rightarrow> pool_state \<Rightarrow> quote_result \<Rightarrow> quote_skip + quote_result" where
  "haircut_quote v3_quote_safety_bps p quote =
     (if is_v3_style_variant (ps_variant p) \<and> v3_quote_safety_bps > 0
      then (case apply_quote_haircut (qr_amount_out quote) v3_quote_safety_bps of
          Inl err \<Rightarrow> Inl (skip_quote_error (err_display err))
        | Inr amount_out \<Rightarrow> Inr (quote\<lparr>qr_amount_out := amount_out\<rparr>))
      else Inr quote)"

definition step_diagnostics :: "nat \<Rightarrow> swap_step \<Rightarrow> pool_state \<Rightarrow> u256 \<Rightarrow> step_quote \<Rightarrow> u256 \<Rightarrow> quote_step_diagnostics" where
  "step_diagnostics step_index step p amount_before sq amount_out = \<lparr>
     qs_step_no = word_of_nat (step_index + 1), qs_mode = sq_mode sq, qs_pool = ps_address p, qs_variant = ps_variant p,
     qs_source_block = ps_block_number p, qs_valid_through_block = effective_valid_through_block p,
     qs_state_updated_at = ps_updated_at p, qs_token_in = st_token_in step, qs_token_out = st_token_out step,
     qs_amount_in = amount_before, qs_amount_out_raw = qr_amount_out (sq_quote sq), qs_amount_out = amount_out,
     qs_fee_bps = ps_fee_bps p, qs_fee_pips = ps_fee_pips p, qs_stable = ps_stable p,
     qs_tick_spacing = ps_tick_spacing p, qs_sqrt_price_x96 = ps_sqrt_price_x96 p, qs_liquidity = ps_liquidity p,
     qs_tick = ps_tick p, qs_reserve0 = ps_reserve0 p, qs_reserve1 = ps_reserve1 p, qs_tick_count = sq_tick_count sq,
     qs_ticks_used = vd_ticks_used (sq_v3 sq), qs_crossed_ticks = vd_crossed_ticks (sq_v3 sq),
     qs_tick_range_exhausted = vd_tick_range_exhausted (sq_v3 sq)\<rparr>"

section \<open>A path\<close>

record path_quote =
  pq_amount :: u256
  pq_max_impact :: u64
  pq_diagnostics :: quote_diagnostics

definition record_step :: "nat \<Rightarrow> swap_step \<Rightarrow> pool_state \<Rightarrow> step_quote \<Rightarrow> quote_result \<Rightarrow> path_quote \<Rightarrow> path_quote" where
  "record_step step_index step p sq quote q =
     (let d = pq_diagnostics q; v3 = sq_v3 sq in
      \<lparr>pq_amount = qr_amount_out quote,
       pq_max_impact = max (pq_max_impact q) (estimate_price_impact_bps p (st_token_in step) quote),
       pq_diagnostics = d\<lparr>
         qd_modes := qd_modes d @ [sq_mode sq],
         qd_ticks_used := qd_ticks_used d + vd_ticks_used v3,
         qd_crossed_ticks := qd_crossed_ticks d + vd_crossed_ticks v3,
         qd_tick_range_exhausted := qd_tick_range_exhausted d \<or> vd_tick_range_exhausted v3,
         qd_steps := qd_steps d @ [step_diagnostics step_index step p (pq_amount q) sq (qr_amount_out quote)]\<rparr>\<rparr>)"

definition missing_state_skip :: "swap_step \<Rightarrow> quote_skip" where
  "missing_state_skip step = skip_new MissingState (''pool state missing for '' @ address_hex (st_pool step))"

fun quote_steps ::
    "(f64 \<Rightarrow> f64 \<Rightarrow> f64) \<Rightarrow> 's search_engine \<Rightarrow> quote_context \<Rightarrow> (nat \<times> swap_step) list \<Rightarrow> path_quote \<Rightarrow> ('s, path_quote) quoting" where
  "quote_steps powf eng context [] q = qlift (Inr q)"
| "quote_steps powf eng context ((step_index, step) # steps) q =
     qbind (qlift (ok_or (qc_pool_states context (st_pool step)) (missing_state_skip step))) (\<lambda>p.
     qbind (quote_pool_step powf eng context p step (pq_amount q)) (\<lambda>sq.
     qbind (qlift (haircut_quote (se_v3_quote_safety_bps eng) p (sq_quote sq))) (\<lambda>quote.
     quote_steps powf eng context steps (record_step step_index step p sq quote q))))"

definition empty_diagnostics :: quote_diagnostics where
  "empty_diagnostics = \<lparr>qd_modes = [], qd_ticks_used = 0, qd_crossed_ticks = 0, qd_tick_range_exhausted = False,
     qd_v3_pools_without_ticks = 0, qd_steps = []\<rparr>"

text \<open>The first loop checks that every pool's state is known before any pool is quoted.\<close>

definition check_states :: "quote_context \<Rightarrow> swap_step list \<Rightarrow> quote_skip + unit" where
  "check_states context steps =
     (case filter (\<lambda>step. qc_pool_states context (st_pool step) = None) steps of
        [] \<Rightarrow> Inr () | step # _ \<Rightarrow> Inl (missing_state_skip step))"

definition finish_quote :: "path_quote \<Rightarrow> quote_skip + path_quote option" where
  "finish_quote q =
     (if qd_v3_pools_without_ticks (pq_diagnostics q) > 0
      then Inl (skip_new MissingTicks ''V3 initialized tick data unavailable'')
      else if qd_tick_range_exhausted (pq_diagnostics q)
      then Inl (with_repair_pools TickRangeExhausted ''V3 quote exhausted known tick range''
             (tick_repair_pools_from_diagnostics (pq_diagnostics q)))
      else Inr (Some q))"

text \<open>The parameters after the amount come from the engine in both of the code's calls.\<close>

definition quote_path ::
    "(f64 \<Rightarrow> f64 \<Rightarrow> f64) \<Rightarrow> 's search_engine \<Rightarrow> quote_context \<Rightarrow> arb_path \<Rightarrow> u256 \<Rightarrow> ('s, path_quote option) quoting" where
  "quote_path powf eng context path amount_in =
     qbind (qlift (check_states context (ap_steps path))) (\<lambda>_.
     qbind (quote_steps powf eng context (enumerate 0 (ap_steps path))
              \<lparr>pq_amount = amount_in, pq_max_impact = 0, pq_diagnostics = empty_diagnostics\<rparr>) (\<lambda>q.
     qlift (finish_quote q)))"

section \<open>Candidates\<close>

definition build_candidate ::
    "'s ambient \<Rightarrow> u64 \<Rightarrow> string \<Rightarrow> address \<Rightarrow> u256 \<Rightarrow> u256 \<Rightarrow> u256 \<Rightarrow> u256 \<Rightarrow> u64 \<Rightarrow> arb_path \<Rightarrow> int \<Rightarrow> 's \<Rightarrow> candidate \<times> 's" where
  "build_candidate amb block_number strategy token_in amount_in expected_amount_out expected_profit min_profit
     price_impact_bps path ttl_ms s =
     (let (now, s) = am_now amb s; (fresh, s) = am_new_uuid amb s in
      (\<lparr>cd_id = fresh, cd_created_at = now, cd_expires_at = now + ttl_ms * 1000000, cd_block_number = block_number,
        cd_strategy = strategy, cd_token_in = token_in, cd_amount_in = amount_in,
        cd_expected_amount_out = expected_amount_out, cd_expected_profit = expected_profit,
        cd_min_profit = min_profit, cd_price_impact_bps = price_impact_bps, cd_path = path, cd_status = OppCreated\<rparr>, s))"

definition required_profit_for_path :: "'s search_engine \<Rightarrow> search_path \<Rightarrow> u256" where
  "required_profit_for_path eng sp = (if sp_min_profit sp = 0 then se_min_expected_profit eng else sp_min_profit sp)"

text \<open>What follows a successful quote: the gates in the code's order, then the candidate.\<close>

definition judge_quote ::
    "'s ambient \<Rightarrow> 's search_engine \<Rightarrow> search_path \<Rightarrow> u256 \<Rightarrow> path_quote \<Rightarrow> search_stats \<times> candidate list \<Rightarrow> 's \<Rightarrow>
     (search_stats \<times> candidate list) \<times> 's" where
  "judge_quote amb eng sp amount_in q = (\<lambda>(stats, out) s.
     (let required_profit = required_profit_for_path eng sp;
          expected_profit = saturating_sub (pq_amount q) amount_in;
          diagnostics = pq_diagnostics q;
          stats = stats\<lparr>ss_best_profit_before_impact := max (ss_best_profit_before_impact stats) expected_profit\<rparr> in
      if expected_profit < required_profit
      then ((record_min_profit_rejected (sp_path sp) amount_in expected_profit required_profit diagnostics stats, out), s)
      else if pq_max_impact q > se_max_price_impact_bps eng
      then ((record_price_impact_rejected (sp_path sp) amount_in expected_profit (pq_max_impact q)
               (se_max_price_impact_bps eng) diagnostics stats, out), s)
      else
        let stats = stats\<lparr>ss_best_profit := max (ss_best_profit stats) expected_profit\<rparr> in
        if expected_profit < quote_model_edge_floor amount_in diagnostics (se_v3_quote_safety_bps eng)
        then ((stats\<lparr>ss_quote_model_edge_rejected := ss_quote_model_edge_rejected stats + 1,
                     ss_best_profit_rejected_by_model_edge :=
                       max (ss_best_profit_rejected_by_model_edge stats) expected_profit\<rparr>, out), s)
        else
          let (c, s) = build_candidate amb (candidate_block_number_from_diagnostics diagnostics) (sp_strategy sp)
                (st_token_in (hd (ap_steps (sp_path sp)))) amount_in (pq_amount q) expected_profit
                (se_min_expected_profit eng) (pq_max_impact q) (path_with_diagnostics (sp_path sp) diagnostics)
                (se_candidate_ttl_ms eng) s
          in ((stats\<lparr>ss_candidates_emitted := ss_candidates_emitted stats + 1\<rparr>,
               out @ [c\<lparr>cd_min_profit := sp_min_profit sp\<rparr>]), s)))"

definition quote_amount ::
    "(f64 \<Rightarrow> f64 \<Rightarrow> f64) \<Rightarrow> 's ambient \<Rightarrow> 's search_engine \<Rightarrow> quote_context \<Rightarrow> search_path \<Rightarrow> u256 \<Rightarrow>
     search_stats \<times> candidate list \<Rightarrow> 's \<Rightarrow> (search_stats \<times> candidate list) \<times> 's" where
  "quote_amount powf amb eng context sp amount_in = (\<lambda>(stats, out) s.
     (let stats = stats\<lparr>ss_quote_attempts := ss_quote_attempts stats + 1\<rparr> in
      case quote_path powf eng context (sp_path sp) amount_in s of
        (Inr (Some q), s) \<Rightarrow>
          judge_quote amb eng sp amount_in q (stats\<lparr>ss_quote_successes := ss_quote_successes stats + 1\<rparr>, out) s
      | (Inr None, s) \<Rightarrow>
          ((record_quote_skip_with_sample QuoteError (ap_name (sp_path sp)) amount_in ''quote returned no result'' stats, out), s)
      | (Inl err, s) \<Rightarrow>
          ((record_quote_skip_with_sample_and_repair_pools (qk_reason err) (ap_name (sp_path sp)) amount_in
              (qk_message err) (qk_repair_pools err) stats, out), s)))"

fun quote_amounts ::
    "(f64 \<Rightarrow> f64 \<Rightarrow> f64) \<Rightarrow> 's ambient \<Rightarrow> 's search_engine \<Rightarrow> quote_context \<Rightarrow> search_path \<Rightarrow> u256 list \<Rightarrow>
     search_stats \<times> candidate list \<Rightarrow> 's \<Rightarrow> (search_stats \<times> candidate list) \<times> 's" where
  "quote_amounts powf amb eng context sp [] acc s = (acc, s)"
| "quote_amounts powf amb eng context sp (amount_in # amounts) acc s =
     (let (acc, s) = quote_amount powf amb eng context sp amount_in acc s
      in quote_amounts powf amb eng context sp amounts acc s)"

definition quote_search_path ::
    "(f64 \<Rightarrow> f64 \<Rightarrow> f64) \<Rightarrow> 's ambient \<Rightarrow> 's search_engine \<Rightarrow> quote_context \<Rightarrow> search_path \<Rightarrow>
     search_stats \<times> candidate list \<Rightarrow> 's \<Rightarrow> (search_stats \<times> candidate list) \<times> 's" where
  "quote_search_path powf amb eng context sp acc s =
     quote_amounts powf amb eng context sp (sp_amount_sizes sp) acc s"

fun quote_search_paths ::
    "(f64 \<Rightarrow> f64 \<Rightarrow> f64) \<Rightarrow> 's ambient \<Rightarrow> 's search_engine \<Rightarrow> quote_context \<Rightarrow> search_path list \<Rightarrow>
     search_stats \<times> candidate list \<Rightarrow> 's \<Rightarrow> (search_stats \<times> candidate list) \<times> 's" where
  "quote_search_paths powf amb eng context [] acc s = (acc, s)"
| "quote_search_paths powf amb eng context (sp # sps) acc s =
     (let (acc, s) = quote_search_path powf amb eng context sp acc s
      in quote_search_paths powf amb eng context sps acc s)"

definition search_with_stats_for_paths_with_context ::
    "(f64 \<Rightarrow> f64 \<Rightarrow> f64) \<Rightarrow> 's ambient \<Rightarrow> 's search_engine \<Rightarrow> quote_context \<Rightarrow> search_path list \<Rightarrow> 's \<Rightarrow>
     (candidate list \<times> search_stats) anyhow \<times> 's" where
  "search_with_stats_for_paths_with_context powf amb eng context paths s =
     (let ((stats, out), s) = quote_search_paths powf amb eng context paths
            (search_stats_default\<lparr>ss_paths := length paths\<rparr>, []) s
      in (Inr (out, stats), s))"

section \<open>The risk gate\<close>

definition validate_candidate ::
    "candidate \<Rightarrow> address set \<Rightarrow> u256 \<Rightarrow> u64 \<Rightarrow> string list \<Rightarrow> arb_bot_error + unit" where
  "validate_candidate c available_pools min_expected_profit max_price_impact_bps whitelist_paths =
     (let required_profit = (if cd_min_profit c = 0 then min_expected_profit else cd_min_profit c) in
      if cd_expected_profit c < required_profit then Inl (RiskGate ''expected_profit_below_threshold'')
      else if cd_price_impact_bps c > max_price_impact_bps then Inl (RiskGate ''price_impact_too_high'')
      else if whitelist_paths \<noteq> [] \<and> ap_name (cd_path c) \<notin> set whitelist_paths
      then Inl (RiskGate ''path_not_whitelisted'')
      else if \<exists>step \<in> set (ap_steps (cd_path c)). st_pool step \<notin> available_pools
      then Inl (RiskGate ''pool_state_missing'')
      else Inr ())"

section \<open>What a quote records\<close>

lemma apply_quote_haircut_value:
  assumes "apply_quote_haircut amount h = Inr v"
  shows "unat v = unat amount * (10000 - min (unat h) 10000) div 10000"
proof (cases "h = 0 \<or> amount = 0")
  case True
  then show ?thesis using assms by (auto simp: apply_quote_haircut_def)
next
  case False
  have m: "unat (ucast (min h 10000) :: u256) = min (unat h) 10000"
    by (simp add: unat_ucast_up min_def word_le_nat_alt)
  obtain x where x: "checked_sub 10000 (ucast (min h 10000)) = Some (x :: u256)"
    "Option.bind (checked_mul amount x) (\<lambda>v. checked_div v 10000) = Some v"
    using assms False by (auto simp: apply_quote_haircut_def)
  have "unat x = 10000 - min (unat h) 10000" using x(1) m by (simp add: arith_iff)
  moreover have "unat v = unat amount * unat x div 10000"
    using x(2) by (auto simp: arith_iff Option.bind_eq_Some_conv)
  ultimately show ?thesis by simp
qed

lemma apply_quote_haircut_le:
  assumes "apply_quote_haircut amount h = Inr v"
  shows "v \<le> amount"
proof -
  have "unat amount * (10000 - min (unat h) 10000) div 10000 \<le> unat amount * 10000 div 10000"
    by (intro div_le_mono mult_le_mono2) simp
  then show ?thesis using apply_quote_haircut_value [OF assms] by (simp add: word_le_nat_alt)
qed

lemma haircut_quote_le: "haircut_quote h p q = Inr q' \<Longrightarrow> qr_amount_out q' \<le> qr_amount_out q"
  by (auto simp: haircut_quote_def apply_quote_haircut_le split: if_splits sum.splits)

text \<open>Each step takes in what the previous one paid out after its haircut.\<close>

fun quote_chain :: "u256 \<Rightarrow> quote_step_diagnostics list \<Rightarrow> u256 \<Rightarrow> bool" where
  "quote_chain a [] b \<longleftrightarrow> a = b"
| "quote_chain a (d # ds) b \<longleftrightarrow>
     qs_amount_in d = a \<and> qs_amount_out d \<le> qs_amount_out_raw d \<and> quote_chain (qs_amount_out d) ds b"

lemma quote_chain_snoc:
  "quote_chain a (ds @ [d]) b \<longleftrightarrow>
     (\<exists>c. quote_chain a ds c \<and> qs_amount_in d = c \<and> qs_amount_out d \<le> qs_amount_out_raw d \<and> qs_amount_out d = b)"
  by (induction ds arbitrary: a) auto

text \<open>\<open>records_state p step d\<close>: the diagnostics of a step name the step's tokens and the very state \<open>p\<close> the
  step was quoted on.\<close>

definition records_state :: "pool_state \<Rightarrow> swap_step \<Rightarrow> quote_step_diagnostics \<Rightarrow> bool" where
  "records_state p step d \<longleftrightarrow>
     qs_token_in d = st_token_in step \<and> qs_token_out d = st_token_out step \<and> qs_pool d = ps_address p \<and>
     qs_variant d = ps_variant p \<and> qs_source_block d = ps_block_number p \<and> qs_fee_bps d = ps_fee_bps p \<and>
     qs_fee_pips d = ps_fee_pips p \<and> qs_stable d = ps_stable p \<and> qs_sqrt_price_x96 d = ps_sqrt_price_x96 p \<and>
     qs_liquidity d = ps_liquidity p \<and> qs_tick d = ps_tick p \<and> qs_reserve0 d = ps_reserve0 p \<and>
     qs_reserve1 d = ps_reserve1 p"

definition describes_step :: "quote_context \<Rightarrow> swap_step \<Rightarrow> quote_step_diagnostics \<Rightarrow> bool" where
  "describes_step context step d \<longleftrightarrow>
     (\<exists>p. qc_pool_states context (st_pool step) = Some p \<and> records_state p step d)"

definition recorded :: "quote_context \<Rightarrow> u256 \<Rightarrow> swap_step list \<Rightarrow> path_quote \<Rightarrow> bool" where
  "recorded context amount_in done q \<longleftrightarrow>
     quote_chain amount_in (qd_steps (pq_diagnostics q)) (pq_amount q) \<and>
     list_all2 (describes_step context) done (qd_steps (pq_diagnostics q)) \<and>
     (qd_tick_range_exhausted (pq_diagnostics q) \<longleftrightarrow>
        (\<exists>d \<in> set (qd_steps (pq_diagnostics q)). qs_tick_range_exhausted d))"

lemma record_step_recorded:
  assumes "recorded context amount_in done q" "qc_pool_states context (st_pool step) = Some p"
    "qr_amount_out quote \<le> qr_amount_out (sq_quote sq)"
  shows "recorded context amount_in (done @ [step]) (record_step i step p sq quote q)"
  using assms
  by (auto simp: recorded_def record_step_def Let_def quote_chain_snoc step_diagnostics_def describes_step_def records_state_def
      intro!: list_all2_appendI)

lemma quote_steps_recorded:
  assumes "quote_steps powf eng context isteps q s = (Inr q', s')" "recorded context amount_in done q"
  shows "recorded context amount_in (done @ map snd isteps) q'"
  using assms
proof (induction isteps arbitrary: q s "done")
  case (Cons istep isteps)
  obtain i step where ist: "istep = (i, step)" by fastforce
  obtain p sq quote s1 where
    p: "qc_pool_states context (st_pool step) = Some p"
    and quote: "haircut_quote (se_v3_quote_safety_bps eng) p (sq_quote sq) = Inr quote"
    and rest: "quote_steps powf eng context isteps (record_step i step p sq quote q) s1 = (Inr q', s')"
    using Cons.prems(1) by (auto simp: ist qbind_Inr_iff qlift_Inr_iff)
  have "recorded context amount_in (done @ [step]) (record_step i step p sq quote q)"
    by (rule record_step_recorded [OF Cons.prems(2) p haircut_quote_le [OF quote]])
  from Cons.IH [OF rest this] show ?case by (simp add: ist)
qed (simp add: qlift_Inr_iff)

lemma quote_path_recorded:
  assumes "quote_path powf eng context path amount_in s = (Inr (Some q), s')"
  shows "recorded context amount_in (ap_steps path) q"
    "list_all (\<lambda>d. \<not> qs_tick_range_exhausted d) (qd_steps (pq_diagnostics q))"
proof -
  obtain s1 where steps: "quote_steps powf eng context (enumerate 0 (ap_steps path))
      \<lparr>pq_amount = amount_in, pq_max_impact = 0, pq_diagnostics = empty_diagnostics\<rparr> s = (Inr q, s1)"
    and fin: "\<not> qd_tick_range_exhausted (pq_diagnostics q)"
    using assms
    by (auto simp: quote_path_def qbind_Inr_iff qlift_Inr_iff finish_quote_def split: if_splits)
  have "recorded context amount_in [] \<lparr>pq_amount = amount_in, pq_max_impact = 0, pq_diagnostics = empty_diagnostics\<rparr>"
    by (simp add: recorded_def empty_diagnostics_def)
  from quote_steps_recorded [OF steps this] show r: "recorded context amount_in (ap_steps path) q" by simp
  show "list_all (\<lambda>d. \<not> qs_tick_range_exhausted d) (qd_steps (pq_diagnostics q))"
    using r fin by (simp add: recorded_def list_all_iff)
qed

section \<open>What is emitted\<close>

definition sound_candidate :: "'s search_engine \<Rightarrow> quote_context \<Rightarrow> search_path \<Rightarrow> candidate \<Rightarrow> bool" where
  "sound_candidate eng context sp c \<longleftrightarrow>
     (\<exists>d. cd_path c = path_with_diagnostics (sp_path sp) d \<and>
        cd_amount_in c \<in> set (sp_amount_sizes sp) \<and>
        quote_chain (cd_amount_in c) (qd_steps d) (cd_expected_amount_out c) \<and>
        list_all2 (describes_step context) (ap_steps (sp_path sp)) (qd_steps d) \<and>
        list_all (\<lambda>d. \<not> qs_tick_range_exhausted d) (qd_steps d) \<and>
        cd_expected_profit c = saturating_sub (cd_expected_amount_out c) (cd_amount_in c) \<and>
        cd_expected_profit c \<ge> required_profit_for_path eng sp \<and>
        cd_expected_profit c \<ge> quote_model_edge_floor (cd_amount_in c) d (se_v3_quote_safety_bps eng) \<and>
        cd_price_impact_bps c \<le> se_max_price_impact_bps eng \<and>
        cd_min_profit c = sp_min_profit sp \<and>
        cd_token_in c = st_token_in (hd (ap_steps (sp_path sp))) \<and>
        cd_block_number c = candidate_block_number_from_diagnostics d)"

lemma judge_quote_sound:
  assumes "recorded context amount_in (ap_steps (sp_path sp)) q"
    "list_all (\<lambda>d. \<not> qs_tick_range_exhausted d) (qd_steps (pq_diagnostics q))"
    "amount_in \<in> set (sp_amount_sizes sp)"
  shows "\<exists>new. snd (fst (judge_quote amb eng sp amount_in q (stats, out) s)) = out @ new \<and>
    list_all (sound_candidate eng context sp) new"
  using assms
  by (auto simp: judge_quote_def Let_def build_candidate_def sound_candidate_def recorded_def split: prod.split)

lemma quote_amount_sound:
  assumes "amount_in \<in> set (sp_amount_sizes sp)"
  shows "\<exists>new. snd (fst (quote_amount powf amb eng context sp amount_in (stats, out) s)) = out @ new \<and>
    list_all (sound_candidate eng context sp) new"
proof -
  obtain r s1 where q: "quote_path powf eng context (sp_path sp) amount_in
      s = (r, s1)" by fastforce
  consider e where "r = Inl e" | "r = Inr None" | pq where "r = Inr (Some pq)"
    by (metis sum.exhaust option.exhaust)
  then show ?thesis
  proof cases
    case 3
    note path = quote_path_recorded [OF q [unfolded 3]]
    from judge_quote_sound [OF path assms] show ?thesis
      by (simp add: quote_amount_def q 3)
  qed (use q in \<open>auto simp: quote_amount_def\<close>)
qed

lemma quote_amounts_sound:
  assumes "set amounts \<subseteq> set (sp_amount_sizes sp)"
  shows "\<exists>new. snd (fst (quote_amounts powf amb eng context sp amounts (stats, out) s)) = out @ new \<and>
    list_all (sound_candidate eng context sp) new"
  using assms
proof (induction amounts arbitrary: stats out s)
  case (Cons a amounts)
  obtain stats' out' s' where q: "quote_amount powf amb eng context sp a (stats, out) s = ((stats', out'), s')"
    by (metis prod.collapse)
  obtain new where "out' = out @ new" "list_all (sound_candidate eng context sp) new"
    using quote_amount_sound [of a sp powf amb eng "context" stats out s] q Cons.prems by auto
  moreover obtain new' where "snd (fst (quote_amounts powf amb eng context sp amounts (stats', out') s')) = out' @ new'"
    "list_all (sound_candidate eng context sp) new'"
    using Cons.IH [of stats' out' s'] Cons.prems by auto
  ultimately show ?case by (simp add: q)
qed simp

text \<open>C11: The quote gates: whatever a path's quotes return, the candidates the searcher appends for
  it have a chained quote along exactly the path's steps (each step takes in what the previous step
  paid out, no step is credited more than its raw quote, every step was quoted on the context's
  state of its pool, none ran out of known ticks), and they respect the required profit, the model
  edge floor and the price impact limit; the profit, the first token, the block number (the newest
  of the quoted states) and the minimum profit are the path's.\<close>

theorem emitted_candidates_sound:
  "\<exists>new. snd (fst (quote_search_path powf amb eng context sp (stats, out) s)) = out @ new \<and>
     list_all (sound_candidate eng context sp) new"
  unfolding quote_search_path_def by (rule quote_amounts_sound) simp

lemma sound_candidate_passes:
  assumes "sound_candidate eng context sp c" "all_pools_in sp pools"
  shows "validate_candidate c pools (se_min_expected_profit eng) (se_max_price_impact_bps eng) [] = Inr ()"
proof -
  have "ap_steps (cd_path c) = ap_steps (sp_path sp)" "cd_price_impact_bps c \<le> se_max_price_impact_bps eng"
    "cd_min_profit c = sp_min_profit sp" "cd_expected_profit c \<ge> required_profit_for_path eng sp"
    using assms(1) by (auto simp: sound_candidate_def path_with_diagnostics_def)
  then show ?thesis using assms(2)
    by (auto simp: validate_candidate_def Let_def required_profit_for_path_def all_pools_in_def not_less)
qed

lemma quote_search_paths_sound:
  "\<exists>new. snd (fst (quote_search_paths powf amb eng context sps (stats, out) s)) = out @ new \<and>
     list_all (\<lambda>c. list_ex (\<lambda>sp. sound_candidate eng context sp c) sps) new"
proof (induction sps arbitrary: stats out s)
  case (Cons sp sps)
  obtain stats' out' s' where q: "quote_search_path powf amb eng context sp (stats, out) s = ((stats', out'), s')"
    by (metis prod.collapse)
  obtain new where "out' = out @ new" "list_all (sound_candidate eng context sp) new"
    using quote_amounts_sound [of "sp_amount_sizes sp" sp powf amb eng "context" stats out s] q
    by (auto simp: quote_search_path_def)
  moreover obtain new' where "snd (fst (quote_search_paths powf amb eng context sps (stats', out') s')) = out' @ new'"
    "list_all (\<lambda>c. list_ex (\<lambda>sp. sound_candidate eng context sp c) sps) new'"
    using Cons.IH by metis
  ultimately show ?case by (auto simp: q list_all_iff)
qed simp

text \<open>C12: Every candidate a search emits passes the risk gate that follows it in the searcher, with the
  engine's own thresholds and no whitelist, as soon as the pools of the searched paths are available:
  the gate only ever rejects for a missing pool or for settings that differ from the engine's.\<close>

theorem emitted_candidates_pass_risk_gate:
  assumes "search_with_stats_for_paths_with_context powf amb eng context paths s = (Inr (out, stats), s')"
    "c \<in> set out" "list_all (\<lambda>sp. all_pools_in sp pools) paths"
  shows "validate_candidate c pools (se_min_expected_profit eng) (se_max_price_impact_bps eng) [] = Inr ()"
proof -
  have "out = snd (fst (quote_search_paths powf amb eng context paths (search_stats_default\<lparr>ss_paths := length paths\<rparr>, []) s))"
    using assms(1) by (simp add: search_with_stats_for_paths_with_context_def split: prod.splits)
  then have "list_all (\<lambda>c. list_ex (\<lambda>sp. sound_candidate eng context sp c) paths) out"
    using quote_search_paths_sound [of powf amb eng "context" paths "search_stats_default\<lparr>ss_paths := length paths\<rparr>" "[]" s]
    by auto
  then obtain sp where "sp \<in> set paths" "sound_candidate eng context sp c"
    using assms(2) by (auto simp: list_all_iff list_ex_iff)
  then show ?thesis using sound_candidate_passes [of eng "context" sp c pools] assms(3) by (auto simp: list_all_iff)
qed

section \<open>An example\<close>

definition example_volatile_pool :: "address \<Rightarrow> u256 \<Rightarrow> u256 \<Rightarrow> pool_state" where
  "example_volatile_pool a r0 r1 = example_pool\<lparr>ps_pool_id := \<lparr>pid_chain_id = 8453, pid_address = a\<rparr>,
     ps_dex := DexAerodrome, ps_variant := AerodromeVolatile, ps_reserve0 := Some r0, ps_reserve1 := Some r1\<rparr>"

definition example_swap_step :: "address \<Rightarrow> address \<Rightarrow> address \<Rightarrow> swap_step" where
  "example_swap_step pool a b = \<lparr>st_dex = DexAerodrome, st_variant = Some AerodromeVolatile, st_factory_address = None,
     st_pool = pool, st_token_in = a, st_token_out = b, st_fee_bps = Some 30, st_pool_key_fee_pips = None,
     st_hooks_address = None, st_stable = None, st_tick_spacing = None, st_adapter_data = None\<rparr>"

definition example_search_path :: search_path where
  "example_search_path = \<lparr>sp_path = \<lparr>ap_name = ''ab'', ap_steps = [example_swap_step 100 1 2, example_swap_step 101 2 1],
       ap_diagnostics = None\<rparr>, sp_amount_sizes = [1000], sp_min_profit = 0, sp_strategy = ''pair-two-pool-cycle''\<rparr>"

definition example_engine :: "'s search_engine" where
  "example_engine = \<lparr>se_amount_sizes = [], se_paths = [], se_pair_configs = [], se_pair_config_index = [],
     se_anchor_configs = [], se_min_expected_profit = 1, se_max_price_impact_bps = 100, se_whitelist_paths = [],
     se_candidate_ttl_ms = 500, se_v3_quote_safety_bps = 10, se_quote_max_state_block_lag = 0,
     se_multihop_enabled = True, se_balancer_v3_runtime_quote_enabled = False,
     se_balancer_v3_router = None, se_balancer_query_sender = 0, se_chain_provider = None\<rparr>"

definition example_context :: quote_context where
  "example_context = \<lparr>qc_pool_states = [100 \<mapsto> example_volatile_pool 100 1000000 1200000,
       101 \<mapsto> example_volatile_pool 101 1000000 1000000], qc_tick_states = Map.empty\<rparr>"


lemmas example_quote_defs = example_volatile_pool_def example_pool_def example_swap_step_def example_engine_def
  quote_pool_step_def qlift_def quote_aerodrome_step_def volatile_quote_exact_in_def volatile_quote_amount_out_def
  quote_error_of_def checked_mul_def checked_sub_def checked_add_def

lemma example_step_quotes: "quote_pool_step powf example_engine example_context (example_volatile_pool 100 1000000 1200000) 
   (example_swap_step 100 1 2) 1000 s = (Inr (plain_step_quote ''classic_volatile'' (quote_of 1000 1195)), s)"
 "quote_pool_step powf example_engine example_context (example_volatile_pool 101 1000000 1000000) 
   (example_swap_step 101 2 1) 1195 s = (Inr (plain_step_quote ''classic_volatile'' (quote_of 1195 1189)), s)"
  by (simp_all add: example_quote_defs cong: rbind_weak_cong)

lemma example_impacts: "estimate_price_impact_bps (example_volatile_pool 100 1000000 1200000) 1 (quote_of 1000 1195) = 41"
 "estimate_price_impact_bps (example_volatile_pool 101 1000000 1000000) 2 (quote_of 1195 1189) = 50"
  by (simp_all add: estimate_price_impact_bps_def example_volatile_pool_def example_pool_def quote_of_def
    saturating_mul_def saturating_sub_def checked_div_def impact_from_spot_def)


lemma example_quote_fields [simp]:
  "st_pool (example_swap_step p a b) = p" "st_token_in (example_swap_step p a b) = a"
  "ps_variant (example_volatile_pool p r0 r1) = AerodromeVolatile"
  "ps_block_number (example_volatile_pool p r0 r1) = 10"
  "se_v3_quote_safety_bps example_engine = 10"
  "se_min_expected_profit example_engine = 1" "se_max_price_impact_bps example_engine = 100"
  "qc_pool_states example_context 100 = Some (example_volatile_pool 100 1000000 1200000)"
  "qc_pool_states example_context 101 = Some (example_volatile_pool 101 1000000 1000000)"
  "sq_quote (plain_step_quote m q) = q" "sq_v3 (plain_step_quote m q) = no_diagnostics"
  "qr_amount_out (quote_of u v) = v"
  by (simp_all add: example_swap_step_def example_volatile_pool_def example_pool_def example_engine_def
     example_context_def plain_step_quote_def quote_of_def)

lemma example_path_quote: "\<exists>d. quote_path powf example_engine example_context (sp_path example_search_path) 1000 s =
  (Inr (Some \<lparr>pq_amount = 1189, pq_max_impact = 50, pq_diagnostics = d\<rparr>), s) \<and>
  quote_model_edge_floor 1000 d 10 = 0"
  by (simp add: quote_path_def check_states_def qlift_def qbind_def example_search_path_def 
    example_step_quotes haircut_quote_def record_step_def example_impacts finish_quote_def empty_diagnostics_def no_diagnostics_def
    step_diagnostics_def quote_model_edge_floor_def Let_def)

lemma example_search:
  "\<exists>c stats. search_with_stats_for_paths_with_context powf example_ambient example_engine example_context [example_search_path] s =
     (Inr ([c], stats), s)"
proof -
  obtain d where q: "quote_path powf example_engine example_context (sp_path example_search_path) 1000 s =
      (Inr (Some \<lparr>pq_amount = 1189, pq_max_impact = 50, pq_diagnostics = d\<rparr>), s)" "quote_model_edge_floor 1000 d 10 = 0"
    using example_path_quote [of powf s] by - (elim exE conjE, rule that, assumption+)
  have [simp]: "sp_amount_sizes example_search_path = [1000]" "sp_min_profit example_search_path = 0"
    by (simp_all add: example_search_path_def)
  show ?thesis
    by (simp add: search_with_stats_for_paths_with_context_def quote_search_path_def quote_amount_def q judge_quote_def
        Let_def required_profit_for_path_def saturating_sub_def build_candidate_def example_ambient_def)
qed
theorem emitted_candidates_pass_risk_gate_witness:
  "validate_candidate (hd (fst (projr (fst (search_with_stats_for_paths_with_context (\<lambda>_ _. F_nan) example_ambient
       example_engine example_context [example_search_path] (0 :: nat)))))) {100, 101} 1 100 [] = Inr () \<and>
   length (fst (projr (fst (search_with_stats_for_paths_with_context (\<lambda>_ _. F_nan) example_ambient
       example_engine example_context [example_search_path] (0 :: nat))))) = 1"
proof -
  obtain c stats where r: "search_with_stats_for_paths_with_context (\<lambda>_ _. F_nan) example_ambient example_engine
      example_context [example_search_path] (0 :: nat) = (Inr ([c], stats), 0)"
    using example_search [of "\<lambda>_ _. F_nan" "0 :: nat"] by - (elim exE, rule that, assumption)
  have "list_all (\<lambda>sp. all_pools_in sp {100, 101}) [example_search_path]"
    by (simp add: all_pools_in_def example_search_path_def)
  from emitted_candidates_pass_risk_gate [OF r _ this, of c] show ?thesis
    by (simp add: r)
qed

end
