(* ===== verification/Searcher_State.thy ===== *)
theory Searcher_State
  imports Search_Quote Search_Dynamic
begin

text \<open>
  The searcher's runtime, \<open>crates/searcher/src/main.rs\<close>: which factories it trusts, when a cached
  pool state is ready to be quoted, and the set of active pools with its periodic sweep. A hash map is
  an association list, a hash set a set; an instant is a number of nanoseconds of the monotonic clock.
\<close>

section \<open>Engine settings\<close>

definition usdc_to_units :: "f64 \<Rightarrow> u256" where
  "usdc_to_units usdc = ucast (f64_as_u64 (f_mul usdc (F_fin 1000000)))"

definition parse_search_amount :: "string \<Rightarrow> u256 anyhow" where
  "parse_search_amount trimmed =
     (case parse_f64 trimmed of
        None \<Rightarrow> bail (''invalid SEARCH_AMOUNT_USDC value: '' @ trimmed)
      | Some value \<Rightarrow>
          if \<not> is_finite value \<or> f_le value (F_fin 0)
          then bail (''SEARCH_AMOUNT_USDC values must be positive: '' @ trimmed)
          else Inr (usdc_to_units value))"

definition parse_search_amounts :: "string option \<Rightarrow> u256 list anyhow" where
  "parse_search_amounts raw =
     (let raw = (case raw of None \<Rightarrow> ''10,30,50,100'' | Some r \<Rightarrow> r) in
      rbind (collect_results parse_search_amount
               (filter (\<lambda>part. part \<noteq> []) (map trim (split_on CHR '','' raw)))) (\<lambda>out.
      if out = [] then bail ''SEARCH_AMOUNT_USDC must contain at least one amount'' else Inr out))"

text \<open>\<open>query\<close> is the Balancer router query of the provider built from the settings.\<close>

definition engine_from_settings ::
    "(anchor_search_config list \<Rightarrow> anchor_search_config list) \<Rightarrow> 's balancer_query \<Rightarrow> settings \<Rightarrow> int \<Rightarrow> u64 \<Rightarrow> u256 \<Rightarrow>
     token_pair_search_config list \<Rightarrow> 's search_engine anyhow" where
  "engine_from_settings order query cfg candidate_ttl_ms max_price_impact_bps min_expected_profit pair_configs =
     rbind (parse_search_amounts (cfg_search_amount_usdc cfg)) (\<lambda>amounts.
     Inr \<lparr>se_amount_sizes = expand_max_amounts amounts, se_paths = [], se_pair_configs = pair_configs,
       se_pair_config_index = pair_config_index pair_configs,
       se_anchor_configs = anchor_search_configs order pair_configs,
       se_min_expected_profit = min_expected_profit, se_max_price_impact_bps = max_price_impact_bps,
       se_whitelist_paths = [], se_candidate_ttl_ms = candidate_ttl_ms,
       se_v3_quote_safety_bps = cfg_v3_quote_safety_bps cfg,
       se_quote_max_state_block_lag = cfg_quote_max_state_block_lag cfg,
       se_multihop_enabled = cfg_searcher_multihop_enabled cfg,
       se_balancer_v3_runtime_quote_enabled = cfg_searcher_balancer_v3_runtime_quote_enabled cfg,
       se_balancer_v3_router =
         (if cfg_searcher_balancer_v3_runtime_quote_enabled cfg then cfg_balancer_v3_router cfg else None),
       se_balancer_query_sender =
         (case first_some [cfg_executor_contract_multihop cfg, cfg_executor_contract_2hop cfg, cfg_executor_contract cfg] of
            None \<Rightarrow> 0 | Some a \<Rightarrow> a),
       se_chain_provider =
         (if cfg_searcher_balancer_v3_runtime_quote_enabled cfg \<and> cfg_balancer_v3_router cfg \<noteq> None
          then Some query else None)\<rparr>)"

section \<open>Trusted factories\<close>

record factory_row =
  fw_factory_address :: string
  fw_variant :: string

record search_factories =
  sf_aerodrome_volatile :: "address set"
  sf_aerodrome_slipstream :: "address set"
  sf_uniswap_v3 :: "address set"
  sf_pancake_v3 :: "address set"

definition search_factories_default :: search_factories where
  "search_factories_default =
     \<lparr>sf_aerodrome_volatile = {}, sf_aerodrome_slipstream = {}, sf_uniswap_v3 = {}, sf_pancake_v3 = {}\<rparr>"

fun sf_insert :: "pool_variant \<Rightarrow> address \<Rightarrow> search_factories \<Rightarrow> search_factories" where
  "sf_insert AerodromeVolatile a s = s\<lparr>sf_aerodrome_volatile := insert a (sf_aerodrome_volatile s)\<rparr>"
| "sf_insert AerodromeSlipstream a s = s\<lparr>sf_aerodrome_slipstream := insert a (sf_aerodrome_slipstream s)\<rparr>"
| "sf_insert UniswapV3 a s = s\<lparr>sf_uniswap_v3 := insert a (sf_uniswap_v3 s)\<rparr>"
| "sf_insert PancakeV3 a s = s\<lparr>sf_pancake_v3 := insert a (sf_pancake_v3 s)\<rparr>"
| "sf_insert _ a s = s"

definition sf_insert_optional :: "pool_variant \<Rightarrow> address option \<Rightarrow> search_factories \<Rightarrow> search_factories" where
  "sf_insert_optional v a s = (case a of None \<Rightarrow> s | Some a \<Rightarrow> sf_insert v a s)"

definition search_parse_pool_variant :: "string \<Rightarrow> pool_variant option" where
  "search_parse_pool_variant s =
     map_of [(''AerodromeVolatile'', AerodromeVolatile), (''AerodromeSlipstream'', AerodromeSlipstream),
       (''UniswapV3'', UniswapV3), (''PancakeV3'', PancakeV3), (''UniswapV4'', UniswapV4),
       (''BalancerV3'', BalancerV3)] s"

definition sf_insert_row :: "libs \<Rightarrow> factory_row \<Rightarrow> search_factories \<Rightarrow> search_factories" where
  "sf_insert_row lib row s =
     (case lib_parse_address lib (fw_factory_address row) of
        None \<Rightarrow> s
      | Some address \<Rightarrow>
          (case search_parse_pool_variant (fw_variant row) of None \<Rightarrow> s | Some v \<Rightarrow> sf_insert v address s))"

definition sf_from_settings_and_registry :: "libs \<Rightarrow> settings \<Rightarrow> factory_row list \<Rightarrow> search_factories" where
  "sf_from_settings_and_registry lib cfg registry =
     (let s = sf_insert_optional AerodromeVolatile (cfg_aerodrome_pool_factory cfg) search_factories_default;
          s = sf_insert_optional AerodromeSlipstream (cfg_aerodrome_slipstream_factory cfg) s;
          s = sf_insert_optional UniswapV3 (cfg_uniswap_v3_factory cfg) s;
          s = sf_insert_optional PancakeV3 (cfg_pancake_v3_factory cfg) s;
          s = sf_insert AerodromeVolatile aerodrome_classic_factory s;
          s = sf_insert AerodromeVolatile uniswap_v2_factory s;
          s = fold (sf_insert AerodromeSlipstream) aerodrome_slipstream_factories s;
          s = sf_insert UniswapV3 uniswap_v3_factory s;
          s = sf_insert PancakeV3 pancake_v3_factory s
      in fold (sf_insert_row lib) registry s)"

definition sf_supports :: "search_factories \<Rightarrow> pool_state \<Rightarrow> bool" where
  "sf_supports s p =
     (case ps_factory_address p of
        None \<Rightarrow> False
      | Some factory \<Rightarrow>
          (case ps_variant p of
             AerodromeVolatile \<Rightarrow> factory \<in> sf_aerodrome_volatile s
           | AerodromeSlipstream \<Rightarrow> factory \<in> sf_aerodrome_slipstream s
           | UniswapV3 \<Rightarrow> factory \<in> sf_uniswap_v3 s
           | PancakeV3 \<Rightarrow> factory \<in> sf_pancake_v3 s
           | _ \<Rightarrow> False))"

section \<open>Ready and active pools\<close>

definition is_supported_manager :: "pool_state \<Rightarrow> address option \<Rightarrow> bool" where
  "is_supported_manager p configured = (case ps_factory_address p of None \<Rightarrow> False | Some f \<Rightarrow> configured = Some f)"

definition is_nonzero_u256 :: "u256 option \<Rightarrow> bool" where
  "is_nonzero_u256 v = (case v of None \<Rightarrow> False | Some x \<Rightarrow> x \<noteq> 0)"

definition has_v3_state :: "pool_state \<Rightarrow> bool" where
  "has_v3_state p \<longleftrightarrow> ps_sqrt_price_x96 p \<noteq> None \<and> is_nonzero_u256 (ps_liquidity p) \<and> ps_tick p \<noteq> None"

definition is_pool_state_quote_ready :: "pool_state \<Rightarrow> settings \<Rightarrow> search_factories \<Rightarrow> bool" where
  "is_pool_state_quote_ready p cfg trusted \<longleftrightarrow>
     (case ps_variant p of
        AerodromeVolatile \<Rightarrow> sf_supports trusted p \<and> is_nonzero_u256 (ps_reserve0 p) \<and> is_nonzero_u256 (ps_reserve1 p)
      | AerodromeSlipstream \<Rightarrow> sf_supports trusted p \<and> has_v3_state p
      | UniswapV3 \<Rightarrow> sf_supports trusted p \<and> has_v3_state p
      | PancakeV3 \<Rightarrow> sf_supports trusted p \<and> has_v3_state p
      | UniswapV4 \<Rightarrow> is_supported_manager p (cfg_uniswap_v4_pool_manager cfg) \<and> has_v3_state p
      | BalancerV3 \<Rightarrow> is_supported_manager p (cfg_balancer_v3_vault cfg) \<and> ps_token0 p \<noteq> 0 \<and> ps_token1 p \<noteq> 0)"

definition is_pool_state_active :: "pool_state \<Rightarrow> datetime \<Rightarrow> int \<Rightarrow> settings \<Rightarrow> search_factories \<Rightarrow> bool" where
  "is_pool_state_active p now max_age_ms cfg trusted \<longleftrightarrow>
     (if is_stale p now max_age_ms then False else is_pool_state_quote_ready p cfg trusted)"

record pool_topology =
  pt_dex :: dex_kind
  pt_variant :: pool_variant
  pt_token0 :: address
  pt_token1 :: address
  pt_fee_bps :: u32
  pt_fee_pips :: "u32 option"
  pt_stable :: "bool option"
  pt_tick_spacing :: "i32 option"

definition pool_topology_of :: "pool_state \<Rightarrow> pool_topology" where
  "pool_topology_of p = \<lparr>pt_dex = ps_dex p, pt_variant = ps_variant p, pt_token0 = ps_token0 p,
     pt_token1 = ps_token1 p, pt_fee_bps = ps_fee_bps p, pt_fee_pips = ps_fee_pips p, pt_stable = ps_stable p,
     pt_tick_spacing = ps_tick_spacing p\<rparr>"

type_synonym instant = nat

record 's search_runtime =
  rt_pool_states :: "(address \<times> pool_state) list"
  rt_tick_states :: "(address \<times> tick_state list) list"
  rt_tick_states_loaded_at :: "(address \<times> instant) list"
  rt_active_pool_addresses :: "address set"
  rt_pool_topology :: "(address \<times> pool_topology) list"
  rt_latest_pool_state_block :: u64
  rt_engine :: "'s search_engine option"
  rt_pair_configs :: "token_pair_search_config list"
  rt_last_config_refresh :: "instant option"
  rt_last_active_pool_sweep :: "instant option"
  rt_path_index :: "path_index option"
  rt_graph_snapshot :: "graph_snapshot option"
  rt_trusted_factories :: search_factories
  rt_bootstrapped :: bool

definition search_runtime_default :: "'s search_runtime" where
  "search_runtime_default = \<lparr>rt_pool_states = [], rt_tick_states = [], rt_tick_states_loaded_at = [],
     rt_active_pool_addresses = {}, rt_pool_topology = [], rt_latest_pool_state_block = 0, rt_engine = None,
     rt_pair_configs = [], rt_last_config_refresh = None, rt_last_active_pool_sweep = None,
     rt_path_index = None, rt_graph_snapshot = None, rt_trusted_factories = search_factories_default,
     rt_bootstrapped = False\<rparr>"

fun hash_remove :: "'k \<Rightarrow> ('k \<times> 'v) list \<Rightarrow> ('k \<times> 'v) list" where
  "hash_remove k [] = []"
| "hash_remove k ((k', v) # m) = (if k' = k then hash_remove k m else (k', v) # hash_remove k m)"

lemma map_of_hash_remove [simp]: "map_of (hash_remove k m) = (map_of m)(k := None)"
  by (induction k m rule: hash_remove.induct) (auto simp: fun_eq_iff)

definition active_pool_addresses ::
    "pool_state list \<Rightarrow> datetime \<Rightarrow> int \<Rightarrow> settings \<Rightarrow> search_factories \<Rightarrow> address set" where
  "active_pool_addresses pool_states now max_age_ms cfg trusted =
     set (map ps_address (filter (\<lambda>p. is_pool_state_active p now max_age_ms cfg trusted) pool_states))"

definition latest_pool_state_block :: "(address \<times> pool_state) list \<Rightarrow> u64" where
  "latest_pool_state_block pool_states = fold max (map (\<lambda>(_, p). ps_block_number p) pool_states) 0"

text \<open>\<open>order\<close> is the iteration order of a hash set of addresses.\<close>

definition active_pool_states :: "(address set \<Rightarrow> address list) \<Rightarrow> 's search_runtime \<Rightarrow> pool_state list" where
  "active_pool_states order rt = List.map_filter (map_of (rt_pool_states rt)) (order (rt_active_pool_addresses rt))"

text \<open>In nanoseconds; a negative age is raised to one millisecond before the cast.\<close>

definition active_pool_sweep_interval :: "int \<Rightarrow> instant" where
  "active_pool_sweep_interval max_age_ms =
     (let max_age = nat (max max_age_ms 1) in max 100 (min 1000 (max_age div 10)) * 1000000)"

record active_pool_refresh =
  ar_swept :: bool
  ar_changed :: bool

text \<open>\<open>elapsed\<close> is read only when there was a sweep, \<open>at\<close> only when one happens now.\<close>

definition refresh_active_pool_cache_if_due ::
    "('s \<Rightarrow> instant \<times> 's) \<Rightarrow> datetime \<Rightarrow> int \<Rightarrow> settings \<Rightarrow> 'r search_runtime \<Rightarrow> 's \<Rightarrow>
     (active_pool_refresh \<times> 'r search_runtime) \<times> 's" where
  "refresh_active_pool_cache_if_due clock now max_age_ms cfg rt s =
     (let (recent, s) = (case rt_last_active_pool_sweep rt of
            None \<Rightarrow> (False, s)
          | Some last_sweep \<Rightarrow> (let (t, s) = clock s in (t - last_sweep < active_pool_sweep_interval max_age_ms, s)))
      in if recent then ((\<lparr>ar_swept = False, ar_changed = False\<rparr>, rt), s)
         else let active = active_pool_addresses (map snd (rt_pool_states rt)) now max_age_ms cfg (rt_trusted_factories rt);
                  changed = (active \<noteq> rt_active_pool_addresses rt);
                  (t, s) = clock s
              in ((\<lparr>ar_swept = True, ar_changed = changed\<rparr>,
                   rt\<lparr>rt_active_pool_addresses := active, rt_last_active_pool_sweep := Some t\<rparr>), s))"

text \<open>The result does not depend on the order of the changed pools.\<close>

definition force_changed_quote_ready_pools_active ::
    "address list \<Rightarrow> settings \<Rightarrow> 's search_runtime \<Rightarrow> bool \<times> 's search_runtime" where
  "force_changed_quote_ready_pools_active changed_pools cfg rt =
     fold (\<lambda>pool (changed, rt).
       case map_of (rt_pool_states rt) pool of
         None \<Rightarrow> (changed, rt)
       | Some state \<Rightarrow>
           if is_pool_state_quote_ready state cfg (rt_trusted_factories rt) \<and> pool \<notin> rt_active_pool_addresses rt
           then (True, rt\<lparr>rt_active_pool_addresses := insert pool (rt_active_pool_addresses rt)\<rparr>)
           else (changed, rt)) changed_pools (False, rt)"

end
