(* ===== verification/Searcher.thy ===== *)
theory Searcher
  imports Searcher_State Coalesce
begin

text \<open>
  The search cycle of \<open>crates/searcher/src/main.rs\<close>: draining the changed pools, refreshing the
  configuration, reloading the changed states, rebuilding path index and graph, loading ticks, quoting
  in batches and publishing candidates. The stores, the clock and the recorder are the fields of
  \<open>search_env\<close>; hash iteration orders are its functions \<open>en_order\<close> and the like.
\<close>

section \<open>The environment\<close>

record 's search_env =
  en_ambient :: "'s ambient"
  en_clock :: "'s \<Rightarrow> instant \<times> 's"
  en_order :: "address set \<Rightarrow> address list"
  en_anchor_order :: "anchor_search_config list \<Rightarrow> anchor_search_config list"
  en_pair_order :: "usize list \<Rightarrow> usize list"
  en_best_order :: "candidate list \<Rightarrow> candidate list"
  en_balancer_query :: "'s balancer_query"
  en_all_pool_states :: "('s, pool_state list) act"
  en_drain_changed_pools :: "('s, address list) act"
  en_drain_tick_changed_pools :: "('s, address list) act"
  en_get_pool_states :: "address list \<Rightarrow> ('s, (address \<times> pool_state option) list) act"
  en_get_current_block :: "('s, u64 option) act"
  en_get_pool_ticks_many :: "address list \<Rightarrow> ('s, (address \<times> tick_state list) list) act"
  en_replace_pool_ticks :: "address \<Rightarrow> tick_state list \<Rightarrow> ('s, unit) act"
  en_mark_tick_repair_pools :: "address list \<Rightarrow> ('s, unit) act"
  en_push_candidates :: "candidate list \<Rightarrow> ('s, unit) act"
  en_enabled_pair_search_configs :: "('s, token_pair_search_config list) act"
  en_trusted_factory_registry :: "u64 \<Rightarrow> ('s, factory_row list) act"
  en_get_pool_ticks_current_many :: "address list \<Rightarrow> ('s, (address \<times> tick_state list) list) act"
  en_enqueue_opportunities :: "candidate list \<Rightarrow> 's \<Rightarrow> nat \<times> 's"

definition now_instant :: "'s search_env \<Rightarrow> ('s, instant) act" where
  "now_instant env = infallible (en_clock env)"

text \<open>\<open>started.elapsed().as_millis() as u64\<close>.\<close>

definition elapsed_ms :: "'s search_env \<Rightarrow> instant \<Rightarrow> ('s, u64) act" where
  "elapsed_ms env started = bind (now_instant env) (\<lambda>t. pass (word_of_nat ((t - started) div 1000000)))"

section \<open>Cycle statistics\<close>

record search_cycle_stats =
  cy_search :: search_stats
  cy_cycles :: u64
  cy_total_cycle_ms :: u64
  cy_max_cycle_ms :: u64
  cy_config_load_ms :: u64
  cy_state_load_ms :: u64
  cy_state_load_pools :: u64
  cy_tick_load_ms :: u64
  cy_tick_cache_hits :: u64
  cy_tick_cache_misses :: u64
  cy_tick_cache_refreshes :: u64
  cy_tick_pg_fallback_pools :: u64
  cy_tick_pg_fallback_ticks :: u64
  cy_path_index_rebuild_ms :: u64
  cy_path_build_ms :: u64
  cy_quote_ms :: u64
  cy_publish_ms :: u64
  cy_idle_cycles :: u64
  cy_changed_pool_scans :: u64
  cy_changed_pools :: u64
  cy_active_pool_sweeps :: u64
  cy_active_pools :: u64
  cy_path_pools :: u64
  cy_latest_chain_block :: u64
  cy_latest_pool_state_block :: u64
  cy_risk_rejected :: u64
  cy_risk_expected_profit_rejected :: u64
  cy_risk_price_impact_rejected :: u64
  cy_risk_path_not_whitelisted :: u64
  cy_risk_pool_state_stale :: u64
  cy_risk_other_rejected :: u64
  cy_candidates_coalesced :: u64
  cy_inactive_pool_filtered_paths :: u64
  cy_tick_missing_filtered_paths :: u64
  cy_tick_repair_queued_pools :: u64
  cy_opportunity_record_queue_dropped :: u64
  cy_opportunities_created :: u64

definition search_cycle_stats_default :: search_cycle_stats where
  "search_cycle_stats_default = \<lparr>cy_search = search_stats_default, cy_cycles = 0, cy_total_cycle_ms = 0,
     cy_max_cycle_ms = 0, cy_config_load_ms = 0, cy_state_load_ms = 0, cy_state_load_pools = 0,
     cy_tick_load_ms = 0, cy_tick_cache_hits = 0, cy_tick_cache_misses = 0, cy_tick_cache_refreshes = 0,
     cy_tick_pg_fallback_pools = 0, cy_tick_pg_fallback_ticks = 0, cy_path_index_rebuild_ms = 0,
     cy_path_build_ms = 0, cy_quote_ms = 0, cy_publish_ms = 0, cy_idle_cycles = 0, cy_changed_pool_scans = 0,
     cy_changed_pools = 0, cy_active_pool_sweeps = 0, cy_active_pools = 0, cy_path_pools = 0,
     cy_latest_chain_block = 0, cy_latest_pool_state_block = 0, cy_risk_rejected = 0,
     cy_risk_expected_profit_rejected = 0, cy_risk_price_impact_rejected = 0, cy_risk_path_not_whitelisted = 0,
     cy_risk_pool_state_stale = 0, cy_risk_other_rejected = 0, cy_candidates_coalesced = 0,
     cy_inactive_pool_filtered_paths = 0, cy_tick_missing_filtered_paths = 0, cy_tick_repair_queued_pools = 0,
     cy_opportunity_record_queue_dropped = 0, cy_opportunities_created = 0\<rparr>"

definition cycle_stats_merge :: "search_cycle_stats \<Rightarrow> search_cycle_stats \<Rightarrow> search_cycle_stats" where
  "cycle_stats_merge s other = \<lparr>
     cy_search = stats_merge (cy_search s) (cy_search other),
     cy_cycles = cy_cycles s + cy_cycles other,
     cy_total_cycle_ms = cy_total_cycle_ms s + cy_total_cycle_ms other,
     cy_max_cycle_ms = max (cy_max_cycle_ms s) (cy_max_cycle_ms other),
     cy_config_load_ms = cy_config_load_ms s + cy_config_load_ms other,
     cy_state_load_ms = cy_state_load_ms s + cy_state_load_ms other,
     cy_state_load_pools = cy_state_load_pools s + cy_state_load_pools other,
     cy_tick_load_ms = cy_tick_load_ms s + cy_tick_load_ms other,
     cy_tick_cache_hits = cy_tick_cache_hits s + cy_tick_cache_hits other,
     cy_tick_cache_misses = cy_tick_cache_misses s + cy_tick_cache_misses other,
     cy_tick_cache_refreshes = cy_tick_cache_refreshes s + cy_tick_cache_refreshes other,
     cy_tick_pg_fallback_pools = cy_tick_pg_fallback_pools s + cy_tick_pg_fallback_pools other,
     cy_tick_pg_fallback_ticks = cy_tick_pg_fallback_ticks s + cy_tick_pg_fallback_ticks other,
     cy_path_index_rebuild_ms = cy_path_index_rebuild_ms s + cy_path_index_rebuild_ms other,
     cy_path_build_ms = cy_path_build_ms s + cy_path_build_ms other,
     cy_quote_ms = cy_quote_ms s + cy_quote_ms other,
     cy_publish_ms = cy_publish_ms s + cy_publish_ms other,
     cy_idle_cycles = cy_idle_cycles s + cy_idle_cycles other,
     cy_changed_pool_scans = cy_changed_pool_scans s + cy_changed_pool_scans other,
     cy_changed_pools = cy_changed_pools s + cy_changed_pools other,
     cy_active_pool_sweeps = cy_active_pool_sweeps s + cy_active_pool_sweeps other,
     cy_active_pools = max (cy_active_pools s) (cy_active_pools other),
     cy_path_pools = cy_path_pools s + cy_path_pools other,
     cy_latest_chain_block = max (cy_latest_chain_block s) (cy_latest_chain_block other),
     cy_latest_pool_state_block = max (cy_latest_pool_state_block s) (cy_latest_pool_state_block other),
     cy_risk_rejected = cy_risk_rejected s + cy_risk_rejected other,
     cy_risk_expected_profit_rejected = cy_risk_expected_profit_rejected s + cy_risk_expected_profit_rejected other,
     cy_risk_price_impact_rejected = cy_risk_price_impact_rejected s + cy_risk_price_impact_rejected other,
     cy_risk_path_not_whitelisted = cy_risk_path_not_whitelisted s + cy_risk_path_not_whitelisted other,
     cy_risk_pool_state_stale = cy_risk_pool_state_stale s + cy_risk_pool_state_stale other,
     cy_risk_other_rejected = cy_risk_other_rejected s + cy_risk_other_rejected other,
     cy_candidates_coalesced = cy_candidates_coalesced s + cy_candidates_coalesced other,
     cy_inactive_pool_filtered_paths = cy_inactive_pool_filtered_paths s + cy_inactive_pool_filtered_paths other,
     cy_tick_missing_filtered_paths = cy_tick_missing_filtered_paths s + cy_tick_missing_filtered_paths other,
     cy_tick_repair_queued_pools = cy_tick_repair_queued_pools s + cy_tick_repair_queued_pools other,
     cy_opportunity_record_queue_dropped =
       cy_opportunity_record_queue_dropped s + cy_opportunity_record_queue_dropped other,
     cy_opportunities_created = cy_opportunities_created s + cy_opportunities_created other\<rparr>"

definition record_risk_rejection :: "arb_bot_error \<Rightarrow> search_cycle_stats \<Rightarrow> search_cycle_stats" where
  "record_risk_rejection err s =
     (let s = s\<lparr>cy_risk_rejected := cy_risk_rejected s + 1\<rparr>; message = arb_bot_error_to_string err in
      if str_contains message ''expected_profit_below_threshold''
      then s\<lparr>cy_risk_expected_profit_rejected := cy_risk_expected_profit_rejected s + 1\<rparr>
      else if str_contains message ''price_impact_too_high''
      then s\<lparr>cy_risk_price_impact_rejected := cy_risk_price_impact_rejected s + 1\<rparr>
      else if str_contains message ''path_not_whitelisted''
      then s\<lparr>cy_risk_path_not_whitelisted := cy_risk_path_not_whitelisted s + 1\<rparr>
      else if str_contains message ''pool_state_stale''
      then s\<lparr>cy_risk_pool_state_stale := cy_risk_pool_state_stale s + 1\<rparr>
      else s\<lparr>cy_risk_other_rejected := cy_risk_other_rejected s + 1\<rparr>)"

section \<open>Publishing\<close>

datatype candidate_executor_scope = TwoHop | MultiHop

definition executor_scope_of :: "candidate \<Rightarrow> candidate_executor_scope" where
  "executor_scope_of c = (if length (ap_steps (cd_path c)) = 2 then TwoHop else MultiHop)"

record candidate_coalesce_key =
  ck_block_number :: u64
  ck_token_in :: address
  ck_amount_in :: u256
  ck_executor_scope :: candidate_executor_scope

definition coalesce_key_of :: "candidate \<Rightarrow> candidate_coalesce_key" where
  "coalesce_key_of c = \<lparr>ck_block_number = cd_block_number c, ck_token_in = cd_token_in c,
     ck_amount_in = cd_amount_in c, ck_executor_scope = executor_scope_of c\<rparr>"

definition stamp_block :: "u64 \<Rightarrow> candidate \<Rightarrow> candidate" where
  "stamp_block latest_known_block c =
     (if latest_known_block \<noteq> 0 then c\<lparr>cd_block_number := latest_known_block\<rparr> else c)"

definition better_to_publish :: "candidate \<Rightarrow> candidate \<Rightarrow> bool" where
  "better_to_publish c existing \<longleftrightarrow> \<not> cd_expected_profit existing \<ge> cd_expected_profit c"

definition coalesce_candidates_for_publish ::
    "(candidate list \<Rightarrow> candidate list) \<Rightarrow> candidate list \<Rightarrow> u64 \<Rightarrow> candidate list" where
  "coalesce_candidates_for_publish order candidates latest_known_block =
     sort_desc cd_expected_profit
       (order (keep_best coalesce_key_of better_to_publish (map (stamp_block latest_known_block) candidates)))"

interpretation publish: best_by_rank coalesce_key_of cd_expected_profit better_to_publish
  by unfold_locales (simp add: better_to_publish_def not_le)

fun validate_loop ::
    "address set \<Rightarrow> 's search_engine \<Rightarrow> u64 \<Rightarrow> candidate list \<Rightarrow> candidate list \<Rightarrow> search_cycle_stats \<Rightarrow>
     candidate list \<times> search_cycle_stats" where
  "validate_loop available eng max_impact [] valid cs = (valid, cs)"
| "validate_loop available eng max_impact (c # candidates) valid cs =
     (case validate_candidate c available (se_min_expected_profit eng) max_impact (se_whitelist_paths eng) of
        Inr _ \<Rightarrow> validate_loop available eng max_impact candidates (valid @ [c]) cs
      | Inl err \<Rightarrow> validate_loop available eng max_impact candidates valid (record_risk_rejection err cs))"

definition publish_candidates ::
    "'s search_env \<Rightarrow> 's search_engine \<Rightarrow> address set \<Rightarrow> u64 \<Rightarrow> u64 \<Rightarrow> candidate list \<Rightarrow> search_cycle_stats \<Rightarrow>
     ('s, search_cycle_stats) act" where
  "publish_candidates env eng available max_impact latest_known_block candidates cs =
     (let coalesced = coalesce_candidates_for_publish (en_best_order env) candidates latest_known_block;
          cs = cs\<lparr>cy_candidates_coalesced := cy_candidates_coalesced cs +
                 word_of_nat (length candidates - length coalesced)\<rparr>;
          (valid, cs) = validate_loop available eng max_impact coalesced [] cs in
      if valid = [] then pass cs
      else
        bind (en_push_candidates env valid) (\<lambda>_.
        bind (infallible (en_enqueue_opportunities env valid)) (\<lambda>dropped.
        pass (cs\<lparr>cy_opportunities_created := cy_opportunities_created cs + word_of_nat (length valid),
                 cy_opportunity_record_queue_dropped :=
                   cy_opportunity_record_queue_dropped cs + word_of_nat dropped\<rparr>))))"

definition quote_and_publish_path_batch ::
    "(f64 \<Rightarrow> f64 \<Rightarrow> f64) \<Rightarrow> 's search_env \<Rightarrow> 's search_engine \<Rightarrow> quote_context \<Rightarrow> address set \<Rightarrow> u64 \<Rightarrow> u64 \<Rightarrow>
     search_path list \<Rightarrow> search_cycle_stats \<Rightarrow> ('s, search_cycle_stats) act" where
  "quote_and_publish_path_batch powf env eng context available max_impact latest_known_block batch cs =
     bind (now_instant env) (\<lambda>quote_started.
     bind (search_with_stats_for_paths_with_context powf (en_ambient env) eng context batch) (\<lambda>(candidates, stats).
     bind (elapsed_ms env quote_started) (\<lambda>quote_ms.
     let repair = en_order env (ss_tick_repair_pools stats);
         cs = cs\<lparr>cy_quote_ms := cy_quote_ms cs + quote_ms,
                 cy_tick_repair_queued_pools := cy_tick_repair_queued_pools cs + word_of_nat (length repair),
                 cy_search := stats_merge (cy_search cs) (stats\<lparr>ss_total_paths := 0\<rparr>)\<rparr> in
     bind (if repair \<noteq> [] then en_mark_tick_repair_pools env repair else pass ()) (\<lambda>_.
     bind (now_instant env) (\<lambda>publish_started.
     bind (publish_candidates env eng available max_impact latest_known_block candidates cs) (\<lambda>cs.
     bind (elapsed_ms env publish_started) (\<lambda>publish_ms.
     pass (cs\<lparr>cy_publish_ms := cy_publish_ms cs + publish_ms\<rparr>))))))))"

definition searcher_publish_batch_paths :: usize where
  "searcher_publish_batch_paths = 256"

fun quote_path_batches ::
    "(search_path list \<Rightarrow> search_cycle_stats \<Rightarrow> ('s, search_cycle_stats) act) \<Rightarrow> address set \<Rightarrow> search_path list \<Rightarrow>
     search_path list \<Rightarrow> search_cycle_stats \<Rightarrow> ('s, search_cycle_stats) act" where
  "quote_path_batches quote missing [] batch cs = (if batch \<noteq> [] then quote batch cs else pass cs)"
| "quote_path_batches quote missing (sp # sps) batch cs =
     (if \<not> all_pools_not_in sp missing
      then quote_path_batches quote missing sps batch
             (cs\<lparr>cy_tick_missing_filtered_paths := cy_tick_missing_filtered_paths cs + 1\<rparr>)
      else let batch = batch @ [sp] in
        if length batch \<ge> searcher_publish_batch_paths
        then bind (quote batch cs) (\<lambda>cs. quote_path_batches quote missing sps [] cs)
        else quote_path_batches quote missing sps batch cs)"

section \<open>Ticks\<close>

record tick_load_stats =
  tl_cache_hits :: u64
  tl_cache_misses :: u64
  tl_cache_refreshes :: u64
  tl_tick_pg_fallback_pools :: u64
  tl_tick_pg_fallback_ticks :: u64

definition tick_load_stats_default :: tick_load_stats where
  "tick_load_stats_default = \<lparr>tl_cache_hits = 0, tl_cache_misses = 0, tl_cache_refreshes = 0,
     tl_tick_pg_fallback_pools = 0, tl_tick_pg_fallback_ticks = 0\<rparr>"

text \<open>Thirty seconds in nanoseconds.\<close>

definition tick_cache_max_age :: instant where
  "tick_cache_max_age = 30000 * 1000000"

text \<open>The first loop: which pools have to be loaded. The clock is read when a load time is known.\<close>

fun plan_tick_refresh ::
    "'s search_env \<Rightarrow> 's search_runtime \<Rightarrow> address set \<Rightarrow> address list \<Rightarrow> tick_load_stats \<Rightarrow> address list \<Rightarrow>
     ('s, tick_load_stats \<times> address list) act" where
  "plan_tick_refresh env rt tick_changed [] st refresh = pass (st, refresh)"
| "plan_tick_refresh env rt tick_changed (pool # pools) st refresh =
     (case map_of (rt_pool_states rt) pool of
        None \<Rightarrow> plan_tick_refresh env rt tick_changed pools st refresh
      | Some state \<Rightarrow>
          if \<not> is_v3_style_variant (ps_variant state)
          then plan_tick_refresh env rt tick_changed pools st refresh
          else
            bind (case map_of (rt_tick_states_loaded_at rt) pool of
                    None \<Rightarrow> pass True
                  | Some loaded_at \<Rightarrow> bind (now_instant env) (\<lambda>t. pass (t - loaded_at \<ge> tick_cache_max_age)))
              (\<lambda>cache_expired.
            if map_of (rt_tick_states rt) pool = None \<or> cache_expired \<or> pool \<in> tick_changed
            then plan_tick_refresh env rt tick_changed pools
                   (st\<lparr>tl_cache_misses := tl_cache_misses st + 1, tl_cache_refreshes := tl_cache_refreshes st + 1\<rparr>)
                   (refresh @ [pool])
            else plan_tick_refresh env rt tick_changed pools (st\<lparr>tl_cache_hits := tl_cache_hits st + 1\<rparr>) refresh))"

fun apply_tick_fallback ::
    "'s search_env \<Rightarrow> (address \<times> tick_state list) list \<Rightarrow> tick_load_stats \<Rightarrow> (address \<times> tick_state list) list \<Rightarrow>
     ('s, tick_load_stats \<times> (address \<times> tick_state list) list) act" where
  "apply_tick_fallback env [] st loaded = pass (st, loaded)"
| "apply_tick_fallback env ((pool, ticks) # rows) st loaded =
     (if ticks = [] then apply_tick_fallback env rows st loaded
      else
        bind (en_replace_pool_ticks env pool ticks) (\<lambda>_.
        apply_tick_fallback env rows
          (st\<lparr>tl_tick_pg_fallback_pools := tl_tick_pg_fallback_pools st + 1,
              tl_tick_pg_fallback_ticks := tl_tick_pg_fallback_ticks st + word_of_nat (length ticks)\<rparr>)
          (hash_insert pool ticks loaded)))"

definition hot_ticks_missing :: "(address \<times> tick_state list) list \<Rightarrow> address \<Rightarrow> bool" where
  "hot_ticks_missing loaded pool \<longleftrightarrow> (case map_of loaded pool of None \<Rightarrow> True | Some ts \<Rightarrow> ts = [])"

definition store_ticks ::
    "(address \<times> tick_state list) list \<Rightarrow> instant \<Rightarrow> address list \<Rightarrow> 's search_runtime \<Rightarrow> 's search_runtime" where
  "store_ticks loaded loaded_at pools rt =
     fold (\<lambda>pool rt. rt\<lparr>
         rt_tick_states := hash_insert pool (case map_of loaded pool of None \<Rightarrow> [] | Some ts \<Rightarrow> ts) (rt_tick_states rt),
         rt_tick_states_loaded_at := hash_insert pool loaded_at (rt_tick_states_loaded_at rt)\<rparr>) pools rt"

definition load_tick_states_for_pools ::
    "'s search_env \<Rightarrow> 's search_runtime \<Rightarrow> address set \<Rightarrow> address set \<Rightarrow> ('s, tick_load_stats \<times> 's search_runtime) act" where
  "load_tick_states_for_pools env rt tick_changed path_pools =
     bind (plan_tick_refresh env rt tick_changed (en_order env path_pools) tick_load_stats_default [])
       (\<lambda>(st, refresh).
     if refresh = [] then pass (st, rt)
     else
       bind (en_get_pool_ticks_many env refresh) (\<lambda>loaded.
       let missing = filter (hot_ticks_missing loaded) refresh in
       bind (if missing = [] then pass (st, loaded)
             else bind (en_get_pool_ticks_current_many env missing) (\<lambda>rows. apply_tick_fallback env rows st loaded))
         (\<lambda>(st, loaded).
       bind (now_instant env) (\<lambda>loaded_at.
       pass (st, store_ticks loaded loaded_at refresh rt)))))"

definition missing_tick_pools_for_paths :: "'s search_runtime \<Rightarrow> address set \<Rightarrow> address set" where
  "missing_tick_pools_for_paths rt path_pools =
     {pool \<in> path_pools.
        (case map_of (rt_pool_states rt) pool of
           None \<Rightarrow> False
         | Some state \<Rightarrow> is_v3_style_variant (ps_variant state) \<and>
             \<not> (case map_of (rt_tick_states rt) pool of None \<Rightarrow> False | Some ticks \<Rightarrow> ticks \<noteq> []))}"

section \<open>The cycle\<close>

definition remember_state :: "pool_state \<Rightarrow> 's search_runtime \<Rightarrow> 's search_runtime" where
  "remember_state state rt = rt\<lparr>
     rt_latest_pool_state_block := max (rt_latest_pool_state_block rt) (ps_block_number state),
     rt_pool_topology := hash_insert (ps_address state) (pool_topology_of state) (rt_pool_topology rt),
     rt_pool_states := hash_insert (ps_address state) state (rt_pool_states rt)\<rparr>"

definition bootstrap :: "'s search_env \<Rightarrow> 's search_runtime \<Rightarrow> ('s, 's search_runtime) act" where
  "bootstrap env rt =
     (if rt_bootstrapped rt then pass rt
      else bind (en_all_pool_states env) (\<lambda>states. pass ((fold remember_state states rt)\<lparr>rt_bootstrapped := True\<rparr>)))"

definition refresh_config ::
    "libs \<Rightarrow> 's search_env \<Rightarrow> settings \<Rightarrow> int \<Rightarrow> u64 \<Rightarrow> f64 \<Rightarrow> 's search_runtime \<Rightarrow> ('s, bool \<times> 's search_runtime) act" where
  "refresh_config lib env cfg candidate_ttl_ms max_impact min_profit_usdc rt =
     bind (case rt_last_config_refresh rt of
             None \<Rightarrow> pass True
           | Some last_refresh \<Rightarrow> bind (now_instant env) (\<lambda>t.
               pass (t - last_refresh \<ge> unat (max (cfg_searcher_config_refresh_secs cfg) 1) * 1000000000)))
       (\<lambda>refresh_due.
     if \<not> (rt_engine rt = None \<or> refresh_due) then pass (False, rt)
     else
       bind (en_enabled_pair_search_configs env) (\<lambda>pair_configs.
       bind (en_trusted_factory_registry env (cfg_chain_id cfg)) (\<lambda>rows.
       let trusted = sf_from_settings_and_registry lib cfg rows;
           (changed, rt) =
             (if rt_trusted_factories rt \<noteq> trusted
              then (True, rt\<lparr>rt_trusted_factories := trusted, rt_path_index := None, rt_graph_snapshot := None,
                             rt_last_active_pool_sweep := None\<rparr>)
              else (False, rt)) in
       bind (if rt_engine rt = None \<or> rt_pair_configs rt \<noteq> pair_configs
             then bind (lift (engine_from_settings (en_anchor_order env) (en_balancer_query env) cfg candidate_ttl_ms
                          max_impact (usdc_to_units min_profit_usdc) pair_configs)) (\<lambda>eng.
               pass (True, rt\<lparr>rt_engine := Some eng, rt_pair_configs := pair_configs, rt_path_index := None,
                              rt_graph_snapshot := None\<rparr>))
             else pass (changed, rt)) (\<lambda>(changed, rt).
       bind (now_instant env) (\<lambda>t. pass (changed, rt\<lparr>rt_last_config_refresh := Some t\<rparr>))))))"

text \<open>One reloaded pool; the flag says that index and graph have to be rebuilt.\<close>

definition reload_state ::
    "settings \<Rightarrow> datetime \<Rightarrow> int \<Rightarrow> address set \<Rightarrow> address \<times> pool_state option \<Rightarrow> bool \<times> 's search_runtime \<Rightarrow>
     bool \<times> 's search_runtime" where
  "reload_state cfg now max_age_ms changed_pools = (\<lambda>(pool, loaded) (rebuild, rt).
     case loaded of
       Some state \<Rightarrow>
         (let topology = pool_topology_of state;
              was_active = (pool \<in> rt_active_pool_addresses rt);
              active = (is_pool_state_quote_ready state cfg (rt_trusted_factories rt) \<and>
                        (\<not> is_stale state now max_age_ms \<or> pool \<in> changed_pools));
              rt = rt\<lparr>rt_active_pool_addresses :=
                     (if active then insert pool (rt_active_pool_addresses rt)
                      else rt_active_pool_addresses rt - {pool})\<rparr>;
              rebuild = (rebuild \<or> was_active \<noteq> (pool \<in> rt_active_pool_addresses rt));
              topology_changed = (map_of (rt_pool_topology rt) pool \<noteq> Some topology);
              rt = (if topology_changed
                    then rt\<lparr>rt_pool_topology := hash_insert pool topology (rt_pool_topology rt)\<rparr> else rt)
          in (rebuild \<or> topology_changed,
              rt\<lparr>rt_latest_pool_state_block := max (rt_latest_pool_state_block rt) (ps_block_number state),
                 rt_pool_states := hash_insert pool state (rt_pool_states rt)\<rparr>))
     | None \<Rightarrow>
         (let rebuild = (rebuild \<or> map_of (rt_pool_topology rt) pool \<noteq> None \<or> pool \<in> rt_active_pool_addresses rt);
              removed = map_of (rt_pool_states rt) pool;
              states = hash_remove pool (rt_pool_states rt);
              latest = (case removed of
                  None \<Rightarrow> rt_latest_pool_state_block rt
                | Some state \<Rightarrow> if ps_block_number state = rt_latest_pool_state_block rt
                    then latest_pool_state_block states else rt_latest_pool_state_block rt)
          in (rebuild, rt\<lparr>rt_pool_topology := hash_remove pool (rt_pool_topology rt), rt_pool_states := states,
                rt_latest_pool_state_block := latest, rt_tick_states := hash_remove pool (rt_tick_states rt),
                rt_tick_states_loaded_at := hash_remove pool (rt_tick_states_loaded_at rt),
                rt_active_pool_addresses := rt_active_pool_addresses rt - {pool}\<rparr>)))"

text \<open>A pool whose ticks changed is reloaded only while its state is not cached.\<close>

definition state_load_addresses :: "address list \<Rightarrow> address set \<Rightarrow> 's search_runtime \<Rightarrow> address list" where
  "state_load_addresses changed tick_changed rt =
     filter (\<lambda>pool. pool \<notin> tick_changed \<or> map_of (rt_pool_states rt) pool = None) changed"

definition rebuild_index ::
    "libs \<Rightarrow> 's search_env \<Rightarrow> 's search_engine \<Rightarrow> 's search_runtime \<Rightarrow> 's search_runtime" where
  "rebuild_index lib env eng rt =
     (let states = active_pool_states (en_order env) rt
      in rt\<lparr>rt_path_index := Some (build_path_index lib (en_pair_order env) eng states),
            rt_graph_snapshot := Some (graph_snapshot_new states)\<rparr>)"

definition run_quotes ::
    "libs \<Rightarrow> (f64 \<Rightarrow> f64 \<Rightarrow> f64) \<Rightarrow> 's search_env \<Rightarrow> 's search_engine \<Rightarrow> path_index \<Rightarrow> graph_snapshot \<Rightarrow> address list \<Rightarrow>
     address set \<Rightarrow> u64 \<Rightarrow> u64 \<Rightarrow> (selected_search_paths \<Rightarrow> u64 \<Rightarrow> search_cycle_stats) \<Rightarrow> 's search_runtime \<Rightarrow>
     ('s, search_cycle_stats \<times> 's search_runtime) act" where
  "run_quotes lib powf env eng idx g changed tick_changed max_impact latest_known_block start_stats rt =
     bind (now_instant env) (\<lambda>path_build_started.
     let (dynamic_paths, dynamic_stats) = dynamic_multihop_paths_for_changed_pools lib powf eng g changed;
         selected = select_search_paths_for_path_index idx changed dynamic_paths (rt_active_pool_addresses rt) in
     bind (elapsed_ms env path_build_started) (\<lambda>path_build_ms.
     let cs = start_stats selected path_build_ms;
         search = (cy_search cs)\<lparr>ss_total_paths := total_paths idx\<rparr>;
         cs = cs\<lparr>cy_search := stats_merge search dynamic_stats\<rparr> in
     bind (now_instant env) (\<lambda>tick_load_started.
     bind (load_tick_states_for_pools env rt tick_changed (sel_path_pools selected)) (\<lambda>(st, rt).
     bind (elapsed_ms env tick_load_started) (\<lambda>tick_load_ms.
     let cs = cs\<lparr>cy_tick_load_ms := cy_tick_load_ms cs + tick_load_ms,
                 cy_tick_cache_hits := cy_tick_cache_hits cs + tl_cache_hits st,
                 cy_tick_cache_misses := cy_tick_cache_misses cs + tl_cache_misses st,
                 cy_tick_cache_refreshes := cy_tick_cache_refreshes cs + tl_cache_refreshes st,
                 cy_tick_pg_fallback_pools := cy_tick_pg_fallback_pools cs + tl_tick_pg_fallback_pools st,
                 cy_tick_pg_fallback_ticks := cy_tick_pg_fallback_ticks cs + tl_tick_pg_fallback_ticks st\<rparr>;
         missing = missing_tick_pools_for_paths rt (sel_path_pools selected);
         context = \<lparr>qc_pool_states = map_of (rt_pool_states rt), qc_tick_states = map_of (rt_tick_states rt)\<rparr> in
     bind (quote_path_batches
             (quote_and_publish_path_batch powf env eng context (rt_active_pool_addresses rt) max_impact latest_known_block)
             missing (sel_paths selected) [] cs) (\<lambda>cs.
     pass (cs, rt)))))))"

text \<open>The searched part of a cycle, once the latest block is known. \<open>None\<close> is an early return with
  default statistics; the failure is the panic of \<open>expect\<close>, which the check before excludes.\<close>

definition search_changed ::
    "libs \<Rightarrow> (f64 \<Rightarrow> f64 \<Rightarrow> f64) \<Rightarrow> 's search_env \<Rightarrow> settings \<Rightarrow> int \<Rightarrow> u64 \<Rightarrow> address list \<Rightarrow> address set \<Rightarrow> datetime \<Rightarrow>
     u64 \<Rightarrow> (u64 \<times> u64 \<times> u64) \<Rightarrow> bool \<Rightarrow> 's search_runtime \<Rightarrow>
     ('s, search_cycle_stats option \<times> 's search_runtime) act" where
  "search_changed lib powf env cfg max_age_ms max_impact changed tick_changed now latest_known_block
     = (\<lambda>(config_load_ms, state_load_ms, state_load_pools) rebuild rt.
     let latest_state_block = rt_latest_pool_state_block rt in
     bind (infallible (refresh_active_pool_cache_if_due (en_clock env) now max_age_ms cfg rt)) (\<lambda>(refresh, rt).
     let (forced, rt) = force_changed_quote_ready_pools_active changed cfg rt;
         rebuild = (rebuild \<or> ar_changed refresh \<or> forced) in
     if rt_active_pool_addresses rt = {} then pass (None, rt)
     else
       (case rt_engine rt of
          None \<Rightarrow> fail ''searcher engine checked above''
        | Some eng \<Rightarrow>
            bind (if rebuild
                  then bind (now_instant env) (\<lambda>rebuild_started.
                    let rt = rebuild_index lib env eng rt in
                    bind (elapsed_ms env rebuild_started) (\<lambda>ms. pass (ms, rt)))
                  else pass (0, rt)) (\<lambda>(rebuild_ms, rt).
            case (rt_path_index rt, rt_graph_snapshot rt) of
              (Some idx, Some g) \<Rightarrow>
                bind (run_quotes lib powf env eng idx g changed tick_changed max_impact latest_known_block
                  (\<lambda>selected path_build_ms. search_cycle_stats_default\<lparr>
                     cy_cycles := 1, cy_config_load_ms := config_load_ms, cy_state_load_ms := state_load_ms,
                     cy_state_load_pools := state_load_pools, cy_path_index_rebuild_ms := rebuild_ms,
                     cy_path_build_ms := path_build_ms,
                     cy_path_pools := word_of_nat (length (en_order env (sel_path_pools selected))),
                     cy_latest_chain_block := latest_known_block, cy_latest_pool_state_block := latest_state_block,
                     cy_inactive_pool_filtered_paths := word_of_nat (sel_inactive_pool_filtered_paths selected),
                     cy_active_pool_sweeps := (if ar_swept refresh then 1 else 0),
                     cy_active_pools := word_of_nat (length (en_order env (rt_active_pool_addresses rt))),
                     cy_changed_pool_scans := 1, cy_changed_pools := word_of_nat (length changed)\<rparr>) rt)
                  (\<lambda>(cs, rt). pass (Some cs, rt))
            | _ \<Rightarrow> pass (None, rt)))))"

text \<open>The runtime after a failed cycle is not returned: the service ends with the error.\<close>

definition run_search_cycle ::
    "libs \<Rightarrow> (f64 \<Rightarrow> f64 \<Rightarrow> f64) \<Rightarrow> 's search_env \<Rightarrow> settings \<Rightarrow> int \<Rightarrow> int \<Rightarrow> u64 \<Rightarrow> f64 \<Rightarrow> 's search_runtime \<Rightarrow>
     ('s, search_cycle_stats \<times> 's search_runtime) act" where
  "run_search_cycle lib powf env cfg candidate_ttl_ms max_age_ms max_impact min_profit_usdc rt =
     bind (now_instant env) (\<lambda>cycle_started.
     bind (bootstrap env rt) (\<lambda>rt.
     bind (en_drain_changed_pools env) (\<lambda>changed_pools.
     bind (en_drain_tick_changed_pools env) (\<lambda>tick_changed_pools.
     let tick_changed = set tick_changed_pools;
         changed = en_order env (set changed_pools \<union> tick_changed) in
     if changed = []
     then
       bind (elapsed_ms env cycle_started) (\<lambda>total_ms.
       bind (elapsed_ms env cycle_started) (\<lambda>max_ms.
       pass (search_cycle_stats_default\<lparr>cy_cycles := 1, cy_total_cycle_ms := total_ms, cy_max_cycle_ms := max_ms,
               cy_idle_cycles := 1\<rparr>, rt)))
     else
       bind (now_instant env) (\<lambda>config_load_started.
       bind (refresh_config lib env cfg candidate_ttl_ms max_impact min_profit_usdc rt) (\<lambda>(config_changed, rt).
       bind (elapsed_ms env config_load_started) (\<lambda>config_load_ms.
       if rt_engine rt = None then pass (search_cycle_stats_default, rt)
       else
         bind (now_instant env) (\<lambda>state_load_started.
         bind (infallible (am_now (en_ambient env))) (\<lambda>now.
         let rebuild = (config_changed \<or> rt_path_index rt = None \<or> rt_graph_snapshot rt = None);
             addresses = state_load_addresses changed tick_changed rt in
         bind (en_get_pool_states env addresses) (\<lambda>loaded.
         let (rebuild, rt) = fold (reload_state cfg now max_age_ms (set changed)) loaded (rebuild, rt) in
         bind (elapsed_ms env state_load_started) (\<lambda>state_load_ms.
         if rt_pool_states rt = [] then pass (search_cycle_stats_default, rt)
         else
           bind (en_get_current_block env) (\<lambda>latest_known_block.
           case latest_known_block of
             None \<Rightarrow> pass (search_cycle_stats_default, rt)
           | Some latest_known_block \<Rightarrow>
               bind (search_changed lib powf env cfg max_age_ms max_impact changed tick_changed now latest_known_block
                       (config_load_ms, state_load_ms, word_of_nat (length addresses)) rebuild rt) (\<lambda>(cs, rt).
               case cs of
                 None \<Rightarrow> pass (search_cycle_stats_default, rt)
               | Some cs \<Rightarrow>
                   bind (elapsed_ms env cycle_started) (\<lambda>elapsed.
                   pass (cs\<lparr>cy_total_cycle_ms := elapsed, cy_max_cycle_ms := elapsed\<rparr>, rt)))))))))))))))"

end
