(* ===== verification/Searcher_Runtime.thy ===== *)
theory Searcher_Runtime
  imports Searcher
begin

text \<open>
  The invariant of the searcher's runtime, and that each pure step of a cycle keeps it: cached states
  sit under their own address, topologies describe the cached states, and, once a sweep has run, the
  every active pool has a cached state that is ready to be quoted.
\<close>

section \<open>Hash maps of states\<close>

lemma hash_insert_keys:
  "map fst (hash_insert k v m) = (if k \<in> fst ` set m then map fst m else map fst m @ [k])"
  by (induction k v m rule: hash_insert.induct) auto

lemma hash_insert_set: "set (hash_insert k v m) \<subseteq> insert (k, v) (set m)"
  by (induction k v m rule: hash_insert.induct) auto

lemma hash_remove_set: "e \<in> set (hash_remove k m) \<longleftrightarrow> e \<in> set m \<and> fst e \<noteq> k"
  by (induction k m rule: hash_remove.induct) auto

lemma hash_remove_distinct: "distinct (map fst m) \<Longrightarrow> distinct (map fst (hash_remove k m))"
  by (induction k m rule: hash_remove.induct) (auto simp: hash_remove_set)

definition states_ok :: "(address \<times> pool_state) list \<Rightarrow> bool" where
  "states_ok m \<longleftrightarrow> distinct (map fst m) \<and> list_all (\<lambda>(pool, state). ps_address state = pool) m"

lemma states_ok_insert: "states_ok m \<Longrightarrow> ps_address state = pool \<Longrightarrow> states_ok (hash_insert pool state m)"
  using hash_insert_set [of pool state m]
  by (auto simp: states_ok_def list_all_iff hash_insert_keys)

lemma states_ok_remove: "states_ok m \<Longrightarrow> states_ok (hash_remove pool m)"
  by (auto simp: states_ok_def list_all_iff hash_remove_set hash_remove_distinct)

lemma states_ok_lookup: "states_ok m \<Longrightarrow> map_of m pool = Some state \<Longrightarrow> ps_address state = pool"
  by (auto simp: states_ok_def list_all_iff dest: map_of_SomeD)

lemma states_ok_member: "states_ok m \<Longrightarrow> state \<in> snd ` set m \<Longrightarrow> map_of m (ps_address state) = Some state"
  by (auto simp: states_ok_def list_all_iff)

section \<open>The invariant\<close>

definition known_states :: "(pool_state \<Rightarrow> bool) \<Rightarrow> (address \<times> pool_state) list \<Rightarrow> bool" where
  "known_states known m \<longleftrightarrow> (\<forall>p \<in> snd ` set m. known p)"

lemma known_states_Nil [simp]: "known_states known []"
  by (simp add: known_states_def)

lemma known_states_insert: "known_states known m \<Longrightarrow> known p \<Longrightarrow> known_states known (hash_insert pool p m)"
  using hash_insert_set [of pool p m] by (auto simp: known_states_def)

lemma known_states_remove: "known_states known m \<Longrightarrow> known_states known (hash_remove pool m)"
  by (auto simp: known_states_def hash_remove_set)

lemma known_states_lookup: "known_states known m \<Longrightarrow> map_of m pool = Some p \<Longrightarrow> known p"
  by (fastforce simp: known_states_def dest: map_of_SomeD)

definition active_ready :: "settings \<Rightarrow> 's search_runtime \<Rightarrow> bool" where
  "active_ready cfg rt \<longleftrightarrow>
     (\<forall>pool \<in> rt_active_pool_addresses rt. \<exists>state. map_of (rt_pool_states rt) pool = Some state \<and>
        is_pool_state_quote_ready state cfg (rt_trusted_factories rt))"

definition topology_ok :: "'s search_runtime \<Rightarrow> bool" where
  "topology_ok rt \<longleftrightarrow>
     (\<forall>pool. map_of (rt_pool_topology rt) pool = map_option pool_topology_of (map_of (rt_pool_states rt) pool))"

definition config_ok :: "libs \<Rightarrow> settings \<Rightarrow> (factory_row list \<Rightarrow> bool) \<Rightarrow> 's balancer_query \<Rightarrow> 's search_runtime \<Rightarrow> bool" where
  "config_ok lib cfg registry query rt \<longleftrightarrow>
     (\<forall>eng. rt_engine rt = Some eng \<longrightarrow>
        (\<exists>rows. registry rows \<and> rt_trusted_factories rt = sf_from_settings_and_registry lib cfg rows) \<and>
        (\<forall>q. se_chain_provider eng = Some q \<longrightarrow> q = query))"

definition runtime_ok :: "libs \<Rightarrow> settings \<Rightarrow> (pool_state \<Rightarrow> bool) \<Rightarrow> (factory_row list \<Rightarrow> bool) \<Rightarrow> 's balancer_query \<Rightarrow> 's search_runtime \<Rightarrow> bool" where
  "runtime_ok lib cfg known registry query rt \<longleftrightarrow>
     states_ok (rt_pool_states rt) \<and> known_states known (rt_pool_states rt) \<and> topology_ok rt \<and> config_ok lib cfg registry query rt \<and>
     (rt_last_active_pool_sweep rt \<noteq> None \<longrightarrow> active_ready cfg rt) \<and>
     (\<not> rt_bootstrapped rt \<longrightarrow> rt_active_pool_addresses rt = {})"

lemma runtime_ok_default: "runtime_ok lib cfg known registry query search_runtime_default"
  by (simp add: runtime_ok_def search_runtime_default_def states_ok_def topology_ok_def config_ok_def)

section \<open>The steps\<close>

lemma remember_state_ok:
  assumes "runtime_ok lib cfg known registry query rt" "rt_active_pool_addresses rt = {}" "known state"
  shows "runtime_ok lib cfg known registry query (remember_state state rt) \<and> rt_active_pool_addresses (remember_state state rt) = {}"
  using assms
  by (auto simp: runtime_ok_def remember_state_def states_ok_insert known_states_insert topology_ok_def config_ok_def active_ready_def)

lemma bootstrap_ok:
  assumes "runtime_ok lib cfg known registry query rt" "\<not> rt_bootstrapped rt" "list_all known states"
  shows "runtime_ok lib cfg known registry query ((fold remember_state states rt)\<lparr>rt_bootstrapped := True\<rparr>)"
proof -
  have "runtime_ok lib cfg known registry query (fold remember_state states rt) \<and>
      rt_active_pool_addresses (fold remember_state states rt) = {}"
    if "runtime_ok lib cfg known registry query rt" "rt_active_pool_addresses rt = {}" for rt
    using that assms(3)
  proof (induction states arbitrary: rt)
    case (Cons state states)
    then show ?case using remember_state_ok [of lib cfg known registry query rt state] Cons.IH [of "remember_state state rt"] by simp
  qed simp
  then show ?thesis using assms
    by (auto simp: runtime_ok_def topology_ok_def config_ok_def active_ready_def)
qed

definition row_ok :: "(pool_state \<Rightarrow> bool) \<Rightarrow> address \<times> pool_state option \<Rightarrow> bool" where
  "row_ok known = (\<lambda>(pool, loaded). case loaded of None \<Rightarrow> True | Some state \<Rightarrow> ps_address state = pool \<and> known state)"

lemma reload_state_ok:
  assumes "runtime_ok lib cfg known registry query rt" "rt_bootstrapped rt" "row_ok known row"
  shows "runtime_ok lib cfg known registry query (snd (reload_state cfg now age changed row (b, rt))) \<and>
    rt_bootstrapped (snd (reload_state cfg now age changed row (b, rt))) \<and>
    rt_engine (snd (reload_state cfg now age changed row (b, rt))) = rt_engine rt"
proof -
  obtain pool loaded where row: "row = (pool, loaded)" by fastforce
  show ?thesis
  proof (cases loaded)
    case None
    then show ?thesis using assms(1,2)
      by (auto simp: row reload_state_def Let_def runtime_ok_def states_ok_remove known_states_remove topology_ok_def config_ok_def
          active_ready_def)
  next
    case (Some state)
    then have "ps_address state = pool" "known state" using assms(3) by (simp_all add: row row_ok_def)
    then show ?thesis using assms(1,2) Some
      by (auto simp: row reload_state_def Let_def runtime_ok_def states_ok_insert known_states_insert topology_ok_def config_ok_def
          active_ready_def)
  qed
qed

lemma reload_states_ok:
  assumes "runtime_ok lib cfg known registry query rt" "rt_bootstrapped rt" "list_all (row_ok known) rows"
    "fold (reload_state cfg now age changed) rows (b, rt) = (b', rt')"
  shows "runtime_ok lib cfg known registry query rt' \<and> rt_bootstrapped rt' \<and> rt_engine rt' = rt_engine rt"
  using assms
proof (induction rows arbitrary: b rt)
  case (Cons row rows)
  obtain b1 rt1 where r: "reload_state cfg now age changed row (b, rt) = (b1, rt1)" by fastforce
  show ?case using Cons.IH [of rt1 b1] Cons.prems reload_state_ok [of lib cfg known registry query rt row now age changed b] r by simp
qed simp

lemma active_addresses_ready:
  assumes "states_ok (rt_pool_states rt)"
    "rt_active_pool_addresses rt =
       active_pool_addresses (map snd (rt_pool_states rt)) now age cfg (rt_trusted_factories rt)"
  shows "active_ready cfg rt"
  unfolding active_ready_def assms(2) active_pool_addresses_def
  using states_ok_member [OF assms(1)] by (fastforce simp: is_pool_state_active_def split: if_splits)

lemma refresh_active_ok:
  assumes "runtime_ok lib cfg known registry query rt" "rt_bootstrapped rt"
    "refresh_active_pool_cache_if_due clock now age cfg rt s = ((refresh, rt'), s')"
  shows "runtime_ok lib cfg known registry query rt' \<and> active_ready cfg rt' \<and> rt_bootstrapped rt' \<and> rt_engine rt' = rt_engine rt"
proof -
  obtain recent s1 where r: "(case rt_last_active_pool_sweep rt of None \<Rightarrow> (False, s)
      | Some last_sweep \<Rightarrow> (let (t, s) = clock s in (t - last_sweep < active_pool_sweep_interval age, s))) = (recent, s1)"
    by fastforce
  show ?thesis
  proof (cases recent)
    case True
    then have "rt_last_active_pool_sweep rt \<noteq> None" using r by (auto split: option.splits)
    moreover have "rt' = rt" using assms(3) True r by (simp add: refresh_active_pool_cache_if_due_def)
    ultimately show ?thesis using assms(1,2) by (simp add: runtime_ok_def)
  next
    case False
    obtain t s2 where "clock s1 = (t, s2)" by fastforce
    then have "rt' = rt\<lparr>rt_active_pool_addresses :=
        active_pool_addresses (map snd (rt_pool_states rt)) now age cfg (rt_trusted_factories rt),
        rt_last_active_pool_sweep := Some t\<rparr>"
      using assms(3) False r by (simp add: refresh_active_pool_cache_if_due_def Let_def)
    moreover have "states_ok (rt_pool_states rt)" using assms(1) by (simp add: runtime_ok_def)
    ultimately show ?thesis using assms(1,2) active_addresses_ready [of rt']
      by (simp add: runtime_ok_def topology_ok_def config_ok_def)
  qed
qed

definition force_one :: "settings \<Rightarrow> address \<Rightarrow> bool \<times> 's search_runtime \<Rightarrow> bool \<times> 's search_runtime" where
  "force_one cfg pool = (\<lambda>(changed, rt).
     case map_of (rt_pool_states rt) pool of
       None \<Rightarrow> (changed, rt)
     | Some state \<Rightarrow>
         if is_pool_state_quote_ready state cfg (rt_trusted_factories rt) \<and> pool \<notin> rt_active_pool_addresses rt
         then (True, rt\<lparr>rt_active_pool_addresses := insert pool (rt_active_pool_addresses rt)\<rparr>)
         else (changed, rt))"

lemma force_fold: "force_changed_quote_ready_pools_active changed cfg rt = fold (force_one cfg) changed (False, rt)"
  by (simp add: force_changed_quote_ready_pools_active_def force_one_def [abs_def])

lemma force_active_ok:
  assumes "runtime_ok lib cfg known registry query rt" "active_ready cfg rt" "rt_bootstrapped rt"
    "force_changed_quote_ready_pools_active changed cfg rt = (forced, rt')"
  shows "runtime_ok lib cfg known registry query rt' \<and> active_ready cfg rt' \<and> rt_bootstrapped rt' \<and> rt_engine rt' = rt_engine rt"
proof -
  have "runtime_ok lib cfg known registry query (snd (fold (force_one cfg) changed (b, rt))) \<and>
      active_ready cfg (snd (fold (force_one cfg) changed (b, rt))) \<and>
      rt_bootstrapped (snd (fold (force_one cfg) changed (b, rt))) \<and>
      rt_engine (snd (fold (force_one cfg) changed (b, rt))) = rt_engine rt"
    if "runtime_ok lib cfg known registry query rt" "active_ready cfg rt" "rt_bootstrapped rt" for b
    using that
  proof (induction changed arbitrary: b rt)
    case (Cons pool changed)
    obtain b1 rt1 where f: "force_one cfg pool (b, rt) = (b1, rt1)" by fastforce
    have "runtime_ok lib cfg known registry query rt1 \<and> active_ready cfg rt1 \<and> rt_bootstrapped rt1 \<and> rt_engine rt1 = rt_engine rt"
      using Cons.prems f
      by (auto simp: force_one_def runtime_ok_def topology_ok_def config_ok_def active_ready_def split: option.splits if_splits)
    then show ?case using Cons.IH [of rt1 b1] f by simp
  qed simp
  then show ?thesis using assms by (metis force_fold snd_conv)
qed

lemma rebuild_index_ok:
  "runtime_ok lib cfg known registry query (rebuild_index lib' env eng rt) = runtime_ok lib cfg known registry query rt"
  "active_ready cfg (rebuild_index lib' env eng rt) = active_ready cfg rt"
  "rt_engine (rebuild_index lib' env eng rt) = rt_engine rt"
  "rt_bootstrapped (rebuild_index lib' env eng rt) = rt_bootstrapped rt"
  by (simp_all add: rebuild_index_def Let_def runtime_ok_def topology_ok_def config_ok_def active_ready_def)

lemma store_ticks_fields [simp]:
  "rt_pool_states (store_ticks loaded t pools rt) = rt_pool_states rt"
  "rt_active_pool_addresses (store_ticks loaded t pools rt) = rt_active_pool_addresses rt"
  "rt_pool_topology (store_ticks loaded t pools rt) = rt_pool_topology rt"
  "rt_engine (store_ticks loaded t pools rt) = rt_engine rt"
  "rt_trusted_factories (store_ticks loaded t pools rt) = rt_trusted_factories rt"
  "rt_last_active_pool_sweep (store_ticks loaded t pools rt) = rt_last_active_pool_sweep rt"
  "rt_bootstrapped (store_ticks loaded t pools rt) = rt_bootstrapped rt"
  unfolding store_ticks_def by (induction pools arbitrary: rt) simp_all

lemma store_ticks_ok [simp]:
  "runtime_ok lib cfg known registry query (store_ticks loaded t pools rt) = runtime_ok lib cfg known registry query rt"
  "active_ready cfg (store_ticks loaded t pools rt) = active_ready cfg rt"
  by (simp_all add: runtime_ok_def topology_ok_def config_ok_def active_ready_def)

end
