(* ===== verification/Searcher_World.thy ===== *)
theory Searcher_World
  imports Searcher_Runtime Act_Triples In_Memory
begin

text \<open>
  What a whole search cycle guarantees to the stores it publishes to. The interface \<open>search_world\<close>
  states what the cycle needs of its environment: a property \<open>I\<close> of the outside state that every call
  keeps, publishing included as long as the published candidates are \<open>published_ok\<close>. Its
  interpretation is the in-memory store of \<open>Stores\<close>, shared with the rest of the outside world.
\<close>

section \<open>Published candidates\<close>

text \<open>
  \<open>known\<close> are the pool states the searcher can have read, \<open>registry\<close> the answers the registry of
  trusted factories can have given. A step is \<open>ready_step\<close> when a known state of its pool, the very
  one its diagnostics record, was ready to be quoted under the factories.
\<close>

definition ready_step ::
    "settings \<Rightarrow> (pool_state \<Rightarrow> bool) \<Rightarrow> search_factories \<Rightarrow> swap_step \<Rightarrow> quote_step_diagnostics \<Rightarrow> bool" where
  "ready_step cfg known trusted step d \<longleftrightarrow>
     (\<exists>p. known p \<and> ps_address p = st_pool step \<and> records_state p step d \<and> is_pool_state_quote_ready p cfg trusted)"

definition published_ok ::
    "libs \<Rightarrow> settings \<Rightarrow> (pool_state \<Rightarrow> bool) \<Rightarrow> (factory_row list \<Rightarrow> bool) \<Rightarrow> u64 \<Rightarrow> candidate \<Rightarrow> bool" where
  "published_ok lib cfg known registry max_impact c \<longleftrightarrow>
     (\<exists>d rows. ap_diagnostics (cd_path c) = Some d \<and> registry rows \<and>
        list_all2 (ready_step cfg known (sf_from_settings_and_registry lib cfg rows)) (ap_steps (cd_path c)) (qd_steps d) \<and>
        quote_chain (cd_amount_in c) (qd_steps d) (cd_expected_amount_out c) \<and>
        list_all (\<lambda>q. \<not> qs_tick_range_exhausted q) (qd_steps d)) \<and>
     cd_expected_profit c = saturating_sub (cd_expected_amount_out c) (cd_amount_in c) \<and>
     cd_min_profit c \<le> cd_expected_profit c \<and> cd_price_impact_bps c \<le> max_impact"

lemma stamp_block_fields [simp]:
  "cd_path (stamp_block b c) = cd_path c" "cd_amount_in (stamp_block b c) = cd_amount_in c"
  "cd_expected_amount_out (stamp_block b c) = cd_expected_amount_out c"
  "cd_expected_profit (stamp_block b c) = cd_expected_profit c"
  "cd_min_profit (stamp_block b c) = cd_min_profit c"
  "cd_price_impact_bps (stamp_block b c) = cd_price_impact_bps c"
  by (simp_all add: stamp_block_def)

lemma published_ok_stamp [simp]: "published_ok lib cfg known registry m (stamp_block b c) = published_ok lib cfg known registry m c"
  by (simp add: published_ok_def)

lemma validate_stamp [simp]:
  "validate_candidate (stamp_block b c) available m max_impact w = validate_candidate c available m max_impact w"
  unfolding validate_candidate_def stamp_block_fields ..

lemma validate_loop_valid:
  assumes "validate_loop available eng max_impact candidates valid cs = (valid', cs')" "c \<in> set valid'"
  shows "c \<in> set valid \<or> c \<in> set candidates \<and>
    validate_candidate c available (se_min_expected_profit eng) max_impact (se_whitelist_paths eng) = Inr ()"
  using assms
  by (induction available eng max_impact candidates valid cs rule: validate_loop.induct)
    (fastforce split: sum.splits)+

lemma validated_candidate:
  assumes "validate_candidate c available m max_impact w = Inr ()"
  shows "cd_min_profit c \<le> cd_expected_profit c" "cd_price_impact_bps c \<le> max_impact"
    "step \<in> set (ap_steps (cd_path c)) \<Longrightarrow> st_pool step \<in> available"
  using assms by (auto simp: validate_candidate_def Let_def not_less split: if_splits)

text \<open>A sound candidate that passed the gate with the ready active pools may be published.\<close>

lemma sound_candidate_published:
  assumes "sound_candidate eng context sp c"
    "\<And>pool p. qc_pool_states context pool = Some p \<Longrightarrow> ps_address p = pool \<and> known p"
    "validate_candidate c available m max_impact w = Inr ()" "registry rows"
    "\<And>pool. pool \<in> available \<Longrightarrow> \<exists>p. qc_pool_states context pool = Some p \<and>
      is_pool_state_quote_ready p cfg (sf_from_settings_and_registry lib cfg rows)"
  shows "published_ok lib cfg known registry max_impact c"
proof -
  let ?ready = "ready_step cfg known (sf_from_settings_and_registry lib cfg rows)"
  obtain d where d: "cd_path c = path_with_diagnostics (sp_path sp) d"
    "quote_chain (cd_amount_in c) (qd_steps d) (cd_expected_amount_out c)"
    "list_all2 (describes_step context) (ap_steps (sp_path sp)) (qd_steps d)"
    "list_all (\<lambda>q. \<not> qs_tick_range_exhausted q) (qd_steps d)"
    "cd_expected_profit c = saturating_sub (cd_expected_amount_out c) (cd_amount_in c)"
    using assms(1) by (auto simp: sound_candidate_def)
  have path: "ap_steps (cd_path c) = ap_steps (sp_path sp)" "ap_diagnostics (cd_path c) = Some d"
    by (simp_all add: d(1) path_with_diagnostics_def)
  have "?ready step q" if "step \<in> set (ap_steps (sp_path sp))" "describes_step context step q" for step q
  proof -
    from that(2) obtain p where p: "qc_pool_states context (st_pool step) = Some p" "records_state p step q"
      by (auto simp: describes_step_def)
    moreover have "is_pool_state_quote_ready p cfg (sf_from_settings_and_registry lib cfg rows)"
      using assms(5) [of "st_pool step"] validated_candidate(3) [OF assms(3), of step] that(1) p(1) by (simp add: path)
    ultimately show ?thesis using assms(2) [OF p(1)] by (auto simp: ready_step_def)
  qed
  then have "list_all2 ?ready (ap_steps (cd_path c)) (qd_steps d)"
    using d(3) unfolding path by (rule list.rel_mono_strong [rotated]) auto
  then show ?thesis
    using assms(4) d(2,4,5) path(2) validated_candidate(1,2) [OF assms(3)] by (auto simp: published_ok_def)
qed

section \<open>The interface\<close>

locale search_world =
  fixes env :: "'s search_env" and I :: "'s \<Rightarrow> bool" and lib :: libs and cfg :: settings
    and known :: "pool_state \<Rightarrow> bool" and registry :: "factory_row list \<Rightarrow> bool" and max_impact :: u64
  assumes best_order: "set (en_best_order env cs) \<subseteq> set cs"
    and clock: "I s \<Longrightarrow> I (snd (en_clock env s))"
    and now: "I s \<Longrightarrow> I (snd (am_now (en_ambient env) s))"
    and new_uuid: "I s \<Longrightarrow> I (snd (am_new_uuid (en_ambient env) s))"
    and balancer_query: "I s \<Longrightarrow> I (snd (en_balancer_query env router pool a b amount sender s))"
    and all_pool_states: "I s \<Longrightarrow> I (snd (en_all_pool_states env s))"
    and all_pool_states_rows: "I s \<Longrightarrow> en_all_pool_states env s = (Inr states, s') \<Longrightarrow> list_all known states"
    and drain_changed_pools: "I s \<Longrightarrow> I (snd (en_drain_changed_pools env s))"
    and drain_tick_changed_pools: "I s \<Longrightarrow> I (snd (en_drain_tick_changed_pools env s))"
    and get_pool_states: "I s \<Longrightarrow> I (snd (en_get_pool_states env as s))"
    and get_pool_states_rows: "I s \<Longrightarrow> en_get_pool_states env as s = (Inr rows, s') \<Longrightarrow> list_all (row_ok known) rows"
    and get_current_block: "I s \<Longrightarrow> I (snd (en_get_current_block env s))"
    and get_pool_ticks_many: "I s \<Longrightarrow> I (snd (en_get_pool_ticks_many env as s))"
    and replace_pool_ticks: "I s \<Longrightarrow> I (snd (en_replace_pool_ticks env a ts s))"
    and mark_tick_repair_pools: "I s \<Longrightarrow> I (snd (en_mark_tick_repair_pools env as s))"
    and pair_search_configs: "I s \<Longrightarrow> I (snd (en_enabled_pair_search_configs env s))"
    and factory_registry: "I s \<Longrightarrow> I (snd (en_trusted_factory_registry env chain s))"
    and factory_registry_rows: "I s \<Longrightarrow>
      en_trusted_factory_registry env (cfg_chain_id cfg) s = (Inr listed, s') \<Longrightarrow> registry listed"
    and get_pool_ticks_current_many: "I s \<Longrightarrow> I (snd (en_get_pool_ticks_current_many env as s))"
    and enqueue_opportunities: "I s \<Longrightarrow> I (snd (en_enqueue_opportunities env cs s))"
    and push_candidates: "list_all (published_ok lib cfg known registry max_impact) cs \<Longrightarrow> I s \<Longrightarrow> I (snd (en_push_candidates env cs s))"
begin

abbreviation stable :: "('s, 'a) act \<Rightarrow> bool" where
  "stable m \<equiv> triple I m (\<lambda>_. I) I"

lemma stable_call: "(\<And>s. I s \<Longrightarrow> I (snd (m s))) \<Longrightarrow> stable m"
  unfolding triple_def by (fastforce split: prod.splits sum.splits)

lemma stable_bind: "stable m \<Longrightarrow> (\<And>x. stable (f x)) \<Longrightarrow> stable (bind m f)"
  by (rule triple_bind)

lemma stable_pass: "stable (pass x)"
  by (simp add: triple_pass)

lemma stable_infallible: "(\<And>s. I s \<Longrightarrow> I (snd (f s))) \<Longrightarrow> stable (infallible f)"
  unfolding triple_def infallible_def by (fastforce split: prod.splits)

lemma stable_clock: "stable (now_instant env)" "stable (elapsed_ms env t)"
proof -
  show now: "stable (now_instant env)"
    unfolding now_instant_def by (rule stable_infallible) (rule clock)
  show "stable (elapsed_ms env t)"
    unfolding elapsed_ms_def by (rule stable_bind [OF now stable_pass])
qed

lemmas stable_calls = stable_clock stable_pass stable_infallible [OF now] stable_infallible [OF enqueue_opportunities]
  stable_call [OF all_pool_states] stable_call [OF drain_changed_pools] stable_call [OF drain_tick_changed_pools]
  stable_call [OF get_pool_states] stable_call [OF get_current_block] stable_call [OF get_pool_ticks_many]
  stable_call [OF replace_pool_ticks] stable_call [OF mark_tick_repair_pools] stable_call [OF pair_search_configs]
  stable_call [OF factory_registry] stable_call [OF get_pool_ticks_current_many]

text \<open>Quoting asks nobody but the Balancer router.\<close>

lemma quote_balancer_step_I:
  assumes "I s" "\<And>q. se_chain_provider eng = Some q \<Longrightarrow> q = en_balancer_query env"
  shows "I (snd (quote_balancer_step powf eng p step amount s))"
proof (cases "se_chain_provider eng")
  case None
  then show ?thesis using assms(1) by (auto simp: quote_balancer_step_def Let_def split: option.split)
next
  case (Some q)
  show ?thesis
  proof (cases "se_balancer_v3_router eng")
    case None
    then show ?thesis using assms(1) by (simp add: quote_balancer_step_def Let_def)
  next
    case router: (Some router)
    obtain r s' where q: "q router (ps_address p) (st_token_in step) (st_token_out step) amount
        (se_balancer_query_sender eng) s = (r, s')" by fastforce
    have "I s'"
      using balancer_query [OF assms(1), of router "ps_address p" "st_token_in step" "st_token_out step" amount
          "se_balancer_query_sender eng"] q assms(2) [OF Some] by simp
    then show ?thesis using assms(1) Some router q
      by (simp add: quote_balancer_step_def Let_def split: sum.split)
  qed
qed

lemma quote_steps_I:
  assumes "I s" "\<And>q. se_chain_provider eng = Some q \<Longrightarrow> q = en_balancer_query env"
  shows "I (snd (quote_steps powf eng context isteps q s))"
  using assms(1)
proof (induction isteps arbitrary: q s)
  case (Cons istep isteps)
  obtain i step where ist: "istep = (i, step)" by fastforce
  have pool: "I (snd (quote_pool_step powf eng context p step amount s))" for p amount
    using quote_balancer_step_I [OF Cons.prems assms(2)] Cons.prems
    by (simp add: quote_pool_step_def qlift_def split: pool_variant.split)
  show ?case
  proof (cases "qc_pool_states context (st_pool step)")
    case (Some p)
    obtain r s1 where r: "quote_pool_step powf eng context p step (pq_amount q) s = (r, s1)" by fastforce
    then have s1: "I s1" using pool [of p "pq_amount q"] by simp
    then show ?thesis using Cons.IH [OF s1] Some r
      by (simp add: ist qbind_def qlift_def split: sum.split)
  qed (use Cons.prems in \<open>simp add: ist qbind_def qlift_def\<close>)
qed (simp add: qlift_def)

lemma quote_path_I:
  assumes "I s" "\<And>q. se_chain_provider eng = Some q \<Longrightarrow> q = en_balancer_query env"
  shows "I (snd (quote_path powf eng context path amount s))"
proof -
  let ?q = "\<lparr>pq_amount = amount, pq_max_impact = 0, pq_diagnostics = empty_diagnostics\<rparr>"
  obtain r s1 where r: "quote_steps powf eng context (enumerate 0 (ap_steps path)) ?q s = (r, s1)" by fastforce
  then have "I s1" using quote_steps_I [of s eng powf "context" "enumerate 0 (ap_steps path)" ?q] assms by simp
  then show ?thesis using assms(1) r
    by (simp add: quote_path_def qbind_def qlift_def split: sum.split)
qed

lemma judge_quote_I:
  assumes "I s"
  shows "I (snd (judge_quote (en_ambient env) eng sp amount q acc s))"
proof -
  obtain t s1 u s2 where r: "am_now (en_ambient env) s = (t, s1)" "am_new_uuid (en_ambient env) s1 = (u, s2)"
    by (metis prod.collapse)
  then have "I s2" using now [OF assms] new_uuid [of s1] by simp
  then show ?thesis using assms r
    by (cases acc) (simp add: judge_quote_def build_candidate_def Let_def)
qed

lemma quote_amounts_I:
  assumes "I s" "\<And>q. se_chain_provider eng = Some q \<Longrightarrow> q = en_balancer_query env"
  shows "I (snd (quote_amounts powf (en_ambient env) eng context sp amounts acc s))"
  using assms(1)
proof (induction amounts arbitrary: acc s)
  case (Cons amount amounts)
  obtain stats out where acc: "acc = (stats, out)" by fastforce
  obtain r s1 where r: "quote_path powf eng context (sp_path sp) amount s = (r, s1)" by fastforce
  then have s1: "I s1" using quote_path_I [OF Cons.prems assms(2)] by (metis snd_conv)
  have "I (snd (quote_amount powf (en_ambient env) eng context sp amount acc s))"
    using s1 judge_quote_I [OF s1] r by (auto simp: acc quote_amount_def Let_def split: sum.split option.split)
  then show ?case using Cons.IH by (simp add: split: prod.split) (metis snd_conv)
qed simp

lemma quote_search_paths_I:
  assumes "I s" "\<And>q. se_chain_provider eng = Some q \<Longrightarrow> q = en_balancer_query env"
  shows "I (snd (quote_search_paths powf (en_ambient env) eng context sps acc s))"
  using assms(1)
proof (induction sps arbitrary: acc s)
  case (Cons sp sps)
  obtain acc' s1 where r: "quote_search_path powf (en_ambient env) eng context sp acc s = (acc', s1)" by fastforce
  then have "I s1"
    using quote_amounts_I [of s eng powf "context" sp "sp_amount_sizes sp" acc] Cons.prems assms(2)
    by (simp add: quote_search_path_def)
  then show ?case using Cons.IH r by simp
qed simp

definition sound_for :: "'s search_engine \<Rightarrow> quote_context \<Rightarrow> candidate \<Rightarrow> bool" where
  "sound_for eng context c \<longleftrightarrow> (\<exists>sp. sound_candidate eng context sp c)"

lemma search_paths_triple:
  assumes "\<And>q. se_chain_provider eng = Some q \<Longrightarrow> q = en_balancer_query env"
  shows "triple I (search_with_stats_for_paths_with_context powf (en_ambient env) eng context paths)
    (\<lambda>(out, stats) s. list_all (sound_for eng context) out \<and> I s) I"
  unfolding triple_def
proof (intro allI impI)
  fix s assume s: "I s"
  let ?acc = "(search_stats_default\<lparr>ss_paths := length paths\<rparr>, [] :: candidate list)"
  obtain stats out s' where r: "quote_search_paths powf (en_ambient env) eng context paths ?acc s = ((stats, out), s')"
    by (metis prod.collapse)
  have "I s'" using quote_search_paths_I [of s eng powf "context" paths ?acc] s assms r by simp
  moreover have "list_all (sound_for eng context) out"
    using quote_search_paths_sound [of powf "en_ambient env" eng "context" paths "fst ?acc" "[]" s] r
    by (fastforce simp: list_all_iff list_ex_iff sound_for_def)
  ultimately show "case search_with_stats_for_paths_with_context powf (en_ambient env) eng context paths s of
      (Inl _, s') \<Rightarrow> I s' | (Inr x, s') \<Rightarrow> (case x of (out, stats) \<Rightarrow> \<lambda>s. list_all (sound_for eng context) out \<and> I s) s'"
    by (simp add: search_with_stats_for_paths_with_context_def r)
qed

lemma publish_candidates_stable:
  assumes "list_all (sound_for eng context) candidates"
    "\<And>pool p. qc_pool_states context pool = Some p \<Longrightarrow> ps_address p = pool \<and> known p" "registry rows"
    "\<And>pool. pool \<in> available \<Longrightarrow> \<exists>p. qc_pool_states context pool = Some p \<and>
      is_pool_state_quote_ready p cfg (sf_from_settings_and_registry lib cfg rows)"
  shows "stable (publish_candidates env eng available max_impact latest candidates cs)"
proof -
  let ?coalesced = "coalesce_candidates_for_publish (en_best_order env) candidates latest"
  obtain valid cs' where v: "validate_loop available eng max_impact ?coalesced []
      (cs\<lparr>cy_candidates_coalesced := cy_candidates_coalesced cs + word_of_nat (length candidates - length ?coalesced)\<rparr>) =
        (valid, cs')" by fastforce
  have sub: "set ?coalesced \<subseteq> stamp_block latest ` set candidates"
    using best_order keep_best_subset [of coalesce_key_of better_to_publish "map (stamp_block latest) candidates"]
    by (fastforce simp: coalesce_candidates_for_publish_def)
  have "published_ok lib cfg known registry max_impact c" if "c \<in> set valid" for c
  proof -
    have c: "c \<in> set ?coalesced"
      "validate_candidate c available (se_min_expected_profit eng) max_impact (se_whitelist_paths eng) = Inr ()"
      using validate_loop_valid [OF v that] by auto
    then obtain c0 where c0: "c = stamp_block latest c0" "c0 \<in> set candidates" using sub by auto
    then obtain sp where sp: "sound_candidate eng context sp c0"
      using assms(1) by (auto simp: list_all_iff sound_for_def)
    have "validate_candidate c0 available (se_min_expected_profit eng) max_impact (se_whitelist_paths eng) = Inr ()"
      using c(2) by (simp add: c0(1))
    with sp assms(2) have "published_ok lib cfg known registry max_impact c0"
      using assms(3,4) by (rule sound_candidate_published)
    then show ?thesis by (simp add: c0(1))
  qed
  then have push: "stable (en_push_candidates env valid)"
    by (intro stable_call push_candidates) (simp_all add: list_all_iff)
  show ?thesis
    unfolding publish_candidates_def Let_def v prod.case
    by (intro triple_if stable_pass stable_bind push stable_calls)
qed

lemma quote_batch_stable:
  assumes "\<And>q. se_chain_provider eng = Some q \<Longrightarrow> q = en_balancer_query env"
    "\<And>pool p. qc_pool_states context pool = Some p \<Longrightarrow> ps_address p = pool \<and> known p" "registry rows"
    "\<And>pool. pool \<in> available \<Longrightarrow> \<exists>p. qc_pool_states context pool = Some p \<and>
      is_pool_state_quote_ready p cfg (sf_from_settings_and_registry lib cfg rows)"
  shows "stable (quote_and_publish_path_batch powf env eng context available max_impact latest batch cs)"
proof -
  note publish = publish_candidates_stable [OF _ assms(2-4)]
  have rest: "triple (\<lambda>s. list_all (sound_for eng context) candidates \<and> I s)
      (bind (elapsed_ms env t) (\<lambda>quote_ms.
         let repair = en_order env (ss_tick_repair_pools stats); cs' = f quote_ms repair in
         bind (if repair \<noteq> [] then en_mark_tick_repair_pools env repair else pass ()) (\<lambda>_.
         bind (now_instant env) (\<lambda>t'.
         bind (publish_candidates env eng available max_impact latest candidates cs') (\<lambda>cs.
         bind (elapsed_ms env t') (\<lambda>ms. pass (cs\<lparr>cy_publish_ms := cy_publish_ms cs + ms\<rparr>)))))))
      (\<lambda>_. I) I" for candidates stats f t
    unfolding Let_def
    by (intro triple_const stable_bind stable_calls triple_if publish) assumption+
  show ?thesis
    unfolding quote_and_publish_path_batch_def
    by (rule stable_bind [OF stable_clock(1)], rule triple_bind [OF search_paths_triple [OF assms(1)]])
      (auto simp only: split_paired_all prod.case intro!: rest)
qed

lemma quote_batches_stable:
  assumes "\<And>batch cs. stable (quote batch cs)"
  shows "stable (quote_path_batches quote missing sps batch cs)"
proof (induction sps arbitrary: batch cs)
  case Nil
  then show ?case by (simp add: assms stable_pass)
next
  case (Cons sp sps)
  then show ?case by (simp add: Let_def assms stable_bind)
qed

section \<open>The state of a cycle\<close>

lemma plan_tick_refresh_stable: "stable (plan_tick_refresh env rt tick_changed pools st refresh)"
proof (induction pools arbitrary: st refresh)
  case (Cons pool pools)
  then show ?case
    by (auto split: option.split intro!: stable_bind stable_calls)
qed (simp add: stable_pass)

lemma apply_tick_fallback_stable: "stable (apply_tick_fallback env rows st loaded)"
proof (induction rows arbitrary: st loaded)
  case (Cons row rows)
  obtain pool ticks where row: "row = (pool, ticks)" by fastforce
  show ?case unfolding row apply_tick_fallback.simps
    by (intro triple_if stable_bind stable_calls Cons.IH)
qed (simp add: stable_pass)

lemma load_ticks_triple:
  "triple I (load_tick_states_for_pools env rt tick_changed pools)
     (\<lambda>(st, rt') s. (rt' = rt \<or> (\<exists>loaded t refresh. rt' = store_ticks loaded t refresh rt)) \<and> I s) I"
proof -
  have missing: "stable (if missing = [] then pass (st, loaded)
      else bind (en_get_pool_ticks_current_many env missing) (\<lambda>rows. apply_tick_fallback env rows st loaded))"
    for missing st loaded
    by (intro triple_if stable_bind stable_calls apply_tick_fallback_stable)
  show ?thesis
    unfolding load_tick_states_for_pools_def Let_def
    apply (rule triple_bind [OF plan_tick_refresh_stable])
    apply (rule triple_prod)
    apply (rule triple_if)
     apply (rule triple_pass, simp)
    apply (rule triple_bind [OF stable_call [OF get_pool_ticks_many]], assumption)
    apply (rule triple_bind [OF missing])
    apply (rule triple_prod)
    apply (rule triple_bind [OF stable_clock(1)])
    by (rule triple_pass) auto
qed

abbreviation good :: "'s search_runtime \<Rightarrow> bool" where
  "good rt \<equiv> runtime_ok lib cfg known registry (en_balancer_query env) rt"

text \<open>Calls whose answer is known to satisfy something.\<close>

lemma triple_call:
  assumes "\<And>s. I s \<Longrightarrow> I (snd (m s))" "\<And>s x s'. I s \<Longrightarrow> m s = (Inr x, s') \<Longrightarrow> Q x"
  shows "triple I m (\<lambda>x s. Q x \<and> I s) I"
  unfolding triple_def
proof (intro allI impI)
  fix s assume s: "I s"
  obtain r s' where r: "m s = (r, s')" by fastforce
  then show "case m s of (Inl _, s') \<Rightarrow> I s' | (Inr x, s') \<Rightarrow> Q x \<and> I s'"
    using assms(1) [OF s] assms(2) [OF s] by (cases r) simp_all
qed

lemma all_states_triple: "triple I (en_all_pool_states env) (\<lambda>states s. list_all known states \<and> I s) I"
  by (rule triple_call, erule all_pool_states, erule all_pool_states_rows, assumption)

lemma load_states_triple: "triple I (en_get_pool_states env as) (\<lambda>rows s. list_all (row_ok known) rows \<and> I s) I"
  by (rule triple_call, erule get_pool_states, erule get_pool_states_rows, assumption)

lemma registry_triple:
  "triple I (en_trusted_factory_registry env (cfg_chain_id cfg)) (\<lambda>rows s. registry rows \<and> I s) I"
  by (rule triple_call, erule factory_registry, erule factory_registry_rows, assumption)

lemma bootstrap_triple:
  assumes "good rt"
  shows "triple I (bootstrap env rt) (\<lambda>rt' s. (good rt' \<and> rt_bootstrapped rt') \<and> I s) I"
proof (cases "rt_bootstrapped rt")
  case True
  then show ?thesis using assms by (simp add: bootstrap_def triple_pass)
next
  case False
  show ?thesis
    unfolding bootstrap_def if_not_P [OF False]
    by (rule triple_bind [OF all_states_triple], rule triple_const, rule triple_pass)
      (simp add: bootstrap_ok [OF assms False])
qed

lemma refresh_due_stable:
  "stable (case last_refresh of None \<Rightarrow> pass True | Some t0 \<Rightarrow> bind (now_instant env) (\<lambda>t. pass (P t t0)))"
  by (intro triple_option stable_pass stable_bind stable_calls)

lemma refresh_config_triple:
  assumes "good rt" "rt_bootstrapped rt"
  shows "triple I (refresh_config lib env cfg ttl max_impact' min_profit rt)
    (\<lambda>(changed, rt') s. (good rt' \<and> rt_bootstrapped rt') \<and> I s) I"
proof -
  have engine: "triple I (lift (engine_from_settings order (en_balancer_query env) cfg ttl max_impact' u configs))
      (\<lambda>eng s. (\<forall>q. se_chain_provider eng = Some q \<longrightarrow> q = en_balancer_query env) \<and> I s) I" for order u configs
    by (auto simp: triple_def lift_def engine_from_settings_def rbind_def split: sum.splits)
  let ?Q = "\<lambda>(changed :: bool, rt') s. ((\<exists>rows. registry rows \<and> rt_trusted_factories rt' = sf_from_settings_and_registry lib cfg rows) \<and>
      good rt' \<and> rt_bootstrapped rt') \<and> I s"
  have install: "triple I
      (if rt_engine rt1 = None \<or> rt_pair_configs rt1 \<noteq> configs
       then bind (lift (engine_from_settings (en_anchor_order env) (en_balancer_query env) cfg ttl max_impact' u configs))
         (\<lambda>eng. pass (True, rt1\<lparr>rt_engine := Some eng, rt_pair_configs := configs, rt_path_index := None,
            rt_graph_snapshot := None\<rparr>))
       else pass (changed, rt1)) ?Q I"
    if "good rt1" "rt_bootstrapped rt1" "rt_trusted_factories rt1 = sf_from_settings_and_registry lib cfg rows" "registry rows"
    for rt1 configs u changed rows
  proof (rule triple_if)
    show "triple I (bind (lift (engine_from_settings (en_anchor_order env) (en_balancer_query env) cfg ttl max_impact' u
        configs)) (\<lambda>eng. pass (True, rt1\<lparr>rt_engine := Some eng, rt_pair_configs := configs, rt_path_index := None,
        rt_graph_snapshot := None\<rparr>))) ?Q I"
      by (rule triple_bind [OF engine], rule triple_pass)
        (use that in \<open>auto simp: runtime_ok_def topology_ok_def config_ok_def active_ready_def\<close>)
    show "triple I (pass (changed, rt1)) ?Q I"
      using that by (intro triple_pass) auto
  qed
  have trust: "good (rt\<lparr>rt_trusted_factories := trusted, rt_path_index := None, rt_graph_snapshot := None,
      rt_last_active_pool_sweep := None\<rparr>)" if "trusted = sf_from_settings_and_registry lib cfg rows" "registry rows" for trusted rows
    using assms(1) that by (auto simp: runtime_ok_def topology_ok_def config_ok_def)
  have last: "triple (?Q (changed, rt1)) (bind (now_instant env) (\<lambda>t. pass (changed, rt1\<lparr>rt_last_config_refresh := Some t\<rparr>)))
      (\<lambda>(changed, rt') s. (good rt' \<and> rt_bootstrapped rt') \<and> I s) I" for changed rt1
    unfolding prod.case
    by (intro triple_const triple_bind [OF stable_clock(1)] triple_pass)
      (auto simp: runtime_ok_def topology_ok_def config_ok_def active_ready_def)
  show ?thesis
    unfolding refresh_config_def
    apply (rule triple_bind [OF refresh_due_stable], rule triple_if)
     apply (rule triple_pass, simp add: assms)
    apply (rule triple_bind [OF stable_call [OF pair_search_configs]], assumption)
    apply (rule triple_bind [OF registry_triple], rule triple_const)
    apply (simp only: Let_def)
    apply (rule triple_prod)
    apply (rule triple_bind [where R = ?Q])
     apply (rule install)
        apply (auto simp: assms trust split: if_splits)[4]
    apply (rule triple_prod, simp only:, rule last)
    done
qed

text \<open>Quoting: the context reads the cached states, the gate the active pools.\<close>

lemma run_quotes_triple:
  assumes "good rt" "rt_bootstrapped rt" "active_ready cfg rt" "rt_engine rt = Some eng"
  shows "triple I (run_quotes lib powf env eng idx g changed tick_changed max_impact latest start_stats rt)
    (\<lambda>(cs, rt') s. (good rt' \<and> rt_bootstrapped rt') \<and> I s) I"
proof -
  obtain rows where rows: "registry rows" "rt_trusted_factories rt = sf_from_settings_and_registry lib cfg rows"
    and query: "\<And>q. se_chain_provider eng = Some q \<Longrightarrow> q = en_balancer_query env"
    using assms(1,4) by (auto simp: runtime_ok_def config_ok_def)
  have states: "map_of (rt_pool_states rt) pool = Some p \<Longrightarrow> ps_address p = pool \<and> known p" for pool p
    using assms(1) states_ok_lookup [of "rt_pool_states rt"] known_states_lookup [of known "rt_pool_states rt"]
    by (simp add: runtime_ok_def)
  have ready: "\<exists>p. map_of (rt_pool_states rt) pool = Some p \<and> is_pool_state_quote_ready p cfg (sf_from_settings_and_registry lib cfg rows)"
    if "pool \<in> rt_active_pool_addresses rt" for pool
    using assms(3) that rows(2) by (simp add: active_ready_def)
  have quotes: "stable (quote_path_batches
      (quote_and_publish_path_batch powf env eng
         \<lparr>qc_pool_states = map_of (rt_pool_states rt), qc_tick_states = ticks\<rparr> (rt_active_pool_addresses rt) max_impact latest)
      missing paths [] cs)" for ticks missing paths cs
    by (intro quote_batches_stable quote_batch_stable [where rows = rows] query rows(1)) (simp_all add: states ready)
  have after_ticks: "triple (\<lambda>s. (rt' = rt \<or> (\<exists>loaded t refresh. rt' = store_ticks loaded t refresh rt)) \<and> I s)
      (bind (elapsed_ms env t) (\<lambda>ms. bind (quote_path_batches
         (quote_and_publish_path_batch powf env eng
            \<lparr>qc_pool_states = map_of (rt_pool_states rt'), qc_tick_states = map_of (rt_tick_states rt')\<rparr>
            (rt_active_pool_addresses rt') max_impact latest) missing paths [] (f ms)) (\<lambda>cs. pass (cs, rt'))))
      (\<lambda>(cs, rt') s. (good rt' \<and> rt_bootstrapped rt') \<and> I s) I" for rt' t missing paths f
  proof (rule triple_const)
    assume rt': "rt' = rt \<or> (\<exists>loaded t refresh. rt' = store_ticks loaded t refresh rt)"
    then have same: "rt_pool_states rt' = rt_pool_states rt" "rt_active_pool_addresses rt' = rt_active_pool_addresses rt"
      "good rt'" "rt_bootstrapped rt'"
      using assms(1,2) by auto
    show "triple I (bind (elapsed_ms env t) (\<lambda>ms. bind (quote_path_batches
         (quote_and_publish_path_batch powf env eng
            \<lparr>qc_pool_states = map_of (rt_pool_states rt'), qc_tick_states = map_of (rt_tick_states rt')\<rparr>
            (rt_active_pool_addresses rt') max_impact latest) missing paths [] (f ms)) (\<lambda>cs. pass (cs, rt'))))
      (\<lambda>(cs, rt') s. (good rt' \<and> rt_bootstrapped rt') \<and> I s) I"
      unfolding same(1,2)
      by (rule triple_bind [OF stable_clock(2)], rule triple_bind [OF quotes], rule triple_pass) (simp add: same)
  qed
  show ?thesis
    unfolding run_quotes_def Let_def
    apply (rule triple_bind [OF stable_clock(1)], rule triple_prod)
    apply (rule triple_bind [OF stable_clock(2)])
    apply (rule triple_bind [OF stable_clock(1)])
    apply (rule triple_bind [OF load_ticks_triple], rule triple_prod)
    by (simp only: prod.case, rule after_ticks)
qed

lemma search_changed_triple:
  assumes "good rt" "rt_bootstrapped rt"
  shows "triple I (search_changed lib powf env cfg age max_impact changed tick_changed now latest loads rebuild rt)
    (\<lambda>(cs, rt') s. (good rt' \<and> rt_bootstrapped rt') \<and> I s) I"
proof -
  have sweep: "triple I (infallible (refresh_active_pool_cache_if_due (en_clock env) now age cfg rt))
      (\<lambda>(refresh, rt') s. (good rt' \<and> active_ready cfg rt' \<and> rt_bootstrapped rt' \<and> rt_engine rt' = rt_engine rt) \<and> I s) I"
    unfolding triple_def
  proof (intro allI impI)
    fix s assume s: "I s"
    obtain refresh rt' s' where r: "refresh_active_pool_cache_if_due (en_clock env) now age cfg rt s = ((refresh, rt'), s')"
      by (metis prod.collapse)
    have "I s'" using r s clock
      by (auto simp: refresh_active_pool_cache_if_due_def Let_def split: option.splits prod.splits if_splits)
        (metis snd_conv)+
    then show "case infallible (refresh_active_pool_cache_if_due (en_clock env) now age cfg rt) s of (Inl _, s') \<Rightarrow> I s'
        | (Inr x, s') \<Rightarrow> (case x of (refresh, rt') \<Rightarrow> \<lambda>s. (good rt' \<and> active_ready cfg rt' \<and> rt_bootstrapped rt' \<and>
            rt_engine rt' = rt_engine rt) \<and> I s) s'"
      using refresh_active_ok [OF assms r] by (simp add: infallible_def r)
  qed
  have forced: "good rt2 \<and> active_ready cfg rt2 \<and> rt_bootstrapped rt2"
    if "good rt1 \<and> active_ready cfg rt1 \<and> rt_bootstrapped rt1 \<and> rt_engine rt1 = rt_engine rt"
      "force_changed_quote_ready_pools_active changed cfg rt1 = (f, rt2)" for rt1 f rt2
    using force_active_ok [of lib cfg known registry "en_balancer_query env" rt1 changed f rt2] that by blast
  have rebuilt: "triple I (if b then bind (now_instant env) (\<lambda>t. bind (elapsed_ms env t) (\<lambda>ms. pass (ms, rebuild_index lib env eng rt2)))
       else pass (0, rt2)) (\<lambda>(ms, rt3) s. (good rt3 \<and> active_ready cfg rt3 \<and> rt_bootstrapped rt3 \<and> rt_engine rt3 = rt_engine rt2) \<and> I s) I"
    if "good rt2 \<and> active_ready cfg rt2 \<and> rt_bootstrapped rt2" for b eng rt2
    using that
    by (intro triple_if triple_bind [OF stable_clock(1)] triple_bind [OF stable_clock(2)] triple_pass)
      (auto simp: rebuild_index_ok)
  show ?thesis
    unfolding search_changed_def Let_def
    apply (cases loads, simp only: prod.case)
    apply (rule triple_bind [OF sweep])
    apply (rule triple_prod, simp only: prod.case, rule triple_const)
    apply (rule triple_prod, drule (1) forced)
    apply (rule triple_if, rule triple_pass, simp)
    apply (rule triple_option, rule triple_fail, assumption)
    apply (rule triple_bind [OF rebuilt], assumption)
    apply (rule triple_prod, simp only: prod.case, rule triple_const)
    apply (rule triple_option, rule triple_pass, simp)
    apply (rule triple_option, rule triple_pass, simp)
    apply (rule triple_bind [OF run_quotes_triple])
    apply (auto split: prod.split intro!: triple_pass)
    done
qed

text \<open>The whole cycle.\<close>

lemma search_cycle_triple:
  assumes "good rt"
  shows "triple I (run_search_cycle lib powf env cfg ttl age max_impact min_profit rt)
    (\<lambda>(cs, rt') s. (good rt' \<and> rt_bootstrapped rt') \<and> I s) I"
proof -
  have reloaded: "good rt2 \<and> rt_bootstrapped rt2"
    if "list_all (row_ok known) rows" "good rt1 \<and> rt_bootstrapped rt1"
      "fold (reload_state cfg now age changed) rows (b, rt1) = (b', rt2)" for rows rt1 rt2 now changed b b'
    using reload_states_ok [of lib cfg known registry "en_balancer_query env" rt1 rows now age changed b b' rt2] that by blast
  show ?thesis
    unfolding run_search_cycle_def Let_def
    apply (rule triple_bind [OF stable_clock(1)])
    apply (rule triple_bind [OF bootstrap_triple [OF assms]], rule triple_const)
    apply (rule triple_bind [OF stable_call [OF drain_changed_pools]], assumption)
    apply (rule triple_bind [OF stable_call [OF drain_tick_changed_pools]], assumption)
    apply (rule triple_if)
     apply (rule triple_bind [OF stable_clock(2)], rule triple_bind [OF stable_clock(2)], rule triple_pass, simp)
    apply (rule triple_bind [OF stable_clock(1)])
    apply (rule triple_bind [OF refresh_config_triple], simp, simp)
    apply (rule triple_prod, simp only: prod.case, rule triple_const)
    apply (rule triple_bind [OF stable_clock(2)])
    apply (rule triple_if, rule triple_pass, simp)
    apply (rule triple_bind [OF stable_clock(1)])
    apply (rule triple_bind [OF stable_infallible [OF now]], assumption)
    apply (rule triple_bind [OF load_states_triple], rule triple_const)
    apply (rule triple_prod, drule (2) reloaded)
    apply (rule triple_bind [OF stable_clock(2)])
    apply (rule triple_if, rule triple_pass, simp)
    apply (rule triple_bind [OF stable_call [OF get_current_block]], assumption)
    apply (rule triple_option, rule triple_pass, simp)
    apply (rule triple_bind [OF search_changed_triple], simp, simp)
    apply (rule triple_prod, simp only: prod.case, rule triple_const)
    apply (rule triple_option, rule triple_pass, simp)
    apply (rule triple_bind [OF stable_clock(2)], rule triple_pass, simp)
    done
qed


end

section \<open>The in-memory system\<close>

text \<open>An iteration order of a hash map lists its entries, each once.\<close>

definition iteration_order :: "('a list \<Rightarrow> 'a list) \<Rightarrow> 'a list \<Rightarrow> 'a list" where
  "iteration_order order xs = (if mset (order xs) = mset xs then order xs else xs)"

definition memory_search_env :: "'c search_env \<Rightarrow> (in_memory_stores \<times> 'c) search_env" where
  "memory_search_env out = \<lparr>
     en_ambient = outside_ambient (en_ambient out),
     en_clock = (\<lambda>(st, c). case en_clock out c of (t, c') \<Rightarrow> (t, (st, c'))),
     en_order = en_order out, en_anchor_order = en_anchor_order out, en_pair_order = en_pair_order out,
     en_best_order = iteration_order (en_best_order out),
     en_balancer_query = (\<lambda>router pool a b amount sender (st, c).
       case en_balancer_query out router pool a b amount sender c of (r, c') \<Rightarrow> (r, (st, c'))),
     en_all_pool_states = in_memory (\<lambda>st. (all_pool_states st, st)),
     en_drain_changed_pools = in_memory drain_changed_pools,
     en_drain_tick_changed_pools = in_memory drain_tick_changed_pools,
     en_get_pool_states = (\<lambda>as. in_memory (\<lambda>st. (get_pool_states st as, st))),
     en_get_current_block = in_memory (\<lambda>st. (get_current_block st, st)),
     en_get_pool_ticks_many = (\<lambda>as. in_memory (\<lambda>st.
       (concat (map (\<lambda>a. case get_pool_ticks_many st (set as) a of None \<Rightarrow> [] | Some ts \<Rightarrow> [(a, ts)]) as), st))),
     en_replace_pool_ticks = (\<lambda>a ts. in_memory (\<lambda>st. ((), replace_pool_ticks a ts st))),
     en_mark_tick_repair_pools = (\<lambda>as. in_memory (\<lambda>st. ((), mark_tick_repair_pools as st))),
     en_push_candidates = (\<lambda>cs. in_memory (\<lambda>st. ((), push_candidates cs st))),
     en_enabled_pair_search_configs = outside (en_enabled_pair_search_configs out),
     en_trusted_factory_registry = (\<lambda>chain. outside (en_trusted_factory_registry out chain)),
     en_get_pool_ticks_current_many = (\<lambda>as. outside (en_get_pool_ticks_current_many out as)),
     en_enqueue_opportunities = (\<lambda>cs (st, c). case en_enqueue_opportunities out cs c of (n, c') \<Rightarrow> (n, (st, c')))\<rparr>"

definition keyed_states :: "in_memory_stores \<Rightarrow> bool" where
  "keyed_states st \<longleftrightarrow> list_all (\<lambda>(a, p). ps_address p = a) (ms_pool_states st)"

definition queue_ok ::
    "libs \<Rightarrow> settings \<Rightarrow> (pool_state \<Rightarrow> bool) \<Rightarrow> (factory_row list \<Rightarrow> bool) \<Rightarrow> u64 \<Rightarrow> in_memory_stores \<times> 'c \<Rightarrow> bool" where
  "queue_ok lib cfg known registry max_impact = (\<lambda>(st, _).
     list_all (published_ok lib cfg known registry max_impact) (ms_candidates st) \<and> keyed_states st \<and>
     known_states known (ms_pool_states st))"

lemma queue_ok_outside: "queue_ok lib cfg known registry m s \<Longrightarrow> queue_ok lib cfg known registry m (snd (outside f s))"
  by (auto simp: outside_def queue_ok_def split: prod.splits)

lemma queue_ok_in_memory:
  assumes "queue_ok lib cfg known registry m s"
    "\<And>st. ms_candidates (snd (f st)) = ms_candidates st" "\<And>st. ms_pool_states (snd (f st)) = ms_pool_states st"
  shows "queue_ok lib cfg known registry m (snd (in_memory f s))"
proof -
  obtain st c x st' where "s = (st, c)" "f st = (x, st')" by (metis prod.collapse)
  then show ?thesis using assms(1) assms(2,3) [of st]
    by (simp add: in_memory_def queue_ok_def keyed_states_def)
qed

lemma keyed_lookup: "keyed_states st \<Longrightarrow> get_pool_state st a = Some p \<Longrightarrow> ps_address p = a"
  by (auto simp: keyed_states_def list_all_iff get_pool_state_def dest: map_of_SomeD)

lemma btree_insert_elem:
  fixes k :: address and v :: pool_state
  shows "e \<in> set (btree_insert k v m) \<Longrightarrow> e = (k, v) \<or> e \<in> set m"
  by (induction k v m rule: btree_insert.induct) (auto split: if_splits)

lemma keyed_set_pool_state: "keyed_states st \<Longrightarrow> keyed_states (set_pool_state p st)"
  by (fastforce simp: keyed_states_def list_all_iff set_pool_state_def dest: btree_insert_elem)

lemma known_set_pool_state:
  "known_states known (ms_pool_states st) \<Longrightarrow> known p \<Longrightarrow> known_states known (ms_pool_states (set_pool_state p st))"
  by (fastforce simp: known_states_def set_pool_state_def dest: btree_insert_elem)

lemma replace_pool_ticks_frame [simp]:
  "ms_candidates (replace_pool_ticks a ts st) = ms_candidates st"
  "ms_pool_states (replace_pool_ticks a ts st) = ms_pool_states st"
proof -
  have "ms_candidates (fold set_tick_state ts st) = ms_candidates st \<and>
      ms_pool_states (fold set_tick_state ts st) = ms_pool_states st" for st
    by (induction ts arbitrary: st) (simp_all add: set_tick_state_def)
  then show "ms_candidates (replace_pool_ticks a ts st) = ms_candidates st"
    "ms_pool_states (replace_pool_ticks a ts st) = ms_pool_states st"
    by (simp_all add: replace_pool_ticks_def set_tick_states_def)
qed

text \<open>What the registry of trusted factories of the outside world can answer.\<close>

definition registry_answer :: "'c search_env \<Rightarrow> settings \<Rightarrow> factory_row list \<Rightarrow> bool" where
  "registry_answer out cfg rows \<longleftrightarrow> (\<exists>c c'. en_trusted_factory_registry out (cfg_chain_id cfg) c = (Inr rows, c'))"

lemma stored_states_known:
  "known_states known (ms_pool_states st) \<Longrightarrow> list_all known (all_pool_states st)"
  "keyed_states st \<Longrightarrow> known_states known (ms_pool_states st) \<Longrightarrow> list_all (row_ok known) (get_pool_states st as)"
proof -
  assume known: "known_states known (ms_pool_states st)"
  then show "list_all known (all_pool_states st)"
    by (auto simp: known_states_def all_pool_states_def list_all_iff)
  assume "keyed_states st"
  then show "list_all (row_ok known) (get_pool_states st as)"
    using keyed_lookup [of st] known_states_lookup [OF known]
    by (auto simp: get_pool_states_def row_ok_def list_all_iff get_pool_state_def split: option.split)
qed

interpretation memory_search: search_world "memory_search_env out"
    "queue_ok lib cfg known (registry_answer out cfg) max_impact" lib cfg known "registry_answer out cfg" max_impact
  for out :: "'c search_env" and lib cfg known max_impact
proof unfold_locales
  let ?ok = "queue_ok lib cfg known (registry_answer out cfg) max_impact"
  fix cs show "set (en_best_order (memory_search_env out) cs) \<subseteq> set cs"
    by (auto simp: memory_search_env_def iteration_order_def dest: mset_eq_setD)
  fix s s' :: "in_memory_stores \<times> 'c"
  assume ok: "?ok s"
  obtain st c where s: "s = (st, c)" by fastforce
  have stored: "keyed_states st" "known_states known (ms_pool_states st)" using ok by (simp_all add: s queue_ok_def)
  show "list_all known states" if "en_all_pool_states (memory_search_env out) s = (Inr states, s')" for states
    using that stored_states_known(1) [OF stored(2)] by (simp add: memory_search_env_def in_memory_def s)
  show "list_all (row_ok known) rows" if "en_get_pool_states (memory_search_env out) as s = (Inr rows, s')" for "as" rows
    using that stored_states_known(2) [OF stored, of "as"] by (simp add: memory_search_env_def in_memory_def s)
  show "registry_answer out cfg rows"
    if "en_trusted_factory_registry (memory_search_env out) (cfg_chain_id cfg) s = (Inr rows, s')" for rows
    using that by (auto simp: memory_search_env_def outside_def s registry_answer_def split: prod.splits)
  show "?ok (snd (en_push_candidates (memory_search_env out) cs s))"
    if "list_all (published_ok lib cfg known (registry_answer out cfg) max_impact) cs" for cs
    using that ok by (auto simp: memory_search_env_def in_memory_def queue_ok_def push_candidates_def keyed_states_def)
qed (auto simp: memory_search_env_def drain_changed_pools_def drain_tick_changed_pools_def mark_tick_repair_pools_def
      intro!: queue_ok_in_memory queue_ok_outside,
    auto simp: queue_ok_def outside_ambient_def split: prod.splits)

section \<open>The searcher among the other services\<close>

text \<open>What happens to the system: a search cycle, the market data publishing pool states and ticks, the
  execution manager pruning and taking candidates, and any change of the outside world.\<close>

datatype 'c search_event =
    EvCycle
  | EvPublish u64 "pool_state list" "address list"
  | EvReplaceTicks address "tick_state list"
  | EvMarkTicks "address list"
  | EvPrune u64
  | EvPop nat
  | EvOutside "'c \<Rightarrow> 'c"

type_synonym 'c search_system = "(in_memory_stores \<times> 'c) \<times> (in_memory_stores \<times> 'c) search_runtime"

text \<open>A failed cycle ends the service; it starts again with an empty runtime.\<close>

fun search_step ::
    "libs \<Rightarrow> (f64 \<Rightarrow> f64 \<Rightarrow> f64) \<Rightarrow> 'c search_env \<Rightarrow> settings \<Rightarrow> int \<Rightarrow> int \<Rightarrow> u64 \<Rightarrow> f64 \<Rightarrow>
     'c search_event \<Rightarrow> 'c search_system \<Rightarrow> 'c search_system" where
  "search_step lib powf out cfg ttl age max_impact min_profit EvCycle (s, rt) =
     (case run_search_cycle lib powf (memory_search_env out) cfg ttl age max_impact min_profit rt s of
        (Inr (cs, rt'), s') \<Rightarrow> (s', rt')
      | (Inl e, s') \<Rightarrow> (s', search_runtime_default))"
| "search_step lib powf out cfg ttl age max_impact min_profit (EvPublish b ps changed) ((st, c), rt) =
     ((publish_pool_states b ps changed st, c), rt)"
| "search_step lib powf out cfg ttl age max_impact min_profit (EvReplaceTicks a ts) ((st, c), rt) =
     ((replace_pool_ticks a ts st, c), rt)"
| "search_step lib powf out cfg ttl age max_impact min_profit (EvMarkTicks as) ((st, c), rt) =
     ((mark_tick_changed_pools as st, c), rt)"
| "search_step lib powf out cfg ttl age max_impact min_profit (EvPrune b) ((st, c), rt) =
     ((snd (prune_candidates_before_block b st), c), rt)"
| "search_step lib powf out cfg ttl age max_impact min_profit (EvPop k) ((st, c), rt) =
     ((snd (pop_candidates k st), c), rt)"
| "search_step lib powf out cfg ttl age max_impact min_profit (EvOutside f) ((st, c), rt) = ((st, f c), rt)"

definition search_run ::
    "libs \<Rightarrow> (f64 \<Rightarrow> f64 \<Rightarrow> f64) \<Rightarrow> 'c search_env \<Rightarrow> settings \<Rightarrow> int \<Rightarrow> int \<Rightarrow> u64 \<Rightarrow> f64 \<Rightarrow>
     'c search_event list \<Rightarrow> 'c \<Rightarrow> 'c search_system" where
  "search_run lib powf out cfg ttl age max_impact min_profit events c =
     fold (search_step lib powf out cfg ttl age max_impact min_profit) events
       ((stores_new, c), search_runtime_default)"

lemma stored_publish:
  assumes "keyed_states st" "known_states known (ms_pool_states st)" "list_all known ps"
  shows "keyed_states (publish_pool_states b ps changed st)"
    "known_states known (ms_pool_states (publish_pool_states b ps changed st))"
proof -
  have fold: "keyed_states (fold set_pool_state ps st) \<and> known_states known (ms_pool_states (fold set_pool_state ps st))"
    if "keyed_states st" "known_states known (ms_pool_states st)" for st
    using that assms(3)
    by (induction ps arbitrary: st) (simp_all add: keyed_set_pool_state known_set_pool_state)
  have frame: "ms_pool_states (set_current_block b st) = ms_pool_states st"
    "ms_pool_states (mark_changed_pools changed st) = ms_pool_states st" for st
    by (simp_all add: set_current_block_def mark_changed_pools_def)
  have "keyed_states (set_current_block b st)" "known_states known (ms_pool_states (set_current_block b st))"
    using assms(1,2) by (simp_all add: keyed_states_def frame)
  from fold [OF this] show "keyed_states (publish_pool_states b ps changed st)"
    "known_states known (ms_pool_states (publish_pool_states b ps changed st))"
    by (simp_all add: publish_pool_states_def set_pool_states_def keyed_states_def frame)
qed

lemma publish_keeps_candidates [simp]: "ms_candidates (publish_pool_states b ps changed st) = ms_candidates st"
proof -
  have "ms_candidates (fold set_pool_state ps st) = ms_candidates st" for st
    by (induction ps arbitrary: st) (simp_all add: set_pool_state_def)
  then show ?thesis
    by (simp add: publish_pool_states_def set_pool_states_def set_current_block_def mark_changed_pools_def)
qed

text \<open>The states published so far, the only ones the searcher can have read.\<close>

definition published_in :: "'c search_event list \<Rightarrow> pool_state \<Rightarrow> bool" where
  "published_in events p \<longleftrightarrow> (\<exists>b ps changed. EvPublish b ps changed \<in> set events \<and> p \<in> set ps)"

fun event_known :: "(pool_state \<Rightarrow> bool) \<Rightarrow> 'c search_event \<Rightarrow> bool" where
  "event_known known (EvPublish b ps changed) \<longleftrightarrow> list_all known ps"
| "event_known known _ \<longleftrightarrow> True"

lemma events_known: "event \<in> set events \<Longrightarrow> event_known (published_in events) event"
  by (cases event) (auto simp: published_in_def list_all_iff)

definition system_ok ::
    "libs \<Rightarrow> settings \<Rightarrow> (pool_state \<Rightarrow> bool) \<Rightarrow> 'c search_env \<Rightarrow> u64 \<Rightarrow> 'c search_system \<Rightarrow> bool" where
  "system_ok lib cfg known out max_impact = (\<lambda>(s, rt).
     queue_ok lib cfg known (registry_answer out cfg) max_impact s \<and>
     runtime_ok lib cfg known (registry_answer out cfg) (en_balancer_query (memory_search_env out)) rt)"

lemma cycle_step_ok:
  assumes "system_ok lib cfg known out max_impact (s, rt)"
  shows "system_ok lib cfg known out max_impact
    (search_step lib powf out cfg ttl age max_impact min_profit EvCycle (s, rt))"
proof -
  note cycle = memory_search.search_cycle_triple [of lib cfg known out rt max_impact powf ttl age min_profit]
  obtain r s' where r: "run_search_cycle lib powf (memory_search_env out) cfg ttl age max_impact min_profit rt s = (r, s')"
    by (rule prod.exhaust)
  show ?thesis
    using tripleD [OF cycle _ r] assms by (auto simp: system_ok_def r runtime_ok_default split: sum.split)
qed

lemma store_steps_ok:
  assumes "queue_ok lib cfg known registry m (st, c)"
  shows "list_all known ps \<Longrightarrow> queue_ok lib cfg known registry m (publish_pool_states b ps changed st, c')"
    "queue_ok lib cfg known registry m (replace_pool_ticks a ts st, c')"
    "queue_ok lib cfg known registry m (mark_tick_changed_pools as st, c')"
    "queue_ok lib cfg known registry m (snd (prune_candidates_before_block b st), c')"
    "queue_ok lib cfg known registry m (snd (pop_candidates k st), c')"
    "queue_ok lib cfg known registry m (st, c')"
proof -
  note parts = assms [unfolded queue_ok_def prod.case]
  show "queue_ok lib cfg known registry m (publish_pool_states b ps changed st, c')" if "list_all known ps"
    using parts that stored_publish [of st known ps b changed] by (simp add: queue_ok_def)
  show "queue_ok lib cfg known registry m (replace_pool_ticks a ts st, c')"
    using parts by (simp add: queue_ok_def keyed_states_def)
  show "queue_ok lib cfg known registry m (mark_tick_changed_pools as st, c')"
    using parts by (simp add: queue_ok_def keyed_states_def mark_tick_changed_pools_def)
  show "queue_ok lib cfg known registry m (snd (prune_candidates_before_block b st), c')"
    using parts by (simp add: queue_ok_def keyed_states_def prune_candidates_before_block_def Let_def list_all_iff)
  show "queue_ok lib cfg known registry m (snd (pop_candidates k st), c')"
    using parts by (auto simp: queue_ok_def keyed_states_def pop_candidates_def list_all_iff dest: in_set_dropD)
  show "queue_ok lib cfg known registry m (st, c')"
    using parts by (simp add: queue_ok_def)
qed

lemma step_ok:
  assumes "system_ok lib cfg known out max_impact sys" "event_known known event"
  shows "system_ok lib cfg known out max_impact (search_step lib powf out cfg ttl age max_impact min_profit event sys)"
proof -
  obtain st c rt where sys: "sys = ((st, c), rt)" by (metis prod.collapse)
  have q: "queue_ok lib cfg known (registry_answer out cfg) max_impact (st, c)"
    and rt: "runtime_ok lib cfg known (registry_answer out cfg) (en_balancer_query (memory_search_env out)) rt"
    using assms(1) by (simp_all add: system_ok_def sys)
  show ?thesis
  proof (cases event)
    case EvCycle
    then show ?thesis using cycle_step_ok assms(1) by (simp only: sys)
  qed (use assms(2) in \<open>simp_all add: sys system_ok_def rt store_steps_ok [OF q]\<close>)
qed

lemma run_ok:
  "system_ok lib cfg (published_in events) out max_impact
    (search_run lib powf out cfg ttl age max_impact min_profit events c)"
proof -
  let ?known = "published_in events"
  have "system_ok lib cfg ?known out max_impact sys \<Longrightarrow> list_all (event_known ?known) es \<Longrightarrow>
      system_ok lib cfg ?known out max_impact (fold (search_step lib powf out cfg ttl age max_impact min_profit) es sys)"
    for sys es
    by (induction es arbitrary: sys) (simp_all add: step_ok)
  moreover have "system_ok lib cfg ?known out max_impact ((stores_new, c), search_runtime_default)"
    by (simp add: system_ok_def queue_ok_def stores_new_def keyed_states_def runtime_ok_default)
  moreover have "list_all (event_known ?known) events" by (simp add: list_all_iff events_known)
  ultimately show ?thesis unfolding search_run_def by blast
qed

text \<open>C2: Whatever happens to the searcher on the in-memory stores, in whatever order, with whatever
  answers of the outside world and whatever cycles failing: for each step of a candidate waiting for
  execution, a state of the step's pool had been published that was ready to be quoted under factories
  the settings and an answer of the registry trust, and it is the one the step's diagnostics record. The
  quotes form an unbroken chain from the candidate's input to its output, none ran out of ticks, the
  expected profit is the output less the input and at least the minimum profit, and the price impact
  stays below the limit.\<close>

theorem queued_candidates_published_ok:
  "list_all (published_ok lib cfg (published_in events) (registry_answer out cfg) max_impact)
     (ms_candidates (fst (fst (search_run lib powf out cfg ttl age max_impact min_profit events c))))"
  using run_ok [of lib cfg events out max_impact powf ttl age min_profit c]
  by (auto simp: system_ok_def queue_ok_def split: prod.splits)

text \<open>C25: In the same runs the searcher's cached pool states are always states that were published, each
  once and under its own address; the topology map describes exactly the cached states; and once a sweep
  of the active pools has run every active pool has a cached state that is ready to be quoted under the
  factories in use. (Nothing is claimed of the path index, the graph and the tick caches.)\<close>

theorem runtime_caches_consistent:
  "case search_run lib powf out cfg ttl age max_impact min_profit events c of
     (s, rt) \<Rightarrow> states_ok (rt_pool_states rt) \<and> known_states (published_in events) (rt_pool_states rt) \<and>
       topology_ok rt \<and> (if rt_last_active_pool_sweep rt = None then True else active_ready cfg rt)"
  using run_ok [of lib cfg events out max_impact powf ttl age min_profit c]
  by (auto simp: system_ok_def runtime_ok_def)

end
