(* ===== verification/Market_World.thy ===== *)
theory Market_World
  imports Market_Data Searcher_World
begin

text \<open>
  The market data service and the searcher on the same stores: what the market data publishes without
  marking a pool as changed cannot change a quote, and every published change reaches the searcher's
  queue of changed pools.
\<close>

section \<open>The market data service on the in-memory stores\<close>

definition memory_market_env :: "'c market_env \<Rightarrow> (in_memory_stores \<times> 'c) market_env" where
  "memory_market_env out = \<lparr>
     mk_now = (\<lambda>(st, c). case mk_now out c of (t, c') \<Rightarrow> (t, (st, c'))),
     mk_get_pool_states = (\<lambda>as. in_memory (\<lambda>st. (get_pool_states st as, st))),
     mk_publish_pool_states = (\<lambda>b ps changed. in_memory (\<lambda>st. ((), publish_pool_states b ps changed st))),
     mk_set_current_block = (\<lambda>b. in_memory (\<lambda>st. ((), set_current_block b st))),
     mk_get_pool_ticks = (\<lambda>a. in_memory (\<lambda>st. (get_pool_ticks st a, st))),
     mk_replace_pool_ticks = (\<lambda>a ts. in_memory (\<lambda>st. ((), replace_pool_ticks a ts st))),
     mk_mark_tick_changed_pools = (\<lambda>as. in_memory (\<lambda>st. ((), mark_tick_changed_pools as st))),
     mk_get_block_hash = (\<lambda>b. outside (mk_get_block_hash out b)),
     mk_fetch_pool_state = (\<lambda>e. outside (mk_fetch_pool_state out e)),
     mk_fetch_pool_state_at = (\<lambda>e h b. outside (mk_fetch_pool_state_at out e h b)),
     mk_fetch_initialized_ticks = (\<lambda>p r. outside (mk_fetch_initialized_ticks out p r)),
     mk_enabled_registry_pools = outside (mk_enabled_registry_pools out),
     mk_bootstrap_configured_pools = outside (mk_bootstrap_configured_pools out),
     mk_fetch_classic_fee = (\<lambda>f a s h. outside (mk_fetch_classic_fee out f a s h)),
     mk_fetch_slipstream_fee = (\<lambda>f a h. outside (mk_fetch_slipstream_fee out f a h)),
     mk_fetch_relevant_events = (\<lambda>ps a b. outside (mk_fetch_relevant_events out ps a b)),
     mk_discover_protocol_pools = (\<lambda>a b. outside (mk_discover_protocol_pools out a b)),
     mk_record_ticks = (\<lambda>r (st, c). (st, mk_record_ticks out r c)),
     mk_record_dex_events = (\<lambda>es (st, c). (st, mk_record_dex_events out es c)),
     mk_record_pool_states = (\<lambda>ps src (st, c). (st, mk_record_pool_states out ps src c)),
     mk_record_validation = (\<lambda>v. outside (mk_record_validation out v))\<rparr>"

section \<open>Changes that no quote sees\<close>

text \<open>What a Balancer quote reads besides: none of it is compared when a change is flagged.\<close>

definition same_balancer_parameters :: "pool_state \<Rightarrow> pool_state \<Rightarrow> bool" where
  "same_balancer_parameters p q \<longleftrightarrow>
     ps_balancer_model p = ps_balancer_model q \<and> ps_balancer_weight0 p = ps_balancer_weight0 q \<and>
     ps_balancer_weight1 p = ps_balancer_weight1 q \<and>
     ps_balancer_scaling_factor0 p = ps_balancer_scaling_factor0 q \<and>
     ps_balancer_scaling_factor1 p = ps_balancer_scaling_factor1 q \<and>
     ps_balancer_token_rate0 p = ps_balancer_token_rate0 q \<and>
     ps_balancer_token_rate1 p = ps_balancer_token_rate1 q \<and>
     ps_balancer_swap_fee_percentage p = ps_balancer_swap_fee_percentage q"

lemma unflagged_same_quotes:
  assumes "\<not> quote_relevant_pool_state_changed p q" "ps_address p = ps_address q"
    and "ps_variant p \<noteq> BalancerV3 \<or> same_balancer_parameters p q"
  shows "quote_pool_step powf eng context p step amount = quote_pool_step powf eng context q step amount"
    "is_pool_state_quote_ready p cfg trusted = is_pool_state_quote_ready q cfg trusted"
proof -
  have same: "ps_variant p = ps_variant q" "ps_factory_address p = ps_factory_address q" "ps_token0 p = ps_token0 q"
    "ps_token1 p = ps_token1 q" "ps_token0_decimals p = ps_token0_decimals q"
    "ps_token1_decimals p = ps_token1_decimals q" "ps_fee_bps p = ps_fee_bps q" "ps_fee_pips p = ps_fee_pips q"
    "ps_stable p = ps_stable q" "ps_reserve0 p = ps_reserve0 q" "ps_reserve1 p = ps_reserve1 q"
    "ps_sqrt_price_x96 p = ps_sqrt_price_x96 q" "ps_liquidity p = ps_liquidity q" "ps_tick p = ps_tick q"
    using assms(1) by (auto simp: quote_relevant_pool_state_changed_def)
  have aerodrome: "quote_aerodrome_step p token_in amount = quote_aerodrome_step q token_in amount" for token_in
    unfolding quote_aerodrome_step_def stable_quote_exact_in_def volatile_quote_exact_in_def same ..
  have v3: "quote_v3_step context p token_in amount = quote_v3_step context q token_in amount" for token_in
    unfolding quote_v3_step_def quote_exact_in_with_ticks_diagnostics_def v3_fee_pips_def same assms(2) ..
  have balancer: "quote_balancer_step powf eng p step amount = quote_balancer_step powf eng q step amount"
    if "same_balancer_parameters p q"
  proof -
    have params: "ps_balancer_model p = ps_balancer_model q" "ps_balancer_weight0 p = ps_balancer_weight0 q"
      "ps_balancer_weight1 p = ps_balancer_weight1 q" "ps_balancer_scaling_factor0 p = ps_balancer_scaling_factor0 q"
      "ps_balancer_scaling_factor1 p = ps_balancer_scaling_factor1 q"
      "ps_balancer_token_rate0 p = ps_balancer_token_rate0 q" "ps_balancer_token_rate1 p = ps_balancer_token_rate1 q"
      "ps_balancer_swap_fee_percentage p = ps_balancer_swap_fee_percentage q"
      using that by (simp_all add: same_balancer_parameters_def)
    show ?thesis
      unfolding fun_eq_iff quote_balancer_step_def quote_weighted_exact_in_def
        balancer_fee_fraction_def same params assms(2) by (intro allI refl)
  qed
  show "quote_pool_step powf eng context p step amount = quote_pool_step powf eng context q step amount"
    using assms(3) balancer unfolding quote_pool_step_def same aerodrome v3
    by (cases "ps_variant q") simp_all
  show "is_pool_state_quote_ready p cfg trusted = is_pool_state_quote_ready q cfg trusted"
    unfolding is_pool_state_quote_ready_def sf_supports_def has_v3_state_def is_supported_manager_def same ..
qed

section \<open>Publishing\<close>

lemma selected_states_iff:
  "state \<in> set (selected_states selected seen states) \<Longrightarrow>
    state \<in> set states \<and> ps_address state \<in> selected \<and> ps_address state \<notin> seen"
  by (induction selected seen states rule: selected_states.induct) (auto split: if_splits)

lemma selected_states_distinct: "distinct (map ps_address (selected_states selected seen states))"
proof (induction selected seen states rule: selected_states.induct)
  case (2 selected seen state states)
  moreover have "ps_address state \<notin> ps_address ` set (selected_states selected (insert (ps_address state) seen) states)"
    by (auto dest!: selected_states_iff)
  ultimately show ?case by simp
qed simp

lemma selected_states_cover:
  "state \<in> set states \<Longrightarrow> ps_address state \<in> selected \<Longrightarrow> ps_address state \<notin> seen \<Longrightarrow>
    ps_address state \<in> ps_address ` set (selected_states selected seen states)"
  by (induction selected seen states rule: selected_states.induct) auto

lemma distinct_filter_key:
  assumes "distinct (map key xs)" "x \<in> set xs"
  shows "filter (\<lambda>y. key y = key x) xs = [x]"
  using assms by (induction xs) (auto simp: filter_empty_conv, metis image_eqI)

lemma fold_hash_insert: "map_of (fold (\<lambda>(a, p). hash_insert a p) rows m) a =
    (case map_of (rev rows) a of None \<Rightarrow> map_of m a | Some p \<Rightarrow> Some p)"
  by (induction rows arbitrary: m) (auto simp: map_add_def split: option.splits)

lemma changed_addresses_store:
  "changed_addresses (get_pool_states st (map ps_address states)) states =
     map ps_address (filter (\<lambda>state. case get_pool_state st (ps_address state) of
        None \<Rightarrow> True | Some previous \<Rightarrow> quote_relevant_pool_state_changed previous state) states)"
proof -
  have "map_of (fold (\<lambda>(a, p). hash_insert a p) (get_pool_states st as) []) a = Some (get_pool_state st a)"
    if "a \<in> set as" for "as" a
    using that by (simp add: fold_hash_insert get_pool_states_def map_of_map_restrict rev_map restrict_map_def)
  then show ?thesis
    unfolding changed_addresses_def Let_def by (intro arg_cong [where f = "map ps_address"] filter_cong) simp_all
qed

lemma publish_selected_run:
  "publish_selected_states_with_block (memory_market_env out) states selected source override (st, c) =
     (let published = selected_states selected {} states in
      if published = [] then (Inr (), (st, c))
      else (Inr (), (publish_pool_states
              (case override of None \<Rightarrow> Max (ps_block_number ` set published) | Some b \<Rightarrow> b) published
              (map ps_address (filter (\<lambda>state. case get_pool_state st (ps_address state) of
                 None \<Rightarrow> True | Some previous \<Rightarrow> quote_relevant_pool_state_changed previous state) published)) st,
            mk_record_pool_states out published source c)))"
  by (simp add: publish_selected_states_with_block_def Let_def memory_market_env_def in_memory_def bind_def pass_def
      background_def infallible_def changed_addresses_store)

lemma publish_selected_keyed:
  assumes "keyed_states st"
    and "publish_selected_states_with_block (memory_market_env out) states selected source override (st, c) = (r, (st', c'))"
  shows "keyed_states st'"
  using assms(2) assms(1) stored_publish(1) [OF assms(1), of "\<lambda>_. True" "selected_states selected {} states"]
  by (auto simp: publish_selected_run Let_def known_states_def list_all_iff split: if_splits)

text \<open>C30: Once a batch of states is published on top of stores whose pool states sit under their own
  addresses, the states still do, and a pool that is not in the queue of changed pools quotes as before:
  if it has a state, it had one before, and every step quoted on the new state gives what it gave on
  the old one. The exception is a Balancer pool, which quotes as before only when its model, weights,
  scaling factors, token rates and swap fee are also the same; a change of those is not queued.\<close>

theorem unmarked_pools_quote_the_same:
  assumes "keyed_states st"
    and "publish_selected_states_with_block (memory_market_env out) states selected source override (st, c) = (r, (st', c'))"
    and "a \<notin> set (fst (drain_changed_pools st'))" "get_pool_state st' a = Some q"
  shows "keyed_states st' \<and> (\<exists>p. get_pool_state st a = Some p \<and>
    (ps_variant q \<noteq> BalancerV3 \<or> same_balancer_parameters p q \<longrightarrow>
     quote_pool_step powf eng context p step amount = quote_pool_step powf eng context q step amount))"
proof (intro conjI publish_selected_keyed [OF assms(1,2)])
  show "\<exists>p. get_pool_state st a = Some p \<and> (ps_variant q \<noteq> BalancerV3 \<or> same_balancer_parameters p q \<longrightarrow>
     quote_pool_step powf eng context p step amount = quote_pool_step powf eng context q step amount)"
proof (cases "a \<in> ps_address ` set (selected_states selected {} states)")
  case False
  let ?published = "selected_states selected {} states"
  have "get_pool_state st' a = get_pool_state st a"
  proof (cases "?published = []")
    case True
    then show ?thesis using assms(2) by (simp add: publish_selected_run Let_def)
  next
    case nonempty: False
    have "filter (\<lambda>p. ps_address p = a) ?published = []" using False by (auto simp: filter_empty_conv)
    then show ?thesis using assms(2) nonempty by (auto simp: publish_selected_run Let_def pool_after_publish)
  qed
  then show ?thesis using assms(4) by (intro exI [of _ q]) simp
next
  case True
  let ?published = "selected_states selected {} states"
  obtain new where new: "new \<in> set ?published" "ps_address new = a" using True by auto
  then have "?published \<noteq> []" by auto
  then obtain b changed where st': "st' = publish_pool_states b ?published changed st"
    and changed: "changed = map ps_address (filter (\<lambda>state. case get_pool_state st (ps_address state) of
       None \<Rightarrow> True | Some previous \<Rightarrow> quote_relevant_pool_state_changed previous state) ?published)"
    using assms(2) by (auto simp: publish_selected_run Let_def)
  have "filter (\<lambda>p. ps_address p = a) ?published = [new]"
    using distinct_filter_key [OF selected_states_distinct new(1)] new(2) by simp
  then have q: "q = new" using assms(4) by (simp add: st' pool_after_publish)
  have "a \<notin> set changed"
    using assms(3) by (simp add: st' publish_pool_states_def mark_changed_pools_def drain_changed_pools_def)
  then obtain p where p: "get_pool_state st a = Some p" "\<not> quote_relevant_pool_state_changed p q"
    using new q by (auto simp: changed image_iff split: option.splits)
  have "ps_variant p = ps_variant q" using p(2) by (simp add: quote_relevant_pool_state_changed_def)
  then have "quote_pool_step powf eng context p step amount = quote_pool_step powf eng context q step amount"
    if "ps_variant q \<noteq> BalancerV3 \<or> same_balancer_parameters p q"
    using that unflagged_same_quotes(1) [OF p(2)] keyed_lookup [OF assms(1) p(1)] new(2) q by simp
  then show ?thesis using p(1) by blast
qed
qed

text \<open>The exception of Balancer pools is needed: a new swap fee or token rate is not flagged.\<close>

lemma balancer_parameters_not_flagged:
  "\<not> quote_relevant_pool_state_changed p (p\<lparr>ps_balancer_swap_fee_percentage := fee, ps_balancer_token_rate0 := rate\<rparr>)"
  by (simp add: quote_relevant_pool_state_changed_def)

section \<open>Examples\<close>

definition example_revalidated :: pool_state where
  "example_revalidated = (example_volatile_pool 100 1000000 1200000)\<lparr>ps_valid_through_block := 12, ps_block_number := 11\<rparr>"

lemma example_revalidated_unflagged:
  "\<not> quote_relevant_pool_state_changed (example_volatile_pool 100 1000000 1200000) example_revalidated"
  by (simp add: quote_relevant_pool_state_changed_def example_revalidated_def)

definition example_market :: "unit market_env" where
  "example_market = \<lparr>mk_now = (\<lambda>s. (0, s)), mk_get_pool_states = (\<lambda>_. pass []), mk_publish_pool_states = (\<lambda>_ _ _. pass ()),
     mk_set_current_block = (\<lambda>_. pass ()), mk_get_pool_ticks = (\<lambda>_. pass []), mk_replace_pool_ticks = (\<lambda>_ _. pass ()),
     mk_mark_tick_changed_pools = (\<lambda>_. pass ()), mk_get_block_hash = (\<lambda>_. fail ''offline''),
     mk_fetch_pool_state = (\<lambda>_. fail ''offline''), mk_fetch_pool_state_at = (\<lambda>_ _ _. fail ''offline''),
     mk_fetch_initialized_ticks = (\<lambda>_ _. fail ''offline''), mk_enabled_registry_pools = pass [],
     mk_bootstrap_configured_pools = pass [], mk_fetch_classic_fee = (\<lambda>_ _ _ _. fail ''offline''),
     mk_fetch_slipstream_fee = (\<lambda>_ _ _. fail ''offline''), mk_fetch_relevant_events = (\<lambda>_ _ _. pass []),
     mk_discover_protocol_pools = (\<lambda>_ _. pass ()), mk_record_ticks = (\<lambda>_ s. s), mk_record_dex_events = (\<lambda>_ s. s),
     mk_record_pool_states = (\<lambda>_ _ s. s), mk_record_validation = (\<lambda>_. pass ())\<rparr>"

lemma example_publish:
  "publish_selected_states_with_block (memory_market_env example_market) [example_revalidated] {100} ''local_event'' None
     (set_pool_state (example_volatile_pool 100 1000000 1200000) stores_new, ()) =
   (Inr (), (publish_pool_states 11 [example_revalidated] []
      (set_pool_state (example_volatile_pool 100 1000000 1200000) stores_new), ()))"
proof -
  have address: "ps_address example_revalidated = 100" "ps_block_number example_revalidated = 11"
    by (simp_all add: example_revalidated_def example_volatile_pool_def)
  have "get_pool_state (set_pool_state (example_volatile_pool 100 1000000 1200000) stores_new) 100 =
      Some (example_volatile_pool 100 1000000 1200000)"
    by (simp add: get_pool_state_def set_pool_state_def stores_new_def example_volatile_pool_def)
  then show ?thesis
    using example_revalidated_unflagged by (simp add: publish_selected_run address)
qed

theorem unmarked_pools_quote_the_same_witness:
  "\<exists>p. get_pool_state (set_pool_state (example_volatile_pool 100 1000000 1200000) stores_new) 100 = Some p \<and>
    quote_pool_step (\<lambda>_ _. F_nan) (example_engine :: nat search_engine) example_context p (example_swap_step 100 1 2) 1000 =
    quote_pool_step (\<lambda>_ _. F_nan) example_engine example_context example_revalidated (example_swap_step 100 1 2) 1000"
proof -
  have "keyed_states (set_pool_state (example_volatile_pool 100 1000000 1200000) stores_new)"
    by (simp add: keyed_states_def set_pool_state_def stores_new_def example_volatile_pool_def)
  note same = unmarked_pools_quote_the_same [OF this example_publish, of 100 example_revalidated "\<lambda>_ _. F_nan"
      "example_engine :: nat search_engine" example_context "example_swap_step 100 1 2" 1000]
  have "ps_variant example_revalidated \<noteq> BalancerV3"
    by (simp add: example_revalidated_def example_volatile_pool_def)
  moreover have "100 \<notin> set (fst (drain_changed_pools (publish_pool_states 11 [example_revalidated] []
      (set_pool_state (example_volatile_pool 100 1000000 1200000) stores_new))))"
    "get_pool_state (publish_pool_states 11 [example_revalidated] []
      (set_pool_state (example_volatile_pool 100 1000000 1200000) stores_new)) 100 = Some example_revalidated"
    by (simp_all add: set_pool_state_def stores_new_def drain_changed_pools_def publish_pool_states_def
        mark_changed_pools_def set_pool_states_def get_pool_state_def set_current_block_def
        example_revalidated_def example_volatile_pool_def)
  ultimately show ?thesis using same by blast
qed

end
