(* ===== verification/Chain_Codec.thy ===== *)
theory Chain_Codec
  imports Hex_Text Settings
begin

text \<open>
  What \<open>crates/chain/src/provider.rs\<close> writes into calls and reads out of answers: ABI words as
  hexadecimal text, the JSON logs of the node, and the names of pool events. Text is ASCII where it is
  sliced. \<open>U256::from_str_radix\<close> and the address parser are fields of \<open>libs\<close>, and an address that cannot
  be parsed is an error whose text is not kept.
\<close>

section \<open>Numbers of the node\<close>

definition parse_hex_u64 :: "string \<Rightarrow> u64 anyhow" where
  "parse_hex_u64 v = (let clean = trim_start_0x v in if clean = [] then Inr 0 else uint_from_hex clean)"

definition parse_hex_u256 :: "libs \<Rightarrow> string \<Rightarrow> u256 anyhow" where
  "parse_hex_u256 lib v =
     (let clean = trim_start_0x v in if clean = [] then Inr 0 else lib_from_str_radix lib clean 16)"

definition parse_address :: "libs \<Rightarrow> string \<Rightarrow> address anyhow" where
  "parse_address lib s = ok_or_message (lib_parse_address lib s) ''invalid address''"

section \<open>Reading words\<close>

definition decode_32byte_words :: "string \<Rightarrow> string list anyhow" where
  "decode_32byte_words data =
     (let clean = trim_start_0x data in
      if clean = [] then bail ''empty eth_call result''
      else if length clean mod 64 \<noteq> 0 then bail ''unexpected eth_call word length''
      else Inr (map (\<lambda>i. slice clean (64 * i) (64 * i + 64)) [0 ..< length clean div 64]))"

definition parse_word_u256 :: "libs \<Rightarrow> string \<Rightarrow> u256 anyhow" where
  "parse_word_u256 lib word = lib_from_str_radix lib word 16"

definition u32_of_u256 :: "u256 \<Rightarrow> string \<Rightarrow> u32 anyhow" where
  "u32_of_u256 v message = (if unat v < 2 ^ 32 then Inr (ucast v) else bail message)"

definition decode_fee_pips :: "libs \<Rightarrow> string \<Rightarrow> u32 anyhow" where
  "decode_fee_pips lib data =
     rbind (decode_32byte_words data) (\<lambda>words.
     rbind (parse_word_u256 lib (words ! 0)) (\<lambda>fee.
     u32_of_u256 fee (''Aerodrome Slipstream fee too large: '' @ nat_dec (unat fee))))"

definition parse_word_address :: "libs \<Rightarrow> string \<Rightarrow> address anyhow" where
  "parse_word_address lib word =
     (if length word < 40 then bail ''abi word too short for address''
      else parse_address lib (''0x'' @ drop (length word - 40) word))"

text \<open>Words have 64 characters, so the slices of their ends are within bounds.\<close>

definition parse_word_i24 :: "string \<Rightarrow> i32 anyhow" where
  "parse_word_i24 word =
     rbind (uint_from_hex (drop (length word - 6) word)) (\<lambda>low :: u32.
     if low AND 0x800000 \<noteq> 0 then Inr (low - 2 ^ 24) else Inr low)"

definition parse_word_i128 :: "string \<Rightarrow> i128 anyhow" where
  "parse_word_i128 word = uint_from_hex (drop (length word - 32) word)"

definition decode_single_address :: "libs \<Rightarrow> string \<Rightarrow> address anyhow" where
  "decode_single_address lib data =
     rbind (decode_32byte_words data) (\<lambda>words. parse_word_address lib (words ! 0))"

definition usize_of_u256 :: "u256 \<Rightarrow> string \<Rightarrow> nat anyhow" where
  "usize_of_u256 v message = (if unat v < 2 ^ 64 then Inr (unat v) else bail message)"

definition decode_int24_array :: "libs \<Rightarrow> string \<Rightarrow> i32 list anyhow" where
  "decode_int24_array lib data =
     rbind (decode_32byte_words data) (\<lambda>words.
     if length words < 2 then bail ''dynamic int24 array response is too short''
     else
       rbind (parse_word_u256 lib (words ! 1)) (\<lambda>len.
       rbind (usize_of_u256 len ''tickSpacings() length does not fit usize'') (\<lambda>len.
       collect_results parse_word_i24 (take len (drop 2 words)))))"

section \<open>Token symbols\<close>

definition hex_to_bytes :: "string \<Rightarrow> u8 list anyhow" where
  "hex_to_bytes v =
     (if length v mod 2 \<noteq> 0 then bail ''hex string has odd length''
      else collect_results (\<lambda>i. uint_from_hex (slice v (2 * i) (2 * i + 2))) [0 ..< length v div 2])"

definition between :: "nat \<Rightarrow> nat \<Rightarrow> nat \<Rightarrow> bool" where
  "between a b x \<longleftrightarrow> a \<le> x \<and> x \<le> b"

text \<open>How many of the leading bytes form one character, and whether it is complete; \<open>String::from_utf8_lossy\<close>
  replaces an incomplete one, as far as it goes, by one replacement character.\<close>

definition utf8_second :: "nat \<Rightarrow> nat \<Rightarrow> bool" where
  "utf8_second lead b =
     (if lead = 0xE0 then between 0xA0 0xBF b else if lead = 0xED then between 0x80 0x9F b
      else if lead = 0xF0 then between 0x90 0xBF b else if lead = 0xF4 then between 0x80 0x8F b
      else between 0x80 0xBF b)"

definition utf8_tail_length :: "nat \<Rightarrow> nat option" where
  "utf8_tail_length lead =
     (if lead < 0x80 then Some 0 else if between 0xC2 0xDF lead then Some 1
      else if between 0xE0 0xEF lead then Some 2 else if between 0xF0 0xF4 lead then Some 3 else None)"

fun utf8_tail :: "nat \<Rightarrow> u8 list \<Rightarrow> nat" where
  "utf8_tail (Suc n) (b # bs) = (if between 0x80 0xBF (unat b) then Suc (utf8_tail n bs) else 0)"
| "utf8_tail n bs = 0"

definition utf8_step :: "u8 \<Rightarrow> u8 list \<Rightarrow> bool \<times> nat" where
  "utf8_step lead bs =
     (case utf8_tail_length (unat lead) of
        None \<Rightarrow> (False, 0)
      | Some 0 \<Rightarrow> (True, 0)
      | Some n \<Rightarrow>
          (case bs of
             [] \<Rightarrow> (False, 0)
           | b # rest \<Rightarrow>
               if utf8_second (unat lead) (unat b)
               then (let k = Suc (utf8_tail (n - 1) rest) in (k = n, k))
               else (False, 0)))"

definition replacement_character :: "u8 list" where
  "replacement_character = [0xEF, 0xBF, 0xBD]"

fun utf8_lossy :: "u8 list \<Rightarrow> u8 list" where
  "utf8_lossy [] = []"
| "utf8_lossy (lead # bs) =
     (case utf8_step lead bs of (complete, k) \<Rightarrow>
        (if complete then lead # take k bs else replacement_character) @ utf8_lossy (drop k bs))"

definition bytes_text :: "u8 list \<Rightarrow> string" where
  "bytes_text bs = map (\<lambda>b. char_of (unat b)) bs"

text \<open>The encodings of the characters \<open>str::trim\<close> removes.\<close>

definition whitespace_encodings :: "u8 list list" where
  "whitespace_encodings =
     map (\<lambda>b. [b]) [0x09, 0x0A, 0x0B, 0x0C, 0x0D, 0x20] @
     [[0xC2, 0x85], [0xC2, 0xA0], [0xE1, 0x9A, 0x80]] @ map (\<lambda>b. [0xE2, 0x80, b]) [0x80, 0x81, 0x82, 0x83, 0x84,
       0x85, 0x86, 0x87, 0x88, 0x89, 0x8A, 0xA8, 0xA9, 0xAF] @
     [[0xE2, 0x81, 0x9F], [0xE3, 0x80, 0x80]]"

fun strip_any :: "nat \<Rightarrow> u8 list list \<Rightarrow> u8 list \<Rightarrow> u8 list" where
  "strip_any 0 ws bs = bs"
| "strip_any (Suc fuel) ws bs =
     (case find (\<lambda>w. take (length w) bs = w) ws of None \<Rightarrow> bs | Some w \<Rightarrow> strip_any fuel ws (drop (length w) bs))"

definition trim_bytes :: "u8 list \<Rightarrow> u8 list" where
  "trim_bytes bs =
     (let front = strip_any (length bs) whitespace_encodings bs
      in rev (strip_any (length front) (map rev whitespace_encodings) (rev front)))"

definition trim_null_utf8 :: "u8 list \<Rightarrow> string" where
  "trim_null_utf8 bytes = bytes_text (trim_bytes (utf8_lossy (takeWhile (\<lambda>b. b \<noteq> 0) bytes)))"

text \<open>The two slices with \<open>get\<close> are \<open>None\<close> past the end.\<close>

definition decode_abi_string_or_bytes32 :: "libs \<Rightarrow> string \<Rightarrow> string anyhow" where
  "decode_abi_string_or_bytes32 lib data =
     (let clean = trim_start_0x data in
      if length clean = 64 then rbind (hex_to_bytes clean) (\<lambda>bytes. Inr (trim_null_utf8 bytes))
      else
        rbind (decode_32byte_words data) (\<lambda>words.
        if length words < 2 then bail ''dynamic string response is too short''
        else
          rbind (parse_word_u256 lib (words ! 1)) (\<lambda>len.
          rbind (usize_of_u256 len ''symbol() length does not fit usize'') (\<lambda>len.
          if length clean < 128 then bail ''dynamic string response missing data''
          else if 2 ^ 64 \<le> len * 2 then bail ''symbol() length overflow''
          else if length clean - 128 < len * 2 then bail ''dynamic string response truncated''
          else rbind (hex_to_bytes (take (len * 2) (drop 128 clean))) (\<lambda>bytes. Inr (trim_null_utf8 bytes))))))"

section \<open>Writing words\<close>

definition encode_address_word :: "address \<Rightarrow> string" where
  "encode_address_word a = pad_left CHR ''0'' 64 (trim_start_0x (address_hex a))"

definition encode_u32_word :: "u32 \<Rightarrow> string" where
  "encode_u32_word v = hex_fixed 64 (unat v)"

definition encode_bool_word :: "bool \<Rightarrow> string" where
  "encode_bool_word b = encode_u32_word (if b then 1 else 0)"

definition encode_u256_word :: "u256 \<Rightarrow> string" where
  "encode_u256_word v = hex_fixed 64 (unat v)"

definition encode_i24_word :: "i32 \<Rightarrow> string" where
  "encode_i24_word v =
     (if 0 \<le> sint v then hex_fixed 64 (unat v)
      else replicate 58 CHR ''f'' @ pad_left CHR ''0'' 6 (nat_hex (unat (2 ^ 24 + v))))"

definition encode_signed_word :: "i128 \<Rightarrow> string" where
  "encode_signed_word v =
     (let encoded :: u256 = (if 0 \<le> sint v then ucast v else (- 1) - ucast (- v - 1))
      in hex_fixed 64 (unat encoded))"

definition encode_get_pool_bool :: "address \<Rightarrow> address \<Rightarrow> bool \<Rightarrow> string" where
  "encode_get_pool_bool token_a token_b stable' =
     ''0x79bc57d5'' @ encode_address_word token_a @ encode_address_word token_b @ encode_bool_word stable'"

definition encode_get_pair :: "address \<Rightarrow> address \<Rightarrow> string" where
  "encode_get_pair token_a token_b = ''0xe6a43905'' @ encode_address_word token_a @ encode_address_word token_b"

definition encode_get_fee :: "address \<Rightarrow> bool \<Rightarrow> string" where
  "encode_get_fee pool stable' = ''0xcc56b2c5'' @ encode_address_word pool @ encode_bool_word stable'"

definition encode_get_swap_fee :: "address \<Rightarrow> string" where
  "encode_get_swap_fee pool = ''0x35458dcc'' @ encode_address_word pool"

definition encode_get_pool_uint24 :: "address \<Rightarrow> address \<Rightarrow> u32 \<Rightarrow> string" where
  "encode_get_pool_uint24 token_a token_b fee =
     ''0x1698ee82'' @ encode_address_word token_a @ encode_address_word token_b @ encode_u32_word fee"

definition encode_get_pool_int24 :: "address \<Rightarrow> address \<Rightarrow> i32 \<Rightarrow> string" where
  "encode_get_pool_int24 token_a token_b tick_spacing =
     ''0x28af8d0b'' @ encode_address_word token_a @ encode_address_word token_b @ encode_i24_word tick_spacing"

definition encode_balancer_query_swap_exact_in :: "address \<Rightarrow> address \<Rightarrow> address \<Rightarrow> u256 \<Rightarrow> address \<Rightarrow> string" where
  "encode_balancer_query_swap_exact_in pool token_in token_out amount_in sender =
     ''0x3ebc54e5'' @ encode_address_word pool @ encode_address_word token_in @ encode_address_word token_out @
     encode_u256_word amount_in @ encode_address_word sender @ encode_u32_word 192 @ encode_u32_word 0"

section \<open>Factories and ticks\<close>

definition is_uniswap_v2_factory_address :: "address \<Rightarrow> bool" where
  "is_uniswap_v2_factory_address factory \<longleftrightarrow> uniswap_v2_factory = factory"

text \<open>The configured factory first, then the known ones that are not yet there.\<close>

definition slipstream_factories :: "settings \<Rightarrow> address list" where
  "slipstream_factories cfg =
     foldl (\<lambda>factories factory. if factory \<in> set factories then factories else factories @ [factory])
       (case cfg_aerodrome_slipstream_factory cfg of None \<Rightarrow> [] | Some factory \<Rightarrow> [factory])
       aerodrome_slipstream_factories"

definition div_euclid :: "int \<Rightarrow> int \<Rightarrow> int" where
  "div_euclid a b = (if 0 < b then a div b else - (a div (- b)))"

definition word_position :: "i32 \<Rightarrow> i32 \<Rightarrow> i32" where
  "word_position tick tick_spacing = word_of_int (div_euclid (sint tick) (sint tick_spacing) div 256)"

section \<open>Round trips\<close>

text \<open>Splitting and joining texts of fixed width.\<close>

lemma hex_fixed_append: "m < 16 ^ k \<Longrightarrow> hex_fixed (j + k) (q * 16 ^ k + m) = hex_fixed j q @ hex_fixed k m"
proof (induction k arbitrary: m)
  case (Suc k)
  then have "m div 16 < 16 ^ k" by (simp add: less_mult_imp_div_less mult.commute)
  moreover have "(q * (16 * 16 ^ k) + m) div 16 = q * 16 ^ k + m div 16"
    using div_mult_self1 [of 16 m "q * 16 ^ k"] by (simp add: algebra_simps)
  moreover have "hex_digit (q * (16 * 16 ^ k) + m) = hex_digit m"
    unfolding hex_digit_def using mod_mult_self2 [of m 16 "q * 16 ^ k"] by (simp add: ac_simps)
  ultimately show ?case using Suc.IH [of "m div 16"] by simp
qed simp

lemma drop_hex_fixed: "drop j (hex_fixed (j + k) n) = hex_fixed k n"
proof (induction k arbitrary: n)
  case (Suc k)
  then show ?case by simp
qed simp

lemma hex_fixed_mod: "hex_fixed k (n mod 16 ^ k) = hex_fixed k n"
proof (induction k arbitrary: n)
  case (Suc k)
  have "n mod 16 ^ Suc k = 16 * (n div 16 mod 16 ^ k) + n mod 16" by (simp add: mod_mult2_eq)
  moreover from this have "hex_digit (n mod 16 ^ Suc k) = hex_digit n" by (simp add: hex_digit_def)
  ultimately show ?case using Suc [of "n div 16"] by simp
qed simp

lemma hex_fixed_ones: "hex_fixed k (16 ^ k - 1) = replicate k CHR ''f''"
proof (induction k)
  case (Suc k)
  obtain y where "(16 :: nat) ^ k = Suc y" using gr0_conv_Suc [of "16 ^ k"] by auto
  then have e: "16 ^ Suc k - (1 :: nat) = (16 ^ k - 1) * 16 + 15" by simp
  have "hex_digit 15 = CHR ''f''" by code_simp
  then have "hex_digit (16 ^ Suc k - 1) = CHR ''f''" unfolding e hex_digit_def by simp
  moreover have "(16 ^ Suc k - (1 :: nat)) div 16 = 16 ^ k - 1" unfolding e by simp
  ultimately show ?case using Suc by (simp add: replicate_append_same)
qed simp

text \<open>The word of a signed number.\<close>

definition signed_word :: "int \<Rightarrow> string" where
  "signed_word i = hex_fixed 64 (nat (i mod 2 ^ 256))"

lemma encode_address_word_fixed: "encode_address_word a = hex_fixed 64 (unat a)"
proof -
  have "hex_fixed (24 + 40) (0 * 16 ^ 40 + unat a) = hex_fixed 24 0 @ hex_fixed 40 (unat a)"
    using unat_lt [of a] by (intro hex_fixed_append) simp
  then show ?thesis by (simp add: encode_address_word_def address_hex_def pad_left_def hex_fixed_0)
qed

lemma length_encode_word [simp]:
  "length (encode_address_word a) = 64" "length (encode_u32_word v) = 64" "length (encode_u256_word w) = 64"
  "length (encode_bool_word b) = 64" "length (signed_word i) = 64"
  by (simp_all add: encode_address_word_fixed encode_u32_word_def encode_u256_word_def encode_bool_word_def signed_word_def)

lemma encode_i24_word_signed:
  assumes "- (2 ^ 24) \<le> sint v"
  shows "encode_i24_word v = signed_word (sint v)"
proof (cases "0 \<le> sint v")
  case True
  have "sint v < 2 ^ 31" using sint_lt [of v] by simp
  with True have "sint v mod 2 ^ 256 = uint v" by (simp add: uint_sint take_bit_int_eq_self)
  with True show ?thesis by (simp add: encode_i24_word_def signed_word_def)
next
  case False
  define m where "m = nat (2 ^ 24 + sint v)"
  have m: "m < 16 ^ 6" "int m = 2 ^ 24 + sint v" using False assms by (simp_all add: m_def)
  have "sint ((2 :: i32) ^ 24 + v) = 2 ^ 24 + sint v"
    using False assms by (simp add: sint_word_ariths signed_take_bit_int_eq_self)
  then have "unat ((2 :: i32) ^ 24 + v) = m"
    using m by (simp add: unat_eq_nat_uint uint_sint take_bit_int_eq_self del: nat_uint_eq)
  then have "encode_i24_word v = hex_fixed 58 (16 ^ 58 - 1) @ hex_fixed 6 m"
    using False m by (simp only: encode_i24_word_def if_False hex_fixed_ones pad_left_nat_hex)
  also have "\<dots> = hex_fixed 64 ((16 ^ 58 - 1) * 16 ^ 6 + m)"
    using hex_fixed_append [OF m(1), of 58 "16 ^ 58 - 1"] by (simp del: hex_fixed.simps)
  also have "(16 ^ 58 - 1) * 16 ^ 6 + m = nat (sint v mod 2 ^ 256)"
  proof -
    have "sint v mod 2 ^ 256 = (sint v + 2 ^ 256) mod 2 ^ 256" by simp
    also have "\<dots> = sint v + 2 ^ 256" using False assms by (intro mod_pos_pos_trivial) simp_all
    finally show ?thesis using m(2) by simp
  qed
  finally show ?thesis by (simp only: signed_word_def)
qed

lemma encode_signed_word_signed: "encode_signed_word v = signed_word (sint v)"
proof (cases "0 \<le> sint v")
  case True
  have "sint v < 2 ^ 127" using sint_lt [of v] by simp
  with True have "sint v mod 2 ^ 256 = uint v" by (simp add: uint_sint take_bit_int_eq_self)
  with True show ?thesis by (simp add: encode_signed_word_def signed_word_def unat_ucast_up)
next
  case False
  have b: "- (2 ^ 127) \<le> sint v" using sint_ge [of v] by simp
  have "sint (- 1 - v) = - 1 - sint v"
    using False b sint_word_ariths(2) [of "- 1" v] by (simp add: signed_take_bit_int_eq_self)
  moreover have c: "- v - 1 = - 1 - v" by simp
  ultimately have "sint (- v - 1) = - sint v - 1" unfolding c by linarith
  then have "uint (- v - 1) = - sint v - 1" using False b by (simp add: uint_sint take_bit_int_eq_self)
  then have "uint (ucast (- v - 1) :: u256) = - sint v - 1"
    using False b by (simp add: unsigned_ucast_eq take_bit_int_eq_self)
  then have "uint ((- 1) - ucast (- v - 1) :: u256) = (2 ^ 256 - 1 - (- sint v - 1)) mod 2 ^ 256"
    by (simp add: uint_word_ariths unsigned_minus_1_eq_mask mask_eq_exp_minus_1 take_bit_eq_mod)
  also have "2 ^ 256 - 1 - (- sint v - 1) = sint v + 2 ^ 256" by simp
  also have "(sint v + 2 ^ 256) mod 2 ^ 256 = sint v mod 2 ^ 256" by simp
  finally have "unat ((- 1) - ucast (- v - 1) :: u256) = nat (sint v mod 2 ^ 256)" by (metis nat_uint_eq)
  with False show ?thesis by (simp add: encode_signed_word_def signed_word_def Let_def)
qed

text \<open>Reading.\<close>

lemma read_u256_word [simp]: "reads_hex lib \<Longrightarrow> parse_word_u256 lib (hex_fixed 64 (unat w)) = Inr w"
proof -
  assume "reads_hex lib"
  moreover have "unat w < 2 ^ 256" using unat_lt [of w] by simp
  ultimately show ?thesis by (simp add: parse_word_u256_def reads_hex_def)
qed

lemma read_address_word [simp]: "reads_addresses lib \<Longrightarrow> parse_word_address lib (encode_address_word a) = Inr a"
  using drop_hex_fixed [of 24 40 "unat a"]
  by (simp add: parse_word_address_def encode_address_word_fixed parse_address_def reads_addresses_def address_hex_def)

text \<open>The last three bytes of a word that holds a number of 24 bits, and their reading as one.\<close>

lemma i24_tail:
  assumes "- (2 ^ 23) \<le> i" "i < 2 ^ 23"
  obtains low where "drop 58 (signed_word i) = hex_fixed 6 low" "low < 2 ^ 24"
    and "(if (word_of_nat low :: u32) AND 0x800000 \<noteq> 0 then word_of_nat low - 2 ^ 24 else word_of_nat low :: u32) = word_of_int i"
proof -
  define low where "low = nat (i mod 2 ^ 24)"
  have "nat (i mod 2 ^ 256) mod 16 ^ 6 = nat (i mod 2 ^ 256 mod 2 ^ 24)"
    by (simp add: nat_mod_distrib)
  also have "i mod 2 ^ 256 mod 2 ^ 24 = i mod 2 ^ 24" by (intro mod_mod_cancel le_imp_power_dvd) simp
  finally have tail: "drop 58 (signed_word i) = hex_fixed 6 low"
    unfolding signed_word_def low_def using drop_hex_fixed [of 58 6] hex_fixed_mod [of 6]
    by (metis numeral_Bit0 numeral_plus_numeral numeral_code(1) add_num_simps)
  have low: "low < 2 ^ 24" by (simp add: low_def nat_less_iff)
  have ul: "uint (word_of_nat low :: u32) = int low" using low by (simp add: unsigned_of_nat take_bit_nat_eq_self)
  have nth: "((word_of_nat low :: u32) AND 0x800000 \<noteq> 0) = (2 ^ 23 \<le> low)"
  proof -
    have "((word_of_nat low :: u32) AND 2 ^ 23 \<noteq> 0) = bit (word_of_nat low :: u32) 23"
      by (simp only: and_exp_eq_0_iff_not_bit not_not)
    also have "\<dots> = odd (low div 2 ^ 23)" by (simp add: bit_simps)(simp add: bit_iff_odd)
    also have "\<dots> = (2 ^ 23 \<le> low)"
    proof -
      have "low div 2 ^ 23 < 2" using low by (intro less_mult_imp_div_less) simp
      then have "odd (low div 2 ^ 23) \<longleftrightarrow> 1 \<le> low div 2 ^ 23"
        by (cases "low div 2 ^ 23 = 0") (auto simp: less_2_cases_iff)
      then show ?thesis by (simp add: less_eq_div_iff_mult_less_eq)
    qed
    finally show ?thesis by simp
  qed
  have split: "if 0 \<le> i then int low = i else int low = i + 2 ^ 24"
  proof (cases "0 \<le> i")
    case False
    have "i mod 2 ^ 24 = (i + 2 ^ 24) mod 2 ^ 24" by simp
    also have "\<dots> = i + 2 ^ 24" using False assms by (intro mod_pos_pos_trivial) simp_all
    finally show ?thesis using False assms by (simp add: low_def)
  qed (use assms in \<open>simp add: low_def\<close>)
  have of: "(word_of_nat low :: u32) = word_of_int (int low)" by simp
  have "(if (word_of_nat low :: u32) AND 0x800000 \<noteq> 0 then word_of_nat low - 2 ^ 24 else word_of_nat low :: u32) = word_of_int i"
  proof (cases "0 \<le> i")
    case True
    with split assms have "\<not> 2 ^ 23 \<le> low" "int low = i" by auto
    then show ?thesis using nth unfolding of by simp
  next
    case False
    with split assms have "2 ^ 23 \<le> low" "int low = i + 2 ^ 24" by auto
    then show ?thesis using nth unfolding of by simp
  qed
  then show thesis using that tail low by blast
qed

lemma read_i24_word:
  assumes "- (2 ^ 23) \<le> i" "i < 2 ^ 23"
  shows "parse_word_i24 (signed_word i) = Inr (word_of_int i)"
proof -
  obtain low where low: "drop 58 (signed_word i) = hex_fixed 6 low" "low < 2 ^ 24"
    "(if (word_of_nat low :: u32) AND 0x800000 \<noteq> 0 then word_of_nat low - 2 ^ 24 else word_of_nat low :: u32) = word_of_int i"
    using i24_tail [OF assms] by blast
  then have "uint_from_hex (drop 58 (signed_word i)) = Inr (word_of_nat low :: u32)"
    using uint_from_hex_fixed [of 6 low, where 'a = 32] by simp
  with low(3) show ?thesis by (auto simp: parse_word_i24_def)
qed

lemma read_i128_word: "parse_word_i128 (signed_word i) = Inr (word_of_int i)"
proof -
  have "nat (i mod 2 ^ 256) mod 16 ^ 32 = nat (i mod 2 ^ 256 mod 2 ^ 128)"
    by (simp add: nat_mod_distrib)
  also have "i mod 2 ^ 256 mod 2 ^ 128 = i mod 2 ^ 128" by (intro mod_mod_cancel le_imp_power_dvd) simp
  finally have "drop 32 (signed_word i) = hex_fixed 32 (nat (i mod 2 ^ 128))"
    unfolding signed_word_def using drop_hex_fixed [of 32 32] hex_fixed_mod [of 32]
    by (metis numeral_Bit0 numeral_plus_numeral numeral_code(1) add_num_simps)
  moreover have "nat (i mod 2 ^ 128) < 2 ^ 128" by (simp add: nat_less_iff)
  ultimately have "parse_word_i128 (signed_word i) = Inr (word_of_nat (nat (i mod 2 ^ 128)))"
    unfolding parse_word_i128_def using uint_from_hex_fixed [of 32 "nat (i mod 2 ^ 128)", where 'a = 128] by simp
  also have "(word_of_nat (nat (i mod 2 ^ 128)) :: i128) = word_of_int (int (nat (i mod 2 ^ 128)))"
    by (simp only: of_int_of_nat_eq)
  also have "\<dots> = word_of_int i" by (simp add: word_of_int_eq_iff take_bit_eq_mod)
  finally show ?thesis .
qed

text \<open>Words side by side.\<close>

lemma length_concat_words: "list_all (\<lambda>w. length w = n) ws \<Longrightarrow> length (concat ws) = n * length ws"
  by (induction ws) simp_all

lemma slice_concat:
  "list_all (\<lambda>w. length w = n) ws \<Longrightarrow> i < length ws \<Longrightarrow> slice (concat ws) (n * i) (n * i + n) = ws ! i"
proof (induction ws arbitrary: i)
  case (Cons w ws)
  show ?case
  proof (cases i)
    case 0
    with Cons.prems show ?thesis by simp
  next
    case (Suc j)
    with Cons show ?thesis by (simp add: add.commute)
  qed
qed simp

lemma decode_concat_words:
  assumes "ws \<noteq> []" "list_all (\<lambda>w. length w = 64 \<and> hex_text w) ws"
  shows "decode_32byte_words (''0x'' @ concat ws) = Inr ws"
proof -
  have len: "list_all (\<lambda>w. length w = 64) ws" and "hex_text (concat ws)"
    using assms(2) by (induction ws) auto
  then have trim: "trim_start_0x (''0x'' @ concat ws) = concat ws" by simp
  have l: "length (concat ws) = 64 * length ws" by (rule length_concat_words [OF len])
  with assms(1) have "concat ws \<noteq> []" by (metis length_0_conv mult_eq_0_iff zero_neq_numeral)
  moreover have "map (\<lambda>i. slice (concat ws) (64 * i) (64 * i + 64)) [0 ..< length ws] = ws"
    by (rule nth_equalityI) (simp_all add: slice_concat [OF len])
  ultimately show ?thesis unfolding decode_32byte_words_def trim Let_def l by (simp del: concat_eq_Nil_conv)
qed

lemma hex_text_encode [simp]:
  "hex_text (encode_address_word a)" "hex_text (encode_u32_word v)" "hex_text (encode_u256_word w)"
  "hex_text (encode_bool_word b)" "hex_text (signed_word i)"
  by (simp_all add: encode_address_word_fixed encode_u32_word_def encode_u256_word_def encode_bool_word_def signed_word_def)

lemma hex_text_words: "list_all (\<lambda>w. length w = 64 \<and> hex_text w) ws \<Longrightarrow> hex_text (concat ws)"
  by (induction ws) simp_all

text \<open>Everything the client writes into a call is read back from an answer: an address, a number of 256
  or 32 bits, a signed number of 128 bits, a tick or tick spacing of 24 bits, and any sequence of words is
  split where it was joined.\<close>

theorem abi_words_roundtrip:
  assumes "reads_hex lib" "reads_addresses lib"
    and "- (2 ^ 23) \<le> sint tick" "sint tick < 2 ^ 23"
    and "ws \<noteq> []" "list_all (\<lambda>w. length w = 64 \<and> hex_text w) ws"
  shows "parse_word_address lib (encode_address_word a) = Inr a \<and>
     parse_word_u256 lib (encode_u256_word v) = Inr v \<and>
     parse_word_u256 lib (encode_u32_word n) = Inr (ucast n) \<and>
     parse_word_i128 (encode_signed_word i) = Inr i \<and>
     parse_word_i24 (encode_i24_word tick) = Inr tick \<and>
     decode_32byte_words (''0x'' @ concat ws) = Inr ws"
proof -
  have "encode_u32_word n = hex_fixed 64 (unat (ucast n :: u256))"
    by (simp add: encode_u32_word_def unat_ucast_up)
  then have "parse_word_u256 lib (encode_u32_word n) = Inr (ucast n)" using assms(1) by (simp only: read_u256_word)
  moreover have "parse_word_i24 (encode_i24_word tick) = Inr tick"
    using assms(3,4) by (simp add: encode_i24_word_signed read_i24_word)
  ultimately show ?thesis
    using assms decode_concat_words [OF assms(5,6)]
    by (simp add: encode_u256_word_def encode_signed_word_signed read_i128_word)
qed

theorem abi_words_roundtrip_witness:
  "parse_word_i24 (encode_i24_word (- 887220)) = Inr (- 887220) \<and>
   decode_32byte_words (''0x'' @ concat [encode_address_word 5, encode_bool_word True]) =
     Inr [encode_address_word 5, encode_bool_word True]"
  using abi_words_roundtrip [of hex_libs "- 887220" "[encode_address_word 5, encode_bool_word True]"] by simp

section \<open>Symbols\<close>

text \<open>The bytes of a plain symbol: visible ASCII characters.\<close>

definition visible :: "u8 \<Rightarrow> bool" where
  "visible b \<longleftrightarrow> 0x20 < unat b \<and> unat b < 0x7F"

definition hex_of_bytes :: "u8 list \<Rightarrow> string" where
  "hex_of_bytes bs = concat (map (\<lambda>b. hex_fixed 2 (unat b)) bs)"

text \<open>How a contract answers \<open>symbol()\<close>: the offset of the string, its length, and its bytes padded to words.\<close>

definition abi_string :: "u8 list \<Rightarrow> string" where
  "abi_string bs = hex_fixed 64 32 @ hex_fixed 64 (length bs) @ hex_of_bytes bs @
     replicate (2 * ((32 - length bs mod 32) mod 32)) CHR ''0''"

definition abi_bytes32 :: "u8 list \<Rightarrow> string" where
  "abi_bytes32 bs = hex_of_bytes bs @ replicate (64 - 2 * length bs) CHR ''0''"

lemma length_hex_of_bytes [simp]: "length (hex_of_bytes bs) = 2 * length bs"
  by (induction bs) (simp_all add: hex_of_bytes_def)

lemma hex_text_hex_of_bytes [simp]: "hex_text (hex_of_bytes bs)"
  by (induction bs) (simp_all add: hex_of_bytes_def del: hex_fixed.simps)

lemma hex_to_bytes_of_bytes: "hex_to_bytes (hex_of_bytes bs) = Inr bs"
proof -
  have "list_all2 (\<lambda>i b. uint_from_hex (slice (hex_of_bytes bs) (2 * i) (2 * i + 2)) = Inr b) [0 ..< length bs] bs"
  proof (rule list_all2_all_nthI)
    fix i assume i: "i < length [0 ..< length bs]"
    have "slice (hex_of_bytes bs) (2 * i) (2 * i + 2) = map (\<lambda>b. hex_fixed 2 (unat b)) bs ! i"
      unfolding hex_of_bytes_def using i by (intro slice_concat) (simp_all add: list_all_iff del: hex_fixed.simps)
    moreover have "uint_from_hex (hex_fixed 2 (unat (bs ! i))) = Inr (bs ! i)"
      using uint_from_hex_fixed [of 2 "unat (bs ! i)", where 'a = 8] unat_lt [of "bs ! i"] by (simp del: hex_fixed.simps)
    ultimately show "uint_from_hex (slice (hex_of_bytes bs) (2 * ([0 ..< length bs] ! i)) (2 * ([0 ..< length bs] ! i) + 2)) =
        Inr (bs ! i)" using i by simp
  qed simp
  then show ?thesis by (simp add: hex_to_bytes_def collect_results_Inr)
qed

lemma utf8_lossy_ascii: "list_all (\<lambda>b. unat b < 0x80) bs \<Longrightarrow> utf8_lossy bs = bs"
  by (induction bs) (simp_all add: utf8_step_def utf8_tail_length_def)

lemma visible_ascii: "visible b \<Longrightarrow> unat b < 0x80" "visible b \<Longrightarrow> b \<noteq> 0"
  by (auto simp: visible_def)

lemma strip_visible:
  assumes "visible b" "\<forall>w \<in> set ws. w \<noteq> [] \<and> \<not> visible (hd w)"
  shows "strip_any n ws (b # bs) = b # bs"
proof -
  have "find (\<lambda>w. take (length w) (b # bs) = w) ws = None"
    using assms by (auto simp: find_None_iff neq_Nil_conv)
  then show ?thesis by (cases n) simp_all
qed

lemma whitespace_not_visible:
  "\<forall>w \<in> set whitespace_encodings. w \<noteq> [] \<and> \<not> visible (hd w)"
  "\<forall>w \<in> set (map rev whitespace_encodings). w \<noteq> [] \<and> \<not> visible (hd w)"
  by (simp_all add: whitespace_encodings_def visible_def)

lemma trim_bytes_visible: "list_all visible bs \<Longrightarrow> trim_bytes bs = bs"
proof (cases bs)
  case (Cons b bs')
  assume v: "list_all visible bs"
  have front: "strip_any (length bs) whitespace_encodings bs = bs"
    unfolding Cons using v Cons whitespace_not_visible(1) by (intro strip_visible) simp_all
  obtain c cs where rev: "rev bs = c # cs" using Cons by (cases "rev bs") auto
  then have "c \<in> set bs" by (metis list.set_intros(1) set_rev)
  with v have "visible c" by (simp add: list_all_iff)
  then have "strip_any (length bs) (map rev whitespace_encodings) (rev bs) = rev bs"
    unfolding rev using whitespace_not_visible(2) by (rule strip_visible)
  with front show ?thesis by (simp add: trim_bytes_def)
qed (simp add: trim_bytes_def)

lemma trim_null_visible: "list_all visible bs \<Longrightarrow> trim_null_utf8 (bs @ replicate n 0) = bytes_text bs"
proof -
  assume v: "list_all visible bs"
  then have "takeWhile (\<lambda>b. b \<noteq> 0) (bs @ replicate n 0) = bs"
    by (subst takeWhile_append2) (auto simp: list_all_iff visible_ascii takeWhile_replicate)
  with v show ?thesis
    by (simp add: trim_null_utf8_def utf8_lossy_ascii trim_bytes_visible list_all_iff visible_ascii)
qed

lemma hex_of_bytes_zeros: "hex_of_bytes (bs @ replicate n 0) = hex_of_bytes bs @ replicate (2 * n) CHR ''0''"
proof -
  have "hex_of_bytes (replicate n 0) = replicate (2 * n) CHR ''0''"
    by (induction n) (simp_all add: hex_of_bytes_def hex_fixed_0 numeral_2_eq_2 del: hex_fixed.simps)
  then show ?thesis by (simp add: hex_of_bytes_def)
qed

text \<open>A token's symbol is read back from both encodings contracts use: the string of the ABI, and the
  32 bytes of old tokens.\<close>

theorem token_symbol_roundtrip:
  assumes "reads_hex lib" "list_all visible symbol" "length symbol < 2 ^ 62"
  shows "decode_abi_string_or_bytes32 lib (''0x'' @ abi_string symbol) = Inr (bytes_text symbol) \<and>
     (length symbol \<le> 32 \<longrightarrow> decode_abi_string_or_bytes32 lib (''0x'' @ abi_bytes32 symbol) = Inr (bytes_text symbol))"
proof (intro conjI impI)
  assume le: "length symbol \<le> 32"
  define clean where "clean = hex_of_bytes (symbol @ replicate (32 - length symbol) 0)"
  have "abi_bytes32 symbol = clean"
    by (simp add: abi_bytes32_def clean_def hex_of_bytes_zeros diff_mult_distrib2)
  moreover have "trim_start_0x (''0x'' @ clean) = clean" by (simp add: clean_def)
  moreover have "length clean = 64" using le by (simp add: clean_def)
  moreover have "hex_to_bytes clean = Inr (symbol @ replicate (32 - length symbol) 0)"
    unfolding clean_def by (rule hex_to_bytes_of_bytes)
  ultimately show "decode_abi_string_or_bytes32 lib (''0x'' @ abi_bytes32 symbol) = Inr (bytes_text symbol)"
    using assms(2) by (simp add: decode_abi_string_or_bytes32_def Let_def trim_null_visible)
next
  define n where "n = length symbol"
  define pad where "pad = 2 * ((32 - n mod 32) mod 32)"
  define clean where "clean = abi_string symbol"
  have clean: "clean = hex_fixed 64 32 @ hex_fixed 64 n @ hex_of_bytes symbol @ replicate pad CHR ''0''"
    by (simp add: clean_def abi_string_def n_def pad_def)
  have digits: "hex_text clean" unfolding clean by (simp del: hex_fixed.simps)
  have len: "length clean = 128 + (2 * n + pad)" unfolding clean n_def by simp
  obtain q r where qr: "n mod 32 = r" "n = 32 * q + r" "r < 32"
    using mult_div_mod_eq [of 32 n] mod_less_divisor [of 32 n] by (metis zero_less_numeral)
  then have "n + (32 - n mod 32) = 32 * (q + 1)" by simp
  then have "(n + (32 - n mod 32) mod 32) mod 32 = 0" by (metis mod_add_right_eq mod_mult_self1_is_0)
  then obtain k where "n + (32 - n mod 32) mod 32 = 32 * k" by (metis dvdE mod_0_imp_dvd)
  then have "2 * n + pad = 64 * k" by (simp add: pad_def)
  then have aligned: "length clean mod 64 = 0" unfolding len by simp
  have two: "1 < length clean div 64" "\<not> length clean < 128" unfolding len by auto
  have trim: "trim_start_0x (''0x'' @ clean) = clean" using digits by simp
  have "decode_32byte_words (''0x'' @ clean) =
      Inr (map (\<lambda>i. slice clean (64 * i) (64 * i + 64)) [0 ..< length clean div 64])"
    unfolding decode_32byte_words_def trim Let_def using aligned len by auto
  moreover have "slice clean 64 128 = hex_fixed 64 n" unfolding clean by (simp del: hex_fixed.simps)
  moreover have "n < 2 ^ 256" using assms(3) by (simp add: n_def)
  then have "parse_word_u256 lib (hex_fixed 64 n) = Inr (word_of_nat n)"
    using assms(1) by (simp add: parse_word_u256_def reads_hex_def)
  moreover have "unat (word_of_nat n :: u256) = n" using \<open>n < 2 ^ 256\<close> by (intro unat_of_nat_small) simp
  moreover have "take (n * 2) (drop 128 clean) = hex_of_bytes symbol" unfolding clean n_def by (simp del: hex_fixed.simps)
  moreover have "n < 2 ^ 62" using assms(3) by (simp add: n_def)
  ultimately show "decode_abi_string_or_bytes32 lib (''0x'' @ abi_string symbol) = Inr (bytes_text symbol)"
    unfolding clean_def [symmetric] decode_abi_string_or_bytes32_def trim Let_def
    using two len assms(2) trim_null_visible [of symbol 0]
    by (simp add: usize_of_u256_def hex_to_bytes_of_bytes)
qed

theorem token_symbol_roundtrip_witness:
  "decode_abi_string_or_bytes32 hex_libs (''0x'' @ abi_string [0x55, 0x53, 0x44, 0x43]) = Inr ''USDC''"
  using token_symbol_roundtrip [of hex_libs "[0x55, 0x53, 0x44, 0x43]"]
  by (simp add: visible_def bytes_text_def char_of_def bit_0)

end
