(* ===== verification/Chain_Provider.thy ===== *)
theory Chain_Provider
  imports Chain_Codec
begin

text \<open>
  The node client of \<open>crates/chain/src/provider.rs\<close>: JSON-RPC requests, contract calls and the pool and
  tick states read with them. The HTTP post is a parameter, \<open>rp_post\<close>, which takes the request and gives
  the parsed response; the chain behind it is the state \<open>'s\<close>.

  The code indexes the words of an answer without looking at their number. An index out of bounds is a
  panic: it is modelled as the error with an empty chain of messages, which no handler and no context of
  the code touches.
\<close>

section \<open>Panics\<close>

definition panic :: "'a anyhow" where
  "panic = Inl []"

definition annotate :: "string \<Rightarrow> ('s, 'a) act \<Rightarrow> ('s, 'a) act" where
  "annotate c m s = (case m s of (Inl [], s') \<Rightarrow> (Inl [], s') | (r, s') \<Rightarrow> (with_context c r, s'))"

definition attempt :: "('s, 'a) act \<Rightarrow> ('a \<Rightarrow> ('s, 'b) act) \<Rightarrow> (string list \<Rightarrow> ('s, 'b) act) \<Rightarrow> ('s, 'b) act" where
  "attempt m f g = handle m f (\<lambda>e. if e = [] then lift (Inl []) else g e)"

text \<open>\<open>.ok()\<close>.\<close>

definition ok :: "('s, 'a) act \<Rightarrow> ('s, 'a option) act" where
  "ok m = attempt m (\<lambda>x. pass (Some x)) (\<lambda>_. pass None)"

definition word_nth :: "string list \<Rightarrow> nat \<Rightarrow> string anyhow" where
  "word_nth words i = (if i < length words then Inr (words ! i) else panic)"

lemma annotate_ok: "m s = (Inr x, s') \<Longrightarrow> annotate c m s = (Inr x, s')"
  by (simp add: annotate_def)

lemma attempt_ok: "m s = (Inr x, s') \<Longrightarrow> attempt m f g s = f x s'"
  by (simp add: attempt_def handle_def)

lemma ok_ok: "m s = (Inr x, s') \<Longrightarrow> ok m s = (Inr (Some x), s')"
  by (simp add: ok_def attempt_ok act_run)

section \<open>JSON-RPC\<close>

record rpc_error =
  er_code :: "int option"
  er_message :: string
  er_data :: "json option"

record rpc_response =
  rs_result :: "json option"
  rs_error :: "rpc_error option"

record 's rpc_env =
  rp_chain_id :: u64
  rp_post :: "json \<Rightarrow> ('s, rpc_response) act"
  rp_now :: "'s \<Rightarrow> datetime \<times> 's"
  rp_json_text :: "json \<Rightarrow> string"
  rp_parse_b256 :: "string \<Rightarrow> b256 anyhow"

definition rpc_request :: "string \<Rightarrow> json \<Rightarrow> json" where
  "rpc_request method params = JObject
     [(''jsonrpc'', JString ''2.0''), (''id'', JNumber 1), (''method'', JString method), (''params'', params)]"

definition rpc_error_text :: "'s rpc_env \<Rightarrow> string \<Rightarrow> rpc_error \<Rightarrow> string" where
  "rpc_error_text rp method e =
     ''rpc '' @ method @ '' failed: code='' @ (case er_code e of None \<Rightarrow> ''-'' | Some c \<Rightarrow> int_dec c) @
     '' message='' @ er_message e @ '' data='' @ (case er_data e of None \<Rightarrow> ''-'' | Some d \<Rightarrow> rp_json_text rp d)"

definition rpc_optional :: "'s rpc_env \<Rightarrow> string \<Rightarrow> json \<Rightarrow> ('s, json option) act" where
  "rpc_optional rp method params =
     bind (rp_post rp (rpc_request method params)) (\<lambda>response.
     case rs_error response of
       Some e \<Rightarrow> fail (rpc_error_text rp method e)
     | None \<Rightarrow> pass (rs_result response))"

definition rpc :: "'s rpc_env \<Rightarrow> string \<Rightarrow> json \<Rightarrow> ('s, json) act" where
  "rpc rp method params =
     bind (rpc_optional rp method params) (\<lambda>result.
     lift (ok_or_message result (''rpc '' @ method @ '' returned no result'')))"

definition str_or :: "string \<Rightarrow> json \<Rightarrow> string" where
  "str_or fallback v = (case json_as_str v of None \<Rightarrow> fallback | Some s \<Rightarrow> s)"

definition block_text :: "u64 \<Rightarrow> string" where
  "block_text b = prefixed_hex (unat b)"

definition get_block_number :: "'s rpc_env \<Rightarrow> ('s, u64) act" where
  "get_block_number rp = bind (rpc rp ''eth_blockNumber'' (JArray [])) (\<lambda>v. lift (parse_hex_u64 (str_or ''0x0'' v)))"

definition get_block_hash :: "'s rpc_env \<Rightarrow> u64 \<Rightarrow> ('s, string) act" where
  "get_block_hash rp block_number =
     bind (rpc rp ''eth_getBlockByNumber'' (JArray [JString (block_text block_number), JBool False])) (\<lambda>v.
     lift (ok_or_message (Option.bind (json_get v ''hash'') json_as_str) ''eth_getBlockByNumber returned no hash''))"

definition get_block_by_number_raw :: "'s rpc_env \<Rightarrow> u64 \<Rightarrow> bool \<Rightarrow> ('s, json option) act" where
  "get_block_by_number_raw rp block_number full_transactions =
     rpc_optional rp ''eth_getBlockByNumber'' (JArray [JString (block_text block_number), JBool full_transactions])"

definition get_transaction_count :: "'s rpc_env \<Rightarrow> address \<Rightarrow> bool \<Rightarrow> ('s, u64) act" where
  "get_transaction_count rp a pending =
     bind (rpc rp ''eth_getTransactionCount''
             (JArray [JString (address_hex a), JString (if pending then ''pending'' else ''latest'')])) (\<lambda>v.
     lift (parse_hex_u64 (str_or ''0x0'' v)))"

definition get_balance :: "libs \<Rightarrow> 's rpc_env \<Rightarrow> address \<Rightarrow> ('s, u256) act" where
  "get_balance lib rp a =
     bind (rpc rp ''eth_getBalance'' (JArray [JString (address_hex a), JString ''latest''])) (\<lambda>v.
     lift (parse_hex_u256 lib (str_or ''0x0'' v)))"

definition get_code :: "'s rpc_env \<Rightarrow> address \<Rightarrow> ('s, string) act" where
  "get_code rp a =
     bind (rpc rp ''eth_getCode'' (JArray [JString (address_hex a), JString ''latest''])) (\<lambda>v. pass (str_or ''0x'' v))"

definition estimate_gas :: "libs \<Rightarrow> 's rpc_env \<Rightarrow> address \<Rightarrow> address \<Rightarrow> string \<Rightarrow> ('s, u256) act" where
  "estimate_gas lib rp sender to data =
     bind (rpc rp ''eth_estimateGas'' (JArray [JObject
       [(''from'', JString (address_hex sender)), (''to'', JString (address_hex to)), (''data'', JString data)]])) (\<lambda>v.
     lift (parse_hex_u256 lib (str_or ''0x0'' v)))"

text \<open>An optional field that is read when it is a string.\<close>

definition hex_field :: "(string \<Rightarrow> 'a anyhow) \<Rightarrow> json \<Rightarrow> string \<Rightarrow> 'a option anyhow" where
  "hex_field parse v k =
     (case Option.bind (json_get v k) json_as_str of
        None \<Rightarrow> Inr None
      | Some s \<Rightarrow> rbind (parse s) (\<lambda>x. Inr (Some x)))"

definition suggested_eip1559_fee_details :: "libs \<Rightarrow> 's rpc_env \<Rightarrow> ('s, eip1559_fee_suggestion) act" where
  "suggested_eip1559_fee_details lib rp =
     bind (attempt (rpc rp ''eth_maxPriorityFeePerGas'' (JArray []))
             (\<lambda>v. lift (parse_hex_u256 lib (str_or ''0x0'' v))) (\<lambda>_. pass 1000000)) (\<lambda>priority.
     bind (rpc rp ''eth_getBlockByNumber'' (JArray [JString ''latest'', JBool False])) (\<lambda>latest.
     bind (lift (hex_field (parse_hex_u256 lib) latest ''baseFeePerGas'')) (\<lambda>base_fee.
     let base_fee = (case base_fee of None \<Rightarrow> 0 | Some f \<Rightarrow> f)
     in pass \<lparr>fe_base_fee_per_gas = base_fee,
          fe_max_fee_per_gas = saturating_add (saturating_mul base_fee 2) priority,
          fe_max_priority_fee_per_gas = priority\<rparr>)))"

definition suggested_eip1559_fees :: "libs \<Rightarrow> 's rpc_env \<Rightarrow> ('s, u256 \<times> u256) act" where
  "suggested_eip1559_fees lib rp =
     bind (suggested_eip1559_fee_details lib rp) (\<lambda>d. pass (fe_max_fee_per_gas d, fe_max_priority_fee_per_gas d))"

definition send_raw_transaction :: "'s rpc_env \<Rightarrow> string \<Rightarrow> ('s, b256) act" where
  "send_raw_transaction rp raw_tx =
     bind (rpc rp ''eth_sendRawTransaction'' (JArray [JString raw_tx])) (\<lambda>v.
     bind (lift (ok_or_message (json_as_str v) ''eth_sendRawTransaction returned non-string tx hash'')) (\<lambda>s.
     lift (with_context ''failed to parse tx hash'' (rp_parse_b256 rp s))))"

definition b256_text :: "b256 \<Rightarrow> string" where
  "b256_text h = ''0x'' @ hex_fixed 64 (unat h)"

definition receipt_of_json :: "libs \<Rightarrow> b256 \<Rightarrow> json \<Rightarrow> tx_receipt anyhow" where
  "receipt_of_json lib tx_hash v =
     rbind (hex_field parse_hex_u64 v ''status'') (\<lambda>status.
     rbind (hex_field (parse_hex_u256 lib) v ''gasUsed'') (\<lambda>gas_used.
     rbind (hex_field (parse_hex_u256 lib) v ''effectiveGasPrice'') (\<lambda>effective_gas_price.
     rbind (hex_field parse_hex_u64 v ''blockNumber'') (\<lambda>block_number.
     Inr \<lparr>rc_tx_hash = tx_hash, rc_success = (status = Some 1), rc_gas_used = gas_used,
       rc_effective_gas_price = effective_gas_price, rc_block_number = block_number, rc_raw = v\<rparr>))))"

definition get_transaction_receipt :: "libs \<Rightarrow> 's rpc_env \<Rightarrow> b256 \<Rightarrow> ('s, tx_receipt option) act" where
  "get_transaction_receipt lib rp tx_hash =
     bind (rpc_optional rp ''eth_getTransactionReceipt'' (JArray [JString (b256_text tx_hash)])) (\<lambda>v.
     case v of
       None \<Rightarrow> pass None
     | Some v \<Rightarrow>
         if v = JNull then pass None
         else lift (rbind (receipt_of_json lib tx_hash v) (\<lambda>r. Inr (Some r))))"

definition get_transaction_by_hash :: "'s rpc_env \<Rightarrow> b256 \<Rightarrow> ('s, json option) act" where
  "get_transaction_by_hash rp tx_hash = rpc_optional rp ''eth_getTransactionByHash'' (JArray [JString (b256_text tx_hash)])"

definition json_values :: "json \<Rightarrow> string \<Rightarrow> json list anyhow" where
  "json_values v message = ok_or_message (json_as_array v) message"

definition get_logs_raw :: "'s rpc_env \<Rightarrow> json \<Rightarrow> ('s, json list) act" where
  "get_logs_raw rp params =
     bind (rpc rp ''eth_getLogs'' params) (\<lambda>v. lift (json_values v ''failed to decode eth_getLogs result''))"

section \<open>Contract calls\<close>

definition call_object :: "address option \<Rightarrow> address \<Rightarrow> string \<Rightarrow> json" where
  "call_object sender to data = JObject ([(''to'', JString (address_hex to)), (''data'', JString data)] @
     (case sender of None \<Rightarrow> [] | Some a \<Rightarrow> [(''from'', JString (address_hex a))]))"

definition call_result :: "string \<Rightarrow> address \<Rightarrow> json \<Rightarrow> string anyhow" where
  "call_result label to v =
     (let result = str_or ''0x'' v in
      if result = ''0x'' then bail (label @ '' returned empty result for pool '' @ address_hex to) else Inr result)"

definition eth_call_from_at_block ::
    "'s rpc_env \<Rightarrow> address option \<Rightarrow> address \<Rightarrow> string \<Rightarrow> string \<Rightarrow> u64 option \<Rightarrow> ('s, string) act" where
  "eth_call_from_at_block rp sender to data label block_number =
     bind (annotate (''eth_call '' @ label @ '' to='' @ address_hex to @ '' data='' @ data)
             (rpc rp ''eth_call'' (JArray [call_object sender to data,
                JString (case block_number of None \<Rightarrow> ''latest'' | Some b \<Rightarrow> block_text b)]))) (\<lambda>v.
     lift (call_result label to v))"

definition eth_call_from_at_block_hash ::
    "'s rpc_env \<Rightarrow> address option \<Rightarrow> address \<Rightarrow> string \<Rightarrow> string \<Rightarrow> string \<Rightarrow> ('s, string) act" where
  "eth_call_from_at_block_hash rp sender to data label block_hash =
     bind (annotate (''eth_call '' @ label @ '' to='' @ address_hex to @ '' data='' @ data @ '' block_hash='' @ block_hash)
             (rpc rp ''eth_call'' (JArray [call_object sender to data,
                JObject [(''blockHash'', JString block_hash), (''requireCanonical'', JBool True)]]))) (\<lambda>v.
     lift (call_result label to v))"

definition eth_call_from :: "'s rpc_env \<Rightarrow> address option \<Rightarrow> address \<Rightarrow> string \<Rightarrow> string \<Rightarrow> ('s, string) act" where
  "eth_call_from rp sender to data label = eth_call_from_at_block rp sender to data label None"

definition eth_call_at_block :: "'s rpc_env \<Rightarrow> address \<Rightarrow> string \<Rightarrow> string \<Rightarrow> u64 option \<Rightarrow> ('s, string) act" where
  "eth_call_at_block rp to data label block_number = eth_call_from_at_block rp None to data label block_number"

definition eth_call_at_block_hash :: "'s rpc_env \<Rightarrow> address \<Rightarrow> string \<Rightarrow> string \<Rightarrow> string \<Rightarrow> ('s, string) act" where
  "eth_call_at_block_hash rp to data label block_hash = eth_call_from_at_block_hash rp None to data label block_hash"

definition eth_call :: "'s rpc_env \<Rightarrow> address \<Rightarrow> string \<Rightarrow> string \<Rightarrow> ('s, string) act" where
  "eth_call rp to data label = eth_call_from_at_block rp None to data label None"

definition call_words :: "('s, string) act \<Rightarrow> ('s, string list) act" where
  "call_words call = bind call (\<lambda>raw. lift (decode_32byte_words raw))"

definition fetch_v2_pair :: "libs \<Rightarrow> 's rpc_env \<Rightarrow> address \<Rightarrow> address \<Rightarrow> address \<Rightarrow> ('s, address) act" where
  "fetch_v2_pair lib rp factory token_a token_b =
     bind (eth_call rp factory (encode_get_pair token_a token_b) ''V2 factory getPair(address,address)'') (\<lambda>raw.
     lift (with_context ''V2 factory getPair returned non-address'' (decode_single_address lib raw)))"

definition query_balancer_v3_swap_exact_in ::
    "libs \<Rightarrow> 's rpc_env \<Rightarrow> address \<Rightarrow> address \<Rightarrow> address \<Rightarrow> address \<Rightarrow> u256 \<Rightarrow> address \<Rightarrow> ('s, u256) act" where
  "query_balancer_v3_swap_exact_in lib rp router pool token_in token_out amount_in sender =
     bind (call_words (eth_call_from rp (Some sender) router
             (encode_balancer_query_swap_exact_in pool token_in token_out amount_in sender)
             ''BalancerV3 querySwapSingleTokenExactIn'')) (\<lambda>words.
     if words = [] then fail ''BalancerV3 query returned no words''
     else lift (rbind (word_nth words 0) (parse_word_u256 lib)))"

section \<open>Reading tokens and pools\<close>

definition fetch_erc20_symbol :: "libs \<Rightarrow> 's rpc_env \<Rightarrow> address \<Rightarrow> ('s, string) act" where
  "fetch_erc20_symbol lib rp token =
     bind (eth_call rp token ''0x95d89b41'' ''ERC20 symbol()'') (\<lambda>raw. lift (decode_abi_string_or_bytes32 lib raw))"

definition fetch_token_decimals :: "libs \<Rightarrow> 's rpc_env \<Rightarrow> address \<Rightarrow> ('s, u8) act" where
  "fetch_token_decimals lib rp token =
     bind (call_words (eth_call rp token ''0x313ce567'' ''decimals()'')) (\<lambda>words.
     bind (lift (rbind (word_nth words 0) (parse_word_u256 lib))) (\<lambda>decimals.
     if unat decimals < 2 ^ 8 then pass (ucast decimals)
     else fail (''token decimals too large for '' @ address_hex token @ '': '' @ nat_dec (unat decimals))))"

definition fetch_pool_tokens :: "libs \<Rightarrow> 's rpc_env \<Rightarrow> address \<Rightarrow> ('s, address \<times> address) act" where
  "fetch_pool_tokens lib rp pool =
     bind (eth_call rp pool ''0x0dfe1681'' ''token0()'') (\<lambda>token0_raw.
     bind (eth_call rp pool ''0xd21220a7'' ''token1()'') (\<lambda>token1_raw.
     lift (
       rbind (decode_32byte_words token0_raw) (\<lambda>token0_words.
       rbind (decode_32byte_words token1_raw) (\<lambda>token1_words.
       rbind (rbind (word_nth token0_words 0) (parse_word_address lib)) (\<lambda>token0.
       rbind (rbind (word_nth token1_words 0) (parse_word_address lib)) (\<lambda>token1.
       Inr (token0, token1))))))))"

definition fetch_pool_factory :: "libs \<Rightarrow> 's rpc_env \<Rightarrow> address \<Rightarrow> ('s, address) act" where
  "fetch_pool_factory lib rp pool =
     bind (call_words (eth_call rp pool ''0xc45a0155'' ''factory()'')) (\<lambda>words.
     lift (rbind (word_nth words 0) (parse_word_address lib)))"

definition fetch_pool_stable :: "libs \<Rightarrow> 's rpc_env \<Rightarrow> address \<Rightarrow> ('s, bool) act" where
  "fetch_pool_stable lib rp pool =
     bind (call_words (eth_call rp pool ''0x22be3de1'' ''stable()'')) (\<lambda>words.
     lift (rbind (rbind (word_nth words 0) (parse_word_u256 lib)) (\<lambda>v. Inr (v \<noteq> 0))))"

definition fetch_v3_fee_pips :: "libs \<Rightarrow> 's rpc_env \<Rightarrow> address \<Rightarrow> ('s, u32) act" where
  "fetch_v3_fee_pips lib rp pool =
     bind (eth_call rp pool ''0xddca3f43'' ''fee()'') (\<lambda>raw. lift (decode_fee_pips lib raw))"

definition classic_pool_fee :: "libs \<Rightarrow> string list \<Rightarrow> u32 anyhow" where
  "classic_pool_fee lib words =
     rbind (rbind (word_nth words 0) (parse_word_u256 lib)) (\<lambda>fee.
     u32_of_u256 fee (''classic pool fee too large: '' @ nat_dec (unat fee)))"

definition fetch_classic_pool_fee_bps :: "libs \<Rightarrow> 's rpc_env \<Rightarrow> address \<Rightarrow> ('s, u32) act" where
  "fetch_classic_pool_fee_bps lib rp pool =
     bind (call_words (eth_call rp pool ''0x30adf81f'' ''fee()'')) (\<lambda>words. lift (classic_pool_fee lib words))"

definition fetch_classic_pool_fee_bps_at_block :: "libs \<Rightarrow> 's rpc_env \<Rightarrow> address \<Rightarrow> u64 option \<Rightarrow> ('s, u32) act" where
  "fetch_classic_pool_fee_bps_at_block lib rp pool block_number =
     bind (call_words (eth_call_at_block rp pool ''0x30adf81f'' ''fee()'' block_number)) (\<lambda>words.
     lift (classic_pool_fee lib words))"

definition fetch_classic_pool_fee_bps_at_block_hash :: "libs \<Rightarrow> 's rpc_env \<Rightarrow> address \<Rightarrow> string \<Rightarrow> ('s, u32) act" where
  "fetch_classic_pool_fee_bps_at_block_hash lib rp pool block_hash =
     bind (call_words (eth_call_at_block_hash rp pool ''0x30adf81f'' ''fee()'' block_hash)) (\<lambda>words.
     lift (classic_pool_fee lib words))"

subsection \<open>Fees of Aerodrome\<close>

text \<open>The factory's answer, or else the pool's.\<close>

definition aerodrome_classic_fee :: "libs \<Rightarrow> ('s, string) act \<Rightarrow> ('s, u32) act \<Rightarrow> ('s, u32) act" where
  "aerodrome_classic_fee lib factory_call pool_fee =
     bind (attempt factory_call
       (\<lambda>raw. lift (rbind (decode_32byte_words raw) (\<lambda>words. rbind (word_nth words 0) (parse_word_u256 lib))))
       (\<lambda>factory_err. attempt pool_fee (\<lambda>fee. pass (ucast fee)) (\<lambda>pool_err.
          fail (''factory getFee failed ('' @ err_display factory_err @ ''); pool fee() fallback failed ('' @
            err_display pool_err @ '')'')))) (\<lambda>fee :: u256.
     lift (u32_of_u256 fee (''Aerodrome fee too large: '' @ nat_dec (unat fee))))"

definition fetch_aerodrome_classic_fee_bps_at_block ::
    "libs \<Rightarrow> 's rpc_env \<Rightarrow> address \<Rightarrow> address \<Rightarrow> bool \<Rightarrow> u64 option \<Rightarrow> ('s, u32) act" where
  "fetch_aerodrome_classic_fee_bps_at_block lib rp factory pool stable' block_number =
     aerodrome_classic_fee lib
       (eth_call_at_block rp factory (encode_get_fee pool stable') ''Aerodrome factory getFee(address,bool)'' block_number)
       (fetch_classic_pool_fee_bps_at_block lib rp pool block_number)"

definition fetch_aerodrome_classic_fee_bps_at_block_hash ::
    "libs \<Rightarrow> 's rpc_env \<Rightarrow> address option \<Rightarrow> address \<Rightarrow> bool \<Rightarrow> string \<Rightarrow> ('s, u32) act" where
  "fetch_aerodrome_classic_fee_bps_at_block_hash lib rp factory pool stable' block_hash =
     aerodrome_classic_fee lib
       (eth_call_at_block_hash rp (case factory of None \<Rightarrow> aerodrome_classic_factory | Some f \<Rightarrow> f)
          (encode_get_fee pool stable') ''Aerodrome factory getFee(address,bool)'' block_hash)
       (fetch_classic_pool_fee_bps_at_block_hash lib rp pool block_hash)"

definition fetch_aerodrome_classic_fee_bps ::
    "libs \<Rightarrow> 's rpc_env \<Rightarrow> address \<Rightarrow> address \<Rightarrow> bool \<Rightarrow> ('s, u32) act" where
  "fetch_aerodrome_classic_fee_bps lib rp factory pool stable' =
     fetch_aerodrome_classic_fee_bps_at_block lib rp factory pool stable' None"

text \<open>The registry's fee replaces an answer that failed, when there is one.\<close>

definition registry_fee_fallback :: "pool_registry_entry \<Rightarrow> ('s, u32) act \<Rightarrow> ('s, u32) act" where
  "registry_fee_fallback entry call =
     attempt call pass (\<lambda>err. if 0 < re_fee_bps entry then pass (re_fee_bps entry) else lift (Inl err))"

definition entry_stable :: "pool_registry_entry \<Rightarrow> bool" where
  "entry_stable entry = (case re_stable entry of None \<Rightarrow> False | Some b \<Rightarrow> b)"

definition fetch_aerodrome_classic_fee_bps_for_entry_at_block ::
    "libs \<Rightarrow> 's rpc_env \<Rightarrow> pool_registry_entry \<Rightarrow> u64 option \<Rightarrow> ('s, u32) act" where
  "fetch_aerodrome_classic_fee_bps_for_entry_at_block lib rp entry block_number =
     registry_fee_fallback entry
       (fetch_aerodrome_classic_fee_bps_at_block lib rp
          (case re_factory_address entry of None \<Rightarrow> aerodrome_classic_factory | Some f \<Rightarrow> f)
          (re_pool_address entry) (entry_stable entry) block_number)"

definition fetch_aerodrome_classic_fee_bps_for_entry_at_block_hash ::
    "libs \<Rightarrow> 's rpc_env \<Rightarrow> pool_registry_entry \<Rightarrow> string \<Rightarrow> ('s, u32) act" where
  "fetch_aerodrome_classic_fee_bps_for_entry_at_block_hash lib rp entry block_hash =
     registry_fee_fallback entry
       (fetch_aerodrome_classic_fee_bps_at_block_hash lib rp (re_factory_address entry) (re_pool_address entry)
          (entry_stable entry) block_hash)"

definition slipstream_factory :: "address option \<Rightarrow> address" where
  "slipstream_factory factory = (case factory of None \<Rightarrow> aerodrome_slipstream_factories ! 0 | Some f \<Rightarrow> f)"

definition fetch_aerodrome_slipstream_fee_pips_for_entry_at_block ::
    "libs \<Rightarrow> 's rpc_env \<Rightarrow> pool_registry_entry \<Rightarrow> u64 option \<Rightarrow> ('s, u32) act" where
  "fetch_aerodrome_slipstream_fee_pips_for_entry_at_block lib rp entry block_number =
     bind (eth_call_at_block rp (slipstream_factory (re_factory_address entry))
             (encode_get_swap_fee (re_pool_address entry)) ''Aerodrome Slipstream getSwapFee(address)'' block_number) (\<lambda>raw.
     lift (decode_fee_pips lib raw))"

definition fetch_aerodrome_slipstream_fee_pips_at_block_hash ::
    "libs \<Rightarrow> 's rpc_env \<Rightarrow> address option \<Rightarrow> address \<Rightarrow> string \<Rightarrow> ('s, u32) act" where
  "fetch_aerodrome_slipstream_fee_pips_at_block_hash lib rp factory pool block_hash =
     bind (eth_call_at_block_hash rp (slipstream_factory factory) (encode_get_swap_fee pool)
             ''Aerodrome Slipstream getSwapFee(address)'' block_hash) (\<lambda>raw.
     lift (decode_fee_pips lib raw))"

definition fetch_aerodrome_slipstream_fee_pips_for_entry_at_block_hash ::
    "libs \<Rightarrow> 's rpc_env \<Rightarrow> pool_registry_entry \<Rightarrow> string \<Rightarrow> ('s, u32) act" where
  "fetch_aerodrome_slipstream_fee_pips_for_entry_at_block_hash lib rp entry block_hash =
     fetch_aerodrome_slipstream_fee_pips_at_block_hash lib rp (re_factory_address entry) (re_pool_address entry) block_hash"

definition fetch_aerodrome_slipstream_fee_pips ::
    "libs \<Rightarrow> 's rpc_env \<Rightarrow> address \<Rightarrow> address \<Rightarrow> ('s, u32) act" where
  "fetch_aerodrome_slipstream_fee_pips lib rp factory pool =
     bind (eth_call rp factory (encode_get_swap_fee pool) ''Aerodrome Slipstream getSwapFee(address)'') (\<lambda>raw.
     lift (decode_fee_pips lib raw))"

end
