(* ===== verification/Chain_Pools.thy ===== *)
theory Chain_Pools
  imports Chain_Provider Act_Triples
begin

text \<open>
  Pool states and initialised ticks read from the node, \<open>crates/chain/src/provider.rs\<close>: reserves, the price
  of concentrated pools, the state of a registry entry at a block or at a block hash, and the walk over
  the tick bitmap of a pool. A struct literal of the source evaluates its fields in order, and so do the
  actions here.
\<close>

section \<open>Reserves and prices\<close>

definition reserves_of_words :: "libs \<Rightarrow> string list \<Rightarrow> (u256 \<times> u256) anyhow" where
  "reserves_of_words lib words =
     rbind (rbind (word_nth words 0) (parse_word_u256 lib)) (\<lambda>reserve0.
     rbind (rbind (word_nth words 1) (parse_word_u256 lib)) (\<lambda>reserve1. Inr (reserve0, reserve1)))"

definition fetch_aerodrome_reserves_at_block :: "libs \<Rightarrow> 's rpc_env \<Rightarrow> address \<Rightarrow> u64 option \<Rightarrow> ('s, u256 \<times> u256) act" where
  "fetch_aerodrome_reserves_at_block lib rp pool block_number =
     bind (call_words (eth_call_at_block rp pool ''0x0902f1ac'' ''Aerodrome getReserves()'' block_number)) (\<lambda>words.
     lift (reserves_of_words lib words))"

definition fetch_aerodrome_reserves_at_block_hash :: "libs \<Rightarrow> 's rpc_env \<Rightarrow> address \<Rightarrow> string \<Rightarrow> ('s, u256 \<times> u256) act" where
  "fetch_aerodrome_reserves_at_block_hash lib rp pool block_hash =
     bind (call_words (eth_call_at_block_hash rp pool ''0x0902f1ac'' ''Aerodrome getReserves()'' block_hash)) (\<lambda>words.
     lift (reserves_of_words lib words))"

text \<open>\<open>slot0()\<close> is read completely before \<open>liquidity()\<close> is called.\<close>

definition slot0_of_words :: "libs \<Rightarrow> string list \<Rightarrow> (u256 \<times> i32) anyhow" where
  "slot0_of_words lib words =
     rbind (rbind (word_nth words 0) (parse_word_u256 lib)) (\<lambda>sqrt_price_x96.
     rbind (rbind (word_nth words 1) parse_word_i24) (\<lambda>tick. Inr (sqrt_price_x96, tick)))"

definition read_v3_state :: "libs \<Rightarrow> ('s, string) act \<Rightarrow> ('s, string) act \<Rightarrow> ('s, u256 \<times> i32 \<times> u256) act" where
  "read_v3_state lib slot0_call liquidity_call =
     bind (call_words slot0_call) (\<lambda>slot0_words.
     bind (lift (slot0_of_words lib slot0_words)) (\<lambda>(sqrt_price_x96, tick).
     bind (call_words liquidity_call) (\<lambda>liquidity_words.
     lift (rbind (rbind (word_nth liquidity_words 0) (parse_word_u256 lib)) (\<lambda>liquidity.
       Inr (sqrt_price_x96, tick, liquidity))))))"

definition fetch_aerodrome_slipstream_state_at_block ::
    "libs \<Rightarrow> 's rpc_env \<Rightarrow> address \<Rightarrow> u64 option \<Rightarrow> ('s, u256 \<times> i32 \<times> u256) act" where
  "fetch_aerodrome_slipstream_state_at_block lib rp pool block_number =
     read_v3_state lib
       (eth_call_at_block rp pool ''0x3850c7bd'' ''Aerodrome Slipstream slot0()'' block_number)
       (eth_call_at_block rp pool ''0x1a686502'' ''Aerodrome Slipstream liquidity()'' block_number)"

definition fetch_aerodrome_slipstream_state_at_block_hash ::
    "libs \<Rightarrow> 's rpc_env \<Rightarrow> address \<Rightarrow> string \<Rightarrow> ('s, u256 \<times> i32 \<times> u256) act" where
  "fetch_aerodrome_slipstream_state_at_block_hash lib rp pool block_hash =
     read_v3_state lib
       (eth_call_at_block_hash rp pool ''0x3850c7bd'' ''Aerodrome Slipstream slot0()'' block_hash)
       (eth_call_at_block_hash rp pool ''0x1a686502'' ''Aerodrome Slipstream liquidity()'' block_hash)"

definition fetch_uniswap_v3_state_at_block ::
    "libs \<Rightarrow> 's rpc_env \<Rightarrow> address \<Rightarrow> u64 option \<Rightarrow> ('s, u256 \<times> i32 \<times> u256) act" where
  "fetch_uniswap_v3_state_at_block lib rp pool block_number =
     read_v3_state lib
       (eth_call_at_block rp pool ''0x3850c7bd'' ''UniswapV3 slot0()'' block_number)
       (eth_call_at_block rp pool ''0x1a686502'' ''UniswapV3 liquidity()'' block_number)"

definition fetch_uniswap_v3_state_at_block_hash ::
    "libs \<Rightarrow> 's rpc_env \<Rightarrow> address \<Rightarrow> string \<Rightarrow> ('s, u256 \<times> i32 \<times> u256) act" where
  "fetch_uniswap_v3_state_at_block_hash lib rp pool block_hash =
     read_v3_state lib
       (eth_call_at_block_hash rp pool ''0x3850c7bd'' ''UniswapV3 slot0()'' block_hash)
       (eth_call_at_block_hash rp pool ''0x1a686502'' ''UniswapV3 liquidity()'' block_hash)"

definition fetch_uniswap_v3_state :: "libs \<Rightarrow> 's rpc_env \<Rightarrow> address \<Rightarrow> ('s, u256 \<times> i32 \<times> u256) act" where
  "fetch_uniswap_v3_state lib rp pool = fetch_uniswap_v3_state_at_block lib rp pool None"

section \<open>Pool states\<close>

text \<open>The literal both kinds of pools start from; everything not read from the chain is absent.\<close>

definition bare_pool_state ::
    "u64 \<Rightarrow> address \<Rightarrow> dex_kind \<Rightarrow> pool_variant \<Rightarrow> address \<times> address \<Rightarrow> u8 option \<times> u8 option \<Rightarrow> u64 \<Rightarrow> u64 \<Rightarrow>
     datetime \<Rightarrow> pool_state" where
  "bare_pool_state chain_id pool dex variant tokens decimals block_number valid_through now = \<lparr>
     ps_pool_id = \<lparr>pid_chain_id = chain_id, pid_address = pool\<rparr>, ps_dex = dex, ps_variant = variant,
     ps_factory_address = None, ps_token0 = fst tokens, ps_token1 = snd tokens,
     ps_token0_decimals = fst decimals, ps_token1_decimals = snd decimals,
     ps_fee_bps = 30, ps_fee_pips = None, ps_pool_key_fee_pips = None, ps_hooks_address = None, ps_stable = None,
     ps_reserve0 = None, ps_reserve1 = None, ps_balancer_model = None, ps_balancer_weight0 = None,
     ps_balancer_weight1 = None, ps_balancer_scaling_factor0 = None, ps_balancer_scaling_factor1 = None,
     ps_balancer_token_rate0 = None, ps_balancer_token_rate1 = None, ps_balancer_swap_fee_percentage = None,
     ps_sqrt_price_x96 = None, ps_liquidity = None, ps_tick = None, ps_tick_spacing = None,
     ps_block_number = block_number, ps_valid_through_block = valid_through, ps_updated_at = now\<rparr>"

definition priced :: "u256 \<times> i32 \<times> u256 \<Rightarrow> pool_state \<Rightarrow> pool_state" where
  "priced v state = (case v of (sqrt_price_x96, tick, liquidity) \<Rightarrow>
     state\<lparr>ps_sqrt_price_x96 := Some sqrt_price_x96, ps_liquidity := Some liquidity, ps_tick := Some tick\<rparr>)"

definition fetch_decimals :: "libs \<Rightarrow> 's rpc_env \<Rightarrow> address \<times> address \<Rightarrow> ('s, u8 option \<times> u8 option) act" where
  "fetch_decimals lib rp tokens =
     bind (ok (fetch_token_decimals lib rp (fst tokens))) (\<lambda>decimals0.
     bind (ok (fetch_token_decimals lib rp (snd tokens))) (\<lambda>decimals1. pass (decimals0, decimals1)))"

text \<open>A pool that does not answer \<open>getReserves()\<close> is read as a concentrated pool.\<close>

definition aerodrome_state_of ::
    "'s rpc_env \<Rightarrow> address \<Rightarrow> u64 \<Rightarrow> address \<times> address \<Rightarrow> u8 option \<times> u8 option \<Rightarrow>
     ('s, u256 \<times> u256) act \<Rightarrow> ('s, u256 \<times> i32 \<times> u256) act \<Rightarrow> ('s, pool_state) act" where
  "aerodrome_state_of rp pool block_number tokens decimals reserves slipstream =
     attempt reserves
       (\<lambda>(reserve0, reserve1).
          bind (infallible (rp_now rp)) (\<lambda>now.
          pass ((bare_pool_state (rp_chain_id rp) pool DexAerodrome AerodromeVolatile tokens decimals block_number block_number now)
                  \<lparr>ps_reserve0 := Some reserve0, ps_reserve1 := Some reserve1\<rparr>)))
       (\<lambda>reserve_err.
          bind (annotate (''volatile getReserves() failed first: '' @ err_display reserve_err @ ''; Slipstream fallback also failed'')
                  slipstream) (\<lambda>price.
          bind (infallible (rp_now rp)) (\<lambda>now.
          pass (priced price
            (bare_pool_state (rp_chain_id rp) pool DexAerodrome AerodromeSlipstream tokens decimals block_number block_number now)))))"

definition aerodrome_tokens :: "libs \<Rightarrow> 's rpc_env \<Rightarrow> address \<Rightarrow> ('s, address \<times> address) act" where
  "aerodrome_tokens lib rp pool =
     annotate (''failed to read token0/token1 for Aerodrome pool '' @ address_hex pool) (fetch_pool_tokens lib rp pool)"

text \<open>The current block is asked for also when the caller gave one: the argument of \<open>unwrap_or\<close> is
  evaluated first.\<close>

definition fetch_aerodrome_pool_state_at_block :: "libs \<Rightarrow> 's rpc_env \<Rightarrow> address \<Rightarrow> u64 option \<Rightarrow> ('s, pool_state) act" where
  "fetch_aerodrome_pool_state_at_block lib rp pool block_number =
     bind (get_block_number rp) (\<lambda>current.
     let block_number = (case block_number of None \<Rightarrow> current | Some b \<Rightarrow> b) in
     bind (aerodrome_tokens lib rp pool) (\<lambda>tokens.
     bind (fetch_decimals lib rp tokens) (\<lambda>decimals.
     aerodrome_state_of rp pool block_number tokens decimals
       (fetch_aerodrome_reserves_at_block lib rp pool (Some block_number))
       (fetch_aerodrome_slipstream_state_at_block lib rp pool (Some block_number)))))"

definition fetch_aerodrome_pool_state_at_block_hash ::
    "libs \<Rightarrow> 's rpc_env \<Rightarrow> address \<Rightarrow> string \<Rightarrow> u64 \<Rightarrow> ('s, pool_state) act" where
  "fetch_aerodrome_pool_state_at_block_hash lib rp pool block_hash block_number =
     bind (aerodrome_tokens lib rp pool) (\<lambda>tokens.
     bind (fetch_decimals lib rp tokens) (\<lambda>decimals.
     aerodrome_state_of rp pool block_number tokens decimals
       (fetch_aerodrome_reserves_at_block_hash lib rp pool block_hash)
       (fetch_aerodrome_slipstream_state_at_block_hash lib rp pool block_hash)))"

definition fetch_aerodrome_pool_state :: "libs \<Rightarrow> 's rpc_env \<Rightarrow> address \<Rightarrow> ('s, pool_state) act" where
  "fetch_aerodrome_pool_state lib rp pool = fetch_aerodrome_pool_state_at_block lib rp pool None"

fun probe_gauge :: "libs \<Rightarrow> 's rpc_env \<Rightarrow> address \<Rightarrow> (string \<times> string) list \<Rightarrow> ('s, address) act" where
  "probe_gauge lib rp gauge [] =
     fail (''could not resolve Aerodrome gauge '' @ address_hex gauge @ '' to an underlying pool'')"
| "probe_gauge lib rp gauge ((selector, label) # probes) =
     attempt (eth_call rp gauge selector label)
       (\<lambda>raw.
          bind (lift (rbind (decode_32byte_words raw) (\<lambda>words. rbind (word_nth words 0) (parse_word_address lib))))
            (\<lambda>candidate. if candidate \<noteq> 0 then pass candidate else probe_gauge lib rp gauge probes))
       (\<lambda>_. probe_gauge lib rp gauge probes)"

definition resolve_aerodrome_gauge_pool :: "libs \<Rightarrow> 's rpc_env \<Rightarrow> address \<Rightarrow> ('s, address) act" where
  "resolve_aerodrome_gauge_pool lib rp gauge =
     probe_gauge lib rp gauge
       [(''0x16f0115b'', ''pool()''), (''0x72f702f3'', ''stakingToken()''), (''0xcc7a262e'', ''stakedToken()'')]"

definition fetch_aerodrome_state :: "libs \<Rightarrow> 's rpc_env \<Rightarrow> address \<Rightarrow> ('s, pool_state) act" where
  "fetch_aerodrome_state lib rp pool =
     attempt (fetch_aerodrome_pool_state lib rp pool) pass
       (\<lambda>pool_err.
          bind (annotate (''configured address '' @ address_hex pool @ '' is not readable as an Aerodrome pool, and gauge pool resolution failed; direct pool read error: '' @ err_display pool_err)
                  (resolve_aerodrome_gauge_pool lib rp pool)) (\<lambda>resolved_pool.
          annotate (''resolved Aerodrome gauge '' @ address_hex pool @ '' to pool '' @ address_hex resolved_pool @ '', but resolved pool state read failed'')
            (fetch_aerodrome_pool_state lib rp resolved_pool)))"

section \<open>Registry entries\<close>

definition entry_fields :: "pool_registry_entry \<Rightarrow> pool_state \<Rightarrow> pool_state" where
  "entry_fields entry state = state\<lparr>ps_tick_spacing := re_tick_spacing entry,
     ps_factory_address := re_factory_address entry, ps_stable := re_stable entry\<rparr>"

definition aerodrome_entry_state ::
    "pool_registry_entry \<Rightarrow> ('s, pool_state) act \<Rightarrow> ('s, u32) act \<Rightarrow> ('s, u32) act \<Rightarrow> ('s, pool_state) act" where
  "aerodrome_entry_state entry fetch slipstream_fee classic_fee =
     bind fetch (\<lambda>state.
     let state = entry_fields entry state in
     if re_variant entry = AerodromeSlipstream
     then bind slipstream_fee (\<lambda>fee_pips. pass (state\<lparr>ps_fee_pips := Some fee_pips, ps_fee_bps := fee_pips div 100\<rparr>))
     else bind classic_fee (\<lambda>fee_bps. pass (state\<lparr>ps_fee_bps := fee_bps\<rparr>)))"

definition v3_entry_state ::
    "libs \<Rightarrow> 's rpc_env \<Rightarrow> pool_registry_entry \<Rightarrow> ('s, u256 \<times> i32 \<times> u256) act \<Rightarrow> ('s, u64) act \<Rightarrow> u64 \<Rightarrow> ('s, pool_state) act" where
  "v3_entry_state lib rp entry price block valid_through =
     bind (annotate (''failed to read token0/token1 for V3 registry pool '' @ address_hex (re_pool_address entry))
             (fetch_pool_tokens lib rp (re_pool_address entry))) (\<lambda>tokens.
     bind price (\<lambda>price.
     bind (fetch_decimals lib rp tokens) (\<lambda>decimals.
     bind block (\<lambda>block_number.
     bind (infallible (rp_now rp)) (\<lambda>now.
     pass (priced price (entry_fields entry
       ((bare_pool_state (rp_chain_id rp) (re_pool_address entry) (re_dex entry) (re_variant entry) tokens decimals
           block_number valid_through now)
          \<lparr>ps_fee_bps := re_fee_bps entry, ps_fee_pips := Some (saturating_mul (re_fee_bps entry) 100)\<rparr>))))))))"

definition fetch_pool_state_from_registry_at_block ::
    "libs \<Rightarrow> 's rpc_env \<Rightarrow> pool_registry_entry \<Rightarrow> u64 option \<Rightarrow> ('s, pool_state) act" where
  "fetch_pool_state_from_registry_at_block lib rp entry block_number =
     (case re_dex entry of
        DexAerodrome \<Rightarrow>
          aerodrome_entry_state entry
            (fetch_aerodrome_pool_state_at_block lib rp (re_pool_address entry) block_number)
            (fetch_aerodrome_slipstream_fee_pips_for_entry_at_block lib rp entry block_number)
            (fetch_aerodrome_classic_fee_bps_for_entry_at_block lib rp entry block_number)
      | DexUniswapV4 \<Rightarrow> fail ''registry pool state fetch is not implemented for singleton/vault dex UniswapV4''
      | DexBalancer \<Rightarrow> fail ''registry pool state fetch is not implemented for singleton/vault dex Balancer''
      | _ \<Rightarrow>
          v3_entry_state lib rp entry
            (annotate (''failed to read state for V3 registry pool '' @ address_hex (re_pool_address entry))
               (fetch_uniswap_v3_state_at_block lib rp (re_pool_address entry) block_number))
            (bind (get_block_number rp) (\<lambda>current. pass (case block_number of None \<Rightarrow> current | Some b \<Rightarrow> b)))
            (case block_number of None \<Rightarrow> 0 | Some b \<Rightarrow> b))"

definition fetch_pool_state_from_registry :: "libs \<Rightarrow> 's rpc_env \<Rightarrow> pool_registry_entry \<Rightarrow> ('s, pool_state) act" where
  "fetch_pool_state_from_registry lib rp entry = fetch_pool_state_from_registry_at_block lib rp entry None"

definition fetch_pool_state_from_registry_at_block_hash ::
    "libs \<Rightarrow> 's rpc_env \<Rightarrow> pool_registry_entry \<Rightarrow> string \<Rightarrow> u64 \<Rightarrow> ('s, pool_state) act" where
  "fetch_pool_state_from_registry_at_block_hash lib rp entry block_hash block_number =
     (case re_dex entry of
        DexAerodrome \<Rightarrow>
          aerodrome_entry_state entry
            (fetch_aerodrome_pool_state_at_block_hash lib rp (re_pool_address entry) block_hash block_number)
            (fetch_aerodrome_slipstream_fee_pips_for_entry_at_block_hash lib rp entry block_hash)
            (fetch_aerodrome_classic_fee_bps_for_entry_at_block_hash lib rp entry block_hash)
      | DexUniswapV4 \<Rightarrow> fail ''registry pool state fetch by block hash is not implemented for singleton/vault dex UniswapV4''
      | DexBalancer \<Rightarrow> fail ''registry pool state fetch by block hash is not implemented for singleton/vault dex Balancer''
      | _ \<Rightarrow>
          v3_entry_state lib rp entry
            (annotate (''failed to read state for V3 registry pool '' @ address_hex (re_pool_address entry) @ '' at block_hash '' @ block_hash)
               (fetch_uniswap_v3_state_at_block_hash lib rp (re_pool_address entry) block_hash))
            (pass block_number) block_number)"

section \<open>Configured pools\<close>

fun bootstrap_v3_pools ::
    "libs \<Rightarrow> 's rpc_env \<Rightarrow> settings \<Rightarrow> datetime \<Rightarrow> (address option \<times> u32) list \<Rightarrow> pool_state list \<Rightarrow> ('s, pool_state list) act" where
  "bootstrap_v3_pools lib rp cfg now [] out = pass out"
| "bootstrap_v3_pools lib rp cfg now ((None, fee_bps) # pools) out = bootstrap_v3_pools lib rp cfg now pools out"
| "bootstrap_v3_pools lib rp cfg now ((Some pool, fee_bps) # pools) out =
     bind (annotate (''failed to read token0/token1 for Uniswap V3 pool '' @ address_hex pool)
             (fetch_pool_tokens lib rp pool)) (\<lambda>tokens.
     bind (annotate (''failed to initialize Uniswap V3 USDC/WETH pool '' @ address_hex pool @ '' fee_bps='' @
               nat_dec (unat fee_bps) @ ''; expected a V3 pool supporting slot0() and liquidity()'')
             (fetch_uniswap_v3_state lib rp pool)) (\<lambda>price.
     bind (fetch_decimals lib rp tokens) (\<lambda>decimals.
     bind (get_block_number rp) (\<lambda>block_number.
     bootstrap_v3_pools lib rp cfg now pools (out @ [priced price
       ((bare_pool_state (rp_chain_id rp) pool DexUniswapV3 UniswapV3 tokens decimals block_number 0 now)
          \<lparr>ps_factory_address := cfg_uniswap_v3_factory cfg, ps_fee_bps := fee_bps,
           ps_fee_pips := Some (saturating_mul fee_bps 100)\<rparr>)])))))"

text \<open>The three configured addresses are arguments.\<close>

definition bootstrap_configured_pools ::
    "libs \<Rightarrow> 's rpc_env \<Rightarrow> settings \<Rightarrow> address option \<Rightarrow> address option \<Rightarrow> address option \<Rightarrow> ('s, pool_state list) act" where
  "bootstrap_configured_pools lib rp cfg aerodrome_pool v3_500_pool v3_3000_pool =
     bind (infallible (rp_now rp)) (\<lambda>now.
     bind (case aerodrome_pool of
             None \<Rightarrow> pass []
           | Some pool \<Rightarrow>
               bind (annotate (''failed to initialize AERODROME_USDC_WETH_POOL '' @ address_hex pool @
                   ''; expected either volatile getReserves() or Slipstream slot0()/liquidity()'')
                 (fetch_aerodrome_state lib rp pool)) (\<lambda>state. pass [state])) (\<lambda>out.
     bind (bootstrap_v3_pools lib rp cfg now [(v3_500_pool, 5), (v3_3000_pool, 30)] out) (\<lambda>out.
     if out = []
     then fail ''no configured pools found; set AERODROME_USDC_WETH_POOL and at least one Uniswap V3 USDC/WETH pool in .env''
     else pass out)))"

section \<open>Initialised ticks\<close>

definition fetch_tick_spacing :: "libs \<Rightarrow> 's rpc_env \<Rightarrow> address \<Rightarrow> ('s, i32) act" where
  "fetch_tick_spacing lib rp pool =
     bind (call_words (eth_call rp pool ''0xd0c93a7c'' ''tickSpacing()'')) (\<lambda>words.
     lift (rbind (word_nth words 0) parse_word_i24))"

definition fetch_tick_bitmap_word :: "libs \<Rightarrow> 's rpc_env \<Rightarrow> address \<Rightarrow> 16 word \<Rightarrow> ('s, u256) act" where
  "fetch_tick_bitmap_word lib rp pool position =
     bind (call_words (eth_call rp pool (''0x5339c296'' @ encode_signed_word (scast position)) ''tickBitmap(int16)'')) (\<lambda>words.
     lift (rbind (word_nth words 0) (parse_word_u256 lib)))"

definition fetch_tick_info :: "libs \<Rightarrow> 's rpc_env \<Rightarrow> address \<Rightarrow> i32 \<Rightarrow> ('s, u256 \<times> i128) act" where
  "fetch_tick_info lib rp pool tick =
     bind (call_words (eth_call rp pool (''0xf30dba93'' @ encode_signed_word (scast tick)) ''ticks(int24)'')) (\<lambda>words.
     if length words < 2 then fail ''ticks(int24) response too short''
     else lift (
       rbind (rbind (word_nth words 0) (parse_word_u256 lib)) (\<lambda>gross.
       rbind (rbind (word_nth words 1) parse_word_i128) (\<lambda>net. Inr (gross, net)))))"

definition i32_checked :: "int \<Rightarrow> string \<Rightarrow> i32 anyhow" where
  "i32_checked i message = (if - (2 ^ 31) \<le> i \<and> i < 2 ^ 31 then Inr (word_of_int i) else bail message)"

text \<open>The loop over the bits of one word.\<close>

fun scan_tick_bits ::
    "libs \<Rightarrow> 's rpc_env \<Rightarrow> pool_id \<Rightarrow> i32 \<Rightarrow> u64 \<Rightarrow> i32 \<Rightarrow> u256 \<Rightarrow> nat list \<Rightarrow> tick_state list \<Rightarrow> ('s, tick_state list) act" where
  "scan_tick_bits lib rp pool tick_spacing block_number word bitmap [] ticks = pass ticks"
| "scan_tick_bits lib rp pool tick_spacing block_number word bitmap (b # bits) ticks =
     (if drop_bit b bitmap AND 1 = 0 then scan_tick_bits lib rp pool tick_spacing block_number word bitmap bits ticks
      else
        bind (lift (
          rbind (i32_checked (sint word * 256) ''compressed tick overflow'') (\<lambda>base.
          rbind (i32_checked (sint base + int b) ''compressed tick overflow'') (\<lambda>compressed.
          i32_checked (sint compressed * sint tick_spacing) ''tick overflow'')))) (\<lambda>tick.
        bind (fetch_tick_info lib rp (pid_address pool) tick) (\<lambda>(liquidity_gross, liquidity_net).
        bind (infallible (rp_now rp)) (\<lambda>now.
        scan_tick_bits lib rp pool tick_spacing block_number word bitmap bits
          (ticks @ [\<lparr>ts_pool_id = pool, ts_tick = tick, ts_liquidity_net = liquidity_net,
             ts_liquidity_gross = liquidity_gross, ts_block_number = block_number, ts_updated_at = now\<rparr>])))))"

fun scan_tick_words ::
    "libs \<Rightarrow> 's rpc_env \<Rightarrow> pool_id \<Rightarrow> i32 \<Rightarrow> u64 \<Rightarrow> int list \<Rightarrow> tick_state list \<Rightarrow> ('s, tick_state list) act" where
  "scan_tick_words lib rp pool tick_spacing block_number [] ticks = pass ticks"
| "scan_tick_words lib rp pool tick_spacing block_number (w # words) ticks =
     bind (fetch_tick_bitmap_word lib rp (pid_address pool) (word_of_int w)) (\<lambda>bitmap.
     bind (scan_tick_bits lib rp pool tick_spacing block_number (word_of_int w) bitmap [0..<256] ticks) (\<lambda>ticks.
     scan_tick_words lib rp pool tick_spacing block_number words ticks))"

definition fetch_initialized_ticks_around_state ::
    "libs \<Rightarrow> 's rpc_env \<Rightarrow> pool_state \<Rightarrow> i32 \<Rightarrow> ('s, tick_state list) act" where
  "fetch_initialized_ticks_around_state lib rp state word_radius =
     (case ps_tick state of
        None \<Rightarrow> pass []
      | Some current_tick \<Rightarrow>
          if ps_variant state = AerodromeVolatile then pass []
          else
            bind (fetch_tick_spacing lib rp (ps_address state)) (\<lambda>tick_spacing.
            if sint tick_spacing \<le> 0 then fail (''invalid tick spacing '' @ int_dec (sint tick_spacing))
            else
              let current_word = word_position current_tick tick_spacing in
              bind (get_block_number rp) (\<lambda>block_number.
              scan_tick_words lib rp (ps_pool_id state) tick_spacing block_number
                [sint (current_word - word_radius) .. sint (current_word + word_radius)] [])))"

section \<open>Facts\<close>

lemma yields_attempt:
  "yields P m \<Longrightarrow> (\<And>x. P x \<Longrightarrow> yields Q (f x)) \<Longrightarrow> (\<And>e. yields Q (g e)) \<Longrightarrow> yields Q (attempt m f g)"
  unfolding attempt_def by (rule yields_handle [where P = P]) (simp_all add: yields_err)

lemma yields_ok: "yields P m \<Longrightarrow> yields (\<lambda>r. case r of None \<Rightarrow> True | Some x \<Rightarrow> P x) (ok m)"
  unfolding ok_def by (rule yields_attempt [where P = P]) (simp_all add: yields_pass)

lemma bare_pool_state_simps [simp]:
  "ps_pool_id (bare_pool_state c pool dex variant tokens decimals b v now) = \<lparr>pid_chain_id = c, pid_address = pool\<rparr>"
  "ps_dex (bare_pool_state c pool dex variant tokens decimals b v now) = dex"
  "ps_variant (bare_pool_state c pool dex variant tokens decimals b v now) = variant"
  "ps_factory_address (bare_pool_state c pool dex variant tokens decimals b v now) = None"
  by (simp_all add: bare_pool_state_def)

lemma priced_simps [simp]:
  "ps_pool_id (priced price p) = ps_pool_id p" "ps_dex (priced price p) = ps_dex p"
  "ps_variant (priced price p) = ps_variant p" "ps_factory_address (priced price p) = ps_factory_address p"
  by (simp_all add: priced_def split: prod.splits)

text \<open>What every read of an Aerodrome pool gives.\<close>

definition aerodrome_state_ok :: "'s rpc_env \<Rightarrow> address \<Rightarrow> pool_state \<Rightarrow> bool" where
  "aerodrome_state_ok rp pool p \<longleftrightarrow> ps_pool_id p = \<lparr>pid_chain_id = rp_chain_id rp, pid_address = pool\<rparr> \<and> ps_dex p = DexAerodrome \<and>
     ps_variant p \<in> {AerodromeVolatile, AerodromeSlipstream}"

lemma yields_aerodrome_state:
  "yields (aerodrome_state_ok rp pool) (aerodrome_state_of rp pool b tokens decimals reserves slipstream)"
  unfolding aerodrome_state_of_def
  by (rule yields_attempt [OF yields_any]) (auto intro!: yields_intros simp: aerodrome_state_ok_def)

lemma yields_fetch_aerodrome: "yields (aerodrome_state_ok rp pool) (fetch_aerodrome_pool_state lib rp pool)"
  unfolding fetch_aerodrome_pool_state_def fetch_aerodrome_pool_state_at_block_def
  by (intro yields_intros yields_aerodrome_state)

text \<open>A pool that answers \<open>getReserves()\<close> with a single word: reading its state panics, although every
  other failure of that call is followed by the concentrated read.\<close>

lemma short_reserves_panic:
  assumes "get_block_number rp s = (Inr current, s1)" "aerodrome_tokens lib rp pool s1 = (Inr tokens, s2)"
    and "fetch_decimals lib rp tokens s2 = (Inr decimals, s3)"
    and "call_words (eth_call_at_block rp pool ''0x0902f1ac'' ''Aerodrome getReserves()'' (Some current)) s3 = (Inr [w], s4)"
    and "parse_word_u256 lib w = Inr v"
  shows "fetch_aerodrome_pool_state lib rp pool s = (panic, s4)"
  using assms
  by (simp add: fetch_aerodrome_pool_state_def fetch_aerodrome_pool_state_at_block_def bind_def aerodrome_state_of_def
      attempt_def handle_def fetch_aerodrome_reserves_at_block_def act_run reserves_of_words_def word_nth_def panic_def)

end
