(* ===== verification/Chain_Ticks.thy ===== *)
theory Chain_Ticks
  imports Chain_Pools
begin

text \<open>
  Reading the initialised ticks of a pool, \<open>fetch_initialized_ticks_around_state\<close>, against the table of ticks
  the pool keeps on the chain. The table is a function from compressed ticks, multiples of the spacing; the
  pool answers for a word of its bitmap, which has one bit for each of 256 consecutive compressed ticks, and
  for a single tick.
\<close>

section \<open>The pool on the chain\<close>

text \<open>Gross and net liquidity of a tick, and the further words of the answer to \<open>ticks(int24)\<close>.\<close>

type_synonym tick_table = "int \<Rightarrow> (u256 \<times> i128 \<times> string list) option"

definition bitmap_word :: "tick_table \<Rightarrow> int \<Rightarrow> u256" where
  "bitmap_word table w = horner_sum of_bool 2 (map (\<lambda>b. table (256 * w + int b) \<noteq> None) [0..<256])"

definition call_request :: "address \<Rightarrow> string \<Rightarrow> json" where
  "call_request to data = rpc_request ''eth_call'' (JArray [call_object None to data, JString ''latest''])"

definition answers :: "'s rpc_env \<Rightarrow> 's \<Rightarrow> json \<Rightarrow> string \<Rightarrow> bool" where
  "answers rp s request answer \<longleftrightarrow>
     rp_post rp request s = (Inr \<lparr>rs_result = Some (JString answer), rs_error = None\<rparr>, s)"

definition answers_words :: "'s rpc_env \<Rightarrow> 's \<Rightarrow> address \<Rightarrow> string \<Rightarrow> string list \<Rightarrow> bool" where
  "answers_words rp s to data words \<longleftrightarrow> answers rp s (call_request to data) (''0x'' @ concat words)"

text \<open>The node serves the pool's table for the given words of the bitmap, while nothing changes.\<close>

definition serves_ticks ::
    "'s rpc_env \<Rightarrow> 's \<Rightarrow> address \<Rightarrow> int \<Rightarrow> u64 \<Rightarrow> datetime \<Rightarrow> tick_table \<Rightarrow> int list \<Rightarrow> bool" where
  "serves_ticks rp s pool spacing block now table words \<longleftrightarrow>
     answers_words rp s pool ''0xd0c93a7c'' [signed_word spacing] \<and>
     answers rp s (rpc_request ''eth_blockNumber'' (JArray [])) (block_text block) \<and>
     rp_now rp s = (now, s) \<and>
     (\<forall>w \<in> set words. answers_words rp s pool (''0x5339c296'' @ signed_word w) [encode_u256_word (bitmap_word table w)]) \<and>
     (\<forall>w \<in> set words. \<forall>b \<in> set [0..<256]. case table (256 * w + int b) of
        None \<Rightarrow> True
      | Some (gross, net, further) \<Rightarrow>
          list_all (\<lambda>m. length m = 64 \<and> hex_text m) further \<and>
          answers_words rp s pool (''0xf30dba93'' @ signed_word ((256 * w + int b) * spacing))
            (encode_u256_word gross # signed_word (sint net) # further))"

text \<open>The tick state of a compressed tick.\<close>

definition table_tick :: "pool_id \<Rightarrow> int \<Rightarrow> u64 \<Rightarrow> datetime \<Rightarrow> tick_table \<Rightarrow> int \<Rightarrow> tick_state" where
  "table_tick pool spacing block now table c = \<lparr>ts_pool_id = pool, ts_tick = word_of_int (c * spacing),
     ts_liquidity_net = (case table c of None \<Rightarrow> 0 | Some (gross, net, further) \<Rightarrow> net),
     ts_liquidity_gross = (case table c of None \<Rightarrow> 0 | Some (gross, net, further) \<Rightarrow> gross),
     ts_block_number = block, ts_updated_at = now\<rparr>"

section \<open>Single calls\<close>

lemma rpc_answers: "answers rp s (rpc_request m p) a \<Longrightarrow> rpc rp m p s = (Inr (JString a), s)"
  by (simp add: answers_def rpc_def rpc_optional_def bind_def act_run)

lemma eth_call_answers:
  "answers rp s (call_request to data) a \<Longrightarrow> a \<noteq> ''0x'' \<Longrightarrow> eth_call rp to data label s = (Inr a, s)"
  unfolding call_request_def
  by (drule rpc_answers)
     (simp add: eth_call_def eth_call_from_at_block_def bind_def annotate_def call_result_def str_or_def act_run)

lemma call_words_answers:
  assumes "answers_words rp s to data ws" "ws \<noteq> []" "list_all (\<lambda>w. length w = 64 \<and> hex_text w) ws"
  shows "call_words (eth_call rp to data label) s = (Inr ws, s)"
proof -
  have "''0x'' @ concat ws \<noteq> ''0x''" using assms(2,3) by (cases ws) auto
  with assms(1) have "eth_call rp to data label s = (Inr (''0x'' @ concat ws), s)"
    by (simp add: answers_words_def eth_call_answers)
  then show ?thesis
    using decode_concat_words [OF assms(2,3)] by (simp add: call_words_def bind_def act_run)
qed

lemma get_block_number_answers:
  assumes "answers rp s (rpc_request ''eth_blockNumber'' (JArray [])) (block_text block)"
  shows "get_block_number rp s = (Inr block, s)"
proof -
  have "unat block < 2 ^ 64" using unat_lt [of block] by simp
  then have "uint_from_hex (nat_hex (unat block)) = Inr block"
    using uint_from_hex_nat_hex [of "unat block", where 'a = 64] by simp
  then show ?thesis
    using rpc_answers [OF assms]
    by (simp add: get_block_number_def bind_def str_or_def act_run parse_hex_u64_def block_text_def prefixed_hex_def)
qed

lemma sint_i32: "- (2 ^ 31) \<le> i \<Longrightarrow> i < 2 ^ 31 \<Longrightarrow> sint (word_of_int i :: i32) = i"
  by (simp add: signed_of_int signed_take_bit_int_eq_self)

lemma encode_position: "- (2 ^ 15) \<le> w \<Longrightarrow> w < 2 ^ 15 \<Longrightarrow> encode_signed_word (scast (word_of_int w :: 16 word)) = signed_word w"
  by (simp add: encode_signed_word_signed signed_scast_eq signed_of_int signed_take_bit_int_eq_self)

lemma encode_tick: "- (2 ^ 31) \<le> t \<Longrightarrow> t < 2 ^ 31 \<Longrightarrow> encode_signed_word (scast (word_of_int t :: i32)) = signed_word t"
  by (simp add: encode_signed_word_signed signed_scast_eq signed_of_int signed_take_bit_int_eq_self)

lemma bit_bitmap_word: "b < 256 \<Longrightarrow> bit (bitmap_word table w) b \<longleftrightarrow> table (256 * w + int b) \<noteq> None"
  by (simp add: bitmap_word_def bit_horner_sum_bit_word_iff)

lemma drop_bit_and_one: "(drop_bit b (x :: u256) AND 1 = 0) \<longleftrightarrow> \<not> bit x b"
  by (simp add: bit_iff_odd_drop_bit and_one_eq even_iff_mod_2_eq_zero)

section \<open>The walk\<close>

text \<open>Every initialised tick lies within the bounds of the pool contract.\<close>

definition table_bounded :: "int \<Rightarrow> tick_table \<Rightarrow> bool" where
  "table_bounded spacing table \<longleftrightarrow> (\<forall>c. table c \<noteq> None \<longrightarrow> \<bar>c * spacing\<bar> \<le> 887272)"

lemma fetch_tick_info_answers:
  assumes "reads_hex lib" "- (2 ^ 31) \<le> t" "t < 2 ^ 31" "list_all (\<lambda>m. length m = 64 \<and> hex_text m) further"
    and "answers_words rp s pool (''0xf30dba93'' @ signed_word t) (encode_u256_word gross # signed_word (sint net) # further)"
  shows "fetch_tick_info lib rp pool (word_of_int t) s = (Inr (gross, net), s)"
proof -
  have "call_words (eth_call rp pool (''0xf30dba93'' @ encode_signed_word (scast (word_of_int t :: i32))) ''ticks(int24)'') s =
      (Inr (encode_u256_word gross # signed_word (sint net) # further), s)"
    using assms(4,5) unfolding encode_tick [OF assms(2,3)] by (intro call_words_answers) simp_all
  then show ?thesis
    using assms(1)
    by (simp add: fetch_tick_info_def bind_def act_run word_nth_def encode_u256_word_def read_i128_word)
qed

lemma fetch_tick_bitmap_answers:
  assumes "reads_hex lib" "- (2 ^ 15) \<le> w" "w < 2 ^ 15"
    and "answers_words rp s pool (''0x5339c296'' @ signed_word w) [encode_u256_word v]"
  shows "fetch_tick_bitmap_word lib rp pool (word_of_int w) s = (Inr v, s)"
proof -
  have "call_words (eth_call rp pool (''0x5339c296'' @ encode_signed_word (scast (word_of_int w :: 16 word))) ''tickBitmap(int16)'') s =
      (Inr [encode_u256_word v], s)"
    using assms(4) unfolding encode_position [OF assms(2,3)] by (intro call_words_answers) simp_all
  then show ?thesis
    using assms(1) by (simp add: fetch_tick_bitmap_word_def bind_def act_run word_nth_def encode_u256_word_def)
qed

lemma scan_tick_bits_served:
  assumes lib: "reads_hex lib" and served: "serves_ticks rp s (pid_address pool) spacing block now table words"
    and bounded: "table_bounded spacing table" and w: "w \<in> set words" "- (2 ^ 15) \<le> w" "w < 2 ^ 15"
    and spacing: "0 < spacing" "spacing < 2 ^ 23" "set bits \<subseteq> {0..<256}"
  shows "scan_tick_bits lib rp pool (word_of_int spacing) block (word_of_int w) (bitmap_word table w) bits acc s =
     (Inr (acc @ map (table_tick pool spacing block now table)
        (filter (\<lambda>c. table c \<noteq> None) (map (\<lambda>b. 256 * w + int b) bits))), s)"
  using spacing(3)
proof (induction bits arbitrary: acc)
  case (Cons b bits)
  define c where "c = 256 * w + int b"
  from Cons.prems have b: "b < 256" and bits: "set bits \<subseteq> {0..<256}" by simp_all
  show ?case
  proof (cases "table c")
    case None
    then have "drop_bit b (bitmap_word table w) AND 1 = 0"
      using b by (simp add: drop_bit_and_one bit_bitmap_word c_def)
    with None Cons.IH [OF bits] show ?thesis by (simp add: c_def)
  next
    case (Some v)
    obtain gross net further where v: "v = (gross, net, further)" by (cases v) auto
    have "drop_bit b (bitmap_word table w) AND 1 \<noteq> 0"
      using b Some by (simp add: drop_bit_and_one bit_bitmap_word c_def)
    moreover have "\<bar>c * spacing\<bar> \<le> 887272" using bounded Some unfolding table_bounded_def by (metis option.distinct(1))
    then have small: "- (2 ^ 31) \<le> c * spacing" "c * spacing < 2 ^ 31" by (simp_all add: abs_le_iff)
    moreover note small
    moreover have "\<forall>b \<in> set [0..<256]. case table (256 * w + int b) of None \<Rightarrow> True | Some (gross, net, further) \<Rightarrow>
          list_all (\<lambda>m. length m = 64 \<and> hex_text m) further \<and>
          answers_words rp s (pid_address pool) (''0xf30dba93'' @ signed_word ((256 * w + int b) * spacing))
            (encode_u256_word gross # signed_word (sint net) # further)"
      using served w(1) by (simp add: serves_ticks_def)
    then have "list_all (\<lambda>m. length m = 64 \<and> hex_text m) further \<and>
        answers_words rp s (pid_address pool) (''0xf30dba93'' @ signed_word (c * spacing))
          (encode_u256_word gross # signed_word (sint net) # further)"
      using b Some unfolding c_def v by (elim ballE [of _ _ b]) simp_all
    then have "fetch_tick_info lib rp (pid_address pool) (word_of_int (c * spacing)) s = (Inr (gross, net), s)"
      using lib small by (intro fetch_tick_info_answers [where further = further]) simp_all
    moreover note this
    moreover have "rbind (i32_checked (sint (word_of_int w :: i32) * 256) m) (\<lambda>base.
        rbind (i32_checked (sint base + int b) m) (\<lambda>compressed.
        i32_checked (sint compressed * sint (word_of_int spacing :: i32)) m')) = Inr (word_of_int (c * spacing))" for m m'
    proof -
      have sw: "sint (word_of_int spacing :: i32) = spacing" "sint (word_of_int w :: i32) = w"
        using spacing w by (simp_all add: sint_i32)
      have "sint (word_of_int (w * 256) :: i32) = w * 256" "sint (word_of_int (w * 256 + int b) :: i32) = w * 256 + int b"
        using w b by (intro sint_i32; simp)+
      then show ?thesis
        using w b small unfolding sw i32_checked_def c_def by (simp add: mult.commute [of 256] del: of_int_mult of_int_add)
    qed
    moreover have "rp_now rp s = (now, s)" using served by (simp add: serves_ticks_def)
    ultimately show ?thesis
      using Cons.IH [OF bits] Some
      by (simp add: bind_def act_run infallible_def table_tick_def v c_def [symmetric] del: of_int_mult rbind_Inr_iff)
  qed
qed (simp add: act_run)

lemma scan_tick_words_served:
  assumes "reads_hex lib" "serves_ticks rp s (pid_address pool) spacing block now table words"
    and "table_bounded spacing table" "0 < spacing" "spacing < 2 ^ 23"
    and "set ws \<subseteq> set words" "\<forall>w \<in> set ws. - (2 ^ 15) \<le> w \<and> w < 2 ^ 15"
  shows "scan_tick_words lib rp pool (word_of_int spacing) block ws acc s =
     (Inr (acc @ map (table_tick pool spacing block now table)
        (filter (\<lambda>c. table c \<noteq> None) (concat (map (\<lambda>w. map (\<lambda>b. 256 * w + int b) [0..<256]) ws)))), s)"
  using assms(6,7)
proof (induction ws arbitrary: acc)
  case (Cons w ws)
  then have w: "w \<in> set words" "- (2 ^ 15) \<le> w" "w < 2 ^ 15" by auto
  have "fetch_tick_bitmap_word lib rp (pid_address pool) (word_of_int w) s = (Inr (bitmap_word table w), s)"
    using assms(1,2) w by (intro fetch_tick_bitmap_answers) (auto simp: serves_ticks_def)
  moreover note scan_tick_bits_served [OF assms(1-3) w assms(4,5), of "[0..<256]" acc]
  ultimately show ?case using Cons by (simp add: bind_def)
qed (simp add: act_run)

text \<open>The compressed ticks of consecutive words are consecutive.\<close>

lemma word_ticks: "map (\<lambda>b. 256 * w + int b) [0..<256] = [256 * w .. 256 * w + 255]"
  by (rule nth_equalityI) simp_all

lemma words_ticks: "a \<le> b \<Longrightarrow> concat (map (\<lambda>w. [256 * w .. 256 * w + 255]) [a..b]) = [256 * a .. 256 * b + 255]"
proof (induction "nat (b - a)" arbitrary: a)
  case 0
  then show ?case by simp
next
  case (Suc n)
  then have "a < b" by simp
  then have "concat (map (\<lambda>w. [256 * w .. 256 * w + 255]) [a..b]) =
      [256 * a .. 256 * a + 255] @ [256 * (a + 1) .. 256 * b + 255]"
    using Suc.hyps(1) [of "a + 1"] Suc.hyps(2) by (simp add: upto_rec1 [of a b])
  also have "\<dots> = [256 * a .. 256 * b + 255]"
    using \<open>a < b\<close> upto_split1 [of "256 * a" "256 * (a + 1)" "256 * b + 255"] by (simp add: algebra_simps)
  finally show ?case .
qed

lemma div_bounds:
  assumes "\<bar>t\<bar> \<le> 887272" "0 < (k :: int)"
  shows "- 887272 \<le> t div k" "t div k \<le> 887272"
proof -
  have "- 887272 * k \<le> - 887272" "887272 \<le> 887272 * k" using assms(2) by simp_all
  with assms(1) have "- 887272 * k \<le> t" "t \<le> 887272 * k" by linarith+
  then have "(- 887272 * k) div k \<le> t div k" "t div k \<le> (887272 * k) div k"
    using assms(2) by (simp_all only: zdiv_mono1)
  moreover have "x * k div k = x" for x using assms(2) by simp
  ultimately show "- 887272 \<le> t div k" "t div k \<le> 887272" by metis+
qed

lemma word_position_served:
  assumes "\<bar>sint t\<bar> \<le> 887272" "0 < sint spacing"
  shows "sint (word_position t spacing) = sint t div sint spacing div 256"
    "\<bar>sint t div sint spacing div 256\<bar> \<le> 3466"
proof -
  note b = div_bounds [OF assms]
  then show bound: "\<bar>sint t div sint spacing div 256\<bar> \<le> 3466"
    using zdiv_mono1 [of "- 887272" "sint t div sint spacing" 256] zdiv_mono1 [of "sint t div sint spacing" 887272 256] by simp
  have "sint (word_of_int (sint t div sint spacing div 256) :: i32) = sint t div sint spacing div 256"
    using bound by (intro sint_i32) (simp_all add: abs_le_iff)
  then show "sint (word_position t spacing) = sint t div sint spacing div 256"
    using assms(2) by (simp add: word_position_def div_euclid_def)
qed

text \<open>While the node serves a pool's tick table, the walk over the bitmap words around the current tick
  returns exactly the initialised ticks of those words, in ascending order and once each, with their
  liquidity, whatever the spacing and the sign of the ticks; and it reads nothing beyond them.\<close>

theorem initialized_ticks_exact:
  assumes "reads_hex lib"
    and "ps_tick state = Some current_tick" "ps_variant state \<noteq> AerodromeVolatile" "\<bar>sint current_tick\<bar> \<le> 887272"
    and "0 < sint (spacing :: i32)" "sint spacing < 2 ^ 23" "table_bounded (sint spacing) table"
    and "0 \<le> sint radius" "sint radius \<le> 29000" "w = sint current_tick div sint spacing div 256"
    and "serves_ticks rp s (ps_address state) (sint spacing) block now table [w - sint radius .. w + sint radius]"
  shows "fetch_initialized_ticks_around_state lib rp state radius s =
     (Inr (map (table_tick (ps_pool_id state) (sint spacing) block now table)
        (filter (\<lambda>c. table c \<noteq> None) [256 * (w - sint radius) .. 256 * (w + sint radius) + 255])), s)"
proof -
  let ?words = "[w - sint radius .. w + sint radius]"
  have pos: "sint (word_position current_tick spacing) = w" and w: "\<bar>w\<bar> \<le> 3466"
    using word_position_served [OF assms(4,5)] assms(10) by simp_all
  have "sint (word_position current_tick spacing - radius) = w - sint radius"
    "sint (word_position current_tick spacing + radius) = w + sint radius"
    using pos w assms(8,9) by (simp_all add: sint_word_ariths signed_take_bit_int_eq_self abs_le_iff)
  moreover have "fetch_tick_spacing lib rp (ps_address state) s = (Inr spacing, s)"
  proof -
    have "call_words (eth_call rp (ps_address state) ''0xd0c93a7c'' ''tickSpacing()'') s = (Inr [signed_word (sint spacing)], s)"
      using assms(11) by (intro call_words_answers) (simp_all add: serves_ticks_def)
    then show ?thesis
      using assms(5,6) by (simp add: fetch_tick_spacing_def bind_def act_run word_nth_def read_i24_word)
  qed
  moreover have "get_block_number rp s = (Inr block, s)"
    using assms(11) by (intro get_block_number_answers) (simp add: serves_ticks_def)
  moreover have "scan_tick_words lib rp (ps_pool_id state) (word_of_int (sint spacing)) block ?words [] s =
      (Inr ([] @ map (table_tick (ps_pool_id state) (sint spacing) block now table)
        (filter (\<lambda>c. table c \<noteq> None) (concat (map (\<lambda>w. map (\<lambda>b. 256 * w + int b) [0..<256]) ?words)))), s)"
    using assms w by (intro scan_tick_words_served) auto
  moreover have "concat (map (\<lambda>w. map (\<lambda>b. 256 * w + int b) [0..<256]) ?words) =
      [256 * (w - sint radius) .. 256 * (w + sint radius) + 255]"
    unfolding word_ticks using assms(8) by (intro words_ticks) simp
  ultimately show ?thesis
    using assms(2,3,5) by (simp add: fetch_initialized_ticks_around_state_def bind_def Let_def)
qed

section \<open>A node that serves one tick\<close>

definition example_table :: tick_table where
  "example_table c = (if c = - 3 then Some (7, - 7, []) else None)"

definition example_answers :: "(json \<times> string) list" where
  "example_answers =
     [(call_request 100 ''0xd0c93a7c'', ''0x'' @ signed_word 60),
      (rpc_request ''eth_blockNumber'' (JArray []), block_text 12),
      (call_request 100 (''0x5339c296'' @ signed_word (- 1)), ''0x'' @ encode_u256_word (bitmap_word example_table (- 1))),
      (call_request 100 (''0xf30dba93'' @ signed_word (- 180)), ''0x'' @ encode_u256_word 7 @ signed_word (- 7))]"

definition example_node :: "unit rpc_env" where
  "example_node = \<lparr>rp_chain_id = 8453,
     rp_post = (\<lambda>request s. (Inr \<lparr>rs_result = map_option JString (map_of example_answers request), rs_error = None\<rparr>, s)),
     rp_now = (\<lambda>s. (5, s)), rp_json_text = (\<lambda>_. []), rp_parse_b256 = (\<lambda>_. Inr 0)\<rparr>"

lemma example_node_serves: "serves_ticks example_node () 100 60 12 5 example_table [- 1 .. - 1]"
proof -
  have "- 180 = (256 * (- 1) + int b) * 60" if "256 * (- 1) + int b = - 3" for b using that by simp
  then show ?thesis
    by (auto simp: serves_ticks_def answers_words_def answers_def example_node_def example_answers_def example_table_def
        call_request_def rpc_request_def call_object_def)
qed

theorem initialized_ticks_exact_witness:
  "fetch_initialized_ticks_around_state hex_libs example_node
     (example_pool\<lparr>ps_tick := Some (- 100)\<rparr>) 0 () =
   (Inr [table_tick (ps_pool_id example_pool) 60 12 5 example_table (- 3)], ())"
proof -
  define state where "state = example_pool\<lparr>ps_tick := Some (- 100)\<rparr>"
  have state: "ps_pool_id state = ps_pool_id example_pool" "ps_address state = 100" "ps_tick state = Some (- 100)"
    "ps_variant state \<noteq> AerodromeVolatile" by (simp_all add: state_def example_pool_def)
  have num: "sint (- 100 :: i32) = - 100" "sint (60 :: i32) = 60" "sint (0 :: i32) = 0" by simp_all
  have "fetch_initialized_ticks_around_state hex_libs example_node state 0 () =
      (Inr (map (table_tick (ps_pool_id state) (sint (60 :: i32)) 12 5 example_table)
        (filter (\<lambda>c. example_table c \<noteq> None) [256 * (- 1 - sint (0 :: i32)) .. 256 * (- 1 + sint (0 :: i32)) + 255])), ())"
    by (rule initialized_ticks_exact [of hex_libs state "- 100"])
       (use state example_node_serves in \<open>simp_all add: num table_bounded_def example_table_def\<close>)
  moreover have "[256 * (- 1 - sint (0 :: i32)) .. 256 * (- 1 + sint (0 :: i32)) + 255] = [- 256 .. - 1]"
    by (rule arg_cong2 [where f = upto]) simp_all
  moreover have "filter (\<lambda>c. example_table c \<noteq> None) [- 256 .. - 1] = [- 3]"
    unfolding example_table_def by code_simp
  ultimately show ?thesis by (simp only: state num state_def [symmetric] list.map)
qed

end
