(* ===== verification/Chain_Discovery.thy ===== *)
theory Chain_Discovery
  imports Chain_Pools
begin

text \<open>
  Finding pools and events, \<open>crates/chain/src/provider.rs\<close>: the pools of a token pair at the known
  factories, the identification of pools seen in logs, and the decoding of logs into pool events.
\<close>

section \<open>Pools of a pair\<close>

text \<open>What the discovery has seen and found so far.\<close>

type_synonym discovery = "address set \<times> discovered_pool list"

text \<open>One probe of a factory: a failed call skips it, an answer that is no address ends the discovery, and
  the zero address or a pool already seen is passed over. \<open>read\<close> gives the pool or \<open>None\<close>.\<close>

definition probe_pool ::
    "libs \<Rightarrow> ('s, string) act \<Rightarrow> (address \<Rightarrow> ('s, discovered_pool option) act) \<Rightarrow> discovery \<Rightarrow> ('s, discovery) act" where
  "probe_pool lib call read found =
     attempt call
       (\<lambda>raw.
          bind (lift (decode_single_address lib raw)) (\<lambda>pool.
          if pool = 0 \<or> pool \<in> fst found then pass found
          else
            bind (read pool) (\<lambda>result.
            pass (insert pool (fst found),
              (case result of None \<Rightarrow> snd found | Some d \<Rightarrow> snd found @ [d])))))
       (\<lambda>_. pass found)"

definition discovered :: "pool_state \<Rightarrow> address option \<Rightarrow> i32 option \<Rightarrow> bool option \<Rightarrow> string \<Rightarrow> discovered_pool" where
  "discovered state factory tick_spacing stable' source = \<lparr>dp_state = state, dp_factory_address = factory,
     dp_tick_spacing = tick_spacing, dp_stable = stable', dp_source = source\<rparr>"

text \<open>\<open>let state = match fetch { Ok(state) => state, Err(_) => continue }\<close>.\<close>

definition read_or_skip :: "('s, 'a) act \<Rightarrow> ('a \<Rightarrow> ('s, discovered_pool) act) \<Rightarrow> ('s, discovered_pool option) act" where
  "read_or_skip fetch found = attempt fetch (\<lambda>x. bind (found x) (\<lambda>d. pass (Some d))) (\<lambda>_. pass None)"

definition read_classic_pool :: "libs \<Rightarrow> 's rpc_env \<Rightarrow> address \<Rightarrow> bool \<Rightarrow> address \<Rightarrow> ('s, discovered_pool option) act" where
  "read_classic_pool lib rp factory stable' pool =
     read_or_skip (fetch_aerodrome_pool_state lib rp pool) (\<lambda>state.
       bind (ok (fetch_aerodrome_classic_fee_bps lib rp factory pool stable')) (\<lambda>fee.
       pass (discovered
         (state\<lparr>ps_factory_address := Some factory, ps_stable := Some stable',
            ps_fee_bps := (case fee of None \<Rightarrow> ps_fee_bps state | Some f \<Rightarrow> f)\<rparr>)
         (Some factory) None (Some stable') ''aerodrome_classic_factory'')))"

fun discover_aerodrome_classic_loop ::
    "libs \<Rightarrow> 's rpc_env \<Rightarrow> address \<Rightarrow> address \<Rightarrow> address \<Rightarrow> bool list \<Rightarrow> discovery \<Rightarrow> ('s, discovery) act" where
  "discover_aerodrome_classic_loop lib rp factory token_a token_b [] found = pass found"
| "discover_aerodrome_classic_loop lib rp factory token_a token_b (stable' # rest) found =
     bind (probe_pool lib
             (eth_call rp factory (encode_get_pool_bool token_a token_b stable') ''Aerodrome factory getPool(address,address,bool)'')
             (read_classic_pool lib rp factory stable') found)
       (discover_aerodrome_classic_loop lib rp factory token_a token_b rest)"

definition factory_or :: "address \<Rightarrow> address option \<Rightarrow> address" where
  "factory_or known configured = (case configured of None \<Rightarrow> known | Some f \<Rightarrow> f)"

definition discover_aerodrome_classic ::
    "libs \<Rightarrow> 's rpc_env \<Rightarrow> settings \<Rightarrow> address \<Rightarrow> address \<Rightarrow> discovery \<Rightarrow> ('s, discovery) act" where
  "discover_aerodrome_classic lib rp cfg token_a token_b found =
     discover_aerodrome_classic_loop lib rp (factory_or aerodrome_classic_factory (cfg_aerodrome_pool_factory cfg))
       token_a token_b [False, True] found"

definition fallback_slipstream_tick_spacings :: "i32 list" where
  "fallback_slipstream_tick_spacings = [1, 10, 50, 100, 200, 500, 2000]"

definition fetch_slipstream_tick_spacings :: "libs \<Rightarrow> 's rpc_env \<Rightarrow> address \<Rightarrow> ('s, i32 list) act" where
  "fetch_slipstream_tick_spacings lib rp factory =
     bind (eth_call rp factory ''0x9cbbbe86'' ''Aerodrome Slipstream tickSpacings()'') (\<lambda>raw. lift (decode_int24_array lib raw))"

definition read_slipstream_pool :: "libs \<Rightarrow> 's rpc_env \<Rightarrow> address \<Rightarrow> i32 \<Rightarrow> address \<Rightarrow> ('s, discovered_pool option) act" where
  "read_slipstream_pool lib rp factory tick_spacing pool =
     read_or_skip (fetch_aerodrome_pool_state lib rp pool) (\<lambda>state.
       bind (ok (fetch_aerodrome_slipstream_fee_pips lib rp factory pool)) (\<lambda>fee_pips.
       pass (discovered
         (state\<lparr>ps_tick_spacing := Some tick_spacing, ps_factory_address := Some factory, ps_stable := None,
            ps_fee_pips := fee_pips,
            ps_fee_bps := (case fee_pips of None \<Rightarrow> ps_fee_bps state | Some f \<Rightarrow> f div 100)\<rparr>)
         (Some factory) (Some tick_spacing) None ''aerodrome_slipstream_factory'')))"

fun discover_slipstream_spacings ::
    "libs \<Rightarrow> 's rpc_env \<Rightarrow> address \<Rightarrow> address \<Rightarrow> address \<Rightarrow> i32 list \<Rightarrow> discovery \<Rightarrow> ('s, discovery) act" where
  "discover_slipstream_spacings lib rp factory token_a token_b [] found = pass found"
| "discover_slipstream_spacings lib rp factory token_a token_b (tick_spacing # rest) found =
     bind (probe_pool lib
             (eth_call rp factory (encode_get_pool_int24 token_a token_b tick_spacing)
                ''Aerodrome Slipstream getPool(address,address,int24)'')
             (read_slipstream_pool lib rp factory tick_spacing) found)
       (discover_slipstream_spacings lib rp factory token_a token_b rest)"

fun discover_slipstream_factories ::
    "libs \<Rightarrow> 's rpc_env \<Rightarrow> address \<Rightarrow> address \<Rightarrow> address list \<Rightarrow> discovery \<Rightarrow> ('s, discovery) act" where
  "discover_slipstream_factories lib rp token_a token_b [] found = pass found"
| "discover_slipstream_factories lib rp token_a token_b (factory # factories) found =
     bind (ok (fetch_slipstream_tick_spacings lib rp factory)) (\<lambda>tick_spacings.
     bind (discover_slipstream_spacings lib rp factory token_a token_b
             (case tick_spacings of None \<Rightarrow> fallback_slipstream_tick_spacings | Some ts \<Rightarrow> ts) found)
       (discover_slipstream_factories lib rp token_a token_b factories))"

definition discover_aerodrome_slipstream ::
    "libs \<Rightarrow> 's rpc_env \<Rightarrow> settings \<Rightarrow> address \<Rightarrow> address \<Rightarrow> discovery \<Rightarrow> ('s, discovery) act" where
  "discover_aerodrome_slipstream lib rp cfg token_a token_b found =
     discover_slipstream_factories lib rp token_a token_b (slipstream_factories cfg) found"

text \<open>Both V3 discoveries: a pool whose tokens or state cannot be read is skipped, a current block that
  cannot be read ends the discovery.\<close>

definition read_v3_pool ::
    "libs \<Rightarrow> 's rpc_env \<Rightarrow> dex_kind \<Rightarrow> pool_variant \<Rightarrow> address \<Rightarrow> u32 \<Rightarrow> string \<Rightarrow> address \<Rightarrow> ('s, discovered_pool option) act" where
  "read_v3_pool lib rp dex variant factory fee source pool =
     attempt (fetch_pool_tokens lib rp pool)
       (\<lambda>tokens. read_or_skip (fetch_uniswap_v3_state lib rp pool) (\<lambda>price.
          bind (fetch_decimals lib rp tokens) (\<lambda>decimals.
          bind (get_block_number rp) (\<lambda>block_number.
          bind (infallible (rp_now rp)) (\<lambda>now.
          pass (discovered
            (priced price ((bare_pool_state (rp_chain_id rp) pool dex variant tokens decimals block_number 0 now)
               \<lparr>ps_factory_address := Some factory, ps_fee_bps := fee div 100, ps_fee_pips := Some fee\<rparr>))
            (Some factory) None None (source @ nat_dec (unat fee))))))))
       (\<lambda>_. pass None)"

fun discover_v3_fees ::
    "libs \<Rightarrow> 's rpc_env \<Rightarrow> dex_kind \<Rightarrow> pool_variant \<Rightarrow> address \<Rightarrow> string \<Rightarrow> string \<Rightarrow> address \<Rightarrow> address \<Rightarrow> u32 list \<Rightarrow>
     discovery \<Rightarrow> ('s, discovery) act" where
  "discover_v3_fees lib rp dex variant factory label source token_a token_b [] found = pass found"
| "discover_v3_fees lib rp dex variant factory label source token_a token_b (fee # fees) found =
     bind (probe_pool lib (eth_call rp factory (encode_get_pool_uint24 token_a token_b fee) label)
             (read_v3_pool lib rp dex variant factory fee source) found)
       (discover_v3_fees lib rp dex variant factory label source token_a token_b fees)"

definition discover_uniswap_v3 ::
    "libs \<Rightarrow> 's rpc_env \<Rightarrow> settings \<Rightarrow> address \<Rightarrow> address \<Rightarrow> discovery \<Rightarrow> ('s, discovery) act" where
  "discover_uniswap_v3 lib rp cfg token_a token_b found =
     discover_v3_fees lib rp DexUniswapV3 UniswapV3 (factory_or uniswap_v3_factory (cfg_uniswap_v3_factory cfg))
       ''Uniswap V3 factory getPool(address,address,uint24)'' ''uniswap_v3_factory_fee_'' token_a token_b
       [100, 500, 3000, 10000] found"

definition discover_pancake_v3 ::
    "libs \<Rightarrow> 's rpc_env \<Rightarrow> settings \<Rightarrow> address \<Rightarrow> address \<Rightarrow> discovery \<Rightarrow> ('s, discovery) act" where
  "discover_pancake_v3 lib rp cfg token_a token_b found =
     discover_v3_fees lib rp DexPancakeSwap PancakeV3 (factory_or pancake_v3_factory (cfg_pancake_v3_factory cfg))
       ''Pancake V3 factory getPool(address,address,uint24)'' ''pancake_v3_factory_fee_'' token_a token_b
       [100, 500, 2500, 10000] found"

definition discover_pools_for_pair ::
    "libs \<Rightarrow> 's rpc_env \<Rightarrow> settings \<Rightarrow> address \<Rightarrow> address \<Rightarrow> ('s, discovered_pool list) act" where
  "discover_pools_for_pair lib rp cfg token_a token_b =
     bind (discover_aerodrome_classic lib rp cfg token_a token_b ({}, [])) (\<lambda>found.
     bind (discover_aerodrome_slipstream lib rp cfg token_a token_b found) (\<lambda>found.
     bind (discover_uniswap_v3 lib rp cfg token_a token_b found) (\<lambda>found.
     bind (discover_pancake_v3 lib rp cfg token_a token_b found) (\<lambda>found. pass (snd found)))))"

section \<open>Observed pools\<close>

definition classic_swap_topic :: string where
  "classic_swap_topic = ''0xd78ad95fa46c994b6551d0da85fc275fe613ce37657fb8d5e3d130840159d822''"

record observed_pool_metadata =
  om_token0 :: address
  om_token1 :: address
  om_factory_address :: "address option"
  om_fee_bps :: "u32 option"
  om_fee_pips :: "u32 option"
  om_tick_spacing :: "i32 option"
  om_stable :: "bool option"

definition resolve_observed_pool_metadata ::
    "libs \<Rightarrow> 's rpc_env \<Rightarrow> address \<Rightarrow> string \<Rightarrow> ('s, observed_pool_metadata) act" where
  "resolve_observed_pool_metadata lib rp pool topic0 =
     bind (fetch_pool_tokens lib rp pool) (\<lambda>(token0, token1).
     bind (ok (fetch_pool_factory lib rp pool)) (\<lambda>factory_address.
     let metadata = \<lparr>om_token0 = token0, om_token1 = token1, om_factory_address = factory_address, om_fee_bps = None,
           om_fee_pips = None, om_tick_spacing = None, om_stable = None\<rparr> in
     if to_ascii_lowercase topic0 = classic_swap_topic
     then
       bind (ok (fetch_pool_stable lib rp pool)) (\<lambda>stable'.
       bind (ok (fetch_classic_pool_fee_bps lib rp pool)) (\<lambda>fee_bps.
       pass (metadata\<lparr>om_stable := stable', om_fee_bps := fee_bps\<rparr>)))
     else
       bind (ok (fetch_v3_fee_pips lib rp pool)) (\<lambda>fee_pips.
       bind (ok (fetch_tick_spacing lib rp pool)) (\<lambda>tick_spacing.
       bind (case (fee_pips, factory_address) of
               (None, Some factory) \<Rightarrow> ok (fetch_aerodrome_slipstream_fee_pips lib rp factory pool)
             | _ \<Rightarrow> pass fee_pips) (\<lambda>fee_pips.
       pass (metadata\<lparr>om_fee_pips := fee_pips, om_tick_spacing := tick_spacing,
         om_fee_bps := map_option (\<lambda>fee. fee div 100) fee_pips\<rparr>))))))"

text \<open>The fee of a classic pool: the factory's, or else the pool's own, or else what the state has.\<close>

definition classic_fee_or_state ::
    "libs \<Rightarrow> 's rpc_env \<Rightarrow> address \<Rightarrow> address \<Rightarrow> bool \<Rightarrow> pool_state \<Rightarrow> ('s, pool_state) act" where
  "classic_fee_or_state lib rp factory pool stable' state =
     (let state = state\<lparr>ps_factory_address := Some factory, ps_stable := Some stable'\<rparr> in
      bind (attempt (fetch_aerodrome_classic_fee_bps lib rp factory pool stable') pass
              (\<lambda>_. bind (ok (fetch_classic_pool_fee_bps lib rp pool)) (\<lambda>fee.
                 pass (case fee of None \<Rightarrow> ps_fee_bps state | Some f \<Rightarrow> f)))) (\<lambda>fee_bps.
      pass (state\<lparr>ps_fee_bps := fee_bps\<rparr>)))"

definition observed_v3_kind :: "settings \<Rightarrow> address option \<Rightarrow> dex_kind \<times> pool_variant \<times> string" where
  "observed_v3_kind cfg factory =
     (if factory = Some pancake_v3_factory then (DexPancakeSwap, PancakeV3, ''observed_pancake_v3_import'')
      else if factory = Some (factory_or uniswap_v3_factory (cfg_uniswap_v3_factory cfg))
      then (DexUniswapV3, UniswapV3, ''observed_uniswap_v3_import'')
      else if (case factory of None \<Rightarrow> False | Some f \<Rightarrow> f \<in> set (slipstream_factories cfg))
      then (DexAerodrome, AerodromeSlipstream, ''observed_slipstream_import'')
      else (DexUniswapV3, UniswapV3, ''observed_direct_v3_import''))"

definition fee_bps_of_pips :: "u32 option \<Rightarrow> u32" where
  "fee_bps_of_pips fee_pips = (case fee_pips of None \<Rightarrow> 0 | Some f \<Rightarrow> f) div 100"

definition resolve_observed_pool_for_registry ::
    "libs \<Rightarrow> 's rpc_env \<Rightarrow> settings \<Rightarrow> address \<Rightarrow> string \<Rightarrow> ('s, discovered_pool) act" where
  "resolve_observed_pool_for_registry lib rp cfg pool topic0 =
     bind (resolve_observed_pool_metadata lib rp pool (to_ascii_lowercase topic0)) (\<lambda>metadata.
     bind (get_block_number rp) (\<lambda>block_number.
     bind (fetch_decimals lib rp (om_token0 metadata, om_token1 metadata)) (\<lambda>decimals.
     if to_ascii_lowercase topic0 = classic_swap_topic
     then
       let expected_factory = factory_or aerodrome_classic_factory (cfg_aerodrome_pool_factory cfg);
           classic_factory = factory_or expected_factory (om_factory_address metadata);
           stable' = (case om_stable metadata of None \<Rightarrow> False | Some b \<Rightarrow> b) in
       bind (fetch_aerodrome_pool_state lib rp pool) (\<lambda>state.
       bind (classic_fee_or_state lib rp classic_factory pool stable' state) (\<lambda>state.
       pass (discovered state (Some classic_factory) None (Some stable')
         (if classic_factory = expected_factory then ''observed_pool_import'' else ''observed_classic_v2_compatible_import''))))
     else
       bind (fetch_uniswap_v3_state lib rp pool) (\<lambda>price.
       let factory = om_factory_address metadata;
           (dex, variant, source) = observed_v3_kind cfg factory in
       bind (infallible (rp_now rp)) (\<lambda>now.
       pass (discovered
         (priced price
           ((bare_pool_state (rp_chain_id rp) pool dex variant (om_token0 metadata, om_token1 metadata) decimals
               block_number block_number now)
             \<lparr>ps_factory_address := factory, ps_fee_bps := fee_bps_of_pips (om_fee_pips metadata),
              ps_fee_pips := om_fee_pips metadata, ps_tick_spacing := om_tick_spacing metadata\<rparr>))
         factory (om_tick_spacing metadata) None source))))))"

definition trusted_v3_fee ::
    "libs \<Rightarrow> 's rpc_env \<Rightarrow> address \<Rightarrow> address \<Rightarrow> pool_variant \<Rightarrow> ('s, u32 option) act" where
  "trusted_v3_fee lib rp pool factory variant =
     (if variant = AerodromeSlipstream
      then bind (ok (fetch_aerodrome_slipstream_fee_pips lib rp factory pool)) (\<lambda>fee.
             if fee = None then ok (fetch_v3_fee_pips lib rp pool) else pass fee)
      else ok (fetch_v3_fee_pips lib rp pool))"

definition resolve_pool_for_trusted_factory ::
    "libs \<Rightarrow> 's rpc_env \<Rightarrow> address \<Rightarrow> address \<Rightarrow> dex_kind \<Rightarrow> pool_variant \<Rightarrow> ('s, discovered_pool) act" where
  "resolve_pool_for_trusted_factory lib rp pool factory dex variant =
     bind (fetch_pool_tokens lib rp pool) (\<lambda>tokens.
     bind (fetch_decimals lib rp tokens) (\<lambda>decimals.
     bind (get_block_number rp) (\<lambda>block_number.
     case variant of
       AerodromeVolatile \<Rightarrow>
         bind (bind (ok (fetch_pool_stable lib rp pool)) (\<lambda>b. pass (case b of None \<Rightarrow> False | Some b \<Rightarrow> b))) (\<lambda>stable'.
         bind (if is_uniswap_v2_factory_address factory
               then bind (fetch_v2_pair lib rp factory (fst tokens) (snd tokens)) (\<lambda>expected.
                 if expected \<noteq> pool
                 then fail (''trusted V2 factory canonical pair mismatch: factory='' @ address_hex factory @ '' tokens='' @
                   address_hex (fst tokens) @ ''/'' @ address_hex (snd tokens) @ '' expected_pair='' @ address_hex expected @
                   '' observed_pool='' @ address_hex pool)
                 else pass ())
               else pass ()) (\<lambda>_.
         bind (fetch_aerodrome_pool_state lib rp pool) (\<lambda>state.
         bind (classic_fee_or_state lib rp factory pool stable' state) (\<lambda>state.
         pass (discovered state (Some factory) None (Some stable') ''live_factory_discovery'')))))
     | UniswapV4 \<Rightarrow> fail ''trusted factory resolver is not implemented for singleton/vault variant UniswapV4''
     | BalancerV3 \<Rightarrow> fail ''trusted factory resolver is not implemented for singleton/vault variant BalancerV3''
     | _ \<Rightarrow>
         bind (fetch_uniswap_v3_state lib rp pool) (\<lambda>price.
         bind (ok (fetch_tick_spacing lib rp pool)) (\<lambda>tick_spacing.
         bind (trusted_v3_fee lib rp pool factory variant) (\<lambda>fee_pips.
         bind (infallible (rp_now rp)) (\<lambda>now.
         pass (discovered
           (priced price
             ((bare_pool_state (rp_chain_id rp) pool dex variant tokens decimals block_number block_number now)
               \<lparr>ps_factory_address := Some factory, ps_fee_bps := fee_bps_of_pips fee_pips, ps_fee_pips := fee_pips,
                ps_tick_spacing := tick_spacing\<rparr>))
           (Some factory) tick_spacing None ''live_factory_discovery'')))))
     )))"

section \<open>Logs\<close>

text \<open>\<open>RpcLog\<close> as its derived deserialiser reads it: from an object, where an optional field may be missing
  or null, or from an array of exactly its fields. The text of the error is not kept.\<close>

record rpc_log =
  rl_address :: string
  rl_topics :: "string list"
  rl_data :: string
  rl_block_number :: "string option"
  rl_transaction_hash :: "string option"
  rl_log_index :: "string option"

definition string_value :: "json option \<Rightarrow> string anyhow" where
  "string_value v = ok_or_message (Option.bind v json_as_str) ''invalid log''"

definition optional_string_value :: "json option \<Rightarrow> string option anyhow" where
  "optional_string_value v =
     (case v of None \<Rightarrow> Inr None | Some JNull \<Rightarrow> Inr None | Some v \<Rightarrow> rbind (string_value (Some v)) (\<lambda>s. Inr (Some s)))"

definition string_values :: "json option \<Rightarrow> string list anyhow" where
  "string_values v =
     rbind (ok_or_message (Option.bind v json_as_array) ''invalid log'') (collect_results (\<lambda>t. string_value (Some t)))"

definition rpc_log_of_fields ::
    "json option \<Rightarrow> json option \<Rightarrow> json option \<Rightarrow> json option \<Rightarrow> json option \<Rightarrow> json option \<Rightarrow> rpc_log anyhow" where
  "rpc_log_of_fields a t d b h i =
     rbind (string_value a) (\<lambda>a. rbind (string_values t) (\<lambda>t. rbind (string_value d) (\<lambda>d.
     rbind (optional_string_value b) (\<lambda>b. rbind (optional_string_value h) (\<lambda>h. rbind (optional_string_value i) (\<lambda>i.
     Inr \<lparr>rl_address = a, rl_topics = t, rl_data = d, rl_block_number = b, rl_transaction_hash = h, rl_log_index = i\<rparr>))))))"

fun rpc_log_from_value :: "json \<Rightarrow> rpc_log anyhow" where
  "rpc_log_from_value (JObject kvs) =
     rpc_log_of_fields (map_of kvs ''address'') (map_of kvs ''topics'') (map_of kvs ''data'')
       (map_of kvs ''blockNumber'') (map_of kvs ''transactionHash'') (map_of kvs ''logIndex'')"
| "rpc_log_from_value (JArray [a, t, d, b, h, i]) =
     rpc_log_of_fields (Some a) (Some t) (Some d) (Some b) (Some h) (Some i)"
| "rpc_log_from_value _ = bail ''invalid log''"

definition dex_for_pool :: "pool_state list \<Rightarrow> address \<Rightarrow> dex_kind" where
  "dex_for_pool pools pool =
     (case find (\<lambda>state. ps_address state = pool) pools of None \<Rightarrow> DexUniswapV3 | Some state \<Rightarrow> ps_dex state)"

definition v3_event_names :: "(string \<times> string) list" where
  "v3_event_names =
     [(''0x98636036cb66a9c19a37435efc1e90142190214e8abeb821bdba3f2990dd4c95'', ''Initialize''),
      (''0xc42079f94a6350d7e6235f29174924f928cc2ac818eb64fed8004e115fbcca67'', ''Swap''),
      (''0x7a53080ba414158be7ec69b987b5fb7d07dee101fe85488f0853ae16239d0bde'', ''Mint''),
      (''0x0c396cd989a39f4459b5fa1aed6a9a8dcdbc45908acfd67e028cd568da98982c'', ''Burn''),
      (''0x70935338e69775456a85ddef226c395fb668b63fa0115f5f20610b388e6ca9c0'', ''Collect''),
      (''0xbdbdb71d7860376ba52b25a5028beea23581364a40522f6bcfb86bb1f2dca633'', ''Flash''),
      (''0xac49e518f90a358f652e4400164f05a5d8f7e35e7747279bc3a93dbf584e125a'', ''IncreaseObservationCardinalityNext''),
      (''0x973d8d92bb299f4af6ce49b52a8adb85ae46b9f214c4c4fc06ac77401237b133'', ''SetFeeProtocol''),
      (''0x596b573906218d3411850b26a6b437d6c4522fdb43d2d2386263f86d50b8b151'', ''CollectProtocol'')]"

definition aerodrome_event_names :: "(string \<times> string) list" where
  "aerodrome_event_names =
     [(''0xcf2aa50876cdfbb541206f89af0ee78d44a2abf8d328e37fa4917f982149848a'', ''Sync''),
      (''0x1c411e9a96e071241c2f21f7726b17ae89e3cab4c78be50e062b03a9fffbbad1'', ''Sync''),
      (''0xd78ad95fa46c994b6551d0da85fc275fe613ce37657fb8d5e3d130840159d822'', ''Swap''),
      (''0xb3e2773606abfd36b5bd91394b3a54d1398336c65005baf7bf7a05efeffaf75b'', ''Swap''),
      (''0x4c209b5fc8ad50758f13e2e1088ba56a560dff690a1c6fef26394f4c03821c4f'', ''Mint''),
      (''0x5d624aa9c148153ab3446c1b154f660ee7701e549fe9b62dab7171b1c80e6fa2'', ''Burn''),
      (''0x112c256902bf554b6ed882d2936687aaeb4225e8cd5b51303c90ca6cf43a8602'', ''Fees''),
      (''0x865ca08d59f5cb456e85cd2f7ef63664ea4f73327414e9d8152c4158b0e94645'', ''Claim''),
      (''0xddf252ad1be2c89b69c2b068fc378daa952ba7f163c4a11628f55a4df523b3ef'', ''Transfer''),
      (''0x8c5be1e5ebec7d5bd14f71427d1e84f3dd0314c0f7b2291e5b200ac8c7c3b925'', ''Approval'')] @ v3_event_names"

definition pancake_event_names :: "(string \<times> string) list" where
  "pancake_event_names =
     (''0x19b47279256b2a23a1665c810c8d55a1758940ee09377d4f8d26497a3577dc83'', ''Swap'') # v3_event_names"

text \<open>The arms have distinct patterns, so their order does not matter.\<close>

definition decode_event_type :: "dex_kind \<Rightarrow> string option \<Rightarrow> string" where
  "decode_event_type dex topic0 =
     (case map_of
        (case dex of DexAerodrome \<Rightarrow> aerodrome_event_names | DexUniswapV3 \<Rightarrow> v3_event_names
         | DexPancakeSwap \<Rightarrow> pancake_event_names | _ \<Rightarrow> []) (case topic0 of None \<Rightarrow> [] | Some t \<Rightarrow> t) of
        None \<Rightarrow> ''Unknown'' | Some name \<Rightarrow> name)"

definition number_or :: "string option \<Rightarrow> u64 option \<Rightarrow> string \<Rightarrow> u64 anyhow" where
  "number_or text fallback message =
     (case text of Some t \<Rightarrow> parse_hex_u64 t | None \<Rightarrow> ok_or_message fallback message)"

definition decode_log_for_pools ::
    "libs \<Rightarrow> pool_state list \<Rightarrow> json \<Rightarrow> u64 option \<Rightarrow> u64 option \<Rightarrow> dex_event option anyhow" where
  "decode_log_for_pools lib pools raw_log fallback_block_number fallback_log_index =
     rbind (rpc_log_from_value raw_log) (\<lambda>log.
     rbind (parse_address lib (rl_address log)) (\<lambda>pool_address.
     if \<not> list_ex (\<lambda>state. ps_address state = pool_address) pools then Inr None
     else
       rbind (number_or (rl_block_number log) fallback_block_number ''pool log missing blockNumber'') (\<lambda>block_number.
       rbind (number_or (rl_log_index log) fallback_log_index ''pool log missing logIndex'') (\<lambda>log_index.
       let dex = dex_for_pool pools pool_address in
       Inr (Some \<lparr>ev_block_number = block_number,
         ev_tx_hash = (case rl_transaction_hash log of
            Some h \<Rightarrow> h
          | None \<Rightarrow> ''flashblock:'' @ nat_hex (unat block_number) @ '':'' @ nat_hex (unat log_index) @ '':'' @ address_hex pool_address),
         ev_log_index = log_index, ev_pool_address = pool_address, ev_dex = dex,
         ev_event_type = decode_event_type dex (case rl_topics log of [] \<Rightarrow> None | t # _ \<Rightarrow> Some t),
         ev_raw_data_json = raw_log\<rparr>)))))"

text \<open>The addresses of the pools, each once.\<close>

fun distinct_addresses :: "address set \<Rightarrow> pool_state list \<Rightarrow> string list" where
  "distinct_addresses seen [] = []"
| "distinct_addresses seen (pool # pools) =
     (if ps_address pool \<in> seen then distinct_addresses seen pools
      else address_hex (ps_address pool) # distinct_addresses (insert (ps_address pool) seen) pools)"

fun events_of_logs :: "libs \<Rightarrow> pool_state list \<Rightarrow> (string \<times> u64) set \<Rightarrow> json list \<Rightarrow> dex_event list anyhow" where
  "events_of_logs lib pools seen [] = Inr []"
| "events_of_logs lib pools seen (log # logs) =
     rbind (decode_log_for_pools lib pools log None None) (\<lambda>event.
     case event of
       None \<Rightarrow> events_of_logs lib pools seen logs
     | Some event \<Rightarrow>
         if (ev_tx_hash event, ev_log_index event) \<in> seen then events_of_logs lib pools seen logs
         else rbind (events_of_logs lib pools (insert (ev_tx_hash event, ev_log_index event) seen) logs) (\<lambda>events.
           Inr (event # events)))"

definition fetch_relevant_events_for_pools ::
    "libs \<Rightarrow> 's rpc_env \<Rightarrow> pool_state list \<Rightarrow> u64 \<Rightarrow> u64 \<Rightarrow> ('s, dex_event list) act" where
  "fetch_relevant_events_for_pools lib rp pools from_block to_block =
     (if to_block < from_block then pass []
      else
        let addresses = distinct_addresses {} pools in
        if addresses = [] then pass []
        else
          bind (rpc rp ''eth_getLogs'' (JArray [JObject [(''fromBlock'', JString (block_text from_block)),
             (''toBlock'', JString (block_text to_block)), (''address'', JArray (map JString addresses))]])) (\<lambda>v.
          bind (lift (json_values v ''invalid type'')) (\<lambda>logs.
          bind (lift (events_of_logs lib pools {} logs)) (\<lambda>events.
          pass (sort_key (\<lambda>event. (ev_block_number event, ev_log_index event)) events)))))"

section \<open>What discovery finds\<close>

text \<open>Where a discovered pool comes from.\<close>

definition known_origin :: "settings \<Rightarrow> pool_state \<Rightarrow> address \<Rightarrow> bool" where
  "known_origin cfg p factory \<longleftrightarrow>
     (ps_dex p = DexAerodrome \<and> ps_variant p \<in> {AerodromeVolatile, AerodromeSlipstream} \<and>
        (factory = factory_or aerodrome_classic_factory (cfg_aerodrome_pool_factory cfg) \<or>
         factory \<in> set (slipstream_factories cfg))) \<or>
     (ps_dex p = DexUniswapV3 \<and> ps_variant p = UniswapV3 \<and>
        factory = factory_or uniswap_v3_factory (cfg_uniswap_v3_factory cfg)) \<or>
     (ps_dex p = DexPancakeSwap \<and> ps_variant p = PancakeV3 \<and>
        factory = factory_or pancake_v3_factory (cfg_pancake_v3_factory cfg))"

definition discovered_ok :: "u64 \<Rightarrow> settings \<Rightarrow> discovered_pool \<Rightarrow> bool" where
  "discovered_ok chain_id cfg d \<longleftrightarrow>
     pid_chain_id (ps_pool_id (dp_state d)) = chain_id \<and> ps_address (dp_state d) \<noteq> 0 \<and>
     ps_factory_address (dp_state d) = dp_factory_address d \<and>
     (case dp_factory_address d of None \<Rightarrow> False | Some factory \<Rightarrow> known_origin cfg (dp_state d) factory)"

definition dp_address :: "discovered_pool \<Rightarrow> address" where
  "dp_address d = ps_address (dp_state d)"

definition discovery_ok :: "u64 \<Rightarrow> settings \<Rightarrow> discovery \<Rightarrow> bool" where
  "discovery_ok chain_id cfg found \<longleftrightarrow>
     distinct (map dp_address (snd found)) \<and> set (map dp_address (snd found)) \<subseteq> fst found \<and>
     list_all (discovered_ok chain_id cfg) (snd found)"

abbreviation reads_pool :: "u64 \<Rightarrow> settings \<Rightarrow> address \<Rightarrow> ('s, discovered_pool option) act \<Rightarrow> bool" where
  "reads_pool chain_id cfg pool \<equiv>
     yields (\<lambda>r. case r of None \<Rightarrow> True | Some d \<Rightarrow> dp_address d = pool \<and> (pool \<noteq> 0 \<longrightarrow> discovered_ok chain_id cfg d))"

lemma yields_read_or_skip:
  assumes "yields P m" "\<And>x. P x \<Longrightarrow> yields Q (f x)"
  shows "yields (\<lambda>r. case r of None \<Rightarrow> True | Some d \<Rightarrow> Q d) (read_or_skip m f)"
  unfolding read_or_skip_def
  by (rule yields_attempt [OF assms(1)], rule yields_bind_known [OF assms(2)]) (simp_all add: yields_pass)

lemma yields_probe_pool:
  assumes "\<And>pool. reads_pool chain_id cfg pool (read pool)" "discovery_ok chain_id cfg found"
  shows "yields (discovery_ok chain_id cfg) (probe_pool lib call read found)"
  unfolding probe_pool_def
proof (rule yields_attempt [OF yields_any])
  fix raw
  show "yields (discovery_ok chain_id cfg) (bind (lift (decode_single_address lib raw)) (\<lambda>pool.
      if pool = 0 \<or> pool \<in> fst found then pass found
      else bind (read pool) (\<lambda>result. pass (insert pool (fst found),
        case result of None \<Rightarrow> snd found | Some d \<Rightarrow> snd found @ [d]))))"
    by (intro yields_intros assms(2) yields_bind_known [OF assms(1)])
       (use assms(2) in \<open>auto simp: discovery_ok_def split: option.splits\<close>)
qed (intro yields_intros assms(2))

lemma reads_classic:
  "factory = factory_or aerodrome_classic_factory (cfg_aerodrome_pool_factory cfg) \<Longrightarrow>
   reads_pool (rp_chain_id rp) cfg pool (read_classic_pool lib rp factory stable' pool)"
  unfolding read_classic_pool_def
  by (rule yields_read_or_skip [OF yields_fetch_aerodrome])
     (auto intro!: yields_intros simp: aerodrome_state_ok_def discovered_def dp_address_def discovered_ok_def known_origin_def)

lemma reads_slipstream:
  "factory \<in> set (slipstream_factories cfg) \<Longrightarrow>
   reads_pool (rp_chain_id rp) cfg pool (read_slipstream_pool lib rp factory tick_spacing pool)"
  unfolding read_slipstream_pool_def
  by (rule yields_read_or_skip [OF yields_fetch_aerodrome])
     (auto intro!: yields_intros simp: aerodrome_state_ok_def discovered_def dp_address_def discovered_ok_def known_origin_def)

lemma reads_v3:
  assumes "dex = DexUniswapV3 \<and> variant = UniswapV3 \<and> factory = factory_or uniswap_v3_factory (cfg_uniswap_v3_factory cfg) \<or>
     dex = DexPancakeSwap \<and> variant = PancakeV3 \<and> factory = factory_or pancake_v3_factory (cfg_pancake_v3_factory cfg)"
  shows "reads_pool (rp_chain_id rp) cfg pool (read_v3_pool lib rp dex variant factory fee source pool)"
  unfolding read_v3_pool_def
  by (rule yields_attempt [OF yields_any], rule yields_read_or_skip [OF yields_any])
     (use assms in \<open>auto intro!: yields_intros simp: discovered_def dp_address_def discovered_ok_def known_origin_def\<close>)

lemma yields_classic_loop:
  "factory = factory_or aerodrome_classic_factory (cfg_aerodrome_pool_factory cfg) \<Longrightarrow> discovery_ok (rp_chain_id rp) cfg found \<Longrightarrow>
   yields (discovery_ok (rp_chain_id rp) cfg) (discover_aerodrome_classic_loop lib rp factory a b stables found)"
  by (induction stables arbitrary: found)
     (auto intro!: yields_pass yields_bind_known [OF yields_probe_pool] reads_classic)

lemma yields_slipstream_spacings:
  "factory \<in> set (slipstream_factories cfg) \<Longrightarrow> discovery_ok (rp_chain_id rp) cfg found \<Longrightarrow>
   yields (discovery_ok (rp_chain_id rp) cfg) (discover_slipstream_spacings lib rp factory a b spacings found)"
  by (induction spacings arbitrary: found)
     (auto intro!: yields_pass yields_bind_known [OF yields_probe_pool] reads_slipstream)

lemma yields_slipstream_factories:
  "set factories \<subseteq> set (slipstream_factories cfg) \<Longrightarrow> discovery_ok (rp_chain_id rp) cfg found \<Longrightarrow>
   yields (discovery_ok (rp_chain_id rp) cfg) (discover_slipstream_factories lib rp a b factories found)"
proof (induction factories arbitrary: found)
  case (Cons factory factories)
  then show ?case
    unfolding discover_slipstream_factories.simps
    by (intro yields_bind yields_bind_known [OF yields_slipstream_spacings]) auto
qed (simp add: yields_pass)

lemma yields_v3_fees:
  assumes "dex = DexUniswapV3 \<and> variant = UniswapV3 \<and> factory = factory_or uniswap_v3_factory (cfg_uniswap_v3_factory cfg) \<or>
     dex = DexPancakeSwap \<and> variant = PancakeV3 \<and> factory = factory_or pancake_v3_factory (cfg_pancake_v3_factory cfg)"
  shows "discovery_ok (rp_chain_id rp) cfg found \<Longrightarrow>
    yields (discovery_ok (rp_chain_id rp) cfg) (discover_v3_fees lib rp dex variant factory label source a b fees found)"
  by (induction fees arbitrary: found)
     (auto intro!: yields_pass yields_bind_known [OF yields_probe_pool] reads_v3 [OF assms])


text \<open>A node that answers every call with the same two words.\<close>

definition two_words :: string where
  "two_words = ''0x'' @ encode_u256_word 100 @ encode_u256_word 100"

definition two_words_node :: "unit rpc_env" where
  "two_words_node = \<lparr>rp_chain_id = 8453,
     rp_post = (\<lambda>request s. (Inr \<lparr>rs_result = Some (JString
        (if json_get request ''method'' = Some (JString ''eth_blockNumber'') then ''0xc'' else two_words)), rs_error = None\<rparr>, s)),
     rp_now = (\<lambda>s. (5, s)), rp_json_text = (\<lambda>_. []), rp_parse_b256 = (\<lambda>_. Inr 0)\<rparr>"

lemma two_words_call:
  "eth_call_from_at_block two_words_node sender to data label b s = (Inr two_words, s)"
proof -
  have "two_words \<noteq> ''0x''" by (simp add: two_words_def encode_u256_word_def)
  then show ?thesis
    by (simp add: eth_call_from_at_block_def rpc_def rpc_optional_def two_words_node_def rpc_request_def bind_def annotate_def
        act_run call_result_def str_or_def)
qed

lemma two_words_decode: "decode_32byte_words two_words = Inr [encode_u256_word 100, encode_u256_word 100]"
  using decode_concat_words [of "[encode_u256_word 100, encode_u256_word 100]"] by (simp add: two_words_def)

lemma two_words_read:
  "parse_word_u256 hex_libs (encode_u256_word 100) = Inr 100"
  "parse_word_address hex_libs (encode_u256_word 100) = Inr 100"
proof -
  show "parse_word_u256 hex_libs (encode_u256_word 100) = Inr 100"
    unfolding encode_u256_word_def by (rule read_u256_word) simp
  have "unat (100 :: address) = unat (100 :: u256)" by simp
  then have "encode_u256_word 100 = encode_address_word 100"
    unfolding encode_u256_word_def encode_address_word_fixed by (simp only:)
  then show "parse_word_address hex_libs (encode_u256_word 100) = Inr 100"
    by (simp only: read_address_word hex_libs_read)
qed

lemma two_words_block: "get_block_number two_words_node s = (Inr 12, s)"
proof -
  have "nat_hex 12 = ''c''" by code_simp
  then have "uint_from_hex ''c'' = Inr (12 :: u64)" using uint_from_hex_nat_hex [of 12, where 'a = 64] by simp
  then have "parse_hex_u64 ''0xc'' = Inr 12" by (simp add: parse_hex_u64_def)
  then show ?thesis
    by (simp add: get_block_number_def rpc_def rpc_optional_def two_words_node_def rpc_request_def bind_def act_run str_or_def)
qed

lemma two_words_env: "rp_now two_words_node s = (5, s)" "rp_chain_id two_words_node = 8453"
  by (simp_all add: two_words_node_def)

lemmas two_words_simps = two_words_call two_words_block two_words_decode two_words_read two_words_env bind_def act_run
  attempt_def handle_def ok_def annotate_def eth_call_def eth_call_at_block_def call_words_def word_nth_def infallible_def

lemma two_words_tokens: "fetch_pool_tokens hex_libs two_words_node pool s = (Inr (100, 100), s)"
  by (simp add: fetch_pool_tokens_def eth_call_def bind_ok [OF two_words_call] two_words_decode two_words_read word_nth_def act_run)

lemma two_words_decimals: "fetch_decimals hex_libs two_words_node tokens s = (Inr (Some 100, Some 100), s)"
proof -
  have "fetch_token_decimals hex_libs two_words_node token s = (Inr 100, s)" for token s
    by (simp add: fetch_token_decimals_def call_words_def eth_call_def bind_def two_words_call two_words_decode two_words_read
        word_nth_def act_run)
  then show ?thesis by (simp add: fetch_decimals_def bind_ok [OF ok_ok] act_run)
qed

lemma two_words_reserves: "fetch_aerodrome_reserves_at_block hex_libs two_words_node pool b s = (Inr (100, 100), s)"
  by (simp add: two_words_simps fetch_aerodrome_reserves_at_block_def reserves_of_words_def)

lemma two_words_state:
  "\<exists>p. fetch_aerodrome_pool_state hex_libs two_words_node pool s = (Inr p, s)"
  by (simp add: fetch_aerodrome_pool_state_def fetch_aerodrome_pool_state_at_block_def two_words_block
      aerodrome_tokens_def annotate_ok [OF two_words_tokens] two_words_decimals two_words_reserves two_words_env aerodrome_state_of_def bind_def act_run attempt_def handle_def
      infallible_def Let_def)

lemma two_words_fee:
  "fetch_aerodrome_classic_fee_bps hex_libs two_words_node factory pool b s = (Inr 100, s)"
  by (simp add: two_words_simps fetch_aerodrome_classic_fee_bps_def fetch_aerodrome_classic_fee_bps_at_block_def
      aerodrome_classic_fee_def u32_of_u256_def)

lemma two_words_spacings: "fetch_slipstream_tick_spacings hex_libs two_words_node factory s = (Inr [], s)"
  by (simp add: two_words_simps fetch_slipstream_tick_spacings_def decode_int24_array_def usize_of_u256_def)

lemma two_words_seen:
  "probe_pool hex_libs (eth_call two_words_node factory data label) read (seen, out) s = (Inr (seen, out), s)" if "100 \<in> seen"
  using that by (simp add: two_words_simps probe_pool_def decode_single_address_def)

lemma two_words_v3:
  "100 \<in> fst found \<Longrightarrow>
   discover_v3_fees hex_libs two_words_node dex variant factory label source a b fees found s = (Inr found, s)"
  by (induction fees) (cases found; simp add: two_words_seen bind_def act_run)+

lemma two_words_discovery:
  "\<exists>d. discover_pools_for_pair hex_libs two_words_node example_settings 1 2 () = (Inr [d], ()) \<and> dp_address d = 100"
proof -
  obtain p where p: "fetch_aerodrome_pool_state hex_libs two_words_node 100 () = (Inr p, ())"
    using two_words_state by blast
  have address: "ps_address p = 100"
    using yieldsD [OF yields_fetch_aerodrome p] by (simp add: aerodrome_state_ok_def)
  obtain d where d: "read_classic_pool hex_libs two_words_node aerodrome_classic_factory False 100 () = (Inr (Some d), ())" "dp_address d = 100"
    using p address by (simp add: read_classic_pool_def read_or_skip_def attempt_def handle_def two_words_fee bind_def ok_def act_run
        dp_address_def discovered_def)
  have "discover_aerodrome_classic hex_libs two_words_node example_settings 1 2 ({}, []) () = (Inr ({100}, [d]), ())"
    using d by (simp add: discover_aerodrome_classic_def factory_or_def two_words_seen bind_def)
       (simp add: probe_pool_def two_words_simps decode_single_address_def)
  moreover have "slipstream_factories example_settings = aerodrome_slipstream_factories"
    by (simp add: slipstream_factories_def aerodrome_slipstream_factories_def)
  ultimately show ?thesis
    using d(2) by (simp add: discover_pools_for_pair_def bind_def discover_aerodrome_slipstream_def
        aerodrome_slipstream_factories_def two_words_spacings discover_uniswap_v3_def discover_pancake_v3_def two_words_v3
        ok_def attempt_def handle_def act_run del: discover_v3_fees.simps)
qed


section \<open>The events of a block range\<close>

definition log_key :: "dex_event \<Rightarrow> string \<times> u64" where
  "log_key e = (ev_tx_hash e, ev_log_index e)"

lemma decoded_log_pool:
  "decode_log_for_pools lib pools log b i = Inr (Some e) \<Longrightarrow> ev_pool_address e \<in> ps_address ` set pools"
  by (auto simp: decode_log_for_pools_def Let_def list_ex_iff split: if_splits)

lemma events_of_logs_spec:
  "events_of_logs lib pools seen logs = Inr events \<Longrightarrow>
     distinct (map log_key events) \<and> log_key ` set events \<inter> seen = {} \<and>
     (\<forall>e \<in> set events. \<exists>log \<in> set logs. decode_log_for_pools lib pools log None None = Inr (Some e)) \<and>
     (\<forall>log \<in> set logs. \<forall>e. decode_log_for_pools lib pools log None None = Inr (Some e) \<longrightarrow>
        log_key e \<in> seen \<union> log_key ` set events)"
proof (induction logs arbitrary: seen events)
  case (Cons log logs)
  then obtain d where d: "decode_log_for_pools lib pools log None None = Inr d" by auto
  show ?case
  proof (cases d)
    case None
    with Cons d have "events_of_logs lib pools seen logs = Inr events" by simp
    from Cons.IH [OF this] None d show ?thesis by auto
  next
    case (Some e)
    show ?thesis
    proof (cases "log_key e \<in> seen")
      case True
      with Cons.prems d Some have "events_of_logs lib pools seen logs = Inr events" by (simp add: log_key_def)
      from Cons.IH [OF this] Some d True show ?thesis by auto
    next
      case False
      with Cons.prems d Some obtain events' where
        e: "events = e # events'" "events_of_logs lib pools (insert (log_key e) seen) logs = Inr events'"
        by (auto simp: log_key_def)
      from Cons.IH [OF e(2)] e(1) Some d False show ?thesis by auto
    qed
  qed
qed simp

text \<open>The events fetched for a range of blocks are exactly the logs the node returned for it that decode
  to an event of a monitored pool, one for each transaction and log index, in the order of blocks and log
  indices.\<close>

theorem fetched_events_exact:
  assumes "fetch_relevant_events_for_pools lib rp pools from_block to_block s = (Inr events, s')"
    and "from_block \<le> to_block" "pools \<noteq> []"
  shows "\<exists>params logs s1. rpc rp ''eth_getLogs'' params s = (Inr (JArray logs), s1) \<and>
     log_key ` set events = {log_key e | e log. log \<in> set logs \<and> decode_log_for_pools lib pools log None None = Inr (Some e)} \<and>
     distinct (map log_key events) \<and> sorted (map (\<lambda>e. (ev_block_number e, ev_log_index e)) events) \<and>
     ev_pool_address ` set events \<subseteq> ps_address ` set pools"
proof -
  have "distinct_addresses {} pools \<noteq> []" using assms(3) by (cases pools) auto
  moreover have "\<not> to_block < from_block" using assms(2) by (simp add: not_less)
  ultimately obtain params v s1 logs found where
    v: "rpc rp ''eth_getLogs'' params s = (Inr v, s1)" "json_values v ''invalid type'' = Inr logs"
      "events_of_logs lib pools {} logs = Inr found"
      "events = sort_key (\<lambda>e. (ev_block_number e, ev_log_index e)) found"
    using assms(1) by (auto simp: fetch_relevant_events_for_pools_def Let_def act_Inr)
  then have "v = JArray logs" by (cases v) (simp_all add: json_values_def)
  moreover note spec = events_of_logs_spec [OF v(3)]
  moreover have "distinct (map log_key events)"
    using spec unfolding v(4) by (simp add: distinct_map)
  moreover have sets: "set events = set found" unfolding v(4) by simp
  have "ev_pool_address ` set events \<subseteq> ps_address ` set pools"
    using spec decoded_log_pool unfolding sets by (metis image_subsetI)
  moreover have "log_key ` set events =
      {log_key e | e log. log \<in> set logs \<and> decode_log_for_pools lib pools log None None = Inr (Some e)}"
    using spec unfolding sets by blast
  moreover have "sorted (map (\<lambda>e. (ev_block_number e, ev_log_index e)) events)" unfolding v(4) by (rule sorted_sort_key)
  ultimately show ?thesis using v(1) by blast
qed

text \<open>A node whose only log, of pool 100, comes twice.\<close>

definition example_log :: json where
  "example_log = JObject [(''address'', JString (address_hex 100)), (''topics'', JArray [JString classic_swap_topic]),
     (''data'', JString ''0x''), (''blockNumber'', JString ''0x''), (''transactionHash'', JString ''h''),
     (''logIndex'', JString ''0x'')]"

definition log_node :: "unit rpc_env" where
  "log_node = \<lparr>rp_chain_id = 8453,
     rp_post = (\<lambda>request s. (Inr \<lparr>rs_result = Some (JArray [example_log, example_log]), rs_error = None\<rparr>, s)),
     rp_now = (\<lambda>s. (5, s)), rp_json_text = (\<lambda>_. []), rp_parse_b256 = (\<lambda>_. Inr 0)\<rparr>"

lemma example_log_decoded:
  "\<exists>e. decode_log_for_pools hex_libs [example_pool] example_log None None = Inr (Some e) \<and> log_key e = (''h'', 0)"
proof -
  have "parse_address hex_libs (address_hex 100) = Inr 100"
    using hex_libs_read(2) by (simp add: parse_address_def reads_addresses_def)
  moreover have "ps_address example_pool = 100" by (simp add: example_pool_def)
  ultimately show ?thesis
    by (simp add: decode_log_for_pools_def example_log_def rpc_log_of_fields_def string_value_def string_values_def
        optional_string_value_def number_or_def parse_hex_u64_def log_key_def Let_def)
qed

theorem fetched_events_exact_witness:
  "\<exists>events. fetch_relevant_events_for_pools hex_libs log_node [example_pool] 0 1 () = (Inr events, ()) \<and>
     log_key ` set events = {(''h'', 0)} \<and> distinct (map log_key events)"
proof -
  obtain e where e: "decode_log_for_pools hex_libs [example_pool] example_log None None = Inr (Some e)" "log_key e = (''h'', 0)"
    using example_log_decoded by blast
  have rpc: "rpc log_node m params () = (Inr (JArray [example_log, example_log]), ())" for m params
    by (simp add: rpc_def rpc_optional_def log_node_def bind_def act_run)
  have "fetch_relevant_events_for_pools hex_libs log_node [example_pool] 0 1 () = (Inr [e], ())"
    using e(1) by (simp add: fetch_relevant_events_for_pools_def Let_def bind_def rpc act_run json_values_def)
  from fetched_events_exact [OF this] this e show ?thesis by (intro exI [of _ "[e]"]) (auto simp: rpc)
qed

end
