(* ===== verification/Market_Logs.thy ===== *)
theory Market_Logs
  imports Market_Events Chain_Discovery
begin

text \<open>
  How \<open>crates/market-data/src/listener.rs\<close> reads raw logs when it discovers pools: created pools, swaps,
  and the pool events of the Uniswap V4 pool manager and the Balancer V3 vault, with the names and
  topics it derives from them. Log data is ASCII text where it is sliced.
\<close>

section \<open>Topics\<close>

definition v3_pool_created_topic :: string where
  "v3_pool_created_topic = ''0x783cca1c0412dd0d695e784568c96da2e9c22ff989357a2e8b1d9b2b4e6b7118''"
definition classic_pool_created_topic :: string where
  "classic_pool_created_topic = ''0x2128d88d14c80cb081c1252a5acff7a264671bf199ce226b53788fb26065005e''"
definition classic_pair_created_topic :: string where
  "classic_pair_created_topic = ''0xc4805696c66d7cf352fc1d6bb633ad5ee82f6cb577c453024b6e0eb8306c6fc9''"
definition slipstream_pool_created_topic :: string where
  "slipstream_pool_created_topic = ''0xab0d57f0df537bb25e80245ef7748fa62353808c54d6e528a9dd20887aed9ac2''"
definition slipstream_pool_created_with_index_topic :: string where
  "slipstream_pool_created_with_index_topic = ''0xb4b64a6a7c41cd0232bfad78d5f845870be74762857744ff02be28578c5f4cb9''"
definition aerodrome_classic_swap_topic :: string where
  "aerodrome_classic_swap_topic = ''0xb3e2773606abfd36b5bd91394b3a54d1398336c65005baf7bf7a05efeffaf75b''"
definition erc20_transfer_topic :: string where
  "erc20_transfer_topic = ''0xddf252ad1be2c89b69c2b068fc378daa952ba7f163c4a11628f55a4df523b3ef''"
definition uniswap_v4_initialize_topic :: string where
  "uniswap_v4_initialize_topic = ''0xdd466e674ea557f56295e2d0218a125ea4b4f0f6f3307b95f85e6110838d6438''"
definition uniswap_v4_swap_topic :: string where
  "uniswap_v4_swap_topic = ''0x40e9cecb9f5f1f1c5b9c97dec2917b7ee92e57ba5563708daca94dd84ad7112f''"
definition uniswap_v4_modify_liquidity_topic :: string where
  "uniswap_v4_modify_liquidity_topic = ''0xf208f4912782fd25c7f114ca3723a2d5dd6f3bcc3ac8db5af63baa85f711d5ec''"
definition balancer_v3_pool_registered_topic :: string where
  "balancer_v3_pool_registered_topic = ''0x853ac13ac53a4640819c3cdb0d84f232b972040b62c0083953db0e0318707715''"

section \<open>Words\<close>

text \<open>\<open>Result::ok\<close>.\<close>

definition success :: "'a anyhow \<Rightarrow> 'a option" where
  "success r = (case r of Inl _ \<Rightarrow> None | Inr x \<Rightarrow> Some x)"

definition parse_hex_u64_local :: "string \<Rightarrow> u64 option" where
  "parse_hex_u64_local s = success (uint_from_hex (strip_prefix_0x s))"

definition data_words :: "string \<Rightarrow> string list" where
  "data_words data =
     (let hex = strip_prefix_0x data in
      if hex = [] \<or> length hex mod 64 \<noteq> 0 then []
      else map (\<lambda>i. slice hex (64 * i) (64 * i + 64)) [0 ..< length hex div 64])"

definition parse_word_u256_local :: "libs \<Rightarrow> string \<Rightarrow> u256 option" where
  "parse_word_u256_local lib word = success (lib_from_str_radix lib (trim_start_0x word) 16)"

definition parse_word_i256_i128_local :: "libs \<Rightarrow> string \<Rightarrow> i128 anyhow" where
  "parse_word_i256_i128_local lib word =
     (let clean = trim_start_0x word in
      if length clean \<noteq> 64 then bail ''int256 ABI word must be 32 bytes''
      else rbind (lib_from_str_radix lib clean 16) (\<lambda>unsigned.
        let negative = (case hex_value (hd clean) of None \<Rightarrow> False | Some nibble \<Rightarrow> 8 \<le> nibble) in
        if \<not> negative
        then (if 2 ^ 128 \<le> unat unsigned then bail ''int256 does not fit i128''
              else if 2 ^ 127 - 1 < unat unsigned then bail ''positive int256 does not fit i128''
              else Inr (ucast unsigned))
        else
          rbind (ok_or_message (Option.bind (checked_sub (- 1) unsigned) (\<lambda>v. checked_add v 1))
                   ''negative int256 magnitude overflow'') (\<lambda>magnitude.
          if 2 ^ 128 \<le> unat magnitude then bail ''int256 does not fit i128''
          else if 2 ^ 127 - 1 < unat magnitude then bail ''negative int256 does not fit i128''
          else Inr (- ucast magnitude))))"

text \<open>\<open>i32::from_str_radix(_, 16)\<close>, which takes a sign; the text has at most six characters, so no value
  is out of range.\<close>

definition short_i32_from_hex :: "string \<Rightarrow> i32 option" where
  "short_i32_from_hex s =
     (if s = [] \<or> s = ''+'' \<or> s = ''-'' then None
      else if hd s = CHR ''-'' then map_option (\<lambda>n. - word_of_nat n) (hex_digits_value (tl s) 0)
      else map_option word_of_nat (hex_digits_value (if hd s = CHR ''+'' then tl s else s) 0))"

definition parse_word_i24_local :: "string \<Rightarrow> i32 option" where
  "parse_word_i24_local word =
     (let clean = trim_start_0x word in
      Option.bind (short_i32_from_hex (drop (length clean - 6) clean)) (\<lambda>v.
      Some (if v AND 0x800000 \<noteq> 0 then v - 0x1000000 else v)))"

definition parse_decimal_u256 :: "libs \<Rightarrow> string \<Rightarrow> string \<Rightarrow> u256 anyhow" where
  "parse_decimal_u256 lib v field =
     with_context (''invalid decimal U256 in '' @ field @ '': '' @ v) (lib_from_str_radix lib (trim v) 10)"

definition json_u256_field :: "libs \<Rightarrow> json \<Rightarrow> string \<Rightarrow> u256 anyhow" where
  "json_u256_field lib v field =
     rbind (ok_or_message (Option.bind (json_get v field) json_as_str) (''missing '' @ field)) (\<lambda>raw.
     parse_decimal_u256 lib raw field)"

definition element_text :: "string \<Rightarrow> nat \<Rightarrow> json \<Rightarrow> string anyhow" where
  "element_text field i v = ok_or_message (json_as_str v) (field @ ''['' @ nat_dec i @ ''] is not a string'')"

definition json_u256_array :: "libs \<Rightarrow> json \<Rightarrow> string \<Rightarrow> u256 list anyhow" where
  "json_u256_array lib v field =
     rbind (ok_or_message (Option.bind (json_get v field) json_as_array) (''missing '' @ field @ '' array'')) (\<lambda>vs.
     collect_results (\<lambda>(i, v). rbind (element_text field i v) (\<lambda>raw. parse_decimal_u256 lib raw field)) (enumerate 0 vs))"

definition json_address_array :: "libs \<Rightarrow> json \<Rightarrow> string \<Rightarrow> address list anyhow" where
  "json_address_array lib v field =
     rbind (ok_or_message (Option.bind (json_get v field) json_as_array) (''missing '' @ field @ '' array'')) (\<lambda>vs.
     collect_results (\<lambda>(i, v). rbind (element_text field i v) (\<lambda>raw.
       with_context (''invalid address in '' @ field @ ''['' @ nat_dec i @ '']'') (parse_address lib raw))) (enumerate 0 vs))"

section \<open>Addresses in logs\<close>

definition address_from_word :: "libs \<Rightarrow> string \<Rightarrow> address option" where
  "address_from_word lib word =
     (let clean = trim_start_0x word in
      if length clean < 40 then None else lib_parse_address lib (''0x'' @ drop (length clean - 40) clean))"

definition address_from_topic :: "libs \<Rightarrow> string \<Rightarrow> address option" where
  "address_from_topic lib topic = address_from_word lib (trim_start_0x topic)"

definition synthetic_address_from_pool_uid :: "libs \<Rightarrow> string \<Rightarrow> address option" where
  "synthetic_address_from_pool_uid lib pool_uid = address_from_word lib pool_uid"

definition address_topic :: "address \<Rightarrow> string" where
  "address_topic a = ''0x'' @ pad_left CHR ''0'' 64 (trim_start_0x (address_hex a))"

text \<open>A word that starts with twelve zero bytes may be an address.\<close>

definition padded_address :: "libs \<Rightarrow> string \<Rightarrow> address option" where
  "padded_address lib word =
     (if take 24 word = replicate 24 CHR ''0'' then lib_parse_address lib (''0x'' @ slice word 24 64) else None)"

definition data_word_addresses :: "libs \<Rightarrow> string \<Rightarrow> address list" where
  "data_word_addresses lib data =
     (let hex = strip_prefix_0x data in
      List.map_filter (padded_address lib) (map (\<lambda>i. slice hex (64 * i) (64 * i + 64)) [0 ..< length hex div 64]))"

definition topic_word_addresses :: "libs \<Rightarrow> string list \<Rightarrow> address list" where
  "topic_word_addresses lib topics =
     List.map_filter (\<lambda>topic.
       let hex = strip_prefix_0x topic in if length hex \<noteq> 64 then None else padded_address lib hex) (drop 1 topics)"

definition canonical_pair :: "address \<Rightarrow> address \<Rightarrow> address \<times> address" where
  "canonical_pair a b = (if a < b then (a, b) else (b, a))"

definition fixed_18_percentage_to_bps :: "u256 \<Rightarrow> u32 option" where
  "fixed_18_percentage_to_bps v =
     Option.bind (checked_mul v 10000) (\<lambda>v.
     Option.bind (checked_div v one_18) (\<lambda>bps. if unat bps < 2 ^ 32 then Some (ucast bps) else None))"

section \<open>Fields of a raw log\<close>

definition raw_log_topics :: "json \<Rightarrow> string list" where
  "raw_log_topics raw =
     (case Option.bind (json_get raw ''topics'') json_as_array of
        None \<Rightarrow> []
      | Some topics \<Rightarrow> map to_ascii_lowercase (List.map_filter json_as_str topics))"

definition raw_log_topic0 :: "json \<Rightarrow> string option" where
  "raw_log_topic0 raw =
     (case Option.bind (json_get raw ''topics'') json_as_array of
        None \<Rightarrow> None
      | Some [] \<Rightarrow> None
      | Some (topic # _) \<Rightarrow> map_option to_ascii_lowercase (json_as_str topic))"

definition raw_log_address :: "libs \<Rightarrow> json \<Rightarrow> address option" where
  "raw_log_address lib raw = Option.bind (Option.bind (json_get raw ''address'') json_as_str) (lib_parse_address lib)"

definition raw_log_data_words :: "json \<Rightarrow> string list" where
  "raw_log_data_words raw =
     (case Option.bind (json_get raw ''data'') json_as_str of None \<Rightarrow> [] | Some data \<Rightarrow> data_words data)"

text \<open>The hash parser takes 64 digits after an optional \<open>0x\<close>; it is a parameter like the address parser.\<close>

definition raw_log_tx_hash :: "(string \<Rightarrow> b256 option) \<Rightarrow> json \<Rightarrow> b256 option" where
  "raw_log_tx_hash parse_hash raw =
     Option.bind (Option.bind (json_get raw ''transactionHash'') json_as_str) parse_hash"

definition raw_log_block_number :: "json \<Rightarrow> u64 option" where
  "raw_log_block_number raw =
     Option.bind (Option.bind (json_get raw ''blockNumber'') json_as_str) parse_hex_u64_local"

section \<open>Created pools and swaps\<close>

record creation_log =
  cl_factory :: address
  cl_topic0 :: string
  cl_topics :: "string list"
  cl_data :: string
  cl_block_number :: u64

record swap_observation_log =
  sl_pool :: address
  sl_topic0 :: string
  sl_block_number :: u64

definition log_address :: "libs \<Rightarrow> string \<Rightarrow> json \<Rightarrow> address anyhow" where
  "log_address lib message raw =
     rbind (ok_or_message (Option.bind (json_get raw ''address'') json_as_str) message) (parse_address lib)"

definition parse_creation_log :: "libs \<Rightarrow> json \<Rightarrow> creation_log anyhow" where
  "parse_creation_log lib raw =
     rbind (log_address lib ''pool-created log missing address'' raw) (\<lambda>factory.
     rbind (ok_or_message (raw_log_topic0 raw) ''pool-created log missing topic0'') (\<lambda>topic0.
     rbind (ok_or_message (Option.bind (json_get raw ''data'') json_as_str) ''pool-created log missing data'') (\<lambda>data.
     rbind (ok_or_message (raw_log_block_number raw) ''pool-created log missing blockNumber'') (\<lambda>block_number.
     Inr \<lparr>cl_factory = factory, cl_topic0 = topic0, cl_topics = raw_log_topics raw, cl_data = data,
       cl_block_number = block_number\<rparr>))))"

definition creation_log_candidate_addresses :: "libs \<Rightarrow> creation_log \<Rightarrow> address list" where
  "creation_log_candidate_addresses lib log =
     topic_word_addresses lib (cl_topics log) @ data_word_addresses lib (cl_data log)"

definition parse_swap_log :: "libs \<Rightarrow> json \<Rightarrow> swap_observation_log anyhow" where
  "parse_swap_log lib raw =
     rbind (log_address lib ''swap log missing address'' raw) (\<lambda>pool.
     rbind (ok_or_message (raw_log_topic0 raw) ''swap log missing topic0'') (\<lambda>topic0.
     rbind (ok_or_message (raw_log_block_number raw) ''swap log missing blockNumber'') (\<lambda>block_number.
     Inr \<lparr>sl_pool = pool, sl_topic0 = topic0, sl_block_number = block_number\<rparr>)))"

section \<open>Names\<close>

fun dex_to_string :: "dex_kind \<Rightarrow> string" where
  "dex_to_string DexAerodrome = ''Aerodrome''"
| "dex_to_string DexUniswapV3 = ''UniswapV3''"
| "dex_to_string DexPancakeSwap = ''PancakeSwap''"
| "dex_to_string DexUniswapV4 = ''UniswapV4''"
| "dex_to_string DexBalancer = ''Balancer''"

fun variant_to_string :: "pool_variant \<Rightarrow> string" where
  "variant_to_string AerodromeVolatile = ''AerodromeVolatile''"
| "variant_to_string AerodromeSlipstream = ''AerodromeSlipstream''"
| "variant_to_string UniswapV3 = ''UniswapV3''"
| "variant_to_string PancakeV3 = ''PancakeV3''"
| "variant_to_string UniswapV4 = ''UniswapV4''"
| "variant_to_string BalancerV3 = ''BalancerV3''"

definition parse_dex_kind :: "string \<Rightarrow> dex_kind anyhow" where
  "parse_dex_kind s =
     (if s = ''Aerodrome'' then Inr DexAerodrome
      else if s = ''UniswapV3'' then Inr DexUniswapV3
      else if s = ''PancakeSwap'' then Inr DexPancakeSwap
      else if s = ''UniswapV4'' then Inr DexUniswapV4
      else if s = ''Balancer'' then Inr DexBalancer
      else bail (''unknown dex: '' @ s))"

definition parse_variant_name :: "string \<Rightarrow> pool_variant anyhow" where
  "parse_variant_name s =
     (if s = ''AerodromeVolatile'' then Inr AerodromeVolatile
      else if s = ''AerodromeSlipstream'' then Inr AerodromeSlipstream
      else if s = ''UniswapV3'' then Inr UniswapV3
      else if s = ''PancakeV3'' then Inr PancakeV3
      else if s = ''UniswapV4'' then Inr UniswapV4
      else if s = ''BalancerV3'' then Inr BalancerV3
      else bail (''unknown pool variant: '' @ s))"

definition is_supported_swap_topic :: "string \<Rightarrow> bool" where
  "is_supported_swap_topic topic0 \<longleftrightarrow>
     (let topic0 = to_ascii_lowercase topic0 in
      topic0 = v3_swap_topic \<or> topic0 = pancake_v3_swap_topic \<or> topic0 = classic_swap_topic \<or>
      topic0 = aerodrome_classic_swap_topic)"

definition is_classic_created :: "string \<Rightarrow> bool" where
  "is_classic_created topic0 \<longleftrightarrow> topic0 = classic_pool_created_topic \<or> topic0 = classic_pair_created_topic"

definition inferred_dex_for_creation_topic :: "string \<Rightarrow> string" where
  "inferred_dex_for_creation_topic topic0 =
     (if is_classic_created (to_ascii_lowercase topic0) then ''Aerodrome'' else ''UniswapV3'')"

definition inferred_variant_for_creation_topic :: "string \<Rightarrow> string" where
  "inferred_variant_for_creation_topic topic0 =
     (let topic0 = to_ascii_lowercase topic0 in
      if is_classic_created topic0 then ''AerodromeVolatile''
      else if topic0 = slipstream_pool_created_topic \<or> topic0 = slipstream_pool_created_with_index_topic
      then ''AerodromeSlipstream'' else ''UniswapV3'')"

definition creation_compatible_swap_topic :: "string \<Rightarrow> string" where
  "creation_compatible_swap_topic topic0 =
     (if is_classic_created (to_ascii_lowercase topic0) then classic_swap_topic else v3_swap_topic)"

definition inferred_dex_for_swap_topic :: "string \<Rightarrow> string" where
  "inferred_dex_for_swap_topic topic0 =
     (let topic0 = to_ascii_lowercase topic0 in
      if topic0 = classic_swap_topic \<or> topic0 = aerodrome_classic_swap_topic then ''Aerodrome''
      else if topic0 = pancake_v3_swap_topic then ''PancakeSwap'' else ''UniswapV3'')"

definition inferred_variant_for_swap_topic :: "string \<Rightarrow> string" where
  "inferred_variant_for_swap_topic topic0 =
     (let topic0 = to_ascii_lowercase topic0 in
      if topic0 = classic_swap_topic \<or> topic0 = aerodrome_classic_swap_topic then ''AerodromeVolatile''
      else if topic0 = pancake_v3_swap_topic then ''PancakeV3'' else ''UniswapV3'')"

definition swap_family_for_topic :: "string \<Rightarrow> string" where
  "swap_family_for_topic topic0 =
     (let topic0 = to_ascii_lowercase topic0 in
      if topic0 = classic_swap_topic then ''classic-v2''
      else if topic0 = aerodrome_classic_swap_topic then ''aero-classic''
      else if topic0 = pancake_v3_swap_topic then ''pancake-v3'' else ''v3/slipstream'')"

definition short_address_suffix :: "address \<Rightarrow> string" where
  "short_address_suffix a = (let text = address_hex a in drop (length text - 6) text)"

definition token_label :: "string \<Rightarrow> address \<Rightarrow> string" where
  "token_label symbol a = symbol @ ''-'' @ short_address_suffix a"

definition token_symbol :: "libs \<Rightarrow> 's rpc_env \<Rightarrow> address \<Rightarrow> ('s, string) act" where
  "token_symbol lib rp token = attempt (fetch_erc20_symbol lib rp token) pass (\<lambda>_. pass ''token'')"

definition pair_symbol :: "libs \<Rightarrow> 's rpc_env \<Rightarrow> address \<Rightarrow> address \<Rightarrow> ('s, string) act" where
  "pair_symbol lib rp token0 token1 =
     bind (token_symbol lib rp token0) (\<lambda>symbol0.
     bind (token_symbol lib rp token1) (\<lambda>symbol1.
     pass (token_label symbol0 token0 @ ''/'' @ token_label symbol1 token1)))"

text \<open>The cache of symbols goes with the result.\<close>

definition cached_token_symbol ::
    "libs \<Rightarrow> 's rpc_env \<Rightarrow> (address \<times> string) list \<Rightarrow> address \<Rightarrow> ('s, string \<times> (address \<times> string) list) act" where
  "cached_token_symbol lib rp cache token =
     (case map_of cache token of
        Some symbol \<Rightarrow> pass (symbol, cache)
      | None \<Rightarrow> bind (token_symbol lib rp token) (\<lambda>symbol. pass (symbol, hash_insert token symbol cache)))"

definition cached_pair_symbol ::
    "libs \<Rightarrow> 's rpc_env \<Rightarrow> (address \<times> string) list \<Rightarrow> address \<Rightarrow> address \<Rightarrow> ('s, string \<times> (address \<times> string) list) act" where
  "cached_pair_symbol lib rp cache token0 token1 =
     bind (cached_token_symbol lib rp cache token0) (\<lambda>(symbol0, cache).
     bind (cached_token_symbol lib rp cache token1) (\<lambda>(symbol1, cache).
     pass (token_label symbol0 token0 @ ''/'' @ token_label symbol1 token1, cache)))"

section \<open>Pools of the singletons\<close>

record protocol_pool_observation =
  po_chain_id :: u64
  po_protocol :: string
  po_manager_address :: address
  po_pool_uid :: string
  po_pool_address :: "address option"
  po_topic0 :: string
  po_event_type :: string
  po_token0 :: "address option"
  po_token1 :: "address option"
  po_symbol :: "string option"
  po_factory_address :: "address option"
  po_dex :: "string option"
  po_variant :: "string option"
  po_fee_bps :: "u32 option"
  po_fee_pips :: "u32 option"
  po_pool_key_fee_pips :: "u32 option"
  po_tick_spacing :: "i32 option"
  po_hooks_address :: "address option"
  po_sqrt_price_x96 :: "u256 option"
  po_liquidity :: "u256 option"
  po_tick :: "i32 option"
  po_block_number :: u64
  po_discovery_source :: string
  po_import_status :: string
  po_import_reason :: "string option"
  po_raw_json :: json

definition element :: "nat \<Rightarrow> 'a list \<Rightarrow> 'a option" where
  "element i xs = (if i < length xs then Some (xs ! i) else None)"

definition word_u32 :: "libs \<Rightarrow> string list \<Rightarrow> nat \<Rightarrow> u32 option" where
  "word_u32 lib words i =
     Option.bind (Option.bind (element i words) (parse_word_u256_local lib)) (\<lambda>v.
     if unat v < 2 ^ 32 then Some (ucast v) else None)"

definition symbol_of_pair :: "libs \<Rightarrow> 's rpc_env \<Rightarrow> address option \<Rightarrow> address option \<Rightarrow> ('s, string option) act" where
  "symbol_of_pair lib rp token0 token1 =
     (case (token0, token1) of
        (Some left, Some right) \<Rightarrow> bind (pair_symbol lib rp left right) (\<lambda>symbol. pass (Some symbol))
      | _ \<Rightarrow> pass None)"

definition parse_uniswap_v4_protocol_observation ::
    "libs \<Rightarrow> 's rpc_env \<Rightarrow> settings \<Rightarrow> address \<Rightarrow> string \<Rightarrow> string list \<Rightarrow> string list \<Rightarrow> u64 \<Rightarrow> string \<Rightarrow> json \<Rightarrow>
     ('s, protocol_pool_observation) act" where
  "parse_uniswap_v4_protocol_observation lib rp cfg manager topic0 topics words block_number discovery_source raw =
     bind (lift (ok_or_message (element 1 topics) ''Uniswap V4 log missing PoolId topic'')) (\<lambda>pool_uid.
     let u256_at = (\<lambda>i. Option.bind (element i words) (parse_word_u256_local lib));
         i24_at = (\<lambda>i. Option.bind (element i words) parse_word_i24_local);
         topic_address = (\<lambda>i. Option.bind (element i topics) (address_from_topic lib));
         observed = \<lparr>po_chain_id = cfg_chain_id cfg, po_protocol = ''uniswap-v4'', po_manager_address = manager,
           po_pool_uid = pool_uid, po_pool_address = synthetic_address_from_pool_uid lib pool_uid, po_topic0 = topic0,
           po_event_type = [], po_token0 = None, po_token1 = None, po_symbol = None,
           po_factory_address = Some manager, po_dex = Some ''UniswapV4'', po_variant = Some ''UniswapV4'',
           po_fee_bps = None, po_fee_pips = None, po_pool_key_fee_pips = None, po_tick_spacing = None,
           po_hooks_address = None, po_sqrt_price_x96 = None, po_liquidity = None, po_tick = None,
           po_block_number = block_number, po_discovery_source = discovery_source,
           po_import_status = ''observed_only'',
           po_import_reason = Some ''Uniswap V4 PoolManager pool observed; offchain state import pending'',
           po_raw_json = raw\<rparr> in
     if topic0 = uniswap_v4_initialize_topic
     then
       let token0 = topic_address 2; token1 = topic_address 3; fee_pips = word_u32 lib words 0 in
       bind (symbol_of_pair lib rp token0 token1) (\<lambda>symbol.
       pass (observed\<lparr>po_event_type := ''Initialize'', po_token0 := token0, po_token1 := token1, po_symbol := symbol,
         po_fee_bps := map_option (\<lambda>fee. fee div 100) fee_pips, po_fee_pips := fee_pips,
         po_pool_key_fee_pips := fee_pips, po_tick_spacing := i24_at 1,
         po_hooks_address := Option.bind (element 2 words) (address_from_word lib),
         po_sqrt_price_x96 := u256_at 3, po_tick := i24_at 4\<rparr>))
     else if topic0 = uniswap_v4_swap_topic
     then
       let fee_pips = word_u32 lib words 5 in
       pass (observed\<lparr>po_event_type := ''Swap'', po_fee_bps := map_option (\<lambda>fee. fee div 100) fee_pips,
         po_fee_pips := fee_pips, po_sqrt_price_x96 := u256_at 2, po_liquidity := u256_at 3, po_tick := i24_at 4\<rparr>)
     else if topic0 = uniswap_v4_modify_liquidity_topic
     then pass (observed\<lparr>po_event_type := ''ModifyLiquidity''\<rparr>)
     else fail (''unsupported Uniswap V4 topic '' @ topic0))"

definition parse_balancer_v3_protocol_observation ::
    "libs \<Rightarrow> 's rpc_env \<Rightarrow> settings \<Rightarrow> address \<Rightarrow> string \<Rightarrow> string list \<Rightarrow> string list \<Rightarrow> u64 \<Rightarrow> string \<Rightarrow> json \<Rightarrow>
     ('s, protocol_pool_observation) act" where
  "parse_balancer_v3_protocol_observation lib rp cfg manager topic0 topics words block_number discovery_source raw =
     bind (lift (ok_or_message (Option.bind (element 1 topics) (address_from_topic lib))
             ''Balancer V3 log missing pool topic'')) (\<lambda>pool.
     let topic_address = (\<lambda>i. Option.bind (element i topics) (address_from_topic lib));
         observed = \<lparr>po_chain_id = cfg_chain_id cfg, po_protocol = ''balancer-v3'', po_manager_address = manager,
           po_pool_uid = address_hex pool, po_pool_address = Some pool, po_topic0 = topic0,
           po_event_type = [], po_token0 = None, po_token1 = None, po_symbol = None,
           po_factory_address = None, po_dex = Some ''Balancer'', po_variant = Some ''BalancerV3'',
           po_fee_bps = None, po_fee_pips = None, po_pool_key_fee_pips = None, po_tick_spacing = None,
           po_hooks_address = None, po_sqrt_price_x96 = None, po_liquidity = None, po_tick = None,
           po_block_number = block_number, po_discovery_source = discovery_source,
           po_import_status = ''observed_only'',
           po_import_reason = Some ''Balancer V3 Vault pool observed; pool math/adapter-data classification pending'',
           po_raw_json = raw\<rparr> in
     if topic0 = balancer_v3_swap_topic
     then
       let token0 = topic_address 2; token1 = topic_address 3 in
       bind (symbol_of_pair lib rp token0 token1) (\<lambda>symbol.
       pass (observed\<lparr>po_event_type := ''Swap'', po_token0 := token0, po_token1 := token1, po_symbol := symbol,
         po_fee_bps := Option.bind (Option.bind (element 2 words) (parse_word_u256_local lib)) fixed_18_percentage_to_bps\<rparr>))
     else if topic0 = balancer_v3_pool_registered_topic
     then pass (observed\<lparr>po_event_type := ''PoolRegistered'', po_factory_address := topic_address 2\<rparr>)
     else fail (''unsupported Balancer V3 topic '' @ topic0))"

definition parse_protocol_pool_observation ::
    "libs \<Rightarrow> 's rpc_env \<Rightarrow> settings \<Rightarrow> json \<Rightarrow> string \<Rightarrow> ('s, protocol_pool_observation option) act" where
  "parse_protocol_pool_observation lib rp cfg raw discovery_source =
     bind (lift (ok_or_message (raw_log_address lib raw) ''protocol log missing address'')) (\<lambda>manager.
     bind (lift (ok_or_message (raw_log_topic0 raw) ''protocol log missing topic0'')) (\<lambda>topic0.
     bind (lift (ok_or_message (raw_log_block_number raw) ''protocol log missing blockNumber'')) (\<lambda>block_number.
     let topics = raw_log_topics raw; words = raw_log_data_words raw in
     if cfg_uniswap_v4_pool_manager cfg = Some manager
     then bind (parse_uniswap_v4_protocol_observation lib rp cfg manager topic0 topics words block_number
                  discovery_source raw) (\<lambda>observed. pass (Some observed))
     else if cfg_balancer_v3_vault cfg = Some manager
     then bind (parse_balancer_v3_protocol_observation lib rp cfg manager topic0 topics words block_number
                  discovery_source raw) (\<lambda>observed. pass (Some observed))
     else pass None)))"

text \<open>\<open>i128::checked_neg\<close>.\<close>

definition i128_checked_neg :: "i128 \<Rightarrow> i128 option" where
  "i128_checked_neg v = (if sint v = - (2 ^ 127) then None else Some (- v))"

definition uniswap_v4_tick_deltas_from_observation :: "libs \<Rightarrow> protocol_pool_observation \<Rightarrow> tick_delta list anyhow" where
  "uniswap_v4_tick_deltas_from_observation lib observed =
     (if po_protocol observed \<noteq> ''uniswap-v4'' \<or> po_event_type observed \<noteq> ''ModifyLiquidity'' then Inr []
      else
        let words = raw_log_data_words (po_raw_json observed) in
        rbind (ok_or_message (Option.bind (element 0 words) parse_word_i24_local)
                 ''Uniswap V4 ModifyLiquidity missing tickLower'') (\<lambda>lower.
        rbind (ok_or_message (Option.bind (element 1 words) parse_word_i24_local)
                 ''Uniswap V4 ModifyLiquidity missing tickUpper'') (\<lambda>upper.
        rbind (case element 2 words of
                 None \<Rightarrow> bail ''Uniswap V4 ModifyLiquidity missing liquidityDelta''
               | Some word \<Rightarrow> parse_word_i256_i128_local lib word) (\<lambda>delta.
        if delta = 0 then Inr []
        else rbind (ok_or_message (i128_checked_neg delta) ''Uniswap V4 liquidityDelta underflow'') (\<lambda>opposite.
          Inr [\<lparr>td_tick = lower, td_gross_delta = delta, td_net_delta = delta\<rparr>,
               \<lparr>td_tick = upper, td_gross_delta = delta, td_net_delta = opposite\<rparr>])))))"

section \<open>Recently seen transactions\<close>

record recent_tx_cache =
  xc_limit :: usize
  xc_order :: "b256 list"
  xc_seen :: "b256 set"

definition recent_tx_cache_new :: "usize \<Rightarrow> recent_tx_cache" where
  "recent_tx_cache_new limit = \<lparr>xc_limit = limit, xc_order = [], xc_seen = {}\<rparr>"

definition recent_tx_insert :: "b256 \<Rightarrow> recent_tx_cache \<Rightarrow> bool \<times> recent_tx_cache" where
  "recent_tx_insert tx_hash cache =
     (if tx_hash \<in> xc_seen cache then (False, cache)
      else case evict_oldest (xc_limit cache) (xc_order cache @ [tx_hash]) (insert tx_hash (xc_seen cache)) of
             (order, seen) \<Rightarrow> (True, cache\<lparr>xc_order := order, xc_seen := seen\<rparr>))"

section \<open>Reading what was written\<close>

lemma hd_hex_fixed: "0 < k \<Longrightarrow> hd (hex_fixed k n) = hex_digit (n div 16 ^ (k - 1))"
proof (induction k arbitrary: n)
  case (Suc k)
  show ?case
  proof (cases k)
    case (Suc j)
    then have "hd (hex_fixed (Suc k) n) = hd (hex_fixed k (n div 16))" by (simp add: hd_append)
    with Suc.IH [of "n div 16"] Suc show ?thesis by (simp add: div_mult2_eq)
  qed simp
qed simp

lemma hd_signed_word:
  assumes "- (2 ^ 255) \<le> i" "i < 2 ^ 255"
  shows "\<exists>d < 16. hex_value (hd (signed_word i)) = Some d \<and> (8 \<le> d \<longleftrightarrow> i < 0)"
proof -
  define n where "n = nat (i mod 2 ^ 256)"
  have n: "n < 2 ^ 256" by (simp add: n_def nat_less_iff)
  then have "n div 16 ^ 63 < 16" by (simp add: less_mult_imp_div_less)
  then have "hex_value (hd (signed_word i)) = Some (n div 16 ^ 63)"
    unfolding signed_word_def n_def [symmetric] by (simp add: hd_hex_fixed del: hex_fixed.simps)
  moreover have "8 \<le> n div 16 ^ 63 \<longleftrightarrow> 2 ^ 255 \<le> n"
    by (simp add: less_eq_div_iff_mult_less_eq)
  moreover have "2 ^ 255 \<le> n \<longleftrightarrow> i < 0"
  proof (cases "i < 0")
    case True
    with assms have "i mod 2 ^ 256 = i + 2 ^ 256" by (intro mod_pos_pos_trivial [THEN trans [OF mod_add_self2 [symmetric]]]) simp_all
    with True assms show ?thesis by (simp add: n_def le_nat_iff)
  next
    case False
    with assms have "i mod 2 ^ 256 = i" by simp
    with False assms show ?thesis by (simp add: n_def le_nat_iff)
  qed
  ultimately show ?thesis using \<open>n div 16 ^ 63 < 16\<close> by blast
qed

lemma unat_word_of_int_small: "0 \<le> j \<Longrightarrow> j < 2 ^ 256 \<Longrightarrow> unat (word_of_int j :: u256) = nat j"
  by (simp add: unat_eq_nat_uint uint_word_of_int)

lemma narrow_word_of_int: "(ucast (word_of_int j :: u256) :: i128) = word_of_int j"
  by (simp add: unsigned_of_int word_of_int_eq_iff)

lemma read_i256_word:
  assumes "reads_hex lib" "- (2 ^ 255) \<le> i" "i < 2 ^ 255"
  shows "parse_word_i256_i128_local lib (signed_word i) =
    (if 2 ^ 128 \<le> \<bar>i\<bar> then bail ''int256 does not fit i128''
     else if 2 ^ 127 \<le> i then bail ''positive int256 does not fit i128''
     else if i \<le> - (2 ^ 127) then bail ''negative int256 does not fit i128''
     else Inr (word_of_int i))"
proof -
  define w :: u256 where "w = word_of_int i"
  have w: "unat w = nat (i mod 2 ^ 256)" by (simp add: w_def unat_eq_nat_uint uint_word_of_int)
  then have read: "lib_from_str_radix lib (signed_word i) 16 = Inr w"
    using assms(1) unat_lt [of w] unfolding signed_word_def w [symmetric] reads_hex_def by simp
  have trim: "trim_start_0x (signed_word i) = signed_word i" by simp
  obtain d where d: "hex_value (hd (signed_word i)) = Some d" "8 \<le> d \<longleftrightarrow> i < 0"
    using hd_signed_word [OF assms(2,3)] by blast
  show ?thesis
  proof (cases "i < 0")
    case False
    with assms have "unat w = nat i" using w by simp
    moreover have "(ucast w :: i128) = word_of_int i" unfolding w_def by (rule narrow_word_of_int)
    ultimately show ?thesis
      using False d read trim by (auto simp: parse_word_i256_i128_local_def Let_def le_nat_iff nat_less_iff zless_nat_eq_int_zless)
  next
    case True
    have "- w = word_of_int (- i)" unfolding w_def by (rule wi_hom_neg)
    then have m: "unat (- w) = nat (- i)"
      using unat_word_of_int_small [of "- i"] True assms(2) by simp
    then have nz: "w \<noteq> 0" using True by (auto simp: unat_eq_0)
    have sub: "checked_sub (- 1) w = Some (- w - 1)" by (simp add: checked_sub_def)
    have "unat (- w - 1) + 1 = unat (- w)"
      using unat_minus_one [of "- w"] nz unat_gt_0 [of "- w"] by simp
    then have "checked_add (- w - 1) 1 = Some (- w)" by (simp add: checked_add_iff)
    with sub have "Option.bind (checked_sub (- 1) w) (\<lambda>v. checked_add v 1) = Some (- w)" by simp
    moreover have "- (ucast (- w) :: i128) = word_of_int i"
      unfolding \<open>- w = word_of_int (- i)\<close> narrow_word_of_int wi_hom_neg by simp
    ultimately show ?thesis
      using True d read trim m by (auto simp: parse_word_i256_i128_local_def Let_def le_nat_iff nat_less_iff zless_nat_eq_int_zless)
  qed
qed

lemma read_i24_word_local:
  assumes "- (2 ^ 23) \<le> i" "i < 2 ^ 23"
  shows "parse_word_i24_local (signed_word i) = Some (word_of_int i)"
proof -
  obtain low where low: "drop 58 (signed_word i) = hex_fixed 6 low" "low < 2 ^ 24"
    "(if (word_of_nat low :: u32) AND 0x800000 \<noteq> 0 then word_of_nat low - 2 ^ 24 else word_of_nat low :: u32) = word_of_int i"
    using i24_tail [OF assms] by blast
  have "hd (hex_fixed 6 low) = hex_digit (low div 16 ^ 5)" using hd_hex_fixed [of 6 low] by (simp del: hex_fixed.simps)
  then have sign: "hd (hex_fixed 6 low) \<noteq> CHR ''+''" "hd (hex_fixed 6 low) \<noteq> CHR ''-''"
    using hex_digit_cases [of "low div 16 ^ 5"] by auto
  have "hex_fixed 6 low \<noteq> [c]" for c using length_hex_fixed [of 6 low] by (auto simp del: hex_fixed.simps length_hex_fixed)
  then have short: "short_i32_from_hex (hex_fixed 6 low) = Some (word_of_nat low)"
    using sign low(2) by (simp add: short_i32_from_hex_def del: hex_fixed.simps)
  have trim: "trim_start_0x (signed_word i) = signed_word i" by simp
  have "parse_word_i24_local (signed_word i) = Some (if (word_of_nat low :: u32) AND 0x800000 \<noteq> 0
      then word_of_nat low - 0x1000000 else word_of_nat low)"
    unfolding parse_word_i24_local_def Let_def trim by (simp add: low(1) short del: hex_fixed.simps)
  also have "(0x1000000 :: u32) = 2 ^ 24" by simp
  finally show ?thesis unfolding low(3) .
qed

lemma data_words_concat:
  assumes "ws \<noteq> []" "list_all (\<lambda>w. length w = 64 \<and> hex_text w) ws"
  shows "data_words (''0x'' @ concat ws) = ws"
proof -
  have len: "list_all (\<lambda>w. length w = 64) ws" using assms(2) by (induction ws) auto
  have strip: "strip_prefix_0x (''0x'' @ concat ws) = concat ws" by (simp add: strip_prefix_0x_def)
  have l: "length (concat ws) = 64 * length ws" by (rule length_concat_words [OF len])
  with assms(1) have "concat ws \<noteq> []" by (metis length_0_conv mult_eq_0_iff zero_neq_numeral)
  moreover have "map (\<lambda>i. slice (concat ws) (64 * i) (64 * i + 64)) [0 ..< length ws] = ws"
    using slice_concat [OF len] by (intro nth_equalityI) simp_all
  ultimately show ?thesis using l unfolding data_words_def strip Let_def by auto
qed

section \<open>Liquidity of Uniswap V4 pools\<close>

definition v4_observation :: protocol_pool_observation where
  "v4_observation = \<lparr>po_chain_id = 8453, po_protocol = ''uniswap-v4'', po_manager_address = 0, po_pool_uid = ''0x00'',
     po_pool_address = Some 0, po_topic0 = uniswap_v4_modify_liquidity_topic, po_event_type = ''ModifyLiquidity'',
     po_token0 = None, po_token1 = None, po_symbol = None, po_factory_address = None, po_dex = None,
     po_variant = None, po_fee_bps = None, po_fee_pips = None, po_pool_key_fee_pips = None,
     po_tick_spacing = None, po_hooks_address = None, po_sqrt_price_x96 = None, po_liquidity = None,
     po_tick = None, po_block_number = 1, po_discovery_source = ''test'', po_import_status = ''observed_only'',
     po_import_reason = None,
     po_raw_json = JObject [(''data'', JString (''0x'' @ concat
       [signed_word (- 60), signed_word 60, signed_word 1000, encode_u256_word 0]))]\<rparr>"

text \<open>The tick deltas read from a log of the Uniswap V4 pool manager that changes liquidity are those of
  its three words: the liquidity moves up at the lower tick and down at the upper one, in net, and both
  gain it in gross; no change gives no delta, and a change that does not fit 128 bits is an error.\<close>

theorem v4_tick_deltas_exact:
  assumes "reads_hex lib" "po_protocol observed = ''uniswap-v4''" "po_event_type observed = ''ModifyLiquidity''"
    and "json_get (po_raw_json observed) ''data'' =
      Some (JString (''0x'' @ concat ([signed_word lower, signed_word upper, signed_word delta] @ rest)))"
    and "list_all (\<lambda>w. length w = 64 \<and> hex_text w) rest"
    and "- (2 ^ 23) \<le> lower" "lower < 2 ^ 23" "- (2 ^ 23) \<le> upper" "upper < 2 ^ 23"
    and "- (2 ^ 255) \<le> delta" "delta < 2 ^ 255"
  shows "uniswap_v4_tick_deltas_from_observation lib observed =
    (if delta = 0 then Inr []
     else if \<bar>delta\<bar> < 2 ^ 127
     then Inr [\<lparr>td_tick = word_of_int lower, td_gross_delta = word_of_int delta, td_net_delta = word_of_int delta\<rparr>,
               \<lparr>td_tick = word_of_int upper, td_gross_delta = word_of_int delta, td_net_delta = word_of_int (- delta)\<rparr>]
     else bail (if 2 ^ 128 \<le> \<bar>delta\<bar> then ''int256 does not fit i128''
       else if 0 < delta then ''positive int256 does not fit i128'' else ''negative int256 does not fit i128''))"
proof -
  let ?ws = "[signed_word lower, signed_word upper, signed_word delta] @ rest"
  have "data_words (''0x'' @ concat ?ws) = ?ws" using assms(5) by (intro data_words_concat) simp_all
  then have words: "raw_log_data_words (po_raw_json observed) = ?ws"
    using assms(4) by (simp add: raw_log_data_words_def)
  have fits: "sint (word_of_int delta :: i128) = delta" if "\<bar>delta\<bar> < 2 ^ 127"
    using that by (simp add: signed_of_int signed_take_bit_int_eq_self)
  have range: "- (2 ^ 127) \<le> delta" "delta \<noteq> - (2 ^ 127)" if "\<bar>delta\<bar> < 2 ^ 127" using that by auto
  have opposite: "i128_checked_neg (word_of_int delta) = Some (word_of_int (- delta))" if "\<bar>delta\<bar> < 2 ^ 127"
    using fits [OF that] range [OF that] by (simp add: i128_checked_neg_def)
  have nonzero: "(word_of_int delta :: i128) = 0 \<longleftrightarrow> delta = 0" if "\<bar>delta\<bar> < 2 ^ 127"
    using fits [OF that] by (metis of_int_0 sint_0)
  have known: "element 0 ?ws = Some (signed_word lower)" "element 1 ?ws = Some (signed_word upper)"
    "element 2 ?ws = Some (signed_word delta)"
    by (simp_all add: element_def)
  have deltas: "uniswap_v4_tick_deltas_from_observation lib observed =
      rbind (parse_word_i256_i128_local lib (signed_word delta)) (\<lambda>delta.
        if delta = 0 then Inr []
        else rbind (ok_or_message (i128_checked_neg delta) ''Uniswap V4 liquidityDelta underflow'') (\<lambda>opposite.
          Inr [\<lparr>td_tick = word_of_int lower, td_gross_delta = delta, td_net_delta = delta\<rparr>,
               \<lparr>td_tick = word_of_int upper, td_gross_delta = delta, td_net_delta = opposite\<rparr>]))"
    unfolding uniswap_v4_tick_deltas_from_observation_def words Let_def known
    using assms(2,3) read_i24_word_local [OF assms(6,7)] read_i24_word_local [OF assms(8,9)] by simp
  show ?thesis
    unfolding deltas read_i256_word [OF assms(1,10,11)]
    using opposite nonzero by (auto simp: rbind_bail)
qed

theorem v4_tick_deltas_exact_witness:
  "uniswap_v4_tick_deltas_from_observation hex_libs v4_observation =
     Inr [\<lparr>td_tick = - 60, td_gross_delta = 1000, td_net_delta = 1000\<rparr>,
          \<lparr>td_tick = 60, td_gross_delta = 1000, td_net_delta = - 1000\<rparr>]"
  using v4_tick_deltas_exact [of hex_libs v4_observation "- 60" 60 1000 "[encode_u256_word 0]"]
  by (simp add: v4_observation_def)

end
