(* ===== verification/Market_Discovery.thy ===== *)
theory Market_Discovery
  imports Market_Logs Market_Data
begin

text \<open>
  Pool discovery of the market data service, \<open>crates/market-data/src/listener.rs\<close>: created pools, pools seen
  in swap logs and in a competitor's receipts, the pools of the Uniswap V4 manager and the Balancer V3 vault,
  and what is recorded about them and their factories. The database is the record \<open>recorder_env\<close>, whose
  fields are the statements of \<open>crates/storage/src/postgres.rs\<close> and the two queries written in the listener.
\<close>

section \<open>The database\<close>

record factory_upsert =
  fu_factory_address :: address
  fu_dex :: string
  fu_variant :: string
  fu_trusted :: bool
  fu_enabled :: bool
  fu_source :: string
  fu_notes :: "string option"
  fu_first_seen_block :: "i64 option"
  fu_latest_seen_block :: "i64 option"
  fu_observed_pools_delta :: i64

record observed_pool_upsert =
  ou_pool_address :: address
  ou_topic0 :: string
  ou_family :: string
  ou_token0 :: "address option"
  ou_token1 :: "address option"
  ou_symbol :: "string option"
  ou_factory_address :: "address option"
  ou_dex :: "string option"
  ou_variant :: "string option"
  ou_fee_bps :: "u32 option"
  ou_fee_pips :: "u32 option"
  ou_tick_spacing :: "i32 option"
  ou_stable :: "bool option"
  ou_txs_30d :: i64
  ou_logs_30d :: i64
  ou_first_block :: "i64 option"
  ou_latest_block :: "i64 option"
  ou_discovery_source :: string
  ou_import_status :: string
  ou_import_reason :: "string option"

text \<open>The columns of a protocol observation; a column that is null is \<open>None\<close>.\<close>

record protocol_row =
  pr_pool_address :: "string option"
  pr_manager_address :: "string option"
  pr_token0 :: "string option"
  pr_token1 :: "string option"
  pr_symbol :: "string option"
  pr_factory_address :: "string option"
  pr_fee_bps :: "i64 option"
  pr_fee_pips :: "i64 option"
  pr_pool_key_fee_pips :: "i64 option"
  pr_tick_spacing :: "i64 option"
  pr_hooks_address :: "string option"
  pr_sqrt_price_x96 :: "string option"
  pr_liquidity :: "string option"
  pr_tick :: "i64 option"
  pr_latest_block :: "i64 option"
  pr_model_json :: "json option"

text \<open>Every statement is for the chain of the settings. \<open>db_warm_ticks\<close> starts the tick warmup, which runs
  in the background.\<close>

record 's recorder_env =
  db_upsert_factory_registry :: "factory_upsert \<Rightarrow> ('s, unit) act"
  db_trusted_factory_registry :: "('s, factory_registry_record list) act"
  db_upsert_observed_pool :: "observed_pool_upsert \<Rightarrow> ('s, unit) act"
  db_upsert_token_registry :: "address \<Rightarrow> string \<Rightarrow> ('s, unit) act"
  db_upsert_token_pair :: "address \<Rightarrow> address \<Rightarrow> string \<Rightarrow> ('s, uuid) act"
  db_upsert_discovered_pool :: "uuid \<Rightarrow> discovered_pool \<Rightarrow> ('s, unit) act"
  db_upsert_protocol_pool_observation :: "protocol_pool_observation \<Rightarrow> ('s, unit) act"
  db_uniswap_v4_rows :: "address \<Rightarrow> u64 option \<Rightarrow> ('s, protocol_row list) act"
  db_uniswap_v4_row :: "address \<Rightarrow> ('s, protocol_row) act"
  db_mark_uniswap_v4_imported :: "address \<Rightarrow> ('s, unit) act"
  db_balancer_v3_rows :: "address \<Rightarrow> u64 option \<Rightarrow> ('s, protocol_row list) act"
  db_mark_balancer_v3_imported :: "address \<Rightarrow> address \<Rightarrow> address \<Rightarrow> ('s, unit) act"
  db_warm_ticks :: "pool_state list \<Rightarrow> string \<Rightarrow> 's \<Rightarrow> 's"

text \<open>\<open>i64::try_from\<close> of a block number.\<close>

definition i64_of_u64 :: "u64 \<Rightarrow> i64 anyhow" where
  "i64_of_u64 b = (if unat b < 2 ^ 63 then Inr b else bail ''out of range integral type conversion attempted'')"

section \<open>Default factories\<close>

definition default_factory :: "address \<Rightarrow> string \<Rightarrow> string \<Rightarrow> string \<Rightarrow> factory_upsert" where
  "default_factory factory dex variant notes = \<lparr>fu_factory_address = factory, fu_dex = dex, fu_variant = variant,
     fu_trusted = True, fu_enabled = True, fu_source = ''default_config'', fu_notes = Some notes,
     fu_first_seen_block = None, fu_latest_seen_block = None, fu_observed_pools_delta = 0\<rparr>"

fun upsert_factories :: "'s recorder_env \<Rightarrow> factory_upsert list \<Rightarrow> ('s, unit) act" where
  "upsert_factories db [] = pass ()"
| "upsert_factories db (f # fs) = bind (db_upsert_factory_registry db f) (\<lambda>_. upsert_factories db fs)"

definition seed_default_factories :: "'s recorder_env \<Rightarrow> settings \<Rightarrow> ('s, unit) act" where
  "seed_default_factories db cfg =
     upsert_factories db
       ([default_factory (factory_or aerodrome_classic_factory (cfg_aerodrome_pool_factory cfg)) ''Aerodrome''
           ''AerodromeVolatile'' ''official/default Aerodrome Classic factory'',
         default_factory (factory_or uniswap_v3_factory (cfg_uniswap_v3_factory cfg)) ''UniswapV3'' ''UniswapV3''
           ''official/default Uniswap V3 factory'',
         default_factory (factory_or pancake_v3_factory (cfg_pancake_v3_factory cfg)) ''PancakeSwap'' ''PancakeV3''
           ''official/default Pancake V3 factory''] @
        map (\<lambda>factory. default_factory factory ''Aerodrome'' ''AerodromeSlipstream''
              ''official/default Aerodrome Slipstream factory'') (slipstream_factories cfg))"

text \<open>The trusted rows by address, as the loops look them up; a row that cannot be read is left out and a
  later row of an address replaces an earlier one.\<close>

definition trusted_row :: "libs \<Rightarrow> factory_registry_record \<Rightarrow> (address \<times> dex_kind \<times> pool_variant) option" where
  "trusted_row lib row =
     Option.bind (lib_parse_address lib (fr_factory_address row)) (\<lambda>a.
     Option.bind (success (parse_dex_kind (fr_dex row))) (\<lambda>dex.
     Option.bind (success (parse_variant_name (fr_variant row))) (\<lambda>variant. Some (a, dex, variant))))"

definition trusted_factories :: "libs \<Rightarrow> factory_registry_record list \<Rightarrow> (address \<times> dex_kind \<times> pool_variant) list" where
  "trusted_factories lib rows = fold (\<lambda>(a, kind). hash_insert a kind) (List.map_filter (trusted_row lib) rows) []"

section \<open>Recording pools\<close>

definition observed_row ::
    "address \<Rightarrow> string \<Rightarrow> string \<Rightarrow> observed_pool_metadata \<Rightarrow> string \<Rightarrow> address option \<Rightarrow> i64 \<Rightarrow> string \<Rightarrow> string \<Rightarrow>
     string option \<Rightarrow> observed_pool_upsert" where
  "observed_row pool topic0 family metadata symbol factory block source status reason =
     \<lparr>ou_pool_address = pool, ou_topic0 = topic0, ou_family = family, ou_token0 = Some (om_token0 metadata),
      ou_token1 = Some (om_token1 metadata), ou_symbol = Some symbol, ou_factory_address = factory,
      ou_dex = None, ou_variant = None, ou_fee_bps = om_fee_bps metadata, ou_fee_pips = om_fee_pips metadata,
      ou_tick_spacing = om_tick_spacing metadata, ou_stable = om_stable metadata, ou_txs_30d = 1, ou_logs_30d = 1,
      ou_first_block = Some block, ou_latest_block = Some block, ou_discovery_source = source,
      ou_import_status = status, ou_import_reason = reason\<rparr>"

definition imported_row ::
    "address \<Rightarrow> string \<Rightarrow> string \<Rightarrow> discovered_pool \<Rightarrow> string \<Rightarrow> address \<Rightarrow> dex_kind \<Rightarrow> pool_variant \<Rightarrow> i64 \<Rightarrow> string \<Rightarrow>
     observed_pool_upsert" where
  "imported_row pool topic0 family found symbol factory dex variant block source =
     \<lparr>ou_pool_address = pool, ou_topic0 = topic0, ou_family = family, ou_token0 = Some (ps_token0 (dp_state found)),
      ou_token1 = Some (ps_token1 (dp_state found)), ou_symbol = Some symbol, ou_factory_address = Some factory,
      ou_dex = Some (dex_to_string dex), ou_variant = Some (variant_to_string variant),
      ou_fee_bps = Some (ps_fee_bps (dp_state found)), ou_fee_pips = ps_fee_pips (dp_state found),
      ou_tick_spacing = dp_tick_spacing found, ou_stable = dp_stable found, ou_txs_30d = 1, ou_logs_30d = 1,
      ou_first_block = Some block, ou_latest_block = Some block, ou_discovery_source = source,
      ou_import_status = ''imported'', ou_import_reason = None\<rparr>"

definition seen_factory ::
    "address \<Rightarrow> string \<Rightarrow> string \<Rightarrow> bool \<Rightarrow> string \<Rightarrow> string option \<Rightarrow> i64 \<Rightarrow> factory_upsert" where
  "seen_factory factory dex variant trusted source notes block = \<lparr>fu_factory_address = factory, fu_dex = dex,
     fu_variant = variant, fu_trusted = trusted, fu_enabled = True, fu_source = source, fu_notes = notes,
     fu_first_seen_block = Some block, fu_latest_seen_block = Some block, fu_observed_pools_delta = 1\<rparr>"

datatype live_pool_discovery_outcome = Imported | ObservedOnly | Skipped

text \<open>The records of an imported pool, up to its factory, which becomes trusted.\<close>

definition record_imported_pool ::
    "libs \<Rightarrow> 's rpc_env \<Rightarrow> 's recorder_env \<Rightarrow> address \<Rightarrow> string \<Rightarrow> string \<Rightarrow> u64 \<Rightarrow> string \<Rightarrow> dex_kind \<Rightarrow> pool_variant \<Rightarrow>
     address \<Rightarrow> discovered_pool \<Rightarrow> string \<Rightarrow> string \<Rightarrow> ('s, unit) act" where
  "record_imported_pool lib rp db pool topic0 family block_number symbol dex variant factory found source factory_source =
     (let token0 = ps_token0 (dp_state found); token1 = ps_token1 (dp_state found); pair = canonical_pair token0 token1 in
      bind (token_symbol lib rp token0) (\<lambda>symbol0.
      bind (db_upsert_token_registry db token0 symbol0) (\<lambda>_.
      bind (token_symbol lib rp token1) (\<lambda>symbol1.
      bind (db_upsert_token_registry db token1 symbol1) (\<lambda>_.
      bind (db_upsert_token_pair db (fst pair) (snd pair) symbol) (\<lambda>pair_id.
      bind (db_upsert_discovered_pool db pair_id found) (\<lambda>_.
      bind (lift (i64_of_u64 block_number)) (\<lambda>block.
      bind (db_upsert_observed_pool db (imported_row pool topic0 family found symbol factory dex variant block source)) (\<lambda>_.
      db_upsert_factory_registry db (seen_factory factory (dex_to_string dex) (variant_to_string variant) True
        factory_source None block))))))))))"

definition import_discovered_pool ::
    "libs \<Rightarrow> 's rpc_env \<Rightarrow> 's recorder_env \<Rightarrow> 's market_env \<Rightarrow> address \<Rightarrow> string \<Rightarrow> string \<Rightarrow> u64 \<Rightarrow> string \<Rightarrow> dex_kind \<Rightarrow>
     pool_variant \<Rightarrow> address \<Rightarrow> discovered_pool \<Rightarrow> string \<Rightarrow> ('s, unit) act" where
  "import_discovered_pool lib rp db env pool topic0 family block_number symbol dex variant factory found source =
     bind (record_imported_pool lib rp db pool topic0 family block_number symbol dex variant factory found source
             ''global_swap_discovery'') (\<lambda>_.
     bind (publish_selected_states_with_block env [dp_state found] {pool} source (Some block_number)) (\<lambda>_.
     background (db_warm_ticks db [dp_state found] ''live_pool_discovery_import'')))"

definition record_observed_only_pool ::
    "'s recorder_env \<Rightarrow> creation_log \<Rightarrow> address \<Rightarrow> observed_pool_metadata \<Rightarrow> string \<Rightarrow> string \<Rightarrow> string option \<Rightarrow> ('s, unit) act" where
  "record_observed_only_pool db log pool metadata symbol import_status reason =
     bind (lift (i64_of_u64 (cl_block_number log))) (\<lambda>block.
     bind (db_upsert_observed_pool db (observed_row pool (cl_topic0 log) ''pool-created'' metadata symbol
             (Some (cl_factory log)) block ''factory_event'' import_status reason)) (\<lambda>_.
     db_upsert_factory_registry db (seen_factory (cl_factory log) (inferred_dex_for_creation_topic (cl_topic0 log))
       (inferred_variant_for_creation_topic (cl_topic0 log)) False ''live_pool_discovery'' reason block)))"

definition record_observed_swap_only_pool ::
    "'s recorder_env \<Rightarrow> swap_observation_log \<Rightarrow> observed_pool_metadata \<Rightarrow> string \<Rightarrow> address option \<Rightarrow> string \<Rightarrow> string \<Rightarrow>
     string option \<Rightarrow> ('s, unit) act" where
  "record_observed_swap_only_pool db log metadata symbol factory source import_status reason =
     bind (lift (i64_of_u64 (sl_block_number log))) (\<lambda>block.
     db_upsert_observed_pool db (observed_row (sl_pool log) (sl_topic0 log) ''swap-log'' metadata symbol factory block
       source import_status reason))"

section \<open>Created pools\<close>

text \<open>The first candidate address that names the emitter of the log as its factory.\<close>

fun find_created_pool ::
    "libs \<Rightarrow> 's rpc_env \<Rightarrow> creation_log \<Rightarrow> address list \<Rightarrow> ('s, address option) act" where
  "find_created_pool lib rp log [] = pass None"
| "find_created_pool lib rp log (candidate # candidates) =
     (if candidate = 0 then find_created_pool lib rp log candidates
      else attempt (resolve_observed_pool_metadata lib rp candidate (cl_topic0 log))
        (\<lambda>metadata. if om_factory_address metadata = Some (cl_factory log) then pass (Some candidate)
           else find_created_pool lib rp log candidates)
        (\<lambda>_. find_created_pool lib rp log candidates))"

definition find_created_pool_address :: "libs \<Rightarrow> 's rpc_env \<Rightarrow> creation_log \<Rightarrow> ('s, address option) act" where
  "find_created_pool_address lib rp log = find_created_pool lib rp log (creation_log_candidate_addresses lib log)"

definition unresolved_factory :: "creation_log \<Rightarrow> address \<Rightarrow> string list \<Rightarrow> i64 \<Rightarrow> factory_upsert" where
  "unresolved_factory log pool err block =
     seen_factory (cl_factory log) (inferred_dex_for_creation_topic (cl_topic0 log))
       (inferred_variant_for_creation_topic (cl_topic0 log)) False ''live_pool_discovery''
       (Some (''metadata resolve failed for pool '' @ address_hex pool @ '': '' @ err_display err)) block"

definition trusted_creation ::
    "libs \<Rightarrow> 's rpc_env \<Rightarrow> 's recorder_env \<Rightarrow> creation_log \<Rightarrow> address \<Rightarrow> observed_pool_metadata \<Rightarrow> string \<Rightarrow> dex_kind \<Rightarrow>
     pool_variant \<Rightarrow> ('s, live_pool_discovery_outcome) act" where
  "trusted_creation lib rp db log pool metadata symbol dex variant =
     attempt (resolve_pool_for_trusted_factory lib rp pool (cl_factory log) dex variant)
       (\<lambda>found.
          bind (record_imported_pool lib rp db pool (cl_topic0 log) ''pool-created'' (cl_block_number log) symbol dex
                  variant (cl_factory log) found ''factory_event'' ''live_pool_discovery'') (\<lambda>_. pass Imported))
       (\<lambda>err.
          bind (record_observed_only_pool db log pool metadata symbol ''observed_only''
                  (Some (''trusted factory pool resolve failed: '' @ err_display err))) (\<lambda>_. pass ObservedOnly))"

definition untrusted_creation ::
    "libs \<Rightarrow> 's rpc_env \<Rightarrow> 's recorder_env \<Rightarrow> 's market_env \<Rightarrow> settings \<Rightarrow> creation_log \<Rightarrow> address \<Rightarrow>
     observed_pool_metadata \<Rightarrow> string \<Rightarrow> ('s, live_pool_discovery_outcome) act" where
  "untrusted_creation lib rp db env cfg log pool metadata symbol =
     attempt (resolve_observed_pool_for_registry lib rp cfg pool (creation_compatible_swap_topic (cl_topic0 log)))
       (\<lambda>found.
          bind (import_discovered_pool lib rp db env pool (cl_topic0 log) ''pool-created-auto-classified''
                  (cl_block_number log) symbol (ps_dex (dp_state found)) (ps_variant (dp_state found))
                  (factory_or (cl_factory log) (dp_factory_address found)) found ''factory_event'')
            (\<lambda>_. pass Imported))
       (\<lambda>err.
          bind (record_observed_only_pool db log pool metadata symbol ''classified_observed_only''
                  (Some (''not executable by configured routers/factories: '' @ err_display err)))
            (\<lambda>_. pass ObservedOnly))"

definition process_pool_creation_log ::
    "libs \<Rightarrow> 's rpc_env \<Rightarrow> 's recorder_env \<Rightarrow> 's market_env \<Rightarrow> settings \<Rightarrow> (address \<times> dex_kind \<times> pool_variant) list \<Rightarrow>
     json \<Rightarrow> ('s, live_pool_discovery_outcome) act" where
  "process_pool_creation_log lib rp db env cfg trusted raw =
     bind (lift (parse_creation_log lib raw)) (\<lambda>log.
     bind (find_created_pool_address lib rp log) (\<lambda>pool.
     case pool of
       None \<Rightarrow> pass Skipped
     | Some pool \<Rightarrow>
         attempt (resolve_observed_pool_metadata lib rp pool (cl_topic0 log))
           (\<lambda>metadata.
              bind (pair_symbol lib rp (om_token0 metadata) (om_token1 metadata)) (\<lambda>symbol.
              case map_of trusted (cl_factory log) of
                Some (dex, variant) \<Rightarrow> trusted_creation lib rp db log pool metadata symbol dex variant
              | None \<Rightarrow> untrusted_creation lib rp db env cfg log pool metadata symbol))
           (\<lambda>err.
              bind (lift (i64_of_u64 (cl_block_number log))) (\<lambda>block.
              bind (db_upsert_factory_registry db (unresolved_factory log pool err block)) (\<lambda>_.
              pass ObservedOnly)))))"

section \<open>Pools seen in swaps\<close>

definition trusted_swap_pool ::
    "libs \<Rightarrow> 's rpc_env \<Rightarrow> 's recorder_env \<Rightarrow> 's market_env \<Rightarrow> swap_observation_log \<Rightarrow> observed_pool_metadata \<Rightarrow> string \<Rightarrow>
     address \<Rightarrow> dex_kind \<Rightarrow> pool_variant \<Rightarrow> string \<Rightarrow> ('s, live_pool_discovery_outcome) act" where
  "trusted_swap_pool lib rp db env log metadata symbol factory dex variant source =
     attempt (resolve_pool_for_trusted_factory lib rp (sl_pool log) factory dex variant)
       (\<lambda>found.
          bind (import_discovered_pool lib rp db env (sl_pool log) (sl_topic0 log) ''swap-log'' (sl_block_number log)
                  symbol dex variant factory found source) (\<lambda>_. pass Imported))
       (\<lambda>err.
          bind (record_observed_swap_only_pool db log metadata symbol (Some factory) source ''observed_only''
                  (Some (''trusted factory pool resolve failed: '' @ err_display err))) (\<lambda>_. pass ObservedOnly))"

definition untrusted_swap_pool ::
    "libs \<Rightarrow> 's rpc_env \<Rightarrow> 's recorder_env \<Rightarrow> 's market_env \<Rightarrow> settings \<Rightarrow> swap_observation_log \<Rightarrow>
     observed_pool_metadata \<Rightarrow> string \<Rightarrow> address \<Rightarrow> string \<Rightarrow> ('s, live_pool_discovery_outcome) act" where
  "untrusted_swap_pool lib rp db env cfg log metadata symbol factory source =
     attempt (resolve_observed_pool_for_registry lib rp cfg (sl_pool log) (sl_topic0 log))
       (\<lambda>found.
          bind (import_discovered_pool lib rp db env (sl_pool log) (sl_topic0 log) ''swap-log-auto-classified''
                  (sl_block_number log) symbol (ps_dex (dp_state found)) (ps_variant (dp_state found))
                  (factory_or factory (dp_factory_address found)) found source) (\<lambda>_. pass Imported))
       (\<lambda>err.
          bind (record_observed_swap_only_pool db log metadata symbol (Some factory) source ''classified_observed_only''
                  (Some (''not executable by configured routers/factories: '' @ err_display err))) (\<lambda>_.
          bind (lift (i64_of_u64 (sl_block_number log))) (\<lambda>block.
          bind (db_upsert_factory_registry db (seen_factory factory (inferred_dex_for_swap_topic (sl_topic0 log))
                  (inferred_variant_for_swap_topic (sl_topic0 log)) False ''global_swap_discovery''
                  (Some ''observed from global swap logs; not trusted for execution'') block)) (\<lambda>_.
          pass ObservedOnly))))"

definition process_observed_swap_pool ::
    "libs \<Rightarrow> 's rpc_env \<Rightarrow> 's recorder_env \<Rightarrow> 's market_env \<Rightarrow> settings \<Rightarrow> (address \<times> dex_kind \<times> pool_variant) list \<Rightarrow>
     swap_observation_log \<Rightarrow> string \<Rightarrow> ('s, live_pool_discovery_outcome) act" where
  "process_observed_swap_pool lib rp db env cfg trusted log source =
     attempt (resolve_observed_pool_metadata lib rp (sl_pool log) (sl_topic0 log))
       (\<lambda>metadata.
          bind (pair_symbol lib rp (om_token0 metadata) (om_token1 metadata)) (\<lambda>symbol.
          case om_factory_address metadata of
            None \<Rightarrow>
              bind (lift (i64_of_u64 (sl_block_number log))) (\<lambda>block.
              bind (db_upsert_observed_pool db (observed_row (sl_pool log) (sl_topic0 log)
                      (swap_family_for_topic (sl_topic0 log)) metadata symbol None block source ''observed_only''
                      (Some ''pool factory() unavailable; cannot prove executor support''))) (\<lambda>_.
              pass ObservedOnly))
          | Some factory \<Rightarrow>
              (case map_of trusted factory of
                 Some (dex, variant) \<Rightarrow> trusted_swap_pool lib rp db env log metadata symbol factory dex variant source
               | None \<Rightarrow> untrusted_swap_pool lib rp db env cfg log metadata symbol factory source)))
       (\<lambda>_. pass Skipped)"

section \<open>Scanning blocks\<close>

text \<open>\<open>json!([{"fromBlock": .., "toBlock": .., ..}])\<close>.\<close>

definition log_filter :: "u64 \<Rightarrow> u64 \<Rightarrow> (string \<times> json) list \<Rightarrow> json" where
  "log_filter from_block to_block more_fields = JArray [JObject
     ([(''fromBlock'', JString (block_text from_block)), (''toBlock'', JString (block_text to_block))] @ more_fields)]"

text \<open>A loop that goes on when one element fails.\<close>

fun skip_failures :: "('a \<Rightarrow> ('s, 'b) act) \<Rightarrow> 'a list \<Rightarrow> ('s, unit) act" where
  "skip_failures f [] = pass ()"
| "skip_failures f (x # xs) = attempt (f x) (\<lambda>_. skip_failures f xs) (\<lambda>_. skip_failures f xs)"

definition creation_topics :: "string list" where
  "creation_topics = [v3_pool_created_topic, classic_pool_created_topic, classic_pair_created_topic,
     slipstream_pool_created_topic, slipstream_pool_created_with_index_topic]"

definition discover_live_pool_creations ::
    "libs \<Rightarrow> 's rpc_env \<Rightarrow> 's recorder_env \<Rightarrow> 's market_env \<Rightarrow> settings \<Rightarrow> u64 \<Rightarrow> u64 \<Rightarrow> ('s, unit) act" where
  "discover_live_pool_creations lib rp db env cfg from_block to_block =
     (if to_block < from_block then pass ()
      else attempt (get_logs_raw rp (log_filter from_block to_block
                      [(''topics'', JArray [JArray (map JString creation_topics)])]))
        (\<lambda>logs.
           if logs = [] then pass ()
           else bind (db_trusted_factory_registry db) (\<lambda>rows.
             skip_failures (process_pool_creation_log lib rp db env cfg (trusted_factories lib rows)) logs))
        (\<lambda>_. pass ()))"

text \<open>The pools already seen go along; a pool whose processing fails stays seen.\<close>

fun observe_swaps ::
    "(swap_observation_log \<Rightarrow> ('s, live_pool_discovery_outcome) act) \<Rightarrow> libs \<Rightarrow> address set \<Rightarrow> json list \<Rightarrow>
     ('s, address set) act" where
  "observe_swaps process lib seen [] = pass seen"
| "observe_swaps process lib seen (raw # logs) =
     (case parse_swap_log lib raw of
        Inl _ \<Rightarrow> observe_swaps process lib seen logs
      | Inr log \<Rightarrow>
          if sl_pool log \<in> seen then observe_swaps process lib seen logs
          else attempt (process log) (\<lambda>_. observe_swaps process lib (insert (sl_pool log) seen) logs)
                 (\<lambda>_. observe_swaps process lib (insert (sl_pool log) seen) logs))"

definition swap_topics :: "string list" where
  "swap_topics = [v3_swap_topic, pancake_v3_swap_topic, classic_swap_topic, aerodrome_classic_swap_topic]"

definition discover_global_swap_pools ::
    "libs \<Rightarrow> 's rpc_env \<Rightarrow> 's recorder_env \<Rightarrow> 's market_env \<Rightarrow> settings \<Rightarrow> bool \<Rightarrow> u64 \<Rightarrow> u64 \<Rightarrow> address set \<Rightarrow>
     ('s, address set) act" where
  "discover_global_swap_pools lib rp db env cfg discovery_enabled from_block to_block seen =
     (if \<not> discovery_enabled \<or> to_block < from_block then pass seen
      else attempt (get_logs_raw rp (log_filter from_block to_block
                      [(''topics'', JArray [JArray (map JString swap_topics)])]))
        (\<lambda>logs.
           if logs = [] then pass seen
           else bind (db_trusted_factory_registry db) (\<lambda>rows.
             observe_swaps (\<lambda>log. process_observed_swap_pool lib rp db env cfg (trusted_factories lib rows) log
               ''global_swap'') lib seen logs))
        (\<lambda>_. pass seen))"

section \<open>Pools of a competitor\<close>

record competitor_summary =
  cs_transfer_txs :: usize
  cs_receipts :: usize
  cs_swap_logs :: usize
  cs_imported :: usize
  cs_observed_only :: usize
  cs_skipped :: usize

definition competitor_summary_default :: competitor_summary where
  "competitor_summary_default = \<lparr>cs_transfer_txs = 0, cs_receipts = 0, cs_swap_logs = 0, cs_imported = 0,
     cs_observed_only = 0, cs_skipped = 0\<rparr>"

definition count_skipped :: "competitor_summary \<Rightarrow> competitor_summary" where
  "count_skipped c = c\<lparr>cs_skipped := cs_skipped c + 1\<rparr>"

definition count_outcome :: "live_pool_discovery_outcome \<Rightarrow> competitor_summary \<Rightarrow> competitor_summary" where
  "count_outcome outcome c =
     (case outcome of
        Imported \<Rightarrow> c\<lparr>cs_imported := cs_imported c + 1\<rparr>
      | ObservedOnly \<Rightarrow> c\<lparr>cs_observed_only := cs_observed_only c + 1\<rparr>
      | Skipped \<Rightarrow> count_skipped c)"

text \<open>The transactions of the transfers that were not seen before, in the order of the logs.\<close>

fun fresh_transactions ::
    "(string \<Rightarrow> b256 option) \<Rightarrow> json list \<Rightarrow> recent_tx_cache \<Rightarrow> b256 list \<Rightarrow> competitor_summary \<Rightarrow>
     b256 list \<times> recent_tx_cache \<times> competitor_summary" where
  "fresh_transactions parse_hash [] cache txs c = (txs, cache, c)"
| "fresh_transactions parse_hash (raw # logs) cache txs c =
     (case raw_log_tx_hash parse_hash raw of
        None \<Rightarrow> fresh_transactions parse_hash logs cache txs (count_skipped c)
      | Some tx_hash \<Rightarrow>
          (case recent_tx_insert tx_hash cache of (fresh, cache) \<Rightarrow>
             fresh_transactions parse_hash logs cache (if fresh then List.insert tx_hash txs else txs) c))"

fun receipt_logs ::
    "(swap_observation_log \<Rightarrow> ('s, live_pool_discovery_outcome) act) \<Rightarrow> libs \<Rightarrow> json list \<Rightarrow>
     address set \<times> competitor_summary \<Rightarrow> ('s, address set \<times> competitor_summary) act" where
  "receipt_logs process lib [] acc = pass acc"
| "receipt_logs process lib (raw # logs) (seen, c) =
     (case raw_log_topic0 raw of
        None \<Rightarrow> receipt_logs process lib logs (seen, c)
      | Some topic0 \<Rightarrow>
          if \<not> is_supported_swap_topic topic0 then receipt_logs process lib logs (seen, c)
          else
            (case parse_swap_log lib raw of
               Inl _ \<Rightarrow> receipt_logs process lib logs (seen, count_skipped c)
             | Inr log \<Rightarrow>
                 let c = c\<lparr>cs_swap_logs := cs_swap_logs c + 1\<rparr> in
                 if sl_pool log \<in> seen then receipt_logs process lib logs (seen, c)
                 else
                   attempt (process log)
                     (\<lambda>outcome. receipt_logs process lib logs (insert (sl_pool log) seen, count_outcome outcome c))
                     (\<lambda>_. receipt_logs process lib logs (insert (sl_pool log) seen, count_skipped c))))"

fun competitor_receipts ::
    "libs \<Rightarrow> 's rpc_env \<Rightarrow> (swap_observation_log \<Rightarrow> ('s, live_pool_discovery_outcome) act) \<Rightarrow> b256 list \<Rightarrow>
     address set \<times> competitor_summary \<Rightarrow> ('s, competitor_summary) act" where
  "competitor_receipts lib rp process [] (seen, c) = pass c"
| "competitor_receipts lib rp process (tx_hash # txs) (seen, c) =
     bind (get_transaction_receipt lib rp tx_hash) (\<lambda>receipt.
     case receipt of
       None \<Rightarrow> competitor_receipts lib rp process txs (seen, count_skipped c)
     | Some receipt \<Rightarrow>
         let c = c\<lparr>cs_receipts := cs_receipts c + 1\<rparr> in
         (case Option.bind (json_get (rc_raw receipt) ''logs'') json_as_array of
            None \<Rightarrow> competitor_receipts lib rp process txs (seen, c)
          | Some logs \<Rightarrow> bind (receipt_logs process lib logs (seen, c)) (competitor_receipts lib rp process txs)))"

text \<open>\<open>order\<close> is the order in which the hash set of transactions is iterated. The cache of transactions goes
  with the result; it is the caller's also when the call fails.\<close>

definition discover_competitor_receipt_pools ::
    "libs \<Rightarrow> (string \<Rightarrow> b256 option) \<Rightarrow> (b256 list \<Rightarrow> b256 list) \<Rightarrow> 's rpc_env \<Rightarrow> 's recorder_env \<Rightarrow> 's market_env \<Rightarrow>
     settings \<Rightarrow> address \<Rightarrow> u64 \<Rightarrow> u64 \<Rightarrow> recent_tx_cache \<Rightarrow> 's \<Rightarrow> (competitor_summary anyhow \<times> recent_tx_cache) \<times> 's" where
  "discover_competitor_receipt_pools lib parse_hash order rp db env cfg collector from_block to_block cache s =
     (if to_block < from_block then ((Inr competitor_summary_default, cache), s)
      else
        case attempt (get_logs_raw rp (log_filter from_block to_block [(''topics'',
               JArray [JString erc20_transfer_topic, JNull, JString (address_topic collector)])])) pass (\<lambda>_. pass []) s of
          (Inl e, s) \<Rightarrow> ((Inl e, cache), s)
        | (Inr logs, s) \<Rightarrow>
            if logs = [] then ((Inr competitor_summary_default, cache), s)
            else
              (case db_trusted_factory_registry db s of
                 (Inl e, s) \<Rightarrow> ((Inl e, cache), s)
               | (Inr rows, s) \<Rightarrow>
                   let (txs, cache, c) = fresh_transactions parse_hash logs cache [] competitor_summary_default;
                       c = c\<lparr>cs_transfer_txs := length txs\<rparr>;
                       process = (\<lambda>log. process_observed_swap_pool lib rp db env cfg (trusted_factories lib rows) log
                         ''competitor_collector'');
                       (r, s) = competitor_receipts lib rp process (order txs) ({}, c) s
                   in ((r, cache), s)))"

section \<open>Pools of the singletons\<close>

definition protocol_topics :: "string list" where
  "protocol_topics = [uniswap_v4_initialize_topic, uniswap_v4_swap_topic, uniswap_v4_modify_liquidity_topic,
     balancer_v3_pool_registered_topic, balancer_v3_swap_topic]"

definition process_protocol_observation ::
    "libs \<Rightarrow> 's recorder_env \<Rightarrow> 's market_env \<Rightarrow> protocol_pool_observation \<Rightarrow> ('s, unit) act" where
  "process_protocol_observation lib db env observed =
     bind (lift (uniswap_v4_tick_deltas_from_observation lib observed)) (\<lambda>deltas.
     bind (db_upsert_protocol_pool_observation db observed) (\<lambda>_.
     case po_pool_address observed of
       Some pool \<Rightarrow>
         if deltas = [] then pass ()
         else apply_tick_deltas env \<lparr>pid_chain_id = po_chain_id observed, pid_address = pool\<rparr> DexUniswapV4 UniswapV4
                (Some ''uniswap-v4'') deltas (po_block_number observed)
     | None \<Rightarrow> pass ()))"

text \<open>How many logs were observed. Only reading a log may fail without ending the scan.\<close>

fun process_protocol_logs ::
    "libs \<Rightarrow> 's rpc_env \<Rightarrow> 's recorder_env \<Rightarrow> 's market_env \<Rightarrow> settings \<Rightarrow> json list \<Rightarrow> usize \<Rightarrow> ('s, usize) act" where
  "process_protocol_logs lib rp db env cfg [] observed = pass observed"
| "process_protocol_logs lib rp db env cfg (raw # logs) observed =
     bind (attempt (parse_protocol_pool_observation lib rp cfg raw ''protocol_log'') pass (\<lambda>_. pass None)) (\<lambda>parsed.
     case parsed of
       None \<Rightarrow> process_protocol_logs lib rp db env cfg logs observed
     | Some observation \<Rightarrow>
         bind (process_protocol_observation lib db env observation) (\<lambda>_.
         process_protocol_logs lib rp db env cfg logs (observed + 1)))"

definition protocol_addresses :: "settings \<Rightarrow> address list" where
  "protocol_addresses cfg =
     (case cfg_uniswap_v4_pool_manager cfg of None \<Rightarrow> [] | Some a \<Rightarrow> [a]) @
     (case cfg_balancer_v3_vault cfg of None \<Rightarrow> [] | Some a \<Rightarrow> [a])"

definition discover_protocol_pool_logs ::
    "libs \<Rightarrow> 's rpc_env \<Rightarrow> 's recorder_env \<Rightarrow> 's market_env \<Rightarrow> settings \<Rightarrow> u64 \<Rightarrow> u64 \<Rightarrow> ('s, usize) act" where
  "discover_protocol_pool_logs lib rp db env cfg from_block to_block =
     (if to_block < from_block then pass 0
      else if protocol_addresses cfg = [] then pass 0
      else attempt (get_logs_raw rp (log_filter from_block to_block
                      [(''address'', JArray (map (\<lambda>a. JString (address_hex a)) (protocol_addresses cfg))),
                       (''topics'', JArray [JArray (map JString protocol_topics)])]))
        (\<lambda>logs. process_protocol_logs lib rp db env cfg logs 0)
        (\<lambda>_. pass 0))"

section \<open>Promoting observed pools\<close>

text \<open>\<open>try_get\<close> of a column that may not be null.\<close>

definition column :: "'a option \<Rightarrow> 'a anyhow" where
  "column v = ok_or_message v ''unexpected null; try decoding as an `Option`''"

definition column_address :: "libs \<Rightarrow> string option \<Rightarrow> address anyhow" where
  "column_address lib v = rbind (column v) (parse_address lib)"

definition optional_address :: "libs \<Rightarrow> string option \<Rightarrow> address option anyhow" where
  "optional_address lib v =
     (case v of None \<Rightarrow> Inr None | Some text \<Rightarrow> rbind (parse_address lib text) (\<lambda>a. Inr (Some a)))"

definition column_u32 :: "i64 option \<Rightarrow> u32 option" where
  "column_u32 v = Option.bind v (\<lambda>v. if 0 \<le> sint v \<and> sint v < 2 ^ 32 then Some (ucast v) else None)"

definition column_i32 :: "i64 option \<Rightarrow> i32 option" where
  "column_i32 v = Option.bind v (\<lambda>v. if - (2 ^ 31) \<le> sint v \<and> sint v < 2 ^ 31 then Some (ucast v) else None)"

definition column_u64 :: "i64 option \<Rightarrow> u64 option" where
  "column_u64 v = Option.bind v (\<lambda>v. if 0 \<le> sint v then Some v else None)"

definition or_else :: "'a \<Rightarrow> 'a option \<Rightarrow> 'a" where
  "or_else d v = (case v of None \<Rightarrow> d | Some x \<Rightarrow> x)"

definition uniswap_v4_state_from_row :: "libs \<Rightarrow> settings \<Rightarrow> datetime \<Rightarrow> protocol_row \<Rightarrow> pool_state anyhow" where
  "uniswap_v4_state_from_row lib cfg now row =
     rbind (column_address lib (pr_pool_address row)) (\<lambda>pool.
     rbind (column_address lib (pr_manager_address row)) (\<lambda>manager.
     rbind (column_address lib (pr_token0 row)) (\<lambda>token0.
     rbind (column_address lib (pr_token1 row)) (\<lambda>token1.
     rbind (ok_or_message (column_u32 (pr_fee_pips row)) ''Uniswap V4 observation missing valid fee_pips'') (\<lambda>fee_pips.
     rbind (optional_address lib (pr_hooks_address row)) (\<lambda>hooks.
     rbind (ok_or_message (column_i32 (pr_tick_spacing row)) ''Uniswap V4 observation missing valid tick_spacing'') (\<lambda>tick_spacing.
     rbind (rbind (column (pr_sqrt_price_x96 row)) (\<lambda>v. parse_decimal_u256 lib v ''sqrt_price_x96'')) (\<lambda>sqrt_price.
     rbind (rbind (column (pr_liquidity row)) (\<lambda>v. parse_decimal_u256 lib v ''liquidity'')) (\<lambda>liquidity.
     rbind (ok_or_message (column_i32 (pr_tick row)) ''Uniswap V4 observation missing valid tick'') (\<lambda>tick.
     rbind (ok_or_message (column_u64 (pr_latest_block row)) ''Uniswap V4 observation missing latest_block'') (\<lambda>block_number.
     Inr ((bare_pool_state (cfg_chain_id cfg) pool DexUniswapV4 UniswapV4 (token0, token1) (None, None) block_number
             block_number now)
       \<lparr>ps_factory_address := Some manager, ps_fee_bps := or_else (fee_pips div 100) (column_u32 (pr_fee_bps row)),
        ps_fee_pips := Some fee_pips,
        ps_pool_key_fee_pips := Some (or_else fee_pips (column_u32 (pr_pool_key_fee_pips row))),
        ps_hooks_address := hooks, ps_sqrt_price_x96 := Some sqrt_price, ps_liquidity := Some liquidity,
        ps_tick := Some tick, ps_tick_spacing := Some tick_spacing\<rparr>))))))))))))"

record balancer_weighted_model =
  bm_balance0 :: u256
  bm_balance1 :: u256
  bm_weight0 :: u256
  bm_weight1 :: u256
  bm_scaling_factor0 :: u256
  bm_scaling_factor1 :: u256
  bm_token_rate0 :: u256
  bm_token_rate1 :: u256
  bm_swap_fee_percentage :: u256

definition parse_balancer_weighted_model ::
    "libs \<Rightarrow> json \<Rightarrow> address \<Rightarrow> address \<Rightarrow> balancer_weighted_model anyhow" where
  "parse_balancer_weighted_model lib model token0 token1 =
     rbind (json_address_array lib model ''tokens'') (\<lambda>tokens.
     rbind (json_u256_array lib model ''balances_live_scaled18'') (\<lambda>balances.
     rbind (json_u256_array lib model ''normalized_weights'') (\<lambda>weights.
     rbind (json_u256_array lib model ''decimal_scaling_factors'') (\<lambda>scaling_factors.
     rbind (json_u256_array lib model ''token_rates'') (\<lambda>token_rates.
     if length tokens \<noteq> 2 \<or> length balances \<noteq> 2 \<or> length weights \<noteq> 2 \<or> length scaling_factors \<noteq> 2 \<or>
        length token_rates \<noteq> 2
     then bail ''Balancer weighted local quote currently supports exactly 2-token pools''
     else
       rbind (ok_or_message (position (\<lambda>t. t = token0) tokens) ''model tokens missing token0'') (\<lambda>i0.
       rbind (ok_or_message (position (\<lambda>t. t = token1) tokens) ''model tokens missing token1'') (\<lambda>i1.
       if i0 = i1 then bail ''model token indexes overlap''
       else rbind (json_u256_field lib model ''static_swap_fee_percentage'') (\<lambda>fee.
         Inr \<lparr>bm_balance0 = balances ! i0, bm_balance1 = balances ! i1, bm_weight0 = weights ! i0,
           bm_weight1 = weights ! i1, bm_scaling_factor0 = scaling_factors ! i0,
           bm_scaling_factor1 = scaling_factors ! i1, bm_token_rate0 = token_rates ! i0,
           bm_token_rate1 = token_rates ! i1, bm_swap_fee_percentage = fee\<rparr>))))))))"

definition balancer_v3_state_from_row :: "libs \<Rightarrow> settings \<Rightarrow> datetime \<Rightarrow> protocol_row \<Rightarrow> pool_state anyhow" where
  "balancer_v3_state_from_row lib cfg now row =
     rbind (column_address lib (pr_pool_address row)) (\<lambda>pool.
     rbind (column_address lib (pr_manager_address row)) (\<lambda>manager.
     rbind (column_address lib (pr_token0 row)) (\<lambda>token0.
     rbind (column_address lib (pr_token1 row)) (\<lambda>token1.
     rbind (ok_or_message (column_u64 (pr_latest_block row)) ''Balancer V3 observation missing latest_block'') (\<lambda>block_number.
     rbind (optional_address lib (pr_factory_address row)) (\<lambda>factory.
     rbind (column (pr_model_json row)) (\<lambda>model_json.
     rbind (with_context ''invalid Balancer V3 weighted model coverage''
              (parse_balancer_weighted_model lib model_json token0 token1)) (\<lambda>model.
     Inr ((bare_pool_state (cfg_chain_id cfg) pool DexBalancer BalancerV3 (token0, token1) (None, None) block_number
             block_number now)
       \<lparr>ps_factory_address := Some (factory_or manager factory), ps_fee_bps := or_else 0 (column_u32 (pr_fee_bps row)),
        ps_reserve0 := Some (bm_balance0 model), ps_reserve1 := Some (bm_balance1 model),
        ps_balancer_model := Some ''weighted'', ps_balancer_weight0 := Some (bm_weight0 model),
        ps_balancer_weight1 := Some (bm_weight1 model),
        ps_balancer_scaling_factor0 := Some (bm_scaling_factor0 model),
        ps_balancer_scaling_factor1 := Some (bm_scaling_factor1 model),
        ps_balancer_token_rate0 := Some (bm_token_rate0 model), ps_balancer_token_rate1 := Some (bm_token_rate1 model),
        ps_balancer_swap_fee_percentage := Some (bm_swap_fee_percentage model)\<rparr>)))))))))"

text \<open>The symbols and the registered tokens of one promotion.\<close>

type_synonym token_memory = "(address \<times> string) list \<times> address set"

definition upsert_token_registry_once ::
    "libs \<Rightarrow> 's rpc_env \<Rightarrow> 's recorder_env \<Rightarrow> address \<Rightarrow> token_memory \<Rightarrow> ('s, token_memory) act" where
  "upsert_token_registry_once lib rp db token memory =
     (case memory of (symbols, registered) \<Rightarrow>
        if token \<in> registered then pass memory
        else bind (cached_token_symbol lib rp symbols token) (\<lambda>(symbol, symbols).
          bind (db_upsert_token_registry db token symbol) (\<lambda>_. pass (symbols, insert token registered))))"

record promote_stats =
  pm_selected :: usize
  pm_promoted :: usize
  pm_published_states :: usize
  pm_skipped :: usize

definition promote_stats_default :: promote_stats where
  "promote_stats_default = \<lparr>pm_selected = 0, pm_promoted = 0, pm_published_states = 0, pm_skipped = 0\<rparr>"

definition given_symbol :: "protocol_row \<Rightarrow> string option" where
  "given_symbol row =
     (case pr_symbol row of None \<Rightarrow> None | Some symbol \<Rightarrow> if trim symbol = [] then None else Some symbol)"

definition promoted_pool :: "pool_state \<Rightarrow> i32 option \<Rightarrow> string \<Rightarrow> discovered_pool" where
  "promoted_pool state tick_spacing source = \<lparr>dp_state = state, dp_factory_address = ps_factory_address state,
     dp_tick_spacing = tick_spacing, dp_stable = None, dp_source = source\<rparr>"

definition promote_pool ::
    "libs \<Rightarrow> 's rpc_env \<Rightarrow> 's recorder_env \<Rightarrow> ('s, unit) act \<Rightarrow> discovered_pool \<Rightarrow> string \<Rightarrow> token_memory \<Rightarrow>
     ('s, token_memory) act" where
  "promote_pool lib rp db mark found symbol memory =
     (let token0 = ps_token0 (dp_state found); token1 = ps_token1 (dp_state found); pair = canonical_pair token0 token1 in
      bind (upsert_token_registry_once lib rp db token0 memory) (\<lambda>memory.
      bind (upsert_token_registry_once lib rp db token1 memory) (\<lambda>memory.
      bind (db_upsert_token_pair db (fst pair) (snd pair) symbol) (\<lambda>pair_id.
      bind (db_upsert_discovered_pool db pair_id found) (\<lambda>_.
      bind mark (\<lambda>_. pass memory))))))"

text \<open>The loop over the rows, with the states to publish in their order.\<close>

fun promote_uniswap_v4_rows ::
    "libs \<Rightarrow> 's rpc_env \<Rightarrow> 's recorder_env \<Rightarrow> 's market_env \<Rightarrow> settings \<Rightarrow> protocol_row list \<Rightarrow> token_memory \<Rightarrow>
     pool_state list \<times> promote_stats \<Rightarrow> ('s, pool_state list \<times> promote_stats) act" where
  "promote_uniswap_v4_rows lib rp db env cfg [] memory acc = pass acc"
| "promote_uniswap_v4_rows lib rp db env cfg (row # rows) memory (states, c) =
     bind (infallible (mk_now env)) (\<lambda>now.
     case uniswap_v4_state_from_row lib cfg now row of
       Inl _ \<Rightarrow> promote_uniswap_v4_rows lib rp db env cfg rows memory (states, c\<lparr>pm_skipped := pm_skipped c + 1\<rparr>)
     | Inr state \<Rightarrow>
         bind (case given_symbol row of
                 Some symbol \<Rightarrow> pass (symbol, fst memory)
               | None \<Rightarrow> cached_pair_symbol lib rp (fst memory) (ps_token0 state) (ps_token1 state)) (\<lambda>(symbol, symbols).
         bind (promote_pool lib rp db (db_mark_uniswap_v4_imported db (ps_address state))
                 (promoted_pool state (ps_tick_spacing state) ''uniswap_v4_protocol_observation'') symbol
                 (symbols, snd memory)) (\<lambda>memory.
         promote_uniswap_v4_rows lib rp db env cfg rows memory
           (states @ [state], c\<lparr>pm_promoted := pm_promoted c + 1, pm_published_states := pm_published_states c + 1\<rparr>))))"

fun promote_balancer_v3_rows ::
    "libs \<Rightarrow> 's rpc_env \<Rightarrow> 's recorder_env \<Rightarrow> 's market_env \<Rightarrow> settings \<Rightarrow> protocol_row list \<Rightarrow> token_memory \<Rightarrow>
     pool_state list \<times> promote_stats \<Rightarrow> ('s, pool_state list \<times> promote_stats) act" where
  "promote_balancer_v3_rows lib rp db env cfg [] memory acc = pass acc"
| "promote_balancer_v3_rows lib rp db env cfg (row # rows) memory (states, c) =
     bind (infallible (mk_now env)) (\<lambda>now.
     case balancer_v3_state_from_row lib cfg now row of
       Inl _ \<Rightarrow> promote_balancer_v3_rows lib rp db env cfg rows memory (states, c\<lparr>pm_skipped := pm_skipped c + 1\<rparr>)
     | Inr state \<Rightarrow>
         bind (promote_pool lib rp db
                 (db_mark_balancer_v3_imported db (ps_address state) (ps_token0 state) (ps_token1 state))
                 (promoted_pool state None ''balancer_v3_protocol_observation'')
                 (or_else (short_address_suffix (ps_token0 state) @ ''/'' @ short_address_suffix (ps_token1 state))
                    (given_symbol row)) memory) (\<lambda>memory.
         promote_balancer_v3_rows lib rp db env cfg rows memory
           (states @ [state], c\<lparr>pm_promoted := pm_promoted c + 1, pm_published_states := pm_published_states c + 1\<rparr>)))"

definition publish_promoted :: "'s market_env \<Rightarrow> pool_state list \<Rightarrow> string \<Rightarrow> ('s, unit) act" where
  "publish_promoted env states source =
     (if states = [] then pass ()
      else bind (mk_publish_pool_states env (Max (set (map ps_block_number states))) states (map ps_address states)) (\<lambda>_.
        background (mk_record_pool_states env states source)))"

definition promote_quoteable_uniswap_v4_pools ::
    "libs \<Rightarrow> 's rpc_env \<Rightarrow> 's recorder_env \<Rightarrow> 's market_env \<Rightarrow> settings \<Rightarrow> u64 option \<Rightarrow> ('s, promote_stats) act" where
  "promote_quoteable_uniswap_v4_pools lib rp db env cfg min_latest_block =
     (case cfg_uniswap_v4_pool_manager cfg of
        None \<Rightarrow> pass promote_stats_default
      | Some manager \<Rightarrow>
          bind (db_uniswap_v4_rows db manager min_latest_block) (\<lambda>rows.
          bind (promote_uniswap_v4_rows lib rp db env cfg rows ([], {})
                  ([], promote_stats_default\<lparr>pm_selected := length rows\<rparr>)) (\<lambda>(states, c).
          bind (publish_promoted env states ''uniswap_v4_protocol'') (\<lambda>_. pass c))))"

definition promote_quoteable_balancer_v3_pools ::
    "libs \<Rightarrow> 's rpc_env \<Rightarrow> 's recorder_env \<Rightarrow> 's market_env \<Rightarrow> settings \<Rightarrow> u64 option \<Rightarrow> ('s, promote_stats) act" where
  "promote_quoteable_balancer_v3_pools lib rp db env cfg min_latest_block =
     (case cfg_balancer_v3_vault cfg of
        None \<Rightarrow> pass promote_stats_default
      | Some vault \<Rightarrow>
          bind (db_balancer_v3_rows db vault min_latest_block) (\<lambda>rows.
          bind (promote_balancer_v3_rows lib rp db env cfg rows ([], {})
                  ([], promote_stats_default\<lparr>pm_selected := length rows\<rparr>)) (\<lambda>(states, c).
          bind (publish_promoted env states ''balancer_v3_protocol'') (\<lambda>_. pass c))))"

text \<open>The chain identifier and the minimum block are bound as 64-bit signed numbers; both are far below.\<close>

definition fetch_uniswap_v4_state_from_observation ::
    "libs \<Rightarrow> 's recorder_env \<Rightarrow> 's market_env \<Rightarrow> settings \<Rightarrow> pool_registry_entry \<Rightarrow> ('s, pool_state) act" where
  "fetch_uniswap_v4_state_from_observation lib db env cfg entry =
     bind (db_uniswap_v4_row db (re_pool_address entry)) (\<lambda>row.
     bind (infallible (mk_now env)) (\<lambda>now. lift (uniswap_v4_state_from_row lib cfg now row)))"

definition fetch_registry_pool_state ::
    "libs \<Rightarrow> 's rpc_env \<Rightarrow> 's recorder_env \<Rightarrow> 's market_env \<Rightarrow> settings \<Rightarrow> pool_registry_entry \<Rightarrow> ('s, pool_state) act" where
  "fetch_registry_pool_state lib rp db env cfg entry =
     (if (re_dex entry, re_variant entry) = (DexUniswapV4, UniswapV4)
      then fetch_uniswap_v4_state_from_observation lib db env cfg entry
      else fetch_pool_state_from_registry lib rp entry)"
end
