(* ===== verification/Registry_Tables.thy ===== *)
theory Registry_Tables
  imports Market_Discovery
begin

text \<open>
  The registry of factories, pools, token pairs and search defaults in \<open>crates/storage/src/postgres.rs\<close>: its
  tables are lists of rows, a statement is the function its SQL describes, and a query returns the rows it
  selects. \<open>now\<close> stands for \<open>NOW()\<close> of the transaction and \<open>fresh\<close> for the identifier the database generates.
  A failing conversion of an argument leaves the tables as they are.
\<close>

section \<open>Rows\<close>

record factory_registry_row =
  ft_chain_id :: i64
  ft_factory_address :: string
  ft_dex :: string
  ft_variant :: string
  ft_trusted :: bool
  ft_enabled :: bool
  ft_source :: string
  ft_notes :: "string option"
  ft_first_seen_block :: "i64 option"
  ft_latest_seen_block :: "i64 option"
  ft_observed_pools :: int
  ft_updated_at :: datetime

record pool_row =
  pl_id :: uuid
  pl_token_pair_id :: "uuid option"
  pl_chain_id :: i64
  pl_pool_address :: string
  pl_dex :: string
  pl_variant :: string
  pl_token0 :: string
  pl_token1 :: string
  pl_fee_bps :: "i64 option"
  pl_tick_spacing :: "i64 option"
  pl_stable :: "bool option"
  pl_factory_address :: "string option"
  pl_enabled :: bool
  pl_source :: string
  pl_updated_at :: datetime

record token_row =
  tk_chain_id :: i64
  tk_token_address :: string
  tk_symbol :: string
  tk_enabled :: bool
  tk_updated_at :: datetime

record token_pair_row =
  tq_id :: uuid
  tq_chain_id :: i64
  tq_token0 :: string
  tq_token1 :: string
  tq_symbol :: string
  tq_enabled :: bool
  tq_token0_search_amounts :: "string option"
  tq_token1_search_amounts :: "string option"
  tq_token0_min_profit :: "string option"
  tq_token1_min_profit :: "string option"
  tq_updated_at :: datetime

record search_default_row =
  sd_chain_id :: i64
  sd_token_address :: string
  sd_executor_scope :: string
  sd_search_amounts :: string
  sd_min_profit :: string

record observed_pool_row =
  ob_chain_id :: i64
  ob_pool_address :: string
  ob_topic0 :: string
  ob_family :: string
  ob_token0 :: "string option"
  ob_token1 :: "string option"
  ob_symbol :: "string option"
  ob_factory_address :: "string option"
  ob_dex :: "string option"
  ob_variant :: "string option"
  ob_fee_bps :: "i64 option"
  ob_fee_pips :: "i64 option"
  ob_tick_spacing :: "i64 option"
  ob_stable :: "bool option"
  ob_txs_30d :: i64
  ob_logs_30d :: i64
  ob_first_block :: "i64 option"
  ob_latest_block :: "i64 option"
  ob_discovery_source :: string
  ob_import_status :: string
  ob_import_reason :: "string option"
  ob_updated_at :: datetime

record protocol_pool_row = protocol_row +
  pp_chain_id :: i64
  pp_protocol :: string
  pp_pool_uid :: string
  pp_topic0 :: string
  pp_event_type :: string
  pp_dex :: "string option"
  pp_variant :: "string option"
  pp_first_block :: i64
  pp_logs_30d :: int
  pp_discovery_source :: string
  pp_import_status :: string
  pp_import_reason :: "string option"
  pp_raw_json :: json
  pp_updated_at :: datetime

record registry_tables =
  tb_factories :: "factory_registry_row list"
  tb_observed_pools :: "observed_pool_row list"
  tb_protocol_pools :: "protocol_pool_row list"
  tb_pools :: "pool_row list"
  tb_tokens :: "token_row list"
  tb_token_pairs :: "token_pair_row list"
  tb_search_defaults :: "search_default_row list"

definition address_to_string :: "address \<Rightarrow> string" where
  "address_to_string a = address_hex a"

text \<open>\<open>INSERT .. ON CONFLICT .. DO UPDATE\<close>: the rows with the key of the new row are updated; without one the
  new row is added.\<close>

definition upsert_row :: "('r \<Rightarrow> 'k) \<Rightarrow> 'r \<Rightarrow> ('r \<Rightarrow> 'r) \<Rightarrow> 'r list \<Rightarrow> 'r list" where
  "upsert_row key row update rows =
     (if list_ex (\<lambda>r. key r = key row) rows then map (\<lambda>r. if key r = key row then update r else r) rows
      else rows @ [row])"

section \<open>Token pairs and tokens\<close>

definition pair_key :: "token_pair_row \<Rightarrow> i64 \<times> string \<times> string" where
  "pair_key row = (tq_chain_id row, tq_token0 row, tq_token1 row)"

definition upsert_token_pair ::
    "datetime \<Rightarrow> uuid \<Rightarrow> u64 \<Rightarrow> address \<Rightarrow> address \<Rightarrow> string \<Rightarrow> registry_tables \<Rightarrow> (uuid \<times> registry_tables) anyhow" where
  "upsert_token_pair now fresh chain_id token0 token1 symbol tb =
     rbind (i64_of_u64 chain_id) (\<lambda>chain.
     let row = \<lparr>tq_id = fresh, tq_chain_id = chain, tq_token0 = address_to_string token0,
           tq_token1 = address_to_string token1, tq_symbol = symbol, tq_enabled = True,
           tq_token0_search_amounts = None, tq_token1_search_amounts = None, tq_token0_min_profit = None,
           tq_token1_min_profit = None, tq_updated_at = now\<rparr>;
         rows = upsert_row pair_key row (\<lambda>r. r\<lparr>tq_symbol := symbol, tq_enabled := True, tq_updated_at := now\<rparr>)
           (tb_token_pairs tb) in
     Inr (case find (\<lambda>r. pair_key r = pair_key row) rows of Some r \<Rightarrow> tq_id r | None \<Rightarrow> fresh,
          tb\<lparr>tb_token_pairs := rows\<rparr>))"

definition upsert_token_registry ::
    "datetime \<Rightarrow> u64 \<Rightarrow> address \<Rightarrow> string \<Rightarrow> registry_tables \<Rightarrow> registry_tables anyhow" where
  "upsert_token_registry now chain_id token symbol tb =
     rbind (i64_of_u64 chain_id) (\<lambda>chain.
     let row = \<lparr>tk_chain_id = chain, tk_token_address = address_to_string token, tk_symbol = symbol,
           tk_enabled = False, tk_updated_at = now\<rparr> in
     Inr (tb\<lparr>tb_tokens := upsert_row (\<lambda>r. (tk_chain_id r, tk_token_address r)) row
       (\<lambda>r. r\<lparr>tk_symbol := symbol, tk_updated_at := now\<rparr>) (tb_tokens tb)\<rparr>))"

text \<open>An identifier of a disabled pair disables its pools.\<close>

definition disable_token_pair ::
    "datetime \<Rightarrow> u64 \<Rightarrow> address \<Rightarrow> address \<Rightarrow> registry_tables \<Rightarrow> registry_tables anyhow" where
  "disable_token_pair now chain_id token0 token1 tb =
     rbind (i64_of_u64 chain_id) (\<lambda>chain.
     let key = (chain, address_to_string token0, address_to_string token1);
         tb' = tb\<lparr>tb_token_pairs := map (\<lambda>r. if pair_key r = key then r\<lparr>tq_enabled := False, tq_updated_at := now\<rparr> else r)
           (tb_token_pairs tb)\<rparr> in
     Inr (case find (\<lambda>r. pair_key r = key) (tb_token_pairs tb) of
        None \<Rightarrow> tb'
      | Some pair \<Rightarrow> tb'\<lparr>tb_pools := map (\<lambda>r. if pl_token_pair_id r = Some (tq_id pair)
            then r\<lparr>pl_enabled := False, pl_updated_at := now\<rparr> else r) (tb_pools tb)\<rparr>))"

definition delete_token_pair ::
    "u64 \<Rightarrow> address \<Rightarrow> address \<Rightarrow> registry_tables \<Rightarrow> (nat \<times> registry_tables) anyhow" where
  "delete_token_pair chain_id token0 token1 tb =
     rbind (i64_of_u64 chain_id) (\<lambda>chain.
     Inr (case find (\<lambda>r. pair_key r = (chain, address_to_string token0, address_to_string token1)) (tb_token_pairs tb) of
        None \<Rightarrow> (0, tb)
      | Some pair \<Rightarrow>
          (length (filter (\<lambda>r. pl_token_pair_id r = Some (tq_id pair)) (tb_pools tb)),
           tb\<lparr>tb_pools := filter (\<lambda>r. pl_token_pair_id r \<noteq> Some (tq_id pair)) (tb_pools tb),
              tb_token_pairs := filter (\<lambda>r. tq_id r \<noteq> tq_id pair) (tb_token_pairs tb)\<rparr>)))"

section \<open>Pools\<close>

text \<open>\<open>i64::from\<close> of a \<open>u32\<close> and of an \<open>i32\<close>.\<close>

definition i64_of_u32 :: "u32 \<Rightarrow> i64" where
  "i64_of_u32 v = ucast v"

definition i64_of_i32 :: "i32 \<Rightarrow> i64" where
  "i64_of_i32 v = scast v"

definition discovered_row :: "datetime \<Rightarrow> uuid \<Rightarrow> uuid \<Rightarrow> i64 \<Rightarrow> discovered_pool \<Rightarrow> pool_row" where
  "discovered_row now fresh pair_id chain d =
     \<lparr>pl_id = fresh, pl_token_pair_id = Some pair_id, pl_chain_id = chain,
      pl_pool_address = address_to_string (ps_address (dp_state d)), pl_dex = dex_to_string (ps_dex (dp_state d)),
      pl_variant = variant_to_string (ps_variant (dp_state d)), pl_token0 = address_to_string (ps_token0 (dp_state d)),
      pl_token1 = address_to_string (ps_token1 (dp_state d)), pl_fee_bps = Some (i64_of_u32 (ps_fee_bps (dp_state d))),
      pl_tick_spacing = map_option i64_of_i32 (dp_tick_spacing d), pl_stable = dp_stable d,
      pl_factory_address = map_option address_to_string (dp_factory_address d), pl_enabled = True,
      pl_source = dp_source d, pl_updated_at = now\<rparr>"

definition upsert_discovered_pool ::
    "datetime \<Rightarrow> uuid \<Rightarrow> uuid \<Rightarrow> discovered_pool \<Rightarrow> registry_tables \<Rightarrow> registry_tables anyhow" where
  "upsert_discovered_pool now fresh pair_id d tb =
     rbind (i64_of_u64 (pid_chain_id (ps_pool_id (dp_state d)))) (\<lambda>chain.
     let row = discovered_row now fresh pair_id chain d in
     Inr (tb\<lparr>tb_pools := upsert_row (\<lambda>r. (pl_chain_id r, pl_pool_address r)) row
       (\<lambda>r. row\<lparr>pl_id := pl_id r\<rparr>) (tb_pools tb)\<rparr>))"

definition parse_dex :: "string \<Rightarrow> dex_kind anyhow" where
  "parse_dex s = map_err (\<lambda>_. [''unknown dex kind '' @ s]) (parse_dex_kind s)"

definition parse_variant :: "string \<Rightarrow> pool_variant anyhow" where
  "parse_variant s = map_err (\<lambda>_. [''unknown pool variant '' @ s]) (parse_variant_name s)"

definition out_of_range :: "'a option \<Rightarrow> 'a anyhow" where
  "out_of_range v = ok_or_message v ''out of range integral type conversion attempted''"

definition u32_of_i64 :: "i64 \<Rightarrow> u32 option" where
  "u32_of_i64 v = (if 0 \<le> sint v \<and> sint v < 2 ^ 32 then Some (ucast v) else None)"

definition i32_of_i64 :: "i64 \<Rightarrow> i32 option" where
  "i32_of_i64 v = (if - (2 ^ 31) \<le> sint v \<and> sint v < 2 ^ 31 then Some (ucast v) else None)"

definition transpose :: "('a \<Rightarrow> 'b anyhow) \<Rightarrow> 'a option \<Rightarrow> 'b option anyhow" where
  "transpose f v = (case v of None \<Rightarrow> Inr None | Some x \<Rightarrow> rbind (f x) (\<lambda>y. Inr (Some y)))"

definition entry_of_row :: "libs \<Rightarrow> pool_row \<Rightarrow> pool_registry_entry anyhow" where
  "entry_of_row lib row =
     rbind (parse_address lib (pl_pool_address row)) (\<lambda>pool.
     rbind (parse_dex (pl_dex row)) (\<lambda>dex.
     rbind (parse_variant (pl_variant row)) (\<lambda>variant.
     rbind (transpose (parse_address lib) (pl_factory_address row)) (\<lambda>factory.
     rbind (parse_address lib (pl_token0 row)) (\<lambda>token0.
     rbind (parse_address lib (pl_token1 row)) (\<lambda>token1.
     rbind (out_of_range (u32_of_i64 (case pl_fee_bps row of None \<Rightarrow> 0 | Some fee \<Rightarrow> fee))) (\<lambda>fee_bps.
     rbind (transpose (\<lambda>v. out_of_range (i32_of_i64 v)) (pl_tick_spacing row)) (\<lambda>tick_spacing.
     Inr \<lparr>re_pool_address = pool, re_dex = dex, re_variant = variant, re_factory_address = factory,
       re_token0 = token0, re_token1 = token1, re_fee_bps = fee_bps, re_tick_spacing = tick_spacing,
       re_stable = pl_stable row, re_enabled = pl_enabled row\<rparr>))))))))"

text \<open>\<open>DISTINCT ON\<close>: the first row of each key among the ordered rows.\<close>

fun distinct_on :: "('r \<Rightarrow> 'k) \<Rightarrow> 'k list \<Rightarrow> 'r list \<Rightarrow> 'r list" where
  "distinct_on key seen [] = []"
| "distinct_on key seen (r # rows) =
     (if key r \<in> set seen then distinct_on key seen rows else r # distinct_on key (key r # seen) rows)"

text \<open>\<open>lower\<close> of an address and the order of the result; ties of an \<open>ORDER BY\<close> keep the order of the table.\<close>

definition lower_codes :: "string \<Rightarrow> nat list" where
  "lower_codes s = map of_char (to_ascii_lowercase s)"

definition enabled_pool_rows :: "registry_tables \<Rightarrow> pool_row list" where
  "enabled_pool_rows tb =
     distinct_on (\<lambda>r. lower_codes (pl_pool_address r)) []
       (sort_key (\<lambda>r. (lower_codes (pl_pool_address r), - pl_updated_at r)) (filter pl_enabled (tb_pools tb)))"

definition enabled_registry_pools :: "libs \<Rightarrow> registry_tables \<Rightarrow> pool_registry_entry list anyhow" where
  "enabled_registry_pools lib tb = collect_results (entry_of_row lib) (enabled_pool_rows tb)"

section \<open>Factories\<close>

text \<open>\<open>LEAST\<close> ignores a null argument.\<close>

definition least_block :: "i64 option \<Rightarrow> i64 option \<Rightarrow> i64 option" where
  "least_block a b = (case (a, b) of
      (Some x, Some y) \<Rightarrow> Some (if sint x \<le> sint y then x else y)
    | (Some x, None) \<Rightarrow> Some x
    | (None, _) \<Rightarrow> b)"

definition greatest_block :: "i64 \<Rightarrow> i64 \<Rightarrow> i64" where
  "greatest_block x y = (if sint x \<le> sint y then y else x)"

definition upsert_factory_registry ::
    "datetime \<Rightarrow> u64 \<Rightarrow> factory_upsert \<Rightarrow> registry_tables \<Rightarrow> registry_tables anyhow" where
  "upsert_factory_registry now chain_id f tb =
     rbind (i64_of_u64 chain_id) (\<lambda>chain.
     let delta = sint (greatest_block (fu_observed_pools_delta f) 0);
         row = \<lparr>ft_chain_id = chain, ft_factory_address = address_to_string (fu_factory_address f), ft_dex = fu_dex f,
           ft_variant = fu_variant f, ft_trusted = fu_trusted f, ft_enabled = fu_enabled f, ft_source = fu_source f,
           ft_notes = fu_notes f, ft_first_seen_block = fu_first_seen_block f,
           ft_latest_seen_block = fu_latest_seen_block f, ft_observed_pools = delta, ft_updated_at = now\<rparr> in
     Inr (tb\<lparr>tb_factories := upsert_row (\<lambda>r. (ft_chain_id r, ft_factory_address r)) row
       (\<lambda>r. row\<lparr>ft_notes := (case fu_notes f of None \<Rightarrow> ft_notes r | Some notes \<Rightarrow> Some notes),
          ft_first_seen_block := least_block (ft_first_seen_block r) (fu_first_seen_block f),
          ft_latest_seen_block := Some (greatest_block (or_else 0 (ft_latest_seen_block r))
            (or_else 0 (fu_latest_seen_block f))),
          ft_observed_pools := ft_observed_pools r + delta\<rparr>)
       (tb_factories tb)\<rparr>))"

definition factory_record :: "factory_registry_row \<Rightarrow> factory_registry_record" where
  "factory_record r = \<lparr>fr_factory_address = ft_factory_address r, fr_dex = ft_dex r, fr_variant = ft_variant r,
     fr_trusted = ft_trusted r, fr_enabled = ft_enabled r\<rparr>"

definition trusted_factory_registry :: "u64 \<Rightarrow> registry_tables \<Rightarrow> factory_registry_record list anyhow" where
  "trusted_factory_registry chain_id tb =
     rbind (i64_of_u64 chain_id) (\<lambda>chain.
     Inr (map factory_record (sort_key (\<lambda>r. - ft_updated_at r)
       (filter (\<lambda>r. ft_chain_id r = chain \<and> ft_trusted r \<and> ft_enabled r) (tb_factories tb)))))"

definition all_factory_registry :: "u64 \<Rightarrow> nat \<Rightarrow> registry_tables \<Rightarrow> factory_registry_record list anyhow" where
  "all_factory_registry chain_id limit tb =
     rbind (i64_of_u64 chain_id) (\<lambda>chain.
     Inr (map factory_record (take limit (sort_key (\<lambda>r. (\<not> ft_trusted r, - ft_observed_pools r, - ft_updated_at r))
       (filter (\<lambda>r. ft_chain_id r = chain) (tb_factories tb))))))"

section \<open>Observed pools\<close>

definition upsert_observed_pool ::
    "datetime \<Rightarrow> u64 \<Rightarrow> observed_pool_upsert \<Rightarrow> registry_tables \<Rightarrow> registry_tables anyhow" where
  "upsert_observed_pool now chain_id ou tb =
     rbind (i64_of_u64 chain_id) (\<lambda>chain.
     let row = \<lparr>ob_chain_id = chain, ob_pool_address = address_to_string (ou_pool_address ou),
           ob_topic0 = to_ascii_lowercase (ou_topic0 ou), ob_family = ou_family ou,
           ob_token0 = map_option address_to_string (ou_token0 ou), ob_token1 = map_option address_to_string (ou_token1 ou),
           ob_symbol = ou_symbol ou, ob_factory_address = map_option address_to_string (ou_factory_address ou),
           ob_dex = ou_dex ou, ob_variant = ou_variant ou, ob_fee_bps = map_option i64_of_u32 (ou_fee_bps ou),
           ob_fee_pips = map_option i64_of_u32 (ou_fee_pips ou), ob_tick_spacing = map_option i64_of_i32 (ou_tick_spacing ou),
           ob_stable = ou_stable ou, ob_txs_30d = ou_txs_30d ou, ob_logs_30d = ou_logs_30d ou,
           ob_first_block = ou_first_block ou, ob_latest_block = ou_latest_block ou,
           ob_discovery_source = ou_discovery_source ou, ob_import_status = ou_import_status ou,
           ob_import_reason = ou_import_reason ou, ob_updated_at = now\<rparr> in
     Inr (tb\<lparr>tb_observed_pools := upsert_row (\<lambda>r. (ob_chain_id r, ob_pool_address r)) row (\<lambda>_. row)
       (tb_observed_pools tb)\<rparr>))"

section \<open>Pools of the manager and the vault\<close>

text \<open>\<open>COALESCE(EXCLUDED.c, c)\<close>.\<close>

definition coalesce :: "'a option \<Rightarrow> 'a option \<Rightarrow> 'a option" where
  "coalesce a b = (case a of None \<Rightarrow> b | Some _ \<Rightarrow> a)"

definition protocol_key :: "protocol_pool_row \<Rightarrow> i64 \<times> string \<times> string option \<times> string" where
  "protocol_key r = (pp_chain_id r, pp_protocol r, pr_manager_address r, pp_pool_uid r)"

definition upsert_protocol_pool_observation ::
    "datetime \<Rightarrow> protocol_pool_observation \<Rightarrow> registry_tables \<Rightarrow> registry_tables anyhow" where
  "upsert_protocol_pool_observation now ob tb =
     rbind (i64_of_u64 (po_chain_id ob)) (\<lambda>chain.
     rbind (i64_of_u64 (po_block_number ob)) (\<lambda>block.
     let row = \<lparr>pr_pool_address = map_option address_to_string (po_pool_address ob),
           pr_manager_address = Some (address_to_string (po_manager_address ob)),
           pr_token0 = map_option address_to_string (po_token0 ob), pr_token1 = map_option address_to_string (po_token1 ob),
           pr_symbol = po_symbol ob, pr_factory_address = map_option address_to_string (po_factory_address ob),
           pr_fee_bps = map_option i64_of_u32 (po_fee_bps ob), pr_fee_pips = map_option i64_of_u32 (po_fee_pips ob),
           pr_pool_key_fee_pips = map_option i64_of_u32 (po_pool_key_fee_pips ob),
           pr_tick_spacing = map_option i64_of_i32 (po_tick_spacing ob),
           pr_hooks_address = map_option address_to_string (po_hooks_address ob),
           pr_sqrt_price_x96 = map_option (\<lambda>v. nat_dec (unat v)) (po_sqrt_price_x96 ob),
           pr_liquidity = map_option (\<lambda>v. nat_dec (unat v)) (po_liquidity ob),
           pr_tick = map_option i64_of_i32 (po_tick ob), pr_latest_block = Some block, pr_model_json = None,
           pp_chain_id = chain, pp_protocol = po_protocol ob, pp_pool_uid = po_pool_uid ob, pp_topic0 = po_topic0 ob,
           pp_event_type = po_event_type ob, pp_dex = po_dex ob, pp_variant = po_variant ob, pp_first_block = block,
           pp_logs_30d = 1, pp_discovery_source = po_discovery_source ob, pp_import_status = po_import_status ob,
           pp_import_reason = po_import_reason ob, pp_raw_json = po_raw_json ob, pp_updated_at = now\<rparr> in
     Inr (tb\<lparr>tb_protocol_pools := upsert_row protocol_key row
       (\<lambda>r. row\<lparr>pr_pool_address := coalesce (pr_pool_address row) (pr_pool_address r),
          pr_token0 := coalesce (pr_token0 row) (pr_token0 r), pr_token1 := coalesce (pr_token1 row) (pr_token1 r),
          pr_symbol := coalesce (pr_symbol row) (pr_symbol r),
          pr_factory_address := coalesce (pr_factory_address row) (pr_factory_address r),
          pp_dex := coalesce (pp_dex row) (pp_dex r), pp_variant := coalesce (pp_variant row) (pp_variant r),
          pr_fee_bps := coalesce (pr_fee_bps row) (pr_fee_bps r), pr_fee_pips := coalesce (pr_fee_pips row) (pr_fee_pips r),
          pr_pool_key_fee_pips := coalesce (pr_pool_key_fee_pips row) (pr_pool_key_fee_pips r),
          pr_tick_spacing := coalesce (pr_tick_spacing row) (pr_tick_spacing r),
          pr_hooks_address := coalesce (pr_hooks_address row) (pr_hooks_address r),
          pr_sqrt_price_x96 := coalesce (pr_sqrt_price_x96 row) (pr_sqrt_price_x96 r),
          pr_liquidity := coalesce (pr_liquidity row) (pr_liquidity r), pr_tick := coalesce (pr_tick row) (pr_tick r),
          pp_first_block := (if sint (pp_first_block r) \<le> sint block then pp_first_block r else block),
          pr_latest_block := Some (greatest_block (or_else 0 (pr_latest_block r)) block),
          pp_logs_30d := pp_logs_30d r + 1\<rparr>)
       (tb_protocol_pools tb)\<rparr>)))"

text \<open>The statements written in \<open>crates/market-data/src/listener.rs\<close>.\<close>

definition same_text :: "string option \<Rightarrow> string \<Rightarrow> bool" where
  "same_text stored v = (case stored of None \<Rightarrow> False | Some c \<Rightarrow> to_ascii_lowercase c = to_ascii_lowercase v)"

definition quoteable_v4_row :: "i64 \<Rightarrow> protocol_pool_row \<Rightarrow> bool" where
  "quoteable_v4_row chain r \<longleftrightarrow>
     pp_chain_id r = chain \<and> pp_protocol r = ''uniswap-v4'' \<and> pr_token0 r \<noteq> None \<and> pr_token1 r \<noteq> None \<and>
     pr_fee_pips r \<noteq> None \<and> pr_tick_spacing r \<noteq> None \<and>
     same_text (coalesce (pr_hooks_address r) (Some (address_hex 0))) (address_hex 0) \<and>
     pr_sqrt_price_x96 r \<noteq> None \<and> pr_liquidity r \<noteq> None \<and> pr_tick r \<noteq> None"

definition uniswap_v4_row :: "u64 \<Rightarrow> address \<Rightarrow> registry_tables \<Rightarrow> protocol_row anyhow" where
  "uniswap_v4_row chain_id pool tb =
     rbind (i64_of_u64 chain_id) (\<lambda>chain.
     case sort_key (\<lambda>r. (- sint (or_else 0 (pr_latest_block r)), - pp_updated_at r))
       (filter (\<lambda>r. quoteable_v4_row chain r \<and> same_text (pr_pool_address r) (address_hex pool)) (tb_protocol_pools tb)) of
       [] \<Rightarrow> bail ''no rows returned by a query that expected to return at least one row''
     | r # _ \<Rightarrow> Inr (protocol_row.truncate r))"

definition mark_imported ::
    "datetime \<Rightarrow> string \<Rightarrow> (protocol_pool_row \<Rightarrow> bool) \<Rightarrow> registry_tables \<Rightarrow> registry_tables" where
  "mark_imported now reason selects tb =
     tb\<lparr>tb_protocol_pools := map (\<lambda>r. if selects r
       then r\<lparr>pp_import_status := ''imported'', pp_import_reason := Some reason, pp_updated_at := now\<rparr> else r)
       (tb_protocol_pools tb)\<rparr>"

definition mark_uniswap_v4_imported :: "datetime \<Rightarrow> u64 \<Rightarrow> address \<Rightarrow> registry_tables \<Rightarrow> registry_tables anyhow" where
  "mark_uniswap_v4_imported now chain_id pool tb =
     rbind (i64_of_u64 chain_id) (\<lambda>chain.
     Inr (mark_imported now ''zero-hook Uniswap V4 pool promoted for quote/search''
       (\<lambda>r. pp_chain_id r = chain \<and> pp_protocol r = ''uniswap-v4'' \<and> same_text (pr_pool_address r) (address_hex pool)) tb))"

definition mark_balancer_v3_imported ::
    "datetime \<Rightarrow> u64 \<Rightarrow> address \<Rightarrow> address \<Rightarrow> address \<Rightarrow> registry_tables \<Rightarrow> registry_tables anyhow" where
  "mark_balancer_v3_imported now chain_id pool token0 token1 tb =
     rbind (i64_of_u64 chain_id) (\<lambda>chain.
     Inr (mark_imported now ''Balancer V3 2-token weighted edge promoted for local quote/search''
       (\<lambda>r. pp_chain_id r = chain \<and> pp_protocol r = ''balancer-v3'' \<and> same_text (pr_pool_address r) (address_hex pool) \<and>
          same_text (pr_token0 r) (address_hex token0) \<and> same_text (pr_token1 r) (address_hex token1)) tb))"

section \<open>The database of the market data service\<close>

text \<open>A statement may fail, and then changes nothing; otherwise it runs on the tables. \<open>da_fails\<close>, \<open>da_now\<close> and
  \<open>da_uuid\<close> are the connection, the clock and the identifiers of the database; the two queries that also read
  the states and the model coverage of the pools are \<open>da_uniswap_v4_rows\<close> and \<open>da_balancer_v3_rows\<close>.\<close>

record 'w registry_world =
  rw_tables :: registry_tables
  rw_outside :: 'w

record 'w database =
  da_fails :: "'w \<Rightarrow> bool \<times> 'w"
  da_now :: "'w \<Rightarrow> datetime \<times> 'w"
  da_uuid :: "'w \<Rightarrow> uuid \<times> 'w"
  da_uniswap_v4_rows :: "registry_tables \<Rightarrow> address \<Rightarrow> u64 option \<Rightarrow> protocol_row list anyhow"
  da_balancer_v3_rows :: "registry_tables \<Rightarrow> address \<Rightarrow> u64 option \<Rightarrow> protocol_row list anyhow"
  da_warm_ticks :: "pool_state list \<Rightarrow> string \<Rightarrow> 'w \<Rightarrow> 'w"

definition statement ::
    "'w database \<Rightarrow> (datetime \<Rightarrow> uuid \<Rightarrow> registry_tables \<Rightarrow> ('a \<times> registry_tables) anyhow) \<Rightarrow> ('w registry_world, 'a) act" where
  "statement da f = (\<lambda>s.
     case da_fails da (rw_outside s) of (failed, w) \<Rightarrow>
     case da_now da w of (now, w) \<Rightarrow>
     case da_uuid da w of (fresh, w) \<Rightarrow>
       if failed then (bail ''error communicating with database'', s\<lparr>rw_outside := w\<rparr>)
       else case f now fresh (rw_tables s) of
           Inl e \<Rightarrow> (Inl e, s\<lparr>rw_outside := w\<rparr>)
         | Inr (x, tb) \<Rightarrow> (Inr x, s\<lparr>rw_tables := tb, rw_outside := w\<rparr>))"

text \<open>A statement without a result, and a query.\<close>

definition executed :: "registry_tables anyhow \<Rightarrow> (unit \<times> registry_tables) anyhow" where
  "executed r = rbind r (\<lambda>tb. Inr ((), tb))"

definition queried :: "(registry_tables \<Rightarrow> 'a anyhow) \<Rightarrow> registry_tables \<Rightarrow> ('a \<times> registry_tables) anyhow" where
  "queried q tb = rbind (q tb) (\<lambda>x. Inr (x, tb))"

definition table_db :: "'w database \<Rightarrow> u64 \<Rightarrow> 'w registry_world recorder_env" where
  "table_db da chain_id = \<lparr>
     db_upsert_factory_registry = (\<lambda>f. statement da (\<lambda>now fresh tb. executed (upsert_factory_registry now chain_id f tb))),
     db_trusted_factory_registry = statement da (\<lambda>now fresh. queried (trusted_factory_registry chain_id)),
     db_upsert_observed_pool = (\<lambda>ou. statement da (\<lambda>now fresh tb. executed (upsert_observed_pool now chain_id ou tb))),
     db_upsert_token_registry =
       (\<lambda>token symbol. statement da (\<lambda>now fresh tb. executed (upsert_token_registry now chain_id token symbol tb))),
     db_upsert_token_pair =
       (\<lambda>token0 token1 symbol. statement da (\<lambda>now fresh. upsert_token_pair now fresh chain_id token0 token1 symbol)),
     db_upsert_discovered_pool =
       (\<lambda>pair_id d. statement da (\<lambda>now fresh tb. executed (upsert_discovered_pool now fresh pair_id d tb))),
     db_upsert_protocol_pool_observation =
       (\<lambda>ob. statement da (\<lambda>now fresh tb. executed (upsert_protocol_pool_observation now ob tb))),
     db_uniswap_v4_rows = (\<lambda>manager block. statement da (\<lambda>now fresh. queried (\<lambda>tb. da_uniswap_v4_rows da tb manager block))),
     db_uniswap_v4_row = (\<lambda>pool. statement da (\<lambda>now fresh. queried (uniswap_v4_row chain_id pool))),
     db_mark_uniswap_v4_imported =
       (\<lambda>pool. statement da (\<lambda>now fresh tb. executed (mark_uniswap_v4_imported now chain_id pool tb))),
     db_balancer_v3_rows = (\<lambda>vault block. statement da (\<lambda>now fresh. queried (\<lambda>tb. da_balancer_v3_rows da tb vault block))),
     db_mark_balancer_v3_imported = (\<lambda>pool token0 token1.
       statement da (\<lambda>now fresh tb. executed (mark_balancer_v3_imported now chain_id pool token0 token1 tb))),
     db_warm_ticks = (\<lambda>states source s. s\<lparr>rw_outside := da_warm_ticks da states source (rw_outside s)\<rparr>)\<rparr>"

end
