(* ===== verification/Registry_Pairs.thy ===== *)
theory Registry_Pairs
  imports Registry_Tables
begin

text \<open>
  The search settings of the token pairs in \<open>crates/storage/src/postgres.rs\<close>: what an operator stores for a
  pair and for a token, the query that resolves them for every enabled pair, and how the search amounts and
  minimum profits are read from the text columns.
\<close>

section \<open>Statements\<close>

definition update_token_pair_search_config ::
    "datetime \<Rightarrow> u64 \<Rightarrow> address \<Rightarrow> address \<Rightarrow> string option \<Rightarrow> string option \<Rightarrow> string option \<Rightarrow> string option \<Rightarrow>
     registry_tables \<Rightarrow> registry_tables anyhow" where
  "update_token_pair_search_config now chain_id token0 token1 amounts0 amounts1 profit0 profit1 tb =
     rbind (i64_of_u64 chain_id) (\<lambda>chain.
     Inr (tb\<lparr>tb_token_pairs := map (\<lambda>r.
       if pair_key r = (chain, address_to_string token0, address_to_string token1)
       then r\<lparr>tq_token0_search_amounts := amounts0, tq_token1_search_amounts := amounts1,
          tq_token0_min_profit := profit0, tq_token1_min_profit := profit1, tq_updated_at := now\<rparr>
       else r) (tb_token_pairs tb)\<rparr>))"

definition normalize_executor_scope :: "string \<Rightarrow> string anyhow" where
  "normalize_executor_scope scope =
     (let s = trim scope in
      if s = [] \<or> s = ''all'' then Inr ''all''
      else if s \<in> {''two_hop'', ''2hop'', ''2-hop''} then Inr ''two_hop''
      else if s \<in> {''multihop'', ''multi_hop'', ''multi-hop''} then Inr ''multihop''
      else bail (''invalid executor scope: '' @ s))"

definition default_key :: "search_default_row \<Rightarrow> i64 \<times> string \<times> string" where
  "default_key r = (sd_chain_id r, sd_token_address r, sd_executor_scope r)"

definition update_token_search_default ::
    "u64 \<Rightarrow> address \<Rightarrow> string \<Rightarrow> string option \<Rightarrow> string option \<Rightarrow> registry_tables \<Rightarrow> registry_tables anyhow" where
  "update_token_search_default chain_id token scope amounts profit tb =
     rbind (i64_of_u64 chain_id) (\<lambda>chain.
     rbind (normalize_executor_scope scope) (\<lambda>scope.
     case (amounts, profit) of
       (Some amounts, Some profit) \<Rightarrow>
         (let row = \<lparr>sd_chain_id = chain, sd_token_address = address_to_string token, sd_executor_scope = scope,
                sd_search_amounts = amounts, sd_min_profit = profit\<rparr> in
          Inr (tb\<lparr>tb_search_defaults := upsert_row default_key row (\<lambda>_. row) (tb_search_defaults tb)\<rparr>))
     | (None, None) \<Rightarrow>
         Inr (tb\<lparr>tb_search_defaults :=
           filter (\<lambda>r. default_key r \<noteq> (chain, address_to_string token, scope)) (tb_search_defaults tb)\<rparr>)
     | _ \<Rightarrow> bail ''token default amounts and min profit must be set together''))"

section \<open>The query\<close>

text \<open>\<open>NULLIF(BTRIM(c), '') IS NOT NULL\<close>; \<open>BTRIM\<close> strips spaces.\<close>

definition has_text :: "string option \<Rightarrow> bool" where
  "has_text v = (case v of None \<Rightarrow> False | Some s \<Rightarrow> list_ex (\<lambda>c. c \<noteq> CHR '' '') s)"

definition search_default :: "i64 \<Rightarrow> string \<Rightarrow> string \<Rightarrow> registry_tables \<Rightarrow> search_default_row option" where
  "search_default chain token scope tb = find (\<lambda>r. default_key r = (chain, token, scope)) (tb_search_defaults tb)"

record side_row =
  sr_token :: string
  sr_search_amounts :: "string option"
  sr_multihop_search_amounts :: "string option"
  sr_min_profit :: "string option"
  sr_multihop_min_profit :: "string option"
  sr_all_min_profit :: "string option"

text \<open>The columns selected for one token of a pair: its own settings when it has amounts of its own,
  otherwise the defaults of the scope and then of all scopes.\<close>

definition side_columns :: "registry_tables \<Rightarrow> i64 \<Rightarrow> string \<Rightarrow> string option \<Rightarrow> string option \<Rightarrow> side_row" where
  "side_columns tb chain token amounts profit =
     (let all_scopes = search_default chain token ''all'' tb;
          two_hop = search_default chain token ''two_hop'' tb;
          multihop = search_default chain token ''multihop'' tb;
          pick = (\<lambda>own column scoped. if has_text amounts then own
            else coalesce (map_option column scoped) (map_option column all_scopes)) in
      \<lparr>sr_token = token, sr_search_amounts = pick amounts sd_search_amounts two_hop,
       sr_multihop_search_amounts = pick amounts sd_search_amounts multihop,
       sr_min_profit = pick profit sd_min_profit two_hop, sr_multihop_min_profit = pick profit sd_min_profit multihop,
       sr_all_min_profit = map_option sd_min_profit all_scopes\<rparr>)"

text \<open>The \<open>WHERE\<close> clause of one token: some amounts are stored for it.\<close>

definition side_configured :: "registry_tables \<Rightarrow> i64 \<Rightarrow> string \<Rightarrow> string option \<Rightarrow> bool" where
  "side_configured tb chain token amounts \<longleftrightarrow>
     has_text amounts \<or>
     list_ex (\<lambda>scope. has_text (map_option sd_search_amounts (search_default chain token scope tb)))
       [''two_hop'', ''multihop'', ''all'']"

record pair_config_row =
  pc_chain_id :: i64
  pc_symbol :: string
  pc_token0 :: side_row
  pc_token1 :: side_row

definition pair_config_row_of :: "registry_tables \<Rightarrow> token_pair_row \<Rightarrow> pair_config_row" where
  "pair_config_row_of tb r = \<lparr>pc_chain_id = tq_chain_id r, pc_symbol = tq_symbol r,
     pc_token0 = side_columns tb (tq_chain_id r) (tq_token0 r) (tq_token0_search_amounts r) (tq_token0_min_profit r),
     pc_token1 = side_columns tb (tq_chain_id r) (tq_token1 r) (tq_token1_search_amounts r) (tq_token1_min_profit r)\<rparr>"

definition pair_config_rows :: "registry_tables \<Rightarrow> pair_config_row list" where
  "pair_config_rows tb =
     map (pair_config_row_of tb)
       (sort_key (\<lambda>r. - tq_updated_at r)
         (filter (\<lambda>r. tq_enabled r \<and>
            (side_configured tb (tq_chain_id r) (tq_token0 r) (tq_token0_search_amounts r) \<or>
             side_configured tb (tq_chain_id r) (tq_token1 r) (tq_token1_search_amounts r))) (tb_token_pairs tb)))"

section \<open>Reading the columns\<close>

definition parse_raw_amount :: "libs \<Rightarrow> string option \<Rightarrow> u256 option anyhow" where
  "parse_raw_amount lib raw =
     (case map_option trim raw of
        None \<Rightarrow> Inr None
      | Some s \<Rightarrow> if s = [] then Inr None else rbind (lib_from_str_radix lib s 10) (\<lambda>v. Inr (Some v)))"

definition parse_raw_amount_list :: "libs \<Rightarrow> string option \<Rightarrow> u256 list anyhow" where
  "parse_raw_amount_list lib raw =
     (case raw of
        None \<Rightarrow> Inr []
      | Some s \<Rightarrow>
          collect_results (\<lambda>part. rbind (parse_raw_amount lib (Some part)) (\<lambda>v. ok_or_message v ''empty raw amount in list''))
            (filter (\<lambda>part. part \<noteq> []) (map trim (split_on CHR '','' s))))"

definition effective_min_profit :: "libs \<Rightarrow> string option \<Rightarrow> string option \<Rightarrow> u256 anyhow" where
  "effective_min_profit lib raw all_raw =
     rbind (parse_raw_amount lib raw) (\<lambda>min_profit.
     rbind (parse_raw_amount lib all_raw) (\<lambda>all_min_profit.
     Inr (max (or_else 1 min_profit) (or_else 0 all_min_profit))))"

definition u64_of_i64 :: "i64 \<Rightarrow> u64 anyhow" where
  "u64_of_i64 v = (if 0 \<le> sint v then Inr v else bail ''out of range integral type conversion attempted'')"

definition config_of_row :: "libs \<Rightarrow> pair_config_row \<Rightarrow> token_pair_search_config anyhow" where
  "config_of_row lib row =
     (let s0 = pc_token0 row; s1 = pc_token1 row in
      rbind (u64_of_i64 (pc_chain_id row)) (\<lambda>chain_id.
      rbind (parse_address lib (sr_token s0)) (\<lambda>token0.
      rbind (parse_address lib (sr_token s1)) (\<lambda>token1.
      rbind (parse_raw_amount_list lib (sr_search_amounts s0)) (\<lambda>amounts0.
      rbind (parse_raw_amount_list lib (sr_search_amounts s1)) (\<lambda>amounts1.
      rbind (parse_raw_amount_list lib (sr_multihop_search_amounts s0)) (\<lambda>multihop0.
      rbind (parse_raw_amount_list lib (sr_multihop_search_amounts s1)) (\<lambda>multihop1.
      rbind (effective_min_profit lib (sr_min_profit s0) (sr_all_min_profit s0)) (\<lambda>profit0.
      rbind (effective_min_profit lib (sr_min_profit s1) (sr_all_min_profit s1)) (\<lambda>profit1.
      rbind (effective_min_profit lib (sr_multihop_min_profit s0) (sr_all_min_profit s0)) (\<lambda>multihop_profit0.
      rbind (effective_min_profit lib (sr_multihop_min_profit s1) (sr_all_min_profit s1)) (\<lambda>multihop_profit1.
      Inr \<lparr>tp_chain_id = chain_id, tp_token0 = token0, tp_token1 = token1, tp_symbol = pc_symbol row,
        tp_token0_search_amounts = amounts0, tp_token1_search_amounts = amounts1,
        tp_token0_multihop_search_amounts = multihop0, tp_token1_multihop_search_amounts = multihop1,
        tp_token0_min_profit = profit0, tp_token1_min_profit = profit1,
        tp_token0_multihop_min_profit = multihop_profit0, tp_token1_multihop_min_profit = multihop_profit1\<rparr>))))))))))))"

definition enabled_pair_search_configs :: "libs \<Rightarrow> registry_tables \<Rightarrow> token_pair_search_config list anyhow" where
  "enabled_pair_search_configs lib tb =
     rbind (collect_results (config_of_row lib) (pair_config_rows tb)) (\<lambda>configs.
     Inr (filter (\<lambda>c. tp_token0_search_amounts c \<noteq> [] \<or> tp_token1_search_amounts c \<noteq> []) configs))"

section \<open>What the search is given\<close>

text \<open>The minimum profit stored for a token in every scope is a floor under the minimums of a pair.\<close>

definition token_floor :: "libs \<Rightarrow> registry_tables \<Rightarrow> i64 \<Rightarrow> string \<Rightarrow> u256 \<Rightarrow> bool" where
  "token_floor lib tb chain token min_profit \<longleftrightarrow>
     (case search_default chain token ''all'' tb of
        None \<Rightarrow> True
      | Some row \<Rightarrow>
          (case parse_raw_amount lib (Some (sd_min_profit row)) of Inr (Some v) \<Rightarrow> v \<le> min_profit | _ \<Rightarrow> True))"

text \<open>How one token of a pair is configured: floors, and the amounts of the pair's own column when it has some.\<close>

definition side_follows ::
    "libs \<Rightarrow> registry_tables \<Rightarrow> i64 \<Rightarrow> string \<Rightarrow> string option \<Rightarrow> address \<Rightarrow> u256 list \<Rightarrow> u256 list \<Rightarrow> u256 \<Rightarrow> u256 \<Rightarrow> bool" where
  "side_follows lib tb chain text_address own a amounts multihop_amounts min_profit multihop_min_profit \<longleftrightarrow>
     parse_address lib text_address = Inr a \<and>
     token_floor lib tb chain text_address min_profit \<and> token_floor lib tb chain text_address multihop_min_profit \<and>
     (has_text own \<longrightarrow> parse_raw_amount_list lib own = Inr amounts \<and> multihop_amounts = amounts)"

definition config_follows :: "libs \<Rightarrow> registry_tables \<Rightarrow> token_pair_row \<Rightarrow> token_pair_search_config \<Rightarrow> bool" where
  "config_follows lib tb r c \<longleftrightarrow>
     tp_symbol c = tq_symbol r \<and> tp_chain_id c = tq_chain_id r \<and>
     side_follows lib tb (tq_chain_id r) (tq_token0 r) (tq_token0_search_amounts r) (tp_token0 c)
       (tp_token0_search_amounts c) (tp_token0_multihop_search_amounts c) (tp_token0_min_profit c) (tp_token0_multihop_min_profit c) \<and>
     side_follows lib tb (tq_chain_id r) (tq_token1 r) (tq_token1_search_amounts r) (tp_token1 c)
       (tp_token1_search_amounts c) (tp_token1_multihop_search_amounts c) (tp_token1_min_profit c) (tp_token1_multihop_min_profit c)"

lemma effective_min_profit_floor:
  assumes "effective_min_profit lib raw (map_option sd_min_profit (search_default chain token ''all'' tb)) = Inr v"
  shows "token_floor lib tb chain token v"
proof (cases "search_default chain token ''all'' tb")
  case (Some row)
  then obtain m a where "parse_raw_amount lib (Some (sd_min_profit row)) = Inr a" "v = max m (or_else 0 a)"
    using assms by (auto simp: effective_min_profit_def)
  then show ?thesis using Some by (cases a) (simp_all add: token_floor_def or_else_def)
qed (simp add: token_floor_def)

lemma config_of_row_follows:
  assumes "config_of_row lib (pair_config_row_of tb r) = Inr c"
  shows "config_follows lib tb r c"
  using assms
  by (auto simp: config_of_row_def pair_config_row_of_def config_follows_def side_follows_def side_columns_def Let_def
      u64_of_i64_def intro: effective_min_profit_floor split: if_splits)

lemma pair_config_rows_mem: "row \<in> set (pair_config_rows tb) \<longleftrightarrow> (\<exists>r \<in> set (tb_token_pairs tb). tq_enabled r \<and>
    (side_configured tb (tq_chain_id r) (tq_token0 r) (tq_token0_search_amounts r) \<or>
     side_configured tb (tq_chain_id r) (tq_token1 r) (tq_token1_search_amounts r)) \<and> row = pair_config_row_of tb r)"
  by (auto simp: pair_config_rows_def)

text \<open>The search is configured by exactly the stored pairs. Every configuration comes from an enabled pair, has
  two-hop amounts for one of its tokens, uses the pair's own amounts where the pair has some, and has no minimum
  profit below the one stored for the token in every scope; and every enabled pair with amounts of its own that
  read as a nonempty list is among the configurations.\<close>

theorem pair_search_configs_exact:
  assumes "enabled_pair_search_configs lib tb = Inr configs"
  shows "(\<forall>c \<in> set configs. (tp_token0_search_amounts c \<noteq> [] \<or> tp_token1_search_amounts c \<noteq> []) \<and>
      (\<exists>r \<in> set (tb_token_pairs tb). tq_enabled r \<and> config_follows lib tb r c)) \<and>
    (\<forall>r \<in> set (tb_token_pairs tb). \<forall>amounts. tq_enabled r \<and> amounts \<noteq> [] \<and>
       (has_text (tq_token0_search_amounts r) \<and> parse_raw_amount_list lib (tq_token0_search_amounts r) = Inr amounts \<or>
        has_text (tq_token1_search_amounts r) \<and> parse_raw_amount_list lib (tq_token1_search_amounts r) = Inr amounts) \<longrightarrow>
       (\<exists>c \<in> set configs. config_follows lib tb r c))"
proof -
  obtain all where all: "collect_results (config_of_row lib) (pair_config_rows tb) = Inr all"
    and configs: "configs = filter (\<lambda>c. tp_token0_search_amounts c \<noteq> [] \<or> tp_token1_search_amounts c \<noteq> []) all"
    using assms by (auto simp: enabled_pair_search_configs_def)
  have "\<exists>r \<in> set (tb_token_pairs tb). tq_enabled r \<and> config_follows lib tb r c" if c: "c \<in> set configs" for c
  proof -
    obtain row where "row \<in> set (pair_config_rows tb)" "config_of_row lib row = Inr c"
      using c collect_results_mem [OF all] unfolding configs by auto
    then show ?thesis by (auto simp: pair_config_rows_mem dest: config_of_row_follows)
  qed
  moreover have "\<exists>c \<in> set configs. config_follows lib tb r c"
    if r: "r \<in> set (tb_token_pairs tb)" "tq_enabled r" "amounts \<noteq> []" and
      own: "has_text (tq_token0_search_amounts r) \<and> parse_raw_amount_list lib (tq_token0_search_amounts r) = Inr amounts \<or>
        has_text (tq_token1_search_amounts r) \<and> parse_raw_amount_list lib (tq_token1_search_amounts r) = Inr amounts" for r amounts
  proof -
    have row: "pair_config_row_of tb r \<in> set (pair_config_rows tb)"
      using r own unfolding pair_config_rows_mem by (auto simp: side_configured_def)
    then obtain c where c: "config_of_row lib (pair_config_row_of tb r) = Inr c" "c \<in> set all"
      using collect_results_reads [OF all] collect_results_mem [OF all] by blast
    have "config_follows lib tb r c" using c(1) by (rule config_of_row_follows)
    moreover from this have "tp_token0_search_amounts c \<noteq> [] \<or> tp_token1_search_amounts c \<noteq> []"
      using own r(3) by (auto simp: config_follows_def side_follows_def)
    ultimately show ?thesis using c(2) unfolding configs by auto
  qed
  ultimately show ?thesis unfolding configs by (simp; blast)
qed

definition decimal_libs :: libs where
  "decimal_libs = hex_libs\<lparr>lib_from_str_radix :=
     (\<lambda>s _. Inr (word_of_nat (foldl (\<lambda>n c. 10 * n + (of_char c - 48)) 0 s)))\<rparr>"

definition one_pair :: token_pair_row where
  "one_pair = \<lparr>tq_id = 1, tq_chain_id = 8453, tq_token0 = address_to_string 6, tq_token1 = address_to_string 7,
     tq_symbol = ''A/B'', tq_enabled = True, tq_token0_search_amounts = Some ''50, 70'', tq_token1_search_amounts = None,
     tq_token0_min_profit = Some ''3'', tq_token1_min_profit = None, tq_updated_at = 10\<rparr>"

definition one_pair_tables :: registry_tables where
  "one_pair_tables = \<lparr>tb_factories = [], tb_observed_pools = [], tb_protocol_pools = [], tb_pools = [], tb_tokens = [],
     tb_token_pairs = [one_pair],
     tb_search_defaults = [\<lparr>sd_chain_id = 8453, sd_token_address = address_to_string 6, sd_executor_scope = ''all'',
       sd_search_amounts = ''9'', sd_min_profit = ''4''\<rparr>]\<rparr>"

lemma decimal_libs_address: "parse_address decimal_libs (address_to_string a) = Inr a"
  using hex_libs_read(2)
  by (simp add: parse_address_def decimal_libs_def reads_addresses_def address_to_string_def hex_libs_def)

lemma one_pair_amounts:
  "parse_raw_amount_list decimal_libs (Some ''50, 70'') = Inr [50, 70]"
  "parse_raw_amount decimal_libs (Some ''3'') = Inr (Some 3)" "parse_raw_amount decimal_libs (Some ''4'') = Inr (Some 4)"
  by (simp_all add: parse_raw_amount_list_def parse_raw_amount_def decimal_libs_def trim_def is_ascii_space_def)

lemma one_pair_rows: "pair_config_rows one_pair_tables = [pair_config_row_of one_pair_tables one_pair]"
proof -
  have "tb_token_pairs one_pair_tables = [one_pair]" by (simp add: one_pair_tables_def)
  moreover have "tq_enabled one_pair \<and> has_text (tq_token0_search_amounts one_pair)"
    by (simp add: one_pair_def has_text_def)
  ultimately show ?thesis by (simp add: pair_config_rows_def side_configured_def)
qed

lemma one_pair_defaults:
  "search_default 8453 (address_to_string 6) scope one_pair_tables =
     (if scope = ''all'' then Some \<lparr>sd_chain_id = 8453, sd_token_address = address_to_string 6, sd_executor_scope = ''all'',
       sd_search_amounts = ''9'', sd_min_profit = ''4''\<rparr> else None)"
  "search_default 8453 (address_to_string 7) scope one_pair_tables = None"
proof -
  have "address_to_string 6 \<noteq> address_to_string 7" by (simp add: address_to_string_def address_hex_inj)
  then show "search_default 8453 (address_to_string 7) scope one_pair_tables = None"
    by (simp add: search_default_def one_pair_tables_def default_key_def)
qed (simp add: search_default_def one_pair_tables_def default_key_def)

lemma one_pair_config: "\<exists>c. config_of_row decimal_libs (pair_config_row_of one_pair_tables one_pair) = Inr c"
proof -
  have row: "pair_config_row_of one_pair_tables one_pair = \<lparr>pc_chain_id = 8453, pc_symbol = ''A/B'',
      pc_token0 = side_columns one_pair_tables 8453 (address_to_string 6) (Some ''50, 70'') (Some ''3''),
      pc_token1 = side_columns one_pair_tables 8453 (address_to_string 7) None None\<rparr>"
    by (simp add: pair_config_row_of_def one_pair_def)
  have own: "has_text (Some ''50, 70'')" "has_text (Some ''3'')" "\<not> has_text None" by (simp_all add: has_text_def)
  have none: "parse_raw_amount decimal_libs None = Inr None" "parse_raw_amount_list decimal_libs None = Inr []"
    by (simp_all add: parse_raw_amount_def parse_raw_amount_list_def)
  show ?thesis unfolding row
    by (simp add: config_of_row_def side_columns_def one_pair_defaults own Let_def coalesce_def u64_of_i64_def
        decimal_libs_address effective_min_profit_def one_pair_amounts none)
qed

theorem pair_search_configs_exact_witness:
  "\<exists>configs. enabled_pair_search_configs decimal_libs one_pair_tables = Inr configs \<and>
     (\<exists>c \<in> set configs. tp_token0_search_amounts c = [50, 70] \<and> 4 \<le> tp_token0_min_profit c)"
proof -
  obtain configs where configs: "enabled_pair_search_configs decimal_libs one_pair_tables = Inr configs"
    using one_pair_config by (auto simp: enabled_pair_search_configs_def one_pair_rows)
  have own: "tq_token0_search_amounts one_pair = Some ''50, 70''" "has_text (Some ''50, 70'')"
      "one_pair \<in> set (tb_token_pairs one_pair_tables)" "tq_enabled one_pair"
    by (simp_all add: one_pair_def has_text_def one_pair_tables_def)
  have "\<exists>c \<in> set configs. config_follows decimal_libs one_pair_tables one_pair c"
    using pair_search_configs_exact [OF configs] own one_pair_amounts(1) by (metis list.distinct(1))
  then obtain c where c: "c \<in> set configs" "config_follows decimal_libs one_pair_tables one_pair c" by blast
  have "tp_token0_search_amounts c = [50, 70]"
    using c(2) own one_pair_amounts(1) by (simp add: config_follows_def side_follows_def)
  moreover have "4 \<le> tp_token0_min_profit c"
  proof -
    have "tq_chain_id one_pair = 8453" "tq_token0 one_pair = address_to_string 6" by (simp_all add: one_pair_def)
    then have "token_floor decimal_libs one_pair_tables 8453 (address_to_string 6) (tp_token0_min_profit c)"
      using c(2) by (simp add: config_follows_def side_follows_def)
    then show ?thesis by (simp add: token_floor_def one_pair_defaults one_pair_amounts(3) del: address_to_string_def)
  qed
  ultimately show ?thesis using configs c(1) by blast
qed

end
