(* ===== verification/Market_Monitor.thy ===== *)
theory Market_Monitor
  imports Market_Discovery
begin

text \<open>
  Which pools the market data service of \<open>crates/market-data/src/listener.rs\<close> follows and how its loop runs:
  loading and reloading the registry, the periodic refreshes, the start, and one turn of the block loop.
  Here the environment of the block loop is built from the node and the database.
\<close>

section \<open>The environment of the loop\<close>

record pool_state_warning =
  wa_pool_address :: address
  wa_dex :: dex_kind
  wa_variant :: pool_variant
  wa_block_number :: u64
  wa_local_state :: pool_state
  wa_onchain_state :: pool_state
  wa_drift_bps :: u64
  wa_message :: string
  wa_created_at :: datetime

text \<open>\<open>mo_poll_timed_out\<close> tells whether the timer of a block poll fires before the node answers; \<open>mo_instant\<close>
  is the monotonic clock in nanoseconds.\<close>

record 's monitor_env =
  mo_get_current_block :: "('s, u64 option) act"
  mo_record_warning :: "pool_state_warning \<Rightarrow> ('s, unit) act"
  mo_poll_timed_out :: "'s \<Rightarrow> bool \<times> 's"
  mo_instant :: "'s \<Rightarrow> int \<times> 's"
  mo_spawn_flashblocks :: "'s \<Rightarrow> 's"

definition get_block_number_or_fail :: "'s rpc_env \<Rightarrow> 's monitor_env \<Rightarrow> string \<Rightarrow> ('s, u64) act" where
  "get_block_number_or_fail rp mo where' =
     bind (infallible (mo_poll_timed_out mo)) (\<lambda>timed_out.
     if timed_out then lift (Inl [where' @ '' timed out after 5s'', ''deadline has elapsed''])
     else annotate (where' @ '' failed'') (get_block_number rp))"

definition discover_protocol_pools ::
    "libs \<Rightarrow> 's rpc_env \<Rightarrow> 's recorder_env \<Rightarrow> 's market_env \<Rightarrow> settings \<Rightarrow> u64 \<Rightarrow> u64 \<Rightarrow> ('s, unit) act" where
  "discover_protocol_pools lib rp db env cfg from_block to_block =
     bind (discover_protocol_pool_logs lib rp db env cfg from_block to_block) (\<lambda>observed.
     if 0 < observed
     then bind (promote_quoteable_uniswap_v4_pools lib rp db env cfg (Some from_block)) (\<lambda>_.
       bind (promote_quoteable_balancer_v3_pools lib rp db env cfg (Some from_block)) (\<lambda>_. pass ()))
     else pass ())"

text \<open>The fields the block loop asks the node for, answered by the provider; the stores, the clock and the
  recorders stay those of \<open>env\<close>.\<close>

definition on_chain ::
    "libs \<Rightarrow> 's rpc_env \<Rightarrow> 's recorder_env \<Rightarrow> settings \<Rightarrow> address option \<Rightarrow> address option \<Rightarrow> address option \<Rightarrow>
     's market_env \<Rightarrow> 's market_env" where
  "on_chain lib rp db cfg aerodrome_pool v3_500_pool v3_3000_pool env = env\<lparr>
     mk_get_block_hash := get_block_hash rp,
     mk_fetch_pool_state := fetch_registry_pool_state lib rp db env cfg,
     mk_fetch_pool_state_at := fetch_pool_state_from_registry_at_block_hash lib rp,
     mk_fetch_initialized_ticks := fetch_initialized_ticks_around_state lib rp,
     mk_bootstrap_configured_pools := bootstrap_configured_pools lib rp cfg aerodrome_pool v3_500_pool v3_3000_pool,
     mk_fetch_classic_fee := fetch_aerodrome_classic_fee_bps_at_block_hash lib rp,
     mk_fetch_slipstream_fee := fetch_aerodrome_slipstream_fee_pips_at_block_hash lib rp,
     mk_fetch_relevant_events := fetch_relevant_events_for_pools lib rp,
     mk_discover_protocol_pools := discover_protocol_pools lib rp db env cfg\<rparr>"

section \<open>The registry\<close>

definition registry_pool_requires_direct_monitoring :: "pool_registry_entry \<Rightarrow> bool" where
  "registry_pool_requires_direct_monitoring entry \<longleftrightarrow> re_dex entry \<noteq> DexUniswapV4 \<and> re_dex entry \<noteq> DexBalancer"

definition address_set :: "pool_state list \<Rightarrow> string set" where
  "address_set states = (\<lambda>state. address_hex (ps_address state)) ` set states"

definition unique_pool_addresses :: "pool_state list \<Rightarrow> string list" where
  "unique_pool_addresses states = distinct_addresses {} states"

text \<open>The first entry of each directly monitored pool.\<close>

fun monitored_entries :: "address set \<Rightarrow> pool_registry_entry list \<Rightarrow> pool_registry_entry list" where
  "monitored_entries seen [] = []"
| "monitored_entries seen (entry # entries) =
     (if \<not> registry_pool_requires_direct_monitoring entry then monitored_entries seen entries
      else if re_pool_address entry \<in> seen then monitored_entries seen entries
      else entry # monitored_entries (insert (re_pool_address entry) seen) entries)"

text \<open>A pool whose state cannot be read is left out.\<close>

fun fetch_entries :: "'s market_env \<Rightarrow> pool_registry_entry list \<Rightarrow> ('s, pool_state list) act" where
  "fetch_entries env [] = pass []"
| "fetch_entries env (entry # entries) =
     attempt (mk_fetch_pool_state env entry)
       (\<lambda>state. bind (fetch_entries env entries) (\<lambda>states. pass (state # states)))
       (\<lambda>_. fetch_entries env entries)"

definition load_monitored_states :: "'s market_env \<Rightarrow> ('s, pool_state list) act" where
  "load_monitored_states env =
     bind (mk_enabled_registry_pools env) (\<lambda>entries.
     if entries = [] then mk_bootstrap_configured_pools env
     else fetch_entries env (monitored_entries {} entries))"

definition reload_if_changed ::
    "'s market_env \<Rightarrow> (pool_state list \<Rightarrow> string \<Rightarrow> 's \<Rightarrow> 's) \<Rightarrow> pool_state list \<Rightarrow> ('s, pool_state list) act" where
  "reload_if_changed env warm_ticks current =
     bind (mk_enabled_registry_pools env) (\<lambda>entries.
     if entries = [] then pass current
     else
       let registry = monitored_entries {} entries;
           next_addresses = (\<lambda>entry. address_hex (re_pool_address entry)) ` set registry in
       if address_set current = next_addresses then pass current
       else
         let kept = filter (\<lambda>state. address_hex (ps_address state) \<in> next_addresses) current;
             added_entries = filter (\<lambda>entry. address_hex (re_pool_address entry) \<notin> address_set current) registry in
         bind (fetch_entries env added_entries) (\<lambda>added.
         if added = [] then pass (kept @ added)
         else
           bind (publish_selected_states env added (ps_address ` set added) ''registry_reload'') (\<lambda>_.
           bind (background (warm_ticks added ''registry_reload'')) (\<lambda>_. pass (kept @ added)))))"

text \<open>The body of the warmup task: batches of sixteen pools, each failing alone.\<close>

definition tick_warmup_batch_size :: nat where
  "tick_warmup_batch_size = 16"

function warm_initialized_ticks :: "'s market_env \<Rightarrow> i32 \<Rightarrow> pool_state list \<Rightarrow> ('s, unit) act" where
  "warm_initialized_ticks env word_radius [] = pass ()"
| "warm_initialized_ticks env word_radius (state # states) =
     attempt (publish_initialized_ticks env word_radius (take tick_warmup_batch_size (state # states)))
       (\<lambda>_. warm_initialized_ticks env word_radius (drop tick_warmup_batch_size (state # states)))
       (\<lambda>_. warm_initialized_ticks env word_radius (drop tick_warmup_batch_size (state # states)))"
  by pat_completeness auto

termination
  by (relation "measure (\<lambda>(env, word_radius, states). length states)") (auto simp: tick_warmup_batch_size_def)

section \<open>Refreshes\<close>

definition is_aerodrome_fee_state :: "pool_state \<Rightarrow> bool" where
  "is_aerodrome_fee_state state \<longleftrightarrow>
     ps_dex state = DexAerodrome \<and>
     (case ps_factory_address state of
        None \<Rightarrow> False
      | Some factory \<Rightarrow>
          (case ps_variant state of
             AerodromeVolatile \<Rightarrow> factory = aerodrome_classic_factory
           | AerodromeSlipstream \<Rightarrow> factory \<in> set aerodrome_slipstream_factories
           | _ \<Rightarrow> False))"

datatype aerodrome_fee = AeroClassic u32 | AeroSlipstream u32

definition apply_aerodrome_fee :: "datetime \<Rightarrow> aerodrome_fee \<Rightarrow> pool_state \<Rightarrow> bool \<times> pool_state" where
  "apply_aerodrome_fee now fee state =
     (case (ps_variant state, fee) of
        (AerodromeVolatile, AeroClassic fee_bps) \<Rightarrow>
          if ps_fee_bps state \<noteq> fee_bps
          then (True, state\<lparr>ps_fee_bps := fee_bps, ps_updated_at := now\<rparr>) else (False, state)
      | (AerodromeSlipstream, AeroSlipstream fee_pips) \<Rightarrow>
          if ps_fee_pips state \<noteq> Some fee_pips
          then (True, state\<lparr>ps_fee_pips := Some fee_pips, ps_fee_bps := fee_pips div 100, ps_updated_at := now\<rparr>)
          else (False, state)
      | _ \<Rightarrow> (False, state))"

definition warning_of :: "u64 \<Rightarrow> pool_state \<Rightarrow> pool_state \<Rightarrow> u64 \<Rightarrow> string \<Rightarrow> datetime \<Rightarrow> pool_state_warning" where
  "warning_of block_number local onchain drift_bps message now =
     \<lparr>wa_pool_address = ps_address local, wa_dex = ps_dex local, wa_variant = ps_variant local,
      wa_block_number = block_number, wa_local_state = local, wa_onchain_state = onchain, wa_drift_bps = drift_bps,
      wa_message = message, wa_created_at = now\<rparr>"

definition fetch_aerodrome_fee :: "'s market_env \<Rightarrow> string \<Rightarrow> pool_state \<Rightarrow> ('s, aerodrome_fee option) act" where
  "fetch_aerodrome_fee env block_hash state =
     (case ps_variant state of
        AerodromeVolatile \<Rightarrow>
          bind (ok (mk_fetch_classic_fee env (ps_factory_address state) (ps_address state)
                  (or_else False (ps_stable state)) block_hash)) (\<lambda>fee. pass (map_option AeroClassic fee))
      | AerodromeSlipstream \<Rightarrow>
          bind (ok (mk_fetch_slipstream_fee env (ps_factory_address state) (ps_address state) block_hash))
            (\<lambda>fee. pass (map_option AeroSlipstream fee))
      | _ \<Rightarrow> pass None)"

text \<open>The loop of the fee refresh, with the pools whose fee changed.\<close>

fun refresh_fee_loop ::
    "'s market_env \<Rightarrow> 's monitor_env \<Rightarrow> u64 \<Rightarrow> string \<Rightarrow> pool_state list \<Rightarrow> ('s, pool_state list \<times> address set) act" where
  "refresh_fee_loop env mo block_number block_hash [] = pass ([], {})"
| "refresh_fee_loop env mo block_number block_hash (state # states) =
     bind (if is_aerodrome_fee_state state then fetch_aerodrome_fee env block_hash state else pass None) (\<lambda>fee.
     bind (case fee of
             None \<Rightarrow> pass (False, state)
           | Some fee \<Rightarrow> bind (infallible (mk_now env)) (\<lambda>now. pass (apply_aerodrome_fee now fee state))) (\<lambda>(changed, state').
     bind (if \<not> changed then pass ()
           else let drift_bps = state_drift_bps state state' in
             bind (infallible (mk_now env)) (\<lambda>now.
             mo_record_warning mo (warning_of block_number state state' drift_bps
               (''Aerodrome fee refresh corrected fee drift by '' @ nat_dec (unat drift_bps) @ '' bps'') now))) (\<lambda>_.
     bind (refresh_fee_loop env mo block_number block_hash states) (\<lambda>(states, changed_pools).
     pass (state' # states, if changed then insert (ps_address state') changed_pools else changed_pools)))))"

definition refresh_aerodrome_fees ::
    "'s rpc_env \<Rightarrow> 's market_env \<Rightarrow> 's monitor_env \<Rightarrow> pool_state list \<Rightarrow> ('s, pool_state list) act" where
  "refresh_aerodrome_fees rp env mo states =
     (if states = [] then pass states
      else
        bind (get_block_number_or_fail rp mo ''Aerodrome fee refresh block poll'') (\<lambda>block_number.
        bind (mk_get_block_hash env block_number) (\<lambda>block_hash.
        bind (refresh_fee_loop env mo block_number block_hash states) (\<lambda>(states, changed).
        bind (if changed = {} then pass () else publish_selected_states env states changed ''fee_refresh'') (\<lambda>_.
        pass states)))))"

text \<open>One pool of the active refresh: \<open>None\<close> when its state cannot be read.\<close>

definition active_validation :: "u64 \<Rightarrow> string \<Rightarrow> pool_state \<Rightarrow> pool_state \<Rightarrow> datetime \<Rightarrow> pool_state_validation" where
  "active_validation block_number block_hash local onchain now =
     (let drift_bps = state_drift_bps local onchain in
      \<lparr>va_pool_address = ps_address local, va_dex = ps_dex local, va_variant = ps_variant local,
       va_block_number = block_number, va_block_hash = block_hash, va_local_state = local,
       va_onchain_state = onchain, va_drift_bps = drift_bps, va_passed = (drift_bps = 0),
       va_message = (if drift_bps = 0 then ''active refresh validation passed''
         else ''active refresh found latest onchain drift by '' @ nat_dec (unat drift_bps) @ '' bps''),
       va_created_at = now\<rparr>)"

definition active_refresh_one ::
    "'s market_env \<Rightarrow> 's monitor_env \<Rightarrow> u64 \<Rightarrow> string \<Rightarrow> pool_state \<Rightarrow> ('s, pool_state option) act" where
  "active_refresh_one env mo block_number block_hash local =
     attempt (mk_fetch_pool_state_at env (registry_entry_from_state local) block_hash block_number)
       (\<lambda>onchain.
          bind (infallible (mk_now env)) (\<lambda>now.
          let v = active_validation block_number block_hash local onchain now in
          bind (mk_record_validation env v) (\<lambda>_.
          bind (if va_passed v then pass ()
                else bind (infallible (mk_now env)) (\<lambda>now.
                  mo_record_warning mo (warning_of block_number local onchain (va_drift_bps v) (va_message v) now))) (\<lambda>_.
          pass (Some onchain)))))
       (\<lambda>_. pass None)"

text \<open>The loop over the chosen positions, with the refreshed pools and the V3 states among them.\<close>

fun active_refresh_loop ::
    "'s market_env \<Rightarrow> 's monitor_env \<Rightarrow> u64 \<Rightarrow> string \<Rightarrow> nat list \<Rightarrow> pool_state list \<times> address set \<times> pool_state list \<Rightarrow>
     ('s, pool_state list \<times> address set \<times> pool_state list) act" where
  "active_refresh_loop env mo block_number block_hash [] acc = pass acc"
| "active_refresh_loop env mo block_number block_hash (i # indices) (states, refreshed, v3) =
     bind (active_refresh_one env mo block_number block_hash (states ! i)) (\<lambda>onchain.
     active_refresh_loop env mo block_number block_hash indices
       (case onchain of
          None \<Rightarrow> (states, refreshed, v3)
        | Some onchain \<Rightarrow>
            (states[i := onchain\<lparr>ps_valid_through_block := max (ps_valid_through_block onchain) block_number\<rparr>],
             insert (ps_address onchain) refreshed, if is_v3_style_state onchain then v3 @ [onchain] else v3)))"

text \<open>The batch wraps around the list; the cursor goes with the result.\<close>

definition refresh_indices :: "nat \<Rightarrow> nat \<Rightarrow> nat \<Rightarrow> nat list \<times> nat" where
  "refresh_indices batch_size n cursor =
     (let batch = max 1 (min batch_size n); cursor = (if n \<le> cursor then 0 else cursor) in
      (map (\<lambda>offset. (cursor + offset) mod n) [0 ..< batch], (cursor + batch) mod n))"

definition active_refresh_states ::
    "'s market_env \<Rightarrow> 's monitor_env \<Rightarrow> i32 \<Rightarrow> u64 \<Rightarrow> pool_state list \<Rightarrow> nat \<Rightarrow> u64 \<Rightarrow> ('s, pool_state list \<times> nat) act" where
  "active_refresh_states env mo word_radius batch_size states cursor block_number =
     (if states = [] then pass (states, cursor)
      else
        bind (mk_get_block_hash env block_number) (\<lambda>block_hash.
        let (indices, cursor) = refresh_indices (unat batch_size) (length states) cursor in
        bind (active_refresh_loop env mo block_number block_hash indices (states, {}, [])) (\<lambda>(states, refreshed, v3).
        if refreshed = {} then pass (states, cursor)
        else
          let states = fst (advance_valid_through_block states block_number) in
          bind (publish_selected_states env states refreshed ''active_refresh'') (\<lambda>_.
          bind (publish_initialized_ticks env word_radius v3) (\<lambda>_. pass (states, cursor))))))"

definition should_calibrate :: "pool_state \<Rightarrow> bool" where
  "should_calibrate state \<longleftrightarrow> (ps_dex state, ps_variant state) = (DexAerodrome, AerodromeVolatile)"

definition calibration_message :: "pool_state \<Rightarrow> u64 \<Rightarrow> string" where
  "calibration_message state drift_bps =
     (let bps = nat_dec (unat drift_bps) @ '' bps'' in
      case (ps_dex state, ps_variant state) of
        (DexAerodrome, AerodromeVolatile) \<Rightarrow> ''local Aerodrome volatile reserves drifted from onchain state by '' @ bps
      | (DexAerodrome, AerodromeSlipstream) \<Rightarrow> ''local V3-style state drifted from onchain slot0/liquidity by '' @ bps
      | (DexUniswapV3, UniswapV3) \<Rightarrow> ''local V3-style state drifted from onchain slot0/liquidity by '' @ bps
      | (DexPancakeSwap, PancakeV3) \<Rightarrow> ''local V3-style state drifted from onchain slot0/liquidity by '' @ bps
      | _ \<Rightarrow> ''local pool state drifted from onchain state by '' @ bps)"

text \<open>What calibration makes of one state, and whether it was corrected.\<close>

definition calibrate_state :: "'s market_env \<Rightarrow> 's monitor_env \<Rightarrow> pool_state \<Rightarrow> ('s, pool_state \<times> bool) act" where
  "calibrate_state env mo state =
     (if \<not> should_calibrate state then pass (state, False)
      else
        bind (ok (bind (mk_get_block_hash env (ps_block_number state)) (\<lambda>block_hash.
                  mk_fetch_pool_state_at env (registry_entry_from_state state) block_hash (ps_block_number state)))) (\<lambda>onchain.
        case onchain of
          None \<Rightarrow> pass (state, False)
        | Some onchain \<Rightarrow>
            let drift_bps = state_drift_bps state onchain in
            if drift_bps = 0 then pass (state, False)
            else
              bind (infallible (mk_now env)) (\<lambda>now.
              bind (mo_record_warning mo (warning_of (ps_block_number onchain) state onchain drift_bps
                      (calibration_message state drift_bps) now)) (\<lambda>_.
              pass (onchain, True)))))"

fun calibrate_loop :: "'s market_env \<Rightarrow> 's monitor_env \<Rightarrow> pool_state list \<Rightarrow> ('s, pool_state list \<times> address set) act" where
  "calibrate_loop env mo [] = pass ([], {})"
| "calibrate_loop env mo (state # states) =
     bind (calibrate_state env mo state) (\<lambda>(state, corrected).
     bind (calibrate_loop env mo states) (\<lambda>(states, pools).
     pass (state # states, if corrected then insert (ps_address state) pools else pools)))"

definition calibrate_states :: "'s market_env \<Rightarrow> 's monitor_env \<Rightarrow> pool_state list \<Rightarrow> ('s, pool_state list) act" where
  "calibrate_states env mo states =
     bind (calibrate_loop env mo states) (\<lambda>(states, corrected).
     bind (if corrected = {} then pass () else publish_selected_states env states corrected ''calibration_correction'') (\<lambda>_.
     pass states))"

section \<open>Pending logs of a session\<close>

text \<open>A message of the websocket; \<open>WsError\<close> is a broken connection.\<close>

datatype ws_message = WsText string | WsBinary "u8 list" | WsPing | WsPong | WsClose | WsFrame | WsError "string list"

fun utf8_valid :: "u8 list \<Rightarrow> bool" where
  "utf8_valid [] = True"
| "utf8_valid (lead # bs) = (case utf8_step lead bs of (complete, k) \<Rightarrow> complete \<and> utf8_valid (drop k bs))"

record flashblocks_session =
  fs_states :: "pool_state list"
  fs_index :: "(address \<times> nat) list"
  fs_next_reload :: int
  fs_recent_logs :: recent_log_cache
  fs_fallback_log_index :: u64
  fs_fallback_block :: "(int \<times> u64) option"
  fs_subscribed :: "string set"

definition registry_reload_interval :: int where
  "registry_reload_interval = 30 * 10 ^ 9"

definition flashblock_fallback_block_cache_ttl :: int where
  "flashblock_fallback_block_cache_ttl = 250 * 10 ^ 6"

definition cached_flashblock_fallback_block ::
    "'s rpc_env \<Rightarrow> 's monitor_env \<Rightarrow> (int \<times> u64) option \<Rightarrow> ('s, u64 \<times> (int \<times> u64) option) act" where
  "cached_flashblock_fallback_block rp mo cache =
     bind (infallible (mo_instant mo)) (\<lambda>now.
     case (case cache of Some (cached_at, block) \<Rightarrow> if now - cached_at \<le> flashblock_fallback_block_cache_ttl then Some block else None
           | None \<Rightarrow> None) of
       Some block \<Rightarrow> pass (block, cache)
     | None \<Rightarrow>
         bind (get_block_number_or_fail rp mo ''flashblock fallback block poll'') (\<lambda>block.
         let block = saturating_add block 1 in pass (block, Some (now, block))))"

definition start_flashblocks_session :: "'s market_env \<Rightarrow> 's monitor_env \<Rightarrow> ('s, flashblocks_session option) act" where
  "start_flashblocks_session env mo =
     bind (load_monitored_states env) (\<lambda>states.
     bind (infallible (mo_instant mo)) (\<lambda>now.
     if unique_pool_addresses states = [] then pass None
     else pass (Some \<lparr>fs_states = states, fs_index = pool_state_index_by_address states,
       fs_next_reload = now + registry_reload_interval, fs_recent_logs = recent_log_cache_new 20000,
       fs_fallback_log_index = 0, fs_fallback_block = None, fs_subscribed = address_set states\<rparr>)))"

definition subscribe_request :: "pool_state list \<Rightarrow> json" where
  "subscribe_request states = JObject [(''jsonrpc'', JString ''2.0''), (''id'', JNumber 1),
     (''method'', JString ''eth_subscribe''),
     (''params'', JArray [JString ''pendingLogs'',
        JObject [(''address'', JArray (map JString (unique_pool_addresses states)))]])]"

text \<open>A turn reloads the registry when it is due; \<open>None\<close> ends the session because other pools are followed.\<close>

definition session_reload ::
    "'s market_env \<Rightarrow> 's monitor_env \<Rightarrow> (pool_state list \<Rightarrow> string \<Rightarrow> 's \<Rightarrow> 's) \<Rightarrow> flashblocks_session \<Rightarrow>
     ('s, flashblocks_session option) act" where
  "session_reload env mo warm_ticks fs =
     bind (infallible (mo_instant mo)) (\<lambda>now.
     if now < fs_next_reload fs then pass (Some fs)
     else
       bind (reload_if_changed env warm_ticks (fs_states fs)) (\<lambda>states.
       if address_set states \<noteq> fs_subscribed fs then pass None
       else bind (infallible (mo_instant mo)) (\<lambda>now.
         pass (Some (fs\<lparr>fs_states := states, fs_index := pool_state_index_by_address states,
           fs_next_reload := now + registry_reload_interval\<rparr>)))))"

definition session_log ::
    "libs \<Rightarrow> 's rpc_env \<Rightarrow> 's market_env \<Rightarrow> 's monitor_env \<Rightarrow> json \<Rightarrow> flashblocks_session \<Rightarrow> ('s, flashblocks_session) act" where
  "session_log lib rp env mo result fs =
     (let log_index = fs_fallback_log_index fs + 1; fs = fs\<lparr>fs_fallback_log_index := log_index\<rparr> in
      bind (if Option.bind (json_get result ''blockNumber'') json_as_str \<noteq> None then pass (None, fs_fallback_block fs)
            else bind (cached_flashblock_fallback_block rp mo (fs_fallback_block fs)) (\<lambda>(block, cache).
              pass (Some block, cache))) (\<lambda>(fallback_block, cache).
      let fs = fs\<lparr>fs_fallback_block := cache\<rparr> in
      case decode_log_for_pools lib (fs_states fs) result fallback_block (Some log_index) of
        Inl _ \<Rightarrow> pass fs
      | Inr None \<Rightarrow> pass fs
      | Inr (Some event) \<Rightarrow>
          (\<lambda>s. case process_flashblock_event lib env (fs_index fs) event (fs_states fs, fs_recent_logs fs) s of
             ((r, states, logs), s) \<Rightarrow>
               (rbind r (\<lambda>_. Inr (fs\<lparr>fs_states := states, fs_recent_logs := logs\<rparr>)), s))))"

text \<open>The text of a message: \<open>None\<close> ends the session, \<open>Some None\<close> passes the message over.\<close>

definition message_text :: "ws_message \<Rightarrow> string option option anyhow" where
  "message_text message =
     (case message of
        WsText text \<Rightarrow> Inr (Some (Some text))
      | WsBinary bytes \<Rightarrow> if utf8_valid bytes then Inr (Some (Some (bytes_text bytes))) else bail ''invalid utf-8 sequence''
      | WsPing \<Rightarrow> Inr (Some None)
      | WsPong \<Rightarrow> Inr (Some None)
      | WsFrame \<Rightarrow> Inr (Some None)
      | WsClose \<Rightarrow> Inr None
      | WsError e \<Rightarrow> Inl e)"

definition session_value ::
    "libs \<Rightarrow> 's rpc_env \<Rightarrow> 's market_env \<Rightarrow> 's monitor_env \<Rightarrow> json \<Rightarrow> flashblocks_session \<Rightarrow> ('s, flashblocks_session) act" where
  "session_value lib rp env mo v fs =
     (if json_get v ''id'' = Some (JNumber 1)
      then (case json_get v ''error'' of
              Some e \<Rightarrow> fail (''Flashblocks pendingLogs subscription failed: '' @ rp_json_text rp e)
            | None \<Rightarrow> pass fs)
      else
        case Option.bind (json_get v ''params'') (\<lambda>params. json_get params ''result'') of
          None \<Rightarrow> pass fs
        | Some result \<Rightarrow> session_log lib rp env mo result fs)"

text \<open>The session over the messages that arrive; sending a pong is left to the connection.\<close>

fun run_flashblocks_session ::
    "libs \<Rightarrow> (string \<Rightarrow> json option) \<Rightarrow> 's rpc_env \<Rightarrow> 's market_env \<Rightarrow> 's monitor_env \<Rightarrow>
     (pool_state list \<Rightarrow> string \<Rightarrow> 's \<Rightarrow> 's) \<Rightarrow> ws_message list \<Rightarrow> flashblocks_session \<Rightarrow> ('s, unit) act" where
  "run_flashblocks_session lib parse_json rp env mo warm_ticks [] fs = pass ()"
| "run_flashblocks_session lib parse_json rp env mo warm_ticks (message # messages) fs =
     bind (session_reload env mo warm_ticks fs) (\<lambda>fs.
     case fs of
       None \<Rightarrow> pass ()
     | Some fs \<Rightarrow>
         bind (lift (message_text message)) (\<lambda>text.
         case text of
           None \<Rightarrow> pass ()
         | Some None \<Rightarrow> run_flashblocks_session lib parse_json rp env mo warm_ticks messages fs
         | Some (Some text) \<Rightarrow>
             (case parse_json text of
                None \<Rightarrow> run_flashblocks_session lib parse_json rp env mo warm_ticks messages fs
              | Some v \<Rightarrow>
                  bind (session_value lib rp env mo v fs)
                    (run_flashblocks_session lib parse_json rp env mo warm_ticks messages))))"

section \<open>The block loop\<close>

record monitor_runtime =
  mt_market :: market_runtime
  mt_last_advance :: int
  mt_next_reload :: int
  mt_flashblocks_started :: bool

definition sealed_event_max_block_span :: u64 where
  "sealed_event_max_block_span = 50"

definition validation_delay_blocks :: u64 where
  "validation_delay_blocks = 2"

definition validation_max_per_idle_tick :: nat where
  "validation_max_per_idle_tick = 8"

definition market_data_block_stall_timeout :: int where
  "market_data_block_stall_timeout = 45 * 10 ^ 9"

text \<open>The start of the service, up to the loop.\<close>

definition start_market_data ::
    "'s rpc_env \<Rightarrow> 's recorder_env \<Rightarrow> 's market_env \<Rightarrow> 's monitor_env \<Rightarrow> settings \<Rightarrow> ('s, monitor_runtime) act" where
  "start_market_data rp db env mo cfg =
     bind (seed_default_factories db cfg) (\<lambda>_.
     bind (load_monitored_states env) (\<lambda>states.
     bind (get_block_number_or_fail rp mo ''market-data startup block poll'') (\<lambda>head.
     bind (mo_get_current_block mo) (\<lambda>stored.
     let usable = (case stored of None \<Rightarrow> False | Some block \<Rightarrow> block \<le> head);
         last_seen = (if usable then the stored else head) in
     bind (if usable then pass () else mk_set_current_block env last_seen) (\<lambda>_.
     bind (publish_monitored_states_at_block env states ''onchain_init'' last_seen) (\<lambda>_.
     bind (background (db_warm_ticks db states ''onchain_init'')) (\<lambda>_.
     bind (infallible (mo_instant mo)) (\<lambda>now.
     bind (infallible (mo_instant mo)) (\<lambda>now'.
     bind (if head \<le> last_seen then background (mo_spawn_flashblocks mo) else pass ()) (\<lambda>_.
     pass \<lparr>mt_market = \<lparr>mr_states = states, mr_recent_logs = recent_log_cache_new 20000, mr_pending_validations = [],
               mr_last_seen_block = last_seen\<rparr>,
       mt_last_advance = now, mt_next_reload = now' + registry_reload_interval,
       mt_flashblocks_started = (head \<le> last_seen)\<rparr>))))))))))"

definition monitor_reload ::
    "'s recorder_env \<Rightarrow> 's market_env \<Rightarrow> 's monitor_env \<Rightarrow> monitor_runtime \<Rightarrow> ('s, monitor_runtime) act" where
  "monitor_reload db env mo mt =
     bind (infallible (mo_instant mo)) (\<lambda>now.
     if now < mt_next_reload mt then pass mt
     else
       bind (reload_if_changed env (db_warm_ticks db) (mr_states (mt_market mt))) (\<lambda>states.
       bind (infallible (mo_instant mo)) (\<lambda>now.
       pass (mt\<lparr>mt_market := (mt_market mt)\<lparr>mr_states := states\<rparr>,
         mt_next_reload := now + registry_reload_interval\<rparr>))))"

definition start_flashblocks_if :: "'s monitor_env \<Rightarrow> bool \<Rightarrow> monitor_runtime \<Rightarrow> ('s, monitor_runtime) act" where
  "start_flashblocks_if mo caught_up mt =
     (if \<not> mt_flashblocks_started mt \<and> caught_up
      then bind (background (mo_spawn_flashblocks mo)) (\<lambda>_. pass (mt\<lparr>mt_flashblocks_started := True\<rparr>))
      else pass mt)"

text \<open>A turn while the chain has not moved, with the snapshots that are due, and a turn with a batch of at most
  fifty blocks. The time limit on fetching the events of a batch is the environment's.\<close>

definition idle_turn ::
    "'s recorder_env \<Rightarrow> 's market_env \<Rightarrow> 's monitor_env \<Rightarrow> u64 \<Rightarrow> int \<Rightarrow> monitor_runtime \<Rightarrow> ('s, monitor_runtime) act" where
  "idle_turn db env mo head now mt =
     (if market_data_block_stall_timeout \<le> now - mt_last_advance mt
      then fail (''market-data block feed stalled: last_seen_block='' @ nat_dec (unat (mr_last_seen_block (mt_market mt))) @
        '' latest_block='' @ nat_dec (unat head) @ '' stalled_for_ms='' @ int_dec ((now - mt_last_advance mt) div 1000000))
      else
        bind (monitor_reload db env mo mt) (\<lambda>mt.
        bind (validate_due_snapshots env validation_delay_blocks head (mr_pending_validations (mt_market mt))
                validation_max_per_idle_tick) (\<lambda>pending.
        pass (mt\<lparr>mt_market := (mt_market mt)\<lparr>mr_pending_validations := pending\<rparr>\<rparr>))))"

definition batch_turn ::
    "libs \<Rightarrow> 's recorder_env \<Rightarrow> 's market_env \<Rightarrow> 's monitor_env \<Rightarrow> u64 \<Rightarrow> int \<Rightarrow> monitor_runtime \<Rightarrow> ('s, monitor_runtime) act" where
  "batch_turn lib db env mo head now mt =
     (let latest = min head (saturating_add (mr_last_seen_block (mt_market mt)) sealed_event_max_block_span) in
      bind (monitor_reload db env mo (mt\<lparr>mt_last_advance := now\<rparr>)) (\<lambda>mt.
      bind (process_sealed_blocks lib env latest (mt_market mt)) (\<lambda>market.
      start_flashblocks_if mo (head \<le> latest) (mt\<lparr>mt_market := market\<rparr>))))"

definition market_data_turn ::
    "libs \<Rightarrow> 's rpc_env \<Rightarrow> 's recorder_env \<Rightarrow> 's market_env \<Rightarrow> 's monitor_env \<Rightarrow> monitor_runtime \<Rightarrow> ('s, monitor_runtime) act" where
  "market_data_turn lib rp db env mo mt =
     bind (get_block_number_or_fail rp mo ''market-data block poll'') (\<lambda>head.
     bind (start_flashblocks_if mo (head \<le> mr_last_seen_block (mt_market mt)) mt) (\<lambda>mt.
     bind (infallible (mo_instant mo)) (\<lambda>now.
     if head \<le> mr_last_seen_block (mt_market mt) then idle_turn db env mo head now mt
     else batch_turn lib db env mo head now mt)))"

text \<open>A loop, for a number of turns; a failed turn ends the service.\<close>

fun run_turns :: "('m \<Rightarrow> ('s, 'm) act) \<Rightarrow> nat \<Rightarrow> 'm \<Rightarrow> ('s, 'm) act" where
  "run_turns turn 0 m = pass m"
| "run_turns turn (Suc n) m = bind (turn m) (run_turns turn n)"

definition market_data_turns ::
    "libs \<Rightarrow> 's rpc_env \<Rightarrow> 's recorder_env \<Rightarrow> 's market_env \<Rightarrow> 's monitor_env \<Rightarrow> nat \<Rightarrow> monitor_runtime \<Rightarrow>
     ('s, monitor_runtime) act" where
  "market_data_turns lib rp db env mo = run_turns (market_data_turn lib rp db env mo)"

end
