(* ===== verification/Registry_World.thy ===== *)
theory Registry_World
  imports Registry_Pairs Market_Monitor Simulator
begin

text \<open>
  The registry tables behind the market data service and the simulator: what is read back after a pool was
  recorded, which factories a recorded pool makes trusted, and which pools are followed after a reload.
\<close>

section \<open>Rows of a key\<close>

lemma distinct_on_subset: "set (distinct_on key seen rows) \<subseteq> set rows"
  by (induction key seen rows rule: distinct_on.induct) auto

lemma distinct_on_unseen: "r \<in> set (distinct_on key seen rows) \<Longrightarrow> key r \<notin> set seen"
  by (induction key seen rows rule: distinct_on.induct) (auto split: if_splits)

lemma distinct_on_distinct: "distinct (map key (distinct_on key seen rows))"
  by (induction key seen rows rule: distinct_on.induct) (auto dest: distinct_on_unseen)

lemma distinct_on_covers:
  "r \<in> set rows \<Longrightarrow> key r \<in> set seen \<or> (\<exists>r' \<in> set (distinct_on key seen rows). key r' = key r)"
  by (induction key seen rows rule: distinct_on.induct) auto

lemma distinct_on_filter:
  "filter (\<lambda>r. key r \<noteq> k) (distinct_on key seen rows) = distinct_on key (filter (\<lambda>k'. k' \<noteq> k) seen) (filter (\<lambda>r. key r \<noteq> k) rows)"
  by (induction key seen rows rule: distinct_on.induct) auto

text \<open>The row chosen for a key is the newest of the sorted ones.\<close>

lemma distinct_on_newest:
  fixes at :: "'r \<Rightarrow> int" and key :: "'r \<Rightarrow> 'k::linorder"
  assumes "sorted (map (\<lambda>r. (key r, - at r)) rows)" "r \<in> set (distinct_on key seen rows)" "r' \<in> set rows" "key r' = key r"
  shows "at r' \<le> at r"
  using assms
proof (induction key seen rows rule: distinct_on.induct)
  case (2 key seen x rows)
  have tail: "sorted (map (\<lambda>r. (key r, - at r)) rows)"
    and head: "\<And>y. y \<in> set rows \<Longrightarrow> (key x, - at x) \<le> (key y, - at y)" using 2(3) by auto
  show ?case
  proof (cases "key x \<in> set seen")
    case True
    then have "r \<in> set (distinct_on key seen rows)" "key r \<noteq> key x" using 2(4) distinct_on_unseen [of r key seen rows] by auto
    then show ?thesis using 2(1) [OF True tail] 2(5,6) by auto
  next
    case False
    then consider "r = x" | "r \<in> set (distinct_on key (key x # seen) rows)" using 2(4) by auto
    then show ?thesis
    proof cases
      case 1
      then show ?thesis using 2(5,6) head [of r'] by auto
    next
      case later: 2
      then have "key r \<noteq> key x" using distinct_on_unseen [OF later] by simp
      then show ?thesis using 2(2) [OF False tail later] 2(5,6) by auto
    qed
  qed
qed simp

lemma upsert_row_other: "filter (\<lambda>r. P r \<and> \<not> Q r) (upsert_row key row update rows) = filter (\<lambda>r. P r \<and> \<not> Q r) rows"
  if "\<And>r. key r = key row \<Longrightarrow> Q r" "\<And>r. key r = key row \<Longrightarrow> Q (update r)" "Q row"
proof -
  have "filter (\<lambda>r. P r \<and> \<not> Q r) (map (\<lambda>r. if key r = key row then update r else r) rows) = filter (\<lambda>r. P r \<and> \<not> Q r) rows"
    by (induction rows) (use that in auto)
  then show ?thesis using that(3) by (simp add: upsert_row_def)
qed

lemma upsert_row_set: "set (upsert_row key row update rows) =
    (if \<exists>r \<in> set rows. key r = key row then update ` {r \<in> set rows. key r = key row} else {row}) \<union>
    {r \<in> set rows. key r \<noteq> key row}"
  by (auto simp: upsert_row_def list_ex_iff)

lemma upsert_row_hits: "(\<exists>r \<in> set (upsert_row key row update rows). r = row \<or> (\<exists>r' \<in> set rows. r = update r'))"
  by (auto simp: upsert_row_set)

lemma upsert_row_constant: "row \<in> set (upsert_row key row (\<lambda>_. row) rows)"
  by (auto simp: upsert_row_set)

text \<open>The rows of the key after an upsert, and the other rows.\<close>

lemma upsert_row_cases:
  assumes "\<And>r. key r = key row \<Longrightarrow> key (update r) = key row"
  shows "\<exists>r \<in> set (upsert_row key row update rows). key r = key row"
    and "r \<in> set (upsert_row key row update rows) \<Longrightarrow> key r = key row \<Longrightarrow> r = row \<or> (\<exists>r'. r = update r')"
    and "key r \<noteq> key row \<Longrightarrow> r \<in> set (upsert_row key row update rows) \<longleftrightarrow> r \<in> set rows"
  using assms by (auto simp: upsert_row_set split: if_splits)

section \<open>Addresses\<close>

lemma lower_hex_digit: "to_ascii_lowercase [hex_digit n] = [hex_digit n]"
proof -
  have "n mod 16 \<in> set [0..<16]" by simp
  moreover have "\<forall>i \<in> set [0..<16]. to_ascii_lowercase [''0123456789abcdef'' ! i] = [''0123456789abcdef'' ! i]"
    by code_simp
  ultimately show ?thesis unfolding hex_digit_def by blast
qed

lemma to_ascii_lowercase_append: "to_ascii_lowercase (a @ b) = to_ascii_lowercase a @ to_ascii_lowercase b"
  by (simp add: to_ascii_lowercase_def)

lemma lower_hex_fixed: "to_ascii_lowercase (hex_fixed k n) = hex_fixed k n"
proof (induction k arbitrary: n)
  case 0
  then show ?case by (simp add: to_ascii_lowercase_def)
next
  case (Suc k)
  then show ?case by (simp add: to_ascii_lowercase_append lower_hex_digit)
qed

lemma lower_address_hex [simp]: "to_ascii_lowercase (address_hex a) = address_hex a"
proof -
  have "to_ascii_lowercase ''0x'' = ''0x''" by code_simp
  then show ?thesis unfolding address_hex_def by (simp only: to_ascii_lowercase_append lower_hex_fixed)
qed

lemma lower_codes_inj [simp]: "lower_codes (address_hex a) = lower_codes (address_hex b) \<longleftrightarrow> a = b"
  by (simp add: lower_codes_def inj_map_eq_map [OF inj_of_char])

lemma parse_hex [simp]: "reads_addresses lib \<Longrightarrow> parse_address lib (address_hex a) = Inr a"
  by (simp add: parse_address_def reads_addresses_def)

section \<open>Discovered pools are read back\<close>

lemma parse_dex_to_string [simp]: "parse_dex (dex_to_string d) = Inr d"
  by (cases d) (simp_all add: parse_dex_def parse_dex_kind_def map_err_def)

lemma parse_variant_to_string [simp]: "parse_variant (variant_to_string v) = Inr v"
  by (cases v) (simp_all add: parse_variant_def parse_variant_name_def map_err_def)

lemma sint_of_u32: "sint (i64_of_u32 v) = uint v"
proof -
  have "0 \<le> uint v" "uint v < 2 ^ 32" using uint_bounded [of v] by simp_all
  then have "- (2 ^ 63) \<le> uint v" "uint v < 2 ^ 63" by (simp_all add: order_trans [of _ 0])
  then have "signed_take_bit 63 (uint v) = uint v" by (rule signed_take_bit_int_eq_self)
  then show ?thesis unfolding i64_of_u32_def by (simp add: signed_ucast_eq)
qed

lemma u32_of_i64_of_u32 [simp]: "u32_of_i64 (i64_of_u32 v) = Some v"
proof -
  have "ucast (i64_of_u32 v) = v" unfolding i64_of_u32_def by (simp add: ucast_up_ucast_id is_up)
  moreover have "0 \<le> uint v" "uint v < 2 ^ 32" using uint_bounded [of v] by simp_all
  ultimately show ?thesis by (simp add: u32_of_i64_def sint_of_u32)
qed

lemma sint_of_i32: "sint (i64_of_i32 v) = sint v"
  unfolding i64_of_i32_def by (rule sint_up_scast) (simp add: is_up)

lemma i32_of_i64_of_i32 [simp]: "i32_of_i64 (i64_of_i32 v) = Some v"
proof -
  have "ucast (i64_of_i32 v) = v" unfolding i64_of_i32_def
    by (rule bit_word_eqI) (simp add: bit_simps)
  moreover have "- (2 ^ 31) \<le> sint v" "sint v < 2 ^ 31" using sint_greater_eq [of v] sint_less [of v] by simp_all
  ultimately show ?thesis by (simp add: i32_of_i64_def sint_of_i32)
qed

definition discovered_entry :: "discovered_pool \<Rightarrow> pool_registry_entry" where
  "discovered_entry d =
     \<lparr>re_pool_address = ps_address (dp_state d), re_dex = ps_dex (dp_state d), re_variant = ps_variant (dp_state d),
      re_factory_address = dp_factory_address d, re_token0 = ps_token0 (dp_state d), re_token1 = ps_token1 (dp_state d),
      re_fee_bps = ps_fee_bps (dp_state d), re_tick_spacing = dp_tick_spacing d, re_stable = dp_stable d,
      re_enabled = True\<rparr>"

lemma entry_of_discovered_row:
  assumes "reads_addresses lib"
  shows "entry_of_row lib ((discovered_row now fresh pair_id chain d)\<lparr>pl_id := i\<rparr>) = Inr (discovered_entry d)"
proof -
  have "transpose (parse_address lib) (map_option address_to_string a) = Inr a" for a
    using assms by (cases a) (simp_all add: transpose_def address_to_string_def)
  moreover have "transpose (\<lambda>v. out_of_range (i32_of_i64 v)) (map_option i64_of_i32 t) = Inr t" for t
    by (cases t) (simp_all add: transpose_def out_of_range_def ok_or_message_def)
  ultimately show ?thesis
    using assms by (simp add: entry_of_row_def discovered_row_def discovered_entry_def out_of_range_def ok_or_message_def)
      (simp add: address_to_string_def)
qed

text \<open>Pool rows as the program writes them.\<close>

definition pool_texts :: "registry_tables \<Rightarrow> bool" where
  "pool_texts tb \<longleftrightarrow> (\<forall>r \<in> set (tb_pools tb). \<exists>a. pl_pool_address r = address_to_string a)"

lemma enabled_pool_rows_other:
  assumes "\<And>r. Q r \<longleftrightarrow> lower_codes (pl_pool_address r) = k"
    and "filter (\<lambda>r. pl_enabled r \<and> \<not> Q r) (tb_pools tb') = filter (\<lambda>r. pl_enabled r \<and> \<not> Q r) (tb_pools tb)"
  shows "filter (\<lambda>r. \<not> Q r) (enabled_pool_rows tb') = filter (\<lambda>r. \<not> Q r) (enabled_pool_rows tb)"
proof -
  have Q: "(\<lambda>r. \<not> Q r) = (\<lambda>r. lower_codes (pl_pool_address r) \<noteq> k)" by (simp add: assms(1))
  have "filter (\<lambda>r. \<not> Q r) (enabled_pool_rows t) =
      distinct_on (\<lambda>r. lower_codes (pl_pool_address r)) []
        (sort_key (\<lambda>r. (lower_codes (pl_pool_address r), - pl_updated_at r))
          (filter (\<lambda>r. pl_enabled r \<and> \<not> Q r) (tb_pools t)))" for t
    unfolding enabled_pool_rows_def Q distinct_on_filter filter_sort [symmetric] by (simp add: conj_commute assms(1))
  then show ?thesis using assms(2) by simp
qed

lemma enabled_pool_rows_key:
  assumes "r \<in> set (tb_pools tb)" "pl_enabled r" "lower_codes (pl_pool_address r) = k"
  obtains r' where "r' \<in> set (enabled_pool_rows tb)" "lower_codes (pl_pool_address r') = k" "pl_updated_at r \<le> pl_updated_at r'"
proof -
  let ?rows = "sort_key (\<lambda>r. (lower_codes (pl_pool_address r), - pl_updated_at r)) (filter pl_enabled (tb_pools tb))"
  have r: "r \<in> set ?rows" using assms by simp
  then obtain r' where r': "r' \<in> set (enabled_pool_rows tb)" "lower_codes (pl_pool_address r') = lower_codes (pl_pool_address r)"
    using distinct_on_covers [of r ?rows "\<lambda>r. lower_codes (pl_pool_address r)" "[]"] unfolding enabled_pool_rows_def by auto
  moreover have "pl_updated_at r \<le> pl_updated_at r'"
    using distinct_on_newest [of "\<lambda>r. lower_codes (pl_pool_address r)" pl_updated_at ?rows r' "[]" r] r r'
    unfolding enabled_pool_rows_def by simp
  ultimately show ?thesis using that assms(3) by simp
qed

lemma enabled_pool_rows_set: "r \<in> set (enabled_pool_rows tb) \<Longrightarrow> r \<in> set (tb_pools tb) \<and> pl_enabled r"
  unfolding enabled_pool_rows_def using distinct_on_subset by fastforce

text \<open>The rows after a pool was recorded: its new row and the rows of the other pools.\<close>

lemma upsert_discovered_pool_rows:
  assumes up: "upsert_discovered_pool now fresh pair_id d tb = Inr tb'"
    and texts: "pool_texts tb" and old: "\<forall>r \<in> set (tb_pools tb). pl_updated_at r < now"
  obtains chain i where
    "set (enabled_pool_rows tb') = insert ((discovered_row now fresh pair_id chain d)\<lparr>pl_id := i\<rparr>)
       {r \<in> set (enabled_pool_rows tb). pl_pool_address r \<noteq> address_to_string (ps_address (dp_state d))}"
proof -
  let ?pool = "ps_address (dp_state d)"
  let ?k = "lower_codes (address_to_string ?pool)"
  let ?Q = "\<lambda>r. lower_codes (pl_pool_address r) = ?k"
  obtain chain where chain: "i64_of_u64 (pid_chain_id (ps_pool_id (dp_state d))) = Inr chain"
    using up by (cases "i64_of_u64 (pid_chain_id (ps_pool_id (dp_state d)))") (simp_all add: upsert_discovered_pool_def)
  let ?row = "discovered_row now fresh pair_id chain d"
  have tb': "tb' = tb\<lparr>tb_pools := upsert_row (\<lambda>r. (pl_chain_id r, pl_pool_address r)) ?row (\<lambda>r. ?row\<lparr>pl_id := pl_id r\<rparr>) (tb_pools tb)\<rparr>"
    using up by (simp add: upsert_discovered_pool_def chain Let_def)
  have row: "pl_pool_address ?row = address_to_string ?pool" "pl_enabled ?row" "pl_updated_at ?row = now"
    by (simp_all add: discovered_row_def)
  have others: "filter (\<lambda>r. \<not> ?Q r) (enabled_pool_rows tb') = filter (\<lambda>r. \<not> ?Q r) (enabled_pool_rows tb)"
    by (rule enabled_pool_rows_other, rule refl, unfold tb', simp, rule upsert_row_other) (use row in auto)
  have new: "\<exists>i. r = ?row\<lparr>pl_id := i\<rparr>" if "r \<in> set (tb_pools tb')" "pl_updated_at r = now" for r
    using that old unfolding tb' by (auto simp: upsert_row_set split: if_splits) (metis pool_row.surjective pool_row.update_convs(1))
  obtain r1 where "r1 \<in> set (tb_pools tb')" and hit: "r1 = ?row \<or> (\<exists>r' \<in> set (tb_pools tb). r1 = ?row\<lparr>pl_id := pl_id r'\<rparr>)"
    using upsert_row_hits [where rows = "tb_pools tb" and key = "\<lambda>r. (pl_chain_id r, pl_pool_address r)" and row = ?row
        and update = "\<lambda>r. ?row\<lparr>pl_id := pl_id r\<rparr>"] unfolding tb' by auto
  moreover have "pl_enabled r1" "?Q r1" "pl_updated_at r1 = now" using hit row by auto
  ultimately have r1: "r1 \<in> set (tb_pools tb')" "pl_enabled r1" "?Q r1" "pl_updated_at r1 = now" by blast+
  obtain r2 where r2: "r2 \<in> set (enabled_pool_rows tb')" "?Q r2" "now \<le> pl_updated_at r2"
    using enabled_pool_rows_key [OF r1(1,2,3)] r1(4) by auto
  have le: "pl_updated_at r \<le> now" if "r \<in> set (tb_pools tb')" for r
    using that old row unfolding tb' by (auto simp: upsert_row_set less_imp_le split: if_splits)
  have "pl_updated_at r2 = now" using le [of r2] r2(1,3) enabled_pool_rows_set by fastforce
  then obtain i where i: "r2 = ?row\<lparr>pl_id := i\<rparr>" using new enabled_pool_rows_set [OF r2(1)] by blast
  have inj: "inj_on (\<lambda>r. lower_codes (pl_pool_address r)) (set (enabled_pool_rows tb'))"
    unfolding enabled_pool_rows_def by (rule distinct_on_distinct [unfolded distinct_map, THEN conjunct2])
  have only: "r = r2" if "r \<in> set (enabled_pool_rows tb')" "?Q r" for r
    by (rule inj_onD [OF inj _ that(1) r2(1)]) (use that(2) r2(2) in simp)
  have key: "?Q r \<longleftrightarrow> pl_pool_address r = address_to_string ?pool" if "r \<in> set (tb_pools tb)" for r
    using texts that by (auto simp: pool_texts_def address_to_string_def)
  have "set (enabled_pool_rows tb') = insert r2 {r \<in> set (enabled_pool_rows tb'). \<not> ?Q r}"
    using only r2(1) by auto
  also have "{r \<in> set (enabled_pool_rows tb'). \<not> ?Q r} = {r \<in> set (enabled_pool_rows tb). \<not> ?Q r}"
    using arg_cong [OF others, of set] by simp
  also have "\<dots> = {r \<in> set (enabled_pool_rows tb). pl_pool_address r \<noteq> address_to_string ?pool}"
    using key enabled_pool_rows_set by blast
  finally show ?thesis using that [of i chain] i by simp
qed

lemma entry_of_row_address: "entry_of_row lib r = Inr e \<Longrightarrow> parse_address lib (pl_pool_address r) = Inr (re_pool_address e)"
  by (auto simp: entry_of_row_def)

lemma pool_row_address:
  assumes "reads_addresses lib" "pool_texts tb" "r \<in> set (tb_pools tb)" "entry_of_row lib r = Inr e"
  shows "pl_pool_address r = address_to_string (re_pool_address e)"
  using assms entry_of_row_address [OF assms(4)] by (auto simp: pool_texts_def address_to_string_def)

lemma registry_entries_distinct:
  assumes "reads_addresses lib" "pool_texts tb" "enabled_registry_pools lib tb = Inr entries"
  shows "distinct (map re_pool_address entries)"
proof -
  have "list_all2 (\<lambda>r e. entry_of_row lib r = Inr e) (enabled_pool_rows tb) entries"
    using assms(3) by (simp add: enabled_registry_pools_def collect_results_Inr)
  then have "list_all2 (\<lambda>r e. lower_codes (pl_pool_address r) = lower_codes (address_to_string (re_pool_address e)))
      (enabled_pool_rows tb) entries"
    by (rule list.rel_mono_strong) (metis pool_row_address [OF assms(1,2)] enabled_pool_rows_set)
  then have "map (\<lambda>r. lower_codes (pl_pool_address r)) (enabled_pool_rows tb) =
      map (\<lambda>e. lower_codes (address_to_string (re_pool_address e))) entries"
    by (simp add: list.rel_map [symmetric] list.rel_eq [symmetric] list_all2_map1 list_all2_map2)
  moreover have "distinct (map (\<lambda>r. lower_codes (pl_pool_address r)) (enabled_pool_rows tb))"
    unfolding enabled_pool_rows_def by (rule distinct_on_distinct)
  ultimately have "distinct (map (\<lambda>e. lower_codes (address_to_string (re_pool_address e))) entries)" by simp
  then show ?thesis by (auto simp: distinct_map inj_on_def address_to_string_def)
qed

lemma pool_texts_upsert:
  assumes "upsert_discovered_pool now fresh pair_id d tb = Inr tb'" "pool_texts tb"
  shows "pool_texts tb'"
  unfolding pool_texts_def
proof
  fix r assume r: "r \<in> set (tb_pools tb')"
  obtain chain where "tb_pools tb' = upsert_row (\<lambda>r. (pl_chain_id r, pl_pool_address r)) (discovered_row now fresh pair_id chain d)
      (\<lambda>r. (discovered_row now fresh pair_id chain d)\<lparr>pl_id := pl_id r\<rparr>) (tb_pools tb)"
    using assms(1) by (auto simp: upsert_discovered_pool_def Let_def)
  moreover have "pl_pool_address ((discovered_row now fresh pair_id chain d)\<lparr>pl_id := i\<rparr>) =
      address_to_string (ps_address (dp_state d))" for chain i by (simp add: discovered_row_def)
  ultimately show "\<exists>a. pl_pool_address r = address_to_string a"
    using r assms(2) by (auto simp: upsert_row_set pool_texts_def discovered_row_def split: if_splits)
qed

text \<open>The pool registry is a map from addresses to entries. After a discovered pool was recorded, the enabled
  pools that are read back are the entry of that pool, with the venue, the tokens, the fee, the tick spacing, the
  stable flag and the factory it was found with, and the entries of every other pool, unchanged; no pool is listed
  twice, whatever was stored for the pool before. The pool rows are the program's, and the clock has advanced since
  the last of them.\<close>

theorem discovered_pool_roundtrip:
  assumes "reads_addresses lib" "pool_texts tb" "\<forall>r \<in> set (tb_pools tb). pl_updated_at r < now"
    and "upsert_discovered_pool now fresh pair_id d tb = Inr tb'" "enabled_registry_pools lib tb = Inr entries"
  shows "\<exists>entries'. enabled_registry_pools lib tb' = Inr entries' \<and>
    set entries' = insert (discovered_entry d) {e \<in> set entries. re_pool_address e \<noteq> ps_address (dp_state d)} \<and>
    distinct (map re_pool_address entries')"
proof -
  let ?pool = "ps_address (dp_state d)"
  obtain chain i where rows: "set (enabled_pool_rows tb') =
      insert ((discovered_row now fresh pair_id chain d)\<lparr>pl_id := i\<rparr>)
       {r \<in> set (enabled_pool_rows tb). pl_pool_address r \<noteq> address_to_string ?pool}"
    using upsert_discovered_pool_rows [OF assms(4,2,3)] by blast
  note new = entry_of_discovered_row [OF assms(1), where now = now and fresh = fresh and pair_id = pair_id and chain = chain and d = d and i = i]
  have read: "collect_results (entry_of_row lib) (enabled_pool_rows tb) = Inr entries"
    using assms(5) by (simp add: enabled_registry_pools_def)
  obtain entries' where read': "collect_results (entry_of_row lib) (enabled_pool_rows tb') = Inr entries'"
    using collect_results_total [of "enabled_pool_rows tb'" "entry_of_row lib"] rows new collect_results_reads [OF read] by auto
  have other: "pl_pool_address r = address_to_string ?pool \<longleftrightarrow> re_pool_address e = ?pool"
    if "r \<in> set (enabled_pool_rows tb)" "entry_of_row lib r = Inr e" for r e
    using pool_row_address [OF assms(1,2) _ that(2)] enabled_pool_rows_set [OF that(1)] by (simp add: address_to_string_def)
  have "e \<in> set entries' \<longleftrightarrow> e = discovered_entry d \<or> e \<in> set entries \<and> re_pool_address e \<noteq> ?pool" for e
    unfolding collect_results_mem [OF read'] collect_results_mem [OF read] rows using new other by auto
  then have "set entries' = insert (discovered_entry d) {e \<in> set entries. re_pool_address e \<noteq> ?pool}" by blast
  moreover have "enabled_registry_pools lib tb' = Inr entries'" using read' by (simp add: enabled_registry_pools_def)
  ultimately show ?thesis using registry_entries_distinct [OF assms(1) pool_texts_upsert [OF assms(4,2)]] by blast
qed

definition bare_discovery :: "address \<Rightarrow> discovered_pool" where
  "bare_discovery pool = discovered
     (bare_pool_state 8453 pool DexUniswapV3 UniswapV3 (1, 2) (Some 18, Some 6) 100 100 5) (Some 7) (Some 60) None ''factory_event''"

definition no_tables :: registry_tables where
  "no_tables = \<lparr>tb_factories = [], tb_observed_pools = [], tb_protocol_pools = [], tb_pools = [], tb_tokens = [],
     tb_token_pairs = [], tb_search_defaults = []\<rparr>"

definition one_pool_tables :: registry_tables where
  "one_pool_tables = no_tables\<lparr>tb_pools := [discovered_row 10 1 2 8453 (bare_discovery 8)]\<rparr>"

lemma one_pool_tables_ok: "pool_texts one_pool_tables" "\<forall>r \<in> set (tb_pools one_pool_tables). pl_updated_at r < 20"
  by (auto simp: pool_texts_def one_pool_tables_def no_tables_def discovered_row_def)

lemma one_pool_tables_read: "enabled_registry_pools hex_libs one_pool_tables = Inr [discovered_entry (bare_discovery 8)]"
proof -
  have "enabled_pool_rows one_pool_tables = [(discovered_row 10 1 2 8453 (bare_discovery 8))\<lparr>pl_id := 1\<rparr>]"
    by (simp add: enabled_pool_rows_def one_pool_tables_def no_tables_def discovered_row_def)
  then show ?thesis by (simp add: enabled_registry_pools_def entry_of_discovered_row)
qed

lemma bare_discovery_upserts: "\<exists>tb'. upsert_discovered_pool now fresh pair_id (bare_discovery pool) tb = Inr tb'"
  by (simp add: upsert_discovered_pool_def bare_discovery_def discovered_def bare_pool_state_def i64_of_u64_def Let_def)

theorem discovered_pool_roundtrip_witness:
  "\<exists>tb' entries'. upsert_discovered_pool 20 3 4 (bare_discovery 9) one_pool_tables = Inr tb' \<and>
     enabled_registry_pools hex_libs tb' = Inr entries' \<and>
     set entries' = {discovered_entry (bare_discovery 9), discovered_entry (bare_discovery 8)}"
proof -
  obtain tb' where up: "upsert_discovered_pool 20 3 4 (bare_discovery 9) one_pool_tables = Inr tb'"
    using bare_discovery_upserts by blast
  have "re_pool_address (discovered_entry (bare_discovery 8)) \<noteq> ps_address (dp_state (bare_discovery 9))"
    by (simp add: discovered_entry_def bare_discovery_def discovered_def bare_pool_state_def)
  with discovered_pool_roundtrip [OF _ one_pool_tables_ok up one_pool_tables_read] up show ?thesis by auto
qed

section \<open>Trust of a factory\<close>

definition factory_texts :: "registry_tables \<Rightarrow> bool" where
  "factory_texts tb \<longleftrightarrow> (\<forall>r \<in> set (tb_factories tb). \<exists>a. ft_factory_address r = address_to_string a)"

lemma parse_pool_variant_plain: "parse_pool_variant s \<noteq> Some UniswapV4" "parse_pool_variant s \<noteq> Some BalancerV3"
  by (auto simp: parse_pool_variant_def)

lemma insert_registry_contains:
  "tf_contains (insert_registry lib rows s) v a \<longleftrightarrow> tf_contains s v a \<or> (\<exists>r \<in> set rows. registry_row lib r = Some (v, a))"
  by (simp add: tf_contains_registry registry_lists_row)

lemma registry_trusts:
  "tf_contains (from_settings_and_registry lib cfg rows) v a \<longleftrightarrow>
    tf_contains (from_settings_and_registry lib cfg []) v a \<or> (\<exists>r \<in> set rows. registry_row lib r = Some (v, a))"
  unfolding from_settings_and_registry_def Let_def by (simp add: insert_registry_contains)

lemma trusted_rows_set:
  assumes "trusted_factory_registry chain_id tb = Inr rows" "i64_of_u64 chain_id = Inr chain"
  shows "set rows = factory_record ` {r \<in> set (tb_factories tb). ft_chain_id r = chain \<and> ft_trusted r \<and> ft_enabled r}"
  using assms by (auto simp: trusted_factory_registry_def)

text \<open>What an upsert leaves of the rows: the factory's row as reported and the other rows.\<close>

lemma upsert_factory_rows:
  assumes "upsert_factory_registry now chain_id f tb = Inr tb'" "i64_of_u64 chain_id = Inr chain"
  defines "key \<equiv> (chain, address_to_string (fu_factory_address f))"
  shows "\<exists>r \<in> set (tb_factories tb'). (ft_chain_id r, ft_factory_address r) = key"
    and "r \<in> set (tb_factories tb') \<Longrightarrow> (ft_chain_id r, ft_factory_address r) = key \<Longrightarrow>
      ft_trusted r = fu_trusted f \<and> ft_enabled r = fu_enabled f \<and> ft_variant r = fu_variant f \<and> ft_dex r = fu_dex f"
    and "(ft_chain_id r, ft_factory_address r) \<noteq> key \<Longrightarrow> r \<in> set (tb_factories tb') \<longleftrightarrow> r \<in> set (tb_factories tb)"
proof -
  obtain row update where new: "tb_factories tb' = upsert_row (\<lambda>r. (ft_chain_id r, ft_factory_address r)) row update (tb_factories tb)"
    and keys: "(ft_chain_id row, ft_factory_address row) = key" "\<And>r. (ft_chain_id (update r), ft_factory_address (update r)) = key"
    and reported: "\<And>r. r = row \<or> (\<exists>r'. r = update r') \<Longrightarrow>
      ft_trusted r = fu_trusted f \<and> ft_enabled r = fu_enabled f \<and> ft_variant r = fu_variant f \<and> ft_dex r = fu_dex f"
    using assms(1,2) unfolding key_def upsert_factory_registry_def Let_def by fastforce
  note cs = upsert_row_cases [where key = "\<lambda>r. (ft_chain_id r, ft_factory_address r)" and row = row and update = update
      and rows = "tb_factories tb", unfolded keys, OF refl, folded new]
  show "\<exists>r \<in> set (tb_factories tb'). (ft_chain_id r, ft_factory_address r) = key" by (rule cs(1))
  show "r \<in> set (tb_factories tb') \<Longrightarrow> (ft_chain_id r, ft_factory_address r) = key \<Longrightarrow>
      ft_trusted r = fu_trusted f \<and> ft_enabled r = fu_enabled f \<and> ft_variant r = fu_variant f \<and> ft_dex r = fu_dex f"
    by (rule reported) (rule cs(2))
  show "(ft_chain_id r, ft_factory_address r) \<noteq> key \<Longrightarrow> r \<in> set (tb_factories tb') \<longleftrightarrow> r \<in> set (tb_factories tb)"
    by (rule cs(3))
qed

lemma factory_texts_upsert:
  assumes "upsert_factory_registry now chain_id f tb = Inr tb'" "factory_texts tb"
  shows "factory_texts tb'"
proof -
  obtain chain where chain: "i64_of_u64 chain_id = Inr chain" using assms(1) by (auto simp: upsert_factory_registry_def)
  show ?thesis unfolding factory_texts_def
    using upsert_factory_rows(3) [OF assms(1) chain] assms(2) by (metis factory_texts_def prod.inject)
qed

lemma registry_row_of_record:
  assumes "reads_addresses lib" "ft_factory_address r = address_to_string a'"
  shows "registry_row lib (factory_record r) = Some (v, a) \<longleftrightarrow>
    ft_trusted r \<and> ft_enabled r \<and> a' = a \<and> parse_pool_variant (ft_variant r) = Some v"
  using assms by (auto simp: registry_row_def factory_record_def reads_addresses_def address_to_string_def)

text \<open>The executor trusts a factory exactly when it is built in or configured, or when the last report
  written to the registry for that factory said it is trusted and enabled for that variant: writing a report
  decides for its factory, in both directions, and changes nothing for any other factory.\<close>

theorem factory_trust_follows_last_report:
  assumes "reads_addresses lib" "factory_texts tb"
    and "upsert_factory_registry now chain_id f tb = Inr tb'"
    and "trusted_factory_registry chain_id tb = Inr rows" "trusted_factory_registry chain_id tb' = Inr rows'"
  shows "tf_contains (from_settings_and_registry lib cfg rows') v a \<longleftrightarrow>
    tf_contains (from_settings_and_registry lib cfg []) v a \<or>
    (if a = fu_factory_address f then fu_trusted f \<and> fu_enabled f \<and> parse_pool_variant (fu_variant f) = Some v
     else tf_contains (from_settings_and_registry lib cfg rows) v a)"
proof -
  obtain chain where chain: "i64_of_u64 chain_id = Inr chain" using assms(3) by (auto simp: upsert_factory_registry_def)
  let ?k = "address_to_string (fu_factory_address f)"
  note up = upsert_factory_rows [OF assms(3) chain]
  have texts: "\<exists>a. ft_factory_address r = address_to_string a" if "r \<in> set (tb_factories tb) \<or> r \<in> set (tb_factories tb')" for r
    using that assms(2) factory_texts_upsert [OF assms(3,2)] by (auto simp: factory_texts_def)
  have row: "registry_row lib (factory_record r) = Some (v, a) \<longleftrightarrow>
      ft_trusted r \<and> ft_enabled r \<and> ft_factory_address r = address_to_string a \<and> parse_pool_variant (ft_variant r) = Some v"
    if "r \<in> set (tb_factories tb) \<or> r \<in> set (tb_factories tb')" for r
    using texts [OF that] registry_row_of_record [OF assms(1)] by (auto simp: address_to_string_def)
  define trusts :: "registry_tables \<Rightarrow> bool" where "trusts t \<longleftrightarrow> (\<exists>r \<in> set (tb_factories t). ft_chain_id r = chain \<and> ft_trusted r \<and> ft_enabled r \<and>
      ft_factory_address r = address_to_string a \<and> parse_pool_variant (ft_variant r) = Some v)" for t
  have "(\<exists>r \<in> set rows. registry_row lib r = Some (v, a)) \<longleftrightarrow> trusts tb"
    unfolding trusted_rows_set [OF assms(4) chain] trusts_def using row by auto
  moreover have "(\<exists>r \<in> set rows'. registry_row lib r = Some (v, a)) \<longleftrightarrow> trusts tb'"
    unfolding trusted_rows_set [OF assms(5) chain] trusts_def using row by auto
  moreover have "trusts tb' \<longleftrightarrow> (if a = fu_factory_address f
      then fu_trusted f \<and> fu_enabled f \<and> parse_pool_variant (fu_variant f) = Some v else trusts tb)"
  proof (cases "a = fu_factory_address f")
    case True
    then show ?thesis using up(1,2) unfolding trusts_def by auto
  next
    case False
    then have "address_to_string a \<noteq> ?k" by (simp add: address_to_string_def)
    then show ?thesis using False up(3) unfolding trusts_def by auto
  qed
  ultimately show ?thesis unfolding registry_trusts [of lib cfg rows'] registry_trusts [of lib cfg rows] by auto
qed

definition factory_report :: "bool \<Rightarrow> factory_upsert" where
  "factory_report trusted = seen_factory 9 (dex_to_string DexUniswapV3) (variant_to_string UniswapV3) trusted
     ''global_swap_discovery'' None 100"

theorem factory_trust_follows_last_report_witness:
  "\<exists>tb1 rows1 tb2 rows2.
     upsert_factory_registry 5 8453 (factory_report True) no_tables = Inr tb1 \<and>
     trusted_factory_registry 8453 tb1 = Inr rows1 \<and>
     tf_contains (from_settings_and_registry hex_libs example_settings rows1) UniswapV3 9 \<and>
     upsert_factory_registry 6 8453 (factory_report False) tb1 = Inr tb2 \<and>
     trusted_factory_registry 8453 tb2 = Inr rows2 \<and>
     (tf_contains (from_settings_and_registry hex_libs example_settings rows2) UniswapV3 9 \<longleftrightarrow>
      tf_contains (from_settings_and_registry hex_libs example_settings []) UniswapV3 9)"
proof -
  have up: "\<exists>tb' rows'. upsert_factory_registry now 8453 f tb = Inr tb' \<and> trusted_factory_registry 8453 tb' = Inr rows'" for now f tb
    by (simp add: upsert_factory_registry_def trusted_factory_registry_def i64_of_u64_def Let_def)
  have report: "fu_trusted (factory_report t) = t" "fu_enabled (factory_report t)" "fu_factory_address (factory_report t) = 9"
      "parse_pool_variant (fu_variant (factory_report t)) = Some UniswapV3" for t
    by (simp_all add: factory_report_def seen_factory_def parse_pool_variant_def)
  obtain tb1 rows1 where 1: "upsert_factory_registry 5 8453 (factory_report True) no_tables = Inr tb1"
      "trusted_factory_registry 8453 tb1 = Inr rows1" using up by blast
  obtain tb2 rows2 where 2: "upsert_factory_registry 6 8453 (factory_report False) tb1 = Inr tb2"
      "trusted_factory_registry 8453 tb2 = Inr rows2" using up by blast
  have texts: "factory_texts no_tables" by (simp add: factory_texts_def no_tables_def)
  have "trusted_factory_registry 8453 no_tables = Inr []"
    by (simp add: trusted_factory_registry_def no_tables_def i64_of_u64_def)
  note trust1 = factory_trust_follows_last_report [OF _ texts 1(1) this 1(2), of hex_libs example_settings UniswapV3 9]
  have "factory_texts tb1" using 1(1) texts by (rule factory_texts_upsert)
  note trust2 = factory_trust_follows_last_report [OF _ this 2(1) 1(2) 2(2), of hex_libs example_settings UniswapV3 9]
  show ?thesis using 1 2 trust1 trust2 report by auto
qed

section \<open>Recording an imported pool\<close>

lemma statement_Inr:
  assumes "statement da f s = (Inr x, s')"
  obtains now fresh where "f now fresh (rw_tables s) = Inr (x, rw_tables s')"
  using assms unfolding statement_def by (auto split: prod.splits if_splits sum.splits simp: bail_def)

lemma executed_Inr [simp]: "executed r = Inr (u, tb) \<longleftrightarrow> r = Inr tb"
  by (cases r) (auto simp: executed_def)

lemma upsert_token_pair_row:
  assumes "upsert_token_pair now fresh chain_id token0 token1 symbol tb = Inr (pair_id, tb')"
  obtains q where "q \<in> set (tb_token_pairs tb')" "tq_id q = pair_id" "tq_enabled q"
    "tq_token0 q = address_to_string token0" "tq_token1 q = address_to_string token1"
proof -
  obtain chain where chain: "i64_of_u64 chain_id = Inr chain" using assms by (auto simp: upsert_token_pair_def)
  define row where "row = \<lparr>tq_id = fresh, tq_chain_id = chain, tq_token0 = address_to_string token0,
      tq_token1 = address_to_string token1, tq_symbol = symbol, tq_enabled = True, tq_token0_search_amounts = None,
      tq_token1_search_amounts = None, tq_token0_min_profit = None, tq_token1_min_profit = None, tq_updated_at = now\<rparr>"
  have id: "pair_id = (case find (\<lambda>r. pair_key r = pair_key row) (tb_token_pairs tb') of Some r \<Rightarrow> tq_id r | None \<Rightarrow> fresh)"
    and rows: "tb_token_pairs tb' = upsert_row pair_key row (\<lambda>r. r\<lparr>tq_symbol := symbol, tq_enabled := True, tq_updated_at := now\<rparr>) (tb_token_pairs tb)"
    using assms unfolding row_def by (auto simp: upsert_token_pair_def chain Let_def)
  have row: "pair_key row = (chain, address_to_string token0, address_to_string token1)" "tq_enabled row"
    by (simp_all add: pair_key_def row_def)
  have key: "\<exists>q. find (\<lambda>r. pair_key r = pair_key row) (tb_token_pairs tb') = Some q"
    using upsert_row_cases(1) [where key = pair_key and row = row and rows = "tb_token_pairs tb"
        and update = "\<lambda>r. r\<lparr>tq_symbol := symbol, tq_enabled := True, tq_updated_at := now\<rparr>"] rows
    by (cases "find (\<lambda>r. pair_key r = pair_key row) (tb_token_pairs tb')") (auto simp: find_None_iff pair_key_def)
  then obtain q where q: "find (\<lambda>r. pair_key r = pair_key row) (tb_token_pairs tb') = Some q" by blast
  then have "q \<in> set (tb_token_pairs tb')" "pair_key q = pair_key row" by (auto simp: find_Some_iff)
  moreover from this have "tq_enabled q" using row unfolding rows by (auto simp: upsert_row_set split: if_splits)
  ultimately show ?thesis using that q id row by (auto simp: pair_key_def)
qed

lemma upsert_discovered_pool_row:
  assumes "upsert_discovered_pool now fresh pair_id d tb = Inr tb'"
  obtains chain i where "(discovered_row now fresh pair_id chain d)\<lparr>pl_id := i\<rparr> \<in> set (tb_pools tb')"
proof -
  obtain chain where "tb_pools tb' = upsert_row (\<lambda>r. (pl_chain_id r, pl_pool_address r)) (discovered_row now fresh pair_id chain d)
      (\<lambda>r. (discovered_row now fresh pair_id chain d)\<lparr>pl_id := pl_id r\<rparr>) (tb_pools tb)"
    using assms by (auto simp: upsert_discovered_pool_def Let_def)
  moreover have "discovered_row now fresh pair_id chain d = (discovered_row now fresh pair_id chain d)\<lparr>pl_id := fresh\<rparr>"
    by (simp add: discovered_row_def)
  ultimately show ?thesis
    using that upsert_row_hits [where rows = "tb_pools tb" and key = "\<lambda>r. (pl_chain_id r, pl_pool_address r)"
        and row = "discovered_row now fresh pair_id chain d" and update = "\<lambda>r. (discovered_row now fresh pair_id chain d)\<lparr>pl_id := pl_id r\<rparr>"]
    by metis
qed

lemma upsert_discovered_pool_keeps:
  "upsert_discovered_pool now fresh pair_id d tb = Inr tb' \<Longrightarrow> tb_token_pairs tb' = tb_token_pairs tb"
  by (auto simp: upsert_discovered_pool_def Let_def)

lemma upsert_observed_pool_row:
  assumes "upsert_observed_pool now chain_id ou tb = Inr tb'"
  shows "\<exists>r \<in> set (tb_observed_pools tb'). ob_pool_address r = address_to_string (ou_pool_address ou) \<and>
      ob_import_status r = ou_import_status ou"
    and "tb_pools tb' = tb_pools tb" "tb_token_pairs tb' = tb_token_pairs tb"
proof -
  obtain row where row: "tb_observed_pools tb' = upsert_row (\<lambda>r. (ob_chain_id r, ob_pool_address r)) row (\<lambda>_. row) (tb_observed_pools tb)"
      "ob_pool_address row = address_to_string (ou_pool_address ou)" "ob_import_status row = ou_import_status ou"
    using assms by (auto simp: upsert_observed_pool_def Let_def)
  show "\<exists>r \<in> set (tb_observed_pools tb'). ob_pool_address r = address_to_string (ou_pool_address ou) \<and>
      ob_import_status r = ou_import_status ou"
    by (rule bexI [of _ row]) (simp_all add: row upsert_row_constant)
  show "tb_pools tb' = tb_pools tb" "tb_token_pairs tb' = tb_token_pairs tb"
    using assms by (auto simp: upsert_observed_pool_def Let_def)
qed

lemma upsert_factory_registry_keeps:
  assumes "upsert_factory_registry now chain_id f tb = Inr tb'"
  shows "tb_pools tb' = tb_pools tb" "tb_token_pairs tb' = tb_token_pairs tb" "tb_observed_pools tb' = tb_observed_pools tb"
  using assms by (auto simp: upsert_factory_registry_def Let_def)

lemma parse_pool_variant_to_string:
  "v \<noteq> UniswapV4 \<Longrightarrow> v \<noteq> BalancerV3 \<Longrightarrow> parse_pool_variant (variant_to_string v) = Some v"
  by (cases v) (simp_all add: parse_pool_variant_def)

text \<open>What the registry holds once a discovered pool was imported, whatever the node answered on the way: the
  pool is enabled and reads back as found, it belongs to an enabled pair of its two tokens in canonical order, it is
  listed as imported among the observed pools, and its factory is trusted by the executor that starts on this
  registry, unless the pool is one of the manager or the vault.\<close>

theorem imported_pool_recorded:
  assumes "reads_addresses lib"
    and "record_imported_pool lib rp (table_db da chain_id) pool topic0 family block_number symbol dex variant factory
      found source factory_source s = (Inr (), s')"
    and "trusted_factory_registry chain_id (rw_tables s') = Inr rows"
  shows "(\<exists>r \<in> set (tb_pools (rw_tables s')). \<exists>q \<in> set (tb_token_pairs (rw_tables s')).
      pl_enabled r \<and> entry_of_row lib r = Inr (discovered_entry found) \<and>
      pl_token_pair_id r = Some (tq_id q) \<and> tq_enabled q \<and>
      (tq_token0 q, tq_token1 q) = map_prod address_to_string address_to_string
        (canonical_pair (ps_token0 (dp_state found)) (ps_token1 (dp_state found)))) \<and>
    (\<exists>r \<in> set (tb_observed_pools (rw_tables s')).
      ob_pool_address r = address_to_string pool \<and> ob_import_status r = ''imported'') \<and>
    (variant \<in> {UniswapV4, BalancerV3} \<or>
      tf_contains (from_settings_and_registry lib cfg rows) variant factory)"
proof -
  let ?pair = "canonical_pair (ps_token0 (dp_state found)) (ps_token1 (dp_state found))"
  let ?db = "table_db da chain_id"
  obtain pair_id block s1 s2 s3 s4 where
    1: "db_upsert_token_pair ?db (fst ?pair) (snd ?pair) symbol s1 = (Inr pair_id, s2)" and
    2: "db_upsert_discovered_pool ?db pair_id found s2 = (Inr (), s3)" and
    3: "db_upsert_observed_pool ?db (imported_row pool topic0 family found symbol factory dex variant block source) s3 = (Inr (), s4)" and
    4: "db_upsert_factory_registry ?db (seen_factory factory (dex_to_string dex) (variant_to_string variant) True
        factory_source None block) s4 = (Inr (), s')"
    using assms(2) unfolding record_imported_pool_def Let_def act_Inr by auto
  obtain now1 fresh1 where 1: "upsert_token_pair now1 fresh1 chain_id (fst ?pair) (snd ?pair) symbol (rw_tables s1) =
      Inr (pair_id, rw_tables s2)"
    using 1 by (auto simp: table_db_def elim: statement_Inr)
  obtain now2 fresh2 where 2: "upsert_discovered_pool now2 fresh2 pair_id found (rw_tables s2) = Inr (rw_tables s3)"
    using 2 by (auto simp: table_db_def elim: statement_Inr)
  obtain now3 where 3: "upsert_observed_pool now3 chain_id (imported_row pool topic0 family found symbol factory dex variant block source)
      (rw_tables s3) = Inr (rw_tables s4)"
    using 3 by (auto simp: table_db_def elim: statement_Inr)
  obtain now4 where 4: "upsert_factory_registry now4 chain_id (seen_factory factory (dex_to_string dex)
      (variant_to_string variant) True factory_source None block) (rw_tables s4) = Inr (rw_tables s')"
    using 4 by (auto simp: table_db_def elim: statement_Inr)
  note kept = upsert_observed_pool_row(2,3) [OF 3] upsert_factory_registry_keeps [OF 4]
  obtain chain i where r: "(discovered_row now2 fresh2 pair_id chain found)\<lparr>pl_id := i\<rparr> \<in> set (tb_pools (rw_tables s'))"
    using upsert_discovered_pool_row [OF 2] kept by metis
  obtain q where q: "q \<in> set (tb_token_pairs (rw_tables s'))" "tq_id q = pair_id" "tq_enabled q"
      "tq_token0 q = address_to_string (fst ?pair)" "tq_token1 q = address_to_string (snd ?pair)"
    using upsert_token_pair_row [OF 1] upsert_discovered_pool_keeps [OF 2] kept by metis
  have pool: "entry_of_row lib ((discovered_row now2 fresh2 pair_id chain found)\<lparr>pl_id := i\<rparr>) = Inr (discovered_entry found)"
    by (rule entry_of_discovered_row [OF assms(1)])
  have observed: "\<exists>r \<in> set (tb_observed_pools (rw_tables s')).
      ob_pool_address r = address_to_string pool \<and> ob_import_status r = ''imported''"
    using upsert_observed_pool_row(1) [OF 3] kept by (simp add: imported_row_def)
  obtain c where c: "i64_of_u64 chain_id = Inr c" using 4 by (auto simp: upsert_factory_registry_def)
  obtain r' where "r' \<in> set (tb_factories (rw_tables s'))" and r': "ft_chain_id r' = c" "ft_factory_address r' = address_to_string factory"
      "ft_trusted r'" "ft_enabled r'" "ft_variant r' = variant_to_string variant"
    using upsert_factory_rows(1,2) [OF 4 c] by (fastforce simp: seen_factory_def)
  then have "factory_record r' \<in> set rows" unfolding trusted_rows_set [OF assms(3) c] by simp
  then have trust: "variant \<in> {UniswapV4, BalancerV3} \<or> tf_contains (from_settings_and_registry lib cfg rows) variant factory"
    using registry_row_of_record [OF assms(1) r'(2)] r' parse_pool_variant_to_string [of variant]
    unfolding registry_trusts [of lib cfg rows] by auto
  have "\<exists>r \<in> set (tb_pools (rw_tables s')). \<exists>q \<in> set (tb_token_pairs (rw_tables s')).
      pl_enabled r \<and> entry_of_row lib r = Inr (discovered_entry found) \<and> pl_token_pair_id r = Some (tq_id q) \<and> tq_enabled q \<and>
      (tq_token0 q, tq_token1 q) = map_prod address_to_string address_to_string ?pair"
    by (rule bexI [OF _ r], rule bexI [OF _ q(1)]) (use q pool in \<open>simp add: discovered_row_def prod_eq_iff\<close>)
  with observed trust show ?thesis by blast
qed

definition silent_node :: "'s rpc_env" where
  "silent_node = \<lparr>rp_chain_id = 8453, rp_post = (\<lambda>_. fail ''connection refused''), rp_now = (\<lambda>s. (5, s)),
     rp_json_text = (\<lambda>_. []), rp_parse_b256 = (\<lambda>_. bail ''no hash'')\<rparr>"

definition calm_database :: "unit database" where
  "calm_database = \<lparr>da_fails = (\<lambda>w. (False, w)), da_now = (\<lambda>w. (30, w)), da_uuid = (\<lambda>w. (6, w)),
     da_uniswap_v4_rows = (\<lambda>_ _ _. Inr []), da_balancer_v3_rows = (\<lambda>_ _ _. Inr []), da_warm_ticks = (\<lambda>_ _ w. w)\<rparr>"

text \<open>Actions that always succeed, for the examples.\<close>

definition succeeds :: "('s, 'a) act \<Rightarrow> bool" where
  "succeeds m \<longleftrightarrow> (\<forall>s. \<exists>x s'. m s = (Inr x, s'))"

lemma succeeds_bind: "succeeds m \<Longrightarrow> (\<And>x. succeeds (f x)) \<Longrightarrow> succeeds (bind m f)"
  unfolding succeeds_def bind_Inr_iff by metis

lemma succeeds_lift: "succeeds (lift (Inr x))"
  by (simp add: succeeds_def lift_def)

lemma succeeds_calm: "(\<And>now fresh tb. \<exists>x. f now fresh tb = Inr x) \<Longrightarrow> succeeds (statement calm_database f)"
  unfolding succeeds_def statement_def calm_database_def by (auto split: sum.splits) (metis Inl_Inr_False)

lemma silent_call: "\<exists>e es. eth_call silent_node token data label s = (Inl (e # es), s)"
  by (simp add: eth_call_def eth_call_from_at_block_def rpc_def rpc_optional_def silent_node_def annotate_def bind_def
      fail_def bail_def with_context_def map_err_def)

lemma silent_symbol: "succeeds (token_symbol lib silent_node token)"
  unfolding succeeds_def
proof
  fix s :: 'a
  obtain e es where "eth_call silent_node token ''0x95d89b41'' ''ERC20 symbol()'' s = (Inl (e # es), s)"
    using silent_call [of token "''0x95d89b41''" "''ERC20 symbol()''" s] by (elim exE)
  then have "fetch_erc20_symbol lib silent_node token s = (Inl (e # es), s)"
    unfolding fetch_erc20_symbol_def bind_def by (simp only: prod.case sum.case)
  then have "token_symbol lib silent_node token s = (Inr ''token'', s)"
    by (simp add: token_symbol_def attempt_def handle_def pass_def)
  then show "\<exists>x s'. token_symbol lib silent_node token s = (Inr x, s')" by blast
qed

lemma calm_statements:
  "succeeds (db_upsert_token_registry (table_db calm_database 8453) token symbol)"
  "succeeds (db_upsert_token_pair (table_db calm_database 8453) token0 token1 symbol)"
  "succeeds (db_upsert_discovered_pool (table_db calm_database 8453) pair_id (bare_discovery p))"
  "succeeds (db_upsert_observed_pool (table_db calm_database 8453) ou)"
  "succeeds (db_upsert_factory_registry (table_db calm_database 8453) f)"
  unfolding table_db_def recorder_env.simps
  by (rule succeeds_calm, simp add: upsert_token_registry_def upsert_token_pair_def upsert_discovered_pool_def
      upsert_observed_pool_def upsert_factory_registry_def i64_of_u64_def Let_def executed_def bare_discovery_def
      discovered_def bare_pool_state_def)+

theorem imported_pool_recorded_witness:
  "\<exists>s' rows. record_imported_pool hex_libs silent_node (table_db calm_database 8453) 9 v3_swap_topic ''swap-log'' 100 ''A/B''
      DexUniswapV3 UniswapV3 7 (bare_discovery 9) ''global_swap'' ''global_swap_discovery''
      \<lparr>rw_tables = no_tables, rw_outside = ()\<rparr> = (Inr (), s') \<and>
    trusted_factory_registry 8453 (rw_tables s') = Inr rows \<and>
    tf_contains (from_settings_and_registry hex_libs example_settings rows) UniswapV3 7"
proof -
  have "succeeds (record_imported_pool hex_libs silent_node (table_db calm_database 8453) 9 v3_swap_topic ''swap-log'' 100 ''A/B''
      DexUniswapV3 UniswapV3 7 (bare_discovery 9) ''global_swap'' ''global_swap_discovery'')"
    unfolding record_imported_pool_def Let_def
    by (intro succeeds_bind silent_symbol calm_statements) (simp add: i64_of_u64_def succeeds_lift)
  then obtain s' where run: "record_imported_pool hex_libs silent_node (table_db calm_database 8453) 9 v3_swap_topic ''swap-log''
      100 ''A/B'' DexUniswapV3 UniswapV3 7 (bare_discovery 9) ''global_swap'' ''global_swap_discovery''
      \<lparr>rw_tables = no_tables, rw_outside = ()\<rparr> = (Inr (), s')"
    unfolding succeeds_def by (metis (full_types) old.unit.exhaust)
  obtain rows where rows: "trusted_factory_registry 8453 (rw_tables s') = Inr rows"
    by (simp add: trusted_factory_registry_def i64_of_u64_def)
  from imported_pool_recorded [OF _ run rows, of example_settings] run rows show ?thesis by auto
qed

end
