(* ===== verification/Discovery_Loops.thy ===== *)
theory Discovery_Loops
  imports Market_Monitor
begin

text \<open>
  The two discovery services of \<open>crates/market-data/src/listener.rs\<close>, \<open>run_pool_discovery\<close> and
  \<open>run_competitor_pool_discovery\<close>, and what the three block loops of the crate share: each turn moves the
  position of the loop towards the head of the chain by at most a fixed number of blocks.
\<close>

section \<open>Pool discovery\<close>

record discovery_runtime =
  di_last_scanned :: u64
  di_last_advance :: int
  di_seen :: "address set"
  di_next_promotion :: int

definition pool_discovery_max_block_span :: u64 where
  "pool_discovery_max_block_span = 50"

definition v4_promote_interval :: int where
  "v4_promote_interval = 10 ^ 9"

definition pool_discovery_block_stall_timeout :: int where
  "pool_discovery_block_stall_timeout = 60 * 10 ^ 9"

definition start_pool_discovery ::
    "'s rpc_env \<Rightarrow> 's recorder_env \<Rightarrow> 's monitor_env \<Rightarrow> settings \<Rightarrow> ('s, discovery_runtime) act" where
  "start_pool_discovery rp db mo cfg =
     bind (seed_default_factories db cfg) (\<lambda>_.
     bind (get_block_number_or_fail rp mo ''pool-discovery startup block poll'') (\<lambda>head.
     bind (infallible (mo_instant mo)) (\<lambda>now.
     bind (infallible (mo_instant mo)) (\<lambda>now'.
     pass \<lparr>di_last_scanned = head, di_last_advance = now, di_seen = {}, di_next_promotion = now'\<rparr>))))"

text \<open>\<open>stalled\<close> ends the service when the chain has not moved for a minute.\<close>

definition stalled :: "string \<Rightarrow> u64 \<Rightarrow> u64 \<Rightarrow> int \<Rightarrow> ('s, 'a) act" where
  "stalled service scanned latest elapsed =
     fail (service @ '' block feed stalled: last_scanned_block='' @ nat_dec (unat scanned) @ '' latest_block='' @
       nat_dec (unat latest) @ '' stalled_for_ms='' @ int_dec (elapsed div 1000000))"

definition promote_when_due ::
    "libs \<Rightarrow> 's rpc_env \<Rightarrow> 's recorder_env \<Rightarrow> 's market_env \<Rightarrow> 's monitor_env \<Rightarrow> settings \<Rightarrow> int \<Rightarrow> ('s, int) act" where
  "promote_when_due lib rp db env mo cfg due =
     bind (infallible (mo_instant mo)) (\<lambda>now.
     if now < due then pass due
     else
       bind (promote_quoteable_uniswap_v4_pools lib rp db env cfg None) (\<lambda>_.
       bind (promote_quoteable_balancer_v3_pools lib rp db env cfg None) (\<lambda>_.
       bind (infallible (mo_instant mo)) (\<lambda>now. pass (now + v4_promote_interval)))))"

definition pool_discovery_turn ::
    "libs \<Rightarrow> 's rpc_env \<Rightarrow> 's recorder_env \<Rightarrow> 's market_env \<Rightarrow> 's monitor_env \<Rightarrow> settings \<Rightarrow> bool \<Rightarrow> discovery_runtime \<Rightarrow>
     ('s, discovery_runtime) act" where
  "pool_discovery_turn lib rp db env mo cfg discovery_enabled di =
     bind (get_block_number_or_fail rp mo ''pool-discovery block poll'') (\<lambda>latest.
     bind (infallible (mo_instant mo)) (\<lambda>now.
     let scanned = di_last_scanned di in
     if latest \<le> scanned
     then
       if pool_discovery_block_stall_timeout \<le> now - di_last_advance di
       then stalled ''pool-discovery'' scanned latest (now - di_last_advance di)
       else pass di
     else
       let to_block = min latest (saturating_add scanned pool_discovery_max_block_span) in
       bind (discover_live_pool_creations lib rp db env cfg (scanned + 1) to_block) (\<lambda>_.
       bind (discover_global_swap_pools lib rp db env cfg discovery_enabled (scanned + 1) to_block (di_seen di)) (\<lambda>seen.
       bind (promote_when_due lib rp db env mo cfg (di_next_promotion di)) (\<lambda>next_promotion.
       pass \<lparr>di_last_scanned = to_block, di_last_advance = now, di_seen = seen, di_next_promotion = next_promotion\<rparr>)))))"

section \<open>Pools of a competitor\<close>

record competitor_settings =
  cc_enabled :: bool
  cc_collector_address :: "address option"
  cc_lookback_blocks :: u64
  cc_max_block_span :: u64

record competitor_runtime =
  ct_last_scanned :: u64
  ct_last_advance :: int
  ct_recent_txs :: recent_tx_cache

text \<open>\<open>None\<close> when the service has nothing to do and returns.\<close>

definition start_competitor_discovery ::
    "'s rpc_env \<Rightarrow> 's monitor_env \<Rightarrow> competitor_settings \<Rightarrow> ('s, (address \<times> competitor_runtime) option) act" where
  "start_competitor_discovery rp mo cc =
     (if \<not> cc_enabled cc then pass None
      else case cc_collector_address cc of
          None \<Rightarrow> pass None
        | Some collector \<Rightarrow>
            bind (get_block_number_or_fail rp mo ''competitor pool discovery startup block poll'') (\<lambda>latest.
            bind (infallible (mo_instant mo)) (\<lambda>now.
            pass (Some (collector, \<lparr>ct_last_scanned = saturating_sub latest (cc_lookback_blocks cc), ct_last_advance = now,
              ct_recent_txs = recent_tx_cache_new 20000\<rparr>)))))"

definition competitor_span :: "competitor_settings \<Rightarrow> u64" where
  "competitor_span cc = max (cc_max_block_span cc) 1"

text \<open>A scan that fails is passed over, a panic is not; the cache keeps the transactions of a failed scan.\<close>

definition competitor_discovery_turn ::
    "libs \<Rightarrow> (string \<Rightarrow> b256 option) \<Rightarrow> (b256 list \<Rightarrow> b256 list) \<Rightarrow> 's rpc_env \<Rightarrow> 's recorder_env \<Rightarrow> 's market_env \<Rightarrow>
     's monitor_env \<Rightarrow> settings \<Rightarrow> competitor_settings \<Rightarrow> address \<Rightarrow> competitor_runtime \<Rightarrow> ('s, competitor_runtime) act" where
  "competitor_discovery_turn lib parse_hash order rp db env mo cfg cc collector ct =
     bind (get_block_number_or_fail rp mo ''competitor pool discovery block poll'') (\<lambda>latest.
     bind (infallible (mo_instant mo)) (\<lambda>now.
     let scanned = ct_last_scanned ct in
     if latest \<le> scanned
     then
       if pool_discovery_block_stall_timeout \<le> now - ct_last_advance ct
       then stalled ''competitor pool discovery'' scanned latest (now - ct_last_advance ct)
       else pass ct
     else
       let to_block = min latest (saturating_add scanned (competitor_span cc)) in
       (\<lambda>s. case discover_competitor_receipt_pools lib parse_hash order rp db env cfg collector (scanned + 1) to_block
                (ct_recent_txs ct) s of
          ((r, cache), s) \<Rightarrow>
            (case r of
               Inl [] \<Rightarrow> (Inl [], s)
             | _ \<Rightarrow> (Inr \<lparr>ct_last_scanned = to_block, ct_last_advance = now, ct_recent_txs = cache\<rparr>, s)))))"

section \<open>Loops that follow the chain\<close>

definition next_seen :: "u64 \<Rightarrow> u64 \<Rightarrow> u64 \<Rightarrow> u64" where
  "next_seen span head seen = max seen (min head (saturating_add seen span))"

lemma unat_next_seen: "unat (next_seen span head seen) = max (unat seen) (min (unat head) (unat seen + unat span))"
  using unat_lt [of head] by (simp add: next_seen_def unat_saturating_add max_def min_def word_le_nat_alt)

lemma next_seen_idle: "head \<le> seen \<Longrightarrow> next_seen span head seen = seen"
  unfolding next_seen_def by (rule max_absorb1) (rule order_trans [OF min.cobounded1])

lemma next_seen_behind:
  assumes "\<not> head \<le> seen"
  shows "next_seen span head seen = min head (saturating_add seen span)"
  unfolding next_seen_def using assms unat_lt [of seen]
  by (intro max_absorb2) (simp add: word_le_nat_alt min_def unat_saturating_add)

locale block_loop =
  fixes turn :: "'m \<Rightarrow> ('s, 'm) act" and position :: "'m \<Rightarrow> u64" and poll :: "('s, u64) act" and span :: u64
  assumes turn_advances: "yields P poll \<Longrightarrow>
    yields (\<lambda>m'. \<exists>head. P head \<and> position m' = next_seen span head (position m)) (turn m)"
begin

lemma catches_up:
  assumes "yields (\<lambda>head. low \<le> unat head \<and> unat head \<le> high) poll" "run_turns turn n m s = (Inr m', s')"
  shows "max (unat (position m)) (min low (unat (position m) + unat span * n)) \<le> unat (position m') \<and>
    unat (position m') \<le> max (unat (position m)) (min high (unat (position m) + unat span * n))"
  using assms(2)
proof (induction n arbitrary: m s)
  case 0
  then show ?case by (simp add: pass_def)
next
  case (Suc n)
  obtain m1 s1 where turn: "turn m s = (Inr m1, s1)" and rest: "run_turns turn n m1 s1 = (Inr m', s')"
    using Suc.prems by (auto simp: bind_Inr_iff)
  obtain head where head: "low \<le> unat head" "unat head \<le> high" and moved: "position m1 = next_seen span head (position m)"
    using yieldsD [OF turn_advances [OF assms(1)] turn] by blast
  note pos = unat_next_seen [of span head "position m", folded moved]
  show ?case using Suc.IH [OF rest] head unfolding pos by (auto simp: max_def min_def algebra_simps split: if_splits)
qed

end

lemma yields_stalled: "yields Q (stalled service scanned latest elapsed)"
  by (simp add: stalled_def yields_fail)

interpretation pool_discovery: block_loop "pool_discovery_turn lib rp db env mo cfg enabled" di_last_scanned
  "get_block_number_or_fail rp mo ''pool-discovery block poll''" pool_discovery_max_block_span
  for lib rp db env mo cfg enabled
proof
  fix P and m :: discovery_runtime
  assume poll: "yields P (get_block_number_or_fail rp mo ''pool-discovery block poll'')"
  show "yields (\<lambda>m'. \<exists>head. P head \<and> di_last_scanned m' = next_seen pool_discovery_max_block_span head (di_last_scanned m))
      (pool_discovery_turn lib rp db env mo cfg enabled m)"
    unfolding pool_discovery_turn_def Let_def
    by (intro yields_bind_known [OF poll] yields_bind yields_if yields_pass yields_stalled)
      (auto intro: next_seen_idle [symmetric] next_seen_behind [symmetric])
qed

interpretation competitor_discovery: block_loop "competitor_discovery_turn lib parse_hash order rp db env mo cfg cc collector"
  ct_last_scanned "get_block_number_or_fail rp mo ''competitor pool discovery block poll''" "competitor_span cc"
  for lib parse_hash order rp db env mo cfg cc collector
proof
  fix P and m :: competitor_runtime
  assume poll: "yields P (get_block_number_or_fail rp mo ''competitor pool discovery block poll'')"
  show "yields (\<lambda>m'. \<exists>head. P head \<and> ct_last_scanned m' = next_seen (competitor_span cc) head (ct_last_scanned m))
      (competitor_discovery_turn lib parse_hash order rp db env mo cfg cc collector m)"
    unfolding competitor_discovery_turn_def Let_def
    by (intro yields_bind_known [OF poll] yields_bind yields_if yields_pass yields_stalled)
      (auto simp: yields_def next_seen_idle next_seen_behind split: prod.splits sum.splits list.splits)
qed

end
