(* ===== verification/Monitor_World.thy ===== *)
theory Monitor_World
  imports Registry_World Discovery_Loops Chain_Ticks
begin

text \<open>
  The market data service on the registry tables and the node: which pools it follows after a reload, and
  how its block loop catches up with the chain.
\<close>

section \<open>The pools that are followed\<close>

definition followed :: "pool_registry_entry list \<Rightarrow> address set" where
  "followed entries = re_pool_address ` {e \<in> set entries. registry_pool_requires_direct_monitoring e}"

lemma monitored_entries_addresses:
  "re_pool_address ` set (monitored_entries seen entries) = followed entries - seen"
  by (induction seen entries rule: monitored_entries.induct) (auto simp: followed_def)

lemma monitored_entries_distinct: "distinct (map re_pool_address (monitored_entries seen entries))"
proof (induction seen entries rule: monitored_entries.induct)
  case (2 seen entry entries)
  then show ?case using monitored_entries_addresses [of "insert (re_pool_address entry) seen" entries] by auto
qed simp

lemma monitored_entries_subset:
  "set (monitored_entries seen entries) \<subseteq> {e \<in> set entries. registry_pool_requires_direct_monitoring e}"
  by (induction seen entries rule: monitored_entries.induct) auto

text \<open>A state that was read belongs to the pool of its entry.\<close>

lemma yields_v3_entry: "yields (\<lambda>p. ps_address p = re_pool_address entry) (v3_entry_state lib rp entry read block v)"
  unfolding v3_entry_state_def by (intro yields_intros) (simp add: entry_fields_def)

lemma yields_aerodrome_entry:
  assumes "yields (\<lambda>p. ps_address p = re_pool_address entry) read"
  shows "yields (\<lambda>p. ps_address p = re_pool_address entry) (aerodrome_entry_state entry read slipstream_fee classic_fee)"
  unfolding aerodrome_entry_state_def
  by (rule yields_bind_known [OF assms]) (auto intro!: yields_intros simp: entry_fields_def)

lemma yields_fetch_at_block: "yields (\<lambda>p. ps_address p = pool) (fetch_aerodrome_pool_state_at_block lib rp pool block)"
  unfolding fetch_aerodrome_pool_state_at_block_def
  by (intro yields_intros, rule yields_mono [OF yields_aerodrome_state]) (simp add: aerodrome_state_ok_def)

lemma yields_registry_state:
  assumes "registry_pool_requires_direct_monitoring entry"
  shows "yields (\<lambda>p. ps_address p = re_pool_address entry) (fetch_registry_pool_state lib rp db env cfg entry)"
  using assms
  by (cases "re_dex entry")
    (auto simp: fetch_registry_pool_state_def registry_pool_requires_direct_monitoring_def fetch_pool_state_from_registry_def
      fetch_pool_state_from_registry_at_block_def
      intro!: yields_v3_entry yields_aerodrome_entry yields_fetch_at_block)

text \<open>What the reads of a list of entries give: states of those entries, in their order, and nothing for an entry
  whose read failed.\<close>

definition read_fails :: "'s market_env \<Rightarrow> pool_registry_entry \<Rightarrow> bool" where
  "read_fails env entry \<longleftrightarrow> (\<exists>s e s'. mk_fetch_pool_state env entry s = (Inl e, s'))"

lemma fetch_entries_states:
  assumes "\<And>entry. entry \<in> set entries \<Longrightarrow> yields (\<lambda>p. ps_address p = re_pool_address entry) (mk_fetch_pool_state env entry)"
    and "distinct (map re_pool_address entries)" "fetch_entries env entries s = (Inr states, s')"
  shows "distinct (map ps_address states) \<and> ps_address ` set states \<subseteq> re_pool_address ` set entries \<and>
    (\<forall>entry \<in> set entries. re_pool_address entry \<in> ps_address ` set states \<or> read_fails env entry)"
  using assms
proof (induction entries arbitrary: s states)
  case (Cons entry entries)
  note IH = Cons.IH [OF Cons.prems(1)]
  obtain r s1 where r: "mk_fetch_pool_state env entry s = (r, s1)" by fastforce
  show ?case
  proof (cases r)
    case (Inl e)
    then have "e \<noteq> [] \<and> fetch_entries env entries s1 = (Inr states, s')"
      using Cons.prems(3) r by (auto simp: attempt_def handle_def lift_def split: if_splits)
    moreover have "read_fails env entry" using r Inl unfolding read_fails_def by blast
    ultimately show ?thesis using IH [of s1 states] Cons.prems(2) by auto
  next
    case (Inr state)
    then obtain rest where rest: "fetch_entries env entries s1 = (Inr rest, s')" and states: "states = state # rest"
      using Cons.prems(3) r by (auto simp: attempt_def handle_def act_Inr)
    have "ps_address state = re_pool_address entry"
      using yieldsD [OF Cons.prems(1) r [unfolded Inr]] by simp
    then show ?thesis using IH [OF _ _ rest] Cons.prems(2) states by auto
  qed
qed (simp add: pass_def)

text \<open>The loop's environment over the registry tables and the node.\<close>

definition registry_market ::
    "libs \<Rightarrow> 'w registry_world rpc_env \<Rightarrow> 'w database \<Rightarrow> settings \<Rightarrow> address option \<Rightarrow> address option \<Rightarrow> address option \<Rightarrow>
     'w registry_world market_env \<Rightarrow> 'w registry_world market_env" where
  "registry_market lib rp da cfg aerodrome_pool v3_500_pool v3_3000_pool env =
     on_chain lib rp (table_db da (cfg_chain_id cfg)) cfg aerodrome_pool v3_500_pool v3_3000_pool
       (env\<lparr>mk_enabled_registry_pools := statement da (\<lambda>now fresh. queried (enabled_registry_pools lib))\<rparr>)"

lemma registry_market_reads:
  assumes "registry_pool_requires_direct_monitoring entry"
  shows "yields (\<lambda>p. ps_address p = re_pool_address entry)
    (mk_fetch_pool_state (registry_market lib rp da cfg a b c env) entry)"
  using yields_registry_state [OF assms] by (simp add: registry_market_def on_chain_def)

lemma registry_market_entries:
  assumes "mk_enabled_registry_pools (registry_market lib rp da cfg a b c env) s = (Inr entries, s')"
  shows "enabled_registry_pools lib (rw_tables s) = Inr entries"
  using assms by (auto simp: registry_market_def on_chain_def queried_def elim!: statement_Inr)

lemma address_hex_image [simp]: "address_hex ` A = address_hex ` B \<longleftrightarrow> A = B"
  by (simp add: inj_image_eq_iff inj_def)

lemma address_set_addresses: "address_set states = address_hex ` ps_address ` set states"
  by (simp add: address_set_def image_image)

text \<open>What the reload computes once the registry was read.\<close>

lemma reload_next:
  assumes "reload_if_changed env warm current s = (Inr next, s')"
    and "mk_enabled_registry_pools env s = (Inr entries, s1)" "entries \<noteq> []"
  defines "added_entries \<equiv> filter (\<lambda>e. re_pool_address e \<notin> ps_address ` set current) (monitored_entries {} entries)"
  shows "(ps_address ` set current = followed entries \<and> next = current) \<or>
    (\<exists>added s2. fetch_entries env added_entries s1 = (Inr added, s2) \<and>
      next = filter (\<lambda>p. ps_address p \<in> followed entries) current @ added)"
proof -
  have registry: "(\<lambda>e. address_hex (re_pool_address e)) ` set (monitored_entries {} es) = address_hex ` followed es" for es
    using monitored_entries_addresses [of "{}" es] by (simp add: image_image [symmetric])
  have hex: "address_hex a \<in> address_hex ` A \<longleftrightarrow> a \<in> A" for a A by auto
  show ?thesis
    using assms(1-3) unfolding reload_if_changed_def act_Inr registry address_set_addresses hex Let_def added_entries_def
    by (auto split: if_splits simp: act_Inr)
qed

text \<open>Reloading the registry makes the service follow the registry's pools. When the reload succeeds on a
  registry with enabled pools, the pools it then follows are enabled pools of exchanges with a contract per pool,
  each followed once; a pool that was followed and still is keeps its local state untouched; a state that is new
  belongs to a pool not followed before; and a pool of the registry is missing only when its state could not be
  read from the node.\<close>

theorem reload_follows_registry:
  assumes "distinct (map ps_address current)"
    and "enabled_registry_pools lib (rw_tables s) = Inr entries" "entries \<noteq> []"
    and "reload_if_changed (registry_market lib rp da cfg a b c env) warm current s = (Inr next, s')"
  shows "distinct (map ps_address next) \<and> ps_address ` set next \<subseteq> followed entries \<and>
    {p \<in> set current. ps_address p \<in> followed entries} \<subseteq> set next \<and>
    (\<forall>p \<in> set next. p \<in> set current \<or> ps_address p \<notin> ps_address ` set current) \<and>
    (\<forall>pool \<in> followed entries. pool \<in> ps_address ` set next \<or>
      (\<exists>e \<in> set entries. re_pool_address e = pool \<and> read_fails (registry_market lib rp da cfg a b c env) e))"
proof -
  let ?env = "registry_market lib rp da cfg a b c env"
  let ?new = "filter (\<lambda>e. re_pool_address e \<notin> ps_address ` set current) (monitored_entries {} entries)"
  obtain entries' s1 where read: "mk_enabled_registry_pools ?env s = (Inr entries', s1)"
    using assms(4) by (auto simp: reload_if_changed_def act_Inr)
  then have read: "mk_enabled_registry_pools ?env s = (Inr entries, s1)"
    using registry_market_entries assms(2) by fastforce
  from reload_next [OF assms(4) read assms(3)] show ?thesis
  proof (elim disjE conjE exE)
    assume "ps_address ` set current = followed entries" "next = current"
    then show ?thesis using assms(1) by auto
  next
    fix added s2
    assume added: "fetch_entries ?env ?new s1 = (Inr added, s2)"
      and result: "next = filter (\<lambda>p. ps_address p \<in> followed entries) current @ added"
    have sub: "set ?new \<subseteq> {e \<in> set entries. registry_pool_requires_direct_monitoring e}"
      using monitored_entries_subset [of "{}" entries] by auto
    have "distinct (map re_pool_address ?new)"
      using monitored_entries_distinct [of "{}" entries] by (rule distinct_map_filter)
    then have states: "distinct (map ps_address added)" "ps_address ` set added \<subseteq> re_pool_address ` set ?new"
        "\<forall>e \<in> set ?new. re_pool_address e \<in> ps_address ` set added \<or> read_fails ?env e"
      using fetch_entries_states [OF _ _ added] registry_market_reads sub by blast+
    have new: "re_pool_address ` set ?new = followed entries - ps_address ` set current"
      using monitored_entries_addresses [of "{}" entries] by auto
    have "distinct (map ps_address next)"
      using states(1,2) assms(1) new unfolding result by (auto simp: distinct_map_filter)
    moreover have "pool \<in> ps_address ` set next \<or> (\<exists>e \<in> set entries. re_pool_address e = pool \<and> read_fails ?env e)"
      if pool: "pool \<in> followed entries" for pool
    proof (cases "pool \<in> ps_address ` set current")
      case True
      then show ?thesis using pool unfolding result by auto
    next
      case False
      then have "pool \<in> re_pool_address ` set ?new" unfolding new using pool by simp
      then obtain e where e: "e \<in> set ?new" "re_pool_address e = pool" by fastforce
      then have "e \<in> set entries" using sub by blast
      moreover have "pool \<in> ps_address ` set added \<or> read_fails ?env e" using bspec [OF states(3) e(1)] e(2) by simp
      moreover have "ps_address ` set added \<subseteq> ps_address ` set next" unfolding result by auto
      ultimately show ?thesis using e(2) by blast
    qed
    ultimately show ?thesis using states(2) new unfolding result by auto
  qed
qed

text \<open>In the example one pool of the registry is already followed, one is not and cannot be read, and one that was
  followed is no longer in the registry.\<close>

definition followed_state :: "address \<Rightarrow> pool_state" where
  "followed_state pool = dp_state (bare_discovery pool)"

lemma followed_state_address [simp]: "ps_address (followed_state pool) = pool"
  by (simp add: followed_state_def bare_discovery_def discovered_def)

definition offline_market :: "'s market_env" where
  "offline_market = \<lparr>mk_now = (\<lambda>s. (0, s)), mk_get_pool_states = (\<lambda>_. pass []), mk_publish_pool_states = (\<lambda>_ _ _. pass ()),
     mk_set_current_block = (\<lambda>_. pass ()), mk_get_pool_ticks = (\<lambda>_. pass []), mk_replace_pool_ticks = (\<lambda>_ _. pass ()),
     mk_mark_tick_changed_pools = (\<lambda>_. pass ()), mk_get_block_hash = (\<lambda>_. fail ''offline''),
     mk_fetch_pool_state = (\<lambda>_. fail ''offline''), mk_fetch_pool_state_at = (\<lambda>_ _ _. fail ''offline''),
     mk_fetch_initialized_ticks = (\<lambda>_ _. fail ''offline''), mk_enabled_registry_pools = pass [],
     mk_bootstrap_configured_pools = pass [], mk_fetch_classic_fee = (\<lambda>_ _ _ _. fail ''offline''),
     mk_fetch_slipstream_fee = (\<lambda>_ _ _. fail ''offline''), mk_fetch_relevant_events = (\<lambda>_ _ _. pass []),
     mk_discover_protocol_pools = (\<lambda>_ _. pass ()), mk_record_ticks = (\<lambda>_ s. s), mk_record_dex_events = (\<lambda>_ s. s),
     mk_record_pool_states = (\<lambda>_ _ s. s), mk_record_validation = (\<lambda>_. pass ())\<rparr>"

abbreviation example_monitor :: "unit registry_world market_env" where
  "example_monitor \<equiv> registry_market hex_libs silent_node calm_database example_settings None None None offline_market"

lemma example_reload:
  "\<exists>s'. reload_if_changed example_monitor warm [followed_state 8, followed_state 5]
      \<lparr>rw_tables = one_pool_tables, rw_outside = ()\<rparr> = (Inr [followed_state 8], s')"
proof -
  let ?s = "\<lparr>rw_tables = one_pool_tables, rw_outside = ()\<rparr>"
  let ?e = "discovered_entry (bare_discovery 8)"
  have read: "mk_enabled_registry_pools example_monitor ?s = (Inr [?e], ?s)"
    by (simp add: registry_market_def on_chain_def statement_def queried_def calm_database_def one_pool_tables_read)
  have "re_pool_address ?e = 8" "registry_pool_requires_direct_monitoring ?e"
    by (simp_all add: discovered_entry_def bare_discovery_def discovered_def registry_pool_requires_direct_monitoring_def)
  then have "reload_if_changed example_monitor warm [followed_state 8, followed_state 5] ?s = (Inr [followed_state 8], ?s)"
    using read by (simp add: reload_if_changed_def bind_def address_set_def pass_def Let_def)
  then show ?thesis by blast
qed

theorem reload_follows_registry_witness:
  "\<exists>s'. reload_if_changed example_monitor (\<lambda>_ _ s. s) [followed_state 8, followed_state 5]
      \<lparr>rw_tables = one_pool_tables, rw_outside = ()\<rparr> = (Inr [followed_state 8], s') \<and>
    followed_state 8 \<in> set [followed_state 8]"
proof -
  obtain s' where run: "reload_if_changed example_monitor (\<lambda>_ _ s. s) [followed_state 8, followed_state 5]
      \<lparr>rw_tables = one_pool_tables, rw_outside = ()\<rparr> = (Inr [followed_state 8], s')" using example_reload by blast
  have "enabled_registry_pools hex_libs (rw_tables \<lparr>rw_tables = one_pool_tables, rw_outside = ()\<rparr>) =
      Inr [discovered_entry (bare_discovery 8)]" by (simp add: one_pool_tables_read)
  from reload_follows_registry [OF _ this _ run] run show ?thesis by auto
qed

section \<open>Catching up with the chain\<close>

lemma yields_sealed_blocks: "yields (\<lambda>rt. mr_last_seen_block rt = latest) (process_sealed_blocks lib env latest rt)"
  unfolding process_sealed_blocks_def by (auto intro!: yields_intros simp: Let_def)

definition same_position :: "monitor_runtime \<Rightarrow> monitor_runtime \<Rightarrow> bool" where
  "same_position mt mt' \<longleftrightarrow> mr_last_seen_block (mt_market mt') = mr_last_seen_block (mt_market mt) \<and>
     (mt_flashblocks_started mt \<longrightarrow> mt_flashblocks_started mt')"

lemma yields_reload: "yields (same_position mt) (monitor_reload db env mo mt)"
  unfolding monitor_reload_def by (intro yields_intros) (simp_all add: same_position_def)

lemma yields_start_flashblocks:
  "yields (\<lambda>mt'. same_position mt mt' \<and> (b \<longrightarrow> mt_flashblocks_started mt')) (start_flashblocks_if mo b mt)"
  unfolding start_flashblocks_if_def by (intro yields_intros) (auto simp: same_position_def)

definition advanced :: "u64 \<Rightarrow> u64 \<Rightarrow> monitor_runtime \<Rightarrow> bool" where
  "advanced head seen mt \<longleftrightarrow> mr_last_seen_block (mt_market mt) = next_seen sealed_event_max_block_span head seen \<and>
     (head \<le> mr_last_seen_block (mt_market mt) \<longrightarrow> mt_flashblocks_started mt)"

lemma yields_idle_turn:
  assumes "head \<le> mr_last_seen_block (mt_market mt)" "mt_flashblocks_started mt"
  shows "yields (advanced head (mr_last_seen_block (mt_market mt))) (idle_turn db env mo head now mt)"
  using assms unfolding idle_turn_def
  by (intro yields_if yields_fail yields_bind_known [OF yields_reload] yields_bind yields_pass)
    (auto simp: same_position_def advanced_def next_seen_idle)

lemma yields_batch_turn:
  assumes "\<not> head \<le> mr_last_seen_block (mt_market mt)"
  shows "yields (advanced head (mr_last_seen_block (mt_market mt))) (batch_turn lib db env mo head now mt)"
  unfolding batch_turn_def Let_def
  by (intro yields_bind yields_bind_known [OF yields_sealed_blocks] yields_mono [OF yields_start_flashblocks])
    (auto simp: same_position_def advanced_def next_seen_behind [OF assms])

lemma turn_advances:
  assumes "yields P (get_block_number_or_fail rp mo ''market-data block poll'')"
  shows "yields (\<lambda>mt'. \<exists>head. P head \<and> advanced head (mr_last_seen_block (mt_market mt)) mt') (market_data_turn lib rp db env mo mt)"
  unfolding market_data_turn_def
proof (rule yields_bind_known [OF assms], rule yields_bind_known [OF yields_start_flashblocks], rule yields_bind)
  fix head mt1 now
  assume P: "P head" and "same_position mt mt1 \<and> (head \<le> mr_last_seen_block (mt_market mt) \<longrightarrow> mt_flashblocks_started mt1)"
  then have "mr_last_seen_block (mt_market mt1) = mr_last_seen_block (mt_market mt)"
      "head \<le> mr_last_seen_block (mt_market mt1) \<Longrightarrow> mt_flashblocks_started mt1" by (simp_all add: same_position_def)
  note mt1 = this
  show "yields (\<lambda>mt'. \<exists>head. P head \<and> advanced head (mr_last_seen_block (mt_market mt)) mt')
      (if head \<le> mr_last_seen_block (mt_market mt1) then idle_turn db env mo head now mt1 else batch_turn lib db env mo head now mt1)"
    by (intro yields_if yields_mono [OF yields_idle_turn] yields_mono [OF yields_batch_turn]) (use P mt1 in auto)
qed

interpretation market_data: block_loop "market_data_turn lib rp db env mo" "\<lambda>mt. mr_last_seen_block (mt_market mt)"
  "get_block_number_or_fail rp mo ''market-data block poll''" sealed_event_max_block_span
  for lib rp db env mo
  by unfold_locales (rule yields_mono [OF turn_advances], auto simp: advanced_def)

text \<open>A last turn that ends at the head leaves the stream of pending logs started.\<close>

lemma market_data_started:
  assumes "yields (\<lambda>head. unat head \<le> high) (get_block_number_or_fail rp mo ''market-data block poll'')"
    and "run_turns (market_data_turn lib rp db env mo) n mt s = (Inr mt', s')" "0 < n"
    and "high \<le> unat (mr_last_seen_block (mt_market mt'))"
  shows "mt_flashblocks_started mt'"
  using assms(2,3)
proof (induction n arbitrary: mt s)
  case (Suc n)
  obtain mt1 s1 where turn: "market_data_turn lib rp db env mo mt s = (Inr mt1, s1)"
    and rest: "run_turns (market_data_turn lib rp db env mo) n mt1 s1 = (Inr mt', s')"
    using Suc.prems by (auto simp: bind_Inr_iff)
  show ?case
  proof (cases n)
    case 0
    then have "mt1 = mt'" using rest by (simp add: pass_def)
    then show ?thesis
      using yieldsD [OF turn_advances [OF assms(1)] turn] assms(4) by (auto simp: advanced_def word_le_nat_alt)
  qed (use Suc.IH [OF rest] in simp)
qed simp


text \<open>In the example the node stays at block 100, the service has seen block 10 and needs two turns.\<close>

definition head_node :: "'s rpc_env" where
  "head_node = \<lparr>rp_chain_id = 8453, rp_post = (\<lambda>_. pass \<lparr>rs_result = Some (JString (block_text 100)), rs_error = None\<rparr>),
     rp_now = (\<lambda>s. (5, s)), rp_json_text = (\<lambda>_. []), rp_parse_b256 = (\<lambda>_. bail ''no hash'')\<rparr>"

definition idle_monitor :: "'s monitor_env" where
  "idle_monitor = \<lparr>mo_get_current_block = pass None, mo_record_warning = (\<lambda>_. pass ()),
     mo_poll_timed_out = (\<lambda>s. (False, s)), mo_instant = (\<lambda>s. (0, s)), mo_spawn_flashblocks = (\<lambda>s. s)\<rparr>"

definition behind_runtime :: "u64 \<Rightarrow> bool \<Rightarrow> monitor_runtime" where
  "behind_runtime seen started = \<lparr>mt_market = \<lparr>mr_states = [], mr_recent_logs = recent_log_cache_new 20000,
       mr_pending_validations = [], mr_last_seen_block = seen\<rparr>,
     mt_last_advance = 0, mt_next_reload = 1, mt_flashblocks_started = started\<rparr>"

lemma head_poll: "get_block_number_or_fail head_node idle_monitor where' s = (Inr 100, s)"
proof -
  have "get_block_number head_node s = (Inr 100, s)"
    by (rule get_block_number_answers) (simp add: answers_def head_node_def pass_def)
  then show ?thesis
    by (simp add: get_block_number_or_fail_def infallible_def idle_monitor_def bind_def annotate_ok)
qed

lemma idle_instant: "mo_instant idle_monitor = (\<lambda>s. (0, s))" "mo_spawn_flashblocks idle_monitor = (\<lambda>s. s)"
  by (simp_all add: idle_monitor_def)

lemma sealed_batch_empty:
  "process_sealed_blocks lib offline_market latest \<lparr>mr_states = [], mr_recent_logs = logs, mr_pending_validations = [],
     mr_last_seen_block = seen\<rparr> s =
   (Inr \<lparr>mr_states = [], mr_recent_logs = logs, mr_pending_validations = [], mr_last_seen_block = latest\<rparr>, s)"
  by (simp add: process_sealed_blocks_def offline_market_def bind_def pass_def infallible_def background_def sealed_work_new_def
      refresh_sealed_fees_def fee_jobs_def enqueue_validation_snapshots_def Let_def)

lemma example_turn:
  assumes "\<not> 100 \<le> seen" "min 100 (saturating_add seen sealed_event_max_block_span) = latest"
  shows "market_data_turn lib head_node db offline_market idle_monitor (behind_runtime seen False) s =
    (Inr (behind_runtime latest (100 \<le> latest)), s)"
  using assms
  by (simp add: market_data_turn_def batch_turn_def bind_def head_poll start_flashblocks_if_def pass_def behind_runtime_def
      infallible_def idle_instant monitor_reload_def sealed_batch_empty background_def Let_def)

lemma two_turns:
  "market_data_turns lib rp db env mo 2 mt = bind (market_data_turn lib rp db env mo mt) (\<lambda>mt.
     bind (market_data_turn lib rp db env mo mt) pass)"
  by (simp add: numeral_2_eq_2 market_data_turns_def) (auto simp: fun_eq_iff bind_def split: prod.splits sum.splits)

lemma example_turns:
  "market_data_turns lib head_node db offline_market idle_monitor 2 (behind_runtime 10 False) s =
    (Inr (behind_runtime 100 True), s)"
proof -
  have steps: "min 100 (saturating_add 10 sealed_event_max_block_span) = (60 :: u64)"
      "min 100 (saturating_add 60 sealed_event_max_block_span) = (100 :: u64)"
    by (simp_all add: saturating_add_def sealed_event_max_block_span_def)
  have "market_data_turn lib head_node db offline_market idle_monitor (behind_runtime 10 False) s = (Inr (behind_runtime 60 False), s)"
    using example_turn [OF _ steps(1)] by simp
  moreover have "market_data_turn lib head_node db offline_market idle_monitor (behind_runtime 60 False) s = (Inr (behind_runtime 100 True), s)"
    using example_turn [OF _ steps(2)] by simp
  ultimately show ?thesis unfolding two_turns bind_def by (simp only: prod.case sum.case pass_def)
qed


end
