(* ===== verification/Queue_World.thy ===== *)
theory Queue_World
  imports Execution In_Memory
begin

text \<open>
  Taking candidates from the in-memory queue: the loop of \<open>pop_fresh_candidates\<close> returns, and what it
  took, kept and left behind is determined.
\<close>

lemma take_batch: "take (p + length (take l (drop p xs))) xs = take p xs @ take l (drop p xs)"
proof -
  have "take (length (take l ys)) ys = take l ys" for ys :: "'a list" by (simp add: min_def)
  then show ?thesis by (simp only: take_add)
qed

lemma pop_loop_drains:
  assumes "cs = filter (is_fresh now block lag) (take popped queue)" "popped \<le> max_expired_drain"
    "ms_candidates st = drop popped queue" "popped \<le> length queue" "length cs \<le> max_drain"
  shows "\<exists>n st'. pop_loop memory_stores now block lag popped cs (st, c) =
      (Inr (filter (is_fresh now block lag) (take n queue)), (st', c)) \<and>
    st' = st\<lparr>ms_candidates := drop n queue\<rparr> \<and> n \<le> length queue \<and> n \<le> max_expired_drain \<and>
    length (filter (is_fresh now block lag) (take n queue)) \<le> max_drain \<and>
    (n = length queue \<or> n = max_expired_drain \<or>
     length (filter (is_fresh now block lag) (take n queue)) = max_drain)"
  using assms
proof (induction "max_expired_drain - popped" arbitrary: popped cs st rule: less_induct)
  case less
  let ?limit = "min (min pop_chunk (max_expired_drain - popped)) (max_drain - length cs)"
  let ?fresh = "is_fresh now block lag"
  have same: "st\<lparr>ms_candidates := drop popped queue\<rparr> = st" using less.prems(3) by simp
  show ?case
  proof (cases "length cs < max_drain \<and> popped < max_expired_drain")
    case False
    then have "pop_loop memory_stores now block lag popped cs (st, c) = (Inr cs, (st, c))"
      by (subst pop_loop.simps) (simp only: if_False)
    moreover have "popped = max_expired_drain \<or> length cs = max_drain" using False less.prems(2,5) by linarith
    ultimately show ?thesis using less.prems same by (intro exI [of _ popped]) auto
  next
    case go: True
    let ?batch = "take ?limit (drop popped queue)"
    let ?st = "st\<lparr>ms_candidates := drop (popped + length ?batch) queue\<rparr>"
    have pop: "so_pop_candidates memory_stores ?limit (st, c) = (Inr ?batch, (?st, c))"
      using less.prems(3) by (simp add: memory_stores_def in_memory_def pop_candidates_def drop_drop min_def add.commute)
    show ?thesis
    proof (cases "?batch = []")
      case True
      then have "length queue = popped" using go less.prems(4) by (auto simp: min_def split: if_splits)
      moreover have "pop_loop memory_stores now block lag popped cs (st, c) = (Inr cs, (?st, c))"
        by (subst pop_loop.simps) (simp only: if_P [OF go] Let_def pop prod.case sum.case if_P [OF True])
      ultimately show ?thesis using less.prems True same by (intro exI [of _ popped]) auto
    next
      case False
      let ?n = "popped + length ?batch"
      let ?cs = "cs @ filter ?fresh ?batch"
      have step: "pop_loop memory_stores now block lag popped cs (st, c) = pop_loop memory_stores now block lag ?n ?cs (?st, c)"
        by (subst pop_loop.simps) (simp only: if_P [OF go] Let_def pop prod.case sum.case if_not_P [OF False])
      have len: "length ?batch \<le> ?limit" "0 < length ?batch" using False by auto
      have take: "take ?n queue = take popped queue @ ?batch"
        by (rule take_batch)
      have "max_expired_drain - ?n < max_expired_drain - popped" using len go by linarith
      moreover have "?cs = filter ?fresh (take ?n queue)" unfolding take using less.prems(1) by simp
      moreover have "?n \<le> max_expired_drain" using len go by linarith
      moreover have "ms_candidates ?st = drop ?n queue" "?n \<le> length queue" using less.prems(4) by simp_all
      moreover have "length ?cs \<le> max_drain"
        using len go length_filter_le [of ?fresh ?batch] unfolding length_append by linarith
      ultimately have "\<exists>n st'. pop_loop memory_stores now block lag ?n ?cs (?st, c) =
          (Inr (filter ?fresh (take n queue)), (st', c)) \<and>
        st' = ?st\<lparr>ms_candidates := drop n queue\<rparr> \<and> n \<le> length queue \<and> n \<le> max_expired_drain \<and>
        length (filter ?fresh (take n queue)) \<le> max_drain \<and>
        (n = length queue \<or> n = max_expired_drain \<or> length (filter ?fresh (take n queue)) = max_drain)"
        by (rule less.hyps)
      then show ?thesis unfolding step by auto
    qed
  qed
qed

text \<open>Taking candidates from the in-memory queue returns, whatever the queue holds: it first drops the
  candidates of blocks older than the allowed lag, then takes the front of the queue, and returns the fresh
  candidates of what it took, the most profitable first. It stops because the queue is empty, because it holds 128
  fresh candidates, or because 2048 candidates were taken, and nothing else in the stores changes.\<close>

theorem pop_fresh_drains_queue:
  assumes "am_now amb c = (now, c')" "prune_candidates_before_block (saturating_sub block lag) st = (pruned, st1)"
  defines "fresh \<equiv> \<lambda>n. filter (is_fresh now block lag) (take n (ms_candidates st1))"
  shows "\<exists>n. pop_fresh_candidates memory_stores (outside_ambient amb) block lag (st, c) =
      (Inr (sort_desc cd_expected_profit (fresh n)), (st1\<lparr>ms_candidates := drop n (ms_candidates st1)\<rparr>, c')) \<and>
    n \<le> length (ms_candidates st1) \<and> n \<le> 2048 \<and> length (fresh n) \<le> 128 \<and>
    (n = length (ms_candidates st1) \<or> n = 2048 \<or> length (fresh n) = 128)"
proof -
  obtain n st' where pop: "pop_loop memory_stores now block lag 0 [] (st1, c') = (Inr (fresh n), (st', c'))"
      "st' = st1\<lparr>ms_candidates := drop n (ms_candidates st1)\<rparr>" "n \<le> length (ms_candidates st1)" "n \<le> max_expired_drain"
      "length (fresh n) \<le> max_drain"
      "n = length (ms_candidates st1) \<or> n = max_expired_drain \<or> length (fresh n) = max_drain"
    using pop_loop_drains [of "[]" now block lag 0 "ms_candidates st1" st1 c'] unfolding fresh_def by auto
  have "pop_fresh_candidates memory_stores (outside_ambient amb) block lag (st, c) =
      (Inr (sort_desc cd_expected_profit (fresh n)), (st', c'))"
    using assms(1,2) pop(1)
    by (simp add: pop_fresh_candidates_def bind_def infallible_def outside_ambient_def memory_stores_def in_memory_def pass_def)
  then show ?thesis using pop by blast
qed

definition queued :: "uuid \<Rightarrow> u64 \<Rightarrow> candidate" where
  "queued i block = example_candidate\<lparr>cd_id := i, cd_block_number := block\<rparr>"

theorem pop_fresh_drains_queue_witness:
  "pop_fresh_candidates memory_stores (outside_ambient example_ambient) 100 5
      (stores_new\<lparr>ms_candidates := [queued 1 90, queued 2 99]\<rparr>, (0 :: nat)) =
    (Inr [queued 2 99], (stores_new\<lparr>ms_candidates := []\<rparr>, 0))"
proof -
  let ?st = "stores_new\<lparr>ms_candidates := [queued 1 90, queued 2 99]\<rparr>"
  have prune: "prune_candidates_before_block (saturating_sub 100 5) ?st = (1, stores_new\<lparr>ms_candidates := [queued 2 99]\<rparr>)"
    by (simp add: prune_candidates_before_block_def queued_def saturating_sub_def)
  have now: "am_now example_ambient (0 :: nat) = (0, 0)" by (simp add: example_ambient_def)
  have fresh: "is_fresh 0 100 5 (queued 2 99)"
    by (simp add: is_fresh_def is_expired_def queued_def example_candidate_def saturating_sub_def)
  let ?taken = "\<lambda>n. filter (is_fresh 0 100 5) (take n [queued 2 99])"
  have "length (?taken n) \<le> 1" for n
    by (rule order_trans [OF length_filter_le]) simp
  then have short: "length (?taken n) \<noteq> 128" for n
    using le_less_trans [of "length (?taken n)" 1 128] by fastforce
  have queue: "ms_candidates (stores_new\<lparr>ms_candidates := xs\<rparr>) = xs"
      "stores_new\<lparr>ms_candidates := xs\<rparr>\<lparr>ms_candidates := ys\<rparr> = stores_new\<lparr>ms_candidates := ys\<rparr>" for xs ys
    by simp_all
  have one: "length [queued 2 99] = 1" by simp
  obtain n where
    run: "pop_fresh_candidates memory_stores (outside_ambient example_ambient) 100 5 (?st, 0 :: nat) =
      (Inr (sort_desc cd_expected_profit (?taken n)), (stores_new\<lparr>ms_candidates := drop n [queued 2 99]\<rparr>, 0))"
    and "n \<le> 1" "n = 1 \<or> n = 2048 \<or> length (?taken n) = 128"
    using pop_fresh_drains_queue [OF now prune] unfolding queue one by blast
  then have "n = 1" using short [of n] by linarith
  with run show ?thesis by (simp add: fresh sort_desc_def)
qed

end
