(* ===== verification/Redis_Store.thy ===== *)
theory Redis_Store
  imports Stores Floats "HOL-Library.Product_Lexorder" "HOL-Library.List_Lexorder"
begin

text \<open>
  The stores of the running services, \<open>RedisStore\<close> of \<open>crates/storage/src/redis.rs\<close>: the keys, the commands
  each operation sends and what it makes of the answers. The server is its keys and values and the effect of
  the commands the code sends; a connection may break after any number of the commands of a pipeline. The
  JSON texts of the stored structs, the text of an address and the orders in which the server lists the
  members of a set are parameters.
\<close>

section \<open>The server\<close>

text \<open>Keys with an expiry time are kept apart: no other key has the prefix of a lock or of a failure.\<close>

record redis_db =
  rd_strings :: "string \<Rightarrow> string option"
  rd_sets :: "string \<Rightarrow> string set"
  rd_sorted :: "string \<Rightarrow> (string \<times> f64) list"
  rd_expiring :: "string \<Rightarrow> datetime option"

definition redis_empty :: redis_db where
  "redis_empty = \<lparr>rd_strings = (\<lambda>_. None), rd_sets = (\<lambda>_. {}), rd_sorted = (\<lambda>_. []), rd_expiring = (\<lambda>_. None)\<rparr>"

datatype redis_command =
  CmdSet string string
| CmdMset "(string \<times> string) list"
| CmdDel "string list"
| CmdSadd string "string list"
| CmdSetIfNewer string u64
| CmdZadd string "(f64 \<times> string) list"

text \<open>Numbers are stored as decimal texts; the script compares them as Lua numbers, which are doubles.\<close>

definition read_decimal :: "string \<Rightarrow> nat option" where
  "read_decimal s = (if s \<noteq> [] \<and> list_all is_digit s then Some (digits_value s) else None)"

definition newer_number :: "string option \<Rightarrow> u64 \<Rightarrow> bool" where
  "newer_number current next_number =
     (case Option.bind current read_decimal of
        None \<Rightarrow> True
      | Some n \<Rightarrow> f_less (f64_of_nat n) (f64_of_nat (unat next_number)))"

fun zset_add :: "string \<Rightarrow> f64 \<Rightarrow> (string \<times> f64) list \<Rightarrow> (string \<times> f64) list" where
  "zset_add member score [] = [(member, score)]"
| "zset_add member score ((m, s) # z) =
     (if m = member then (m, score) # z else (m, s) # zset_add member score z)"

fun exec_command :: "redis_command \<Rightarrow> redis_db \<Rightarrow> redis_db" where
  "exec_command (CmdSet key v) db = db\<lparr>rd_strings := (rd_strings db)(key \<mapsto> v)\<rparr>"
| "exec_command (CmdMset kvs) db = db\<lparr>rd_strings := fold (\<lambda>(key, v) m. m(key \<mapsto> v)) kvs (rd_strings db)\<rparr>"
| "exec_command (CmdDel keys) db = db\<lparr>rd_strings := (\<lambda>k. if k \<in> set keys then None else rd_strings db k),
     rd_sets := (\<lambda>k. if k \<in> set keys then {} else rd_sets db k),
     rd_sorted := (\<lambda>k. if k \<in> set keys then [] else rd_sorted db k)\<rparr>"
| "exec_command (CmdSadd key members) db = db\<lparr>rd_sets := (rd_sets db)(key := rd_sets db key \<union> set members)\<rparr>"
| "exec_command (CmdSetIfNewer key n) db =
     (if newer_number (rd_strings db key) n then db\<lparr>rd_strings := (rd_strings db)(key \<mapsto> nat_dec (unat n))\<rparr> else db)"
| "exec_command (CmdZadd key entries) db =
     db\<lparr>rd_sorted := (rd_sorted db)(key := fold (\<lambda>(score, member). zset_add member score) entries (rd_sorted db key))\<rparr>"

definition exec_commands :: "redis_command list \<Rightarrow> redis_db \<Rightarrow> redis_db" where
  "exec_commands cmds db = fold exec_command cmds db"

text \<open>\<open>ZPOPMAX\<close> takes the highest scores, and of equal scores the greatest member.\<close>

fun score_rank :: "f64 \<Rightarrow> nat \<times> rat" where
  "score_rank (F_inf neg) = (if neg then 0 else 2, 0)"
| "score_rank (F_fin x) = (1, x)"
| "score_rank F_nan = (3, 0)"

definition by_score :: "(string \<times> f64) list \<Rightarrow> (string \<times> f64) list" where
  "by_score z = rev (sort_key (\<lambda>(member, score). (score_rank score, map (of_char :: char \<Rightarrow> nat) member)) z)"

section \<open>The connection\<close>

text \<open>\<open>lk_broken\<close> is \<open>None\<close> when every command is answered, and otherwise how many commands were carried out
  before the connection broke.\<close>

record 'w redis_link =
  lk_broken :: "'w \<Rightarrow> nat option \<times> 'w"
  lk_now :: "'w \<Rightarrow> datetime \<times> 'w"
  lk_members :: "string set \<Rightarrow> 'w \<Rightarrow> string list"
  lk_popped :: "nat \<Rightarrow> string set \<Rightarrow> 'w \<Rightarrow> string list"

record 'w redis_world =
  rs_db :: redis_db
  rs_outside :: 'w

definition broken_pipe :: "string list" where
  "broken_pipe = [''broken pipe'']"

definition send :: "'w redis_link \<Rightarrow> redis_command list \<Rightarrow> ('w redis_world, unit) act" where
  "send lk cmds = (\<lambda>s. case lk_broken lk (rs_outside s) of
      (None, w) \<Rightarrow> (Inr (), \<lparr>rs_db = exec_commands cmds (rs_db s), rs_outside = w\<rparr>)
    | (Some n, w) \<Rightarrow> (Inl broken_pipe, \<lparr>rs_db = exec_commands (take n cmds) (rs_db s), rs_outside = w\<rparr>))"

text \<open>A single command with an answer; when the connection breaks it may have been carried out.\<close>

definition ask :: "'w redis_link \<Rightarrow> ('w \<Rightarrow> redis_db \<Rightarrow> 'a \<times> redis_db) \<Rightarrow> ('w redis_world, 'a) act" where
  "ask lk command = (\<lambda>s. case lk_broken lk (rs_outside s) of (broken, w) \<Rightarrow>
     case command w (rs_db s) of (x, db) \<Rightarrow>
       (case broken of
          None \<Rightarrow> (Inr x, \<lparr>rs_db = db, rs_outside = w\<rparr>)
        | Some 0 \<Rightarrow> (Inl broken_pipe, \<lparr>rs_db = rs_db s, rs_outside = w\<rparr>)
        | Some (Suc _) \<Rightarrow> (Inl broken_pipe, \<lparr>rs_db = db, rs_outside = w\<rparr>)))"

definition read_key :: "(redis_db \<Rightarrow> 'a) \<Rightarrow> 'w \<Rightarrow> redis_db \<Rightarrow> 'a \<times> redis_db" where
  "read_key f w db = (f db, db)"

section \<open>Keys\<close>

text \<open>The JSON texts of the stored structs, and the text of an address.\<close>

record store_codec =
  jc_pool_text :: "pool_state \<Rightarrow> string"
  jc_read_pool :: "string \<Rightarrow> pool_state anyhow"
  jc_tick_text :: "tick_state \<Rightarrow> string"
  jc_read_tick :: "string \<Rightarrow> tick_state anyhow"
  jc_candidate_text :: "candidate \<Rightarrow> string"
  jc_read_candidate :: "string \<Rightarrow> candidate anyhow"
  jc_lane_text :: "eoa_lane_state \<Rightarrow> string"
  jc_read_lane :: "string \<Rightarrow> eoa_lane_state anyhow"
  jc_show_address :: "address \<Rightarrow> string"

definition pool_state_key :: "store_codec \<Rightarrow> u64 \<Rightarrow> address \<Rightarrow> string" where
  "pool_state_key jc chain_id pool = ''pool:'' @ nat_dec (unat chain_id) @ '':'' @ jc_show_address jc pool"

definition pool_address_index_key :: "store_codec \<Rightarrow> address \<Rightarrow> string" where
  "pool_address_index_key jc pool = ''pool_index:'' @ jc_show_address jc pool"

definition pool_state_index_key :: string where
  "pool_state_index_key = ''pools:index''"

definition tick_state_key :: "store_codec \<Rightarrow> u64 \<Rightarrow> address \<Rightarrow> i32 \<Rightarrow> string" where
  "tick_state_key jc chain_id pool tick =
     ''ticks:'' @ nat_dec (unat chain_id) @ '':'' @ jc_show_address jc pool @ '':'' @ int_dec (sint tick)"

definition tick_pool_index_key :: "store_codec \<Rightarrow> address \<Rightarrow> string" where
  "tick_pool_index_key jc pool = ''ticks:index:'' @ jc_show_address jc pool"

definition candidates_key :: string where
  "candidates_key = ''candidates:priority''"

definition submission_lock_key :: "string \<Rightarrow> string" where
  "submission_lock_key key = ''submitted-candidate-lock:'' @ key"

definition changed_pools_key :: string where
  "changed_pools_key = ''pools:changed''"

definition changed_tick_pools_key :: string where
  "changed_tick_pools_key = ''ticks:changed''"

definition tick_repair_pools_key :: string where
  "tick_repair_pools_key = ''ticks:repair''"

definition current_block_key :: string where
  "current_block_key = ''chain:current_block''"

definition eoa_lane_key :: "store_codec \<Rightarrow> address \<Rightarrow> string" where
  "eoa_lane_key jc a = ''eoa:'' @ jc_show_address jc a @ '':state''"

definition failures_key :: "string \<Rightarrow> string" where
  "failures_key path_hash = ''failures:'' @ path_hash"

section \<open>Writing states\<close>

function chunks :: "nat \<Rightarrow> 'a list \<Rightarrow> 'a list list" where
  "chunks n [] = []"
| "chunks n (x # xs) = take (max 1 n) (x # xs) # chunks n (drop (max 1 n) (x # xs))"
  by pat_completeness auto

termination
  by (relation "measure (\<lambda>(n, xs). length xs)") auto

definition redis_mset_chunk_size :: nat where
  "redis_mset_chunk_size = 1000"

definition redis_mget_chunk_size :: nat where
  "redis_mget_chunk_size = 1000"

definition redis_zadd_chunk_size :: nat where
  "redis_zadd_chunk_size = 512"

definition queue_sadd_addresses :: "string \<Rightarrow> address list \<Rightarrow> redis_command list" where
  "queue_sadd_addresses key pools = (if pools = [] then [] else [CmdSadd key (map address_hex pools)])"

definition queue_mset_entries :: "(string \<times> string) list \<Rightarrow> redis_command list" where
  "queue_mset_entries key_values = map CmdMset (chunks redis_mset_chunk_size key_values)"

definition state_key :: "store_codec \<Rightarrow> pool_state \<Rightarrow> string" where
  "state_key jc p = pool_state_key jc (pid_chain_id (ps_pool_id p)) (ps_address p)"

definition queue_pool_state :: "store_codec \<Rightarrow> pool_state \<Rightarrow> redis_command list" where
  "queue_pool_state jc p =
     [CmdSet (state_key jc p) (jc_pool_text jc p), CmdSet (pool_address_index_key jc (ps_address p)) (state_key jc p),
      CmdSadd pool_state_index_key [state_key jc p]]"

definition redis_set_pool_state ::
    "'w redis_link \<Rightarrow> store_codec \<Rightarrow> pool_state \<Rightarrow> ('w redis_world, unit) act" where
  "redis_set_pool_state lk jc p = send lk (queue_pool_state jc p)"

definition queue_pool_states :: "store_codec \<Rightarrow> pool_state list \<Rightarrow> redis_command list" where
  "queue_pool_states jc ps =
     queue_mset_entries (map (\<lambda>p. (state_key jc p, jc_pool_text jc p)) ps) @
     queue_mset_entries (map (\<lambda>p. (pool_address_index_key jc (ps_address p), state_key jc p)) ps) @
     map (CmdSadd pool_state_index_key) (chunks redis_mset_chunk_size (map (state_key jc) ps))"

definition redis_set_pool_states ::
    "'w redis_link \<Rightarrow> store_codec \<Rightarrow> pool_state list \<Rightarrow> ('w redis_world, unit) act" where
  "redis_set_pool_states lk jc ps = (if ps = [] then pass () else send lk (queue_pool_states jc ps))"

definition queue_publish :: "store_codec \<Rightarrow> u64 \<Rightarrow> pool_state list \<Rightarrow> address list \<Rightarrow> redis_command list" where
  "queue_publish jc current_block ps changed =
     [CmdSetIfNewer current_block_key current_block] @ concat (map (queue_pool_state jc) ps) @
     queue_sadd_addresses changed_pools_key changed"

definition redis_publish_pool_states ::
    "'w redis_link \<Rightarrow> store_codec \<Rightarrow> u64 \<Rightarrow> pool_state list \<Rightarrow> address list \<Rightarrow> ('w redis_world, unit) act" where
  "redis_publish_pool_states lk jc current_block ps changed = send lk (queue_publish jc current_block ps changed)"

definition redis_set_current_block :: "'w redis_link \<Rightarrow> u64 \<Rightarrow> ('w redis_world, unit) act" where
  "redis_set_current_block lk b = send lk [CmdSetIfNewer current_block_key b]"

definition redis_set_lane_state ::
    "'w redis_link \<Rightarrow> store_codec \<Rightarrow> eoa_lane_state \<Rightarrow> ('w redis_world, unit) act" where
  "redis_set_lane_state lk jc l = send lk [CmdSet (eoa_lane_key jc (ln_address l)) (jc_lane_text jc l)]"

section \<open>Writing ticks\<close>

definition key_of_tick :: "store_codec \<Rightarrow> tick_state \<Rightarrow> string" where
  "key_of_tick jc t = tick_state_key jc (pid_chain_id (ts_pool_id t)) (pid_address (ts_pool_id t)) (ts_tick t)"

text \<open>The keys of each pool, the pools in the order of their first tick where the code has a hash map.\<close>

definition serialize_tick_entries ::
    "store_codec \<Rightarrow> tick_state list \<Rightarrow> (string \<times> string) list \<times> (address \<times> string list) list" where
  "serialize_tick_entries jc ts =
     (map (\<lambda>t. (key_of_tick jc t, jc_tick_text jc t)) ts,
      map (\<lambda>pool. (pool, map (key_of_tick jc) (filter (\<lambda>t. pid_address (ts_pool_id t) = pool) ts)))
        (remdups (map (\<lambda>t. pid_address (ts_pool_id t)) ts)))"

definition queue_tick_entries :: "store_codec \<Rightarrow> tick_state list \<Rightarrow> redis_command list" where
  "queue_tick_entries jc ts =
     (case serialize_tick_entries jc ts of (key_values, keys_by_pool) \<Rightarrow>
        if key_values = [] then []
        else queue_mset_entries key_values @
          map (\<lambda>(pool, keys). CmdSadd (tick_pool_index_key jc pool) keys) (filter (\<lambda>(pool, keys). keys \<noteq> []) keys_by_pool))"

definition redis_set_tick_state ::
    "'w redis_link \<Rightarrow> store_codec \<Rightarrow> tick_state \<Rightarrow> ('w redis_world, unit) act" where
  "redis_set_tick_state lk jc t = send lk
     [CmdSet (key_of_tick jc t) (jc_tick_text jc t),
      CmdSadd (tick_pool_index_key jc (pid_address (ts_pool_id t))) [key_of_tick jc t]]"

definition redis_set_tick_states ::
    "'w redis_link \<Rightarrow> store_codec \<Rightarrow> tick_state list \<Rightarrow> ('w redis_world, unit) act" where
  "redis_set_tick_states lk jc ts = (if ts = [] then pass () else send lk (queue_tick_entries jc ts))"

definition redis_smembers :: "'w redis_link \<Rightarrow> string \<Rightarrow> ('w redis_world, string list) act" where
  "redis_smembers lk key = ask lk (\<lambda>w. read_key (\<lambda>db. lk_members lk (rd_sets db key) w) w)"

definition queue_replace_ticks :: "store_codec \<Rightarrow> address \<Rightarrow> tick_state list \<Rightarrow> string list \<Rightarrow> redis_command list" where
  "queue_replace_ticks jc pool ts existing =
     (if existing = [] then [] else [CmdDel existing]) @ [CmdDel [tick_pool_index_key jc pool]] @
     queue_tick_entries jc ts @ [CmdSadd changed_tick_pools_key [address_hex pool]]"

definition redis_replace_pool_ticks ::
    "'w redis_link \<Rightarrow> store_codec \<Rightarrow> address \<Rightarrow> tick_state list \<Rightarrow> ('w redis_world, unit) act" where
  "redis_replace_pool_ticks lk jc pool ts =
     bind (redis_smembers lk (tick_pool_index_key jc pool)) (\<lambda>existing.
     send lk (queue_replace_ticks jc pool ts existing))"

section \<open>Reading\<close>

definition redis_get :: "'w redis_link \<Rightarrow> string \<Rightarrow> ('w redis_world, string option) act" where
  "redis_get lk key = ask lk (read_key (\<lambda>db. rd_strings db key))"

definition redis_mget :: "'w redis_link \<Rightarrow> string list \<Rightarrow> ('w redis_world, string option list) act" where
  "redis_mget lk keys = ask lk (read_key (\<lambda>db. map (rd_strings db) keys))"

definition decode_value :: "(string \<Rightarrow> 'a anyhow) \<Rightarrow> string option \<Rightarrow> 'a option anyhow" where
  "decode_value read v = (case v of None \<Rightarrow> Inr None | Some raw \<Rightarrow> rbind (read raw) (\<lambda>x. Inr (Some x)))"

definition redis_get_pool_state ::
    "'w redis_link \<Rightarrow> store_codec \<Rightarrow> address \<Rightarrow> ('w redis_world, pool_state option) act" where
  "redis_get_pool_state lk jc pool =
     bind (redis_get lk (pool_address_index_key jc pool)) (\<lambda>key.
     case key of
       None \<Rightarrow> pass None
     | Some key \<Rightarrow> bind (redis_get lk key) (\<lambda>v. lift (decode_value (jc_read_pool jc) v)))"

text \<open>The values come back for the existing keys only, in their order.\<close>

fun zip_values :: "(string \<Rightarrow> 'a anyhow) \<Rightarrow> ('k \<times> string option) list \<Rightarrow> string option list \<Rightarrow> ('k \<times> 'a option) list anyhow" where
  "zip_values read [] values = Inr []"
| "zip_values read ((a, None) # keys) values =
     rbind (zip_values read keys values) (\<lambda>rows. Inr ((a, None) # rows))"
| "zip_values read ((a, Some key) # keys) [] =
     rbind (zip_values read keys []) (\<lambda>rows. Inr ((a, None) # rows))"
| "zip_values read ((a, Some key) # keys) (v # values) =
     rbind (decode_value read v) (\<lambda>x. rbind (zip_values read keys values) (\<lambda>rows. Inr ((a, x) # rows)))"

definition redis_get_pool_states ::
    "'w redis_link \<Rightarrow> store_codec \<Rightarrow> address list \<Rightarrow> ('w redis_world, (address \<times> pool_state option) list) act" where
  "redis_get_pool_states lk jc pools =
     (if pools = [] then pass []
      else
        bind (redis_mget lk (map (pool_address_index_key jc) pools)) (\<lambda>pool_keys.
        let existing = List.map_filter id pool_keys in
        bind (if existing = [] then pass [] else redis_mget lk existing) (\<lambda>values.
        lift (zip_values (jc_read_pool jc) (zip pools pool_keys) values))))"

fun redis_mget_chunks ::
    "'w redis_link \<Rightarrow> (string \<Rightarrow> 'a anyhow) \<Rightarrow> string list list \<Rightarrow> ('w redis_world, 'a option list) act" where
  "redis_mget_chunks lk read [] = pass []"
| "redis_mget_chunks lk read (keys # rest) =
     bind (redis_mget lk keys) (\<lambda>values.
     bind (lift (collect_results (decode_value read) values)) (\<lambda>xs.
     bind (redis_mget_chunks lk read rest) (\<lambda>ys. pass (xs @ ys))))"

definition redis_all_pool_states :: "'w redis_link \<Rightarrow> store_codec \<Rightarrow> ('w redis_world, pool_state list) act" where
  "redis_all_pool_states lk jc =
     bind (redis_smembers lk pool_state_index_key) (\<lambda>keys.
     bind (redis_mget_chunks lk (jc_read_pool jc) (chunks redis_mget_chunk_size keys)) (\<lambda>states.
     pass (List.map_filter id states)))"

definition redis_get_current_block :: "'w redis_link \<Rightarrow> ('w redis_world, u64 option) act" where
  "redis_get_current_block lk =
     bind (redis_get lk current_block_key) (\<lambda>v.
     case v of
       None \<Rightarrow> pass None
     | Some text \<Rightarrow>
         (case read_decimal text of
            None \<Rightarrow> fail ''invalid digit found in string''
          | Some n \<Rightarrow> if n < 2 ^ 64 then pass (Some (word_of_nat n)) else fail ''number too large to fit in target type''))"

definition redis_get_lane_state ::
    "'w redis_link \<Rightarrow> store_codec \<Rightarrow> address \<Rightarrow> ('w redis_world, eoa_lane_state option) act" where
  "redis_get_lane_state lk jc a =
     bind (redis_get lk (eoa_lane_key jc a)) (\<lambda>v. lift (decode_value (jc_read_lane jc) v))"

definition redis_get_pool_ticks ::
    "'w redis_link \<Rightarrow> store_codec \<Rightarrow> address \<Rightarrow> ('w redis_world, tick_state list) act" where
  "redis_get_pool_ticks lk jc pool =
     bind (redis_smembers lk (tick_pool_index_key jc pool)) (\<lambda>keys.
     if keys = [] then pass []
     else
       bind (redis_mget lk keys) (\<lambda>values.
       bind (lift (collect_results (decode_value (jc_read_tick jc)) values)) (\<lambda>ticks.
       pass (sort_key (\<lambda>t. sint (ts_tick t)) (List.map_filter id ticks)))))"

text \<open>The members of all index sets come back in one pipeline.\<close>

definition redis_smembers_all :: "'w redis_link \<Rightarrow> string list \<Rightarrow> ('w redis_world, string list list) act" where
  "redis_smembers_all lk keys =
     ask lk (\<lambda>w. read_key (\<lambda>db. map (\<lambda>key. lk_members lk (rd_sets db key) w) keys) w)"

definition redis_get_pool_ticks_many ::
    "'w redis_link \<Rightarrow> store_codec \<Rightarrow> address list \<Rightarrow> ('w redis_world, (address \<times> tick_state list) list) act" where
  "redis_get_pool_ticks_many lk jc pools =
     (if pools = [] then pass []
      else
        let unique = remdups_adj (sort pools) in
        bind (redis_smembers_all lk (map (tick_pool_index_key jc) unique)) (\<lambda>key_sets.
        let all_keys = concat key_sets;
            key_pools = concat (map (\<lambda>(pool, keys). map (\<lambda>_. pool) keys) (zip unique key_sets)) in
        if all_keys = [] then pass []
        else
          bind (redis_mget_chunks lk (jc_read_tick jc) (chunks redis_mget_chunk_size all_keys)) (\<lambda>ticks.
          let found = List.map_filter (\<lambda>(pool, t). map_option (Pair pool) t) (zip key_pools ticks) in
          pass (map (\<lambda>pool. (pool, sort_key (\<lambda>t. sint (ts_tick t)) (map snd (filter (\<lambda>r. fst r = pool) found))))
            (filter (\<lambda>pool. \<exists>r \<in> set found. fst r = pool) unique)))))"

section \<open>Change marks\<close>

definition redis_mark :: "'w redis_link \<Rightarrow> string \<Rightarrow> address list \<Rightarrow> ('w redis_world, unit) act" where
  "redis_mark lk key pools = (if pools = [] then pass () else send lk (queue_sadd_addresses key pools))"

definition redis_spop :: "'w redis_link \<Rightarrow> string \<Rightarrow> nat \<Rightarrow> ('w redis_world, string list) act" where
  "redis_spop lk key limit = ask lk (\<lambda>w db.
     let members = lk_popped lk limit (rd_sets db key) w in
     (members, db\<lparr>rd_sets := (rd_sets db)(key := rd_sets db key - set members)\<rparr>))"

definition redis_drain :: "libs \<Rightarrow> 'w redis_link \<Rightarrow> string \<Rightarrow> nat \<Rightarrow> ('w redis_world, address list) act" where
  "redis_drain lib lk key limit =
     bind (redis_spop lk key limit) (\<lambda>values.
     lift (collect_results (\<lambda>v. ok_or_message (lib_parse_address lib v) ''invalid address'') values))"

definition redis_mark_changed_pools :: "'w redis_link \<Rightarrow> address list \<Rightarrow> ('w redis_world, unit) act" where
  "redis_mark_changed_pools lk pools = redis_mark lk changed_pools_key pools"

definition redis_drain_changed_pools :: "libs \<Rightarrow> 'w redis_link \<Rightarrow> ('w redis_world, address list) act" where
  "redis_drain_changed_pools lib lk = redis_drain lib lk changed_pools_key 100000"

definition redis_mark_tick_changed_pools :: "'w redis_link \<Rightarrow> address list \<Rightarrow> ('w redis_world, unit) act" where
  "redis_mark_tick_changed_pools lk pools = redis_mark lk changed_tick_pools_key pools"

definition redis_drain_tick_changed_pools :: "libs \<Rightarrow> 'w redis_link \<Rightarrow> ('w redis_world, address list) act" where
  "redis_drain_tick_changed_pools lib lk = redis_drain lib lk changed_tick_pools_key 100000"

definition redis_mark_tick_repair_pools :: "'w redis_link \<Rightarrow> address list \<Rightarrow> ('w redis_world, unit) act" where
  "redis_mark_tick_repair_pools lk pools = redis_mark lk tick_repair_pools_key pools"

definition redis_drain_tick_repair_pools :: "libs \<Rightarrow> 'w redis_link \<Rightarrow> nat \<Rightarrow> ('w redis_world, address list) act" where
  "redis_drain_tick_repair_pools lib lk limit =
     (if limit = 0 then pass [] else redis_drain lib lk tick_repair_pools_key limit)"

section \<open>The candidate queue\<close>

definition candidate_score_block_scale :: u64 where
  "candidate_score_block_scale = 100000"

definition candidate_profit_score_digits :: nat where
  "candidate_profit_score_digits = 3"

definition candidate_profit_rank :: "u256 \<Rightarrow> u64" where
  "candidate_profit_rank expected_profit =
     (if expected_profit = 0 then 0
      else
        let decimal = nat_dec (unat expected_profit);
            leading_len = min (length decimal) candidate_profit_score_digits;
            leading = word_of_nat (digits_value (take leading_len decimal)) :: u64;
            padding = candidate_profit_score_digits - leading_len;
            leading = saturating_mul leading (10 ^ padding);
            magnitude_rank = word_of_nat (length decimal - 1) :: u64 in
        min (saturating_add (saturating_mul magnitude_rank (10 ^ candidate_profit_score_digits)) leading)
          (candidate_score_block_scale - 1))"

definition candidate_queue_score :: "candidate \<Rightarrow> f64" where
  "candidate_queue_score c =
     f_add (f64_of_nat (unat (saturating_mul (cd_block_number c) candidate_score_block_scale)))
       (f64_of_nat (unat (candidate_profit_rank (cd_expected_profit c))))"

definition queue_entry :: "store_codec \<Rightarrow> candidate \<Rightarrow> f64 \<times> string" where
  "queue_entry jc c = (candidate_queue_score c, jc_candidate_text jc c)"

definition redis_push_candidate :: "'w redis_link \<Rightarrow> store_codec \<Rightarrow> candidate \<Rightarrow> ('w redis_world, unit) act" where
  "redis_push_candidate lk jc c = send lk [CmdZadd candidates_key [queue_entry jc c]]"

fun redis_push_chunks ::
    "'w redis_link \<Rightarrow> store_codec \<Rightarrow> candidate list list \<Rightarrow> ('w redis_world, unit) act" where
  "redis_push_chunks lk jc [] = pass ()"
| "redis_push_chunks lk jc (cs # rest) =
     bind (send lk [CmdZadd candidates_key (map (queue_entry jc) cs)]) (\<lambda>_. redis_push_chunks lk jc rest)"

definition redis_push_candidates ::
    "'w redis_link \<Rightarrow> store_codec \<Rightarrow> candidate list \<Rightarrow> ('w redis_world, unit) act" where
  "redis_push_candidates lk jc cs = redis_push_chunks lk jc (chunks redis_zadd_chunk_size cs)"

definition redis_prune_candidates_before_block ::
    "'w redis_link \<Rightarrow> u64 \<Rightarrow> ('w redis_world, nat) act" where
  "redis_prune_candidates_before_block lk block_number =
     (if block_number = 0 then pass 0
      else
        let max_stale_score = f64_of_nat (unat (saturating_mul block_number candidate_score_block_scale - 1)) in
        ask lk (\<lambda>w db.
          let stale = filter (\<lambda>(member, score). f_le score max_stale_score) (rd_sorted db candidates_key);
              kept = filter (\<lambda>(member, score). \<not> f_le score max_stale_score) (rd_sorted db candidates_key) in
          (length stale, db\<lparr>rd_sorted := (rd_sorted db)(candidates_key := kept)\<rparr>)))"

definition redis_zpopmax :: "'w redis_link \<Rightarrow> nat \<Rightarrow> ('w redis_world, (string \<times> f64) list) act" where
  "redis_zpopmax lk limit = ask lk (\<lambda>w db.
     let queue = by_score (rd_sorted db candidates_key) in
     (take limit queue, db\<lparr>rd_sorted := (rd_sorted db)(candidates_key := drop limit queue)\<rparr>))"

definition redis_pop_candidate :: "'w redis_link \<Rightarrow> store_codec \<Rightarrow> ('w redis_world, candidate option) act" where
  "redis_pop_candidate lk jc =
     bind (redis_zpopmax lk 1) (\<lambda>result.
     case result of
       [] \<Rightarrow> pass None
     | (payload, _) # _ \<Rightarrow> lift (rbind (jc_read_candidate jc payload) (\<lambda>c. Inr (Some c))))"

definition redis_pop_candidates ::
    "'w redis_link \<Rightarrow> store_codec \<Rightarrow> nat \<Rightarrow> ('w redis_world, candidate list) act" where
  "redis_pop_candidates lk jc limit =
     (if limit = 0 then pass []
      else bind (redis_zpopmax lk limit) (\<lambda>result.
        lift (collect_results (\<lambda>(payload, _). jc_read_candidate jc payload) result)))"

definition redis_clear_candidates :: "'w redis_link \<Rightarrow> ('w redis_world, nat) act" where
  "redis_clear_candidates lk = ask lk (\<lambda>w db.
     (if rd_sorted db candidates_key = [] then 0 else 1, exec_command (CmdDel [candidates_key]) db))"

section \<open>Keys that expire\<close>

definition live_at :: "datetime \<Rightarrow> string \<Rightarrow> redis_db \<Rightarrow> bool" where
  "live_at now key db = (case rd_expiring db key of None \<Rightarrow> False | Some expiry \<Rightarrow> now < expiry)"

definition seconds :: "u64 \<Rightarrow> int" where
  "seconds n = int (unat n) * 10 ^ 9"

text \<open>A lifetime of no seconds is refused by the server. The time is the server's.\<close>

definition timed :: "'w redis_link \<Rightarrow> (datetime \<Rightarrow> ('w redis_world, 'a) act) \<Rightarrow> ('w redis_world, 'a) act" where
  "timed lk m = (\<lambda>s. case lk_now lk (rs_outside s) of (now, w) \<Rightarrow> m now (s\<lparr>rs_outside := w\<rparr>))"

definition set_expiring :: "string \<Rightarrow> datetime \<Rightarrow> redis_db \<Rightarrow> redis_db" where
  "set_expiring key expiry db = db\<lparr>rd_expiring := (rd_expiring db)(key \<mapsto> expiry)\<rparr>"

definition acquire_lock :: "string \<Rightarrow> u64 \<Rightarrow> datetime \<Rightarrow> redis_db \<Rightarrow> bool \<times> redis_db" where
  "acquire_lock key ttl_secs now db =
     (if live_at now (submission_lock_key key) db then (False, db)
      else (True, set_expiring (submission_lock_key key) (now + seconds ttl_secs) db))"

definition redis_try_acquire_submission_lock ::
    "'w redis_link \<Rightarrow> string \<Rightarrow> u64 \<Rightarrow> ('w redis_world, bool) act" where
  "redis_try_acquire_submission_lock lk key ttl_secs =
     (if ttl_secs = 0 then fail ''invalid expire time in 'set' command''
      else timed lk (\<lambda>now. ask lk (\<lambda>w. acquire_lock key ttl_secs now)))"

definition redis_mark_failure_key :: "'w redis_link \<Rightarrow> string \<Rightarrow> u64 \<Rightarrow> ('w redis_world, unit) act" where
  "redis_mark_failure_key lk key ttl_secs =
     (if ttl_secs = 0 then fail ''invalid expire time in 'setex' command''
      else timed lk (\<lambda>now. ask lk (\<lambda>w db. ((), set_expiring (failures_key key) (now + seconds ttl_secs) db))))"

definition redis_has_failure_key :: "'w redis_link \<Rightarrow> string \<Rightarrow> ('w redis_world, bool) act" where
  "redis_has_failure_key lk key = timed lk (\<lambda>now. ask lk (\<lambda>w. read_key (live_at now (failures_key key)) w))"

end
