(* ===== verification/Redis_Queue.thy ===== *)
theory Redis_Queue
  imports Redis_Store "HOL-Library.Multiset"
begin

text \<open>
  The candidate queue in Redis: what the score of a candidate says of its block and profit, and what pruning
  and popping by score therefore do to the queue.
\<close>

section \<open>Decimal texts\<close>

lemma digits_value_append: "digits_value (s @ [c]) = 10 * digits_value s + digit_value c"
  by (simp add: digits_value_def)

lemma decimal_digit: "n < 10 \<Longrightarrow> is_digit (''0123456789'' ! n) \<and> digit_value (''0123456789'' ! n) = n"
proof -
  assume "n < 10"
  then have "n \<in> {0, 1, 2, 3, 4, 5, 6, 7, 8, 9}" by auto
  then show ?thesis by (auto simp: is_digit_def digit_value_def less_eq_char_def)
qed

lemma nat_dec_digits: "list_all is_digit (nat_dec n) \<and> nat_dec n \<noteq> []"
proof (induction n rule: nat_dec.induct)
  case (1 n)
  then show ?case by (subst (1 2) nat_dec.simps) (simp add: decimal_digit)
qed

lemma nat_dec_small: "n < 10 \<Longrightarrow> nat_dec n = [''0123456789'' ! n]"
  by (subst nat_dec.simps) simp

lemma nat_dec_large: "10 \<le> n \<Longrightarrow> nat_dec n = nat_dec (n div 10) @ [''0123456789'' ! (n mod 10)]"
  by (subst nat_dec.simps) simp

lemma digits_value_nat_dec [simp]: "digits_value (nat_dec n) = n"
proof (induction n rule: nat_dec.induct)
  case (1 n)
  show ?case
  proof (cases "n < 10")
    case True
    then show ?thesis using decimal_digit [OF True] by (simp add: nat_dec_small digits_value_def)
  next
    case False
    then show ?thesis using 1 decimal_digit [of "n mod 10"] by (simp add: nat_dec_large digits_value_append)
  qed
qed

lemma nat_dec_inj [simp]: "nat_dec m = nat_dec n \<longleftrightarrow> m = n"
  by (metis digits_value_nat_dec)

lemma read_decimal_nat_dec [simp]: "read_decimal (nat_dec n) = Some n"
  using nat_dec_digits [of n] by (simp add: read_decimal_def)

text \<open>The number of digits, and the number read from the first of them.\<close>

lemma nat_dec_length: "0 < n \<Longrightarrow> 10 ^ (length (nat_dec n) - 1) \<le> n \<and> n < 10 ^ length (nat_dec n)"
proof (induction n rule: nat_dec.induct)
  case (1 n)
  show ?case
  proof (cases "n < 10")
    case True
    then show ?thesis using 1 by (simp add: nat_dec_small)
  next
    case False
    then have n: "nat_dec n = nat_dec (n div 10) @ [''0123456789'' ! (n mod 10)]" by (simp add: nat_dec_large)
    obtain k where k: "length (nat_dec (n div 10)) = Suc k" using nat_dec_digits [of "n div 10"] by (cases "nat_dec (n div 10)") auto
    have "10 ^ k \<le> n div 10" "n div 10 < 10 ^ Suc k" using 1(1) [OF False] False k by auto
    then have "10 * 10 ^ k \<le> n" "n < 10 * 10 ^ Suc k" by linarith+
    then show ?thesis unfolding n using k by simp
  qed
qed

lemma digits_value_take: "k \<le> length (nat_dec n) \<Longrightarrow> digits_value (take k (nat_dec n)) = n div 10 ^ (length (nat_dec n) - k)"
proof (induction n rule: nat_dec.induct)
  case (1 n)
  show ?case
  proof (cases "k = length (nat_dec n)")
    case False
    then have k: "k < length (nat_dec n)" using 1(2) by simp
    show ?thesis
    proof (cases "n < 10")
      case True
      then show ?thesis using k by (simp add: nat_dec_small digits_value_def)
    next
      case large: False
      then have n: "nat_dec n = nat_dec (n div 10) @ [''0123456789'' ! (n mod 10)]" by (simp add: nat_dec_large)
      have le: "k \<le> length (nat_dec (n div 10))" using k unfolding n by simp
      have "digits_value (take k (nat_dec n)) = n div 10 div 10 ^ (length (nat_dec (n div 10)) - k)"
        unfolding n using 1(1) [OF large le] le by simp
      also have "\<dots> = n div 10 ^ (length (nat_dec n) - k)"
        unfolding n using le by (simp add: div_mult2_eq Suc_diff_le)
      finally show ?thesis .
    qed
  qed simp
qed

lemma nat_dec_mono: "0 < m \<Longrightarrow> m \<le> n \<Longrightarrow> length (nat_dec m) \<le> length (nat_dec n)"
proof (rule ccontr)
  assume "0 < m" "m \<le> n" "\<not> length (nat_dec m) \<le> length (nat_dec n)"
  then have "(10 :: nat) ^ length (nat_dec n) \<le> 10 ^ (length (nat_dec m) - 1)" by (intro power_increasing) auto
  then show False using nat_dec_length [of m] nat_dec_length [of n] \<open>0 < m\<close> \<open>m \<le> n\<close> by linarith
qed

section \<open>Ranks\<close>

definition leading_digits :: "nat \<Rightarrow> nat" where
  "leading_digits n = (let l = length (nat_dec n) in if 3 \<le> l then n div 10 ^ (l - 3) else n * 10 ^ (3 - l))"

lemma leading_digits_bounds: "0 < n \<Longrightarrow> 100 \<le> leading_digits n \<and> leading_digits n < 1000"
proof -
  assume n: "0 < n"
  let ?l = "length (nat_dec n)"
  note b = nat_dec_length [OF n]
  show ?thesis
  proof (cases "3 \<le> ?l")
    case True
    then obtain j where j: "?l = 3 + j" using le_Suc_ex by blast
    then have e: "(10 :: nat) ^ (?l - 1) = 100 * 10 ^ (?l - 3)" "(10 :: nat) ^ ?l = 1000 * 10 ^ (?l - 3)"
    proof -
      have d: "3 + j - 1 = 2 + j" "3 + j - 3 = j" by simp_all
      show "(10 :: nat) ^ (?l - 1) = 100 * 10 ^ (?l - 3)" "(10 :: nat) ^ ?l = 1000 * 10 ^ (?l - 3)"
        unfolding j d power_add by simp_all
    qed
    have "100 \<le> n div 10 ^ (?l - 3)" using b unfolding e by (simp add: less_eq_div_iff_mult_less_eq)
    moreover have "n div 10 ^ (?l - 3) < 1000" using b unfolding e by (simp add: div_less_iff_less_mult)
    ultimately show ?thesis using True by (simp add: leading_digits_def Let_def)
  next
    case False
    moreover have "0 < ?l" using nat_dec_digits [of n] by simp
    ultimately have "?l = 1 \<or> ?l = 2" by linarith
    then show ?thesis using b by (auto simp: leading_digits_def)
  qed
qed

lemma leading_digits_mono:
  assumes "0 < m" "m \<le> n" "length (nat_dec m) = length (nat_dec n)"
  shows "leading_digits m \<le> leading_digits n"
  using assms(2) by (auto simp: leading_digits_def assms(3) Let_def intro: div_le_mono)

text \<open>Equal leading digits of numbers of one length: they differ by less than a hundredth.\<close>

lemma leading_digits_precise:
  assumes "0 < m" "m \<le> n" "length (nat_dec m) = length (nat_dec n)" "leading_digits m = leading_digits n"
  shows "100 * n \<le> 101 * m"
proof (cases "3 \<le> length (nat_dec m)")
  case True
  let ?e = "(10 :: nat) ^ (length (nat_dec m) - 3)"
  have div: "m div ?e = n div ?e" "100 \<le> m div ?e"
    using assms(3,4) True leading_digits_bounds [OF assms(1)] by (simp_all add: leading_digits_def Let_def)
  have "n div ?e * ?e + n mod ?e = n" "m div ?e * ?e + m mod ?e = m" "n mod ?e < ?e"
    by (rule div_mult_mod_eq)+ simp
  moreover have "100 * ?e \<le> m div ?e * ?e" using div(2) by simp
  moreover have "n div ?e * ?e = m div ?e * ?e" using div(1) by simp
  ultimately show ?thesis by linarith
next
  case False
  then show ?thesis using assms(3,4) by (simp add: leading_digits_def Let_def)
qed

definition profit_rank :: "nat \<Rightarrow> nat" where
  "profit_rank n = (if n = 0 then 0 else (length (nat_dec n) - 1) * 1000 + leading_digits n)"

lemma unat_profit_rank: "unat (candidate_profit_rank p) = profit_rank (unat p)"
proof (cases "p = 0")
  case False
  then have pos: "0 < unat p" by (simp add: unat_gt_0)
  define n where "n = unat p"
  define l where "l = length (nat_dec n)"
  have n: "0 < n" "n < 2 ^ 256" using pos unat_lt [of p] by (simp_all add: n_def)
  have "l \<le> 78"
  proof (rule ccontr)
    assume "\<not> l \<le> 78"
    then have "(10 :: nat) ^ 78 \<le> 10 ^ (l - 1)" by (intro power_increasing) auto
    then have "(10 :: nat) ^ 78 \<le> n" using nat_dec_length [OF n(1)] by (simp add: l_def)
    then have "(10 :: nat) ^ 78 < 2 ^ 256" using n(2) by linarith
    then show False by simp
  qed
  have l: "1 \<le> l" using nat_dec_digits [of n] by (cases "nat_dec n") (auto simp: l_def)
  let ?k = "min l 3"
  define d where "d = digits_value (take ?k (nat_dec n))"
  have d: "d * 10 ^ (3 - ?k) = leading_digits n"
    using digits_value_take [of ?k n] by (auto simp: d_def leading_digits_def l_def Let_def min_def)
  have small: "d * 10 ^ (3 - ?k) < 1000" "d < 1000"
  proof -
    show a: "d * 10 ^ (3 - ?k) < 1000" using leading_digits_bounds [OF n(1)] d by simp
    have "d * 1 \<le> d * 10 ^ (3 - ?k)" by (rule mult_le_mono2) simp
    then show "d < 1000" using a by linarith
  qed
  have ten: "unat (10 ^ (3 - ?k) :: u64) = 10 ^ (3 - ?k)"
  proof -
    have "?k = 1 \<or> ?k = 2 \<or> ?k = 3" using l by auto
    then show ?thesis by auto
  qed
  have word: "unat (word_of_nat d :: u64) = d" "unat (word_of_nat (l - 1) :: u64) = l - 1"
    using small(2) \<open>l \<le> 78\<close> by (simp_all add: unat_of_nat)
  have rank: "(l - 1) * 1000 + leading_digits n \<le> 77999"
    using \<open>l \<le> 78\<close> leading_digits_bounds [OF n(1)] by linarith
  have mul: "unat (saturating_mul (word_of_nat (l - 1)) 1000 :: u64) = (l - 1) * 1000"
      "unat (saturating_mul (word_of_nat d) (10 ^ (3 - ?k)) :: u64) = leading_digits n"
    unfolding unat_saturating_mul word ten d using \<open>l \<le> 78\<close> leading_digits_bounds [OF n(1)] by simp_all
  have "candidate_profit_rank p = min (saturating_add (saturating_mul (word_of_nat (l - 1)) 1000)
      (saturating_mul (word_of_nat d) (10 ^ (3 - ?k)))) 99999"
    using False by (simp add: candidate_profit_rank_def candidate_profit_score_digits_def candidate_score_block_scale_def
        Let_def n_def l_def d_def)
  then have "unat (candidate_profit_rank p) =
      min (unat (saturating_add (saturating_mul (word_of_nat (l - 1)) 1000)
        (saturating_mul (word_of_nat d :: u64) (10 ^ (3 - ?k))))) 99999"
    by (simp add: min_def word_le_nat_alt)
  also have "\<dots> = (l - 1) * 1000 + leading_digits n"
    unfolding unat_saturating_add mul using rank by simp
  finally show ?thesis using n(1) by (simp add: profit_rank_def n_def l_def)
qed (simp add: candidate_profit_rank_def profit_rank_def)

text \<open>Larger profits have larger ranks, and equal ranks mean profits within a hundredth.\<close>

lemma profit_rank_mono: "m \<le> n \<Longrightarrow> profit_rank m \<le> profit_rank n"
proof (cases "m = 0")
  case False
  assume "m \<le> n"
  with False have pos: "0 < m" "0 < n" by simp_all
  let ?l = "\<lambda>n. length (nat_dec n)"
  have "?l m \<le> ?l n" using pos(1) \<open>m \<le> n\<close> by (rule nat_dec_mono)
  moreover have "0 < ?l m" using nat_dec_digits [of m] by simp
  ultimately consider "?l m = ?l n" | "?l m - 1 + 1 \<le> ?l n - 1" by linarith
  then show ?thesis
  proof cases
    case 1
    then show ?thesis using leading_digits_mono [OF pos(1) \<open>m \<le> n\<close>] pos by (simp add: profit_rank_def)
  next
    case 2
    then have "(?l m - 1) * 1000 + 1000 \<le> (?l n - 1) * 1000" by linarith
    then show ?thesis using leading_digits_bounds [OF pos(1)] pos by (simp add: profit_rank_def)
  qed
qed (simp add: profit_rank_def)

lemma profit_rank_precise:
  assumes "m \<le> n" "profit_rank m = profit_rank n"
  shows "100 * n \<le> 101 * m"
proof (cases "m = 0")
  case True
  then show ?thesis using assms(2) leading_digits_bounds [of n] by (auto simp: profit_rank_def split: if_splits)
next
  case False
  with assms(1) have pos: "0 < m" "0 < n" by simp_all
  let ?l = "\<lambda>n. length (nat_dec n)"
  have eq: "(?l m - 1) * 1000 + leading_digits m = (?l n - 1) * 1000 + leading_digits n"
    using assms(2) pos by (simp add: profit_rank_def)
  note b = leading_digits_bounds [OF pos(1)] leading_digits_bounds [OF pos(2)]
  have "((?l m - 1) * 1000 + leading_digits m) div 1000 = ((?l n - 1) * 1000 + leading_digits n) div 1000"
    by (simp only: eq)
  then have "?l m - 1 = ?l n - 1" using b by simp
  moreover have "?l m \<noteq> 0" "?l n \<noteq> 0" using nat_dec_digits [of m] nat_dec_digits [of n] by simp_all
  ultimately have l: "?l m = ?l n" by linarith
  then have "leading_digits m = leading_digits n" using eq by simp
  with leading_digits_precise [OF pos(1) assms(1) l] show ?thesis by simp
qed

lemma candidate_profit_rank_less: "unat (candidate_profit_rank p) < 100000"
  unfolding candidate_profit_rank_def Let_def candidate_score_block_scale_def
  by (auto simp: min_def word_le_nat_alt word_less_nat_alt not_le)

text \<open>The rank of a profit within a block stays below the width of a block's scores, grows with the profit, and is
  the same only for profits that differ by at most one percent.\<close>

theorem candidate_profit_rank_bounds:
  shows "unat (candidate_profit_rank p) < unat candidate_score_block_scale \<and>
    (unat p \<le> unat q \<longrightarrow> unat (candidate_profit_rank p) \<le> unat (candidate_profit_rank q)) \<and>
    (unat p \<le> unat q \<and> candidate_profit_rank p = candidate_profit_rank q \<longrightarrow> 100 * unat q \<le> 101 * unat p)"
proof -
  show ?thesis
    using candidate_profit_rank_less [of p] profit_rank_mono [of "unat p" "unat q"] profit_rank_precise [of "unat p" "unat q"]
    by (auto simp: unat_profit_rank [symmetric] candidate_score_block_scale_def)
qed

theorem candidate_profit_rank_bounds_witness:
  "100 * unat (2005 :: u256) \<le> 101 * unat (2000 :: u256)"
proof -
  have "nat_dec 2005 = ''2005''" "nat_dec 2000 = ''2000''" by (simp_all add: nat_dec_small nat_dec_large)
  then have "unat (candidate_profit_rank 2000) = unat (candidate_profit_rank 2005)"
    by (simp add: unat_profit_rank profit_rank_def leading_digits_def)
  then have "candidate_profit_rank 2000 = candidate_profit_rank 2005" by (simp only: word_unat_eq_iff)
  then show ?thesis using candidate_profit_rank_bounds [of 2000 2005] by simp
qed

section \<open>The order of the queue\<close>

text \<open>The text of a candidate is read back.\<close>

definition read_back :: "store_codec \<Rightarrow> candidate \<Rightarrow> bool" where
  "read_back jc c \<longleftrightarrow> jc_read_candidate jc (jc_candidate_text jc c) = Inr c"

definition redis_queue :: "store_codec \<Rightarrow> redis_db \<Rightarrow> candidate list" where
  "redis_queue jc db = List.map_filter (\<lambda>(member, _). case jc_read_candidate jc member of Inl _ \<Rightarrow> None | Inr c \<Rightarrow> Some c)
     (rd_sorted db candidates_key)"

text \<open>Up to this block the scores are exact integers.\<close>

definition exact_block :: "u64 \<Rightarrow> bool" where
  "exact_block b \<longleftrightarrow> unat b < 90000000000"

definition queue_of :: "store_codec \<Rightarrow> (string \<times> f64) list \<Rightarrow> candidate list \<Rightarrow> bool" where
  "queue_of jc z cs \<longleftrightarrow> z = map (\<lambda>c. (jc_candidate_text jc c, candidate_queue_score c)) cs \<and>
     (\<forall>c \<in> set cs. exact_block (cd_block_number c) \<and> read_back jc c)"

definition queue_sound :: "store_codec \<Rightarrow> redis_db \<Rightarrow> bool" where
  "queue_sound jc db \<longleftrightarrow> (\<exists>cs. queue_of jc (rd_sorted db candidates_key) cs \<and> distinct cs)"

lemma redis_queue_of:
  assumes "queue_of jc (rd_sorted db candidates_key) cs"
  shows "redis_queue jc db = cs"
proof -
  have "\<forall>c \<in> set cs. read_back jc c" using assms by (simp add: queue_of_def)
  then have "List.map_filter (\<lambda>(member, _). case jc_read_candidate jc member of Inl _ \<Rightarrow> None | Inr c \<Rightarrow> Some c)
      (map (\<lambda>c. (jc_candidate_text jc c, candidate_queue_score c)) cs) = cs"
    by (induction cs) (simp_all add: List.map_filter_simps read_back_def)
  then show ?thesis using assms by (simp add: redis_queue_def queue_of_def)
qed

lemma candidate_text_inj:
  "read_back jc c \<Longrightarrow> read_back jc d \<Longrightarrow> jc_candidate_text jc c = jc_candidate_text jc d \<longleftrightarrow> c = d"
  unfolding read_back_def by (metis sum.inject(2))

lemma score_exact:
  assumes "exact_block (cd_block_number c)"
  shows "candidate_queue_score c =
    F_fin (of_nat (unat (cd_block_number c) * 100000 + profit_rank (unat (cd_expected_profit c))))"
proof -
  let ?b = "unat (cd_block_number c)" and ?r = "profit_rank (unat (cd_expected_profit c))"
  have r: "?r < 100000"
    using candidate_profit_rank_less by (simp add: unat_profit_rank [symmetric])
  have b: "unat (saturating_mul (cd_block_number c) candidate_score_block_scale) = ?b * 100000"
    using assms by (simp add: arith_iff exact_block_def candidate_score_block_scale_def min_def)
  have "?b * 100000 + ?r < 2 ^ 53" using assms r by (simp add: exact_block_def)
  then have "f64_of_nat (?b * 100000) = F_fin (of_nat (?b * 100000))" "f64_of_nat ?r = F_fin (of_nat ?r)"
      "round_f64 (of_nat (?b * 100000 + ?r)) = F_fin (of_nat (?b * 100000 + ?r))"
    by (simp_all only: f64_of_nat_exact round_f64_exact)
  then show ?thesis unfolding candidate_queue_score_def b unat_profit_rank by (simp only: f_add.simps of_nat_add)
qed

text \<open>Newer blocks go first, and within a block no candidate whose profit is more than one percent lower.\<close>

definition goes_first :: "candidate \<Rightarrow> candidate \<Rightarrow> bool" where
  "goes_first c d \<longleftrightarrow> cd_block_number d < cd_block_number c \<or>
     cd_block_number d = cd_block_number c \<and> 100 * unat (cd_expected_profit d) \<le> 101 * unat (cd_expected_profit c)"

lemma score_goes_first:
  assumes "exact_block (cd_block_number c)" "exact_block (cd_block_number d)"
    and "score_rank (candidate_queue_score d) \<le> score_rank (candidate_queue_score c)"
  shows "goes_first c d"
proof -
  let ?b = "\<lambda>c. unat (cd_block_number c)" and ?p = "\<lambda>c. unat (cd_expected_profit c)"
  have "of_nat (?b d * 100000 + profit_rank (?p d)) \<le> (of_nat (?b c * 100000 + profit_rank (?p c)) :: rat)"
    using assms(3) unfolding score_exact [OF assms(1)] score_exact [OF assms(2)] by simp
  then have le: "?b d * 100000 + profit_rank (?p d) \<le> ?b c * 100000 + profit_rank (?p c)" by (simp only: of_nat_le_iff)
  have less: "profit_rank (?p d) < 100000" "profit_rank (?p c) < 100000" using candidate_profit_rank_less by (simp_all add: unat_profit_rank [symmetric])
  show ?thesis
  proof (cases "?b d < ?b c")
    case False
    then have b: "?b d = ?b c" "profit_rank (?p d) \<le> profit_rank (?p c)" using le less by linarith+
    have "100 * ?p d \<le> 101 * ?p c"
    proof (cases "?p d \<le> ?p c")
      case False
      then have "profit_rank (?p c) = profit_rank (?p d)" using b(2) profit_rank_mono [of "?p c" "?p d"] by simp
      then show ?thesis using False profit_rank_precise [of "?p c" "?p d"] by simp
    qed simp
    then show ?thesis using b(1) by (simp add: goes_first_def word_unat_eq_iff)
  qed (simp add: goes_first_def word_less_nat_alt)
qed

lemma by_score_sorted:
  "sorted_wrt (\<lambda>x y. score_rank (snd y) \<le> score_rank (snd x)) (by_score z)" "mset (by_score z) = mset z"
proof -
  let ?key = "\<lambda>(member, score). (score_rank score, map (of_char :: char \<Rightarrow> nat) member)"
  have "sorted_wrt (\<lambda>x y. ?key y \<le> ?key x) (rev (sort_key ?key z))"
    unfolding sorted_wrt_rev using sorted_sort_key [of ?key z] by (simp add: sorted_map)
  then show "sorted_wrt (\<lambda>x y. score_rank (snd y) \<le> score_rank (snd x)) (by_score z)"
    unfolding by_score_def by (rule sorted_wrt_mono_rel [rotated]) (auto simp: less_eq_prod_simp)
qed (simp add: by_score_def)

text \<open>The queue in the order in which its candidates are popped.\<close>

lemma queue_by_score:
  assumes "queue_of jc z cs"
  obtains ds where "by_score z = map (\<lambda>c. (jc_candidate_text jc c, candidate_queue_score c)) ds" "mset ds = mset cs"
    "sorted_wrt goes_first ds" "\<forall>c \<in> set ds. exact_block (cd_block_number c) \<and> read_back jc c"
proof -
  let ?entry = "\<lambda>c. (jc_candidate_text jc c, candidate_queue_score c)"
  have z: "z = map ?entry cs" and sound: "\<forall>c \<in> set cs. exact_block (cd_block_number c) \<and> read_back jc c"
    using assms(1) by (simp_all add: queue_of_def)
  have "mset (by_score z) = mset (map ?entry cs)" using by_score_sorted(2) z by simp
  then have set: "set (by_score z) = ?entry ` set cs" by (metis mset_eq_setD set_map)
  let ?read = "\<lambda>(member, _ :: f64). projr (jc_read_candidate jc member)"
  have read: "?read (?entry c) = c" if "c \<in> set cs" for c using sound that by (simp add: read_back_def)
  define ds where "ds = map ?read (by_score z)"
  have "map ?entry ds = by_score z" unfolding ds_def map_map using set read by (intro map_idI) auto
  moreover have "map ?read (map ?entry cs) = cs" unfolding map_map using read by (intro map_idI) simp
  then have "mset ds = mset cs"
    unfolding ds_def using arg_cong [OF \<open>mset (by_score z) = mset (map ?entry cs)\<close>, of "image_mset ?read"]
    by (simp only: mset_map [symmetric])
  ultimately have ds: "by_score z = map ?entry ds" "mset ds = mset cs" by simp_all
  have blocks: "\<forall>c \<in> set ds. exact_block (cd_block_number c) \<and> read_back jc c" using sound ds(2) by (metis mset_eq_setD)
  have "sorted_wrt (\<lambda>c d. score_rank (candidate_queue_score d) \<le> score_rank (candidate_queue_score c)) ds"
    using by_score_sorted(1) [of z] unfolding ds(1) by (simp add: sorted_wrt_map)
  then have "sorted_wrt goes_first ds"
    by (rule sorted_wrt_mono_rel [rotated]) (use blocks in \<open>auto intro: score_goes_first\<close>)
  then show ?thesis using that ds blocks by blast
qed

text \<open>Popping takes the candidates of the newest blocks, and within a block none is taken before one whose profit is
  more than one percent higher: the queue splits into what is returned and what stays, in that order. The blocks
  are below ninety billion, where the scores are exact.\<close>

theorem redis_pop_takes_best:
  assumes "queue_sound jc (rs_db s)" "redis_pop_candidates lk jc limit s = (Inr cs, s')"
  shows "mset (redis_queue jc (rs_db s)) = mset cs + mset (redis_queue jc (rs_db s')) \<and>
    length cs = min limit (length (redis_queue jc (rs_db s))) \<and>
    sorted_wrt goes_first cs \<and> (\<forall>c \<in> set cs. \<forall>d \<in> set (redis_queue jc (rs_db s')). goes_first c d)"
proof (cases "limit = 0")
  case False
  obtain all where all: "queue_of jc (rd_sorted (rs_db s) candidates_key) all" "distinct all"
    using assms(1) by (auto simp: queue_sound_def)
  let ?entry = "\<lambda>c. (jc_candidate_text jc c, candidate_queue_score c)"
  obtain ds where ds: "by_score (rd_sorted (rs_db s) candidates_key) = map ?entry ds" "mset ds = mset all"
    "sorted_wrt goes_first ds" "\<forall>c \<in> set ds. exact_block (cd_block_number c) \<and> read_back jc c"
    using queue_by_score [OF all(1)] .
  have db: "rs_db s' = (rs_db s)\<lparr>rd_sorted := (rd_sorted (rs_db s))(candidates_key := map ?entry (drop limit ds))\<rparr>"
    and cs: "collect_results (\<lambda>(payload, _). jc_read_candidate jc payload) (map ?entry (take limit ds)) = Inr cs"
    using assms(2) False
    by (auto simp: redis_pop_candidates_def redis_zpopmax_def ask_def bind_def lift_def ds(1) take_map drop_map Let_def
        split: prod.splits option.splits nat.splits sum.splits)
  have "collect_results (\<lambda>(payload, _). jc_read_candidate jc payload) (map ?entry xs) = Inr xs"
      if "\<forall>c \<in> set xs. read_back jc c" for xs
    using that by (induction xs) (simp_all add: read_back_def)
  from this [of "take limit ds"] have cs: "cs = take limit ds" using cs ds(4) by (auto dest: in_set_takeD)
  have "queue_of jc (rd_sorted (rs_db s') candidates_key) (drop limit ds)"
    using ds(4) db by (auto simp: queue_of_def dest: in_set_dropD)
  then have queue: "redis_queue jc (rs_db s') = drop limit ds" "redis_queue jc (rs_db s) = all"
    using redis_queue_of all(1) by auto
  have "length ds = length all" using ds(2) by (rule mset_eq_length)
  moreover have "mset all = mset (take limit ds) + mset (drop limit ds)"
    unfolding ds(2) [symmetric] mset_append [symmetric] by simp
  moreover have "sorted_wrt goes_first (take limit ds @ drop limit ds)" using ds(3) by simp
  ultimately show ?thesis unfolding queue cs sorted_wrt_append by (simp add: min.commute)
qed (use assms(2) in \<open>simp add: redis_pop_candidates_def pass_def\<close>)

section \<open>Pushing and pruning\<close>

lemma concat_chunks [simp]: "concat (chunks n xs) = xs"
  by (induction n xs rule: chunks.induct) simp_all

definition enqueue :: "candidate list \<Rightarrow> candidate list \<Rightarrow> candidate list" where
  "enqueue new queue = fold (\<lambda>c cs. if c \<in> set cs then cs else cs @ [c]) new queue"

lemma enqueue_set: "set (enqueue new queue) = set queue \<union> set new" "distinct queue \<Longrightarrow> distinct (enqueue new queue)"
  by (induction new arbitrary: queue) (auto simp: enqueue_def)

lemma enqueue_append: "enqueue (xs @ ys) queue = enqueue ys (enqueue xs queue)"
  by (simp add: enqueue_def)

lemma zset_add_queue:
  assumes "queue_of jc z cs" "exact_block (cd_block_number c)" "read_back jc c"
  shows "queue_of jc (zset_add (jc_candidate_text jc c) (candidate_queue_score c) z) (enqueue [c] cs)"
proof -
  let ?entry = "\<lambda>c. (jc_candidate_text jc c, candidate_queue_score c)"
  have "\<forall>d \<in> set cs. read_back jc d" using assms(1) by (simp add: queue_of_def)
  then have "zset_add (jc_candidate_text jc c) (candidate_queue_score c) (map ?entry cs) = map ?entry (enqueue [c] cs)"
    by (induction cs) (auto simp: enqueue_def candidate_text_inj [OF _ assms(3)])
  then show ?thesis using assms enqueue_set(1) [of "[c]" cs] by (simp add: queue_of_def)
qed

lemma zadd_queue:
  "queue_of jc z cs \<Longrightarrow> \<forall>c \<in> set new. exact_block (cd_block_number c) \<and> read_back jc c \<Longrightarrow>
    queue_of jc (fold (\<lambda>(score, member). zset_add member score) (map (queue_entry jc) new) z) (enqueue new cs)"
proof (induction new arbitrary: z cs)
  case (Cons c new)
  have "queue_of jc (zset_add (jc_candidate_text jc c) (candidate_queue_score c) z) (enqueue [c] cs)"
    using Cons.prems by (intro zset_add_queue) auto
  from Cons.IH [OF this] Cons.prems(2) show ?case by (simp add: queue_entry_def enqueue_def)
qed (simp add: enqueue_def)

lemma push_chunk:
  assumes "queue_of jc (rd_sorted (rs_db s) candidates_key) cs" "\<forall>c \<in> set new. exact_block (cd_block_number c) \<and> read_back jc c"
    and "send lk [CmdZadd candidates_key (map (queue_entry jc) new)] s = (r, s')"
  shows "queue_of jc (rd_sorted (rs_db s') candidates_key) (enqueue new cs) \<or>
    r = Inl broken_pipe \<and> queue_of jc (rd_sorted (rs_db s') candidates_key) cs"
proof -
  obtain broken w where "lk_broken lk (rs_outside s) = (broken, w)" by (metis prod.exhaust)
  then show ?thesis using assms(1,3) zadd_queue [OF assms(1,2)]
    by (cases broken) (auto simp: send_def exec_commands_def take_Cons' split: if_splits)
qed

text \<open>However far a push gets, the queue is what it was and a first part of the new candidates.\<close>

lemma push_chunks:
  "queue_of jc (rd_sorted (rs_db s) candidates_key) cs \<Longrightarrow>
    \<forall>c \<in> set (concat news). exact_block (cd_block_number c) \<and> read_back jc c \<Longrightarrow>
    redis_push_chunks lk jc news s = (r, s') \<Longrightarrow>
    \<exists>added. queue_of jc (rd_sorted (rs_db s') candidates_key) (enqueue added cs) \<and> set added \<subseteq> set (concat news) \<and>
      (r = Inr () \<longrightarrow> added = concat news)"
proof (induction news arbitrary: s cs)
  case Nil
  then show ?case by (intro exI [of _ "[]"]) (simp add: pass_def enqueue_def)
next
  case (Cons new news)
  obtain r1 s1 where run: "send lk [CmdZadd candidates_key (map (queue_entry jc) new)] s = (r1, s1)" by (metis prod.exhaust)
  have exact: "\<forall>c \<in> set new. exact_block (cd_block_number c) \<and> read_back jc c" using Cons.prems(2) by simp
  show ?case
  proof (cases r1)
    case (Inl e)
    then have s': "s' = s1" "r = Inl e" using Cons.prems(3) run by (simp_all add: bind_def)
    from push_chunk [OF Cons.prems(1) exact run] show ?thesis
    proof
      assume "queue_of jc (rd_sorted (rs_db s1) candidates_key) (enqueue new cs)"
      then show ?thesis using s' by (intro exI [of _ new]) simp
    next
      assume "r1 = Inl broken_pipe \<and> queue_of jc (rd_sorted (rs_db s1) candidates_key) cs"
      then show ?thesis using s' by (intro exI [of _ "[]"]) (simp add: enqueue_def)
    qed
  next
    case (Inr u)
    then have "queue_of jc (rd_sorted (rs_db s1) candidates_key) (enqueue new cs)"
      and rest: "redis_push_chunks lk jc news s1 = (r, s')"
      using push_chunk [OF Cons.prems(1) exact run] Cons.prems(3) run by (auto simp: bind_def)
    from Cons.IH [OF this(1) _ rest] Cons.prems(2) obtain added where
      "queue_of jc (rd_sorted (rs_db s') candidates_key) (enqueue added (enqueue new cs))" "set added \<subseteq> set (concat news)"
      "r = Inr () \<longrightarrow> added = concat news" by auto
    then show ?thesis by (intro exI [of _ "new @ added"]) (auto simp: enqueue_append)
  qed
qed

lemma stale_score:
  assumes "exact_block b" "b \<noteq> 0" "exact_block (cd_block_number c)"
  shows "f_le (candidate_queue_score c) (f64_of_nat (unat (saturating_mul b candidate_score_block_scale - 1))) \<longleftrightarrow>
    cd_block_number c < b"
proof -
  let ?c = "unat (cd_block_number c)" and ?r = "profit_rank (unat (cd_expected_profit c))"
  have b: "0 < unat b" using assms(2) by (simp add: unat_gt_0)
  have scale: "unat (saturating_mul b candidate_score_block_scale) = unat b * 100000"
    using assms(1) by (simp add: arith_iff exact_block_def candidate_score_block_scale_def min_def)
  have "saturating_mul b candidate_score_block_scale \<noteq> 0" using scale b by (metis mult_is_0 not_gr_zero unat_0 zero_neq_numeral)
  then have "unat (saturating_mul b candidate_score_block_scale - 1) = unat b * 100000 - 1"
    using scale unat_minus_one by metis
  moreover have "unat b * 100000 - 1 < 2 ^ 53" using assms(1) by (simp add: exact_block_def)
  ultimately have max_score: "f64_of_nat (unat (saturating_mul b candidate_score_block_scale - 1)) =
      F_fin (of_nat (unat b * 100000 - 1))" by (simp only: f64_of_nat_exact)
  have "?r < 100000" using candidate_profit_rank_less by (simp add: unat_profit_rank [symmetric])
  then have "?c * 100000 + ?r \<le> unat b * 100000 - 1 \<longleftrightarrow> ?c < unat b" using b by linarith
  moreover have "f_le (F_fin (of_nat m)) (F_fin (of_nat n)) \<longleftrightarrow> m \<le> n" for m n :: nat
    by (simp only: f_le.simps f_less.simps of_nat_less_iff not_less)
  ultimately show ?thesis unfolding score_exact [OF assms(3)] max_score by (simp only: word_less_nat_alt)
qed

lemma prune_queue:
  assumes "queue_of jc (rd_sorted (rs_db s) candidates_key) cs" "exact_block b"
    and "redis_prune_candidates_before_block lk b s = (Inr n, s')"
  shows "queue_of jc (rd_sorted (rs_db s') candidates_key) (filter (\<lambda>c. b \<le> cd_block_number c) cs) \<and>
    n = length (filter (\<lambda>c. cd_block_number c < b) cs)"
proof (cases "b = 0")
  case True
  then show ?thesis using assms(1,3) by (simp add: redis_prune_candidates_before_block_def pass_def)
next
  case False
  let ?entry = "\<lambda>c. (jc_candidate_text jc c, candidate_queue_score c)"
  let ?stale = "\<lambda>score. f_le score (f64_of_nat (unat (saturating_mul b candidate_score_block_scale - 1)))"
  have z: "rd_sorted (rs_db s) candidates_key = map ?entry cs" and exact: "\<forall>c \<in> set cs. exact_block (cd_block_number c) \<and> read_back jc c"
    using assms(1) by (simp_all add: queue_of_def)
  have stale: "?stale (candidate_queue_score c) \<longleftrightarrow> cd_block_number c < b" if "c \<in> set cs" for c
    using stale_score [OF assms(2) False] exact that by simp
  have "filter (\<lambda>(member, score). ?stale score) (map ?entry cs) = map ?entry (filter (\<lambda>c. cd_block_number c < b) cs)"
    "filter (\<lambda>(member, score). \<not> ?stale score) (map ?entry cs) = map ?entry (filter (\<lambda>c. b \<le> cd_block_number c) cs)"
    using stale by (simp_all add: filter_map comp_def not_less [symmetric] cong: filter_cong)
  then show ?thesis using assms(3) False exact
    by (auto simp: redis_prune_candidates_before_block_def ask_def queue_of_def z Let_def
        split: prod.splits option.splits nat.splits)
qed

text \<open>A push adds the given candidates to the queue, each text once, and when the connection breaks a part of
  them; pruning then removes exactly the candidates of older blocks and returns their number.\<close>

theorem redis_queue_exact:
  assumes "queue_sound jc (rs_db s)" "\<forall>c \<in> set cs. exact_block (cd_block_number c) \<and> read_back jc c" "exact_block b"
    and "redis_push_candidates lk jc cs s = (r, s1)" "redis_prune_candidates_before_block lk b s1 = (Inr n, s2)"
  shows "set (redis_queue jc (rs_db s)) \<subseteq> set (redis_queue jc (rs_db s1)) \<and>
    set (redis_queue jc (rs_db s1)) \<subseteq> set (redis_queue jc (rs_db s)) \<union> set cs \<and>
    (r = Inr () \<longrightarrow> set cs \<subseteq> set (redis_queue jc (rs_db s1))) \<and>
    redis_queue jc (rs_db s2) = filter (\<lambda>c. b \<le> cd_block_number c) (redis_queue jc (rs_db s1)) \<and>
    n = length (filter (\<lambda>c. cd_block_number c < b) (redis_queue jc (rs_db s1))) \<and>
    queue_sound jc (rs_db s1) \<and> queue_sound jc (rs_db s2) \<and> distinct (redis_queue jc (rs_db s2))"
proof -
  obtain all where all: "queue_of jc (rd_sorted (rs_db s) candidates_key) all" "distinct all"
    using assms(1) by (auto simp: queue_sound_def)
  obtain added where q1: "queue_of jc (rd_sorted (rs_db s1) candidates_key) (enqueue added all)"
    and pushed: "set added \<subseteq> set cs" "r = Inr () \<longrightarrow> added = cs"
    using push_chunks [OF all(1) _ assms(4) [unfolded redis_push_candidates_def]] assms(2) by auto
  let ?q1 = "enqueue added all"
  have q2: "queue_of jc (rd_sorted (rs_db s2) candidates_key) (filter (\<lambda>c. b \<le> cd_block_number c) ?q1)"
    and n: "n = length (filter (\<lambda>c. cd_block_number c < b) ?q1)"
    using prune_queue [OF q1 assms(3,5)] by simp_all
  have d: "distinct ?q1" using all(2) by (rule enqueue_set(2))
  note queues = redis_queue_of [OF all(1)] redis_queue_of [OF q1] redis_queue_of [OF q2]
  show ?thesis unfolding queues n using pushed d q1 q2 by (auto simp: enqueue_set(1) queue_sound_def)
qed

section \<open>An example\<close>

text \<open>Texts for two candidates, and a connection that does not break.\<close>

definition example_older_candidate :: candidate where
  "example_older_candidate = example_candidate\<lparr>cd_id := 2, cd_block_number := 9, cd_expected_profit := 900\<rparr>"

definition example_codec :: store_codec where
  "example_codec = \<lparr>jc_pool_text = (\<lambda>_. ''pool''), jc_read_pool = (\<lambda>_. Inr example_pool),
     jc_tick_text = (\<lambda>_. ''tick''), jc_read_tick = (\<lambda>_. Inr (example_tick 7 1)),
     jc_candidate_text = (\<lambda>c. nat_dec (unat (cd_block_number c))),
     jc_read_candidate = (\<lambda>raw. Inr (if raw = nat_dec 10 then example_candidate else example_older_candidate)),
     jc_lane_text = (\<lambda>_. ''lane''), jc_read_lane = (\<lambda>_. Inl [''no lane'']), jc_show_address = address_hex\<rparr>"

definition example_link :: "unit redis_link" where
  "example_link = \<lparr>lk_broken = (\<lambda>w. (None, w)), lk_now = (\<lambda>w. (0, w)), lk_members = (\<lambda>_ _. []),
     lk_popped = (\<lambda>_ _ _. [])\<rparr>"

definition example_db :: redis_db where
  "example_db = redis_empty\<lparr>rd_sorted := (\<lambda>_. map (\<lambda>c. (jc_candidate_text example_codec c, candidate_queue_score c))
     [example_older_candidate, example_candidate])\<rparr>"

lemma example_candidates:
  "cd_block_number example_candidate = 10" "cd_block_number example_older_candidate = 9"
  "exact_block 10" "exact_block 9" "read_back example_codec example_candidate"
  "read_back example_codec example_older_candidate" "example_older_candidate \<noteq> example_candidate"
  by (simp_all add: example_candidate_def example_older_candidate_def exact_block_def read_back_def example_codec_def)

lemma example_queue: "queue_of example_codec (rd_sorted example_db candidates_key) [example_older_candidate, example_candidate]"
  by (simp add: queue_of_def example_db_def example_candidates)

lemma example_queue_sound: "queue_sound example_codec example_db"
  using example_queue by (auto simp: queue_sound_def example_candidates intro!: exI [of _ "[example_older_candidate, example_candidate]"])

theorem redis_pop_takes_best_witness:
  "\<exists>cs s'. redis_pop_candidates example_link example_codec 1 \<lparr>rs_db = example_db, rs_outside = ()\<rparr> = (Inr cs, s') \<and>
     length cs = 1 \<and> sorted_wrt goes_first cs"
proof -
  let ?s = "\<lparr>rs_db = example_db, rs_outside = ()\<rparr>"
  have "\<exists>r s'. redis_zpopmax example_link 1 ?s = (Inr r, s')"
    by (simp add: redis_zpopmax_def ask_def example_link_def Let_def)
  moreover have "\<exists>cs. collect_results (\<lambda>(payload, _). jc_read_candidate example_codec payload) r = Inr cs" for r :: "(string \<times> f64) list"
    by (induction r) (auto simp: example_codec_def)
  ultimately obtain cs s' where run: "redis_pop_candidates example_link example_codec 1 ?s = (Inr cs, s')"
    by (fastforce simp: redis_pop_candidates_def bind_def lift_def)
  have "redis_queue example_codec example_db = [example_older_candidate, example_candidate]"
    by (rule redis_queue_of [OF example_queue])
  then show ?thesis using run redis_pop_takes_best [OF _ run] example_queue_sound by auto
qed

theorem redis_queue_exact_witness:
  "\<exists>s1 n s2. redis_push_candidates example_link example_codec [example_candidate] \<lparr>rs_db = example_db, rs_outside = ()\<rparr> = (Inr (), s1) \<and>
     redis_prune_candidates_before_block example_link 10 s1 = (Inr n, s2) \<and>
     redis_queue example_codec (rs_db s2) = filter (\<lambda>c. 10 \<le> cd_block_number c) (redis_queue example_codec (rs_db s1))"
proof -
  let ?s = "\<lparr>rs_db = example_db, rs_outside = ()\<rparr>"
  obtain s1 where push: "redis_push_candidates example_link example_codec [example_candidate] ?s = (Inr (), s1)"
    by (simp add: redis_push_candidates_def redis_zadd_chunk_size_def send_def example_link_def bind_def pass_def)
  obtain n s2 where prune: "redis_prune_candidates_before_block example_link 10 s1 = (Inr n, s2)"
    by (simp add: redis_prune_candidates_before_block_def ask_def example_link_def Let_def)
  show ?thesis
    using redis_queue_exact [OF _ _ _ push prune] push prune example_queue_sound by (auto simp: example_candidates)
qed

end
