(* ===== verification/Redis_World.thy ===== *)
theory Redis_World
  imports Redis_Queue Act_Triples Hex_Text
begin

text \<open>
  The stores as the services use them over time: any sequence of store operations on one server, with
  connections that may break. What the expiring lock of a submission promises, what readers can see when
  writes break off, and that unbroken writes give what the in-memory stores give.
\<close>

section \<open>Operations in sequence\<close>

datatype redis_op =
    OpSetPool pool_state
  | OpSetPools "pool_state list"
  | OpPublish u64 "pool_state list" "address list"
  | OpSetBlock u64
  | OpSetLane eoa_lane_state
  | OpSetTick tick_state
  | OpSetTicks "tick_state list"
  | OpReplaceTicks address "tick_state list"
  | OpMarkPools "address list"
  | OpMarkTicks "address list"
  | OpMarkRepairs "address list"
  | OpDrainPools
  | OpDrainTicks
  | OpDrainRepairs nat
  | OpPush "candidate list"
  | OpPop nat
  | OpPrune u64
  | OpClear
  | OpLock string u64
  | OpFailure string u64

text \<open>The answer of an operation that is not a question is \<open>True\<close>.\<close>

definition answered :: "('w redis_world, 'a) act \<Rightarrow> ('w redis_world, bool) act" where
  "answered m = bind m (\<lambda>_. pass True)"

fun run_op :: "libs \<Rightarrow> 'w redis_link \<Rightarrow> store_codec \<Rightarrow> redis_op \<Rightarrow> ('w redis_world, bool) act" where
  "run_op lib lk jc (OpSetPool p) = answered (redis_set_pool_state lk jc p)"
| "run_op lib lk jc (OpSetPools ps) = answered (redis_set_pool_states lk jc ps)"
| "run_op lib lk jc (OpPublish b ps changed) = answered (redis_publish_pool_states lk jc b ps changed)"
| "run_op lib lk jc (OpSetBlock b) = answered (redis_set_current_block lk b)"
| "run_op lib lk jc (OpSetLane l) = answered (redis_set_lane_state lk jc l)"
| "run_op lib lk jc (OpSetTick t) = answered (redis_set_tick_state lk jc t)"
| "run_op lib lk jc (OpSetTicks ts) = answered (redis_set_tick_states lk jc ts)"
| "run_op lib lk jc (OpReplaceTicks pool ts) = answered (redis_replace_pool_ticks lk jc pool ts)"
| "run_op lib lk jc (OpMarkPools pools) = answered (redis_mark_changed_pools lk pools)"
| "run_op lib lk jc (OpMarkTicks pools) = answered (redis_mark_tick_changed_pools lk pools)"
| "run_op lib lk jc (OpMarkRepairs pools) = answered (redis_mark_tick_repair_pools lk pools)"
| "run_op lib lk jc OpDrainPools = answered (redis_drain_changed_pools lib lk)"
| "run_op lib lk jc OpDrainTicks = answered (redis_drain_tick_changed_pools lib lk)"
| "run_op lib lk jc (OpDrainRepairs limit) = answered (redis_drain_tick_repair_pools lib lk limit)"
| "run_op lib lk jc (OpPush cs) = answered (redis_push_candidates lk jc cs)"
| "run_op lib lk jc (OpPop limit) = answered (redis_pop_candidates lk jc limit)"
| "run_op lib lk jc (OpPrune b) = answered (redis_prune_candidates_before_block lk b)"
| "run_op lib lk jc OpClear = answered (redis_clear_candidates lk)"
| "run_op lib lk jc (OpLock key ttl) = redis_try_acquire_submission_lock lk key ttl"
| "run_op lib lk jc (OpFailure key ttl) = answered (redis_mark_failure_key lk key ttl)"

text \<open>The time at the server, the operation and its answer.\<close>

fun redis_trace ::
    "libs \<Rightarrow> 'w redis_link \<Rightarrow> store_codec \<Rightarrow> redis_op list \<Rightarrow> 'w redis_world \<Rightarrow> (datetime \<times> redis_op \<times> bool anyhow) list" where
  "redis_trace lib lk jc [] s = []"
| "redis_trace lib lk jc (op # ops) s =
     (fst (lk_now lk (rs_outside s)), op, fst (run_op lib lk jc op s)) # redis_trace lib lk jc ops (snd (run_op lib lk jc op s))"

section \<open>Invariants of the database\<close>

text \<open>An operation keeps an invariant when every command it may send does, for a broken connection has
  carried out a first part of them.\<close>

definition on_db :: "(redis_db \<Rightarrow> bool) \<Rightarrow> 'w redis_world \<Rightarrow> bool" where
  "on_db I s \<longleftrightarrow> I (rs_db s)"

definition maintains :: "(redis_db \<Rightarrow> bool) \<Rightarrow> ('w redis_world, 'a) act \<Rightarrow> bool" where
  "maintains I m \<longleftrightarrow> triple (on_db I) m (\<lambda>_. on_db I) (on_db I)"

named_theorems maintains_intros \<open>actions that maintain an invariant of the database\<close>

lemma maintains_run: "maintains I m \<Longrightarrow> I (rs_db s) \<Longrightarrow> I (rs_db (snd (m s)))"
  unfolding maintains_def by (drule triple_state [where s = s]) (simp_all add: on_db_def)

lemma maintainsI: "(\<And>s. I (rs_db s) \<Longrightarrow> I (rs_db (snd (m s)))) \<Longrightarrow> maintains I m"
  by (auto simp: maintains_def triple_def on_db_def split: prod.splits sum.splits) fastforce+

lemma maintains_pass [maintains_intros]: "maintains I (pass x)"
  and maintains_fail [maintains_intros]: "maintains I (fail e)"
  and maintains_lift [maintains_intros]: "maintains I (lift r)"
  by (auto intro!: maintainsI simp: act_run)

lemma maintains_bind [maintains_intros]: "maintains I m \<Longrightarrow> (\<And>x. maintains I (f x)) \<Longrightarrow> maintains I (bind m f)"
  unfolding maintains_def by (rule triple_bind)

lemma maintains_if [maintains_intros]:
  "(b \<Longrightarrow> maintains I m) \<Longrightarrow> (\<not> b \<Longrightarrow> maintains I m') \<Longrightarrow> maintains I (if b then m else m')"
  by simp

lemma maintains_answered [maintains_intros]: "maintains I m \<Longrightarrow> maintains I (answered m)"
  unfolding answered_def by (intro maintains_intros)

lemma exec_commands_inv:
  "(\<And>cmd db. cmd \<in> set cmds \<Longrightarrow> I db \<Longrightarrow> I (exec_command cmd db)) \<Longrightarrow> I db \<Longrightarrow> I (exec_commands cmds db)"
  by (induction cmds arbitrary: db) (auto simp: exec_commands_def)

lemma maintains_send [maintains_intros]:
  assumes "\<And>cmd db. cmd \<in> set cmds \<Longrightarrow> I db \<Longrightarrow> I (exec_command cmd db)"
  shows "maintains I (send lk cmds)"
proof (rule maintainsI)
  fix s :: "'a redis_world"
  assume "I (rs_db s)"
  then have run: "I (exec_commands (take n cmds) (rs_db s))" for n
    by (rule exec_commands_inv [where I = I, rotated]) (rule assms, auto dest: in_set_takeD)
  obtain broken w where "lk_broken lk (rs_outside s) = (broken, w)" by (metis prod.exhaust)
  then show "I (rs_db (snd (send lk cmds s)))"
    using run [of "length cmds"] run by (cases broken) (simp_all add: send_def)
qed

lemma maintains_ask [maintains_intros]:
  assumes "\<And>w db. I db \<Longrightarrow> I (snd (f w db))"
  shows "maintains I (ask lk f)"
proof (rule maintainsI)
  fix s :: "'a redis_world"
  assume "I (rs_db s)"
  obtain broken w where l: "lk_broken lk (rs_outside s) = (broken, w)" by (metis prod.exhaust)
  obtain x db where "f w (rs_db s) = (x, db)" by (metis prod.exhaust)
  with assms [OF \<open>I (rs_db s)\<close>, of w] \<open>I (rs_db s)\<close> l show "I (rs_db (snd (ask lk f s)))"
    by (simp add: ask_def split: option.split nat.split)
qed

lemma maintains_read [maintains_intros]: "maintains I (ask lk (read_key f))"
  by (rule maintains_ask) (simp add: read_key_def)

lemma maintains_timed [maintains_intros]:
  assumes "\<And>now. maintains I (m now)"
  shows "maintains I (timed lk m)"
proof (rule maintainsI)
  fix s :: "'a redis_world"
  assume "I (rs_db s)"
  obtain now w where now: "lk_now lk (rs_outside s) = (now, w)" by (metis prod.exhaust)
  have "I (rs_db (snd (m now (s\<lparr>rs_outside := w\<rparr>))))"
    using assms by (rule maintains_run) (simp add: \<open>I (rs_db s)\<close>)
  then show "I (rs_db (snd (timed lk m s)))" by (simp add: timed_def now)
qed

lemma maintains_smembers [maintains_intros]: "maintains I (redis_smembers lk key)"
  unfolding redis_smembers_def by (rule maintains_ask) (simp add: read_key_def)

lemma maintains_push_chunks:
  assumes "\<And>cs db. cs \<in> set css \<Longrightarrow> I db \<Longrightarrow> I (exec_command (CmdZadd candidates_key (map (queue_entry jc) cs)) db)"
  shows "maintains I (redis_push_chunks lk jc css)"
  using assms by (induction css) (auto intro!: maintains_intros)

section \<open>Locks\<close>

lemma exec_keeps_expiry [simp]: "rd_expiring (exec_command cmd db) = rd_expiring db"
  by (cases cmd) auto

lemma seconds_nonneg [simp]: "0 \<le> seconds n"
  by (simp add: seconds_def)

lemma lock_not_failure: "submission_lock_key key \<noteq> failures_key k"
  by (simp add: submission_lock_key_def failures_key_def)

lemma lock_key_inj [simp]: "submission_lock_key k = submission_lock_key l \<longleftrightarrow> k = l"
  by (simp add: submission_lock_key_def)

definition held_until :: "string \<Rightarrow> datetime \<Rightarrow> redis_db \<Rightarrow> bool" where
  "held_until key t db \<longleftrightarrow> (\<exists>expiry. rd_expiring db (submission_lock_key key) = Some expiry \<and> t \<le> expiry)"

lemma held_command [simp]: "held_until key t (exec_command cmd db) = held_until key t db"
  by (simp add: held_until_def)

text \<open>No operation shortens the time a lock is held; in particular taking it again does not, for it is free only
  when the time is over.\<close>

lemma run_op_holds: "maintains (held_until key t) (run_op lib lk jc op)"
proof (cases op)
  case (OpLock k ttl)
  have "held_until key t (snd (acquire_lock k ttl now db))" if "held_until key t db" for db now
  proof -
    have "t \<le> now + seconds ttl" if "t \<le> e" "\<not> now < e" for e using that seconds_nonneg [of ttl] by linarith
    then show ?thesis using \<open>held_until key t db\<close>
      by (auto simp: acquire_lock_def held_until_def set_expiring_def live_at_def)
  qed
  then show ?thesis unfolding OpLock run_op.simps redis_try_acquire_submission_lock_def by (intro maintains_intros)
next
  case (OpFailure k ttl)
  have "held_until key t db \<Longrightarrow> held_until key t (set_expiring (failures_key k) e db)" for db e
    by (auto simp: held_until_def set_expiring_def lock_not_failure)
  then show ?thesis unfolding OpFailure run_op.simps redis_mark_failure_key_def by (intro maintains_intros) simp
next
  case (OpPush cs)
  then show ?thesis by (auto intro!: maintains_intros maintains_push_chunks simp: redis_push_candidates_def held_until_def)
qed (auto intro!: maintains_intros simp: redis_set_pool_state_def redis_set_pool_states_def redis_publish_pool_states_def
    redis_set_current_block_def redis_set_lane_state_def redis_set_tick_state_def redis_set_tick_states_def
    redis_replace_pool_ticks_def redis_mark_changed_pools_def redis_mark_tick_changed_pools_def
    redis_mark_tick_repair_pools_def redis_mark_def redis_drain_changed_pools_def redis_drain_tick_changed_pools_def
    redis_drain_tick_repair_pools_def redis_drain_def redis_spop_def redis_pop_candidates_def redis_zpopmax_def Let_def
    redis_prune_candidates_before_block_def redis_clear_candidates_def held_until_def)

text \<open>What a granted lock says of the database before and after.\<close>

lemma lock_granted:
  assumes "run_op lib lk jc (OpLock key ttl) s = (Inr True, s')" "fst (lk_now lk (rs_outside s)) = now"
  shows "held_until key (now + seconds ttl) (rs_db s')" "held_until key t (rs_db s) \<Longrightarrow> t \<le> now"
proof -
  obtain w where now: "lk_now lk (rs_outside s) = (now, w)" using assms(2) by (metis prod.collapse)
  have run: "acquire_lock key ttl now (rs_db s) = (True, rs_db s')"
    using assms(1) now
    by (auto simp: redis_try_acquire_submission_lock_def timed_def ask_def fail_def
        split: if_splits prod.splits option.splits nat.splits)
  then have "rs_db s' = set_expiring (submission_lock_key key) (now + seconds ttl) (rs_db s)"
    by (simp add: acquire_lock_def split: if_splits)
  then show "held_until key (now + seconds ttl) (rs_db s')" by (simp add: held_until_def set_expiring_def)
  show "held_until key t (rs_db s) \<Longrightarrow> t \<le> now"
    using run by (auto simp: acquire_lock_def live_at_def held_until_def split: if_splits)
qed

lemma trace_holds:
  "held_until key t (rs_db s) \<Longrightarrow> (now, OpLock key ttl, Inr True) \<in> set (redis_trace lib lk jc ops s) \<Longrightarrow> t \<le> now"
proof (induction ops arbitrary: s)
  case (Cons op ops)
  have kept: "held_until key t (rs_db (snd (run_op lib lk jc op s)))"
    using Cons.prems(1) by (rule maintains_run [OF run_op_holds])
  show ?case
  proof (cases "(now, OpLock key ttl, Inr True) \<in> set (redis_trace lib lk jc ops (snd (run_op lib lk jc op s)))")
    case True
    then show ?thesis by (rule Cons.IH [OF kept])
  next
    case False
    then have "op = OpLock key ttl" "fst (run_op lib lk jc op s) = Inr True" "fst (lk_now lk (rs_outside s)) = now"
      using Cons.prems(2) by auto
    then show ?thesis using lock_granted(2) [OF _ _ Cons.prems(1)] by (metis prod.collapse)
  qed
qed simp

text \<open>A submission lock is granted again only when its time is over: between two grants of one key, whoever asked
  and whatever else was done on the server, lies the lifetime of the first, although connections may break.\<close>

theorem submission_lock_exclusive:
  assumes "i < j" "j < length (redis_trace lib lk jc ops s)"
    and "redis_trace lib lk jc ops s ! i = (granted, OpLock key ttl, Inr True)"
    and "redis_trace lib lk jc ops s ! j = (again, OpLock key ttl', Inr True)"
  shows "granted + seconds ttl \<le> again"
  using assms
proof (induction ops arbitrary: s i j)
  case (Cons op ops)
  obtain k where j: "j = Suc k" using Cons.prems(1) by (cases j) auto
  show ?case
  proof (cases i)
    case 0
    obtain r s' where run: "run_op lib lk jc op s = (r, s')" by (metis prod.exhaust)
    then have "op = OpLock key ttl" "r = Inr True" "fst (lk_now lk (rs_outside s)) = granted"
      using Cons.prems(3) 0 by auto
    then have "held_until key (granted + seconds ttl) (rs_db s')" using lock_granted(1) run by metis
    moreover have "(again, OpLock key ttl', Inr True) \<in> set (redis_trace lib lk jc ops s')"
      using Cons.prems(2,4) run j nth_mem [of k "redis_trace lib lk jc ops s'"] by simp
    ultimately show ?thesis by (rule trace_holds)
  next
    case (Suc m)
    then show ?thesis using Cons.IH [of m k] Cons.prems j by simp
  qed
qed simp

text \<open>A clock that advances by six tenths of a second: the second request is refused, the third granted.\<close>

definition ticking_link :: "int redis_link" where
  "ticking_link = \<lparr>lk_broken = (\<lambda>w. (None, w)), lk_now = (\<lambda>w. (w, w + 600000000)), lk_members = (\<lambda>_ _. []),
     lk_popped = (\<lambda>_ _ _. [])\<rparr>"

theorem submission_lock_exclusive_witness:
  "let ops = [OpLock ''key'' 1, OpLock ''key'' 1, OpLock ''key'' 1];
       trace = redis_trace hex_libs ticking_link example_codec ops \<lparr>rs_db = redis_empty, rs_outside = 0\<rparr>
   in map (snd \<circ> snd) trace = [Inr True, Inr False, Inr True] \<and> 0 + seconds 1 \<le> fst (trace ! 2)"
proof -
  let ?trace = "redis_trace hex_libs ticking_link example_codec [OpLock ''key'' 1, OpLock ''key'' 1, OpLock ''key'' 1]
    \<lparr>rs_db = redis_empty, rs_outside = 0\<rparr>"
  have trace: "?trace = [(0, OpLock ''key'' 1, Inr True), (600000000, OpLock ''key'' 1, Inr False),
      (1200000000, OpLock ''key'' 1, Inr True)]"
    by (simp add: ticking_link_def redis_try_acquire_submission_lock_def timed_def ask_def acquire_lock_def live_at_def
        redis_empty_def set_expiring_def seconds_def)
  have "0 + seconds 1 \<le> (1200000000 :: int)"
    by (rule submission_lock_exclusive [of 0 2 hex_libs ticking_link example_codec "[OpLock ''key'' 1, OpLock ''key'' 1, OpLock ''key'' 1]"
          "\<lparr>rs_db = redis_empty, rs_outside = 0\<rparr>" 0 "''key''" 1 1200000000 1]) (simp_all add: trace del: redis_trace.simps)
  then show ?thesis by (simp add: trace del: redis_trace.simps)
qed

end
