(* ===== verification/Redis_Reads.thy ===== *)
theory Redis_Reads
  imports Redis_World
begin

text \<open>
  What readers of the Redis stores see: after any operations, wherever their connections broke, only values
  that were written; and after unbroken ones, what the in-memory stores would give.
\<close>

section \<open>Keys\<close>

lemmas redis_key_defs =
  pool_state_key_def pool_address_index_key_def pool_state_index_key_def tick_state_key_def tick_pool_index_key_def
  candidates_key_def changed_pools_key_def changed_tick_pools_key_def tick_repair_pools_key_def current_block_key_def
  eoa_lane_key_def

text \<open>The text of an address is its hexadecimal text, whatever the case of its letters.\<close>

definition shows_addresses :: "store_codec \<Rightarrow> bool" where
  "shows_addresses jc \<longleftrightarrow> (\<forall>a. map char_lower (jc_show_address jc a) = address_hex a)"

lemma show_address_facts:
  assumes "shows_addresses jc"
  shows "jc_show_address jc a = jc_show_address jc b \<longleftrightarrow> a = b" "length (jc_show_address jc a) = 42"
proof -
  show "jc_show_address jc a = jc_show_address jc b \<longleftrightarrow> a = b"
    using assms unfolding shows_addresses_def by (metis address_hex_inj)
  have "length (map char_lower (jc_show_address jc a)) = 42" using assms by (simp add: shows_addresses_def)
  then show "length (jc_show_address jc a) = 42" by simp
qed

lemma int_dec_inj: "int_dec i = int_dec j \<longleftrightarrow> i = j"
proof
  have digit: "nat_dec n \<noteq> CHR ''-'' # s" for n s
    using nat_dec_digits [of n] by (cases "nat_dec n") (auto simp: is_digit_def)
  assume eq: "int_dec i = int_dec j"
  then have "(i < 0) = (j < 0)" using digit by (auto simp: int_dec_def split: if_splits) metis+
  then show "i = j" using eq by (auto simp: int_dec_def split: if_splits)
qed simp

text \<open>A key names its chain, its pool and its tick.\<close>

lemma chain_prefix:
  assumes "nat_dec m @ CHR '':'' # x = nat_dec n @ CHR '':'' # y"
  shows "m = n \<and> x = y"
proof -
  have part: "takeWhile is_digit (nat_dec k @ CHR '':'' # z) = nat_dec k" for k z
    using nat_dec_digits [of k] by (subst takeWhile_append2) (auto simp: list_all_iff is_digit_def)
  have "nat_dec m = nat_dec n" using part [of m x] part [of n y] assms by simp
  then show ?thesis using assms by simp
qed

lemma pool_key_inj:
  assumes "shows_addresses jc"
  shows "pool_state_key jc m a = pool_state_key jc n b \<longleftrightarrow> m = n \<and> a = b"
  using chain_prefix [of "unat m" "jc_show_address jc a" "unat n" "jc_show_address jc b"] show_address_facts(1) [OF assms, of a b]
  by (auto simp: pool_state_key_def word_unat_eq_iff)

lemma tick_key_inj:
  assumes "shows_addresses jc"
  shows "tick_state_key jc m a i = tick_state_key jc n b j \<longleftrightarrow> m = n \<and> a = b \<and> i = j"
proof
  assume eq: "tick_state_key jc m a i = tick_state_key jc n b j"
  then have "unat m = unat n \<and> jc_show_address jc a @ '':'' @ int_dec (sint i) = jc_show_address jc b @ '':'' @ int_dec (sint j)"
    by (intro chain_prefix) (simp add: tick_state_key_def)
  then have "unat m = unat n" "a = b" "sint i = sint j" using show_address_facts [OF assms]
    by (simp_all add: int_dec_inj)
  then show "m = n \<and> a = b \<and> i = j" by (simp add: word_unat_eq_iff [of m] signed_word_eqI)
qed simp

lemma index_key_inj:
  assumes "shows_addresses jc"
  shows "pool_address_index_key jc a = pool_address_index_key jc b \<longleftrightarrow> a = b"
    "tick_pool_index_key jc a = tick_pool_index_key jc b \<longleftrightarrow> a = b"
    "eoa_lane_key jc a = eoa_lane_key jc b \<longleftrightarrow> a = b"
  using show_address_facts [OF assms] by (auto simp: pool_address_index_key_def tick_pool_index_key_def eoa_lane_key_def)

text \<open>No two kinds of entries share a key.\<close>

lemma keys_apart [simp]:
  "pool_state_key jc n a \<noteq> pool_address_index_key jc b" "pool_address_index_key jc b \<noteq> pool_state_key jc n a"
  "pool_state_key jc n a \<noteq> tick_state_key jc m b i" "tick_state_key jc m b i \<noteq> pool_state_key jc n a"
  "pool_state_key jc n a \<noteq> eoa_lane_key jc b" "eoa_lane_key jc b \<noteq> pool_state_key jc n a"
  "pool_state_key jc n a \<noteq> current_block_key" "current_block_key \<noteq> pool_state_key jc n a"
  "pool_address_index_key jc a \<noteq> tick_state_key jc m b i" "tick_state_key jc m b i \<noteq> pool_address_index_key jc a"
  "pool_address_index_key jc a \<noteq> eoa_lane_key jc b" "eoa_lane_key jc b \<noteq> pool_address_index_key jc a"
  "pool_address_index_key jc a \<noteq> current_block_key" "current_block_key \<noteq> pool_address_index_key jc a"
  "tick_state_key jc m b i \<noteq> eoa_lane_key jc a" "eoa_lane_key jc a \<noteq> tick_state_key jc m b i"
  "tick_state_key jc m b i \<noteq> current_block_key" "current_block_key \<noteq> tick_state_key jc m b i"
  "eoa_lane_key jc a \<noteq> current_block_key" "current_block_key \<noteq> eoa_lane_key jc a"
  by (simp_all add: redis_key_defs)

lemma set_keys_apart [simp]:
  "tick_pool_index_key jc a \<noteq> pool_state_index_key" "pool_state_index_key \<noteq> tick_pool_index_key jc a"
  "tick_pool_index_key jc a \<noteq> changed_pools_key" "changed_pools_key \<noteq> tick_pool_index_key jc a"
  "tick_pool_index_key jc a \<noteq> changed_tick_pools_key" "changed_tick_pools_key \<noteq> tick_pool_index_key jc a"
  "tick_pool_index_key jc a \<noteq> tick_repair_pools_key" "tick_repair_pools_key \<noteq> tick_pool_index_key jc a"
  "pool_state_index_key \<noteq> changed_pools_key" "changed_pools_key \<noteq> pool_state_index_key"
  "pool_state_index_key \<noteq> changed_tick_pools_key" "changed_tick_pools_key \<noteq> pool_state_index_key"
  "changed_pools_key \<noteq> changed_tick_pools_key" "changed_tick_pools_key \<noteq> changed_pools_key"
  "changed_pools_key \<noteq> tick_repair_pools_key" "changed_tick_pools_key \<noteq> tick_repair_pools_key"
  "tick_repair_pools_key \<noteq> changed_pools_key" "tick_repair_pools_key \<noteq> changed_tick_pools_key"
  by (simp_all add: redis_key_defs)

section \<open>Only written values are read\<close>

fun op_pools :: "redis_op \<Rightarrow> pool_state set" where
  "op_pools (OpSetPool p) = {p}"
| "op_pools (OpSetPools ps) = set ps"
| "op_pools (OpPublish b ps changed) = set ps"
| "op_pools _ = {}"

fun op_ticks :: "redis_op \<Rightarrow> tick_state set" where
  "op_ticks (OpSetTick t) = {t}"
| "op_ticks (OpSetTicks ts) = set ts"
| "op_ticks (OpReplaceTicks pool ts) = set ts"
| "op_ticks _ = {}"

fun op_lanes :: "redis_op \<Rightarrow> eoa_lane_state set" where
  "op_lanes (OpSetLane l) = {l}"
| "op_lanes _ = {}"

abbreviation tick_pool :: "tick_state \<Rightarrow> address" where
  "tick_pool t \<equiv> pid_address (ts_pool_id t)"

definition entry_written :: "store_codec \<Rightarrow> redis_op set \<Rightarrow> string \<Rightarrow> string \<Rightarrow> bool" where
  "entry_written jc ops key v \<longleftrightarrow> key = current_block_key \<or>
     (\<exists>op \<in> ops. (\<exists>p \<in> op_pools op. key = state_key jc p \<and> v = jc_pool_text jc p \<or>
         key = pool_address_index_key jc (ps_address p) \<and> v = state_key jc p) \<or>
       (\<exists>t \<in> op_ticks op. key = key_of_tick jc t \<and> v = jc_tick_text jc t) \<or>
       (\<exists>l \<in> op_lanes op. key = eoa_lane_key jc (ln_address l) \<and> v = jc_lane_text jc l))"

definition member_written :: "store_codec \<Rightarrow> redis_op set \<Rightarrow> string \<Rightarrow> string \<Rightarrow> bool" where
  "member_written jc ops key member \<longleftrightarrow> (\<forall>a. key = tick_pool_index_key jc a \<longrightarrow>
     (\<exists>op \<in> ops. \<exists>t \<in> op_ticks op. tick_pool t = a \<and> member = key_of_tick jc t))"

definition only_written :: "store_codec \<Rightarrow> redis_op set \<Rightarrow> redis_db \<Rightarrow> bool" where
  "only_written jc ops db \<longleftrightarrow> (\<forall>key v. rd_strings db key = Some v \<longrightarrow> entry_written jc ops key v) \<and>
     (\<forall>key. finite (rd_sets db key) \<and> (\<forall>member \<in> rd_sets db key. member_written jc ops key member))"

fun command_written :: "store_codec \<Rightarrow> redis_op set \<Rightarrow> redis_command \<Rightarrow> bool" where
  "command_written jc ops (CmdSet key v) \<longleftrightarrow> entry_written jc ops key v"
| "command_written jc ops (CmdMset kvs) \<longleftrightarrow> (\<forall>(key, v) \<in> set kvs. entry_written jc ops key v)"
| "command_written jc ops (CmdSadd key members) \<longleftrightarrow> (\<forall>m \<in> set members. member_written jc ops key m)"
| "command_written jc ops (CmdSetIfNewer key n) \<longleftrightarrow> key = current_block_key"
| "command_written jc ops _ \<longleftrightarrow> True"

lemma fold_update_cases:
  "fold (\<lambda>(key, v) m. m(key \<mapsto> v)) kvs m k = Some v \<Longrightarrow> (k, v) \<in> set kvs \<or> m k = Some v"
proof (induction kvs arbitrary: m)
  case (Cons kv kvs)
  from Cons.IH [of "m(fst kv \<mapsto> snd kv)"] Cons.prems show ?case by (cases kv) (auto split: if_splits)
qed simp

lemma command_keeps_written: "command_written jc ops cmd \<Longrightarrow> only_written jc ops db \<Longrightarrow> only_written jc ops (exec_command cmd db)"
  by (cases cmd) (auto simp: only_written_def entry_written_def [of jc ops current_block_key] dest!: fold_update_cases)

lemma maintains_written_send:
  "(\<And>cmd. cmd \<in> set cmds \<Longrightarrow> command_written jc ops cmd) \<Longrightarrow> maintains (only_written jc ops) (send lk cmds)"
  by (rule maintains_send) (rule command_keeps_written)

lemma in_chunks: "x \<in> set xs \<Longrightarrow> xs \<in> set (chunks n ys) \<Longrightarrow> x \<in> set ys"
  by (metis UN_I concat_chunks set_concat)

lemma mset_entries_written:
  assumes "\<And>key v. (key, v) \<in> set kvs \<Longrightarrow> entry_written jc ops key v" "cmd \<in> set (queue_mset_entries kvs)"
  shows "command_written jc ops cmd"
proof -
  obtain chunk where chunk: "cmd = CmdMset chunk" "chunk \<in> set (chunks redis_mset_chunk_size kvs)"
    using assms(2) by (auto simp: queue_mset_entries_def)
  then show ?thesis using assms(1) in_chunks [OF _ chunk(2)] by auto
qed

lemma sadd_addresses_written:
  "(\<And>a. key \<noteq> tick_pool_index_key jc a) \<Longrightarrow> cmd \<in> set (queue_sadd_addresses key pools) \<Longrightarrow> command_written jc ops cmd"
  by (auto simp: queue_sadd_addresses_def member_written_def split: if_splits)

lemma pool_entry_written: "op \<in> ops \<Longrightarrow> p \<in> op_pools op \<Longrightarrow> entry_written jc ops (state_key jc p) (jc_pool_text jc p)"
    "op \<in> ops \<Longrightarrow> p \<in> op_pools op \<Longrightarrow> entry_written jc ops (pool_address_index_key jc (ps_address p)) (state_key jc p)"
  and tick_entry_written: "op \<in> ops \<Longrightarrow> t \<in> op_ticks op \<Longrightarrow> entry_written jc ops (key_of_tick jc t) (jc_tick_text jc t)"
  and lane_entry_written: "op \<in> ops \<Longrightarrow> l \<in> op_lanes op \<Longrightarrow> entry_written jc ops (eoa_lane_key jc (ln_address l)) (jc_lane_text jc l)"
  unfolding entry_written_def by blast+

lemmas entries_written = pool_entry_written tick_entry_written lane_entry_written

lemma tick_member_written:
  "shows_addresses jc \<Longrightarrow> op \<in> ops \<Longrightarrow> t \<in> op_ticks op \<Longrightarrow>
    member_written jc ops (tick_pool_index_key jc (tick_pool t)) (key_of_tick jc t)"
  by (auto simp: member_written_def index_key_inj)

lemma tick_entries_written:
  assumes "shows_addresses jc" "op \<in> ops" "set ts \<subseteq> op_ticks op" "cmd \<in> set (queue_tick_entries jc ts)"
  shows "command_written jc ops cmd"
proof -
  let ?kvs = "map (\<lambda>t. (key_of_tick jc t, jc_tick_text jc t)) ts"
  have entries: "entry_written jc ops key v" if "(key, v) \<in> set ?kvs" for key v
    using that assms(2,3) by (auto intro: tick_entry_written)
  consider "cmd \<in> set (queue_mset_entries ?kvs)"
    | pool where "cmd = CmdSadd (tick_pool_index_key jc pool) (map (key_of_tick jc) (filter (\<lambda>t. tick_pool t = pool) ts))"
    using assms(4) by (auto simp: queue_tick_entries_def serialize_tick_entries_def split: if_splits)
  then show ?thesis
  proof cases
    case 1
    then show ?thesis using mset_entries_written [OF entries] by blast
  next
    case 2
    then show ?thesis using assms(1-3) by (auto intro!: tick_member_written)
  qed
qed

lemma pool_entries_written:
  assumes "op \<in> ops" "set ps \<subseteq> op_pools op" "cmd \<in> set (queue_pool_states jc ps)"
  shows "command_written jc ops cmd"
proof -
  have states: "entry_written jc ops key v" if "(key, v) \<in> set (map (\<lambda>p. (state_key jc p, jc_pool_text jc p)) ps)" for key v
    using that assms(1,2) by (auto intro: pool_entry_written)
  have index: "entry_written jc ops key v"
    if "(key, v) \<in> set (map (\<lambda>p. (pool_address_index_key jc (ps_address p), state_key jc p)) ps)" for key v
    using that assms(1,2) by (auto intro: pool_entry_written)
  consider "cmd \<in> set (queue_mset_entries (map (\<lambda>p. (state_key jc p, jc_pool_text jc p)) ps))"
    | "cmd \<in> set (queue_mset_entries (map (\<lambda>p. (pool_address_index_key jc (ps_address p), state_key jc p)) ps))"
    | keys where "cmd = CmdSadd pool_state_index_key keys"
    using assms(3) by (auto simp: queue_pool_states_def)
  then show ?thesis
  proof cases
    case 1
    then show ?thesis using mset_entries_written [OF states] by blast
  next
    case 2
    then show ?thesis using mset_entries_written [OF index] by blast
  qed (simp add: member_written_def)
qed

lemma run_op_written:
  assumes "shows_addresses jc" "op \<in> ops"
  shows "maintains (only_written jc ops) (run_op lib lk jc op)"
proof (cases op)
  case (OpSetPool p)
  then have "p \<in> op_pools op" by simp
  note entries = pool_entry_written [OF assms(2) this]
  show ?thesis unfolding OpSetPool run_op.simps
    by (auto intro!: maintains_answered maintains_written_send
        simp: redis_set_pool_state_def queue_pool_state_def member_written_def entries)
next
  case (OpSetPools ps)
  then have "set ps \<subseteq> op_pools op" by simp
  note entries = pool_entries_written [OF assms(2) this]
  show ?thesis unfolding OpSetPools run_op.simps redis_set_pool_states_def
    by (intro maintains_answered maintains_if maintains_pass maintains_written_send entries)
next
  case (OpPublish b ps changed)
  then have "p \<in> op_pools op" if "p \<in> set ps" for p using that by simp
  note entries = pool_entry_written [OF assms(2) this]
  have "command_written jc ops cmd" if "cmd \<in> set (queue_publish jc b ps changed)" for cmd
    using that sadd_addresses_written [of changed_pools_key jc cmd changed ops]
    by (auto simp: queue_publish_def queue_pool_state_def member_written_def entries)
  then show ?thesis unfolding OpPublish run_op.simps redis_publish_pool_states_def
    by (intro maintains_answered maintains_written_send)
next
  case (OpSetTick t)
  then have "t \<in> op_ticks op" by simp
  note entries = tick_entry_written [OF assms(2) this] tick_member_written [OF assms this]
  show ?thesis unfolding OpSetTick run_op.simps redis_set_tick_state_def
    by (intro maintains_answered maintains_written_send) (auto simp: entries)
next
  case (OpSetTicks ts)
  then have "set ts \<subseteq> op_ticks op" by simp
  note entries = tick_entries_written [OF assms this]
  show ?thesis unfolding OpSetTicks run_op.simps redis_set_tick_states_def
    by (intro maintains_answered maintains_if maintains_pass maintains_written_send entries)
next
  case (OpReplaceTicks pool ts)
  then have "set ts \<subseteq> op_ticks op" by simp
  note entries = tick_entries_written [OF assms this]
  have "command_written jc ops cmd" if "cmd \<in> set (queue_replace_ticks jc pool ts existing)" for cmd existing
    using that entries [of cmd] by (auto simp: queue_replace_ticks_def member_written_def split: if_splits)
  then show ?thesis unfolding OpReplaceTicks run_op.simps redis_replace_pool_ticks_def
    by (intro maintains_answered maintains_bind maintains_smembers maintains_written_send)
next
  case (OpSetLane l)
  then have "l \<in> op_lanes op" by simp
  note entries = lane_entry_written [OF assms(2) this]
  show ?thesis unfolding OpSetLane run_op.simps redis_set_lane_state_def
    by (intro maintains_answered maintains_written_send) (auto simp: entries)
next
  case (OpPush cs)
  then show ?thesis
    by (auto intro!: maintains_answered maintains_push_chunks simp: redis_push_candidates_def only_written_def)
next
  case (OpMarkPools pools)
  show ?thesis unfolding OpMarkPools run_op.simps redis_mark_changed_pools_def redis_mark_def
    by (intro maintains_answered maintains_if maintains_pass maintains_written_send sadd_addresses_written) auto
next
  case (OpMarkTicks pools)
  show ?thesis unfolding OpMarkTicks run_op.simps redis_mark_tick_changed_pools_def redis_mark_def
    by (intro maintains_answered maintains_if maintains_pass maintains_written_send sadd_addresses_written) auto
next
  case (OpMarkRepairs pools)
  show ?thesis unfolding OpMarkRepairs run_op.simps redis_mark_tick_repair_pools_def redis_mark_def
    by (intro maintains_answered maintains_if maintains_pass maintains_written_send sadd_addresses_written) auto
next
  case (OpSetBlock b)
  show ?thesis unfolding OpSetBlock run_op.simps redis_set_current_block_def
    by (intro maintains_answered maintains_written_send) simp
qed (auto intro!: maintains_intros simp: redis_pop_candidates_def redis_zpopmax_def Let_def
      redis_drain_changed_pools_def redis_drain_tick_changed_pools_def redis_drain_tick_repair_pools_def redis_drain_def
      redis_spop_def redis_prune_candidates_before_block_def redis_clear_candidates_def redis_try_acquire_submission_lock_def
      redis_mark_failure_key_def acquire_lock_def set_expiring_def only_written_def)

fun run_ops :: "libs \<Rightarrow> 'w redis_link \<Rightarrow> store_codec \<Rightarrow> redis_op list \<Rightarrow> 'w redis_world \<Rightarrow> 'w redis_world" where
  "run_ops lib lk jc [] s = s"
| "run_ops lib lk jc (op # ops) s = run_ops lib lk jc ops (snd (run_op lib lk jc op s))"

lemma run_ops_written:
  assumes "shows_addresses jc" "set done_ops \<subseteq> ops" "only_written jc ops (rs_db s)"
  shows "only_written jc ops (rs_db (run_ops lib lk jc done_ops s))"
  using assms(2,3)
  by (induction done_ops arbitrary: s) (auto intro: maintains_run [OF run_op_written [OF assms(1)]])

lemma ask_read_run:
  "ask lk (read_key f) s = (r, s') \<Longrightarrow> rs_db s' = rs_db s \<and> (r = Inl broken_pipe \<or> r = Inr (f (rs_db s)))"
  by (auto simp: ask_def read_key_def split: prod.splits option.splits nat.splits)

lemma smembers_run:
  "redis_smembers lk key s = (r, s') \<Longrightarrow>
    rs_db s' = rs_db s \<and> (r = Inl broken_pipe \<or> (\<exists>w. r = Inr (lk_members lk (rd_sets (rs_db s) key) w)))"
  by (auto simp: redis_smembers_def ask_def read_key_def split: prod.splits option.splits nat.splits)

text \<open>The texts of the values the operations write are read back; the server lists members of the set it is asked for.\<close>

definition texts_read_back :: "store_codec \<Rightarrow> redis_op set \<Rightarrow> bool" where
  "texts_read_back jc ops \<longleftrightarrow> (\<forall>op \<in> ops. (\<forall>p \<in> op_pools op. jc_read_pool jc (jc_pool_text jc p) = Inr p) \<and>
     (\<forall>t \<in> op_ticks op. jc_read_tick jc (jc_tick_text jc t) = Inr t) \<and>
     (\<forall>l \<in> op_lanes op. jc_read_lane jc (jc_lane_text jc l) = Inr l))"

definition lists_members :: "'w redis_link \<Rightarrow> bool" where
  "lists_members lk \<longleftrightarrow> (\<forall>members w. finite members \<longrightarrow> set (lk_members lk members w) = members \<and> distinct (lk_members lk members w))"

definition answer_or_broken :: "('a \<Rightarrow> bool) \<Rightarrow> 'a anyhow \<Rightarrow> bool" where
  "answer_or_broken P r = (case r of Inl e \<Rightarrow> e = broken_pipe | Inr x \<Rightarrow> P x)"

lemma answer_or_broken_simps [simp]:
  "answer_or_broken P (Inl e) \<longleftrightarrow> e = broken_pipe" "answer_or_broken P (Inr x) \<longleftrightarrow> P x"
  by (simp_all add: answer_or_broken_def)

lemma written_entry: "only_written jc ops db \<Longrightarrow> rd_strings db key = Some v \<Longrightarrow> entry_written jc ops key v"
  by (simp add: only_written_def)

text \<open>What is written at each kind of key.\<close>

lemma entry_kinds:
  assumes "shows_addresses jc"
  shows "entry_written jc ops (pool_state_key jc n a) v \<longleftrightarrow>
      (\<exists>op \<in> ops. \<exists>p \<in> op_pools op. pid_chain_id (ps_pool_id p) = n \<and> ps_address p = a \<and> v = jc_pool_text jc p)"
    "entry_written jc ops (pool_address_index_key jc a) v \<longleftrightarrow>
      (\<exists>op \<in> ops. \<exists>p \<in> op_pools op. ps_address p = a \<and> v = state_key jc p)"
    "entry_written jc ops (tick_state_key jc n a i) v \<longleftrightarrow>
      (\<exists>op \<in> ops. \<exists>t \<in> op_ticks op. pid_chain_id (ts_pool_id t) = n \<and> tick_pool t = a \<and> ts_tick t = i \<and> v = jc_tick_text jc t)"
    "entry_written jc ops (eoa_lane_key jc a) v \<longleftrightarrow> (\<exists>op \<in> ops. \<exists>l \<in> op_lanes op. ln_address l = a \<and> v = jc_lane_text jc l)"
  using index_key_inj [OF assms] pool_key_inj [OF assms] tick_key_inj [OF assms]
  by (auto simp: entry_written_def state_key_def key_of_tick_def)

lemma read_pool_written:
  assumes "shows_addresses jc" "texts_read_back jc ops" "only_written jc ops (rs_db s)"
  shows "answer_or_broken (\<lambda>x. case x of None \<Rightarrow> True | Some p \<Rightarrow> ps_address p = a \<and> (\<exists>op \<in> ops. p \<in> op_pools op))
    (fst (redis_get_pool_state lk jc a s))"
proof -
  let ?db = "rs_db s"
  obtain r1 s1 where r1: "redis_get lk (pool_address_index_key jc a) s = (r1, s1)" by (metis prod.exhaust)
  note first = ask_read_run [OF r1 [unfolded redis_get_def]]
  show ?thesis
  proof (cases r1)
    case (Inl e)
    then show ?thesis using r1 first by (simp add: redis_get_pool_state_def bind_def)
  next
    case (Inr x)
    show ?thesis
    proof (cases x)
      case None
      then show ?thesis using r1 Inr by (simp add: redis_get_pool_state_def bind_def pass_def)
    next
      case (Some key)
      have index: "rd_strings ?db (pool_address_index_key jc a) = Some key" using first Inr Some by simp
      then obtain p where key: "ps_address p = a" "key = state_key jc p"
        using written_entry [OF assms(3) index] by (auto simp: entry_kinds [OF assms(1)])
      obtain r2 s2 where r2: "redis_get lk key s1 = (r2, s2)" by (metis prod.exhaust)
      note second = ask_read_run [OF r2 [unfolded redis_get_def]]
      have "answer_or_broken (\<lambda>x. case x of None \<Rightarrow> True | Some p \<Rightarrow> ps_address p = a \<and> (\<exists>op \<in> ops. p \<in> op_pools op))
          (decode_value (jc_read_pool jc) (rd_strings ?db key))"
      proof (cases "rd_strings ?db key")
        case (Some raw)
        then obtain op q where "op \<in> ops" "q \<in> op_pools op" "key = state_key jc q" "raw = jc_pool_text jc q"
          using written_entry [OF assms(3)] key(2) by (force simp: state_key_def entry_kinds [OF assms(1)])
        then show ?thesis using assms(1,2) key Some
          by (auto simp: decode_value_def texts_read_back_def state_key_def pool_key_inj)
      qed (simp add: decode_value_def)
      then show ?thesis using r1 r2 conjunct1 [OF first] second Inr Some
        by (auto simp: redis_get_pool_state_def bind_def lift_def)
    qed
  qed
qed

lemma read_lane_written:
  assumes "shows_addresses jc" "texts_read_back jc ops" "only_written jc ops (rs_db s)"
  shows "answer_or_broken (\<lambda>x. case x of None \<Rightarrow> True | Some l \<Rightarrow> ln_address l = a \<and> (\<exists>op \<in> ops. l \<in> op_lanes op))
    (fst (redis_get_lane_state lk jc a s))"
proof -
  obtain r1 s1 where r1: "redis_get lk (eoa_lane_key jc a) s = (r1, s1)" by (metis prod.exhaust)
  note first = ask_read_run [OF r1 [unfolded redis_get_def]]
  have "answer_or_broken (\<lambda>x. case x of None \<Rightarrow> True | Some l \<Rightarrow> ln_address l = a \<and> (\<exists>op \<in> ops. l \<in> op_lanes op))
      (decode_value (jc_read_lane jc) (rd_strings (rs_db s) (eoa_lane_key jc a)))"
  proof (cases "rd_strings (rs_db s) (eoa_lane_key jc a)")
    case (Some raw)
    then obtain op l where "op \<in> ops" "l \<in> op_lanes op" "ln_address l = a" "raw = jc_lane_text jc l"
      using written_entry [OF assms(3)] by (force simp: entry_kinds [OF assms(1)])
    then show ?thesis using assms(2) Some by (auto simp: decode_value_def texts_read_back_def)
  qed (simp add: decode_value_def)
  then show ?thesis using r1 first by (auto simp: redis_get_lane_state_def bind_def lift_def)
qed

lemma mget_run:
  "redis_mget lk keys s = (r, s') \<Longrightarrow>
    rs_db s' = rs_db s \<and> (r = Inl broken_pipe \<or> r = Inr (map (rd_strings (rs_db s)) keys))"
  unfolding redis_mget_def by (rule ask_read_run)

lemma read_ticks_written:
  assumes "shows_addresses jc" "texts_read_back jc ops" "only_written jc ops (rs_db s)" "lists_members lk"
  shows "answer_or_broken (\<lambda>ts. \<forall>t \<in> set ts. tick_pool t = a \<and> (\<exists>op \<in> ops. t \<in> op_ticks op))
    (fst (redis_get_pool_ticks lk jc a s))"
proof -
  let ?members = "rd_sets (rs_db s) (tick_pool_index_key jc a)"
  let ?P = "\<lambda>t. tick_pool t = a \<and> (\<exists>op \<in> ops. t \<in> op_ticks op)"
  obtain r1 s1 where r1: "redis_smembers lk (tick_pool_index_key jc a) s = (r1, s1)" by (metis prod.exhaust)
  from smembers_run [OF r1] have db: "rs_db s1 = rs_db s" by simp
  from smembers_run [OF r1] consider (broken) "r1 = Inl broken_pipe" | (listed) w where "r1 = Inr (lk_members lk ?members w)" by auto
  then show ?thesis
  proof cases
    case broken
    then show ?thesis using r1 by (simp add: redis_get_pool_ticks_def bind_def)
  next
    case listed
    let ?keys = "lk_members lk ?members w"
    have keys: "set ?keys = ?members" using assms(3,4) by (simp add: lists_members_def only_written_def)
    have decoded: "\<exists>x. decode_value (jc_read_tick jc) (rd_strings (rs_db s) key) = Inr x \<and> (\<forall>t. x = Some t \<longrightarrow> ?P t)"
      if "key \<in> ?members" for key
    proof -
      have "member_written jc ops (tick_pool_index_key jc a) key" using assms(3) that by (simp add: only_written_def)
      then obtain t where key: "tick_pool t = a" "key = key_of_tick jc t" by (auto simp: member_written_def)
      show ?thesis
      proof (cases "rd_strings (rs_db s) key")
        case (Some raw)
        then obtain op u where "op \<in> ops" "u \<in> op_ticks op" "tick_pool u = a" "raw = jc_tick_text jc u"
          using written_entry [OF assms(3)] key by (force simp: key_of_tick_def entry_kinds [OF assms(1)])
        then show ?thesis using assms(2) Some by (auto simp: decode_value_def texts_read_back_def)
      qed (simp add: decode_value_def)
    qed
    have "\<exists>xs. collect_results (decode_value (jc_read_tick jc)) (map (rd_strings (rs_db s)) ks) = Inr xs \<and>
        (\<forall>t. Some t \<in> set xs \<longrightarrow> ?P t)" if "set ks \<subseteq> ?members" for ks
      using that by (induction ks) (use decoded in fastforce)+
    from this [of ?keys] obtain xs where
      xs: "collect_results (decode_value (jc_read_tick jc)) (map (rd_strings (rs_db s)) ?keys) = Inr xs"
        "\<forall>t. Some t \<in> set xs \<longrightarrow> ?P t" using keys by auto
    obtain r2 s2 where r2: "redis_mget lk ?keys s1 = (r2, s2)" by (metis prod.exhaust)
    have "\<forall>t \<in> set (List.map_filter id xs). ?P t" using xs(2) by (auto simp: List.map_filter_def)
    then show ?thesis using r1 listed r2 mget_run [OF r2] db xs(1)
      by (auto simp: redis_get_pool_ticks_def bind_def lift_def pass_def)
  qed
qed

text \<open>Whatever operations were run on the stores and wherever their pipelines broke off, a reader never sees a torn
  or foreign value: a pool, a lane and the ticks of a pool read as values that some operation wrote for that
  address, and a read fails only when its own connection breaks.\<close>

theorem redis_reads_written:
  assumes "shows_addresses jc" "texts_read_back jc (set ops)" "lists_members lk"
  shows "let s = run_ops lib lk jc ops \<lparr>rs_db = redis_empty, rs_outside = w\<rparr> in
    answer_or_broken (\<lambda>x. case x of None \<Rightarrow> True | Some p \<Rightarrow> ps_address p = a \<and> (\<exists>op \<in> set ops. p \<in> op_pools op))
      (fst (redis_get_pool_state lk jc a s)) \<and>
    answer_or_broken (\<lambda>x. case x of None \<Rightarrow> True | Some l \<Rightarrow> ln_address l = a \<and> (\<exists>op \<in> set ops. l \<in> op_lanes op))
      (fst (redis_get_lane_state lk jc a s)) \<and>
    answer_or_broken (\<lambda>ts. \<forall>t \<in> set ts. tick_pool t = a \<and> (\<exists>op \<in> set ops. t \<in> op_ticks op))
      (fst (redis_get_pool_ticks lk jc a s))"
proof -
  let ?s = "run_ops lib lk jc ops \<lparr>rs_db = redis_empty, rs_outside = w\<rparr>"
  have "only_written jc (set ops) redis_empty" by (simp add: only_written_def redis_empty_def)
  then have written: "only_written jc (set ops) (rs_db ?s)" by (intro run_ops_written assms(1)) simp_all
  show ?thesis unfolding Let_def
    by (intro conjI read_pool_written read_lane_written read_ticks_written assms written)
qed

text \<open>A connection that breaks after the first command: the pool is written, its index is not.\<close>

definition breaking_link :: "nat redis_link" where
  "breaking_link = \<lparr>lk_broken = (\<lambda>n. (if n = 0 then Some 1 else None, n + 1)), lk_now = (\<lambda>n. (0, n)),
     lk_members = (\<lambda>members _. sorted_list_of_set members), lk_popped = (\<lambda>_ _ _. [])\<rparr>"

lemma breaking_link_lists: "lists_members breaking_link"
  by (simp add: lists_members_def breaking_link_def)

definition pool_codec :: store_codec where
  "pool_codec = example_codec\<lparr>jc_read_pool := (\<lambda>_. Inr example_pool)\<rparr>"

lemma pool_codec_shows: "shows_addresses pool_codec"
proof -
  have "char_lower (hex_digit n) = hex_digit n" for n using hex_digit_cases [of n] by (auto simp: char_lower_def)
  then have "map char_lower (hex_fixed k n) = hex_fixed k n" for k n by (induction k arbitrary: n) simp_all
  then have "map char_lower (address_hex a) = address_hex a" for a by (simp add: address_hex_def char_lower_def)
  then show ?thesis by (simp add: shows_addresses_def pool_codec_def example_codec_def)
qed

theorem redis_reads_written_witness:
  "let s = run_ops hex_libs breaking_link pool_codec [OpSetPool example_pool] \<lparr>rs_db = redis_empty, rs_outside = 0\<rparr> in
   rd_strings (rs_db s) (state_key pool_codec example_pool) = Some ''pool'' \<and>
   answer_or_broken (\<lambda>x. case x of None \<Rightarrow> True | Some p \<Rightarrow> ps_address p = 100) (fst (redis_get_pool_state breaking_link pool_codec 100 s))"
proof -
  let ?ops = "[OpSetPool example_pool]"
  let ?s = "run_ops hex_libs breaking_link pool_codec ?ops \<lparr>rs_db = redis_empty, rs_outside = 0\<rparr>"
  have "texts_read_back pool_codec (set ?ops)" by (simp add: texts_read_back_def pool_codec_def)
  from redis_reads_written [OF pool_codec_shows this breaking_link_lists, of hex_libs 0 100]
  have "answer_or_broken (\<lambda>x. case x of None \<Rightarrow> True | Some p \<Rightarrow> ps_address p = 100)
      (fst (redis_get_pool_state breaking_link pool_codec 100 ?s))"
    by (simp add: Let_def answer_or_broken_def split: sum.splits option.splits)
  moreover have "rd_strings (rs_db ?s) (state_key pool_codec example_pool) = Some ''pool''"
    by (simp add: answered_def bind_def pass_def redis_set_pool_state_def queue_pool_state_def send_def breaking_link_def
        exec_commands_def pool_codec_def example_codec_def)
  ultimately show ?thesis by (simp add: Let_def del: run_ops.simps)
qed

end
