(* ===== verification/Redis_Refine.thy ===== *)
theory Redis_Refine
  imports Redis_Reads
begin

text \<open>
  The Redis stores refine the in-memory stores: over a connection that does not break, pools, lanes, ticks and
  the current block read the same from both after the same operations.
\<close>

section \<open>What an operation writes\<close>

fun op_pool_list :: "redis_op \<Rightarrow> pool_state list" where
  "op_pool_list (OpSetPool p) = [p]"
| "op_pool_list (OpSetPools ps) = ps"
| "op_pool_list (OpPublish b ps changed) = ps"
| "op_pool_list _ = []"

fun op_tick_list :: "redis_op \<Rightarrow> tick_state list" where
  "op_tick_list (OpSetTick t) = [t]"
| "op_tick_list (OpSetTicks ts) = ts"
| "op_tick_list (OpReplaceTicks pool ts) = ts"
| "op_tick_list _ = []"

fun op_lane_list :: "redis_op \<Rightarrow> eoa_lane_state list" where
  "op_lane_list (OpSetLane l) = [l]"
| "op_lane_list _ = []"

fun op_replaces :: "redis_op \<Rightarrow> address \<Rightarrow> bool" where
  "op_replaces (OpReplaceTicks pool ts) a \<longleftrightarrow> a = pool"
| "op_replaces _ a \<longleftrightarrow> False"

fun op_block :: "redis_op \<Rightarrow> u64 option" where
  "op_block (OpPublish b ps changed) = Some b"
| "op_block (OpSetBlock b) = Some b"
| "op_block _ = None"

lemma op_lists: "op_pools op = set (op_pool_list op)" "op_ticks op = set (op_tick_list op)" "op_lanes op = set (op_lane_list op)"
  by (cases op; simp)+

definition op_entries :: "store_codec \<Rightarrow> redis_op \<Rightarrow> (string \<times> string) list" where
  "op_entries jc op = map (\<lambda>p. (state_key jc p, jc_pool_text jc p)) (op_pool_list op) @
     map (\<lambda>p. (pool_address_index_key jc (ps_address p), state_key jc p)) (op_pool_list op) @
     map (\<lambda>t. (key_of_tick jc t, jc_tick_text jc t)) (op_tick_list op) @
     map (\<lambda>l. (eoa_lane_key jc (ln_address l), jc_lane_text jc l)) (op_lane_list op)"

definition write_entries :: "(string \<times> string) list \<Rightarrow> (string \<Rightarrow> string option) \<Rightarrow> string \<Rightarrow> string option" where
  "write_entries kvs m = fold (\<lambda>(key, v) m. m(key \<mapsto> v)) kvs m"

lemma write_entries_simps [simp]:
  "write_entries [] m = m" "write_entries ((key, v) # kvs) m = write_entries kvs (m(key \<mapsto> v))"
  "write_entries (kvs @ kvs') m = write_entries kvs' (write_entries kvs m)"
  by (simp_all add: write_entries_def)

lemma write_entries_map:
  "write_entries (map (\<lambda>x. (f x, g x)) xs) m k =
     (case filter (\<lambda>x. f x = k) xs of [] \<Rightarrow> m k | ys \<Rightarrow> Some (g (last ys)))"
proof (induction xs arbitrary: m rule: rev_induct)
  case (snoc x xs)
  then show ?case by (cases "filter (\<lambda>x. f x = k) xs") auto
qed simp

lemma write_entries_other: "k \<notin> fst ` set kvs \<Longrightarrow> write_entries kvs (m(k \<mapsto> v)) = (write_entries kvs m)(k \<mapsto> v)"
proof (induction kvs arbitrary: m)
  case (Cons kv kvs)
  obtain a b where kv: "kv = (a, b)" by (metis prod.exhaust)
  then have apart: "k \<noteq> a" "k \<notin> fst ` set kvs" using Cons.prems by auto
  show ?case using Cons.IH [OF apart(2), of "m(a \<mapsto> b)"] unfolding kv write_entries_simps fun_upd_twist [OF apart(1)] .
qed simp

text \<open>Writing state and index pool by pool is writing all states and then the whole index.\<close>

lemma write_pairs:
  assumes "\<And>x y. f x \<noteq> h y"
  shows "write_entries (concat (map (\<lambda>x. [(f x, g x), (h x, f x)]) xs)) m =
    write_entries (map (\<lambda>x. (h x, f x)) xs) (write_entries (map (\<lambda>x. (f x, g x)) xs) m)"
proof (induction xs rule: rev_induct)
  case (snoc x xs)
  have "f x \<notin> fst ` set (map (\<lambda>x. (h x, f x)) xs)" using assms by auto
  from write_entries_other [OF this] show ?case by (simp only: map_append concat_append write_entries_simps list.map concat.simps snoc append_Nil2)
qed simp

section \<open>The effect of a pipeline\<close>

fun cmd_entries :: "redis_command \<Rightarrow> (string \<times> string) list" where
  "cmd_entries (CmdSet key v) = [(key, v)]"
| "cmd_entries (CmdMset kvs) = kvs"
| "cmd_entries _ = []"

fun cmd_adds :: "redis_command \<Rightarrow> string \<Rightarrow> string set" where
  "cmd_adds (CmdSadd key members) k = (if k = key then set members else {})"
| "cmd_adds _ k = {}"

fun plain_command :: "redis_command \<Rightarrow> bool" where
  "plain_command (CmdDel keys) \<longleftrightarrow> False"
| "plain_command (CmdSetIfNewer key n) \<longleftrightarrow> False"
| "plain_command _ \<longleftrightarrow> True"

lemma plain_effect:
  assumes "list_all plain_command cmds"
  shows "rd_strings (exec_commands cmds db) = write_entries (concat (map cmd_entries cmds)) (rd_strings db)"
    "rd_sets (exec_commands cmds db) k = rd_sets db k \<union> (\<Union>cmd \<in> set cmds. cmd_adds cmd k)"
proof -
  have strings: "rd_strings (exec_command cmd db) = write_entries (cmd_entries cmd) (rd_strings db)"
    and sets: "rd_sets (exec_command cmd db) k = rd_sets db k \<union> cmd_adds cmd k" if "plain_command cmd" for cmd db
    using that by (cases cmd; simp add: write_entries_def)+
  show "rd_strings (exec_commands cmds db) = write_entries (concat (map cmd_entries cmds)) (rd_strings db)"
    using assms by (induction cmds arbitrary: db) (simp_all add: exec_commands_def strings)
  show "rd_sets (exec_commands cmds db) k = rd_sets db k \<union> (\<Union>cmd \<in> set cmds. cmd_adds cmd k)"
    using assms by (induction cmds arbitrary: db) (auto simp: exec_commands_def sets)
qed

lemma mset_effect: "concat (map cmd_entries (queue_mset_entries kvs)) = kvs" "list_all plain_command (queue_mset_entries kvs)"
    "cmd \<in> set (queue_mset_entries kvs) \<Longrightarrow> cmd_adds cmd k = {}"
proof -
  have "concat (map cmd_entries (map CmdMset chs)) = concat chs" for chs by (induction chs) simp_all
  then show "concat (map cmd_entries (queue_mset_entries kvs)) = kvs" by (simp only: queue_mset_entries_def concat_chunks)
qed (auto simp: queue_mset_entries_def list_all_iff)

lemma sadd_effect: "concat (map cmd_entries (queue_sadd_addresses key pools)) = []"
    "list_all plain_command (queue_sadd_addresses key pools)"
    "cmd \<in> set (queue_sadd_addresses key pools) \<Longrightarrow> k \<noteq> key \<Longrightarrow> cmd_adds cmd k = {}"
  by (auto simp: queue_sadd_addresses_def split: if_splits)

lemma tick_effect:
  assumes "shows_addresses jc"
  shows "concat (map cmd_entries (queue_tick_entries jc ts)) = map (\<lambda>t. (key_of_tick jc t, jc_tick_text jc t)) ts"
    "list_all plain_command (queue_tick_entries jc ts)"
    "(\<Union>cmd \<in> set (queue_tick_entries jc ts). cmd_adds cmd (tick_pool_index_key jc a)) = key_of_tick jc ` {t \<in> set ts. tick_pool t = a}"
proof -
  have "concat (map cmd_entries (map (\<lambda>(pool, keys). CmdSadd (tick_pool_index_key jc pool) keys) xs)) = []" for xs
    by (induction xs) auto
  then show "concat (map cmd_entries (queue_tick_entries jc ts)) = map (\<lambda>t. (key_of_tick jc t, jc_tick_text jc t)) ts"
    by (auto simp: queue_tick_entries_def serialize_tick_entries_def mset_effect)
  show "list_all plain_command (queue_tick_entries jc ts)"
    by (auto simp: queue_tick_entries_def serialize_tick_entries_def mset_effect list_all_iff)
      (use mset_effect(2) in \<open>auto simp: list_all_iff\<close>)
  show "(\<Union>cmd \<in> set (queue_tick_entries jc ts). cmd_adds cmd (tick_pool_index_key jc a)) = key_of_tick jc ` {t \<in> set ts. tick_pool t = a}"
  proof (cases "ts = []")
    case False
    let ?keys = "\<lambda>pool. map (key_of_tick jc) (filter (\<lambda>t. tick_pool t = pool) ts)"
    have "set (queue_tick_entries jc ts) = set (queue_mset_entries (map (\<lambda>t. (key_of_tick jc t, jc_tick_text jc t)) ts)) \<union>
        (\<lambda>pool. CmdSadd (tick_pool_index_key jc pool) (?keys pool)) ` (tick_pool ` set ts)"
      using False by (force simp: queue_tick_entries_def serialize_tick_entries_def filter_empty_conv)
    then have "(\<Union>cmd \<in> set (queue_tick_entries jc ts). cmd_adds cmd (tick_pool_index_key jc a)) =
        (\<Union>pool \<in> tick_pool ` set ts. if a = pool then set (?keys pool) else {})"
      using index_key_inj(2) [OF assms] mset_effect(3) by (simp add: if_distrib)
    then show ?thesis by (auto split: if_splits)
  qed (simp add: queue_tick_entries_def serialize_tick_entries_def)
qed

lemma pool_effect:
  "concat (map cmd_entries (queue_pool_states jc ps)) =
     map (\<lambda>p. (state_key jc p, jc_pool_text jc p)) ps @ map (\<lambda>p. (pool_address_index_key jc (ps_address p), state_key jc p)) ps"
  "list_all plain_command (queue_pool_states jc ps)"
  "cmd \<in> set (queue_pool_states jc ps) \<Longrightarrow> k \<noteq> pool_state_index_key \<Longrightarrow> cmd_adds cmd k = {}"
proof -
  have "concat (map cmd_entries (map (CmdSadd key) xs)) = []" for key xs by (induction xs) simp_all
  then show "concat (map cmd_entries (queue_pool_states jc ps)) =
     map (\<lambda>p. (state_key jc p, jc_pool_text jc p)) ps @ map (\<lambda>p. (pool_address_index_key jc (ps_address p), state_key jc p)) ps"
    by (simp only: queue_pool_states_def map_append concat_append mset_effect(1) append_Nil2)
qed (use mset_effect(2) in \<open>auto simp: queue_pool_states_def list_all_iff mset_effect(3)\<close>)

lemma publish_effect:
  "write_entries (concat (map cmd_entries (concat (map (queue_pool_state jc) ps) @ queue_sadd_addresses key pools))) m =
    write_entries (map (\<lambda>p. (state_key jc p, jc_pool_text jc p)) ps @
      map (\<lambda>p. (pool_address_index_key jc (ps_address p), state_key jc p)) ps) m"
  "list_all plain_command (concat (map (queue_pool_state jc) ps) @ queue_sadd_addresses key pools)"
  "cmd \<in> set (concat (map (queue_pool_state jc) ps) @ queue_sadd_addresses key pools) \<Longrightarrow> k \<noteq> pool_state_index_key \<Longrightarrow>
    k \<noteq> key \<Longrightarrow> cmd_adds cmd k = {}"
proof -
  have "concat (map cmd_entries (concat (map (queue_pool_state jc) ps))) =
      concat (map (\<lambda>p. [(state_key jc p, jc_pool_text jc p), (pool_address_index_key jc (ps_address p), state_key jc p)]) ps)"
    by (induction ps) (simp_all add: queue_pool_state_def)
  moreover have "state_key jc p \<noteq> pool_address_index_key jc (ps_address q)" for p q by (simp add: state_key_def)
  ultimately show "write_entries (concat (map cmd_entries (concat (map (queue_pool_state jc) ps) @ queue_sadd_addresses key pools))) m =
    write_entries (map (\<lambda>p. (state_key jc p, jc_pool_text jc p)) ps @
      map (\<lambda>p. (pool_address_index_key jc (ps_address p), state_key jc p)) ps) m"
    by (simp add: sadd_effect(1) write_pairs)
qed (use sadd_effect(2) in \<open>auto simp: list_all_iff queue_pool_state_def sadd_effect(3) split: if_splits\<close>)

section \<open>The effect of an operation\<close>

definition reliable :: "'w redis_link \<Rightarrow> bool" where
  "reliable lk \<longleftrightarrow> (\<forall>w. fst (lk_broken lk w) = None)"

lemma send_reliable: "reliable lk \<Longrightarrow> fst (send lk cmds s) = Inr () \<and> rs_db (snd (send lk cmds s)) = exec_commands cmds (rs_db s)"
  unfolding reliable_def by (erule allE [of _ "rs_outside s"]) (auto simp: send_def split: prod.split)

lemma ask_reliable:
  assumes "reliable lk"
  shows "\<exists>w. fst (ask lk f s) = Inr (fst (f w (rs_db s))) \<and> rs_db (snd (ask lk f s)) = snd (f w (rs_db s))"
proof -
  obtain broken w where l: "lk_broken lk (rs_outside s) = (broken, w)" by (metis prod.exhaust)
  moreover have "broken = None" using assms l by (metis fst_conv reliable_def)
  ultimately show ?thesis by (intro exI [of _ w]) (simp add: ask_def split: prod.split)
qed

lemma answered_db: "rs_db (snd (answered m s)) = rs_db (snd (m s))"
  by (auto simp: answered_def bind_def pass_def split: prod.split sum.split)

text \<open>The keys under which the states are.\<close>

definition state_entry_key :: "store_codec \<Rightarrow> string \<Rightarrow> bool" where
  "state_entry_key jc k \<longleftrightarrow> (\<exists>n a. k = pool_state_key jc n a) \<or> (\<exists>a. k = pool_address_index_key jc a) \<or>
     (\<exists>n a i. k = tick_state_key jc n a i) \<or> (\<exists>a. k = eoa_lane_key jc a) \<or> k = current_block_key"

lemma tick_key_no_index [simp]: "tick_state_key jc n a i \<noteq> tick_pool_index_key jc b" "tick_pool_index_key jc b \<noteq> tick_state_key jc n a i"
proof -
  obtain d ds where "nat_dec (unat n) = d # ds" "is_digit d" using nat_dec_digits [of "unat n"] by (cases "nat_dec (unat n)") auto
  then show "tick_state_key jc n a i \<noteq> tick_pool_index_key jc b"
    by (auto simp: tick_state_key_def tick_pool_index_key_def is_digit_def)
  then show "tick_pool_index_key jc b \<noteq> tick_state_key jc n a i" by simp
qed

lemma state_entry_keys [simp]:
  "state_entry_key jc (pool_state_key jc n a)" "state_entry_key jc (pool_address_index_key jc a)"
  "state_entry_key jc (tick_state_key jc n a i)" "state_entry_key jc (eoa_lane_key jc a)" "state_entry_key jc current_block_key"
  "\<not> state_entry_key jc candidates_key" "\<not> state_entry_key jc (tick_pool_index_key jc a)"
proof -
  show "\<not> state_entry_key jc (tick_pool_index_key jc a)"
    by (simp add: state_entry_key_def) (simp add: redis_key_defs)
qed (auto simp: state_entry_key_def redis_key_defs)

text \<open>The members of the index of a pool's ticks are keys of ticks.\<close>

definition indexes_ticks :: "store_codec \<Rightarrow> redis_db \<Rightarrow> bool" where
  "indexes_ticks jc db \<longleftrightarrow> (\<forall>a. finite (rd_sets db (tick_pool_index_key jc a)) \<and>
     (\<forall>m \<in> rd_sets db (tick_pool_index_key jc a). \<exists>n b i. m = tick_state_key jc n b i))"

definition op_deletes :: "store_codec \<Rightarrow> redis_op \<Rightarrow> redis_db \<Rightarrow> string set" where
  "op_deletes jc op db = {k. \<exists>a. op_replaces op a \<and> k \<in> rd_sets db (tick_pool_index_key jc a)}"

lemma smembers_reliable:
  assumes "reliable lk" "lists_members lk" "finite (rd_sets (rs_db s) key)"
  obtains members s' where "redis_smembers lk key s = (Inr members, s')" "rs_db s' = rs_db s"
    "set members = rd_sets (rs_db s) key" "distinct members"
proof -
  obtain r s' where run: "redis_smembers lk key s = (r, s')" by (metis prod.exhaust)
  obtain w where "r = Inr (lk_members lk (rd_sets (rs_db s) key) w)" "rs_db s' = rs_db s"
    using ask_reliable [OF assms(1), of "\<lambda>w. read_key (\<lambda>db. lk_members lk (rd_sets db key) w) w" s] run
    by (auto simp: redis_smembers_def read_key_def)
  then show ?thesis using that run assms(2,3) by (auto simp: lists_members_def)
qed

text \<open>The effect on the three parts of the database that readers of states use.\<close>

definition op_effect :: "store_codec \<Rightarrow> redis_op \<Rightarrow> redis_db \<Rightarrow> redis_db \<Rightarrow> bool" where
  "op_effect jc op db db' \<longleftrightarrow>
     (\<forall>k. state_entry_key jc k \<and> k \<noteq> current_block_key \<longrightarrow>
        rd_strings db' k = write_entries (op_entries jc op) (\<lambda>k. if k \<in> op_deletes jc op db then None else rd_strings db k) k) \<and>
     (\<forall>a. rd_sets db' (tick_pool_index_key jc a) = (if op_replaces op a then {} else rd_sets db (tick_pool_index_key jc a)) \<union>
        key_of_tick jc ` {t \<in> set (op_tick_list op). tick_pool t = a}) \<and>
     rd_strings db' current_block_key =
       (case op_block op of
          None \<Rightarrow> rd_strings db current_block_key
        | Some b \<Rightarrow> if newer_number (rd_strings db current_block_key) b then Some (nat_dec (unat b))
            else rd_strings db current_block_key)"

lemma no_block_entry: "write_entries (op_entries jc op) m current_block_key = m current_block_key"
proof -
  have "current_block_key \<notin> fst ` set (op_entries jc op)"
    by (auto simp: op_entries_def state_key_def key_of_tick_def)
  moreover have "k \<notin> fst ` set kvs \<Longrightarrow> write_entries kvs m k = m k" for k kvs m
    by (induction kvs arbitrary: m) auto
  ultimately show ?thesis by blast
qed

lemma plain_op_effect:
  assumes "list_all plain_command cmds" "\<And>m. write_entries (concat (map cmd_entries cmds)) m = write_entries (op_entries jc op) m"
    and "\<And>a. (\<Union>cmd \<in> set cmds. cmd_adds cmd (tick_pool_index_key jc a)) = key_of_tick jc ` {t \<in> set (op_tick_list op). tick_pool t = a}"
    and "op_block op = None" "\<And>a. \<not> op_replaces op a"
  shows "op_effect jc op db (exec_commands cmds db)"
  using assms(3-5) no_block_entry [of jc op] unfolding op_effect_def plain_effect [OF assms(1)] assms(2)
  by (simp add: op_deletes_def)

text \<open>The operations that leave the states alone, whatever their connection does.\<close>

definition same_states :: "store_codec \<Rightarrow> redis_db \<Rightarrow> redis_db \<Rightarrow> bool" where
  "same_states jc db db' \<longleftrightarrow> (\<forall>k. state_entry_key jc k \<longrightarrow> rd_strings db' k = rd_strings db k) \<and>
     (\<forall>a. rd_sets db' (tick_pool_index_key jc a) = rd_sets db (tick_pool_index_key jc a))"

fun state_op :: "redis_op \<Rightarrow> bool" where
  "state_op (OpSetPool p) \<longleftrightarrow> True"
| "state_op (OpSetPools ps) \<longleftrightarrow> True"
| "state_op (OpPublish b ps changed) \<longleftrightarrow> True"
| "state_op (OpSetBlock b) \<longleftrightarrow> True"
| "state_op (OpSetLane l) \<longleftrightarrow> True"
| "state_op (OpSetTick t) \<longleftrightarrow> True"
| "state_op (OpSetTicks ts) \<longleftrightarrow> True"
| "state_op (OpReplaceTicks pool ts) \<longleftrightarrow> True"
| "state_op _ \<longleftrightarrow> False"

lemma sadd_same: "(\<And>a. key \<noteq> tick_pool_index_key jc a) \<Longrightarrow> cmd \<in> set (queue_sadd_addresses key pools) \<Longrightarrow>
    same_states jc db0 db \<Longrightarrow> same_states jc db0 (exec_command cmd db)"
  by (auto simp: queue_sadd_addresses_def same_states_def split: if_splits)

lemma mark_same: "(\<And>a. key \<noteq> tick_pool_index_key jc a) \<Longrightarrow> maintains (same_states jc db0) (redis_mark lk key pools)"
  unfolding redis_mark_def by (intro maintains_if maintains_pass maintains_send sadd_same)

lemma drain_same: "(\<And>a. key \<noteq> tick_pool_index_key jc a) \<Longrightarrow> maintains (same_states jc db0) (redis_drain lib lk key limit)"
proof -
  assume "\<And>a. key \<noteq> tick_pool_index_key jc a"
  then have "\<And>a. tick_pool_index_key jc a \<noteq> key" by metis
  then show ?thesis
    unfolding redis_drain_def redis_spop_def by (auto intro!: maintains_intros simp: same_states_def Let_def)
qed

lemma other_op_same: "\<not> state_op op \<Longrightarrow> maintains (same_states jc db0) (run_op lib lk jc op)"
proof (cases op)
  case (OpPush cs)
  then show ?thesis
    by (auto intro!: maintains_answered maintains_push_chunks simp: redis_push_candidates_def same_states_def)
next
  case OpClear
  have "same_states jc db0 db \<Longrightarrow> same_states jc db0 (exec_command (CmdDel [candidates_key]) db)" for db
    using state_entry_keys(6) [of jc] by (auto simp: same_states_def redis_key_defs)
  then show ?thesis unfolding OpClear run_op.simps redis_clear_candidates_def
    by (intro maintains_answered maintains_ask) simp
qed (auto intro!: maintains_answered mark_same drain_same maintains_if maintains_pass maintains_fail maintains_bind
    maintains_lift maintains_timed maintains_ask
    simp: redis_mark_changed_pools_def redis_mark_tick_changed_pools_def redis_mark_tick_repair_pools_def
      redis_drain_changed_pools_def redis_drain_tick_changed_pools_def redis_drain_tick_repair_pools_def
      redis_pop_candidates_def redis_zpopmax_def Let_def redis_prune_candidates_before_block_def
      redis_try_acquire_submission_lock_def redis_mark_failure_key_def acquire_lock_def set_expiring_def same_states_def)

lemma other_op_writes_nothing:
  "\<not> state_op op \<Longrightarrow> op_entries jc op = [] \<and> op_tick_list op = [] \<and> op_block op = None \<and> (\<forall>a. \<not> op_replaces op a)"
  by (cases op) (simp_all add: op_entries_def)

lemma other_op_effect:
  assumes "\<not> state_op op"
  shows "op_effect jc op (rs_db s) (rs_db (snd (run_op lib lk jc op s)))"
proof -
  have "same_states jc (rs_db s) (rs_db (snd (run_op lib lk jc op s)))"
    by (rule maintains_run [OF other_op_same [OF assms]]) (simp add: same_states_def)
  then show ?thesis using other_op_writes_nothing [OF assms]
    by (simp add: op_effect_def op_deletes_def same_states_def)
qed

text \<open>Deleting a pool's ticks with their index.\<close>

lemma delete_effect:
  assumes "indexes_ticks jc db" "set existing = rd_sets db (tick_pool_index_key jc pool)" "shows_addresses jc"
  defines "db' \<equiv> exec_commands ((if existing = [] then [] else [CmdDel existing]) @ [CmdDel [tick_pool_index_key jc pool]]) db"
  shows "state_entry_key jc k \<Longrightarrow> rd_strings db' k = (if k \<in> rd_sets db (tick_pool_index_key jc pool) then None else rd_strings db k)"
    "rd_sets db' (tick_pool_index_key jc a) = (if a = pool then {} else rd_sets db (tick_pool_index_key jc a))"
proof -
  have members: "\<exists>n b i. m = tick_state_key jc n b i" if "m \<in> set existing" for m
    using assms(1,2) that by (auto simp: indexes_ticks_def)
  then have index: "tick_pool_index_key jc a \<notin> set existing" for a by force
  show "state_entry_key jc k \<Longrightarrow> rd_strings db' k = (if k \<in> rd_sets db (tick_pool_index_key jc pool) then None else rd_strings db k)"
    using state_entry_keys(7) [of jc pool] assms(2) by (auto simp: db'_def exec_commands_def)
  show "rd_sets db' (tick_pool_index_key jc a) = (if a = pool then {} else rd_sets db (tick_pool_index_key jc a))"
    using index index_key_inj(2) [OF assms(3)] assms(2) by (auto simp: db'_def exec_commands_def)
qed

lemma write_entries_cong:
  assumes "m k = m' k"
  shows "write_entries kvs m k = write_entries kvs m' k"
  using assms
proof (induction kvs arbitrary: m m')
  case (Cons kv kvs)
  obtain a b where kv: "kv = (a, b)" by (metis prod.exhaust)
  have "(m(a \<mapsto> b)) k = (m'(a \<mapsto> b)) k" using Cons.prems by simp
  then show ?case unfolding kv write_entries_simps by (rule Cons.IH)
qed simp

lemma run_op_effect:
  assumes "reliable lk" "lists_members lk" "shows_addresses jc" "indexes_ticks jc (rs_db s)"
  shows "op_effect jc op (rs_db s) (rs_db (snd (run_op lib lk jc op s)))"
proof (cases op)
  case (OpSetPool p)
  have db: "rs_db (snd (run_op lib lk jc op s)) = exec_commands (queue_pool_state jc p) (rs_db s)"
    unfolding OpSetPool run_op.simps answered_db redis_set_pool_state_def using send_reliable [OF assms(1)] by blast
  show ?thesis unfolding db
    by (rule plain_op_effect) (auto simp: OpSetPool queue_pool_state_def op_entries_def)
next
  case (OpSetPools ps)
  have db: "rs_db (snd (run_op lib lk jc op s)) = exec_commands (if ps = [] then [] else queue_pool_states jc ps) (rs_db s)"
    unfolding OpSetPools run_op.simps answered_db redis_set_pool_states_def using send_reliable [OF assms(1)]
    by (simp add: pass_def exec_commands_def)
  show ?thesis unfolding db
    by (rule plain_op_effect) (auto simp: OpSetPools pool_effect op_entries_def)
next
  case (OpSetLane l)
  have db: "rs_db (snd (run_op lib lk jc op s)) =
      exec_commands [CmdSet (eoa_lane_key jc (ln_address l)) (jc_lane_text jc l)] (rs_db s)"
    unfolding OpSetLane run_op.simps answered_db redis_set_lane_state_def using send_reliable [OF assms(1)] by blast
  show ?thesis unfolding db
    by (rule plain_op_effect) (auto simp: OpSetLane op_entries_def)
next
  case (OpSetTick t)
  have db: "rs_db (snd (run_op lib lk jc op s)) =
      exec_commands [CmdSet (key_of_tick jc t) (jc_tick_text jc t), CmdSadd (tick_pool_index_key jc (tick_pool t)) [key_of_tick jc t]] (rs_db s)"
    unfolding OpSetTick run_op.simps answered_db redis_set_tick_state_def using send_reliable [OF assms(1)] by blast
  show ?thesis unfolding db
    by (rule plain_op_effect) (auto simp: OpSetTick op_entries_def index_key_inj [OF assms(3)])
next
  case (OpSetTicks ts)
  have db: "rs_db (snd (run_op lib lk jc op s)) = exec_commands (if ts = [] then [] else queue_tick_entries jc ts) (rs_db s)"
    unfolding OpSetTicks run_op.simps answered_db redis_set_tick_states_def using send_reliable [OF assms(1)]
    by (simp add: pass_def exec_commands_def)
  show ?thesis unfolding db
    by (rule plain_op_effect) (auto simp: OpSetTicks op_entries_def tick_effect [OF assms(3)])
next
  case (OpSetBlock b)
  have db: "rs_db (snd (run_op lib lk jc op s)) = exec_command (CmdSetIfNewer current_block_key b) (rs_db s)"
    unfolding OpSetBlock run_op.simps answered_db redis_set_current_block_def using send_reliable [OF assms(1)]
    by (simp add: exec_commands_def)
  show ?thesis unfolding db by (simp add: OpSetBlock op_effect_def op_entries_def op_deletes_def)
next
  case (OpPublish b ps changed)
  let ?db1 = "exec_command (CmdSetIfNewer current_block_key b) (rs_db s)"
  let ?cmds = "concat (map (queue_pool_state jc) ps) @ queue_sadd_addresses changed_pools_key changed"
  have db: "rs_db (snd (run_op lib lk jc op s)) = exec_commands ?cmds ?db1"
    unfolding OpPublish run_op.simps answered_db redis_publish_pool_states_def using send_reliable [OF assms(1)]
    by (simp add: exec_commands_def queue_publish_def)
  have entries: "write_entries (concat (map cmd_entries ?cmds)) m = write_entries (op_entries jc op) m" for m
    unfolding publish_effect by (simp add: OpPublish op_entries_def)
  have "cmd_adds cmd (tick_pool_index_key jc a) = {}" if "cmd \<in> set ?cmds" for cmd a
    using publish_effect(3) [OF that] by simp
  then have "(\<Union>cmd \<in> set ?cmds. cmd_adds cmd (tick_pool_index_key jc a)) = {}" for a
    by (simp only: SUP_bot_conv) simp
  then show ?thesis
    unfolding op_effect_def db plain_effect [OF publish_effect(2)] entries no_block_entry
    by (auto simp: OpPublish op_deletes_def intro!: write_entries_cong)
next
  case (OpReplaceTicks pool ts)
  have "finite (rd_sets (rs_db s) (tick_pool_index_key jc pool))" using assms(4) by (simp add: indexes_ticks_def)
  from smembers_reliable [OF assms(1,2) this] obtain existing s1 where
    list: "redis_smembers lk (tick_pool_index_key jc pool) s = (Inr existing, s1)" "rs_db s1 = rs_db s"
      "set existing = rd_sets (rs_db s) (tick_pool_index_key jc pool)" .
  let ?dels = "(if existing = [] then [] else [CmdDel existing]) @ [CmdDel [tick_pool_index_key jc pool]]"
  define db1 where "db1 = exec_commands ?dels (rs_db s)"
  let ?cmds = "queue_tick_entries jc ts @ [CmdSadd changed_tick_pools_key [address_hex pool]]"
  have plain: "list_all plain_command ?cmds" by (simp add: tick_effect(2) [OF assms(3)])
  have db: "rs_db (snd (run_op lib lk jc op s)) = exec_commands ?cmds db1"
    unfolding OpReplaceTicks run_op.simps answered_db redis_replace_pool_ticks_def using send_reliable [OF assms(1)] list(1,2)
    by (simp add: bind_def queue_replace_ticks_def exec_commands_def db1_def)
  note dels = delete_effect [OF assms(4) list(3) assms(3), folded db1_def]
  have entries: "concat (map cmd_entries ?cmds) = op_entries jc op"
    by (simp add: OpReplaceTicks op_entries_def tick_effect(1) [OF assms(3)])
  have adds: "(\<Union>cmd \<in> set ?cmds. cmd_adds cmd (tick_pool_index_key jc a)) = key_of_tick jc ` {t \<in> set ts. tick_pool t = a}" for a
    by (simp add: tick_effect(3) [OF assms(3)])
  have "current_block_key \<notin> rd_sets (rs_db s) (tick_pool_index_key jc pool)"
    using assms(4) by (force simp: indexes_ticks_def)
  then show ?thesis
    unfolding op_effect_def db plain_effect [OF plain] entries adds no_block_entry
    by (auto simp: dels OpReplaceTicks op_deletes_def intro!: write_entries_cong)
qed (use other_op_effect [of op] in simp_all)

section \<open>The same operation in memory\<close>

text \<open>The in-memory stores keep no lifetimes; locks and failures leave the states alone in both.\<close>

fun memory_op :: "redis_op \<Rightarrow> in_memory_stores \<Rightarrow> in_memory_stores" where
  "memory_op (OpSetPool p) = set_pool_state p"
| "memory_op (OpSetPools ps) = set_pool_states ps"
| "memory_op (OpPublish b ps changed) = publish_pool_states b ps changed"
| "memory_op (OpSetBlock b) = set_current_block b"
| "memory_op (OpSetLane l) = set_lane_state l"
| "memory_op (OpSetTick t) = set_tick_state t"
| "memory_op (OpSetTicks ts) = set_tick_states ts"
| "memory_op (OpReplaceTicks pool ts) = replace_pool_ticks pool ts"
| "memory_op (OpMarkPools pools) = mark_changed_pools pools"
| "memory_op (OpMarkTicks pools) = mark_tick_changed_pools pools"
| "memory_op (OpMarkRepairs pools) = mark_tick_repair_pools pools"
| "memory_op OpDrainPools = (\<lambda>st. snd (drain_changed_pools st))"
| "memory_op OpDrainTicks = (\<lambda>st. snd (drain_tick_changed_pools st))"
| "memory_op (OpDrainRepairs limit) = (\<lambda>st. snd (drain_tick_repair_pools limit st))"
| "memory_op (OpPush cs) = push_candidates cs"
| "memory_op (OpPop limit) = (\<lambda>st. snd (pop_candidates limit st))"
| "memory_op (OpPrune b) = (\<lambda>st. snd (prune_candidates_before_block b st))"
| "memory_op OpClear = (\<lambda>st. st)"
| "memory_op (OpLock key ttl) = (\<lambda>st. st)"
| "memory_op (OpFailure key ttl) = (\<lambda>st. st)"

text \<open>The components of the in-memory state an operation leaves alone.\<close>

lemma memory_other:
  "\<not> state_op op \<Longrightarrow> ms_pool_states (memory_op op st) = ms_pool_states st \<and> ms_lanes (memory_op op st) = ms_lanes st \<and>
    ms_ticks (memory_op op st) = ms_ticks st \<and> ms_current_block (memory_op op st) = ms_current_block st"
  by (cases op) (simp_all add: mark_changed_pools_def mark_tick_changed_pools_def mark_tick_repair_pools_def
      drain_changed_pools_def drain_tick_changed_pools_def drain_tick_repair_pools_def push_candidates_def
      pop_candidates_def prune_candidates_before_block_def Let_def)

lemma set_pool_states_others [simp]: "ms_lanes (set_pool_states ps st) = ms_lanes st" "ms_ticks (set_pool_states ps st) = ms_ticks st"
proof -
  have "ms_lanes (fold set_pool_state ps st) = ms_lanes st \<and> ms_ticks (fold set_pool_state ps st) = ms_ticks st"
    by (induction ps arbitrary: st) (simp_all add: set_pool_state_def)
  then show "ms_lanes (set_pool_states ps st) = ms_lanes st" "ms_ticks (set_pool_states ps st) = ms_ticks st"
    by (simp_all add: set_pool_states_def)
qed

lemma set_tick_states_others [simp]:
  "ms_lanes (set_tick_states ts st) = ms_lanes st" "ms_pool_states (set_tick_states ts st) = ms_pool_states st"
  "ms_current_block (set_tick_states ts st) = ms_current_block st"
proof -
  have "ms_lanes (fold set_tick_state ts st) = ms_lanes st \<and> ms_pool_states (fold set_tick_state ts st) = ms_pool_states st \<and>
      ms_current_block (fold set_tick_state ts st) = ms_current_block st"
    by (induction ts arbitrary: st) (simp_all add: set_tick_state_def)
  then show "ms_lanes (set_tick_states ts st) = ms_lanes st" "ms_pool_states (set_tick_states ts st) = ms_pool_states st"
    "ms_current_block (set_tick_states ts st) = ms_current_block st"
    by (simp_all add: set_tick_states_def)
qed

lemmas memory_defs = set_pool_state_def set_current_block_def set_lane_state_def set_tick_state_def
  publish_pool_states_def mark_changed_pools_def replace_pool_ticks_def

lemma memory_pool:
  "get_pool_state (memory_op op st) a =
    (case filter (\<lambda>p. ps_address p = a) (op_pool_list op) of [] \<Rightarrow> get_pool_state st a | ys \<Rightarrow> Some (last ys))"
proof (cases "state_op op")
  case True
  then show ?thesis
    using pool_store.lookup_put_all [of "op_pool_list op" st a] pool_after_publish [of _ _ _ st a]
    by (cases op) (simp_all add: get_pool_state_def memory_defs set_pool_states_def split: list.splits)
next
  case False
  then show ?thesis using memory_other [OF False, of st] other_op_writes_nothing [OF False]
    by (cases op) (simp_all add: get_pool_state_def)
qed

lemma memory_lane:
  "get_lane_state (memory_op op st) a =
    (case filter (\<lambda>l. ln_address l = a) (op_lane_list op) of [] \<Rightarrow> get_lane_state st a | ys \<Rightarrow> Some (last ys))"
proof (cases "state_op op")
  case True
  then show ?thesis by (cases op) (simp_all add: get_lane_state_def memory_defs)
next
  case False
  then show ?thesis using memory_other [OF False, of st] by (cases op) (simp_all add: get_lane_state_def)
qed

lemma memory_tick:
  "get_tick (memory_op op st) (a, i) =
    (case filter (\<lambda>t. tick_key_of t = (a, i)) (op_tick_list op) of
       [] \<Rightarrow> if op_replaces op a then None else get_tick st (a, i) | ys \<Rightarrow> Some (last ys))"
proof (cases "state_op op")
  case True
  have put: "get_tick (set_tick_states ts st) (a, i) =
      (case filter (\<lambda>t. tick_key_of t = (a, i)) ts of [] \<Rightarrow> get_tick st (a, i) | ys \<Rightarrow> Some (last ys))" for ts st
    unfolding set_tick_states_def by (rule tick_store.lookup_put_all)
  have one: "get_tick (set_tick_state t st) (a, i) = (if (a, i) = tick_key_of t then Some t else get_tick st (a, i))" for t
    by (rule tick_store.lookup_put)
  have old: "get_tick (st\<lparr>ms_ticks := filter (\<lambda>((a, _), _). a \<noteq> pool) (ms_ticks st)\<rparr>) (a, i) =
      (if a = pool then None else get_tick st (a, i))" for pool
    by (simp add: get_tick_def map_of_without_pool)
  have frame: "get_tick st' (a, i) = get_tick st (a, i)" if "ms_ticks st' = ms_ticks st" for st'
    using that by (simp add: get_tick_def)
  show ?thesis
  proof (cases op)
    case (OpSetTick t)
    then show ?thesis by (auto simp: one)
  next
    case (OpSetTicks ts)
    then show ?thesis by (simp add: put)
  next
    case (OpReplaceTicks pool ts)
    show ?thesis unfolding OpReplaceTicks memory_op.simps replace_pool_ticks_def put old by (auto split: list.split)
  qed (use True in \<open>auto intro!: frame simp: set_pool_state_def set_current_block_def set_lane_state_def
      publish_pool_states_def mark_changed_pools_def\<close>)
next
  case False
  then show ?thesis using memory_other [OF False, of st] other_op_writes_nothing [OF False]
    by (cases op) (simp_all add: get_tick_def)
qed

lemma memory_block:
  "get_current_block (memory_op op st) =
    (case op_block op of None \<Rightarrow> get_current_block st
     | Some b \<Rightarrow> Some (case get_current_block st of None \<Rightarrow> b | Some c \<Rightarrow> max c b))"
proof (cases "state_op op")
  case True
  then show ?thesis by (cases op) (simp_all add: get_current_block_def memory_defs)
next
  case False
  then show ?thesis using memory_other [OF False, of st] by (cases op) (simp_all add: get_current_block_def)
qed

text \<open>The ticks are kept in order under their own keys.\<close>

definition ticks_ordered :: "in_memory_stores \<Rightarrow> bool" where
  "ticks_ordered st \<longleftrightarrow> btree_ok (ms_ticks st) \<and> (\<forall>(k, t) \<in> set (ms_ticks st). k = tick_key_of t)"

lemma btree_set_insert: "set (btree_insert k v m) \<subseteq> insert (k, v) (set m)"
proof (induction m)
  case (Cons kv m)
  then show ?case by (cases kv) (auto split: if_splits)
qed simp

lemma set_tick_ordered: "ticks_ordered st \<Longrightarrow> ticks_ordered (set_tick_state t st)"
  using btree_set_insert [of "tick_key_of t" t "ms_ticks st"]
  by (auto simp: ticks_ordered_def set_tick_state_def intro: btree_ok_insert)

lemma set_ticks_ordered: "ticks_ordered st \<Longrightarrow> ticks_ordered (set_tick_states ts st)"
  unfolding set_tick_states_def by (induction ts arbitrary: st) (simp_all add: set_tick_ordered)

lemma memory_ordered: "ticks_ordered st \<Longrightarrow> ticks_ordered (memory_op op st)"
proof (cases "state_op op")
  case True
  assume ok: "ticks_ordered st"
  have "ticks_ordered (replace_pool_ticks pool ts st)" for pool ts
    using ok unfolding replace_pool_ticks_def by (intro set_ticks_ordered) (auto simp: ticks_ordered_def intro: btree_ok_filter)
  moreover have "ticks_ordered st'" if "ms_ticks st' = ms_ticks st" for st' using ok that by (simp add: ticks_ordered_def)
  ultimately show ?thesis using True ok
    by (cases op) (simp_all add: set_tick_ordered set_ticks_ordered set_pool_state_def set_current_block_def
        set_lane_state_def publish_pool_states_def mark_changed_pools_def)
next
  case False
  assume "ticks_ordered st"
  then show ?thesis using memory_other [OF False, of st] by (simp add: ticks_ordered_def)
qed

section \<open>Agreement\<close>

text \<open>One chain, texts that are read back, and blocks that are exact as doubles.\<close>

definition op_valid :: "store_codec \<Rightarrow> u64 \<Rightarrow> redis_op \<Rightarrow> bool" where
  "op_valid jc n op \<longleftrightarrow> texts_read_back jc {op} \<and> (\<forall>p \<in> op_pools op. pid_chain_id (ps_pool_id p) = n) \<and>
     (\<forall>t \<in> op_ticks op. pid_chain_id (ts_pool_id t) = n) \<and> (\<forall>b. op_block op = Some b \<longrightarrow> unat b < 2 ^ 53)"

definition pools_agree :: "store_codec \<Rightarrow> u64 \<Rightarrow> redis_db \<Rightarrow> in_memory_stores \<Rightarrow> bool" where
  "pools_agree jc n db st \<longleftrightarrow> (\<forall>a.
     rd_strings db (pool_address_index_key jc a) = map_option (\<lambda>_. pool_state_key jc n a) (get_pool_state st a) \<and>
     (\<forall>p. get_pool_state st a = Some p \<longrightarrow>
        rd_strings db (pool_state_key jc n a) = Some (jc_pool_text jc p) \<and> jc_read_pool jc (jc_pool_text jc p) = Inr p))"

definition lanes_agree :: "store_codec \<Rightarrow> redis_db \<Rightarrow> in_memory_stores \<Rightarrow> bool" where
  "lanes_agree jc db st \<longleftrightarrow> (\<forall>a. rd_strings db (eoa_lane_key jc a) = map_option (jc_lane_text jc) (get_lane_state st a) \<and>
     (\<forall>l. get_lane_state st a = Some l \<longrightarrow> jc_read_lane jc (jc_lane_text jc l) = Inr l))"

definition ticks_agree :: "store_codec \<Rightarrow> u64 \<Rightarrow> redis_db \<Rightarrow> in_memory_stores \<Rightarrow> bool" where
  "ticks_agree jc n db st \<longleftrightarrow> (\<forall>a.
     (\<forall>i t. get_tick st (a, sint i) = Some t \<longrightarrow>
        rd_strings db (tick_state_key jc n a i) = Some (jc_tick_text jc t) \<and> jc_read_tick jc (jc_tick_text jc t) = Inr t) \<and>
     rd_sets db (tick_pool_index_key jc a) = {tick_state_key jc n a i | i. get_tick st (a, sint i) \<noteq> None})"

definition block_agrees :: "redis_db \<Rightarrow> in_memory_stores \<Rightarrow> bool" where
  "block_agrees db st \<longleftrightarrow>
     rd_strings db current_block_key = map_option (\<lambda>b. nat_dec (unat b)) (get_current_block st) \<and>
     (\<forall>b. get_current_block st = Some b \<longrightarrow> unat b < 2 ^ 53)"

definition stores_agree :: "store_codec \<Rightarrow> u64 \<Rightarrow> redis_db \<Rightarrow> in_memory_stores \<Rightarrow> bool" where
  "stores_agree jc n db st \<longleftrightarrow> pools_agree jc n db st \<and> lanes_agree jc db st \<and> ticks_agree jc n db st \<and>
     block_agrees db st \<and> ticks_ordered st"

lemma last_filter: "filter P xs = y # ys \<Longrightarrow> P (last (y # ys)) \<and> last (y # ys) \<in> set xs"
proof -
  assume f: "filter P xs = y # ys"
  have "last (y # ys) \<in> set (filter P xs)" unfolding f by (rule last_in_set) simp
  then show ?thesis by simp
qed

text \<open>The entries an operation writes under each kind of key.\<close>

lemma entries_at:
  assumes "shows_addresses jc"
  shows "write_entries (op_entries jc op) m (pool_state_key jc n a) =
      (case filter (\<lambda>p. state_key jc p = pool_state_key jc n a) (op_pool_list op) of [] \<Rightarrow> m (pool_state_key jc n a)
       | ys \<Rightarrow> Some (jc_pool_text jc (last ys)))"
    "write_entries (op_entries jc op) m (pool_address_index_key jc a) =
      (case filter (\<lambda>p. ps_address p = a) (op_pool_list op) of [] \<Rightarrow> m (pool_address_index_key jc a)
       | ys \<Rightarrow> Some (state_key jc (last ys)))"
    "write_entries (op_entries jc op) m (tick_state_key jc n a i) =
      (case filter (\<lambda>t. key_of_tick jc t = tick_state_key jc n a i) (op_tick_list op) of [] \<Rightarrow> m (tick_state_key jc n a i)
       | ys \<Rightarrow> Some (jc_tick_text jc (last ys)))"
    "write_entries (op_entries jc op) m (eoa_lane_key jc a) =
      (case filter (\<lambda>l. ln_address l = a) (op_lane_list op) of [] \<Rightarrow> m (eoa_lane_key jc a)
       | ys \<Rightarrow> Some (jc_lane_text jc (last ys)))"
  unfolding op_entries_def write_entries_simps write_entries_map
  by (simp_all add: state_key_def key_of_tick_def index_key_inj [OF assms] split: list.split)

lemma pools_step:
  assumes "shows_addresses jc" "op_valid jc n op" "op_effect jc op db db'" "ticks_agree jc n db st" "pools_agree jc n db st"
  shows "pools_agree jc n db' (memory_op op st)"
  unfolding pools_agree_def memory_pool
proof (intro allI conjI impI)
  fix a
  let ?ps = "filter (\<lambda>p. ps_address p = a) (op_pool_list op)"
  have chain: "pid_chain_id (ps_pool_id p) = n" "jc_read_pool jc (jc_pool_text jc p) = Inr p" if "p \<in> set (op_pool_list op)" for p
    using assms(2) that by (simp_all add: op_valid_def texts_read_back_def op_lists)
  have kept: "k \<notin> op_deletes jc op db" if "\<And>b i. k \<noteq> tick_state_key jc n b i" for k
    using assms(4) that by (auto simp: ticks_agree_def op_deletes_def)
  note old = assms(5) [unfolded pools_agree_def, rule_format, of a]
  have db: "rd_strings db' k = write_entries (op_entries jc op) (\<lambda>k. if k \<in> op_deletes jc op db then None else rd_strings db k) k"
    if "state_entry_key jc k" "k \<noteq> current_block_key" for k
    using assms(3) that by (simp add: op_effect_def)
  have states: "filter (\<lambda>p. state_key jc p = pool_state_key jc n a) (op_pool_list op) = ?ps"
    using chain by (intro filter_cong) (auto simp: state_key_def pool_key_inj [OF assms(1)])
  show "rd_strings db' (pool_address_index_key jc a) =
      map_option (\<lambda>_. pool_state_key jc n a) (case ?ps of [] \<Rightarrow> get_pool_state st a | ys \<Rightarrow> Some (last ys))"
    using old kept [of "pool_address_index_key jc a"] chain last_filter [of "\<lambda>p. ps_address p = a" "op_pool_list op"]
    by (cases ?ps) (simp_all add: db entries_at [OF assms(1)] state_key_def)
  fix p
  assume "(case ?ps of [] \<Rightarrow> get_pool_state st a | ys \<Rightarrow> Some (last ys)) = Some p"
  then show "rd_strings db' (pool_state_key jc n a) = Some (jc_pool_text jc p)" "jc_read_pool jc (jc_pool_text jc p) = Inr p"
    using old kept [of "pool_state_key jc n a"] chain last_filter [of "\<lambda>p. ps_address p = a" "op_pool_list op"]
    by (cases ?ps; simp add: db entries_at [OF assms(1)] states)+
qed

lemma lanes_step:
  assumes "shows_addresses jc" "op_valid jc n op" "op_effect jc op db db'" "ticks_agree jc n db st" "lanes_agree jc db st"
  shows "lanes_agree jc db' (memory_op op st)"
  unfolding lanes_agree_def memory_lane
proof (intro allI conjI impI)
  fix a
  let ?ls = "filter (\<lambda>l. ln_address l = a) (op_lane_list op)"
  have valid: "jc_read_lane jc (jc_lane_text jc l) = Inr l" if "l \<in> set (op_lane_list op)" for l
    using assms(2) that by (simp add: op_valid_def texts_read_back_def op_lists)
  have kept: "eoa_lane_key jc a \<notin> op_deletes jc op db"
    using assms(4) by (auto simp: ticks_agree_def op_deletes_def)
  note old = assms(5) [unfolded lanes_agree_def, rule_format, of a]
  have db: "rd_strings db' (eoa_lane_key jc a) =
      write_entries (op_entries jc op) (\<lambda>k. if k \<in> op_deletes jc op db then None else rd_strings db k) (eoa_lane_key jc a)"
    using assms(3) by (simp add: op_effect_def)
  show "rd_strings db' (eoa_lane_key jc a) =
      map_option (jc_lane_text jc) (case ?ls of [] \<Rightarrow> get_lane_state st a | ys \<Rightarrow> Some (last ys))"
    using old kept by (cases ?ls) (simp_all add: db entries_at [OF assms(1)])
  fix l
  assume "(case ?ls of [] \<Rightarrow> get_lane_state st a | ys \<Rightarrow> Some (last ys)) = Some l"
  then show "jc_read_lane jc (jc_lane_text jc l) = Inr l"
    using old valid last_filter [of "\<lambda>l. ln_address l = a" "op_lane_list op"] by (cases ?ls) auto
qed

lemma ticks_step:
  assumes "shows_addresses jc" "op_valid jc n op" "op_effect jc op db db'" "ticks_agree jc n db st"
  shows "ticks_agree jc n db' (memory_op op st)"
  unfolding ticks_agree_def memory_tick
proof (intro allI conjI impI)
  fix a
  let ?new = "\<lambda>i :: i32. filter (\<lambda>t. tick_key_of t = (a, sint i)) (op_tick_list op)"
  let ?old = "\<lambda>i :: i32. if op_replaces op a then None else get_tick st (a, sint i)"
  have valid: "pid_chain_id (ts_pool_id t) = n" "jc_read_tick jc (jc_tick_text jc t) = Inr t" if "t \<in> set (op_tick_list op)" for t
    using assms(2) that by (simp_all add: op_valid_def texts_read_back_def op_lists)
  note old = assms(4) [unfolded ticks_agree_def, rule_format, of a]
  have key: "key_of_tick jc t = tick_state_key jc n a i \<longleftrightarrow> tick_key_of t = (a, sint i)" if "t \<in> set (op_tick_list op)" for t i
    using valid(1) [OF that] by (auto simp: key_of_tick_def tick_key_inj [OF assms(1)] tick_key_of_def signed_word_eqI)
  then have same: "filter (\<lambda>t. key_of_tick jc t = tick_state_key jc n a i) (op_tick_list op) = ?new i" for i
    by (intro filter_cong) auto
  have deleted: "tick_state_key jc n a i \<in> op_deletes jc op db \<Longrightarrow> op_replaces op a" for i
    using assms(4) by (auto simp: ticks_agree_def op_deletes_def tick_key_inj [OF assms(1)])
  have db: "rd_strings db' (tick_state_key jc n a i) =
      write_entries (op_entries jc op) (\<lambda>k. if k \<in> op_deletes jc op db then None else rd_strings db k) (tick_state_key jc n a i)" for i
    using assms(3) by (simp add: op_effect_def)
  {
    fix i t
    assume "(case ?new i of [] \<Rightarrow> ?old i | ys \<Rightarrow> Some (last ys)) = Some t"
    then show "rd_strings db' (tick_state_key jc n a i) = Some (jc_tick_text jc t)" "jc_read_tick jc (jc_tick_text jc t) = Inr t"
      using old deleted [of i] valid(2) last_filter [of "\<lambda>t. tick_key_of t = (a, sint i)" "op_tick_list op"]
      by (cases "?new i"; auto simp: db entries_at [OF assms(1)] same split: if_splits)+
  }
  have "rd_sets db' (tick_pool_index_key jc a) = (if op_replaces op a then {} else rd_sets db (tick_pool_index_key jc a)) \<union>
      key_of_tick jc ` {t \<in> set (op_tick_list op). tick_pool t = a}"
    using assms(3) by (simp add: op_effect_def)
  also have "key_of_tick jc ` {t \<in> set (op_tick_list op). tick_pool t = a} = {tick_state_key jc n a i | i. ?new i \<noteq> []}"
    using valid(1) by (auto simp: key_of_tick_def tick_key_of_def filter_empty_conv signed_word_eqI dest!: signed_word_eqI)
  finally have sets: "rd_sets db' (tick_pool_index_key jc a) =
      (if op_replaces op a then {} else rd_sets db (tick_pool_index_key jc a)) \<union> {tick_state_key jc n a i | i. ?new i \<noteq> []}" .
  have stored: "(case ?new i of [] \<Rightarrow> ?old i | ys \<Rightarrow> Some (last ys)) \<noteq> None \<longleftrightarrow>
      ?new i \<noteq> [] \<or> \<not> op_replaces op a \<and> get_tick st (a, sint i) \<noteq> None" for i
    by (cases "?new i") auto
  show "rd_sets db' (tick_pool_index_key jc a) =
      {tick_state_key jc n a i | i. (case ?new i of [] \<Rightarrow> ?old i | ys \<Rightarrow> Some (last ys)) \<noteq> None}"
    unfolding sets stored using conjunct2 [OF old] by auto
qed

lemma block_step:
  assumes "op_valid jc n op" "op_effect jc op db db'" "block_agrees db st"
  shows "block_agrees db' (memory_op op st)"
proof (cases "op_block op")
  case None
  then show ?thesis using assms(2,3) by (simp add: block_agrees_def memory_block op_effect_def)
next
  case (Some b)
  have b: "unat b < 2 ^ 53" using assms(1) Some by (simp add: op_valid_def)
  have db: "rd_strings db' current_block_key =
      (if newer_number (rd_strings db current_block_key) b then Some (nat_dec (unat b)) else rd_strings db current_block_key)"
    using assms(2) Some by (simp add: op_effect_def)
  show ?thesis
  proof (cases "get_current_block st")
    case None
    then show ?thesis using assms(3) Some b db by (simp add: block_agrees_def memory_block newer_number_def)
  next
    case old: (Some c)
    then have c: "unat c < 2 ^ 53" "rd_strings db current_block_key = Some (nat_dec (unat c))"
      using assms(3) by (simp_all add: block_agrees_def)
    have "f_less (F_fin (of_nat i)) (F_fin (of_nat j)) \<longleftrightarrow> i < j" for i j :: nat
      by (simp only: f_less.simps of_nat_less_iff)
    moreover have "newer_number (Some (nat_dec (unat c))) b = f_less (f64_of_nat (unat c)) (f64_of_nat (unat b))"
      by (simp add: newer_number_def)
    ultimately have newer: "newer_number (rd_strings db current_block_key) b \<longleftrightarrow> c < b"
      by (simp only: c(2) f64_of_nat_exact [OF c(1)] f64_of_nat_exact [OF b] word_less_nat_alt)
    show ?thesis
    proof (cases "c < b")
      case True
      then have "max c b = b" by (rule max_absorb2 [OF less_imp_le])
      then show ?thesis using True Some b old by (simp add: block_agrees_def memory_block db newer)
    next
      case False
      then have "max c b = c" by (simp add: max_def)
      moreover have "rd_strings db' current_block_key = Some (nat_dec (unat c))" using db [unfolded newer] False c(2) by simp
      ultimately show ?thesis using Some old c(1) by (simp add: block_agrees_def memory_block)
    qed
  qed
qed

lemma agree_indexes: "ticks_agree jc n db st \<Longrightarrow> indexes_ticks jc db"
  by (auto simp: ticks_agree_def indexes_ticks_def)

lemma stores_step:
  assumes "reliable lk" "lists_members lk" "shows_addresses jc" "op_valid jc n op" "stores_agree jc n (rs_db s) st"
  shows "stores_agree jc n (rs_db (snd (run_op lib lk jc op s))) (memory_op op st)"
proof -
  have parts: "pools_agree jc n (rs_db s) st" "lanes_agree jc (rs_db s) st" "ticks_agree jc n (rs_db s) st"
    "block_agrees (rs_db s) st" "ticks_ordered st"
    using assms(5) by (simp_all add: stores_agree_def)
  note effect = run_op_effect [OF assms(1-3) agree_indexes [OF parts(3)], of op lib]
  show ?thesis unfolding stores_agree_def
    using pools_step [OF assms(3,4) effect parts(3,1)] lanes_step [OF assms(3,4) effect parts(3,2)]
      ticks_step [OF assms(3,4) effect parts(3)] block_step [OF assms(4) effect parts(4)] memory_ordered [OF parts(5)]
    by blast
qed

lemma stores_run:
  assumes "reliable lk" "lists_members lk" "shows_addresses jc"
  shows "\<forall>op \<in> set ops. op_valid jc n op \<Longrightarrow> stores_agree jc n (rs_db s) st \<Longrightarrow>
    stores_agree jc n (rs_db (run_ops lib lk jc ops s)) (fold memory_op ops st)"
  by (induction ops arbitrary: s st) (simp_all add: stores_step [OF assms])

lemma empty_stores_agree: "stores_agree jc n redis_empty stores_new"
  by (simp add: stores_agree_def pools_agree_def lanes_agree_def ticks_agree_def block_agrees_def ticks_ordered_def btree_ok_def
      redis_empty_def stores_new_def get_pool_state_def get_lane_state_def get_tick_def get_current_block_def)

section \<open>Reading\<close>

lemma get_reliable:
  assumes "reliable lk"
  obtains s' where "redis_get lk key s = (Inr (rd_strings (rs_db s) key), s')" "rs_db s' = rs_db s"
proof -
  obtain r s' where "redis_get lk key s = (r, s')" by (metis prod.exhaust)
  then show ?thesis using that ask_reliable [OF assms, of "read_key (\<lambda>db. rd_strings db key)" s]
    by (auto simp: redis_get_def read_key_def)
qed

lemma mget_reliable:
  assumes "reliable lk"
  obtains s' where "redis_mget lk keys s = (Inr (map (rd_strings (rs_db s)) keys), s')" "rs_db s' = rs_db s"
proof -
  obtain r s' where "redis_mget lk keys s = (r, s')" by (metis prod.exhaust)
  then show ?thesis using that ask_reliable [OF assms, of "read_key (\<lambda>db. map (rd_strings db) keys)" s]
    by (auto simp: redis_mget_def read_key_def)
qed

lemma read_pool_agrees:
  assumes "reliable lk" "pools_agree jc n (rs_db s) st"
  shows "fst (redis_get_pool_state lk jc a s) = Inr (get_pool_state st a)"
proof -
  obtain s1 where s1: "redis_get lk (pool_address_index_key jc a) s = (Inr (rd_strings (rs_db s) (pool_address_index_key jc a)), s1)"
    "rs_db s1 = rs_db s" using get_reliable [OF assms(1)] .
  obtain s2 where s2: "redis_get lk (pool_state_key jc n a) s1 = (Inr (rd_strings (rs_db s) (pool_state_key jc n a)), s2)"
    using get_reliable [OF assms(1), of "pool_state_key jc n a" s1] s1(2) by auto
  show ?thesis
    using assms(2) s1 s2 by (cases "get_pool_state st a")
      (simp_all add: redis_get_pool_state_def bind_def pass_def lift_def decode_value_def pools_agree_def)
qed

lemma read_lane_agrees:
  assumes "reliable lk" "lanes_agree jc (rs_db s) st"
  shows "fst (redis_get_lane_state lk jc a s) = Inr (get_lane_state st a)"
proof -
  obtain s1 where "redis_get lk (eoa_lane_key jc a) s = (Inr (rd_strings (rs_db s) (eoa_lane_key jc a)), s1)"
    using get_reliable [OF assms(1)] .
  then show ?thesis
    using assms(2) by (cases "get_lane_state st a")
      (simp_all add: redis_get_lane_state_def bind_def lift_def decode_value_def lanes_agree_def)
qed

lemma read_block_agrees:
  assumes "reliable lk" "block_agrees (rs_db s) st"
  shows "fst (redis_get_current_block lk s) = Inr (get_current_block st)"
proof -
  obtain s1 where s1: "redis_get lk current_block_key s = (Inr (rd_strings (rs_db s) current_block_key), s1)"
    using get_reliable [OF assms(1)] .
  show ?thesis
  proof (cases "get_current_block st")
    case (Some b)
    have "unat b < 2 ^ 64" using unat_lt [of b] by simp
    then show ?thesis using assms(2) s1 Some
      by (simp add: redis_get_current_block_def bind_def pass_def block_agrees_def)
  qed (use assms(2) s1 in \<open>simp add: redis_get_current_block_def bind_def pass_def block_agrees_def\<close>)
qed

text \<open>The ticks of a pool in memory, in strictly ascending order.\<close>

lemma pool_ticks_sorted:
  assumes "ticks_ordered st"
  shows "t \<in> set (get_pool_ticks st a) \<longleftrightarrow> get_tick st (a, sint (ts_tick t)) = Some t"
    "get_tick st (a, i) = Some t \<Longrightarrow> tick_key_of t = (a, i)"
    "sorted_wrt (\<lambda>t u. sint (ts_tick t) < sint (ts_tick u)) (get_pool_ticks st a)"
proof -
  have own: "k = tick_key_of t" if "(k, t) \<in> set (ms_ticks st)" for k t
    using assms that by (auto simp: ticks_ordered_def)
  have sorted: "sorted_wrt (<) (map fst (ms_ticks st))" using assms by (simp add: ticks_ordered_def btree_ok_def)
  have lookup: "get_tick st k = Some t \<longleftrightarrow> (k, t) \<in> set (ms_ticks st)" for k t
    using assms by (simp add: get_tick_def ticks_ordered_def btree_ok_distinct)
  show "t \<in> set (get_pool_ticks st a) \<longleftrightarrow> get_tick st (a, sint (ts_tick t)) = Some t"
    unfolding lookup using own by (force simp: get_pool_ticks_def tick_key_of_def)
  show "get_tick st (a, i) = Some t \<Longrightarrow> tick_key_of t = (a, i)" unfolding lookup using own by force
  have "sorted_wrt (\<lambda>x y. fst x < fst y) (ms_ticks st)" using sorted by (simp add: sorted_wrt_map)
  then have "sorted_wrt (\<lambda>x y. tick_key_of (snd x) < tick_key_of (snd y)) (ms_ticks st)"
    by (rule sorted_wrt_mono_rel [rotated]) (use own in force)
  then have "sorted_wrt (\<lambda>t u. tick_key_of t < tick_key_of u) (get_pool_ticks st a)"
    by (simp add: get_pool_ticks_def sorted_wrt_map sorted_wrt_filter)
  then show "sorted_wrt (\<lambda>t u. sint (ts_tick t) < sint (ts_tick u)) (get_pool_ticks st a)"
    by (rule sorted_wrt_mono_rel [rotated]) (auto simp: get_pool_ticks_def tick_key_of_def)
qed

text \<open>Sorting any list of them gives that order.\<close>

lemma sort_pool_ticks:
  assumes "ticks_ordered st" "set ts = set (get_pool_ticks st a)" "distinct ts"
  shows "sort_key (\<lambda>t. sint (ts_tick t)) ts = get_pool_ticks st a"
proof -
  let ?key = "\<lambda>t. sint (ts_tick t)"
  have strict: "sorted_wrt (<) (map ?key (get_pool_ticks st a))"
    using pool_ticks_sorted(3) [OF assms(1)] by (simp add: sorted_wrt_map)
  then have "distinct (map ?key (get_pool_ticks st a))" "sorted (map ?key (get_pool_ticks st a))"
    by (simp_all add: strict_sorted_iff)
  moreover from this(1) have inj: "inj_on ?key (set ts)" and "distinct (get_pool_ticks st a)"
    by (simp_all add: distinct_map assms(2))
  moreover from this(2) have "mset ts = mset (get_pool_ticks st a)"
    using assms(2,3) by (simp add: set_eq_iff_mset_eq_distinct)
  ultimately show ?thesis by (intro sort_key_inj_key_eq)
qed

lemma read_ticks_agrees:
  assumes "reliable lk" "lists_members lk" "shows_addresses jc" "ticks_agree jc n (rs_db s) st" "ticks_ordered st"
  shows "fst (redis_get_pool_ticks lk jc a s) = Inr (get_pool_ticks st a)"
proof -
  let ?index = "rd_sets (rs_db s) (tick_pool_index_key jc a)"
  have "finite ?index" using agree_indexes [OF assms(4)] by (simp add: indexes_ticks_def)
  from smembers_reliable [OF assms(1,2) this] obtain keys s1 where
    keys: "redis_smembers lk (tick_pool_index_key jc a) s = (Inr keys, s1)" "rs_db s1 = rs_db s" "set keys = ?index" "distinct keys" .
  obtain s2 where s2: "redis_mget lk keys s1 = (Inr (map (rd_strings (rs_db s)) keys), s2)"
    using mget_reliable [OF assms(1), of keys s1] keys(2) by auto
  have index: "?index = {tick_state_key jc n a i | i. get_tick st (a, sint i) \<noteq> None}" using assms(4) by (simp add: ticks_agree_def)
  define tick_at where "tick_at key = projr (jc_read_tick jc (the (rd_strings (rs_db s) key)))" for key
  have stored: "decode_value (jc_read_tick jc) (rd_strings (rs_db s) (tick_state_key jc n a i)) = Inr (Some t)"
      "tick_at (tick_state_key jc n a i) = t" if "get_tick st (a, sint i) = Some t" for i t
    using assms(4) that by (auto simp: ticks_agree_def decode_value_def tick_at_def)
  then have "decode_value (jc_read_tick jc) (rd_strings (rs_db s) k) = Inr (Some (tick_at k))" if "k \<in> ?index" for k
    using that by (auto simp: index)
  then have "collect_results (decode_value (jc_read_tick jc)) (map (rd_strings (rs_db s)) ks) = Inr (map (\<lambda>k. Some (tick_at k)) ks)"
    if "set ks \<subseteq> ?index" for ks
    using that by (induction ks) simp_all
  then have decoded: "collect_results (decode_value (jc_read_tick jc)) (map (rd_strings (rs_db s)) keys) = Inr (map (\<lambda>k. Some (tick_at k)) keys)"
    using keys(3) by simp
  have "List.map_filter id (map (\<lambda>k. Some (tick_at k)) ks) = map tick_at ks" for ks
    by (induction ks) (simp_all add: List.map_filter_simps)
  then have run: "fst (redis_get_pool_ticks lk jc a s) =
      Inr (if keys = [] then [] else sort_key (\<lambda>t. sint (ts_tick t)) (map tick_at keys))"
    using keys(1) s2 decoded by (simp add: redis_get_pool_ticks_def bind_def lift_def pass_def)
  also have "\<dots> = Inr (sort_key (\<lambda>t. sint (ts_tick t)) (map tick_at keys))" by simp
  also have "sort_key (\<lambda>t. sint (ts_tick t)) (map tick_at keys) = get_pool_ticks st a"
  proof (rule sort_pool_ticks [OF assms(5)])
    have own: "ts_tick t = i \<and> tick_pool t = a" if "get_tick st (a, sint i) = Some t" for i t
      using pool_ticks_sorted(2) [OF assms(5) that] by (auto simp: tick_key_of_def intro: signed_word_eqI)
    show "set (map tick_at keys) = set (get_pool_ticks st a)"
    proof (intro equalityI subsetI)
      fix t assume "t \<in> set (map tick_at keys)"
      then obtain i :: i32 where i: "get_tick st (a, sint i) = Some t"
        using stored(2) by (auto simp: keys(3) index)
      then show "t \<in> set (get_pool_ticks st a)" using own [OF i] by (simp add: pool_ticks_sorted(1) [OF assms(5)])
    next
      fix t assume "t \<in> set (get_pool_ticks st a)"
      then have t: "get_tick st (a, sint (ts_tick t)) = Some t" by (simp add: pool_ticks_sorted(1) [OF assms(5)])
      then have "tick_state_key jc n a (ts_tick t) \<in> set keys" by (auto simp: keys(3) index)
      then show "t \<in> set (map tick_at keys)" using stored(2) [OF t] by force
    qed
    have "inj_on tick_at ?index"
    proof (rule inj_onI)
      fix x y assume "x \<in> ?index" "y \<in> ?index" and eq: "tick_at x = tick_at y"
      then obtain i j t u where "x = tick_state_key jc n a i" "get_tick st (a, sint i) = Some t"
        "y = tick_state_key jc n a j" "get_tick st (a, sint j) = Some u" by (auto simp: index)
      then show "x = y" using eq stored(2) own by metis
    qed
    then show "distinct (map tick_at keys)" using keys(3,4) by (simp add: distinct_map)
  qed
  finally show ?thesis .
qed

text \<open>C4: After the same operations from empty stores, a pool, a lane, the ticks of a pool in their order and the current
  block read from Redis over a connection that does not break exactly as from the in-memory stores.\<close>

theorem redis_refines_memory:
  assumes "reliable lk" "lists_members lk" "shows_addresses jc" "\<forall>op \<in> set ops. op_valid jc n op"
  shows "let s = run_ops lib lk jc ops \<lparr>rs_db = redis_empty, rs_outside = w\<rparr>; st = fold memory_op ops stores_new in
    fst (redis_get_pool_state lk jc a s) = Inr (get_pool_state st a) \<and>
    fst (redis_get_lane_state lk jc a s) = Inr (get_lane_state st a) \<and>
    fst (redis_get_pool_ticks lk jc a s) = Inr (get_pool_ticks st a) \<and>
    fst (redis_get_current_block lk s) = Inr (get_current_block st)"
proof -
  have "stores_agree jc n (rs_db (run_ops lib lk jc ops \<lparr>rs_db = redis_empty, rs_outside = w\<rparr>)) (fold memory_op ops stores_new)"
    by (rule stores_run [OF assms]) (simp add: empty_stores_agree)
  then show ?thesis unfolding Let_def stores_agree_def
    by (intro conjI read_pool_agrees read_lane_agrees read_ticks_agrees read_block_agrees assms) auto
qed

text \<open>A pool is published with its block, and an older block after it.\<close>

theorem redis_refines_memory_witness:
  "let ops = [OpPublish 12 [example_pool] [100], OpSetBlock 7];
       s = run_ops hex_libs (breaking_link\<lparr>lk_broken := (\<lambda>n. (None, n))\<rparr>) pool_codec ops \<lparr>rs_db = redis_empty, rs_outside = 0\<rparr>
   in fst (redis_get_pool_state (breaking_link\<lparr>lk_broken := (\<lambda>n. (None, n))\<rparr>) pool_codec 100 s) = Inr (Some example_pool) \<and>
      fst (redis_get_current_block (breaking_link\<lparr>lk_broken := (\<lambda>n. (None, n))\<rparr>) s) = Inr (Some 12)"
proof -
  let ?lk = "breaking_link\<lparr>lk_broken := (\<lambda>n. (None, n))\<rparr>"
  let ?ops = "[OpPublish 12 [example_pool] [100], OpSetBlock 7]"
  have "reliable ?lk" by (simp add: reliable_def)
  moreover have "lists_members ?lk" using breaking_link_lists by (simp add: lists_members_def)
  moreover have "\<forall>op \<in> set ?ops. op_valid pool_codec (pid_chain_id (ps_pool_id example_pool)) op"
    by (simp add: op_valid_def texts_read_back_def pool_codec_def)
  ultimately have run: "let s = run_ops hex_libs ?lk pool_codec ?ops \<lparr>rs_db = redis_empty, rs_outside = 0\<rparr>;
      st = fold memory_op ?ops stores_new in
    fst (redis_get_pool_state ?lk pool_codec 100 s) = Inr (get_pool_state st 100) \<and>
    fst (redis_get_lane_state ?lk pool_codec 100 s) = Inr (get_lane_state st 100) \<and>
    fst (redis_get_pool_ticks ?lk pool_codec 100 s) = Inr (get_pool_ticks st 100) \<and>
    fst (redis_get_current_block ?lk s) = Inr (get_current_block st)"
    by (intro redis_refines_memory pool_codec_shows)
  have "get_pool_state (fold memory_op ?ops stores_new) 100 = Some example_pool \<and>
      get_current_block (fold memory_op ?ops stores_new) = Some 12"
    by (simp add: publish_pool_states_def set_current_block_def set_pool_states_def set_pool_state_def mark_changed_pools_def
        get_pool_state_def get_current_block_def stores_new_def example_pool_def)
  with run show ?thesis by (simp add: Let_def del: run_ops.simps fold.simps)
qed

end
