(* ===== verification/Lane_Redis.thy ===== *)
theory Lane_Redis
  imports Lane_World Redis_Refine
begin

text \<open>
  The execution manager on the stores it runs on: lanes, candidates, locks and the current block in Redis, over
  connections that may break at any command, and records in a database beside it. The lane protocol holds there
  as it does on the in-memory stores.
\<close>

section \<open>The stores of the running service\<close>

text \<open>What the database of records answers, on the outside state.\<close>

record 'c recording =
  rg_record_transaction :: "tx_result \<Rightarrow> ('c, unit) act"
  rg_simulation_calldata :: "uuid \<Rightarrow> ('c, u8 list option) act"
  rg_record_opportunities :: "candidate list \<Rightarrow> ('c, unit) act"
  rg_enqueue_simulations :: "simulation_result list \<Rightarrow> 'c \<Rightarrow> 'c"

definition beside :: "('c, 'a) act \<Rightarrow> ('c redis_world, 'a) act" where
  "beside m = (\<lambda>s. case m (rs_outside s) of (r, c) \<Rightarrow> (r, s\<lparr>rs_outside := c\<rparr>))"

definition redis_stores :: "'c redis_link \<Rightarrow> store_codec \<Rightarrow> 'c recording \<Rightarrow> 'c redis_world execution_stores" where
  "redis_stores lk jc rg = \<lparr>
     so_get_lane_state = redis_get_lane_state lk jc,
     so_set_lane_state = redis_set_lane_state lk jc,
     so_record_transaction = (\<lambda>tx. beside (rg_record_transaction rg tx)),
     so_simulation_calldata = (\<lambda>sid. beside (rg_simulation_calldata rg sid)),
     so_prune_candidates_before_block = redis_prune_candidates_before_block lk,
     so_pop_candidates = redis_pop_candidates lk jc,
     so_try_acquire_submission_lock = redis_try_acquire_submission_lock lk,
     so_get_current_block = redis_get_current_block lk,
     so_record_opportunities = (\<lambda>cs. beside (rg_record_opportunities rg cs)),
     so_enqueue_simulations = (\<lambda>sims s. s\<lparr>rs_outside := rg_enqueue_simulations rg sims (rs_outside s)\<rparr>)\<rparr>"

definition beside_provider :: "'c chain_provider \<Rightarrow> 'c redis_world chain_provider" where
  "beside_provider p = \<lparr>
     cp_eth_call_from = (\<lambda>sender a d l. beside (cp_eth_call_from p sender a d l)),
     cp_estimate_gas = (\<lambda>a b d. beside (cp_estimate_gas p a b d)),
     cp_suggested_eip1559_fee_details = beside (cp_suggested_eip1559_fee_details p),
     cp_get_block_number = beside (cp_get_block_number p),
     cp_get_transaction_count = (\<lambda>a pending. beside (cp_get_transaction_count p a pending)),
     cp_get_balance = (\<lambda>a. beside (cp_get_balance p a)),
     cp_get_transaction_receipt = (\<lambda>h. beside (cp_get_transaction_receipt p h)),
     cp_sign = cp_sign p,
     cp_send_raw_transaction = (\<lambda>raw. beside (cp_send_raw_transaction p raw))\<rparr>"

definition beside_ambient :: "'c ambient \<Rightarrow> 'c redis_world ambient" where
  "beside_ambient amb = \<lparr>
     am_now = (\<lambda>s. case am_now amb (rs_outside s) of (t, c) \<Rightarrow> (t, s\<lparr>rs_outside := c\<rparr>)),
     am_new_uuid = (\<lambda>s. case am_new_uuid amb (rs_outside s) of (u, c) \<Rightarrow> (u, s\<lparr>rs_outside := c\<rparr>))\<rparr>"

text \<open>The lanes as a reader of the database finds them.\<close>

definition redis_lanes :: "store_codec \<Rightarrow> 'c redis_world \<Rightarrow> address \<Rightarrow> eoa_lane_state option" where
  "redis_lanes jc s a =
     (case rd_strings (rs_db s) (eoa_lane_key jc a) of
        None \<Rightarrow> None
      | Some raw \<Rightarrow> (case jc_read_lane jc raw of Inl _ \<Rightarrow> None | Inr l \<Rightarrow> Some l))"

definition lanes_read_back :: "store_codec \<Rightarrow> bool" where
  "lanes_read_back jc \<longleftrightarrow> (\<forall>l. jc_read_lane jc (jc_lane_text jc l) = Inr l)"

section \<open>The lanes under every operation\<close>

lemma same_states_lanes: "same_states jc (rs_db s) (rs_db s') \<Longrightarrow> redis_lanes jc s' = redis_lanes jc s"
  by (auto simp: redis_lanes_def same_states_def fun_eq_iff)

lemma keeps_beside: "keeps (redis_lanes jc) (beside m)"
  by (auto simp: keeps_def beside_def redis_lanes_def fun_eq_iff split: prod.split)

lemma keeps_other:
  assumes "\<not> state_op op" "\<And>s. rs_db (snd (run_op lib lk jc op s)) = rs_db (snd (m s))"
  shows "keeps (redis_lanes jc) m"
  unfolding keeps_def
proof
  fix s
  have "same_states jc (rs_db s) (rs_db (snd (run_op lib lk jc op s)))"
    by (rule maintains_run [OF other_op_same [OF assms(1)]]) (simp add: same_states_def)
  then show "redis_lanes jc (snd (m s)) = redis_lanes jc s" unfolding assms(2) by (rule same_states_lanes)
qed

lemma keeps_ask_read: "keeps (redis_lanes jc) (ask lk (read_key f))"
  unfolding keeps_def
proof
  fix s
  obtain r s' where run: "ask lk (read_key f) s = (r, s')" by (metis prod.exhaust)
  then show "redis_lanes jc (snd (ask lk (read_key f) s)) = redis_lanes jc s"
    using ask_read_run [OF run] by (simp add: redis_lanes_def fun_eq_iff)
qed

lemma redis_get_lane_run:
  assumes "redis_get_lane_state lk jc a s = (Inr x, s')"
  shows "x = redis_lanes jc s a"
proof -
  obtain r s1 where run: "redis_get lk (eoa_lane_key jc a) s = (r, s1)" by (metis prod.exhaust)
  then have "r = Inr (rd_strings (rs_db s) (eoa_lane_key jc a))"
    using assms ask_read_run [OF run [unfolded redis_get_def]] by (auto simp: redis_get_lane_state_def bind_def)
  then show ?thesis using assms run
    by (auto simp: redis_get_lane_state_def bind_def lift_def decode_value_def redis_lanes_def
        split: option.splits sum.splits)
qed

lemma redis_set_lane_run:
  assumes "shows_addresses jc" "lanes_read_back jc" "redis_set_lane_state lk jc l s = (r, s')"
  shows "redis_lanes jc s' = (redis_lanes jc s)(ln_address l \<mapsto> l) \<or> r = Inl broken_pipe \<and> redis_lanes jc s' = redis_lanes jc s"
proof -
  obtain broken w where l: "lk_broken lk (rs_outside s) = (broken, w)" by (metis prod.exhaust)
  have set: "redis_lanes jc \<lparr>rs_db = (rs_db s)\<lparr>rd_strings := (rd_strings (rs_db s))(eoa_lane_key jc (ln_address l) \<mapsto> jc_lane_text jc l)\<rparr>,
      rs_outside = w\<rparr> = (redis_lanes jc s)(ln_address l \<mapsto> l)"
    using assms(2) by (auto simp: redis_lanes_def fun_eq_iff lanes_read_back_def index_key_inj [OF assms(1)])
  have same: "redis_lanes jc \<lparr>rs_db = rs_db s, rs_outside = w\<rparr> = redis_lanes jc s"
    by (simp add: redis_lanes_def fun_eq_iff)
  show ?thesis
  proof (cases broken)
    case None
    then show ?thesis using assms(3) l set by (auto simp: redis_set_lane_state_def send_def exec_commands_def)
  next
    case (Some n)
    then show ?thesis using assms(3) l set same
      by (cases n) (auto simp: redis_set_lane_state_def send_def exec_commands_def)
  qed
qed

text \<open>The interface of the cycle holds for these stores, whatever the node, the connections and the database do.\<close>

lemma redis_lane_world:
  assumes "shows_addresses jc" "lanes_read_back jc"
  shows "lane_world (redis_lanes jc) (beside_provider p) (redis_stores lk jc rg) (beside_ambient amb)"
proof (unfold_locales)
  fix a s x s'
  assume "so_get_lane_state (redis_stores lk jc rg) a s = (Inr x, s')"
  then show "x = redis_lanes jc s a" by (auto simp: redis_stores_def dest: redis_get_lane_run)
next
  fix a show "keeps (redis_lanes jc) (so_get_lane_state (redis_stores lk jc rg) a)"
    by (auto simp: redis_stores_def redis_get_lane_state_def redis_get_def intro!: keeps_intros keeps_ask_read)
next
  fix l s s'
  assume "so_set_lane_state (redis_stores lk jc rg) l s = (Inr (), s')"
  then show "redis_lanes jc s' = (redis_lanes jc s)(ln_address l \<mapsto> l)"
    using redis_set_lane_run [OF assms] by (fastforce simp: redis_stores_def)
next
  fix l s e s'
  assume "so_set_lane_state (redis_stores lk jc rg) l s = (Inl e, s')"
  then show "redis_lanes jc s' = redis_lanes jc s \<or> redis_lanes jc s' = (redis_lanes jc s)(ln_address l \<mapsto> l)"
    using redis_set_lane_run [OF assms] by (fastforce simp: redis_stores_def)
next
  fix b show "keeps (redis_lanes jc) (so_prune_candidates_before_block (redis_stores lk jc rg) b)"
    unfolding redis_stores_def execution_stores.simps
    by (rule keeps_other [where op = "OpPrune b" and lk = lk]) (simp_all add: answered_db)
next
  fix k show "keeps (redis_lanes jc) (so_pop_candidates (redis_stores lk jc rg) k)"
    unfolding redis_stores_def execution_stores.simps
    by (rule keeps_other [where op = "OpPop k" and lk = lk]) (simp_all add: answered_db)
next
  fix key ttl show "keeps (redis_lanes jc) (so_try_acquire_submission_lock (redis_stores lk jc rg) key ttl)"
    unfolding redis_stores_def execution_stores.simps
    by (rule keeps_other [where op = "OpLock key ttl" and lk = lk]) simp_all
next
  show "keeps (redis_lanes jc) (so_get_current_block (redis_stores lk jc rg))"
    by (auto simp: redis_stores_def redis_get_current_block_def redis_get_def intro!: keeps_intros keeps_ask_read)
next
  fix sims s show "redis_lanes jc (so_enqueue_simulations (redis_stores lk jc rg) sims s) = redis_lanes jc s"
    by (simp add: redis_stores_def redis_lanes_def fun_eq_iff)
next
  fix s show "redis_lanes jc (snd (am_now (beside_ambient amb) s)) = redis_lanes jc s"
    by (auto simp: beside_ambient_def redis_lanes_def fun_eq_iff split: prod.split)
next
  fix s show "redis_lanes jc (snd (am_new_uuid (beside_ambient amb) s)) = redis_lanes jc s"
    by (auto simp: beside_ambient_def redis_lanes_def fun_eq_iff split: prod.split)
qed (auto simp: redis_stores_def beside_provider_def keeps_beside)

section \<open>Reachable lanes\<close>

text \<open>What the execution manager and its environment do: startup, a cycle with any breaker and any caches, and any
  change of the other services to the rest of the database or of the outside world.\<close>

inductive redis_reachable ::
    "libs \<Rightarrow> 'c redis_link \<Rightarrow> store_codec \<Rightarrow> 'c recording \<Rightarrow> 'c ambient \<Rightarrow> 'c chain_provider \<Rightarrow> settings \<Rightarrow>
      execution_runtime \<Rightarrow> 'c redis_world \<Rightarrow> bool"
  for lib :: libs and lk :: "'c redis_link" and jc :: store_codec and rg :: "'c recording" and amb :: "'c ambient"
    and p :: "'c chain_provider" and cfg :: settings and rt :: execution_runtime
  where
  initial: "redis_reachable lib lk jc rg amb p cfg rt \<lparr>rs_db = redis_empty, rs_outside = c\<rparr>"
| startup: "redis_reachable lib lk jc rg amb p cfg rt s \<Longrightarrow>
    redis_reachable lib lk jc rg amb p cfg rt
      (snd (assert_submit_runtime_ready lib (redis_stores lk jc rg) (beside_provider p) cfg rt s))"
| cycle: "redis_reachable lib lk jc rg amb p cfg rt s \<Longrightarrow>
    redis_reachable lib lk jc rg amb p cfg rt
      (snd (run_execution_cycle lib (redis_stores lk jc rg) (beside_ambient amb) (beside_provider p) cfg rt order finish br em s))"
| others: "redis_reachable lib lk jc rg amb p cfg rt s \<Longrightarrow> redis_lanes jc s' = redis_lanes jc s \<Longrightarrow>
    redis_reachable lib lk jc rg amb p cfg rt s'"

lemma redis_reachable_lanes:
  assumes "shows_addresses jc" "lanes_read_back jc" "redis_reachable lib lk jc rg amb p cfg rt s"
  shows "lanes_follow cfg (\<lambda>_. None) (redis_lanes jc s)"
  using assms(3)
proof (induction rule: redis_reachable.induct)
  case (initial c)
  then show ?case by (simp add: lanes_follow_def redis_lanes_def redis_empty_def)
next
  case (startup s)
  show ?case by (rule lane_world.startup_follow [OF redis_lane_world [OF assms(1,2)] startup.IH])
next
  case (cycle s order finish br em)
  show ?case by (rule lane_world.cycle_follow [OF redis_lane_world [OF assms(1,2)] cycle.IH])
next
  case (others s s')
  then show ?case by simp
qed

text \<open>On the stores the service runs on, with Redis connections that may break inside any operation, each execution
  cycle still moves every lane only along the steps of the lane protocol, and in every reachable state every stored
  lane is good.\<close>

theorem redis_cycle_refines_lanes:
  assumes "shows_addresses jc" "lanes_read_back jc" "redis_reachable lib lk jc rg amb p cfg rt s"
    and "run_execution_cycle lib (redis_stores lk jc rg) (beside_ambient amb) (beside_provider p) cfg rt order finish br em s = (r, s')"
  shows "lane_steps cfg a (redis_lanes jc s a) (redis_lanes jc s' a) \<and>
    (\<forall>l. redis_lanes jc s' a = Some l \<longrightarrow> lane_good cfg a l)"
proof -
  note world = redis_lane_world [OF assms(1,2), of p lk rg amb]
  have good: "lane_good cfg b l" if "redis_reachable lib lk jc rg amb p cfg rt t" "redis_lanes jc t b = Some l" for t b l
  proof (rule lane_steps_good)
    show "lane_steps cfg b None (Some l)"
      using redis_reachable_lanes [OF assms(1,2) that(1)] that(2) unfolding lanes_follow_def by metis
  qed simp
  have "lanes_follow cfg (redis_lanes jc s) (redis_lanes jc s)"
    by (rule lanes_follow_refl) (use good [OF assms(3)] in \<open>auto simp: lane_good_def\<close>)
  from lane_world.cycle_follow [OF world this, of lib rt order finish br em] assms(4)
  have "lane_steps cfg a (redis_lanes jc s a) (redis_lanes jc s' a)" by (simp add: lanes_follow_def)
  moreover have "redis_reachable lib lk jc rg amb p cfg rt s'"
    using redis_reachable.cycle [OF assms(3), of order finish br em] assms(4) by simp
  ultimately show ?thesis using good by blast
qed

section \<open>Texts of lanes\<close>

text \<open>A text for lanes that is read back: the numbers of its fields in decimal, each ended by a comma.\<close>

definition number_text :: "nat list \<Rightarrow> string" where
  "number_text ns = concat (map (\<lambda>n. nat_dec n @ '','') ns)"

fun read_numbers :: "string \<Rightarrow> string \<Rightarrow> nat list" where
  "read_numbers digits [] = []"
| "read_numbers digits (c # s) = (if c = CHR '','' then digits_value digits # read_numbers [] s else read_numbers (digits @ [c]) s)"

lemma read_numbers_digits:
  "CHR '','' \<notin> set xs \<Longrightarrow> read_numbers digits (xs @ '','' @ s) = digits_value (digits @ xs) # read_numbers [] s"
  by (induction xs arbitrary: digits) auto

lemma read_number_text [simp]: "read_numbers [] (number_text ns) = ns"
proof (induction ns)
  case (Cons n ns)
  have "CHR '','' \<notin> set (nat_dec n)" using nat_dec_digits [of n] by (auto simp: list_all_iff is_digit_def)
  then show ?case using Cons read_numbers_digits [of "nat_dec n" "[]" "number_text ns"] by (simp add: number_text_def)
qed (simp add: number_text_def)

definition option_number :: "'a::len word option \<Rightarrow> nat" where
  "option_number x = (case x of None \<Rightarrow> 0 | Some w \<Rightarrow> unat w + 1)"

definition number_option :: "nat \<Rightarrow> 'a::len word option" where
  "number_option n = (if n = 0 then None else Some (word_of_nat (n - 1)))"

lemma number_option_number [simp]: "number_option (option_number x) = x"
  by (cases x) (simp_all add: option_number_def number_option_def)

definition lane_numbers :: "eoa_lane_state \<Rightarrow> nat list" where
  "lane_numbers l = [unat (ln_address l), unat (ln_local_nonce l), unat (ln_confirmed_nonce l), option_number (ln_pending_tx l),
     option_number (ln_pending_executor_contract l), option_number (ln_pending_opportunity_id l),
     option_number (ln_pending_simulation_id l), option_number (ln_pending_nonce l), option_number (ln_pending_submitted_block l),
     unat (ln_pending_replacement_count l), option_number (ln_pending_gas_limit l), option_number (ln_pending_max_fee_per_gas l),
     option_number (ln_pending_max_priority_fee_per_gas l), unat (ln_eth_balance l),
     (case ln_status l of LaneIdle \<Rightarrow> 0 | LanePending \<Rightarrow> 1 | LaneBlocked \<Rightarrow> 2 | LaneCooldown \<Rightarrow> 3)]"

definition numbers_lane :: "nat list \<Rightarrow> eoa_lane_state" where
  "numbers_lane ns = \<lparr>ln_address = word_of_nat (ns ! 0), ln_local_nonce = word_of_nat (ns ! 1),
     ln_confirmed_nonce = word_of_nat (ns ! 2), ln_pending_tx = number_option (ns ! 3),
     ln_pending_executor_contract = number_option (ns ! 4), ln_pending_opportunity_id = number_option (ns ! 5),
     ln_pending_simulation_id = number_option (ns ! 6), ln_pending_nonce = number_option (ns ! 7),
     ln_pending_submitted_block = number_option (ns ! 8), ln_pending_replacement_count = word_of_nat (ns ! 9),
     ln_pending_gas_limit = number_option (ns ! 10), ln_pending_max_fee_per_gas = number_option (ns ! 11),
     ln_pending_max_priority_fee_per_gas = number_option (ns ! 12), ln_eth_balance = word_of_nat (ns ! 13),
     ln_status = (if ns ! 14 = 0 then LaneIdle else if ns ! 14 = 1 then LanePending else if ns ! 14 = 2 then LaneBlocked
       else LaneCooldown)\<rparr>"

lemma numbers_lane_numbers [simp]: "numbers_lane (lane_numbers l) = l"
  by (cases l) (simp add: numbers_lane_def lane_numbers_def split: eoa_lane_status.split)

definition lane_codec :: store_codec where
  "lane_codec = pool_codec\<lparr>jc_lane_text := number_text \<circ> lane_numbers, jc_read_lane := Inr \<circ> numbers_lane \<circ> read_numbers []\<rparr>"

lemma lane_codec_reads: "shows_addresses lane_codec" "lanes_read_back lane_codec"
  using pool_codec_shows by (simp_all add: shows_addresses_def lanes_read_back_def lane_codec_def)

definition example_recording :: "nat recording" where
  "example_recording = \<lparr>rg_record_transaction = (\<lambda>_. pass ()), rg_simulation_calldata = (\<lambda>_. pass None),
     rg_record_opportunities = (\<lambda>_. pass ()), rg_enqueue_simulations = (\<lambda>_ c. c)\<rparr>"

text \<open>The example's service starts over a connection that breaks at its first command, then runs a cycle.\<close>

theorem redis_cycle_refines_lanes_witness:
  "\<exists>s r s'. redis_reachable example_libs breaking_link lane_codec example_recording example_ambient example_provider
       example_settings example_runtime s \<and>
     run_execution_cycle example_libs (redis_stores breaking_link lane_codec example_recording) (beside_ambient example_ambient)
       (beside_provider example_provider) example_settings example_runtime id id (breaker_new 3)
       \<lparr>em_approved_allowances = {}, em_simulation_context = None, em_submitted_candidate_keys = {}\<rparr> s = (r, s') \<and>
     lane_steps example_settings 5 (redis_lanes lane_codec s 5) (redis_lanes lane_codec s' 5)"
proof -
  let ?s0 = "\<lparr>rs_db = redis_empty, rs_outside = 0 :: nat\<rparr>"
  let ?s = "snd (assert_submit_runtime_ready example_libs (redis_stores breaking_link lane_codec example_recording)
      (beside_provider example_provider) example_settings example_runtime ?s0)"
  have reach: "redis_reachable example_libs breaking_link lane_codec example_recording example_ambient example_provider
      example_settings example_runtime ?s"
    by (intro redis_reachable.startup redis_reachable.initial)
  obtain r s' where run: "run_execution_cycle example_libs (redis_stores breaking_link lane_codec example_recording)
      (beside_ambient example_ambient) (beside_provider example_provider) example_settings example_runtime id id (breaker_new 3)
      \<lparr>em_approved_allowances = {}, em_simulation_context = None, em_submitted_candidate_keys = {}\<rparr> ?s = (r, s')"
    by (metis prod.exhaust)
  show ?thesis using redis_cycle_refines_lanes [OF lane_codec_reads reach run, of 5] reach run by blast
qed

end
