(* ===== verification/Searcher_Redis.thy ===== *)
theory Searcher_Redis
  imports Searcher_World Lane_Redis
begin

text \<open>
  The searcher on the stores it runs on: states, ticks, marks and the candidate queue in Redis, over connections
  that may break at any command, beside the other services' operations. What every queued candidate satisfies holds
  there as it does on the in-memory stores.
\<close>

section \<open>The environment of the running service\<close>

definition redis_search_env :: "libs \<Rightarrow> 'c redis_link \<Rightarrow> store_codec \<Rightarrow> 'c search_env \<Rightarrow> 'c redis_world search_env" where
  "redis_search_env lib lk jc out = \<lparr>
     en_ambient = beside_ambient (en_ambient out),
     en_clock = (\<lambda>s. case en_clock out (rs_outside s) of (t, c) \<Rightarrow> (t, s\<lparr>rs_outside := c\<rparr>)),
     en_order = en_order out, en_anchor_order = en_anchor_order out, en_pair_order = en_pair_order out,
     en_best_order = iteration_order (en_best_order out),
     en_balancer_query = (\<lambda>router pool a b amount sender. beside (en_balancer_query out router pool a b amount sender)),
     en_all_pool_states = redis_all_pool_states lk jc,
     en_drain_changed_pools = redis_drain_changed_pools lib lk,
     en_drain_tick_changed_pools = redis_drain_tick_changed_pools lib lk,
     en_get_pool_states = redis_get_pool_states lk jc,
     en_get_current_block = redis_get_current_block lk,
     en_get_pool_ticks_many = redis_get_pool_ticks_many lk jc,
     en_replace_pool_ticks = redis_replace_pool_ticks lk jc,
     en_mark_tick_repair_pools = redis_mark_tick_repair_pools lk,
     en_push_candidates = redis_push_candidates lk jc,
     en_enabled_pair_search_configs = beside (en_enabled_pair_search_configs out),
     en_trusted_factory_registry = (\<lambda>chain. beside (en_trusted_factory_registry out chain)),
     en_get_pool_ticks_current_many = (\<lambda>as. beside (en_get_pool_ticks_current_many out as)),
     en_enqueue_opportunities = (\<lambda>cs s. case en_enqueue_opportunities out cs (rs_outside s) of
       (n, c) \<Rightarrow> (n, s\<lparr>rs_outside := c\<rparr>))\<rparr>"

section \<open>What the database holds\<close>

text \<open>The text of a pool may be read as another state, but of the same pool.\<close>

definition texts_keep_pools :: "store_codec \<Rightarrow> bool" where
  "texts_keep_pools jc \<longleftrightarrow> (\<forall>p q. jc_read_pool jc (jc_pool_text jc p) = Inr q \<longrightarrow> ps_address q = ps_address p)"

definition entry_placed :: "store_codec \<Rightarrow> string \<Rightarrow> string \<Rightarrow> bool" where
  "entry_placed jc key v \<longleftrightarrow> (\<forall>a. key = pool_address_index_key jc a \<longrightarrow> (\<exists>n. v = pool_state_key jc n a)) \<and>
     (\<forall>n a p. key = pool_state_key jc n a \<longrightarrow> jc_read_pool jc v = Inr p \<longrightarrow> ps_address p = a)"

definition entry_queued :: "store_codec \<Rightarrow> (candidate \<Rightarrow> bool) \<Rightarrow> string \<times> f64 \<Rightarrow> bool" where
  "entry_queued jc P = (\<lambda>(member, score). \<exists>c. member = jc_candidate_text jc c \<and> score = candidate_queue_score c \<and> P c)"

definition searchable :: "store_codec \<Rightarrow> (candidate \<Rightarrow> bool) \<Rightarrow> redis_db \<Rightarrow> bool" where
  "searchable jc P db \<longleftrightarrow> (\<forall>key v. rd_strings db key = Some v \<longrightarrow> entry_placed jc key v) \<and>
     (\<forall>e \<in> set (rd_sorted db candidates_key). entry_queued jc P e)"

fun command_fits :: "store_codec \<Rightarrow> redis_command \<Rightarrow> bool" where
  "command_fits jc (CmdSet key v) \<longleftrightarrow> entry_placed jc key v"
| "command_fits jc (CmdMset kvs) \<longleftrightarrow> (\<forall>(key, v) \<in> set kvs. entry_placed jc key v)"
| "command_fits jc (CmdSetIfNewer key n) \<longleftrightarrow> key = current_block_key"
| "command_fits jc (CmdZadd key entries) \<longleftrightarrow> False"
| "command_fits jc _ \<longleftrightarrow> True"

lemma block_placed: "entry_placed jc current_block_key v"
  by (simp add: entry_placed_def)

lemma command_keeps_searchable:
  "command_fits jc cmd \<Longrightarrow> searchable jc P db \<Longrightarrow> searchable jc P (exec_command cmd db)"
  by (cases cmd) (auto simp: searchable_def block_placed dest!: fold_update_cases split: if_splits)

lemma maintains_fits:
  "(\<And>cmd. cmd \<in> set cmds \<Longrightarrow> command_fits jc cmd) \<Longrightarrow> maintains (searchable jc P) (send lk cmds)"
  by (rule maintains_send) (rule command_keeps_searchable)

lemma pool_placed:
  assumes "shows_addresses jc" "texts_keep_pools jc"
  shows "entry_placed jc (state_key jc p) (jc_pool_text jc p)"
    "entry_placed jc (pool_address_index_key jc (ps_address p)) (state_key jc p)"
  using assms(2) by (auto simp: entry_placed_def state_key_def pool_key_inj [OF assms(1)] index_key_inj [OF assms(1)] texts_keep_pools_def)

lemma tick_placed: "entry_placed jc (key_of_tick jc t) v"
  and lane_placed: "entry_placed jc (eoa_lane_key jc a) v"
  by (simp_all add: entry_placed_def key_of_tick_def)

lemma mset_fits:
  assumes "\<forall>e \<in> set kvs. entry_placed jc (fst e) (snd e)" "cmd \<in> set (queue_mset_entries kvs)"
  shows "command_fits jc cmd"
proof -
  obtain chunk where chunk: "cmd = CmdMset chunk" "chunk \<in> set (chunks redis_mset_chunk_size kvs)"
    using assms(2) by (auto simp: queue_mset_entries_def)
  then show ?thesis using assms(1) in_chunks [OF _ chunk(2)] by (fastforce split: prod.split)
qed

lemma tick_entries_fit: "cmd \<in> set (queue_tick_entries jc ts) \<Longrightarrow> command_fits jc cmd"
proof -
  let ?kvs = "map (\<lambda>t. (key_of_tick jc t, jc_tick_text jc t)) ts"
  assume "cmd \<in> set (queue_tick_entries jc ts)"
  then consider "cmd \<in> set (queue_mset_entries ?kvs)" | key ms where "cmd = CmdSadd key ms"
    by (auto simp: queue_tick_entries_def serialize_tick_entries_def split: if_splits)
  then show ?thesis
  proof cases
    case 1
    show ?thesis by (rule mset_fits [OF _ 1]) (simp add: tick_placed)
  qed simp
qed

lemma sadd_fits: "cmd \<in> set (queue_sadd_addresses key pools) \<Longrightarrow> command_fits jc cmd"
  by (auto simp: queue_sadd_addresses_def split: if_splits)

lemma pool_states_fit:
  assumes "shows_addresses jc" "texts_keep_pools jc" "cmd \<in> set (queue_pool_states jc ps)"
  shows "command_fits jc cmd"
proof -
  consider (states) "cmd \<in> set (queue_mset_entries (map (\<lambda>p. (state_key jc p, jc_pool_text jc p)) ps))"
    | (index) "cmd \<in> set (queue_mset_entries (map (\<lambda>p. (pool_address_index_key jc (ps_address p), state_key jc p)) ps))"
    | (keys) key ms where "cmd = CmdSadd key ms"
    using assms(3) by (auto simp: queue_pool_states_def)
  then show ?thesis
  proof cases
    case states
    show ?thesis by (rule mset_fits [OF _ states]) (simp add: pool_placed [OF assms(1,2)])
  next
    case index
    show ?thesis by (rule mset_fits [OF _ index]) (simp add: pool_placed [OF assms(1,2)])
  qed simp
qed

lemma mark_searchable: "maintains (searchable jc P) (redis_mark lk key pools)"
  unfolding redis_mark_def by (intro maintains_if maintains_pass maintains_fits sadd_fits)

lemma drain_searchable: "maintains (searchable jc P) (redis_drain lib lk key limit)"
  unfolding redis_drain_def redis_spop_def
  by (intro maintains_bind maintains_lift maintains_ask) (simp add: Let_def searchable_def)

text \<open>Taking from the queue leaves a part of it.\<close>

lemma less_queue_searchable:
  "searchable jc P db \<Longrightarrow> set z \<subseteq> set (rd_sorted db candidates_key) \<Longrightarrow>
    searchable jc P (db\<lparr>rd_sorted := (rd_sorted db)(candidates_key := z)\<rparr>)"
  by (auto simp: searchable_def)

lemma by_score_set: "set (by_score z) = set z"
  using by_score_sorted(2) by (metis set_mset_mset)

text \<open>Pushing adds texts of the given candidates.\<close>

lemma zset_add_set: "set (zset_add m sc z) \<subseteq> insert (m, sc) (set z)"
  by (induction m sc z rule: zset_add.induct) auto

lemma zadd_queued:
  assumes "list_all P cs" "\<forall>e \<in> set z. entry_queued jc P e"
  shows "\<forall>e \<in> set (fold (\<lambda>(score, member). zset_add member score) (map (queue_entry jc) cs) z). entry_queued jc P e"
  using assms
proof (induction cs arbitrary: z)
  case (Cons c cs)
  have "\<forall>e \<in> set (zset_add (jc_candidate_text jc c) (candidate_queue_score c) z). entry_queued jc P e"
    using zset_add_set [of "jc_candidate_text jc c" "candidate_queue_score c" z] Cons.prems
    by (auto simp: entry_queued_def)
  then show ?case using Cons by (simp add: queue_entry_def)
qed simp

lemma push_searchable:
  assumes "list_all P cs"
  shows "maintains (searchable jc P) (redis_push_candidates lk jc cs)"
  unfolding redis_push_candidates_def
proof (rule maintains_push_chunks)
  fix chunk db
  assume "chunk \<in> set (chunks redis_zadd_chunk_size cs)" "searchable jc P db"
  moreover from this(1) have "list_all P chunk" using assms in_chunks by (fastforce simp: list_all_iff)
  ultimately show "searchable jc P (exec_command (CmdZadd candidates_key (map (queue_entry jc) chunk)) db)"
    using zadd_queued [of P chunk "rd_sorted db candidates_key" jc] by (auto simp: searchable_def)
qed

text \<open>The operations of all services but the push of the searcher.\<close>

lemma op_searchable:
  assumes "shows_addresses jc" "texts_keep_pools jc" "\<And>cs. op \<noteq> OpPush cs"
  shows "maintains (searchable jc P) (run_op lib lk jc op)"
proof (cases op)
  case (OpPublish b ps changed)
  have "command_fits jc cmd" if "cmd \<in> set (queue_publish jc b ps changed)" for cmd
    using that by (auto simp: queue_publish_def queue_pool_state_def pool_placed [OF assms(1,2)] dest: sadd_fits)
  then show ?thesis unfolding OpPublish run_op.simps redis_publish_pool_states_def
    by (intro maintains_answered maintains_fits)
next
  case (OpSetPools ps)
  show ?thesis unfolding OpSetPools run_op.simps redis_set_pool_states_def
    by (intro maintains_answered maintains_if maintains_pass maintains_fits pool_states_fit [OF assms(1,2)])
next
  case (OpReplaceTicks pool ts)
  have "command_fits jc cmd" if "cmd \<in> set (queue_replace_ticks jc pool ts existing)" for cmd existing
    using that by (auto simp: queue_replace_ticks_def tick_entries_fit split: if_splits)
  then show ?thesis unfolding OpReplaceTicks run_op.simps redis_replace_pool_ticks_def
    by (intro maintains_answered maintains_bind maintains_smembers maintains_fits)
next
  case (OpPop limit)
  have "searchable jc P db \<Longrightarrow> searchable jc P (db\<lparr>rd_sorted := (rd_sorted db)(candidates_key :=
      drop limit (by_score (rd_sorted db candidates_key)))\<rparr>)" for db
    by (rule less_queue_searchable) (auto simp: by_score_set dest: in_set_dropD)
  then show ?thesis unfolding OpPop run_op.simps redis_pop_candidates_def redis_zpopmax_def
    by (intro maintains_intros) (simp add: Let_def)
next
  case (OpPrune b)
  show ?thesis unfolding OpPrune run_op.simps redis_prune_candidates_before_block_def Let_def
    by (intro maintains_intros) (auto intro!: less_queue_searchable)
next
  case (OpPush cs)
  then show ?thesis using assms(3) by simp
next
  case (OpSetPool p)
  then show ?thesis
    by (auto intro!: maintains_answered maintains_fits simp: redis_set_pool_state_def queue_pool_state_def pool_placed [OF assms(1,2)])
next
  case (OpSetTicks ts)
  show ?thesis unfolding OpSetTicks run_op.simps redis_set_tick_states_def
    by (intro maintains_answered maintains_if maintains_pass maintains_fits tick_entries_fit)
next
  case (OpClear)
  show ?thesis unfolding OpClear run_op.simps redis_clear_candidates_def
    by (intro maintains_answered maintains_ask) (simp only: snd_conv, rule command_keeps_searchable, simp_all)
next
  case (OpLock key ttl)
  show ?thesis unfolding OpLock run_op.simps redis_try_acquire_submission_lock_def
    by (intro maintains_if maintains_fail maintains_timed maintains_ask) (simp add: acquire_lock_def set_expiring_def searchable_def)
next
  case (OpFailure key ttl)
  show ?thesis unfolding OpFailure run_op.simps redis_mark_failure_key_def
    by (intro maintains_answered maintains_if maintains_fail maintains_timed maintains_ask)
      (simp add: set_expiring_def searchable_def)
next
  case (OpDrainRepairs limit)
  show ?thesis unfolding OpDrainRepairs run_op.simps redis_drain_tick_repair_pools_def
    by (intro maintains_answered maintains_if maintains_pass drain_searchable)
next
  case (OpSetTick t)
  show ?thesis unfolding OpSetTick run_op.simps redis_set_tick_state_def
    by (intro maintains_answered maintains_fits) (auto simp: tick_placed)
next
  case (OpSetLane l)
  show ?thesis unfolding OpSetLane run_op.simps redis_set_lane_state_def
    by (intro maintains_answered maintains_fits) (auto simp: lane_placed)
next
  case (OpSetBlock b)
  show ?thesis unfolding OpSetBlock run_op.simps redis_set_current_block_def
    by (intro maintains_answered maintains_fits) auto
qed (simp_all add: redis_mark_changed_pools_def redis_mark_tick_changed_pools_def redis_mark_tick_repair_pools_def
    redis_drain_changed_pools_def redis_drain_tick_changed_pools_def maintains_answered mark_searchable drain_searchable)

section \<open>What the searcher reads\<close>

text \<open>The rows of a batch of pools are the pools asked for.\<close>

lemma zip_values_rows:
  assumes "\<And>a key raw p. (a, Some key) \<in> set keys \<Longrightarrow> strings key = Some raw \<Longrightarrow> read raw = Inr p \<Longrightarrow> ps_address p = a"
    and "zip_values read keys (map strings (List.map_filter snd keys)) = Inr rows"
  shows "list_all (row_ok (\<lambda>_. True)) rows"
  using assms
proof (induction keys arbitrary: rows)
  case (Cons k keys)
  obtain a key where k: "k = (a, key)" by (metis prod.exhaust)
  have IH: "list_all (row_ok (\<lambda>_. True)) rows" if "zip_values read keys (map strings (List.map_filter snd keys)) = Inr rows" for rows
    using that Cons.prems(1) by (intro Cons.IH) auto
  show ?case
  proof (cases key)
    case None
    then show ?thesis using Cons.prems(2) IH
      by (auto simp: k List.map_filter_simps rbind_Inr_iff row_ok_def)
  next
    case (Some key')
    then obtain x rest where x: "decode_value read (strings key') = Inr x" and rows: "rows = (a, x) # rest"
      and rest: "zip_values read keys (map strings (List.map_filter snd keys)) = Inr rest"
      using Cons.prems(2) by (auto simp: k List.map_filter_simps rbind_Inr_iff)
    have "case x of None \<Rightarrow> True | Some p \<Rightarrow> ps_address p = a"
      using x Cons.prems(1) [of a key'] k Some by (auto simp: decode_value_def rbind_Inr_iff split: option.splits)
    then show ?thesis using IH [OF rest] by (simp add: rows row_ok_def)
  qed
qed simp

lemma map_filter_zip: "length xs = length ys \<Longrightarrow> List.map_filter snd (zip xs ys) = List.map_filter id ys"
  by (induction xs ys rule: list_induct2) (simp_all add: List.map_filter_simps split: option.split)

lemma redis_rows_ok:
  assumes "searchable jc P (rs_db s)" "redis_get_pool_states lk jc as s = (Inr rows, s')"
  shows "list_all (row_ok (\<lambda>_. True)) rows"
proof (cases "as = []")
  case False
  let ?db = "rs_db s"
  let ?keys = "map (rd_strings ?db) (map (pool_address_index_key jc) as)"
  let ?existing = "List.map_filter id ?keys"
  obtain pool_keys s1 where r1: "redis_mget lk (map (pool_address_index_key jc) as) s = (Inr pool_keys, s1)"
    and rest: "bind (if List.map_filter id pool_keys = [] then pass [] else redis_mget lk (List.map_filter id pool_keys))
      (\<lambda>texts. lift (zip_values (jc_read_pool jc) (zip as pool_keys) texts)) s1 = (Inr rows, s')"
    using assms(2) False by (auto simp: redis_get_pool_states_def bind_Inr_iff Let_def)
  have first: "pool_keys = ?keys" "rs_db s1 = ?db" using mget_run [OF r1] by simp_all
  obtain texts s2 where r2: "(if ?existing = [] then pass [] else redis_mget lk ?existing) s1 = (Inr texts, s2)"
    and zipped: "zip_values (jc_read_pool jc) (zip as ?keys) texts = Inr rows"
    using rest unfolding first bind_Inr_iff lift_Inr_iff by blast
  have "texts = map (rd_strings ?db) ?existing"
  proof (cases "?existing = []")
    case True
    then show ?thesis using r2 by (simp add: pass_def)
  next
    case some: False
    then have "redis_mget lk ?existing s1 = (Inr texts, s2)" using r2 by (simp only: if_False)
    from mget_run [OF this] show ?thesis by (simp add: first)
  qed
  then have "zip_values (jc_read_pool jc) (zip as ?keys) (map (rd_strings ?db) ?existing) = Inr rows"
    using zipped by simp
  then have "zip_values (jc_read_pool jc) (zip as ?keys) (map (rd_strings ?db) (List.map_filter snd (zip as ?keys))) = Inr rows"
    by (simp only: map_filter_zip length_map)
  then show ?thesis
  proof (rule zip_values_rows [rotated])
    fix a key raw p
    assume "(a, Some key) \<in> set (zip as ?keys)" "rd_strings ?db key = Some raw" "jc_read_pool jc raw = Inr p"
    moreover from this(1) have "rd_strings ?db (pool_address_index_key jc a) = Some key" by (auto simp: zip_map2 in_set_zip)
    ultimately show "ps_address p = a" using assms(1) unfolding searchable_def entry_placed_def by blast
  qed
qed (use assms(2) in \<open>simp add: redis_get_pool_states_def pass_def\<close>)

lemma maintains_mget_chunks: "maintains I (redis_mget_chunks lk read keys)"
  by (induction keys) (auto intro!: maintains_intros simp: redis_mget_def)

lemma maintains_reads:
  "maintains I (redis_all_pool_states lk jc)" "maintains I (redis_get_pool_states lk jc as)"
  "maintains I (redis_get_current_block lk)" "maintains I (redis_get_pool_ticks_many lk jc as)"
proof -
  show "maintains I (redis_all_pool_states lk jc)"
    unfolding redis_all_pool_states_def by (intro maintains_bind maintains_smembers maintains_mget_chunks maintains_pass)
  show "maintains I (redis_get_pool_states lk jc as)"
    unfolding redis_get_pool_states_def redis_mget_def Let_def by (intro maintains_intros)
  show "maintains I (redis_get_current_block lk)"
    unfolding redis_get_current_block_def redis_get_def
    by (intro maintains_bind maintains_read) (auto intro!: maintains_intros split: option.split)
  show "maintains I (redis_get_pool_ticks_many lk jc as)"
    unfolding redis_get_pool_ticks_many_def redis_smembers_all_def Let_def
    by (intro maintains_if maintains_pass maintains_bind maintains_mget_chunks maintains_ask) (simp add: read_key_def)
qed

lemma on_db_beside: "on_db I s \<Longrightarrow> on_db I (snd (beside m s))"
  by (auto simp: on_db_def beside_def split: prod.split)

lemma on_db_run: "maintains I m \<Longrightarrow> on_db I s \<Longrightarrow> on_db I (snd (m s))"
  unfolding on_db_def by (rule maintains_run)

text \<open>The same operation without its answer.\<close>

lemma answered_maintains: "maintains I (answered m) \<Longrightarrow> maintains I m"
proof (rule maintainsI)
  fix s :: "'a redis_world"
  assume "maintains I (answered m)" "I (rs_db s)"
  then have "I (rs_db (snd (answered m s)))" by (rule maintains_run)
  then show "I (rs_db (snd (m s)))" by (simp only: answered_db)
qed

lemma redis_search_world:
  fixes lk :: "'c redis_link" and out :: "'c search_env"
  assumes "shows_addresses jc" "texts_keep_pools jc"
  shows "search_world (redis_search_env lib' lk jc out)
    (on_db (searchable jc (published_ok lib cfg (\<lambda>_. True) (registry_answer out cfg) max_impact)))
    lib cfg (\<lambda>_. True) (registry_answer out cfg) max_impact"
proof -
  note op = op_searchable [OF assms, where P = "published_ok lib cfg (\<lambda>_. True) (registry_answer out cfg) max_impact"]
  note drains = answered_maintains [OF op [where op = OpDrainPools, simplified]]
    answered_maintains [OF op [where op = OpDrainTicks, simplified]]
  note writes = answered_maintains [OF op [where op = "OpReplaceTicks a ts" for a ts, simplified]]
    answered_maintains [OF op [where op = "OpMarkRepairs as" for as, simplified]]
  let ?I = "on_db (searchable jc (published_ok lib cfg (\<lambda>_. True) (registry_answer out cfg) max_impact))"
  show ?thesis
  proof unfold_locales
    fix cs show "set (en_best_order (redis_search_env lib' lk jc out) cs) \<subseteq> set cs"
      by (auto simp: redis_search_env_def iteration_order_def dest: mset_eq_setD)
  next
    fix "as" rows and s s' :: "'c redis_world"
    assume "?I s" "en_get_pool_states (redis_search_env lib' lk jc out) as s = (Inr rows, s')"
    then show "list_all (row_ok (\<lambda>_. True)) rows" using redis_rows_ok by (auto simp: redis_search_env_def on_db_def)
  next
    show "list_all (\<lambda>_. True) states" for states :: "pool_state list" by (simp add: list_all_iff)
  next
    fix listed and s s' :: "'c redis_world"
    assume "en_trusted_factory_registry (redis_search_env lib' lk jc out) (cfg_chain_id cfg) s = (Inr listed, s')"
    then show "registry_answer out cfg listed"
      by (auto simp: redis_search_env_def beside_def registry_answer_def split: prod.splits)
  next
    fix cs and s :: "'c redis_world"
    assume "list_all (published_ok lib cfg (\<lambda>_. True) (registry_answer out cfg) max_impact) cs" "?I s"
    then show "?I (snd (en_push_candidates (redis_search_env lib' lk jc out) cs s))"
      using on_db_run [OF push_searchable] by (simp add: redis_search_env_def)
  qed (auto simp: redis_search_env_def on_db_beside intro!: on_db_run [OF drains(1)] on_db_run [OF drains(2)]
      on_db_run [OF writes(1)] on_db_run [OF writes(2)] on_db_run [OF maintains_reads(1)] on_db_run [OF maintains_reads(2)]
      on_db_run [OF maintains_reads(3)] on_db_run [OF maintains_reads(4)],
    auto simp: on_db_def beside_ambient_def split: prod.splits)
qed

section \<open>The searcher among the other services\<close>

text \<open>A cycle of the searcher, any operation of another service, which pushes no candidates, and any change outside.
  A failed cycle ends the service; it starts again with an empty runtime.\<close>

datatype 'c redis_event =
    RvCycle
  | RvOperation redis_op
  | RvOutside "'c \<Rightarrow> 'c"

fun is_push :: "redis_op \<Rightarrow> bool" where
  "is_push (OpPush cs) \<longleftrightarrow> True"
| "is_push _ \<longleftrightarrow> False"

type_synonym 'c redis_search_system = "'c redis_world \<times> 'c redis_world search_runtime"

fun redis_search_step ::
    "libs \<Rightarrow> 'c redis_link \<Rightarrow> store_codec \<Rightarrow> (f64 \<Rightarrow> f64 \<Rightarrow> f64) \<Rightarrow> 'c search_env \<Rightarrow> settings \<Rightarrow> int \<Rightarrow> int \<Rightarrow> u64 \<Rightarrow> f64 \<Rightarrow>
     'c redis_event \<Rightarrow> 'c redis_search_system \<Rightarrow> 'c redis_search_system" where
  "redis_search_step lib lk jc powf out cfg ttl age max_impact min_profit RvCycle (s, rt) =
     (case run_search_cycle lib powf (redis_search_env lib lk jc out) cfg ttl age max_impact min_profit rt s of
        (Inr (cs, rt'), s') \<Rightarrow> (s', rt')
      | (Inl e, s') \<Rightarrow> (s', search_runtime_default))"
| "redis_search_step lib lk jc powf out cfg ttl age max_impact min_profit (RvOperation op) (s, rt) =
     (if is_push op then s else snd (run_op lib lk jc op s), rt)"
| "redis_search_step lib lk jc powf out cfg ttl age max_impact min_profit (RvOutside f) (s, rt) =
     (s\<lparr>rs_outside := f (rs_outside s)\<rparr>, rt)"

definition redis_search_run ::
    "libs \<Rightarrow> 'c redis_link \<Rightarrow> store_codec \<Rightarrow> (f64 \<Rightarrow> f64 \<Rightarrow> f64) \<Rightarrow> 'c search_env \<Rightarrow> settings \<Rightarrow> int \<Rightarrow> int \<Rightarrow> u64 \<Rightarrow> f64 \<Rightarrow>
     'c redis_event list \<Rightarrow> 'c \<Rightarrow> 'c redis_search_system" where
  "redis_search_run lib lk jc powf out cfg ttl age max_impact min_profit events c =
     fold (redis_search_step lib lk jc powf out cfg ttl age max_impact min_profit) events
       (\<lparr>rs_db = redis_empty, rs_outside = c\<rparr>, search_runtime_default)"

definition redis_system_ok ::
    "libs \<Rightarrow> 'c redis_link \<Rightarrow> store_codec \<Rightarrow> settings \<Rightarrow> 'c search_env \<Rightarrow> u64 \<Rightarrow> 'c redis_search_system \<Rightarrow> bool" where
  "redis_system_ok lib lk jc cfg out max_impact = (\<lambda>(s, rt).
     on_db (searchable jc (published_ok lib cfg (\<lambda>_. True) (registry_answer out cfg) max_impact)) s \<and>
     runtime_ok lib cfg (\<lambda>_. True) (registry_answer out cfg) (en_balancer_query (redis_search_env lib lk jc out)) rt)"

lemma redis_step_ok:
  fixes lk :: "'c redis_link"
  assumes "shows_addresses jc" "texts_keep_pools jc" "redis_system_ok lib lk jc cfg out max_impact sys"
  shows "redis_system_ok lib lk jc cfg out max_impact
    (redis_search_step lib lk jc powf out cfg ttl age max_impact min_profit event sys)"
proof -
  obtain s rt where sys: "sys = (s, rt)" by (metis prod.exhaust)
  have s: "on_db (searchable jc (published_ok lib cfg (\<lambda>_. True) (registry_answer out cfg) max_impact)) s"
    and rt: "runtime_ok lib cfg (\<lambda>_. True) (registry_answer out cfg) (en_balancer_query (redis_search_env lib lk jc out)) rt"
    using assms(3) by (simp_all add: sys redis_system_ok_def)
  show ?thesis
  proof (cases event)
    case RvCycle
    note cycle = search_world.search_cycle_triple [OF redis_search_world [OF assms(1,2)] rt,
        where powf = powf and ttl = ttl and age = age and min_profit = min_profit]
    obtain r s' where r: "run_search_cycle lib powf (redis_search_env lib lk jc out) cfg ttl age max_impact min_profit rt s = (r, s')"
      by (rule prod.exhaust)
    show ?thesis using tripleD [OF cycle s r]
      by (auto simp: sys RvCycle redis_system_ok_def r runtime_ok_default split: sum.split)
  next
    case (RvOperation op)
    have "on_db (searchable jc (published_ok lib cfg (\<lambda>_. True) (registry_answer out cfg) max_impact)) (snd (run_op lib lk jc op s))" if "\<not> is_push op"
      using that by (intro on_db_run [OF op_searchable [OF assms(1,2)] s]) auto
    then show ?thesis using s rt by (simp add: sys RvOperation redis_system_ok_def)
  next
    case (RvOutside f)
    then show ?thesis using s rt by (simp add: sys redis_system_ok_def on_db_def)
  qed
qed

lemma redis_run_ok:
  assumes "shows_addresses jc" "texts_keep_pools jc"
  shows "redis_system_ok lib lk jc cfg out max_impact
    (redis_search_run lib lk jc powf out cfg ttl age max_impact min_profit events c)"
proof -
  have "redis_system_ok lib lk jc cfg out max_impact sys \<Longrightarrow> redis_system_ok lib lk jc cfg out max_impact
      (fold (redis_search_step lib lk jc powf out cfg ttl age max_impact min_profit) events sys)" for sys
    by (induction events arbitrary: sys) (simp_all add: redis_step_ok [OF assms])
  moreover have "redis_system_ok lib lk jc cfg out max_impact (\<lparr>rs_db = redis_empty, rs_outside = c\<rparr>, search_runtime_default)"
    by (simp add: redis_system_ok_def on_db_def searchable_def redis_empty_def runtime_ok_default)
  ultimately show ?thesis unfolding redis_search_run_def by blast
qed

text \<open>On the stores the services run on, with connections that may break inside any operation, whatever cycles and
  operations of the other services ran in whatever order: every entry of the candidate queue is the text of a
  candidate, under its own score, that was sound when it was published, and the caches of the searcher agree with
  each other.\<close>

theorem redis_queue_published_ok:
  assumes "shows_addresses jc" "texts_keep_pools jc"
  shows "case redis_search_run lib lk jc powf out cfg ttl age max_impact min_profit events c of (s, rt) \<Rightarrow>
    (\<forall>(member, score) \<in> set (rd_sorted (rs_db s) candidates_key).
       \<exists>cand. member = jc_candidate_text jc cand \<and> score = candidate_queue_score cand \<and> published_ok lib cfg (\<lambda>_. True) (registry_answer out cfg) max_impact cand) \<and>
    states_ok (rt_pool_states rt) \<and> topology_ok rt"
proof -
  obtain s rt where run: "redis_search_run lib lk jc powf out cfg ttl age max_impact min_profit events c = (s, rt)"
    by (metis prod.exhaust)
  have "redis_system_ok lib lk jc cfg out max_impact (s, rt)"
    using redis_run_ok [OF assms, of lib lk cfg out max_impact powf ttl age min_profit events c] by (simp add: run)
  then have "searchable jc (published_ok lib cfg (\<lambda>_. True) (registry_answer out cfg) max_impact) (rs_db s)" "states_ok (rt_pool_states rt)" "topology_ok rt"
    by (simp_all add: redis_system_ok_def on_db_def runtime_ok_def)
  then show ?thesis by (simp add: run searchable_def entry_queued_def)
qed

text \<open>A codec that keeps the address of a pool.\<close>

definition address_codec :: store_codec where
  "address_codec = pool_codec\<lparr>jc_pool_text := (\<lambda>p. nat_dec (unat (ps_address p))),
     jc_read_pool := (\<lambda>raw. Inr (example_pool\<lparr>ps_pool_id := \<lparr>pid_chain_id = 8453, pid_address = word_of_nat (digits_value raw)\<rparr>\<rparr>))\<rparr>"

lemma address_codec_reads: "shows_addresses address_codec" "texts_keep_pools address_codec"
  using pool_codec_shows by (auto simp: shows_addresses_def texts_keep_pools_def address_codec_def)

text \<open>A pool is published over a connection that breaks, and the searcher runs two cycles.\<close>

theorem redis_queue_published_ok_witness:
  "\<forall>out powf. case redis_search_run hex_libs breaking_link address_codec powf out example_settings 0 0 100 (F_fin 0)
      [RvOperation (OpPublish 12 [example_pool] [100]), RvCycle, RvCycle] 0 of (s, rt) \<Rightarrow>
    states_ok (rt_pool_states rt) \<and> topology_ok rt"
proof (intro allI)
  fix out powf
  show "case redis_search_run hex_libs breaking_link address_codec powf out example_settings 0 0 100 (F_fin 0)
      [RvOperation (OpPublish 12 [example_pool] [100]), RvCycle, RvCycle] 0 of (s, rt) \<Rightarrow>
    states_ok (rt_pool_states rt) \<and> topology_ok rt"
    using redis_queue_published_ok [OF address_codec_reads, where lib = hex_libs and lk = breaking_link and powf = powf
        and out = out and cfg = example_settings and ttl = 0 and age = 0 and max_impact = 100 and min_profit = "F_fin 0"
        and events = "[RvOperation (OpPublish 12 [example_pool] [100]), RvCycle, RvCycle]" and c = 0]
    by (auto split: prod.splits)
qed

end
