(* ===== verification/Executor_Admin.thy ===== *)
theory Executor_Admin
  imports Registry_World Tx_Manager
begin

text \<open>
  The administration transactions of \<open>crates/monitor-web/src/executor_admin.rs\<close>: when a pair is registered,
  the executor's owner enables its routers, factory, tokens and pools in the executor's whitelists and approves the
  tokens, with one transaction for every setting the chain does not have yet. The wallet library is the record
  \<open>wallets\<close>: the account of a private key, and the signed raw text of a request.
\<close>

section \<open>Settings, wallet and report\<close>

record web_settings =
  ws_settings :: settings
  ws_monitor_web_password :: "string option"
  ws_executor_owner_private_key :: "string option"
  ws_deployer_private_key :: "string option"

record wallets =
  wl_address :: "string \<Rightarrow> address anyhow"
  wl_sign :: "string \<Rightarrow> tx_request \<Rightarrow> string anyhow"

record admin_wallet =
  aw_wallet :: string
  aw_address :: address

record executor_admin_report =
  xr_submitted :: nat
  xr_skipped :: nat
  xr_skipped_reason :: "string option"
  xr_tx_hashes :: "b256 list"

definition report_default :: executor_admin_report where
  "report_default = \<lparr>xr_submitted = 0, xr_skipped = 0, xr_skipped_reason = None, xr_tx_hashes = []\<rparr>"

definition report_summary :: "executor_admin_report \<Rightarrow> string" where
  "report_summary r =
     (case xr_skipped_reason r of
        Some reason \<Rightarrow> ''executor auto-config skipped: '' @ reason
      | None \<Rightarrow> ''executor auto-config submitted '' @ nat_dec (xr_submitted r) @ '' txs, skipped '' @ nat_dec (xr_skipped r) @
          '' existing settings'')"

definition token_whitelist_selector :: "u8 list" where "token_whitelist_selector = [0x75, 0x3d, 0x75, 0x63]"
definition pool_whitelist_selector :: "u8 list" where "pool_whitelist_selector = [0x4c, 0x70, 0x17, 0x9d]"
definition router_whitelist_selector :: "u8 list" where "router_whitelist_selector = [0x63, 0xcb, 0xb1, 0x45]"
definition factory_whitelist_selector :: "u8 list" where "factory_whitelist_selector = [0xf2, 0xb9, 0xc6, 0xe3]"
definition set_token_whitelist_selector :: "u8 list" where "set_token_whitelist_selector = [0xc9, 0xbc, 0xc9, 0x7e]"
definition set_pool_whitelist_selector :: "u8 list" where "set_pool_whitelist_selector = [0x2d, 0xab, 0x1f, 0x36]"
definition set_router_whitelist_selector :: "u8 list" where "set_router_whitelist_selector = [0x7b, 0x22, 0x43, 0x39]"
definition set_factory_whitelist_selector :: "u8 list" where "set_factory_whitelist_selector = [0x44, 0x7f, 0xd7, 0xfd]"

section \<open>Calls and transactions\<close>

definition encode_address_bool_call :: "u8 list \<Rightarrow> address \<Rightarrow> bool \<Rightarrow> u8 list" where
  "encode_address_bool_call selector a v = selector @ encode_address a @ encode_bool v"

definition admin_bump_gas_limit :: "u256 \<Rightarrow> u256" where
  "admin_bump_gas_limit v =
     saturating_add (case checked_div (saturating_mul v 12000) 10000 of None \<Rightarrow> v | Some b \<Rightarrow> b) 25000"

definition call_u256_from_raw :: "libs \<Rightarrow> string \<Rightarrow> u256 anyhow" where
  "call_u256_from_raw lib raw =
     (let clean = trim_start_0x raw in
      if length clean < 64 then bail ''eth_call returned short u256 result''
      else lib_from_str_radix lib (drop (length clean - 64) clean) 16)"

definition call_u256 :: "libs \<Rightarrow> 's rpc_env \<Rightarrow> address \<Rightarrow> u8 list \<Rightarrow> string \<Rightarrow> ('s, u256) act" where
  "call_u256 lib rp to calldata label =
     bind (eth_call_from rp None to (hex_data lib calldata) label) (\<lambda>raw. lift (call_u256_from_raw lib raw))"

definition call_bool :: "libs \<Rightarrow> 's rpc_env \<Rightarrow> address \<Rightarrow> u8 list \<Rightarrow> string \<Rightarrow> ('s, bool) act" where
  "call_bool lib rp to calldata label =
     bind (eth_call_from rp None to (hex_data lib calldata) label) (\<lambda>raw.
     bind (lift (call_u256_from_raw lib raw)) (\<lambda>v. pass (v \<noteq> 0)))"

definition admin_wallet_from_private_key :: "wallets \<Rightarrow> string \<Rightarrow> admin_wallet anyhow" where
  "admin_wallet_from_private_key wl private_key =
     rbind (with_context ''failed to parse executor owner private key'' (wl_address wl private_key)) (\<lambda>a.
     Inr \<lparr>aw_wallet = private_key, aw_address = a\<rparr>)"

definition admin_request :: "u64 \<Rightarrow> address \<Rightarrow> u8 list \<Rightarrow> u64 \<Rightarrow> u256 \<Rightarrow> u256 \<Rightarrow> u256 \<Rightarrow> tx_request" where
  "admin_request chain_id to calldata nonce gas_limit max_fee max_priority =
     \<lparr>rq_to = to, rq_nonce = nonce, rq_chain_id = chain_id, rq_gas = gas_limit, rq_max_fee_per_gas = max_fee,
      rq_max_priority_fee_per_gas = max_priority, rq_value = 0, rq_data = calldata\<rparr>"

definition send_admin_tx ::
    "libs \<Rightarrow> wallets \<Rightarrow> 's rpc_env \<Rightarrow> admin_wallet \<Rightarrow> u64 \<Rightarrow> address \<Rightarrow> u8 list \<Rightarrow> u64 \<Rightarrow> ('s, b256) act" where
  "send_admin_tx lib wl rp w chain_id to calldata nonce =
     bind (annotate ''failed to estimate executor admin tx gas''
             (estimate_gas lib rp (aw_address w) to (hex_data lib calldata))) (\<lambda>estimated_gas.
     bind (suggested_eip1559_fees lib rp) (\<lambda>(max_fee, max_priority).
     bind (lift (wl_sign wl (aw_wallet w)
             (admin_request chain_id to calldata nonce (admin_bump_gas_limit estimated_gas) max_fee max_priority))) (\<lambda>raw.
     send_raw_transaction rp raw)))"

text \<open>The nonce and the report, which the code holds as mutable borrows.\<close>

type_synonym admin_progress = "u64 \<times> executor_admin_report"

definition note_skipped :: "admin_progress \<Rightarrow> admin_progress" where
  "note_skipped st = (fst st, (snd st)\<lparr>xr_skipped := xr_skipped (snd st) + 1\<rparr>)"

definition note_submitted :: "b256 \<Rightarrow> admin_progress \<Rightarrow> admin_progress" where
  "note_submitted tx_hash st =
     (saturating_add (fst st) 1,
      (snd st)\<lparr>xr_submitted := xr_submitted (snd st) + 1, xr_tx_hashes := xr_tx_hashes (snd st) @ [tx_hash]\<rparr>)"

definition ensure_mapping_enabled ::
    "libs \<Rightarrow> wallets \<Rightarrow> 's rpc_env \<Rightarrow> admin_wallet \<Rightarrow> u64 \<Rightarrow> address \<Rightarrow> u8 list \<Rightarrow> u8 list \<Rightarrow> address \<Rightarrow> string \<Rightarrow>
     admin_progress \<Rightarrow> ('s, admin_progress) act" where
  "ensure_mapping_enabled lib wl rp w chain_id executor view_selector set_selector v label st =
     bind (call_bool lib rp executor (encode_address_call view_selector v) label) (\<lambda>enabled.
     if enabled then pass (note_skipped st)
     else
       bind (send_admin_tx lib wl rp w chain_id executor (encode_address_bool_call set_selector v True) (fst st)) (\<lambda>tx_hash.
       pass (note_submitted tx_hash st)))"

definition ensure_token_approval ::
    "libs \<Rightarrow> wallets \<Rightarrow> 's rpc_env \<Rightarrow> admin_wallet \<Rightarrow> u64 \<Rightarrow> address \<Rightarrow> address \<Rightarrow> address \<Rightarrow>
     admin_progress \<Rightarrow> ('s, admin_progress) act" where
  "ensure_token_approval lib wl rp w chain_id executor token spender st =
     bind (call_u256 lib rp token (encode_two_address_call erc20_allowance_selector executor spender) ''ERC20 allowance'') (\<lambda>allowance.
     if allowance > 1000000000000000000 then pass (note_skipped st)
     else
       bind (send_admin_tx lib wl rp w chain_id executor (encode_approve_token_call token spender (- 1)) (fst st)) (\<lambda>tx_hash.
       pass (note_submitted tx_hash st)))"

fun for_each :: "('a \<Rightarrow> 'b \<Rightarrow> ('s, 'b) act) \<Rightarrow> 'a list \<Rightarrow> 'b \<Rightarrow> ('s, 'b) act" where
  "for_each f [] st = pass st"
| "for_each f (x # xs) st = bind (f x st) (for_each f xs)"

section \<open>Configuring a pair\<close>

definition has_pools :: "dex_kind \<Rightarrow> pool_variant \<Rightarrow> discovered_pool list \<Rightarrow> bool" where
  "has_pools dex variant pools \<longleftrightarrow>
     list_ex (\<lambda>d. ps_dex (dp_state d) = dex \<and> ps_variant (dp_state d) = variant) pools"

text \<open>\<open>filter(|address| *address != Address::ZERO)\<close> on an option, as a list.\<close>

definition nonzero :: "address option \<Rightarrow> address list" where
  "nonzero a = (case a of None \<Rightarrow> [] | Some a \<Rightarrow> if a = 0 then [] else [a])"

definition executor_routers :: "settings \<Rightarrow> discovered_pool list \<Rightarrow> address list" where
  "executor_routers cfg pools =
     (let routers = nonzero (cfg_aerodrome_router cfg) @ nonzero (cfg_uniswap_v3_router cfg);
          routers = (if has_pools DexPancakeSwap PancakeV3 pools
            then routers @ nonzero (Some (factory_or pancake_v3_router (cfg_pancake_v3_router cfg))) else routers);
          routers = (if has_pools DexAerodrome AerodromeSlipstream pools
            then routers @ nonzero (Some (factory_or aerodrome_slipstream_router (cfg_aerodrome_slipstream_router cfg)))
            else routers)
      in remdups_adj (sort routers))"

definition executor_whitelists_supported :: "libs \<Rightarrow> 's rpc_env \<Rightarrow> address \<Rightarrow> ('s, bool) act" where
  "executor_whitelists_supported lib rp executor =
     attempt (call_bool lib rp executor (encode_address_call token_whitelist_selector 0) ''token whitelist support probe'')
       (\<lambda>_. pass True) (\<lambda>_. pass False)"

definition ensure_router ::
    "libs \<Rightarrow> wallets \<Rightarrow> 's rpc_env \<Rightarrow> admin_wallet \<Rightarrow> u64 \<Rightarrow> address \<Rightarrow> address \<Rightarrow> admin_progress \<Rightarrow> ('s, admin_progress) act" where
  "ensure_router lib wl rp w chain_id executor router =
     ensure_mapping_enabled lib wl rp w chain_id executor router_whitelist_selector set_router_whitelist_selector router
       ''router whitelist''"

definition ensure_factory ::
    "libs \<Rightarrow> wallets \<Rightarrow> 's rpc_env \<Rightarrow> admin_wallet \<Rightarrow> u64 \<Rightarrow> address \<Rightarrow> address \<Rightarrow> admin_progress \<Rightarrow> ('s, admin_progress) act" where
  "ensure_factory lib wl rp w chain_id executor factory =
     ensure_mapping_enabled lib wl rp w chain_id executor factory_whitelist_selector set_factory_whitelist_selector factory
       ''factory whitelist''"

definition ensure_token ::
    "libs \<Rightarrow> wallets \<Rightarrow> 's rpc_env \<Rightarrow> admin_wallet \<Rightarrow> u64 \<Rightarrow> address \<Rightarrow> bool \<Rightarrow> address list \<Rightarrow> address \<Rightarrow>
     admin_progress \<Rightarrow> ('s, admin_progress) act" where
  "ensure_token lib wl rp w chain_id executor supported routers token st =
     bind (if supported
           then ensure_mapping_enabled lib wl rp w chain_id executor token_whitelist_selector set_token_whitelist_selector token
             ''token whitelist'' st
           else pass st)
       (for_each (ensure_token_approval lib wl rp w chain_id executor token) routers)"

definition ensure_pool ::
    "libs \<Rightarrow> wallets \<Rightarrow> 's rpc_env \<Rightarrow> admin_wallet \<Rightarrow> u64 \<Rightarrow> address \<Rightarrow> discovered_pool \<Rightarrow> admin_progress \<Rightarrow> ('s, admin_progress) act" where
  "ensure_pool lib wl rp w chain_id executor d =
     ensure_mapping_enabled lib wl rp w chain_id executor pool_whitelist_selector set_pool_whitelist_selector
       (ps_address (dp_state d)) ''pool whitelist''"

definition ensure_pair ::
    "libs \<Rightarrow> wallets \<Rightarrow> 's rpc_env \<Rightarrow> admin_wallet \<Rightarrow> settings \<Rightarrow> address \<Rightarrow> bool \<Rightarrow> discovered_pool list \<Rightarrow> address \<Rightarrow> address \<Rightarrow>
     admin_progress \<Rightarrow> ('s, admin_progress) act" where
  "ensure_pair lib wl rp w cfg executor supported pools token0 token1 st =
     (let chain_id = cfg_chain_id cfg; routers = executor_routers cfg pools in
      bind (if supported then for_each (ensure_router lib wl rp w chain_id executor) routers st else pass st) (\<lambda>st.
      bind (if supported \<and> has_pools DexAerodrome AerodromeVolatile pools
            then for_each (ensure_factory lib wl rp w chain_id executor) (nonzero (cfg_aerodrome_pool_factory cfg)) st
            else pass st) (\<lambda>st.
      bind (for_each (ensure_token lib wl rp w chain_id executor supported routers) [token0, token1] st) (\<lambda>st.
      if supported then for_each (ensure_pool lib wl rp w chain_id executor) pools st else pass st))))"

definition skipped_report :: "string \<Rightarrow> executor_admin_report" where
  "skipped_report reason = report_default\<lparr>xr_skipped_reason := Some reason\<rparr>"

definition configure_executor_for_pair ::
    "libs \<Rightarrow> wallets \<Rightarrow> 's rpc_env \<Rightarrow> web_settings \<Rightarrow> discovered_pool list \<Rightarrow> address \<Rightarrow> address \<Rightarrow>
     ('s, executor_admin_report) act" where
  "configure_executor_for_pair lib wl rp ws pools token0 token1 =
     (let cfg = ws_settings ws in
      if \<not> cfg_execution_submit_enabled cfg
      then pass (skipped_report ''EXECUTION_SUBMIT_ENABLED=false; registry updated without executor transactions'')
      else case nonzero (cfg_executor_contract cfg) of
        [] \<Rightarrow> pass (skipped_report ''EXECUTOR_CONTRACT is not configured'')
      | executor # _ \<Rightarrow>
          (case coalesce (ws_executor_owner_private_key ws) (ws_deployer_private_key ws) of
             None \<Rightarrow> pass (skipped_report ''EXECUTOR_OWNER_PRIVATE_KEY or DEPLOYER_PRIVATE_KEY is not configured'')
           | Some private_key \<Rightarrow>
               bind (lift (admin_wallet_from_private_key wl private_key)) (\<lambda>w.
               bind (get_transaction_count rp (aw_address w) True) (\<lambda>nonce.
               bind (executor_whitelists_supported lib rp executor) (\<lambda>supported.
               bind (ensure_pair lib wl rp w cfg executor supported pools token0 token1 (nonce, report_default)) (\<lambda>st.
               pass (snd st)))))))"

end
