(* ===== verification/Executor_Sent.thy ===== *)
theory Executor_Sent
  imports Executor_Admin "HOL-Library.Sublist"
begin

text \<open>
  Which transactions the configuration of the executor sends. A node that keeps a log of the raw transactions
  it was given observes them; the settings a pair needs are one list, and the transactions sent are those of a
  part of it, in order, with consecutive nonces.
\<close>

section \<open>A node that logs\<close>

definition sent_raw :: "json \<Rightarrow> string list" where
  "sent_raw req =
     (if json_get req ''method'' = Some (JString ''eth_sendRawTransaction'')
      then (case json_get req ''params'' of Some (JArray [JString raw]) \<Rightarrow> [raw] | _ \<Rightarrow> [])
      else [])"

definition logged :: "'s rpc_env \<Rightarrow> ('s \<times> string list) rpc_env" where
  "logged rp = \<lparr>rp_chain_id = rp_chain_id rp,
     rp_post = (\<lambda>req s. case rp_post rp req (fst s) of (r, s') \<Rightarrow> (r, (s', snd s @ sent_raw req))),
     rp_now = (\<lambda>s. case rp_now rp (fst s) of (t, s') \<Rightarrow> (t, (s', snd s))),
     rp_json_text = rp_json_text rp, rp_parse_b256 = rp_parse_b256 rp\<rparr>"

lemma keeps_annotate [keeps_intros]: "keeps v m \<Longrightarrow> keeps v (annotate c m)"
  by (auto simp: keeps_def annotate_def split: prod.splits sum.splits list.splits) (metis snd_conv)+

lemma keeps_attempt [keeps_intros]:
  "keeps v m \<Longrightarrow> (\<And>x. keeps v (f x)) \<Longrightarrow> (\<And>e. keeps v (g e)) \<Longrightarrow> keeps v (attempt m f g)"
  unfolding attempt_def by (intro keeps_intros) auto

lemma rpc_logged: "snd (snd (rpc (logged rp) method params s)) = snd s @ sent_raw (rpc_request method params)"
  by (auto simp: rpc_def rpc_optional_def logged_def bind_def act_run split: prod.splits sum.splits option.splits)

lemma keeps_rpc_logged [keeps_intros]: "method \<noteq> ''eth_sendRawTransaction'' \<Longrightarrow> keeps snd (rpc (logged rp) method params)"
  by (simp add: keeps_def rpc_logged sent_raw_def rpc_request_def)

lemma keeps_calls [keeps_intros]:
  "keeps snd (get_transaction_count (logged rp) a pending)"
  "keeps snd (estimate_gas lib (logged rp) a to data)"
  "keeps snd (suggested_eip1559_fees lib (logged rp))"
  "keeps snd (eth_call_from (logged rp) sender to data label)"
  unfolding get_transaction_count_def estimate_gas_def suggested_eip1559_fees_def suggested_eip1559_fee_details_def
    eth_call_from_def eth_call_from_at_block_def Let_def
  by (intro keeps_intros; simp)+

lemma keeps_admin_reads [keeps_intros]:
  "keeps snd (call_u256 lib (logged rp) to data label)"
  "keeps snd (call_bool lib (logged rp) to data label)"
  "keeps snd (executor_whitelists_supported lib (logged rp) executor)"
  unfolding call_u256_def executor_whitelists_supported_def call_bool_def by (intro keeps_intros)+

lemma send_raw_logged: "send_raw_transaction (logged rp) raw s = (r, s') \<Longrightarrow> snd s' = snd s @ [raw]"
proof -
  assume run: "send_raw_transaction (logged rp) raw s = (r, s')"
  have "sent_raw (rpc_request ''eth_sendRawTransaction'' (JArray [JString raw])) = [raw]"
    by (simp add: sent_raw_def rpc_request_def)
  then have "snd (snd (rpc (logged rp) ''eth_sendRawTransaction'' (JArray [JString raw]) s)) = snd s @ [raw]"
    by (simp add: rpc_logged)
  then show ?thesis using run
    by (auto simp: send_raw_transaction_def bind_def act_run split: prod.splits sum.splits)
qed

text \<open>A call that sends nothing either fails, with nothing sent, or the rest runs from the same log.\<close>

lemma bind_kept:
  assumes "bind m f s = (r, s')" "keeps snd m"
  obtains (failed) e where "r = Inl e" "snd s' = snd s"
    | (goes_on) x s1 where "m s = (Inr x, s1)" "snd s1 = snd s" "f x s1 = (r, s')"
proof -
  obtain r1 s1 where m: "m s = (r1, s1)" by (cases "m s") auto
  then show ?thesis using assms keeps_run [OF assms(2) m] that by (cases r1) (auto simp: bind_def)
qed

section \<open>Transactions with consecutive nonces\<close>

text \<open>A raw text that is the owner's signature of a call of the executor with that nonce and that data, without value.\<close>

definition admin_tx :: "wallets \<Rightarrow> admin_wallet \<Rightarrow> u64 \<Rightarrow> address \<Rightarrow> u64 \<Rightarrow> u8 list \<Rightarrow> string \<Rightarrow> bool" where
  "admin_tx wl w chain_id executor nonce data raw \<longleftrightarrow>
     (\<exists>gas max_fee max_priority. wl_sign wl (aw_wallet w)
        (admin_request chain_id executor data nonce gas max_fee max_priority) = Inr raw)"

definition nonce_after :: "u64 \<Rightarrow> nat \<Rightarrow> u64" where
  "nonce_after n k = word_of_nat (min (unat n + k) (2 ^ 64 - 1))"

definition admin_txs :: "wallets \<Rightarrow> admin_wallet \<Rightarrow> u64 \<Rightarrow> address \<Rightarrow> u64 \<Rightarrow> u8 list list \<Rightarrow> string list \<Rightarrow> bool" where
  "admin_txs wl w chain_id executor n calls raws \<longleftrightarrow>
     length calls = length raws \<and>
     (\<forall>i < length raws. admin_tx wl w chain_id executor (nonce_after n i) (calls ! i) (raws ! i))"

lemma nonce_after_0 [simp]: "nonce_after n 0 = n"
  using unat_lt [of n] by (simp add: nonce_after_def min_def)

lemma unat_nonce_after: "unat (nonce_after n k) = min (unat n + k) (2 ^ 64 - 1)"
  unfolding nonce_after_def by (rule unat_of_nat_small) simp

lemma nonce_after_Suc: "saturating_add (nonce_after n k) 1 = nonce_after n (Suc k)"
  unfolding word_eq_iff_unat unat_saturating_add unat_nonce_after by simp

lemma admin_txs_Nil [simp]: "admin_txs wl w chain_id executor n [] []"
  by (simp add: admin_txs_def)

lemma admin_txs_snoc:
  "admin_txs wl w chain_id executor n calls raws \<Longrightarrow>
   admin_tx wl w chain_id executor (nonce_after n (length raws)) call raw \<Longrightarrow>
   admin_txs wl w chain_id executor n (calls @ [call]) (raws @ [raw])"
  by (auto simp: admin_txs_def nth_append less_Suc_eq)

lemma send_admin_tx_logged:
  assumes "send_admin_tx lib wl (logged rp) w chain_id to data nonce s = (r, s')"
  shows "(\<exists>e. r = Inl e) \<and> snd s' = snd s \<or> (\<exists>raw. admin_tx wl w chain_id to nonce data raw \<and> snd s' = snd s @ [raw])"
proof -
  have "keeps snd (annotate c (estimate_gas lib (logged rp) a to d))" for c a d by (intro keeps_intros)
  from assms [unfolded send_admin_tx_def] this show ?thesis
  proof (cases rule: bind_kept)
    case (goes_on gas s1)
    from goes_on(3) keeps_calls(3) show ?thesis
    proof (cases rule: bind_kept)
      case fees: (goes_on fees s2)
      let ?rq = "admin_request chain_id to data nonce (admin_bump_gas_limit gas) (fst fees) (snd fees)"
      have "bind (lift (wl_sign wl (aw_wallet w) ?rq)) (send_raw_transaction (logged rp)) s2 = (r, s')"
        using fees(3) by (simp add: split_def)
      then show ?thesis using keeps_lift
      proof (cases rule: bind_kept)
        case sign: (goes_on raw s3)
        then have "admin_tx wl w chain_id to nonce data raw" by (auto simp: admin_tx_def act_run)
        moreover have "snd s' = snd s3 @ [raw]" using sign(3) by (rule send_raw_logged)
        ultimately show ?thesis using sign(2) fees(2) goes_on(2) by auto
      qed (use fees(2) goes_on(2) in simp)
    qed (use goes_on(2) in simp)
  qed simp
qed

section \<open>The settings a pair needs\<close>

datatype admin_setting =
    RouterEnabled address
  | FactoryEnabled address
  | TokenEnabled address
  | PoolEnabled address
  | TokenApproved address address

fun setting_call :: "admin_setting \<Rightarrow> u8 list" where
  "setting_call (RouterEnabled a) = encode_address_bool_call set_router_whitelist_selector a True"
| "setting_call (FactoryEnabled a) = encode_address_bool_call set_factory_whitelist_selector a True"
| "setting_call (TokenEnabled a) = encode_address_bool_call set_token_whitelist_selector a True"
| "setting_call (PoolEnabled a) = encode_address_bool_call set_pool_whitelist_selector a True"
| "setting_call (TokenApproved token spender) = encode_approve_token_call token spender (- 1)"

text \<open>A classic pool needs its factory; every token needs an approval for each router.\<close>

definition required_settings :: "settings \<Rightarrow> bool \<Rightarrow> discovered_pool list \<Rightarrow> address \<Rightarrow> address \<Rightarrow> admin_setting list" where
  "required_settings cfg supported pools token0 token1 =
     (let routers = executor_routers cfg pools;
          token_settings = (\<lambda>token. (if supported then [TokenEnabled token] else []) @ map (TokenApproved token) routers) in
      (if supported then map RouterEnabled routers else []) @
      (if supported \<and> has_pools DexAerodrome AerodromeVolatile pools
       then map FactoryEnabled (nonzero (cfg_aerodrome_pool_factory cfg)) else []) @
      token_settings token0 @ token_settings token1 @
      (if supported then map (\<lambda>d. PoolEnabled (dp_address d)) pools else []))"

fun ensure_setting ::
    "libs \<Rightarrow> wallets \<Rightarrow> 's rpc_env \<Rightarrow> admin_wallet \<Rightarrow> u64 \<Rightarrow> address \<Rightarrow> admin_setting \<Rightarrow> admin_progress \<Rightarrow> ('s, admin_progress) act" where
  "ensure_setting lib wl rp w chain_id executor (RouterEnabled a) = ensure_router lib wl rp w chain_id executor a"
| "ensure_setting lib wl rp w chain_id executor (FactoryEnabled a) = ensure_factory lib wl rp w chain_id executor a"
| "ensure_setting lib wl rp w chain_id executor (TokenEnabled a) =
     ensure_mapping_enabled lib wl rp w chain_id executor token_whitelist_selector set_token_whitelist_selector a ''token whitelist''"
| "ensure_setting lib wl rp w chain_id executor (PoolEnabled a) =
     ensure_mapping_enabled lib wl rp w chain_id executor pool_whitelist_selector set_pool_whitelist_selector a ''pool whitelist''"
| "ensure_setting lib wl rp w chain_id executor (TokenApproved token spender) =
     ensure_token_approval lib wl rp w chain_id executor token spender"

lemma bind_assoc: "bind (bind m f) g = bind m (\<lambda>x. bind (f x) g)"
  by (rule ext) (simp add: bind_def split: prod.split sum.split)

lemma bind_pass [simp]: "bind (pass x) f = f x" "bind m pass = m"
  by (rule ext, simp add: bind_def pass_def split: prod.split sum.split)+

lemma for_each_eqs:
  "for_each f [] = pass" "for_each f (x # xs) = (\<lambda>st. bind (f x st) (for_each f xs))"
  by (rule ext, simp)+

lemma for_each_append: "for_each f (xs @ ys) = (\<lambda>st. bind (for_each f xs st) (for_each f ys))"
  by (induction xs) (simp_all add: for_each_eqs bind_assoc del: for_each.simps)

lemma for_each_map: "for_each f (map g xs) = for_each (\<lambda>x. f (g x)) xs"
  by (induction xs) (simp_all add: for_each_eqs del: for_each.simps)

lemma ensure_pair_settings:
  "ensure_pair lib wl rp w cfg executor supported pools token0 token1 st =
   for_each (ensure_setting lib wl rp w (cfg_chain_id cfg) executor) (required_settings cfg supported pools token0 token1) st"
proof -
  have pool: "(\<lambda>d. ensure_setting lib wl rp w (cfg_chain_id cfg) executor (PoolEnabled (dp_address d))) =
      ensure_pool lib wl rp w (cfg_chain_id cfg) executor"
    by (rule ext) (simp add: ensure_pool_def dp_address_def)
  show ?thesis
    unfolding required_settings_def Let_def ensure_pair_def append_assoc [symmetric]
    by (cases supported; cases "has_pools DexAerodrome AerodromeVolatile pools")
       (simp_all add: for_each_append for_each_eqs for_each_map ensure_token_def pool [symmetric] bind_assoc
          del: for_each.simps append_assoc)
qed

section \<open>What is sent\<close>

lemma ensure_setting_cases:
  assumes "ensure_setting lib wl (logged rp) w chain_id executor x st s = (r, s')"
  shows "(\<exists>e. r = Inl e) \<and> snd s' = snd s \<or> r = Inr (note_skipped st) \<and> snd s' = snd s \<or>
    (\<exists>raw. admin_tx wl w chain_id executor (fst st) (setting_call x) raw \<and> snd s' = snd s @ [raw] \<and>
       ((\<exists>e. r = Inl e) \<or> (\<exists>h. r = Inr (note_submitted h st))))"
proof -
  have cases': "(\<exists>e. r = Inl e) \<and> snd s' = snd s \<or> r = Inr (note_skipped st) \<and> snd s' = snd s \<or>
      (\<exists>raw. admin_tx wl w chain_id executor (fst st) data raw \<and> snd s' = snd s @ [raw] \<and>
         ((\<exists>e. r = Inl e) \<or> (\<exists>h. r = Inr (note_submitted h st))))"
    if run: "bind (read :: ('a \<times> string list, 'b) act) (\<lambda>v. if present v then pass (note_skipped st)
        else bind (send_admin_tx lib wl (logged rp) w chain_id executor data (fst st)) (\<lambda>h. pass (note_submitted h st))) s = (r, s')"
      and kept: "keeps snd read"
    for read :: "('a \<times> string list, 'b) act" and present data
    using run kept
  proof (cases rule: bind_kept)
    case (goes_on v s1)
    show ?thesis
    proof (cases "present v")
      case True
      then show ?thesis using goes_on by (auto simp: pass_def)
    next
      case False
      obtain r2 s2 where 2: "send_admin_tx lib wl (logged rp) w chain_id executor data (fst st) s1 = (r2, s2)"
        by (cases "send_admin_tx lib wl (logged rp) w chain_id executor data (fst st) s1") auto
      have "r = (case r2 of Inl e \<Rightarrow> Inl e | Inr h \<Rightarrow> Inr (note_submitted h st))" "s' = s2"
        using goes_on(3) 2 False by (auto simp: bind_def pass_def split: sum.splits)
      then show ?thesis using send_admin_tx_logged [OF 2] goes_on(2) by (cases r2) auto
    qed
  qed simp
  have mapping: "(\<exists>e. r = Inl e) \<and> snd s' = snd s \<or> r = Inr (note_skipped st) \<and> snd s' = snd s \<or>
      (\<exists>raw. admin_tx wl w chain_id executor (fst st) (encode_address_bool_call set_selector a True) raw \<and>
         snd s' = snd s @ [raw] \<and> ((\<exists>e. r = Inl e) \<or> (\<exists>h. r = Inr (note_submitted h st))))"
    if "ensure_mapping_enabled lib wl (logged rp) w chain_id executor view_selector set_selector a label st s = (r, s')"
    for view_selector set_selector a label
    by (rule cases' [OF that [unfolded ensure_mapping_enabled_def] keeps_admin_reads(2)])
  show ?thesis
  proof (cases x)
    case (TokenApproved token spender)
    show ?thesis using cases' [OF assms [unfolded TokenApproved ensure_setting.simps ensure_token_approval_def] keeps_admin_reads(1)]
      TokenApproved by simp
  next
    case (RouterEnabled a)
    show ?thesis using mapping [OF assms [unfolded RouterEnabled ensure_setting.simps ensure_router_def]] RouterEnabled by simp
  next
    case (FactoryEnabled a)
    show ?thesis using mapping [OF assms [unfolded FactoryEnabled ensure_setting.simps ensure_factory_def]] FactoryEnabled by simp
  next
    case (TokenEnabled a)
    show ?thesis using mapping [OF assms [unfolded TokenEnabled ensure_setting.simps]] TokenEnabled by simp
  next
    case (PoolEnabled a)
    show ?thesis using mapping [OF assms [unfolded PoolEnabled ensure_setting.simps]] PoolEnabled by simp
  qed
qed

text \<open>How far the settings of a list are ensured, and what was sent when one of them failed.\<close>

definition sent_for ::
    "wallets \<Rightarrow> admin_wallet \<Rightarrow> u64 \<Rightarrow> address \<Rightarrow> u64 \<Rightarrow> admin_setting list \<Rightarrow> string list \<Rightarrow> bool" where
  "sent_for wl w chain_id executor n needed raws \<longleftrightarrow>
     (\<exists>missing. subseq missing needed \<and> admin_txs wl w chain_id executor n (map setting_call missing) raws)"

definition counted :: "u64 \<Rightarrow> admin_setting list \<Rightarrow> string list \<Rightarrow> admin_progress \<Rightarrow> bool" where
  "counted n needed raws st \<longleftrightarrow>
     fst st = nonce_after n (length raws) \<and> xr_submitted (snd st) = length raws \<and>
     length (xr_tx_hashes (snd st)) = length raws \<and> xr_submitted (snd st) + xr_skipped (snd st) = length needed \<and>
     xr_skipped_reason (snd st) = None"

lemma sent_for_later: "sent_for wl w chain_id executor n needed raws \<Longrightarrow> sent_for wl w chain_id executor n (needed @ rest) raws"
  unfolding sent_for_def by (meson list_emb_append2 subseq_append_iff subseq_order.order_trans subseq_rev_drop_many)

lemma sent_for_more:
  assumes "sent_for wl w chain_id executor n needed raws"
    and "admin_tx wl w chain_id executor (nonce_after n (length raws)) (setting_call x) raw"
  shows "sent_for wl w chain_id executor n (needed @ [x]) (raws @ [raw])"
proof -
  obtain missing where missing: "subseq missing needed" "admin_txs wl w chain_id executor n (map setting_call missing) raws"
    using assms(1) by (auto simp: sent_for_def)
  have "subseq (missing @ [x]) (needed @ [x])" using missing(1) by simp
  moreover have "admin_txs wl w chain_id executor n (map setting_call (missing @ [x])) (raws @ [raw])"
    using admin_txs_snoc [OF missing(2) assms(2)] by simp
  ultimately show ?thesis unfolding sent_for_def by blast
qed

lemma for_each_sent:
  assumes "for_each (ensure_setting lib wl (logged rp) w chain_id executor) xs st s = (r, s')"
    and "sent_for wl w chain_id executor n done' raws" "counted n done' raws st" "snd s = L @ raws"
  shows "\<exists>raws'. snd s' = L @ raws' \<and> sent_for wl w chain_id executor n (done' @ xs) raws' \<and>
    (\<forall>st'. r = Inr st' \<longrightarrow> counted n (done' @ xs) raws' st')"
  using assms
proof (induction xs arbitrary: st s done' raws)
  case Nil
  then show ?case by (auto simp: pass_def)
next
  case (Cons x xs)
  let ?step = "ensure_setting lib wl (logged rp) w chain_id executor x st"
  obtain r1 s1 where 1: "?step s = (r1, s1)" by (cases "?step s") auto
  have nonce: "fst st = nonce_after n (length raws)" using Cons.prems(3) by (simp add: counted_def)
  obtain raws1 where raws1: "snd s1 = L @ raws1" "sent_for wl w chain_id executor n (done' @ [x]) raws1"
      "\<And>st'. r1 = Inr st' \<Longrightarrow> counted n (done' @ [x]) raws1 st'"
  proof -
    consider "\<exists>e. r1 = Inl e" "snd s1 = snd s" | "r1 = Inr (note_skipped st)" "snd s1 = snd s"
      | raw where "admin_tx wl w chain_id executor (fst st) (setting_call x) raw" "snd s1 = snd s @ [raw]"
          "(\<exists>e. r1 = Inl e) \<or> (\<exists>h. r1 = Inr (note_submitted h st))"
      using ensure_setting_cases [OF 1] by blast
    then show thesis
    proof cases
      case 1
      then show thesis using that [of raws] Cons.prems(2,4) sent_for_later by fastforce
    next
      case 2
      then show thesis using that [of raws] Cons.prems(2,3,4) sent_for_later by (fastforce simp: counted_def note_skipped_def)
    next
      case 3
      then have "sent_for wl w chain_id executor n (done' @ [x]) (raws @ [raw])"
        using sent_for_more [OF Cons.prems(2)] nonce by simp
      moreover have submitted: "counted n (done' @ [x]) (raws @ [raw]) (note_submitted h st)" for h
        using Cons.prems(3) by (simp add: counted_def note_submitted_def nonce_after_Suc)
      moreover have "counted n (done' @ [x]) (raws @ [raw]) st'" if "r1 = Inr st'" for st'
        using 3(3) that submitted by fastforce
      ultimately show thesis using that [of "raws @ [raw]"] 3(2) Cons.prems(4) by simp
    qed
  qed
  show ?case
  proof (cases r1)
    case (Inl e)
    then have "r = Inl e" "s' = s1" using Cons.prems(1) 1 by (auto simp: bind_def)
    then show ?thesis using raws1 sent_for_later [OF raws1(2), of xs] by auto
  next
    case (Inr st1)
    then have "for_each (ensure_setting lib wl (logged rp) w chain_id executor) xs st1 s1 = (r, s')"
      using Cons.prems(1) 1 by (simp add: bind_def)
    from Cons.IH [OF this raws1(2) raws1(3) [OF Inr] raws1(1)] show ?thesis by simp
  qed
qed

lemma ensure_pair_sent:
  assumes "ensure_pair lib wl (logged rp) w cfg executor supported pools token0 token1 (n, report_default) s = (r, s')"
  shows "\<exists>raws. snd s' = snd s @ raws \<and>
    sent_for wl w (cfg_chain_id cfg) executor n (required_settings cfg supported pools token0 token1) raws \<and>
    (\<forall>st. r = Inr st \<longrightarrow> counted n (required_settings cfg supported pools token0 token1) raws st)"
proof -
  have "sent_for wl w (cfg_chain_id cfg) executor n [] []"
    unfolding sent_for_def by (rule exI [of _ "[]"]) simp
  moreover have "counted n [] [] (n, report_default)" "snd s = snd s @ []"
    by (simp_all add: counted_def report_default_def)
  ultimately show ?thesis
    using for_each_sent [OF assms [unfolded ensure_pair_settings], of n "[]" "[]" "snd s"] by (simp only: append_Nil)
qed

text \<open>What configuring a pair does when submission is on, an executor and a key are configured.\<close>

definition admin_key :: "web_settings \<Rightarrow> string option" where
  "admin_key ws = coalesce (ws_executor_owner_private_key ws) (ws_deployer_private_key ws)"

definition admin_configured :: "web_settings \<Rightarrow> bool" where
  "admin_configured ws \<longleftrightarrow>
     cfg_execution_submit_enabled (ws_settings ws) \<and> nonzero (cfg_executor_contract (ws_settings ws)) \<noteq> [] \<and>
     admin_key ws \<noteq> None"

lemma configured_pair:
  assumes "admin_configured ws"
  obtains key executor where "admin_key ws = Some key" "cfg_executor_contract (ws_settings ws) = Some executor" "executor \<noteq> 0"
    "configure_executor_for_pair lib wl rp ws pools token0 token1 =
      bind (lift (admin_wallet_from_private_key wl key)) (\<lambda>w.
      bind (get_transaction_count rp (aw_address w) True) (\<lambda>nonce.
      bind (executor_whitelists_supported lib rp executor) (\<lambda>supported.
      bind (ensure_pair lib wl rp w (ws_settings ws) executor supported pools token0 token1 (nonce, report_default)) (\<lambda>st.
      pass (snd st)))))"
  using assms that
  by (auto simp: configure_executor_for_pair_def admin_configured_def admin_key_def nonzero_def Let_def
      split: option.splits if_splits)

text \<open>What the report counts.\<close>

definition report_counts :: "executor_admin_report \<Rightarrow> string list \<Rightarrow> admin_setting list \<Rightarrow> bool" where
  "report_counts report raws needed \<longleftrightarrow>
     xr_submitted report = length raws \<and> length (xr_tx_hashes report) = length raws \<and>
     xr_submitted report + xr_skipped report = length needed"

lemma pair_report_sent:
  assumes "bind (ensure_pair lib wl (logged rp) w cfg executor supported pools token0 token1 (n, report_default))
      (\<lambda>st. pass (snd st)) s = (r, s')"
  shows "\<exists>raws. snd s' = snd s @ raws \<and>
    sent_for wl w (cfg_chain_id cfg) executor n (required_settings cfg supported pools token0 token1) raws \<and>
    (\<forall>report. r = Inr report \<longrightarrow> report_counts report raws (required_settings cfg supported pools token0 token1))"
proof -
  let ?all = "ensure_pair lib wl (logged rp) w cfg executor supported pools token0 token1 (n, report_default)"
  obtain r1 s1 where 1: "?all s = (r1, s1)" by (cases "?all s") auto
  have end': "s' = s1" "r = (case r1 of Inl e \<Rightarrow> Inl e | Inr st \<Rightarrow> Inr (snd st))"
    using assms 1 by (auto simp: bind_def pass_def split: sum.splits)
  obtain raws where raws: "snd s1 = snd s @ raws"
      "sent_for wl w (cfg_chain_id cfg) executor n (required_settings cfg supported pools token0 token1) raws"
      "\<And>st. r1 = Inr st \<Longrightarrow> counted n (required_settings cfg supported pools token0 token1) raws st"
    using ensure_pair_sent [OF 1] by auto
  moreover have "report_counts report raws (required_settings cfg supported pools token0 token1)" if "r = Inr report" for report
    using raws(3) end'(2) that by (cases r1) (fastforce simp: counted_def report_counts_def)+
  ultimately show ?thesis using end'(1) by auto
qed

text \<open>C17: Registering a pair sends nothing unless submission is enabled and an executor and a key are configured.
  Otherwise, whatever the node answers and wherever a call fails, the raw transactions sent are signatures by the
  owner's account of calls of the executor without value; their nonces are consecutive and start at the account's
  pending count; their calls are those of a part of the settings the pair needs, each at most once and in order.
  When all went well the report counts the transactions sent, and with the settings found in place every setting
  needed.\<close>

theorem admin_transactions_sent:
  assumes "configure_executor_for_pair lib wl (logged rp) ws pools token0 token1 (s, L) = (r, (s', L'))"
  shows "if admin_configured ws
    then \<exists>key executor. admin_key ws = Some key \<and> cfg_executor_contract (ws_settings ws) = Some executor \<and> executor \<noteq> 0 \<and>
      (L' = L \<and> (\<exists>e. r = Inl e) \<or>
       (\<exists>w n s1 supported s2 raws.
          admin_wallet_from_private_key wl key = Inr w \<and>
          get_transaction_count (logged rp) (aw_address w) True (s, L) = (Inr n, s1) \<and>
          executor_whitelists_supported lib (logged rp) executor s1 = (Inr supported, s2) \<and>
          L' = L @ raws \<and>
          (let needed = required_settings (ws_settings ws) supported pools token0 token1 in
           sent_for wl w (cfg_chain_id (ws_settings ws)) executor n needed raws \<and>
           (\<forall>report. r = Inr report \<longrightarrow> report_counts report raws needed))))
    else L' = L \<and> s' = s \<and> (\<exists>reason. r = Inr (skipped_report reason))"
proof (cases "admin_configured ws")
  case False
  then show ?thesis using assms
    by (auto simp: configure_executor_for_pair_def Let_def admin_configured_def admin_key_def pass_def
        split: list.splits option.splits if_splits)
next
  case True
  then obtain key executor where
      key: "admin_key ws = Some key" "cfg_executor_contract (ws_settings ws) = Some executor" "executor \<noteq> 0" and
      run: "configure_executor_for_pair lib wl (logged rp) ws pools token0 token1 =
        bind (lift (admin_wallet_from_private_key wl key)) (\<lambda>w.
        bind (get_transaction_count (logged rp) (aw_address w) True) (\<lambda>nonce.
        bind (executor_whitelists_supported lib (logged rp) executor) (\<lambda>supported.
        bind (ensure_pair lib wl (logged rp) w (ws_settings ws) executor supported pools token0 token1 (nonce, report_default))
          (\<lambda>st. pass (snd st)))))"
    by (rule configured_pair)
  let ?found = "\<lambda>w n s1 supported s2 raws. admin_wallet_from_private_key wl key = Inr w \<and>
      get_transaction_count (logged rp) (aw_address w) True (s, L) = (Inr n, s1) \<and>
      executor_whitelists_supported lib (logged rp) executor s1 = (Inr supported, s2) \<and> L' = L @ raws \<and>
      (let needed = required_settings (ws_settings ws) supported pools token0 token1 in
       sent_for wl w (cfg_chain_id (ws_settings ws)) executor n needed raws \<and>
       (\<forall>report. r = Inr report \<longrightarrow> report_counts report raws needed))"
  from assms [unfolded run] keeps_lift show ?thesis
  proof (cases rule: bind_kept)
    case w: (goes_on w s0)
    from w(3) keeps_calls(1) show ?thesis
    proof (cases rule: bind_kept)
      case n: (goes_on n s1)
      from n(3) keeps_admin_reads(3) show ?thesis
      proof (cases rule: bind_kept)
        case (goes_on supported s2)
        have "admin_wallet_from_private_key wl key = Inr w" "s0 = (s, L)" using w(1) by (simp_all add: act_run)
        moreover from this have "snd s2 = L" using n(2) goes_on(2) by simp
        ultimately have "\<exists>w n s1 supported s2 raws. ?found w n s1 supported s2 raws"
          using pair_report_sent [OF goes_on(3)] n(1) goes_on(1) unfolding Let_def snd_conv by metis
        then show ?thesis unfolding if_P [OF True]
          by (intro exI [of _ key] exI [of _ executor] conjI disjI2 key)
      qed (use True key w n in auto)
    qed (use True key w in auto)
  qed (use True key in auto)
qed

section \<open>Nothing is sent twice\<close>

lemma call_bool_u256: "call_bool lib rp to data label = bind (call_u256 lib rp to data label) (\<lambda>v. pass (v \<noteq> 0))"
  by (simp add: call_bool_def call_u256_def bind_assoc)

text \<open>A chain on which every reading of a setting gives the same number.\<close>

definition reads_as :: "libs \<Rightarrow> 's rpc_env \<Rightarrow> u256 \<Rightarrow> bool" where
  "reads_as lib rp v \<longleftrightarrow> (\<forall>to data label s. \<exists>s'. call_u256 lib rp to data label s = (Inr v, s'))"

lemma ensure_setting_reads:
  assumes "reads_as lib rp v" "ensure_setting lib wl rp w chain_id executor x st s = (Inr st', s')"
  shows "(v > 1000000000000000000 \<longrightarrow> st' = note_skipped st) \<and> (v = 0 \<longrightarrow> (\<exists>h. st' = note_submitted h st))"
proof -
  have step: "(b \<longrightarrow> st' = note_skipped st) \<and> (\<not> b \<longrightarrow> (\<exists>h. st' = note_submitted h st))"
    if "(if b then pass (note_skipped st) else bind send (\<lambda>h. pass (note_submitted h st))) s1 = (Inr st', s')"
    for b s1 and send :: "('a, b256) act"
    using that by (cases b) (auto simp: act_Inr)
  have read: "\<exists>s1. call_u256 lib rp to data label s0 = (Inr v, s1)" for to data label s0
    using assms(1) by (simp add: reads_as_def)
  have mapping: ?thesis if "ensure_mapping_enabled lib wl rp w chain_id executor view_selector set_selector a label st s = (Inr st', s')"
    for view_selector set_selector a label
  proof -
    obtain s1 where "call_u256 lib rp executor (encode_address_call view_selector a) label s = (Inr v, s1)" using read by blast
    then have "(if v \<noteq> 0 then pass (note_skipped st)
        else bind (send_admin_tx lib wl rp w chain_id executor (encode_address_bool_call set_selector a True) (fst st))
          (\<lambda>h. pass (note_submitted h st))) s1 = (Inr st', s')"
      using that by (simp add: ensure_mapping_enabled_def call_bool_u256 bind_assoc bind_ok)
    from step [OF this] show ?thesis by auto
  qed
  show ?thesis
  proof (cases x)
    case (TokenApproved token spender)
    obtain s1 where "call_u256 lib rp token (encode_two_address_call erc20_allowance_selector executor spender) ''ERC20 allowance'' s =
        (Inr v, s1)" using read by blast
    then have "(if v > 1000000000000000000 then pass (note_skipped st)
        else bind (send_admin_tx lib wl rp w chain_id executor (encode_approve_token_call token spender (- 1)) (fst st))
          (\<lambda>h. pass (note_submitted h st))) s1 = (Inr st', s')"
      using assms(2) TokenApproved by (simp add: ensure_token_approval_def bind_ok)
    from step [OF this] show ?thesis by auto
  qed (use assms(2) mapping in \<open>simp_all add: ensure_router_def ensure_factory_def\<close>)
qed

lemma for_each_reads:
  assumes "reads_as lib rp v" "for_each (ensure_setting lib wl rp w chain_id executor) xs st s = (Inr st', s')"
  shows "(v > 1000000000000000000 \<longrightarrow> xr_submitted (snd st') = xr_submitted (snd st)) \<and>
    (v = 0 \<longrightarrow> xr_skipped (snd st') = xr_skipped (snd st))"
  using assms(2)
proof (induction xs arbitrary: st s)
  case (Cons x xs)
  then obtain st1 s1 where step: "ensure_setting lib wl rp w chain_id executor x st s = (Inr st1, s1)"
    and rest: "for_each (ensure_setting lib wl rp w chain_id executor) xs st1 s1 = (Inr st', s')"
    by (auto simp: bind_Inr_iff)
  have "v > 1000000000000000000 \<Longrightarrow> xr_submitted (snd st1) = xr_submitted (snd st)"
    using ensure_setting_reads [OF assms(1) step] by (simp add: note_skipped_def)
  moreover have "v = 0 \<Longrightarrow> xr_skipped (snd st1) = xr_skipped (snd st)"
    using ensure_setting_reads [OF assms(1) step] by (auto simp: note_submitted_def)
  ultimately show ?case using Cons.IH [OF rest] by simp
qed (simp add: pass_def)

section \<open>An example chain\<close>

text \<open>A node that answers every request with one word.\<close>

definition word_node :: "nat \<Rightarrow> unit rpc_env" where
  "word_node n = \<lparr>rp_chain_id = 8453,
     rp_post = (\<lambda>_. pass \<lparr>rs_result = Some (JString (''0x'' @ hex_fixed 64 n)), rs_error = None\<rparr>),
     rp_now = (\<lambda>s. (5, s)), rp_json_text = (\<lambda>_. []), rp_parse_b256 = (\<lambda>_. Inr 5)\<rparr>"

abbreviation logged_node :: "nat \<Rightarrow> (unit \<times> string list) rpc_env" where
  "logged_node n \<equiv> logged (word_node n)"

definition gives :: "'a \<Rightarrow> ('s, 'a) act \<Rightarrow> bool" where
  "gives x m \<longleftrightarrow> (\<forall>s. \<exists>s'. m s = (Inr x, s'))"

lemma gives_bind: "gives x m \<Longrightarrow> gives y (f x) \<Longrightarrow> gives y (bind m f)"
  unfolding gives_def bind_Inr_iff by metis

lemma gives_lift: "r = Inr x \<Longrightarrow> gives x (lift r)"
  and gives_pass: "gives x (pass x)"
  by (simp_all add: gives_def act_run)

lemma gives_attempt: "gives x m \<Longrightarrow> gives y (f x) \<Longrightarrow> gives y (attempt m f g)"
  unfolding gives_def using attempt_ok by metis

lemma gives_annotate: "gives x m \<Longrightarrow> gives x (annotate c m)"
  unfolding gives_def using annotate_ok by metis

lemma succeeds_gives: "gives x m \<Longrightarrow> succeeds (f x) \<Longrightarrow> succeeds (bind m f)"
  unfolding gives_def succeeds_def bind_Inr_iff by metis

lemma gives_succeeds: "gives x m \<Longrightarrow> succeeds m"
  unfolding gives_def succeeds_def by metis

lemma succeeds_pass: "succeeds (pass x)"
  by (simp add: succeeds_def pass_def)

lemma gives_rpc: "gives (JString (''0x'' @ hex_fixed 64 n)) (rpc (logged_node n) method params)"
  by (simp add: gives_def rpc_def rpc_optional_def logged_def word_node_def bind_def act_run)

lemma word_text: "trim_start_0x (''0x'' @ hex_fixed 64 n) = hex_fixed 64 n" "hex_fixed 64 n \<noteq> []"
  by simp_all

lemma parse_word:
  "n < 2 ^ 256 \<Longrightarrow> parse_hex_u256 hex_libs (''0x'' @ hex_fixed 64 n) = Inr (word_of_nat n)"
  "n < 2 ^ 64 \<Longrightarrow> parse_hex_u64 (''0x'' @ hex_fixed 64 n) = Inr (word_of_nat n)"
  "n < 2 ^ 256 \<Longrightarrow> call_u256_from_raw hex_libs (''0x'' @ hex_fixed 64 n) = Inr (word_of_nat n)"
  using hex_libs_read(1) uint_from_hex_fixed [of 64 n, where 'a = 64]
  by (simp_all only: parse_hex_u256_def parse_hex_u64_def call_u256_from_raw_def Let_def word_text reads_hex_def if_False)
     simp_all

lemma gives_call: "gives (''0x'' @ hex_fixed 64 n) (eth_call_from (logged_node n) sender to data label)"
  unfolding eth_call_from_def eth_call_from_at_block_def
  by (rule gives_bind [OF gives_annotate [OF gives_rpc]], rule gives_lift)
     (simp add: call_result_def str_or_def)

lemma reads_word: "n < 2 ^ 256 \<Longrightarrow> reads_as hex_libs (logged_node n) (word_of_nat n)"
  unfolding reads_as_def gives_def [symmetric] call_u256_def
  by (intro allI, rule gives_bind [OF gives_call], rule gives_lift, rule parse_word)

lemma succeeds_send:
  assumes "n < 2 ^ 256" "\<And>key rq. \<exists>raw. wl_sign wl key rq = Inr raw"
  shows "succeeds (send_admin_tx hex_libs wl (logged_node n) w chain_id to data nonce)"
proof -
  let ?w = "JString (''0x'' @ hex_fixed 64 n)"
  have word: "parse_hex_u256 hex_libs (str_or ''0x0'' ?w) = Inr (word_of_nat n)"
    using parse_word(1) [OF assms(1)] by (simp add: str_or_def)
  have gas: "succeeds (annotate c (estimate_gas hex_libs (logged_node n) a to call))" for c a call
    unfolding estimate_gas_def
    by (rule gives_succeeds, rule gives_annotate, rule gives_bind [OF gives_rpc], rule gives_lift, rule word)
  have priority: "gives (word_of_nat n) (attempt (rpc (logged_node n) m params)
      (\<lambda>v. lift (parse_hex_u256 hex_libs (str_or ''0x0'' v))) g)" for m params g
    by (rule gives_attempt, rule gives_rpc, rule gives_lift, rule word)
  have base: "gives None (lift (hex_field (parse_hex_u256 hex_libs) ?w k))" for k
    by (rule gives_lift) (simp add: hex_field_def)
  have "succeeds (suggested_eip1559_fee_details hex_libs (logged_node n))"
    unfolding suggested_eip1559_fee_details_def Let_def
    by (rule succeeds_gives, rule priority, rule succeeds_gives, rule gives_rpc, rule succeeds_gives, rule base, rule succeeds_pass)
  then have fees: "succeeds (suggested_eip1559_fees hex_libs (logged_node n))"
    unfolding suggested_eip1559_fees_def by (rule succeeds_bind) (rule succeeds_pass)
  have sent: "succeeds (send_raw_transaction (logged_node n) raw)" for raw
    unfolding send_raw_transaction_def
    by (rule succeeds_gives [OF gives_rpc], rule succeeds_gives [OF gives_lift])
       (simp_all add: logged_def word_node_def succeeds_def act_run)
  have "succeeds (lift (wl_sign wl key rq) :: (unit \<times> string list, string) act)" for key rq
    using assms(2) [of key rq] succeeds_lift by metis
  then show ?thesis
    unfolding send_admin_tx_def by (intro succeeds_bind gas fees) (auto intro!: succeeds_bind sent)
qed

lemma succeeds_setting:
  assumes "n < 2 ^ 256" "\<And>key rq. \<exists>raw. wl_sign wl key rq = Inr raw"
  shows "succeeds (ensure_setting hex_libs wl (logged_node n) w chain_id executor x st)"
proof -
  note send = succeeds_send [OF assms]
  have u256: "succeeds (call_u256 hex_libs (logged_node n) to data label)" for to data label
    using reads_word [OF assms(1)] by (auto simp: reads_as_def succeeds_def) metis
  have mapping: "succeeds (ensure_mapping_enabled hex_libs wl (logged_node n) w chain_id executor v s a label st)" for v s a label
    unfolding ensure_mapping_enabled_def call_bool_u256 bind_assoc
    by (rule succeeds_bind [OF u256]) (simp add: succeeds_bind [OF send] succeeds_pass)
  have "succeeds (ensure_token_approval hex_libs wl (logged_node n) w chain_id executor token spender st)" for token spender
    unfolding ensure_token_approval_def
    by (rule succeeds_bind [OF u256]) (simp add: succeeds_bind [OF send] succeeds_pass)
  with mapping show ?thesis by (cases x) (simp_all add: ensure_router_def ensure_factory_def)
qed

lemma succeeds_for_each: "(\<And>x st. succeeds (f x st)) \<Longrightarrow> succeeds (for_each f xs st)"
  by (induction xs arbitrary: st) (simp_all add: succeeds_pass succeeds_bind)

definition example_wallets :: wallets where
  "example_wallets = \<lparr>wl_address = (\<lambda>_. Inr 7), wl_sign = (\<lambda>key rq. Inr (key @ nat_dec (unat (rq_nonce rq))))\<rparr>"

definition live_web_settings :: web_settings where
  "live_web_settings = \<lparr>ws_settings = example_settings\<lparr>cfg_execution_submit_enabled := True\<rparr>,
     ws_monitor_web_password = Some ''secret'', ws_executor_owner_private_key = None, ws_deployer_private_key = Some ''key''\<rparr>"

lemma live_settings:
  "admin_configured live_web_settings" "admin_key live_web_settings = Some ''key''"
  "cfg_executor_contract (ws_settings live_web_settings) = Some 13" "cfg_chain_id (ws_settings live_web_settings) = 8453"
  by (simp_all add: live_web_settings_def admin_configured_def admin_key_def coalesce_def nonzero_def)

lemma example_configures:
  assumes "n < 2 ^ 64"
  shows "succeeds (configure_executor_for_pair hex_libs example_wallets (logged_node n) live_web_settings pools token0 token1)"
proof -
  have n: "n < 2 ^ 256" using assms by (rule less_le_trans) simp
  have count: "succeeds (get_transaction_count (logged_node n) a True)" for a
    unfolding get_transaction_count_def
    by (rule gives_succeeds, rule gives_bind [OF gives_rpc], rule gives_lift)
       (simp add: str_or_def parse_word(2) [OF assms, simplified])
  have reads: "gives (word_of_nat n) (call_u256 hex_libs (logged_node n) to data label)" for to data label
    using reads_word [OF n] by (simp add: reads_as_def gives_def)
  have "succeeds (executor_whitelists_supported hex_libs (logged_node n) executor)" for executor
    using gives_attempt [OF gives_bind [OF reads gives_pass] gives_pass]
    unfolding executor_whitelists_supported_def call_bool_u256 by (rule gives_succeeds)
  moreover have "succeeds (lift (admin_wallet_from_private_key example_wallets key) :: (unit \<times> string list, admin_wallet) act)" for key
    by (simp add: admin_wallet_from_private_key_def example_wallets_def succeeds_lift)
  moreover have "succeeds (ensure_pair hex_libs example_wallets (logged_node n) w cfg executor supported pools token0 token1 st)"
    for w cfg executor supported st
    unfolding ensure_pair_settings
    by (rule succeeds_for_each, rule succeeds_setting [OF n]) (simp add: example_wallets_def)
  ultimately show ?thesis
    unfolding configure_executor_for_pair_def Let_def
    by (auto intro!: succeeds_bind succeeds_pass count split: list.splits option.splits)
qed

text \<open>Only what is missing is sent: when every setting read from the chain is in place and every allowance is large,
  configuring the pair again sends nothing; when the chain has none of them, every setting the pair needs is sent.\<close>

theorem admin_sends_what_is_missing:
  assumes "reads_as lib rp v" "admin_configured ws"
    and "configure_executor_for_pair lib wl rp ws pools token0 token1 s = (Inr report, s')"
  shows "(v > 1000000000000000000 \<longrightarrow> xr_submitted report = 0) \<and> (v = 0 \<longrightarrow> xr_skipped report = 0)"
proof -
  obtain key executor where run: "configure_executor_for_pair lib wl rp ws pools token0 token1 =
      bind (lift (admin_wallet_from_private_key wl key)) (\<lambda>w.
      bind (get_transaction_count rp (aw_address w) True) (\<lambda>nonce.
      bind (executor_whitelists_supported lib rp executor) (\<lambda>supported.
      bind (ensure_pair lib wl rp w (ws_settings ws) executor supported pools token0 token1 (nonce, report_default)) (\<lambda>st.
      pass (snd st)))))"
    by (rule configured_pair [OF assms(2)])
  obtain w n supported st s1 where
      "ensure_pair lib wl rp w (ws_settings ws) executor supported pools token0 token1 (n, report_default) s1 = (Inr st, s')"
      "report = snd st"
    using assms(3) unfolding run act_Inr by blast
  then show ?thesis using for_each_reads [OF assms(1)] by (fastforce simp: report_default_def ensure_pair_settings)
qed

theorem admin_sends_what_is_missing_witness:
  "(\<exists>report s'. configure_executor_for_pair hex_libs example_wallets (logged_node 0) live_web_settings [] 1 2 ((), []) =
      (Inr report, s') \<and> xr_skipped report = 0) \<and>
   (\<exists>report s'. configure_executor_for_pair hex_libs example_wallets (logged_node 2000000000000000000) live_web_settings [] 1 2
      ((), []) = (Inr report, s') \<and> xr_submitted report = 0)"
proof -
  have run: "\<exists>report s'. configure_executor_for_pair hex_libs example_wallets (logged_node n) live_web_settings [] 1 2 ((), []) =
      (Inr report, s')" if "n < 2 ^ 64" for n
    using example_configures [OF that] unfolding succeeds_def by blast
  obtain r0 s0 where 0: "configure_executor_for_pair hex_libs example_wallets (logged_node 0) live_web_settings [] 1 2 ((), []) =
      (Inr r0, s0)" using run [of 0] by auto
  obtain r1 s1 where 1: "configure_executor_for_pair hex_libs example_wallets (logged_node 2000000000000000000) live_web_settings
      [] 1 2 ((), []) = (Inr r1, s1)" using run [of 2000000000000000000] by auto
  have "xr_skipped r0 = 0"
    using admin_sends_what_is_missing [OF reads_word [of 0] live_settings(1) 0] by simp
  moreover have "xr_submitted r1 = 0"
    using admin_sends_what_is_missing [OF reads_word [of 2000000000000000000] live_settings(1) 1] by simp
  ultimately show ?thesis using 0 1 by blast
qed

theorem admin_transactions_sent_witness:
  "\<exists>report L'. configure_executor_for_pair hex_libs example_wallets (logged_node 0) live_web_settings [] 1 2 ((), []) =
      (Inr report, ((), L')) \<and> xr_submitted report = length L' \<and>
    (\<exists>w n needed. sent_for example_wallets w 8453 13 n needed L' \<and> xr_submitted report + xr_skipped report = length needed)"
proof -
  obtain report s' L' where run: "configure_executor_for_pair hex_libs example_wallets (logged_node 0) live_web_settings [] 1 2
      ((), []) = (Inr report, (s', L'))"
    using example_configures [of 0 "[]" 1 2] unfolding succeeds_def by (metis (full_types) surj_pair zero_less_numeral zero_less_power)
  have "xr_submitted report = length L' \<and> (\<exists>w n needed. sent_for example_wallets w 8453 13 n needed L' \<and>
      xr_submitted report + xr_skipped report = length needed)"
    using admin_transactions_sent [OF run] by (auto simp: live_settings Let_def report_counts_def)
  moreover have "s' = ()" by simp
  ultimately show ?thesis using run by blast
qed

end
