(* ===== verification/Web_Text.thy ===== *)
theory Web_Text
  imports Registry_Pairs Floats
begin

text \<open>
  The texts of the administration pages, \<open>crates/monitor-web/src/main.rs\<close>: the password check, the
  normalization of amounts an operator types, the escaping of values into HTML, JavaScript literals and
  URLs, and the small pieces of the pages. The readers of a browser and of a server, \<open>html_text\<close>,
  \<open>js_literal\<close> and \<open>percent_text\<close>, are the specification of the escapers.
\<close>

section \<open>Passwords and pairs\<close>

definition password_matches :: "string option \<Rightarrow> string \<Rightarrow> bool" where
  "password_matches expected actual \<longleftrightarrow>
     (case expected of None \<Rightarrow> False | Some e \<Rightarrow> trim e \<noteq> [] \<and> trim e = trim actual)"

definition password_matches_query :: "string option \<Rightarrow> string option \<Rightarrow> bool" where
  "password_matches_query expected actual \<longleftrightarrow>
     (case expected of
        None \<Rightarrow> True
      | Some e \<Rightarrow> trim e = [] \<or> (case actual of None \<Rightarrow> False | Some a \<Rightarrow> trim a = trim e))"

text \<open>The order of Rust's strings is that of their bytes.\<close>

definition text_codes :: "string \<Rightarrow> nat list" where
  "text_codes s = map of_char s"

definition web_canonical_pair :: "address \<Rightarrow> address \<Rightarrow> address \<times> address" where
  "web_canonical_pair token_a token_b =
     (if text_codes (address_hex token_a) \<le> text_codes (address_hex token_b) then (token_a, token_b)
      else (token_b, token_a))"

section \<open>Amounts\<close>

text \<open>\<open>Err(())\<close> is \<open>Inl ()\<close>.\<close>

definition normalize_raw_amount :: "string \<Rightarrow> unit + string option" where
  "normalize_raw_amount raw =
     (let raw = trim raw in
      if raw = [] then Inr None
      else if \<not> list_all is_digit raw then Inl ()
      else
        let normalized = dropWhile (\<lambda>c. c = CHR ''0'') raw in
        if normalized = [] then Inl () else Inr (Some normalized))"

definition normalize_raw_amount_list :: "string \<Rightarrow> unit + string option" where
  "normalize_raw_amount_list raw =
     rbind (collect_results (\<lambda>part. rbind (normalize_raw_amount part) (\<lambda>v. ok_or v ()))
              (filter (\<lambda>part. part \<noteq> []) (map trim (split_on CHR '','' raw)))) (\<lambda>values'.
     Inr (if values' = [] then None else Some (join_with '','' values')))"

section \<open>Escaping\<close>

abbreviation dquote :: char where "dquote \<equiv> CHR 0x22"
abbreviation squote :: char where "squote \<equiv> CHR 0x27"
abbreviation backslash :: char where "backslash \<equiv> CHR 0x5C"
abbreviation line_feed :: char where "line_feed \<equiv> CHR 0x0A"
abbreviation carriage_return :: char where "carriage_return \<equiv> CHR 0x0D"

text \<open>\<open>str::replace\<close> of one character.\<close>

definition replace_char :: "char \<Rightarrow> string \<Rightarrow> string \<Rightarrow> string" where
  "replace_char c t s = concat (map (\<lambda>d. if d = c then t else [d]) s)"

definition escape :: "string \<Rightarrow> string" where
  "escape v =
     replace_char dquote ''&quot;'' (replace_char CHR ''>'' ''&gt;''
       (replace_char CHR ''<'' ''&lt;'' (replace_char CHR ''&'' ''&amp;'' v)))"

definition escape_js_string :: "string \<Rightarrow> string" where
  "escape_js_string v =
     escape (replace_char carriage_return [backslash, CHR ''r''] (replace_char line_feed [backslash, CHR ''n'']
       (replace_char squote [backslash, squote] (replace_char backslash [backslash, backslash] v))))"

definition url_plain :: "char \<Rightarrow> bool" where
  "url_plain c \<longleftrightarrow>
     (CHR ''A'' \<le> c \<and> c \<le> CHR ''Z'') \<or> (CHR ''a'' \<le> c \<and> c \<le> CHR ''z'') \<or> is_digit c \<or> c \<in> set ''-_.~''"

text \<open>\<open>{byte:02X}\<close>.\<close>

definition upper_hex_digit :: "nat \<Rightarrow> char" where
  "upper_hex_digit n = ''0123456789ABCDEF'' ! (n mod 16)"

definition percent_byte :: "char \<Rightarrow> string" where
  "percent_byte c = (let n = of_char c :: nat in [CHR ''%'', upper_hex_digit (n div 16), upper_hex_digit n])"

definition url_query_encode :: "string \<Rightarrow> string" where
  "url_query_encode v =
     concat (map (\<lambda>c. if url_plain c then [c] else if c = CHR '' '' then ''+'' else percent_byte c) v)"

definition url_query_escape :: "string \<Rightarrow> string" where
  "url_query_escape v = concat (map (\<lambda>c. if url_plain c then [c] else percent_byte c) v)"

section \<open>Pieces of the pages\<close>

text \<open>An attribute, with the space before it.\<close>

definition html_attr :: "string \<Rightarrow> string \<Rightarrow> string" where
  "html_attr name v = '' '' @ name @ ''='' @ [dquote] @ v @ [dquote]"

definition render_flash :: "string option \<Rightarrow> string" where
  "render_flash v =
     (case v of
        None \<Rightarrow> []
      | Some message \<Rightarrow> ''<div'' @ html_attr ''class'' ''flash'' @ ''>'' @ escape message @ ''</div>'')"

definition nav_href :: "string \<Rightarrow> string option \<Rightarrow> string" where
  "nav_href path auth_password =
     (case auth_password of
        None \<Rightarrow> path
      | Some password \<Rightarrow> if password = [] then path else path @ ''?password='' @ url_query_escape password)"

text \<open>A span of a class.\<close>

definition html_span :: "string \<Rightarrow> string \<Rightarrow> string" where
  "html_span c inner = ''<span'' @ html_attr ''class'' c @ ''>'' @ inner @ ''</span>''"

definition bool_label :: "bool \<Rightarrow> string" where
  "bool_label v = (if v then ''yes'' else ''no'')"

definition seen_blocks :: "i64 option \<Rightarrow> i64 option \<Rightarrow> string" where
  "seen_blocks first latest =
     (case (first, latest) of
        (Some f, Some l) \<Rightarrow> if f = l then int_dec (sint f) else int_dec (sint f) @ ''..'' @ int_dec (sint l)
      | (Some f, None) \<Rightarrow> int_dec (sint f)
      | (None, Some l) \<Rightarrow> int_dec (sint l)
      | (None, None) \<Rightarrow> ''-'')"

text \<open>\<open>map(str::trim).filter(|v| !v.is_empty())\<close>.\<close>

definition shown_text :: "string option \<Rightarrow> string option" where
  "shown_text v = (case map_option trim v of None \<Rightarrow> None | Some s \<Rightarrow> if s = [] then None else Some s)"

definition option_display :: "string option \<Rightarrow> string" where
  "option_display v = (case shown_text v of None \<Rightarrow> ''-'' | Some s \<Rightarrow> s)"

definition pool_mode :: "bool option \<Rightarrow> string" where
  "pool_mode stable' = (case stable' of None \<Rightarrow> ''-'' | Some b \<Rightarrow> if b then ''stable'' else ''volatile'')"

definition monitoring_status :: "bool \<Rightarrow> string" where
  "monitoring_status enabled = (if enabled then html_span ''ok'' ''enabled'' else html_span ''bad'' ''disabled'')"

definition effective_config_value :: "string option \<Rightarrow> string option \<Rightarrow> string" where
  "effective_config_value override default_value =
     (case shown_text override of
        Some v \<Rightarrow> escape v
      | None \<Rightarrow>
          (case shown_text default_value of
             Some v \<Rightarrow> html_span ''muted'' (''inherited: '' @ escape v)
           | None \<Rightarrow> html_span ''muted'' ''disabled''))"

definition state_source_label :: "string \<Rightarrow> string" where
  "state_source_label source =
     (if source = ''local_event'' then html_span ''ok'' ''local_event''
      else if source \<in> {''onchain_init'', ''registry_reload''} then html_span ''warn'' (escape source)
      else if source = ''calibration_correction'' then html_span ''bad'' ''calibration_correction''
      else escape source)"

text \<open>Times count nanoseconds.\<close>

definition activity_status :: "datetime \<Rightarrow> datetime option \<Rightarrow> string" where
  "activity_status now last_update_time =
     (case last_update_time of
        None \<Rightarrow> html_span ''bad'' ''never seen''
      | Some t \<Rightarrow>
          if now - t \<le> 600 * 10 ^ 9 then html_span ''ok'' ''active''
          else if now - t \<le> 1800 * 10 ^ 9 then html_span ''warn'' ''stale''
          else html_span ''bad'' ''inactive'')"

definition fmt_optional_i64 :: "i64 option \<Rightarrow> string" where
  "fmt_optional_i64 v = (case v of None \<Rightarrow> ''-'' | Some n \<Rightarrow> int_dec (sint n))"

definition fmt_warn_i64 :: "i64 option \<Rightarrow> string" where
  "fmt_warn_i64 v =
     (case v of
        None \<Rightarrow> ''-''
      | Some n \<Rightarrow> if 0 < sint n then html_span ''warn'' (int_dec (sint n)) else int_dec (sint n))"

definition is_v3_variant :: "string option \<Rightarrow> bool" where
  "is_v3_variant variant \<longleftrightarrow> variant \<in> Some ` {''UniswapV3'', ''PancakeV3'', ''AerodromeSlipstream''}"

definition copy_button :: "string \<Rightarrow> string \<Rightarrow> string" where
  "copy_button v label =
     ''<button'' @ html_attr ''class'' ''copy-btn'' @ html_attr ''type'' ''button'' @ html_attr ''data-copy'' v @
     html_attr ''onclick'' ''copyValue(this)'' @ ''>'' @ label @ ''</button>''"

definition copyable :: "string \<Rightarrow> string" where
  "copyable v =
     (let escaped = escape v in
      ''<span'' @ html_attr ''class'' ''copyable'' @ ''><span'' @ html_attr ''class'' ''mono'' @ html_attr ''title'' escaped @
      ''>'' @ escaped @ ''</span>'' @ copy_button escaped ''copy'' @ ''</span>'')"

definition copyable_optional :: "string option \<Rightarrow> string" where
  "copyable_optional v = (case v of None \<Rightarrow> ''-'' | Some s \<Rightarrow> copyable s)"

definition html_token_label :: "string option \<Rightarrow> string \<Rightarrow> string" where
  "html_token_label symbol address =
     (let escaped_symbol = escape (case shown_text symbol of None \<Rightarrow> ''unknown'' | Some s \<Rightarrow> s);
          escaped_address = escape address in
      ''<span'' @ html_attr ''class'' ''token-label'' @ html_attr ''title'' escaped_address @ ''><strong>'' @
      escaped_symbol @ ''</strong>'' @ copy_button escaped_address ''copy addr'' @ ''</span>'')"

definition selected_attr :: "bool \<Rightarrow> string" where
  "selected_attr selected = (if selected then ''selected'' else [])"

definition checked_attr :: "bool \<Rightarrow> string" where
  "checked_attr checked = (if checked then ''checked'' else [])"

definition render_select_options :: "string list \<Rightarrow> string \<Rightarrow> string" where
  "render_select_options options selected =
     concat (map (\<lambda>option. ''<option'' @ html_attr ''value'' (escape option) @ '' '' @ selected_attr (option = selected) @
       ''>'' @ escape option @ ''</option>'') options)"

definition password_input :: "string option \<Rightarrow> bool \<Rightarrow> string" where
  "password_input placeholder autofocus =
     ''<span'' @ html_attr ''class'' ''password-wrap'' @ ''><input'' @ html_attr ''name'' ''password'' @
     html_attr ''type'' ''password'' @ '' '' @
     (case placeholder of None \<Rightarrow> [] | Some v \<Rightarrow> drop 1 (html_attr ''placeholder'' (escape v))) @
     html_attr ''autocomplete'' ''current-password'' @ '' required '' @ (if autofocus then ''autofocus'' else []) @
     ''><button'' @ html_attr ''class'' ''toggle-password'' @ html_attr ''type'' ''button'' @
     html_attr ''onclick'' ''togglePassword(this)'' @ ''>show</button></span>''"

section \<open>The forms of a pair\<close>

record web_pair_row =
  wp_created_at :: datetime
  wp_chain_id :: i64
  wp_symbol :: string
  wp_token0 :: string
  wp_token1 :: string
  wp_enabled :: bool
  wp_token0_search_amounts :: "string option"
  wp_token1_search_amounts :: "string option"
  wp_token0_min_profit :: "string option"
  wp_token1_min_profit :: "string option"
  wp_token0_default_search_amounts :: "string option"
  wp_token1_default_search_amounts :: "string option"
  wp_token0_default_min_profit :: "string option"
  wp_token1_default_min_profit :: "string option"

text \<open>A form that asks for the password in a dialogue; its question is a JavaScript literal within an
  attribute.\<close>

definition hidden_input :: "string \<Rightarrow> string \<Rightarrow> string" where
  "hidden_input name v =
     ''  <input'' @ html_attr ''name'' name @ html_attr ''type'' ''hidden'' @ html_attr ''value'' v @ ''>'' @ [line_feed]"

definition prompt_submit :: "string \<Rightarrow> string" where
  "prompt_submit question = ''return promptPasswordSubmit(this, '' @ [squote] @ question @ [squote] @ '')''"

definition pair_form :: "string \<Rightarrow> string \<Rightarrow> string \<Rightarrow> string \<Rightarrow> web_pair_row \<Rightarrow> string" where
  "pair_form action question button_attrs button row =
     ''<form'' @ html_attr ''method'' ''post'' @ html_attr ''action'' action @ html_attr ''class'' ''inline-form'' @
     html_attr ''onsubmit'' (prompt_submit question) @ ''>'' @ [line_feed] @
     ''  <input'' @ html_attr ''name'' ''password'' @ html_attr ''type'' ''hidden'' @ ''>'' @ [line_feed] @
     hidden_input ''token0'' (escape (wp_token0 row)) @ hidden_input ''token1'' (escape (wp_token1 row)) @
     ''  <button'' @ button_attrs @ html_attr ''type'' ''submit'' @ ''>'' @ button @ ''</button>'' @ [line_feed] @ ''</form>''"

definition render_rediscover_form :: "web_pair_row \<Rightarrow> string" where
  "render_rediscover_form row =
     pair_form ''/pairs/rediscover'' (''Discover pools for '' @ escape_js_string (wp_symbol row) @ ''?'') [] ''Discover'' row"

definition render_delete_pair_form :: "web_pair_row \<Rightarrow> string" where
  "render_delete_pair_form row =
     pair_form ''/pairs/delete'' (''Disable pair '' @ escape_js_string (wp_symbol row) @ ''?'')
       (html_attr ''class'' ''delete-btn'') ''Disable'' row"

definition render_remove_pair_form :: "web_pair_row \<Rightarrow> string" where
  "render_remove_pair_form row =
     pair_form ''/pairs/remove'' (''Delete pair '' @ escape_js_string (wp_symbol row) @
         '' and associated pool registry rows? Historical events and state snapshots will be kept.'')
       (html_attr ''class'' ''danger-btn'') ''Delete'' row"

definition render_pair_actions :: "web_pair_row \<Rightarrow> string" where
  "render_pair_actions row =
     ''<div'' @ html_attr ''class'' ''pair-actions-row'' @ ''>'' @ render_rediscover_form row @ render_delete_pair_form row @
     render_remove_pair_form row @ ''</div>''"

end
