(* ===== verification/Web_Escape.thy ===== *)
theory Web_Escape
  imports Web_Text
begin

text \<open>
  What a browser and a server read from the escaped texts of \<open>Web_Text\<close>. The symbols of tokens come from
  the chain, so whoever deploys a token chooses them; escaped, they are data wherever the pages put them.
\<close>

section \<open>Readers\<close>

text \<open>Character references of HTML.\<close>

function html_text :: "string \<Rightarrow> string" where
  "html_text [] = []"
| "html_text (c # s) =
     (if c = CHR ''&'' then
        if starts_with s ''amp;'' then CHR ''&'' # html_text (drop 4 s)
        else if starts_with s ''lt;'' then CHR ''<'' # html_text (drop 3 s)
        else if starts_with s ''gt;'' then CHR ''>'' # html_text (drop 3 s)
        else if starts_with s ''quot;'' then dquote # html_text (drop 5 s)
        else c # html_text s
      else c # html_text s)"
  by pat_completeness auto

termination
  by (relation "measure length") auto

text \<open>The rest of a literal of JavaScript in single quotes: its value and the text after it.\<close>

definition js_escape :: "char \<Rightarrow> char option" where
  "js_escape c =
     (if c = CHR ''n'' then Some line_feed else if c = CHR ''r'' then Some carriage_return
      else if c = squote \<or> c = backslash then Some c else None)"

fun js_literal :: "string \<Rightarrow> (string \<times> string) option" where
  "js_literal [] = None"
| "js_literal (c # s) =
     (if c = squote then Some ([], s)
      else if c = line_feed \<or> c = carriage_return then None
      else if c = backslash then
        (case s of
           [] \<Rightarrow> None
         | d # s' \<Rightarrow> Option.bind (js_escape d) (\<lambda>e. map_option (\<lambda>(v, rest). (e # v, rest)) (js_literal s')))
      else map_option (\<lambda>(v, rest). (c # v, rest)) (js_literal s))"

text \<open>Percent encoding; in a form a plus is a space.\<close>

fun percent_text :: "bool \<Rightarrow> string \<Rightarrow> string option" where
  "percent_text form [] = Some []"
| "percent_text form (c # s) =
     (if c = CHR ''%'' then
        (case s of
           d1 # d2 # s' \<Rightarrow>
             (case (hex_value d1, hex_value d2) of
                (Some h, Some l) \<Rightarrow> map_option (Cons (char_of (16 * h + l))) (percent_text form s')
              | _ \<Rightarrow> None)
         | _ \<Rightarrow> None)
      else map_option (Cons (if form \<and> c = CHR ''+'' then CHR '' '' else c)) (percent_text form s))"

section \<open>HTML\<close>

lemma escape_Nil [simp]: "escape [] = []"
  by (simp add: escape_def replace_char_def)

lemma escape_Cons: "escape (c # s) =
    (if c = CHR ''&'' then ''&amp;'' else if c = CHR ''<'' then ''&lt;'' else if c = CHR ''>'' then ''&gt;''
     else if c = dquote then ''&quot;'' else [c]) @ escape s"
  by (simp add: escape_def replace_char_def)

lemma html_text_escape [simp]: "html_text (escape v @ rest) = v @ html_text rest"
  by (induction v) (auto simp: escape_Cons)

definition plain_html :: "string \<Rightarrow> bool" where
  "plain_html s \<longleftrightarrow> set s \<inter> {CHR ''<'', CHR ''>'', dquote} = {}"

lemma plain_escape [simp]: "plain_html (escape v)"
  by (induction v) (auto simp: plain_html_def escape_Cons)

section \<open>JavaScript\<close>

definition js_quote :: "string \<Rightarrow> string" where
  "js_quote v =
     replace_char carriage_return [backslash, CHR ''r''] (replace_char line_feed [backslash, CHR ''n'']
       (replace_char squote [backslash, squote] (replace_char backslash [backslash, backslash] v)))"

lemma js_quote_Cons: "js_quote (c # s) =
    (if c = backslash then [backslash, backslash] else if c = squote then [backslash, squote]
     else if c = line_feed then [backslash, CHR ''n''] else if c = carriage_return then [backslash, CHR ''r''] else [c]) @ js_quote s"
  by (simp add: js_quote_def replace_char_def)

lemma js_literal_quote: "js_literal (js_quote v @ squote # rest) = Some (v, rest)"
proof (induction v)
  case Nil
  then show ?case by (simp add: js_quote_def replace_char_def)
next
  case (Cons c v)
  then show ?case by (auto simp: js_quote_Cons js_escape_def)
qed

lemma escape_js_string_quote: "escape_js_string v = escape (js_quote v)"
  by (simp add: escape_js_string_def js_quote_def)

section \<open>URLs\<close>

lemma hex_value_upper: "hex_value (upper_hex_digit n) = Some (n mod 16)"
proof -
  have "n mod 16 \<in> set [0..<16]" by simp
  moreover have "\<forall>i \<in> set [0..<16]. hex_value (''0123456789ABCDEF'' ! i) = Some i" by code_simp
  ultimately show ?thesis unfolding upper_hex_digit_def by blast
qed

lemma percent_text_byte: "percent_text form (percent_byte c @ s) = map_option (Cons c) (percent_text form s)"
proof -
  let ?n = "of_char c :: nat"
  have "?n < 256" by simp
  then have "16 * (?n div 16 mod 16) + ?n mod 16 = ?n" by (simp add: less_mult_imp_div_less)
  then show ?thesis by (simp add: percent_byte_def hex_value_upper Let_def)
qed

lemma url_plain_char: "url_plain c \<Longrightarrow> c \<noteq> CHR ''%'' \<and> c \<noteq> CHR ''+'' \<and> c \<noteq> CHR ''&'' \<and> c \<noteq> CHR ''='' \<and> c \<noteq> CHR ''#''"
  by (auto simp: url_plain_def is_digit_def less_eq_char_def)

lemma percent_text_escape: "percent_text form (url_query_escape v @ s) = map_option (append v) (percent_text form s)"
proof (induction v)
  case Nil
  then show ?case by (simp add: url_query_escape_def option.map_ident)
next
  case (Cons c v)
  have "url_query_escape (c # v) = (if url_plain c then [c] else percent_byte c) @ url_query_escape v"
    by (simp add: url_query_escape_def)
  then show ?case using Cons url_plain_char [of c] by (auto simp: percent_text_byte option.map_comp comp_def)
qed

lemma percent_text_encode: "percent_text True (url_query_encode v @ s) = map_option (append v) (percent_text True s)"
proof (induction v)
  case Nil
  then show ?case by (simp add: url_query_encode_def option.map_ident)
next
  case (Cons c v)
  have "url_query_encode (c # v) =
      (if url_plain c then [c] else if c = CHR '' '' then ''+'' else percent_byte c) @ url_query_encode v"
    by (simp add: url_query_encode_def)
  then show ?case using Cons url_plain_char [of c] by (auto simp: percent_text_byte option.map_comp comp_def)
qed

text \<open>Whatever a value contains, escaped it is data where the pages put it. In HTML it has no character that
  opens a tag or closes an attribute, and the browser reads back the value; within a quoted literal of a script in
  an attribute, the literal ends exactly where the page closes it and has the value; in a query it is decoded to
  the value.\<close>

theorem escaped_texts_are_data:
  "plain_html (escape v) \<and> html_text (escape v @ rest) = v @ html_text rest \<and>
   plain_html (escape_js_string v) \<and> js_literal (html_text (escape_js_string v @ squote # rest)) = Some (v, html_text rest) \<and>
   percent_text form (url_query_escape v) = Some v \<and> percent_text True (url_query_encode v) = Some v"
proof -
  have "html_text (squote # rest) = squote # html_text rest" by simp
  then have "js_literal (html_text (escape_js_string v @ squote # rest)) = Some (v, html_text rest)"
    by (simp add: escape_js_string_quote js_literal_quote)
  moreover have "percent_text form (url_query_escape v) = Some v" "percent_text True (url_query_encode v) = Some v"
    using percent_text_escape [of form v "[]"] percent_text_encode [of v "[]"] by simp_all
  ultimately show ?thesis by (simp add: escape_js_string_quote)
qed

end
