(* ===== verification/Web_Amounts.thy ===== *)
theory Web_Amounts
  imports Web_Text
begin

text \<open>
  Amounts from the administration forms to the search: what an operator types is normalized, stored as text
  and read by the search service.
\<close>

section \<open>Reading a decimal\<close>

text \<open>What the search relies on of \<open>U256::from_str_radix\<close> with radix 10.\<close>

definition reads_decimal :: "libs \<Rightarrow> bool" where
  "reads_decimal lib \<longleftrightarrow>
     (\<forall>s. s \<noteq> [] \<and> list_all is_digit s \<longrightarrow>
        (if digits_value s < 2 ^ 256 then lib_from_str_radix lib s 10 = Inr (word_of_nat (digits_value s))
         else \<exists>e. lib_from_str_radix lib s 10 = Inl e))"

lemma digits_value_zeros: "digits_value (dropWhile (\<lambda>c. c = CHR ''0'') s) = digits_value s"
  by (induction s) (auto simp: digits_value_def digit_value_def)

lemma digits_fold: "fold (\<lambda>c n. 10 * n + digit_value c) s n = n * 10 ^ length s + digits_value s"
proof (induction s arbitrary: n)
  case (Cons c s)
  show ?case using Cons [of "10 * n + digit_value c"] Cons [of "digit_value c"]
    by (simp add: digits_value_def algebra_simps)
qed (simp add: digits_value_def)

lemma digits_value_pos:
  assumes "s \<noteq> []" "list_all is_digit s" "hd s \<noteq> CHR ''0''"
  shows "0 < digits_value s"
proof -
  obtain c t where s: "s = c # t" using assms(1) by (cases s) auto
  have "digit_value c \<noteq> 0"
  proof
    assume "digit_value c = 0"
    then have "of_char c \<le> (48 :: nat)" by (simp add: digit_value_def)
    moreover have "(48 :: nat) \<le> of_char c" using assms(2) s by (auto simp: is_digit_def less_eq_char_def)
    ultimately have "of_char c = (of_char (CHR ''0'') :: nat)" by simp
    then have "c = CHR ''0''" by (rule injD [OF inj_of_char])
    then show False using assms(3) s by simp
  qed
  moreover have "digits_value s = digit_value c * 10 ^ length t + digits_value t"
    using digits_fold [of t "digit_value c"] by (simp add: s digits_value_def)
  ultimately show ?thesis by simp
qed

section \<open>Texts without separators\<close>

lemma split_on_plain: "sep \<notin> set p \<Longrightarrow> split_on sep p = [p]"
  by (induction p) auto

lemma split_on_first: "sep \<notin> set p \<Longrightarrow> split_on sep (p @ sep # s) = p # split_on sep s"
  by (induction p) auto

lemma split_on_join:
  "parts \<noteq> [] \<Longrightarrow> (\<And>p. p \<in> set parts \<Longrightarrow> sep \<notin> set p) \<Longrightarrow> split_on sep (join_with [sep] parts) = parts"
  by (induction "[sep]" parts rule: join_with.induct) (auto simp: split_on_plain split_on_first)

lemma trim_plain: "list_all (\<lambda>c. \<not> is_ascii_space c) s \<Longrightarrow> trim s = s"
proof -
  assume "list_all (\<lambda>c. \<not> is_ascii_space c) s"
  then have "dropWhile is_ascii_space s = s" "dropWhile is_ascii_space (rev s) = rev s"
    by (auto simp: dropWhile_eq_self_iff list_all_iff) (metis hd_in_set rev_is_Nil_conv set_rev)
  then show ?thesis by (simp add: trim_def)
qed

lemma trim_trim [simp]: "trim (trim s) = trim s"
proof -
  let ?t = "dropWhile is_ascii_space (rev (dropWhile is_ascii_space s))"
  have "dropWhile is_ascii_space ?t = ?t" by simp
  moreover have "dropWhile is_ascii_space (rev ?t) = rev ?t"
  proof (cases "?t = []")
    case False
    let ?d = "dropWhile is_ascii_space s"
    obtain pre where "rev ?d = pre @ ?t" by (metis takeWhile_dropWhile_id)
    then have d: "?d = rev ?t @ rev pre" by (metis rev_append rev_rev_ident)
    then have ne: "?d \<noteq> []" using False by (metis append_is_Nil_conv rev_is_Nil_conv)
    have "hd ?d = hd (rev ?t)" by (subst d) (use False in simp)
    then have "\<not> is_ascii_space (hd (rev ?t))" using hd_dropWhile [OF ne] by simp
    then show ?thesis by (simp add: dropWhile_eq_self_iff)
  next
    case True
    then show ?thesis by (simp only: rev.simps dropWhile.simps)
  qed
  ultimately show ?thesis by (simp add: trim_def)
qed

lemma digit_text: "is_digit c \<Longrightarrow> \<not> is_ascii_space c \<and> c \<noteq> CHR '','' \<and> c \<noteq> CHR '' ''"
  by (auto simp: is_digit_def is_ascii_space_def less_eq_char_def)

section \<open>Normalized amounts\<close>

definition amount_text :: "string \<Rightarrow> bool" where
  "amount_text s \<longleftrightarrow> s \<noteq> [] \<and> list_all is_digit s \<and> hd s \<noteq> CHR ''0''"

text \<open>The amounts an operator typed.\<close>

definition typed_parts :: "string \<Rightarrow> string list" where
  "typed_parts raw = filter (\<lambda>part. part \<noteq> []) (map trim (split_on CHR '','' raw))"

definition typed_amounts :: "string \<Rightarrow> nat list" where
  "typed_amounts raw = map digits_value (typed_parts raw)"

lemma normalize_amount_text:
  assumes "normalize_raw_amount raw = Inr (Some s)"
  shows "amount_text s \<and> digits_value s = digits_value (trim raw)"
proof -
  have s: "s = dropWhile (\<lambda>c. c = CHR ''0'') (trim raw)" "s \<noteq> []" "list_all is_digit (trim raw)"
    using assms by (auto simp: normalize_raw_amount_def Let_def split: if_splits)
  have "set s \<subseteq> set (trim raw)" unfolding s(1) by (auto dest: set_dropWhileD)
  then have "list_all is_digit s" using s(3) by (auto simp: list_all_iff)
  moreover have "hd s \<noteq> CHR ''0''" using hd_dropWhile [of "\<lambda>c. c = CHR ''0''" "trim raw"] s(1,2) by simp
  ultimately show ?thesis using s(1,2) digits_value_zeros [of "trim raw"] by (simp add: amount_text_def)
qed

lemma parse_amount_text:
  assumes "reads_decimal lib" "amount_text s"
  shows "if digits_value s < 2 ^ 256 then parse_raw_amount lib (Some s) = Inr (Some (word_of_nat (digits_value s)))
    else \<exists>e. parse_raw_amount lib (Some s) = Inl e"
proof -
  have "trim s = s" using assms(2) digit_text by (intro trim_plain) (auto simp: amount_text_def list_all_iff)
  then show ?thesis using assms
    by (cases "digits_value s < 2 ^ 256") (fastforce simp: parse_raw_amount_def reads_decimal_def amount_text_def)+
qed

lemma has_amount_text: "amount_text s \<Longrightarrow> has_text (Some s)"
  using digit_text by (cases s) (auto simp: amount_text_def has_text_def)

lemma normalize_list_texts:
  assumes "normalize_raw_amount_list raw = Inr v"
  obtains texts where "map digits_value texts = typed_amounts raw" "list_all amount_text texts"
    "v = (if texts = [] then None else Some (join_with '','' texts))"
proof -
  obtain texts where texts: "collect_results (\<lambda>part. rbind (normalize_raw_amount part) (\<lambda>v. ok_or v ())) (typed_parts raw) = Inr texts"
    and v: "v = (if texts = [] then None else Some (join_with '','' texts))"
    using assms by (auto simp: normalize_raw_amount_list_def typed_parts_def)
  have "map digits_value texts = map digits_value parts \<and> list_all amount_text texts"
    if "collect_results (\<lambda>part. rbind (normalize_raw_amount part) (\<lambda>v. ok_or v ())) parts = Inr texts"
      "\<forall>p \<in> set parts. trim p = p" for parts
    using that
  proof (induction parts arbitrary: texts)
    case (Cons p parts)
    then show ?case using normalize_amount_text [of p] by auto
  qed simp
  moreover have "\<forall>p \<in> set (typed_parts raw). trim p = p" by (auto simp: typed_parts_def)
  ultimately have "map digits_value texts = typed_amounts raw \<and> list_all amount_text texts"
    using texts by (simp add: typed_amounts_def)
  then show ?thesis using that v by blast
qed

lemma parse_amount_texts:
  assumes "reads_decimal lib" "list_all amount_text texts"
  shows "if list_all (\<lambda>n. n < 2 ^ 256) (map digits_value texts)
    then collect_results (\<lambda>part. rbind (parse_raw_amount lib (Some part)) (\<lambda>v. ok_or_message v m)) texts =
      Inr (map (\<lambda>t. word_of_nat (digits_value t)) texts)
    else \<exists>e. collect_results (\<lambda>part. rbind (parse_raw_amount lib (Some part)) (\<lambda>v. ok_or_message v m)) texts = Inl e"
  using assms(2)
proof (induction texts)
  case (Cons t texts)
  have t: "if digits_value t < 2 ^ 256 then parse_raw_amount lib (Some t) = Inr (Some (word_of_nat (digits_value t)))
    else \<exists>e. parse_raw_amount lib (Some t) = Inl e"
    by (rule parse_amount_text [OF assms(1)]) (use Cons.prems in simp)
  show ?case
  proof (cases "digits_value t < 2 ^ 256")
    case True
    then show ?thesis using t Cons by (auto split: if_splits)
  next
    case False
    then obtain e where "parse_raw_amount lib (Some t) = Inl e" using t by auto
    then show ?thesis using False by simp
  qed
qed simp

lemma join_amount_texts:
  assumes "list_all amount_text texts" "texts \<noteq> []"
  shows "filter (\<lambda>part. part \<noteq> []) (map trim (split_on CHR '','' (join_with '','' texts))) = texts"
    and "has_text (Some (join_with '','' texts))"
proof -
  have plain: "CHR '','' \<notin> set t \<and> trim t = t \<and> t \<noteq> []" if "t \<in> set texts" for t
  proof -
    have "amount_text t" using that assms(1) by (simp add: list_all_iff)
    moreover from this have "trim t = t" using digit_text by (intro trim_plain) (auto simp: amount_text_def list_all_iff)
    ultimately show ?thesis using digit_text [of "CHR '',''"] by (auto simp: amount_text_def list_all_iff)
  qed
  then have "split_on CHR '','' (join_with '','' texts) = texts" by (intro split_on_join assms(2)) blast
  moreover have "map trim texts = texts" "filter (\<lambda>part. part \<noteq> []) texts = texts"
    using plain by (simp_all add: map_idI)
  ultimately show "filter (\<lambda>part. part \<noteq> []) (map trim (split_on CHR '','' (join_with '','' texts))) = texts" by simp
  obtain t rest where t: "texts = t # rest" using assms(2) by (cases texts) auto
  have "\<exists>more'. join_with '','' texts = t @ more'" by (cases rest) (simp_all add: t)
  moreover have "has_text (Some t)" by (rule has_amount_text) (use assms(1) t in simp)
  ultimately show "has_text (Some (join_with '','' texts))" by (auto simp: has_text_def)
qed

text \<open>What a list of amounts is read as once it was normalized and stored.\<close>

lemma normalized_list_reads:
  assumes "reads_decimal lib" "normalize_raw_amount_list raw = Inr v"
  shows "v = None \<longleftrightarrow> typed_amounts raw = []" "has_text v \<longleftrightarrow> typed_amounts raw \<noteq> []"
    and "list_all (\<lambda>n. 0 < n) (typed_amounts raw)"
    and "list_all (\<lambda>n. n < 2 ^ 256) (typed_amounts raw) \<Longrightarrow> parse_raw_amount_list lib v = Inr (map word_of_nat (typed_amounts raw))"
    and "\<not> list_all (\<lambda>n. n < 2 ^ 256) (typed_amounts raw) \<Longrightarrow> \<exists>e. parse_raw_amount_list lib v = Inl e"
proof -
  obtain texts where texts: "map digits_value texts = typed_amounts raw" "list_all amount_text texts"
    and v: "v = (if texts = [] then None else Some (join_with '','' texts))"
    using assms(2) by (rule normalize_list_texts)
  have empty: "texts = [] \<longleftrightarrow> typed_amounts raw = []" using texts(1) by (metis map_is_Nil_conv)
  show "v = None \<longleftrightarrow> typed_amounts raw = []" using v empty by simp
  show "has_text v \<longleftrightarrow> typed_amounts raw \<noteq> []"
    using v empty join_amount_texts(2) [OF texts(2)] by (auto simp: has_text_def split: option.splits)
  show "list_all (\<lambda>n. 0 < n) (typed_amounts raw)"
    unfolding texts(1) [symmetric] using texts(2) digits_value_pos by (auto simp: list_all_iff amount_text_def)
  have parse: "parse_raw_amount_list lib v =
      collect_results (\<lambda>part. rbind (parse_raw_amount lib (Some part)) (\<lambda>v. ok_or_message v ''empty raw amount in list'')) texts"
    using v join_amount_texts(1) [OF texts(2)] by (simp add: parse_raw_amount_list_def)
  note all = parse_amount_texts [OF assms(1) texts(2), of "''empty raw amount in list''", folded parse, unfolded texts(1)]
  have values': "map (\<lambda>t. word_of_nat (digits_value t)) texts = map word_of_nat (typed_amounts raw)"
    by (simp add: texts(1) [symmetric] comp_def)
  show "list_all (\<lambda>n. n < 2 ^ 256) (typed_amounts raw) \<Longrightarrow> parse_raw_amount_list lib v = Inr (map word_of_nat (typed_amounts raw))"
    using all values' by simp
  show "\<not> list_all (\<lambda>n. n < 2 ^ 256) (typed_amounts raw) \<Longrightarrow> \<exists>e. parse_raw_amount_list lib v = Inl e"
    using all by (simp only: if_False)
qed

end
