(* ===== verification/Spec2Isabelle.thy ===== *)
theory Spec2Isabelle
  imports Aerodrome Uniswap_V3_Walk Lane_World Search_Dynamic Market_World Chain_Ticks Chain_Discovery
    Monitor_World Queue_World Searcher_Redis Executor_Sent Web_Escape Web_Amounts
begin

text \<open>
  Verification of dexmoney, an arbitrage bot for the Base chain (the Rust workspace under
  \<open>crates/\<close>). Four services share their stores: market data follows pools on the chain and publishes
  their states (\<open>market-data\<close>), the searcher looks for profitable cycles among the active pools and
  queues candidates (\<open>searcher\<close>), the execution manager simulates the queued candidates and submits
  transactions from its worker accounts (\<open>execution-manager\<close>), and the stores themselves (\<open>storage\<close>)
  carry states, ticks, change marks, candidates and lanes between them. Pool mathematics is in \<open>dex\<close>.

  How the source is modelled. A struct is a record and an enum a datatype with the source's
  constructors (\<open>Types\<close>, \<open>Settings\<close>); field names carry a prefix per record. A machine integer is a word
  of its width, and the checked, saturating and wrapping operations are those of \<open>Prelude\<close>, each with
  one characterisation over the natural numbers (\<open>arith_iff\<close>); \<open>f64\<close> is a rational, an infinity or not
  a number, rounded after each operation (\<open>Floats\<close>). \<open>Result\<close> is a sum whose left value is the error,
  \<open>anyhow::Result\<close> one with the error's context chain, and an async method a function from a state to a
  result and a state, \<open>('s, 'a) act\<close> of \<open>Effects\<close>, so that what a call changed before it failed stays
  visible. The node, the clock, identifiers, signing, keccak, hexadecimal decoding, address parsing,
  \<open>powf\<close>, the databases and hash iteration orders are parameters: fields of records (\<open>libs\<close>, \<open>chain_provider\<close>,
  \<open>execution_stores\<close>, \<open>ambient\<close>, \<open>search_env\<close>, \<open>market_env\<close>) or arguments. Hash maps are association lists,
  hash sets are sets with an order given where the code iterates. Loops over collections are recursive
  functions on lists; a loop with a bound in the source (255 Newton steps, 32 multihop edges, 256 paths
  per segment) is recursion on that bound, so every definition is total and returns as the code does.

  The theories, in the order of the code:
  \<^item> \<open>Prelude\<close>, \<open>Types\<close>, \<open>Settings\<close>, \<open>Effects\<close>, \<open>Act_Triples\<close>: the shared vocabulary, and triples with one
    postcondition for success and one for failure.
  \<^item> \<open>Dex_Quoter\<close> (the quoter trait as an interface), \<open>Aerodrome\<close>, \<open>Uniswap_V3\<close>, \<open>Uniswap_V3_Walk\<close>, \<open>Floats\<close>,
    \<open>Balancer\<close>: the quoters of \<open>crates/dex/src\<close>. The volatile quote is the rounded constant-product formula
    and never lowers the product; the stable quote leaves the smallest reserve its curve allows for the scaled
    input; a swap step stays within its budget and prices, and the tick walk crosses exactly the ticks it counts,
    takes up their liquidity, and agrees with the current-range quote while no tick is crossed.
  \<^item> \<open>Search_Stats\<close>, \<open>Search_Paths\<close>, \<open>Search_Graph\<close>, \<open>Search_Dynamic\<close>, \<open>Search_Quote\<close>: \<open>strategy.rs\<close>, with
    \<open>opportunity.rs\<close> and \<open>risk.rs\<close>. The path index finds exactly the paths through changed pools; the
    memoised enumeration with its reachability cache equals plain depth-first search; dynamic paths are
    cycles through a changed pool, with distinct fingerprints; every emitted candidate carries an unbroken
    chain of quotes and passes the gates.
  \<^item> \<open>Searcher_State\<close>, \<open>Searcher\<close>, \<open>Searcher_Runtime\<close>, \<open>Searcher_World\<close>: the cycle of the searcher's
    \<open>main.rs\<close>, the invariant of its caches, and, over the interface \<open>search_world\<close> interpreted on the
    in-memory stores, what every queued candidate satisfies in every run beside the other services: each step was
    quoted on a state that had been published and was ready under factories the settings and the registry trust.
    The invariant covers states, topology and active pools, not the path index, the graph and the ticks.
  \<^item> \<open>Executor_Abi\<close>, \<open>Simulator\<close>, \<open>Tx_Manager\<close>, \<open>Eoa_Lane\<close>, \<open>Coalesce\<close>, \<open>Execution\<close>, \<open>Execution_Cycle\<close>: the
    execution manager. Calldata decodes to what was encoded, every encoded step names a factory trusted for
    its variant (\<open>trusted_factory\<close> says which those are), approvals are the required ones, allowances are read
    exactly, a replacement is signed with fees that outbid, expired candidates are not sent, the realized profit is read as the scan does, candidates are coalesced to the best of their key, and the
    circuit breaker halts exactly on a low success rate.
  \<^item> \<open>Lane_Protocol\<close>, \<open>Act_Logic\<close>, \<open>Lane_World\<close>: the life of a worker's lane as a step relation; a whole
    execution cycle moves every stored lane only along its steps, whatever the node answers and wherever
    the cycle fails, so that every reachable lane is good, and a receipt settles its lane and reaches the breaker.
  \<^item> \<open>Stores\<close>, \<open>In_Memory\<close>, \<open>Queue_World\<close>: the in-memory stores of \<open>storage/src/lib.rs\<close> and the services'
    environments on them; replacing ticks and publishing states in any order have their exact effect, and the
    execution manager's reading of the queue ends with exactly the fresh candidates of what it took.
  \<^item> \<open>Redis_Store\<close>, \<open>Redis_Queue\<close>, \<open>Redis_World\<close>, \<open>Redis_Reads\<close>, \<open>Redis_Refine\<close>: \<open>storage/src/redis.rs\<close>, each operation as the
    commands it sends and its reading of the answers, over connections that may break after any command. The queue
    pops the newest and best candidates and prunes exactly the old ones, a submission lock is granted again only after
    its time, readers see only values that were written, and unbroken the stores read as the in-memory ones do.
  \<^item> \<open>Lane_Redis\<close>, \<open>Searcher_Redis\<close>: the execution manager and the searcher on these stores with breaking connections. The
    interfaces \<open>lane_world\<close> and \<open>search_world\<close> hold for them, so the lane protocol and the soundness of the queue carry over.
  \<^item> \<open>Hex_Text\<close>, \<open>Chain_Codec\<close>, \<open>Chain_Provider\<close>, \<open>Chain_Pools\<close>, \<open>Chain_Ticks\<close>, \<open>Chain_Discovery\<close>: the provider of
    \<open>crates/chain/src/provider.rs\<close> over its transport: hexadecimal texts and ABI words, calls at blocks, pool
    states, initialized ticks, probing the factories and decoding logs. Words and symbols round-trip; the ticks
    read are exactly those of the window; whatever the node answers, discovered pools are of trusted factories.
  \<^item> \<open>State_Updater\<close>, \<open>Market_Events\<close>, \<open>Market_Data\<close>, \<open>Market_World\<close>: \<open>state_updater.rs\<close> and the event path of
    \<open>listener.rs\<close>. Every outcome of applying an event, minting and burning as inverse tick updates (the tick
    list implements a map from indices to liquidity), the bounded cache of seen logs with its eviction, and, together
    with the searcher, that a pool whose published change is not marked quotes as before, Balancer pools with
    changed Balancer parameters excepted.
  \<^item> \<open>Market_Logs\<close>, \<open>Market_Discovery\<close>, \<open>Market_Monitor\<close>, \<open>Discovery_Loops\<close>: the rest of \<open>listener.rs\<close>: reading raw logs,
    discovering, importing and promoting pools, following the registry, the session of pending logs and the three
    loops over the chain's blocks, each turn a function on the loop's state and a run a number of turns.
  \<^item> \<open>Registry_Tables\<close>, \<open>Registry_Pairs\<close>: the registry tables of \<open>storage/src/postgres.rs\<close> as lists of rows, each SQL
    statement a function on them; a statement of the service may fail, takes its time from the clock and is one step.
  \<^item> \<open>Registry_World\<close>, \<open>Monitor_World\<close>: the discovery and the monitor on these tables. The registry reads back what was
    recorded, the last report decides the trust of a factory, an import leaves its records whatever the node
    answers, a reload follows the registry, and the block loop catches up with the chain.
  \<^item> \<open>Web_Text\<close>, \<open>Web_Escape\<close>, \<open>Web_Amounts\<close>: the texts of the administration pages, \<open>monitor-web/src/main.rs\<close>. Values
    are data wherever the pages put them, and typed amounts are read by the search as typed.
  \<^item> \<open>Executor_Admin\<close>, \<open>Executor_Sent\<close>: \<open>monitor-web/src/executor_admin.rs\<close>, and which transactions it sends: those of the
    missing settings, with consecutive nonces.

  The interfaces are locales interpreted on the model's own definitions: \<open>dex_quoter\<close> and \<open>reserve_quoter\<close> on the
  quoters, \<open>best_by_rank\<close> on both coalescers, \<open>keyed_store\<close> on the pool, lane and tick stores, \<open>rpc_frame\<close> and
  \<open>lane_world\<close> on the execution manager's stores, \<open>search_world\<close> on the searcher's, and \<open>block_loop\<close> on the turns of the
  market data and of both discovery loops.

  Not modelled: the Redis server beyond the commands the code sends, the recording tables of Postgres (states, ticks, events, opportunities, simulations and
  transactions, which the services only write), HTTP, RPC and websocket transport, background tasks that only
  write records, the timers of the services' \<open>main\<close>, logging, the health monitor, the handlers and the tables of the web monitor, the recorder's report tools, the
  Solidity executors and the operations scripts. They are
  input and output around the modelled code, or other programs; where the modelled code calls them they are
  parameters. Strings are byte lists, so slicing assumes ASCII data, as hexadecimal log data is. Arithmetic that
  panics only in debug builds (a block number within two of the top) is left as the release build computes it.
\<close>

end
